(* ===== verification/Prelude.thy ===== *)
theory Prelude
  imports Main "HOL-Library.Word"
begin

text \<open>
  What every component of the library shares: the integer types of
  \<^verbatim>\<open>f1g_basic_types.h\<close>, a fault monad for the undefined behaviour of C, and the
  primitive accesses to a block of memory.

  A block of memory is the list of its cells; a pointer into a block is an offset, and a read
  pointer handed to a function is the list of the cells from the pointer to the end of its block.
  An access outside the block is the value \<open>Inl OutOfBounds\<close>, never an unspecified element.
  A C string argument is the list of its bytes before the terminating NUL.
\<close>

section \<open>Integer types and return codes\<close>

type_synonym u8 = "8 word"
type_synonym u16 = "16 word"
type_synonym u32 = "32 word"
type_synonym u64 = "64 word"
type_synonym bytes = "u8 list"

definition F1G_OK :: int where
  "F1G_OK = 0"

definition F1G_ERR :: int where
  "F1G_ERR = 1"

definition chr8 :: "char \<Rightarrow> u8" where
  "chr8 c = of_char c"

text \<open>The bytes of a string literal, without its terminator.\<close>

definition lit :: "string \<Rightarrow> bytes" where
  "lit s = map chr8 s"

lemma F1G_codes [simp]: "F1G_OK \<noteq> F1G_ERR" "F1G_ERR \<noteq> F1G_OK"
  by (simp_all add: F1G_OK_def F1G_ERR_def)

section \<open>The fault monad\<close>

text \<open>
  The kinds of undefined behaviour the modelled code can run into. A run of a C function is
  \<open>Inl f\<close> where its behaviour is undefined and \<open>Inr v\<close> where it returns the value \<open>v\<close>.
  \<open>Overflow\<close> is a signed operation whose result is no \<^verbatim>\<open>i32_t\<close>; \<open>BadCall\<close> is a call whose
  arguments do not match the definition of the function called.
\<close>

datatype fault =
    NullDeref | OutOfBounds | UseAfterFree | BadFree | DivByZero | Overlap | Uninit | Overflow | BadCall

type_synonym 'a run = "fault + 'a"

definition bindR :: "'a run \<Rightarrow> ('a \<Rightarrow> 'b run) \<Rightarrow> 'b run" where
  "bindR m f = (case m of Inl e \<Rightarrow> Inl e | Inr x \<Rightarrow> f x)"

definition assertR :: "bool \<Rightarrow> fault \<Rightarrow> 'a run \<Rightarrow> 'a run" where
  "assertR b f m = (if b then m else Inl f)"

lemma bindR_simps [simp]:
  "bindR (Inl e) f = Inl e"
  "bindR (Inr x) f = f x"
  by (simp_all add: bindR_def)

lemma bindR_cong [fundef_cong]:
  assumes "m1 = m2" and "\<And>x. m2 = Inr x \<Longrightarrow> f1 x = f2 x"
  shows "bindR m1 f1 = bindR m2 f2"
  using assms by (cases m2) simp_all

lemma bindR_Inr_conv: "bindR m f = Inr y \<longleftrightarrow> (\<exists>x. m = Inr x \<and> f x = Inr y)"
  by (cases m) simp_all

lemma bindR_assoc: "bindR (bindR m f) g = bindR m (\<lambda>x. bindR (f x) g)"
  by (cases m) simp_all

lemma bindR_return: "bindR m Inr = m"
  by (cases m) simp_all

lemma assertR_simps [simp]:
  "assertR True f m = m"
  "assertR False f m = Inl f"
  by (simp_all add: assertR_def)

lemma assertR_Inr_conv: "assertR b f m = Inr y \<longleftrightarrow> b \<and> m = Inr y"
  by (simp add: assertR_def)

text \<open>
  The result of a signed operation on \<^verbatim>\<open>i32_t\<close> operands, and the value a wider number has after
  its conversion to \<^verbatim>\<open>i32_t\<close>.
\<close>

definition i32R :: "int \<Rightarrow> int run" where
  "i32R x = (if - (2 ^ 31) \<le> x \<and> x < 2 ^ 31 then Inr x else Inl Overflow)"

definition to_i32 :: "int \<Rightarrow> int" where
  "to_i32 x = (x + 2 ^ 31) mod 2 ^ 32 - 2 ^ 31"

lemma i32R_in [simp]: "- (2 ^ 31) \<le> x \<Longrightarrow> x < 2 ^ 31 \<Longrightarrow> i32R x = Inr x"
  by (simp add: i32R_def)

lemma i32R_Inr_conv: "i32R x = Inr y \<longleftrightarrow> - (2 ^ 31) \<le> x \<and> x < 2 ^ 31 \<and> y = x"
  by (auto simp: i32R_def)

lemma to_i32_in [simp]: "- (2 ^ 31) \<le> x \<Longrightarrow> x < 2 ^ 31 \<Longrightarrow> to_i32 x = x"
  by (simp add: to_i32_def)

section \<open>Memory blocks\<close>

definition rd :: "'a list \<Rightarrow> nat \<Rightarrow> 'a run" where
  "rd m i = (if i < length m then Inr (m ! i) else Inl OutOfBounds)"

definition wr :: "'a list \<Rightarrow> nat \<Rightarrow> 'a \<Rightarrow> 'a list run" where
  "wr m i x = (if i < length m then Inr (m[i := x]) else Inl OutOfBounds)"

text \<open>
  The source side of \<^verbatim>\<open>memcpy\<close>: \<open>n\<close> cells starting at offset \<open>i\<close>. The length is the
  \<^verbatim>\<open>size_t\<close> the call converts its argument to, so a negative length is out of every block.
\<close>

definition slice :: "'a list \<Rightarrow> nat \<Rightarrow> int \<Rightarrow> 'a list run" where
  "slice m i n = (if 0 \<le> n \<and> i + nat n \<le> length m then Inr (take (nat n) (drop i m))
                  else Inl OutOfBounds)"

text \<open>The destination side: the cells \<open>xs\<close> stored from offset \<open>i\<close> on.\<close>

definition put :: "'a list \<Rightarrow> nat \<Rightarrow> 'a list \<Rightarrow> 'a list run" where
  "put m i xs = (if i + length xs \<le> length m
                 then Inr (take i m @ xs @ drop (i + length xs) m) else Inl OutOfBounds)"

text \<open>
  A pointer that owns a block: \<^verbatim>\<open>NULL\<close>, a live block, or a pointer whose block has been
  freed.
\<close>

datatype 'a ptr = Null | Live 'a | Dangling

fun deref :: "'a ptr \<Rightarrow> 'a run" where
  "deref Null = Inl NullDeref"
| "deref (Live x) = Inr x"
| "deref Dangling = Inl UseAfterFree"

text \<open>\<^verbatim>\<open>free(p)\<close>, and the value \<open>m\<close> of what follows it.\<close>

fun freeR :: "'a ptr \<Rightarrow> 'b run \<Rightarrow> 'b run" where
  "freeR Null m = m"
| "freeR (Live x) m = m"
| "freeR Dangling m = Inl BadFree"

text \<open>The pointer as it is left by \<^verbatim>\<open>free(p)\<close>.\<close>

fun freed :: "'a ptr \<Rightarrow> 'a ptr" where
  "freed Null = Null"
| "freed _ = Dangling"

text \<open>
  \<^verbatim>\<open>malloc\<close>: its outcome is chosen by the environment. \<open>None\<close> is a failed call, \<open>Some g\<close> a
  successful one whose cells hold the indeterminate values \<open>g\<close>. A negative size is converted to a
  \<^verbatim>\<open>size_t\<close> no allocator can serve.
\<close>

type_synonym 'a alloc = "(nat \<Rightarrow> 'a) option"

definition malloc :: "'a alloc \<Rightarrow> int \<Rightarrow> 'a list ptr" where
  "malloc a n =
     (case a of None \<Rightarrow> Null | Some g \<Rightarrow> if n < 0 then Null else Live (map g [0..<nat n]))"

text \<open>\<^verbatim>\<open>malloc\<close> of \<open>n\<close> cells of a struct type followed by a \<^verbatim>\<open>memset\<close> to zero, where
  \<open>z\<close> is the all-zero struct.\<close>

definition zalloc :: "bool \<Rightarrow> int \<Rightarrow> 'a \<Rightarrow> 'a list ptr" where
  "zalloc ok n z = (if ok \<and> 0 \<le> n then Live (replicate (nat n) z) else Null)"

lemma rd_in [simp]: "i < length m \<Longrightarrow> rd m i = Inr (m ! i)"
  by (simp add: rd_def)

lemma rd_out [simp]: "length m \<le> i \<Longrightarrow> rd m i = Inl OutOfBounds"
  by (simp add: rd_def)

lemma wr_in [simp]: "i < length m \<Longrightarrow> wr m i x = Inr (m[i := x])"
  by (simp add: wr_def)

lemma wr_out [simp]: "length m \<le> i \<Longrightarrow> wr m i x = Inl OutOfBounds"
  by (simp add: wr_def)

lemma slice_in [simp]:
  "0 \<le> n \<Longrightarrow> i + nat n \<le> length m \<Longrightarrow> slice m i n = Inr (take (nat n) (drop i m))"
  by (simp add: slice_def)

lemma slice_neg [simp]: "n < 0 \<Longrightarrow> slice m i n = Inl OutOfBounds"
  by (simp add: slice_def)

lemma put_in [simp]:
  "i + length xs \<le> length m \<Longrightarrow> put m i xs = Inr (take i m @ xs @ drop (i + length xs) m)"
  by (simp add: put_def)

lemma put_out [simp]: "length m < i + length xs \<Longrightarrow> put m i xs = Inl OutOfBounds"
  by (simp add: put_def)

lemma length_malloc: "malloc a n = Live m \<Longrightarrow> length m = nat n \<and> 0 \<le> n"
  by (auto simp: malloc_def split: if_splits option.splits)

lemma malloc_Some [simp]: "0 \<le> n \<Longrightarrow> malloc (Some g) n = Live (map g [0..<nat n])"
  by (simp add: malloc_def)

lemma malloc_None [simp]: "malloc None n = Null"
  by (simp add: malloc_def)

lemma malloc_not_Dangling [simp]: "malloc a n \<noteq> Dangling"
  by (simp add: malloc_def split: option.splits)

lemma deref_Inr_conv [simp]: "deref p = Inr x \<longleftrightarrow> p = Live x"
  by (cases p) simp_all

lemma take_put:
  "put m i xs = Inr m' \<Longrightarrow> take (i + length xs) m' = take i m @ xs"
  by (auto simp: put_def min_absorb2 split: if_splits)

lemma length_put: "put m i xs = Inr m' \<Longrightarrow> length m' = length m"
  by (auto simp: put_def split: if_splits)

lemma length_wr: "wr m i x = Inr m' \<Longrightarrow> length m' = length m"
  by (auto simp: wr_def split: if_splits)

lemma wr_at: "xs \<noteq> [] \<Longrightarrow> wr (p @ xs) (length p) x = Inr (p @ x # tl xs)"
  by (cases xs) (simp_all add: list_update_append)

lemma update_at [simp]:
  "(p @ a # xs)[Suc (length p) := x] = p @ a # xs[0 := x]"
  "(p @ a # xs)[Suc (Suc (length p)) := x] = p @ a # xs[Suc 0 := x]"
  by (simp_all add: list_update_append)

end
