(* ===== verification/Search.thy ===== *)
theory Search
  imports Prelude
begin

text \<open>
  The contract of a substring search: what \<^verbatim>\<open>find_str\<close> promises to its callers
  (\<^verbatim>\<open>substr\<close>, \<^verbatim>\<open>data_field_read_buf\<close>, the HTTP request parser). \<open>first_occ\<close> is
  the reference: the least offset at which the needle occurs.
\<close>

fun first_occ :: "'a list \<Rightarrow> 'a list \<Rightarrow> nat option" where
  "first_occ sub s =
     (if length sub \<le> length s \<and> take (length sub) s = sub then Some 0
      else case s of [] \<Rightarrow> None | _ # s' \<Rightarrow> map_option Suc (first_occ sub s'))"

declare first_occ.simps [simp del]

lemma first_occ_hit: "first_occ sub (sub @ s) = Some 0"
  by (simp add: first_occ.simps)

lemma first_occ_Nil: "sub \<noteq> [] \<Longrightarrow> first_occ sub [] = None"
  by (simp add: first_occ.simps)

lemma first_occ_Cons:
  "\<not> (length sub \<le> length (x # s) \<and> take (length sub) (x # s) = sub) \<Longrightarrow>
   first_occ sub (x # s) = map_option Suc (first_occ sub s)"
  by (subst first_occ.simps) auto

lemma first_occ_SomeD:
  "first_occ sub s = Some i \<Longrightarrow>
   i + length sub \<le> length s \<and> take (length sub) (drop i s) = sub
   \<and> (\<forall>j < i. take (length sub) (drop j s) \<noteq> sub)"
proof (induction s arbitrary: i)
  case Nil
  then show ?case by (subst (asm) first_occ.simps) (auto split: if_splits)
next
  case (Cons x s)
  show ?case
  proof (cases "length sub \<le> length (x # s) \<and> take (length sub) (x # s) = sub")
    case True
    with Cons.prems show ?thesis by (subst (asm) first_occ.simps) auto
  next
    case False
    with Cons.prems obtain k where k: "first_occ sub s = Some k" and i: "i = Suc k"
      by (auto simp: first_occ_Cons)
    have no0: "take (length sub) (x # s) \<noteq> sub"
      using False by (metis linear take_all_iff)
    have "take (length sub) (drop j (x # s)) \<noteq> sub" if "j < i" for j
      using that Cons.IH [OF k] no0 i by (cases j) auto
    then show ?thesis using Cons.IH [OF k] i by simp
  qed
qed

lemma first_occ_NoneD:
  "first_occ sub s = None \<Longrightarrow> i + length sub \<le> length s \<Longrightarrow> take (length sub) (drop i s) \<noteq> sub"
proof (induction s arbitrary: i)
  case Nil
  then show ?case by (subst (asm) first_occ.simps) (auto split: if_splits)
next
  case (Cons x s)
  have no: "\<not> (length sub \<le> length (x # s) \<and> take (length sub) (x # s) = sub)"
    using Cons.prems(1) by (subst (asm) first_occ.simps) (auto split: if_splits)
  with Cons.prems(1) have none: "first_occ sub s = None"
    by (simp add: first_occ_Cons)
  show ?case
  proof (cases i)
    case 0
    then show ?thesis using no Cons.prems(2) by simp
  next
    case (Suc k)
    then show ?thesis using Cons.IH [OF none, of k] Cons.prems(2) by simp
  qed
qed

lemma first_occ_skip:
  "(\<And>j. j < length a \<Longrightarrow> take (length sub) (drop j (a @ s)) \<noteq> sub) \<Longrightarrow>
   first_occ sub (a @ s) = map_option ((+) (length a)) (first_occ sub s)"
proof (induction a)
  case Nil
  then show ?case by (cases "first_occ sub s") auto
next
  case (Cons x a)
  have "take (length sub) (drop j (a @ s)) \<noteq> sub" if "j < length a" for j
    using Cons.prems [of "Suc j"] that by simp
  then have IH: "first_occ sub (a @ s) = map_option ((+) (length a)) (first_occ sub s)"
    by (rule Cons.IH)
  have "take (length sub) (x # a @ s) \<noteq> sub"
    using Cons.prems [of 0] by simp
  then show ?case
    by (simp add: first_occ_Cons IH option.map_comp comp_def)
qed

text \<open>A one-element needle: the first position that holds it.\<close>

lemma first_occ_single:
  "first_occ [c] s = (if c \<in> set s then Some (length (takeWhile (\<lambda>x. x \<noteq> c) s)) else None)"
  by (induction s) (simp_all add: first_occ.simps [of "[c]"])

lemma first_occ_single_append:
  "c \<notin> set a \<Longrightarrow> first_occ [c] (a @ c # s) = Some (length a)"
  by (auto simp: first_occ_single takeWhile_append)

section \<open>Marks\<close>

text \<open>In \<open>a\<close>, which \<open>r\<close> follows, no occurrence of \<open>p\<close> begins.\<close>

definition no_mark :: "'a list \<Rightarrow> 'a list \<Rightarrow> 'a list \<Rightarrow> bool" where
  "no_mark p a r \<longleftrightarrow> (\<forall>j<length a. take (length p) (drop j (a @ r)) \<noteq> p)"

lemma no_mark_Nil [simp]: "no_mark p [] r"
  by (simp add: no_mark_def)

lemma no_mark_Cons: "no_mark p (x # a) r \<longleftrightarrow> take (length p) (x # a @ r) \<noteq> p \<and> no_mark p a r"
proof
  assume all: "no_mark p (x # a) r"
  then have "take (length p) (drop (Suc j) (x # a @ r)) \<noteq> p" if "j < length a" for j using that by (simp add: no_mark_def del: drop_Suc_Cons)
  then show "take (length p) (x # a @ r) \<noteq> p \<and> no_mark p a r" using all by (auto simp: no_mark_def)
next
  assume both: "take (length p) (x # a @ r) \<noteq> p \<and> no_mark p a r"
  show "no_mark p (x # a) r"
    unfolding no_mark_def
  proof (intro allI impI)
    fix j assume "j < length (x # a)"
    then show "take (length p) (drop j ((x # a) @ r)) \<noteq> p" using both by (cases j) (auto simp: no_mark_def)
  qed
qed

lemma no_mark_append: "no_mark p (a @ b) r \<longleftrightarrow> no_mark p a (b @ r) \<and> no_mark p b r"
  by (induction a) (auto simp: no_mark_Cons)

lemma no_mark_first: "c \<notin> set a \<Longrightarrow> no_mark (c # p) a r"
  by (induction a) (auto simp: no_mark_Cons)

lemma first_occ_no_mark: "no_mark p a [] \<Longrightarrow> p \<noteq> [] \<Longrightarrow> first_occ p a = None"
  using first_occ_skip [of a p "[]"] first_occ_Nil [of p] by (simp add: no_mark_def)

section \<open>The interface\<close>

text \<open>
  \<open>find s n sub\<close> searches the first \<open>n\<close> bytes of \<open>s\<close>; \<open>ok\<close> says for which
  needles the provider keeps its promise.
\<close>

locale substring_search =
  fixes find :: "bytes \<Rightarrow> int \<Rightarrow> bytes \<Rightarrow> nat option run"
    and ok :: "bytes \<Rightarrow> bool"
  assumes find_first:
    "ok sub \<Longrightarrow> 0 \<le> n \<Longrightarrow> nat n \<le> length s \<Longrightarrow> find s n sub = Inr (first_occ sub (take (nat n) s))"
begin

lemma find_sound:
  assumes "ok sub" and "0 \<le> n" and "nat n \<le> length s" and "find s n sub = Inr (Some i)"
  shows "i + length sub \<le> nat n" and "take (length sub) (drop i s) = sub"
proof -
  have occ: "first_occ sub (take (nat n) s) = Some i"
    using assms find_first by simp
  note D = first_occ_SomeD [OF occ]
  from D assms(3) show le: "i + length sub \<le> nat n" by simp
  have "take (length sub) (drop i s) = take (length sub) (drop i (take (nat n) s))"
    using le by (simp add: drop_take min_absorb1)
  with D show "take (length sub) (drop i s) = sub" by simp
qed

lemma find_split:
  assumes "ok sub"
    and "\<And>j. j < length a \<Longrightarrow> take (length sub) (drop j (a @ sub @ b)) \<noteq> sub"
  shows "find (a @ sub @ b @ c) (int (length a + length sub + length b)) sub = Inr (Some (length a))"
proof -
  have "take (length a + length sub + length b) (a @ sub @ b @ c) = a @ sub @ b"
    by simp
  moreover have "first_occ sub (a @ sub @ b) = Some (length a)"
    using assms(2) by (simp add: first_occ_skip first_occ_hit)
  ultimately show ?thesis
    using assms(1) by (subst find_first) auto
qed

lemma find_char:
  assumes "ok [c]" and "0 \<le> n" and "nat n \<le> length s"
  shows "find s n [c] = Inr (if c \<in> set (take (nat n) s)
    then Some (length (takeWhile (\<lambda>x. x \<noteq> c) (take (nat n) s))) else None)"
  using assms by (simp add: find_first first_occ_single)

end

end
