(* ===== verification/Basic_Funcs.thy ===== *)
theory Basic_Funcs
  imports Search
begin

text \<open>
  The string and time helpers of \<^verbatim>\<open>src/f1g_basic_funcs.c\<close>, which the parsers and the
  tools are built from. A read pointer is the list of the bytes from the pointer to the end of its
  block; a location inside such a text is an offset, and \<^verbatim>\<open>NULL\<close> is \<open>None\<close>. An \<open>i8_t\<close> result
  is its 8 bit word.
\<close>

section \<open>Comparison\<close>

function cmp_scan :: "bytes \<Rightarrow> bytes \<Rightarrow> nat \<Rightarrow> nat \<Rightarrow> u8 run" where
  "cmp_scan p1 p2 i len =
     (if i < len then
        bindR (rd p1 i) (\<lambda>a. bindR (rd p2 i) (\<lambda>b.
          if a \<noteq> b then Inr (a - b) else cmp_scan p1 p2 (Suc i) len))
      else Inr 0)"
  by pat_completeness auto
termination
  by (relation "measure (\<lambda>(p1, p2, i, len). len - i)") auto

function cmp_str :: "bytes \<Rightarrow> bytes \<Rightarrow> int \<Rightarrow> u8 run" where
  "cmp_str p1 p2 len =
     (if len < 512 then cmp_scan p1 p2 0 (nat len)
      else
        (let mid = len div 2 in
         bindR (rd p1 (nat mid)) (\<lambda>a. bindR (rd p2 (nat mid)) (\<lambda>b.
           if a \<noteq> b then Inr (a - b)
           else
             bindR (cmp_str p1 p2 (mid - 1)) (\<lambda>ret1.
             bindR (cmp_str (drop (nat mid) p1) (drop (nat mid) p2) (mid - 1)) (\<lambda>ret2.
               if ret1 = 0 \<and> ret2 = 0 then Inr 0 else Inr 1))))))"
  by pat_completeness auto
termination
  by (relation "measure (\<lambda>(p1, p2, len). nat len)") auto

declare cmp_scan.simps [simp del]
declare cmp_str.simps [simp del]

definition cmp_str2 :: "bytes \<Rightarrow> int \<Rightarrow> bytes \<Rightarrow> int \<Rightarrow> u8 run" where
  "cmp_str2 p1 len1 p2 len2 = (if len1 < len2 then Inr (- 1) else cmp_str p1 p2 len2)"

section \<open>Searching\<close>

function find_from :: "bytes \<Rightarrow> int \<Rightarrow> bytes \<Rightarrow> nat \<Rightarrow> nat option run" where
  "find_from s n sub i =
     (if int (length sub) \<le> n - int i then
        bindR (cmp_str (drop i s) sub (int (length sub))) (\<lambda>r.
          if r = 0 then Inr (Some i) else find_from s n sub (Suc i))
      else Inr None)"
  by pat_completeness auto
termination
  by (relation "measure (\<lambda>(s, n, sub, i). nat (n - int i + 1))") auto

declare find_from.simps [simp del]

text \<open>
  \<open>find_str s n sub\<close> is the value of \<^verbatim>\<open>*ploc - pstr\<close> after the call with
  \<^verbatim>\<open>pstr_end = pstr + n\<close>; the C function itself always returns \<^verbatim>\<open>F1G_OK\<close>.
\<close>

definition find_str :: "bytes \<Rightarrow> int \<Rightarrow> bytes \<Rightarrow> nat option run" where
  "find_str s n sub = find_from s n sub 0"

text \<open>The returned length and the bytes stored at \<^verbatim>\<open>pdata\<close>.\<close>

definition substr :: "bytes \<Rightarrow> int \<Rightarrow> bytes \<Rightarrow> bytes \<Rightarrow> int \<Rightarrow> (int \<times> bytes) run" where
  "substr s n prev post data_size =
     bindR (find_str s n prev) (\<lambda>pb.
       case pb of
         None \<Rightarrow> Inr (0, [])
       | Some pb \<Rightarrow>
           (let start = pb + length prev in
            bindR (find_str (drop start s) (n - int start) post) (\<lambda>pe.
              let len = (case pe of None \<Rightarrow> n - int start | Some e \<Rightarrow> int e) in
              if len > data_size then Inr (0, [])
              else bindR (slice s start len) (\<lambda>d. Inr (len, d)))))"

section \<open>Skipping and stripping\<close>

text \<open>\<open>skip_from s len ch i\<close>: the offset of \<^verbatim>\<open>*p_pdata\<close> after the loop.\<close>

function skip_from :: "bytes \<Rightarrow> int \<Rightarrow> u8 \<Rightarrow> nat \<Rightarrow> nat run" where
  "skip_from s len ch i =
     (if int i < len then
        bindR (rd s i) (\<lambda>c. if ch = c then skip_from s len ch (Suc i) else Inr i)
      else Inr i)"
  by pat_completeness auto
termination
  by (relation "measure (\<lambda>(s, len, ch, i). nat (len - int i))") auto

declare skip_from.simps [simp del]

definition skip_char :: "bytes \<Rightarrow> int \<Rightarrow> u8 \<Rightarrow> nat run" where
  "skip_char s len ch = skip_from s len ch 0"

definition skip_chars :: "bytes \<Rightarrow> int \<Rightarrow> bytes \<Rightarrow> int \<Rightarrow> nat run" where
  "skip_chars s len chars chars_len = Inr 0"

definition skip_space :: "bytes \<Rightarrow> int \<Rightarrow> nat run" where
  "skip_space s len = skip_char s len (chr8 (CHR '' ''))"

definition skip_tab :: "bytes \<Rightarrow> int \<Rightarrow> nat run" where
  "skip_tab s len = skip_char s len 9"

text \<open>\<open>strip_from s ch e\<close>: the final \<^verbatim>\<open>*p_e - p_str\<close>, which is \<open>-1\<close> if all is stripped.\<close>

function strip_from :: "bytes \<Rightarrow> u8 \<Rightarrow> int \<Rightarrow> int run" where
  "strip_from s ch e =
     (if 0 \<le> e then
        bindR (rd s (nat e)) (\<lambda>c. if c = ch then strip_from s ch (e - 1) else Inr e)
      else Inr e)"
  by pat_completeness auto
termination
  by (relation "measure (\<lambda>(s, ch, e). nat (e + 1))") auto

declare strip_from.simps [simp del]

definition strip_char :: "bytes \<Rightarrow> int \<Rightarrow> u8 \<Rightarrow> int run" where
  "strip_char s len ch = strip_from s ch (len - 1)"

section \<open>Time intervals\<close>

record timeval =
  tv_sec :: int
  tv_usec :: int

definition time_interval_tv :: "timeval \<Rightarrow> timeval \<Rightarrow> timeval" where
  "time_interval_tv tvb tve =
     (let out = \<lparr>tv_sec = tv_sec tve - tv_sec tvb, tv_usec = tv_usec tve - tv_usec tvb\<rparr> in
      if tv_usec out < 0 then out\<lparr>tv_usec := tv_usec out + 1000000, tv_sec := tv_sec out - 1\<rparr>
      else out)"

definition time_interval :: "timeval \<Rightarrow> timeval \<Rightarrow> int" where
  "time_interval tvb tve =
     (let tv = time_interval_tv tvb tve in tv_sec tv * 1000000 + tv_usec tv)"

section \<open>Hex dumps\<close>

definition hex_digit :: "nat \<Rightarrow> u8" where
  "hex_digit d = (if d < 10 then 48 + of_nat d else 87 + of_nat d)"

text \<open>\<^verbatim>\<open>%0<w>x\<close> for a value below \<open>16 ^ w\<close>.\<close>

fun hex_pad :: "nat \<Rightarrow> nat \<Rightarrow> bytes" where
  "hex_pad 0 n = []"
| "hex_pad (Suc w) n = hex_pad w (n div 16) @ [hex_digit (n mod 16)]"

definition hex_cell :: "u8 \<Rightarrow> bytes" where
  "hex_cell b = hex_pad 2 (unat b) @ [32]"

definition hex_char :: "u8 \<Rightarrow> u8" where
  "hex_char b = (if b \<le> 0x20 \<or> 0x7F \<le> b then 46 else b)"

definition hex_line :: "bytes \<Rightarrow> nat \<Rightarrow> nat \<Rightarrow> bytes" where
  "hex_line data data_len i =
     (let next = (i + 1) * 16 mod 2 ^ 32; hi = max (i * 16) (min data_len next) in
      hex_pad 8 (i * 16) @ replicate 4 32
      @ concat (map (\<lambda>j. hex_cell (data ! j)) [i * 16..<hi])
      @ concat (map (\<lambda>j. replicate 3 32) [hi..<next])
      @ replicate 4 32 @ [124]
      @ map (\<lambda>j. hex_char (data ! j)) [i * 16..<hi]
      @ replicate (next - hi) 32 @ [124] @ [10])"

text \<open>The bytes written to the stream; every byte below \<open>data_len\<close> is read.\<close>

definition hex_print :: "bytes \<Rightarrow> u32 \<Rightarrow> bytes run" where
  "hex_print data n =
     (let data_len = unat n;
          line = data_len div 16 + (if data_len mod 16 \<noteq> 0 then 1 else 0) in
      assertR (data_len \<le> length data) OutOfBounds
        (Inr (concat (map (hex_line data data_len) [0..<line]))))"

section \<open>The comparison\<close>

lemma cmp_scan_spec:
  assumes "len \<le> length p1" and "len \<le> length p2"
  shows "\<exists>v. cmp_scan p1 p2 i len = Inr v \<and> (v = 0 \<longleftrightarrow> (\<forall>j. i \<le> j \<and> j < len \<longrightarrow> p1 ! j = p2 ! j))"
  using assms
proof (induction p1 p2 i len rule: cmp_scan.induct)
  case (1 p1 p2 i len)
  show ?case
  proof (cases "i < len")
    case False
    then show ?thesis by (auto simp: cmp_scan.simps [of p1 p2 i len])
  next
    case True
    then have r: "rd p1 i = Inr (p1 ! i)" "rd p2 i = Inr (p2 ! i)"
      using "1.prems" by simp_all
    show ?thesis
    proof (cases "p1 ! i = p2 ! i")
      case False
      then show ?thesis using True r by (auto simp: cmp_scan.simps [of p1 p2 i len])
    next
      case eq: True
      have "\<exists>v. cmp_scan p1 p2 (Suc i) len = Inr v \<and>
        (v = 0 \<longleftrightarrow> (\<forall>j. Suc i \<le> j \<and> j < len \<longrightarrow> p1 ! j = p2 ! j))"
        using "1.IH" [OF True r] eq "1.prems" by simp
      moreover have "(\<forall>j. Suc i \<le> j \<and> j < len \<longrightarrow> p1 ! j = p2 ! j)
        \<longleftrightarrow> (\<forall>j. i \<le> j \<and> j < len \<longrightarrow> p1 ! j = p2 ! j)"
        using eq by (metis Suc_leD Suc_leI le_neq_implies_less)
      ultimately show ?thesis
        using True r eq by (simp add: cmp_scan.simps [of p1 p2 i len])
    qed
  qed
qed

lemma nth_eq_take_conv:
  assumes "n \<le> length xs" and "n \<le> length ys"
  shows "(\<forall>j<n. xs ! j = ys ! j) \<longleftrightarrow> take n xs = take n ys"
  using assms by (auto simp: list_eq_iff_nth_eq)

lemma cmp_str_short:
  assumes "len < 512" and "nat len \<le> length p1" and "nat len \<le> length p2"
  shows "\<exists>v. cmp_str p1 p2 len = Inr v \<and> (v = 0 \<longleftrightarrow> take (nat len) p1 = take (nat len) p2)"
  using cmp_scan_spec [of "nat len" p1 p2 0] assms
  by (simp add: cmp_str.simps [of p1 p2 len] nth_eq_take_conv)

text \<open>Equal texts compare equal at every length.\<close>

lemma cmp_str_equal:
  "nat len \<le> length p1 \<Longrightarrow> nat len \<le> length p2 \<Longrightarrow> take (nat len) p1 = take (nat len) p2 \<Longrightarrow>
   cmp_str p1 p2 len = Inr 0"
proof (induction p1 p2 len rule: cmp_str.induct)
  case (1 p1 p2 len)
  show ?case
  proof (cases "len < 512")
    case True
    then show ?thesis using cmp_str_short "1.prems" by blast
  next
    case False
    define mid where "mid = len div 2"
    have mid: "256 \<le> mid" "2 * mid \<le> len" using False by (simp_all add: mid_def)
    have nth: "p1 ! j = p2 ! j" if "j < nat len" for j
      using "1.prems" that by (metis nth_take)
    have r: "rd p1 (nat mid) = Inr (p1 ! nat mid)" "rd p2 (nat mid) = Inr (p2 ! nat mid)"
      using "1.prems" mid by simp_all
    have eq: "p1 ! nat mid = p2 ! nat mid" using nth mid by simp
    have le: "nat (mid - 1) \<le> length p1" "nat (mid - 1) \<le> length p2"
      using "1.prems" mid by linarith+
    have low: "cmp_str p1 p2 (mid - 1) = Inr 0"
    proof (rule "1.IH"(1) [OF False mid_def r])
      show "\<not> p1 ! nat mid \<noteq> p2 ! nat mid" using eq by simp
      show "take (nat (mid - 1)) p1 = take (nat (mid - 1)) p2"
        using nth mid le by (intro nth_eq_take_conv [THEN iffD1]) auto
    qed (use le in auto)
    have dle: "nat (mid - 1) \<le> length (drop (nat mid) p1)" "nat (mid - 1) \<le> length (drop (nat mid) p2)"
      using "1.prems" mid by simp_all
    have "cmp_str (drop (nat mid) p1) (drop (nat mid) p2) (mid - 1) = Inr 0"
    proof (rule "1.IH"(2) [OF False mid_def r])
      show "\<not> p1 ! nat mid \<noteq> p2 ! nat mid" using eq by simp
      show "cmp_str p1 p2 (mid - 1) = Inr 0" by (rule low)
      show "take (nat (mid - 1)) (drop (nat mid) p1) = take (nat (mid - 1)) (drop (nat mid) p2)"
        using nth mid dle by (intro nth_eq_take_conv [THEN iffD1] allI impI)
          (simp_all add: nth_drop)
    qed (use dle in auto)
    then show ?thesis
      using False r eq low by (simp add: cmp_str.simps [of p1 p2 len] Let_def mid_def)
  qed
qed

section \<open>The search\<close>

lemma find_from_spec:
  assumes "length sub < 512" and "0 \<le> n" and "nat n \<le> length s"
  shows "int i \<le> n \<Longrightarrow> find_from s n sub i
    = Inr (map_option ((+) i) (first_occ sub (take (nat n - i) (drop i s))))"
  using assms
proof (induction s n sub i rule: find_from.induct)
  case (1 s n sub i)
  define w where "w = take (nat n - i) (drop i s)"
  have lw: "length w = nat n - i" using "1.prems" by (simp add: w_def)
  show ?case
  proof (cases "int (length sub) \<le> n - int i")
    case False
    have "first_occ sub w = None"
    proof (rule ccontr)
      assume "first_occ sub w \<noteq> None"
      then obtain k where "first_occ sub w = Some k" by blast
      then have "k + length sub \<le> length w" using first_occ_SomeD by blast
      with False lw "1.prems" show False by linarith
    qed
    then show ?thesis
      using False by (simp add: find_from.simps [of s n sub i] w_def)
  next
    case True
    then have le: "length sub \<le> nat n - i" "i \<le> nat n" by linarith+
    have sub_ok: "nat (int (length sub)) \<le> length (drop i s)" using le "1.prems" by simp
    obtain v where v: "cmp_str (drop i s) sub (int (length sub)) = Inr v"
      and v0: "v = 0 \<longleftrightarrow> take (length sub) (drop i s) = sub"
      using cmp_str_short [of "int (length sub)" "drop i s" sub] "1.prems" sub_ok by auto
    have tw: "take (length sub) w = take (length sub) (drop i s)"
      using le by (simp add: w_def min_absorb1)
    show ?thesis
    proof (cases "v = 0")
      case hit: True
      then have "first_occ sub w = Some 0"
        using v0 tw lw le by (simp add: first_occ.simps)
      then show ?thesis using True v hit by (simp add: find_from.simps [of s n sub i] w_def)
    next
      case miss: False
      have rec: "find_from s n sub (Suc i)
        = Inr (map_option ((+) (Suc i)) (first_occ sub (take (nat n - Suc i) (drop (Suc i) s))))"
      proof (rule "1.IH" [OF True v miss])
        have "sub \<noteq> []" using miss v0 by auto
        then show "int (Suc i) \<le> n" using True by (cases sub) auto
      qed (use "1.prems" in auto)
      have "first_occ sub w = map_option Suc (first_occ sub (take (nat n - Suc i) (drop (Suc i) s)))"
      proof (cases w)
        case Nil
        then have "sub = []" using lw le by simp
        then show ?thesis using miss v0 by simp
      next
        case (Cons x w')
        have w': "w' = take (nat n - Suc i) (drop (Suc i) s)"
          using arg_cong [OF Cons [unfolded w_def], of tl]
          by (simp add: tl_take tl_drop drop_Suc)
        show ?thesis
          using Cons w' miss v0 tw by (simp add: first_occ_Cons)
      qed
      then show ?thesis
        using True v miss rec
        by (cases "first_occ sub (take (nat n - Suc i) (drop (Suc i) s))")
          (simp_all add: find_from.simps [of s n sub i] w_def)
    qed
  qed
qed

lemma find_str_first_occ:
  "length sub < 512 \<Longrightarrow> 0 \<le> n \<Longrightarrow> nat n \<le> length s \<Longrightarrow>
   find_str s n sub = Inr (first_occ sub (take (nat n) s))"
  using find_from_spec [of sub n s 0]
  by (cases "first_occ sub (take (nat n) s)") (simp_all add: find_str_def)

lemma find_str_before_start: "n < int (length sub) \<Longrightarrow> find_str s n sub = Inr None"
  by (simp add: find_str_def find_from.simps [of s n sub 0])

interpretation fs: substring_search find_str "\<lambda>sub. length sub < 512"
  by unfold_locales (rule find_str_first_occ)

section \<open>Extraction, skipping, stripping\<close>

text \<open>
  The documented use of \<^verbatim>\<open>substr\<close>: the value between \<open>prev\<close> and \<open>post\<close>, when
  \<open>prev\<close> first occurs where the text says it does and \<open>post\<close> ends the value.
\<close>

lemma substr_between:
  assumes "length prev < 512" and "length post < 512"
    and "\<And>j. j < length a \<Longrightarrow> take (length prev) (drop j (a @ prev @ v @ post @ b)) \<noteq> prev"
    and "\<And>j. j < length v \<Longrightarrow> take (length post) (drop j (v @ post @ b)) \<noteq> post"
    and "int (length v) \<le> data_size"
  shows "substr (a @ prev @ v @ post @ b @ c)
    (int (length a + length prev + length v + length post + length b)) prev post data_size
    = Inr (int (length v), v)"
proof -
  have f1: "find_str (a @ prev @ v @ post @ b @ c)
    (int (length a + length prev + length v + length post + length b)) prev = Inr (Some (length a))"
    using fs.find_split [of prev a "v @ post @ b" c] assms(1,3) by (simp add: add.assoc)
  have d: "drop (length a + length prev) (a @ prev @ v @ post @ b @ c) = v @ post @ b @ c"
    by simp
  have n: "int (length a + length prev + length v + length post + length b)
      - int (length a + length prev) = int (length v + length post + length b)"
    by simp
  have f2: "find_str (v @ post @ b @ c) (int (length v + length post + length b)) post
    = Inr (Some (length v))"
    using fs.find_split [of post v b c] assms(2,4) by simp
  show ?thesis
    using assms(5) by (simp only: substr_def f1 bindR_simps option.case Let_def d n f2) simp
qed

text \<open>The form the callers use, with an end mark of one character.\<close>

lemma substr_mark:
  assumes "no_mark p a (p @ v @ [d] @ b)" and "d \<notin> set v" and "length p < 512" and "int (length v) \<le> k"
    and "s = a @ p @ v @ [d] @ b @ r" and "n = int (length (a @ p @ v @ [d] @ b))"
  shows "substr s n p [d] k = Inr (int (length v), v)"
proof -
  have "no_mark [d] v ([d] @ b)" using assms(2) by (rule no_mark_first)
  then have "substr (a @ p @ v @ [d] @ b @ r) (int (length a + length p + length v + length [d] + length b)) p [d] k = Inr (int (length v), v)"
    using assms(1,3,4) by (intro substr_between) (simp_all add: no_mark_def)
  then show ?thesis unfolding assms(5,6) by (simp add: add.assoc)
qed

text \<open>Without the end mark the value extends to the end of the searched text.\<close>

lemma substr_absent: "length prev < 512 \<Longrightarrow> 0 \<le> n \<Longrightarrow> nat n \<le> length s \<Longrightarrow>
  first_occ prev (take (nat n) s) = None \<Longrightarrow> substr s n prev post k = Inr (0, [])"
  by (simp add: substr_def find_str_first_occ)

lemma skip_from_spec:
  "int i \<le> len \<Longrightarrow> nat len \<le> length s \<Longrightarrow>
   skip_from s len ch i = Inr (i + length (takeWhile (\<lambda>c. c = ch) (take (nat len - i) (drop i s))))"
proof (induction s len ch i rule: skip_from.induct)
  case (1 s len ch i)
  show ?case
  proof (cases "int i < len")
    case False
    then show ?thesis using "1.prems" by (simp add: skip_from.simps [of s len ch i])
  next
    case True
    then have i: "i < length s" and lt: "i < nat len" using "1.prems" by linarith+
    have tk: "take (nat len - i) (drop i s) = s ! i # take (nat len - Suc i) (drop (Suc i) s)"
      using i lt by (metis Cons_nth_drop_Suc Suc_diff_Suc take_Suc_Cons)
    show ?thesis
      using True i tk "1.IH" [OF True, of "s ! i"] "1.prems"
      by (auto simp: skip_from.simps [of s len ch i])
  qed
qed

lemma skip_char_spec:
  "0 \<le> len \<Longrightarrow> nat len \<le> length s \<Longrightarrow>
   skip_char s len ch = Inr (length (takeWhile (\<lambda>c. c = ch) (take (nat len) s)))"
  using skip_from_spec [of 0 len s ch] by (simp add: skip_char_def)

lemma skip_char_nonpos: "len \<le> 0 \<Longrightarrow> skip_char s len ch = Inr 0"
  by (simp add: skip_char_def skip_from.simps [of s len ch 0])

lemma strip_from_spec:
  "n \<le> length s \<Longrightarrow>
   strip_from s ch (int n - 1) = Inr (int (length (rev (dropWhile (\<lambda>c. c = ch) (rev (take n s))))) - 1)"
proof (induction n)
  case 0
  then show ?case by (simp add: strip_from.simps [of s ch "- 1"])
next
  case (Suc n)
  have tk: "take (Suc n) s = take n s @ [s ! n]"
    using Suc.prems by (simp add: take_Suc_conv_app_nth)
  show ?case
    using Suc tk by (cases "s ! n = ch") (simp_all add: strip_from.simps [of s ch "int n"])
qed

lemma strip_char_spec:
  "0 \<le> len \<Longrightarrow> nat len \<le> length s \<Longrightarrow>
   strip_char s len ch = Inr (int (length (dropWhile (\<lambda>c. c = ch) (rev (take (nat len) s)))) - 1)"
  using strip_from_spec [of "nat len" s ch] by (simp add: strip_char_def)

section \<open>Intervals and dumps\<close>

text \<open>A time stamp as the library functions deliver it.\<close>

definition norm_tv :: "timeval \<Rightarrow> bool" where
  "norm_tv t \<longleftrightarrow> 0 \<le> tv_usec t \<and> tv_usec t < 1000000"

definition tv_total :: "timeval \<Rightarrow> int" where
  "tv_total t = tv_sec t * 1000000 + tv_usec t"

lemma time_interval_norm:
  "norm_tv a \<Longrightarrow> norm_tv b \<Longrightarrow> norm_tv (time_interval_tv a b)"
  by (auto simp: norm_tv_def time_interval_tv_def Let_def)

lemma time_interval_total: "tv_total (time_interval_tv a b) = tv_total b - tv_total a"
  by (auto simp: tv_total_def time_interval_tv_def Let_def algebra_simps)

lemma length_hex_pad [simp]: "length (hex_pad w n) = w"
  by (induction w arbitrary: n) simp_all

lemma length_hex_cell [simp]: "length (hex_cell b) = 3"
  by (simp add: hex_cell_def)

lemma length_concat_const:
  "(\<And>x. x \<in> set xs \<Longrightarrow> length (f x) = k) \<Longrightarrow> length (concat (map f xs)) = k * length xs"
  by (induction xs) auto

lemma length_hex_line:
  assumes "i * 16 < data_len" and "(i + 1) * 16 < 2 ^ 32"
  shows "length (hex_line data data_len i) = 83"
proof -
  define next' where "next' = (i + 1) * 16 mod 2 ^ 32"
  define hi where "hi = max (i * 16) (min data_len next')"
  have n: "next' = i * 16 + 16" using assms(2) by (simp add: next'_def)
  have "i * 16 \<le> hi" "hi \<le> i * 16 + 16" using assms(1) by (auto simp: hi_def n)
  then show ?thesis
    unfolding hex_line_def Let_def next'_def [symmetric] hi_def [symmetric]
    by (simp add: length_concat_const n)
qed

section \<open>Properties\<close>

text \<open>\<^verbatim>\<open>find_str\<close> returns the least offset at which the needle occurs inside the
  searched range, and \<^verbatim>\<open>NULL\<close> exactly when it occurs nowhere in it, for every needle shorter
  than 512 bytes; it never reads outside the range.\<close>

theorem find_str_least:
  assumes "length sub < 512" and "0 \<le> n" and "nat n \<le> length s"
  shows "case find_str s n sub of
      Inl e \<Rightarrow> False
    | Inr None \<Rightarrow> \<forall>i. i + length sub \<le> nat n \<longrightarrow> take (length sub) (drop i s) \<noteq> sub
    | Inr (Some i) \<Rightarrow> i + length sub \<le> nat n \<and> take (length sub) (drop i s) = sub
        \<and> (\<forall>j < i. take (length sub) (drop j s) \<noteq> sub)"
proof -
  define w where "w = take (nat n) s"
  have lw: "length w = nat n" using assms by (simp add: w_def)
  have same: "take (length sub) (drop j w) = take (length sub) (drop j s)"
    if "j + length sub \<le> nat n" for j
    using that by (simp add: w_def drop_take min_absorb1)
  have f: "find_str s n sub = Inr (first_occ sub w)"
    using find_str_first_occ assms by (simp add: w_def)
  show ?thesis
  proof (cases "first_occ sub w")
    case None
    then show ?thesis
      using first_occ_NoneD [OF None] same lw by (simp add: f)
  next
    case (Some i)
    note D = first_occ_SomeD [OF Some]
    have "take (length sub) (drop j s) \<noteq> sub" if "j < i" for j
      using D same [of j] lw that by auto
    then show ?thesis using D same [of i] lw Some by (simp add: f)
  qed
qed

theorem find_str_least_witness:
  "find_str [49, 50, 51, 97, 98, 99] 6 [97, 98] = Inr (Some 3)
   \<and> take 2 (drop 3 [49, 50, 51, 97, 98, 99::u8]) = [97, 98]"
  using find_str_least [of "[97, 98]" 6 "[49, 50, 51, 97, 98, 99]"]
  by (simp add: find_str_first_occ first_occ.simps)

text \<open>\<^verbatim>\<open>cmp_str\<close> decides equality of the first \<open>len\<close> bytes when
  \<open>len < 512\<close>. From 512 bytes on it splits the range in two halves of \<open>mid - 1\<close> bytes: two texts
  that differ only in the byte before the middle compare equal.\<close>

theorem cmp_str_blind_spot:
  assumes "nat len \<le> length p" and "nat len \<le> length q"
  shows "(len < 512 \<longrightarrow> (cmp_str p q len = Inr 0 \<longleftrightarrow> take (nat len) p = take (nat len) q))
    \<and> (512 \<le> len \<longrightarrow> cmp_str p (p[nat (len div 2) - 1 := x]) len = Inr 0)"
proof (intro conjI impI)
  assume "len < 512"
  then show "cmp_str p q len = Inr 0 \<longleftrightarrow> take (nat len) p = take (nat len) q"
    using cmp_str_short [of len p q] assms by auto
next
  assume len: "512 \<le> len"
  define mid where "mid = len div 2"
  define q' where "q' = p[nat mid - 1 := x]"
  have mid: "256 \<le> mid" "2 * mid \<le> len" using len by (simp_all add: mid_def)
  have lp: "nat mid < length p" using assms mid by linarith
  have low: "cmp_str p q' (mid - 1) = Inr 0"
    using mid lp by (intro cmp_str_equal) (simp_all add: q'_def nat_diff_distrib)
  have same: "drop (nat mid) q' = drop (nat mid) p"
    using mid by (simp add: q'_def drop_update_cancel)
  have high: "cmp_str (drop (nat mid) p) (drop (nat mid) q') (mid - 1) = Inr 0"
    unfolding same using assms mid by (intro cmp_str_equal) simp_all
  have eq: "q' ! nat mid = p ! nat mid" "nat mid < length q'"
    using mid lp by (simp_all add: q'_def)
  have "cmp_str p q' len = Inr 0"
    using len lp low high eq
    by (simp add: cmp_str.simps [of p q' len] Let_def mid_def [symmetric])
  then show "cmp_str p (p[nat (len div 2) - 1 := x]) len = Inr 0"
    by (simp add: q'_def mid_def)
qed

theorem cmp_str_blind_spot_witness:
  "cmp_str (replicate 512 0) ((replicate 512 0)[255 := 1]) 512 = Inr 0
   \<and> replicate 512 0 \<noteq> (replicate 512 (0::u8))[255 := 1]"
proof -
  have "(replicate 512 (0::u8))[255 := 1] ! 255 = 1" by simp
  moreover have "replicate 512 (0::u8) ! 255 = 0" by simp
  ultimately have ne: "replicate 512 0 \<noteq> (replicate 512 (0::u8))[255 := 1]"
    by (metis zero_neq_one)
  have le: "nat 512 \<le> length (replicate 512 (0::u8))" by (simp only: length_replicate)
  have "cmp_str (replicate 512 0) ((replicate 512 0)[nat (512 div 2) - 1 := 1]) 512 = Inr 0"
    using cmp_str_blind_spot [OF le le, of 1] by blast
  moreover have "nat (512 div 2) - 1 = 255" by simp
  ultimately show ?thesis using ne by metis
qed

text \<open>\<^verbatim>\<open>substr\<close> extracts the bytes between the first \<open>prev\<close> and the next
  \<open>post\<close>, when they fit the destination.\<close>

theorem substr_value:
  assumes "length prev < 512" and "length post < 512"
    and "\<And>j. j < length a \<Longrightarrow> take (length prev) (drop j (a @ prev @ v @ post @ b)) \<noteq> prev"
    and "\<And>j. j < length v \<Longrightarrow> take (length post) (drop j (v @ post @ b)) \<noteq> post"
    and "int (length v) \<le> data_size"
  shows "substr (a @ prev @ v @ post @ b)
    (int (length (a @ prev @ v @ post @ b))) prev post data_size = Inr (int (length v), v)"
  using substr_between [where c = "[]", OF assms] by (simp add: add.assoc)

theorem substr_value_witness:
  "substr (lit ''#LINE=12;'') 9 (lit ''LINE='') (lit '';'') 16 = Inr (2, lit ''12'')"
proof -
  have l: "lit ''#LINE=12;'' = lit ''#'' @ lit ''LINE='' @ lit ''12'' @ lit '';'' @ []"
    by (simp add: lit_def)
  have post: "take 1 (drop j (lit ''12'' @ lit '';'' @ [])) \<noteq> lit '';''" if "j < 2" for j
  proof -
    from that have "j = 0 \<or> j = 1" by auto
    then show ?thesis by (auto simp: lit_def chr8_def)
  qed
  show ?thesis
    unfolding l
    using substr_value [of "lit ''LINE=''" "lit '';''" "lit ''#''" "lit ''12''" "[]" 16] post
    by (simp add: lit_def chr8_def)
qed

end
