(* ===== verification/Bit_Array.thy ===== *)
theory Bit_Array
  imports Prelude
begin

text \<open>
  The bit arrays of \<^verbatim>\<open>src/f1g_bit_array.c\<close>: the struct, its operations, and what they do to
  the set of the bits that are set.
\<close>

unbundle bit_operations_syntax

section \<open>The struct and its operations\<close>

record bit_array =
  bits_num :: u8
  bits :: "bytes ptr"

definition bytes_for :: "u8 \<Rightarrow> nat" where
  "bytes_for n = unat n div 8 + (if unat n mod 8 \<noteq> 0 then 1 else 0)"

definition bit_array_init :: "u8 alloc \<Rightarrow> bit_array \<Rightarrow> u8 \<Rightarrow> int \<times> bit_array" where
  "bit_array_init a p bit_num =
     (let byte_num = bytes_for bit_num in
      case malloc a (int byte_num) of
        Live m \<Rightarrow> (F1G_OK, p\<lparr>bits := Live (replicate byte_num 0), bits_num := bit_num\<rparr>)
      | _ \<Rightarrow> (F1G_ERR, p\<lparr>bits := Null\<rparr>))"

definition bit_arrary_create :: "bool \<Rightarrow> u8 alloc \<Rightarrow> u8 \<Rightarrow> bit_array option" where
  "bit_arrary_create ok a bit_num =
     (if \<not> ok then None
      else let (r, p) = bit_array_init a \<lparr>bits_num = 0, bits = Null\<rparr> bit_num in
           if r \<noteq> F1G_OK then None else Some p)"

text \<open>The \<open>int\<close> the shifts are computed in is not cut to a byte before the right shift; the
  result is cut to an \<open>i8_t\<close>.\<close>

definition bit_array_bit_value :: "bit_array \<Rightarrow> u8 \<Rightarrow> u8 run" where
  "bit_array_bit_value p bit_seq =
     (if bit_seq \<ge> bits_num p then Inr (- 1)
      else
        bindR (deref (bits p)) (\<lambda>m.
        bindR (rd m (unat bit_seq div 8)) (\<lambda>b.
          Inr (of_nat (unat b * 2 ^ (7 - unat bit_seq mod 8) div 2 ^ 7)))))"

definition bit_array_set_bit :: "bit_array \<Rightarrow> u8 \<Rightarrow> (int \<times> bit_array) run" where
  "bit_array_set_bit p bit_seq =
     (if bit_seq \<ge> bits_num p then Inr (F1G_ERR, p)
      else
        bindR (deref (bits p)) (\<lambda>m.
        bindR (rd m (unat bit_seq div 8)) (\<lambda>b.
        bindR (wr m (unat bit_seq div 8) (b OR push_bit (unat bit_seq mod 8) 1)) (\<lambda>m'.
          Inr (F1G_OK, p\<lparr>bits := Live m'\<rparr>)))))"

definition bit_array_reset :: "bit_array \<Rightarrow> (int \<times> bit_array) run" where
  "bit_array_reset p =
     (if bits p = Null then Inr (F1G_ERR, p)
      else
        bindR (deref (bits p)) (\<lambda>m.
        bindR (put m 0 (replicate (bytes_for (bits_num p)) 0)) (\<lambda>m'.
          Inr (F1G_OK, p\<lparr>bits := Live m'\<rparr>))))"

text \<open>The block is freed and the pointer to it is kept.\<close>

definition bit_array_clean :: "bit_array \<Rightarrow> (int \<times> bit_array) run" where
  "bit_array_clean p = freeR (bits p) (Inr (F1G_OK, p\<lparr>bits := freed (bits p)\<rparr>))"

definition bit_array_destroy :: "bit_array option \<Rightarrow> unit run" where
  "bit_array_destroy p =
     (case p of None \<Rightarrow> Inr () | Some p \<Rightarrow> bindR (bit_array_clean p) (\<lambda>_. Inr ()))"

section \<open>The abstract view\<close>

definition ba_wf :: "bit_array \<Rightarrow> bool" where
  "ba_wf p \<longleftrightarrow> (\<exists>m. bits p = Live m \<and> length m = bytes_for (bits_num p))"

definition ba_bit :: "bit_array \<Rightarrow> nat \<Rightarrow> bool" where
  "ba_bit p k \<longleftrightarrow> (case bits p of Live m \<Rightarrow> k div 8 < length m \<and> bit (m ! (k div 8)) (k mod 8) | _ \<Rightarrow> False)"

text \<open>The bits below \<open>bits_num\<close> that are set.\<close>

definition ba_set :: "bit_array \<Rightarrow> nat set" where
  "ba_set p = {k. k < unat (bits_num p) \<and> ba_bit p k}"

lemma bytes_for_bound: "k < unat n \<Longrightarrow> k div 8 < bytes_for n"
  by (auto simp: bytes_for_def)

lemma ba_wf_byte:
  assumes "ba_wf p" and "k < unat (bits_num p)"
  obtains m where "bits p = Live m" "length m = bytes_for (bits_num p)" "k div 8 < length m"
  using assms bytes_for_bound by (auto simp: ba_wf_def)

lemma bit_array_init_set:
  "bit_array_init a p n = (F1G_OK, q) \<Longrightarrow> ba_wf q \<and> bits_num q = n \<and> ba_set q = {}"
  by (auto simp: bit_array_init_def ba_wf_def ba_set_def ba_bit_def Let_def split: ptr.splits)

lemma bit_array_set_bit_wf:
  assumes "ba_wf p" and "k < bits_num p"
  shows "\<exists>q. bit_array_set_bit p k = Inr (F1G_OK, q) \<and> ba_wf q \<and> bits_num q = bits_num p
    \<and> ba_set q = insert (unat k) (ba_set p)"
proof -
  have k: "unat k < unat (bits_num p)" using assms(2) by (simp add: word_less_nat_alt)
  obtain m where m: "bits p = Live m" "length m = bytes_for (bits_num p)" "unat k div 8 < length m"
    using assms(1) k by (rule ba_wf_byte)
  define b where "b = m ! (unat k div 8) OR push_bit (unat k mod 8) 1"
  define q where "q = p\<lparr>bits := Live (m[unat k div 8 := b])\<rparr>"
  have run: "bit_array_set_bit p k = Inr (F1G_OK, q)"
    using m assms(2) by (simp add: bit_array_set_bit_def not_le [symmetric] b_def q_def)
  have bit_b: "bit b j \<longleftrightarrow> bit (m ! (unat k div 8)) j \<or> j = unat k mod 8" if "j < 8" for j
    using that by (auto simp: b_def bit_or_iff bit_exp_iff)
  have "ba_bit q j \<longleftrightarrow> ba_bit p j \<or> j = unat k" if "j < unat (bits_num p)" for j
  proof (cases "j div 8 = unat k div 8")
    case True
    have "j = unat k \<longleftrightarrow> j mod 8 = unat k mod 8" using True by (metis div_mult_mod_eq)
    then show ?thesis
      using True m bit_b [of "j mod 8"] by (simp add: ba_bit_def q_def)
  next
    case False
    then show ?thesis using m by (auto simp: ba_bit_def q_def)
  qed
  then have "ba_set q = insert (unat k) (ba_set p)"
    using k by (auto simp: ba_set_def q_def)
  then show ?thesis using run m by (auto simp: ba_wf_def q_def)
qed

lemma bit_array_reset_wf:
  assumes "ba_wf p"
  shows "\<exists>q. bit_array_reset p = Inr (F1G_OK, q) \<and> ba_wf q \<and> bits_num q = bits_num p \<and> ba_set q = {}"
  using assms by (auto simp: ba_wf_def bit_array_reset_def ba_set_def ba_bit_def)

text \<open>What the double shift computes: the byte shifted right, the higher bits included.\<close>

lemma shift_pair_drop_bit:
  fixes b :: u8
  assumes "k < 8"
  shows "word_of_nat (unat b * 2 ^ (7 - k) div 2 ^ 7) = drop_bit k b"
proof -
  have p: "(2::nat) ^ 7 = 2 ^ k * 2 ^ (7 - k)" using assms by (simp flip: power_add)
  have "unat b * 2 ^ (7 - k) div 2 ^ 7 = unat b div 2 ^ k"
    unfolding p by (rule div_mult_mult2) simp
  then have "of_nat (unat b * 2 ^ (7 - k) div 2 ^ 7) = (of_nat (unat (drop_bit k b)) :: u8)"
    by (simp only: unat_drop_bit_eq) (simp only: drop_bit_eq_div)
  then show ?thesis by simp
qed

lemma bit_array_bit_value_drop_bit:
  assumes "ba_wf p" and "k < bits_num p" and "bits p = Live m"
  shows "bit_array_bit_value p k = Inr (drop_bit (unat k mod 8) (m ! (unat k div 8)))"
proof -
  have k: "unat k < unat (bits_num p)" using assms(2) by (simp add: word_less_nat_alt)
  have "unat k div 8 < length m"
    using assms(1,3) bytes_for_bound [OF k] by (auto simp: ba_wf_def)
  then show ?thesis
    using assms shift_pair_drop_bit [of "unat k mod 8" "m ! (unat k div 8)"]
    by (simp add: bit_array_bit_value_def not_le [symmetric])
qed

lemma drop_bit_eq_1_iff:
  fixes b :: u8
  assumes "k < 8"
  shows "drop_bit k b = 1 \<longleftrightarrow> bit b k \<and> (\<forall>j. k < j \<and> j < 8 \<longrightarrow> \<not> bit b j)"
proof
  assume d: "drop_bit k b = 1"
  have "bit b (k + j) \<longleftrightarrow> j = 0" if "k + j < 8" for j
  proof -
    have "bit b (k + j) \<longleftrightarrow> bit (drop_bit k b) j" by (simp add: bit_drop_bit_eq)
    then show ?thesis using d by (simp add: bit_1_iff)
  qed
  then show "bit b k \<and> (\<forall>j. k < j \<and> j < 8 \<longrightarrow> \<not> bit b j)"
    using assms by (metis add.right_neutral less_imp_add_positive less_not_refl2)
next
  assume a: "bit b k \<and> (\<forall>j. k < j \<and> j < 8 \<longrightarrow> \<not> bit b j)"
  show "drop_bit k b = 1"
  proof (rule bit_word_eqI)
    fix j assume "j < LENGTH(8)"
    show "bit (drop_bit k b) j \<longleftrightarrow> bit (1::u8) j"
    proof (cases "k + j < 8")
      case True
      then show ?thesis using a by (cases j) (simp_all add: bit_drop_bit_eq bit_1_iff)
    next
      case False
      then show ?thesis using assms bit_imp_le_length [of b "k + j"]
        by (auto simp: bit_drop_bit_eq bit_1_iff)
    qed
  qed
qed

section \<open>Properties\<close>

text \<open>C12. A bit array refines a finite set: creating or resetting one gives the empty set, and
  setting bit \<open>k\<close> adds exactly \<open>k\<close>, without touching memory outside the block; a bit
  number outside the array is refused and changes nothing.\<close>

theorem bit_array_refines_set:
  assumes "ba_wf p"
  shows "(\<exists>q. bit_array_reset p = Inr (F1G_OK, q) \<and> ba_wf q \<and> ba_set q = {})
    \<and> (if k < bits_num p
       then \<exists>q. bit_array_set_bit p k = Inr (F1G_OK, q) \<and> ba_wf q \<and> ba_set q = insert (unat k) (ba_set p)
       else bit_array_set_bit p k = Inr (F1G_ERR, p) \<and> bit_array_bit_value p k = Inr (- 1))"
  using bit_array_reset_wf [OF assms] bit_array_set_bit_wf [OF assms, of k]
  by (auto simp: bit_array_set_bit_def bit_array_bit_value_def)

theorem bit_array_refines_set_witness:
  "\<exists>q. bit_array_set_bit \<lparr>bits_num = 10, bits = Live [1, 0]\<rparr> 9 = Inr (F1G_OK, q)
     \<and> ba_set q = insert 9 (ba_set \<lparr>bits_num = 10, bits = Live [1, 0]\<rparr>)"
proof -
  have "ba_wf \<lparr>bits_num = 10, bits = Live [1, 0]\<rparr>" by (simp add: ba_wf_def bytes_for_def)
  from bit_array_refines_set [OF this, of 9] show ?thesis by auto
qed

text \<open>\<^verbatim>\<open>bit_array_bit_value\<close> answers 1 exactly when bit \<open>k\<close> is set and no
  higher bit of its byte is: the header's contract (the value is 0 or 1) does not hold, and a set
  bit is not recognised by a comparison with 1 once a higher bit of the byte is set.\<close>

theorem bit_value_is_one_iff:
  assumes "ba_wf p" and "k < bits_num p"
  shows "bit_array_bit_value p k = Inr 1 \<longleftrightarrow>
    ba_bit p (unat k) \<and> (\<forall>j. unat k mod 8 < j \<and> j < 8 \<longrightarrow> \<not> ba_bit p (unat k div 8 * 8 + j))"
proof -
  have k: "unat k < unat (bits_num p)" using assms(2) by (simp add: word_less_nat_alt)
  obtain m where m: "bits p = Live m" "unat k div 8 < length m"
    using assms(1) k by (rule ba_wf_byte)
  show ?thesis
    using bit_array_bit_value_drop_bit [OF assms m(1)] m
      drop_bit_eq_1_iff [of "unat k mod 8" "m ! (unat k div 8)"]
    by (auto simp: ba_bit_def)
qed

theorem bit_value_is_one_iff_witness:
  "bit_array_bit_value \<lparr>bits_num = 8, bits = Live [3]\<rparr> 0 \<noteq> Inr 1
   \<and> ba_bit \<lparr>bits_num = 8, bits = Live [3]\<rparr> 0"
proof -
  have wf: "ba_wf \<lparr>bits_num = 8, bits = Live [3]\<rparr>" by (simp add: ba_wf_def bytes_for_def)
  have b: "ba_bit \<lparr>bits_num = 8, bits = Live [3]\<rparr> 1" by (simp add: ba_bit_def)
  show ?thesis
    using bit_value_is_one_iff [OF wf, of 0] b by (auto simp: ba_bit_def)
qed

end
