(* ===== verification/Growth.thy ===== *)
theory Growth
  imports Prelude
begin

text \<open>
  The contract shared by the functions that move a component's cells to a larger block
  (\<^verbatim>\<open>buffer_enlarge\<close>, \<^verbatim>\<open>f1g_template_extent_cap\<close>, \<^verbatim>\<open>data_set_extent_cap\<close>,
  \<^verbatim>\<open>regset_enlarge_cap\<close>, \<^verbatim>\<open>f1g_log_extern_buf\<close>, \<^verbatim>\<open>fl_mgr_enlarge_host_cap\<close>): when the allocation succeeds, the component has the new room and the
  same contents.
\<close>

locale growable =
  fixes grow :: "'s \<Rightarrow> int \<Rightarrow> (int \<times> 's) run"
    and items :: "'s \<Rightarrow> 'a list"
    and room :: "'s \<Rightarrow> int"
    and inv :: "'s \<Rightarrow> bool"
  assumes grow_ok:
    "inv s \<Longrightarrow> room s < n \<Longrightarrow>
     \<exists>s'. grow s n = Inr (F1G_OK, s') \<and> inv s' \<and> items s' = items s \<and> room s' = n"
begin

text \<open>No fault, and no item is lost or moved.\<close>

lemma grow_items:
  assumes "inv s" and "room s < n" and "grow s n = Inr (r, s')"
  shows "r = F1G_OK" and "items s' = items s" and "room s' = n" and "inv s'"
  using grow_ok [OF assms(1,2)] assms(3) by auto

text \<open>Growing twice is growing once to the larger size.\<close>

lemma grow_twice:
  assumes "inv s" and "room s < n" and "n < k"
  shows "\<exists>s1 s2. grow s n = Inr (F1G_OK, s1) \<and> grow s1 k = Inr (F1G_OK, s2)
    \<and> items s2 = items s \<and> room s2 = k \<and> inv s2"
proof -
  obtain s1 where s1: "grow s n = Inr (F1G_OK, s1)" "inv s1" "items s1 = items s" "room s1 = n"
    using grow_ok [OF assms(1,2)] by blast
  obtain s2 where "grow s1 k = Inr (F1G_OK, s2)" "inv s2" "items s2 = items s1" "room s2 = k"
    using grow_ok [OF s1(2), of k] s1(4) assms(3) by auto
  with s1 show ?thesis by auto
qed

end

end
