(* ===== verification/Buffer.thy ===== *)
theory Buffer
  imports Growth
begin

text \<open>
  The byte buffers of \<^verbatim>\<open>src/f1g_buffer.c\<close>: a block with a size, a fill length and a
  terminating NUL that \<^verbatim>\<open>buffer_append\<close> and the server keep behind the data. A buffer
  pointer argument that may be \<^verbatim>\<open>NULL\<close> is an option.
\<close>

section \<open>The struct\<close>

definition BUF_FLAG_ALLO :: int where
  "BUF_FLAG_ALLO = 0"

definition BUF_FLAG_REF :: int where
  "BUF_FLAG_REF = 1"

record buffer =
  bflag :: int
  bsize :: int
  blen :: int
  bbuf :: "bytes ptr"

definition zero_buffer :: buffer where
  "zero_buffer = \<lparr>bflag = 0, bsize = 0, blen = 0, bbuf = Null\<rparr>"

section \<open>The operations\<close>

definition buffer_init :: "u8 alloc \<Rightarrow> buffer \<Rightarrow> int \<Rightarrow> int \<times> buffer" where
  "buffer_init a b sz =
     (case malloc a sz of
        Live m \<Rightarrow> (F1G_OK, b\<lparr>bbuf := Live m, bsize := sz, bflag := 0, blen := 0\<rparr>)
      | _ \<Rightarrow> (F1G_ERR, b\<lparr>bbuf := Null\<rparr>))"

definition buffer_enlarge :: "u8 alloc \<Rightarrow> buffer \<Rightarrow> int \<Rightarrow> (int \<times> buffer) run" where
  "buffer_enlarge a b new_size0 =
     (if new_size0 < bsize b then Inr (F1G_OK, b)
      else if bflag b = BUF_FLAG_REF then Inr (F1G_ERR, b)
      else
        let new_size = (if new_size0 \<le> 0 then 512 else new_size0) in
        case malloc a new_size of
          Live m \<Rightarrow>
            bindR (if blen b > 0
                   then bindR (deref (bbuf b)) (\<lambda>old. bindR (slice old 0 (blen b)) (put m 0))
                   else Inr m) (\<lambda>m'.
            freeR (bbuf b) (Inr (F1G_OK, b\<lparr>bbuf := Live m', bsize := new_size\<rparr>)))
        | _ \<Rightarrow> Inr (F1G_ERR, b))"

definition buffer_set :: "buffer \<Rightarrow> bytes ptr \<Rightarrow> int \<Rightarrow> int \<times> buffer" where
  "buffer_set b buf sz =
     (if bflag b = BUF_FLAG_ALLO then (F1G_ERR, b)
      else if bflag b = BUF_FLAG_REF then (F1G_OK, b\<lparr>bbuf := buf, bsize := sz\<rparr>)
      else (F1G_ERR, b))"

definition buffer_data_len :: "buffer option \<Rightarrow> int" where
  "buffer_data_len p = (case p of Some b \<Rightarrow> blen b | None \<Rightarrow> 0)"

definition buffer_data :: "buffer option \<Rightarrow> bytes ptr" where
  "buffer_data p = (case p of Some b \<Rightarrow> bbuf b | None \<Rightarrow> Null)"

definition buffer_size :: "buffer option \<Rightarrow> int" where
  "buffer_size p = (case p of Some b \<Rightarrow> bsize b | None \<Rightarrow> 0)"

definition buffer_cap :: "buffer \<Rightarrow> int" where
  "buffer_cap b = bsize b - blen b"

definition buffer_append ::
  "buffer option \<Rightarrow> bytes option \<Rightarrow> int \<Rightarrow> (int \<times> buffer option) run" where
  "buffer_append p p_data data_len =
     (case (p, p_data) of
        (Some b, Some d) \<Rightarrow>
          (let cap = buffer_cap b; len = (if cap \<ge> data_len then data_len else cap) in
           bindR (deref (bbuf b)) (\<lambda>m.
           bindR (slice d 0 len) (\<lambda>s.
           bindR (put m (nat (blen b)) s) (\<lambda>m1.
           bindR (wr m1 (nat (blen b + len)) 0) (\<lambda>m2.
             Inr (F1G_OK, Some (b\<lparr>bbuf := Live m2, blen := blen b + len\<rparr>)))))))
      | _ \<Rightarrow> Inr (F1G_ERR, p))"

text \<open>
  \<^verbatim>\<open>vsnprintf\<close> at offset \<open>off\<close> with room \<open>cap\<close>: at most \<open>cap - 1\<close> bytes of the
  formatted text and a NUL are stored when \<open>cap > 0\<close>, nothing when \<open>cap = 0\<close>; the result is the
  length of the whole text. \<open>None\<close> is an encoding error. A negative \<open>cap\<close> is converted to a
  huge \<^verbatim>\<open>size_t\<close>, so the whole text is stored.
\<close>

definition vsnprintf :: "bytes \<Rightarrow> nat \<Rightarrow> int \<Rightarrow> bytes option \<Rightarrow> (int \<times> bytes) run" where
  "vsnprintf m off cap out =
     (case out of
        None \<Rightarrow> Inr (- 1, m)
      | Some t \<Rightarrow>
          if cap = 0 then Inr (int (length t), m)
          else
            let stored = (if cap < 0 then t else take (nat cap - 1) t) in
            bindR (put m off (stored @ [0])) (\<lambda>m'. Inr (int (length t), m')))"

text \<open>\<open>out\<close> is the text the format and its arguments produce, the same in both calls.\<close>

definition buffer_append_format ::
  "u8 alloc \<Rightarrow> buffer \<Rightarrow> bytes option \<Rightarrow> (int \<times> buffer) run" where
  "buffer_append_format a b out =
     (let cap = buffer_cap b in
      bindR (deref (bbuf b)) (\<lambda>m.
      bindR (vsnprintf m (nat (blen b)) cap out) (\<lambda>(len, m1).
        let b1 = b\<lparr>bbuf := Live m1\<rparr>;
            finish = (\<lambda>b2 len2.
              bindR (deref (bbuf b2)) (\<lambda>m2.
              bindR (wr m2 (nat (blen b2 + len2)) 0) (\<lambda>m3.
                Inr (F1G_OK, b2\<lparr>blen := blen b2 + len2, bbuf := Live m3\<rparr>)))) in
        if len < 0 then Inr (F1G_ERR, b1)
        else if len > cap then
          bindR (buffer_enlarge a b1 (bsize b1 + len + 128)) (\<lambda>(r, b2).
            if r \<noteq> F1G_OK then Inr (F1G_ERR, b2)
            else
              bindR (deref (bbuf b2)) (\<lambda>m2.
              bindR (vsnprintf m2 (nat (blen b2)) cap out) (\<lambda>(len2, m3).
                finish (b2\<lparr>bbuf := Live m3\<rparr>) len2)))
        else finish b1 len)))"

definition buffer_clear :: "buffer option \<Rightarrow> (int \<times> buffer option) run" where
  "buffer_clear p =
     (case p of
        Some b \<Rightarrow>
          if bbuf b = Null then Inr (F1G_OK, p)
          else
            bindR (deref (bbuf b)) (\<lambda>m.
            bindR (wr m 0 0) (\<lambda>m'.
              Inr (F1G_OK, Some (b\<lparr>blen := 0, bbuf := Live m'\<rparr>))))
      | None \<Rightarrow> Inr (F1G_OK, None))"

definition buffer_destroy :: "buffer option \<Rightarrow> (int \<times> buffer option) run" where
  "buffer_destroy p =
     (case p of
        Some b \<Rightarrow>
          (if bflag b = 0 \<and> bbuf b \<noteq> Null then freeR (bbuf b) (Inr (F1G_OK, Some zero_buffer))
           else Inr (F1G_OK, Some zero_buffer))
      | None \<Rightarrow> Inr (F1G_OK, None))"

section \<open>Invariant and contents\<close>

definition buf_wf :: "buffer \<Rightarrow> bool" where
  "buf_wf b \<longleftrightarrow> 0 \<le> blen b \<and> blen b \<le> bsize b
     \<and> (\<exists>m. bbuf b = Live m \<and> length m = nat (bsize b))"

definition buf_text :: "buffer \<Rightarrow> bytes" where
  "buf_text b = (case bbuf b of Live m \<Rightarrow> take (nat (blen b)) m | _ \<Rightarrow> [])"

lemma buf_wfE:
  assumes "buf_wf b"
  obtains m where "bbuf b = Live m" "length m = nat (bsize b)" "0 \<le> blen b" "blen b \<le> bsize b"
    "nat (blen b) \<le> length m"
  using assms by (auto simp: buf_wf_def)

lemma buffer_init_wf:
  "0 \<le> sz \<Longrightarrow> buffer_init (Some g) b sz = (F1G_OK, b') \<Longrightarrow>
   buf_wf b' \<and> buf_text b' = [] \<and> bsize b' = sz \<and> bflag b' = BUF_FLAG_ALLO"
  by (auto simp: buffer_init_def buf_wf_def buf_text_def BUF_FLAG_ALLO_def)

lemma buffer_append_run:
  assumes "buf_wf b" and "0 \<le> n" and "nat n \<le> length d" and "blen b + n < bsize b"
  shows "\<exists>b'. buffer_append (Some b) (Some d) n = Inr (F1G_OK, Some b') \<and> buf_wf b'
    \<and> buf_text b' = buf_text b @ take (nat n) d \<and> bsize b' = bsize b \<and> bflag b' = bflag b"
proof -
  obtain m where m: "bbuf b = Live m" "length m = nat (bsize b)" "0 \<le> blen b" "nat (blen b) \<le> length m"
    using assms(1) by (rule buf_wfE)
  define m1 where "m1 = take (nat (blen b)) m @ take (nat n) d @ drop (nat (blen b) + nat n) m"
  have l1: "length m1 = length m" using m assms by (simp add: m1_def nat_add_distrib)
  have room: "nat (blen b) + nat n < length m" using m assms by linarith
  have p: "put m (nat (blen b)) (take (nat n) d) = Inr m1"
    using room assms(3) by (simp add: m1_def min_absorb2)
  define b' where "b' = b\<lparr>bbuf := Live (m1[nat (blen b + n) := 0]), blen := blen b + n\<rparr>"
  have run: "buffer_append (Some b) (Some d) n = Inr (F1G_OK, Some b')"
    using m assms room l1 p
    by (simp add: buffer_append_def buffer_cap_def Let_def b'_def nat_add_distrib)
  have "take (nat (blen b + n)) m1 = take (nat (blen b)) m @ take (nat n) d"
    using m assms room by (simp add: m1_def nat_add_distrib)
  then have "buf_text b' = buf_text b @ take (nat n) d"
    using m by (simp add: buf_text_def b'_def)
  moreover have "buf_wf b'" using m assms l1 by (simp add: buf_wf_def b'_def)
  ultimately show ?thesis using run by (simp add: b'_def)
qed

lemma buffer_append_overrun:
  assumes "buf_wf b" and "0 \<le> n" and "nat n \<le> length d" and "bsize b \<le> blen b + n"
  shows "buffer_append (Some b) (Some d) n = Inl OutOfBounds"
proof -
  obtain m where m: "bbuf b = Live m" "length m = nat (bsize b)" "0 \<le> blen b" "blen b \<le> bsize b"
    "nat (blen b) \<le> length m"
    using assms(1) by (rule buf_wfE)
  define len where "len = bsize b - blen b"
  have len: "0 \<le> len" "nat len \<le> length d" "nat (blen b) + nat len = length m"
    using m assms by (auto simp: len_def)
  have cut: "(if buffer_cap b \<ge> n then n else buffer_cap b) = len"
    using assms(4) by (auto simp: buffer_cap_def len_def)
  have p: "put m (nat (blen b)) (take (nat len) d) = Inr (take (nat (blen b)) m @ take (nat len) d)"
    using len by (simp add: min_absorb2)
  have e: "nat (blen b + len) = length m" using len m by linarith
  show ?thesis
    unfolding buffer_append_def option.case prod.case Let_def cut
    using m(1) len p by (simp add: e min_absorb2)
qed

text \<open>The buffer server operations rest on: clearing empties the text.\<close>

lemma buffer_clear_wf:
  assumes "buf_wf b" and "0 < bsize b"
  shows "\<exists>b'. buffer_clear (Some b) = Inr (F1G_OK, Some b') \<and> buf_wf b' \<and> buf_text b' = []
    \<and> bsize b' = bsize b"
  using assms by (auto simp: buffer_clear_def buf_wf_def buf_text_def)

section \<open>Growing\<close>

definition buf_grow :: "(nat \<Rightarrow> u8) \<Rightarrow> buffer \<Rightarrow> int \<Rightarrow> (int \<times> buffer) run" where
  "buf_grow g b n = buffer_enlarge (Some g) b n"

lemma buffer_enlarge_ok:
  assumes "buf_wf b" and "bflag b = BUF_FLAG_ALLO" and "bsize b < n"
  shows "\<exists>m'. buffer_enlarge (Some g) b n = Inr (F1G_OK, b\<lparr>bbuf := Live m', bsize := n\<rparr>)
    \<and> length m' = nat n \<and> take (nat (blen b)) m' = buf_text b"
proof -
  obtain m where m: "bbuf b = Live m" "length m = nat (bsize b)" "0 \<le> blen b" "blen b \<le> bsize b"
    "nat (blen b) \<le> length m"
    using assms(1) by (rule buf_wfE)
  define fresh where "fresh = map g [0..<nat n]"
  have fresh: "length fresh = nat n" by (simp add: fresh_def)
  have flag: "bflag b \<noteq> BUF_FLAG_REF" using assms(2) by (simp add: BUF_FLAG_ALLO_def BUF_FLAG_REF_def)
  have n: "\<not> n < bsize b" "0 < n" using assms(3) m by auto
  show ?thesis
  proof (cases "blen b > 0")
    case True
    define m' where "m' = take (nat (blen b)) m @ drop (nat (blen b)) fresh"
    have "put fresh 0 (take (nat (blen b)) m) = Inr m'"
      using fresh m n assms(3) by (simp add: m'_def min_absorb2)
    then have "buffer_enlarge (Some g) b n = Inr (F1G_OK, b\<lparr>bbuf := Live m', bsize := n\<rparr>)"
      using True flag n m fresh_def by (simp add: buffer_enlarge_def Let_def)
    moreover have "length m' = nat n" using fresh m n assms(3) by (simp add: m'_def)
    ultimately show ?thesis using m by (auto simp: m'_def buf_text_def)
  next
    case False
    then have "buffer_enlarge (Some g) b n = Inr (F1G_OK, b\<lparr>bbuf := Live fresh, bsize := n\<rparr>)"
      using flag n m fresh_def by (simp add: buffer_enlarge_def Let_def)
    then show ?thesis using False m fresh by (auto simp: buf_text_def)
  qed
qed

interpretation bg: growable "buf_grow g" buf_text bsize "\<lambda>b. buf_wf b \<and> bflag b = BUF_FLAG_ALLO"
proof
  fix b n
  assume inv: "buf_wf b \<and> bflag b = BUF_FLAG_ALLO" and n: "bsize b < n"
  obtain m' where m': "buffer_enlarge (Some g) b n = Inr (F1G_OK, b\<lparr>bbuf := Live m', bsize := n\<rparr>)"
      "length m' = nat n" "take (nat (blen b)) m' = buf_text b"
    using buffer_enlarge_ok inv n by blast
  then show "\<exists>s'. buf_grow g b n = Inr (F1G_OK, s') \<and> (buf_wf s' \<and> bflag s' = BUF_FLAG_ALLO)
      \<and> buf_text s' = buf_text b \<and> bsize s' = n"
    using inv n by (auto simp: buf_grow_def buf_wf_def buf_text_def)
qed

section \<open>Properties\<close>

text \<open>C39. \<^verbatim>\<open>buffer_append\<close> on a well-formed buffer appends the \<open>n\<close> given bytes, and
  keeps the buffer well-formed, exactly when they leave room for the terminating NUL; otherwise
  (also in the branch that truncates the data to the remaining capacity) the NUL is written one past
  the end of the block.\<close>

theorem buffer_append_iff_room:
  assumes "buf_wf b" and "0 \<le> n" and "nat n \<le> length d"
  shows "if blen b + n < bsize b
    then \<exists>b'. buffer_append (Some b) (Some d) n = Inr (F1G_OK, Some b') \<and> buf_wf b'
      \<and> buf_text b' = buf_text b @ take (nat n) d
    else buffer_append (Some b) (Some d) n = Inl OutOfBounds"
  using buffer_append_run [OF assms] buffer_append_overrun [OF assms] by auto

theorem buffer_append_iff_room_witness:
  "\<exists>b'. buffer_append (Some \<lparr>bflag = 0, bsize = 4, blen = 1, bbuf = Live [65, 0, 7, 7]\<rparr>)
      (Some [66, 67]) 2 = Inr (F1G_OK, Some b') \<and> buf_text b' = [65, 66, 67]"
proof -
  have "buf_wf \<lparr>bflag = 0, bsize = 4, blen = 1, bbuf = Live [65, 0, 7, 7]\<rparr>"
    by (simp add: buf_wf_def)
  from buffer_append_iff_room [OF this, of 2 "[66, 67]"] show ?thesis
    by (auto simp: buf_text_def)
qed

text \<open>\<^verbatim>\<open>buffer_append_format\<close> appends the whole formatted text only when it is
  shorter than the free room \<open>cap\<close>; a text of exactly \<open>cap\<close> bytes ends in a write past the block;
  a longer one enlarges the buffer and then formats again with the old room, so that only \<open>cap - 1\<close>
  bytes and a NUL are stored although the length counts the whole text.\<close>

theorem buffer_append_format_cases:
  assumes "buf_wf b" and "bflag b = BUF_FLAG_ALLO" and "blen b < bsize b"
  defines "cap \<equiv> nat (bsize b - blen b)"
  shows "if length t < cap
    then \<exists>b'. buffer_append_format (Some g) b (Some t) = Inr (F1G_OK, b') \<and> buf_wf b'
      \<and> buf_text b' = buf_text b @ t
    else if length t = cap
    then buffer_append_format (Some g) b (Some t) = Inl OutOfBounds
    else \<exists>b'. buffer_append_format (Some g) b (Some t) = Inr (F1G_OK, b')
      \<and> blen b' = blen b + int (length t)
      \<and> take (nat (bsize b)) (buf_text b') = buf_text b @ take (cap - 1) t @ [0]"
proof -
  obtain m where m: "bbuf b = Live m" "length m = nat (bsize b)" "0 \<le> blen b" "blen b \<le> bsize b"
    "nat (blen b) \<le> length m"
    using assms(1) by (rule buf_wfE)
  define l where "l = nat (blen b)"
  have l: "blen b = int l" "length m = l + cap" "0 < cap" "bsize b = int l + int cap"
    using m assms(3) by (auto simp: l_def cap_def)
  have bcap: "buffer_cap b = int cap" using l by (simp add: buffer_cap_def)
  show ?thesis
  proof (cases "length t < cap")
    case True
    define m1 where "m1 = take l m @ t @ [0] @ drop (l + length t + 1) m"
    have len: "length m1 = length m" using True l by (simp add: m1_def)
    have p: "put m l (t @ [0]) = Inr m1" using True l by (simp add: m1_def)
    define b' where "b' = b\<lparr>blen := blen b + int (length t), bbuf := Live (m1[l + length t := 0])\<rparr>"
    have "vsnprintf m l (int cap) (Some t) = Inr (int (length t), m1)"
      using True l p by (simp add: vsnprintf_def)
    then have "buffer_append_format (Some g) b (Some t) = Inr (F1G_OK, b')"
      using True l m len
      by (simp add: buffer_append_format_def bcap Let_def b'_def nat_add_distrib)
    moreover have "buf_text b' = buf_text b @ t"
      using l True m by (simp add: buf_text_def b'_def nat_add_distrib m1_def)
    moreover have "buf_wf b'" using l True m len by (simp add: buf_wf_def b'_def)
    ultimately show ?thesis using True by auto
  next
    case ge: False
    show ?thesis
    proof (cases "length t = cap")
      case True
      define m1 where "m1 = take l m @ take (cap - 1) t @ [0]"
      have p: "put m l (take (cap - 1) t @ [0]) = Inr m1"
        using True l by (simp add: m1_def min_absorb2)
      have len: "length m1 = l + cap" using True l by (simp add: m1_def min_absorb2)
      have "vsnprintf m l (int cap) (Some t) = Inr (int cap, m1)"
        using True l p by (simp add: vsnprintf_def)
      then have "buffer_append_format (Some g) b (Some t) = Inl OutOfBounds"
        using l m len by (simp add: buffer_append_format_def bcap Let_def nat_add_distrib)
      then show ?thesis using True by simp
    next
      case False
      then have gt: "cap < length t" using ge by simp
      define m1 where "m1 = take l m @ take (cap - 1) t @ [0]"
      have p: "put m l (take (cap - 1) t @ [0]) = Inr m1"
        using gt l by (simp add: m1_def min_absorb2)
      have len: "length m1 = l + cap" using gt l by (simp add: m1_def min_absorb2)
      have v1: "vsnprintf m l (int cap) (Some t) = Inr (int (length t), m1)"
        using gt l p by (simp add: vsnprintf_def)
      define b1 where "b1 = b\<lparr>bbuf := Live m1\<rparr>"
      define n where "n = bsize b + int (length t) + 128"
      have wf1: "buf_wf b1" "bflag b1 = BUF_FLAG_ALLO" "bsize b1 < n"
        using l len assms(2) by (simp_all add: b1_def buf_wf_def n_def)
      obtain m2 where e: "buffer_enlarge (Some g) b1 n = Inr (F1G_OK, b1\<lparr>bbuf := Live m2, bsize := n\<rparr>)"
        and m2: "length m2 = nat n" "take (nat (blen b1)) m2 = buf_text b1"
        using buffer_enlarge_ok [OF wf1] by blast
      have m2l: "take l m2 = take l m" using m2(2) l by (simp add: b1_def buf_text_def m1_def)
      have big: "l + length t < length m2" using m2(1) l by (simp add: n_def)
      define m3 where "m3 = take l m2 @ take (cap - 1) t @ [0] @ drop (l + cap) m2"
      have p3: "put m2 l (take (cap - 1) t @ [0]) = Inr m3"
        using gt l big by (simp add: m3_def min_absorb2)
      have v2: "vsnprintf m2 l (int cap) (Some t) = Inr (int (length t), m3)"
        using gt l p3 by (simp add: vsnprintf_def)
      have len3: "length m3 = length m2" using gt l big by (simp add: m3_def min_absorb2)
      define b' where "b' = b1\<lparr>bsize := n, blen := blen b + int (length t), bbuf := Live (m3[l + length t := 0])\<rparr>"
      have "buffer_append_format (Some g) b (Some t) = Inr (F1G_OK, b')"
        using gt l m v1 v2 e len3 big
        by (simp add: buffer_append_format_def bcap Let_def nat_add_distrib b1_def b'_def n_def)
      moreover have "take (l + cap) (m3[l + length t := 0]) = take l m @ take (cap - 1) t @ [0]"
        using gt l big by (simp add: m3_def m2l min_absorb2 min_absorb1)
      then have "take (nat (bsize b)) (buf_text b') = buf_text b @ take (cap - 1) t @ [0]"
        using l gt m by (simp add: buf_text_def b'_def nat_add_distrib min_absorb1)
      ultimately show ?thesis using gt by (auto simp: b'_def)
    qed
  qed
qed

theorem buffer_append_format_cases_witness:
  "\<exists>b'. buffer_append_format (Some (\<lambda>_. 9))
      \<lparr>bflag = 0, bsize = 4, blen = 1, bbuf = Live [65, 0, 7, 7]\<rparr> (Some [66, 67, 68, 69])
      = Inr (F1G_OK, b') \<and> blen b' = 5 \<and> take 4 (buf_text b') = [65, 66, 67, 0]"
proof -
  define b where "b = \<lparr>bflag = 0, bsize = 4, blen = 1, bbuf = Live [65, 0, 7, 7 :: u8]\<rparr>"
  have h: "buf_wf b" "bflag b = BUF_FLAG_ALLO" "blen b < bsize b"
    by (simp_all add: b_def buf_wf_def BUF_FLAG_ALLO_def)
  show ?thesis
    using buffer_append_format_cases [OF h, of "[66, 67, 68, 69]" "\<lambda>_. 9"]
    by (auto simp: b_def buf_text_def)
qed

end
