(* ===== verification/Fifo.thy ===== *)
theory Fifo
  imports Prelude
begin

text \<open>
  The contract of a bounded queue: what the ring buffer of \<^verbatim>\<open>f1g_queue.c\<close> promises to
  the accessor thread (which adds events) and to the worker threads (which take them).
\<close>

datatype 'a qop = Enq 'a | Deq

text \<open>The reference: a list that drops what does not fit. The second component is the output.\<close>

fun fifo_spec :: "nat \<Rightarrow> 'a list \<Rightarrow> 'a qop list \<Rightarrow> 'a list \<times> 'a list" where
  "fifo_spec n xs [] = (xs, [])"
| "fifo_spec n xs (Enq x # ops) = fifo_spec n (if length xs < n then xs @ [x] else xs) ops"
| "fifo_spec n [] (Deq # ops) = fifo_spec n [] ops"
| "fifo_spec n (x # xs) (Deq # ops) = (let (r, out) = fifo_spec n xs ops in (r, x # out))"

fun accepted :: "nat \<Rightarrow> 'a list \<Rightarrow> 'a qop list \<Rightarrow> 'a list" where
  "accepted n xs [] = []"
| "accepted n xs (Enq x # ops) =
     (if length xs < n then x # accepted n (xs @ [x]) ops else accepted n xs ops)"
| "accepted n [] (Deq # ops) = accepted n [] ops"
| "accepted n (x # xs) (Deq # ops) = accepted n xs ops"

text \<open>First in, first out: the output followed by what is left is the initial contents followed
  by the accepted elements, in their order.\<close>

lemma fifo_spec_order:
  "fifo_spec n xs ops = (rest, out) \<Longrightarrow> out @ rest = xs @ accepted n xs ops"
  by (induction n xs ops arbitrary: rest out rule: fifo_spec.induct)
    (auto split: if_splits prod.splits)

text \<open>Driving an implementation with a list of operations.\<close>

fun drive ::
  "('a \<Rightarrow> 'q \<Rightarrow> (int \<times> 'q) run) \<Rightarrow> ('q \<Rightarrow> 'a option run) \<Rightarrow> ('q \<Rightarrow> (int \<times> 'q) run) \<Rightarrow>
   'q \<Rightarrow> 'a qop list \<Rightarrow> ('q \<times> 'a list) run" where
  "drive enq peek deq q [] = Inr (q, [])"
| "drive enq peek deq q (Enq x # ops) = bindR (enq x q) (\<lambda>(r, q'). drive enq peek deq q' ops)"
| "drive enq peek deq q (Deq # ops) =
     bindR (peek q) (\<lambda>h. bindR (deq q) (\<lambda>(r, q').
     bindR (drive enq peek deq q' ops) (\<lambda>(q'', out).
       Inr (q'', (case h of None \<Rightarrow> out | Some x \<Rightarrow> x # out)))))"

locale bounded_fifo =
  fixes abs :: "'q \<Rightarrow> 'a list"
    and cap :: "'q \<Rightarrow> nat"
    and fits :: "'q \<Rightarrow> 'a \<Rightarrow> bool"
    and inv :: "'q \<Rightarrow> bool"
    and enq :: "'a \<Rightarrow> 'q \<Rightarrow> (int \<times> 'q) run"
    and peek :: "'q \<Rightarrow> 'a option run"
    and deq :: "'q \<Rightarrow> (int \<times> 'q) run"
  assumes enq_law:
    "inv q \<Longrightarrow> fits q x \<Longrightarrow> \<exists>r q'. enq x q = Inr (r, q') \<and> inv q' \<and> cap q' = cap q \<and> fits q' = fits q
       \<and> abs q' = (if length (abs q) < cap q then abs q @ [x] else abs q)"
    and peek_law: "inv q \<Longrightarrow> peek q = Inr (case abs q of [] \<Rightarrow> None | x # _ \<Rightarrow> Some x)"
    and deq_law:
    "inv q \<Longrightarrow> \<exists>r q'. deq q = Inr (r, q') \<and> inv q' \<and> cap q' = cap q \<and> fits q' = fits q
       \<and> abs q' = tl (abs q)"
begin

text \<open>Every run of operations is free of faults and computes what the reference computes.\<close>

lemma drive_refines:
  "inv q \<Longrightarrow> (\<And>x. Enq x \<in> set ops \<Longrightarrow> fits q x) \<Longrightarrow>
   \<exists>q' out. drive enq peek deq q ops = Inr (q', out) \<and> inv q'
     \<and> fifo_spec (cap q) (abs q) ops = (abs q', out)"
proof (induction ops arbitrary: q)
  case Nil
  then show ?case by simp
next
  case (Cons c ops)
  show ?case
  proof (cases c)
    case (Enq x)
    obtain r q' where e: "enq x q = Inr (r, q')" "inv q'" "cap q' = cap q" "fits q' = fits q"
      "abs q' = (if length (abs q) < cap q then abs q @ [x] else abs q)"
      using enq_law [OF Cons.prems(1), of x] Cons.prems(2) [of x] Enq by auto
    have "\<exists>q'' out. drive enq peek deq q' ops = Inr (q'', out) \<and> inv q''
        \<and> fifo_spec (cap q') (abs q') ops = (abs q'', out)"
      using Cons.IH [OF e(2)] Cons.prems(2) e(4) by simp
    then show ?thesis using e Enq by auto
  next
    case Deq
    obtain r q' where d: "deq q = Inr (r, q')" "inv q'" "cap q' = cap q" "fits q' = fits q"
      "abs q' = tl (abs q)"
      using deq_law [OF Cons.prems(1)] by blast
    have "\<exists>q'' out. drive enq peek deq q' ops = Inr (q'', out) \<and> inv q''
        \<and> fifo_spec (cap q') (abs q') ops = (abs q'', out)"
      using Cons.IH [OF d(2)] Cons.prems(2) d(4) by simp
    then show ?thesis using d Deq peek_law [OF Cons.prems(1)] by (cases "abs q") auto
  qed
qed

lemma drive_fifo:
  assumes "inv q" and "\<And>x. Enq x \<in> set ops \<Longrightarrow> fits q x"
  shows "\<exists>q' out. drive enq peek deq q ops = Inr (q', out) \<and> inv q'
    \<and> out @ abs q' = abs q @ accepted (cap q) (abs q) ops"
  using drive_refines [OF assms] fifo_spec_order by blast

end

end
