(* ===== verification/Queue.thy ===== *)
theory Queue
  imports Fifo
begin

text \<open>
  The ring buffer of \<^verbatim>\<open>src/f1g_queue.c\<close>. The block of memory is the list of its
  \<^verbatim>\<open>blk_num\<close> cells; a cell is the header \<^verbatim>\<open>elem_t\<close> and the data area behind it. A pointer to a
  cell is its number.
\<close>

section \<open>The struct and its operations\<close>

definition sizeof_elem :: int where
  "sizeof_elem = 8"

record elem =
  estatus :: int
  edata_len :: int
  edata :: bytes

record que_obj =
  front :: int
  tail :: int
  blk_size :: int
  blk_num :: int
  cells :: "elem list ptr"

text \<open>The value a signed number has after its conversion to \<^verbatim>\<open>size_t\<close>.\<close>

definition to_size_t :: "int \<Rightarrow> int" where
  "to_size_t x = x mod 2 ^ 64"

text \<open>Cells as \<^verbatim>\<open>malloc\<close> leaves them: headers and data indeterminate.\<close>

type_synonym cell_alloc = "(int \<times> int \<times> (nat \<Rightarrow> u8)) alloc"

definition raw_cell :: "int \<Rightarrow> int \<times> int \<times> (nat \<Rightarrow> u8) \<Rightarrow> elem" where
  "raw_cell sz = (\<lambda>(s, l, d). \<lparr>estatus = s, edata_len = l, edata = map d [0..<nat sz]\<rparr>)"

text \<open>
  The size asked for is a product of \<^verbatim>\<open>size_t\<close>: two negative factors give a small block, in which
  there is no cell to be used; a negative product is a size no allocator can serve. The size of a cell
  goes back to \<^verbatim>\<open>i32_t\<close> when it is stored.
\<close>

definition que_obj_init :: "cell_alloc \<Rightarrow> que_obj \<Rightarrow> int \<Rightarrow> int \<Rightarrow> int \<times> que_obj" where
  "que_obj_init a p sz num =
     (case (if (sz + sizeof_elem) * num < 0 then Null else malloc a (if 0 \<le> sz then num else 0)) of
        Live cs \<Rightarrow>
          (F1G_OK, p\<lparr>cells := Live (map (raw_cell sz) cs), blk_size := to_i32 (sz + sizeof_elem),
                     blk_num := num, tail := 0, front := 0\<rparr>)
      | _ \<Rightarrow> (F1G_ERR, p\<lparr>cells := Null\<rparr>))"

definition que_obj_create :: "bool \<Rightarrow> cell_alloc \<Rightarrow> int \<Rightarrow> int \<Rightarrow> que_obj option" where
  "que_obj_create ok a sz num =
     (if \<not> ok then None
      else let (r, p) = que_obj_init a
                 \<lparr>front = 0, tail = 0, blk_size = 0, blk_num = 0, cells = Null\<rparr> sz num in
           if r \<noteq> F1G_OK then None else Some p)"

definition que_obj_blk_size :: "que_obj \<Rightarrow> int" where
  "que_obj_blk_size p = blk_size p"

definition que_obj_blk_num :: "que_obj \<Rightarrow> int" where
  "que_obj_blk_num p = blk_num p"

definition que_obj_empty :: "que_obj \<Rightarrow> bool" where
  "que_obj_empty p \<longleftrightarrow> front p = tail p"

definition que_obj_full :: "que_obj \<Rightarrow> bool run" where
  "que_obj_full p =
     assertR (blk_num p \<noteq> 0) DivByZero (Inr (front p = (tail p + 1) mod blk_num p))"

text \<open>
  \<^verbatim>\<open>BLK_ADDR\<close>: the distance of cell \<open>i\<close> from the start of the buffer is a product of two \<^verbatim>\<open>i32_t\<close>.
  A pointer to a cell is its number, so the product is looked at where the pointer is used.
\<close>

definition blk_addr :: "que_obj \<Rightarrow> int \<Rightarrow> int run" where
  "blk_addr p i = i32R (i * blk_size p)"

definition cell_at :: "que_obj \<Rightarrow> int \<Rightarrow> elem run" where
  "cell_at p i =
     bindR (blk_addr p i) (\<lambda>a.
     bindR (deref (cells p)) (\<lambda>cs.
       if i < 0 \<or> a < 0 then Inl OutOfBounds else rd cs (nat i)))"

definition set_cell :: "que_obj \<Rightarrow> int \<Rightarrow> elem \<Rightarrow> que_obj run" where
  "set_cell p i e =
     bindR (blk_addr p i) (\<lambda>a.
     bindR (deref (cells p)) (\<lambda>cs.
     bindR (if i < 0 \<or> a < 0 then Inl OutOfBounds else wr cs (nat i) e) (\<lambda>cs'.
       Inr (p\<lparr>cells := Live cs'\<rparr>))))"

definition que_obj_pop :: "que_obj \<Rightarrow> (int \<times> que_obj) run" where
  "que_obj_pop p =
     (if front p \<noteq> tail p then
        bindR (cell_at p (front p)) (\<lambda>e.
        bindR (set_cell p (front p) (e\<lparr>edata_len := 0, estatus := 0\<rparr>)) (\<lambda>p'.
        assertR (blk_num p \<noteq> 0) DivByZero
          (Inr (F1G_OK, p'\<lparr>front := (front p + 1) mod blk_num p\<rparr>))))
      else Inr (F1G_OK, p))"

definition que_obj_add :: "que_obj \<Rightarrow> bytes \<Rightarrow> int \<Rightarrow> (int \<times> que_obj) run" where
  "que_obj_add p data data_size =
     (if to_size_t (blk_size p - sizeof_elem) < to_size_t data_size then Inr (F1G_ERR, p)
      else
        assertR (blk_num p \<noteq> 0) DivByZero
          (if (tail p + 1) mod blk_num p \<noteq> front p then
             bindR (cell_at p (tail p)) (\<lambda>e.
             bindR (slice data 0 data_size) (\<lambda>s.
             bindR (put (edata e) 0 s) (\<lambda>d.
             bindR (set_cell p (tail p) (e\<lparr>edata_len := data_size, estatus := 1, edata := d\<rparr>)) (\<lambda>p'.
               Inr (F1G_OK, p'\<lparr>tail := (tail p + 1) mod blk_num p\<rparr>)))))
           else Inr (F1G_OK, p)))"

definition que_obj_head :: "que_obj \<Rightarrow> int option" where
  "que_obj_head p = (if \<not> que_obj_empty p then Some (front p) else None)"

definition que_obj_tail :: "que_obj \<Rightarrow> int option" where
  "que_obj_tail p =
     (let t = tail p - 1 in
      if \<not> que_obj_empty p then Some (if t < 0 then blk_num p - 1 else t) else None)"

definition que_obj_next_freeblk :: "que_obj \<Rightarrow> int" where
  "que_obj_next_freeblk p = tail p"

definition que_obj_move_next :: "que_obj \<Rightarrow> (int \<times> que_obj) run" where
  "que_obj_move_next p =
     bindR (que_obj_full p) (\<lambda>full.
       if full then Inr (F1G_ERR, p)
       else Inr (F1G_OK, p\<lparr>tail := (tail p + 1) mod blk_num p\<rparr>))"

definition que_obj_destroy :: "que_obj \<Rightarrow> int \<times> que_obj" where
  "que_obj_destroy p = (F1G_OK, p)"

text \<open>\<^verbatim>\<open>BLK_DATA\<close> of a cell, cut to its \<^verbatim>\<open>BLK_DATA_LEN\<close>: what a consumer reads.\<close>

definition payload :: "elem \<Rightarrow> bytes" where
  "payload e = take (nat (edata_len e)) (edata e)"

section \<open>The abstract queue\<close>

definition que_count :: "que_obj \<Rightarrow> nat" where
  "que_count p = nat ((tail p - front p) mod blk_num p)"

definition que_cell :: "que_obj \<Rightarrow> nat \<Rightarrow> elem" where
  "que_cell p k = (case cells p of Live cs \<Rightarrow> cs ! nat ((front p + int k) mod blk_num p))"

definition que_list :: "que_obj \<Rightarrow> bytes list" where
  "que_list p = map (\<lambda>k. payload (que_cell p k)) [0..<que_count p]"

definition que_cap :: "que_obj \<Rightarrow> nat" where
  "que_cap p = nat (blk_num p) - 1"

definition que_inv :: "que_obj \<Rightarrow> bool" where
  "que_inv p \<longleftrightarrow> 0 < blk_num p \<and> 0 \<le> front p \<and> front p < blk_num p \<and> 0 \<le> tail p \<and> tail p < blk_num p
     \<and> sizeof_elem \<le> blk_size p \<and> blk_size p < 2 ^ 31 \<and> (blk_num p - 1) * blk_size p < 2 ^ 31
     \<and> (\<exists>cs. cells p = Live cs \<and> length cs = nat (blk_num p)
          \<and> (\<forall>e \<in> set cs. length (edata e) = nat (blk_size p - sizeof_elem)))"

text \<open>Arithmetic of the ring.\<close>

lemma ring_diff:
  assumes "0 \<le> f" "f < n" "0 \<le> t" "t < (n::int)"
  shows "(t - f) mod n = (if f \<le> t then t - f else t - f + n)"
proof (cases "f \<le> t")
  case False
  have "(t - f) mod n = (t - f + n) mod n" by simp
  also have "\<dots> = t - f + n" using assms False by (intro mod_pos_pos_trivial) auto
  finally show ?thesis using False by simp
qed (use assms in simp)

lemma ring_add:
  assumes "0 \<le> f" "f < n" "0 \<le> k" "k < (n::int)"
  shows "(f + k) mod n = (if f + k < n then f + k else f + k - n)"
proof (cases "f + k < n")
  case False
  have "(f + k) mod n = (f + k - n) mod n" by simp
  also have "\<dots> = f + k - n" using assms False by (intro mod_pos_pos_trivial) auto
  finally show ?thesis using False by simp
qed (use assms in simp)

lemma ring_succ:
  assumes "0 \<le> f" "f < (n::int)"
  shows "(f + 1) mod n = (if f + 1 < n then f + 1 else 0)"
  using assms by (cases "f + 1 = n") auto

lemma length_que_list [simp]: "length (que_list p) = que_count p"
  by (simp add: que_list_def)

lemma que_empty_iff: "que_inv p \<Longrightarrow> que_obj_empty p \<longleftrightarrow> que_list p = []"
  by (auto simp: que_inv_def que_obj_empty_def que_list_def que_count_def ring_diff split: if_splits)

lemma que_full_iff:
  assumes "que_inv p"
  shows "front p = (tail p + 1) mod blk_num p \<longleftrightarrow> \<not> que_count p < que_cap p"
  using assms by (auto simp: que_inv_def que_count_def que_cap_def ring_diff ring_succ)

lemma que_obj_full_run:
  "que_inv p \<Longrightarrow> que_obj_full p = Inr (\<not> que_count p < que_cap p)"
  by (simp add: que_obj_full_def que_full_iff) (simp add: que_inv_def assertR_def)

text \<open>The addresses of the cells are \<^verbatim>\<open>i32_t\<close> distances.\<close>

lemma blk_addr_ok:
  assumes "que_inv p" and "0 \<le> i" and "i < blk_num p"
  shows "blk_addr p i = Inr (i * blk_size p)" "0 \<le> i * blk_size p"
proof -
  have b: "0 \<le> blk_size p" "(blk_num p - 1) * blk_size p < 2 ^ 31"
    using assms(1) by (auto simp: que_inv_def sizeof_elem_def)
  have "i * blk_size p \<le> (blk_num p - 1) * blk_size p"
    using assms(3) b(1) by (intro mult_right_mono) auto
  moreover show "0 \<le> i * blk_size p" using assms(2) b(1) by simp
  ultimately show "blk_addr p i = Inr (i * blk_size p)" using b(2) by (simp add: blk_addr_def i32R_def)
qed

lemma cell_at_live:
  assumes "que_inv p" and "0 \<le> i" and "i < blk_num p" and "cells p = Live cs"
  shows "cell_at p i = rd cs (nat i)"
    and "set_cell p i e = bindR (wr cs (nat i) e) (\<lambda>cs'. Inr (p\<lparr>cells := Live cs'\<rparr>))"
  using assms blk_addr_ok [OF assms(1-3)] by (simp_all add: cell_at_def set_cell_def)

lemma cell_at_ok:
  assumes "que_inv p" and "0 \<le> i" and "i < blk_num p"
  shows "\<exists>cs. cells p = Live cs \<and> cell_at p i = Inr (cs ! nat i) \<and> nat i < length cs
    \<and> length (edata (cs ! nat i)) = nat (blk_size p - sizeof_elem)"
proof -
  obtain cs where cs: "cells p = Live cs" "length cs = nat (blk_num p)"
    "\<forall>e \<in> set cs. length (edata e) = nat (blk_size p - sizeof_elem)"
    using assms(1) by (auto simp: que_inv_def)
  have "nat i < length cs" using cs(2) assms by linarith
  then show ?thesis using cs cell_at_live(1) [OF assms cs(1)] by simp
qed

text \<open>Advancing the tail over a cell that holds \<open>x\<close>.\<close>

lemma que_push_tail:
  assumes "que_inv p" and "que_count p < que_cap p" and "cells p = Live cs"
    and "payload e = x" and "length (edata e) = nat (blk_size p - sizeof_elem)"
  defines "q \<equiv> p\<lparr>cells := Live (cs[nat (tail p) := e]), tail := (tail p + 1) mod blk_num p\<rparr>"
  shows "que_inv q \<and> que_list q = que_list p @ [x] \<and> que_cap q = que_cap p"
proof -
  define n where "n = blk_num p"
  define f where "f = front p"
  define t where "t = tail p"
  have b: "0 < n" "0 \<le> f" "f < n" "0 \<le> t" "t < n" "length cs = nat n"
    using assms(1,3) by (auto simp: que_inv_def n_def f_def t_def)
  have cnt: "int (que_count p) = (t - f) mod n" "int (que_count p) < n - 1"
    using assms(2) b by (simp_all add: que_count_def que_cap_def n_def t_def f_def)
  have qf: "blk_num q = n" "tail q = (t + 1) mod n" "front q = f" "cells q = Live (cs[nat t := e])"
    by (simp_all add: q_def n_def t_def f_def)
  have cnt': "que_count q = Suc (que_count p)"
    unfolding que_count_def [of q] qf using cnt b by (auto simp: ring_diff ring_succ split: if_splits)
  have at_t: "(f + int (que_count p)) mod n = t"
    using cnt b by (simp add: ring_diff ring_add split: if_splits)
  have not_t: "(f + int k) mod n \<noteq> t" if "k < que_count p" for k
  proof -
    have "int k < n" using that cnt by linarith
    then show ?thesis using that cnt b by (auto simp: ring_diff ring_add split: if_splits)
  qed
  have last: "que_cell q (que_count p) = e"
    using at_t b by (simp add: que_cell_def qf)
  have old: "que_cell q k = que_cell p k" if "k < que_count p" for k
  proof -
    have "nat ((f + int k) mod n) \<noteq> nat t" using not_t [OF that] b by (simp add: nat_eq_iff)
    then show ?thesis
      using assms(3) by (simp add: que_cell_def qf n_def [symmetric] f_def [symmetric])
  qed
  have "que_list q = que_list p @ [x]"
    using assms(4) by (simp add: que_list_def cnt' last old)
  moreover have "que_inv q"
    using assms(1,3,5) set_update_subset_insert [of cs "nat (tail p)" e] b
    by (auto simp: que_inv_def q_def n_def [symmetric])
  ultimately show ?thesis by (simp add: que_cap_def q_def)
qed

lemma to_size_t_small: "0 \<le> x \<Longrightarrow> x < 2 ^ 31 \<Longrightarrow> to_size_t x = x"
  unfolding to_size_t_def by (rule mod_pos_pos_trivial) simp_all

lemma que_obj_add_spec:
  assumes "que_inv p" and "int (length x) \<le> blk_size p - sizeof_elem"
  shows "\<exists>q. que_obj_add p x (int (length x)) = Inr (F1G_OK, q) \<and> que_inv q \<and> que_cap q = que_cap p
    \<and> blk_size q = blk_size p
    \<and> que_list q = (if que_count p < que_cap p then que_list p @ [x] else que_list p)"
proof -
  have b: "0 < blk_num p" "0 \<le> tail p" "tail p < blk_num p" "sizeof_elem \<le> blk_size p" "blk_size p < 2 ^ 31"
    using assms(1) by (auto simp: que_inv_def)
  have sz: "to_size_t (blk_size p - sizeof_elem) = blk_size p - sizeof_elem"
    "to_size_t (int (length x)) = int (length x)"
    using b assms(2) by (intro to_size_t_small; simp add: sizeof_elem_def)+
  show ?thesis
  proof (cases "que_count p < que_cap p")
    case True
    obtain cs where cs: "cells p = Live cs" "cell_at p (tail p) = Inr (cs ! nat (tail p))"
      "nat (tail p) < length cs" "length (edata (cs ! nat (tail p))) = nat (blk_size p - sizeof_elem)"
      using cell_at_ok [OF assms(1) b(2,3)] by blast
    define d where "d = x @ drop (length x) (edata (cs ! nat (tail p)))"
    define e where "e = (cs ! nat (tail p))\<lparr>edata_len := int (length x), estatus := 1, edata := d\<rparr>"
    have d: "put (edata (cs ! nat (tail p))) 0 x = Inr d" "length d = nat (blk_size p - sizeof_elem)"
      using cs(4) assms(2) by (simp_all add: d_def)
    define q where "q = p\<lparr>cells := Live (cs[nat (tail p) := e]), tail := (tail p + 1) mod blk_num p\<rparr>"
    have nf: "(tail p + 1) mod blk_num p \<noteq> front p"
      using True que_full_iff [OF assms(1)] by auto
    have "que_obj_add p x (int (length x)) = Inr (F1G_OK, q)"
      using cs d b sz nf assms(2) by (simp add: que_obj_add_def cell_at_live(2) [OF assms(1) b(2,3) cs(1)] e_def q_def)
    moreover have "que_inv q \<and> que_list q = que_list p @ [x] \<and> que_cap q = que_cap p"
      unfolding q_def
      using True cs(1) d by (intro que_push_tail [OF assms(1)]) (simp_all add: payload_def e_def d_def)
    ultimately show ?thesis using True by (simp add: q_def)
  next
    case False
    have "que_obj_add p x (int (length x)) = Inr (F1G_OK, p)"
      using False que_full_iff [OF assms(1)] b sz assms(2) by (simp add: que_obj_add_def)
    then show ?thesis using False assms(1) by simp
  qed
qed

section \<open>Taking elements\<close>

definition que_peek :: "que_obj \<Rightarrow> bytes option run" where
  "que_peek p =
     (case que_obj_head p of
        None \<Rightarrow> Inr None
      | Some i \<Rightarrow> bindR (cell_at p i) (\<lambda>e. Inr (Some (payload e))))"

lemma que_peek_spec:
  assumes "que_inv p"
  shows "que_peek p = Inr (case que_list p of [] \<Rightarrow> None | x # _ \<Rightarrow> Some x)"
proof (cases "que_list p = []")
  case True
  then show ?thesis
    using que_empty_iff [OF assms] by (simp add: que_peek_def que_obj_head_def)
next
  case False
  have b: "0 \<le> front p" "front p < blk_num p" using assms by (auto simp: que_inv_def)
  obtain cs where cs: "cells p = Live cs" "cell_at p (front p) = Inr (cs ! nat (front p))"
    using cell_at_ok [OF assms b] by blast
  have "0 < que_count p" using False length_que_list [of p] by (metis length_greater_0_conv)
  then have "que_list p = payload (que_cell p 0) # map (\<lambda>k. payload (que_cell p k)) [1..<que_count p]"
    by (simp add: que_list_def upt_conv_Cons)
  moreover have "que_cell p 0 = cs ! nat (front p)" using cs b by (simp add: que_cell_def)
  ultimately show ?thesis
    using False que_empty_iff [OF assms] cs by (simp add: que_peek_def que_obj_head_def)
qed

lemma que_obj_pop_spec:
  assumes "que_inv p"
  shows "\<exists>q. que_obj_pop p = Inr (F1G_OK, q) \<and> que_inv q \<and> que_cap q = que_cap p
    \<and> blk_size q = blk_size p \<and> que_list q = tl (que_list p)"
proof (cases "front p = tail p")
  case True
  then show ?thesis
    using assms que_empty_iff [OF assms] by (simp add: que_obj_pop_def que_obj_empty_def)
next
  case False
  define n where "n = blk_num p"
  define f where "f = front p"
  define t where "t = tail p"
  have b: "0 < n" "0 \<le> f" "f < n" "0 \<le> t" "t < n"
    using assms by (auto simp: que_inv_def n_def f_def t_def)
  obtain cs where cs: "cells p = Live cs" "cell_at p f = Inr (cs ! nat f)"
    "nat f < length cs" "length (edata (cs ! nat f)) = nat (blk_size p - sizeof_elem)"
    using cell_at_ok [OF assms] b by (auto simp: n_def f_def)
  define e where "e = (cs ! nat f)\<lparr>edata_len := 0, estatus := 0\<rparr>"
  define q where "q = p\<lparr>cells := Live (cs[nat f := e]), front := (f + 1) mod n\<rparr>"
  have qf: "blk_num q = n" "tail q = t" "front q = (f + 1) mod n" "cells q = Live (cs[nat f := e])"
    by (simp_all add: q_def n_def t_def)
  have run: "que_obj_pop p = Inr (F1G_OK, q)"
    using False cs b cell_at_live(2) [OF assms, of f] by (simp add: que_obj_pop_def f_def n_def q_def e_def)
  have cnt: "que_count p = Suc (que_count q)"
    unfolding que_count_def qf using False b
    by (auto simp: ring_diff ring_succ n_def [symmetric] t_def [symmetric] f_def [symmetric] split: if_splits)
  have bound: "int (que_count p) < n"
    using b by (simp add: que_count_def n_def)
  have "que_cell q k = que_cell p (Suc k)" if "k < que_count q" for k
  proof -
    have k: "int (Suc k) < n" using that cnt bound by linarith
    have idx: "((f + 1) mod n + int k) mod n = (f + int (Suc k)) mod n"
      using mod_add_left_eq [of "f + 1" n "int k"] by (simp add: add.commute add.left_commute)
    have "(f + int (Suc k)) mod n \<noteq> f" using k b by (auto simp: ring_add split: if_splits)
    then have "nat ((f + int (Suc k)) mod n) \<noteq> nat f" using b by (simp add: nat_eq_iff)
    then show ?thesis
      using cs(1) by (simp only: que_cell_def qf idx ptr.case n_def [symmetric] f_def [symmetric])
        (simp add: nth_list_update_neq)
  qed
  then have "que_list q = tl (que_list p)"
    by (simp add: que_list_def cnt upt_conv_Cons map_Suc_upt [symmetric] comp_def del: upt_Suc)
  moreover have "que_inv q"
    using assms cs b set_update_subset_insert [of cs "nat f" e]
    by (auto simp: que_inv_def q_def n_def [symmetric] e_def)
  ultimately show ?thesis using run by (auto simp: que_cap_def q_def)
qed

section \<open>The zero-copy producer\<close>

text \<open>Writing the cell at the tail does not change the queue; then the tail is moved on.\<close>

lemma que_set_tail_cell:
  assumes "que_inv p" and "length (edata e) = nat (blk_size p - sizeof_elem)"
  shows "\<exists>q. set_cell p (que_obj_next_freeblk p) e = Inr q \<and> que_inv q \<and> que_list q = que_list p
    \<and> que_count q = que_count p \<and> que_cap q = que_cap p
    \<and> blk_size q = blk_size p
    \<and> que_obj_move_next q = (if que_count p < que_cap p
         then Inr (F1G_OK, q\<lparr>tail := (tail p + 1) mod blk_num p\<rparr>) else Inr (F1G_ERR, q))
    \<and> (que_count p < que_cap p \<longrightarrow> que_inv (q\<lparr>tail := (tail p + 1) mod blk_num p\<rparr>)
         \<and> que_list (q\<lparr>tail := (tail p + 1) mod blk_num p\<rparr>) = que_list p @ [payload e]
         \<and> que_cap (q\<lparr>tail := (tail p + 1) mod blk_num p\<rparr>) = que_cap p)"
proof -
  define n where "n = blk_num p"
  define f where "f = front p"
  define t where "t = tail p"
  have b: "0 < n" "0 \<le> f" "f < n" "0 \<le> t" "t < n"
    using assms(1) by (auto simp: que_inv_def n_def f_def t_def)
  obtain cs where cs: "cells p = Live cs" "nat t < length cs"
    using cell_at_ok [OF assms(1)] b by (auto simp: n_def t_def)
  define q where "q = p\<lparr>cells := Live (cs[nat t := e])\<rparr>"
  have qf: "blk_num q = n" "tail q = t" "front q = f" "cells q = Live (cs[nat t := e])"
    by (simp_all add: q_def n_def t_def f_def)
  have run: "set_cell p (que_obj_next_freeblk p) e = Inr q"
    using cs b cell_at_live(2) [OF assms(1), of t] by (simp add: que_obj_next_freeblk_def n_def t_def q_def)
  have cnt: "que_count q = que_count p"
    by (simp add: que_count_def qf) (simp add: n_def t_def f_def)
  have "que_cell q k = que_cell p k" if "k < que_count p" for k
  proof -
    have "int k < (t - f) mod n"
      using that b by (simp add: que_count_def n_def t_def f_def)
    moreover from this b have "int k < n" by (meson less_trans pos_mod_bound)
    ultimately have "(f + int k) mod n \<noteq> t"
      using b by (auto simp: ring_diff ring_add split: if_splits)
    then have "nat ((f + int k) mod n) \<noteq> nat t" using b by (simp add: nat_eq_iff)
    then show ?thesis
      using cs(1) by (simp add: que_cell_def qf n_def [symmetric] f_def [symmetric])
  qed
  then have same: "que_list q = que_list p" by (simp add: que_list_def cnt)
  have inv: "que_inv q"
    using assms cs b set_update_subset_insert [of cs "nat t" e]
    by (auto simp: que_inv_def q_def n_def [symmetric])
  have cap: "que_cap q = que_cap p" by (simp add: que_cap_def q_def)
  have full: "que_obj_move_next q = (if que_count p < que_cap p
         then Inr (F1G_OK, q\<lparr>tail := (tail p + 1) mod blk_num p\<rparr>) else Inr (F1G_ERR, q))"
    using que_obj_full_run [OF inv] by (simp add: que_obj_move_next_def cnt cap qf n_def t_def)
  have push: "que_inv (q\<lparr>tail := (tail p + 1) mod blk_num p\<rparr>)
      \<and> que_list (q\<lparr>tail := (tail p + 1) mod blk_num p\<rparr>) = que_list p @ [payload e]
      \<and> que_cap (q\<lparr>tail := (tail p + 1) mod blk_num p\<rparr>) = que_cap p"
    if "que_count p < que_cap p"
    using que_push_tail [OF assms(1) that cs(1) refl assms(2)] by (simp add: q_def t_def)
  show ?thesis using run inv same cnt cap full push by (auto simp: q_def)
qed

section \<open>The contract\<close>

definition que_fits :: "que_obj \<Rightarrow> bytes \<Rightarrow> bool" where
  "que_fits p x \<longleftrightarrow> int (length x) \<le> blk_size p - sizeof_elem"

definition que_put :: "bytes \<Rightarrow> que_obj \<Rightarrow> (int \<times> que_obj) run" where
  "que_put x p = que_obj_add p x (int (length x))"

interpretation rq: bounded_fifo que_list que_cap que_fits que_inv que_put que_peek que_obj_pop
proof
  fix p :: que_obj and x :: bytes
  assume inv: "que_inv p" and fits: "que_fits p x"
  obtain q where "que_obj_add p x (int (length x)) = Inr (F1G_OK, q)" "que_inv q"
    "que_cap q = que_cap p" "blk_size q = blk_size p"
    "que_list q = (if que_count p < que_cap p then que_list p @ [x] else que_list p)"
    using que_obj_add_spec [OF inv] fits by (auto simp: que_fits_def)
  then show "\<exists>r q'. que_put x p = Inr (r, q') \<and> que_inv q' \<and> que_cap q' = que_cap p
      \<and> que_fits q' = que_fits p
      \<and> que_list q' = (if length (que_list p) < que_cap p then que_list p @ [x] else que_list p)"
    by (simp add: que_put_def que_fits_def fun_eq_iff)
next
  fix p :: que_obj
  assume inv: "que_inv p"
  then show "que_peek p = Inr (case que_list p of [] \<Rightarrow> None | x # _ \<Rightarrow> Some x)"
    by (rule que_peek_spec)
  obtain q where "que_obj_pop p = Inr (F1G_OK, q)" "que_inv q" "que_cap q = que_cap p"
    "blk_size q = blk_size p" "que_list q = tl (que_list p)"
    using que_obj_pop_spec [OF inv] by blast
  then show "\<exists>r q'. que_obj_pop p = Inr (r, q') \<and> que_inv q' \<and> que_cap q' = que_cap p
      \<and> que_fits q' = que_fits p \<and> que_list q' = tl (que_list p)"
    by (simp add: que_fits_def fun_eq_iff)
qed

lemma que_obj_create_inv:
  assumes "0 < num" and "0 \<le> sz" and "sz + sizeof_elem < 2 ^ 31" and "(num - 1) * (sz + sizeof_elem) < 2 ^ 31"
  shows "\<exists>p. que_obj_create True (Some g) sz num = Some p \<and> que_inv p \<and> que_list p = []
    \<and> que_cap p = nat num - 1 \<and> blk_size p = sz + sizeof_elem"
proof -
  have nn: "((sz + sizeof_elem) * num < 0) = False" using assms(1,2) by (simp add: not_less sizeof_elem_def)
  show ?thesis
    using assms
    by (simp add: que_obj_create_def que_obj_init_def nn)
      (auto simp: sizeof_elem_def que_inv_def que_list_def que_count_def que_cap_def raw_cell_def split: prod.splits)
qed

text \<open>A queue that is larger: its cells behind the bound cannot be reached.\<close>

lemma cell_at_overflow:
  assumes "2 ^ 31 \<le> i * blk_size p"
  shows "cell_at p i = Inl Overflow" "set_cell p i e = Inl Overflow"
  using assms by (simp_all add: cell_at_def set_cell_def blk_addr_def i32R_def)

section \<open>Properties\<close>

text \<open>C1. A queue of \<open>num\<close> cells whose last one begins less than \<open>2\<^sup>3\<^sup>1\<close> bytes behind the first, driven
  from its creation by any sequence of additions (of elements that fit a cell) and removals, never
  faults, and is a first-in-first-out list of capacity \<open>num - 1\<close>: what was taken followed by what is
  left is what was accepted, in order.\<close>

theorem queue_is_fifo:
  assumes "0 < num" and "0 \<le> sz" and "sz < 2 ^ 31 - sizeof_elem"
    and "(num - 1) * (sz + sizeof_elem) < 2 ^ 31"
    and "\<And>x. Enq x \<in> set ops \<Longrightarrow> int (length x) \<le> sz"
  shows "\<exists>p q out. que_obj_create True (Some g) sz num = Some p
    \<and> drive que_put que_peek que_obj_pop p ops = Inr (q, out)
    \<and> out @ que_list q = accepted (nat num - 1) [] ops \<and> length (que_list q) \<le> nat num - 1"
proof -
  obtain p where p: "que_obj_create True (Some g) sz num = Some p" "que_inv p" "que_list p = []"
    "que_cap p = nat num - 1" "blk_size p = sz + sizeof_elem"
    using que_obj_create_inv assms by force
  obtain q out where q: "drive que_put que_peek que_obj_pop p ops = Inr (q, out)" "que_inv q"
    "fifo_spec (que_cap p) (que_list p) ops = (que_list q, out)"
    using rq.drive_refines [OF p(2), of ops] assms(5) p(5) by (force simp: que_fits_def)
  have len: "length xs \<le> n \<Longrightarrow> fifo_spec n xs ops' = (r, out') \<Longrightarrow> length r \<le> n"
    for n and xs :: "bytes list" and ops' r out'
    by (induction n xs ops' arbitrary: r out' rule: fifo_spec.induct) (auto split: if_splits prod.splits)
  show ?thesis
    using p q fifo_spec_order [OF q(3)] len [OF _ q(3)] by (intro exI [of _ p] exI [of _ q] exI [of _ out]) simp
qed

theorem queue_is_fifo_witness:
  "\<exists>p q out. que_obj_create True (Some (\<lambda>_. (0, 0, \<lambda>_. 0))) 16 3 = Some p
    \<and> drive que_put que_peek que_obj_pop p [Enq [1], Enq [2, 2], Deq, Enq [3]] = Inr (q, out)
    \<and> out @ que_list q = [[1], [2, 2], [3]]"
proof -
  have "\<And>x. Enq x \<in> set [Enq [1], Enq [2, 2], Deq, Enq [3 :: u8]] \<Longrightarrow> int (length x) \<le> 16"
    by auto
  from queue_is_fifo [of 3 16 "[Enq [1], Enq [2, 2], Deq, Enq [3]]" "\<lambda>_. (0, 0, \<lambda>_. 0)", OF _ _ _ _ this]
  show ?thesis
    by (simp add: sizeof_elem_def del: drive.simps) blast
qed

text \<open>The outcomes of \<^verbatim>\<open>que_obj_add\<close>: data larger than a cell is refused; data that
  fits is appended; a full queue silently drops it, and the caller gets \<^verbatim>\<open>F1G_OK\<close> all the
  same.\<close>

theorem que_obj_add_outcomes:
  assumes "que_inv p" and "int (length x) < 2 ^ 31"
  shows "if blk_size p - sizeof_elem < int (length x)
    then que_obj_add p x (int (length x)) = Inr (F1G_ERR, p)
    else if length (que_list p) < que_cap p
    then \<exists>q. que_obj_add p x (int (length x)) = Inr (F1G_OK, q) \<and> que_inv q \<and> que_list q = que_list p @ [x]
    else \<exists>q. que_obj_add p x (int (length x)) = Inr (F1G_OK, q) \<and> que_inv q \<and> que_list q = que_list p"
proof (cases "blk_size p - sizeof_elem < int (length x)")
  case True
  have "0 \<le> blk_size p - sizeof_elem" "blk_size p - sizeof_elem < 2 ^ 31"
    using assms by (auto simp: que_inv_def sizeof_elem_def)
  then have "to_size_t (blk_size p - sizeof_elem) < to_size_t (int (length x))"
    using True assms(2) by (simp add: to_size_t_small)
  then show ?thesis using True by (simp add: que_obj_add_def)
next
  case False
  then show ?thesis using que_obj_add_spec [OF assms(1), of x] by auto
qed

theorem que_obj_add_outcomes_witness:
  "\<exists>q. que_obj_add \<lparr>front = 0, tail = 1, blk_size = 10, blk_num = 2,
        cells = Live [\<lparr>estatus = 1, edata_len = 1, edata = [7, 0]\<rparr>, \<lparr>estatus = 0, edata_len = 0, edata = [0, 0]\<rparr>]\<rparr>
      [5, 5] 2 = Inr (F1G_OK, q) \<and> que_list q = [[7]]"
proof -
  define p where "p = \<lparr>front = 0, tail = 1, blk_size = 10, blk_num = 2,
    cells = Live [\<lparr>estatus = 1, edata_len = 1, edata = [7, 0]\<rparr>, \<lparr>estatus = 0, edata_len = 0, edata = [0, 0 :: u8]\<rparr>]\<rparr>"
  have inv: "que_inv p" by (simp add: p_def que_inv_def sizeof_elem_def)
  have l: "que_list p = [[7]]" "que_cap p = 1" "blk_size p - sizeof_elem = 2"
    by (simp_all add: p_def que_list_def que_count_def que_cell_def payload_def que_cap_def sizeof_elem_def)
  show ?thesis
    using que_obj_add_outcomes [OF inv, of "[5, 5]"] l by (auto simp: p_def)
qed

end
