(* ===== verification/Net_Forge.thy ===== *)
theory Net_Forge
  imports Prelude
begin

text \<open>
  The packet builder of \<^verbatim>\<open>src/f1g_net_forge.c\<close>: the internet checksum, the TCP checksum and
  the IP and TCP headers, byte by byte, for a little-endian machine.
\<close>

section \<open>The checksum\<close>

text \<open>The loop over 16 bit words: \<open>w\<close> is the offset read next, \<open>nleft\<close> the bytes left.\<close>

function sum_loop :: "bytes \<Rightarrow> nat \<Rightarrow> nat \<Rightarrow> int \<Rightarrow> int run" where
  "sum_loop m w nleft s =
     (if nleft > 1 then
        bindR (rd m w) (\<lambda>lo. bindR (rd m (w + 1)) (\<lambda>hi.
          sum_loop m (w + 2) (nleft - 2) (s + (uint lo + 256 * uint hi))))
      else if nleft = 1 then bindR (rd m w) (\<lambda>b. Inr (s + uint b))
      else Inr s)"
  by pat_completeness auto
termination
  by (relation "measure (\<lambda>(m, w, nleft, s). nleft)") auto

declare sum_loop.simps [simp del]

text \<open>Folding the carries; the complement of an \<open>int\<close> is \<open>- s - 1\<close>, cut to 16 bits.\<close>

definition fold_carry :: "int \<Rightarrow> int" where
  "fold_carry s = (let s1 = s div 65536 + s mod 65536 in s1 + s1 div 65536)"

definition chk_sum :: "bytes option \<Rightarrow> u16 \<Rightarrow> u16 run" where
  "chk_sum addr len =
     (case addr of
        None \<Rightarrow> Inr (- 1)
      | Some m \<Rightarrow> bindR (sum_loop m 0 (unat len) 0) (\<lambda>s. Inr (word_of_int (- fold_carry s - 1))))"

definition chk_sum2 :: "bytes option \<Rightarrow> u16 \<Rightarrow> int run" where
  "chk_sum2 addr len =
     (case addr of None \<Rightarrow> Inr (- 1) | Some m \<Rightarrow> sum_loop m 0 (unat len) 0)"

definition le16 :: "u16 \<Rightarrow> bytes" where
  "le16 x = [ucast x, ucast (drop_bit 8 x)]"

definition le32 :: "u32 \<Rightarrow> bytes" where
  "le32 x = [ucast x, ucast (drop_bit 8 x), ucast (drop_bit 16 x), ucast (drop_bit 24 x)]"

text \<open>\<^verbatim>\<open>htons\<close>: the bytes swapped.\<close>

definition htons :: "u16 \<Rightarrow> u16" where
  "htons x = word_rcat [ucast x :: u8, ucast (drop_bit 8 x) :: u8]"

text \<open>
  \<^verbatim>\<open>psuedo_hdr_t\<close> in memory: the two addresses, the place holder, the protocol, two bytes of
  padding that no statement writes (\<open>pad\<close>), and the 32 bit length field.
\<close>

definition psuedo_hdr :: "u8 \<Rightarrow> u16 \<Rightarrow> u32 \<Rightarrow> u32 \<Rightarrow> u8 \<times> u8 \<Rightarrow> bytes" where
  "psuedo_hdr proto len src_ip dst_ip pad =
     le32 src_ip @ le32 dst_ip @ [0, proto] @ [fst pad, snd pad] @ le32 (ucast (htons len))"

definition tcp_chk_sum :: "u8 \<Rightarrow> bytes \<Rightarrow> u16 \<Rightarrow> u32 \<Rightarrow> u32 \<Rightarrow> u8 \<times> u8 \<Rightarrow> u16 run" where
  "tcp_chk_sum proto packet len src_ip dst_ip pad =
     bindR (chk_sum (Some (psuedo_hdr proto len src_ip dst_ip pad)) 16) (\<lambda>a.
     bindR (chk_sum (Some packet) len) (\<lambda>b.
       Inr (word_of_int (- fold_carry (uint a + uint b) - 1))))"

section \<open>The packet\<close>

definition TCP_FLAG_FIN :: u8 where "TCP_FLAG_FIN = 0x01"
definition TCP_FLAG_PSH :: u8 where "TCP_FLAG_PSH = 0x08"
definition TCP_FLAG_ACK :: u8 where "TCP_FLAG_ACK = 0x10"

record net_forge_para =
  p_seq :: u32
  p_ack :: u32
  p_src_ip :: u32
  p_dst_ip :: u32
  p_dst_port :: u16
  p_src_port :: u16
  p_tcp_flag :: u8
  p_load_len :: u16

definition has_flag :: "net_forge_para \<Rightarrow> u8 \<Rightarrow> bool" where
  "has_flag para f \<longleftrightarrow> and (p_tcp_flag para) f \<noteq> 0"

text \<open>The 20 bytes of the IP header with the given checksum field.\<close>

definition ip_hdr :: "net_forge_para \<Rightarrow> u16 \<Rightarrow> u16 \<Rightarrow> u16 \<Rightarrow> bytes" where
  "ip_hdr para pid pack_len check =
     [0x45, 0] @ le16 (htons pack_len) @ le16 (htons pid) @ [0, 0] @ [255, 6] @ le16 check
     @ le32 (p_src_ip para) @ le32 (p_dst_ip para)"

definition tcp_flags :: "net_forge_para \<Rightarrow> u8" where
  "tcp_flags para =
     (if has_flag para TCP_FLAG_FIN then 0x01 else 0)
     + (if has_flag para TCP_FLAG_PSH then 0x08 else 0)
     + (if has_flag para TCP_FLAG_ACK then 0x10 else 0)"

definition tcp_hdr :: "net_forge_para \<Rightarrow> u16 \<Rightarrow> bytes" where
  "tcp_hdr para check =
     le16 (p_src_port para) @ le16 (p_dst_port para) @ le32 (p_seq para) @ le32 (p_ack para)
     @ [0x50, tcp_flags para] @ le16 (htons 1024) @ le16 check @ [0, 0]"

text \<open>
  The buffer and the length after the call: the two headers are built in place, the load that
  is already behind them is left as it is. \<open>pid\<close> is the result of \<^verbatim>\<open>getpid\<close>.
\<close>

definition net_forge_tcp_packet ::
  "bytes \<Rightarrow> net_forge_para \<Rightarrow> u16 \<Rightarrow> u8 \<times> u8 \<Rightarrow> (int \<times> u16 \<times> bytes) run" where
  "net_forge_tcp_packet buf para pid pad =
     (let pack_len = 20 + 20 + p_load_len para in
      bindR (put buf 0 (ip_hdr para pid pack_len 0)) (\<lambda>m1.
      bindR (chk_sum (Some m1) 20) (\<lambda>c.
      bindR (put m1 0 (ip_hdr para pid pack_len c)) (\<lambda>m2.
      bindR (put m2 20 (tcp_hdr para 0)) (\<lambda>m3.
      bindR (tcp_chk_sum 6 (drop 20 m3) (20 + p_load_len para) (p_src_ip para) (p_dst_ip para) pad) (\<lambda>t.
      bindR (put m3 20 (tcp_hdr para t)) (\<lambda>m4.
        Inr (F1G_OK, pack_len, m4))))))))"

section \<open>The sum of the words\<close>

fun wsum :: "bytes \<Rightarrow> int" where
  "wsum [] = 0"
| "wsum [a] = uint a"
| "wsum (a # b # m) = uint a + 256 * uint b + wsum m"

lemma uint_u8: "0 \<le> uint (x::u8)" "uint x < 256"
  using uint_bounded [of x] by simp_all

lemma wsum_nonneg: "0 \<le> wsum m"
  by (induction m rule: wsum.induct) simp_all

lemma wsum_bound: "2 * wsum m \<le> 65535 * int (length m) + 255"
proof (induction m rule: wsum.induct)
  case 1
  then show ?case by simp
next
  case (2 a)
  show ?case using uint_u8 [of a] by simp
next
  case (3 a b m)
  then show ?case using uint_u8 [of a] uint_u8 [of b] by simp
qed

lemma wsum_append: "even (length a) \<Longrightarrow> wsum (a @ b) = wsum a + wsum b"
  by (induction a rule: wsum.induct) simp_all

lemma drop_two: "Suc w < length m \<Longrightarrow> drop w m = m ! w # m ! Suc w # drop (Suc (Suc w)) m"
  by (metis Cons_nth_drop_Suc Suc_lessD)

lemma sum_loop_steps:
  "sum_loop m w 0 s = Inr s"
  "w < length m \<Longrightarrow> sum_loop m w (Suc 0) s = Inr (s + uint (m ! w))"
  "Suc w < length m \<Longrightarrow> sum_loop m w (Suc (Suc k)) s
     = sum_loop m (Suc (Suc w)) k (s + (uint (m ! w) + 256 * uint (m ! Suc w)))"
  by (subst sum_loop.simps, simp)+

lemma sum_loop_wsum:
  "w + n \<le> length m \<Longrightarrow> sum_loop m w n s = Inr (s + wsum (take n (drop w m)))"
proof (induction n arbitrary: w s rule: less_induct)
  case (less n)
  consider (none) "n = 0" | (one) "n = Suc 0" | (more) k where "n = Suc (Suc k)"
    by (metis not0_implies_Suc)
  then show ?case
  proof cases
    case none
    then show ?thesis by (simp add: sum_loop_steps)
  next
    case one
    then have w: "w < length m" using less.prems by simp
    then have "take n (drop w m) = [m ! w]"
      using one by (simp add: Cons_nth_drop_Suc [symmetric])
    then show ?thesis using w one by (simp add: sum_loop_steps)
  next
    case more
    then have w: "Suc w < length m" using less.prems by linarith
    have "sum_loop m (Suc (Suc w)) k t = Inr (t + wsum (take k (drop (Suc (Suc w)) m)))" for t
      using less.prems more by (intro less.IH) simp_all
    then show ?thesis
      unfolding drop_two [OF w] more using w by (simp add: sum_loop_steps)
  qed
qed

lemma chk_sum_wsum:
  "unat len \<le> length m \<Longrightarrow>
   chk_sum (Some m) len = Inr (word_of_int (- fold_carry (wsum (take (unat len) m)) - 1))"
  by (simp add: chk_sum_def sum_loop_wsum)

text \<open>The folded sum is the representative in \<open>0..65535\<close>, zero only for zero.\<close>

lemma fold_carry_cases:
  assumes "0 \<le> s" and "s < 2 ^ 31"
  defines "f \<equiv> fold_carry s mod 65536"
  shows "0 \<le> f" and "f < 65536" and "f mod 65535 = s mod 65535" and "f = 0 \<longleftrightarrow> s = 0"
proof -
  define a where "a = s div 65536"
  define b where "b = s mod 65536"
  define s1 where "s1 = a + b"
  have ab: "0 \<le> a" "a \<le> 32767" "0 \<le> b" "b < 65536" "s = 65536 * a + b"
    using assms(1,2) by (simp_all add: a_def b_def)
  then have s: "s = s1 + 65535 * a" by (simp add: s1_def)
  have f: "f = (if s1 < 65536 then s1 else s1 - 65535)"
  proof (cases "s1 < 65536")
    case True
    then show ?thesis
      using ab by (simp add: f_def fold_carry_def Let_def a_def [symmetric] b_def [symmetric] s1_def)
  next
    case False
    then have "s1 div 65536 = 1" using ab by (simp add: s1_def div_pos_geq)
    moreover have "(s1 + 1) mod 65536 = s1 + 1 - 65536"
      using False ab by (simp add: s1_def mod_pos_geq)
    ultimately show ?thesis
      using False by (simp add: f_def fold_carry_def Let_def a_def [symmetric] b_def [symmetric] s1_def [symmetric])
  qed
  show "0 \<le> f" "f < 65536" by (simp_all add: f_def)
  have m: "s mod 65535 = s1 mod 65535" by (simp add: s)
  show "f mod 65535 = s mod 65535"
    using f m minus_mod_self2 [of s1 65535] by simp
  show "f = 0 \<longleftrightarrow> s = 0" using f ab by (simp add: s1_def split: if_splits) linarith+
qed

lemma uint_complement: "uint (word_of_int (- f - 1) :: u16) = 65535 - f mod 65536"
proof -
  have "- f - 1 = (65535 - f mod 65536) + 65536 * (- (f div 65536) - 1)"
    using div_mult_mod_eq [of f 65536] by (simp add: algebra_simps)
  then have "(- f - 1) mod 65536 = (65535 - f mod 65536) mod 65536"
    by (metis mod_mult_self2)
  moreover have "(65535 - f mod 65536) mod 65536 = 65535 - f mod 65536"
    by (rule mod_pos_pos_trivial) (simp_all add: pos_mod_bound le_diff_eq)
  moreover have "uint (word_of_int (- f - 1) :: u16) = (- f - 1) mod 65536"
    by (simp only: uint_word_of_int) simp
  ultimately show ?thesis by simp
qed

lemma wsum_le16: "wsum (le16 c) = uint c"
proof -
  have lo: "uint (ucast c :: u8) = uint c mod 256"
    by (simp add: unsigned_ucast_eq take_bit_eq_mod)
  have hi: "uint (ucast (drop_bit 8 c) :: u8) = uint c div 256 mod 256"
    by (simp add: unsigned_ucast_eq take_bit_eq_mod uint_div_distrib flip: drop_bit_eq_div)
      (simp add: drop_bit_eq_div uint_div_distrib)
  have "uint c < 65536" "0 \<le> uint c" using uint_bounded [of c] by simp_all
  then have "uint c div 256 mod 256 = uint c div 256"
    by (intro mod_pos_pos_trivial) (simp_all add: pos_imp_zdiv_nonneg_iff)
  then show ?thesis unfolding le16_def wsum.simps lo hi by simp
qed

section \<open>Properties\<close>

definition csum :: "bytes \<Rightarrow> u16" where
  "csum m = word_of_int (- fold_carry (wsum m) - 1)"

lemma wsum_no_overflow:
  assumes "length m \<le> 65535"
  shows "wsum m < 2 ^ 31"
  using wsum_bound [of m] assms by simp

lemma csum_value:
  assumes "length m \<le> 65535"
  shows "\<exists>f. 0 \<le> f \<and> f < 65536 \<and> f mod 65535 = wsum m mod 65535 \<and> (f = 0 \<longleftrightarrow> wsum m = 0)
    \<and> uint (csum m) = 65535 - f"
  unfolding csum_def uint_complement
  by (rule exI [of _ "fold_carry (wsum m) mod 65536"])
    (use fold_carry_cases [OF wsum_nonneg wsum_no_overflow [OF assms]] in blast)

text \<open>The checksum is the opposite of the sum, modulo 65535.\<close>

lemma csum_dvd:
  assumes "length m \<le> 65535"
  shows "65535 dvd uint (csum m) + wsum m"
proof -
  obtain f where "f mod 65535 = wsum m mod 65535" "uint (csum m) = 65535 - f"
    using csum_value [OF assms] by blast
  then have "65535 dvd f - wsum m" "uint (csum m) + wsum m = 65535 - (f - wsum m)"
    by (simp_all add: mod_eq_dvd_iff)
  then show ?thesis by (metis dvd_diff dvd_refl)
qed

lemma chk_sum_csum:
  assumes "unat len \<le> length m"
  shows "chk_sum (Some m) len = Inr (csum (take (unat len) m))"
  using chk_sum_wsum [OF assms] by (simp add: csum_def)

text \<open>A sum that is a multiple of 65535 and not zero has checksum zero.\<close>

lemma csum_eq_0:
  assumes "length m \<le> 65535" and "wsum m mod 65535 = 0" and "wsum m \<noteq> 0"
  shows "csum m = 0"
proof -
  obtain f where f: "0 \<le> f" "f < 65536" "f mod 65535 = 0" "f \<noteq> 0" "uint (csum m) = 65535 - f"
    using csum_value [OF assms(1)] assms(2,3) by metis
  then have "f = 65535"
    using mod_pos_pos_trivial [of f 65535] by linarith
  then show ?thesis using f(5) by (simp add: uint_0_iff)
qed

lemma csum_stored:
  assumes "even (length a)" and "length a + length b \<le> 65533"
  shows "csum (a @ le16 (csum (a @ [0, 0] @ b)) @ b) = 0"
proof -
  let ?z = "a @ [0, 0] @ b" and ?c = "csum (a @ [0, 0] @ b)"
  have l: "length ?z \<le> 65535" "length (a @ le16 ?c @ b) \<le> 65535" "even (length (le16 ?c))"
    using assms(2) by (simp_all add: le16_def)
  have w0: "wsum ?z = wsum a + wsum b"
    using assms(1) by (simp add: wsum_append)
  have w1: "wsum (a @ le16 ?c @ b) = wsum ?z + uint ?c"
    using assms(1) l(3) by (simp add: w0 wsum_append wsum_le16)
  obtain f where f: "0 \<le> f" "f < 65536" "f mod 65535 = wsum ?z mod 65535"
      "f = 0 \<longleftrightarrow> wsum ?z = 0" "uint ?c = 65535 - f"
    using csum_value [OF l(1)] by auto
  have "(wsum ?z + uint ?c) mod 65535 = (f + (65535 - f)) mod 65535"
    unfolding f(5) using f(3) by (metis mod_add_left_eq)
  then have "wsum (a @ le16 ?c @ b) mod 65535 = 0" unfolding w1 by simp
  moreover have "wsum (a @ le16 ?c @ b) \<noteq> 0"
    unfolding w1 f(5) using wsum_nonneg [of ?z] f(1,2,4) by linarith
  ultimately show ?thesis by (rule csum_eq_0 [OF l(2)])
qed

lemma length_le [simp]: "length (le16 x) = 2" "length (le32 y) = 4"
  by (simp_all add: le16_def le32_def)

lemma length_ip_hdr [simp]: "length (ip_hdr para pid n c) = 20"
  by (simp add: ip_hdr_def)

lemma length_tcp_hdr [simp]: "length (tcp_hdr para c) = 20"
  by (simp add: tcp_hdr_def)

lemma length_psuedo_hdr [simp]: "length (psuedo_hdr proto len s d pad) = 16"
  by (simp add: psuedo_hdr_def)

lemma le16_0 [simp]: "le16 0 = [0, 0]"
  by (simp add: le16_def)

lemma csum_ip_hdr: "csum (ip_hdr para pid n (csum (ip_hdr para pid n 0))) = 0"
  using csum_stored [of "[0x45, 0] @ le16 (htons n) @ le16 (htons pid) @ [0, 0] @ [255, 6]"
      "le32 (p_src_ip para) @ le32 (p_dst_ip para)"]
  by (simp add: ip_hdr_def)

lemma tcp_chk_sum_value:
  assumes "unat len \<le> length m"
  shows "tcp_chk_sum proto m len s d pad = Inr (word_of_int (- fold_carry
    (uint (csum (psuedo_hdr proto len s d pad)) + uint (csum (take (unat len) m))) - 1))"
  using chk_sum_csum [of 16 "psuedo_hdr proto len s d pad"] chk_sum_csum [OF assms]
  by (simp add: tcp_chk_sum_def)

text \<open>C10. The running sum of the checksum loop stays inside a signed 32 bit integer whatever the
  bytes and the 16 bit length are, and when the checksum of a block with a zeroed, even placed
  checksum field is stored in that field, the checksum of the whole block is zero: the receiver's
  test accepts it.\<close>

theorem chk_sum_verifies:
  assumes "even (length a)" and "length a + length b \<le> 65533" and "n = length a + 2 + length b"
    and "chk_sum (Some (a @ [0, 0] @ b)) (of_nat n) = Inr c"
  shows "chk_sum (Some (a @ le16 c @ b)) (of_nat n) = Inr 0 \<and> wsum (a @ le16 c @ b) < 2 ^ 31"
proof -
  have n: "unat (of_nat n :: u16) = n"
    using assms(2,3) by (simp add: unat_of_nat take_bit_eq_mod del: of_nat_add of_nat_Suc)
  have c: "c = csum (a @ [0, 0] @ b)"
    using assms(3,4) chk_sum_csum [of "of_nat n" "a @ [0, 0] @ b"] n by simp
  have "chk_sum (Some (a @ le16 c @ b)) (of_nat n) = Inr 0"
    using chk_sum_csum [of "of_nat n" "a @ le16 c @ b"] csum_stored [OF assms(1,2)] n assms(3)
    unfolding c by simp
  moreover have "wsum (a @ le16 c @ b) < 2 ^ 31"
    using assms(2) by (intro wsum_no_overflow) simp
  ultimately show ?thesis ..
qed

lemma chk_sum_verifies_witness:
  "chk_sum (Some ([0x45, 0x01] @ le16 0xfdbb @ [0xff])) 5 = Inr 0"
proof -
  have "chk_sum (Some ([0x45, 0x01] @ [0, 0] @ [0xff])) (of_nat 5) = Inr 0xfdbb"
    by (simp add: chk_sum_def sum_loop.simps fold_carry_def)
  from chk_sum_verifies [of "[0x45, 0x01]" "[0xff]" 5, OF _ _ _ this] show ?thesis by simp
qed

text \<open>C11. Building a packet in a buffer with room for the headers and the load succeeds, touches only
  the 40 bytes of the two headers (the load stays as the caller left it), writes an IP header whose
  checksum a receiver accepts, with the total length in network order in bytes 2 and 3.\<close>

theorem net_forge_ip_header_valid:
  assumes "40 + unat (p_load_len para) \<le> length buf" and "unat (p_load_len para) \<le> 65495"
  shows "\<exists>m. net_forge_tcp_packet buf para pid pad = Inr (F1G_OK, 40 + p_load_len para, m)
    \<and> length m = length buf \<and> drop 40 m = drop 40 buf
    \<and> chk_sum (Some m) 20 = Inr 0
    \<and> take 4 m = [0x45, 0] @ le16 (htons (40 + p_load_len para))"
proof -
  let ?n = "40 + p_load_len para"
  let ?ip = "\<lambda>c. ip_hdr para pid ?n c" and ?l = "20 + p_load_len para"
  have l: "unat ?l = 20 + unat (p_load_len para)"
    using assms(2) by (simp add: unat_plus_simple [THEN iffD1] unat_word_ariths)
  have sum0: "chk_sum (Some (?ip 0 @ drop 20 buf)) 20 = Inr (csum (?ip 0))"
    using assms(1) chk_sum_csum [of 20 "?ip 0 @ drop 20 buf"] by simp
  define t where "t = (word_of_int (- fold_carry (uint (csum (psuedo_hdr 6 ?l (p_src_ip para)
    (p_dst_ip para) pad)) + uint (csum (take (unat ?l) (tcp_hdr para 0 @ drop 40 buf)))) - 1) :: u16)"
  have tcp: "tcp_chk_sum 6 (tcp_hdr para 0 @ drop 40 buf) ?l (p_src_ip para) (p_dst_ip para) pad = Inr t"
    unfolding t_def using assms(1) l by (intro tcp_chk_sum_value) simp
  let ?m = "?ip (csum (?ip 0)) @ tcp_hdr para t @ drop 40 buf"
  have "net_forge_tcp_packet buf para pid pad = Inr (F1G_OK, ?n, ?m)"
    using assms(1) sum0 tcp by (simp add: net_forge_tcp_packet_def Let_def)
  moreover have "chk_sum (Some ?m) 20 = Inr 0"
    using chk_sum_csum [of 20 ?m] csum_ip_hdr [of para pid ?n] by simp
  moreover have "take 4 ?m = [0x45, 0] @ le16 (htons ?n)"
    by (simp add: ip_hdr_def)
  ultimately show ?thesis using assms(1) by auto
qed

lemma net_forge_ip_header_valid_witness:
  "\<exists>m. net_forge_tcp_packet (replicate 41 7)
      \<lparr>p_seq = 1, p_ack = 2, p_src_ip = 3, p_dst_ip = 4, p_dst_port = 5, p_src_port = 6,
       p_tcp_flag = TCP_FLAG_ACK, p_load_len = 1\<rparr> 9 (0, 0) = Inr (F1G_OK, 41, m)
    \<and> length m = 41 \<and> drop 40 m = [7] \<and> chk_sum (Some m) 20 = Inr 0"
  using net_forge_ip_header_valid [of "\<lparr>p_seq = 1, p_ack = 2, p_src_ip = 3, p_dst_ip = 4, p_dst_port = 5,
    p_src_port = 6, p_tcp_flag = TCP_FLAG_ACK, p_load_len = 1\<rparr>" "replicate 41 7" 9 "(0, 0)"] by auto

text \<open>\<^verbatim>\<open>tcp_chk_sum\<close> adds two checksums that are already complemented and complements again,
  so what it returns is, modulo 65535, the plain sum of the words: its value and the checksum
  of the pseudo header followed by the segment are opposite numbers, not equal ones.\<close>

theorem tcp_chk_sum_is_negated:
  assumes "unat len = length m" and "length m \<le> 65519"
    and "tcp_chk_sum proto m len s d pad = Inr t"
  shows "(uint t + uint (csum (psuedo_hdr proto len s d pad @ m))) mod 65535 = 0"
proof -
  let ?p = "psuedo_hdr proto len s d pad"
  let ?s = "uint (csum ?p) + uint (csum m)" and ?w = "uint (csum (?p @ m)) + (wsum ?p + wsum m)"
  have s: "0 \<le> ?s" "?s < 2 ^ 31"
    using uint_bounded [of "csum ?p"] uint_bounded [of "csum m"] by simp_all
  have t: "uint t = 65535 - fold_carry ?s mod 65536"
    using assms tcp_chk_sum_value [of len m proto s d pad] by (simp only: uint_complement [symmetric], simp)
  have "65535 dvd fold_carry ?s mod 65536 - ?s"
    using fold_carry_cases(3) [OF s] by (simp only: mod_eq_dvd_iff)
  then have "65535 dvd 65535 - (fold_carry ?s mod 65536 - ?s)" by (rule dvd_diff [OF dvd_refl])
  then have 1: "65535 dvd uint t + ?s" by (simp only: t algebra_simps)
  have 2: "65535 dvd (uint (csum ?p) + wsum ?p) + (uint (csum m) + wsum m)"
    using assms(2) by (intro dvd_add csum_dvd) simp_all
  have 3: "65535 dvd ?w"
    using csum_dvd [of "?p @ m"] assms(2) by (simp add: wsum_append)
  have "65535 dvd (uint t + ?s) - ((uint (csum ?p) + wsum ?p) + (uint (csum m) + wsum m)) + ?w"
    by (rule dvd_add [OF dvd_diff [OF 1 2] 3])
  then show ?thesis by (simp add: algebra_simps dvd_eq_mod_eq_0)
qed

text \<open>On a small segment the two differ: the checksum written is not the one a receiver computes.\<close>

lemma tcp_chk_sum_is_negated_witness:
  "tcp_chk_sum 6 [1, 2] 2 0 0 (0, 0) = Inr 0x0a01
    \<and> csum (psuedo_hdr 6 2 0 0 (0, 0) @ [1, 2]) = 0xf5fe
    \<and> (uint (0x0a01 :: u16) + uint (csum (psuedo_hdr 6 2 0 0 (0, 0) @ [1, 2]))) mod 65535 = 0"
proof -
  have t: "tcp_chk_sum 6 [1, 2] 2 0 0 (0, 0) = Inr 0x0a01"
    by code_simp
  have c: "csum (psuedo_hdr 6 2 0 0 (0, 0) @ [1, 2]) = 0xf5fe"
    by code_simp
  show ?thesis using tcp_chk_sum_is_negated [OF _ _ t] t c by simp
qed

end
