(* ===== verification/Bitree.thy ===== *)
theory Bitree
  imports Prelude
begin

text \<open>
  The binary tree of \<^verbatim>\<open>src/bitree.c\<close>: insertion into a search tree with a height stored in
  every node, and the three traversals, whose output is the list of the lines printed.
\<close>

section \<open>Trees and operations\<close>

text \<open>A \<^verbatim>\<open>bitree_p\<close>: \<^verbatim>\<open>NULL\<close>, or a node with its element, its stored height and its
  two subtrees. No two pointers of a tree share a node.\<close>

datatype bitree = Nil_p | Node (elem: int) (height: int) (p_left: bitree) (p_right: bitree)

definition bitree_height :: "bitree \<Rightarrow> int" where
  "bitree_height t = (case t of Nil_p \<Rightarrow> - 1 | Node e h l r \<Rightarrow> h)"

definition bitree_create :: "bool \<Rightarrow> int \<Rightarrow> bitree" where
  "bitree_create ok e = (if ok then Node e 0 Nil_p Nil_p else Nil_p)"

fun add_height :: "int \<Rightarrow> bitree \<Rightarrow> bitree" where
  "add_height a Nil_p = Nil_p"
| "add_height a (Node e h l r) = Node e (h + a) l r"

text \<open>The value returned and the tree afterwards; \<open>ok\<close> is the outcome of the one \<^verbatim>\<open>malloc\<close>
  an insertion can make.\<close>

fun bitree_insert :: "bool \<Rightarrow> bitree \<Rightarrow> int \<Rightarrow> (int \<times> bitree) run" where
  "bitree_insert ok Nil_p x = Inl NullDeref"
| "bitree_insert ok (Node e h l r) x =
     (if x < e then
        (if l = Nil_p then Inr (if r = Nil_p then 1 else 0, Node e h (bitree_create ok x) r)
         else bindR (bitree_insert ok l x) (\<lambda>(a, l'). Inr (a, Node e h (add_height a l') r)))
      else if x > e then
        (if r = Nil_p then Inr (if l = Nil_p then 1 else 0, Node e h l (bitree_create ok x))
         else bindR (bitree_insert ok r x) (\<lambda>(a, r'). Inr (a, Node e h l (add_height a r'))))
      else Inr (0, Node e h l r))"

text \<open>One line per node: the element and the stored height.\<close>

fun bitree_post_show :: "bitree \<Rightarrow> (int \<times> int) list" where
  "bitree_post_show Nil_p = []"
| "bitree_post_show (Node e h l r) = bitree_post_show l @ bitree_post_show r @ [(e, h)]"

fun bitree_prev_show :: "bitree \<Rightarrow> (int \<times> int) list" where
  "bitree_prev_show Nil_p = []"
| "bitree_prev_show (Node e h l r) = (e, h) # bitree_prev_show l @ bitree_prev_show r"

fun bitree_mid_show :: "bitree \<Rightarrow> (int \<times> int) list" where
  "bitree_mid_show Nil_p = []"
| "bitree_mid_show (Node e h l r) = bitree_mid_show l @ (e, h) # bitree_mid_show r"

text \<open>A client: a tree created with one element and grown by insertions.\<close>

fun insert_all :: "bitree \<Rightarrow> int list \<Rightarrow> bitree run" where
  "insert_all t [] = Inr t"
| "insert_all t (x # xs) = bindR (bitree_insert True t x) (\<lambda>(a, t'). insert_all (add_height a t') xs)"

section \<open>The search tree invariant\<close>

fun elems :: "bitree \<Rightarrow> int set" where
  "elems Nil_p = {}"
| "elems (Node e h l r) = insert e (elems l \<union> elems r)"

fun bst :: "bitree \<Rightarrow> bool" where
  "bst Nil_p = True"
| "bst (Node e h l r) \<longleftrightarrow> bst l \<and> bst r \<and> (\<forall>x\<in>elems l. x < e) \<and> (\<forall>x\<in>elems r. e < x)"

text \<open>The number of edges on the longest path down, what \<^verbatim>\<open>height\<close> stands for.\<close>

fun true_height :: "bitree \<Rightarrow> int" where
  "true_height Nil_p = - 1"
| "true_height (Node e h l r) = 1 + max (true_height l) (true_height r)"

fun heights_bound :: "bitree \<Rightarrow> bool" where
  "heights_bound Nil_p = True"
| "heights_bound (Node e h l r) \<longleftrightarrow>
     true_height (Node e h l r) \<le> h \<and> heights_bound l \<and> heights_bound r"

lemma add_height_simps [simp]:
  "elems (add_height a t) = elems t" "bst (add_height a t) = bst t"
  "true_height (add_height a t) = true_height t" "add_height a t = Nil_p \<longleftrightarrow> t = Nil_p"
  by (cases t; simp)+

lemma true_height_ge: "- 1 \<le> true_height t"
  by (induction t) auto

lemma true_height_nonneg [simp]: "t \<noteq> Nil_p \<Longrightarrow> 0 \<le> true_height t"
proof (cases t)
  case (Node e h l r)
  then show ?thesis using true_height_ge [of l] by simp
qed simp

lemma bitree_insert_total:
  "t \<noteq> Nil_p \<Longrightarrow> \<exists>a t'. bitree_insert ok t x = Inr (a, t') \<and> t' \<noteq> Nil_p"
proof (induction t)
  case (Node e h l r)
  consider "x < e" "l = Nil_p" | "x < e" "l \<noteq> Nil_p" | "e < x" "r = Nil_p"
    | "e < x" "r \<noteq> Nil_p" | "x = e" by fastforce
  then show ?case
    by cases (use Node.IH in \<open>auto simp del: bitree.split\<close>)
qed simp

text \<open>The shape of a successful insertion, as an induction rule: nothing to do, a new leaf on an
  empty side, or an insertion into a subtree.\<close>

lemma bitree_insert_induct [consumes 1, case_names same left_new left right_new right]:
  assumes "bitree_insert True t x = Inr (a, t')"
    and "\<And>h l r. P (Node x h l r) 0 (Node x h l r)"
    and "\<And>e h r. x < e \<Longrightarrow> P (Node e h Nil_p r) (if r = Nil_p then 1 else 0) (Node e h (Node x 0 Nil_p Nil_p) r)"
    and "\<And>e h l r a l'. x < e \<Longrightarrow> l \<noteq> Nil_p \<Longrightarrow> P l a l' \<Longrightarrow> P (Node e h l r) a (Node e h (add_height a l') r)"
    and "\<And>e h l. e < x \<Longrightarrow> P (Node e h l Nil_p) (if l = Nil_p then 1 else 0) (Node e h l (Node x 0 Nil_p Nil_p))"
    and "\<And>e h l r a r'. e < x \<Longrightarrow> r \<noteq> Nil_p \<Longrightarrow> P r a r' \<Longrightarrow> P (Node e h l r) a (Node e h l (add_height a r'))"
  shows "P t a t'"
  using assms(1)
proof (induction t arbitrary: a t')
  case (Node e h l r)
  consider "x < e" "l = Nil_p" | "x < e" "l \<noteq> Nil_p" | "e < x" "r = Nil_p"
    | "e < x" "r \<noteq> Nil_p" | "x = e" by fastforce
  then show ?case
  proof cases
    case 1
    then show ?thesis using Node.prems assms(3) [of e h r] by (auto simp: bitree_create_def)
  next
    case 2
    then obtain l' where "bitree_insert True l x = Inr (a, l')" "t' = Node e h (add_height a l') r"
      using Node.prems by (auto simp: bindR_Inr_conv)
    then show ?thesis using Node.IH(1) assms(4) [OF 2] by blast
  next
    case 3
    then show ?thesis using Node.prems assms(5) [of e h l] by (auto simp: bitree_create_def)
  next
    case 4
    then obtain r' where "bitree_insert True r x = Inr (a, r')" "t' = Node e h l (add_height a r')"
      using Node.prems by (auto simp: bindR_Inr_conv)
    then show ?thesis using Node.IH(2) assms(6) [OF 4] by blast
  next
    case 5
    then show ?thesis using Node.prems assms(2) [of h l r] by auto
  qed
qed simp

lemma bitree_insert_elems:
  "bitree_insert True t x = Inr (a, t') \<Longrightarrow> elems t' = insert x (elems t)"
  by (induction rule: bitree_insert_induct) auto

lemma bitree_insert_bst:
  assumes "bitree_insert True t x = Inr (a, t')" and "bst t"
  shows "bst t'"
proof -
  from assms(1) have "elems t' = insert x (elems t) \<and> (bst t \<longrightarrow> bst t')"
    by (induction rule: bitree_insert_induct) auto
  then show ?thesis using assms(2) by simp
qed

text \<open>The value returned is 0 or 1 and bounds the growth of the tree.\<close>

lemma bitree_insert_true_height:
  "bitree_insert True t x = Inr (a, t') \<Longrightarrow>
   true_height t \<le> true_height t' \<and> true_height t' \<le> true_height t + a \<and> 0 \<le> a"
proof (induction rule: bitree_insert_induct)
  case (left_new e h r)
  then show ?case using true_height_nonneg [of r] true_height_ge [of r] by (cases "r = Nil_p") auto
next
  case (right_new e h l)
  then show ?case using true_height_nonneg [of l] true_height_ge [of l] by (cases "l = Nil_p") auto
qed auto

lemma heights_bound_add: "0 \<le> a \<Longrightarrow> heights_bound t \<Longrightarrow> heights_bound (add_height a t)"
  by (cases t) auto

lemma heights_bound_insert:
  assumes "bitree_insert True t x = Inr (a, t')" and "heights_bound t"
  shows "heights_bound (add_height a t')"
proof -
  from assms(1) have "0 \<le> a \<and> true_height t' \<le> true_height t + a \<and>
    (heights_bound t \<longrightarrow> heights_bound (add_height a t'))"
  proof (induction rule: bitree_insert_induct)
    case (left_new e h r)
    then show ?case using true_height_nonneg [of r] true_height_ge [of r] by (cases "r = Nil_p") auto
  next
    case (right_new e h l)
    then show ?case using true_height_nonneg [of l] true_height_ge [of l] by (cases "l = Nil_p") auto
  qed auto
  then show ?thesis using assms(2) by simp
qed

lemma mid_show_elems: "set (map fst (bitree_mid_show t)) = elems t"
  by (induction t) auto

lemma mid_show_sorted: "bst t \<Longrightarrow> sorted_wrt (<) (map fst (bitree_mid_show t))"
proof (induction t)
  case (Node e h l r)
  then show ?case
    using mid_show_elems [of l] mid_show_elems [of r]
    by (fastforce simp: sorted_wrt_append)
qed simp

section \<open>Properties\<close>

lemma insert_all_invariant:
  assumes "t \<noteq> Nil_p" and "bst t" and "heights_bound t"
  shows "\<exists>t'. insert_all t xs = Inr t' \<and> bst t' \<and> heights_bound t' \<and> elems t' = elems t \<union> set xs"
  using assms
proof (induction xs arbitrary: t)
  case (Cons x xs)
  obtain a t1 where t1: "bitree_insert True t x = Inr (a, t1)" "t1 \<noteq> Nil_p"
    using bitree_insert_total [OF Cons.prems(1)] by blast
  have "bst t1" "elems t1 = insert x (elems t)" "heights_bound (add_height a t1)"
    using bitree_insert_bst bitree_insert_elems heights_bound_insert t1(1) Cons.prems by blast+
  then show ?case using Cons.IH [of "add_height a t1"] t1 by auto
qed simp

text \<open>C13. A tree created with one element and grown by any sequence of insertions is a search tree: the
  in-order traversal prints every element inserted, once each, in increasing order.\<close>

theorem bitree_mid_show_sorts:
  "\<exists>t. insert_all (bitree_create True x) xs = Inr t \<and> bst t
     \<and> map fst (bitree_mid_show t) = sorted_list_of_set (set (x # xs))"
proof -
  obtain t where t: "insert_all (bitree_create True x) xs = Inr t" "bst t"
      "elems t = insert x (set xs)"
    using insert_all_invariant [of "bitree_create True x" xs] by (auto simp: bitree_create_def)
  have "map fst (bitree_mid_show t) = sorted_list_of_set (set (map fst (bitree_mid_show t)))"
    using mid_show_sorted [OF t(2)]
    by (metis sorted_list_of_set.idem_if_sorted_distinct strict_sorted_iff)
  then show ?thesis using t mid_show_elems [of t] by auto
qed

text \<open>The height stored in every node of such a tree is at least the length of the longest path
  below the node; it is a bound and not the height: a node also counts the growth of its
  shorter subtree, as the tree built from 10, 5, 15, 3, 7, 2, 18, 20 shows: its root stores 4, one
  more than the longest path.\<close>

theorem bitree_heights_bound:
  "(\<exists>t. insert_all (bitree_create True x) xs = Inr t \<and> heights_bound t)
   \<and> (\<exists>t. insert_all (bitree_create True 10) [5, 15, 3, 7, 2, 18] = Inr t
        \<and> bitree_height t = 4 \<and> true_height t = 3)"
proof
  show "\<exists>t. insert_all (bitree_create True x) xs = Inr t \<and> heights_bound t"
    using insert_all_invariant [of "bitree_create True x" xs] by (auto simp: bitree_create_def)
  show "\<exists>t. insert_all (bitree_create True 10) [5, 15, 3, 7, 2, 18] = Inr t
      \<and> bitree_height t = 4 \<and> true_height t = 3"
    by (simp add: bitree_create_def bitree_height_def)
qed

end
