(* ===== verification/Basic_Alg.thy ===== *)
theory Basic_Alg
  imports Prelude "HOL-Library.Signed_Division"
begin

text \<open>
  The array rotation of \<^verbatim>\<open>src/basic_alg.c\<close>. The array is the list of its bytes up to the end
  of the block it lies in; the numbers are the signed integers of the code.
\<close>

definition METHOD_SEQ :: int where "METHOD_SEQ = 0"
definition METHOD_3T :: int where "METHOD_3T = 1"
definition METHOD_BLKSWP :: int where "METHOD_BLKSWP = 2"
definition METHOD_GCD :: int where "METHOD_GCD = 3"

record extra_info =
  meth :: int
  elem_size :: int

text \<open>The inner loop: element \<open>j + 1\<close> copied over element \<open>j\<close>, for \<open>n\<close> more values of \<open>j\<close>.\<close>

fun shift_down :: "bytes \<Rightarrow> nat \<Rightarrow> nat \<Rightarrow> nat \<Rightarrow> bytes run" where
  "shift_down m blk j 0 = Inr m"
| "shift_down m blk j (Suc n) =
     bindR (slice m (j * blk + blk) (int blk)) (\<lambda>x.
     bindR (put m (j * blk) x) (\<lambda>m'. shift_down m' blk (j + 1) n))"

text \<open>One round: the first element saved, the others shifted, the saved one stored last. With
  no element at all the last store is before the array.\<close>

definition rotate_once :: "bytes \<Rightarrow> nat \<Rightarrow> nat \<Rightarrow> bytes run" where
  "rotate_once m n blk =
     bindR (slice m 0 (int blk)) (\<lambda>temp.
     bindR (shift_down m blk 0 n) (\<lambda>m1.
       assertR (0 < n) OutOfBounds (put m1 ((n - 1) * blk) temp)))"

fun rotate_rounds :: "bytes \<Rightarrow> nat \<Rightarrow> nat \<Rightarrow> nat \<Rightarrow> bytes run" where
  "rotate_rounds m n blk 0 = Inr m"
| "rotate_rounds m n blk (Suc k) = bindR (rotate_once m n blk) (\<lambda>m1. rotate_rounds m1 n blk k)"

text \<open>A negative element size fails in \<^verbatim>\<open>malloc\<close>, as a failing allocation does.\<close>

definition rotate_by_seq :: "bool \<Rightarrow> bytes \<Rightarrow> int \<Rightarrow> int \<Rightarrow> extra_info \<Rightarrow> (int \<times> bytes) run" where
  "rotate_by_seq ok arr arr_size left_k p_extra =
     (if \<not> ok \<or> elem_size p_extra < 0 then Inr (- 1, arr)
      else bindR (rotate_rounds arr (nat arr_size) (nat (elem_size p_extra)) (nat left_k))
             (\<lambda>m. Inr (0, m)))"

definition array_rotate :: "bool \<Rightarrow> bytes \<Rightarrow> int \<Rightarrow> int \<Rightarrow> extra_info \<Rightarrow> (int \<times> bytes) run" where
  "array_rotate ok arr arr_size left_k p_extra =
     assertR (arr_size \<noteq> 0) DivByZero
       (let k = left_k smod arr_size in
        if meth p_extra = METHOD_SEQ then rotate_by_seq ok arr arr_size k p_extra
        else if meth p_extra = METHOD_3T then Inr (0, arr)
        else if meth p_extra = METHOD_BLKSWP then Inr (0, arr)
        else if meth p_extra = METHOD_GCD then Inr (0, arr)
        else Inr (- 1, arr))"

section \<open>The rounds\<close>

lemma shift_down_value:
  assumes "(j + n + 1) * blk \<le> length m"
  shows "shift_down m blk j n = Inr (take (j * blk) m @ take (n * blk) (drop (j * blk + blk) m)
           @ drop ((j + n) * blk) m)"
  using assms
proof (induction n arbitrary: m j)
  case 0
  then show ?case by simp
next
  case (Suc n)
  have l: "j * blk + blk + blk \<le> length m" "(j + 1) * blk = j * blk + blk"
    using Suc.prems by (simp_all add: algebra_simps)
  define m' where "m' = take (j * blk) m @ take blk (drop (j * blk + blk) m) @ drop (j * blk + blk) m"
  have len: "length m' = length m" using l by (simp add: m'_def)
  have "shift_down m blk j (Suc n) = shift_down m' blk (j + 1) n"
    using l by (simp add: m'_def)
  also have "\<dots> = Inr (take ((j + 1) * blk) m' @ take (n * blk) (drop ((j + 1) * blk + blk) m')
      @ drop ((j + 1 + n) * blk) m')"
    using Suc.prems len by (intro Suc.IH) (simp add: algebra_simps)
  also have "take ((j + 1) * blk) m' = take (j * blk) m @ take blk (drop (j * blk + blk) m)"
    unfolding l(2) m'_def using l(1) by simp
  also have "drop ((j + 1) * blk + blk) m' = drop (j * blk + blk + blk) m"
    unfolding l(2) m'_def using l(1) by (simp add: algebra_simps)
  also have "drop ((j + 1 + n) * blk) m' = drop ((j + Suc n) * blk) m"
    unfolding m'_def using l(1) by (simp add: algebra_simps)
  finally show ?case
    by (simp add: take_add algebra_simps)
qed

lemma smod_nat: "0 < n \<Longrightarrow> 0 \<le> k \<Longrightarrow> k smod int n = k mod int n"
  by (cases "k = 0") (simp_all add: signed_modulo_int_def)

lemma rotate_once_value:
  assumes "(n + 1) * blk \<le> length m" and "0 < n"
  shows "rotate_once m n blk = Inr (rotate blk (take (n * blk) m) @ drop (n * blk) m)"
proof -
  obtain k where n: "n = Suc k" using assms(2) by (cases n) simp_all
  define m1 where "m1 = take (n * blk) (drop blk m) @ drop (n * blk) m"
  have "shift_down m blk 0 n = Inr m1"
    using shift_down_value [of 0 n blk m] assms(1) by (simp add: m1_def)
  moreover have "length m1 = length m"
    using assms(1) by (simp add: m1_def algebra_simps)
  ultimately have "rotate_once m n blk = Inr (take (k * blk) m1 @ take blk m @ drop (k * blk + blk) m1)"
    using assms(1) by (simp add: rotate_once_def n add.commute)
  moreover have "take (k * blk) m1 = take (k * blk) (drop blk m)"
    using assms(1) by (simp add: m1_def n min_absorb1)
  moreover have "drop (k * blk + blk) m1 = drop (n * blk) m"
    using assms(1) by (simp add: m1_def n add.commute)
  moreover have "rotate blk (take (n * blk) m) = take (k * blk) (drop blk m) @ take blk m"
  proof (cases "k = 0")
    case True
    have "length (take blk m) = blk" using assms(1) by (simp add: n)
    then show ?thesis by (simp add: n True rotate_id)
  next
    case False
    then have "blk \<le> k * blk" by simp
    then show ?thesis using assms(1)
      by (cases "blk = 0") (simp_all add: n rotate_drop_take min_def drop_take)
  qed
  ultimately show ?thesis by simp
qed

lemma rotate_rounds_value:
  assumes "(n + 1) * blk \<le> length m" and "0 < n"
  shows "rotate_rounds m n blk k = Inr (rotate (k * blk) (take (n * blk) m) @ drop (n * blk) m)"
  using assms(1)
proof (induction k arbitrary: m)
  case 0
  then show ?case by simp
next
  case (Suc k)
  let ?m = "rotate blk (take (n * blk) m) @ drop (n * blk) m"
  have l: "length (take (n * blk) m) = n * blk" using Suc.prems by simp
  have "rotate_rounds ?m n blk k = Inr (rotate (k * blk) (take (n * blk) ?m) @ drop (n * blk) ?m)"
    using Suc.prems by (intro Suc.IH) (simp add: algebra_simps)
  then show ?case
    using l rotate_once_value [OF Suc.prems assms(2)] by (simp add: rotate_rotate add.commute)
qed

text \<open>With nothing behind the array the last copy of a round reads past it.\<close>

lemma shift_down_overrun:
  "length m < (j + n + 1) * blk \<Longrightarrow> 0 < n \<Longrightarrow> shift_down m blk j n = Inl OutOfBounds"
proof (induction n arbitrary: j m)
  case (Suc n)
  show ?case
  proof (cases "j * blk + blk + blk \<le> length m")
    case True
    then have n: "0 < n" using Suc.prems(1) by (cases n) (simp_all add: algebra_simps)
    let ?m = "take (j * blk) m @ take blk (drop (j * blk + blk) m) @ drop (j * blk + blk) m"
    have "length ?m < (j + 1 + n + 1) * blk"
      using True Suc.prems(1) by (simp add: algebra_simps)
    then have "shift_down ?m blk (j + 1) n = Inl OutOfBounds" using n by (intro Suc.IH)
    then show ?thesis using True by simp
  next
    case False
    then show ?thesis by (simp add: slice_def)
  qed
qed simp

section \<open>Properties\<close>

text \<open>With one more element behind the array, \<^verbatim>\<open>array_rotate\<close> by the basic method rotates the
  array to the left by \<open>left_k\<close> elements and leaves what follows it as it was.\<close>

theorem array_rotate_rotates:
  assumes "0 < n" and "0 \<le> k" and "(n + 1) * blk \<le> length m"
  shows "array_rotate True m (int n) k \<lparr>meth = METHOD_SEQ, elem_size = int blk\<rparr>
    = Inr (0, rotate (nat k * blk) (take (n * blk) m) @ drop (n * blk) m)"
proof -
  have k: "k smod int n = k mod int n" using assms(1,2) by (rule smod_nat)
  have "rotate (nat (k mod int n) * blk) (take (n * blk) m) = rotate (nat k * blk) (take (n * blk) m)"
  proof -
    have l: "length (take (n * blk) m) = n * blk" using assms(3) by simp
    have "nat (k mod int n) = nat k mod n" using assms(1,2) by (simp add: nat_mod_distrib)
    then have "nat (k mod int n) * blk = (nat k * blk) mod length (take (n * blk) m)"
      unfolding l by (simp add: mult_mod_left)
    then show ?thesis by (metis rotate_conv_mod)
  qed
  then show ?thesis
    using rotate_rounds_value [OF assms(3,1), of "nat (k mod int n)"] assms(1)
    by (simp add: array_rotate_def rotate_by_seq_def k)
qed

lemma array_rotate_rotates_witness:
  "array_rotate True [1, 2, 3, 4, 5, 6, 7, 8] 3 4 \<lparr>meth = METHOD_SEQ, elem_size = 2\<rparr>
    = Inr (0, [3, 4, 5, 6, 1, 2, 7, 8])"
  using array_rotate_rotates [of 3 4 2 "[1, 2, 3, 4, 5, 6, 7, 8]"]
  by (simp add: rotate_def numeral_eq_Suc)

text \<open>On an array that fills its block every rotation that has something to do reads one element past
  the block: the inner loop copies element \<open>arr_size\<close> over the last one.\<close>

theorem array_rotate_overruns:
  assumes "0 < n" and "0 < blk" and "0 \<le> k" and "\<not> int n dvd k" and "length m = n * blk"
  shows "array_rotate True m (int n) k \<lparr>meth = METHOD_SEQ, elem_size = int blk\<rparr> = Inl OutOfBounds"
proof -
  have k: "k smod int n = k mod int n" using assms(1,3) by (rule smod_nat)
  have "k mod int n \<noteq> 0" "0 \<le> k mod int n" using assms(1,4) by (simp_all only: dvd_eq_mod_eq_0) simp_all
  then have "nat (k mod int n) \<noteq> 0" by linarith
  then obtain j where j: "nat (k mod int n) = Suc j" using not0_implies_Suc by blast
  have "shift_down m blk 0 n = Inl OutOfBounds"
    using assms(1,2,5) by (intro shift_down_overrun) (simp_all add: algebra_simps)
  moreover have "blk \<le> length m" using assms(1,5) by (cases n) simp_all
  ultimately have "rotate_once m n blk = Inl OutOfBounds" by (simp add: rotate_once_def)
  then show ?thesis using assms(1) by (simp add: array_rotate_def rotate_by_seq_def k j)
qed

lemma array_rotate_overruns_witness:
  "array_rotate True [1, 2, 3] 3 1 \<lparr>meth = METHOD_SEQ, elem_size = 1\<rparr> = Inl OutOfBounds"
  using array_rotate_overruns [of 3 1 1 "[1, 2, 3]"] by simp

end
