(* ===== verification/Charset.thy ===== *)
theory Charset
  imports Prelude
begin

text \<open>
  The character set conversions of \<^verbatim>\<open>src/charset_code.c\<close>: percent-decoding of UTF-8 and GBK
  text, and the conversions between GBK, UTF-8 and big-endian UCS-2. The conversion table of
  \<^verbatim>\<open>src/ucs2_gbk_map.c\<close> is an argument here, its contents are in the theories \<open>Gbk_Rows\<close>.
  \<^verbatim>\<open>char\<close> is signed, as on the x86 machines the library is built for.

  The six conversions of the source are one loop with three parts each: what reads a code unit,
  the table that maps it, and what writes the result; the loop is \<open>conv_loop\<close> and the parts are
  its arguments.
\<close>

unbundle bit_operations_syntax

section \<open>Codes, tables and initialisation\<close>

definition CT_UTF8 :: int where "CT_UTF8 = 1"
definition CT_GBK :: int where "CT_GBK = 2"

definition E_OK :: int where "E_OK = 0"
definition E_OBUF :: int where "E_OBUF = 1"
definition E_IDAT :: int where "E_IDAT = 2"
definition E_CODE :: int where "E_CODE = 3"
definition E_NASC :: int where "E_NASC = 4"

definition CONV_GBK_UTF8 :: int where "CONV_GBK_UTF8 = 0"
definition CONV_UTF8_GBK :: int where "CONV_UTF8_GBK = 1"
definition CONV_UTF8_UCS2 :: int where "CONV_UTF8_UCS2 = 2"
definition CONV_UCS2_UTF8 :: int where "CONV_UCS2_UTF8 = 3"
definition CONV_GBK_UCS2 :: int where "CONV_GBK_UCS2 = 4"
definition CONV_UCS2_GBK :: int where "CONV_UCS2_GBK = 5"

text \<open>An array of \<^verbatim>\<open>MAX_CODE_SIZE = 0xFFFF\<close> cells, indexed by an \<^verbatim>\<open>unsigned short\<close>.\<close>

type_synonym codes = "u16 \<Rightarrow> u16"

definition code_rd :: "codes \<Rightarrow> u16 \<Rightarrow> u16 run" where
  "code_rd a i = assertR (i < 0xFFFF) OutOfBounds (Inr (a i))"

definition code_wr :: "codes \<Rightarrow> u16 \<Rightarrow> u16 \<Rightarrow> codes run" where
  "code_wr a i x = assertR (i < 0xFFFF) OutOfBounds (Inr (a(i := x)))"

record charset =
  hex_char_vmap :: "int list"
  mod_init_flag :: bool
  ucs2_gbk :: codes
  gbk_ucs2 :: codes

text \<open>The static initialisers: only the first element of each array gets the listed value.\<close>

definition charset_static :: charset where
  "charset_static =
     \<lparr>hex_char_vmap = - 1 # replicate 127 0, mod_init_flag = False,
      ucs2_gbk = (\<lambda>_. 0)(0 := 0xFFFF), gbk_ucs2 = (\<lambda>_. 0)(0 := 0xFFFF)\<rparr>"

fun set_digits :: "int list \<Rightarrow> bytes \<Rightarrow> int \<Rightarrow> int list" where
  "set_digits v [] k = v"
| "set_digits v (c # cs) k = set_digits (v[unat c := k]) cs (k + 1)"

definition hex_char_vmap_init :: "int list \<Rightarrow> int list" where
  "hex_char_vmap_init v =
     set_digits (set_digits (set_digits v (lit ''0123456789'') 0) (lit ''abcdef'') 10) (lit ''ABCDEF'') 10"

text \<open>The loop over the table, up to the sentinel; a row is \<open>(c1, c2)\<close>, the GBK and UCS-2 codes.\<close>

fun map_rows :: "(u16 \<times> u16) list \<Rightarrow> codes \<Rightarrow> codes \<Rightarrow> (codes \<times> codes) run" where
  "map_rows [] ug gu = Inl OutOfBounds"
| "map_rows ((gbk, ucs2) # rows) ug gu =
     (if gbk \<noteq> 0xFFFF \<or> ucs2 \<noteq> 0xFFFF then
        bindR (code_wr ug ucs2 gbk) (\<lambda>ug'. bindR (code_wr gu gbk ucs2) (\<lambda>gu'. map_rows rows ug' gu'))
      else Inr (ug, gu))"

definition charset_map_init :: "(u16 \<times> u16) list \<Rightarrow> (codes \<times> codes) run" where
  "charset_map_init tbl = map_rows tbl (\<lambda>_. 0xFFFF) (\<lambda>_. 0xFFFF)"

definition module_init :: "(u16 \<times> u16) list \<Rightarrow> charset \<Rightarrow> charset run" where
  "module_init tbl st =
     bindR (charset_map_init tbl) (\<lambda>(ug, gu).
       Inr (st\<lparr>hex_char_vmap := hex_char_vmap_init (hex_char_vmap st), ucs2_gbk := ug, gbk_ucs2 := gu\<rparr>))"

text \<open>What both entry points do first.\<close>

definition ensure_init :: "(u16 \<times> u16) list \<Rightarrow> charset \<Rightarrow> charset run" where
  "ensure_init tbl st =
     (if \<not> mod_init_flag st then bindR (module_init tbl st) (\<lambda>st'. Inr (st'\<lparr>mod_init_flag := True\<rparr>))
      else Inr st)"

section \<open>Percent decoding\<close>

text \<open>The two characters at offset \<open>i\<close> as a byte: \<open>None\<close> where one of them is mapped to -1.\<close>

definition vmap_rd :: "int list \<Rightarrow> u8 \<Rightarrow> int run" where
  "vmap_rd v c = rd v (unat c)"

definition hex_pair :: "int list \<Rightarrow> bytes \<Rightarrow> nat \<Rightarrow> u8 option run" where
  "hex_pair v s i =
     bindR (rd s i) (\<lambda>c1. bindR (vmap_rd v c1) (\<lambda>h1.
       if h1 = - 1 then Inr None
       else bindR (rd s (i + 1)) (\<lambda>c2. bindR (vmap_rd v c2) (\<lambda>h2.
         if h2 = - 1 then Inr None
         else Inr (Some (word_of_int (push_bit 4 h1 OR h2)))))))"

text \<open>The number of bytes that follow a lead byte.\<close>

definition byte_num :: "u8 \<Rightarrow> nat option" where
  "byte_num b =
     (if b < 128 then Some 0
      else if b AND 0xE0 = 0xC0 then Some 1
      else if b AND 0xF0 = 0xE0 then Some 2
      else if b AND 0xF8 = 0xF0 then Some 3
      else if b AND 0xFC = 0xF8 then Some 4
      else if b AND 0xFE = 0xFC then Some 5
      else None)"

text \<open>The bytes that follow: the return code (0 to go on) and \<open>d_arr\<close>.\<close>

fun utf8_follow :: "int list \<Rightarrow> bytes \<Rightarrow> nat \<Rightarrow> nat \<Rightarrow> nat \<Rightarrow> bytes \<Rightarrow> (int \<times> bytes) run" where
  "utf8_follow v s i num 0 d = Inr (0, d)"
| "utf8_follow v s i num (Suc k) d =
     bindR (rd s i) (\<lambda>c.
       if c \<noteq> 0x25 then Inr (- 2, d)
       else bindR (hex_pair v s (i + 1)) (\<lambda>h.
         case h of
           None \<Rightarrow> Inr (- 2, d)
         | Some b \<Rightarrow> bindR (wr d num b) (\<lambda>d'. utf8_follow v s (i + 3) (num + 1) k d')))"

text \<open>\<open>n\<close> is \<^verbatim>\<open>str_len\<close>; the result is the return code, \<open>d_arr\<close> and \<^verbatim>\<open>*d_len\<close>.\<close>

function utf8_str_loop ::
  "int list \<Rightarrow> bytes \<Rightarrow> int \<Rightarrow> int \<Rightarrow> nat \<Rightarrow> nat \<Rightarrow> bytes \<Rightarrow> (int \<times> bytes \<times> int) run" where
  "utf8_str_loop v s n d_size i num d =
     (if int i < n then
        bindR (rd s i) (\<lambda>c.
          if c \<ge> 128 then Inr (- 2, d, d_size)
          else if c = 0x25 then
            if int i + 2 \<ge> n then Inr (- 1, d, d_size)
            else bindR (hex_pair v s (i + 1)) (\<lambda>h.
              case h of
                None \<Rightarrow> Inr (- 2, d, d_size)
              | Some b \<Rightarrow>
                  (case byte_num b of
                     None \<Rightarrow> Inr (- 3, d, d_size)
                   | Some k \<Rightarrow>
                       if int num \<ge> d_size then Inr (0, d, d_size)
                       else bindR (wr d num b) (\<lambda>d1.
                         if int i + 3 + 3 * int k > n then Inr (- 1, d1, d_size)
                         else if int k > d_size - (int num + 1) then Inr (- 1, d1, d_size)
                         else bindR (utf8_follow v s (i + 3) (num + 1) k d1) (\<lambda>(r, d2).
                           if r \<noteq> 0 then Inr (r, d2, d_size)
                           else utf8_str_loop v s n d_size (i + 3 + 3 * k) (num + 1 + k) d2))))
          else if int num \<ge> d_size then Inr (0, d, d_size)
          else bindR (wr d num c) (\<lambda>d1. utf8_str_loop v s n d_size (i + 1) (num + 1) d1))
      else bindR (wr d num 0) (\<lambda>d1. Inr (0, d1, int num)))"
  by pat_completeness auto
termination
  by (relation "measure (\<lambda>(v, s, n, d_size, i, num, d). nat (n - int i))") auto

declare utf8_str_loop.simps [simp del]

definition utf8_str_to_uint :: "int list \<Rightarrow> bytes \<Rightarrow> int \<Rightarrow> bytes \<Rightarrow> int \<Rightarrow> (int \<times> bytes \<times> int) run" where
  "utf8_str_to_uint v s n d d_size = utf8_str_loop v s n d_size 0 0 d"

definition GBK2_CHK :: "u8 \<Rightarrow> u8 \<Rightarrow> bool" where
  "GBK2_CHK b0 b1 \<longleftrightarrow> b0 \<ge> 0xB0 \<and> b0 \<le> 0xF7 \<and> b1 \<ge> 0xA1 \<and> b1 \<le> 0xFE"
definition GBK3_CHK :: "u8 \<Rightarrow> u8 \<Rightarrow> bool" where
  "GBK3_CHK b0 b1 \<longleftrightarrow> b0 \<ge> 0x81 \<and> b0 \<le> 0xA0 \<and> b1 \<ge> 0x40 \<and> b1 \<le> 0xFE"
definition GBK4_CHK :: "u8 \<Rightarrow> u8 \<Rightarrow> bool" where
  "GBK4_CHK b0 b1 \<longleftrightarrow> b0 \<ge> 0xAA \<and> b0 \<le> 0xFE \<and> b1 \<ge> 0x40 \<and> b1 \<le> 0xA0"
definition GBK1_CHK :: "u8 \<Rightarrow> u8 \<Rightarrow> bool" where
  "GBK1_CHK b0 b1 \<longleftrightarrow> b0 \<ge> 0xA1 \<and> b0 \<le> 0xA9 \<and> b1 \<ge> 0xA1 \<and> b1 \<le> 0xFE"
definition GBK5_CHK :: "u8 \<Rightarrow> u8 \<Rightarrow> bool" where
  "GBK5_CHK b0 b1 \<longleftrightarrow> b0 \<ge> 0xA8 \<and> b0 \<le> 0xA9 \<and> b1 \<ge> 0x40 \<and> b1 \<le> 0xA0"

definition gbk_letter :: "u8 \<Rightarrow> u8 \<Rightarrow> bool" where
  "gbk_letter b0 b1 \<longleftrightarrow> (GBK2_CHK b0 b1 \<or> GBK3_CHK b0 b1 \<or> GBK4_CHK b0 b1)
     \<or> (GBK1_CHK b0 b1 \<or> GBK5_CHK b0 b1)"

function gbk_str_loop ::
  "int list \<Rightarrow> bytes \<Rightarrow> int \<Rightarrow> int \<Rightarrow> nat \<Rightarrow> nat \<Rightarrow> bytes \<Rightarrow> (int \<times> bytes \<times> int) run" where
  "gbk_str_loop v s n d_size i num d =
     (if int i < n then
        bindR (rd s i) (\<lambda>c.
          if c \<ge> 128 then Inr (E_NASC, d, d_size)
          else if c = 0x25 then
            if int i + 2 \<ge> n then Inr (E_IDAT, d, d_size)
            else bindR (hex_pair v s (i + 1)) (\<lambda>h.
              case h of
                None \<Rightarrow> Inr (E_CODE, d, d_size)
              | Some b0 \<Rightarrow>
                  if b0 AND 0x80 = 0x80 then
                    if int i + 3 + 3 > n then Inr (E_IDAT, d, d_size)
                    else bindR (rd s (i + 3)) (\<lambda>c3.
                      if c3 \<noteq> 0x25 then Inr (E_CODE, d, d_size)
                      else bindR (hex_pair v s (i + 4)) (\<lambda>h1.
                        case h1 of
                          None \<Rightarrow> Inr (E_CODE, d, d_size)
                        | Some b1 \<Rightarrow>
                            if gbk_letter b0 b1 then
                              if int num + 2 \<ge> d_size then Inr (E_OBUF, d, d_size)
                              else bindR (wr d num b0) (\<lambda>d1. bindR (wr d1 (num + 1) b1) (\<lambda>d2.
                                gbk_str_loop v s n d_size (i + 6) (num + 2) d2))
                            else Inr (E_CODE, d, d_size)))
                  else if int num \<ge> d_size then Inr (E_OBUF, d, d_size)
                  else bindR (wr d num b0) (\<lambda>d1. gbk_str_loop v s n d_size (i + 3) (num + 1) d1))
          else if int num \<ge> d_size then Inr (E_OBUF, d, d_size)
          else bindR (wr d num c) (\<lambda>d1. gbk_str_loop v s n d_size (i + 1) (num + 1) d1))
      else bindR (wr d num 0) (\<lambda>d1. Inr (E_OK, d1, int num)))"
  by pat_completeness auto
termination
  by (relation "measure (\<lambda>(v, s, n, d_size, i, num, d). nat (n - int i))") auto

declare gbk_str_loop.simps [simp del]

definition gbk_str_to_uint :: "int list \<Rightarrow> bytes \<Rightarrow> int \<Rightarrow> bytes \<Rightarrow> int \<Rightarrow> (int \<times> bytes \<times> int) run" where
  "gbk_str_to_uint v s n d d_size = gbk_str_loop v s n d_size 0 0 d"

definition str_esc_decode ::
  "(u16 \<times> u16) list \<Rightarrow> charset \<Rightarrow> bytes \<Rightarrow> int \<Rightarrow> int \<Rightarrow> bytes \<Rightarrow> int \<Rightarrow> (int \<times> charset \<times> bytes \<times> int) run" where
  "str_esc_decode tbl st s n code_type d d_size =
     bindR (ensure_init tbl st) (\<lambda>st.
       if code_type = CT_UTF8 then
         bindR (utf8_str_to_uint (hex_char_vmap st) s n d d_size) (\<lambda>(r, d', l). Inr (r, st, d', l))
       else if code_type = CT_GBK then
         bindR (gbk_str_to_uint (hex_char_vmap st) s n d d_size) (\<lambda>(r, d', l). Inr (r, st, d', l))
       else Inr (- 1, st, d, d_size))"

section \<open>Conversions\<close>

text \<open>A reader gives an error code, or the code unit at offset \<open>i\<close> and the number of bytes it has
  after its first.\<close>

type_synonym reader = "bytes \<Rightarrow> int \<Rightarrow> nat \<Rightarrow> (int + u16 \<times> nat) run"

definition get16 :: reader where
  "get16 s n i =
     (if int i + 1 \<ge> n then Inr (Inl E_IDAT)
      else bindR (rd s i) (\<lambda>a. bindR (rd s (i + 1)) (\<lambda>b.
        Inr (Inr (push_bit 8 (ucast a) OR ucast b, 1)))))"

definition get_utf8 :: reader where
  "get_utf8 s n i =
     bindR (rd s i) (\<lambda>a.
       if a < 0x80 then Inr (Inr (ucast a, 0))
       else if a AND 0xE0 = 0xC0 then
         if int i + 1 \<ge> n then Inr (Inl E_IDAT)
         else bindR (rd s (i + 1)) (\<lambda>b.
           Inr (Inr (push_bit 6 (ucast (a AND 0x1F)) OR ucast (b AND 0x3F), 1)))
       else if a AND 0xF0 = 0xE0 then
         if int i + 2 \<ge> n then Inr (Inl E_IDAT)
         else bindR (rd s (i + 1)) (\<lambda>b. bindR (rd s (i + 2)) (\<lambda>c.
           Inr (Inr (push_bit 6 (push_bit 6 (ucast (a AND 0x0F)) OR ucast (b AND 0x3F))
                     OR ucast (c AND 0x3F), 2))))
       else Inr (Inl E_CODE))"

text \<open>A writer gives an error code, or \<open>d2_arr\<close> and \<open>num\<close> after the stores.\<close>

type_synonym writer = "bytes \<Rightarrow> int \<Rightarrow> nat \<Rightarrow> u16 \<Rightarrow> (int + bytes \<times> nat) run"

definition put16 :: writer where
  "put16 d d_size num u =
     (if int num + 2 \<ge> d_size then Inr (Inl E_OBUF)
      else bindR (wr d num (ucast (drop_bit 8 u))) (\<lambda>d1.
           bindR (wr d1 (num + 1) (ucast (u AND 0xFF))) (\<lambda>d2. Inr (Inr (d2, num + 2)))))"

text \<open>The last branch of the source, for a code above \<open>0xFFFF\<close>, cannot be reached.\<close>

definition put_utf8 :: writer where
  "put_utf8 d d_size num u =
     (if u < 0x80 then
        if int num \<ge> d_size then Inr (Inl E_OBUF)
        else bindR (wr d num (ucast (u AND 0xFF))) (\<lambda>d1. Inr (Inr (d1, num + 1)))
      else if u \<ge> 0x80 \<and> u \<le> 0x07FF then
        if int num + 2 \<ge> d_size then Inr (Inl E_OBUF)
        else bindR (wr d num (ucast (0xC0 OR (drop_bit 6 u AND 0x1F)))) (\<lambda>d1.
             bindR (wr d1 (num + 1) (ucast (0x80 OR (u AND 0x3F)))) (\<lambda>d2. Inr (Inr (d2, num + 2))))
      else
        if int num + 3 \<ge> d_size then Inr (Inl E_OBUF)
        else bindR (wr d num (ucast (0xE0 OR (drop_bit 12 u AND 0x0F)))) (\<lambda>d1.
             bindR (wr d1 (num + 1) (ucast (0x80 OR (drop_bit 6 u AND 0x3F)))) (\<lambda>d2.
             bindR (wr d2 (num + 2) (ucast (0x80 OR (u AND 0x3F)))) (\<lambda>d3. Inr (Inr (d3, num + 3))))))"

text \<open>A table lookup: \<open>None\<close> for a code that is not mapped.\<close>

definition look :: "codes \<Rightarrow> u16 \<Rightarrow> u16 option run" where
  "look a c = bindR (code_rd a c) (\<lambda>u. Inr (if u = 0xFFFF then None else Some u))"

text \<open>The loop: \<open>i\<close> is the offset of \<^verbatim>\<open>pb\<close>. The result is the return code, \<open>d2_arr\<close> and
  \<^verbatim>\<open>*d2_len\<close>, which only a successful conversion changes.\<close>

function conv_loop ::
  "reader \<Rightarrow> (u16 \<Rightarrow> u16 option run) \<Rightarrow> writer \<Rightarrow> bytes \<Rightarrow> int \<Rightarrow> int \<Rightarrow> nat \<Rightarrow> nat \<Rightarrow> bytes
   \<Rightarrow> (int \<times> bytes \<times> int) run" where
  "conv_loop fetch tab store s n d_size i num d =
     (if int i < n then
        bindR (fetch s n i) (\<lambda>g.
          case g of
            Inl e \<Rightarrow> Inr (e, d, d_size)
          | Inr (c, k) \<Rightarrow> bindR (tab c) (\<lambda>t.
              case t of
                None \<Rightarrow> Inr (E_CODE, d, d_size)
              | Some u \<Rightarrow> bindR (store d d_size num u) (\<lambda>p.
                  case p of
                    Inl e \<Rightarrow> Inr (e, d, d_size)
                  | Inr (d', num') \<Rightarrow> conv_loop fetch tab store s n d_size (i + 1 + k) num' d')))
      else bindR (wr d num 0) (\<lambda>d1. Inr (E_OK, d1, int num)))"
  by pat_completeness auto
termination
  by (relation "measure (\<lambda>(fetch, tab, store, s, n, d_size, i, num, d). nat (n - int i))") auto

declare conv_loop.simps [simp del]

type_synonym conversion = "bytes \<Rightarrow> int \<Rightarrow> bytes \<Rightarrow> int \<Rightarrow> (int \<times> bytes \<times> int) run"

definition gbk_to_utf8 :: "codes \<Rightarrow> conversion" where
  "gbk_to_utf8 gu s n d d_size = conv_loop get16 (look gu) put_utf8 s n d_size 0 0 d"

definition utf8_to_gbk :: "codes \<Rightarrow> conversion" where
  "utf8_to_gbk ug s n d d_size = conv_loop get_utf8 (look ug) put16 s n d_size 0 0 d"

definition ucs2_to_utf8 :: conversion where
  "ucs2_to_utf8 s n d d_size = conv_loop get16 (\<lambda>u. Inr (Some u)) put_utf8 s n d_size 0 0 d"

definition utf8_to_ucs2 :: conversion where
  "utf8_to_ucs2 s n d d_size = conv_loop get_utf8 (\<lambda>u. Inr (Some u)) put16 s n d_size 0 0 d"

definition gbk_to_ucs2 :: "codes \<Rightarrow> conversion" where
  "gbk_to_ucs2 gu s n d d_size = conv_loop get16 (look gu) put16 s n d_size 0 0 d"

definition ucs2_to_gbk :: "codes \<Rightarrow> conversion" where
  "ucs2_to_gbk ug s n d d_size = conv_loop get16 (look ug) put16 s n d_size 0 0 d"

definition lc_conv ::
  "(u16 \<times> u16) list \<Rightarrow> charset \<Rightarrow> bytes \<Rightarrow> int \<Rightarrow> bytes \<Rightarrow> int \<Rightarrow> int \<Rightarrow> (int \<times> charset \<times> bytes \<times> int) run" where
  "lc_conv tbl st s n d d_size conv_type =
     bindR (ensure_init tbl st) (\<lambda>st.
       bindR (if conv_type = CONV_GBK_UTF8 then gbk_to_utf8 (gbk_ucs2 st) s n d d_size
              else if conv_type = CONV_UTF8_GBK then utf8_to_gbk (ucs2_gbk st) s n d d_size
              else if conv_type = CONV_UCS2_UTF8 then ucs2_to_utf8 s n d d_size
              else if conv_type = CONV_UTF8_UCS2 then utf8_to_ucs2 s n d d_size
              else if conv_type = CONV_GBK_UCS2 then gbk_to_ucs2 (gbk_ucs2 st) s n d d_size
              else if conv_type = CONV_UCS2_GBK then ucs2_to_gbk (ucs2_gbk st) s n d d_size
              else Inr (- 1, d, d_size))
         (\<lambda>(r, d', l). Inr (r, st, d', l)))"

end
