(* ===== verification/Codec.thy ===== *)
theory Codec
  imports Charset
begin

text \<open>
  The contract between the conversion loop and its parts, as locales: a reader undoes an encoding,
  a writer performs one where there is room. The loop then transcodes a whole text, whatever the
  two encodings and the table are. The readers and writers of \<open>Charset\<close> are the interpretations.
\<close>

section \<open>The contract\<close>

locale unit_source =
  fixes fetch :: reader and enc :: "u16 \<Rightarrow> bytes"
  assumes enc_nonempty: "enc u \<noteq> []"
    and fetch_enc: "int (length p + length (enc u)) \<le> n \<Longrightarrow>
      fetch (p @ enc u @ q) n (length p) = Inr (Inr (u, length (enc u) - 1))"
begin

abbreviation encode :: "u16 list \<Rightarrow> bytes" where
  "encode us \<equiv> concat (map enc us)"

lemma fetch_head:
  assumes "s = p @ encode (u # us) @ z" and "n = int (length p + length (encode (u # us)))"
    and "i = length p"
  shows "fetch s n i = Inr (Inr (u, length (enc u) - 1))" and "int i < n"
    and "i + 1 + (length (enc u) - 1) = length (p @ enc u)"
proof -
  show "fetch s n i = Inr (Inr (u, length (enc u) - 1))"
    using fetch_enc [of p u n "encode us @ z"] assms by simp
  have "0 < int (length (enc u))" using enc_nonempty by simp
  then show "int i < n" "i + 1 + (length (enc u) - 1) = length (p @ enc u)"
    using assms by (simp_all add: add_pos_nonneg)
qed

text \<open>An encoding a reader can undo is injective.\<close>

lemma encode_inj:
  assumes "encode us = encode vs"
  shows "us = vs"
  using assms
proof (induction us arbitrary: vs)
  case Nil
  then show ?case using enc_nonempty by (cases vs) auto
next
  case (Cons u us)
  then obtain v vs' where vs: "vs = v # vs'"
    using enc_nonempty by (cases vs) auto
  let ?s = "encode (u # us)"
  have "fetch ?s (int (length ?s)) 0 = Inr (Inr (u, length (enc u) - 1))"
    by (rule fetch_head(1) [of _ "[]" _ us "[]"]) simp_all
  moreover have "fetch ?s (int (length ?s)) 0 = Inr (Inr (v, length (enc v) - 1))"
    using Cons.prems vs by (intro fetch_head(1) [of _ "[]" _ vs' "[]"]) simp_all
  ultimately have "u = v" by simp
  then show ?case using Cons vs by simp
qed

end

locale unit_sink =
  fixes store :: writer and enc2 :: "u16 \<Rightarrow> bytes"
  assumes store_enc:
    "int (length q + length (enc2 u)) < d_size \<Longrightarrow> length (enc2 u) \<le> length r \<Longrightarrow>
     store (q @ r) d_size (length q) u
       = Inr (Inr (q @ enc2 u @ drop (length (enc2 u)) r, length q + length (enc2 u)))"

locale transcoder = unit_source fetch enc + unit_sink store enc2
  for fetch enc store enc2
begin

text \<open>The loop on the encoding of \<open>us\<close>, with \<open>q\<close> already written.\<close>

lemma conv_loop_encode:
  assumes "\<And>u. u \<in> set us \<Longrightarrow> tab u = Inr (Some (f u))"
    and "s = p @ encode us @ z" and "n = int (length p + length (encode us))"
    and "d = q @ r" and "length (concat (map (\<lambda>u. enc2 (f u)) us)) < length r" and "d_size = int (length d)"
  shows "conv_loop fetch tab store s n d_size (length p) (length q) d
    = Inr (E_OK, q @ concat (map (\<lambda>u. enc2 (f u)) us) @ 0 # drop (Suc (length (concat (map (\<lambda>u. enc2 (f u)) us)))) r,
           int (length q + length (concat (map (\<lambda>u. enc2 (f u)) us))))"
  using assms
proof (induction us arbitrary: p q r d)
  case Nil
  then show ?case
    by (cases r) (simp_all add: conv_loop.simps list_update_append)
next
  case (Cons u us)
  let ?e = "enc2 (f u)"
  note rd = fetch_head [OF Cons.prems(2,3) refl]
  have st: "store d d_size (length q) (f u) = Inr (Inr (q @ ?e @ drop (length ?e) r, length q + length ?e))"
    using Cons.prems(4-6) store_enc [of q "f u" d_size r] by simp
  have "conv_loop fetch tab store s n d_size (length p) (length q) d
      = conv_loop fetch tab store s n d_size (length (p @ enc u)) (length (q @ ?e)) (q @ ?e @ drop (length ?e) r)"
    using Cons.prems(1) [OF list.set_intros(1)] rd st
    by (subst conv_loop.simps) (simp only: bindR_simps sum.case prod.case option.case if_True length_append)
  also have "\<dots> = Inr (E_OK, (q @ ?e) @ concat (map (\<lambda>u. enc2 (f u)) us)
      @ 0 # drop (Suc (length (concat (map (\<lambda>u. enc2 (f u)) us)))) (drop (length ?e) r),
      int (length (q @ ?e) + length (concat (map (\<lambda>u. enc2 (f u)) us))))"
    using Cons.prems by (intro Cons.IH) auto
  finally show ?case by (simp add: add.commute add.assoc)
qed

text \<open>The whole conversion: the text of \<open>us\<close> becomes the text of \<open>map f us\<close>, with its terminator.\<close>

lemma conv_encode:
  assumes "\<And>u. u \<in> set us \<Longrightarrow> tab u = Inr (Some (f u))"
    and "s = encode us @ z" and "n = int (length (encode us))"
    and "length (concat (map (\<lambda>u. enc2 (f u)) us)) < length d"
  shows "conv_loop fetch tab store s n (int (length d)) 0 0 d
    = Inr (E_OK, concat (map (\<lambda>u. enc2 (f u)) us) @ 0 # drop (Suc (length (concat (map (\<lambda>u. enc2 (f u)) us)))) d,
           int (length (concat (map (\<lambda>u. enc2 (f u)) us))))"
  using conv_loop_encode [of us tab f s "[]" z n d "[]" d, OF assms(1)] assms(2-4) by simp

end

section \<open>The two encodings\<close>

text \<open>Two bytes, high byte first.\<close>

definition be16 :: "u16 \<Rightarrow> bytes" where
  "be16 u = [ucast (drop_bit 8 u), ucast (u AND 0xFF)]"

definition utf8 :: "u16 \<Rightarrow> bytes" where
  "utf8 u =
     (if u < 0x80 then [ucast (u AND 0xFF)]
      else if u \<le> 0x07FF then [ucast (0xC0 OR (drop_bit 6 u AND 0x1F)), ucast (0x80 OR (u AND 0x3F))]
      else [ucast (0xE0 OR (drop_bit 12 u AND 0x0F)), ucast (0x80 OR (drop_bit 6 u AND 0x3F)),
            ucast (0x80 OR (u AND 0x3F))])"

lemma below_16:
  "n < 16 \<Longrightarrow> P 0 \<Longrightarrow> P 1 \<Longrightarrow> P 2 \<Longrightarrow> P 3 \<Longrightarrow> P 4 \<Longrightarrow> P 5 \<Longrightarrow> P 6 \<Longrightarrow> P 7 \<Longrightarrow> P 8 \<Longrightarrow> P 9
   \<Longrightarrow> P 10 \<Longrightarrow> P 11 \<Longrightarrow> P 12 \<Longrightarrow> P 13 \<Longrightarrow> P 14 \<Longrightarrow> P 15 \<Longrightarrow> P (n::nat)"
  by (simp add: less_Suc_eq numeral_eq_Suc) metis

lemma be16_joins: "push_bit 8 (ucast (ucast (drop_bit 8 u) :: u8)) OR ucast (ucast (u AND 0xFF) :: u8) = (u :: u16)"
  by (rule bit_word_eqI, simp add: bit_simps, erule below_16; simp)

lemma utf8_3_joins:
  "push_bit 6 (push_bit 6 (ucast (ucast (0xE0 OR (drop_bit 12 u AND 0x0F)) AND 0x0F :: u8))
     OR ucast (ucast (0x80 OR (drop_bit 6 u AND 0x3F)) AND 0x3F :: u8))
     OR ucast (ucast (0x80 OR (u AND 0x3F)) AND 0x3F :: u8) = (u :: u16)"
  by (rule bit_word_eqI, simp add: bit_simps, erule below_16; simp)

lemma small_bits:
  assumes "unat (u :: u16) < 2 ^ k" and "k \<le> n"
  shows "\<not> bit u n"
proof -
  have "unat u < 2 ^ n" using assms by (meson less_le_trans one_le_numeral power_increasing)
  then have "\<not> bit (unat u) n" by (simp add: bit_iff_odd)
  then show ?thesis by (auto simp: bit_unsigned_iff dest: bit_imp_le_length)
qed

lemma utf8_2_joins:
  assumes "u \<le> 0x07FF"
  shows "push_bit 6 (ucast (ucast (0xC0 OR (drop_bit 6 u AND 0x1F)) AND 0x1F :: u8))
     OR ucast (ucast (0x80 OR (u AND 0x3F)) AND 0x3F :: u8) = (u :: u16)"
proof -
  have "unat u < 2 ^ 11" using assms by (simp add: word_le_nat_alt)
  note b = small_bits [OF this]
  have "\<not> bit u 11" "\<not> bit u 12" "\<not> bit u 13" "\<not> bit u 14" "\<not> bit u 15"
    by (simp_all add: b)
  then show ?thesis
    by - (rule bit_word_eqI, simp add: bit_simps, erule below_16; simp)
qed

lemma utf8_1_joins:
  assumes "u < 0x80"
  shows "ucast (ucast (u AND 0xFF) :: u8) = (u :: u16)"
proof -
  have "unat u < 2 ^ 7" using assms by (simp add: word_less_nat_alt)
  note b = small_bits [OF this]
  have "\<not> bit u 8" "\<not> bit u 9" "\<not> bit u 10" "\<not> bit u 11" "\<not> bit u 12" "\<not> bit u 13" "\<not> bit u 14" "\<not> bit u 15"
    by (simp_all add: b)
  then show ?thesis
    by - (rule bit_word_eqI, simp add: bit_simps, erule below_16; simp)
qed

text \<open>The lead bytes select the branch of the reader.\<close>

lemma utf8_leads:
  "ucast (0xC0 OR (x AND 0x1F)) AND 0xE0 = (0xC0 :: u8)"
  "ucast (0xE0 OR (x AND 0x0F)) AND 0xE0 \<noteq> (0xC0 :: u8)"
  "ucast (0xE0 OR (x AND 0x0F)) AND 0xF0 = (0xE0 :: u8)" for x :: u16
proof -
  show "ucast (0xC0 OR (x AND 0x1F)) AND 0xE0 = (0xC0 :: u8)"
    by (rule bit_word_eqI, simp add: bit_simps, rule_tac n = n in below_16; simp)
  have "bit (ucast (0xE0 OR (x AND 0x0F)) AND 0xE0 :: u8) 5" by (simp add: bit_simps)
  moreover have "\<not> bit (0xC0 :: u8) 5" by simp
  ultimately show "ucast (0xE0 OR (x AND 0x0F)) AND 0xE0 \<noteq> (0xC0 :: u8)" by metis
  show "ucast (0xE0 OR (x AND 0x0F)) AND 0xF0 = (0xE0 :: u8)"
    by (rule bit_word_eqI, simp add: bit_simps, rule_tac n = n in below_16; simp)
qed

lemma high_bit: "bit b 7 \<Longrightarrow> \<not> b < (0x80 :: u8)"
proof
  assume b: "bit b 7" and "b < 0x80"
  then have "unat b < 2 ^ 7" by (simp add: word_less_nat_alt)
  then have "\<not> bit (unat b) 7" by (simp add: bit_iff_odd)
  then show False using b by (simp add: bit_unsigned_iff)
qed

lemma utf8_leads_high:
  "\<not> ucast (0xC0 OR (x AND 0x1F)) < (0x80 :: u8)" "\<not> ucast (0xE0 OR (x AND 0x0F)) < (0x80 :: u8)" for x :: u16
  by (rule high_bit, simp add: bit_simps)+

lemma unat_widen: "unat (ucast b :: u16) = unat b" for b :: u8
  using unsigned_less [of b, where 'a = nat]
  by (simp add: unsigned_ucast_eq take_bit_nat_eq_self)

lemma utf8_1_unat: "unat u < 0x80 \<Longrightarrow> unat (ucast (u AND 0xFF) :: u8) = unat u" for u :: u16
  using utf8_1_joins [of u] unat_widen [of "ucast (u AND 0xFF)"]
  by (simp add: word_less_nat_alt)

lemma ascii_byte: "u < 0x80 \<Longrightarrow> ucast (u AND 0xFF) < (0x80 :: u8)" for u :: u16
  by (simp add: word_less_nat_alt utf8_1_unat)

lemma get_utf8_enc:
  assumes "int (length p + length (utf8 u)) \<le> n"
  shows "get_utf8 (p @ utf8 u @ q) n (length p) = Inr (Inr (u, length (utf8 u) - 1))"
proof -
  consider (one) "u < 0x80" | (two) "\<not> u < 0x80" "u \<le> 0x07FF" | (three) "\<not> u < 0x80" "\<not> u \<le> 0x07FF"
    by blast
  then show ?thesis
  proof cases
    case one
    then show ?thesis
      using ascii_byte [OF one] utf8_1_joins [OF one] assms by (simp add: get_utf8_def utf8_def nth_append)
  next
    case two
    then show ?thesis
      using utf8_2_joins [OF two(2)] assms
      by (simp add: get_utf8_def utf8_def nth_append utf8_leads utf8_leads_high)
  next
    case three
    then show ?thesis
      using utf8_3_joins [of u] assms
      by (simp add: get_utf8_def utf8_def nth_append utf8_leads utf8_leads_high)
  qed
qed

interpretation be_src: unit_source get16 be16
proof
  show "be16 u \<noteq> []" for u by (simp add: be16_def)
  show "get16 (p @ be16 u @ q) n (length p) = Inr (Inr (u, length (be16 u) - 1))"
    if "int (length p + length (be16 u)) \<le> n" for p u q n
    using be16_joins [of u] that by (simp add: get16_def be16_def nth_append)
qed

interpretation utf8_src: unit_source get_utf8 utf8
proof
  show "utf8 u \<noteq> []" for u by (simp add: utf8_def)
qed (rule get_utf8_enc)

interpretation be_snk: unit_sink put16 be16
proof
  fix q r :: bytes and u :: u16 and d_size :: int
  assume "int (length q + length (be16 u)) < d_size" "length (be16 u) \<le> length r"
  then show "put16 (q @ r) d_size (length q) u
      = Inr (Inr (q @ be16 u @ drop (length (be16 u)) r, length q + length (be16 u)))"
    by (cases r; cases "tl r") (auto simp: put16_def be16_def wr_at)
qed

interpretation utf8_snk: unit_sink put_utf8 utf8
proof
  fix q r :: bytes and u :: u16 and d_size :: int
  assume r: "int (length q + length (utf8 u)) < d_size" "length (utf8 u) \<le> length r"
  consider (one) a r' where "u < 0x80" "r = a # r'"
    | (two) a b r' where "\<not> u < 0x80" "0x80 \<le> u" "u \<le> 0x07FF" "r = a # b # r'"
    | (three) a b c r' where "\<not> u < 0x80" "\<not> u \<le> 0x07FF" "r = a # b # c # r'"
    using r(2) by (auto simp: utf8_def Suc_le_length_iff numeral_eq_Suc split: if_splits)
  then show "put_utf8 (q @ r) d_size (length q) u
      = Inr (Inr (q @ utf8 u @ drop (length (utf8 u)) r, length q + length (utf8 u)))"
    by cases (use r(1) in \<open>simp_all add: put_utf8_def utf8_def wr_at\<close>)
qed

interpretation gbk_utf8: transcoder get16 be16 put_utf8 utf8 ..
interpretation utf8_gbk: transcoder get_utf8 utf8 put16 be16 ..
interpretation pair_pair: transcoder get16 be16 put16 be16 ..

end
