(* ===== verification/Convert.thy ===== *)
theory Convert
  imports Codec
begin

text \<open>
  Properties of the conversions of \<open>Charset\<close>: round trips for every text, over the interpretations
  of \<open>Codec\<close>, and the edges where the code leaves its arrays.
\<close>

section \<open>The tables\<close>

text \<open>\<open>rows\<close> is what precedes the sentinel of a table. \<open>bad_rows\<close>: a code of a row has no cell in the arrays.
  \<open>own_row\<close>: the two codes are each other's only partner.\<close>

definition bad_rows :: "(u16 \<times> u16) list \<Rightarrow> bool" where
  "bad_rows rows \<longleftrightarrow> (\<exists>r\<in>set rows. fst r = 0xFFFF \<or> snd r = 0xFFFF)"

definition own_row :: "(u16 \<times> u16) list \<Rightarrow> u16 \<Rightarrow> u16 \<Rightarrow> bool" where
  "own_row rows g u \<longleftrightarrow> (g, u) \<in> set rows \<and> (\<forall>r\<in>set rows. fst r = g \<longleftrightarrow> snd r = u)"

lemma below_max:
  assumes "x \<noteq> (0xFFFF :: u16)"
  shows "x < 0xFFFF"
proof -
  have "(0xFFFF :: u16) = - 1" by simp
  then show ?thesis using assms word_order.extremum [of x] by (metis order_less_le)
qed

text \<open>A bad row ends the loading; without one the two arrays hold the codes of every row that is one to one.\<close>

lemma map_rows_bad:
  "bad_rows rows \<Longrightarrow> (0xFFFF, 0xFFFF) \<notin> set rows \<Longrightarrow> map_rows (rows @ rest) ug gu = Inl OutOfBounds"
proof (induction rows arbitrary: ug gu)
  case (Cons r rows)
  obtain g u where r: "r = (g, u)" by (cases r)
  show ?case
  proof (cases "g = 0xFFFF \<or> u = 0xFFFF")
    case True
    then show ?thesis
      using Cons.prems(2) by (cases "u = 0xFFFF") (auto simp: r code_wr_def below_max)
  next
    case False
    then show ?thesis using Cons by (simp add: r bad_rows_def code_wr_def below_max)
  qed
qed (simp add: bad_rows_def)

lemma map_rows_own:
  assumes "\<not> bad_rows rows"
  shows "\<exists>ug' gu'. map_rows (rows @ (0xFFFF, 0xFFFF) # rest) ug gu = Inr (ug', gu')
    \<and> (\<forall>g u. (\<forall>r\<in>set rows. fst r = g \<longleftrightarrow> snd r = u) \<longrightarrow>
         (if (g, u) \<in> set rows then ug' u = g \<and> gu' g = u else ug' u = ug u \<and> gu' g = gu g))"
  using assms
proof (induction rows arbitrary: ug gu)
  case (Cons r rows)
  obtain h v where r: "r = (h, v)" by (cases r)
  have c: "h \<noteq> 0xFFFF" "v \<noteq> 0xFFFF" "\<not> bad_rows rows" using Cons.prems by (auto simp: bad_rows_def r)
  obtain ug' gu' where t: "map_rows (rows @ (0xFFFF, 0xFFFF) # rest) (ug(v := h)) (gu(h := v)) = Inr (ug', gu')"
    and IH: "\<forall>g u. (\<forall>r\<in>set rows. fst r = g \<longleftrightarrow> snd r = u) \<longrightarrow>
      (if (g, u) \<in> set rows then ug' u = g \<and> gu' g = u else ug' u = (ug(v := h)) u \<and> gu' g = (gu(h := v)) g)"
    using Cons.IH [OF c(3), of "ug(v := h)" "gu(h := v)"] by blast
  have "map_rows ((r # rows) @ (0xFFFF, 0xFFFF) # rest) ug gu = Inr (ug', gu')"
    using t c by (simp add: r code_wr_def below_max)
  moreover have "if (g, u) \<in> set (r # rows) then ug' u = g \<and> gu' g = u else ug' u = ug u \<and> gu' g = gu g"
    if own: "\<forall>r\<in>set (r # rows). fst r = g \<longleftrightarrow> snd r = u" for g u
    using spec [OF spec [OF IH, of g], of u] own by (cases "h = g") (auto simp: r split: if_splits)
  ultimately show ?case by blast
qed simp

lemma look_Some: "x \<noteq> 0xFFFF \<Longrightarrow> a x \<noteq> 0xFFFF \<Longrightarrow> look a x = Inr (Some (a x))"
  by (simp add: look_def code_rd_def below_max)

lemma look_SomeD: "look a x = Inr (Some y) \<Longrightarrow> a x = y"
  by (simp add: look_def code_rd_def assertR_def split: if_splits)

lemma charset_map_init_value:
  assumes "\<not> bad_rows rows"
  obtains ug gu where "charset_map_init (rows @ [(0xFFFF, 0xFFFF)]) = Inr (ug, gu)"
    and "\<And>g u. own_row rows g u \<Longrightarrow> look gu g = Inr (Some u) \<and> look ug u = Inr (Some g)"
proof -
  obtain ug gu where t: "map_rows (rows @ [(0xFFFF, 0xFFFF)]) (\<lambda>_. 0xFFFF) (\<lambda>_. 0xFFFF) = Inr (ug, gu)"
      "\<forall>g u. (\<forall>r\<in>set rows. fst r = g \<longleftrightarrow> snd r = u) \<longrightarrow>
         (if (g, u) \<in> set rows then ug u = g \<and> gu g = u else ug u = 0xFFFF \<and> gu g = 0xFFFF)"
    using map_rows_own [OF assms, of "[]" "\<lambda>_. 0xFFFF" "\<lambda>_. 0xFFFF"] by blast
  have "look gu g = Inr (Some u) \<and> look ug u = Inr (Some g)" if o: "own_row rows g u" for g u
  proof -
    have "g \<noteq> 0xFFFF" "u \<noteq> 0xFFFF" using o assms by (auto simp: own_row_def bad_rows_def)
    moreover have "ug u = g" "gu g = u" using t(2) o unfolding own_row_def by metis+
    ultimately show ?thesis using look_Some [of g gu] look_Some [of u ug] by simp
  qed
  then show thesis using t(1) that by (simp add: charset_map_init_def)
qed

lemma ensure_init_bad:
  assumes "bad_rows rows" and "(0xFFFF, 0xFFFF) \<notin> set rows"
  shows "ensure_init (rows @ rest) charset_static = Inl OutOfBounds"
  using map_rows_bad [OF assms, of rest]
  by (simp add: ensure_init_def module_init_def charset_map_init_def charset_static_def)

section \<open>Properties\<close>

abbreviation pairs :: "u16 list \<Rightarrow> bytes" where
  "pairs us \<equiv> concat (map be16 us)"

lemma length_pairs [simp]: "length (pairs us) = 2 * length us"
  by (induction us) (simp_all add: be16_def)

lemma length_utf8: "length (utf8 u) \<le> 3"
  by (simp add: utf8_def)

lemma length_utf8_text: "length (concat (map (\<lambda>u. utf8 (f u)) us)) \<le> 3 * length us"
  by (induction us) (simp_all add: add_mono length_utf8)

lemma length_pairs_f [simp]: "length (concat (map (\<lambda>u. be16 (f u)) us)) = 2 * length us"
  by (induction us) (simp_all add: be16_def)

text \<open>C8. Every text of UCS-2 code units, surrogates included, survives the conversion to UTF-8 and back,
  given room for three bytes per unit and the terminator: both calls return \<open>E_OK\<close>, report the
  length of what they wrote and terminate it.\<close>

theorem ucs2_utf8_roundtrip:
  assumes "3 * length us < length d1" and "2 * length us < length d2"
  shows "\<exists>e l. ucs2_to_utf8 (pairs us) (2 * int (length us)) d1 (int (length d1)) = Inr (E_OK, e, l)
    \<and> utf8_to_ucs2 e l d2 (int (length d2))
        = Inr (E_OK, pairs us @ 0 # drop (2 * length us + 1) d2, 2 * int (length us))"
proof -
  let ?t = "concat (map utf8 us)"
  have r: "length ?t < length d1"
    using length_utf8_text [of "\<lambda>u. u" us] assms(1) by linarith
  have 1: "ucs2_to_utf8 (pairs us) (2 * int (length us)) d1 (int (length d1))
      = Inr (E_OK, ?t @ 0 # drop (Suc (length ?t)) d1, int (length ?t))"
    unfolding ucs2_to_utf8_def using r
    by (intro gbk_utf8.conv_encode [where f = "\<lambda>u. u" and z = "[]"]) simp_all
  have 2: "utf8_to_ucs2 (?t @ 0 # drop (Suc (length ?t)) d1) (int (length ?t)) d2 (int (length d2))
      = Inr (E_OK, pairs us @ 0 # drop (Suc (length (pairs us))) d2, int (length (pairs us)))"
    unfolding utf8_to_ucs2_def using assms(2)
    by (intro utf8_gbk.conv_encode [where f = "\<lambda>u. u" and z = "0 # drop (Suc (length ?t)) d1"]) simp_all
  from 1 2 show ?thesis by simp
qed

lemma ucs2_utf8_roundtrip_witness:
  "\<exists>e l. ucs2_to_utf8 (pairs [0x41, 0xE9, 0x6D4B]) 6 (replicate 10 7) 10 = Inr (E_OK, e, l)
    \<and> utf8_to_ucs2 e l (replicate 7 0) 7 = Inr (E_OK, pairs [0x41, 0xE9, 0x6D4B] @ [0], 6)"
  using ucs2_utf8_roundtrip [of "[0x41, 0xE9, 0x6D4B]" "replicate 10 7" "replicate 7 0"] by simp

text \<open>C7. The first conversion of a program loads the table. If a row has the code \<open>0xFFFF\<close>, as 127 rows of the
  table of the repository have, that call writes past the end of an array, whatever the text. Otherwise GBK text made of codes
  that are, like their UCS-2 codes, in one row only survives the conversion to UTF-8 and back through
  \<^verbatim>\<open>lc_conv\<close>.\<close>

theorem gbk_utf8_roundtrip:
  assumes "(0xFFFF, 0xFFFF) \<notin> set rows" and "\<forall>g\<in>set gs. \<exists>u. own_row rows g u"
    and "3 * length gs < length d1" and "2 * length gs < length d2"
  shows "if bad_rows rows
    then lc_conv (rows @ [(0xFFFF, 0xFFFF)]) charset_static (pairs gs) (2 * int (length gs)) d1 (int (length d1))
      CONV_GBK_UTF8 = Inl OutOfBounds
    else \<exists>st e l.
      lc_conv (rows @ [(0xFFFF, 0xFFFF)]) charset_static (pairs gs) (2 * int (length gs)) d1 (int (length d1))
        CONV_GBK_UTF8 = Inr (E_OK, st, e, l)
      \<and> lc_conv (rows @ [(0xFFFF, 0xFFFF)]) st e l d2 (int (length d2)) CONV_UTF8_GBK
        = Inr (E_OK, st, pairs gs @ 0 # drop (2 * length gs + 1) d2, 2 * int (length gs))"
proof (cases "bad_rows rows")
  case True
  show ?thesis unfolding if_P [OF True] lc_conv_def ensure_init_bad [OF True assms(1)] by simp
next
  case False
  obtain ug gu where init: "charset_map_init (rows @ [(0xFFFF, 0xFFFF)]) = Inr (ug, gu)"
    and tab: "\<And>g u. own_row rows g u \<Longrightarrow> look gu g = Inr (Some u) \<and> look ug u = Inr (Some g)"
    by (rule charset_map_init_value [OF False]) (rule that)
  have gu: "look gu g = Inr (Some (gu g))" "look ug (gu g) = Inr (Some g)" if g: "g \<in> set gs" for g
  proof -
    obtain u where u: "own_row rows g u" using assms(2) g by blast
    then have "gu g = u" using tab [OF u] look_SomeD by blast
    then show "look gu g = Inr (Some (gu g))" "look ug (gu g) = Inr (Some g)" using tab [OF u] by auto
  qed
  let ?us = "map gu gs" and ?t = "concat (map (\<lambda>g. utf8 (gu g)) gs)"
  define st where "st = charset_static\<lparr>hex_char_vmap := hex_char_vmap_init (hex_char_vmap charset_static),
    ucs2_gbk := ug, gbk_ucs2 := gu, mod_init_flag := True\<rparr>"
  have i: "ensure_init (rows @ [(0xFFFF, 0xFFFF)]) charset_static = Inr st"
    "ensure_init (rows @ [(0xFFFF, 0xFFFF)]) st = Inr st"
    using init by (simp_all add: ensure_init_def module_init_def st_def charset_static_def)
  have r: "length ?t < length d1"
    using length_utf8_text [of gu gs] assms(3) by linarith
  have 1: "gbk_to_utf8 gu (pairs gs) (2 * int (length gs)) d1 (int (length d1))
      = Inr (E_OK, ?t @ 0 # drop (Suc (length ?t)) d1, int (length ?t))"
    unfolding gbk_to_utf8_def using r gu(1)
    by (intro gbk_utf8.conv_encode [where f = gu and z = "[]"]) simp_all
  have inv: "ug (gu g) = g" if "g \<in> set gs" for g
    using gu(2) [OF that] by (rule look_SomeD)
  have e: "map (\<lambda>g. be16 (ug (gu g))) gs = map be16 gs"
    using inv by simp
  have l: "look ug u = Inr (Some (ug u))" if "u \<in> set ?us" for u
    using that gu(2) inv by auto
  have 2: "utf8_to_gbk ug (?t @ 0 # drop (Suc (length ?t)) d1) (int (length ?t)) d2 (int (length d2))
      = Inr (E_OK, pairs gs @ 0 # drop (Suc (2 * length gs)) d2, 2 * int (length gs))"
    unfolding utf8_to_gbk_def
    using utf8_gbk.conv_encode [of ?us "look ug" ug "?t @ 0 # drop (Suc (length ?t)) d1"
        "0 # drop (Suc (length ?t)) d1" "int (length ?t)" d2, OF l] assms(4)
    by (simp add: e comp_def)
  have sel: "gbk_ucs2 st = gu" "ucs2_gbk st = ug" by (simp_all add: st_def)
  have "\<exists>st e l.
      lc_conv (rows @ [(0xFFFF, 0xFFFF)]) charset_static (pairs gs) (2 * int (length gs)) d1 (int (length d1))
        CONV_GBK_UTF8 = Inr (E_OK, st, e, l)
      \<and> lc_conv (rows @ [(0xFFFF, 0xFFFF)]) st e l d2 (int (length d2)) CONV_UTF8_GBK
        = Inr (E_OK, st, pairs gs @ 0 # drop (2 * length gs + 1) d2, 2 * int (length gs))"
    using 1 2 i by (intro exI [of _ st]) (simp add: lc_conv_def sel CONV_GBK_UTF8_def CONV_UTF8_GBK_def)
  then show ?thesis unfolding if_not_P [OF False] .
qed

text \<open>The loop on ASCII text: byte by byte into the room that is left.\<close>

lemma conv_loop_ascii_fills:
  assumes "\<forall>u\<in>set us. u < 0x80" and "s = p @ pairs us" and "n = int (length s)"
    and "length r = length us" and "d = q @ r" and "d_size = int (length d)"
  shows "conv_loop get16 (\<lambda>u. Inr (Some u)) put_utf8 s n d_size (length p) (length q) d = Inl OutOfBounds"
  using assms
proof (induction us arbitrary: p q r d)
  case Nil
  then show ?case by (subst conv_loop.simps) simp
next
  case (Cons u us)
  obtain a r' where r: "r = a # r'" using Cons.prems(4) by (cases r) auto
  note g = be_src.fetch_head [OF _ _ refl, of s p u us "[]" n]
  have p: "put_utf8 d d_size (length q) u = Inr (Inr (q @ ucast (u AND 0xFF) # r', length q + 1))"
    using Cons.prems by (simp add: put_utf8_def r wr_at)
  have "conv_loop get16 (\<lambda>u. Inr (Some u)) put_utf8 s n d_size (length (p @ be16 u))
      (length (q @ [ucast (u AND 0xFF)])) (q @ ucast (u AND 0xFF) # r') = Inl OutOfBounds"
    using Cons.prems r by (intro Cons.IH [of _ r']) auto
  moreover have "length (be16 u) = 2" by (simp add: be16_def)
  ultimately show ?case
    using g Cons.prems(2,3) p by (subst conv_loop.simps) simp
qed

text \<open>The room test for an ASCII character lets the text fill \<open>d2_arr\<close> to the last byte, and the
  terminator is then stored one byte past it.\<close>

theorem ucs2_to_utf8_terminator_overrun:
  assumes "\<forall>u\<in>set us. u < 0x80" and "length d = length us"
  shows "ucs2_to_utf8 (pairs us) (2 * int (length us)) d (int (length d)) = Inl OutOfBounds"
  using conv_loop_ascii_fills [of us "pairs us" "[]" _ d d "[]"] assms by (simp add: ucs2_to_utf8_def)

lemma ucs2_to_utf8_terminator_overrun_witness:
  "ucs2_to_utf8 (pairs [0x41, 0x42]) 4 [0, 0] 2 = Inl OutOfBounds"
  using ucs2_to_utf8_terminator_overrun [of "[0x41, 0x42]" "[0, 0]"] by simp

text \<open>The code \<open>0xFFFF\<close> is one past the end of both tables, whatever they hold: the three bytes of
  U+FFFF in UTF-8 and the GBK or UCS-2 pair FF FF are looked up outside.\<close>

theorem code_ffff_out_of_table:
  "utf8_to_gbk ug [0xEF, 0xBF, 0xBF] 3 d d_size = Inl OutOfBounds
   \<and> gbk_to_utf8 gu [0xFF, 0xFF] 2 d d_size = Inl OutOfBounds
   \<and> gbk_to_ucs2 gu [0xFF, 0xFF] 2 d d_size = Inl OutOfBounds
   \<and> ucs2_to_gbk ug [0xFF, 0xFF] 2 d d_size = Inl OutOfBounds"
proof -
  have 1: "get_utf8 [0xEF, 0xBF, 0xBF] 3 0 = Inr (Inr (0xFFFF, 2))"
    by (simp add: get_utf8_def)
  have 2: "get16 [0xFF, 0xFF] 2 0 = Inr (Inr (0xFFFF, 1))"
    by (simp add: get16_def)
  have 3: "look a 0xFFFF = Inl OutOfBounds" for a
    by (simp add: look_def code_rd_def)
  show ?thesis
    unfolding utf8_to_gbk_def gbk_to_utf8_def gbk_to_ucs2_def ucs2_to_gbk_def
    by (subst (1 2 3 4) conv_loop.simps) (simp add: 1 2 3)
qed

end
