(* ===== verification/Escape.thy ===== *)
theory Escape
  imports Charset Basic_Funcs
begin

text \<open>
  Properties of the percent-decoding of \<open>Charset\<close>: what the character map holds after its
  initialisation, that an escaped text decodes to itself, and the edges.
\<close>

section \<open>The character map\<close>

definition vmap0 :: "int list" where
  "vmap0 = hex_char_vmap_init (hex_char_vmap charset_static)"

lemma vmap0_eq:
  "vmap0 = - 1 # replicate 47 0 @ [0, 1, 2, 3, 4, 5, 6, 7, 8, 9] @ replicate 7 0
     @ [10, 11, 12, 13, 14, 15] @ replicate 26 0 @ [10, 11, 12, 13, 14, 15] @ replicate 25 0"
  by code_simp

lemma length_vmap0 [simp]: "length vmap0 = 128"
  by (simp add: vmap0_eq)

definition hex_value :: "u8 \<Rightarrow> int" where
  "hex_value c =
     (if 48 \<le> c \<and> c \<le> 57 then uint c - 48
      else if 65 \<le> c \<and> c \<le> 70 then uint c - 55
      else if 97 \<le> c \<and> c \<le> 102 then uint c - 87
      else 0)"

text \<open>Only the terminator is marked as not being a digit; the static initialiser reaches no other cell.\<close>

lemma vmap0_table: "map (\<lambda>i. vmap0 ! i) [1..<128] = map (\<lambda>i. hex_value (of_nat i)) [1..<128]"
  by code_simp

lemma vmap0_nth:
  assumes "0 < i" and "i < 128"
  shows "vmap0 ! i = hex_value (of_nat i)"
proof -
  have "i - 1 < length [1..<128]" "[1..<128] ! (i - 1) = i" using assms by simp_all
  then show ?thesis using arg_cong [OF vmap0_table, of "\<lambda>xs. xs ! (i - 1)"] by simp
qed

lemma vmap_rd_vmap0:
  assumes "0 < c" and "c < 128"
  shows "vmap_rd vmap0 c = Inr (hex_value c)"
proof -
  have "0 < unat c" "unat c < 128" using assms by (simp_all add: word_less_nat_alt)
  then show ?thesis using vmap0_nth [of "unat c"] by (simp add: vmap_rd_def)
qed

lemma vmap_rd_high: "\<not> c < 128 \<Longrightarrow> vmap_rd vmap0 c = Inl OutOfBounds"
  by (simp add: vmap_rd_def word_less_nat_alt)

lemma hex_value_ge: "0 \<le> hex_value c"
  by (auto simp: hex_value_def word_le_def)

text \<open>An escaped byte.\<close>

definition esc1 :: "u8 \<Rightarrow> bytes" where
  "esc1 b = [0x25, hex_digit (unat b div 16), hex_digit (unat b mod 16)]"

abbreviation esc :: "bytes \<Rightarrow> bytes" where
  "esc bs \<equiv> concat (map esc1 bs)"

lemma hex_digit_table:
  "map (\<lambda>d. (hex_value (hex_digit d), 0 < hex_digit d, hex_digit d < 128)) [0..<16]
   = map (\<lambda>d. (int d, True, True)) [0..<16]"
  by code_simp

lemma hex_digit_value:
  assumes "d < 16"
  shows "vmap_rd vmap0 (hex_digit d) = Inr (int d)"
proof -
  have "hex_value (hex_digit d) = int d" "0 < hex_digit d" "hex_digit d < 128"
    using arg_cong [OF hex_digit_table, of "\<lambda>xs. xs ! d"] assms by simp_all
  then show ?thesis by (simp add: vmap_rd_vmap0)
qed

lemma nibbles: "(word_of_int (push_bit 4 (int (unat b div 16)) OR int (unat b mod 16)) :: u8) = b"
proof -
  have "push_bit 4 (int (unat b div 16)) OR int (unat b mod 16) = int (push_bit 4 (drop_bit 4 (unat b)) OR take_bit 4 (unat b))"
    by (simp add: drop_bit_eq_div take_bit_eq_mod of_nat_or_eq push_bit_of_nat)
  also have "push_bit 4 (drop_bit 4 (unat b)) OR take_bit 4 (unat b) = unat b"
    by (rule bit_eqI) (auto simp: bit_simps)
  finally show ?thesis by simp
qed

lemma hex_pair_esc:
  assumes "take 2 (drop i s) = [hex_digit (unat b div 16), hex_digit (unat b mod 16)]"
  shows "hex_pair vmap0 s i = Inr (Some b)"
proof -
  have l: "i + 1 < length s"
    using arg_cong [OF assms, of length] by simp
  then have "s ! i = hex_digit (unat b div 16)" "s ! (i + 1) = hex_digit (unat b mod 16)"
    using arg_cong [OF assms, of "\<lambda>x. x ! 0"] arg_cong [OF assms, of "\<lambda>x. x ! 1"] by simp_all
  moreover have "unat b div 16 < 16"
    using unsigned_less [of b, where 'a = nat] by simp
  ultimately show ?thesis
    using l nibbles [of b] by (simp add: hex_pair_def hex_digit_value)
qed

section \<open>Escaped texts\<close>

text \<open>The texts the UTF-8 decoder takes: lead bytes, each followed by as many bytes as it announces.\<close>

function utf8_groups :: "bytes \<Rightarrow> bool" where
  "utf8_groups [] = True"
| "utf8_groups (b # bs) =
     (case byte_num b of None \<Rightarrow> False | Some k \<Rightarrow> k \<le> length bs \<and> utf8_groups (drop k bs))"
  by pat_completeness auto
termination
  by (relation "measure length") auto

lemma length_esc1 [simp]: "length (esc1 b) = 3"
  by (simp add: esc1_def)

lemma length_esc [simp]: "length (esc bs) = 3 * length bs"
  by (induction bs) simp_all

text \<open>The bytes at the front of an escaped text.\<close>

lemma esc_front:
  assumes "s = p @ esc (b # bs) @ z"
  shows "rd s (length p) = Inr 0x25" and "hex_pair vmap0 s (length p + 1) = Inr (Some b)"
proof -
  show "rd s (length p) = Inr 0x25" using assms by (simp add: esc1_def)
  show "hex_pair vmap0 s (length p + 1) = Inr (Some b)"
    using assms by (intro hex_pair_esc) (simp add: esc1_def)
qed

lemma utf8_follow_esc:
  assumes "s = p @ esc (bs @ cs) @ z" and "k = length bs" and "length bs \<le> length r"
  shows "utf8_follow vmap0 s (length p) (length q) k (q @ r) = Inr (0, q @ bs @ drop k r)"
  using assms
proof (induction bs arbitrary: p q r k)
  case (Cons b bs)
  obtain a r' where r: "r = a # r'" using Cons.prems(3) by (cases r) auto
  have "utf8_follow vmap0 s (length (p @ esc1 b)) (length (q @ [b])) (length bs) ((q @ [b]) @ r')
      = Inr (0, (q @ [b]) @ bs @ drop (length bs) r')"
    using Cons.prems r by (intro Cons.IH) auto
  then show ?case
    using esc_front [of s p b "bs @ cs" z] Cons.prems(1) unfolding Cons.prems(2)
    by (simp add: r wr_at del: append_assoc) (simp add: add.commute)
qed simp

lemma utf8_str_loop_esc:
  assumes "utf8_groups bs" and "s = p @ esc bs @ z" and "n = int (length p + length (esc bs))" and "d = q @ r"
    and "length bs < length r" and "d_size = int (length d)"
  shows "utf8_str_loop vmap0 s n d_size (length p) (length q) d
    = Inr (0, q @ bs @ 0 # drop (Suc (length bs)) r, int (length q + length bs))"
  using assms
proof (induction bs arbitrary: p q r d rule: utf8_groups.induct)
  case 1
  then show ?case by (cases r) (simp_all add: utf8_str_loop.simps list_update_append)
next
  case (2 b bs)
  obtain k where k: "byte_num b = Some k" "k \<le> length bs" "utf8_groups (drop k bs)"
    using "2.prems"(1) by (auto split: option.splits)
  obtain a r' where r: "r = a # r'" using "2.prems"(5) by (cases r) auto
  note f = esc_front [OF "2.prems"(2)]
  have bs: "bs = take k bs @ drop k bs" by simp
  define bs1 where "bs1 = take k bs"
  define bs2 where "bs2 = drop k bs"
  have bs12: "bs = bs1 @ bs2" "length bs1 = k" using k(2) by (simp_all add: bs1_def bs2_def)
  have fol: "utf8_follow vmap0 s (length (p @ esc1 b)) (length (q @ [b])) k ((q @ [b]) @ r')
      = Inr (0, (q @ [b]) @ bs1 @ drop k r')"
    using "2.prems"(2,5) bs12 by (intro utf8_follow_esc [where cs = bs2 and z = z]) (simp_all add: r)
  have "utf8_str_loop vmap0 s n d_size (length (p @ esc1 b @ esc bs1)) (length (q @ b # bs1))
      ((q @ b # bs1) @ drop k r')
    = Inr (0, (q @ b # bs1) @ bs2 @ 0 # drop (Suc (length bs2)) (drop k r'), int (length (q @ b # bs1) + length bs2))"
    unfolding bs2_def using "2.prems" k bs12
    by (intro "2.IH" [OF k(1)]) (auto simp: r bs2_def [symmetric])
  moreover have c: "\<not> 128 \<le> (0x25 :: u8)" by simp
  moreover have ls: "n = int (length p + 3 + 3 * k + 3 * length bs2)"
    using "2.prems"(3) bs12 by simp
  ultimately show ?case
    using f fol k(1) bs12 "2.prems"(3-6) c ls
    by (subst utf8_str_loop.simps) (simp add: r wr_at algebra_simps)
qed

text \<open>The texts the GBK decoder takes: single bytes below \<open>0x80\<close> and letters of two bytes.\<close>

fun gbk_groups :: "bytes \<Rightarrow> bool" where
  "gbk_groups [] = True"
| "gbk_groups [b] \<longleftrightarrow> b AND 0x80 \<noteq> 0x80"
| "gbk_groups (b # c # bs) \<longleftrightarrow>
     (if b AND 0x80 = 0x80 then gbk_letter b c \<and> gbk_groups bs else gbk_groups (c # bs))"

lemma percent_is_ascii: "\<not> 128 \<le> (0x25 :: u8)"
  by simp

lemma gbk_str_single:
  assumes "s = p @ esc (b # bs)" and "n = int (length s)" and "b AND 0x80 \<noteq> 0x80"
    and "r \<noteq> []" and "d_size = int (length (q @ r))"
  shows "gbk_str_loop vmap0 s n d_size (length p) (length q) (q @ r)
    = gbk_str_loop vmap0 s n d_size (length (p @ esc1 b)) (length (q @ [b])) ((q @ [b]) @ tl r)"
  using esc_front [of s p b bs "[]"] assms percent_is_ascii
  by (subst gbk_str_loop.simps) (cases r; simp add: wr_at)

lemma gbk_str_letter:
  assumes "s = p @ esc (b # c # bs)" and "n = int (length s)" and "b AND 0x80 = 0x80"
    and "gbk_letter b c" and "2 < length r" and "d_size = int (length (q @ r))"
  shows "gbk_str_loop vmap0 s n d_size (length p) (length q) (q @ r)
    = gbk_str_loop vmap0 s n d_size (length (p @ esc1 b @ esc1 c)) (length (q @ [b, c])) ((q @ [b, c]) @ tl (tl r))"
proof -
  obtain x y r' where r: "r = x # y # r'"
    using assms(5) by (cases r; cases "tl r") auto
  have f2: "rd s (length p + 3) = Inr 0x25" "hex_pair vmap0 s (length p + 4) = Inr (Some c)"
    using esc_front [of s "p @ esc1 b" c bs "[]"] assms(1) by (simp_all add: numeral_eq_Suc)
  have l: "length s = length p + 6 + 3 * length bs" using assms(1) by simp
  show ?thesis
    using esc_front [of s p b "c # bs" "[]"] assms(1) f2 l assms(2-6) percent_is_ascii
    by (subst gbk_str_loop.simps) (simp add: r wr_at)
qed

lemma gbk_str_loop_esc:
  assumes "gbk_groups bs" and "s = p @ esc bs" and "n = int (length s)" and "d = q @ r"
    and "length bs < length r" and "d_size = int (length d)"
  shows "gbk_str_loop vmap0 s n d_size (length p) (length q) d
    = Inr (E_OK, q @ bs @ 0 # drop (Suc (length bs)) r, int (length q + length bs))"
  using assms
proof (induction bs arbitrary: p q r d rule: gbk_groups.induct)
  case 1
  then show ?case by (cases r) (simp_all add: gbk_str_loop.simps list_update_append)
next
  case (2 b)
  then obtain x y r' where r: "r = x # y # r'" by (cases r; cases "tl r") auto
  have "gbk_str_loop vmap0 s n d_size (length (p @ esc1 b)) (length (q @ [b])) ((q @ [b]) @ tl r)
      = Inr (E_OK, (q @ [b]) @ 0 # r', int (length (q @ [b])))"
    using 2 r by (subst gbk_str_loop.simps) (simp add: wr_at list_update_append)
  then show ?case
    using gbk_str_single [of s p b "[]" n r d_size q] 2 r by simp
next
  case (3 b c bs)
  obtain x y r' where r: "r = x # y # r'" using "3.prems"(5) by (cases r; cases "tl r") auto
  show ?case
  proof (cases "b AND 0x80 = 0x80")
    case True
    have "gbk_str_loop vmap0 s n d_size (length (p @ esc1 b @ esc1 c)) (length (q @ [b, c])) ((q @ [b, c]) @ r')
        = Inr (E_OK, (q @ [b, c]) @ bs @ 0 # drop (Suc (length bs)) r', int (length (q @ [b, c]) + length bs))"
      using "3.prems" True r by (intro "3.IH"(1)) auto
    moreover have "r' \<noteq> []" using "3.prems"(5) r by auto
    ultimately show ?thesis
      using gbk_str_letter [of s p b c bs n r d_size q] "3.prems" True r by simp
  next
    case False
    have "gbk_str_loop vmap0 s n d_size (length (p @ esc1 b)) (length (q @ [b])) ((q @ [b]) @ tl r)
        = Inr (E_OK, (q @ [b]) @ (c # bs) @ 0 # drop (Suc (length (c # bs))) (tl r),
            int (length (q @ [b]) + length (c # bs)))"
      using "3.prems" False r by (intro "3.IH"(2)) auto
    then show ?thesis
      using gbk_str_single [of s p b "c # bs" n r d_size q] "3.prems" False r by simp
  qed
qed

section \<open>Properties\<close>

text \<open>C15. A text of lead bytes and the bytes they announce, percent-escaped byte by byte, is decoded to
  itself with its terminator and its length, when there is room; and the same for a GBK text made of
  ASCII bytes and letters of the five GBK areas.\<close>

theorem str_esc_roundtrip:
  assumes "length bs < length d"
  shows "(utf8_groups bs \<longrightarrow> utf8_str_to_uint vmap0 (esc bs) (3 * int (length bs)) d (int (length d))
      = Inr (0, bs @ 0 # drop (length bs + 1) d, int (length bs)))
    \<and> (gbk_groups bs \<longrightarrow> gbk_str_to_uint vmap0 (esc bs) (3 * int (length bs)) d (int (length d))
      = Inr (E_OK, bs @ 0 # drop (length bs + 1) d, int (length bs)))"
  using utf8_str_loop_esc [of bs "esc bs" "[]" "[]" _ d "[]" d] gbk_str_loop_esc [of bs "esc bs" "[]" _ d "[]" d] assms
  by (simp add: utf8_str_to_uint_def gbk_str_to_uint_def)

lemma str_esc_roundtrip_witness:
  "utf8_str_to_uint vmap0 (esc [0xE6, 0xB5, 0x8B, 0x41]) 12 [9, 9, 9, 9, 9] 5 = Inr (0, [0xE6, 0xB5, 0x8B, 0x41, 0], 4)
   \<and> gbk_str_to_uint vmap0 (esc [0xB2, 0xE2]) 6 [9, 9, 9] 3 = Inr (E_OK, [0xB2, 0xE2, 0], 2)"
proof -
  have u: "utf8_groups [0xE6, 0xB5, 0x8B, 0x41]" by (simp add: byte_num_def)
  have g: "gbk_groups [0xB2, 0xE2]" by (simp add: gbk_letter_def GBK2_CHK_def)
  show ?thesis
    using str_esc_roundtrip [of "[0xE6, 0xB5, 0x8B, 0x41]" "[9, 9, 9, 9, 9]"]
      str_esc_roundtrip [of "[0xB2, 0xE2]" "[9, 9, 9]"] u g by simp
qed

text \<open>The loop on text with nothing to decode.\<close>

lemma utf8_str_loop_plain:
  assumes "\<forall>c\<in>set bs. c < 128 \<and> c \<noteq> 0x25" and "s = p @ bs" and "n = int (length s)" and "d = q @ r"
    and "d_size = int (length d)"
  shows "utf8_str_loop vmap0 s n d_size (length p) (length q) d
    = (if length bs < length r then Inr (0, q @ bs @ 0 # drop (Suc (length bs)) r, int (length q + length bs))
       else if length bs = length r then Inl OutOfBounds
       else Inr (0, q @ take (length r) bs, d_size))"
  using assms
proof (induction bs arbitrary: p q r d)
  case Nil
  then show ?case by (cases r) (simp_all add: utf8_str_loop.simps list_update_append)
next
  case (Cons b bs)
  have b: "\<not> 128 \<le> b" "b \<noteq> 0x25" "s ! length p = b" "int (length p) < n" "rd s (length p) = Inr b"
    using Cons.prems by auto
  show ?case
  proof (cases r)
    case Nil
    then show ?thesis using b Cons.prems(4,5) by (subst utf8_str_loop.simps) simp
  next
    case (Cons x r')
    have IH: "utf8_str_loop vmap0 s n d_size (length (p @ [b])) (length (q @ [b])) ((q @ [b]) @ r')
      = (if length bs < length r' then
           Inr (0, (q @ [b]) @ bs @ 0 # drop (Suc (length bs)) r', int (length (q @ [b]) + length bs))
         else if length bs = length r' then Inl OutOfBounds
         else Inr (0, (q @ [b]) @ take (length r') bs, d_size))"
      using Cons.prems Cons by (intro Cons.IH) auto
    then show ?thesis
      using b Cons.prems(4,5) Cons by (subst utf8_str_loop.simps) (simp add: wr_at)
  qed
qed

text \<open>Text without escapes by its length against the capacity: copied and terminated; where it fills
  the capacity exactly, the terminator is written past the block; where it is longer the decoder returns
  success with the output cut at the capacity, no terminator, and the capacity as its length.\<close>

theorem utf8_plain_cases:
  assumes "\<forall>c\<in>set bs. c < 128 \<and> c \<noteq> 0x25"
  shows "utf8_str_to_uint vmap0 bs (int (length bs)) d (int (length d))
    = (if length bs < length d then Inr (0, bs @ 0 # drop (length bs + 1) d, int (length bs))
       else if length bs = length d then Inl OutOfBounds
       else Inr (0, take (length d) bs, int (length d)))"
  using utf8_str_loop_plain [OF assms, of bs "[]" _ d "[]" d] by (simp add: utf8_str_to_uint_def)

lemma utf8_plain_cases_witness:
  "utf8_str_to_uint vmap0 [0x61, 0x62] 2 [9, 9, 9] 3 = Inr (0, [0x61, 0x62, 0], 2)
   \<and> utf8_str_to_uint vmap0 [0x61, 0x62] 2 [9, 9] 2 = Inl OutOfBounds
   \<and> utf8_str_to_uint vmap0 [0x61, 0x62] 2 [9] 1 = Inr (0, [0x61], 1)"
  using utf8_plain_cases [of "[0x61, 0x62]" "[9, 9, 9]"] utf8_plain_cases [of "[0x61, 0x62]" "[9, 9]"]
    utf8_plain_cases [of "[0x61, 0x62]" "[9]"] by simp

text \<open>The test for a wrong digit never fires on text: the pair of characters after a percent sign
  decodes to a byte whatever ASCII characters they are, those that are no digits counting as zero; and a
  character from \<open>0x80\<close> on is looked up past the end of the map.\<close>

theorem hex_pair_accepts:
  "(0 < c1 \<and> c1 < 128 \<and> 0 < c2 \<and> c2 < 128 \<longrightarrow>
      hex_pair vmap0 [c1, c2] 0 = Inr (Some (word_of_int (push_bit 4 (hex_value c1) OR hex_value c2))))
   \<and> (\<not> c1 < 128 \<longrightarrow> hex_pair vmap0 [c1, c2] 0 = Inl OutOfBounds)"
  using vmap_rd_vmap0 [of c1] vmap_rd_vmap0 [of c2] vmap_rd_high [of c1] hex_value_ge [of c1] hex_value_ge [of c2]
  by (simp add: hex_pair_def)

lemma hex_pair_accepts_witness:
  "hex_pair vmap0 (lit ''zz'') 0 = Inr (Some 0)"
  using hex_pair_accepts [of "chr8 (CHR ''z'')" "chr8 (CHR ''z'')"] by (simp add: lit_def chr8_def hex_value_def)

end
