(* ===== verification/Gbk_Climb.thy ===== *)
theory Gbk_Climb
  imports Prelude
begin

text \<open>
  The row type of the code table and the check that its GBK codes increase, used by the theories
  \<open>Gbk_Rows_A\<close> to \<open>Gbk_Rows_C\<close> on the rows of \<^verbatim>\<open>src/ucs2_gbk_map.c\<close>.
\<close>

type_synonym code_map = "u16 \<times> u16"

text \<open>\<open>climb lo rows\<close> is the last GBK code, if the codes increase strictly from above \<open>lo\<close> on.\<close>

fun climb :: "u16 \<Rightarrow> code_map list \<Rightarrow> u16 option" where
  "climb lo [] = Some lo"
| "climb lo (r # rows) = (if lo < fst r then climb (fst r) rows else None)"

fun climb0 :: "code_map list \<Rightarrow> u16 option" where
  "climb0 [] = None"
| "climb0 (r # rows) = climb (fst r) rows"

lemma climb_step: "lo < g \<Longrightarrow> climb g rows = Some hi \<Longrightarrow> climb lo ((g, u) # rows) = Some hi"
  by simp

lemma climb_end: "climb lo [] = Some lo"
  by simp

lemma climb0_step: "climb g rows = Some hi \<Longrightarrow> climb0 ((g, u) # rows) = Some hi"
  by simp

lemma climb_num:
  assumes "(numeral a :: nat) < numeral b" and "(numeral b :: nat) < 65536"
    and "climb (numeral b) rows = Some hi"
  shows "climb (numeral a) ((numeral b, u) # rows) = Some hi"
proof -
  have u: "unat (numeral n :: u16) = numeral n" if "(numeral n :: nat) < 65536" for n
  proof -
    have "unat (numeral n :: u16) = take_bit 16 (numeral n :: nat)"
      unfolding unsigned_numeral by simp
    then show ?thesis using that by (simp only: take_bit_nat_eq_self_iff) simp
  qed
  have "unat (numeral a :: u16) = numeral a" "unat (numeral b :: u16) = numeral b"
    using assms(1,2) by (intro u less_trans [OF assms(1,2)] assms(2))+
  then have "(numeral a :: u16) < numeral b" using assms(1) unfolding word_less_nat_alt by metis
  then show ?thesis using assms(3) by simp
qed

lemma climb_append: "climb lo (xs @ ys) = (case climb lo xs of None \<Rightarrow> None | Some hi \<Rightarrow> climb hi ys)"
  by (induction lo xs rule: climb.induct) simp_all

lemma climb0_append: "xs \<noteq> [] \<Longrightarrow> climb0 (xs @ ys) = (case climb0 xs of None \<Rightarrow> None | Some hi \<Rightarrow> climb hi ys)"
  by (cases xs) (simp_all add: climb_append)

end
