(* ===== verification/Gbk_Rows_B.thy ===== *)
theory Gbk_Rows_B
  imports Gbk_Climb
begin

text \<open>
  The rows of the table of \<^verbatim>\<open>src/ucs2_gbk_map.c\<close>, part B: lines 7355 to 14704, a row of the file per pair
  of GBK and UCS-2 codes, 150 lines of the file per definition, each with the fact that its GBK codes
  increase strictly from those of the definition before.
\<close>

definition ucs2_gbk_rows_050 :: "code_map list" where
  "ucs2_gbk_rows_050 = [
     (0xAB72, 0x73B6), (0xAB73, 0x73B8), (0xAB74, 0x73B9), (0xAB75, 0x73BC), (0xAB76, 0x73BD), (0xAB77, 0x73BE),
     (0xAB78, 0x73BF), (0xAB79, 0x73C1), (0xAB7A, 0x73C3), (0xAB7B, 0x73C4), (0xAB7C, 0x73C5), (0xAB7D, 0x73C6),
     (0xAB7E, 0x73C7), (0xAB80, 0x73CB), (0xAB81, 0x73CC), (0xAB82, 0x73CE), (0xAB83, 0x73D2), (0xAB84, 0x73D3),
     (0xAB85, 0x73D4), (0xAB86, 0x73D5), (0xAB87, 0x73D6), (0xAB88, 0x73D7), (0xAB89, 0x73D8), (0xAB8A, 0x73DA),
     (0xAB8B, 0x73DB), (0xAB8C, 0x73DC), (0xAB8D, 0x73DD), (0xAB8E, 0x73DF), (0xAB8F, 0x73E1), (0xAB90, 0x73E2),
     (0xAB91, 0x73E3), (0xAB92, 0x73E4), (0xAB93, 0x73E6), (0xAB94, 0x73E8), (0xAB95, 0x73EA), (0xAB96, 0x73EB),
     (0xAB97, 0x73EC), (0xAB98, 0x73EE), (0xAB99, 0x73EF), (0xAB9A, 0x73F0), (0xAB9B, 0x73F1), (0xAB9C, 0x73F3),
     (0xAB9D, 0x73F4), (0xAB9E, 0x73F5), (0xAB9F, 0x73F6), (0xABA0, 0x73F7), (0xAC40, 0x73F8), (0xAC41, 0x73F9),
     (0xAC42, 0x73FA), (0xAC43, 0x73FB), (0xAC44, 0x73FC), (0xAC45, 0x73FD), (0xAC46, 0x73FE), (0xAC47, 0x73FF),
     (0xAC48, 0x7400), (0xAC49, 0x7401), (0xAC4A, 0x7402), (0xAC4B, 0x7404), (0xAC4C, 0x7407), (0xAC4D, 0x7408),
     (0xAC4E, 0x740B), (0xAC4F, 0x740C), (0xAC50, 0x740D), (0xAC51, 0x740E), (0xAC52, 0x7411), (0xAC53, 0x7412),
     (0xAC54, 0x7413), (0xAC55, 0x7414), (0xAC56, 0x7415), (0xAC57, 0x7416), (0xAC58, 0x7417), (0xAC59, 0x7418),
     (0xAC5A, 0x7419), (0xAC5B, 0x741C), (0xAC5C, 0x741D), (0xAC5D, 0x741E), (0xAC5E, 0x741F), (0xAC5F, 0x7420),
     (0xAC60, 0x7421), (0xAC61, 0x7423), (0xAC62, 0x7424), (0xAC63, 0x7427), (0xAC64, 0x7429), (0xAC65, 0x742B),
     (0xAC66, 0x742D), (0xAC67, 0x742F), (0xAC68, 0x7431), (0xAC69, 0x7432), (0xAC6A, 0x7437), (0xAC6B, 0x7438),
     (0xAC6C, 0x7439), (0xAC6D, 0x743A), (0xAC6E, 0x743B), (0xAC6F, 0x743D), (0xAC70, 0x743E), (0xAC71, 0x743F),
     (0xAC72, 0x7440), (0xAC73, 0x7442), (0xAC74, 0x7443), (0xAC75, 0x7444), (0xAC76, 0x7445), (0xAC77, 0x7446),
     (0xAC78, 0x7447), (0xAC79, 0x7448), (0xAC7A, 0x7449), (0xAC7B, 0x744A), (0xAC7C, 0x744B), (0xAC7D, 0x744C),
     (0xAC7E, 0x744D), (0xAC80, 0x744E), (0xAC81, 0x744F), (0xAC82, 0x7450), (0xAC83, 0x7451), (0xAC84, 0x7452),
     (0xAC85, 0x7453), (0xAC86, 0x7454), (0xAC87, 0x7456), (0xAC88, 0x7458), (0xAC89, 0x745D), (0xAC8A, 0x7460),
     (0xAC8B, 0x7461), (0xAC8C, 0x7462), (0xAC8D, 0x7463), (0xAC8E, 0x7464), (0xAC8F, 0x7465), (0xAC90, 0x7466),
     (0xAC91, 0x7467), (0xAC92, 0x7468), (0xAC93, 0x7469), (0xAC94, 0x746A), (0xAC95, 0x746B), (0xAC96, 0x746C),
     (0xAC97, 0x746E), (0xAC98, 0x746F), (0xAC99, 0x7471), (0xAC9A, 0x7472), (0xAC9B, 0x7473), (0xAC9C, 0x7474),
     (0xAC9D, 0x7475), (0xAC9E, 0x7478), (0xAC9F, 0x7479), (0xACA0, 0x747A), (0xAD40, 0x747B), (0xAD41, 0x747C),
     (0xAD42, 0x747D), (0xAD43, 0x747F), (0xAD44, 0x7482), (0xAD45, 0x7484), (0xAD46, 0x7485), (0xAD47, 0x7486)]"

lemma ucs2_gbk_rows_050_climb: "climb 0xab71 ucs2_gbk_rows_050 = Some 0xad47"
  unfolding ucs2_gbk_rows_050_def by (intro climb_num climb_end; simp only: numeral_less_iff less_num_simps le_num_simps)

definition ucs2_gbk_rows_051 :: "code_map list" where
  "ucs2_gbk_rows_051 = [
     (0xAD48, 0x7488), (0xAD49, 0x7489), (0xAD4A, 0x748A), (0xAD4B, 0x748C), (0xAD4C, 0x748D), (0xAD4D, 0x748F),
     (0xAD4E, 0x7491), (0xAD4F, 0x7492), (0xAD50, 0x7493), (0xAD51, 0x7494), (0xAD52, 0x7495), (0xAD53, 0x7496),
     (0xAD54, 0x7497), (0xAD55, 0x7498), (0xAD56, 0x7499), (0xAD57, 0x749A), (0xAD58, 0x749B), (0xAD59, 0x749D),
     (0xAD5A, 0x749F), (0xAD5B, 0x74A0), (0xAD5C, 0x74A1), (0xAD5D, 0x74A2), (0xAD5E, 0x74A3), (0xAD5F, 0x74A4),
     (0xAD60, 0x74A5), (0xAD61, 0x74A6), (0xAD62, 0x74AA), (0xAD63, 0x74AB), (0xAD64, 0x74AC), (0xAD65, 0x74AD),
     (0xAD66, 0x74AE), (0xAD67, 0x74AF), (0xAD68, 0x74B0), (0xAD69, 0x74B1), (0xAD6A, 0x74B2), (0xAD6B, 0x74B3),
     (0xAD6C, 0x74B4), (0xAD6D, 0x74B5), (0xAD6E, 0x74B6), (0xAD6F, 0x74B7), (0xAD70, 0x74B8), (0xAD71, 0x74B9),
     (0xAD72, 0x74BB), (0xAD73, 0x74BC), (0xAD74, 0x74BD), (0xAD75, 0x74BE), (0xAD76, 0x74BF), (0xAD77, 0x74C0),
     (0xAD78, 0x74C1), (0xAD79, 0x74C2), (0xAD7A, 0x74C3), (0xAD7B, 0x74C4), (0xAD7C, 0x74C5), (0xAD7D, 0x74C6),
     (0xAD7E, 0x74C7), (0xAD80, 0x74C8), (0xAD81, 0x74C9), (0xAD82, 0x74CA), (0xAD83, 0x74CB), (0xAD84, 0x74CC),
     (0xAD85, 0x74CD), (0xAD86, 0x74CE), (0xAD87, 0x74CF), (0xAD88, 0x74D0), (0xAD89, 0x74D1), (0xAD8A, 0x74D3),
     (0xAD8B, 0x74D4), (0xAD8C, 0x74D5), (0xAD8D, 0x74D6), (0xAD8E, 0x74D7), (0xAD8F, 0x74D8), (0xAD90, 0x74D9),
     (0xAD91, 0x74DA), (0xAD92, 0x74DB), (0xAD93, 0x74DD), (0xAD94, 0x74DF), (0xAD95, 0x74E1), (0xAD96, 0x74E5),
     (0xAD97, 0x74E7), (0xAD98, 0x74E8), (0xAD99, 0x74E9), (0xAD9A, 0x74EA), (0xAD9B, 0x74EB), (0xAD9C, 0x74EC),
     (0xAD9D, 0x74ED), (0xAD9E, 0x74F0), (0xAD9F, 0x74F1), (0xADA0, 0x74F2), (0xAE40, 0x74F3), (0xAE41, 0x74F5),
     (0xAE42, 0x74F8), (0xAE43, 0x74F9), (0xAE44, 0x74FA), (0xAE45, 0x74FB), (0xAE46, 0x74FC), (0xAE47, 0x74FD),
     (0xAE48, 0x74FE), (0xAE49, 0x7500), (0xAE4A, 0x7501), (0xAE4B, 0x7502), (0xAE4C, 0x7503), (0xAE4D, 0x7505),
     (0xAE4E, 0x7506), (0xAE4F, 0x7507), (0xAE50, 0x7508), (0xAE51, 0x7509), (0xAE52, 0x750A), (0xAE53, 0x750B),
     (0xAE54, 0x750C), (0xAE55, 0x750E), (0xAE56, 0x7510), (0xAE57, 0x7512), (0xAE58, 0x7514), (0xAE59, 0x7515),
     (0xAE5A, 0x7516), (0xAE5B, 0x7517), (0xAE5C, 0x751B), (0xAE5D, 0x751D), (0xAE5E, 0x751E), (0xAE5F, 0x7520),
     (0xAE60, 0x7521), (0xAE61, 0x7522), (0xAE62, 0x7523), (0xAE63, 0x7524), (0xAE64, 0x7526), (0xAE65, 0x7527),
     (0xAE66, 0x752A), (0xAE67, 0x752E), (0xAE68, 0x7534), (0xAE69, 0x7536), (0xAE6A, 0x7539), (0xAE6B, 0x753C),
     (0xAE6C, 0x753D), (0xAE6D, 0x753F), (0xAE6E, 0x7541), (0xAE6F, 0x7542), (0xAE70, 0x7543), (0xAE71, 0x7544),
     (0xAE72, 0x7546), (0xAE73, 0x7547), (0xAE74, 0x7549), (0xAE75, 0x754A), (0xAE76, 0x754D), (0xAE77, 0x7550),
     (0xAE78, 0x7551), (0xAE79, 0x7552), (0xAE7A, 0x7553), (0xAE7B, 0x7555), (0xAE7C, 0x7556), (0xAE7D, 0x7557)]"

lemma ucs2_gbk_rows_051_climb: "climb 0xad47 ucs2_gbk_rows_051 = Some 0xae7d"
  unfolding ucs2_gbk_rows_051_def by (intro climb_num climb_end; simp only: numeral_less_iff less_num_simps le_num_simps)

definition ucs2_gbk_rows_052 :: "code_map list" where
  "ucs2_gbk_rows_052 = [
     (0xAE7E, 0x7558), (0xAE80, 0x755D), (0xAE81, 0x755E), (0xAE82, 0x755F), (0xAE83, 0x7560), (0xAE84, 0x7561),
     (0xAE85, 0x7562), (0xAE86, 0x7563), (0xAE87, 0x7564), (0xAE88, 0x7567), (0xAE89, 0x7568), (0xAE8A, 0x7569),
     (0xAE8B, 0x756B), (0xAE8C, 0x756C), (0xAE8D, 0x756D), (0xAE8E, 0x756E), (0xAE8F, 0x756F), (0xAE90, 0x7570),
     (0xAE91, 0x7571), (0xAE92, 0x7573), (0xAE93, 0x7575), (0xAE94, 0x7576), (0xAE95, 0x7577), (0xAE96, 0x757A),
     (0xAE97, 0x757B), (0xAE98, 0x757C), (0xAE99, 0x757D), (0xAE9A, 0x757E), (0xAE9B, 0x7580), (0xAE9C, 0x7581),
     (0xAE9D, 0x7582), (0xAE9E, 0x7584), (0xAE9F, 0x7585), (0xAEA0, 0x7587), (0xAF40, 0x7588), (0xAF41, 0x7589),
     (0xAF42, 0x758A), (0xAF43, 0x758C), (0xAF44, 0x758D), (0xAF45, 0x758E), (0xAF46, 0x7590), (0xAF47, 0x7593),
     (0xAF48, 0x7595), (0xAF49, 0x7598), (0xAF4A, 0x759B), (0xAF4B, 0x759C), (0xAF4C, 0x759E), (0xAF4D, 0x75A2),
     (0xAF4E, 0x75A6), (0xAF4F, 0x75A7), (0xAF50, 0x75A8), (0xAF51, 0x75A9), (0xAF52, 0x75AA), (0xAF53, 0x75AD),
     (0xAF54, 0x75B6), (0xAF55, 0x75B7), (0xAF56, 0x75BA), (0xAF57, 0x75BB), (0xAF58, 0x75BF), (0xAF59, 0x75C0),
     (0xAF5A, 0x75C1), (0xAF5B, 0x75C6), (0xAF5C, 0x75CB), (0xAF5D, 0x75CC), (0xAF5E, 0x75CE), (0xAF5F, 0x75CF),
     (0xAF60, 0x75D0), (0xAF61, 0x75D1), (0xAF62, 0x75D3), (0xAF63, 0x75D7), (0xAF64, 0x75D9), (0xAF65, 0x75DA),
     (0xAF66, 0x75DC), (0xAF67, 0x75DD), (0xAF68, 0x75DF), (0xAF69, 0x75E0), (0xAF6A, 0x75E1), (0xAF6B, 0x75E5),
     (0xAF6C, 0x75E9), (0xAF6D, 0x75EC), (0xAF6E, 0x75ED), (0xAF6F, 0x75EE), (0xAF70, 0x75EF), (0xAF71, 0x75F2),
     (0xAF72, 0x75F3), (0xAF73, 0x75F5), (0xAF74, 0x75F6), (0xAF75, 0x75F7), (0xAF76, 0x75F8), (0xAF77, 0x75FA),
     (0xAF78, 0x75FB), (0xAF79, 0x75FD), (0xAF7A, 0x75FE), (0xAF7B, 0x7602), (0xAF7C, 0x7604), (0xAF7D, 0x7606),
     (0xAF7E, 0x7607), (0xAF80, 0x7608), (0xAF81, 0x7609), (0xAF82, 0x760B), (0xAF83, 0x760D), (0xAF84, 0x760E),
     (0xAF85, 0x760F), (0xAF86, 0x7611), (0xAF87, 0x7612), (0xAF88, 0x7613), (0xAF89, 0x7614), (0xAF8A, 0x7616),
     (0xAF8B, 0x761A), (0xAF8C, 0x761C), (0xAF8D, 0x761D), (0xAF8E, 0x761E), (0xAF8F, 0x7621), (0xAF90, 0x7623),
     (0xAF91, 0x7627), (0xAF92, 0x7628), (0xAF93, 0x762C), (0xAF94, 0x762E), (0xAF95, 0x762F), (0xAF96, 0x7631),
     (0xAF97, 0x7632), (0xAF98, 0x7636), (0xAF99, 0x7637), (0xAF9A, 0x7639), (0xAF9B, 0x763A), (0xAF9C, 0x763B),
     (0xAF9D, 0x763D), (0xAF9E, 0x7641), (0xAF9F, 0x7642), (0xAFA0, 0x7644), (0xB040, 0x7645), (0xB041, 0x7646),
     (0xB042, 0x7647), (0xB043, 0x7648), (0xB044, 0x7649), (0xB045, 0x764A), (0xB046, 0x764B), (0xB047, 0x764E),
     (0xB048, 0x764F), (0xB049, 0x7650), (0xB04A, 0x7651), (0xB04B, 0x7652), (0xB04C, 0x7653), (0xB04D, 0x7655),
     (0xB04E, 0x7657), (0xB04F, 0x7658), (0xB050, 0x7659), (0xB051, 0x765A), (0xB052, 0x765B), (0xB053, 0x765D)]"

lemma ucs2_gbk_rows_052_climb: "climb 0xae7d ucs2_gbk_rows_052 = Some 0xb053"
  unfolding ucs2_gbk_rows_052_def by (intro climb_num climb_end; simp only: numeral_less_iff less_num_simps le_num_simps)

definition ucs2_gbk_rows_053 :: "code_map list" where
  "ucs2_gbk_rows_053 = [
     (0xB054, 0x765F), (0xB055, 0x7660), (0xB056, 0x7661), (0xB057, 0x7662), (0xB058, 0x7664), (0xB059, 0x7665),
     (0xB05A, 0x7666), (0xB05B, 0x7667), (0xB05C, 0x7668), (0xB05D, 0x7669), (0xB05E, 0x766A), (0xB05F, 0x766C),
     (0xB060, 0x766D), (0xB061, 0x766E), (0xB062, 0x7670), (0xB063, 0x7671), (0xB064, 0x7672), (0xB065, 0x7673),
     (0xB066, 0x7674), (0xB067, 0x7675), (0xB068, 0x7676), (0xB069, 0x7677), (0xB06A, 0x7679), (0xB06B, 0x767A),
     (0xB06C, 0x767C), (0xB06D, 0x767F), (0xB06E, 0x7680), (0xB06F, 0x7681), (0xB070, 0x7683), (0xB071, 0x7685),
     (0xB072, 0x7689), (0xB073, 0x768A), (0xB074, 0x768C), (0xB075, 0x768D), (0xB076, 0x768F), (0xB077, 0x7690),
     (0xB078, 0x7692), (0xB079, 0x7694), (0xB07A, 0x7695), (0xB07B, 0x7697), (0xB07C, 0x7698), (0xB07D, 0x769A),
     (0xB07E, 0x769B), (0xB080, 0x769C), (0xB081, 0x769D), (0xB082, 0x769E), (0xB083, 0x769F), (0xB084, 0x76A0),
     (0xB085, 0x76A1), (0xB086, 0x76A2), (0xB087, 0x76A3), (0xB088, 0x76A5), (0xB089, 0x76A6), (0xB08A, 0x76A7),
     (0xB08B, 0x76A8), (0xB08C, 0x76A9), (0xB08D, 0x76AA), (0xB08E, 0x76AB), (0xB08F, 0x76AC), (0xB090, 0x76AD),
     (0xB091, 0x76AF), (0xB092, 0x76B0), (0xB093, 0x76B3), (0xB094, 0x76B5), (0xB095, 0x76B6), (0xB096, 0x76B7),
     (0xB097, 0x76B8), (0xB098, 0x76B9), (0xB099, 0x76BA), (0xB09A, 0x76BB), (0xB09B, 0x76BC), (0xB09C, 0x76BD),
     (0xB09D, 0x76BE), (0xB09E, 0x76C0), (0xB09F, 0x76C1), (0xB0A0, 0x76C3), (0xB0A1, 0x554A), (0xB0A2, 0x963F),
     (0xB0A3, 0x57C3), (0xB0A4, 0x6328), (0xB0A5, 0x54CE), (0xB0A6, 0x5509), (0xB0A7, 0x54C0), (0xB0A8, 0x7691),
     (0xB0A9, 0x764C), (0xB0AA, 0x853C), (0xB0AB, 0x77EE), (0xB0AC, 0x827E), (0xB0AD, 0x788D), (0xB0AE, 0x7231),
     (0xB0AF, 0x9698), (0xB0B0, 0x978D), (0xB0B1, 0x6C28), (0xB0B2, 0x5B89), (0xB0B3, 0x4FFA), (0xB0B4, 0x6309),
     (0xB0B5, 0x6697), (0xB0B6, 0x5CB8), (0xB0B7, 0x80FA), (0xB0B8, 0x6848), (0xB0B9, 0x80AE), (0xB0BA, 0x6602),
     (0xB0BB, 0x76CE), (0xB0BC, 0x51F9), (0xB0BD, 0x6556), (0xB0BE, 0x71AC), (0xB0BF, 0x7FF1), (0xB0C0, 0x8884),
     (0xB0C1, 0x50B2), (0xB0C2, 0x5965), (0xB0C3, 0x61CA), (0xB0C4, 0x6FB3), (0xB0C5, 0x82AD), (0xB0C6, 0x634C),
     (0xB0C7, 0x6252), (0xB0C8, 0x53ED), (0xB0C9, 0x5427), (0xB0CA, 0x7B06), (0xB0CB, 0x516B), (0xB0CC, 0x75A4),
     (0xB0CD, 0x5DF4), (0xB0CE, 0x62D4), (0xB0CF, 0x8DCB), (0xB0D0, 0x9776), (0xB0D1, 0x628A), (0xB0D2, 0x8019),
     (0xB0D3, 0x575D), (0xB0D4, 0x9738), (0xB0D5, 0x7F62), (0xB0D6, 0x7238), (0xB0D7, 0x767D), (0xB0D8, 0x67CF),
     (0xB0D9, 0x767E), (0xB0DA, 0x6446), (0xB0DB, 0x4F70), (0xB0DC, 0x8D25), (0xB0DD, 0x62DC), (0xB0DE, 0x7A17),
     (0xB0DF, 0x6591), (0xB0E0, 0x73ED), (0xB0E1, 0x642C), (0xB0E2, 0x6273), (0xB0E3, 0x822C), (0xB0E4, 0x9881),
     (0xB0E5, 0x677F), (0xB0E6, 0x7248), (0xB0E7, 0x626E), (0xB0E8, 0x62CC), (0xB0E9, 0x4F34), (0xB0EA, 0x74E3)]"

lemma ucs2_gbk_rows_053_climb: "climb 0xb053 ucs2_gbk_rows_053 = Some 0xb0ea"
  unfolding ucs2_gbk_rows_053_def by (intro climb_num climb_end; simp only: numeral_less_iff less_num_simps le_num_simps)

definition ucs2_gbk_rows_054 :: "code_map list" where
  "ucs2_gbk_rows_054 = [
     (0xB0EB, 0x534A), (0xB0EC, 0x529E), (0xB0ED, 0x7ECA), (0xB0EE, 0x90A6), (0xB0EF, 0x5E2E), (0xB0F0, 0x6886),
     (0xB0F1, 0x699C), (0xB0F2, 0x8180), (0xB0F3, 0x7ED1), (0xB0F4, 0x68D2), (0xB0F5, 0x78C5), (0xB0F6, 0x868C),
     (0xB0F7, 0x9551), (0xB0F8, 0x508D), (0xB0F9, 0x8C24), (0xB0FA, 0x82DE), (0xB0FB, 0x80DE), (0xB0FC, 0x5305),
     (0xB0FD, 0x8912), (0xB0FE, 0x5265), (0xB140, 0x76C4), (0xB141, 0x76C7), (0xB142, 0x76C9), (0xB143, 0x76CB),
     (0xB144, 0x76CC), (0xB145, 0x76D3), (0xB146, 0x76D5), (0xB147, 0x76D9), (0xB148, 0x76DA), (0xB149, 0x76DC),
     (0xB14A, 0x76DD), (0xB14B, 0x76DE), (0xB14C, 0x76E0), (0xB14D, 0x76E1), (0xB14E, 0x76E2), (0xB14F, 0x76E3),
     (0xB150, 0x76E4), (0xB151, 0x76E6), (0xB152, 0x76E7), (0xB153, 0x76E8), (0xB154, 0x76E9), (0xB155, 0x76EA),
     (0xB156, 0x76EB), (0xB157, 0x76EC), (0xB158, 0x76ED), (0xB159, 0x76F0), (0xB15A, 0x76F3), (0xB15B, 0x76F5),
     (0xB15C, 0x76F6), (0xB15D, 0x76F7), (0xB15E, 0x76FA), (0xB15F, 0x76FB), (0xB160, 0x76FD), (0xB161, 0x76FF),
     (0xB162, 0x7700), (0xB163, 0x7702), (0xB164, 0x7703), (0xB165, 0x7705), (0xB166, 0x7706), (0xB167, 0x770A),
     (0xB168, 0x770C), (0xB169, 0x770E), (0xB16A, 0x770F), (0xB16B, 0x7710), (0xB16C, 0x7711), (0xB16D, 0x7712),
     (0xB16E, 0x7713), (0xB16F, 0x7714), (0xB170, 0x7715), (0xB171, 0x7716), (0xB172, 0x7717), (0xB173, 0x7718),
     (0xB174, 0x771B), (0xB175, 0x771C), (0xB176, 0x771D), (0xB177, 0x771E), (0xB178, 0x7721), (0xB179, 0x7723),
     (0xB17A, 0x7724), (0xB17B, 0x7725), (0xB17C, 0x7727), (0xB17D, 0x772A), (0xB17E, 0x772B), (0xB180, 0x772C),
     (0xB181, 0x772E), (0xB182, 0x7730), (0xB183, 0x7731), (0xB184, 0x7732), (0xB185, 0x7733), (0xB186, 0x7734),
     (0xB187, 0x7739), (0xB188, 0x773B), (0xB189, 0x773D), (0xB18A, 0x773E), (0xB18B, 0x773F), (0xB18C, 0x7742),
     (0xB18D, 0x7744), (0xB18E, 0x7745), (0xB18F, 0x7746), (0xB190, 0x7748), (0xB191, 0x7749), (0xB192, 0x774A),
     (0xB193, 0x774B), (0xB194, 0x774C), (0xB195, 0x774D), (0xB196, 0x774E), (0xB197, 0x774F), (0xB198, 0x7752),
     (0xB199, 0x7753), (0xB19A, 0x7754), (0xB19B, 0x7755), (0xB19C, 0x7756), (0xB19D, 0x7757), (0xB19E, 0x7758),
     (0xB19F, 0x7759), (0xB1A0, 0x775C), (0xB1A1, 0x8584), (0xB1A2, 0x96F9), (0xB1A3, 0x4FDD), (0xB1A4, 0x5821),
     (0xB1A5, 0x9971), (0xB1A6, 0x5B9D), (0xB1A7, 0x62B1), (0xB1A8, 0x62A5), (0xB1A9, 0x66B4), (0xB1AA, 0x8C79),
     (0xB1AB, 0x9C8D), (0xB1AC, 0x7206), (0xB1AD, 0x676F), (0xB1AE, 0x7891), (0xB1AF, 0x60B2), (0xB1B0, 0x5351),
     (0xB1B1, 0x5317), (0xB1B2, 0x8F88), (0xB1B3, 0x80CC), (0xB1B4, 0x8D1D), (0xB1B5, 0x94A1), (0xB1B6, 0x500D),
     (0xB1B7, 0x72C8), (0xB1B8, 0x5907), (0xB1B9, 0x60EB), (0xB1BA, 0x7119), (0xB1BB, 0x88AB), (0xB1BC, 0x5954),
     (0xB1BD, 0x82EF), (0xB1BE, 0x672C), (0xB1BF, 0x7B28), (0xB1C0, 0x5D29), (0xB1C1, 0x7EF7), (0xB1C2, 0x752D)]"

lemma ucs2_gbk_rows_054_climb: "climb 0xb0ea ucs2_gbk_rows_054 = Some 0xb1c2"
  unfolding ucs2_gbk_rows_054_def by (intro climb_num climb_end; simp only: numeral_less_iff less_num_simps le_num_simps)

definition ucs2_gbk_rows_055 :: "code_map list" where
  "ucs2_gbk_rows_055 = [
     (0xB1C3, 0x6CF5), (0xB1C4, 0x8E66), (0xB1C5, 0x8FF8), (0xB1C6, 0x903C), (0xB1C7, 0x9F3B), (0xB1C8, 0x6BD4),
     (0xB1C9, 0x9119), (0xB1CA, 0x7B14), (0xB1CB, 0x5F7C), (0xB1CC, 0x78A7), (0xB1CD, 0x84D6), (0xB1CE, 0x853D),
     (0xB1CF, 0x6BD5), (0xB1D0, 0x6BD9), (0xB1D1, 0x6BD6), (0xB1D2, 0x5E01), (0xB1D3, 0x5E87), (0xB1D4, 0x75F9),
     (0xB1D5, 0x95ED), (0xB1D6, 0x655D), (0xB1D7, 0x5F0A), (0xB1D8, 0x5FC5), (0xB1D9, 0x8F9F), (0xB1DA, 0x58C1),
     (0xB1DB, 0x81C2), (0xB1DC, 0x907F), (0xB1DD, 0x965B), (0xB1DE, 0x97AD), (0xB1DF, 0x8FB9), (0xB1E0, 0x7F16),
     (0xB1E1, 0x8D2C), (0xB1E2, 0x6241), (0xB1E3, 0x4FBF), (0xB1E4, 0x53D8), (0xB1E5, 0x535E), (0xB1E6, 0x8FA8),
     (0xB1E7, 0x8FA9), (0xB1E8, 0x8FAB), (0xB1E9, 0x904D), (0xB1EA, 0x6807), (0xB1EB, 0x5F6A), (0xB1EC, 0x8198),
     (0xB1ED, 0x8868), (0xB1EE, 0x9CD6), (0xB1EF, 0x618B), (0xB1F0, 0x522B), (0xB1F1, 0x762A), (0xB1F2, 0x5F6C),
     (0xB1F3, 0x658C), (0xB1F4, 0x6FD2), (0xB1F5, 0x6EE8), (0xB1F6, 0x5BBE), (0xB1F7, 0x6448), (0xB1F8, 0x5175),
     (0xB1F9, 0x51B0), (0xB1FA, 0x67C4), (0xB1FB, 0x4E19), (0xB1FC, 0x79C9), (0xB1FD, 0x997C), (0xB1FE, 0x70B3),
     (0xB240, 0x775D), (0xB241, 0x775E), (0xB242, 0x775F), (0xB243, 0x7760), (0xB244, 0x7764), (0xB245, 0x7767),
     (0xB246, 0x7769), (0xB247, 0x776A), (0xB248, 0x776D), (0xB249, 0x776E), (0xB24A, 0x776F), (0xB24B, 0x7770),
     (0xB24C, 0x7771), (0xB24D, 0x7772), (0xB24E, 0x7773), (0xB24F, 0x7774), (0xB250, 0x7775), (0xB251, 0x7776),
     (0xB252, 0x7777), (0xB253, 0x7778), (0xB254, 0x777A), (0xB255, 0x777B), (0xB256, 0x777C), (0xB257, 0x7781),
     (0xB258, 0x7782), (0xB259, 0x7783), (0xB25A, 0x7786), (0xB25B, 0x7787), (0xB25C, 0x7788), (0xB25D, 0x7789),
     (0xB25E, 0x778A), (0xB25F, 0x778B), (0xB260, 0x778F), (0xB261, 0x7790), (0xB262, 0x7793), (0xB263, 0x7794),
     (0xB264, 0x7795), (0xB265, 0x7796), (0xB266, 0x7797), (0xB267, 0x7798), (0xB268, 0x7799), (0xB269, 0x779A),
     (0xB26A, 0x779B), (0xB26B, 0x779C), (0xB26C, 0x779D), (0xB26D, 0x779E), (0xB26E, 0x77A1), (0xB26F, 0x77A3),
     (0xB270, 0x77A4), (0xB271, 0x77A6), (0xB272, 0x77A8), (0xB273, 0x77AB), (0xB274, 0x77AD), (0xB275, 0x77AE),
     (0xB276, 0x77AF), (0xB277, 0x77B1), (0xB278, 0x77B2), (0xB279, 0x77B4), (0xB27A, 0x77B6), (0xB27B, 0x77B7),
     (0xB27C, 0x77B8), (0xB27D, 0x77B9), (0xB27E, 0x77BA), (0xB280, 0x77BC), (0xB281, 0x77BE), (0xB282, 0x77C0),
     (0xB283, 0x77C1), (0xB284, 0x77C2), (0xB285, 0x77C3), (0xB286, 0x77C4), (0xB287, 0x77C5), (0xB288, 0x77C6),
     (0xB289, 0x77C7), (0xB28A, 0x77C8), (0xB28B, 0x77C9), (0xB28C, 0x77CA), (0xB28D, 0x77CB), (0xB28E, 0x77CC),
     (0xB28F, 0x77CE), (0xB290, 0x77CF), (0xB291, 0x77D0), (0xB292, 0x77D1), (0xB293, 0x77D2), (0xB294, 0x77D3),
     (0xB295, 0x77D4), (0xB296, 0x77D5), (0xB297, 0x77D6), (0xB298, 0x77D8), (0xB299, 0x77D9), (0xB29A, 0x77DA)]"

lemma ucs2_gbk_rows_055_climb: "climb 0xb1c2 ucs2_gbk_rows_055 = Some 0xb29a"
  unfolding ucs2_gbk_rows_055_def by (intro climb_num climb_end; simp only: numeral_less_iff less_num_simps le_num_simps)

definition ucs2_gbk_rows_056 :: "code_map list" where
  "ucs2_gbk_rows_056 = [
     (0xB29B, 0x77DD), (0xB29C, 0x77DE), (0xB29D, 0x77DF), (0xB29E, 0x77E0), (0xB29F, 0x77E1), (0xB2A0, 0x77E4),
     (0xB2A1, 0x75C5), (0xB2A2, 0x5E76), (0xB2A3, 0x73BB), (0xB2A4, 0x83E0), (0xB2A5, 0x64AD), (0xB2A6, 0x62E8),
     (0xB2A7, 0x94B5), (0xB2A8, 0x6CE2), (0xB2A9, 0x535A), (0xB2AA, 0x52C3), (0xB2AB, 0x640F), (0xB2AC, 0x94C2),
     (0xB2AD, 0x7B94), (0xB2AE, 0x4F2F), (0xB2AF, 0x5E1B), (0xB2B0, 0x8236), (0xB2B1, 0x8116), (0xB2B2, 0x818A),
     (0xB2B3, 0x6E24), (0xB2B4, 0x6CCA), (0xB2B5, 0x9A73), (0xB2B6, 0x6355), (0xB2B7, 0x535C), (0xB2B8, 0x54FA),
     (0xB2B9, 0x8865), (0xB2BA, 0x57E0), (0xB2BB, 0x4E0D), (0xB2BC, 0x5E03), (0xB2BD, 0x6B65), (0xB2BE, 0x7C3F),
     (0xB2BF, 0x90E8), (0xB2C0, 0x6016), (0xB2C1, 0x64E6), (0xB2C2, 0x731C), (0xB2C3, 0x88C1), (0xB2C4, 0x6750),
     (0xB2C5, 0x624D), (0xB2C6, 0x8D22), (0xB2C7, 0x776C), (0xB2C8, 0x8E29), (0xB2C9, 0x91C7), (0xB2CA, 0x5F69),
     (0xB2CB, 0x83DC), (0xB2CC, 0x8521), (0xB2CD, 0x9910), (0xB2CE, 0x53C2), (0xB2CF, 0x8695), (0xB2D0, 0x6B8B),
     (0xB2D1, 0x60ED), (0xB2D2, 0x60E8), (0xB2D3, 0x707F), (0xB2D4, 0x82CD), (0xB2D5, 0x8231), (0xB2D6, 0x4ED3),
     (0xB2D7, 0x6CA7), (0xB2D8, 0x85CF), (0xB2D9, 0x64CD), (0xB2DA, 0x7CD9), (0xB2DB, 0x69FD), (0xB2DC, 0x66F9),
     (0xB2DD, 0x8349), (0xB2DE, 0x5395), (0xB2DF, 0x7B56), (0xB2E0, 0x4FA7), (0xB2E1, 0x518C), (0xB2E2, 0x6D4B),
     (0xB2E3, 0x5C42), (0xB2E4, 0x8E6D), (0xB2E5, 0x63D2), (0xB2E6, 0x53C9), (0xB2E7, 0x832C), (0xB2E8, 0x8336),
     (0xB2E9, 0x67E5), (0xB2EA, 0x78B4), (0xB2EB, 0x643D), (0xB2EC, 0x5BDF), (0xB2ED, 0x5C94), (0xB2EE, 0x5DEE),
     (0xB2EF, 0x8BE7), (0xB2F0, 0x62C6), (0xB2F1, 0x67F4), (0xB2F2, 0x8C7A), (0xB2F3, 0x6400), (0xB2F4, 0x63BA),
     (0xB2F5, 0x8749), (0xB2F6, 0x998B), (0xB2F7, 0x8C17), (0xB2F8, 0x7F20), (0xB2F9, 0x94F2), (0xB2FA, 0x4EA7),
     (0xB2FB, 0x9610), (0xB2FC, 0x98A4), (0xB2FD, 0x660C), (0xB2FE, 0x7316), (0xB340, 0x77E6), (0xB341, 0x77E8),
     (0xB342, 0x77EA), (0xB343, 0x77EF), (0xB344, 0x77F0), (0xB345, 0x77F1), (0xB346, 0x77F2), (0xB347, 0x77F4),
     (0xB348, 0x77F5), (0xB349, 0x77F7), (0xB34A, 0x77F9), (0xB34B, 0x77FA), (0xB34C, 0x77FB), (0xB34D, 0x77FC),
     (0xB34E, 0x7803), (0xB34F, 0x7804), (0xB350, 0x7805), (0xB351, 0x7806), (0xB352, 0x7807), (0xB353, 0x7808),
     (0xB354, 0x780A), (0xB355, 0x780B), (0xB356, 0x780E), (0xB357, 0x780F), (0xB358, 0x7810), (0xB359, 0x7813),
     (0xB35A, 0x7815), (0xB35B, 0x7819), (0xB35C, 0x781B), (0xB35D, 0x781E), (0xB35E, 0x7820), (0xB35F, 0x7821),
     (0xB360, 0x7822), (0xB361, 0x7824), (0xB362, 0x7828), (0xB363, 0x782A), (0xB364, 0x782B), (0xB365, 0x782E),
     (0xB366, 0x782F), (0xB367, 0x7831), (0xB368, 0x7832), (0xB369, 0x7833), (0xB36A, 0x7835), (0xB36B, 0x7836),
     (0xB36C, 0x783D), (0xB36D, 0x783F), (0xB36E, 0x7841), (0xB36F, 0x7842), (0xB370, 0x7843), (0xB371, 0x7844)]"

lemma ucs2_gbk_rows_056_climb: "climb 0xb29a ucs2_gbk_rows_056 = Some 0xb371"
  unfolding ucs2_gbk_rows_056_def by (intro climb_num climb_end; simp only: numeral_less_iff less_num_simps le_num_simps)

definition ucs2_gbk_rows_057 :: "code_map list" where
  "ucs2_gbk_rows_057 = [
     (0xB372, 0x7846), (0xB373, 0x7848), (0xB374, 0x7849), (0xB375, 0x784A), (0xB376, 0x784B), (0xB377, 0x784D),
     (0xB378, 0x784F), (0xB379, 0x7851), (0xB37A, 0x7853), (0xB37B, 0x7854), (0xB37C, 0x7858), (0xB37D, 0x7859),
     (0xB37E, 0x785A), (0xB380, 0x785B), (0xB381, 0x785C), (0xB382, 0x785E), (0xB383, 0x785F), (0xB384, 0x7860),
     (0xB385, 0x7861), (0xB386, 0x7862), (0xB387, 0x7863), (0xB388, 0x7864), (0xB389, 0x7865), (0xB38A, 0x7866),
     (0xB38B, 0x7867), (0xB38C, 0x7868), (0xB38D, 0x7869), (0xB38E, 0x786F), (0xB38F, 0x7870), (0xB390, 0x7871),
     (0xB391, 0x7872), (0xB392, 0x7873), (0xB393, 0x7874), (0xB394, 0x7875), (0xB395, 0x7876), (0xB396, 0x7878),
     (0xB397, 0x7879), (0xB398, 0x787A), (0xB399, 0x787B), (0xB39A, 0x787D), (0xB39B, 0x787E), (0xB39C, 0x787F),
     (0xB39D, 0x7880), (0xB39E, 0x7881), (0xB39F, 0x7882), (0xB3A0, 0x7883), (0xB3A1, 0x573A), (0xB3A2, 0x5C1D),
     (0xB3A3, 0x5E38), (0xB3A4, 0x957F), (0xB3A5, 0x507F), (0xB3A6, 0x80A0), (0xB3A7, 0x5382), (0xB3A8, 0x655E),
     (0xB3A9, 0x7545), (0xB3AA, 0x5531), (0xB3AB, 0x5021), (0xB3AC, 0x8D85), (0xB3AD, 0x6284), (0xB3AE, 0x949E),
     (0xB3AF, 0x671D), (0xB3B0, 0x5632), (0xB3B1, 0x6F6E), (0xB3B2, 0x5DE2), (0xB3B3, 0x5435), (0xB3B4, 0x7092),
     (0xB3B5, 0x8F66), (0xB3B6, 0x626F), (0xB3B7, 0x64A4), (0xB3B8, 0x63A3), (0xB3B9, 0x5F7B), (0xB3BA, 0x6F88),
     (0xB3BB, 0x90F4), (0xB3BC, 0x81E3), (0xB3BD, 0x8FB0), (0xB3BE, 0x5C18), (0xB3BF, 0x6668), (0xB3C0, 0x5FF1),
     (0xB3C1, 0x6C89), (0xB3C2, 0x9648), (0xB3C3, 0x8D81), (0xB3C4, 0x886C), (0xB3C5, 0x6491), (0xB3C6, 0x79F0),
     (0xB3C7, 0x57CE), (0xB3C8, 0x6A59), (0xB3C9, 0x6210), (0xB3CA, 0x5448), (0xB3CB, 0x4E58), (0xB3CC, 0x7A0B),
     (0xB3CD, 0x60E9), (0xB3CE, 0x6F84), (0xB3CF, 0x8BDA), (0xB3D0, 0x627F), (0xB3D1, 0x901E), (0xB3D2, 0x9A8B),
     (0xB3D3, 0x79E4), (0xB3D4, 0x5403), (0xB3D5, 0x75F4), (0xB3D6, 0x6301), (0xB3D7, 0x5319), (0xB3D8, 0x6C60),
     (0xB3D9, 0x8FDF), (0xB3DA, 0x5F1B), (0xB3DB, 0x9A70), (0xB3DC, 0x803B), (0xB3DD, 0x9F7F), (0xB3DE, 0x4F88),
     (0xB3DF, 0x5C3A), (0xB3E0, 0x8D64), (0xB3E1, 0x7FC5), (0xB3E2, 0x65A5), (0xB3E3, 0x70BD), (0xB3E4, 0x5145),
     (0xB3E5, 0x51B2), (0xB3E6, 0x866B), (0xB3E7, 0x5D07), (0xB3E8, 0x5BA0), (0xB3E9, 0x62BD), (0xB3EA, 0x916C),
     (0xB3EB, 0x7574), (0xB3EC, 0x8E0C), (0xB3ED, 0x7A20), (0xB3EE, 0x6101), (0xB3EF, 0x7B79), (0xB3F0, 0x4EC7),
     (0xB3F1, 0x7EF8), (0xB3F2, 0x7785), (0xB3F3, 0x4E11), (0xB3F4, 0x81ED), (0xB3F5, 0x521D), (0xB3F6, 0x51FA),
     (0xB3F7, 0x6A71), (0xB3F8, 0x53A8), (0xB3F9, 0x8E87), (0xB3FA, 0x9504), (0xB3FB, 0x96CF), (0xB3FC, 0x6EC1),
     (0xB3FD, 0x9664), (0xB3FE, 0x695A), (0xB440, 0x7884), (0xB441, 0x7885), (0xB442, 0x7886), (0xB443, 0x7888),
     (0xB444, 0x788A), (0xB445, 0x788B), (0xB446, 0x788F), (0xB447, 0x7890), (0xB448, 0x7892), (0xB449, 0x7894)]"

lemma ucs2_gbk_rows_057_climb: "climb 0xb371 ucs2_gbk_rows_057 = Some 0xb449"
  unfolding ucs2_gbk_rows_057_def by (intro climb_num climb_end; simp only: numeral_less_iff less_num_simps le_num_simps)

definition ucs2_gbk_rows_058 :: "code_map list" where
  "ucs2_gbk_rows_058 = [
     (0xB44A, 0x7895), (0xB44B, 0x7896), (0xB44C, 0x7899), (0xB44D, 0x789D), (0xB44E, 0x789E), (0xB44F, 0x78A0),
     (0xB450, 0x78A2), (0xB451, 0x78A4), (0xB452, 0x78A6), (0xB453, 0x78A8), (0xB454, 0x78A9), (0xB455, 0x78AA),
     (0xB456, 0x78AB), (0xB457, 0x78AC), (0xB458, 0x78AD), (0xB459, 0x78AE), (0xB45A, 0x78AF), (0xB45B, 0x78B5),
     (0xB45C, 0x78B6), (0xB45D, 0x78B7), (0xB45E, 0x78B8), (0xB45F, 0x78BA), (0xB460, 0x78BB), (0xB461, 0x78BC),
     (0xB462, 0x78BD), (0xB463, 0x78BF), (0xB464, 0x78C0), (0xB465, 0x78C2), (0xB466, 0x78C3), (0xB467, 0x78C4),
     (0xB468, 0x78C6), (0xB469, 0x78C7), (0xB46A, 0x78C8), (0xB46B, 0x78CC), (0xB46C, 0x78CD), (0xB46D, 0x78CE),
     (0xB46E, 0x78CF), (0xB46F, 0x78D1), (0xB470, 0x78D2), (0xB471, 0x78D3), (0xB472, 0x78D6), (0xB473, 0x78D7),
     (0xB474, 0x78D8), (0xB475, 0x78DA), (0xB476, 0x78DB), (0xB477, 0x78DC), (0xB478, 0x78DD), (0xB479, 0x78DE),
     (0xB47A, 0x78DF), (0xB47B, 0x78E0), (0xB47C, 0x78E1), (0xB47D, 0x78E2), (0xB47E, 0x78E3), (0xB480, 0x78E4),
     (0xB481, 0x78E5), (0xB482, 0x78E6), (0xB483, 0x78E7), (0xB484, 0x78E9), (0xB485, 0x78EA), (0xB486, 0x78EB),
     (0xB487, 0x78ED), (0xB488, 0x78EE), (0xB489, 0x78EF), (0xB48A, 0x78F0), (0xB48B, 0x78F1), (0xB48C, 0x78F3),
     (0xB48D, 0x78F5), (0xB48E, 0x78F6), (0xB48F, 0x78F8), (0xB490, 0x78F9), (0xB491, 0x78FB), (0xB492, 0x78FC),
     (0xB493, 0x78FD), (0xB494, 0x78FE), (0xB495, 0x78FF), (0xB496, 0x7900), (0xB497, 0x7902), (0xB498, 0x7903),
     (0xB499, 0x7904), (0xB49A, 0x7906), (0xB49B, 0x7907), (0xB49C, 0x7908), (0xB49D, 0x7909), (0xB49E, 0x790A),
     (0xB49F, 0x790B), (0xB4A0, 0x790C), (0xB4A1, 0x7840), (0xB4A2, 0x50A8), (0xB4A3, 0x77D7), (0xB4A4, 0x6410),
     (0xB4A5, 0x89E6), (0xB4A6, 0x5904), (0xB4A7, 0x63E3), (0xB4A8, 0x5DDD), (0xB4A9, 0x7A7F), (0xB4AA, 0x693D),
     (0xB4AB, 0x4F20), (0xB4AC, 0x8239), (0xB4AD, 0x5598), (0xB4AE, 0x4E32), (0xB4AF, 0x75AE), (0xB4B0, 0x7A97),
     (0xB4B1, 0x5E62), (0xB4B2, 0x5E8A), (0xB4B3, 0x95EF), (0xB4B4, 0x521B), (0xB4B5, 0x5439), (0xB4B6, 0x708A),
     (0xB4B7, 0x6376), (0xB4B8, 0x9524), (0xB4B9, 0x5782), (0xB4BA, 0x6625), (0xB4BB, 0x693F), (0xB4BC, 0x9187),
     (0xB4BD, 0x5507), (0xB4BE, 0x6DF3), (0xB4BF, 0x7EAF), (0xB4C0, 0x8822), (0xB4C1, 0x6233), (0xB4C2, 0x7EF0),
     (0xB4C3, 0x75B5), (0xB4C4, 0x8328), (0xB4C5, 0x78C1), (0xB4C6, 0x96CC), (0xB4C7, 0x8F9E), (0xB4C8, 0x6148),
     (0xB4C9, 0x74F7), (0xB4CA, 0x8BCD), (0xB4CB, 0x6B64), (0xB4CC, 0x523A), (0xB4CD, 0x8D50), (0xB4CE, 0x6B21),
     (0xB4CF, 0x806A), (0xB4D0, 0x8471), (0xB4D1, 0x56F1), (0xB4D2, 0x5306), (0xB4D3, 0x4ECE), (0xB4D4, 0x4E1B),
     (0xB4D5, 0x51D1), (0xB4D6, 0x7C97), (0xB4D7, 0x918B), (0xB4D8, 0x7C07), (0xB4D9, 0x4FC3), (0xB4DA, 0x8E7F),
     (0xB4DB, 0x7BE1), (0xB4DC, 0x7A9C), (0xB4DD, 0x6467), (0xB4DE, 0x5D14), (0xB4DF, 0x50AC), (0xB4E0, 0x8106)]"

lemma ucs2_gbk_rows_058_climb: "climb 0xb449 ucs2_gbk_rows_058 = Some 0xb4e0"
  unfolding ucs2_gbk_rows_058_def by (intro climb_num climb_end; simp only: numeral_less_iff less_num_simps le_num_simps)

definition ucs2_gbk_rows_059 :: "code_map list" where
  "ucs2_gbk_rows_059 = [
     (0xB4E1, 0x7601), (0xB4E2, 0x7CB9), (0xB4E3, 0x6DEC), (0xB4E4, 0x7FE0), (0xB4E5, 0x6751), (0xB4E6, 0x5B58),
     (0xB4E7, 0x5BF8), (0xB4E8, 0x78CB), (0xB4E9, 0x64AE), (0xB4EA, 0x6413), (0xB4EB, 0x63AA), (0xB4EC, 0x632B),
     (0xB4ED, 0x9519), (0xB4EE, 0x642D), (0xB4EF, 0x8FBE), (0xB4F0, 0x7B54), (0xB4F1, 0x7629), (0xB4F2, 0x6253),
     (0xB4F3, 0x5927), (0xB4F4, 0x5446), (0xB4F5, 0x6B79), (0xB4F6, 0x50A3), (0xB4F7, 0x6234), (0xB4F8, 0x5E26),
     (0xB4F9, 0x6B86), (0xB4FA, 0x4EE3), (0xB4FB, 0x8D37), (0xB4FC, 0x888B), (0xB4FD, 0x5F85), (0xB4FE, 0x902E),
     (0xB540, 0x790D), (0xB541, 0x790E), (0xB542, 0x790F), (0xB543, 0x7910), (0xB544, 0x7911), (0xB545, 0x7912),
     (0xB546, 0x7914), (0xB547, 0x7915), (0xB548, 0x7916), (0xB549, 0x7917), (0xB54A, 0x7918), (0xB54B, 0x7919),
     (0xB54C, 0x791A), (0xB54D, 0x791B), (0xB54E, 0x791C), (0xB54F, 0x791D), (0xB550, 0x791F), (0xB551, 0x7920),
     (0xB552, 0x7921), (0xB553, 0x7922), (0xB554, 0x7923), (0xB555, 0x7925), (0xB556, 0x7926), (0xB557, 0x7927),
     (0xB558, 0x7928), (0xB559, 0x7929), (0xB55A, 0x792A), (0xB55B, 0x792B), (0xB55C, 0x792C), (0xB55D, 0x792D),
     (0xB55E, 0x792E), (0xB55F, 0x792F), (0xB560, 0x7930), (0xB561, 0x7931), (0xB562, 0x7932), (0xB563, 0x7933),
     (0xB564, 0x7935), (0xB565, 0x7936), (0xB566, 0x7937), (0xB567, 0x7938), (0xB568, 0x7939), (0xB569, 0x793D),
     (0xB56A, 0x793F), (0xB56B, 0x7942), (0xB56C, 0x7943), (0xB56D, 0x7944), (0xB56E, 0x7945), (0xB56F, 0x7947),
     (0xB570, 0x794A), (0xB571, 0x794B), (0xB572, 0x794C), (0xB573, 0x794D), (0xB574, 0x794E), (0xB575, 0x794F),
     (0xB576, 0x7950), (0xB577, 0x7951), (0xB578, 0x7952), (0xB579, 0x7954), (0xB57A, 0x7955), (0xB57B, 0x7958),
     (0xB57C, 0x7959), (0xB57D, 0x7961), (0xB57E, 0x7963), (0xB580, 0x7964), (0xB581, 0x7966), (0xB582, 0x7969),
     (0xB583, 0x796A), (0xB584, 0x796B), (0xB585, 0x796C), (0xB586, 0x796E), (0xB587, 0x7970), (0xB588, 0x7971),
     (0xB589, 0x7972), (0xB58A, 0x7973), (0xB58B, 0x7974), (0xB58C, 0x7975), (0xB58D, 0x7976), (0xB58E, 0x7979),
     (0xB58F, 0x797B), (0xB590, 0x797C), (0xB591, 0x797D), (0xB592, 0x797E), (0xB593, 0x797F), (0xB594, 0x7982),
     (0xB595, 0x7983), (0xB596, 0x7986), (0xB597, 0x7987), (0xB598, 0x7988), (0xB599, 0x7989), (0xB59A, 0x798B),
     (0xB59B, 0x798C), (0xB59C, 0x798D), (0xB59D, 0x798E), (0xB59E, 0x7990), (0xB59F, 0x7991), (0xB5A0, 0x7992),
     (0xB5A1, 0x6020), (0xB5A2, 0x803D), (0xB5A3, 0x62C5), (0xB5A4, 0x4E39), (0xB5A5, 0x5355), (0xB5A6, 0x90F8),
     (0xB5A7, 0x63B8), (0xB5A8, 0x80C6), (0xB5A9, 0x65E6), (0xB5AA, 0x6C2E), (0xB5AB, 0x4F46), (0xB5AC, 0x60EE),
     (0xB5AD, 0x6DE1), (0xB5AE, 0x8BDE), (0xB5AF, 0x5F39), (0xB5B0, 0x86CB), (0xB5B1, 0x5F53), (0xB5B2, 0x6321),
     (0xB5B3, 0x515A), (0xB5B4, 0x8361), (0xB5B5, 0x6863), (0xB5B6, 0x5200), (0xB5B7, 0x6363), (0xB5B8, 0x8E48)]"

lemma ucs2_gbk_rows_059_climb: "climb 0xb4e0 ucs2_gbk_rows_059 = Some 0xb5b8"
  unfolding ucs2_gbk_rows_059_def by (intro climb_num climb_end; simp only: numeral_less_iff less_num_simps le_num_simps)

definition ucs2_gbk_rows_060 :: "code_map list" where
  "ucs2_gbk_rows_060 = [
     (0xB5B9, 0x5012), (0xB5BA, 0x5C9B), (0xB5BB, 0x7977), (0xB5BC, 0x5BFC), (0xB5BD, 0x5230), (0xB5BE, 0x7A3B),
     (0xB5BF, 0x60BC), (0xB5C0, 0x9053), (0xB5C1, 0x76D7), (0xB5C2, 0x5FB7), (0xB5C3, 0x5F97), (0xB5C4, 0x7684),
     (0xB5C5, 0x8E6C), (0xB5C6, 0x706F), (0xB5C7, 0x767B), (0xB5C8, 0x7B49), (0xB5C9, 0x77AA), (0xB5CA, 0x51F3),
     (0xB5CB, 0x9093), (0xB5CC, 0x5824), (0xB5CD, 0x4F4E), (0xB5CE, 0x6EF4), (0xB5CF, 0x8FEA), (0xB5D0, 0x654C),
     (0xB5D1, 0x7B1B), (0xB5D2, 0x72C4), (0xB5D3, 0x6DA4), (0xB5D4, 0x7FDF), (0xB5D5, 0x5AE1), (0xB5D6, 0x62B5),
     (0xB5D7, 0x5E95), (0xB5D8, 0x5730), (0xB5D9, 0x8482), (0xB5DA, 0x7B2C), (0xB5DB, 0x5E1D), (0xB5DC, 0x5F1F),
     (0xB5DD, 0x9012), (0xB5DE, 0x7F14), (0xB5DF, 0x98A0), (0xB5E0, 0x6382), (0xB5E1, 0x6EC7), (0xB5E2, 0x7898),
     (0xB5E3, 0x70B9), (0xB5E4, 0x5178), (0xB5E5, 0x975B), (0xB5E6, 0x57AB), (0xB5E7, 0x7535), (0xB5E8, 0x4F43),
     (0xB5E9, 0x7538), (0xB5EA, 0x5E97), (0xB5EB, 0x60E6), (0xB5EC, 0x5960), (0xB5ED, 0x6DC0), (0xB5EE, 0x6BBF),
     (0xB5EF, 0x7889), (0xB5F0, 0x53FC), (0xB5F1, 0x96D5), (0xB5F2, 0x51CB), (0xB5F3, 0x5201), (0xB5F4, 0x6389),
     (0xB5F5, 0x540A), (0xB5F6, 0x9493), (0xB5F7, 0x8C03), (0xB5F8, 0x8DCC), (0xB5F9, 0x7239), (0xB5FA, 0x789F),
     (0xB5FB, 0x8776), (0xB5FC, 0x8FED), (0xB5FD, 0x8C0D), (0xB5FE, 0x53E0), (0xB640, 0x7993), (0xB641, 0x7994),
     (0xB642, 0x7995), (0xB643, 0x7996), (0xB644, 0x7997), (0xB645, 0x7998), (0xB646, 0x7999), (0xB647, 0x799B),
     (0xB648, 0x799C), (0xB649, 0x799D), (0xB64A, 0x799E), (0xB64B, 0x799F), (0xB64C, 0x79A0), (0xB64D, 0x79A1),
     (0xB64E, 0x79A2), (0xB64F, 0x79A3), (0xB650, 0x79A4), (0xB651, 0x79A5), (0xB652, 0x79A6), (0xB653, 0x79A8),
     (0xB654, 0x79A9), (0xB655, 0x79AA), (0xB656, 0x79AB), (0xB657, 0x79AC), (0xB658, 0x79AD), (0xB659, 0x79AE),
     (0xB65A, 0x79AF), (0xB65B, 0x79B0), (0xB65C, 0x79B1), (0xB65D, 0x79B2), (0xB65E, 0x79B4), (0xB65F, 0x79B5),
     (0xB660, 0x79B6), (0xB661, 0x79B7), (0xB662, 0x79B8), (0xB663, 0x79BC), (0xB664, 0x79BF), (0xB665, 0x79C2),
     (0xB666, 0x79C4), (0xB667, 0x79C5), (0xB668, 0x79C7), (0xB669, 0x79C8), (0xB66A, 0x79CA), (0xB66B, 0x79CC),
     (0xB66C, 0x79CE), (0xB66D, 0x79CF), (0xB66E, 0x79D0), (0xB66F, 0x79D3), (0xB670, 0x79D4), (0xB671, 0x79D6),
     (0xB672, 0x79D7), (0xB673, 0x79D9), (0xB674, 0x79DA), (0xB675, 0x79DB), (0xB676, 0x79DC), (0xB677, 0x79DD),
     (0xB678, 0x79DE), (0xB679, 0x79E0), (0xB67A, 0x79E1), (0xB67B, 0x79E2), (0xB67C, 0x79E5), (0xB67D, 0x79E8),
     (0xB67E, 0x79EA), (0xB680, 0x79EC), (0xB681, 0x79EE), (0xB682, 0x79F1), (0xB683, 0x79F2), (0xB684, 0x79F3),
     (0xB685, 0x79F4), (0xB686, 0x79F5), (0xB687, 0x79F6), (0xB688, 0x79F7), (0xB689, 0x79F9), (0xB68A, 0x79FA),
     (0xB68B, 0x79FC), (0xB68C, 0x79FE), (0xB68D, 0x79FF), (0xB68E, 0x7A01), (0xB68F, 0x7A04), (0xB690, 0x7A05)]"

lemma ucs2_gbk_rows_060_climb: "climb 0xb5b8 ucs2_gbk_rows_060 = Some 0xb690"
  unfolding ucs2_gbk_rows_060_def by (intro climb_num climb_end; simp only: numeral_less_iff less_num_simps le_num_simps)

definition ucs2_gbk_rows_061 :: "code_map list" where
  "ucs2_gbk_rows_061 = [
     (0xB691, 0x7A07), (0xB692, 0x7A08), (0xB693, 0x7A09), (0xB694, 0x7A0A), (0xB695, 0x7A0C), (0xB696, 0x7A0F),
     (0xB697, 0x7A10), (0xB698, 0x7A11), (0xB699, 0x7A12), (0xB69A, 0x7A13), (0xB69B, 0x7A15), (0xB69C, 0x7A16),
     (0xB69D, 0x7A18), (0xB69E, 0x7A19), (0xB69F, 0x7A1B), (0xB6A0, 0x7A1C), (0xB6A1, 0x4E01), (0xB6A2, 0x76EF),
     (0xB6A3, 0x53EE), (0xB6A4, 0x9489), (0xB6A5, 0x9876), (0xB6A6, 0x9F0E), (0xB6A7, 0x952D), (0xB6A8, 0x5B9A),
     (0xB6A9, 0x8BA2), (0xB6AA, 0x4E22), (0xB6AB, 0x4E1C), (0xB6AC, 0x51AC), (0xB6AD, 0x8463), (0xB6AE, 0x61C2),
     (0xB6AF, 0x52A8), (0xB6B0, 0x680B), (0xB6B1, 0x4F97), (0xB6B2, 0x606B), (0xB6B3, 0x51BB), (0xB6B4, 0x6D1E),
     (0xB6B5, 0x515C), (0xB6B6, 0x6296), (0xB6B7, 0x6597), (0xB6B8, 0x9661), (0xB6B9, 0x8C46), (0xB6BA, 0x9017),
     (0xB6BB, 0x75D8), (0xB6BC, 0x90FD), (0xB6BD, 0x7763), (0xB6BE, 0x6BD2), (0xB6BF, 0x728A), (0xB6C0, 0x72EC),
     (0xB6C1, 0x8BFB), (0xB6C2, 0x5835), (0xB6C3, 0x7779), (0xB6C4, 0x8D4C), (0xB6C5, 0x675C), (0xB6C6, 0x9540),
     (0xB6C7, 0x809A), (0xB6C8, 0x5EA6), (0xB6C9, 0x6E21), (0xB6CA, 0x5992), (0xB6CB, 0x7AEF), (0xB6CC, 0x77ED),
     (0xB6CD, 0x953B), (0xB6CE, 0x6BB5), (0xB6CF, 0x65AD), (0xB6D0, 0x7F0E), (0xB6D1, 0x5806), (0xB6D2, 0x5151),
     (0xB6D3, 0x961F), (0xB6D4, 0x5BF9), (0xB6D5, 0x58A9), (0xB6D6, 0x5428), (0xB6D7, 0x8E72), (0xB6D8, 0x6566),
     (0xB6D9, 0x987F), (0xB6DA, 0x56E4), (0xB6DB, 0x949D), (0xB6DC, 0x76FE), (0xB6DD, 0x9041), (0xB6DE, 0x6387),
     (0xB6DF, 0x54C6), (0xB6E0, 0x591A), (0xB6E1, 0x593A), (0xB6E2, 0x579B), (0xB6E3, 0x8EB2), (0xB6E4, 0x6735),
     (0xB6E5, 0x8DFA), (0xB6E6, 0x8235), (0xB6E7, 0x5241), (0xB6E8, 0x60F0), (0xB6E9, 0x5815), (0xB6EA, 0x86FE),
     (0xB6EB, 0x5CE8), (0xB6EC, 0x9E45), (0xB6ED, 0x4FC4), (0xB6EE, 0x989D), (0xB6EF, 0x8BB9), (0xB6F0, 0x5A25),
     (0xB6F1, 0x6076), (0xB6F2, 0x5384), (0xB6F3, 0x627C), (0xB6F4, 0x904F), (0xB6F5, 0x9102), (0xB6F6, 0x997F),
     (0xB6F7, 0x6069), (0xB6F8, 0x800C), (0xB6F9, 0x513F), (0xB6FA, 0x8033), (0xB6FB, 0x5C14), (0xB6FC, 0x9975),
     (0xB6FD, 0x6D31), (0xB6FE, 0x4E8C), (0xB740, 0x7A1D), (0xB741, 0x7A1F), (0xB742, 0x7A21), (0xB743, 0x7A22),
     (0xB744, 0x7A24), (0xB745, 0x7A25), (0xB746, 0x7A26), (0xB747, 0x7A27), (0xB748, 0x7A28), (0xB749, 0x7A29),
     (0xB74A, 0x7A2A), (0xB74B, 0x7A2B), (0xB74C, 0x7A2C), (0xB74D, 0x7A2D), (0xB74E, 0x7A2E), (0xB74F, 0x7A2F),
     (0xB750, 0x7A30), (0xB751, 0x7A31), (0xB752, 0x7A32), (0xB753, 0x7A34), (0xB754, 0x7A35), (0xB755, 0x7A36),
     (0xB756, 0x7A38), (0xB757, 0x7A3A), (0xB758, 0x7A3E), (0xB759, 0x7A40), (0xB75A, 0x7A41), (0xB75B, 0x7A42),
     (0xB75C, 0x7A43), (0xB75D, 0x7A44), (0xB75E, 0x7A45), (0xB75F, 0x7A47), (0xB760, 0x7A48), (0xB761, 0x7A49),
     (0xB762, 0x7A4A), (0xB763, 0x7A4B), (0xB764, 0x7A4C), (0xB765, 0x7A4D), (0xB766, 0x7A4E), (0xB767, 0x7A4F)]"

lemma ucs2_gbk_rows_061_climb: "climb 0xb690 ucs2_gbk_rows_061 = Some 0xb767"
  unfolding ucs2_gbk_rows_061_def by (intro climb_num climb_end; simp only: numeral_less_iff less_num_simps le_num_simps)

definition ucs2_gbk_rows_062 :: "code_map list" where
  "ucs2_gbk_rows_062 = [
     (0xB768, 0x7A50), (0xB769, 0x7A52), (0xB76A, 0x7A53), (0xB76B, 0x7A54), (0xB76C, 0x7A55), (0xB76D, 0x7A56),
     (0xB76E, 0x7A58), (0xB76F, 0x7A59), (0xB770, 0x7A5A), (0xB771, 0x7A5B), (0xB772, 0x7A5C), (0xB773, 0x7A5D),
     (0xB774, 0x7A5E), (0xB775, 0x7A5F), (0xB776, 0x7A60), (0xB777, 0x7A61), (0xB778, 0x7A62), (0xB779, 0x7A63),
     (0xB77A, 0x7A64), (0xB77B, 0x7A65), (0xB77C, 0x7A66), (0xB77D, 0x7A67), (0xB77E, 0x7A68), (0xB780, 0x7A69),
     (0xB781, 0x7A6A), (0xB782, 0x7A6B), (0xB783, 0x7A6C), (0xB784, 0x7A6D), (0xB785, 0x7A6E), (0xB786, 0x7A6F),
     (0xB787, 0x7A71), (0xB788, 0x7A72), (0xB789, 0x7A73), (0xB78A, 0x7A75), (0xB78B, 0x7A7B), (0xB78C, 0x7A7C),
     (0xB78D, 0x7A7D), (0xB78E, 0x7A7E), (0xB78F, 0x7A82), (0xB790, 0x7A85), (0xB791, 0x7A87), (0xB792, 0x7A89),
     (0xB793, 0x7A8A), (0xB794, 0x7A8B), (0xB795, 0x7A8C), (0xB796, 0x7A8E), (0xB797, 0x7A8F), (0xB798, 0x7A90),
     (0xB799, 0x7A93), (0xB79A, 0x7A94), (0xB79B, 0x7A99), (0xB79C, 0x7A9A), (0xB79D, 0x7A9B), (0xB79E, 0x7A9E),
     (0xB79F, 0x7AA1), (0xB7A0, 0x7AA2), (0xB7A1, 0x8D30), (0xB7A2, 0x53D1), (0xB7A3, 0x7F5A), (0xB7A4, 0x7B4F),
     (0xB7A5, 0x4F10), (0xB7A6, 0x4E4F), (0xB7A7, 0x9600), (0xB7A8, 0x6CD5), (0xB7A9, 0x73D0), (0xB7AA, 0x85E9),
     (0xB7AB, 0x5E06), (0xB7AC, 0x756A), (0xB7AD, 0x7FFB), (0xB7AE, 0x6A0A), (0xB7AF, 0x77FE), (0xB7B0, 0x9492),
     (0xB7B1, 0x7E41), (0xB7B2, 0x51E1), (0xB7B3, 0x70E6), (0xB7B4, 0x53CD), (0xB7B5, 0x8FD4), (0xB7B6, 0x8303),
     (0xB7B7, 0x8D29), (0xB7B8, 0x72AF), (0xB7B9, 0x996D), (0xB7BA, 0x6CDB), (0xB7BB, 0x574A), (0xB7BC, 0x82B3),
     (0xB7BD, 0x65B9), (0xB7BE, 0x80AA), (0xB7BF, 0x623F), (0xB7C0, 0x9632), (0xB7C1, 0x59A8), (0xB7C2, 0x4EFF),
     (0xB7C3, 0x8BBF), (0xB7C4, 0x7EBA), (0xB7C5, 0x653E), (0xB7C6, 0x83F2), (0xB7C7, 0x975E), (0xB7C8, 0x5561),
     (0xB7C9, 0x98DE), (0xB7CA, 0x80A5), (0xB7CB, 0x532A), (0xB7CC, 0x8BFD), (0xB7CD, 0x5420), (0xB7CE, 0x80BA),
     (0xB7CF, 0x5E9F), (0xB7D0, 0x6CB8), (0xB7D1, 0x8D39), (0xB7D2, 0x82AC), (0xB7D3, 0x915A), (0xB7D4, 0x5429),
     (0xB7D5, 0x6C1B), (0xB7D6, 0x5206), (0xB7D7, 0x7EB7), (0xB7D8, 0x575F), (0xB7D9, 0x711A), (0xB7DA, 0x6C7E),
     (0xB7DB, 0x7C89), (0xB7DC, 0x594B), (0xB7DD, 0x4EFD), (0xB7DE, 0x5FFF), (0xB7DF, 0x6124), (0xB7E0, 0x7CAA),
     (0xB7E1, 0x4E30), (0xB7E2, 0x5C01), (0xB7E3, 0x67AB), (0xB7E4, 0x8702), (0xB7E5, 0x5CF0), (0xB7E6, 0x950B),
     (0xB7E7, 0x98CE), (0xB7E8, 0x75AF), (0xB7E9, 0x70FD), (0xB7EA, 0x9022), (0xB7EB, 0x51AF), (0xB7EC, 0x7F1D),
     (0xB7ED, 0x8BBD), (0xB7EE, 0x5949), (0xB7EF, 0x51E4), (0xB7F0, 0x4F5B), (0xB7F1, 0x5426), (0xB7F2, 0x592B),
     (0xB7F3, 0x6577), (0xB7F4, 0x80A4), (0xB7F5, 0x5B75), (0xB7F6, 0x6276), (0xB7F7, 0x62C2), (0xB7F8, 0x8F90),
     (0xB7F9, 0x5E45), (0xB7FA, 0x6C1F), (0xB7FB, 0x7B26), (0xB7FC, 0x4F0F), (0xB7FD, 0x4FD8), (0xB7FE, 0x670D)]"

lemma ucs2_gbk_rows_062_climb: "climb 0xb767 ucs2_gbk_rows_062 = Some 0xb7fe"
  unfolding ucs2_gbk_rows_062_def by (intro climb_num climb_end; simp only: numeral_less_iff less_num_simps le_num_simps)

definition ucs2_gbk_rows_063 :: "code_map list" where
  "ucs2_gbk_rows_063 = [
     (0xB840, 0x7AA3), (0xB841, 0x7AA4), (0xB842, 0x7AA7), (0xB843, 0x7AA9), (0xB844, 0x7AAA), (0xB845, 0x7AAB),
     (0xB846, 0x7AAE), (0xB847, 0x7AAF), (0xB848, 0x7AB0), (0xB849, 0x7AB1), (0xB84A, 0x7AB2), (0xB84B, 0x7AB4),
     (0xB84C, 0x7AB5), (0xB84D, 0x7AB6), (0xB84E, 0x7AB7), (0xB84F, 0x7AB8), (0xB850, 0x7AB9), (0xB851, 0x7ABA),
     (0xB852, 0x7ABB), (0xB853, 0x7ABC), (0xB854, 0x7ABD), (0xB855, 0x7ABE), (0xB856, 0x7AC0), (0xB857, 0x7AC1),
     (0xB858, 0x7AC2), (0xB859, 0x7AC3), (0xB85A, 0x7AC4), (0xB85B, 0x7AC5), (0xB85C, 0x7AC6), (0xB85D, 0x7AC7),
     (0xB85E, 0x7AC8), (0xB85F, 0x7AC9), (0xB860, 0x7ACA), (0xB861, 0x7ACC), (0xB862, 0x7ACD), (0xB863, 0x7ACE),
     (0xB864, 0x7ACF), (0xB865, 0x7AD0), (0xB866, 0x7AD1), (0xB867, 0x7AD2), (0xB868, 0x7AD3), (0xB869, 0x7AD4),
     (0xB86A, 0x7AD5), (0xB86B, 0x7AD7), (0xB86C, 0x7AD8), (0xB86D, 0x7ADA), (0xB86E, 0x7ADB), (0xB86F, 0x7ADC),
     (0xB870, 0x7ADD), (0xB871, 0x7AE1), (0xB872, 0x7AE2), (0xB873, 0x7AE4), (0xB874, 0x7AE7), (0xB875, 0x7AE8),
     (0xB876, 0x7AE9), (0xB877, 0x7AEA), (0xB878, 0x7AEB), (0xB879, 0x7AEC), (0xB87A, 0x7AEE), (0xB87B, 0x7AF0),
     (0xB87C, 0x7AF1), (0xB87D, 0x7AF2), (0xB87E, 0x7AF3), (0xB880, 0x7AF4), (0xB881, 0x7AF5), (0xB882, 0x7AF6),
     (0xB883, 0x7AF7), (0xB884, 0x7AF8), (0xB885, 0x7AFB), (0xB886, 0x7AFC), (0xB887, 0x7AFE), (0xB888, 0x7B00),
     (0xB889, 0x7B01), (0xB88A, 0x7B02), (0xB88B, 0x7B05), (0xB88C, 0x7B07), (0xB88D, 0x7B09), (0xB88E, 0x7B0C),
     (0xB88F, 0x7B0D), (0xB890, 0x7B0E), (0xB891, 0x7B10), (0xB892, 0x7B12), (0xB893, 0x7B13), (0xB894, 0x7B16),
     (0xB895, 0x7B17), (0xB896, 0x7B18), (0xB897, 0x7B1A), (0xB898, 0x7B1C), (0xB899, 0x7B1D), (0xB89A, 0x7B1F),
     (0xB89B, 0x7B21), (0xB89C, 0x7B22), (0xB89D, 0x7B23), (0xB89E, 0x7B27), (0xB89F, 0x7B29), (0xB8A0, 0x7B2D),
     (0xB8A1, 0x6D6E), (0xB8A2, 0x6DAA), (0xB8A3, 0x798F), (0xB8A4, 0x88B1), (0xB8A5, 0x5F17), (0xB8A6, 0x752B),
     (0xB8A7, 0x629A), (0xB8A8, 0x8F85), (0xB8A9, 0x4FEF), (0xB8AA, 0x91DC), (0xB8AB, 0x65A7), (0xB8AC, 0x812F),
     (0xB8AD, 0x8151), (0xB8AE, 0x5E9C), (0xB8AF, 0x8150), (0xB8B0, 0x8D74), (0xB8B1, 0x526F), (0xB8B2, 0x8986),
     (0xB8B3, 0x8D4B), (0xB8B4, 0x590D), (0xB8B5, 0x5085), (0xB8B6, 0x4ED8), (0xB8B7, 0x961C), (0xB8B8, 0x7236),
     (0xB8B9, 0x8179), (0xB8BA, 0x8D1F), (0xB8BB, 0x5BCC), (0xB8BC, 0x8BA3), (0xB8BD, 0x9644), (0xB8BE, 0x5987),
     (0xB8BF, 0x7F1A), (0xB8C0, 0x5490), (0xB8C1, 0x5676), (0xB8C2, 0x560E), (0xB8C3, 0x8BE5), (0xB8C4, 0x6539),
     (0xB8C5, 0x6982), (0xB8C6, 0x9499), (0xB8C7, 0x76D6), (0xB8C8, 0x6E89), (0xB8C9, 0x5E72), (0xB8CA, 0x7518),
     (0xB8CB, 0x6746), (0xB8CC, 0x67D1), (0xB8CD, 0x7AFF), (0xB8CE, 0x809D), (0xB8CF, 0x8D76), (0xB8D0, 0x611F),
     (0xB8D1, 0x79C6), (0xB8D2, 0x6562), (0xB8D3, 0x8D63), (0xB8D4, 0x5188), (0xB8D5, 0x521A), (0xB8D6, 0x94A2)]"

lemma ucs2_gbk_rows_063_climb: "climb 0xb7fe ucs2_gbk_rows_063 = Some 0xb8d6"
  unfolding ucs2_gbk_rows_063_def by (intro climb_num climb_end; simp only: numeral_less_iff less_num_simps le_num_simps)

definition ucs2_gbk_rows_064 :: "code_map list" where
  "ucs2_gbk_rows_064 = [
     (0xB8D7, 0x7F38), (0xB8D8, 0x809B), (0xB8D9, 0x7EB2), (0xB8DA, 0x5C97), (0xB8DB, 0x6E2F), (0xB8DC, 0x6760),
     (0xB8DD, 0x7BD9), (0xB8DE, 0x768B), (0xB8DF, 0x9AD8), (0xB8E0, 0x818F), (0xB8E1, 0x7F94), (0xB8E2, 0x7CD5),
     (0xB8E3, 0x641E), (0xB8E4, 0x9550), (0xB8E5, 0x7A3F), (0xB8E6, 0x544A), (0xB8E7, 0x54E5), (0xB8E8, 0x6B4C),
     (0xB8E9, 0x6401), (0xB8EA, 0x6208), (0xB8EB, 0x9E3D), (0xB8EC, 0x80F3), (0xB8ED, 0x7599), (0xB8EE, 0x5272),
     (0xB8EF, 0x9769), (0xB8F0, 0x845B), (0xB8F1, 0x683C), (0xB8F2, 0x86E4), (0xB8F3, 0x9601), (0xB8F4, 0x9694),
     (0xB8F5, 0x94EC), (0xB8F6, 0x4E2A), (0xB8F7, 0x5404), (0xB8F8, 0x7ED9), (0xB8F9, 0x6839), (0xB8FA, 0x8DDF),
     (0xB8FB, 0x8015), (0xB8FC, 0x66F4), (0xB8FD, 0x5E9A), (0xB8FE, 0x7FB9), (0xB940, 0x7B2F), (0xB941, 0x7B30),
     (0xB942, 0x7B32), (0xB943, 0x7B34), (0xB944, 0x7B35), (0xB945, 0x7B36), (0xB946, 0x7B37), (0xB947, 0x7B39),
     (0xB948, 0x7B3B), (0xB949, 0x7B3D), (0xB94A, 0x7B3F), (0xB94B, 0x7B40), (0xB94C, 0x7B41), (0xB94D, 0x7B42),
     (0xB94E, 0x7B43), (0xB94F, 0x7B44), (0xB950, 0x7B46), (0xB951, 0x7B48), (0xB952, 0x7B4A), (0xB953, 0x7B4D),
     (0xB954, 0x7B4E), (0xB955, 0x7B53), (0xB956, 0x7B55), (0xB957, 0x7B57), (0xB958, 0x7B59), (0xB959, 0x7B5C),
     (0xB95A, 0x7B5E), (0xB95B, 0x7B5F), (0xB95C, 0x7B61), (0xB95D, 0x7B63), (0xB95E, 0x7B64), (0xB95F, 0x7B65),
     (0xB960, 0x7B66), (0xB961, 0x7B67), (0xB962, 0x7B68), (0xB963, 0x7B69), (0xB964, 0x7B6A), (0xB965, 0x7B6B),
     (0xB966, 0x7B6C), (0xB967, 0x7B6D), (0xB968, 0x7B6F), (0xB969, 0x7B70), (0xB96A, 0x7B73), (0xB96B, 0x7B74),
     (0xB96C, 0x7B76), (0xB96D, 0x7B78), (0xB96E, 0x7B7A), (0xB96F, 0x7B7C), (0xB970, 0x7B7D), (0xB971, 0x7B7F),
     (0xB972, 0x7B81), (0xB973, 0x7B82), (0xB974, 0x7B83), (0xB975, 0x7B84), (0xB976, 0x7B86), (0xB977, 0x7B87),
     (0xB978, 0x7B88), (0xB979, 0x7B89), (0xB97A, 0x7B8A), (0xB97B, 0x7B8B), (0xB97C, 0x7B8C), (0xB97D, 0x7B8E),
     (0xB97E, 0x7B8F), (0xB980, 0x7B91), (0xB981, 0x7B92), (0xB982, 0x7B93), (0xB983, 0x7B96), (0xB984, 0x7B98),
     (0xB985, 0x7B99), (0xB986, 0x7B9A), (0xB987, 0x7B9B), (0xB988, 0x7B9E), (0xB989, 0x7B9F), (0xB98A, 0x7BA0),
     (0xB98B, 0x7BA3), (0xB98C, 0x7BA4), (0xB98D, 0x7BA5), (0xB98E, 0x7BAE), (0xB98F, 0x7BAF), (0xB990, 0x7BB0),
     (0xB991, 0x7BB2), (0xB992, 0x7BB3), (0xB993, 0x7BB5), (0xB994, 0x7BB6), (0xB995, 0x7BB7), (0xB996, 0x7BB9),
     (0xB997, 0x7BBA), (0xB998, 0x7BBB), (0xB999, 0x7BBC), (0xB99A, 0x7BBD), (0xB99B, 0x7BBE), (0xB99C, 0x7BBF),
     (0xB99D, 0x7BC0), (0xB99E, 0x7BC2), (0xB99F, 0x7BC3), (0xB9A0, 0x7BC4), (0xB9A1, 0x57C2), (0xB9A2, 0x803F),
     (0xB9A3, 0x6897), (0xB9A4, 0x5DE5), (0xB9A5, 0x653B), (0xB9A6, 0x529F), (0xB9A7, 0x606D), (0xB9A8, 0x9F9A),
     (0xB9A9, 0x4F9B), (0xB9AA, 0x8EAC), (0xB9AB, 0x516C), (0xB9AC, 0x5BAB), (0xB9AD, 0x5F13), (0xB9AE, 0x5DE9)]"

lemma ucs2_gbk_rows_064_climb: "climb 0xb8d6 ucs2_gbk_rows_064 = Some 0xb9ae"
  unfolding ucs2_gbk_rows_064_def by (intro climb_num climb_end; simp only: numeral_less_iff less_num_simps le_num_simps)

definition ucs2_gbk_rows_065 :: "code_map list" where
  "ucs2_gbk_rows_065 = [
     (0xB9AF, 0x6C5E), (0xB9B0, 0x62F1), (0xB9B1, 0x8D21), (0xB9B2, 0x5171), (0xB9B3, 0x94A9), (0xB9B4, 0x52FE),
     (0xB9B5, 0x6C9F), (0xB9B6, 0x82DF), (0xB9B7, 0x72D7), (0xB9B8, 0x57A2), (0xB9B9, 0x6784), (0xB9BA, 0x8D2D),
     (0xB9BB, 0x591F), (0xB9BC, 0x8F9C), (0xB9BD, 0x83C7), (0xB9BE, 0x5495), (0xB9BF, 0x7B8D), (0xB9C0, 0x4F30),
     (0xB9C1, 0x6CBD), (0xB9C2, 0x5B64), (0xB9C3, 0x59D1), (0xB9C4, 0x9F13), (0xB9C5, 0x53E4), (0xB9C6, 0x86CA),
     (0xB9C7, 0x9AA8), (0xB9C8, 0x8C37), (0xB9C9, 0x80A1), (0xB9CA, 0x6545), (0xB9CB, 0x987E), (0xB9CC, 0x56FA),
     (0xB9CD, 0x96C7), (0xB9CE, 0x522E), (0xB9CF, 0x74DC), (0xB9D0, 0x5250), (0xB9D1, 0x5BE1), (0xB9D2, 0x6302),
     (0xB9D3, 0x8902), (0xB9D4, 0x4E56), (0xB9D5, 0x62D0), (0xB9D6, 0x602A), (0xB9D7, 0x68FA), (0xB9D8, 0x5173),
     (0xB9D9, 0x5B98), (0xB9DA, 0x51A0), (0xB9DB, 0x89C2), (0xB9DC, 0x7BA1), (0xB9DD, 0x9986), (0xB9DE, 0x7F50),
     (0xB9DF, 0x60EF), (0xB9E0, 0x704C), (0xB9E1, 0x8D2F), (0xB9E2, 0x5149), (0xB9E3, 0x5E7F), (0xB9E4, 0x901B),
     (0xB9E5, 0x7470), (0xB9E6, 0x89C4), (0xB9E7, 0x572D), (0xB9E8, 0x7845), (0xB9E9, 0x5F52), (0xB9EA, 0x9F9F),
     (0xB9EB, 0x95FA), (0xB9EC, 0x8F68), (0xB9ED, 0x9B3C), (0xB9EE, 0x8BE1), (0xB9EF, 0x7678), (0xB9F0, 0x6842),
     (0xB9F1, 0x67DC), (0xB9F2, 0x8DEA), (0xB9F3, 0x8D35), (0xB9F4, 0x523D), (0xB9F5, 0x8F8A), (0xB9F6, 0x6EDA),
     (0xB9F7, 0x68CD), (0xB9F8, 0x9505), (0xB9F9, 0x90ED), (0xB9FA, 0x56FD), (0xB9FB, 0x679C), (0xB9FC, 0x88F9),
     (0xB9FD, 0x8FC7), (0xB9FE, 0x54C8), (0xBA40, 0x7BC5), (0xBA41, 0x7BC8), (0xBA42, 0x7BC9), (0xBA43, 0x7BCA),
     (0xBA44, 0x7BCB), (0xBA45, 0x7BCD), (0xBA46, 0x7BCE), (0xBA47, 0x7BCF), (0xBA48, 0x7BD0), (0xBA49, 0x7BD2),
     (0xBA4A, 0x7BD4), (0xBA4B, 0x7BD5), (0xBA4C, 0x7BD6), (0xBA4D, 0x7BD7), (0xBA4E, 0x7BD8), (0xBA4F, 0x7BDB),
     (0xBA50, 0x7BDC), (0xBA51, 0x7BDE), (0xBA52, 0x7BDF), (0xBA53, 0x7BE0), (0xBA54, 0x7BE2), (0xBA55, 0x7BE3),
     (0xBA56, 0x7BE4), (0xBA57, 0x7BE7), (0xBA58, 0x7BE8), (0xBA59, 0x7BE9), (0xBA5A, 0x7BEB), (0xBA5B, 0x7BEC),
     (0xBA5C, 0x7BED), (0xBA5D, 0x7BEF), (0xBA5E, 0x7BF0), (0xBA5F, 0x7BF2), (0xBA60, 0x7BF3), (0xBA61, 0x7BF4),
     (0xBA62, 0x7BF5), (0xBA63, 0x7BF6), (0xBA64, 0x7BF8), (0xBA65, 0x7BF9), (0xBA66, 0x7BFA), (0xBA67, 0x7BFB),
     (0xBA68, 0x7BFD), (0xBA69, 0x7BFF), (0xBA6A, 0x7C00), (0xBA6B, 0x7C01), (0xBA6C, 0x7C02), (0xBA6D, 0x7C03),
     (0xBA6E, 0x7C04), (0xBA6F, 0x7C05), (0xBA70, 0x7C06), (0xBA71, 0x7C08), (0xBA72, 0x7C09), (0xBA73, 0x7C0A),
     (0xBA74, 0x7C0D), (0xBA75, 0x7C0E), (0xBA76, 0x7C10), (0xBA77, 0x7C11), (0xBA78, 0x7C12), (0xBA79, 0x7C13),
     (0xBA7A, 0x7C14), (0xBA7B, 0x7C15), (0xBA7C, 0x7C17), (0xBA7D, 0x7C18), (0xBA7E, 0x7C19), (0xBA80, 0x7C1A),
     (0xBA81, 0x7C1B), (0xBA82, 0x7C1C), (0xBA83, 0x7C1D), (0xBA84, 0x7C1E), (0xBA85, 0x7C20), (0xBA86, 0x7C21)]"

lemma ucs2_gbk_rows_065_climb: "climb 0xb9ae ucs2_gbk_rows_065 = Some 0xba86"
  unfolding ucs2_gbk_rows_065_def by (intro climb_num climb_end; simp only: numeral_less_iff less_num_simps le_num_simps)

definition ucs2_gbk_rows_066 :: "code_map list" where
  "ucs2_gbk_rows_066 = [
     (0xBA87, 0x7C22), (0xBA88, 0x7C23), (0xBA89, 0x7C24), (0xBA8A, 0x7C25), (0xBA8B, 0x7C28), (0xBA8C, 0x7C29),
     (0xBA8D, 0x7C2B), (0xBA8E, 0x7C2C), (0xBA8F, 0x7C2D), (0xBA90, 0x7C2E), (0xBA91, 0x7C2F), (0xBA92, 0x7C30),
     (0xBA93, 0x7C31), (0xBA94, 0x7C32), (0xBA95, 0x7C33), (0xBA96, 0x7C34), (0xBA97, 0x7C35), (0xBA98, 0x7C36),
     (0xBA99, 0x7C37), (0xBA9A, 0x7C39), (0xBA9B, 0x7C3A), (0xBA9C, 0x7C3B), (0xBA9D, 0x7C3C), (0xBA9E, 0x7C3D),
     (0xBA9F, 0x7C3E), (0xBAA0, 0x7C42), (0xBAA1, 0x9AB8), (0xBAA2, 0x5B69), (0xBAA3, 0x6D77), (0xBAA4, 0x6C26),
     (0xBAA5, 0x4EA5), (0xBAA6, 0x5BB3), (0xBAA7, 0x9A87), (0xBAA8, 0x9163), (0xBAA9, 0x61A8), (0xBAAA, 0x90AF),
     (0xBAAB, 0x97E9), (0xBAAC, 0x542B), (0xBAAD, 0x6DB5), (0xBAAE, 0x5BD2), (0xBAAF, 0x51FD), (0xBAB0, 0x558A),
     (0xBAB1, 0x7F55), (0xBAB2, 0x7FF0), (0xBAB3, 0x64BC), (0xBAB4, 0x634D), (0xBAB5, 0x65F1), (0xBAB6, 0x61BE),
     (0xBAB7, 0x608D), (0xBAB8, 0x710A), (0xBAB9, 0x6C57), (0xBABA, 0x6C49), (0xBABB, 0x592F), (0xBABC, 0x676D),
     (0xBABD, 0x822A), (0xBABE, 0x58D5), (0xBABF, 0x568E), (0xBAC0, 0x8C6A), (0xBAC1, 0x6BEB), (0xBAC2, 0x90DD),
     (0xBAC3, 0x597D), (0xBAC4, 0x8017), (0xBAC5, 0x53F7), (0xBAC6, 0x6D69), (0xBAC7, 0x5475), (0xBAC8, 0x559D),
     (0xBAC9, 0x8377), (0xBACA, 0x83CF), (0xBACB, 0x6838), (0xBACC, 0x79BE), (0xBACD, 0x548C), (0xBACE, 0x4F55),
     (0xBACF, 0x5408), (0xBAD0, 0x76D2), (0xBAD1, 0x8C89), (0xBAD2, 0x9602), (0xBAD3, 0x6CB3), (0xBAD4, 0x6DB8),
     (0xBAD5, 0x8D6B), (0xBAD6, 0x8910), (0xBAD7, 0x9E64), (0xBAD8, 0x8D3A), (0xBAD9, 0x563F), (0xBADA, 0x9ED1),
     (0xBADB, 0x75D5), (0xBADC, 0x5F88), (0xBADD, 0x72E0), (0xBADE, 0x6068), (0xBADF, 0x54FC), (0xBAE0, 0x4EA8),
     (0xBAE1, 0x6A2A), (0xBAE2, 0x8861), (0xBAE3, 0x6052), (0xBAE4, 0x8F70), (0xBAE5, 0x54C4), (0xBAE6, 0x70D8),
     (0xBAE7, 0x8679), (0xBAE8, 0x9E3F), (0xBAE9, 0x6D2A), (0xBAEA, 0x5B8F), (0xBAEB, 0x5F18), (0xBAEC, 0x7EA2),
     (0xBAED, 0x5589), (0xBAEE, 0x4FAF), (0xBAEF, 0x7334), (0xBAF0, 0x543C), (0xBAF1, 0x539A), (0xBAF2, 0x5019),
     (0xBAF3, 0x540E), (0xBAF4, 0x547C), (0xBAF5, 0x4E4E), (0xBAF6, 0x5FFD), (0xBAF7, 0x745A), (0xBAF8, 0x58F6),
     (0xBAF9, 0x846B), (0xBAFA, 0x80E1), (0xBAFB, 0x8774), (0xBAFC, 0x72D0), (0xBAFD, 0x7CCA), (0xBAFE, 0x6E56),
     (0xBB40, 0x7C43), (0xBB41, 0x7C44), (0xBB42, 0x7C45), (0xBB43, 0x7C46), (0xBB44, 0x7C47), (0xBB45, 0x7C48),
     (0xBB46, 0x7C49), (0xBB47, 0x7C4A), (0xBB48, 0x7C4B), (0xBB49, 0x7C4C), (0xBB4A, 0x7C4E), (0xBB4B, 0x7C4F),
     (0xBB4C, 0x7C50), (0xBB4D, 0x7C51), (0xBB4E, 0x7C52), (0xBB4F, 0x7C53), (0xBB50, 0x7C54), (0xBB51, 0x7C55),
     (0xBB52, 0x7C56), (0xBB53, 0x7C57), (0xBB54, 0x7C58), (0xBB55, 0x7C59), (0xBB56, 0x7C5A), (0xBB57, 0x7C5B),
     (0xBB58, 0x7C5C), (0xBB59, 0x7C5D), (0xBB5A, 0x7C5E), (0xBB5B, 0x7C5F), (0xBB5C, 0x7C60), (0xBB5D, 0x7C61)]"

lemma ucs2_gbk_rows_066_climb: "climb 0xba86 ucs2_gbk_rows_066 = Some 0xbb5d"
  unfolding ucs2_gbk_rows_066_def by (intro climb_num climb_end; simp only: numeral_less_iff less_num_simps le_num_simps)

definition ucs2_gbk_rows_067 :: "code_map list" where
  "ucs2_gbk_rows_067 = [
     (0xBB5E, 0x7C62), (0xBB5F, 0x7C63), (0xBB60, 0x7C64), (0xBB61, 0x7C65), (0xBB62, 0x7C66), (0xBB63, 0x7C67),
     (0xBB64, 0x7C68), (0xBB65, 0x7C69), (0xBB66, 0x7C6A), (0xBB67, 0x7C6B), (0xBB68, 0x7C6C), (0xBB69, 0x7C6D),
     (0xBB6A, 0x7C6E), (0xBB6B, 0x7C6F), (0xBB6C, 0x7C70), (0xBB6D, 0x7C71), (0xBB6E, 0x7C72), (0xBB6F, 0x7C75),
     (0xBB70, 0x7C76), (0xBB71, 0x7C77), (0xBB72, 0x7C78), (0xBB73, 0x7C79), (0xBB74, 0x7C7A), (0xBB75, 0x7C7E),
     (0xBB76, 0x7C7F), (0xBB77, 0x7C80), (0xBB78, 0x7C81), (0xBB79, 0x7C82), (0xBB7A, 0x7C83), (0xBB7B, 0x7C84),
     (0xBB7C, 0x7C85), (0xBB7D, 0x7C86), (0xBB7E, 0x7C87), (0xBB80, 0x7C88), (0xBB81, 0x7C8A), (0xBB82, 0x7C8B),
     (0xBB83, 0x7C8C), (0xBB84, 0x7C8D), (0xBB85, 0x7C8E), (0xBB86, 0x7C8F), (0xBB87, 0x7C90), (0xBB88, 0x7C93),
     (0xBB89, 0x7C94), (0xBB8A, 0x7C96), (0xBB8B, 0x7C99), (0xBB8C, 0x7C9A), (0xBB8D, 0x7C9B), (0xBB8E, 0x7CA0),
     (0xBB8F, 0x7CA1), (0xBB90, 0x7CA3), (0xBB91, 0x7CA6), (0xBB92, 0x7CA7), (0xBB93, 0x7CA8), (0xBB94, 0x7CA9),
     (0xBB95, 0x7CAB), (0xBB96, 0x7CAC), (0xBB97, 0x7CAD), (0xBB98, 0x7CAF), (0xBB99, 0x7CB0), (0xBB9A, 0x7CB4),
     (0xBB9B, 0x7CB5), (0xBB9C, 0x7CB6), (0xBB9D, 0x7CB7), (0xBB9E, 0x7CB8), (0xBB9F, 0x7CBA), (0xBBA0, 0x7CBB),
     (0xBBA1, 0x5F27), (0xBBA2, 0x864E), (0xBBA3, 0x552C), (0xBBA4, 0x62A4), (0xBBA5, 0x4E92), (0xBBA6, 0x6CAA),
     (0xBBA7, 0x6237), (0xBBA8, 0x82B1), (0xBBA9, 0x54D7), (0xBBAA, 0x534E), (0xBBAB, 0x733E), (0xBBAC, 0x6ED1),
     (0xBBAD, 0x753B), (0xBBAE, 0x5212), (0xBBAF, 0x5316), (0xBBB0, 0x8BDD), (0xBBB1, 0x69D0), (0xBBB2, 0x5F8A),
     (0xBBB3, 0x6000), (0xBBB4, 0x6DEE), (0xBBB5, 0x574F), (0xBBB6, 0x6B22), (0xBBB7, 0x73AF), (0xBBB8, 0x6853),
     (0xBBB9, 0x8FD8), (0xBBBA, 0x7F13), (0xBBBB, 0x6362), (0xBBBC, 0x60A3), (0xBBBD, 0x5524), (0xBBBE, 0x75EA),
     (0xBBBF, 0x8C62), (0xBBC0, 0x7115), (0xBBC1, 0x6DA3), (0xBBC2, 0x5BA6), (0xBBC3, 0x5E7B), (0xBBC4, 0x8352),
     (0xBBC5, 0x614C), (0xBBC6, 0x9EC4), (0xBBC7, 0x78FA), (0xBBC8, 0x8757), (0xBBC9, 0x7C27), (0xBBCA, 0x7687),
     (0xBBCB, 0x51F0), (0xBBCC, 0x60F6), (0xBBCD, 0x714C), (0xBBCE, 0x6643), (0xBBCF, 0x5E4C), (0xBBD0, 0x604D),
     (0xBBD1, 0x8C0E), (0xBBD2, 0x7070), (0xBBD3, 0x6325), (0xBBD4, 0x8F89), (0xBBD5, 0x5FBD), (0xBBD6, 0x6062),
     (0xBBD7, 0x86D4), (0xBBD8, 0x56DE), (0xBBD9, 0x6BC1), (0xBBDA, 0x6094), (0xBBDB, 0x6167), (0xBBDC, 0x5349),
     (0xBBDD, 0x60E0), (0xBBDE, 0x6666), (0xBBDF, 0x8D3F), (0xBBE0, 0x79FD), (0xBBE1, 0x4F1A), (0xBBE2, 0x70E9),
     (0xBBE3, 0x6C47), (0xBBE4, 0x8BB3), (0xBBE5, 0x8BF2), (0xBBE6, 0x7ED8), (0xBBE7, 0x8364), (0xBBE8, 0x660F),
     (0xBBE9, 0x5A5A), (0xBBEA, 0x9B42), (0xBBEB, 0x6D51), (0xBBEC, 0x6DF7), (0xBBED, 0x8C41), (0xBBEE, 0x6D3B),
     (0xBBEF, 0x4F19), (0xBBF0, 0x706B), (0xBBF1, 0x83B7), (0xBBF2, 0x6216), (0xBBF3, 0x60D1), (0xBBF4, 0x970D)]"

lemma ucs2_gbk_rows_067_climb: "climb 0xbb5d ucs2_gbk_rows_067 = Some 0xbbf4"
  unfolding ucs2_gbk_rows_067_def by (intro climb_num climb_end; simp only: numeral_less_iff less_num_simps le_num_simps)

definition ucs2_gbk_rows_068 :: "code_map list" where
  "ucs2_gbk_rows_068 = [
     (0xBBF5, 0x8D27), (0xBBF6, 0x7978), (0xBBF7, 0x51FB), (0xBBF8, 0x573E), (0xBBF9, 0x57FA), (0xBBFA, 0x673A),
     (0xBBFB, 0x7578), (0xBBFC, 0x7A3D), (0xBBFD, 0x79EF), (0xBBFE, 0x7B95), (0xBC40, 0x7CBF), (0xBC41, 0x7CC0),
     (0xBC42, 0x7CC2), (0xBC43, 0x7CC3), (0xBC44, 0x7CC4), (0xBC45, 0x7CC6), (0xBC46, 0x7CC9), (0xBC47, 0x7CCB),
     (0xBC48, 0x7CCE), (0xBC49, 0x7CCF), (0xBC4A, 0x7CD0), (0xBC4B, 0x7CD1), (0xBC4C, 0x7CD2), (0xBC4D, 0x7CD3),
     (0xBC4E, 0x7CD4), (0xBC4F, 0x7CD8), (0xBC50, 0x7CDA), (0xBC51, 0x7CDB), (0xBC52, 0x7CDD), (0xBC53, 0x7CDE),
     (0xBC54, 0x7CE1), (0xBC55, 0x7CE2), (0xBC56, 0x7CE3), (0xBC57, 0x7CE4), (0xBC58, 0x7CE5), (0xBC59, 0x7CE6),
     (0xBC5A, 0x7CE7), (0xBC5B, 0x7CE9), (0xBC5C, 0x7CEA), (0xBC5D, 0x7CEB), (0xBC5E, 0x7CEC), (0xBC5F, 0x7CED),
     (0xBC60, 0x7CEE), (0xBC61, 0x7CF0), (0xBC62, 0x7CF1), (0xBC63, 0x7CF2), (0xBC64, 0x7CF3), (0xBC65, 0x7CF4),
     (0xBC66, 0x7CF5), (0xBC67, 0x7CF6), (0xBC68, 0x7CF7), (0xBC69, 0x7CF9), (0xBC6A, 0x7CFA), (0xBC6B, 0x7CFC),
     (0xBC6C, 0x7CFD), (0xBC6D, 0x7CFE), (0xBC6E, 0x7CFF), (0xBC6F, 0x7D00), (0xBC70, 0x7D01), (0xBC71, 0x7D02),
     (0xBC72, 0x7D03), (0xBC73, 0x7D04), (0xBC74, 0x7D05), (0xBC75, 0x7D06), (0xBC76, 0x7D07), (0xBC77, 0x7D08),
     (0xBC78, 0x7D09), (0xBC79, 0x7D0B), (0xBC7A, 0x7D0C), (0xBC7B, 0x7D0D), (0xBC7C, 0x7D0E), (0xBC7D, 0x7D0F),
     (0xBC7E, 0x7D10), (0xBC80, 0x7D11), (0xBC81, 0x7D12), (0xBC82, 0x7D13), (0xBC83, 0x7D14), (0xBC84, 0x7D15),
     (0xBC85, 0x7D16), (0xBC86, 0x7D17), (0xBC87, 0x7D18), (0xBC88, 0x7D19), (0xBC89, 0x7D1A), (0xBC8A, 0x7D1B),
     (0xBC8B, 0x7D1C), (0xBC8C, 0x7D1D), (0xBC8D, 0x7D1E), (0xBC8E, 0x7D1F), (0xBC8F, 0x7D21), (0xBC90, 0x7D23),
     (0xBC91, 0x7D24), (0xBC92, 0x7D25), (0xBC93, 0x7D26), (0xBC94, 0x7D28), (0xBC95, 0x7D29), (0xBC96, 0x7D2A),
     (0xBC97, 0x7D2C), (0xBC98, 0x7D2D), (0xBC99, 0x7D2E), (0xBC9A, 0x7D30), (0xBC9B, 0x7D31), (0xBC9C, 0x7D32),
     (0xBC9D, 0x7D33), (0xBC9E, 0x7D34), (0xBC9F, 0x7D35), (0xBCA0, 0x7D36), (0xBCA1, 0x808C), (0xBCA2, 0x9965),
     (0xBCA3, 0x8FF9), (0xBCA4, 0x6FC0), (0xBCA5, 0x8BA5), (0xBCA6, 0x9E21), (0xBCA7, 0x59EC), (0xBCA8, 0x7EE9),
     (0xBCA9, 0x7F09), (0xBCAA, 0x5409), (0xBCAB, 0x6781), (0xBCAC, 0x68D8), (0xBCAD, 0x8F91), (0xBCAE, 0x7C4D),
     (0xBCAF, 0x96C6), (0xBCB0, 0x53CA), (0xBCB1, 0x6025), (0xBCB2, 0x75BE), (0xBCB3, 0x6C72), (0xBCB4, 0x5373),
     (0xBCB5, 0x5AC9), (0xBCB6, 0x7EA7), (0xBCB7, 0x6324), (0xBCB8, 0x51E0), (0xBCB9, 0x810A), (0xBCBA, 0x5DF1),
     (0xBCBB, 0x84DF), (0xBCBC, 0x6280), (0xBCBD, 0x5180), (0xBCBE, 0x5B63), (0xBCBF, 0x4F0E), (0xBCC0, 0x796D),
     (0xBCC1, 0x5242), (0xBCC2, 0x60B8), (0xBCC3, 0x6D4E), (0xBCC4, 0x5BC4), (0xBCC5, 0x5BC2), (0xBCC6, 0x8BA1),
     (0xBCC7, 0x8BB0), (0xBCC8, 0x65E2), (0xBCC9, 0x5FCC), (0xBCCA, 0x9645), (0xBCCB, 0x5993), (0xBCCC, 0x7EE7)]"

lemma ucs2_gbk_rows_068_climb: "climb 0xbbf4 ucs2_gbk_rows_068 = Some 0xbccc"
  unfolding ucs2_gbk_rows_068_def by (intro climb_num climb_end; simp only: numeral_less_iff less_num_simps le_num_simps)

definition ucs2_gbk_rows_069 :: "code_map list" where
  "ucs2_gbk_rows_069 = [
     (0xBCCD, 0x7EAA), (0xBCCE, 0x5609), (0xBCCF, 0x67B7), (0xBCD0, 0x5939), (0xBCD1, 0x4F73), (0xBCD2, 0x5BB6),
     (0xBCD3, 0x52A0), (0xBCD4, 0x835A), (0xBCD5, 0x988A), (0xBCD6, 0x8D3E), (0xBCD7, 0x7532), (0xBCD8, 0x94BE),
     (0xBCD9, 0x5047), (0xBCDA, 0x7A3C), (0xBCDB, 0x4EF7), (0xBCDC, 0x67B6), (0xBCDD, 0x9A7E), (0xBCDE, 0x5AC1),
     (0xBCDF, 0x6B7C), (0xBCE0, 0x76D1), (0xBCE1, 0x575A), (0xBCE2, 0x5C16), (0xBCE3, 0x7B3A), (0xBCE4, 0x95F4),
     (0xBCE5, 0x714E), (0xBCE6, 0x517C), (0xBCE7, 0x80A9), (0xBCE8, 0x8270), (0xBCE9, 0x5978), (0xBCEA, 0x7F04),
     (0xBCEB, 0x8327), (0xBCEC, 0x68C0), (0xBCED, 0x67EC), (0xBCEE, 0x78B1), (0xBCEF, 0x7877), (0xBCF0, 0x62E3),
     (0xBCF1, 0x6361), (0xBCF2, 0x7B80), (0xBCF3, 0x4FED), (0xBCF4, 0x526A), (0xBCF5, 0x51CF), (0xBCF6, 0x8350),
     (0xBCF7, 0x69DB), (0xBCF8, 0x9274), (0xBCF9, 0x8DF5), (0xBCFA, 0x8D31), (0xBCFB, 0x89C1), (0xBCFC, 0x952E),
     (0xBCFD, 0x7BAD), (0xBCFE, 0x4EF6), (0xBD40, 0x7D37), (0xBD41, 0x7D38), (0xBD42, 0x7D39), (0xBD43, 0x7D3A),
     (0xBD44, 0x7D3B), (0xBD45, 0x7D3C), (0xBD46, 0x7D3D), (0xBD47, 0x7D3E), (0xBD48, 0x7D3F), (0xBD49, 0x7D40),
     (0xBD4A, 0x7D41), (0xBD4B, 0x7D42), (0xBD4C, 0x7D43), (0xBD4D, 0x7D44), (0xBD4E, 0x7D45), (0xBD4F, 0x7D46),
     (0xBD50, 0x7D47), (0xBD51, 0x7D48), (0xBD52, 0x7D49), (0xBD53, 0x7D4A), (0xBD54, 0x7D4B), (0xBD55, 0x7D4C),
     (0xBD56, 0x7D4D), (0xBD57, 0x7D4E), (0xBD58, 0x7D4F), (0xBD59, 0x7D50), (0xBD5A, 0x7D51), (0xBD5B, 0x7D52),
     (0xBD5C, 0x7D53), (0xBD5D, 0x7D54), (0xBD5E, 0x7D55), (0xBD5F, 0x7D56), (0xBD60, 0x7D57), (0xBD61, 0x7D58),
     (0xBD62, 0x7D59), (0xBD63, 0x7D5A), (0xBD64, 0x7D5B), (0xBD65, 0x7D5C), (0xBD66, 0x7D5D), (0xBD67, 0x7D5E),
     (0xBD68, 0x7D5F), (0xBD69, 0x7D60), (0xBD6A, 0x7D61), (0xBD6B, 0x7D62), (0xBD6C, 0x7D63), (0xBD6D, 0x7D64),
     (0xBD6E, 0x7D65), (0xBD6F, 0x7D66), (0xBD70, 0x7D67), (0xBD71, 0x7D68), (0xBD72, 0x7D69), (0xBD73, 0x7D6A),
     (0xBD74, 0x7D6B), (0xBD75, 0x7D6C), (0xBD76, 0x7D6D), (0xBD77, 0x7D6F), (0xBD78, 0x7D70), (0xBD79, 0x7D71),
     (0xBD7A, 0x7D72), (0xBD7B, 0x7D73), (0xBD7C, 0x7D74), (0xBD7D, 0x7D75), (0xBD7E, 0x7D76), (0xBD80, 0x7D78),
     (0xBD81, 0x7D79), (0xBD82, 0x7D7A), (0xBD83, 0x7D7B), (0xBD84, 0x7D7C), (0xBD85, 0x7D7D), (0xBD86, 0x7D7E),
     (0xBD87, 0x7D7F), (0xBD88, 0x7D80), (0xBD89, 0x7D81), (0xBD8A, 0x7D82), (0xBD8B, 0x7D83), (0xBD8C, 0x7D84),
     (0xBD8D, 0x7D85), (0xBD8E, 0x7D86), (0xBD8F, 0x7D87), (0xBD90, 0x7D88), (0xBD91, 0x7D89), (0xBD92, 0x7D8A),
     (0xBD93, 0x7D8B), (0xBD94, 0x7D8C), (0xBD95, 0x7D8D), (0xBD96, 0x7D8E), (0xBD97, 0x7D8F), (0xBD98, 0x7D90),
     (0xBD99, 0x7D91), (0xBD9A, 0x7D92), (0xBD9B, 0x7D93), (0xBD9C, 0x7D94), (0xBD9D, 0x7D95), (0xBD9E, 0x7D96),
     (0xBD9F, 0x7D97), (0xBDA0, 0x7D98), (0xBDA1, 0x5065), (0xBDA2, 0x8230), (0xBDA3, 0x5251), (0xBDA4, 0x996F)]"

lemma ucs2_gbk_rows_069_climb: "climb 0xbccc ucs2_gbk_rows_069 = Some 0xbda4"
  unfolding ucs2_gbk_rows_069_def by (intro climb_num climb_end; simp only: numeral_less_iff less_num_simps le_num_simps)

definition ucs2_gbk_rows_070 :: "code_map list" where
  "ucs2_gbk_rows_070 = [
     (0xBDA5, 0x6E10), (0xBDA6, 0x6E85), (0xBDA7, 0x6DA7), (0xBDA8, 0x5EFA), (0xBDA9, 0x50F5), (0xBDAA, 0x59DC),
     (0xBDAB, 0x5C06), (0xBDAC, 0x6D46), (0xBDAD, 0x6C5F), (0xBDAE, 0x7586), (0xBDAF, 0x848B), (0xBDB0, 0x6868),
     (0xBDB1, 0x5956), (0xBDB2, 0x8BB2), (0xBDB3, 0x5320), (0xBDB4, 0x9171), (0xBDB5, 0x964D), (0xBDB6, 0x8549),
     (0xBDB7, 0x6912), (0xBDB8, 0x7901), (0xBDB9, 0x7126), (0xBDBA, 0x80F6), (0xBDBB, 0x4EA4), (0xBDBC, 0x90CA),
     (0xBDBD, 0x6D47), (0xBDBE, 0x9A84), (0xBDBF, 0x5A07), (0xBDC0, 0x56BC), (0xBDC1, 0x6405), (0xBDC2, 0x94F0),
     (0xBDC3, 0x77EB), (0xBDC4, 0x4FA5), (0xBDC5, 0x811A), (0xBDC6, 0x72E1), (0xBDC7, 0x89D2), (0xBDC8, 0x997A),
     (0xBDC9, 0x7F34), (0xBDCA, 0x7EDE), (0xBDCB, 0x527F), (0xBDCC, 0x6559), (0xBDCD, 0x9175), (0xBDCE, 0x8F7F),
     (0xBDCF, 0x8F83), (0xBDD0, 0x53EB), (0xBDD1, 0x7A96), (0xBDD2, 0x63ED), (0xBDD3, 0x63A5), (0xBDD4, 0x7686),
     (0xBDD5, 0x79F8), (0xBDD6, 0x8857), (0xBDD7, 0x9636), (0xBDD8, 0x622A), (0xBDD9, 0x52AB), (0xBDDA, 0x8282),
     (0xBDDB, 0x6854), (0xBDDC, 0x6770), (0xBDDD, 0x6377), (0xBDDE, 0x776B), (0xBDDF, 0x7AED), (0xBDE0, 0x6D01),
     (0xBDE1, 0x7ED3), (0xBDE2, 0x89E3), (0xBDE3, 0x59D0), (0xBDE4, 0x6212), (0xBDE5, 0x85C9), (0xBDE6, 0x82A5),
     (0xBDE7, 0x754C), (0xBDE8, 0x501F), (0xBDE9, 0x4ECB), (0xBDEA, 0x75A5), (0xBDEB, 0x8BEB), (0xBDEC, 0x5C4A),
     (0xBDED, 0x5DFE), (0xBDEE, 0x7B4B), (0xBDEF, 0x65A4), (0xBDF0, 0x91D1), (0xBDF1, 0x4ECA), (0xBDF2, 0x6D25),
     (0xBDF3, 0x895F), (0xBDF4, 0x7D27), (0xBDF5, 0x9526), (0xBDF6, 0x4EC5), (0xBDF7, 0x8C28), (0xBDF8, 0x8FDB),
     (0xBDF9, 0x9773), (0xBDFA, 0x664B), (0xBDFB, 0x7981), (0xBDFC, 0x8FD1), (0xBDFD, 0x70EC), (0xBDFE, 0x6D78),
     (0xBE40, 0x7D99), (0xBE41, 0x7D9A), (0xBE42, 0x7D9B), (0xBE43, 0x7D9C), (0xBE44, 0x7D9D), (0xBE45, 0x7D9E),
     (0xBE46, 0x7D9F), (0xBE47, 0x7DA0), (0xBE48, 0x7DA1), (0xBE49, 0x7DA2), (0xBE4A, 0x7DA3), (0xBE4B, 0x7DA4),
     (0xBE4C, 0x7DA5), (0xBE4D, 0x7DA7), (0xBE4E, 0x7DA8), (0xBE4F, 0x7DA9), (0xBE50, 0x7DAA), (0xBE51, 0x7DAB),
     (0xBE52, 0x7DAC), (0xBE53, 0x7DAD), (0xBE54, 0x7DAF), (0xBE55, 0x7DB0), (0xBE56, 0x7DB1), (0xBE57, 0x7DB2),
     (0xBE58, 0x7DB3), (0xBE59, 0x7DB4), (0xBE5A, 0x7DB5), (0xBE5B, 0x7DB6), (0xBE5C, 0x7DB7), (0xBE5D, 0x7DB8),
     (0xBE5E, 0x7DB9), (0xBE5F, 0x7DBA), (0xBE60, 0x7DBB), (0xBE61, 0x7DBC), (0xBE62, 0x7DBD), (0xBE63, 0x7DBE),
     (0xBE64, 0x7DBF), (0xBE65, 0x7DC0), (0xBE66, 0x7DC1), (0xBE67, 0x7DC2), (0xBE68, 0x7DC3), (0xBE69, 0x7DC4),
     (0xBE6A, 0x7DC5), (0xBE6B, 0x7DC6), (0xBE6C, 0x7DC7), (0xBE6D, 0x7DC8), (0xBE6E, 0x7DC9), (0xBE6F, 0x7DCA),
     (0xBE70, 0x7DCB), (0xBE71, 0x7DCC), (0xBE72, 0x7DCD), (0xBE73, 0x7DCE), (0xBE74, 0x7DCF), (0xBE75, 0x7DD0),
     (0xBE76, 0x7DD1), (0xBE77, 0x7DD2), (0xBE78, 0x7DD3), (0xBE79, 0x7DD4), (0xBE7A, 0x7DD5), (0xBE7B, 0x7DD6)]"

lemma ucs2_gbk_rows_070_climb: "climb 0xbda4 ucs2_gbk_rows_070 = Some 0xbe7b"
  unfolding ucs2_gbk_rows_070_def by (intro climb_num climb_end; simp only: numeral_less_iff less_num_simps le_num_simps)

definition ucs2_gbk_rows_071 :: "code_map list" where
  "ucs2_gbk_rows_071 = [
     (0xBE7C, 0x7DD7), (0xBE7D, 0x7DD8), (0xBE7E, 0x7DD9), (0xBE80, 0x7DDA), (0xBE81, 0x7DDB), (0xBE82, 0x7DDC),
     (0xBE83, 0x7DDD), (0xBE84, 0x7DDE), (0xBE85, 0x7DDF), (0xBE86, 0x7DE0), (0xBE87, 0x7DE1), (0xBE88, 0x7DE2),
     (0xBE89, 0x7DE3), (0xBE8A, 0x7DE4), (0xBE8B, 0x7DE5), (0xBE8C, 0x7DE6), (0xBE8D, 0x7DE7), (0xBE8E, 0x7DE8),
     (0xBE8F, 0x7DE9), (0xBE90, 0x7DEA), (0xBE91, 0x7DEB), (0xBE92, 0x7DEC), (0xBE93, 0x7DED), (0xBE94, 0x7DEE),
     (0xBE95, 0x7DEF), (0xBE96, 0x7DF0), (0xBE97, 0x7DF1), (0xBE98, 0x7DF2), (0xBE99, 0x7DF3), (0xBE9A, 0x7DF4),
     (0xBE9B, 0x7DF5), (0xBE9C, 0x7DF6), (0xBE9D, 0x7DF7), (0xBE9E, 0x7DF8), (0xBE9F, 0x7DF9), (0xBEA0, 0x7DFA),
     (0xBEA1, 0x5C3D), (0xBEA2, 0x52B2), (0xBEA3, 0x8346), (0xBEA4, 0x5162), (0xBEA5, 0x830E), (0xBEA6, 0x775B),
     (0xBEA7, 0x6676), (0xBEA8, 0x9CB8), (0xBEA9, 0x4EAC), (0xBEAA, 0x60CA), (0xBEAB, 0x7CBE), (0xBEAC, 0x7CB3),
     (0xBEAD, 0x7ECF), (0xBEAE, 0x4E95), (0xBEAF, 0x8B66), (0xBEB0, 0x666F), (0xBEB1, 0x9888), (0xBEB2, 0x9759),
     (0xBEB3, 0x5883), (0xBEB4, 0x656C), (0xBEB5, 0x955C), (0xBEB6, 0x5F84), (0xBEB7, 0x75C9), (0xBEB8, 0x9756),
     (0xBEB9, 0x7ADF), (0xBEBA, 0x7ADE), (0xBEBB, 0x51C0), (0xBEBC, 0x70AF), (0xBEBD, 0x7A98), (0xBEBE, 0x63EA),
     (0xBEBF, 0x7A76), (0xBEC0, 0x7EA0), (0xBEC1, 0x7396), (0xBEC2, 0x97ED), (0xBEC3, 0x4E45), (0xBEC4, 0x7078),
     (0xBEC5, 0x4E5D), (0xBEC6, 0x9152), (0xBEC7, 0x53A9), (0xBEC8, 0x6551), (0xBEC9, 0x65E7), (0xBECA, 0x81FC),
     (0xBECB, 0x8205), (0xBECC, 0x548E), (0xBECD, 0x5C31), (0xBECE, 0x759A), (0xBECF, 0x97A0), (0xBED0, 0x62D8),
     (0xBED1, 0x72D9), (0xBED2, 0x75BD), (0xBED3, 0x5C45), (0xBED4, 0x9A79), (0xBED5, 0x83CA), (0xBED6, 0x5C40),
     (0xBED7, 0x5480), (0xBED8, 0x77E9), (0xBED9, 0x4E3E), (0xBEDA, 0x6CAE), (0xBEDB, 0x805A), (0xBEDC, 0x62D2),
     (0xBEDD, 0x636E), (0xBEDE, 0x5DE8), (0xBEDF, 0x5177), (0xBEE0, 0x8DDD), (0xBEE1, 0x8E1E), (0xBEE2, 0x952F),
     (0xBEE3, 0x4FF1), (0xBEE4, 0x53E5), (0xBEE5, 0x60E7), (0xBEE6, 0x70AC), (0xBEE7, 0x5267), (0xBEE8, 0x6350),
     (0xBEE9, 0x9E43), (0xBEEA, 0x5A1F), (0xBEEB, 0x5026), (0xBEEC, 0x7737), (0xBEED, 0x5377), (0xBEEE, 0x7EE2),
     (0xBEEF, 0x6485), (0xBEF0, 0x652B), (0xBEF1, 0x6289), (0xBEF2, 0x6398), (0xBEF3, 0x5014), (0xBEF4, 0x7235),
     (0xBEF5, 0x89C9), (0xBEF6, 0x51B3), (0xBEF7, 0x8BC0), (0xBEF8, 0x7EDD), (0xBEF9, 0x5747), (0xBEFA, 0x83CC),
     (0xBEFB, 0x94A7), (0xBEFC, 0x519B), (0xBEFD, 0x541B), (0xBEFE, 0x5CFB), (0xBF40, 0x7DFB), (0xBF41, 0x7DFC),
     (0xBF42, 0x7DFD), (0xBF43, 0x7DFE), (0xBF44, 0x7DFF), (0xBF45, 0x7E00), (0xBF46, 0x7E01), (0xBF47, 0x7E02),
     (0xBF48, 0x7E03), (0xBF49, 0x7E04), (0xBF4A, 0x7E05), (0xBF4B, 0x7E06), (0xBF4C, 0x7E07), (0xBF4D, 0x7E08),
     (0xBF4E, 0x7E09), (0xBF4F, 0x7E0A), (0xBF50, 0x7E0B), (0xBF51, 0x7E0C), (0xBF52, 0x7E0D), (0xBF53, 0x7E0E)]"

lemma ucs2_gbk_rows_071_climb: "climb 0xbe7b ucs2_gbk_rows_071 = Some 0xbf53"
  unfolding ucs2_gbk_rows_071_def by (intro climb_num climb_end; simp only: numeral_less_iff less_num_simps le_num_simps)

definition ucs2_gbk_rows_072 :: "code_map list" where
  "ucs2_gbk_rows_072 = [
     (0xBF54, 0x7E0F), (0xBF55, 0x7E10), (0xBF56, 0x7E11), (0xBF57, 0x7E12), (0xBF58, 0x7E13), (0xBF59, 0x7E14),
     (0xBF5A, 0x7E15), (0xBF5B, 0x7E16), (0xBF5C, 0x7E17), (0xBF5D, 0x7E18), (0xBF5E, 0x7E19), (0xBF5F, 0x7E1A),
     (0xBF60, 0x7E1B), (0xBF61, 0x7E1C), (0xBF62, 0x7E1D), (0xBF63, 0x7E1E), (0xBF64, 0x7E1F), (0xBF65, 0x7E20),
     (0xBF66, 0x7E21), (0xBF67, 0x7E22), (0xBF68, 0x7E23), (0xBF69, 0x7E24), (0xBF6A, 0x7E25), (0xBF6B, 0x7E26),
     (0xBF6C, 0x7E27), (0xBF6D, 0x7E28), (0xBF6E, 0x7E29), (0xBF6F, 0x7E2A), (0xBF70, 0x7E2B), (0xBF71, 0x7E2C),
     (0xBF72, 0x7E2D), (0xBF73, 0x7E2E), (0xBF74, 0x7E2F), (0xBF75, 0x7E30), (0xBF76, 0x7E31), (0xBF77, 0x7E32),
     (0xBF78, 0x7E33), (0xBF79, 0x7E34), (0xBF7A, 0x7E35), (0xBF7B, 0x7E36), (0xBF7C, 0x7E37), (0xBF7D, 0x7E38),
     (0xBF7E, 0x7E39), (0xBF80, 0x7E3A), (0xBF81, 0x7E3C), (0xBF82, 0x7E3D), (0xBF83, 0x7E3E), (0xBF84, 0x7E3F),
     (0xBF85, 0x7E40), (0xBF86, 0x7E42), (0xBF87, 0x7E43), (0xBF88, 0x7E44), (0xBF89, 0x7E45), (0xBF8A, 0x7E46),
     (0xBF8B, 0x7E48), (0xBF8C, 0x7E49), (0xBF8D, 0x7E4A), (0xBF8E, 0x7E4B), (0xBF8F, 0x7E4C), (0xBF90, 0x7E4D),
     (0xBF91, 0x7E4E), (0xBF92, 0x7E4F), (0xBF93, 0x7E50), (0xBF94, 0x7E51), (0xBF95, 0x7E52), (0xBF96, 0x7E53),
     (0xBF97, 0x7E54), (0xBF98, 0x7E55), (0xBF99, 0x7E56), (0xBF9A, 0x7E57), (0xBF9B, 0x7E58), (0xBF9C, 0x7E59),
     (0xBF9D, 0x7E5A), (0xBF9E, 0x7E5B), (0xBF9F, 0x7E5C), (0xBFA0, 0x7E5D), (0xBFA1, 0x4FCA), (0xBFA2, 0x7AE3),
     (0xBFA3, 0x6D5A), (0xBFA4, 0x90E1), (0xBFA5, 0x9A8F), (0xBFA6, 0x5580), (0xBFA7, 0x5496), (0xBFA8, 0x5361),
     (0xBFA9, 0x54AF), (0xBFAA, 0x5F00), (0xBFAB, 0x63E9), (0xBFAC, 0x6977), (0xBFAD, 0x51EF), (0xBFAE, 0x6168),
     (0xBFAF, 0x520A), (0xBFB0, 0x582A), (0xBFB1, 0x52D8), (0xBFB2, 0x574E), (0xBFB3, 0x780D), (0xBFB4, 0x770B),
     (0xBFB5, 0x5EB7), (0xBFB6, 0x6177), (0xBFB7, 0x7CE0), (0xBFB8, 0x625B), (0xBFB9, 0x6297), (0xBFBA, 0x4EA2),
     (0xBFBB, 0x7095), (0xBFBC, 0x8003), (0xBFBD, 0x62F7), (0xBFBE, 0x70E4), (0xBFBF, 0x9760), (0xBFC0, 0x5777),
     (0xBFC1, 0x82DB), (0xBFC2, 0x67EF), (0xBFC3, 0x68F5), (0xBFC4, 0x78D5), (0xBFC5, 0x9897), (0xBFC6, 0x79D1),
     (0xBFC7, 0x58F3), (0xBFC8, 0x54B3), (0xBFC9, 0x53EF), (0xBFCA, 0x6E34), (0xBFCB, 0x514B), (0xBFCC, 0x523B),
     (0xBFCD, 0x5BA2), (0xBFCE, 0x8BFE), (0xBFCF, 0x80AF), (0xBFD0, 0x5543), (0xBFD1, 0x57A6), (0xBFD2, 0x6073),
     (0xBFD3, 0x5751), (0xBFD4, 0x542D), (0xBFD5, 0x7A7A), (0xBFD6, 0x6050), (0xBFD7, 0x5B54), (0xBFD8, 0x63A7),
     (0xBFD9, 0x62A0), (0xBFDA, 0x53E3), (0xBFDB, 0x6263), (0xBFDC, 0x5BC7), (0xBFDD, 0x67AF), (0xBFDE, 0x54ED),
     (0xBFDF, 0x7A9F), (0xBFE0, 0x82E6), (0xBFE1, 0x9177), (0xBFE2, 0x5E93), (0xBFE3, 0x88E4), (0xBFE4, 0x5938),
     (0xBFE5, 0x57AE), (0xBFE6, 0x630E), (0xBFE7, 0x8DE8), (0xBFE8, 0x80EF), (0xBFE9, 0x5757), (0xBFEA, 0x7B77)]"

lemma ucs2_gbk_rows_072_climb: "climb 0xbf53 ucs2_gbk_rows_072 = Some 0xbfea"
  unfolding ucs2_gbk_rows_072_def by (intro climb_num climb_end; simp only: numeral_less_iff less_num_simps le_num_simps)

definition ucs2_gbk_rows_073 :: "code_map list" where
  "ucs2_gbk_rows_073 = [
     (0xBFEB, 0x4FA9), (0xBFEC, 0x5FEB), (0xBFED, 0x5BBD), (0xBFEE, 0x6B3E), (0xBFEF, 0x5321), (0xBFF0, 0x7B50),
     (0xBFF1, 0x72C2), (0xBFF2, 0x6846), (0xBFF3, 0x77FF), (0xBFF4, 0x7736), (0xBFF5, 0x65F7), (0xBFF6, 0x51B5),
     (0xBFF7, 0x4E8F), (0xBFF8, 0x76D4), (0xBFF9, 0x5CBF), (0xBFFA, 0x7AA5), (0xBFFB, 0x8475), (0xBFFC, 0x594E),
     (0xBFFD, 0x9B41), (0xBFFE, 0x5080), (0xC040, 0x7E5E), (0xC041, 0x7E5F), (0xC042, 0x7E60), (0xC043, 0x7E61),
     (0xC044, 0x7E62), (0xC045, 0x7E63), (0xC046, 0x7E64), (0xC047, 0x7E65), (0xC048, 0x7E66), (0xC049, 0x7E67),
     (0xC04A, 0x7E68), (0xC04B, 0x7E69), (0xC04C, 0x7E6A), (0xC04D, 0x7E6B), (0xC04E, 0x7E6C), (0xC04F, 0x7E6D),
     (0xC050, 0x7E6E), (0xC051, 0x7E6F), (0xC052, 0x7E70), (0xC053, 0x7E71), (0xC054, 0x7E72), (0xC055, 0x7E73),
     (0xC056, 0x7E74), (0xC057, 0x7E75), (0xC058, 0x7E76), (0xC059, 0x7E77), (0xC05A, 0x7E78), (0xC05B, 0x7E79),
     (0xC05C, 0x7E7A), (0xC05D, 0x7E7B), (0xC05E, 0x7E7C), (0xC05F, 0x7E7D), (0xC060, 0x7E7E), (0xC061, 0x7E7F),
     (0xC062, 0x7E80), (0xC063, 0x7E81), (0xC064, 0x7E83), (0xC065, 0x7E84), (0xC066, 0x7E85), (0xC067, 0x7E86),
     (0xC068, 0x7E87), (0xC069, 0x7E88), (0xC06A, 0x7E89), (0xC06B, 0x7E8A), (0xC06C, 0x7E8B), (0xC06D, 0x7E8C),
     (0xC06E, 0x7E8D), (0xC06F, 0x7E8E), (0xC070, 0x7E8F), (0xC071, 0x7E90), (0xC072, 0x7E91), (0xC073, 0x7E92),
     (0xC074, 0x7E93), (0xC075, 0x7E94), (0xC076, 0x7E95), (0xC077, 0x7E96), (0xC078, 0x7E97), (0xC079, 0x7E98),
     (0xC07A, 0x7E99), (0xC07B, 0x7E9A), (0xC07C, 0x7E9C), (0xC07D, 0x7E9D), (0xC07E, 0x7E9E), (0xC080, 0x7EAE),
     (0xC081, 0x7EB4), (0xC082, 0x7EBB), (0xC083, 0x7EBC), (0xC084, 0x7ED6), (0xC085, 0x7EE4), (0xC086, 0x7EEC),
     (0xC087, 0x7EF9), (0xC088, 0x7F0A), (0xC089, 0x7F10), (0xC08A, 0x7F1E), (0xC08B, 0x7F37), (0xC08C, 0x7F39),
     (0xC08D, 0x7F3B), (0xC08E, 0x7F3C), (0xC08F, 0x7F3D), (0xC090, 0x7F3E), (0xC091, 0x7F3F), (0xC092, 0x7F40),
     (0xC093, 0x7F41), (0xC094, 0x7F43), (0xC095, 0x7F46), (0xC096, 0x7F47), (0xC097, 0x7F48), (0xC098, 0x7F49),
     (0xC099, 0x7F4A), (0xC09A, 0x7F4B), (0xC09B, 0x7F4C), (0xC09C, 0x7F4D), (0xC09D, 0x7F4E), (0xC09E, 0x7F4F),
     (0xC09F, 0x7F52), (0xC0A0, 0x7F53), (0xC0A1, 0x9988), (0xC0A2, 0x6127), (0xC0A3, 0x6E83), (0xC0A4, 0x5764),
     (0xC0A5, 0x6606), (0xC0A6, 0x6346), (0xC0A7, 0x56F0), (0xC0A8, 0x62EC), (0xC0A9, 0x6269), (0xC0AA, 0x5ED3),
     (0xC0AB, 0x9614), (0xC0AC, 0x5783), (0xC0AD, 0x62C9), (0xC0AE, 0x5587), (0xC0AF, 0x8721), (0xC0B0, 0x814A),
     (0xC0B1, 0x8FA3), (0xC0B2, 0x5566), (0xC0B3, 0x83B1), (0xC0B4, 0x6765), (0xC0B5, 0x8D56), (0xC0B6, 0x84DD),
     (0xC0B7, 0x5A6A), (0xC0B8, 0x680F), (0xC0B9, 0x62E6), (0xC0BA, 0x7BEE), (0xC0BB, 0x9611), (0xC0BC, 0x5170),
     (0xC0BD, 0x6F9C), (0xC0BE, 0x8C30), (0xC0BF, 0x63FD), (0xC0C0, 0x89C8), (0xC0C1, 0x61D2), (0xC0C2, 0x7F06)]"

lemma ucs2_gbk_rows_073_climb: "climb 0xbfea ucs2_gbk_rows_073 = Some 0xc0c2"
  unfolding ucs2_gbk_rows_073_def by (intro climb_num climb_end; simp only: numeral_less_iff less_num_simps le_num_simps)

definition ucs2_gbk_rows_074 :: "code_map list" where
  "ucs2_gbk_rows_074 = [
     (0xC0C3, 0x70C2), (0xC0C4, 0x6EE5), (0xC0C5, 0x7405), (0xC0C6, 0x6994), (0xC0C7, 0x72FC), (0xC0C8, 0x5ECA),
     (0xC0C9, 0x90CE), (0xC0CA, 0x6717), (0xC0CB, 0x6D6A), (0xC0CC, 0x635E), (0xC0CD, 0x52B3), (0xC0CE, 0x7262),
     (0xC0CF, 0x8001), (0xC0D0, 0x4F6C), (0xC0D1, 0x59E5), (0xC0D2, 0x916A), (0xC0D3, 0x70D9), (0xC0D4, 0x6D9D),
     (0xC0D5, 0x52D2), (0xC0D6, 0x4E50), (0xC0D7, 0x96F7), (0xC0D8, 0x956D), (0xC0D9, 0x857E), (0xC0DA, 0x78CA),
     (0xC0DB, 0x7D2F), (0xC0DC, 0x5121), (0xC0DD, 0x5792), (0xC0DE, 0x64C2), (0xC0DF, 0x808B), (0xC0E0, 0x7C7B),
     (0xC0E1, 0x6CEA), (0xC0E2, 0x68F1), (0xC0E3, 0x695E), (0xC0E4, 0x51B7), (0xC0E5, 0x5398), (0xC0E6, 0x68A8),
     (0xC0E7, 0x7281), (0xC0E8, 0x9ECE), (0xC0E9, 0x7BF1), (0xC0EA, 0x72F8), (0xC0EB, 0x79BB), (0xC0EC, 0x6F13),
     (0xC0ED, 0x7406), (0xC0EE, 0x674E), (0xC0EF, 0x91CC), (0xC0F0, 0x9CA4), (0xC0F1, 0x793C), (0xC0F2, 0x8389),
     (0xC0F3, 0x8354), (0xC0F4, 0x540F), (0xC0F5, 0x6817), (0xC0F6, 0x4E3D), (0xC0F7, 0x5389), (0xC0F8, 0x52B1),
     (0xC0F9, 0x783E), (0xC0FA, 0x5386), (0xC0FB, 0x5229), (0xC0FC, 0x5088), (0xC0FD, 0x4F8B), (0xC0FE, 0x4FD0),
     (0xC140, 0x7F56), (0xC141, 0x7F59), (0xC142, 0x7F5B), (0xC143, 0x7F5C), (0xC144, 0x7F5D), (0xC145, 0x7F5E),
     (0xC146, 0x7F60), (0xC147, 0x7F63), (0xC148, 0x7F64), (0xC149, 0x7F65), (0xC14A, 0x7F66), (0xC14B, 0x7F67),
     (0xC14C, 0x7F6B), (0xC14D, 0x7F6C), (0xC14E, 0x7F6D), (0xC14F, 0x7F6F), (0xC150, 0x7F70), (0xC151, 0x7F73),
     (0xC152, 0x7F75), (0xC153, 0x7F76), (0xC154, 0x7F77), (0xC155, 0x7F78), (0xC156, 0x7F7A), (0xC157, 0x7F7B),
     (0xC158, 0x7F7C), (0xC159, 0x7F7D), (0xC15A, 0x7F7F), (0xC15B, 0x7F80), (0xC15C, 0x7F82), (0xC15D, 0x7F83),
     (0xC15E, 0x7F84), (0xC15F, 0x7F85), (0xC160, 0x7F86), (0xC161, 0x7F87), (0xC162, 0x7F88), (0xC163, 0x7F89),
     (0xC164, 0x7F8B), (0xC165, 0x7F8D), (0xC166, 0x7F8F), (0xC167, 0x7F90), (0xC168, 0x7F91), (0xC169, 0x7F92),
     (0xC16A, 0x7F93), (0xC16B, 0x7F95), (0xC16C, 0x7F96), (0xC16D, 0x7F97), (0xC16E, 0x7F98), (0xC16F, 0x7F99),
     (0xC170, 0x7F9B), (0xC171, 0x7F9C), (0xC172, 0x7FA0), (0xC173, 0x7FA2), (0xC174, 0x7FA3), (0xC175, 0x7FA5),
     (0xC176, 0x7FA6), (0xC177, 0x7FA8), (0xC178, 0x7FA9), (0xC179, 0x7FAA), (0xC17A, 0x7FAB), (0xC17B, 0x7FAC),
     (0xC17C, 0x7FAD), (0xC17D, 0x7FAE), (0xC17E, 0x7FB1), (0xC180, 0x7FB3), (0xC181, 0x7FB4), (0xC182, 0x7FB5),
     (0xC183, 0x7FB6), (0xC184, 0x7FB7), (0xC185, 0x7FBA), (0xC186, 0x7FBB), (0xC187, 0x7FBE), (0xC188, 0x7FC0),
     (0xC189, 0x7FC2), (0xC18A, 0x7FC3), (0xC18B, 0x7FC4), (0xC18C, 0x7FC6), (0xC18D, 0x7FC7), (0xC18E, 0x7FC8),
     (0xC18F, 0x7FC9), (0xC190, 0x7FCB), (0xC191, 0x7FCD), (0xC192, 0x7FCF), (0xC193, 0x7FD0), (0xC194, 0x7FD1),
     (0xC195, 0x7FD2), (0xC196, 0x7FD3), (0xC197, 0x7FD6), (0xC198, 0x7FD7), (0xC199, 0x7FD9), (0xC19A, 0x7FDA)]"

lemma ucs2_gbk_rows_074_climb: "climb 0xc0c2 ucs2_gbk_rows_074 = Some 0xc19a"
  unfolding ucs2_gbk_rows_074_def by (intro climb_num climb_end; simp only: numeral_less_iff less_num_simps le_num_simps)

definition ucs2_gbk_rows_075 :: "code_map list" where
  "ucs2_gbk_rows_075 = [
     (0xC19B, 0x7FDB), (0xC19C, 0x7FDC), (0xC19D, 0x7FDD), (0xC19E, 0x7FDE), (0xC19F, 0x7FE2), (0xC1A0, 0x7FE3),
     (0xC1A1, 0x75E2), (0xC1A2, 0x7ACB), (0xC1A3, 0x7C92), (0xC1A4, 0x6CA5), (0xC1A5, 0x96B6), (0xC1A6, 0x529B),
     (0xC1A7, 0x7483), (0xC1A8, 0x54E9), (0xC1A9, 0x4FE9), (0xC1AA, 0x8054), (0xC1AB, 0x83B2), (0xC1AC, 0x8FDE),
     (0xC1AD, 0x9570), (0xC1AE, 0x5EC9), (0xC1AF, 0x601C), (0xC1B0, 0x6D9F), (0xC1B1, 0x5E18), (0xC1B2, 0x655B),
     (0xC1B3, 0x8138), (0xC1B4, 0x94FE), (0xC1B5, 0x604B), (0xC1B6, 0x70BC), (0xC1B7, 0x7EC3), (0xC1B8, 0x7CAE),
     (0xC1B9, 0x51C9), (0xC1BA, 0x6881), (0xC1BB, 0x7CB1), (0xC1BC, 0x826F), (0xC1BD, 0x4E24), (0xC1BE, 0x8F86),
     (0xC1BF, 0x91CF), (0xC1C0, 0x667E), (0xC1C1, 0x4EAE), (0xC1C2, 0x8C05), (0xC1C3, 0x64A9), (0xC1C4, 0x804A),
     (0xC1C5, 0x50DA), (0xC1C6, 0x7597), (0xC1C7, 0x71CE), (0xC1C8, 0x5BE5), (0xC1C9, 0x8FBD), (0xC1CA, 0x6F66),
     (0xC1CB, 0x4E86), (0xC1CC, 0x6482), (0xC1CD, 0x9563), (0xC1CE, 0x5ED6), (0xC1CF, 0x6599), (0xC1D0, 0x5217),
     (0xC1D1, 0x88C2), (0xC1D2, 0x70C8), (0xC1D3, 0x52A3), (0xC1D4, 0x730E), (0xC1D5, 0x7433), (0xC1D6, 0x6797),
     (0xC1D7, 0x78F7), (0xC1D8, 0x9716), (0xC1D9, 0x4E34), (0xC1DA, 0x90BB), (0xC1DB, 0x9CDE), (0xC1DC, 0x6DCB),
     (0xC1DD, 0x51DB), (0xC1DE, 0x8D41), (0xC1DF, 0x541D), (0xC1E0, 0x62CE), (0xC1E1, 0x73B2), (0xC1E2, 0x83F1),
     (0xC1E3, 0x96F6), (0xC1E4, 0x9F84), (0xC1E5, 0x94C3), (0xC1E6, 0x4F36), (0xC1E7, 0x7F9A), (0xC1E8, 0x51CC),
     (0xC1E9, 0x7075), (0xC1EA, 0x9675), (0xC1EB, 0x5CAD), (0xC1EC, 0x9886), (0xC1ED, 0x53E6), (0xC1EE, 0x4EE4),
     (0xC1EF, 0x6E9C), (0xC1F0, 0x7409), (0xC1F1, 0x69B4), (0xC1F2, 0x786B), (0xC1F3, 0x998F), (0xC1F4, 0x7559),
     (0xC1F5, 0x5218), (0xC1F6, 0x7624), (0xC1F7, 0x6D41), (0xC1F8, 0x67F3), (0xC1F9, 0x516D), (0xC1FA, 0x9F99),
     (0xC1FB, 0x804B), (0xC1FC, 0x5499), (0xC1FD, 0x7B3C), (0xC1FE, 0x7ABF), (0xC240, 0x7FE4), (0xC241, 0x7FE7),
     (0xC242, 0x7FE8), (0xC243, 0x7FEA), (0xC244, 0x7FEB), (0xC245, 0x7FEC), (0xC246, 0x7FED), (0xC247, 0x7FEF),
     (0xC248, 0x7FF2), (0xC249, 0x7FF4), (0xC24A, 0x7FF5), (0xC24B, 0x7FF6), (0xC24C, 0x7FF7), (0xC24D, 0x7FF8),
     (0xC24E, 0x7FF9), (0xC24F, 0x7FFA), (0xC250, 0x7FFD), (0xC251, 0x7FFE), (0xC252, 0x7FFF), (0xC253, 0x8002),
     (0xC254, 0x8007), (0xC255, 0x8008), (0xC256, 0x8009), (0xC257, 0x800A), (0xC258, 0x800E), (0xC259, 0x800F),
     (0xC25A, 0x8011), (0xC25B, 0x8013), (0xC25C, 0x801A), (0xC25D, 0x801B), (0xC25E, 0x801D), (0xC25F, 0x801E),
     (0xC260, 0x801F), (0xC261, 0x8021), (0xC262, 0x8023), (0xC263, 0x8024), (0xC264, 0x802B), (0xC265, 0x802C),
     (0xC266, 0x802D), (0xC267, 0x802E), (0xC268, 0x802F), (0xC269, 0x8030), (0xC26A, 0x8032), (0xC26B, 0x8034),
     (0xC26C, 0x8039), (0xC26D, 0x803A), (0xC26E, 0x803C), (0xC26F, 0x803E), (0xC270, 0x8040), (0xC271, 0x8041)]"

lemma ucs2_gbk_rows_075_climb: "climb 0xc19a ucs2_gbk_rows_075 = Some 0xc271"
  unfolding ucs2_gbk_rows_075_def by (intro climb_num climb_end; simp only: numeral_less_iff less_num_simps le_num_simps)

definition ucs2_gbk_rows_076 :: "code_map list" where
  "ucs2_gbk_rows_076 = [
     (0xC272, 0x8044), (0xC273, 0x8045), (0xC274, 0x8047), (0xC275, 0x8048), (0xC276, 0x8049), (0xC277, 0x804E),
     (0xC278, 0x804F), (0xC279, 0x8050), (0xC27A, 0x8051), (0xC27B, 0x8053), (0xC27C, 0x8055), (0xC27D, 0x8056),
     (0xC27E, 0x8057), (0xC280, 0x8059), (0xC281, 0x805B), (0xC282, 0x805C), (0xC283, 0x805D), (0xC284, 0x805E),
     (0xC285, 0x805F), (0xC286, 0x8060), (0xC287, 0x8061), (0xC288, 0x8062), (0xC289, 0x8063), (0xC28A, 0x8064),
     (0xC28B, 0x8065), (0xC28C, 0x8066), (0xC28D, 0x8067), (0xC28E, 0x8068), (0xC28F, 0x806B), (0xC290, 0x806C),
     (0xC291, 0x806D), (0xC292, 0x806E), (0xC293, 0x806F), (0xC294, 0x8070), (0xC295, 0x8072), (0xC296, 0x8073),
     (0xC297, 0x8074), (0xC298, 0x8075), (0xC299, 0x8076), (0xC29A, 0x8077), (0xC29B, 0x8078), (0xC29C, 0x8079),
     (0xC29D, 0x807A), (0xC29E, 0x807B), (0xC29F, 0x807C), (0xC2A0, 0x807D), (0xC2A1, 0x9686), (0xC2A2, 0x5784),
     (0xC2A3, 0x62E2), (0xC2A4, 0x9647), (0xC2A5, 0x697C), (0xC2A6, 0x5A04), (0xC2A7, 0x6402), (0xC2A8, 0x7BD3),
     (0xC2A9, 0x6F0F), (0xC2AA, 0x964B), (0xC2AB, 0x82A6), (0xC2AC, 0x5362), (0xC2AD, 0x9885), (0xC2AE, 0x5E90),
     (0xC2AF, 0x7089), (0xC2B0, 0x63B3), (0xC2B1, 0x5364), (0xC2B2, 0x864F), (0xC2B3, 0x9C81), (0xC2B4, 0x9E93),
     (0xC2B5, 0x788C), (0xC2B6, 0x9732), (0xC2B7, 0x8DEF), (0xC2B8, 0x8D42), (0xC2B9, 0x9E7F), (0xC2BA, 0x6F5E),
     (0xC2BB, 0x7984), (0xC2BC, 0x5F55), (0xC2BD, 0x9646), (0xC2BE, 0x622E), (0xC2BF, 0x9A74), (0xC2C0, 0x5415),
     (0xC2C1, 0x94DD), (0xC2C2, 0x4FA3), (0xC2C3, 0x65C5), (0xC2C4, 0x5C65), (0xC2C5, 0x5C61), (0xC2C6, 0x7F15),
     (0xC2C7, 0x8651), (0xC2C8, 0x6C2F), (0xC2C9, 0x5F8B), (0xC2CA, 0x7387), (0xC2CB, 0x6EE4), (0xC2CC, 0x7EFF),
     (0xC2CD, 0x5CE6), (0xC2CE, 0x631B), (0xC2CF, 0x5B6A), (0xC2D0, 0x6EE6), (0xC2D1, 0x5375), (0xC2D2, 0x4E71),
     (0xC2D3, 0x63A0), (0xC2D4, 0x7565), (0xC2D5, 0x62A1), (0xC2D6, 0x8F6E), (0xC2D7, 0x4F26), (0xC2D8, 0x4ED1),
     (0xC2D9, 0x6CA6), (0xC2DA, 0x7EB6), (0xC2DB, 0x8BBA), (0xC2DC, 0x841D), (0xC2DD, 0x87BA), (0xC2DE, 0x7F57),
     (0xC2DF, 0x903B), (0xC2E0, 0x9523), (0xC2E1, 0x7BA9), (0xC2E2, 0x9AA1), (0xC2E3, 0x88F8), (0xC2E4, 0x843D),
     (0xC2E5, 0x6D1B), (0xC2E6, 0x9A86), (0xC2E7, 0x7EDC), (0xC2E8, 0x5988), (0xC2E9, 0x9EBB), (0xC2EA, 0x739B),
     (0xC2EB, 0x7801), (0xC2EC, 0x8682), (0xC2ED, 0x9A6C), (0xC2EE, 0x9A82), (0xC2EF, 0x561B), (0xC2F0, 0x5417),
     (0xC2F1, 0x57CB), (0xC2F2, 0x4E70), (0xC2F3, 0x9EA6), (0xC2F4, 0x5356), (0xC2F5, 0x8FC8), (0xC2F6, 0x8109),
     (0xC2F7, 0x7792), (0xC2F8, 0x9992), (0xC2F9, 0x86EE), (0xC2FA, 0x6EE1), (0xC2FB, 0x8513), (0xC2FC, 0x66FC),
     (0xC2FD, 0x6162), (0xC2FE, 0x6F2B), (0xC340, 0x807E), (0xC341, 0x8081), (0xC342, 0x8082), (0xC343, 0x8085),
     (0xC344, 0x8088), (0xC345, 0x808A), (0xC346, 0x808D), (0xC347, 0x808E), (0xC348, 0x808F), (0xC349, 0x8090)]"

lemma ucs2_gbk_rows_076_climb: "climb 0xc271 ucs2_gbk_rows_076 = Some 0xc349"
  unfolding ucs2_gbk_rows_076_def by (intro climb_num climb_end; simp only: numeral_less_iff less_num_simps le_num_simps)

definition ucs2_gbk_rows_077 :: "code_map list" where
  "ucs2_gbk_rows_077 = [
     (0xC34A, 0x8091), (0xC34B, 0x8092), (0xC34C, 0x8094), (0xC34D, 0x8095), (0xC34E, 0x8097), (0xC34F, 0x8099),
     (0xC350, 0x809E), (0xC351, 0x80A3), (0xC352, 0x80A6), (0xC353, 0x80A7), (0xC354, 0x80A8), (0xC355, 0x80AC),
     (0xC356, 0x80B0), (0xC357, 0x80B3), (0xC358, 0x80B5), (0xC359, 0x80B6), (0xC35A, 0x80B8), (0xC35B, 0x80B9),
     (0xC35C, 0x80BB), (0xC35D, 0x80C5), (0xC35E, 0x80C7), (0xC35F, 0x80C8), (0xC360, 0x80C9), (0xC361, 0x80CA),
     (0xC362, 0x80CB), (0xC363, 0x80CF), (0xC364, 0x80D0), (0xC365, 0x80D1), (0xC366, 0x80D2), (0xC367, 0x80D3),
     (0xC368, 0x80D4), (0xC369, 0x80D5), (0xC36A, 0x80D8), (0xC36B, 0x80DF), (0xC36C, 0x80E0), (0xC36D, 0x80E2),
     (0xC36E, 0x80E3), (0xC36F, 0x80E6), (0xC370, 0x80EE), (0xC371, 0x80F5), (0xC372, 0x80F7), (0xC373, 0x80F9),
     (0xC374, 0x80FB), (0xC375, 0x80FE), (0xC376, 0x80FF), (0xC377, 0x8100), (0xC378, 0x8101), (0xC379, 0x8103),
     (0xC37A, 0x8104), (0xC37B, 0x8105), (0xC37C, 0x8107), (0xC37D, 0x8108), (0xC37E, 0x810B), (0xC380, 0x810C),
     (0xC381, 0x8115), (0xC382, 0x8117), (0xC383, 0x8119), (0xC384, 0x811B), (0xC385, 0x811C), (0xC386, 0x811D),
     (0xC387, 0x811F), (0xC388, 0x8120), (0xC389, 0x8121), (0xC38A, 0x8122), (0xC38B, 0x8123), (0xC38C, 0x8124),
     (0xC38D, 0x8125), (0xC38E, 0x8126), (0xC38F, 0x8127), (0xC390, 0x8128), (0xC391, 0x8129), (0xC392, 0x812A),
     (0xC393, 0x812B), (0xC394, 0x812D), (0xC395, 0x812E), (0xC396, 0x8130), (0xC397, 0x8133), (0xC398, 0x8134),
     (0xC399, 0x8135), (0xC39A, 0x8137), (0xC39B, 0x8139), (0xC39C, 0x813A), (0xC39D, 0x813B), (0xC39E, 0x813C),
     (0xC39F, 0x813D), (0xC3A0, 0x813F), (0xC3A1, 0x8C29), (0xC3A2, 0x8292), (0xC3A3, 0x832B), (0xC3A4, 0x76F2),
     (0xC3A5, 0x6C13), (0xC3A6, 0x5FD9), (0xC3A7, 0x83BD), (0xC3A8, 0x732B), (0xC3A9, 0x8305), (0xC3AA, 0x951A),
     (0xC3AB, 0x6BDB), (0xC3AC, 0x77DB), (0xC3AD, 0x94C6), (0xC3AE, 0x536F), (0xC3AF, 0x8302), (0xC3B0, 0x5192),
     (0xC3B1, 0x5E3D), (0xC3B2, 0x8C8C), (0xC3B3, 0x8D38), (0xC3B4, 0x4E48), (0xC3B5, 0x73AB), (0xC3B6, 0x679A),
     (0xC3B7, 0x6885), (0xC3B8, 0x9176), (0xC3B9, 0x9709), (0xC3BA, 0x7164), (0xC3BB, 0x6CA1), (0xC3BC, 0x7709),
     (0xC3BD, 0x5A92), (0xC3BE, 0x9541), (0xC3BF, 0x6BCF), (0xC3C0, 0x7F8E), (0xC3C1, 0x6627), (0xC3C2, 0x5BD0),
     (0xC3C3, 0x59B9), (0xC3C4, 0x5A9A), (0xC3C5, 0x95E8), (0xC3C6, 0x95F7), (0xC3C7, 0x4EEC), (0xC3C8, 0x840C),
     (0xC3C9, 0x8499), (0xC3CA, 0x6AAC), (0xC3CB, 0x76DF), (0xC3CC, 0x9530), (0xC3CD, 0x731B), (0xC3CE, 0x68A6),
     (0xC3CF, 0x5B5F), (0xC3D0, 0x772F), (0xC3D1, 0x919A), (0xC3D2, 0x9761), (0xC3D3, 0x7CDC), (0xC3D4, 0x8FF7),
     (0xC3D5, 0x8C1C), (0xC3D6, 0x5F25), (0xC3D7, 0x7C73), (0xC3D8, 0x79D8), (0xC3D9, 0x89C5), (0xC3DA, 0x6CCC),
     (0xC3DB, 0x871C), (0xC3DC, 0x5BC6), (0xC3DD, 0x5E42), (0xC3DE, 0x68C9), (0xC3DF, 0x7720), (0xC3E0, 0x7EF5)]"

lemma ucs2_gbk_rows_077_climb: "climb 0xc349 ucs2_gbk_rows_077 = Some 0xc3e0"
  unfolding ucs2_gbk_rows_077_def by (intro climb_num climb_end; simp only: numeral_less_iff less_num_simps le_num_simps)

definition ucs2_gbk_rows_078 :: "code_map list" where
  "ucs2_gbk_rows_078 = [
     (0xC3E1, 0x5195), (0xC3E2, 0x514D), (0xC3E3, 0x52C9), (0xC3E4, 0x5A29), (0xC3E5, 0x7F05), (0xC3E6, 0x9762),
     (0xC3E7, 0x82D7), (0xC3E8, 0x63CF), (0xC3E9, 0x7784), (0xC3EA, 0x85D0), (0xC3EB, 0x79D2), (0xC3EC, 0x6E3A),
     (0xC3ED, 0x5E99), (0xC3EE, 0x5999), (0xC3EF, 0x8511), (0xC3F0, 0x706D), (0xC3F1, 0x6C11), (0xC3F2, 0x62BF),
     (0xC3F3, 0x76BF), (0xC3F4, 0x654F), (0xC3F5, 0x60AF), (0xC3F6, 0x95FD), (0xC3F7, 0x660E), (0xC3F8, 0x879F),
     (0xC3F9, 0x9E23), (0xC3FA, 0x94ED), (0xC3FB, 0x540D), (0xC3FC, 0x547D), (0xC3FD, 0x8C2C), (0xC3FE, 0x6478),
     (0xC440, 0x8140), (0xC441, 0x8141), (0xC442, 0x8142), (0xC443, 0x8143), (0xC444, 0x8144), (0xC445, 0x8145),
     (0xC446, 0x8147), (0xC447, 0x8149), (0xC448, 0x814D), (0xC449, 0x814E), (0xC44A, 0x814F), (0xC44B, 0x8152),
     (0xC44C, 0x8156), (0xC44D, 0x8157), (0xC44E, 0x8158), (0xC44F, 0x815B), (0xC450, 0x815C), (0xC451, 0x815D),
     (0xC452, 0x815E), (0xC453, 0x815F), (0xC454, 0x8161), (0xC455, 0x8162), (0xC456, 0x8163), (0xC457, 0x8164),
     (0xC458, 0x8166), (0xC459, 0x8168), (0xC45A, 0x816A), (0xC45B, 0x816B), (0xC45C, 0x816C), (0xC45D, 0x816F),
     (0xC45E, 0x8172), (0xC45F, 0x8173), (0xC460, 0x8175), (0xC461, 0x8176), (0xC462, 0x8177), (0xC463, 0x8178),
     (0xC464, 0x8181), (0xC465, 0x8183), (0xC466, 0x8184), (0xC467, 0x8185), (0xC468, 0x8186), (0xC469, 0x8187),
     (0xC46A, 0x8189), (0xC46B, 0x818B), (0xC46C, 0x818C), (0xC46D, 0x818D), (0xC46E, 0x818E), (0xC46F, 0x8190),
     (0xC470, 0x8192), (0xC471, 0x8193), (0xC472, 0x8194), (0xC473, 0x8195), (0xC474, 0x8196), (0xC475, 0x8197),
     (0xC476, 0x8199), (0xC477, 0x819A), (0xC478, 0x819E), (0xC479, 0x819F), (0xC47A, 0x81A0), (0xC47B, 0x81A1),
     (0xC47C, 0x81A2), (0xC47D, 0x81A4), (0xC47E, 0x81A5), (0xC480, 0x81A7), (0xC481, 0x81A9), (0xC482, 0x81AB),
     (0xC483, 0x81AC), (0xC484, 0x81AD), (0xC485, 0x81AE), (0xC486, 0x81AF), (0xC487, 0x81B0), (0xC488, 0x81B1),
     (0xC489, 0x81B2), (0xC48A, 0x81B4), (0xC48B, 0x81B5), (0xC48C, 0x81B6), (0xC48D, 0x81B7), (0xC48E, 0x81B8),
     (0xC48F, 0x81B9), (0xC490, 0x81BC), (0xC491, 0x81BD), (0xC492, 0x81BE), (0xC493, 0x81BF), (0xC494, 0x81C4),
     (0xC495, 0x81C5), (0xC496, 0x81C7), (0xC497, 0x81C8), (0xC498, 0x81C9), (0xC499, 0x81CB), (0xC49A, 0x81CD),
     (0xC49B, 0x81CE), (0xC49C, 0x81CF), (0xC49D, 0x81D0), (0xC49E, 0x81D1), (0xC49F, 0x81D2), (0xC4A0, 0x81D3),
     (0xC4A1, 0x6479), (0xC4A2, 0x8611), (0xC4A3, 0x6A21), (0xC4A4, 0x819C), (0xC4A5, 0x78E8), (0xC4A6, 0x6469),
     (0xC4A7, 0x9B54), (0xC4A8, 0x62B9), (0xC4A9, 0x672B), (0xC4AA, 0x83AB), (0xC4AB, 0x58A8), (0xC4AC, 0x9ED8),
     (0xC4AD, 0x6CAB), (0xC4AE, 0x6F20), (0xC4AF, 0x5BDE), (0xC4B0, 0x964C), (0xC4B1, 0x8C0B), (0xC4B2, 0x725F),
     (0xC4B3, 0x67D0), (0xC4B4, 0x62C7), (0xC4B5, 0x7261), (0xC4B6, 0x4EA9), (0xC4B7, 0x59C6), (0xC4B8, 0x6BCD)]"

lemma ucs2_gbk_rows_078_climb: "climb 0xc3e0 ucs2_gbk_rows_078 = Some 0xc4b8"
  unfolding ucs2_gbk_rows_078_def by (intro climb_num climb_end; simp only: numeral_less_iff less_num_simps le_num_simps)

definition ucs2_gbk_rows_079 :: "code_map list" where
  "ucs2_gbk_rows_079 = [
     (0xC4B9, 0x5893), (0xC4BA, 0x66AE), (0xC4BB, 0x5E55), (0xC4BC, 0x52DF), (0xC4BD, 0x6155), (0xC4BE, 0x6728),
     (0xC4BF, 0x76EE), (0xC4C0, 0x7766), (0xC4C1, 0x7267), (0xC4C2, 0x7A46), (0xC4C3, 0x62FF), (0xC4C4, 0x54EA),
     (0xC4C5, 0x5450), (0xC4C6, 0x94A0), (0xC4C7, 0x90A3), (0xC4C8, 0x5A1C), (0xC4C9, 0x7EB3), (0xC4CA, 0x6C16),
     (0xC4CB, 0x4E43), (0xC4CC, 0x5976), (0xC4CD, 0x8010), (0xC4CE, 0x5948), (0xC4CF, 0x5357), (0xC4D0, 0x7537),
     (0xC4D1, 0x96BE), (0xC4D2, 0x56CA), (0xC4D3, 0x6320), (0xC4D4, 0x8111), (0xC4D5, 0x607C), (0xC4D6, 0x95F9),
     (0xC4D7, 0x6DD6), (0xC4D8, 0x5462), (0xC4D9, 0x9981), (0xC4DA, 0x5185), (0xC4DB, 0x5AE9), (0xC4DC, 0x80FD),
     (0xC4DD, 0x59AE), (0xC4DE, 0x9713), (0xC4DF, 0x502A), (0xC4E0, 0x6CE5), (0xC4E1, 0x5C3C), (0xC4E2, 0x62DF),
     (0xC4E3, 0x4F60), (0xC4E4, 0x533F), (0xC4E5, 0x817B), (0xC4E6, 0x9006), (0xC4E7, 0x6EBA), (0xC4E8, 0x852B),
     (0xC4E9, 0x62C8), (0xC4EA, 0x5E74), (0xC4EB, 0x78BE), (0xC4EC, 0x64B5), (0xC4ED, 0x637B), (0xC4EE, 0x5FF5),
     (0xC4EF, 0x5A18), (0xC4F0, 0x917F), (0xC4F1, 0x9E1F), (0xC4F2, 0x5C3F), (0xC4F3, 0x634F), (0xC4F4, 0x8042),
     (0xC4F5, 0x5B7D), (0xC4F6, 0x556E), (0xC4F7, 0x954A), (0xC4F8, 0x954D), (0xC4F9, 0x6D85), (0xC4FA, 0x60A8),
     (0xC4FB, 0x67E0), (0xC4FC, 0x72DE), (0xC4FD, 0x51DD), (0xC4FE, 0x5B81), (0xC540, 0x81D4), (0xC541, 0x81D5),
     (0xC542, 0x81D6), (0xC543, 0x81D7), (0xC544, 0x81D8), (0xC545, 0x81D9), (0xC546, 0x81DA), (0xC547, 0x81DB),
     (0xC548, 0x81DC), (0xC549, 0x81DD), (0xC54A, 0x81DE), (0xC54B, 0x81DF), (0xC54C, 0x81E0), (0xC54D, 0x81E1),
     (0xC54E, 0x81E2), (0xC54F, 0x81E4), (0xC550, 0x81E5), (0xC551, 0x81E6), (0xC552, 0x81E8), (0xC553, 0x81E9),
     (0xC554, 0x81EB), (0xC555, 0x81EE), (0xC556, 0x81EF), (0xC557, 0x81F0), (0xC558, 0x81F1), (0xC559, 0x81F2),
     (0xC55A, 0x81F5), (0xC55B, 0x81F6), (0xC55C, 0x81F7), (0xC55D, 0x81F8), (0xC55E, 0x81F9), (0xC55F, 0x81FA),
     (0xC560, 0x81FD), (0xC561, 0x81FF), (0xC562, 0x8203), (0xC563, 0x8207), (0xC564, 0x8208), (0xC565, 0x8209),
     (0xC566, 0x820A), (0xC567, 0x820B), (0xC568, 0x820E), (0xC569, 0x820F), (0xC56A, 0x8211), (0xC56B, 0x8213),
     (0xC56C, 0x8215), (0xC56D, 0x8216), (0xC56E, 0x8217), (0xC56F, 0x8218), (0xC570, 0x8219), (0xC571, 0x821A),
     (0xC572, 0x821D), (0xC573, 0x8220), (0xC574, 0x8224), (0xC575, 0x8225), (0xC576, 0x8226), (0xC577, 0x8227),
     (0xC578, 0x8229), (0xC579, 0x822E), (0xC57A, 0x8232), (0xC57B, 0x823A), (0xC57C, 0x823C), (0xC57D, 0x823D),
     (0xC57E, 0x823F), (0xC580, 0x8240), (0xC581, 0x8241), (0xC582, 0x8242), (0xC583, 0x8243), (0xC584, 0x8245),
     (0xC585, 0x8246), (0xC586, 0x8248), (0xC587, 0x824A), (0xC588, 0x824C), (0xC589, 0x824D), (0xC58A, 0x824E),
     (0xC58B, 0x8250), (0xC58C, 0x8251), (0xC58D, 0x8252), (0xC58E, 0x8253), (0xC58F, 0x8254), (0xC590, 0x8255)]"

lemma ucs2_gbk_rows_079_climb: "climb 0xc4b8 ucs2_gbk_rows_079 = Some 0xc590"
  unfolding ucs2_gbk_rows_079_def by (intro climb_num climb_end; simp only: numeral_less_iff less_num_simps le_num_simps)

definition ucs2_gbk_rows_080 :: "code_map list" where
  "ucs2_gbk_rows_080 = [
     (0xC591, 0x8256), (0xC592, 0x8257), (0xC593, 0x8259), (0xC594, 0x825B), (0xC595, 0x825C), (0xC596, 0x825D),
     (0xC597, 0x825E), (0xC598, 0x8260), (0xC599, 0x8261), (0xC59A, 0x8262), (0xC59B, 0x8263), (0xC59C, 0x8264),
     (0xC59D, 0x8265), (0xC59E, 0x8266), (0xC59F, 0x8267), (0xC5A0, 0x8269), (0xC5A1, 0x62E7), (0xC5A2, 0x6CDE),
     (0xC5A3, 0x725B), (0xC5A4, 0x626D), (0xC5A5, 0x94AE), (0xC5A6, 0x7EBD), (0xC5A7, 0x8113), (0xC5A8, 0x6D53),
     (0xC5A9, 0x519C), (0xC5AA, 0x5F04), (0xC5AB, 0x5974), (0xC5AC, 0x52AA), (0xC5AD, 0x6012), (0xC5AE, 0x5973),
     (0xC5AF, 0x6696), (0xC5B0, 0x8650), (0xC5B1, 0x759F), (0xC5B2, 0x632A), (0xC5B3, 0x61E6), (0xC5B4, 0x7CEF),
     (0xC5B5, 0x8BFA), (0xC5B6, 0x54E6), (0xC5B7, 0x6B27), (0xC5B8, 0x9E25), (0xC5B9, 0x6BB4), (0xC5BA, 0x85D5),
     (0xC5BB, 0x5455), (0xC5BC, 0x5076), (0xC5BD, 0x6CA4), (0xC5BE, 0x556A), (0xC5BF, 0x8DB4), (0xC5C0, 0x722C),
     (0xC5C1, 0x5E15), (0xC5C2, 0x6015), (0xC5C3, 0x7436), (0xC5C4, 0x62CD), (0xC5C5, 0x6392), (0xC5C6, 0x724C),
     (0xC5C7, 0x5F98), (0xC5C8, 0x6E43), (0xC5C9, 0x6D3E), (0xC5CA, 0x6500), (0xC5CB, 0x6F58), (0xC5CC, 0x76D8),
     (0xC5CD, 0x78D0), (0xC5CE, 0x76FC), (0xC5CF, 0x7554), (0xC5D0, 0x5224), (0xC5D1, 0x53DB), (0xC5D2, 0x4E53),
     (0xC5D3, 0x5E9E), (0xC5D4, 0x65C1), (0xC5D5, 0x802A), (0xC5D6, 0x80D6), (0xC5D7, 0x629B), (0xC5D8, 0x5486),
     (0xC5D9, 0x5228), (0xC5DA, 0x70AE), (0xC5DB, 0x888D), (0xC5DC, 0x8DD1), (0xC5DD, 0x6CE1), (0xC5DE, 0x5478),
     (0xC5DF, 0x80DA), (0xC5E0, 0x57F9), (0xC5E1, 0x88F4), (0xC5E2, 0x8D54), (0xC5E3, 0x966A), (0xC5E4, 0x914D),
     (0xC5E5, 0x4F69), (0xC5E6, 0x6C9B), (0xC5E7, 0x55B7), (0xC5E8, 0x76C6), (0xC5E9, 0x7830), (0xC5EA, 0x62A8),
     (0xC5EB, 0x70F9), (0xC5EC, 0x6F8E), (0xC5ED, 0x5F6D), (0xC5EE, 0x84EC), (0xC5EF, 0x68DA), (0xC5F0, 0x787C),
     (0xC5F1, 0x7BF7), (0xC5F2, 0x81A8), (0xC5F3, 0x670B), (0xC5F4, 0x9E4F), (0xC5F5, 0x6367), (0xC5F6, 0x78B0),
     (0xC5F7, 0x576F), (0xC5F8, 0x7812), (0xC5F9, 0x9739), (0xC5FA, 0x6279), (0xC5FB, 0x62AB), (0xC5FC, 0x5288),
     (0xC5FD, 0x7435), (0xC5FE, 0x6BD7), (0xC640, 0x826A), (0xC641, 0x826B), (0xC642, 0x826C), (0xC643, 0x826D),
     (0xC644, 0x8271), (0xC645, 0x8275), (0xC646, 0x8276), (0xC647, 0x8277), (0xC648, 0x8278), (0xC649, 0x827B),
     (0xC64A, 0x827C), (0xC64B, 0x8280), (0xC64C, 0x8281), (0xC64D, 0x8283), (0xC64E, 0x8285), (0xC64F, 0x8286),
     (0xC650, 0x8287), (0xC651, 0x8289), (0xC652, 0x828C), (0xC653, 0x8290), (0xC654, 0x8293), (0xC655, 0x8294),
     (0xC656, 0x8295), (0xC657, 0x8296), (0xC658, 0x829A), (0xC659, 0x829B), (0xC65A, 0x829E), (0xC65B, 0x82A0),
     (0xC65C, 0x82A2), (0xC65D, 0x82A3), (0xC65E, 0x82A7), (0xC65F, 0x82B2), (0xC660, 0x82B5), (0xC661, 0x82B6),
     (0xC662, 0x82BA), (0xC663, 0x82BB), (0xC664, 0x82BC), (0xC665, 0x82BF), (0xC666, 0x82C0), (0xC667, 0x82C2)]"

lemma ucs2_gbk_rows_080_climb: "climb 0xc590 ucs2_gbk_rows_080 = Some 0xc667"
  unfolding ucs2_gbk_rows_080_def by (intro climb_num climb_end; simp only: numeral_less_iff less_num_simps le_num_simps)

definition ucs2_gbk_rows_081 :: "code_map list" where
  "ucs2_gbk_rows_081 = [
     (0xC668, 0x82C3), (0xC669, 0x82C5), (0xC66A, 0x82C6), (0xC66B, 0x82C9), (0xC66C, 0x82D0), (0xC66D, 0x82D6),
     (0xC66E, 0x82D9), (0xC66F, 0x82DA), (0xC670, 0x82DD), (0xC671, 0x82E2), (0xC672, 0x82E7), (0xC673, 0x82E8),
     (0xC674, 0x82E9), (0xC675, 0x82EA), (0xC676, 0x82EC), (0xC677, 0x82ED), (0xC678, 0x82EE), (0xC679, 0x82F0),
     (0xC67A, 0x82F2), (0xC67B, 0x82F3), (0xC67C, 0x82F5), (0xC67D, 0x82F6), (0xC67E, 0x82F8), (0xC680, 0x82FA),
     (0xC681, 0x82FC), (0xC682, 0x82FD), (0xC683, 0x82FE), (0xC684, 0x82FF), (0xC685, 0x8300), (0xC686, 0x830A),
     (0xC687, 0x830B), (0xC688, 0x830D), (0xC689, 0x8310), (0xC68A, 0x8312), (0xC68B, 0x8313), (0xC68C, 0x8316),
     (0xC68D, 0x8318), (0xC68E, 0x8319), (0xC68F, 0x831D), (0xC690, 0x831E), (0xC691, 0x831F), (0xC692, 0x8320),
     (0xC693, 0x8321), (0xC694, 0x8322), (0xC695, 0x8323), (0xC696, 0x8324), (0xC697, 0x8325), (0xC698, 0x8326),
     (0xC699, 0x8329), (0xC69A, 0x832A), (0xC69B, 0x832E), (0xC69C, 0x8330), (0xC69D, 0x8332), (0xC69E, 0x8337),
     (0xC69F, 0x833B), (0xC6A0, 0x833D), (0xC6A1, 0x5564), (0xC6A2, 0x813E), (0xC6A3, 0x75B2), (0xC6A4, 0x76AE),
     (0xC6A5, 0x5339), (0xC6A6, 0x75DE), (0xC6A7, 0x50FB), (0xC6A8, 0x5C41), (0xC6A9, 0x8B6C), (0xC6AA, 0x7BC7),
     (0xC6AB, 0x504F), (0xC6AC, 0x7247), (0xC6AD, 0x9A97), (0xC6AE, 0x98D8), (0xC6AF, 0x6F02), (0xC6B0, 0x74E2),
     (0xC6B1, 0x7968), (0xC6B2, 0x6487), (0xC6B3, 0x77A5), (0xC6B4, 0x62FC), (0xC6B5, 0x9891), (0xC6B6, 0x8D2B),
     (0xC6B7, 0x54C1), (0xC6B8, 0x8058), (0xC6B9, 0x4E52), (0xC6BA, 0x576A), (0xC6BB, 0x82F9), (0xC6BC, 0x840D),
     (0xC6BD, 0x5E73), (0xC6BE, 0x51ED), (0xC6BF, 0x74F6), (0xC6C0, 0x8BC4), (0xC6C1, 0x5C4F), (0xC6C2, 0x5761),
     (0xC6C3, 0x6CFC), (0xC6C4, 0x9887), (0xC6C5, 0x5A46), (0xC6C6, 0x7834), (0xC6C7, 0x9B44), (0xC6C8, 0x8FEB),
     (0xC6C9, 0x7C95), (0xC6CA, 0x5256), (0xC6CB, 0x6251), (0xC6CC, 0x94FA), (0xC6CD, 0x4EC6), (0xC6CE, 0x8386),
     (0xC6CF, 0x8461), (0xC6D0, 0x83E9), (0xC6D1, 0x84B2), (0xC6D2, 0x57D4), (0xC6D3, 0x6734), (0xC6D4, 0x5703),
     (0xC6D5, 0x666E), (0xC6D6, 0x6D66), (0xC6D7, 0x8C31), (0xC6D8, 0x66DD), (0xC6D9, 0x7011), (0xC6DA, 0x671F),
     (0xC6DB, 0x6B3A), (0xC6DC, 0x6816), (0xC6DD, 0x621A), (0xC6DE, 0x59BB), (0xC6DF, 0x4E03), (0xC6E0, 0x51C4),
     (0xC6E1, 0x6F06), (0xC6E2, 0x67D2), (0xC6E3, 0x6C8F), (0xC6E4, 0x5176), (0xC6E5, 0x68CB), (0xC6E6, 0x5947),
     (0xC6E7, 0x6B67), (0xC6E8, 0x7566), (0xC6E9, 0x5D0E), (0xC6EA, 0x8110), (0xC6EB, 0x9F50), (0xC6EC, 0x65D7),
     (0xC6ED, 0x7948), (0xC6EE, 0x7941), (0xC6EF, 0x9A91), (0xC6F0, 0x8D77), (0xC6F1, 0x5C82), (0xC6F2, 0x4E5E),
     (0xC6F3, 0x4F01), (0xC6F4, 0x542F), (0xC6F5, 0x5951), (0xC6F6, 0x780C), (0xC6F7, 0x5668), (0xC6F8, 0x6C14),
     (0xC6F9, 0x8FC4), (0xC6FA, 0x5F03), (0xC6FB, 0x6C7D), (0xC6FC, 0x6CE3), (0xC6FD, 0x8BAB), (0xC6FE, 0x6390)]"

lemma ucs2_gbk_rows_081_climb: "climb 0xc667 ucs2_gbk_rows_081 = Some 0xc6fe"
  unfolding ucs2_gbk_rows_081_def by (intro climb_num climb_end; simp only: numeral_less_iff less_num_simps le_num_simps)

definition ucs2_gbk_rows_082 :: "code_map list" where
  "ucs2_gbk_rows_082 = [
     (0xC740, 0x833E), (0xC741, 0x833F), (0xC742, 0x8341), (0xC743, 0x8342), (0xC744, 0x8344), (0xC745, 0x8345),
     (0xC746, 0x8348), (0xC747, 0x834A), (0xC748, 0x834B), (0xC749, 0x834C), (0xC74A, 0x834D), (0xC74B, 0x834E),
     (0xC74C, 0x8353), (0xC74D, 0x8355), (0xC74E, 0x8356), (0xC74F, 0x8357), (0xC750, 0x8358), (0xC751, 0x8359),
     (0xC752, 0x835D), (0xC753, 0x8362), (0xC754, 0x8370), (0xC755, 0x8371), (0xC756, 0x8372), (0xC757, 0x8373),
     (0xC758, 0x8374), (0xC759, 0x8375), (0xC75A, 0x8376), (0xC75B, 0x8379), (0xC75C, 0x837A), (0xC75D, 0x837E),
     (0xC75E, 0x837F), (0xC75F, 0x8380), (0xC760, 0x8381), (0xC761, 0x8382), (0xC762, 0x8383), (0xC763, 0x8384),
     (0xC764, 0x8387), (0xC765, 0x8388), (0xC766, 0x838A), (0xC767, 0x838B), (0xC768, 0x838C), (0xC769, 0x838D),
     (0xC76A, 0x838F), (0xC76B, 0x8390), (0xC76C, 0x8391), (0xC76D, 0x8394), (0xC76E, 0x8395), (0xC76F, 0x8396),
     (0xC770, 0x8397), (0xC771, 0x8399), (0xC772, 0x839A), (0xC773, 0x839D), (0xC774, 0x839F), (0xC775, 0x83A1),
     (0xC776, 0x83A2), (0xC777, 0x83A3), (0xC778, 0x83A4), (0xC779, 0x83A5), (0xC77A, 0x83A6), (0xC77B, 0x83A7),
     (0xC77C, 0x83AC), (0xC77D, 0x83AD), (0xC77E, 0x83AE), (0xC780, 0x83AF), (0xC781, 0x83B5), (0xC782, 0x83BB),
     (0xC783, 0x83BE), (0xC784, 0x83BF), (0xC785, 0x83C2), (0xC786, 0x83C3), (0xC787, 0x83C4), (0xC788, 0x83C6),
     (0xC789, 0x83C8), (0xC78A, 0x83C9), (0xC78B, 0x83CB), (0xC78C, 0x83CD), (0xC78D, 0x83CE), (0xC78E, 0x83D0),
     (0xC78F, 0x83D1), (0xC790, 0x83D2), (0xC791, 0x83D3), (0xC792, 0x83D5), (0xC793, 0x83D7), (0xC794, 0x83D9),
     (0xC795, 0x83DA), (0xC796, 0x83DB), (0xC797, 0x83DE), (0xC798, 0x83E2), (0xC799, 0x83E3), (0xC79A, 0x83E4),
     (0xC79B, 0x83E6), (0xC79C, 0x83E7), (0xC79D, 0x83E8), (0xC79E, 0x83EB), (0xC79F, 0x83EC), (0xC7A0, 0x83ED),
     (0xC7A1, 0x6070), (0xC7A2, 0x6D3D), (0xC7A3, 0x7275), (0xC7A4, 0x6266), (0xC7A5, 0x948E), (0xC7A6, 0x94C5),
     (0xC7A7, 0x5343), (0xC7A8, 0x8FC1), (0xC7A9, 0x7B7E), (0xC7AA, 0x4EDF), (0xC7AB, 0x8C26), (0xC7AC, 0x4E7E),
     (0xC7AD, 0x9ED4), (0xC7AE, 0x94B1), (0xC7AF, 0x94B3), (0xC7B0, 0x524D), (0xC7B1, 0x6F5C), (0xC7B2, 0x9063),
     (0xC7B3, 0x6D45), (0xC7B4, 0x8C34), (0xC7B5, 0x5811), (0xC7B6, 0x5D4C), (0xC7B7, 0x6B20), (0xC7B8, 0x6B49),
     (0xC7B9, 0x67AA), (0xC7BA, 0x545B), (0xC7BB, 0x8154), (0xC7BC, 0x7F8C), (0xC7BD, 0x5899), (0xC7BE, 0x8537),
     (0xC7BF, 0x5F3A), (0xC7C0, 0x62A2), (0xC7C1, 0x6A47), (0xC7C2, 0x9539), (0xC7C3, 0x6572), (0xC7C4, 0x6084),
     (0xC7C5, 0x6865), (0xC7C6, 0x77A7), (0xC7C7, 0x4E54), (0xC7C8, 0x4FA8), (0xC7C9, 0x5DE7), (0xC7CA, 0x9798),
     (0xC7CB, 0x64AC), (0xC7CC, 0x7FD8), (0xC7CD, 0x5CED), (0xC7CE, 0x4FCF), (0xC7CF, 0x7A8D), (0xC7D0, 0x5207),
     (0xC7D1, 0x8304), (0xC7D2, 0x4E14), (0xC7D3, 0x602F), (0xC7D4, 0x7A83), (0xC7D5, 0x94A6), (0xC7D6, 0x4FB5)]"

lemma ucs2_gbk_rows_082_climb: "climb 0xc6fe ucs2_gbk_rows_082 = Some 0xc7d6"
  unfolding ucs2_gbk_rows_082_def by (intro climb_num climb_end; simp only: numeral_less_iff less_num_simps le_num_simps)

definition ucs2_gbk_rows_083 :: "code_map list" where
  "ucs2_gbk_rows_083 = [
     (0xC7D7, 0x4EB2), (0xC7D8, 0x79E6), (0xC7D9, 0x7434), (0xC7DA, 0x52E4), (0xC7DB, 0x82B9), (0xC7DC, 0x64D2),
     (0xC7DD, 0x79BD), (0xC7DE, 0x5BDD), (0xC7DF, 0x6C81), (0xC7E0, 0x9752), (0xC7E1, 0x8F7B), (0xC7E2, 0x6C22),
     (0xC7E3, 0x503E), (0xC7E4, 0x537F), (0xC7E5, 0x6E05), (0xC7E6, 0x64CE), (0xC7E7, 0x6674), (0xC7E8, 0x6C30),
     (0xC7E9, 0x60C5), (0xC7EA, 0x9877), (0xC7EB, 0x8BF7), (0xC7EC, 0x5E86), (0xC7ED, 0x743C), (0xC7EE, 0x7A77),
     (0xC7EF, 0x79CB), (0xC7F0, 0x4E18), (0xC7F1, 0x90B1), (0xC7F2, 0x7403), (0xC7F3, 0x6C42), (0xC7F4, 0x56DA),
     (0xC7F5, 0x914B), (0xC7F6, 0x6CC5), (0xC7F7, 0x8D8B), (0xC7F8, 0x533A), (0xC7F9, 0x86C6), (0xC7FA, 0x66F2),
     (0xC7FB, 0x8EAF), (0xC7FC, 0x5C48), (0xC7FD, 0x9A71), (0xC7FE, 0x6E20), (0xC840, 0x83EE), (0xC841, 0x83EF),
     (0xC842, 0x83F3), (0xC843, 0x83F4), (0xC844, 0x83F5), (0xC845, 0x83F6), (0xC846, 0x83F7), (0xC847, 0x83FA),
     (0xC848, 0x83FB), (0xC849, 0x83FC), (0xC84A, 0x83FE), (0xC84B, 0x83FF), (0xC84C, 0x8400), (0xC84D, 0x8402),
     (0xC84E, 0x8405), (0xC84F, 0x8407), (0xC850, 0x8408), (0xC851, 0x8409), (0xC852, 0x840A), (0xC853, 0x8410),
     (0xC854, 0x8412), (0xC855, 0x8413), (0xC856, 0x8414), (0xC857, 0x8415), (0xC858, 0x8416), (0xC859, 0x8417),
     (0xC85A, 0x8419), (0xC85B, 0x841A), (0xC85C, 0x841B), (0xC85D, 0x841E), (0xC85E, 0x841F), (0xC85F, 0x8420),
     (0xC860, 0x8421), (0xC861, 0x8422), (0xC862, 0x8423), (0xC863, 0x8429), (0xC864, 0x842A), (0xC865, 0x842B),
     (0xC866, 0x842C), (0xC867, 0x842D), (0xC868, 0x842E), (0xC869, 0x842F), (0xC86A, 0x8430), (0xC86B, 0x8432),
     (0xC86C, 0x8433), (0xC86D, 0x8434), (0xC86E, 0x8435), (0xC86F, 0x8436), (0xC870, 0x8437), (0xC871, 0x8439),
     (0xC872, 0x843A), (0xC873, 0x843B), (0xC874, 0x843E), (0xC875, 0x843F), (0xC876, 0x8440), (0xC877, 0x8441),
     (0xC878, 0x8442), (0xC879, 0x8443), (0xC87A, 0x8444), (0xC87B, 0x8445), (0xC87C, 0x8447), (0xC87D, 0x8448),
     (0xC87E, 0x8449), (0xC880, 0x844A), (0xC881, 0x844B), (0xC882, 0x844C), (0xC883, 0x844D), (0xC884, 0x844E),
     (0xC885, 0x844F), (0xC886, 0x8450), (0xC887, 0x8452), (0xC888, 0x8453), (0xC889, 0x8454), (0xC88A, 0x8455),
     (0xC88B, 0x8456), (0xC88C, 0x8458), (0xC88D, 0x845D), (0xC88E, 0x845E), (0xC88F, 0x845F), (0xC890, 0x8460),
     (0xC891, 0x8462), (0xC892, 0x8464), (0xC893, 0x8465), (0xC894, 0x8466), (0xC895, 0x8467), (0xC896, 0x8468),
     (0xC897, 0x846A), (0xC898, 0x846E), (0xC899, 0x846F), (0xC89A, 0x8470), (0xC89B, 0x8472), (0xC89C, 0x8474),
     (0xC89D, 0x8477), (0xC89E, 0x8479), (0xC89F, 0x847B), (0xC8A0, 0x847C), (0xC8A1, 0x53D6), (0xC8A2, 0x5A36),
     (0xC8A3, 0x9F8B), (0xC8A4, 0x8DA3), (0xC8A5, 0x53BB), (0xC8A6, 0x5708), (0xC8A7, 0x98A7), (0xC8A8, 0x6743),
     (0xC8A9, 0x919B), (0xC8AA, 0x6CC9), (0xC8AB, 0x5168), (0xC8AC, 0x75CA), (0xC8AD, 0x62F3), (0xC8AE, 0x72AC)]"

lemma ucs2_gbk_rows_083_climb: "climb 0xc7d6 ucs2_gbk_rows_083 = Some 0xc8ae"
  unfolding ucs2_gbk_rows_083_def by (intro climb_num climb_end; simp only: numeral_less_iff less_num_simps le_num_simps)

definition ucs2_gbk_rows_084 :: "code_map list" where
  "ucs2_gbk_rows_084 = [
     (0xC8AF, 0x5238), (0xC8B0, 0x529D), (0xC8B1, 0x7F3A), (0xC8B2, 0x7094), (0xC8B3, 0x7638), (0xC8B4, 0x5374),
     (0xC8B5, 0x9E4A), (0xC8B6, 0x69B7), (0xC8B7, 0x786E), (0xC8B8, 0x96C0), (0xC8B9, 0x88D9), (0xC8BA, 0x7FA4),
     (0xC8BB, 0x7136), (0xC8BC, 0x71C3), (0xC8BD, 0x5189), (0xC8BE, 0x67D3), (0xC8BF, 0x74E4), (0xC8C0, 0x58E4),
     (0xC8C1, 0x6518), (0xC8C2, 0x56B7), (0xC8C3, 0x8BA9), (0xC8C4, 0x9976), (0xC8C5, 0x6270), (0xC8C6, 0x7ED5),
     (0xC8C7, 0x60F9), (0xC8C8, 0x70ED), (0xC8C9, 0x58EC), (0xC8CA, 0x4EC1), (0xC8CB, 0x4EBA), (0xC8CC, 0x5FCD),
     (0xC8CD, 0x97E7), (0xC8CE, 0x4EFB), (0xC8CF, 0x8BA4), (0xC8D0, 0x5203), (0xC8D1, 0x598A), (0xC8D2, 0x7EAB),
     (0xC8D3, 0x6254), (0xC8D4, 0x4ECD), (0xC8D5, 0x65E5), (0xC8D6, 0x620E), (0xC8D7, 0x8338), (0xC8D8, 0x84C9),
     (0xC8D9, 0x8363), (0xC8DA, 0x878D), (0xC8DB, 0x7194), (0xC8DC, 0x6EB6), (0xC8DD, 0x5BB9), (0xC8DE, 0x7ED2),
     (0xC8DF, 0x5197), (0xC8E0, 0x63C9), (0xC8E1, 0x67D4), (0xC8E2, 0x8089), (0xC8E3, 0x8339), (0xC8E4, 0x8815),
     (0xC8E5, 0x5112), (0xC8E6, 0x5B7A), (0xC8E7, 0x5982), (0xC8E8, 0x8FB1), (0xC8E9, 0x4E73), (0xC8EA, 0x6C5D),
     (0xC8EB, 0x5165), (0xC8EC, 0x8925), (0xC8ED, 0x8F6F), (0xC8EE, 0x962E), (0xC8EF, 0x854A), (0xC8F0, 0x745E),
     (0xC8F1, 0x9510), (0xC8F2, 0x95F0), (0xC8F3, 0x6DA6), (0xC8F4, 0x82E5), (0xC8F5, 0x5F31), (0xC8F6, 0x6492),
     (0xC8F7, 0x6D12), (0xC8F8, 0x8428), (0xC8F9, 0x816E), (0xC8FA, 0x9CC3), (0xC8FB, 0x585E), (0xC8FC, 0x8D5B),
     (0xC8FD, 0x4E09), (0xC8FE, 0x53C1), (0xC940, 0x847D), (0xC941, 0x847E), (0xC942, 0x847F), (0xC943, 0x8480),
     (0xC944, 0x8481), (0xC945, 0x8483), (0xC946, 0x8484), (0xC947, 0x8485), (0xC948, 0x8486), (0xC949, 0x848A),
     (0xC94A, 0x848D), (0xC94B, 0x848F), (0xC94C, 0x8490), (0xC94D, 0x8491), (0xC94E, 0x8492), (0xC94F, 0x8493),
     (0xC950, 0x8494), (0xC951, 0x8495), (0xC952, 0x8496), (0xC953, 0x8498), (0xC954, 0x849A), (0xC955, 0x849B),
     (0xC956, 0x849D), (0xC957, 0x849E), (0xC958, 0x849F), (0xC959, 0x84A0), (0xC95A, 0x84A2), (0xC95B, 0x84A3),
     (0xC95C, 0x84A4), (0xC95D, 0x84A5), (0xC95E, 0x84A6), (0xC95F, 0x84A7), (0xC960, 0x84A8), (0xC961, 0x84A9),
     (0xC962, 0x84AA), (0xC963, 0x84AB), (0xC964, 0x84AC), (0xC965, 0x84AD), (0xC966, 0x84AE), (0xC967, 0x84B0),
     (0xC968, 0x84B1), (0xC969, 0x84B3), (0xC96A, 0x84B5), (0xC96B, 0x84B6), (0xC96C, 0x84B7), (0xC96D, 0x84BB),
     (0xC96E, 0x84BC), (0xC96F, 0x84BE), (0xC970, 0x84C0), (0xC971, 0x84C2), (0xC972, 0x84C3), (0xC973, 0x84C5),
     (0xC974, 0x84C6), (0xC975, 0x84C7), (0xC976, 0x84C8), (0xC977, 0x84CB), (0xC978, 0x84CC), (0xC979, 0x84CE),
     (0xC97A, 0x84CF), (0xC97B, 0x84D2), (0xC97C, 0x84D4), (0xC97D, 0x84D5), (0xC97E, 0x84D7), (0xC980, 0x84D8),
     (0xC981, 0x84D9), (0xC982, 0x84DA), (0xC983, 0x84DB), (0xC984, 0x84DC), (0xC985, 0x84DE), (0xC986, 0x84E1)]"

lemma ucs2_gbk_rows_084_climb: "climb 0xc8ae ucs2_gbk_rows_084 = Some 0xc986"
  unfolding ucs2_gbk_rows_084_def by (intro climb_num climb_end; simp only: numeral_less_iff less_num_simps le_num_simps)

definition ucs2_gbk_rows_085 :: "code_map list" where
  "ucs2_gbk_rows_085 = [
     (0xC987, 0x84E2), (0xC988, 0x84E4), (0xC989, 0x84E7), (0xC98A, 0x84E8), (0xC98B, 0x84E9), (0xC98C, 0x84EA),
     (0xC98D, 0x84EB), (0xC98E, 0x84ED), (0xC98F, 0x84EE), (0xC990, 0x84EF), (0xC991, 0x84F1), (0xC992, 0x84F2),
     (0xC993, 0x84F3), (0xC994, 0x84F4), (0xC995, 0x84F5), (0xC996, 0x84F6), (0xC997, 0x84F7), (0xC998, 0x84F8),
     (0xC999, 0x84F9), (0xC99A, 0x84FA), (0xC99B, 0x84FB), (0xC99C, 0x84FD), (0xC99D, 0x84FE), (0xC99E, 0x8500),
     (0xC99F, 0x8501), (0xC9A0, 0x8502), (0xC9A1, 0x4F1E), (0xC9A2, 0x6563), (0xC9A3, 0x6851), (0xC9A4, 0x55D3),
     (0xC9A5, 0x4E27), (0xC9A6, 0x6414), (0xC9A7, 0x9A9A), (0xC9A8, 0x626B), (0xC9A9, 0x5AC2), (0xC9AA, 0x745F),
     (0xC9AB, 0x8272), (0xC9AC, 0x6DA9), (0xC9AD, 0x68EE), (0xC9AE, 0x50E7), (0xC9AF, 0x838E), (0xC9B0, 0x7802),
     (0xC9B1, 0x6740), (0xC9B2, 0x5239), (0xC9B3, 0x6C99), (0xC9B4, 0x7EB1), (0xC9B5, 0x50BB), (0xC9B6, 0x5565),
     (0xC9B7, 0x715E), (0xC9B8, 0x7B5B), (0xC9B9, 0x6652), (0xC9BA, 0x73CA), (0xC9BB, 0x82EB), (0xC9BC, 0x6749),
     (0xC9BD, 0x5C71), (0xC9BE, 0x5220), (0xC9BF, 0x717D), (0xC9C0, 0x886B), (0xC9C1, 0x95EA), (0xC9C2, 0x9655),
     (0xC9C3, 0x64C5), (0xC9C4, 0x8D61), (0xC9C5, 0x81B3), (0xC9C6, 0x5584), (0xC9C7, 0x6C55), (0xC9C8, 0x6247),
     (0xC9C9, 0x7F2E), (0xC9CA, 0x5892), (0xC9CB, 0x4F24), (0xC9CC, 0x5546), (0xC9CD, 0x8D4F), (0xC9CE, 0x664C),
     (0xC9CF, 0x4E0A), (0xC9D0, 0x5C1A), (0xC9D1, 0x88F3), (0xC9D2, 0x68A2), (0xC9D3, 0x634E), (0xC9D4, 0x7A0D),
     (0xC9D5, 0x70E7), (0xC9D6, 0x828D), (0xC9D7, 0x52FA), (0xC9D8, 0x97F6), (0xC9D9, 0x5C11), (0xC9DA, 0x54E8),
     (0xC9DB, 0x90B5), (0xC9DC, 0x7ECD), (0xC9DD, 0x5962), (0xC9DE, 0x8D4A), (0xC9DF, 0x86C7), (0xC9E0, 0x820C),
     (0xC9E1, 0x820D), (0xC9E2, 0x8D66), (0xC9E3, 0x6444), (0xC9E4, 0x5C04), (0xC9E5, 0x6151), (0xC9E6, 0x6D89),
     (0xC9E7, 0x793E), (0xC9E8, 0x8BBE), (0xC9E9, 0x7837), (0xC9EA, 0x7533), (0xC9EB, 0x547B), (0xC9EC, 0x4F38),
     (0xC9ED, 0x8EAB), (0xC9EE, 0x6DF1), (0xC9EF, 0x5A20), (0xC9F0, 0x7EC5), (0xC9F1, 0x795E), (0xC9F2, 0x6C88),
     (0xC9F3, 0x5BA1), (0xC9F4, 0x5A76), (0xC9F5, 0x751A), (0xC9F6, 0x80BE), (0xC9F7, 0x614E), (0xC9F8, 0x6E17),
     (0xC9F9, 0x58F0), (0xC9FA, 0x751F), (0xC9FB, 0x7525), (0xC9FC, 0x7272), (0xC9FD, 0x5347), (0xC9FE, 0x7EF3),
     (0xCA40, 0x8503), (0xCA41, 0x8504), (0xCA42, 0x8505), (0xCA43, 0x8506), (0xCA44, 0x8507), (0xCA45, 0x8508),
     (0xCA46, 0x8509), (0xCA47, 0x850A), (0xCA48, 0x850B), (0xCA49, 0x850D), (0xCA4A, 0x850E), (0xCA4B, 0x850F),
     (0xCA4C, 0x8510), (0xCA4D, 0x8512), (0xCA4E, 0x8514), (0xCA4F, 0x8515), (0xCA50, 0x8516), (0xCA51, 0x8518),
     (0xCA52, 0x8519), (0xCA53, 0x851B), (0xCA54, 0x851C), (0xCA55, 0x851D), (0xCA56, 0x851E), (0xCA57, 0x8520),
     (0xCA58, 0x8522), (0xCA59, 0x8523), (0xCA5A, 0x8524), (0xCA5B, 0x8525), (0xCA5C, 0x8526), (0xCA5D, 0x8527)]"

lemma ucs2_gbk_rows_085_climb: "climb 0xc986 ucs2_gbk_rows_085 = Some 0xca5d"
  unfolding ucs2_gbk_rows_085_def by (intro climb_num climb_end; simp only: numeral_less_iff less_num_simps le_num_simps)

definition ucs2_gbk_rows_086 :: "code_map list" where
  "ucs2_gbk_rows_086 = [
     (0xCA5E, 0x8528), (0xCA5F, 0x8529), (0xCA60, 0x852A), (0xCA61, 0x852D), (0xCA62, 0x852E), (0xCA63, 0x852F),
     (0xCA64, 0x8530), (0xCA65, 0x8531), (0xCA66, 0x8532), (0xCA67, 0x8533), (0xCA68, 0x8534), (0xCA69, 0x8535),
     (0xCA6A, 0x8536), (0xCA6B, 0x853E), (0xCA6C, 0x853F), (0xCA6D, 0x8540), (0xCA6E, 0x8541), (0xCA6F, 0x8542),
     (0xCA70, 0x8544), (0xCA71, 0x8545), (0xCA72, 0x8546), (0xCA73, 0x8547), (0xCA74, 0x854B), (0xCA75, 0x854C),
     (0xCA76, 0x854D), (0xCA77, 0x854E), (0xCA78, 0x854F), (0xCA79, 0x8550), (0xCA7A, 0x8551), (0xCA7B, 0x8552),
     (0xCA7C, 0x8553), (0xCA7D, 0x8554), (0xCA7E, 0x8555), (0xCA80, 0x8557), (0xCA81, 0x8558), (0xCA82, 0x855A),
     (0xCA83, 0x855B), (0xCA84, 0x855C), (0xCA85, 0x855D), (0xCA86, 0x855F), (0xCA87, 0x8560), (0xCA88, 0x8561),
     (0xCA89, 0x8562), (0xCA8A, 0x8563), (0xCA8B, 0x8565), (0xCA8C, 0x8566), (0xCA8D, 0x8567), (0xCA8E, 0x8569),
     (0xCA8F, 0x856A), (0xCA90, 0x856B), (0xCA91, 0x856C), (0xCA92, 0x856D), (0xCA93, 0x856E), (0xCA94, 0x856F),
     (0xCA95, 0x8570), (0xCA96, 0x8571), (0xCA97, 0x8573), (0xCA98, 0x8575), (0xCA99, 0x8576), (0xCA9A, 0x8577),
     (0xCA9B, 0x8578), (0xCA9C, 0x857C), (0xCA9D, 0x857D), (0xCA9E, 0x857F), (0xCA9F, 0x8580), (0xCAA0, 0x8581),
     (0xCAA1, 0x7701), (0xCAA2, 0x76DB), (0xCAA3, 0x5269), (0xCAA4, 0x80DC), (0xCAA5, 0x5723), (0xCAA6, 0x5E08),
     (0xCAA7, 0x5931), (0xCAA8, 0x72EE), (0xCAA9, 0x65BD), (0xCAAA, 0x6E7F), (0xCAAB, 0x8BD7), (0xCAAC, 0x5C38),
     (0xCAAD, 0x8671), (0xCAAE, 0x5341), (0xCAAF, 0x77F3), (0xCAB0, 0x62FE), (0xCAB1, 0x65F6), (0xCAB2, 0x4EC0),
     (0xCAB3, 0x98DF), (0xCAB4, 0x8680), (0xCAB5, 0x5B9E), (0xCAB6, 0x8BC6), (0xCAB7, 0x53F2), (0xCAB8, 0x77E2),
     (0xCAB9, 0x4F7F), (0xCABA, 0x5C4E), (0xCABB, 0x9A76), (0xCABC, 0x59CB), (0xCABD, 0x5F0F), (0xCABE, 0x793A),
     (0xCABF, 0x58EB), (0xCAC0, 0x4E16), (0xCAC1, 0x67FF), (0xCAC2, 0x4E8B), (0xCAC3, 0x62ED), (0xCAC4, 0x8A93),
     (0xCAC5, 0x901D), (0xCAC6, 0x52BF), (0xCAC7, 0x662F), (0xCAC8, 0x55DC), (0xCAC9, 0x566C), (0xCACA, 0x9002),
     (0xCACB, 0x4ED5), (0xCACC, 0x4F8D), (0xCACD, 0x91CA), (0xCACE, 0x9970), (0xCACF, 0x6C0F), (0xCAD0, 0x5E02),
     (0xCAD1, 0x6043), (0xCAD2, 0x5BA4), (0xCAD3, 0x89C6), (0xCAD4, 0x8BD5), (0xCAD5, 0x6536), (0xCAD6, 0x624B),
     (0xCAD7, 0x9996), (0xCAD8, 0x5B88), (0xCAD9, 0x5BFF), (0xCADA, 0x6388), (0xCADB, 0x552E), (0xCADC, 0x53D7),
     (0xCADD, 0x7626), (0xCADE, 0x517D), (0xCADF, 0x852C), (0xCAE0, 0x67A2), (0xCAE1, 0x68B3), (0xCAE2, 0x6B8A),
     (0xCAE3, 0x6292), (0xCAE4, 0x8F93), (0xCAE5, 0x53D4), (0xCAE6, 0x8212), (0xCAE7, 0x6DD1), (0xCAE8, 0x758F),
     (0xCAE9, 0x4E66), (0xCAEA, 0x8D4E), (0xCAEB, 0x5B70), (0xCAEC, 0x719F), (0xCAED, 0x85AF), (0xCAEE, 0x6691),
     (0xCAEF, 0x66D9), (0xCAF0, 0x7F72), (0xCAF1, 0x8700), (0xCAF2, 0x9ECD), (0xCAF3, 0x9F20), (0xCAF4, 0x5C5E)]"

lemma ucs2_gbk_rows_086_climb: "climb 0xca5d ucs2_gbk_rows_086 = Some 0xcaf4"
  unfolding ucs2_gbk_rows_086_def by (intro climb_num climb_end; simp only: numeral_less_iff less_num_simps le_num_simps)

definition ucs2_gbk_rows_087 :: "code_map list" where
  "ucs2_gbk_rows_087 = [
     (0xCAF5, 0x672F), (0xCAF6, 0x8FF0), (0xCAF7, 0x6811), (0xCAF8, 0x675F), (0xCAF9, 0x620D), (0xCAFA, 0x7AD6),
     (0xCAFB, 0x5885), (0xCAFC, 0x5EB6), (0xCAFD, 0x6570), (0xCAFE, 0x6F31), (0xCB40, 0x8582), (0xCB41, 0x8583),
     (0xCB42, 0x8586), (0xCB43, 0x8588), (0xCB44, 0x8589), (0xCB45, 0x858A), (0xCB46, 0x858B), (0xCB47, 0x858C),
     (0xCB48, 0x858D), (0xCB49, 0x858E), (0xCB4A, 0x8590), (0xCB4B, 0x8591), (0xCB4C, 0x8592), (0xCB4D, 0x8593),
     (0xCB4E, 0x8594), (0xCB4F, 0x8595), (0xCB50, 0x8596), (0xCB51, 0x8597), (0xCB52, 0x8598), (0xCB53, 0x8599),
     (0xCB54, 0x859A), (0xCB55, 0x859D), (0xCB56, 0x859E), (0xCB57, 0x859F), (0xCB58, 0x85A0), (0xCB59, 0x85A1),
     (0xCB5A, 0x85A2), (0xCB5B, 0x85A3), (0xCB5C, 0x85A5), (0xCB5D, 0x85A6), (0xCB5E, 0x85A7), (0xCB5F, 0x85A9),
     (0xCB60, 0x85AB), (0xCB61, 0x85AC), (0xCB62, 0x85AD), (0xCB63, 0x85B1), (0xCB64, 0x85B2), (0xCB65, 0x85B3),
     (0xCB66, 0x85B4), (0xCB67, 0x85B5), (0xCB68, 0x85B6), (0xCB69, 0x85B8), (0xCB6A, 0x85BA), (0xCB6B, 0x85BB),
     (0xCB6C, 0x85BC), (0xCB6D, 0x85BD), (0xCB6E, 0x85BE), (0xCB6F, 0x85BF), (0xCB70, 0x85C0), (0xCB71, 0x85C2),
     (0xCB72, 0x85C3), (0xCB73, 0x85C4), (0xCB74, 0x85C5), (0xCB75, 0x85C6), (0xCB76, 0x85C7), (0xCB77, 0x85C8),
     (0xCB78, 0x85CA), (0xCB79, 0x85CB), (0xCB7A, 0x85CC), (0xCB7B, 0x85CD), (0xCB7C, 0x85CE), (0xCB7D, 0x85D1),
     (0xCB7E, 0x85D2), (0xCB80, 0x85D4), (0xCB81, 0x85D6), (0xCB82, 0x85D7), (0xCB83, 0x85D8), (0xCB84, 0x85D9),
     (0xCB85, 0x85DA), (0xCB86, 0x85DB), (0xCB87, 0x85DD), (0xCB88, 0x85DE), (0xCB89, 0x85DF), (0xCB8A, 0x85E0),
     (0xCB8B, 0x85E1), (0xCB8C, 0x85E2), (0xCB8D, 0x85E3), (0xCB8E, 0x85E5), (0xCB8F, 0x85E6), (0xCB90, 0x85E7),
     (0xCB91, 0x85E8), (0xCB92, 0x85EA), (0xCB93, 0x85EB), (0xCB94, 0x85EC), (0xCB95, 0x85ED), (0xCB96, 0x85EE),
     (0xCB97, 0x85EF), (0xCB98, 0x85F0), (0xCB99, 0x85F1), (0xCB9A, 0x85F2), (0xCB9B, 0x85F3), (0xCB9C, 0x85F4),
     (0xCB9D, 0x85F5), (0xCB9E, 0x85F6), (0xCB9F, 0x85F7), (0xCBA0, 0x85F8), (0xCBA1, 0x6055), (0xCBA2, 0x5237),
     (0xCBA3, 0x800D), (0xCBA4, 0x6454), (0xCBA5, 0x8870), (0xCBA6, 0x7529), (0xCBA7, 0x5E05), (0xCBA8, 0x6813),
     (0xCBA9, 0x62F4), (0xCBAA, 0x971C), (0xCBAB, 0x53CC), (0xCBAC, 0x723D), (0xCBAD, 0x8C01), (0xCBAE, 0x6C34),
     (0xCBAF, 0x7761), (0xCBB0, 0x7A0E), (0xCBB1, 0x542E), (0xCBB2, 0x77AC), (0xCBB3, 0x987A), (0xCBB4, 0x821C),
     (0xCBB5, 0x8BF4), (0xCBB6, 0x7855), (0xCBB7, 0x6714), (0xCBB8, 0x70C1), (0xCBB9, 0x65AF), (0xCBBA, 0x6495),
     (0xCBBB, 0x5636), (0xCBBC, 0x601D), (0xCBBD, 0x79C1), (0xCBBE, 0x53F8), (0xCBBF, 0x4E1D), (0xCBC0, 0x6B7B),
     (0xCBC1, 0x8086), (0xCBC2, 0x5BFA), (0xCBC3, 0x55E3), (0xCBC4, 0x56DB), (0xCBC5, 0x4F3A), (0xCBC6, 0x4F3C),
     (0xCBC7, 0x9972), (0xCBC8, 0x5DF3), (0xCBC9, 0x677E), (0xCBCA, 0x8038), (0xCBCB, 0x6002), (0xCBCC, 0x9882)]"

lemma ucs2_gbk_rows_087_climb: "climb 0xcaf4 ucs2_gbk_rows_087 = Some 0xcbcc"
  unfolding ucs2_gbk_rows_087_def by (intro climb_num climb_end; simp only: numeral_less_iff less_num_simps le_num_simps)

definition ucs2_gbk_rows_088 :: "code_map list" where
  "ucs2_gbk_rows_088 = [
     (0xCBCD, 0x9001), (0xCBCE, 0x5B8B), (0xCBCF, 0x8BBC), (0xCBD0, 0x8BF5), (0xCBD1, 0x641C), (0xCBD2, 0x8258),
     (0xCBD3, 0x64DE), (0xCBD4, 0x55FD), (0xCBD5, 0x82CF), (0xCBD6, 0x9165), (0xCBD7, 0x4FD7), (0xCBD8, 0x7D20),
     (0xCBD9, 0x901F), (0xCBDA, 0x7C9F), (0xCBDB, 0x50F3), (0xCBDC, 0x5851), (0xCBDD, 0x6EAF), (0xCBDE, 0x5BBF),
     (0xCBDF, 0x8BC9), (0xCBE0, 0x8083), (0xCBE1, 0x9178), (0xCBE2, 0x849C), (0xCBE3, 0x7B97), (0xCBE4, 0x867D),
     (0xCBE5, 0x968B), (0xCBE6, 0x968F), (0xCBE7, 0x7EE5), (0xCBE8, 0x9AD3), (0xCBE9, 0x788E), (0xCBEA, 0x5C81),
     (0xCBEB, 0x7A57), (0xCBEC, 0x9042), (0xCBED, 0x96A7), (0xCBEE, 0x795F), (0xCBEF, 0x5B59), (0xCBF0, 0x635F),
     (0xCBF1, 0x7B0B), (0xCBF2, 0x84D1), (0xCBF3, 0x68AD), (0xCBF4, 0x5506), (0xCBF5, 0x7F29), (0xCBF6, 0x7410),
     (0xCBF7, 0x7D22), (0xCBF8, 0x9501), (0xCBF9, 0x6240), (0xCBFA, 0x584C), (0xCBFB, 0x4ED6), (0xCBFC, 0x5B83),
     (0xCBFD, 0x5979), (0xCBFE, 0x5854), (0xCC40, 0x85F9), (0xCC41, 0x85FA), (0xCC42, 0x85FC), (0xCC43, 0x85FD),
     (0xCC44, 0x85FE), (0xCC45, 0x8600), (0xCC46, 0x8601), (0xCC47, 0x8602), (0xCC48, 0x8603), (0xCC49, 0x8604),
     (0xCC4A, 0x8606), (0xCC4B, 0x8607), (0xCC4C, 0x8608), (0xCC4D, 0x8609), (0xCC4E, 0x860A), (0xCC4F, 0x860B),
     (0xCC50, 0x860C), (0xCC51, 0x860D), (0xCC52, 0x860E), (0xCC53, 0x860F), (0xCC54, 0x8610), (0xCC55, 0x8612),
     (0xCC56, 0x8613), (0xCC57, 0x8614), (0xCC58, 0x8615), (0xCC59, 0x8617), (0xCC5A, 0x8618), (0xCC5B, 0x8619),
     (0xCC5C, 0x861A), (0xCC5D, 0x861B), (0xCC5E, 0x861C), (0xCC5F, 0x861D), (0xCC60, 0x861E), (0xCC61, 0x861F),
     (0xCC62, 0x8620), (0xCC63, 0x8621), (0xCC64, 0x8622), (0xCC65, 0x8623), (0xCC66, 0x8624), (0xCC67, 0x8625),
     (0xCC68, 0x8626), (0xCC69, 0x8628), (0xCC6A, 0x862A), (0xCC6B, 0x862B), (0xCC6C, 0x862C), (0xCC6D, 0x862D),
     (0xCC6E, 0x862E), (0xCC6F, 0x862F), (0xCC70, 0x8630), (0xCC71, 0x8631), (0xCC72, 0x8632), (0xCC73, 0x8633),
     (0xCC74, 0x8634), (0xCC75, 0x8635), (0xCC76, 0x8636), (0xCC77, 0x8637), (0xCC78, 0x8639), (0xCC79, 0x863A),
     (0xCC7A, 0x863B), (0xCC7B, 0x863D), (0xCC7C, 0x863E), (0xCC7D, 0x863F), (0xCC7E, 0x8640), (0xCC80, 0x8641),
     (0xCC81, 0x8642), (0xCC82, 0x8643), (0xCC83, 0x8644), (0xCC84, 0x8645), (0xCC85, 0x8646), (0xCC86, 0x8647),
     (0xCC87, 0x8648), (0xCC88, 0x8649), (0xCC89, 0x864A), (0xCC8A, 0x864B), (0xCC8B, 0x864C), (0xCC8C, 0x8652),
     (0xCC8D, 0x8653), (0xCC8E, 0x8655), (0xCC8F, 0x8656), (0xCC90, 0x8657), (0xCC91, 0x8658), (0xCC92, 0x8659),
     (0xCC93, 0x865B), (0xCC94, 0x865C), (0xCC95, 0x865D), (0xCC96, 0x865F), (0xCC97, 0x8660), (0xCC98, 0x8661),
     (0xCC99, 0x8663), (0xCC9A, 0x8664), (0xCC9B, 0x8665), (0xCC9C, 0x8666), (0xCC9D, 0x8667), (0xCC9E, 0x8668),
     (0xCC9F, 0x8669), (0xCCA0, 0x866A), (0xCCA1, 0x736D), (0xCCA2, 0x631E), (0xCCA3, 0x8E4B), (0xCCA4, 0x8E0F)]"

lemma ucs2_gbk_rows_088_climb: "climb 0xcbcc ucs2_gbk_rows_088 = Some 0xcca4"
  unfolding ucs2_gbk_rows_088_def by (intro climb_num climb_end; simp only: numeral_less_iff less_num_simps le_num_simps)

definition ucs2_gbk_rows_089 :: "code_map list" where
  "ucs2_gbk_rows_089 = [
     (0xCCA5, 0x80CE), (0xCCA6, 0x82D4), (0xCCA7, 0x62AC), (0xCCA8, 0x53F0), (0xCCA9, 0x6CF0), (0xCCAA, 0x915E),
     (0xCCAB, 0x592A), (0xCCAC, 0x6001), (0xCCAD, 0x6C70), (0xCCAE, 0x574D), (0xCCAF, 0x644A), (0xCCB0, 0x8D2A),
     (0xCCB1, 0x762B), (0xCCB2, 0x6EE9), (0xCCB3, 0x575B), (0xCCB4, 0x6A80), (0xCCB5, 0x75F0), (0xCCB6, 0x6F6D),
     (0xCCB7, 0x8C2D), (0xCCB8, 0x8C08), (0xCCB9, 0x5766), (0xCCBA, 0x6BEF), (0xCCBB, 0x8892), (0xCCBC, 0x78B3),
     (0xCCBD, 0x63A2), (0xCCBE, 0x53F9), (0xCCBF, 0x70AD), (0xCCC0, 0x6C64), (0xCCC1, 0x5858), (0xCCC2, 0x642A),
     (0xCCC3, 0x5802), (0xCCC4, 0x68E0), (0xCCC5, 0x819B), (0xCCC6, 0x5510), (0xCCC7, 0x7CD6), (0xCCC8, 0x5018),
     (0xCCC9, 0x8EBA), (0xCCCA, 0x6DCC), (0xCCCB, 0x8D9F), (0xCCCC, 0x70EB), (0xCCCD, 0x638F), (0xCCCE, 0x6D9B),
     (0xCCCF, 0x6ED4), (0xCCD0, 0x7EE6), (0xCCD1, 0x8404), (0xCCD2, 0x6843), (0xCCD3, 0x9003), (0xCCD4, 0x6DD8),
     (0xCCD5, 0x9676), (0xCCD6, 0x8BA8), (0xCCD7, 0x5957), (0xCCD8, 0x7279), (0xCCD9, 0x85E4), (0xCCDA, 0x817E),
     (0xCCDB, 0x75BC), (0xCCDC, 0x8A8A), (0xCCDD, 0x68AF), (0xCCDE, 0x5254), (0xCCDF, 0x8E22), (0xCCE0, 0x9511),
     (0xCCE1, 0x63D0), (0xCCE2, 0x9898), (0xCCE3, 0x8E44), (0xCCE4, 0x557C), (0xCCE5, 0x4F53), (0xCCE6, 0x66FF),
     (0xCCE7, 0x568F), (0xCCE8, 0x60D5), (0xCCE9, 0x6D95), (0xCCEA, 0x5243), (0xCCEB, 0x5C49), (0xCCEC, 0x5929),
     (0xCCED, 0x6DFB), (0xCCEE, 0x586B), (0xCCEF, 0x7530), (0xCCF0, 0x751C), (0xCCF1, 0x606C), (0xCCF2, 0x8214),
     (0xCCF3, 0x8146), (0xCCF4, 0x6311), (0xCCF5, 0x6761), (0xCCF6, 0x8FE2), (0xCCF7, 0x773A), (0xCCF8, 0x8DF3),
     (0xCCF9, 0x8D34), (0xCCFA, 0x94C1), (0xCCFB, 0x5E16), (0xCCFC, 0x5385), (0xCCFD, 0x542C), (0xCCFE, 0x70C3),
     (0xCD40, 0x866D), (0xCD41, 0x866F), (0xCD42, 0x8670), (0xCD43, 0x8672), (0xCD44, 0x8673), (0xCD45, 0x8674),
     (0xCD46, 0x8675), (0xCD47, 0x8676), (0xCD48, 0x8677), (0xCD49, 0x8678), (0xCD4A, 0x8683), (0xCD4B, 0x8684),
     (0xCD4C, 0x8685), (0xCD4D, 0x8686), (0xCD4E, 0x8687), (0xCD4F, 0x8688), (0xCD50, 0x8689), (0xCD51, 0x868E),
     (0xCD52, 0x868F), (0xCD53, 0x8690), (0xCD54, 0x8691), (0xCD55, 0x8692), (0xCD56, 0x8694), (0xCD57, 0x8696),
     (0xCD58, 0x8697), (0xCD59, 0x8698), (0xCD5A, 0x8699), (0xCD5B, 0x869A), (0xCD5C, 0x869B), (0xCD5D, 0x869E),
     (0xCD5E, 0x869F), (0xCD5F, 0x86A0), (0xCD60, 0x86A1), (0xCD61, 0x86A2), (0xCD62, 0x86A5), (0xCD63, 0x86A6),
     (0xCD64, 0x86AB), (0xCD65, 0x86AD), (0xCD66, 0x86AE), (0xCD67, 0x86B2), (0xCD68, 0x86B3), (0xCD69, 0x86B7),
     (0xCD6A, 0x86B8), (0xCD6B, 0x86B9), (0xCD6C, 0x86BB), (0xCD6D, 0x86BC), (0xCD6E, 0x86BD), (0xCD6F, 0x86BE),
     (0xCD70, 0x86BF), (0xCD71, 0x86C1), (0xCD72, 0x86C2), (0xCD73, 0x86C3), (0xCD74, 0x86C5), (0xCD75, 0x86C8),
     (0xCD76, 0x86CC), (0xCD77, 0x86CD), (0xCD78, 0x86D2), (0xCD79, 0x86D3), (0xCD7A, 0x86D5), (0xCD7B, 0x86D6)]"

lemma ucs2_gbk_rows_089_climb: "climb 0xcca4 ucs2_gbk_rows_089 = Some 0xcd7b"
  unfolding ucs2_gbk_rows_089_def by (intro climb_num climb_end; simp only: numeral_less_iff less_num_simps le_num_simps)

definition ucs2_gbk_rows_090 :: "code_map list" where
  "ucs2_gbk_rows_090 = [
     (0xCD7C, 0x86D7), (0xCD7D, 0x86DA), (0xCD7E, 0x86DC), (0xCD80, 0x86DD), (0xCD81, 0x86E0), (0xCD82, 0x86E1),
     (0xCD83, 0x86E2), (0xCD84, 0x86E3), (0xCD85, 0x86E5), (0xCD86, 0x86E6), (0xCD87, 0x86E7), (0xCD88, 0x86E8),
     (0xCD89, 0x86EA), (0xCD8A, 0x86EB), (0xCD8B, 0x86EC), (0xCD8C, 0x86EF), (0xCD8D, 0x86F5), (0xCD8E, 0x86F6),
     (0xCD8F, 0x86F7), (0xCD90, 0x86FA), (0xCD91, 0x86FB), (0xCD92, 0x86FC), (0xCD93, 0x86FD), (0xCD94, 0x86FF),
     (0xCD95, 0x8701), (0xCD96, 0x8704), (0xCD97, 0x8705), (0xCD98, 0x8706), (0xCD99, 0x870B), (0xCD9A, 0x870C),
     (0xCD9B, 0x870E), (0xCD9C, 0x870F), (0xCD9D, 0x8710), (0xCD9E, 0x8711), (0xCD9F, 0x8714), (0xCDA0, 0x8716),
     (0xCDA1, 0x6C40), (0xCDA2, 0x5EF7), (0xCDA3, 0x505C), (0xCDA4, 0x4EAD), (0xCDA5, 0x5EAD), (0xCDA6, 0x633A),
     (0xCDA7, 0x8247), (0xCDA8, 0x901A), (0xCDA9, 0x6850), (0xCDAA, 0x916E), (0xCDAB, 0x77B3), (0xCDAC, 0x540C),
     (0xCDAD, 0x94DC), (0xCDAE, 0x5F64), (0xCDAF, 0x7AE5), (0xCDB0, 0x6876), (0xCDB1, 0x6345), (0xCDB2, 0x7B52),
     (0xCDB3, 0x7EDF), (0xCDB4, 0x75DB), (0xCDB5, 0x5077), (0xCDB6, 0x6295), (0xCDB7, 0x5934), (0xCDB8, 0x900F),
     (0xCDB9, 0x51F8), (0xCDBA, 0x79C3), (0xCDBB, 0x7A81), (0xCDBC, 0x56FE), (0xCDBD, 0x5F92), (0xCDBE, 0x9014),
     (0xCDBF, 0x6D82), (0xCDC0, 0x5C60), (0xCDC1, 0x571F), (0xCDC2, 0x5410), (0xCDC3, 0x5154), (0xCDC4, 0x6E4D),
     (0xCDC5, 0x56E2), (0xCDC6, 0x63A8), (0xCDC7, 0x9893), (0xCDC8, 0x817F), (0xCDC9, 0x8715), (0xCDCA, 0x892A),
     (0xCDCB, 0x9000), (0xCDCC, 0x541E), (0xCDCD, 0x5C6F), (0xCDCE, 0x81C0), (0xCDCF, 0x62D6), (0xCDD0, 0x6258),
     (0xCDD1, 0x8131), (0xCDD2, 0x9E35), (0xCDD3, 0x9640), (0xCDD4, 0x9A6E), (0xCDD5, 0x9A7C), (0xCDD6, 0x692D),
     (0xCDD7, 0x59A5), (0xCDD8, 0x62D3), (0xCDD9, 0x553E), (0xCDDA, 0x6316), (0xCDDB, 0x54C7), (0xCDDC, 0x86D9),
     (0xCDDD, 0x6D3C), (0xCDDE, 0x5A03), (0xCDDF, 0x74E6), (0xCDE0, 0x889C), (0xCDE1, 0x6B6A), (0xCDE2, 0x5916),
     (0xCDE3, 0x8C4C), (0xCDE4, 0x5F2F), (0xCDE5, 0x6E7E), (0xCDE6, 0x73A9), (0xCDE7, 0x987D), (0xCDE8, 0x4E38),
     (0xCDE9, 0x70F7), (0xCDEA, 0x5B8C), (0xCDEB, 0x7897), (0xCDEC, 0x633D), (0xCDED, 0x665A), (0xCDEE, 0x7696),
     (0xCDEF, 0x60CB), (0xCDF0, 0x5B9B), (0xCDF1, 0x5A49), (0xCDF2, 0x4E07), (0xCDF3, 0x8155), (0xCDF4, 0x6C6A),
     (0xCDF5, 0x738B), (0xCDF6, 0x4EA1), (0xCDF7, 0x6789), (0xCDF8, 0x7F51), (0xCDF9, 0x5F80), (0xCDFA, 0x65FA),
     (0xCDFB, 0x671B), (0xCDFC, 0x5FD8), (0xCDFD, 0x5984), (0xCDFE, 0x5A01), (0xCE40, 0x8719), (0xCE41, 0x871B),
     (0xCE42, 0x871D), (0xCE43, 0x871F), (0xCE44, 0x8720), (0xCE45, 0x8724), (0xCE46, 0x8726), (0xCE47, 0x8727),
     (0xCE48, 0x8728), (0xCE49, 0x872A), (0xCE4A, 0x872B), (0xCE4B, 0x872C), (0xCE4C, 0x872D), (0xCE4D, 0x872F),
     (0xCE4E, 0x8730), (0xCE4F, 0x8732), (0xCE50, 0x8733), (0xCE51, 0x8735), (0xCE52, 0x8736), (0xCE53, 0x8738)]"

lemma ucs2_gbk_rows_090_climb: "climb 0xcd7b ucs2_gbk_rows_090 = Some 0xce53"
  unfolding ucs2_gbk_rows_090_def by (intro climb_num climb_end; simp only: numeral_less_iff less_num_simps le_num_simps)

definition ucs2_gbk_rows_091 :: "code_map list" where
  "ucs2_gbk_rows_091 = [
     (0xCE54, 0x8739), (0xCE55, 0x873A), (0xCE56, 0x873C), (0xCE57, 0x873D), (0xCE58, 0x8740), (0xCE59, 0x8741),
     (0xCE5A, 0x8742), (0xCE5B, 0x8743), (0xCE5C, 0x8744), (0xCE5D, 0x8745), (0xCE5E, 0x8746), (0xCE5F, 0x874A),
     (0xCE60, 0x874B), (0xCE61, 0x874D), (0xCE62, 0x874F), (0xCE63, 0x8750), (0xCE64, 0x8751), (0xCE65, 0x8752),
     (0xCE66, 0x8754), (0xCE67, 0x8755), (0xCE68, 0x8756), (0xCE69, 0x8758), (0xCE6A, 0x875A), (0xCE6B, 0x875B),
     (0xCE6C, 0x875C), (0xCE6D, 0x875D), (0xCE6E, 0x875E), (0xCE6F, 0x875F), (0xCE70, 0x8761), (0xCE71, 0x8762),
     (0xCE72, 0x8766), (0xCE73, 0x8767), (0xCE74, 0x8768), (0xCE75, 0x8769), (0xCE76, 0x876A), (0xCE77, 0x876B),
     (0xCE78, 0x876C), (0xCE79, 0x876D), (0xCE7A, 0x876F), (0xCE7B, 0x8771), (0xCE7C, 0x8772), (0xCE7D, 0x8773),
     (0xCE7E, 0x8775), (0xCE80, 0x8777), (0xCE81, 0x8778), (0xCE82, 0x8779), (0xCE83, 0x877A), (0xCE84, 0x877F),
     (0xCE85, 0x8780), (0xCE86, 0x8781), (0xCE87, 0x8784), (0xCE88, 0x8786), (0xCE89, 0x8787), (0xCE8A, 0x8789),
     (0xCE8B, 0x878A), (0xCE8C, 0x878C), (0xCE8D, 0x878E), (0xCE8E, 0x878F), (0xCE8F, 0x8790), (0xCE90, 0x8791),
     (0xCE91, 0x8792), (0xCE92, 0x8794), (0xCE93, 0x8795), (0xCE94, 0x8796), (0xCE95, 0x8798), (0xCE96, 0x8799),
     (0xCE97, 0x879A), (0xCE98, 0x879B), (0xCE99, 0x879C), (0xCE9A, 0x879D), (0xCE9B, 0x879E), (0xCE9C, 0x87A0),
     (0xCE9D, 0x87A1), (0xCE9E, 0x87A2), (0xCE9F, 0x87A3), (0xCEA0, 0x87A4), (0xCEA1, 0x5DCD), (0xCEA2, 0x5FAE),
     (0xCEA3, 0x5371), (0xCEA4, 0x97E6), (0xCEA5, 0x8FDD), (0xCEA6, 0x6845), (0xCEA7, 0x56F4), (0xCEA8, 0x552F),
     (0xCEA9, 0x60DF), (0xCEAA, 0x4E3A), (0xCEAB, 0x6F4D), (0xCEAC, 0x7EF4), (0xCEAD, 0x82C7), (0xCEAE, 0x840E),
     (0xCEAF, 0x59D4), (0xCEB0, 0x4F1F), (0xCEB1, 0x4F2A), (0xCEB2, 0x5C3E), (0xCEB3, 0x7EAC), (0xCEB4, 0x672A),
     (0xCEB5, 0x851A), (0xCEB6, 0x5473), (0xCEB7, 0x754F), (0xCEB8, 0x80C3), (0xCEB9, 0x5582), (0xCEBA, 0x9B4F),
     (0xCEBB, 0x4F4D), (0xCEBC, 0x6E2D), (0xCEBD, 0x8C13), (0xCEBE, 0x5C09), (0xCEBF, 0x6170), (0xCEC0, 0x536B),
     (0xCEC1, 0x761F), (0xCEC2, 0x6E29), (0xCEC3, 0x868A), (0xCEC4, 0x6587), (0xCEC5, 0x95FB), (0xCEC6, 0x7EB9),
     (0xCEC7, 0x543B), (0xCEC8, 0x7A33), (0xCEC9, 0x7D0A), (0xCECA, 0x95EE), (0xCECB, 0x55E1), (0xCECC, 0x7FC1),
     (0xCECD, 0x74EE), (0xCECE, 0x631D), (0xCECF, 0x8717), (0xCED0, 0x6DA1), (0xCED1, 0x7A9D), (0xCED2, 0x6211),
     (0xCED3, 0x65A1), (0xCED4, 0x5367), (0xCED5, 0x63E1), (0xCED6, 0x6C83), (0xCED7, 0x5DEB), (0xCED8, 0x545C),
     (0xCED9, 0x94A8), (0xCEDA, 0x4E4C), (0xCEDB, 0x6C61), (0xCEDC, 0x8BEC), (0xCEDD, 0x5C4B), (0xCEDE, 0x65E0),
     (0xCEDF, 0x829C), (0xCEE0, 0x68A7), (0xCEE1, 0x543E), (0xCEE2, 0x5434), (0xCEE3, 0x6BCB), (0xCEE4, 0x6B66),
     (0xCEE5, 0x4E94), (0xCEE6, 0x6342), (0xCEE7, 0x5348), (0xCEE8, 0x821E), (0xCEE9, 0x4F0D), (0xCEEA, 0x4FAE)]"

lemma ucs2_gbk_rows_091_climb: "climb 0xce53 ucs2_gbk_rows_091 = Some 0xceea"
  unfolding ucs2_gbk_rows_091_def by (intro climb_num climb_end; simp only: numeral_less_iff less_num_simps le_num_simps)

definition ucs2_gbk_rows_092 :: "code_map list" where
  "ucs2_gbk_rows_092 = [
     (0xCEEB, 0x575E), (0xCEEC, 0x620A), (0xCEED, 0x96FE), (0xCEEE, 0x6664), (0xCEEF, 0x7269), (0xCEF0, 0x52FF),
     (0xCEF1, 0x52A1), (0xCEF2, 0x609F), (0xCEF3, 0x8BEF), (0xCEF4, 0x6614), (0xCEF5, 0x7199), (0xCEF6, 0x6790),
     (0xCEF7, 0x897F), (0xCEF8, 0x7852), (0xCEF9, 0x77FD), (0xCEFA, 0x6670), (0xCEFB, 0x563B), (0xCEFC, 0x5438),
     (0xCEFD, 0x9521), (0xCEFE, 0x727A), (0xCF40, 0x87A5), (0xCF41, 0x87A6), (0xCF42, 0x87A7), (0xCF43, 0x87A9),
     (0xCF44, 0x87AA), (0xCF45, 0x87AE), (0xCF46, 0x87B0), (0xCF47, 0x87B1), (0xCF48, 0x87B2), (0xCF49, 0x87B4),
     (0xCF4A, 0x87B6), (0xCF4B, 0x87B7), (0xCF4C, 0x87B8), (0xCF4D, 0x87B9), (0xCF4E, 0x87BB), (0xCF4F, 0x87BC),
     (0xCF50, 0x87BE), (0xCF51, 0x87BF), (0xCF52, 0x87C1), (0xCF53, 0x87C2), (0xCF54, 0x87C3), (0xCF55, 0x87C4),
     (0xCF56, 0x87C5), (0xCF57, 0x87C7), (0xCF58, 0x87C8), (0xCF59, 0x87C9), (0xCF5A, 0x87CC), (0xCF5B, 0x87CD),
     (0xCF5C, 0x87CE), (0xCF5D, 0x87CF), (0xCF5E, 0x87D0), (0xCF5F, 0x87D4), (0xCF60, 0x87D5), (0xCF61, 0x87D6),
     (0xCF62, 0x87D7), (0xCF63, 0x87D8), (0xCF64, 0x87D9), (0xCF65, 0x87DA), (0xCF66, 0x87DC), (0xCF67, 0x87DD),
     (0xCF68, 0x87DE), (0xCF69, 0x87DF), (0xCF6A, 0x87E1), (0xCF6B, 0x87E2), (0xCF6C, 0x87E3), (0xCF6D, 0x87E4),
     (0xCF6E, 0x87E6), (0xCF6F, 0x87E7), (0xCF70, 0x87E8), (0xCF71, 0x87E9), (0xCF72, 0x87EB), (0xCF73, 0x87EC),
     (0xCF74, 0x87ED), (0xCF75, 0x87EF), (0xCF76, 0x87F0), (0xCF77, 0x87F1), (0xCF78, 0x87F2), (0xCF79, 0x87F3),
     (0xCF7A, 0x87F4), (0xCF7B, 0x87F5), (0xCF7C, 0x87F6), (0xCF7D, 0x87F7), (0xCF7E, 0x87F8), (0xCF80, 0x87FA),
     (0xCF81, 0x87FB), (0xCF82, 0x87FC), (0xCF83, 0x87FD), (0xCF84, 0x87FF), (0xCF85, 0x8800), (0xCF86, 0x8801),
     (0xCF87, 0x8802), (0xCF88, 0x8804), (0xCF89, 0x8805), (0xCF8A, 0x8806), (0xCF8B, 0x8807), (0xCF8C, 0x8808),
     (0xCF8D, 0x8809), (0xCF8E, 0x880B), (0xCF8F, 0x880C), (0xCF90, 0x880D), (0xCF91, 0x880E), (0xCF92, 0x880F),
     (0xCF93, 0x8810), (0xCF94, 0x8811), (0xCF95, 0x8812), (0xCF96, 0x8814), (0xCF97, 0x8817), (0xCF98, 0x8818),
     (0xCF99, 0x8819), (0xCF9A, 0x881A), (0xCF9B, 0x881C), (0xCF9C, 0x881D), (0xCF9D, 0x881E), (0xCF9E, 0x881F),
     (0xCF9F, 0x8820), (0xCFA0, 0x8823), (0xCFA1, 0x7A00), (0xCFA2, 0x606F), (0xCFA3, 0x5E0C), (0xCFA4, 0x6089),
     (0xCFA5, 0x819D), (0xCFA6, 0x5915), (0xCFA7, 0x60DC), (0xCFA8, 0x7184), (0xCFA9, 0x70EF), (0xCFAA, 0x6EAA),
     (0xCFAB, 0x6C50), (0xCFAC, 0x7280), (0xCFAD, 0x6A84), (0xCFAE, 0x88AD), (0xCFAF, 0x5E2D), (0xCFB0, 0x4E60),
     (0xCFB1, 0x5AB3), (0xCFB2, 0x559C), (0xCFB3, 0x94E3), (0xCFB4, 0x6D17), (0xCFB5, 0x7CFB), (0xCFB6, 0x9699),
     (0xCFB7, 0x620F), (0xCFB8, 0x7EC6), (0xCFB9, 0x778E), (0xCFBA, 0x867E), (0xCFBB, 0x5323), (0xCFBC, 0x971E),
     (0xCFBD, 0x8F96), (0xCFBE, 0x6687), (0xCFBF, 0x5CE1), (0xCFC0, 0x4FA0), (0xCFC1, 0x72ED), (0xCFC2, 0x4E0B)]"

lemma ucs2_gbk_rows_092_climb: "climb 0xceea ucs2_gbk_rows_092 = Some 0xcfc2"
  unfolding ucs2_gbk_rows_092_def by (intro climb_num climb_end; simp only: numeral_less_iff less_num_simps le_num_simps)

definition ucs2_gbk_rows_093 :: "code_map list" where
  "ucs2_gbk_rows_093 = [
     (0xCFC3, 0x53A6), (0xCFC4, 0x590F), (0xCFC5, 0x5413), (0xCFC6, 0x6380), (0xCFC7, 0x9528), (0xCFC8, 0x5148),
     (0xCFC9, 0x4ED9), (0xCFCA, 0x9C9C), (0xCFCB, 0x7EA4), (0xCFCC, 0x54B8), (0xCFCD, 0x8D24), (0xCFCE, 0x8854),
     (0xCFCF, 0x8237), (0xCFD0, 0x95F2), (0xCFD1, 0x6D8E), (0xCFD2, 0x5F26), (0xCFD3, 0x5ACC), (0xCFD4, 0x663E),
     (0xCFD5, 0x9669), (0xCFD6, 0x73B0), (0xCFD7, 0x732E), (0xCFD8, 0x53BF), (0xCFD9, 0x817A), (0xCFDA, 0x9985),
     (0xCFDB, 0x7FA1), (0xCFDC, 0x5BAA), (0xCFDD, 0x9677), (0xCFDE, 0x9650), (0xCFDF, 0x7EBF), (0xCFE0, 0x76F8),
     (0xCFE1, 0x53A2), (0xCFE2, 0x9576), (0xCFE3, 0x9999), (0xCFE4, 0x7BB1), (0xCFE5, 0x8944), (0xCFE6, 0x6E58),
     (0xCFE7, 0x4E61), (0xCFE8, 0x7FD4), (0xCFE9, 0x7965), (0xCFEA, 0x8BE6), (0xCFEB, 0x60F3), (0xCFEC, 0x54CD),
     (0xCFED, 0x4EAB), (0xCFEE, 0x9879), (0xCFEF, 0x5DF7), (0xCFF0, 0x6A61), (0xCFF1, 0x50CF), (0xCFF2, 0x5411),
     (0xCFF3, 0x8C61), (0xCFF4, 0x8427), (0xCFF5, 0x785D), (0xCFF6, 0x9704), (0xCFF7, 0x524A), (0xCFF8, 0x54EE),
     (0xCFF9, 0x56A3), (0xCFFA, 0x9500), (0xCFFB, 0x6D88), (0xCFFC, 0x5BB5), (0xCFFD, 0x6DC6), (0xCFFE, 0x6653),
     (0xD040, 0x8824), (0xD041, 0x8825), (0xD042, 0x8826), (0xD043, 0x8827), (0xD044, 0x8828), (0xD045, 0x8829),
     (0xD046, 0x882A), (0xD047, 0x882B), (0xD048, 0x882C), (0xD049, 0x882D), (0xD04A, 0x882E), (0xD04B, 0x882F),
     (0xD04C, 0x8830), (0xD04D, 0x8831), (0xD04E, 0x8833), (0xD04F, 0x8834), (0xD050, 0x8835), (0xD051, 0x8836),
     (0xD052, 0x8837), (0xD053, 0x8838), (0xD054, 0x883A), (0xD055, 0x883B), (0xD056, 0x883D), (0xD057, 0x883E),
     (0xD058, 0x883F), (0xD059, 0x8841), (0xD05A, 0x8842), (0xD05B, 0x8843), (0xD05C, 0x8846), (0xD05D, 0x8847),
     (0xD05E, 0x8848), (0xD05F, 0x8849), (0xD060, 0x884A), (0xD061, 0x884B), (0xD062, 0x884E), (0xD063, 0x884F),
     (0xD064, 0x8850), (0xD065, 0x8851), (0xD066, 0x8852), (0xD067, 0x8853), (0xD068, 0x8855), (0xD069, 0x8856),
     (0xD06A, 0x8858), (0xD06B, 0x885A), (0xD06C, 0x885B), (0xD06D, 0x885C), (0xD06E, 0x885D), (0xD06F, 0x885E),
     (0xD070, 0x885F), (0xD071, 0x8860), (0xD072, 0x8866), (0xD073, 0x8867), (0xD074, 0x886A), (0xD075, 0x886D),
     (0xD076, 0x886F), (0xD077, 0x8871), (0xD078, 0x8873), (0xD079, 0x8874), (0xD07A, 0x8875), (0xD07B, 0x8876),
     (0xD07C, 0x8878), (0xD07D, 0x8879), (0xD07E, 0x887A), (0xD080, 0x887B), (0xD081, 0x887C), (0xD082, 0x8880),
     (0xD083, 0x8883), (0xD084, 0x8886), (0xD085, 0x8887), (0xD086, 0x8889), (0xD087, 0x888A), (0xD088, 0x888C),
     (0xD089, 0x888E), (0xD08A, 0x888F), (0xD08B, 0x8890), (0xD08C, 0x8891), (0xD08D, 0x8893), (0xD08E, 0x8894),
     (0xD08F, 0x8895), (0xD090, 0x8897), (0xD091, 0x8898), (0xD092, 0x8899), (0xD093, 0x889A), (0xD094, 0x889B),
     (0xD095, 0x889D), (0xD096, 0x889E), (0xD097, 0x889F), (0xD098, 0x88A0), (0xD099, 0x88A1), (0xD09A, 0x88A3)]"

lemma ucs2_gbk_rows_093_climb: "climb 0xcfc2 ucs2_gbk_rows_093 = Some 0xd09a"
  unfolding ucs2_gbk_rows_093_def by (intro climb_num climb_end; simp only: numeral_less_iff less_num_simps le_num_simps)

definition ucs2_gbk_rows_094 :: "code_map list" where
  "ucs2_gbk_rows_094 = [
     (0xD09B, 0x88A5), (0xD09C, 0x88A6), (0xD09D, 0x88A7), (0xD09E, 0x88A8), (0xD09F, 0x88A9), (0xD0A0, 0x88AA),
     (0xD0A1, 0x5C0F), (0xD0A2, 0x5B5D), (0xD0A3, 0x6821), (0xD0A4, 0x8096), (0xD0A5, 0x5578), (0xD0A6, 0x7B11),
     (0xD0A7, 0x6548), (0xD0A8, 0x6954), (0xD0A9, 0x4E9B), (0xD0AA, 0x6B47), (0xD0AB, 0x874E), (0xD0AC, 0x978B),
     (0xD0AD, 0x534F), (0xD0AE, 0x631F), (0xD0AF, 0x643A), (0xD0B0, 0x90AA), (0xD0B1, 0x659C), (0xD0B2, 0x80C1),
     (0xD0B3, 0x8C10), (0xD0B4, 0x5199), (0xD0B5, 0x68B0), (0xD0B6, 0x5378), (0xD0B7, 0x87F9), (0xD0B8, 0x61C8),
     (0xD0B9, 0x6CC4), (0xD0BA, 0x6CFB), (0xD0BB, 0x8C22), (0xD0BC, 0x5C51), (0xD0BD, 0x85AA), (0xD0BE, 0x82AF),
     (0xD0BF, 0x950C), (0xD0C0, 0x6B23), (0xD0C1, 0x8F9B), (0xD0C2, 0x65B0), (0xD0C3, 0x5FFB), (0xD0C4, 0x5FC3),
     (0xD0C5, 0x4FE1), (0xD0C6, 0x8845), (0xD0C7, 0x661F), (0xD0C8, 0x8165), (0xD0C9, 0x7329), (0xD0CA, 0x60FA),
     (0xD0CB, 0x5174), (0xD0CC, 0x5211), (0xD0CD, 0x578B), (0xD0CE, 0x5F62), (0xD0CF, 0x90A2), (0xD0D0, 0x884C),
     (0xD0D1, 0x9192), (0xD0D2, 0x5E78), (0xD0D3, 0x674F), (0xD0D4, 0x6027), (0xD0D5, 0x59D3), (0xD0D6, 0x5144),
     (0xD0D7, 0x51F6), (0xD0D8, 0x80F8), (0xD0D9, 0x5308), (0xD0DA, 0x6C79), (0xD0DB, 0x96C4), (0xD0DC, 0x718A),
     (0xD0DD, 0x4F11), (0xD0DE, 0x4FEE), (0xD0DF, 0x7F9E), (0xD0E0, 0x673D), (0xD0E1, 0x55C5), (0xD0E2, 0x9508),
     (0xD0E3, 0x79C0), (0xD0E4, 0x8896), (0xD0E5, 0x7EE3), (0xD0E6, 0x589F), (0xD0E7, 0x620C), (0xD0E8, 0x9700),
     (0xD0E9, 0x865A), (0xD0EA, 0x5618), (0xD0EB, 0x987B), (0xD0EC, 0x5F90), (0xD0ED, 0x8BB8), (0xD0EE, 0x84C4),
     (0xD0EF, 0x9157), (0xD0F0, 0x53D9), (0xD0F1, 0x65ED), (0xD0F2, 0x5E8F), (0xD0F3, 0x755C), (0xD0F4, 0x6064),
     (0xD0F5, 0x7D6E), (0xD0F6, 0x5A7F), (0xD0F7, 0x7EEA), (0xD0F8, 0x7EED), (0xD0F9, 0x8F69), (0xD0FA, 0x55A7),
     (0xD0FB, 0x5BA3), (0xD0FC, 0x60AC), (0xD0FD, 0x65CB), (0xD0FE, 0x7384), (0xD140, 0x88AC), (0xD141, 0x88AE),
     (0xD142, 0x88AF), (0xD143, 0x88B0), (0xD144, 0x88B2), (0xD145, 0x88B3), (0xD146, 0x88B4), (0xD147, 0x88B5),
     (0xD148, 0x88B6), (0xD149, 0x88B8), (0xD14A, 0x88B9), (0xD14B, 0x88BA), (0xD14C, 0x88BB), (0xD14D, 0x88BD),
     (0xD14E, 0x88BE), (0xD14F, 0x88BF), (0xD150, 0x88C0), (0xD151, 0x88C3), (0xD152, 0x88C4), (0xD153, 0x88C7),
     (0xD154, 0x88C8), (0xD155, 0x88CA), (0xD156, 0x88CB), (0xD157, 0x88CC), (0xD158, 0x88CD), (0xD159, 0x88CF),
     (0xD15A, 0x88D0), (0xD15B, 0x88D1), (0xD15C, 0x88D3), (0xD15D, 0x88D6), (0xD15E, 0x88D7), (0xD15F, 0x88DA),
     (0xD160, 0x88DB), (0xD161, 0x88DC), (0xD162, 0x88DD), (0xD163, 0x88DE), (0xD164, 0x88E0), (0xD165, 0x88E1),
     (0xD166, 0x88E6), (0xD167, 0x88E7), (0xD168, 0x88E9), (0xD169, 0x88EA), (0xD16A, 0x88EB), (0xD16B, 0x88EC),
     (0xD16C, 0x88ED), (0xD16D, 0x88EE), (0xD16E, 0x88EF), (0xD16F, 0x88F2), (0xD170, 0x88F5), (0xD171, 0x88F6)]"

lemma ucs2_gbk_rows_094_climb: "climb 0xd09a ucs2_gbk_rows_094 = Some 0xd171"
  unfolding ucs2_gbk_rows_094_def by (intro climb_num climb_end; simp only: numeral_less_iff less_num_simps le_num_simps)

definition ucs2_gbk_rows_095 :: "code_map list" where
  "ucs2_gbk_rows_095 = [
     (0xD172, 0x88F7), (0xD173, 0x88FA), (0xD174, 0x88FB), (0xD175, 0x88FD), (0xD176, 0x88FF), (0xD177, 0x8900),
     (0xD178, 0x8901), (0xD179, 0x8903), (0xD17A, 0x8904), (0xD17B, 0x8905), (0xD17C, 0x8906), (0xD17D, 0x8907),
     (0xD17E, 0x8908), (0xD180, 0x8909), (0xD181, 0x890B), (0xD182, 0x890C), (0xD183, 0x890D), (0xD184, 0x890E),
     (0xD185, 0x890F), (0xD186, 0x8911), (0xD187, 0x8914), (0xD188, 0x8915), (0xD189, 0x8916), (0xD18A, 0x8917),
     (0xD18B, 0x8918), (0xD18C, 0x891C), (0xD18D, 0x891D), (0xD18E, 0x891E), (0xD18F, 0x891F), (0xD190, 0x8920),
     (0xD191, 0x8922), (0xD192, 0x8923), (0xD193, 0x8924), (0xD194, 0x8926), (0xD195, 0x8927), (0xD196, 0x8928),
     (0xD197, 0x8929), (0xD198, 0x892C), (0xD199, 0x892D), (0xD19A, 0x892E), (0xD19B, 0x892F), (0xD19C, 0x8931),
     (0xD19D, 0x8932), (0xD19E, 0x8933), (0xD19F, 0x8935), (0xD1A0, 0x8937), (0xD1A1, 0x9009), (0xD1A2, 0x7663),
     (0xD1A3, 0x7729), (0xD1A4, 0x7EDA), (0xD1A5, 0x9774), (0xD1A6, 0x859B), (0xD1A7, 0x5B66), (0xD1A8, 0x7A74),
     (0xD1A9, 0x96EA), (0xD1AA, 0x8840), (0xD1AB, 0x52CB), (0xD1AC, 0x718F), (0xD1AD, 0x5FAA), (0xD1AE, 0x65EC),
     (0xD1AF, 0x8BE2), (0xD1B0, 0x5BFB), (0xD1B1, 0x9A6F), (0xD1B2, 0x5DE1), (0xD1B3, 0x6B89), (0xD1B4, 0x6C5B),
     (0xD1B5, 0x8BAD), (0xD1B6, 0x8BAF), (0xD1B7, 0x900A), (0xD1B8, 0x8FC5), (0xD1B9, 0x538B), (0xD1BA, 0x62BC),
     (0xD1BB, 0x9E26), (0xD1BC, 0x9E2D), (0xD1BD, 0x5440), (0xD1BE, 0x4E2B), (0xD1BF, 0x82BD), (0xD1C0, 0x7259),
     (0xD1C1, 0x869C), (0xD1C2, 0x5D16), (0xD1C3, 0x8859), (0xD1C4, 0x6DAF), (0xD1C5, 0x96C5), (0xD1C6, 0x54D1),
     (0xD1C7, 0x4E9A), (0xD1C8, 0x8BB6), (0xD1C9, 0x7109), (0xD1CA, 0x54BD), (0xD1CB, 0x9609), (0xD1CC, 0x70DF),
     (0xD1CD, 0x6DF9), (0xD1CE, 0x76D0), (0xD1CF, 0x4E25), (0xD1D0, 0x7814), (0xD1D1, 0x8712), (0xD1D2, 0x5CA9),
     (0xD1D3, 0x5EF6), (0xD1D4, 0x8A00), (0xD1D5, 0x989C), (0xD1D6, 0x960E), (0xD1D7, 0x708E), (0xD1D8, 0x6CBF),
     (0xD1D9, 0x5944), (0xD1DA, 0x63A9), (0xD1DB, 0x773C), (0xD1DC, 0x884D), (0xD1DD, 0x6F14), (0xD1DE, 0x8273),
     (0xD1DF, 0x5830), (0xD1E0, 0x71D5), (0xD1E1, 0x538C), (0xD1E2, 0x781A), (0xD1E3, 0x96C1), (0xD1E4, 0x5501),
     (0xD1E5, 0x5F66), (0xD1E6, 0x7130), (0xD1E7, 0x5BB4), (0xD1E8, 0x8C1A), (0xD1E9, 0x9A8C), (0xD1EA, 0x6B83),
     (0xD1EB, 0x592E), (0xD1EC, 0x9E2F), (0xD1ED, 0x79E7), (0xD1EE, 0x6768), (0xD1EF, 0x626C), (0xD1F0, 0x4F6F),
     (0xD1F1, 0x75A1), (0xD1F2, 0x7F8A), (0xD1F3, 0x6D0B), (0xD1F4, 0x9633), (0xD1F5, 0x6C27), (0xD1F6, 0x4EF0),
     (0xD1F7, 0x75D2), (0xD1F8, 0x517B), (0xD1F9, 0x6837), (0xD1FA, 0x6F3E), (0xD1FB, 0x9080), (0xD1FC, 0x8170),
     (0xD1FD, 0x5996), (0xD1FE, 0x7476), (0xD240, 0x8938), (0xD241, 0x8939), (0xD242, 0x893A), (0xD243, 0x893B),
     (0xD244, 0x893C), (0xD245, 0x893D), (0xD246, 0x893E), (0xD247, 0x893F), (0xD248, 0x8940), (0xD249, 0x8942)]"

lemma ucs2_gbk_rows_095_climb: "climb 0xd171 ucs2_gbk_rows_095 = Some 0xd249"
  unfolding ucs2_gbk_rows_095_def by (intro climb_num climb_end; simp only: numeral_less_iff less_num_simps le_num_simps)

definition ucs2_gbk_rows_096 :: "code_map list" where
  "ucs2_gbk_rows_096 = [
     (0xD24A, 0x8943), (0xD24B, 0x8945), (0xD24C, 0x8946), (0xD24D, 0x8947), (0xD24E, 0x8948), (0xD24F, 0x8949),
     (0xD250, 0x894A), (0xD251, 0x894B), (0xD252, 0x894C), (0xD253, 0x894D), (0xD254, 0x894E), (0xD255, 0x894F),
     (0xD256, 0x8950), (0xD257, 0x8951), (0xD258, 0x8952), (0xD259, 0x8953), (0xD25A, 0x8954), (0xD25B, 0x8955),
     (0xD25C, 0x8956), (0xD25D, 0x8957), (0xD25E, 0x8958), (0xD25F, 0x8959), (0xD260, 0x895A), (0xD261, 0x895B),
     (0xD262, 0x895C), (0xD263, 0x895D), (0xD264, 0x8960), (0xD265, 0x8961), (0xD266, 0x8962), (0xD267, 0x8963),
     (0xD268, 0x8964), (0xD269, 0x8965), (0xD26A, 0x8967), (0xD26B, 0x8968), (0xD26C, 0x8969), (0xD26D, 0x896A),
     (0xD26E, 0x896B), (0xD26F, 0x896C), (0xD270, 0x896D), (0xD271, 0x896E), (0xD272, 0x896F), (0xD273, 0x8970),
     (0xD274, 0x8971), (0xD275, 0x8972), (0xD276, 0x8973), (0xD277, 0x8974), (0xD278, 0x8975), (0xD279, 0x8976),
     (0xD27A, 0x8977), (0xD27B, 0x8978), (0xD27C, 0x8979), (0xD27D, 0x897A), (0xD27E, 0x897C), (0xD280, 0x897D),
     (0xD281, 0x897E), (0xD282, 0x8980), (0xD283, 0x8982), (0xD284, 0x8984), (0xD285, 0x8985), (0xD286, 0x8987),
     (0xD287, 0x8988), (0xD288, 0x8989), (0xD289, 0x898A), (0xD28A, 0x898B), (0xD28B, 0x898C), (0xD28C, 0x898D),
     (0xD28D, 0x898E), (0xD28E, 0x898F), (0xD28F, 0x8990), (0xD290, 0x8991), (0xD291, 0x8992), (0xD292, 0x8993),
     (0xD293, 0x8994), (0xD294, 0x8995), (0xD295, 0x8996), (0xD296, 0x8997), (0xD297, 0x8998), (0xD298, 0x8999),
     (0xD299, 0x899A), (0xD29A, 0x899B), (0xD29B, 0x899C), (0xD29C, 0x899D), (0xD29D, 0x899E), (0xD29E, 0x899F),
     (0xD29F, 0x89A0), (0xD2A0, 0x89A1), (0xD2A1, 0x6447), (0xD2A2, 0x5C27), (0xD2A3, 0x9065), (0xD2A4, 0x7A91),
     (0xD2A5, 0x8C23), (0xD2A6, 0x59DA), (0xD2A7, 0x54AC), (0xD2A8, 0x8200), (0xD2A9, 0x836F), (0xD2AA, 0x8981),
     (0xD2AB, 0x8000), (0xD2AC, 0x6930), (0xD2AD, 0x564E), (0xD2AE, 0x8036), (0xD2AF, 0x7237), (0xD2B0, 0x91CE),
     (0xD2B1, 0x51B6), (0xD2B2, 0x4E5F), (0xD2B3, 0x9875), (0xD2B4, 0x6396), (0xD2B5, 0x4E1A), (0xD2B6, 0x53F6),
     (0xD2B7, 0x66F3), (0xD2B8, 0x814B), (0xD2B9, 0x591C), (0xD2BA, 0x6DB2), (0xD2BB, 0x4E00), (0xD2BC, 0x58F9),
     (0xD2BD, 0x533B), (0xD2BE, 0x63D6), (0xD2BF, 0x94F1), (0xD2C0, 0x4F9D), (0xD2C1, 0x4F0A), (0xD2C2, 0x8863),
     (0xD2C3, 0x9890), (0xD2C4, 0x5937), (0xD2C5, 0x9057), (0xD2C6, 0x79FB), (0xD2C7, 0x4EEA), (0xD2C8, 0x80F0),
     (0xD2C9, 0x7591), (0xD2CA, 0x6C82), (0xD2CB, 0x5B9C), (0xD2CC, 0x59E8), (0xD2CD, 0x5F5D), (0xD2CE, 0x6905),
     (0xD2CF, 0x8681), (0xD2D0, 0x501A), (0xD2D1, 0x5DF2), (0xD2D2, 0x4E59), (0xD2D3, 0x77E3), (0xD2D4, 0x4EE5),
     (0xD2D5, 0x827A), (0xD2D6, 0x6291), (0xD2D7, 0x6613), (0xD2D8, 0x9091), (0xD2D9, 0x5C79), (0xD2DA, 0x4EBF),
     (0xD2DB, 0x5F79), (0xD2DC, 0x81C6), (0xD2DD, 0x9038), (0xD2DE, 0x8084), (0xD2DF, 0x75AB), (0xD2E0, 0x4EA6)]"

lemma ucs2_gbk_rows_096_climb: "climb 0xd249 ucs2_gbk_rows_096 = Some 0xd2e0"
  unfolding ucs2_gbk_rows_096_def by (intro climb_num climb_end; simp only: numeral_less_iff less_num_simps le_num_simps)

definition ucs2_gbk_rows_097 :: "code_map list" where
  "ucs2_gbk_rows_097 = [
     (0xD2E1, 0x88D4), (0xD2E2, 0x610F), (0xD2E3, 0x6BC5), (0xD2E4, 0x5FC6), (0xD2E5, 0x4E49), (0xD2E6, 0x76CA),
     (0xD2E7, 0x6EA2), (0xD2E8, 0x8BE3), (0xD2E9, 0x8BAE), (0xD2EA, 0x8C0A), (0xD2EB, 0x8BD1), (0xD2EC, 0x5F02),
     (0xD2ED, 0x7FFC), (0xD2EE, 0x7FCC), (0xD2EF, 0x7ECE), (0xD2F0, 0x8335), (0xD2F1, 0x836B), (0xD2F2, 0x56E0),
     (0xD2F3, 0x6BB7), (0xD2F4, 0x97F3), (0xD2F5, 0x9634), (0xD2F6, 0x59FB), (0xD2F7, 0x541F), (0xD2F8, 0x94F6),
     (0xD2F9, 0x6DEB), (0xD2FA, 0x5BC5), (0xD2FB, 0x996E), (0xD2FC, 0x5C39), (0xD2FD, 0x5F15), (0xD2FE, 0x9690),
     (0xD340, 0x89A2), (0xD341, 0x89A3), (0xD342, 0x89A4), (0xD343, 0x89A5), (0xD344, 0x89A6), (0xD345, 0x89A7),
     (0xD346, 0x89A8), (0xD347, 0x89A9), (0xD348, 0x89AA), (0xD349, 0x89AB), (0xD34A, 0x89AC), (0xD34B, 0x89AD),
     (0xD34C, 0x89AE), (0xD34D, 0x89AF), (0xD34E, 0x89B0), (0xD34F, 0x89B1), (0xD350, 0x89B2), (0xD351, 0x89B3),
     (0xD352, 0x89B4), (0xD353, 0x89B5), (0xD354, 0x89B6), (0xD355, 0x89B7), (0xD356, 0x89B8), (0xD357, 0x89B9),
     (0xD358, 0x89BA), (0xD359, 0x89BB), (0xD35A, 0x89BC), (0xD35B, 0x89BD), (0xD35C, 0x89BE), (0xD35D, 0x89BF),
     (0xD35E, 0x89C0), (0xD35F, 0x89C3), (0xD360, 0x89CD), (0xD361, 0x89D3), (0xD362, 0x89D4), (0xD363, 0x89D5),
     (0xD364, 0x89D7), (0xD365, 0x89D8), (0xD366, 0x89D9), (0xD367, 0x89DB), (0xD368, 0x89DD), (0xD369, 0x89DF),
     (0xD36A, 0x89E0), (0xD36B, 0x89E1), (0xD36C, 0x89E2), (0xD36D, 0x89E4), (0xD36E, 0x89E7), (0xD36F, 0x89E8),
     (0xD370, 0x89E9), (0xD371, 0x89EA), (0xD372, 0x89EC), (0xD373, 0x89ED), (0xD374, 0x89EE), (0xD375, 0x89F0),
     (0xD376, 0x89F1), (0xD377, 0x89F2), (0xD378, 0x89F4), (0xD379, 0x89F5), (0xD37A, 0x89F6), (0xD37B, 0x89F7),
     (0xD37C, 0x89F8), (0xD37D, 0x89F9), (0xD37E, 0x89FA), (0xD380, 0x89FB), (0xD381, 0x89FC), (0xD382, 0x89FD),
     (0xD383, 0x89FE), (0xD384, 0x89FF), (0xD385, 0x8A01), (0xD386, 0x8A02), (0xD387, 0x8A03), (0xD388, 0x8A04),
     (0xD389, 0x8A05), (0xD38A, 0x8A06), (0xD38B, 0x8A08), (0xD38C, 0x8A09), (0xD38D, 0x8A0A), (0xD38E, 0x8A0B),
     (0xD38F, 0x8A0C), (0xD390, 0x8A0D), (0xD391, 0x8A0E), (0xD392, 0x8A0F), (0xD393, 0x8A10), (0xD394, 0x8A11),
     (0xD395, 0x8A12), (0xD396, 0x8A13), (0xD397, 0x8A14), (0xD398, 0x8A15), (0xD399, 0x8A16), (0xD39A, 0x8A17),
     (0xD39B, 0x8A18), (0xD39C, 0x8A19), (0xD39D, 0x8A1A), (0xD39E, 0x8A1B), (0xD39F, 0x8A1C), (0xD3A0, 0x8A1D),
     (0xD3A1, 0x5370), (0xD3A2, 0x82F1), (0xD3A3, 0x6A31), (0xD3A4, 0x5A74), (0xD3A5, 0x9E70), (0xD3A6, 0x5E94),
     (0xD3A7, 0x7F28), (0xD3A8, 0x83B9), (0xD3A9, 0x8424), (0xD3AA, 0x8425), (0xD3AB, 0x8367), (0xD3AC, 0x8747),
     (0xD3AD, 0x8FCE), (0xD3AE, 0x8D62), (0xD3AF, 0x76C8), (0xD3B0, 0x5F71), (0xD3B1, 0x9896), (0xD3B2, 0x786C),
     (0xD3B3, 0x6620), (0xD3B4, 0x54DF), (0xD3B5, 0x62E5), (0xD3B6, 0x4F63), (0xD3B7, 0x81C3), (0xD3B8, 0x75C8)]"

lemma ucs2_gbk_rows_097_climb: "climb 0xd2e0 ucs2_gbk_rows_097 = Some 0xd3b8"
  unfolding ucs2_gbk_rows_097_def by (intro climb_num climb_end; simp only: numeral_less_iff less_num_simps le_num_simps)

definition ucs2_gbk_rows_098 :: "code_map list" where
  "ucs2_gbk_rows_098 = [
     (0xD3B9, 0x5EB8), (0xD3BA, 0x96CD), (0xD3BB, 0x8E0A), (0xD3BC, 0x86F9), (0xD3BD, 0x548F), (0xD3BE, 0x6CF3),
     (0xD3BF, 0x6D8C), (0xD3C0, 0x6C38), (0xD3C1, 0x607F), (0xD3C2, 0x52C7), (0xD3C3, 0x7528), (0xD3C4, 0x5E7D),
     (0xD3C5, 0x4F18), (0xD3C6, 0x60A0), (0xD3C7, 0x5FE7), (0xD3C8, 0x5C24), (0xD3C9, 0x7531), (0xD3CA, 0x90AE),
     (0xD3CB, 0x94C0), (0xD3CC, 0x72B9), (0xD3CD, 0x6CB9), (0xD3CE, 0x6E38), (0xD3CF, 0x9149), (0xD3D0, 0x6709),
     (0xD3D1, 0x53CB), (0xD3D2, 0x53F3), (0xD3D3, 0x4F51), (0xD3D4, 0x91C9), (0xD3D5, 0x8BF1), (0xD3D6, 0x53C8),
     (0xD3D7, 0x5E7C), (0xD3D8, 0x8FC2), (0xD3D9, 0x6DE4), (0xD3DA, 0x4E8E), (0xD3DB, 0x76C2), (0xD3DC, 0x6986),
     (0xD3DD, 0x865E), (0xD3DE, 0x611A), (0xD3DF, 0x8206), (0xD3E0, 0x4F59), (0xD3E1, 0x4FDE), (0xD3E2, 0x903E),
     (0xD3E3, 0x9C7C), (0xD3E4, 0x6109), (0xD3E5, 0x6E1D), (0xD3E6, 0x6E14), (0xD3E7, 0x9685), (0xD3E8, 0x4E88),
     (0xD3E9, 0x5A31), (0xD3EA, 0x96E8), (0xD3EB, 0x4E0E), (0xD3EC, 0x5C7F), (0xD3ED, 0x79B9), (0xD3EE, 0x5B87),
     (0xD3EF, 0x8BED), (0xD3F0, 0x7FBD), (0xD3F1, 0x7389), (0xD3F2, 0x57DF), (0xD3F3, 0x828B), (0xD3F4, 0x90C1),
     (0xD3F5, 0x5401), (0xD3F6, 0x9047), (0xD3F7, 0x55BB), (0xD3F8, 0x5CEA), (0xD3F9, 0x5FA1), (0xD3FA, 0x6108),
     (0xD3FB, 0x6B32), (0xD3FC, 0x72F1), (0xD3FD, 0x80B2), (0xD3FE, 0x8A89), (0xD440, 0x8A1E), (0xD441, 0x8A1F),
     (0xD442, 0x8A20), (0xD443, 0x8A21), (0xD444, 0x8A22), (0xD445, 0x8A23), (0xD446, 0x8A24), (0xD447, 0x8A25),
     (0xD448, 0x8A26), (0xD449, 0x8A27), (0xD44A, 0x8A28), (0xD44B, 0x8A29), (0xD44C, 0x8A2A), (0xD44D, 0x8A2B),
     (0xD44E, 0x8A2C), (0xD44F, 0x8A2D), (0xD450, 0x8A2E), (0xD451, 0x8A2F), (0xD452, 0x8A30), (0xD453, 0x8A31),
     (0xD454, 0x8A32), (0xD455, 0x8A33), (0xD456, 0x8A34), (0xD457, 0x8A35), (0xD458, 0x8A36), (0xD459, 0x8A37),
     (0xD45A, 0x8A38), (0xD45B, 0x8A39), (0xD45C, 0x8A3A), (0xD45D, 0x8A3B), (0xD45E, 0x8A3C), (0xD45F, 0x8A3D),
     (0xD460, 0x8A3F), (0xD461, 0x8A40), (0xD462, 0x8A41), (0xD463, 0x8A42), (0xD464, 0x8A43), (0xD465, 0x8A44),
     (0xD466, 0x8A45), (0xD467, 0x8A46), (0xD468, 0x8A47), (0xD469, 0x8A49), (0xD46A, 0x8A4A), (0xD46B, 0x8A4B),
     (0xD46C, 0x8A4C), (0xD46D, 0x8A4D), (0xD46E, 0x8A4E), (0xD46F, 0x8A4F), (0xD470, 0x8A50), (0xD471, 0x8A51),
     (0xD472, 0x8A52), (0xD473, 0x8A53), (0xD474, 0x8A54), (0xD475, 0x8A55), (0xD476, 0x8A56), (0xD477, 0x8A57),
     (0xD478, 0x8A58), (0xD479, 0x8A59), (0xD47A, 0x8A5A), (0xD47B, 0x8A5B), (0xD47C, 0x8A5C), (0xD47D, 0x8A5D),
     (0xD47E, 0x8A5E), (0xD480, 0x8A5F), (0xD481, 0x8A60), (0xD482, 0x8A61), (0xD483, 0x8A62), (0xD484, 0x8A63),
     (0xD485, 0x8A64), (0xD486, 0x8A65), (0xD487, 0x8A66), (0xD488, 0x8A67), (0xD489, 0x8A68), (0xD48A, 0x8A69),
     (0xD48B, 0x8A6A), (0xD48C, 0x8A6B), (0xD48D, 0x8A6C), (0xD48E, 0x8A6D), (0xD48F, 0x8A6E), (0xD490, 0x8A6F)]"

lemma ucs2_gbk_rows_098_climb: "climb 0xd3b8 ucs2_gbk_rows_098 = Some 0xd490"
  unfolding ucs2_gbk_rows_098_def by (intro climb_num climb_end; simp only: numeral_less_iff less_num_simps le_num_simps)

definition gbk_part_B :: "code_map list" where
  "gbk_part_B = concat [
     ucs2_gbk_rows_050, ucs2_gbk_rows_051, ucs2_gbk_rows_052, ucs2_gbk_rows_053, ucs2_gbk_rows_054,
     ucs2_gbk_rows_055, ucs2_gbk_rows_056, ucs2_gbk_rows_057, ucs2_gbk_rows_058, ucs2_gbk_rows_059,
     ucs2_gbk_rows_060, ucs2_gbk_rows_061, ucs2_gbk_rows_062, ucs2_gbk_rows_063, ucs2_gbk_rows_064,
     ucs2_gbk_rows_065, ucs2_gbk_rows_066, ucs2_gbk_rows_067, ucs2_gbk_rows_068, ucs2_gbk_rows_069,
     ucs2_gbk_rows_070, ucs2_gbk_rows_071, ucs2_gbk_rows_072, ucs2_gbk_rows_073, ucs2_gbk_rows_074,
     ucs2_gbk_rows_075, ucs2_gbk_rows_076, ucs2_gbk_rows_077, ucs2_gbk_rows_078, ucs2_gbk_rows_079,
     ucs2_gbk_rows_080, ucs2_gbk_rows_081, ucs2_gbk_rows_082, ucs2_gbk_rows_083, ucs2_gbk_rows_084,
     ucs2_gbk_rows_085, ucs2_gbk_rows_086, ucs2_gbk_rows_087, ucs2_gbk_rows_088, ucs2_gbk_rows_089,
     ucs2_gbk_rows_090, ucs2_gbk_rows_091, ucs2_gbk_rows_092, ucs2_gbk_rows_093, ucs2_gbk_rows_094,
     ucs2_gbk_rows_095, ucs2_gbk_rows_096, ucs2_gbk_rows_097, ucs2_gbk_rows_098]"

lemma gbk_part_B_climb: "climb 0xab71 gbk_part_B = Some 0xd490"
  by (simp add: gbk_part_B_def climb_append
      ucs2_gbk_rows_050_climb ucs2_gbk_rows_051_climb ucs2_gbk_rows_052_climb ucs2_gbk_rows_053_climb
      ucs2_gbk_rows_054_climb ucs2_gbk_rows_055_climb ucs2_gbk_rows_056_climb ucs2_gbk_rows_057_climb
      ucs2_gbk_rows_058_climb ucs2_gbk_rows_059_climb ucs2_gbk_rows_060_climb ucs2_gbk_rows_061_climb
      ucs2_gbk_rows_062_climb ucs2_gbk_rows_063_climb ucs2_gbk_rows_064_climb ucs2_gbk_rows_065_climb
      ucs2_gbk_rows_066_climb ucs2_gbk_rows_067_climb ucs2_gbk_rows_068_climb ucs2_gbk_rows_069_climb
      ucs2_gbk_rows_070_climb ucs2_gbk_rows_071_climb ucs2_gbk_rows_072_climb ucs2_gbk_rows_073_climb
      ucs2_gbk_rows_074_climb ucs2_gbk_rows_075_climb ucs2_gbk_rows_076_climb ucs2_gbk_rows_077_climb
      ucs2_gbk_rows_078_climb ucs2_gbk_rows_079_climb ucs2_gbk_rows_080_climb ucs2_gbk_rows_081_climb
      ucs2_gbk_rows_082_climb ucs2_gbk_rows_083_climb ucs2_gbk_rows_084_climb ucs2_gbk_rows_085_climb
      ucs2_gbk_rows_086_climb ucs2_gbk_rows_087_climb ucs2_gbk_rows_088_climb ucs2_gbk_rows_089_climb
      ucs2_gbk_rows_090_climb ucs2_gbk_rows_091_climb ucs2_gbk_rows_092_climb ucs2_gbk_rows_093_climb
      ucs2_gbk_rows_094_climb ucs2_gbk_rows_095_climb ucs2_gbk_rows_096_climb ucs2_gbk_rows_097_climb
      ucs2_gbk_rows_098_climb)

end
