(* ===== verification/Gbk_Rows_C.thy ===== *)
theory Gbk_Rows_C
  imports Gbk_Climb
begin

text \<open>
  The rows of the table of \<^verbatim>\<open>src/ucs2_gbk_map.c\<close>, part C: lines 14705 to 22052, a row of the file per pair
  of GBK and UCS-2 codes, 150 lines of the file per definition, each with the fact that its GBK codes
  increase strictly from those of the definition before.
\<close>

definition ucs2_gbk_rows_099 :: "code_map list" where
  "ucs2_gbk_rows_099 = [
     (0xD491, 0x8A70), (0xD492, 0x8A71), (0xD493, 0x8A72), (0xD494, 0x8A73), (0xD495, 0x8A74), (0xD496, 0x8A75),
     (0xD497, 0x8A76), (0xD498, 0x8A77), (0xD499, 0x8A78), (0xD49A, 0x8A7A), (0xD49B, 0x8A7B), (0xD49C, 0x8A7C),
     (0xD49D, 0x8A7D), (0xD49E, 0x8A7E), (0xD49F, 0x8A7F), (0xD4A0, 0x8A80), (0xD4A1, 0x6D74), (0xD4A2, 0x5BD3),
     (0xD4A3, 0x88D5), (0xD4A4, 0x9884), (0xD4A5, 0x8C6B), (0xD4A6, 0x9A6D), (0xD4A7, 0x9E33), (0xD4A8, 0x6E0A),
     (0xD4A9, 0x51A4), (0xD4AA, 0x5143), (0xD4AB, 0x57A3), (0xD4AC, 0x8881), (0xD4AD, 0x539F), (0xD4AE, 0x63F4),
     (0xD4AF, 0x8F95), (0xD4B0, 0x56ED), (0xD4B1, 0x5458), (0xD4B2, 0x5706), (0xD4B3, 0x733F), (0xD4B4, 0x6E90),
     (0xD4B5, 0x7F18), (0xD4B6, 0x8FDC), (0xD4B7, 0x82D1), (0xD4B8, 0x613F), (0xD4B9, 0x6028), (0xD4BA, 0x9662),
     (0xD4BB, 0x66F0), (0xD4BC, 0x7EA6), (0xD4BD, 0x8D8A), (0xD4BE, 0x8DC3), (0xD4BF, 0x94A5), (0xD4C0, 0x5CB3),
     (0xD4C1, 0x7CA4), (0xD4C2, 0x6708), (0xD4C3, 0x60A6), (0xD4C4, 0x9605), (0xD4C5, 0x8018), (0xD4C6, 0x4E91),
     (0xD4C7, 0x90E7), (0xD4C8, 0x5300), (0xD4C9, 0x9668), (0xD4CA, 0x5141), (0xD4CB, 0x8FD0), (0xD4CC, 0x8574),
     (0xD4CD, 0x915D), (0xD4CE, 0x6655), (0xD4CF, 0x97F5), (0xD4D0, 0x5B55), (0xD4D1, 0x531D), (0xD4D2, 0x7838),
     (0xD4D3, 0x6742), (0xD4D4, 0x683D), (0xD4D5, 0x54C9), (0xD4D6, 0x707E), (0xD4D7, 0x5BB0), (0xD4D8, 0x8F7D),
     (0xD4D9, 0x518D), (0xD4DA, 0x5728), (0xD4DB, 0x54B1), (0xD4DC, 0x6512), (0xD4DD, 0x6682), (0xD4DE, 0x8D5E),
     (0xD4DF, 0x8D43), (0xD4E0, 0x810F), (0xD4E1, 0x846C), (0xD4E2, 0x906D), (0xD4E3, 0x7CDF), (0xD4E4, 0x51FF),
     (0xD4E5, 0x85FB), (0xD4E6, 0x67A3), (0xD4E7, 0x65E9), (0xD4E8, 0x6FA1), (0xD4E9, 0x86A4), (0xD4EA, 0x8E81),
     (0xD4EB, 0x566A), (0xD4EC, 0x9020), (0xD4ED, 0x7682), (0xD4EE, 0x7076), (0xD4EF, 0x71E5), (0xD4F0, 0x8D23),
     (0xD4F1, 0x62E9), (0xD4F2, 0x5219), (0xD4F3, 0x6CFD), (0xD4F4, 0x8D3C), (0xD4F5, 0x600E), (0xD4F6, 0x589E),
     (0xD4F7, 0x618E), (0xD4F8, 0x66FE), (0xD4F9, 0x8D60), (0xD4FA, 0x624E), (0xD4FB, 0x55B3), (0xD4FC, 0x6E23),
     (0xD4FD, 0x672D), (0xD4FE, 0x8F67), (0xD540, 0x8A81), (0xD541, 0x8A82), (0xD542, 0x8A83), (0xD543, 0x8A84),
     (0xD544, 0x8A85), (0xD545, 0x8A86), (0xD546, 0x8A87), (0xD547, 0x8A88), (0xD548, 0x8A8B), (0xD549, 0x8A8C),
     (0xD54A, 0x8A8D), (0xD54B, 0x8A8E), (0xD54C, 0x8A8F), (0xD54D, 0x8A90), (0xD54E, 0x8A91), (0xD54F, 0x8A92),
     (0xD550, 0x8A94), (0xD551, 0x8A95), (0xD552, 0x8A96), (0xD553, 0x8A97), (0xD554, 0x8A98), (0xD555, 0x8A99),
     (0xD556, 0x8A9A), (0xD557, 0x8A9B), (0xD558, 0x8A9C), (0xD559, 0x8A9D), (0xD55A, 0x8A9E), (0xD55B, 0x8A9F),
     (0xD55C, 0x8AA0), (0xD55D, 0x8AA1), (0xD55E, 0x8AA2), (0xD55F, 0x8AA3), (0xD560, 0x8AA4), (0xD561, 0x8AA5),
     (0xD562, 0x8AA6), (0xD563, 0x8AA7), (0xD564, 0x8AA8), (0xD565, 0x8AA9), (0xD566, 0x8AAA), (0xD567, 0x8AAB)]"

lemma ucs2_gbk_rows_099_climb: "climb 0xd490 ucs2_gbk_rows_099 = Some 0xd567"
  unfolding ucs2_gbk_rows_099_def by (intro climb_num climb_end; simp only: numeral_less_iff less_num_simps le_num_simps)

definition ucs2_gbk_rows_100 :: "code_map list" where
  "ucs2_gbk_rows_100 = [
     (0xD568, 0x8AAC), (0xD569, 0x8AAD), (0xD56A, 0x8AAE), (0xD56B, 0x8AAF), (0xD56C, 0x8AB0), (0xD56D, 0x8AB1),
     (0xD56E, 0x8AB2), (0xD56F, 0x8AB3), (0xD570, 0x8AB4), (0xD571, 0x8AB5), (0xD572, 0x8AB6), (0xD573, 0x8AB7),
     (0xD574, 0x8AB8), (0xD575, 0x8AB9), (0xD576, 0x8ABA), (0xD577, 0x8ABB), (0xD578, 0x8ABC), (0xD579, 0x8ABD),
     (0xD57A, 0x8ABE), (0xD57B, 0x8ABF), (0xD57C, 0x8AC0), (0xD57D, 0x8AC1), (0xD57E, 0x8AC2), (0xD580, 0x8AC3),
     (0xD581, 0x8AC4), (0xD582, 0x8AC5), (0xD583, 0x8AC6), (0xD584, 0x8AC7), (0xD585, 0x8AC8), (0xD586, 0x8AC9),
     (0xD587, 0x8ACA), (0xD588, 0x8ACB), (0xD589, 0x8ACC), (0xD58A, 0x8ACD), (0xD58B, 0x8ACE), (0xD58C, 0x8ACF),
     (0xD58D, 0x8AD0), (0xD58E, 0x8AD1), (0xD58F, 0x8AD2), (0xD590, 0x8AD3), (0xD591, 0x8AD4), (0xD592, 0x8AD5),
     (0xD593, 0x8AD6), (0xD594, 0x8AD7), (0xD595, 0x8AD8), (0xD596, 0x8AD9), (0xD597, 0x8ADA), (0xD598, 0x8ADB),
     (0xD599, 0x8ADC), (0xD59A, 0x8ADD), (0xD59B, 0x8ADE), (0xD59C, 0x8ADF), (0xD59D, 0x8AE0), (0xD59E, 0x8AE1),
     (0xD59F, 0x8AE2), (0xD5A0, 0x8AE3), (0xD5A1, 0x94E1), (0xD5A2, 0x95F8), (0xD5A3, 0x7728), (0xD5A4, 0x6805),
     (0xD5A5, 0x69A8), (0xD5A6, 0x548B), (0xD5A7, 0x4E4D), (0xD5A8, 0x70B8), (0xD5A9, 0x8BC8), (0xD5AA, 0x6458),
     (0xD5AB, 0x658B), (0xD5AC, 0x5B85), (0xD5AD, 0x7A84), (0xD5AE, 0x503A), (0xD5AF, 0x5BE8), (0xD5B0, 0x77BB),
     (0xD5B1, 0x6BE1), (0xD5B2, 0x8A79), (0xD5B3, 0x7C98), (0xD5B4, 0x6CBE), (0xD5B5, 0x76CF), (0xD5B6, 0x65A9),
     (0xD5B7, 0x8F97), (0xD5B8, 0x5D2D), (0xD5B9, 0x5C55), (0xD5BA, 0x8638), (0xD5BB, 0x6808), (0xD5BC, 0x5360),
     (0xD5BD, 0x6218), (0xD5BE, 0x7AD9), (0xD5BF, 0x6E5B), (0xD5C0, 0x7EFD), (0xD5C1, 0x6A1F), (0xD5C2, 0x7AE0),
     (0xD5C3, 0x5F70), (0xD5C4, 0x6F33), (0xD5C5, 0x5F20), (0xD5C6, 0x638C), (0xD5C7, 0x6DA8), (0xD5C8, 0x6756),
     (0xD5C9, 0x4E08), (0xD5CA, 0x5E10), (0xD5CB, 0x8D26), (0xD5CC, 0x4ED7), (0xD5CD, 0x80C0), (0xD5CE, 0x7634),
     (0xD5CF, 0x969C), (0xD5D0, 0x62DB), (0xD5D1, 0x662D), (0xD5D2, 0x627E), (0xD5D3, 0x6CBC), (0xD5D4, 0x8D75),
     (0xD5D5, 0x7167), (0xD5D6, 0x7F69), (0xD5D7, 0x5146), (0xD5D8, 0x8087), (0xD5D9, 0x53EC), (0xD5DA, 0x906E),
     (0xD5DB, 0x6298), (0xD5DC, 0x54F2), (0xD5DD, 0x86F0), (0xD5DE, 0x8F99), (0xD5DF, 0x8005), (0xD5E0, 0x9517),
     (0xD5E1, 0x8517), (0xD5E2, 0x8FD9), (0xD5E3, 0x6D59), (0xD5E4, 0x73CD), (0xD5E5, 0x659F), (0xD5E6, 0x771F),
     (0xD5E7, 0x7504), (0xD5E8, 0x7827), (0xD5E9, 0x81FB), (0xD5EA, 0x8D1E), (0xD5EB, 0x9488), (0xD5EC, 0x4FA6),
     (0xD5ED, 0x6795), (0xD5EE, 0x75B9), (0xD5EF, 0x8BCA), (0xD5F0, 0x9707), (0xD5F1, 0x632F), (0xD5F2, 0x9547),
     (0xD5F3, 0x9635), (0xD5F4, 0x84B8), (0xD5F5, 0x6323), (0xD5F6, 0x7741), (0xD5F7, 0x5F81), (0xD5F8, 0x72F0),
     (0xD5F9, 0x4E89), (0xD5FA, 0x6014), (0xD5FB, 0x6574), (0xD5FC, 0x62EF), (0xD5FD, 0x6B63), (0xD5FE, 0x653F)]"

lemma ucs2_gbk_rows_100_climb: "climb 0xd567 ucs2_gbk_rows_100 = Some 0xd5fe"
  unfolding ucs2_gbk_rows_100_def by (intro climb_num climb_end; simp only: numeral_less_iff less_num_simps le_num_simps)

definition ucs2_gbk_rows_101 :: "code_map list" where
  "ucs2_gbk_rows_101 = [
     (0xD640, 0x8AE4), (0xD641, 0x8AE5), (0xD642, 0x8AE6), (0xD643, 0x8AE7), (0xD644, 0x8AE8), (0xD645, 0x8AE9),
     (0xD646, 0x8AEA), (0xD647, 0x8AEB), (0xD648, 0x8AEC), (0xD649, 0x8AED), (0xD64A, 0x8AEE), (0xD64B, 0x8AEF),
     (0xD64C, 0x8AF0), (0xD64D, 0x8AF1), (0xD64E, 0x8AF2), (0xD64F, 0x8AF3), (0xD650, 0x8AF4), (0xD651, 0x8AF5),
     (0xD652, 0x8AF6), (0xD653, 0x8AF7), (0xD654, 0x8AF8), (0xD655, 0x8AF9), (0xD656, 0x8AFA), (0xD657, 0x8AFB),
     (0xD658, 0x8AFC), (0xD659, 0x8AFD), (0xD65A, 0x8AFE), (0xD65B, 0x8AFF), (0xD65C, 0x8B00), (0xD65D, 0x8B01),
     (0xD65E, 0x8B02), (0xD65F, 0x8B03), (0xD660, 0x8B04), (0xD661, 0x8B05), (0xD662, 0x8B06), (0xD663, 0x8B08),
     (0xD664, 0x8B09), (0xD665, 0x8B0A), (0xD666, 0x8B0B), (0xD667, 0x8B0C), (0xD668, 0x8B0D), (0xD669, 0x8B0E),
     (0xD66A, 0x8B0F), (0xD66B, 0x8B10), (0xD66C, 0x8B11), (0xD66D, 0x8B12), (0xD66E, 0x8B13), (0xD66F, 0x8B14),
     (0xD670, 0x8B15), (0xD671, 0x8B16), (0xD672, 0x8B17), (0xD673, 0x8B18), (0xD674, 0x8B19), (0xD675, 0x8B1A),
     (0xD676, 0x8B1B), (0xD677, 0x8B1C), (0xD678, 0x8B1D), (0xD679, 0x8B1E), (0xD67A, 0x8B1F), (0xD67B, 0x8B20),
     (0xD67C, 0x8B21), (0xD67D, 0x8B22), (0xD67E, 0x8B23), (0xD680, 0x8B24), (0xD681, 0x8B25), (0xD682, 0x8B27),
     (0xD683, 0x8B28), (0xD684, 0x8B29), (0xD685, 0x8B2A), (0xD686, 0x8B2B), (0xD687, 0x8B2C), (0xD688, 0x8B2D),
     (0xD689, 0x8B2E), (0xD68A, 0x8B2F), (0xD68B, 0x8B30), (0xD68C, 0x8B31), (0xD68D, 0x8B32), (0xD68E, 0x8B33),
     (0xD68F, 0x8B34), (0xD690, 0x8B35), (0xD691, 0x8B36), (0xD692, 0x8B37), (0xD693, 0x8B38), (0xD694, 0x8B39),
     (0xD695, 0x8B3A), (0xD696, 0x8B3B), (0xD697, 0x8B3C), (0xD698, 0x8B3D), (0xD699, 0x8B3E), (0xD69A, 0x8B3F),
     (0xD69B, 0x8B40), (0xD69C, 0x8B41), (0xD69D, 0x8B42), (0xD69E, 0x8B43), (0xD69F, 0x8B44), (0xD6A0, 0x8B45),
     (0xD6A1, 0x5E27), (0xD6A2, 0x75C7), (0xD6A3, 0x90D1), (0xD6A4, 0x8BC1), (0xD6A5, 0x829D), (0xD6A6, 0x679D),
     (0xD6A7, 0x652F), (0xD6A8, 0x5431), (0xD6A9, 0x8718), (0xD6AA, 0x77E5), (0xD6AB, 0x80A2), (0xD6AC, 0x8102),
     (0xD6AD, 0x6C41), (0xD6AE, 0x4E4B), (0xD6AF, 0x7EC7), (0xD6B0, 0x804C), (0xD6B1, 0x76F4), (0xD6B2, 0x690D),
     (0xD6B3, 0x6B96), (0xD6B4, 0x6267), (0xD6B5, 0x503C), (0xD6B6, 0x4F84), (0xD6B7, 0x5740), (0xD6B8, 0x6307),
     (0xD6B9, 0x6B62), (0xD6BA, 0x8DBE), (0xD6BB, 0x53EA), (0xD6BC, 0x65E8), (0xD6BD, 0x7EB8), (0xD6BE, 0x5FD7),
     (0xD6BF, 0x631A), (0xD6C0, 0x63B7), (0xD6C1, 0x81F3), (0xD6C2, 0x81F4), (0xD6C3, 0x7F6E), (0xD6C4, 0x5E1C),
     (0xD6C5, 0x5CD9), (0xD6C6, 0x5236), (0xD6C7, 0x667A), (0xD6C8, 0x79E9), (0xD6C9, 0x7A1A), (0xD6CA, 0x8D28),
     (0xD6CB, 0x7099), (0xD6CC, 0x75D4), (0xD6CD, 0x6EDE), (0xD6CE, 0x6CBB), (0xD6CF, 0x7A92), (0xD6D0, 0x4E2D),
     (0xD6D1, 0x76C5), (0xD6D2, 0x5FE0), (0xD6D3, 0x949F), (0xD6D4, 0x8877), (0xD6D5, 0x7EC8), (0xD6D6, 0x79CD)]"

lemma ucs2_gbk_rows_101_climb: "climb 0xd5fe ucs2_gbk_rows_101 = Some 0xd6d6"
  unfolding ucs2_gbk_rows_101_def by (intro climb_num climb_end; simp only: numeral_less_iff less_num_simps le_num_simps)

definition ucs2_gbk_rows_102 :: "code_map list" where
  "ucs2_gbk_rows_102 = [
     (0xD6D7, 0x80BF), (0xD6D8, 0x91CD), (0xD6D9, 0x4EF2), (0xD6DA, 0x4F17), (0xD6DB, 0x821F), (0xD6DC, 0x5468),
     (0xD6DD, 0x5DDE), (0xD6DE, 0x6D32), (0xD6DF, 0x8BCC), (0xD6E0, 0x7CA5), (0xD6E1, 0x8F74), (0xD6E2, 0x8098),
     (0xD6E3, 0x5E1A), (0xD6E4, 0x5492), (0xD6E5, 0x76B1), (0xD6E6, 0x5B99), (0xD6E7, 0x663C), (0xD6E8, 0x9AA4),
     (0xD6E9, 0x73E0), (0xD6EA, 0x682A), (0xD6EB, 0x86DB), (0xD6EC, 0x6731), (0xD6ED, 0x732A), (0xD6EE, 0x8BF8),
     (0xD6EF, 0x8BDB), (0xD6F0, 0x9010), (0xD6F1, 0x7AF9), (0xD6F2, 0x70DB), (0xD6F3, 0x716E), (0xD6F4, 0x62C4),
     (0xD6F5, 0x77A9), (0xD6F6, 0x5631), (0xD6F7, 0x4E3B), (0xD6F8, 0x8457), (0xD6F9, 0x67F1), (0xD6FA, 0x52A9),
     (0xD6FB, 0x86C0), (0xD6FC, 0x8D2E), (0xD6FD, 0x94F8), (0xD6FE, 0x7B51), (0xD740, 0x8B46), (0xD741, 0x8B47),
     (0xD742, 0x8B48), (0xD743, 0x8B49), (0xD744, 0x8B4A), (0xD745, 0x8B4B), (0xD746, 0x8B4C), (0xD747, 0x8B4D),
     (0xD748, 0x8B4E), (0xD749, 0x8B4F), (0xD74A, 0x8B50), (0xD74B, 0x8B51), (0xD74C, 0x8B52), (0xD74D, 0x8B53),
     (0xD74E, 0x8B54), (0xD74F, 0x8B55), (0xD750, 0x8B56), (0xD751, 0x8B57), (0xD752, 0x8B58), (0xD753, 0x8B59),
     (0xD754, 0x8B5A), (0xD755, 0x8B5B), (0xD756, 0x8B5C), (0xD757, 0x8B5D), (0xD758, 0x8B5E), (0xD759, 0x8B5F),
     (0xD75A, 0x8B60), (0xD75B, 0x8B61), (0xD75C, 0x8B62), (0xD75D, 0x8B63), (0xD75E, 0x8B64), (0xD75F, 0x8B65),
     (0xD760, 0x8B67), (0xD761, 0x8B68), (0xD762, 0x8B69), (0xD763, 0x8B6A), (0xD764, 0x8B6B), (0xD765, 0x8B6D),
     (0xD766, 0x8B6E), (0xD767, 0x8B6F), (0xD768, 0x8B70), (0xD769, 0x8B71), (0xD76A, 0x8B72), (0xD76B, 0x8B73),
     (0xD76C, 0x8B74), (0xD76D, 0x8B75), (0xD76E, 0x8B76), (0xD76F, 0x8B77), (0xD770, 0x8B78), (0xD771, 0x8B79),
     (0xD772, 0x8B7A), (0xD773, 0x8B7B), (0xD774, 0x8B7C), (0xD775, 0x8B7D), (0xD776, 0x8B7E), (0xD777, 0x8B7F),
     (0xD778, 0x8B80), (0xD779, 0x8B81), (0xD77A, 0x8B82), (0xD77B, 0x8B83), (0xD77C, 0x8B84), (0xD77D, 0x8B85),
     (0xD77E, 0x8B86), (0xD780, 0x8B87), (0xD781, 0x8B88), (0xD782, 0x8B89), (0xD783, 0x8B8A), (0xD784, 0x8B8B),
     (0xD785, 0x8B8C), (0xD786, 0x8B8D), (0xD787, 0x8B8E), (0xD788, 0x8B8F), (0xD789, 0x8B90), (0xD78A, 0x8B91),
     (0xD78B, 0x8B92), (0xD78C, 0x8B93), (0xD78D, 0x8B94), (0xD78E, 0x8B95), (0xD78F, 0x8B96), (0xD790, 0x8B97),
     (0xD791, 0x8B98), (0xD792, 0x8B99), (0xD793, 0x8B9A), (0xD794, 0x8B9B), (0xD795, 0x8B9C), (0xD796, 0x8B9D),
     (0xD797, 0x8B9E), (0xD798, 0x8B9F), (0xD799, 0x8BAC), (0xD79A, 0x8BB1), (0xD79B, 0x8BBB), (0xD79C, 0x8BC7),
     (0xD79D, 0x8BD0), (0xD79E, 0x8BEA), (0xD79F, 0x8C09), (0xD7A0, 0x8C1E), (0xD7A1, 0x4F4F), (0xD7A2, 0x6CE8),
     (0xD7A3, 0x795D), (0xD7A4, 0x9A7B), (0xD7A5, 0x6293), (0xD7A6, 0x722A), (0xD7A7, 0x62FD), (0xD7A8, 0x4E13),
     (0xD7A9, 0x7816), (0xD7AA, 0x8F6C), (0xD7AB, 0x64B0), (0xD7AC, 0x8D5A), (0xD7AD, 0x7BC6), (0xD7AE, 0x6869)]"

lemma ucs2_gbk_rows_102_climb: "climb 0xd6d6 ucs2_gbk_rows_102 = Some 0xd7ae"
  unfolding ucs2_gbk_rows_102_def by (intro climb_num climb_end; simp only: numeral_less_iff less_num_simps le_num_simps)

definition ucs2_gbk_rows_103 :: "code_map list" where
  "ucs2_gbk_rows_103 = [
     (0xD7AF, 0x5E84), (0xD7B0, 0x88C5), (0xD7B1, 0x5986), (0xD7B2, 0x649E), (0xD7B3, 0x58EE), (0xD7B4, 0x72B6),
     (0xD7B5, 0x690E), (0xD7B6, 0x9525), (0xD7B7, 0x8FFD), (0xD7B8, 0x8D58), (0xD7B9, 0x5760), (0xD7BA, 0x7F00),
     (0xD7BB, 0x8C06), (0xD7BC, 0x51C6), (0xD7BD, 0x6349), (0xD7BE, 0x62D9), (0xD7BF, 0x5353), (0xD7C0, 0x684C),
     (0xD7C1, 0x7422), (0xD7C2, 0x8301), (0xD7C3, 0x914C), (0xD7C4, 0x5544), (0xD7C5, 0x7740), (0xD7C6, 0x707C),
     (0xD7C7, 0x6D4A), (0xD7C8, 0x5179), (0xD7C9, 0x54A8), (0xD7CA, 0x8D44), (0xD7CB, 0x59FF), (0xD7CC, 0x6ECB),
     (0xD7CD, 0x6DC4), (0xD7CE, 0x5B5C), (0xD7CF, 0x7D2B), (0xD7D0, 0x4ED4), (0xD7D1, 0x7C7D), (0xD7D2, 0x6ED3),
     (0xD7D3, 0x5B50), (0xD7D4, 0x81EA), (0xD7D5, 0x6E0D), (0xD7D6, 0x5B57), (0xD7D7, 0x9B03), (0xD7D8, 0x68D5),
     (0xD7D9, 0x8E2A), (0xD7DA, 0x5B97), (0xD7DB, 0x7EFC), (0xD7DC, 0x603B), (0xD7DD, 0x7EB5), (0xD7DE, 0x90B9),
     (0xD7DF, 0x8D70), (0xD7E0, 0x594F), (0xD7E1, 0x63CD), (0xD7E2, 0x79DF), (0xD7E3, 0x8DB3), (0xD7E4, 0x5352),
     (0xD7E5, 0x65CF), (0xD7E6, 0x7956), (0xD7E7, 0x8BC5), (0xD7E8, 0x963B), (0xD7E9, 0x7EC4), (0xD7EA, 0x94BB),
     (0xD7EB, 0x7E82), (0xD7EC, 0x5634), (0xD7ED, 0x9189), (0xD7EE, 0x6700), (0xD7EF, 0x7F6A), (0xD7F0, 0x5C0A),
     (0xD7F1, 0x9075), (0xD7F2, 0x6628), (0xD7F3, 0x5DE6), (0xD7F4, 0x4F50), (0xD7F5, 0x67DE), (0xD7F6, 0x505A),
     (0xD7F7, 0x4F5C), (0xD7F8, 0x5750), (0xD7F9, 0x5EA7), (0xD840, 0x8C38), (0xD841, 0x8C39), (0xD842, 0x8C3A),
     (0xD843, 0x8C3B), (0xD844, 0x8C3C), (0xD845, 0x8C3D), (0xD846, 0x8C3E), (0xD847, 0x8C3F), (0xD848, 0x8C40),
     (0xD849, 0x8C42), (0xD84A, 0x8C43), (0xD84B, 0x8C44), (0xD84C, 0x8C45), (0xD84D, 0x8C48), (0xD84E, 0x8C4A),
     (0xD84F, 0x8C4B), (0xD850, 0x8C4D), (0xD851, 0x8C4E), (0xD852, 0x8C4F), (0xD853, 0x8C50), (0xD854, 0x8C51),
     (0xD855, 0x8C52), (0xD856, 0x8C53), (0xD857, 0x8C54), (0xD858, 0x8C56), (0xD859, 0x8C57), (0xD85A, 0x8C58),
     (0xD85B, 0x8C59), (0xD85C, 0x8C5B), (0xD85D, 0x8C5C), (0xD85E, 0x8C5D), (0xD85F, 0x8C5E), (0xD860, 0x8C5F),
     (0xD861, 0x8C60), (0xD862, 0x8C63), (0xD863, 0x8C64), (0xD864, 0x8C65), (0xD865, 0x8C66), (0xD866, 0x8C67),
     (0xD867, 0x8C68), (0xD868, 0x8C69), (0xD869, 0x8C6C), (0xD86A, 0x8C6D), (0xD86B, 0x8C6E), (0xD86C, 0x8C6F),
     (0xD86D, 0x8C70), (0xD86E, 0x8C71), (0xD86F, 0x8C72), (0xD870, 0x8C74), (0xD871, 0x8C75), (0xD872, 0x8C76),
     (0xD873, 0x8C77), (0xD874, 0x8C7B), (0xD875, 0x8C7C), (0xD876, 0x8C7D), (0xD877, 0x8C7E), (0xD878, 0x8C7F),
     (0xD879, 0x8C80), (0xD87A, 0x8C81), (0xD87B, 0x8C83), (0xD87C, 0x8C84), (0xD87D, 0x8C86), (0xD87E, 0x8C87),
     (0xD880, 0x8C88), (0xD881, 0x8C8B), (0xD882, 0x8C8D), (0xD883, 0x8C8E), (0xD884, 0x8C8F), (0xD885, 0x8C90),
     (0xD886, 0x8C91), (0xD887, 0x8C92), (0xD888, 0x8C93), (0xD889, 0x8C95), (0xD88A, 0x8C96), (0xD88B, 0x8C97)]"

lemma ucs2_gbk_rows_103_climb: "climb 0xd7ae ucs2_gbk_rows_103 = Some 0xd88b"
  unfolding ucs2_gbk_rows_103_def by (intro climb_num climb_end; simp only: numeral_less_iff less_num_simps le_num_simps)

definition ucs2_gbk_rows_104 :: "code_map list" where
  "ucs2_gbk_rows_104 = [
     (0xD88C, 0x8C99), (0xD88D, 0x8C9A), (0xD88E, 0x8C9B), (0xD88F, 0x8C9C), (0xD890, 0x8C9D), (0xD891, 0x8C9E),
     (0xD892, 0x8C9F), (0xD893, 0x8CA0), (0xD894, 0x8CA1), (0xD895, 0x8CA2), (0xD896, 0x8CA3), (0xD897, 0x8CA4),
     (0xD898, 0x8CA5), (0xD899, 0x8CA6), (0xD89A, 0x8CA7), (0xD89B, 0x8CA8), (0xD89C, 0x8CA9), (0xD89D, 0x8CAA),
     (0xD89E, 0x8CAB), (0xD89F, 0x8CAC), (0xD8A0, 0x8CAD), (0xD8A1, 0x4E8D), (0xD8A2, 0x4E0C), (0xD8A3, 0x5140),
     (0xD8A4, 0x4E10), (0xD8A5, 0x5EFF), (0xD8A6, 0x5345), (0xD8A7, 0x4E15), (0xD8A8, 0x4E98), (0xD8A9, 0x4E1E),
     (0xD8AA, 0x9B32), (0xD8AB, 0x5B6C), (0xD8AC, 0x5669), (0xD8AD, 0x4E28), (0xD8AE, 0x79BA), (0xD8AF, 0x4E3F),
     (0xD8B0, 0x5315), (0xD8B1, 0x4E47), (0xD8B2, 0x592D), (0xD8B3, 0x723B), (0xD8B4, 0x536E), (0xD8B5, 0x6C10),
     (0xD8B6, 0x56DF), (0xD8B7, 0x80E4), (0xD8B8, 0x9997), (0xD8B9, 0x6BD3), (0xD8BA, 0x777E), (0xD8BB, 0x9F17),
     (0xD8BC, 0x4E36), (0xD8BD, 0x4E9F), (0xD8BE, 0x9F10), (0xD8BF, 0x4E5C), (0xD8C0, 0x4E69), (0xD8C1, 0x4E93),
     (0xD8C2, 0x8288), (0xD8C3, 0x5B5B), (0xD8C4, 0x556C), (0xD8C5, 0x560F), (0xD8C6, 0x4EC4), (0xD8C7, 0x538D),
     (0xD8C8, 0x539D), (0xD8C9, 0x53A3), (0xD8CA, 0x53A5), (0xD8CB, 0x53AE), (0xD8CC, 0x9765), (0xD8CD, 0x8D5D),
     (0xD8CE, 0x531A), (0xD8CF, 0x53F5), (0xD8D0, 0x5326), (0xD8D1, 0x532E), (0xD8D2, 0x533E), (0xD8D3, 0x8D5C),
     (0xD8D4, 0x5366), (0xD8D5, 0x5363), (0xD8D6, 0x5202), (0xD8D7, 0x5208), (0xD8D8, 0x520E), (0xD8D9, 0x522D),
     (0xD8DA, 0x5233), (0xD8DB, 0x523F), (0xD8DC, 0x5240), (0xD8DD, 0x524C), (0xD8DE, 0x525E), (0xD8DF, 0x5261),
     (0xD8E0, 0x525C), (0xD8E1, 0x84AF), (0xD8E2, 0x527D), (0xD8E3, 0x5282), (0xD8E4, 0x5281), (0xD8E5, 0x5290),
     (0xD8E6, 0x5293), (0xD8E7, 0x5182), (0xD8E8, 0x7F54), (0xD8E9, 0x4EBB), (0xD8EA, 0x4EC3), (0xD8EB, 0x4EC9),
     (0xD8EC, 0x4EC2), (0xD8ED, 0x4EE8), (0xD8EE, 0x4EE1), (0xD8EF, 0x4EEB), (0xD8F0, 0x4EDE), (0xD8F1, 0x4F1B),
     (0xD8F2, 0x4EF3), (0xD8F3, 0x4F22), (0xD8F4, 0x4F64), (0xD8F5, 0x4EF5), (0xD8F6, 0x4F25), (0xD8F7, 0x4F27),
     (0xD8F8, 0x4F09), (0xD8F9, 0x4F2B), (0xD8FA, 0x4F5E), (0xD8FB, 0x4F67), (0xD8FC, 0x6538), (0xD8FD, 0x4F5A),
     (0xD8FE, 0x4F5D), (0xD940, 0x8CAE), (0xD941, 0x8CAF), (0xD942, 0x8CB0), (0xD943, 0x8CB1), (0xD944, 0x8CB2),
     (0xD945, 0x8CB3), (0xD946, 0x8CB4), (0xD947, 0x8CB5), (0xD948, 0x8CB6), (0xD949, 0x8CB7), (0xD94A, 0x8CB8),
     (0xD94B, 0x8CB9), (0xD94C, 0x8CBA), (0xD94D, 0x8CBB), (0xD94E, 0x8CBC), (0xD94F, 0x8CBD), (0xD950, 0x8CBE),
     (0xD951, 0x8CBF), (0xD952, 0x8CC0), (0xD953, 0x8CC1), (0xD954, 0x8CC2), (0xD955, 0x8CC3), (0xD956, 0x8CC4),
     (0xD957, 0x8CC5), (0xD958, 0x8CC6), (0xD959, 0x8CC7), (0xD95A, 0x8CC8), (0xD95B, 0x8CC9), (0xD95C, 0x8CCA),
     (0xD95D, 0x8CCB), (0xD95E, 0x8CCC), (0xD95F, 0x8CCD), (0xD960, 0x8CCE), (0xD961, 0x8CCF), (0xD962, 0x8CD0)]"

lemma ucs2_gbk_rows_104_climb: "climb 0xd88b ucs2_gbk_rows_104 = Some 0xd962"
  unfolding ucs2_gbk_rows_104_def by (intro climb_num climb_end; simp only: numeral_less_iff less_num_simps le_num_simps)

definition ucs2_gbk_rows_105 :: "code_map list" where
  "ucs2_gbk_rows_105 = [
     (0xD963, 0x8CD1), (0xD964, 0x8CD2), (0xD965, 0x8CD3), (0xD966, 0x8CD4), (0xD967, 0x8CD5), (0xD968, 0x8CD6),
     (0xD969, 0x8CD7), (0xD96A, 0x8CD8), (0xD96B, 0x8CD9), (0xD96C, 0x8CDA), (0xD96D, 0x8CDB), (0xD96E, 0x8CDC),
     (0xD96F, 0x8CDD), (0xD970, 0x8CDE), (0xD971, 0x8CDF), (0xD972, 0x8CE0), (0xD973, 0x8CE1), (0xD974, 0x8CE2),
     (0xD975, 0x8CE3), (0xD976, 0x8CE4), (0xD977, 0x8CE5), (0xD978, 0x8CE6), (0xD979, 0x8CE7), (0xD97A, 0x8CE8),
     (0xD97B, 0x8CE9), (0xD97C, 0x8CEA), (0xD97D, 0x8CEB), (0xD97E, 0x8CEC), (0xD980, 0x8CED), (0xD981, 0x8CEE),
     (0xD982, 0x8CEF), (0xD983, 0x8CF0), (0xD984, 0x8CF1), (0xD985, 0x8CF2), (0xD986, 0x8CF3), (0xD987, 0x8CF4),
     (0xD988, 0x8CF5), (0xD989, 0x8CF6), (0xD98A, 0x8CF7), (0xD98B, 0x8CF8), (0xD98C, 0x8CF9), (0xD98D, 0x8CFA),
     (0xD98E, 0x8CFB), (0xD98F, 0x8CFC), (0xD990, 0x8CFD), (0xD991, 0x8CFE), (0xD992, 0x8CFF), (0xD993, 0x8D00),
     (0xD994, 0x8D01), (0xD995, 0x8D02), (0xD996, 0x8D03), (0xD997, 0x8D04), (0xD998, 0x8D05), (0xD999, 0x8D06),
     (0xD99A, 0x8D07), (0xD99B, 0x8D08), (0xD99C, 0x8D09), (0xD99D, 0x8D0A), (0xD99E, 0x8D0B), (0xD99F, 0x8D0C),
     (0xD9A0, 0x8D0D), (0xD9A1, 0x4F5F), (0xD9A2, 0x4F57), (0xD9A3, 0x4F32), (0xD9A4, 0x4F3D), (0xD9A5, 0x4F76),
     (0xD9A6, 0x4F74), (0xD9A7, 0x4F91), (0xD9A8, 0x4F89), (0xD9A9, 0x4F83), (0xD9AA, 0x4F8F), (0xD9AB, 0x4F7E),
     (0xD9AC, 0x4F7B), (0xD9AD, 0x4FAA), (0xD9AE, 0x4F7C), (0xD9AF, 0x4FAC), (0xD9B0, 0x4F94), (0xD9B1, 0x4FE6),
     (0xD9B2, 0x4FE8), (0xD9B3, 0x4FEA), (0xD9B4, 0x4FC5), (0xD9B5, 0x4FDA), (0xD9B6, 0x4FE3), (0xD9B7, 0x4FDC),
     (0xD9B8, 0x4FD1), (0xD9B9, 0x4FDF), (0xD9BA, 0x4FF8), (0xD9BB, 0x5029), (0xD9BC, 0x504C), (0xD9BD, 0x4FF3),
     (0xD9BE, 0x502C), (0xD9BF, 0x500F), (0xD9C0, 0x502E), (0xD9C1, 0x502D), (0xD9C2, 0x4FFE), (0xD9C3, 0x501C),
     (0xD9C4, 0x500C), (0xD9C5, 0x5025), (0xD9C6, 0x5028), (0xD9C7, 0x507E), (0xD9C8, 0x5043), (0xD9C9, 0x5055),
     (0xD9CA, 0x5048), (0xD9CB, 0x504E), (0xD9CC, 0x506C), (0xD9CD, 0x507B), (0xD9CE, 0x50A5), (0xD9CF, 0x50A7),
     (0xD9D0, 0x50A9), (0xD9D1, 0x50BA), (0xD9D2, 0x50D6), (0xD9D3, 0x5106), (0xD9D4, 0x50ED), (0xD9D5, 0x50EC),
     (0xD9D6, 0x50E6), (0xD9D7, 0x50EE), (0xD9D8, 0x5107), (0xD9D9, 0x510B), (0xD9DA, 0x4EDD), (0xD9DB, 0x6C3D),
     (0xD9DC, 0x4F58), (0xD9DD, 0x4F65), (0xD9DE, 0x4FCE), (0xD9DF, 0x9FA0), (0xD9E0, 0x6C46), (0xD9E1, 0x7C74),
     (0xD9E2, 0x516E), (0xD9E3, 0x5DFD), (0xD9E4, 0x9EC9), (0xD9E5, 0x9998), (0xD9E6, 0x5181), (0xD9E7, 0x5914),
     (0xD9E8, 0x52F9), (0xD9E9, 0x530D), (0xD9EA, 0x8A07), (0xD9EB, 0x5310), (0xD9EC, 0x51EB), (0xD9ED, 0x5919),
     (0xD9EE, 0x5155), (0xD9EF, 0x4EA0), (0xD9F0, 0x5156), (0xD9F1, 0x4EB3), (0xD9F2, 0x886E), (0xD9F3, 0x88A4),
     (0xD9F4, 0x4EB5), (0xD9F5, 0x8114), (0xD9F6, 0x88D2), (0xD9F7, 0x7980), (0xD9F8, 0x5B34), (0xD9F9, 0x8803)]"

lemma ucs2_gbk_rows_105_climb: "climb 0xd962 ucs2_gbk_rows_105 = Some 0xd9f9"
  unfolding ucs2_gbk_rows_105_def by (intro climb_num climb_end; simp only: numeral_less_iff less_num_simps le_num_simps)

definition ucs2_gbk_rows_106 :: "code_map list" where
  "ucs2_gbk_rows_106 = [
     (0xD9FA, 0x7FB8), (0xD9FB, 0x51AB), (0xD9FC, 0x51B1), (0xD9FD, 0x51BD), (0xD9FE, 0x51BC), (0xDA40, 0x8D0E),
     (0xDA41, 0x8D0F), (0xDA42, 0x8D10), (0xDA43, 0x8D11), (0xDA44, 0x8D12), (0xDA45, 0x8D13), (0xDA46, 0x8D14),
     (0xDA47, 0x8D15), (0xDA48, 0x8D16), (0xDA49, 0x8D17), (0xDA4A, 0x8D18), (0xDA4B, 0x8D19), (0xDA4C, 0x8D1A),
     (0xDA4D, 0x8D1B), (0xDA4E, 0x8D1C), (0xDA4F, 0x8D20), (0xDA50, 0x8D51), (0xDA51, 0x8D52), (0xDA52, 0x8D57),
     (0xDA53, 0x8D5F), (0xDA54, 0x8D65), (0xDA55, 0x8D68), (0xDA56, 0x8D69), (0xDA57, 0x8D6A), (0xDA58, 0x8D6C),
     (0xDA59, 0x8D6E), (0xDA5A, 0x8D6F), (0xDA5B, 0x8D71), (0xDA5C, 0x8D72), (0xDA5D, 0x8D78), (0xDA5E, 0x8D79),
     (0xDA5F, 0x8D7A), (0xDA60, 0x8D7B), (0xDA61, 0x8D7C), (0xDA62, 0x8D7D), (0xDA63, 0x8D7E), (0xDA64, 0x8D7F),
     (0xDA65, 0x8D80), (0xDA66, 0x8D82), (0xDA67, 0x8D83), (0xDA68, 0x8D86), (0xDA69, 0x8D87), (0xDA6A, 0x8D88),
     (0xDA6B, 0x8D89), (0xDA6C, 0x8D8C), (0xDA6D, 0x8D8D), (0xDA6E, 0x8D8E), (0xDA6F, 0x8D8F), (0xDA70, 0x8D90),
     (0xDA71, 0x8D92), (0xDA72, 0x8D93), (0xDA73, 0x8D95), (0xDA74, 0x8D96), (0xDA75, 0x8D97), (0xDA76, 0x8D98),
     (0xDA77, 0x8D99), (0xDA78, 0x8D9A), (0xDA79, 0x8D9B), (0xDA7A, 0x8D9C), (0xDA7B, 0x8D9D), (0xDA7C, 0x8D9E),
     (0xDA7D, 0x8DA0), (0xDA7E, 0x8DA1), (0xDA80, 0x8DA2), (0xDA81, 0x8DA4), (0xDA82, 0x8DA5), (0xDA83, 0x8DA6),
     (0xDA84, 0x8DA7), (0xDA85, 0x8DA8), (0xDA86, 0x8DA9), (0xDA87, 0x8DAA), (0xDA88, 0x8DAB), (0xDA89, 0x8DAC),
     (0xDA8A, 0x8DAD), (0xDA8B, 0x8DAE), (0xDA8C, 0x8DAF), (0xDA8D, 0x8DB0), (0xDA8E, 0x8DB2), (0xDA8F, 0x8DB6),
     (0xDA90, 0x8DB7), (0xDA91, 0x8DB9), (0xDA92, 0x8DBB), (0xDA93, 0x8DBD), (0xDA94, 0x8DC0), (0xDA95, 0x8DC1),
     (0xDA96, 0x8DC2), (0xDA97, 0x8DC5), (0xDA98, 0x8DC7), (0xDA99, 0x8DC8), (0xDA9A, 0x8DC9), (0xDA9B, 0x8DCA),
     (0xDA9C, 0x8DCD), (0xDA9D, 0x8DD0), (0xDA9E, 0x8DD2), (0xDA9F, 0x8DD3), (0xDAA0, 0x8DD4), (0xDAA1, 0x51C7),
     (0xDAA2, 0x5196), (0xDAA3, 0x51A2), (0xDAA4, 0x51A5), (0xDAA5, 0x8BA0), (0xDAA6, 0x8BA6), (0xDAA7, 0x8BA7),
     (0xDAA8, 0x8BAA), (0xDAA9, 0x8BB4), (0xDAAA, 0x8BB5), (0xDAAB, 0x8BB7), (0xDAAC, 0x8BC2), (0xDAAD, 0x8BC3),
     (0xDAAE, 0x8BCB), (0xDAAF, 0x8BCF), (0xDAB0, 0x8BCE), (0xDAB1, 0x8BD2), (0xDAB2, 0x8BD3), (0xDAB3, 0x8BD4),
     (0xDAB4, 0x8BD6), (0xDAB5, 0x8BD8), (0xDAB6, 0x8BD9), (0xDAB7, 0x8BDC), (0xDAB8, 0x8BDF), (0xDAB9, 0x8BE0),
     (0xDABA, 0x8BE4), (0xDABB, 0x8BE8), (0xDABC, 0x8BE9), (0xDABD, 0x8BEE), (0xDABE, 0x8BF0), (0xDABF, 0x8BF3),
     (0xDAC0, 0x8BF6), (0xDAC1, 0x8BF9), (0xDAC2, 0x8BFC), (0xDAC3, 0x8BFF), (0xDAC4, 0x8C00), (0xDAC5, 0x8C02),
     (0xDAC6, 0x8C04), (0xDAC7, 0x8C07), (0xDAC8, 0x8C0C), (0xDAC9, 0x8C0F), (0xDACA, 0x8C11), (0xDACB, 0x8C12),
     (0xDACC, 0x8C14), (0xDACD, 0x8C15), (0xDACE, 0x8C16), (0xDACF, 0x8C19), (0xDAD0, 0x8C1B), (0xDAD1, 0x8C18)]"

lemma ucs2_gbk_rows_106_climb: "climb 0xd9f9 ucs2_gbk_rows_106 = Some 0xdad1"
  unfolding ucs2_gbk_rows_106_def by (intro climb_num climb_end; simp only: numeral_less_iff less_num_simps le_num_simps)

definition ucs2_gbk_rows_107 :: "code_map list" where
  "ucs2_gbk_rows_107 = [
     (0xDAD2, 0x8C1D), (0xDAD3, 0x8C1F), (0xDAD4, 0x8C20), (0xDAD5, 0x8C21), (0xDAD6, 0x8C25), (0xDAD7, 0x8C27),
     (0xDAD8, 0x8C2A), (0xDAD9, 0x8C2B), (0xDADA, 0x8C2E), (0xDADB, 0x8C2F), (0xDADC, 0x8C32), (0xDADD, 0x8C33),
     (0xDADE, 0x8C35), (0xDADF, 0x8C36), (0xDAE0, 0x5369), (0xDAE1, 0x537A), (0xDAE2, 0x961D), (0xDAE3, 0x9622),
     (0xDAE4, 0x9621), (0xDAE5, 0x9631), (0xDAE6, 0x962A), (0xDAE7, 0x963D), (0xDAE8, 0x963C), (0xDAE9, 0x9642),
     (0xDAEA, 0x9649), (0xDAEB, 0x9654), (0xDAEC, 0x965F), (0xDAED, 0x9667), (0xDAEE, 0x966C), (0xDAEF, 0x9672),
     (0xDAF0, 0x9674), (0xDAF1, 0x9688), (0xDAF2, 0x968D), (0xDAF3, 0x9697), (0xDAF4, 0x96B0), (0xDAF5, 0x9097),
     (0xDAF6, 0x909B), (0xDAF7, 0x909D), (0xDAF8, 0x9099), (0xDAF9, 0x90AC), (0xDAFA, 0x90A1), (0xDAFB, 0x90B4),
     (0xDAFC, 0x90B3), (0xDAFD, 0x90B6), (0xDAFE, 0x90BA), (0xDB40, 0x8DD5), (0xDB41, 0x8DD8), (0xDB42, 0x8DD9),
     (0xDB43, 0x8DDC), (0xDB44, 0x8DE0), (0xDB45, 0x8DE1), (0xDB46, 0x8DE2), (0xDB47, 0x8DE5), (0xDB48, 0x8DE6),
     (0xDB49, 0x8DE7), (0xDB4A, 0x8DE9), (0xDB4B, 0x8DED), (0xDB4C, 0x8DEE), (0xDB4D, 0x8DF0), (0xDB4E, 0x8DF1),
     (0xDB4F, 0x8DF2), (0xDB50, 0x8DF4), (0xDB51, 0x8DF6), (0xDB52, 0x8DFC), (0xDB53, 0x8DFE), (0xDB54, 0x8DFF),
     (0xDB55, 0x8E00), (0xDB56, 0x8E01), (0xDB57, 0x8E02), (0xDB58, 0x8E03), (0xDB59, 0x8E04), (0xDB5A, 0x8E06),
     (0xDB5B, 0x8E07), (0xDB5C, 0x8E08), (0xDB5D, 0x8E0B), (0xDB5E, 0x8E0D), (0xDB5F, 0x8E0E), (0xDB60, 0x8E10),
     (0xDB61, 0x8E11), (0xDB62, 0x8E12), (0xDB63, 0x8E13), (0xDB64, 0x8E15), (0xDB65, 0x8E16), (0xDB66, 0x8E17),
     (0xDB67, 0x8E18), (0xDB68, 0x8E19), (0xDB69, 0x8E1A), (0xDB6A, 0x8E1B), (0xDB6B, 0x8E1C), (0xDB6C, 0x8E20),
     (0xDB6D, 0x8E21), (0xDB6E, 0x8E24), (0xDB6F, 0x8E25), (0xDB70, 0x8E26), (0xDB71, 0x8E27), (0xDB72, 0x8E28),
     (0xDB73, 0x8E2B), (0xDB74, 0x8E2D), (0xDB75, 0x8E30), (0xDB76, 0x8E32), (0xDB77, 0x8E33), (0xDB78, 0x8E34),
     (0xDB79, 0x8E36), (0xDB7A, 0x8E37), (0xDB7B, 0x8E38), (0xDB7C, 0x8E3B), (0xDB7D, 0x8E3C), (0xDB7E, 0x8E3E),
     (0xDB80, 0x8E3F), (0xDB81, 0x8E43), (0xDB82, 0x8E45), (0xDB83, 0x8E46), (0xDB84, 0x8E4C), (0xDB85, 0x8E4D),
     (0xDB86, 0x8E4E), (0xDB87, 0x8E4F), (0xDB88, 0x8E50), (0xDB89, 0x8E53), (0xDB8A, 0x8E54), (0xDB8B, 0x8E55),
     (0xDB8C, 0x8E56), (0xDB8D, 0x8E57), (0xDB8E, 0x8E58), (0xDB8F, 0x8E5A), (0xDB90, 0x8E5B), (0xDB91, 0x8E5C),
     (0xDB92, 0x8E5D), (0xDB93, 0x8E5E), (0xDB94, 0x8E5F), (0xDB95, 0x8E60), (0xDB96, 0x8E61), (0xDB97, 0x8E62),
     (0xDB98, 0x8E63), (0xDB99, 0x8E64), (0xDB9A, 0x8E65), (0xDB9B, 0x8E67), (0xDB9C, 0x8E68), (0xDB9D, 0x8E6A),
     (0xDB9E, 0x8E6B), (0xDB9F, 0x8E6E), (0xDBA0, 0x8E71), (0xDBA1, 0x90B8), (0xDBA2, 0x90B0), (0xDBA3, 0x90CF),
     (0xDBA4, 0x90C5), (0xDBA5, 0x90BE), (0xDBA6, 0x90D0), (0xDBA7, 0x90C4), (0xDBA8, 0x90C7), (0xDBA9, 0x90D3)]"

lemma ucs2_gbk_rows_107_climb: "climb 0xdad1 ucs2_gbk_rows_107 = Some 0xdba9"
  unfolding ucs2_gbk_rows_107_def by (intro climb_num climb_end; simp only: numeral_less_iff less_num_simps le_num_simps)

definition ucs2_gbk_rows_108 :: "code_map list" where
  "ucs2_gbk_rows_108 = [
     (0xDBAA, 0x90E6), (0xDBAB, 0x90E2), (0xDBAC, 0x90DC), (0xDBAD, 0x90D7), (0xDBAE, 0x90DB), (0xDBAF, 0x90EB),
     (0xDBB0, 0x90EF), (0xDBB1, 0x90FE), (0xDBB2, 0x9104), (0xDBB3, 0x9122), (0xDBB4, 0x911E), (0xDBB5, 0x9123),
     (0xDBB6, 0x9131), (0xDBB7, 0x912F), (0xDBB8, 0x9139), (0xDBB9, 0x9143), (0xDBBA, 0x9146), (0xDBBB, 0x520D),
     (0xDBBC, 0x5942), (0xDBBD, 0x52A2), (0xDBBE, 0x52AC), (0xDBBF, 0x52AD), (0xDBC0, 0x52BE), (0xDBC1, 0x54FF),
     (0xDBC2, 0x52D0), (0xDBC3, 0x52D6), (0xDBC4, 0x52F0), (0xDBC5, 0x53DF), (0xDBC6, 0x71EE), (0xDBC7, 0x77CD),
     (0xDBC8, 0x5EF4), (0xDBC9, 0x51F5), (0xDBCA, 0x51FC), (0xDBCB, 0x9B2F), (0xDBCC, 0x53B6), (0xDBCD, 0x5F01),
     (0xDBCE, 0x755A), (0xDBCF, 0x5DEF), (0xDBD0, 0x574C), (0xDBD1, 0x57A9), (0xDBD2, 0x57A1), (0xDBD3, 0x587E),
     (0xDBD4, 0x58BC), (0xDBD5, 0x58C5), (0xDBD6, 0x58D1), (0xDBD7, 0x5729), (0xDBD8, 0x572C), (0xDBD9, 0x572A),
     (0xDBDA, 0x5733), (0xDBDB, 0x5739), (0xDBDC, 0x572E), (0xDBDD, 0x572F), (0xDBDE, 0x575C), (0xDBDF, 0x573B),
     (0xDBE0, 0x5742), (0xDBE1, 0x5769), (0xDBE2, 0x5785), (0xDBE3, 0x576B), (0xDBE4, 0x5786), (0xDBE5, 0x577C),
     (0xDBE6, 0x577B), (0xDBE7, 0x5768), (0xDBE8, 0x576D), (0xDBE9, 0x5776), (0xDBEA, 0x5773), (0xDBEB, 0x57AD),
     (0xDBEC, 0x57A4), (0xDBED, 0x578C), (0xDBEE, 0x57B2), (0xDBEF, 0x57CF), (0xDBF0, 0x57A7), (0xDBF1, 0x57B4),
     (0xDBF2, 0x5793), (0xDBF3, 0x57A0), (0xDBF4, 0x57D5), (0xDBF5, 0x57D8), (0xDBF6, 0x57DA), (0xDBF7, 0x57D9),
     (0xDBF8, 0x57D2), (0xDBF9, 0x57B8), (0xDBFA, 0x57F4), (0xDBFB, 0x57EF), (0xDBFC, 0x57F8), (0xDBFD, 0x57E4),
     (0xDBFE, 0x57DD), (0xDC40, 0x8E73), (0xDC41, 0x8E75), (0xDC42, 0x8E77), (0xDC43, 0x8E78), (0xDC44, 0x8E79),
     (0xDC45, 0x8E7A), (0xDC46, 0x8E7B), (0xDC47, 0x8E7D), (0xDC48, 0x8E7E), (0xDC49, 0x8E80), (0xDC4A, 0x8E82),
     (0xDC4B, 0x8E83), (0xDC4C, 0x8E84), (0xDC4D, 0x8E86), (0xDC4E, 0x8E88), (0xDC4F, 0x8E89), (0xDC50, 0x8E8A),
     (0xDC51, 0x8E8B), (0xDC52, 0x8E8C), (0xDC53, 0x8E8D), (0xDC54, 0x8E8E), (0xDC55, 0x8E91), (0xDC56, 0x8E92),
     (0xDC57, 0x8E93), (0xDC58, 0x8E95), (0xDC59, 0x8E96), (0xDC5A, 0x8E97), (0xDC5B, 0x8E98), (0xDC5C, 0x8E99),
     (0xDC5D, 0x8E9A), (0xDC5E, 0x8E9B), (0xDC5F, 0x8E9D), (0xDC60, 0x8E9F), (0xDC61, 0x8EA0), (0xDC62, 0x8EA1),
     (0xDC63, 0x8EA2), (0xDC64, 0x8EA3), (0xDC65, 0x8EA4), (0xDC66, 0x8EA5), (0xDC67, 0x8EA6), (0xDC68, 0x8EA7),
     (0xDC69, 0x8EA8), (0xDC6A, 0x8EA9), (0xDC6B, 0x8EAA), (0xDC6C, 0x8EAD), (0xDC6D, 0x8EAE), (0xDC6E, 0x8EB0),
     (0xDC6F, 0x8EB1), (0xDC70, 0x8EB3), (0xDC71, 0x8EB4), (0xDC72, 0x8EB5), (0xDC73, 0x8EB6), (0xDC74, 0x8EB7),
     (0xDC75, 0x8EB8), (0xDC76, 0x8EB9), (0xDC77, 0x8EBB), (0xDC78, 0x8EBC), (0xDC79, 0x8EBD), (0xDC7A, 0x8EBE),
     (0xDC7B, 0x8EBF), (0xDC7C, 0x8EC0), (0xDC7D, 0x8EC1), (0xDC7E, 0x8EC2), (0xDC80, 0x8EC3), (0xDC81, 0x8EC4)]"

lemma ucs2_gbk_rows_108_climb: "climb 0xdba9 ucs2_gbk_rows_108 = Some 0xdc81"
  unfolding ucs2_gbk_rows_108_def by (intro climb_num climb_end; simp only: numeral_less_iff less_num_simps le_num_simps)

definition ucs2_gbk_rows_109 :: "code_map list" where
  "ucs2_gbk_rows_109 = [
     (0xDC82, 0x8EC5), (0xDC83, 0x8EC6), (0xDC84, 0x8EC7), (0xDC85, 0x8EC8), (0xDC86, 0x8EC9), (0xDC87, 0x8ECA),
     (0xDC88, 0x8ECB), (0xDC89, 0x8ECC), (0xDC8A, 0x8ECD), (0xDC8B, 0x8ECF), (0xDC8C, 0x8ED0), (0xDC8D, 0x8ED1),
     (0xDC8E, 0x8ED2), (0xDC8F, 0x8ED3), (0xDC90, 0x8ED4), (0xDC91, 0x8ED5), (0xDC92, 0x8ED6), (0xDC93, 0x8ED7),
     (0xDC94, 0x8ED8), (0xDC95, 0x8ED9), (0xDC96, 0x8EDA), (0xDC97, 0x8EDB), (0xDC98, 0x8EDC), (0xDC99, 0x8EDD),
     (0xDC9A, 0x8EDE), (0xDC9B, 0x8EDF), (0xDC9C, 0x8EE0), (0xDC9D, 0x8EE1), (0xDC9E, 0x8EE2), (0xDC9F, 0x8EE3),
     (0xDCA0, 0x8EE4), (0xDCA1, 0x580B), (0xDCA2, 0x580D), (0xDCA3, 0x57FD), (0xDCA4, 0x57ED), (0xDCA5, 0x5800),
     (0xDCA6, 0x581E), (0xDCA7, 0x5819), (0xDCA8, 0x5844), (0xDCA9, 0x5820), (0xDCAA, 0x5865), (0xDCAB, 0x586C),
     (0xDCAC, 0x5881), (0xDCAD, 0x5889), (0xDCAE, 0x589A), (0xDCAF, 0x5880), (0xDCB0, 0x99A8), (0xDCB1, 0x9F19),
     (0xDCB2, 0x61FF), (0xDCB3, 0x8279), (0xDCB4, 0x827D), (0xDCB5, 0x827F), (0xDCB6, 0x828F), (0xDCB7, 0x828A),
     (0xDCB8, 0x82A8), (0xDCB9, 0x8284), (0xDCBA, 0x828E), (0xDCBB, 0x8291), (0xDCBC, 0x8297), (0xDCBD, 0x8299),
     (0xDCBE, 0x82AB), (0xDCBF, 0x82B8), (0xDCC0, 0x82BE), (0xDCC1, 0x82B0), (0xDCC2, 0x82C8), (0xDCC3, 0x82CA),
     (0xDCC4, 0x82E3), (0xDCC5, 0x8298), (0xDCC6, 0x82B7), (0xDCC7, 0x82AE), (0xDCC8, 0x82CB), (0xDCC9, 0x82CC),
     (0xDCCA, 0x82C1), (0xDCCB, 0x82A9), (0xDCCC, 0x82B4), (0xDCCD, 0x82A1), (0xDCCE, 0x82AA), (0xDCCF, 0x829F),
     (0xDCD0, 0x82C4), (0xDCD1, 0x82CE), (0xDCD2, 0x82A4), (0xDCD3, 0x82E1), (0xDCD4, 0x8309), (0xDCD5, 0x82F7),
     (0xDCD6, 0x82E4), (0xDCD7, 0x830F), (0xDCD8, 0x8307), (0xDCD9, 0x82DC), (0xDCDA, 0x82F4), (0xDCDB, 0x82D2),
     (0xDCDC, 0x82D8), (0xDCDD, 0x830C), (0xDCDE, 0x82FB), (0xDCDF, 0x82D3), (0xDCE0, 0x8311), (0xDCE1, 0x831A),
     (0xDCE2, 0x8306), (0xDCE3, 0x8314), (0xDCE4, 0x8315), (0xDCE5, 0x82E0), (0xDCE6, 0x82D5), (0xDCE7, 0x831C),
     (0xDCE8, 0x8351), (0xDCE9, 0x835B), (0xDCEA, 0x835C), (0xDCEB, 0x8308), (0xDCEC, 0x8392), (0xDCED, 0x833C),
     (0xDCEE, 0x8334), (0xDCEF, 0x8331), (0xDCF0, 0x839B), (0xDCF1, 0x835E), (0xDCF2, 0x832F), (0xDCF3, 0x834F),
     (0xDCF4, 0x8347), (0xDCF5, 0x8343), (0xDCF6, 0x835F), (0xDCF7, 0x8340), (0xDCF8, 0x8317), (0xDCF9, 0x8360),
     (0xDCFA, 0x832D), (0xDCFB, 0x833A), (0xDCFC, 0x8333), (0xDCFD, 0x8366), (0xDCFE, 0x8365), (0xDD40, 0x8EE5),
     (0xDD41, 0x8EE6), (0xDD42, 0x8EE7), (0xDD43, 0x8EE8), (0xDD44, 0x8EE9), (0xDD45, 0x8EEA), (0xDD46, 0x8EEB),
     (0xDD47, 0x8EEC), (0xDD48, 0x8EED), (0xDD49, 0x8EEE), (0xDD4A, 0x8EEF), (0xDD4B, 0x8EF0), (0xDD4C, 0x8EF1),
     (0xDD4D, 0x8EF2), (0xDD4E, 0x8EF3), (0xDD4F, 0x8EF4), (0xDD50, 0x8EF5), (0xDD51, 0x8EF6), (0xDD52, 0x8EF7),
     (0xDD53, 0x8EF8), (0xDD54, 0x8EF9), (0xDD55, 0x8EFA), (0xDD56, 0x8EFB), (0xDD57, 0x8EFC), (0xDD58, 0x8EFD)]"

lemma ucs2_gbk_rows_109_climb: "climb 0xdc81 ucs2_gbk_rows_109 = Some 0xdd58"
  unfolding ucs2_gbk_rows_109_def by (intro climb_num climb_end; simp only: numeral_less_iff less_num_simps le_num_simps)

definition ucs2_gbk_rows_110 :: "code_map list" where
  "ucs2_gbk_rows_110 = [
     (0xDD59, 0x8EFE), (0xDD5A, 0x8EFF), (0xDD5B, 0x8F00), (0xDD5C, 0x8F01), (0xDD5D, 0x8F02), (0xDD5E, 0x8F03),
     (0xDD5F, 0x8F04), (0xDD60, 0x8F05), (0xDD61, 0x8F06), (0xDD62, 0x8F07), (0xDD63, 0x8F08), (0xDD64, 0x8F09),
     (0xDD65, 0x8F0A), (0xDD66, 0x8F0B), (0xDD67, 0x8F0C), (0xDD68, 0x8F0D), (0xDD69, 0x8F0E), (0xDD6A, 0x8F0F),
     (0xDD6B, 0x8F10), (0xDD6C, 0x8F11), (0xDD6D, 0x8F12), (0xDD6E, 0x8F13), (0xDD6F, 0x8F14), (0xDD70, 0x8F15),
     (0xDD71, 0x8F16), (0xDD72, 0x8F17), (0xDD73, 0x8F18), (0xDD74, 0x8F19), (0xDD75, 0x8F1A), (0xDD76, 0x8F1B),
     (0xDD77, 0x8F1C), (0xDD78, 0x8F1D), (0xDD79, 0x8F1E), (0xDD7A, 0x8F1F), (0xDD7B, 0x8F20), (0xDD7C, 0x8F21),
     (0xDD7D, 0x8F22), (0xDD7E, 0x8F23), (0xDD80, 0x8F24), (0xDD81, 0x8F25), (0xDD82, 0x8F26), (0xDD83, 0x8F27),
     (0xDD84, 0x8F28), (0xDD85, 0x8F29), (0xDD86, 0x8F2A), (0xDD87, 0x8F2B), (0xDD88, 0x8F2C), (0xDD89, 0x8F2D),
     (0xDD8A, 0x8F2E), (0xDD8B, 0x8F2F), (0xDD8C, 0x8F30), (0xDD8D, 0x8F31), (0xDD8E, 0x8F32), (0xDD8F, 0x8F33),
     (0xDD90, 0x8F34), (0xDD91, 0x8F35), (0xDD92, 0x8F36), (0xDD93, 0x8F37), (0xDD94, 0x8F38), (0xDD95, 0x8F39),
     (0xDD96, 0x8F3A), (0xDD97, 0x8F3B), (0xDD98, 0x8F3C), (0xDD99, 0x8F3D), (0xDD9A, 0x8F3E), (0xDD9B, 0x8F3F),
     (0xDD9C, 0x8F40), (0xDD9D, 0x8F41), (0xDD9E, 0x8F42), (0xDD9F, 0x8F43), (0xDDA0, 0x8F44), (0xDDA1, 0x8368),
     (0xDDA2, 0x831B), (0xDDA3, 0x8369), (0xDDA4, 0x836C), (0xDDA5, 0x836A), (0xDDA6, 0x836D), (0xDDA7, 0x836E),
     (0xDDA8, 0x83B0), (0xDDA9, 0x8378), (0xDDAA, 0x83B3), (0xDDAB, 0x83B4), (0xDDAC, 0x83A0), (0xDDAD, 0x83AA),
     (0xDDAE, 0x8393), (0xDDAF, 0x839C), (0xDDB0, 0x8385), (0xDDB1, 0x837C), (0xDDB2, 0x83B6), (0xDDB3, 0x83A9),
     (0xDDB4, 0x837D), (0xDDB5, 0x83B8), (0xDDB6, 0x837B), (0xDDB7, 0x8398), (0xDDB8, 0x839E), (0xDDB9, 0x83A8),
     (0xDDBA, 0x83BA), (0xDDBB, 0x83BC), (0xDDBC, 0x83C1), (0xDDBD, 0x8401), (0xDDBE, 0x83E5), (0xDDBF, 0x83D8),
     (0xDDC0, 0x5807), (0xDDC1, 0x8418), (0xDDC2, 0x840B), (0xDDC3, 0x83DD), (0xDDC4, 0x83FD), (0xDDC5, 0x83D6),
     (0xDDC6, 0x841C), (0xDDC7, 0x8438), (0xDDC8, 0x8411), (0xDDC9, 0x8406), (0xDDCA, 0x83D4), (0xDDCB, 0x83DF),
     (0xDDCC, 0x840F), (0xDDCD, 0x8403), (0xDDCE, 0x83F8), (0xDDCF, 0x83F9), (0xDDD0, 0x83EA), (0xDDD1, 0x83C5),
     (0xDDD2, 0x83C0), (0xDDD3, 0x8426), (0xDDD4, 0x83F0), (0xDDD5, 0x83E1), (0xDDD6, 0x845C), (0xDDD7, 0x8451),
     (0xDDD8, 0x845A), (0xDDD9, 0x8459), (0xDDDA, 0x8473), (0xDDDB, 0x8487), (0xDDDC, 0x8488), (0xDDDD, 0x847A),
     (0xDDDE, 0x8489), (0xDDDF, 0x8478), (0xDDE0, 0x843C), (0xDDE1, 0x8446), (0xDDE2, 0x8469), (0xDDE3, 0x8476),
     (0xDDE4, 0x848C), (0xDDE5, 0x848E), (0xDDE6, 0x8431), (0xDDE7, 0x846D), (0xDDE8, 0x84C1), (0xDDE9, 0x84CD),
     (0xDDEA, 0x84D0), (0xDDEB, 0x84E6), (0xDDEC, 0x84BD), (0xDDED, 0x84D3), (0xDDEE, 0x84CA), (0xDDEF, 0x84BF)]"

lemma ucs2_gbk_rows_110_climb: "climb 0xdd58 ucs2_gbk_rows_110 = Some 0xddef"
  unfolding ucs2_gbk_rows_110_def by (intro climb_num climb_end; simp only: numeral_less_iff less_num_simps le_num_simps)

definition ucs2_gbk_rows_111 :: "code_map list" where
  "ucs2_gbk_rows_111 = [
     (0xDDF0, 0x84BA), (0xDDF1, 0x84E0), (0xDDF2, 0x84A1), (0xDDF3, 0x84B9), (0xDDF4, 0x84B4), (0xDDF5, 0x8497),
     (0xDDF6, 0x84E5), (0xDDF7, 0x84E3), (0xDDF8, 0x850C), (0xDDF9, 0x750D), (0xDDFA, 0x8538), (0xDDFB, 0x84F0),
     (0xDDFC, 0x8539), (0xDDFD, 0x851F), (0xDDFE, 0x853A), (0xDE40, 0x8F45), (0xDE41, 0x8F46), (0xDE42, 0x8F47),
     (0xDE43, 0x8F48), (0xDE44, 0x8F49), (0xDE45, 0x8F4A), (0xDE46, 0x8F4B), (0xDE47, 0x8F4C), (0xDE48, 0x8F4D),
     (0xDE49, 0x8F4E), (0xDE4A, 0x8F4F), (0xDE4B, 0x8F50), (0xDE4C, 0x8F51), (0xDE4D, 0x8F52), (0xDE4E, 0x8F53),
     (0xDE4F, 0x8F54), (0xDE50, 0x8F55), (0xDE51, 0x8F56), (0xDE52, 0x8F57), (0xDE53, 0x8F58), (0xDE54, 0x8F59),
     (0xDE55, 0x8F5A), (0xDE56, 0x8F5B), (0xDE57, 0x8F5C), (0xDE58, 0x8F5D), (0xDE59, 0x8F5E), (0xDE5A, 0x8F5F),
     (0xDE5B, 0x8F60), (0xDE5C, 0x8F61), (0xDE5D, 0x8F62), (0xDE5E, 0x8F63), (0xDE5F, 0x8F64), (0xDE60, 0x8F65),
     (0xDE61, 0x8F6A), (0xDE62, 0x8F80), (0xDE63, 0x8F8C), (0xDE64, 0x8F92), (0xDE65, 0x8F9D), (0xDE66, 0x8FA0),
     (0xDE67, 0x8FA1), (0xDE68, 0x8FA2), (0xDE69, 0x8FA4), (0xDE6A, 0x8FA5), (0xDE6B, 0x8FA6), (0xDE6C, 0x8FA7),
     (0xDE6D, 0x8FAA), (0xDE6E, 0x8FAC), (0xDE6F, 0x8FAD), (0xDE70, 0x8FAE), (0xDE71, 0x8FAF), (0xDE72, 0x8FB2),
     (0xDE73, 0x8FB3), (0xDE74, 0x8FB4), (0xDE75, 0x8FB5), (0xDE76, 0x8FB7), (0xDE77, 0x8FB8), (0xDE78, 0x8FBA),
     (0xDE79, 0x8FBB), (0xDE7A, 0x8FBC), (0xDE7B, 0x8FBF), (0xDE7C, 0x8FC0), (0xDE7D, 0x8FC3), (0xDE7E, 0x8FC6),
     (0xDE80, 0x8FC9), (0xDE81, 0x8FCA), (0xDE82, 0x8FCB), (0xDE83, 0x8FCC), (0xDE84, 0x8FCD), (0xDE85, 0x8FCF),
     (0xDE86, 0x8FD2), (0xDE87, 0x8FD6), (0xDE88, 0x8FD7), (0xDE89, 0x8FDA), (0xDE8A, 0x8FE0), (0xDE8B, 0x8FE1),
     (0xDE8C, 0x8FE3), (0xDE8D, 0x8FE7), (0xDE8E, 0x8FEC), (0xDE8F, 0x8FEF), (0xDE90, 0x8FF1), (0xDE91, 0x8FF2),
     (0xDE92, 0x8FF4), (0xDE93, 0x8FF5), (0xDE94, 0x8FF6), (0xDE95, 0x8FFA), (0xDE96, 0x8FFB), (0xDE97, 0x8FFC),
     (0xDE98, 0x8FFE), (0xDE99, 0x8FFF), (0xDE9A, 0x9007), (0xDE9B, 0x9008), (0xDE9C, 0x900C), (0xDE9D, 0x900E),
     (0xDE9E, 0x9013), (0xDE9F, 0x9015), (0xDEA0, 0x9018), (0xDEA1, 0x8556), (0xDEA2, 0x853B), (0xDEA3, 0x84FF),
     (0xDEA4, 0x84FC), (0xDEA5, 0x8559), (0xDEA6, 0x8548), (0xDEA7, 0x8568), (0xDEA8, 0x8564), (0xDEA9, 0x855E),
     (0xDEAA, 0x857A), (0xDEAB, 0x77A2), (0xDEAC, 0x8543), (0xDEAD, 0x8572), (0xDEAE, 0x857B), (0xDEAF, 0x85A4),
     (0xDEB0, 0x85A8), (0xDEB1, 0x8587), (0xDEB2, 0x858F), (0xDEB3, 0x8579), (0xDEB4, 0x85AE), (0xDEB5, 0x859C),
     (0xDEB6, 0x8585), (0xDEB7, 0x85B9), (0xDEB8, 0x85B7), (0xDEB9, 0x85B0), (0xDEBA, 0x85D3), (0xDEBB, 0x85C1),
     (0xDEBC, 0x85DC), (0xDEBD, 0x85FF), (0xDEBE, 0x8627), (0xDEBF, 0x8605), (0xDEC0, 0x8629), (0xDEC1, 0x8616),
     (0xDEC2, 0x863C), (0xDEC3, 0x5EFE), (0xDEC4, 0x5F08), (0xDEC5, 0x593C), (0xDEC6, 0x5941), (0xDEC7, 0x8037)]"

lemma ucs2_gbk_rows_111_climb: "climb 0xddef ucs2_gbk_rows_111 = Some 0xdec7"
  unfolding ucs2_gbk_rows_111_def by (intro climb_num climb_end; simp only: numeral_less_iff less_num_simps le_num_simps)

definition ucs2_gbk_rows_112 :: "code_map list" where
  "ucs2_gbk_rows_112 = [
     (0xDEC8, 0x5955), (0xDEC9, 0x595A), (0xDECA, 0x5958), (0xDECB, 0x530F), (0xDECC, 0x5C22), (0xDECD, 0x5C25),
     (0xDECE, 0x5C2C), (0xDECF, 0x5C34), (0xDED0, 0x624C), (0xDED1, 0x626A), (0xDED2, 0x629F), (0xDED3, 0x62BB),
     (0xDED4, 0x62CA), (0xDED5, 0x62DA), (0xDED6, 0x62D7), (0xDED7, 0x62EE), (0xDED8, 0x6322), (0xDED9, 0x62F6),
     (0xDEDA, 0x6339), (0xDEDB, 0x634B), (0xDEDC, 0x6343), (0xDEDD, 0x63AD), (0xDEDE, 0x63F6), (0xDEDF, 0x6371),
     (0xDEE0, 0x637A), (0xDEE1, 0x638E), (0xDEE2, 0x63B4), (0xDEE3, 0x636D), (0xDEE4, 0x63AC), (0xDEE5, 0x638A),
     (0xDEE6, 0x6369), (0xDEE7, 0x63AE), (0xDEE8, 0x63BC), (0xDEE9, 0x63F2), (0xDEEA, 0x63F8), (0xDEEB, 0x63E0),
     (0xDEEC, 0x63FF), (0xDEED, 0x63C4), (0xDEEE, 0x63DE), (0xDEEF, 0x63CE), (0xDEF0, 0x6452), (0xDEF1, 0x63C6),
     (0xDEF2, 0x63BE), (0xDEF3, 0x6445), (0xDEF4, 0x6441), (0xDEF5, 0x640B), (0xDEF6, 0x641B), (0xDEF7, 0x6420),
     (0xDEF8, 0x640C), (0xDEF9, 0x6426), (0xDEFA, 0x6421), (0xDEFB, 0x645E), (0xDEFC, 0x6484), (0xDEFD, 0x646D),
     (0xDEFE, 0x6496), (0xDF40, 0x9019), (0xDF41, 0x901C), (0xDF42, 0x9023), (0xDF43, 0x9024), (0xDF44, 0x9025),
     (0xDF45, 0x9027), (0xDF46, 0x9028), (0xDF47, 0x9029), (0xDF48, 0x902A), (0xDF49, 0x902B), (0xDF4A, 0x902C),
     (0xDF4B, 0x9030), (0xDF4C, 0x9031), (0xDF4D, 0x9032), (0xDF4E, 0x9033), (0xDF4F, 0x9034), (0xDF50, 0x9037),
     (0xDF51, 0x9039), (0xDF52, 0x903A), (0xDF53, 0x903D), (0xDF54, 0x903F), (0xDF55, 0x9040), (0xDF56, 0x9043),
     (0xDF57, 0x9045), (0xDF58, 0x9046), (0xDF59, 0x9048), (0xDF5A, 0x9049), (0xDF5B, 0x904A), (0xDF5C, 0x904B),
     (0xDF5D, 0x904C), (0xDF5E, 0x904E), (0xDF5F, 0x9054), (0xDF60, 0x9055), (0xDF61, 0x9056), (0xDF62, 0x9059),
     (0xDF63, 0x905A), (0xDF64, 0x905C), (0xDF65, 0x905D), (0xDF66, 0x905E), (0xDF67, 0x905F), (0xDF68, 0x9060),
     (0xDF69, 0x9061), (0xDF6A, 0x9064), (0xDF6B, 0x9066), (0xDF6C, 0x9067), (0xDF6D, 0x9069), (0xDF6E, 0x906A),
     (0xDF6F, 0x906B), (0xDF70, 0x906C), (0xDF71, 0x906F), (0xDF72, 0x9070), (0xDF73, 0x9071), (0xDF74, 0x9072),
     (0xDF75, 0x9073), (0xDF76, 0x9076), (0xDF77, 0x9077), (0xDF78, 0x9078), (0xDF79, 0x9079), (0xDF7A, 0x907A),
     (0xDF7B, 0x907B), (0xDF7C, 0x907C), (0xDF7D, 0x907E), (0xDF7E, 0x9081), (0xDF80, 0x9084), (0xDF81, 0x9085),
     (0xDF82, 0x9086), (0xDF83, 0x9087), (0xDF84, 0x9089), (0xDF85, 0x908A), (0xDF86, 0x908C), (0xDF87, 0x908D),
     (0xDF88, 0x908E), (0xDF89, 0x908F), (0xDF8A, 0x9090), (0xDF8B, 0x9092), (0xDF8C, 0x9094), (0xDF8D, 0x9096),
     (0xDF8E, 0x9098), (0xDF8F, 0x909A), (0xDF90, 0x909C), (0xDF91, 0x909E), (0xDF92, 0x909F), (0xDF93, 0x90A0),
     (0xDF94, 0x90A4), (0xDF95, 0x90A5), (0xDF96, 0x90A7), (0xDF97, 0x90A8), (0xDF98, 0x90A9), (0xDF99, 0x90AB),
     (0xDF9A, 0x90AD), (0xDF9B, 0x90B2), (0xDF9C, 0x90B7), (0xDF9D, 0x90BC), (0xDF9E, 0x90BD), (0xDF9F, 0x90BF)]"

lemma ucs2_gbk_rows_112_climb: "climb 0xdec7 ucs2_gbk_rows_112 = Some 0xdf9f"
  unfolding ucs2_gbk_rows_112_def by (intro climb_num climb_end; simp only: numeral_less_iff less_num_simps le_num_simps)

definition ucs2_gbk_rows_113 :: "code_map list" where
  "ucs2_gbk_rows_113 = [
     (0xDFA0, 0x90C0), (0xDFA1, 0x647A), (0xDFA2, 0x64B7), (0xDFA3, 0x64B8), (0xDFA4, 0x6499), (0xDFA5, 0x64BA),
     (0xDFA6, 0x64C0), (0xDFA7, 0x64D0), (0xDFA8, 0x64D7), (0xDFA9, 0x64E4), (0xDFAA, 0x64E2), (0xDFAB, 0x6509),
     (0xDFAC, 0x6525), (0xDFAD, 0x652E), (0xDFAE, 0x5F0B), (0xDFAF, 0x5FD2), (0xDFB0, 0x7519), (0xDFB1, 0x5F11),
     (0xDFB2, 0x535F), (0xDFB3, 0x53F1), (0xDFB4, 0x53FD), (0xDFB5, 0x53E9), (0xDFB6, 0x53E8), (0xDFB7, 0x53FB),
     (0xDFB8, 0x5412), (0xDFB9, 0x5416), (0xDFBA, 0x5406), (0xDFBB, 0x544B), (0xDFBC, 0x5452), (0xDFBD, 0x5453),
     (0xDFBE, 0x5454), (0xDFBF, 0x5456), (0xDFC0, 0x5443), (0xDFC1, 0x5421), (0xDFC2, 0x5457), (0xDFC3, 0x5459),
     (0xDFC4, 0x5423), (0xDFC5, 0x5432), (0xDFC6, 0x5482), (0xDFC7, 0x5494), (0xDFC8, 0x5477), (0xDFC9, 0x5471),
     (0xDFCA, 0x5464), (0xDFCB, 0x549A), (0xDFCC, 0x549B), (0xDFCD, 0x5484), (0xDFCE, 0x5476), (0xDFCF, 0x5466),
     (0xDFD0, 0x549D), (0xDFD1, 0x54D0), (0xDFD2, 0x54AD), (0xDFD3, 0x54C2), (0xDFD4, 0x54B4), (0xDFD5, 0x54D2),
     (0xDFD6, 0x54A7), (0xDFD7, 0x54A6), (0xDFD8, 0x54D3), (0xDFD9, 0x54D4), (0xDFDA, 0x5472), (0xDFDB, 0x54A3),
     (0xDFDC, 0x54D5), (0xDFDD, 0x54BB), (0xDFDE, 0x54BF), (0xDFDF, 0x54CC), (0xDFE0, 0x54D9), (0xDFE1, 0x54DA),
     (0xDFE2, 0x54DC), (0xDFE3, 0x54A9), (0xDFE4, 0x54AA), (0xDFE5, 0x54A4), (0xDFE6, 0x54DD), (0xDFE7, 0x54CF),
     (0xDFE8, 0x54DE), (0xDFE9, 0x551B), (0xDFEA, 0x54E7), (0xDFEB, 0x5520), (0xDFEC, 0x54FD), (0xDFED, 0x5514),
     (0xDFEE, 0x54F3), (0xDFEF, 0x5522), (0xDFF0, 0x5523), (0xDFF1, 0x550F), (0xDFF2, 0x5511), (0xDFF3, 0x5527),
     (0xDFF4, 0x552A), (0xDFF5, 0x5567), (0xDFF6, 0x558F), (0xDFF7, 0x55B5), (0xDFF8, 0x5549), (0xDFF9, 0x556D),
     (0xDFFA, 0x5541), (0xDFFB, 0x5555), (0xDFFC, 0x553F), (0xDFFD, 0x5550), (0xDFFE, 0x553C), (0xE040, 0x90C2),
     (0xE041, 0x90C3), (0xE042, 0x90C6), (0xE043, 0x90C8), (0xE044, 0x90C9), (0xE045, 0x90CB), (0xE046, 0x90CC),
     (0xE047, 0x90CD), (0xE048, 0x90D2), (0xE049, 0x90D4), (0xE04A, 0x90D5), (0xE04B, 0x90D6), (0xE04C, 0x90D8),
     (0xE04D, 0x90D9), (0xE04E, 0x90DA), (0xE04F, 0x90DE), (0xE050, 0x90DF), (0xE051, 0x90E0), (0xE052, 0x90E3),
     (0xE053, 0x90E4), (0xE054, 0x90E5), (0xE055, 0x90E9), (0xE056, 0x90EA), (0xE057, 0x90EC), (0xE058, 0x90EE),
     (0xE059, 0x90F0), (0xE05A, 0x90F1), (0xE05B, 0x90F2), (0xE05C, 0x90F3), (0xE05D, 0x90F5), (0xE05E, 0x90F6),
     (0xE05F, 0x90F7), (0xE060, 0x90F9), (0xE061, 0x90FA), (0xE062, 0x90FB), (0xE063, 0x90FC), (0xE064, 0x90FF),
     (0xE065, 0x9100), (0xE066, 0x9101), (0xE067, 0x9103), (0xE068, 0x9105), (0xE069, 0x9106), (0xE06A, 0x9107),
     (0xE06B, 0x9108), (0xE06C, 0x9109), (0xE06D, 0x910A), (0xE06E, 0x910B), (0xE06F, 0x910C), (0xE070, 0x910D),
     (0xE071, 0x910E), (0xE072, 0x910F), (0xE073, 0x9110), (0xE074, 0x9111), (0xE075, 0x9112), (0xE076, 0x9113)]"

lemma ucs2_gbk_rows_113_climb: "climb 0xdf9f ucs2_gbk_rows_113 = Some 0xe076"
  unfolding ucs2_gbk_rows_113_def by (intro climb_num climb_end; simp only: numeral_less_iff less_num_simps le_num_simps)

definition ucs2_gbk_rows_114 :: "code_map list" where
  "ucs2_gbk_rows_114 = [
     (0xE077, 0x9114), (0xE078, 0x9115), (0xE079, 0x9116), (0xE07A, 0x9117), (0xE07B, 0x9118), (0xE07C, 0x911A),
     (0xE07D, 0x911B), (0xE07E, 0x911C), (0xE080, 0x911D), (0xE081, 0x911F), (0xE082, 0x9120), (0xE083, 0x9121),
     (0xE084, 0x9124), (0xE085, 0x9125), (0xE086, 0x9126), (0xE087, 0x9127), (0xE088, 0x9128), (0xE089, 0x9129),
     (0xE08A, 0x912A), (0xE08B, 0x912B), (0xE08C, 0x912C), (0xE08D, 0x912D), (0xE08E, 0x912E), (0xE08F, 0x9130),
     (0xE090, 0x9132), (0xE091, 0x9133), (0xE092, 0x9134), (0xE093, 0x9135), (0xE094, 0x9136), (0xE095, 0x9137),
     (0xE096, 0x9138), (0xE097, 0x913A), (0xE098, 0x913B), (0xE099, 0x913C), (0xE09A, 0x913D), (0xE09B, 0x913E),
     (0xE09C, 0x913F), (0xE09D, 0x9140), (0xE09E, 0x9141), (0xE09F, 0x9142), (0xE0A0, 0x9144), (0xE0A1, 0x5537),
     (0xE0A2, 0x5556), (0xE0A3, 0x5575), (0xE0A4, 0x5576), (0xE0A5, 0x5577), (0xE0A6, 0x5533), (0xE0A7, 0x5530),
     (0xE0A8, 0x555C), (0xE0A9, 0x558B), (0xE0AA, 0x55D2), (0xE0AB, 0x5583), (0xE0AC, 0x55B1), (0xE0AD, 0x55B9),
     (0xE0AE, 0x5588), (0xE0AF, 0x5581), (0xE0B0, 0x559F), (0xE0B1, 0x557E), (0xE0B2, 0x55D6), (0xE0B3, 0x5591),
     (0xE0B4, 0x557B), (0xE0B5, 0x55DF), (0xE0B6, 0x55BD), (0xE0B7, 0x55BE), (0xE0B8, 0x5594), (0xE0B9, 0x5599),
     (0xE0BA, 0x55EA), (0xE0BB, 0x55F7), (0xE0BC, 0x55C9), (0xE0BD, 0x561F), (0xE0BE, 0x55D1), (0xE0BF, 0x55EB),
     (0xE0C0, 0x55EC), (0xE0C1, 0x55D4), (0xE0C2, 0x55E6), (0xE0C3, 0x55DD), (0xE0C4, 0x55C4), (0xE0C5, 0x55EF),
     (0xE0C6, 0x55E5), (0xE0C7, 0x55F2), (0xE0C8, 0x55F3), (0xE0C9, 0x55CC), (0xE0CA, 0x55CD), (0xE0CB, 0x55E8),
     (0xE0CC, 0x55F5), (0xE0CD, 0x55E4), (0xE0CE, 0x8F94), (0xE0CF, 0x561E), (0xE0D0, 0x5608), (0xE0D1, 0x560C),
     (0xE0D2, 0x5601), (0xE0D3, 0x5624), (0xE0D4, 0x5623), (0xE0D5, 0x55FE), (0xE0D6, 0x5600), (0xE0D7, 0x5627),
     (0xE0D8, 0x562D), (0xE0D9, 0x5658), (0xE0DA, 0x5639), (0xE0DB, 0x5657), (0xE0DC, 0x562C), (0xE0DD, 0x564D),
     (0xE0DE, 0x5662), (0xE0DF, 0x5659), (0xE0E0, 0x565C), (0xE0E1, 0x564C), (0xE0E2, 0x5654), (0xE0E3, 0x5686),
     (0xE0E4, 0x5664), (0xE0E5, 0x5671), (0xE0E6, 0x566B), (0xE0E7, 0x567B), (0xE0E8, 0x567C), (0xE0E9, 0x5685),
     (0xE0EA, 0x5693), (0xE0EB, 0x56AF), (0xE0EC, 0x56D4), (0xE0ED, 0x56D7), (0xE0EE, 0x56DD), (0xE0EF, 0x56E1),
     (0xE0F0, 0x56F5), (0xE0F1, 0x56EB), (0xE0F2, 0x56F9), (0xE0F3, 0x56FF), (0xE0F4, 0x5704), (0xE0F5, 0x570A),
     (0xE0F6, 0x5709), (0xE0F7, 0x571C), (0xE0F8, 0x5E0F), (0xE0F9, 0x5E19), (0xE0FA, 0x5E14), (0xE0FB, 0x5E11),
     (0xE0FC, 0x5E31), (0xE0FD, 0x5E3B), (0xE0FE, 0x5E3C), (0xE140, 0x9145), (0xE141, 0x9147), (0xE142, 0x9148),
     (0xE143, 0x9151), (0xE144, 0x9153), (0xE145, 0x9154), (0xE146, 0x9155), (0xE147, 0x9156), (0xE148, 0x9158),
     (0xE149, 0x9159), (0xE14A, 0x915B), (0xE14B, 0x915C), (0xE14C, 0x915F), (0xE14D, 0x9160), (0xE14E, 0x9166)]"

lemma ucs2_gbk_rows_114_climb: "climb 0xe076 ucs2_gbk_rows_114 = Some 0xe14e"
  unfolding ucs2_gbk_rows_114_def by (intro climb_num climb_end; simp only: numeral_less_iff less_num_simps le_num_simps)

definition ucs2_gbk_rows_115 :: "code_map list" where
  "ucs2_gbk_rows_115 = [
     (0xE14F, 0x9167), (0xE150, 0x9168), (0xE151, 0x916B), (0xE152, 0x916D), (0xE153, 0x9173), (0xE154, 0x917A),
     (0xE155, 0x917B), (0xE156, 0x917C), (0xE157, 0x9180), (0xE158, 0x9181), (0xE159, 0x9182), (0xE15A, 0x9183),
     (0xE15B, 0x9184), (0xE15C, 0x9186), (0xE15D, 0x9188), (0xE15E, 0x918A), (0xE15F, 0x918E), (0xE160, 0x918F),
     (0xE161, 0x9193), (0xE162, 0x9194), (0xE163, 0x9195), (0xE164, 0x9196), (0xE165, 0x9197), (0xE166, 0x9198),
     (0xE167, 0x9199), (0xE168, 0x919C), (0xE169, 0x919D), (0xE16A, 0x919E), (0xE16B, 0x919F), (0xE16C, 0x91A0),
     (0xE16D, 0x91A1), (0xE16E, 0x91A4), (0xE16F, 0x91A5), (0xE170, 0x91A6), (0xE171, 0x91A7), (0xE172, 0x91A8),
     (0xE173, 0x91A9), (0xE174, 0x91AB), (0xE175, 0x91AC), (0xE176, 0x91B0), (0xE177, 0x91B1), (0xE178, 0x91B2),
     (0xE179, 0x91B3), (0xE17A, 0x91B6), (0xE17B, 0x91B7), (0xE17C, 0x91B8), (0xE17D, 0x91B9), (0xE17E, 0x91BB),
     (0xE180, 0x91BC), (0xE181, 0x91BD), (0xE182, 0x91BE), (0xE183, 0x91BF), (0xE184, 0x91C0), (0xE185, 0x91C1),
     (0xE186, 0x91C2), (0xE187, 0x91C3), (0xE188, 0x91C4), (0xE189, 0x91C5), (0xE18A, 0x91C6), (0xE18B, 0x91C8),
     (0xE18C, 0x91CB), (0xE18D, 0x91D0), (0xE18E, 0x91D2), (0xE18F, 0x91D3), (0xE190, 0x91D4), (0xE191, 0x91D5),
     (0xE192, 0x91D6), (0xE193, 0x91D7), (0xE194, 0x91D8), (0xE195, 0x91D9), (0xE196, 0x91DA), (0xE197, 0x91DB),
     (0xE198, 0x91DD), (0xE199, 0x91DE), (0xE19A, 0x91DF), (0xE19B, 0x91E0), (0xE19C, 0x91E1), (0xE19D, 0x91E2),
     (0xE19E, 0x91E3), (0xE19F, 0x91E4), (0xE1A0, 0x91E5), (0xE1A1, 0x5E37), (0xE1A2, 0x5E44), (0xE1A3, 0x5E54),
     (0xE1A4, 0x5E5B), (0xE1A5, 0x5E5E), (0xE1A6, 0x5E61), (0xE1A7, 0x5C8C), (0xE1A8, 0x5C7A), (0xE1A9, 0x5C8D),
     (0xE1AA, 0x5C90), (0xE1AB, 0x5C96), (0xE1AC, 0x5C88), (0xE1AD, 0x5C98), (0xE1AE, 0x5C99), (0xE1AF, 0x5C91),
     (0xE1B0, 0x5C9A), (0xE1B1, 0x5C9C), (0xE1B2, 0x5CB5), (0xE1B3, 0x5CA2), (0xE1B4, 0x5CBD), (0xE1B5, 0x5CAC),
     (0xE1B6, 0x5CAB), (0xE1B7, 0x5CB1), (0xE1B8, 0x5CA3), (0xE1B9, 0x5CC1), (0xE1BA, 0x5CB7), (0xE1BB, 0x5CC4),
     (0xE1BC, 0x5CD2), (0xE1BD, 0x5CE4), (0xE1BE, 0x5CCB), (0xE1BF, 0x5CE5), (0xE1C0, 0x5D02), (0xE1C1, 0x5D03),
     (0xE1C2, 0x5D27), (0xE1C3, 0x5D26), (0xE1C4, 0x5D2E), (0xE1C5, 0x5D24), (0xE1C6, 0x5D1E), (0xE1C7, 0x5D06),
     (0xE1C8, 0x5D1B), (0xE1C9, 0x5D58), (0xE1CA, 0x5D3E), (0xE1CB, 0x5D34), (0xE1CC, 0x5D3D), (0xE1CD, 0x5D6C),
     (0xE1CE, 0x5D5B), (0xE1CF, 0x5D6F), (0xE1D0, 0x5D5D), (0xE1D1, 0x5D6B), (0xE1D2, 0x5D4B), (0xE1D3, 0x5D4A),
     (0xE1D4, 0x5D69), (0xE1D5, 0x5D74), (0xE1D6, 0x5D82), (0xE1D7, 0x5D99), (0xE1D8, 0x5D9D), (0xE1D9, 0x8C73),
     (0xE1DA, 0x5DB7), (0xE1DB, 0x5DC5), (0xE1DC, 0x5F73), (0xE1DD, 0x5F77), (0xE1DE, 0x5F82), (0xE1DF, 0x5F87),
     (0xE1E0, 0x5F89), (0xE1E1, 0x5F8C), (0xE1E2, 0x5F95), (0xE1E3, 0x5F99), (0xE1E4, 0x5F9C), (0xE1E5, 0x5FA8)]"

lemma ucs2_gbk_rows_115_climb: "climb 0xe14e ucs2_gbk_rows_115 = Some 0xe1e5"
  unfolding ucs2_gbk_rows_115_def by (intro climb_num climb_end; simp only: numeral_less_iff less_num_simps le_num_simps)

definition ucs2_gbk_rows_116 :: "code_map list" where
  "ucs2_gbk_rows_116 = [
     (0xE1E6, 0x5FAD), (0xE1E7, 0x5FB5), (0xE1E8, 0x5FBC), (0xE1E9, 0x8862), (0xE1EA, 0x5F61), (0xE1EB, 0x72AD),
     (0xE1EC, 0x72B0), (0xE1ED, 0x72B4), (0xE1EE, 0x72B7), (0xE1EF, 0x72B8), (0xE1F0, 0x72C3), (0xE1F1, 0x72C1),
     (0xE1F2, 0x72CE), (0xE1F3, 0x72CD), (0xE1F4, 0x72D2), (0xE1F5, 0x72E8), (0xE1F6, 0x72EF), (0xE1F7, 0x72E9),
     (0xE1F8, 0x72F2), (0xE1F9, 0x72F4), (0xE1FA, 0x72F7), (0xE1FB, 0x7301), (0xE1FC, 0x72F3), (0xE1FD, 0x7303),
     (0xE1FE, 0x72FA), (0xE240, 0x91E6), (0xE241, 0x91E7), (0xE242, 0x91E8), (0xE243, 0x91E9), (0xE244, 0x91EA),
     (0xE245, 0x91EB), (0xE246, 0x91EC), (0xE247, 0x91ED), (0xE248, 0x91EE), (0xE249, 0x91EF), (0xE24A, 0x91F0),
     (0xE24B, 0x91F1), (0xE24C, 0x91F2), (0xE24D, 0x91F3), (0xE24E, 0x91F4), (0xE24F, 0x91F5), (0xE250, 0x91F6),
     (0xE251, 0x91F7), (0xE252, 0x91F8), (0xE253, 0x91F9), (0xE254, 0x91FA), (0xE255, 0x91FB), (0xE256, 0x91FC),
     (0xE257, 0x91FD), (0xE258, 0x91FE), (0xE259, 0x91FF), (0xE25A, 0x9200), (0xE25B, 0x9201), (0xE25C, 0x9202),
     (0xE25D, 0x9203), (0xE25E, 0x9204), (0xE25F, 0x9205), (0xE260, 0x9206), (0xE261, 0x9207), (0xE262, 0x9208),
     (0xE263, 0x9209), (0xE264, 0x920A), (0xE265, 0x920B), (0xE266, 0x920C), (0xE267, 0x920D), (0xE268, 0x920E),
     (0xE269, 0x920F), (0xE26A, 0x9210), (0xE26B, 0x9211), (0xE26C, 0x9212), (0xE26D, 0x9213), (0xE26E, 0x9214),
     (0xE26F, 0x9215), (0xE270, 0x9216), (0xE271, 0x9217), (0xE272, 0x9218), (0xE273, 0x9219), (0xE274, 0x921A),
     (0xE275, 0x921B), (0xE276, 0x921C), (0xE277, 0x921D), (0xE278, 0x921E), (0xE279, 0x921F), (0xE27A, 0x9220),
     (0xE27B, 0x9221), (0xE27C, 0x9222), (0xE27D, 0x9223), (0xE27E, 0x9224), (0xE280, 0x9225), (0xE281, 0x9226),
     (0xE282, 0x9227), (0xE283, 0x9228), (0xE284, 0x9229), (0xE285, 0x922A), (0xE286, 0x922B), (0xE287, 0x922C),
     (0xE288, 0x922D), (0xE289, 0x922E), (0xE28A, 0x922F), (0xE28B, 0x9230), (0xE28C, 0x9231), (0xE28D, 0x9232),
     (0xE28E, 0x9233), (0xE28F, 0x9234), (0xE290, 0x9235), (0xE291, 0x9236), (0xE292, 0x9237), (0xE293, 0x9238),
     (0xE294, 0x9239), (0xE295, 0x923A), (0xE296, 0x923B), (0xE297, 0x923C), (0xE298, 0x923D), (0xE299, 0x923E),
     (0xE29A, 0x923F), (0xE29B, 0x9240), (0xE29C, 0x9241), (0xE29D, 0x9242), (0xE29E, 0x9243), (0xE29F, 0x9244),
     (0xE2A0, 0x9245), (0xE2A1, 0x72FB), (0xE2A2, 0x7317), (0xE2A3, 0x7313), (0xE2A4, 0x7321), (0xE2A5, 0x730A),
     (0xE2A6, 0x731E), (0xE2A7, 0x731D), (0xE2A8, 0x7315), (0xE2A9, 0x7322), (0xE2AA, 0x7339), (0xE2AB, 0x7325),
     (0xE2AC, 0x732C), (0xE2AD, 0x7338), (0xE2AE, 0x7331), (0xE2AF, 0x7350), (0xE2B0, 0x734D), (0xE2B1, 0x7357),
     (0xE2B2, 0x7360), (0xE2B3, 0x736C), (0xE2B4, 0x736F), (0xE2B5, 0x737E), (0xE2B6, 0x821B), (0xE2B7, 0x5925),
     (0xE2B8, 0x98E7), (0xE2B9, 0x5924), (0xE2BA, 0x5902), (0xE2BB, 0x9963), (0xE2BC, 0x9967), (0xE2BD, 0x9968)]"

lemma ucs2_gbk_rows_116_climb: "climb 0xe1e5 ucs2_gbk_rows_116 = Some 0xe2bd"
  unfolding ucs2_gbk_rows_116_def by (intro climb_num climb_end; simp only: numeral_less_iff less_num_simps le_num_simps)

definition ucs2_gbk_rows_117 :: "code_map list" where
  "ucs2_gbk_rows_117 = [
     (0xE2BE, 0x9969), (0xE2BF, 0x996A), (0xE2C0, 0x996B), (0xE2C1, 0x996C), (0xE2C2, 0x9974), (0xE2C3, 0x9977),
     (0xE2C4, 0x997D), (0xE2C5, 0x9980), (0xE2C6, 0x9984), (0xE2C7, 0x9987), (0xE2C8, 0x998A), (0xE2C9, 0x998D),
     (0xE2CA, 0x9990), (0xE2CB, 0x9991), (0xE2CC, 0x9993), (0xE2CD, 0x9994), (0xE2CE, 0x9995), (0xE2CF, 0x5E80),
     (0xE2D0, 0x5E91), (0xE2D1, 0x5E8B), (0xE2D2, 0x5E96), (0xE2D3, 0x5EA5), (0xE2D4, 0x5EA0), (0xE2D5, 0x5EB9),
     (0xE2D6, 0x5EB5), (0xE2D7, 0x5EBE), (0xE2D8, 0x5EB3), (0xE2D9, 0x8D53), (0xE2DA, 0x5ED2), (0xE2DB, 0x5ED1),
     (0xE2DC, 0x5EDB), (0xE2DD, 0x5EE8), (0xE2DE, 0x5EEA), (0xE2DF, 0x81BA), (0xE2E0, 0x5FC4), (0xE2E1, 0x5FC9),
     (0xE2E2, 0x5FD6), (0xE2E3, 0x5FCF), (0xE2E4, 0x6003), (0xE2E5, 0x5FEE), (0xE2E6, 0x6004), (0xE2E7, 0x5FE1),
     (0xE2E8, 0x5FE4), (0xE2E9, 0x5FFE), (0xE2EA, 0x6005), (0xE2EB, 0x6006), (0xE2EC, 0x5FEA), (0xE2ED, 0x5FED),
     (0xE2EE, 0x5FF8), (0xE2EF, 0x6019), (0xE2F0, 0x6035), (0xE2F1, 0x6026), (0xE2F2, 0x601B), (0xE2F3, 0x600F),
     (0xE2F4, 0x600D), (0xE2F5, 0x6029), (0xE2F6, 0x602B), (0xE2F7, 0x600A), (0xE2F8, 0x603F), (0xE2F9, 0x6021),
     (0xE2FA, 0x6078), (0xE2FB, 0x6079), (0xE2FC, 0x607B), (0xE2FD, 0x607A), (0xE2FE, 0x6042), (0xE340, 0x9246),
     (0xE341, 0x9247), (0xE342, 0x9248), (0xE343, 0x9249), (0xE344, 0x924A), (0xE345, 0x924B), (0xE346, 0x924C),
     (0xE347, 0x924D), (0xE348, 0x924E), (0xE349, 0x924F), (0xE34A, 0x9250), (0xE34B, 0x9251), (0xE34C, 0x9252),
     (0xE34D, 0x9253), (0xE34E, 0x9254), (0xE34F, 0x9255), (0xE350, 0x9256), (0xE351, 0x9257), (0xE352, 0x9258),
     (0xE353, 0x9259), (0xE354, 0x925A), (0xE355, 0x925B), (0xE356, 0x925C), (0xE357, 0x925D), (0xE358, 0x925E),
     (0xE359, 0x925F), (0xE35A, 0x9260), (0xE35B, 0x9261), (0xE35C, 0x9262), (0xE35D, 0x9263), (0xE35E, 0x9264),
     (0xE35F, 0x9265), (0xE360, 0x9266), (0xE361, 0x9267), (0xE362, 0x9268), (0xE363, 0x9269), (0xE364, 0x926A),
     (0xE365, 0x926B), (0xE366, 0x926C), (0xE367, 0x926D), (0xE368, 0x926E), (0xE369, 0x926F), (0xE36A, 0x9270),
     (0xE36B, 0x9271), (0xE36C, 0x9272), (0xE36D, 0x9273), (0xE36E, 0x9275), (0xE36F, 0x9276), (0xE370, 0x9277),
     (0xE371, 0x9278), (0xE372, 0x9279), (0xE373, 0x927A), (0xE374, 0x927B), (0xE375, 0x927C), (0xE376, 0x927D),
     (0xE377, 0x927E), (0xE378, 0x927F), (0xE379, 0x9280), (0xE37A, 0x9281), (0xE37B, 0x9282), (0xE37C, 0x9283),
     (0xE37D, 0x9284), (0xE37E, 0x9285), (0xE380, 0x9286), (0xE381, 0x9287), (0xE382, 0x9288), (0xE383, 0x9289),
     (0xE384, 0x928A), (0xE385, 0x928B), (0xE386, 0x928C), (0xE387, 0x928D), (0xE388, 0x928F), (0xE389, 0x9290),
     (0xE38A, 0x9291), (0xE38B, 0x9292), (0xE38C, 0x9293), (0xE38D, 0x9294), (0xE38E, 0x9295), (0xE38F, 0x9296),
     (0xE390, 0x9297), (0xE391, 0x9298), (0xE392, 0x9299), (0xE393, 0x929A), (0xE394, 0x929B), (0xE395, 0x929C)]"

lemma ucs2_gbk_rows_117_climb: "climb 0xe2bd ucs2_gbk_rows_117 = Some 0xe395"
  unfolding ucs2_gbk_rows_117_def by (intro climb_num climb_end; simp only: numeral_less_iff less_num_simps le_num_simps)

definition ucs2_gbk_rows_118 :: "code_map list" where
  "ucs2_gbk_rows_118 = [
     (0xE396, 0x929D), (0xE397, 0x929E), (0xE398, 0x929F), (0xE399, 0x92A0), (0xE39A, 0x92A1), (0xE39B, 0x92A2),
     (0xE39C, 0x92A3), (0xE39D, 0x92A4), (0xE39E, 0x92A5), (0xE39F, 0x92A6), (0xE3A0, 0x92A7), (0xE3A1, 0x606A),
     (0xE3A2, 0x607D), (0xE3A3, 0x6096), (0xE3A4, 0x609A), (0xE3A5, 0x60AD), (0xE3A6, 0x609D), (0xE3A7, 0x6083),
     (0xE3A8, 0x6092), (0xE3A9, 0x608C), (0xE3AA, 0x609B), (0xE3AB, 0x60EC), (0xE3AC, 0x60BB), (0xE3AD, 0x60B1),
     (0xE3AE, 0x60DD), (0xE3AF, 0x60D8), (0xE3B0, 0x60C6), (0xE3B1, 0x60DA), (0xE3B2, 0x60B4), (0xE3B3, 0x6120),
     (0xE3B4, 0x6126), (0xE3B5, 0x6115), (0xE3B6, 0x6123), (0xE3B7, 0x60F4), (0xE3B8, 0x6100), (0xE3B9, 0x610E),
     (0xE3BA, 0x612B), (0xE3BB, 0x614A), (0xE3BC, 0x6175), (0xE3BD, 0x61AC), (0xE3BE, 0x6194), (0xE3BF, 0x61A7),
     (0xE3C0, 0x61B7), (0xE3C1, 0x61D4), (0xE3C2, 0x61F5), (0xE3C3, 0x5FDD), (0xE3C4, 0x96B3), (0xE3C5, 0x95E9),
     (0xE3C6, 0x95EB), (0xE3C7, 0x95F1), (0xE3C8, 0x95F3), (0xE3C9, 0x95F5), (0xE3CA, 0x95F6), (0xE3CB, 0x95FC),
     (0xE3CC, 0x95FE), (0xE3CD, 0x9603), (0xE3CE, 0x9604), (0xE3CF, 0x9606), (0xE3D0, 0x9608), (0xE3D1, 0x960A),
     (0xE3D2, 0x960B), (0xE3D3, 0x960C), (0xE3D4, 0x960D), (0xE3D5, 0x960F), (0xE3D6, 0x9612), (0xE3D7, 0x9615),
     (0xE3D8, 0x9616), (0xE3D9, 0x9617), (0xE3DA, 0x9619), (0xE3DB, 0x961A), (0xE3DC, 0x4E2C), (0xE3DD, 0x723F),
     (0xE3DE, 0x6215), (0xE3DF, 0x6C35), (0xE3E0, 0x6C54), (0xE3E1, 0x6C5C), (0xE3E2, 0x6C4A), (0xE3E3, 0x6CA3),
     (0xE3E4, 0x6C85), (0xE3E5, 0x6C90), (0xE3E6, 0x6C94), (0xE3E7, 0x6C8C), (0xE3E8, 0x6C68), (0xE3E9, 0x6C69),
     (0xE3EA, 0x6C74), (0xE3EB, 0x6C76), (0xE3EC, 0x6C86), (0xE3ED, 0x6CA9), (0xE3EE, 0x6CD0), (0xE3EF, 0x6CD4),
     (0xE3F0, 0x6CAD), (0xE3F1, 0x6CF7), (0xE3F2, 0x6CF8), (0xE3F3, 0x6CF1), (0xE3F4, 0x6CD7), (0xE3F5, 0x6CB2),
     (0xE3F6, 0x6CE0), (0xE3F7, 0x6CD6), (0xE3F8, 0x6CFA), (0xE3F9, 0x6CEB), (0xE3FA, 0x6CEE), (0xE3FB, 0x6CB1),
     (0xE3FC, 0x6CD3), (0xE3FD, 0x6CEF), (0xE3FE, 0x6CFE), (0xE440, 0x92A8), (0xE441, 0x92A9), (0xE442, 0x92AA),
     (0xE443, 0x92AB), (0xE444, 0x92AC), (0xE445, 0x92AD), (0xE446, 0x92AF), (0xE447, 0x92B0), (0xE448, 0x92B1),
     (0xE449, 0x92B2), (0xE44A, 0x92B3), (0xE44B, 0x92B4), (0xE44C, 0x92B5), (0xE44D, 0x92B6), (0xE44E, 0x92B7),
     (0xE44F, 0x92B8), (0xE450, 0x92B9), (0xE451, 0x92BA), (0xE452, 0x92BB), (0xE453, 0x92BC), (0xE454, 0x92BD),
     (0xE455, 0x92BE), (0xE456, 0x92BF), (0xE457, 0x92C0), (0xE458, 0x92C1), (0xE459, 0x92C2), (0xE45A, 0x92C3),
     (0xE45B, 0x92C4), (0xE45C, 0x92C5), (0xE45D, 0x92C6), (0xE45E, 0x92C7), (0xE45F, 0x92C9), (0xE460, 0x92CA),
     (0xE461, 0x92CB), (0xE462, 0x92CC), (0xE463, 0x92CD), (0xE464, 0x92CE), (0xE465, 0x92CF), (0xE466, 0x92D0),
     (0xE467, 0x92D1), (0xE468, 0x92D2), (0xE469, 0x92D3), (0xE46A, 0x92D4), (0xE46B, 0x92D5), (0xE46C, 0x92D6)]"

lemma ucs2_gbk_rows_118_climb: "climb 0xe395 ucs2_gbk_rows_118 = Some 0xe46c"
  unfolding ucs2_gbk_rows_118_def by (intro climb_num climb_end; simp only: numeral_less_iff less_num_simps le_num_simps)

definition ucs2_gbk_rows_119 :: "code_map list" where
  "ucs2_gbk_rows_119 = [
     (0xE46D, 0x92D7), (0xE46E, 0x92D8), (0xE46F, 0x92D9), (0xE470, 0x92DA), (0xE471, 0x92DB), (0xE472, 0x92DC),
     (0xE473, 0x92DD), (0xE474, 0x92DE), (0xE475, 0x92DF), (0xE476, 0x92E0), (0xE477, 0x92E1), (0xE478, 0x92E2),
     (0xE479, 0x92E3), (0xE47A, 0x92E4), (0xE47B, 0x92E5), (0xE47C, 0x92E6), (0xE47D, 0x92E7), (0xE47E, 0x92E8),
     (0xE480, 0x92E9), (0xE481, 0x92EA), (0xE482, 0x92EB), (0xE483, 0x92EC), (0xE484, 0x92ED), (0xE485, 0x92EE),
     (0xE486, 0x92EF), (0xE487, 0x92F0), (0xE488, 0x92F1), (0xE489, 0x92F2), (0xE48A, 0x92F3), (0xE48B, 0x92F4),
     (0xE48C, 0x92F5), (0xE48D, 0x92F6), (0xE48E, 0x92F7), (0xE48F, 0x92F8), (0xE490, 0x92F9), (0xE491, 0x92FA),
     (0xE492, 0x92FB), (0xE493, 0x92FC), (0xE494, 0x92FD), (0xE495, 0x92FE), (0xE496, 0x92FF), (0xE497, 0x9300),
     (0xE498, 0x9301), (0xE499, 0x9302), (0xE49A, 0x9303), (0xE49B, 0x9304), (0xE49C, 0x9305), (0xE49D, 0x9306),
     (0xE49E, 0x9307), (0xE49F, 0x9308), (0xE4A0, 0x9309), (0xE4A1, 0x6D39), (0xE4A2, 0x6D27), (0xE4A3, 0x6D0C),
     (0xE4A4, 0x6D43), (0xE4A5, 0x6D48), (0xE4A6, 0x6D07), (0xE4A7, 0x6D04), (0xE4A8, 0x6D19), (0xE4A9, 0x6D0E),
     (0xE4AA, 0x6D2B), (0xE4AB, 0x6D4D), (0xE4AC, 0x6D2E), (0xE4AD, 0x6D35), (0xE4AE, 0x6D1A), (0xE4AF, 0x6D4F),
     (0xE4B0, 0x6D52), (0xE4B1, 0x6D54), (0xE4B2, 0x6D33), (0xE4B3, 0x6D91), (0xE4B4, 0x6D6F), (0xE4B5, 0x6D9E),
     (0xE4B6, 0x6DA0), (0xE4B7, 0x6D5E), (0xE4B8, 0x6D93), (0xE4B9, 0x6D94), (0xE4BA, 0x6D5C), (0xE4BB, 0x6D60),
     (0xE4BC, 0x6D7C), (0xE4BD, 0x6D63), (0xE4BE, 0x6E1A), (0xE4BF, 0x6DC7), (0xE4C0, 0x6DC5), (0xE4C1, 0x6DDE),
     (0xE4C2, 0x6E0E), (0xE4C3, 0x6DBF), (0xE4C4, 0x6DE0), (0xE4C5, 0x6E11), (0xE4C6, 0x6DE6), (0xE4C7, 0x6DDD),
     (0xE4C8, 0x6DD9), (0xE4C9, 0x6E16), (0xE4CA, 0x6DAB), (0xE4CB, 0x6E0C), (0xE4CC, 0x6DAE), (0xE4CD, 0x6E2B),
     (0xE4CE, 0x6E6E), (0xE4CF, 0x6E4E), (0xE4D0, 0x6E6B), (0xE4D1, 0x6EB2), (0xE4D2, 0x6E5F), (0xE4D3, 0x6E86),
     (0xE4D4, 0x6E53), (0xE4D5, 0x6E54), (0xE4D6, 0x6E32), (0xE4D7, 0x6E25), (0xE4D8, 0x6E44), (0xE4D9, 0x6EDF),
     (0xE4DA, 0x6EB1), (0xE4DB, 0x6E98), (0xE4DC, 0x6EE0), (0xE4DD, 0x6F2D), (0xE4DE, 0x6EE2), (0xE4DF, 0x6EA5),
     (0xE4E0, 0x6EA7), (0xE4E1, 0x6EBD), (0xE4E2, 0x6EBB), (0xE4E3, 0x6EB7), (0xE4E4, 0x6ED7), (0xE4E5, 0x6EB4),
     (0xE4E6, 0x6ECF), (0xE4E7, 0x6E8F), (0xE4E8, 0x6EC2), (0xE4E9, 0x6E9F), (0xE4EA, 0x6F62), (0xE4EB, 0x6F46),
     (0xE4EC, 0x6F47), (0xE4ED, 0x6F24), (0xE4EE, 0x6F15), (0xE4EF, 0x6EF9), (0xE4F0, 0x6F2F), (0xE4F1, 0x6F36),
     (0xE4F2, 0x6F4B), (0xE4F3, 0x6F74), (0xE4F4, 0x6F2A), (0xE4F5, 0x6F09), (0xE4F6, 0x6F29), (0xE4F7, 0x6F89),
     (0xE4F8, 0x6F8D), (0xE4F9, 0x6F8C), (0xE4FA, 0x6F78), (0xE4FB, 0x6F72), (0xE4FC, 0x6F7C), (0xE4FD, 0x6F7A),
     (0xE4FE, 0x6FD1), (0xE540, 0x930A), (0xE541, 0x930B), (0xE542, 0x930C), (0xE543, 0x930D), (0xE544, 0x930E)]"

lemma ucs2_gbk_rows_119_climb: "climb 0xe46c ucs2_gbk_rows_119 = Some 0xe544"
  unfolding ucs2_gbk_rows_119_def by (intro climb_num climb_end; simp only: numeral_less_iff less_num_simps le_num_simps)

definition ucs2_gbk_rows_120 :: "code_map list" where
  "ucs2_gbk_rows_120 = [
     (0xE545, 0x930F), (0xE546, 0x9310), (0xE547, 0x9311), (0xE548, 0x9312), (0xE549, 0x9313), (0xE54A, 0x9314),
     (0xE54B, 0x9315), (0xE54C, 0x9316), (0xE54D, 0x9317), (0xE54E, 0x9318), (0xE54F, 0x9319), (0xE550, 0x931A),
     (0xE551, 0x931B), (0xE552, 0x931C), (0xE553, 0x931D), (0xE554, 0x931E), (0xE555, 0x931F), (0xE556, 0x9320),
     (0xE557, 0x9321), (0xE558, 0x9322), (0xE559, 0x9323), (0xE55A, 0x9324), (0xE55B, 0x9325), (0xE55C, 0x9326),
     (0xE55D, 0x9327), (0xE55E, 0x9328), (0xE55F, 0x9329), (0xE560, 0x932A), (0xE561, 0x932B), (0xE562, 0x932C),
     (0xE563, 0x932D), (0xE564, 0x932E), (0xE565, 0x932F), (0xE566, 0x9330), (0xE567, 0x9331), (0xE568, 0x9332),
     (0xE569, 0x9333), (0xE56A, 0x9334), (0xE56B, 0x9335), (0xE56C, 0x9336), (0xE56D, 0x9337), (0xE56E, 0x9338),
     (0xE56F, 0x9339), (0xE570, 0x933A), (0xE571, 0x933B), (0xE572, 0x933C), (0xE573, 0x933D), (0xE574, 0x933F),
     (0xE575, 0x9340), (0xE576, 0x9341), (0xE577, 0x9342), (0xE578, 0x9343), (0xE579, 0x9344), (0xE57A, 0x9345),
     (0xE57B, 0x9346), (0xE57C, 0x9347), (0xE57D, 0x9348), (0xE57E, 0x9349), (0xE580, 0x934A), (0xE581, 0x934B),
     (0xE582, 0x934C), (0xE583, 0x934D), (0xE584, 0x934E), (0xE585, 0x934F), (0xE586, 0x9350), (0xE587, 0x9351),
     (0xE588, 0x9352), (0xE589, 0x9353), (0xE58A, 0x9354), (0xE58B, 0x9355), (0xE58C, 0x9356), (0xE58D, 0x9357),
     (0xE58E, 0x9358), (0xE58F, 0x9359), (0xE590, 0x935A), (0xE591, 0x935B), (0xE592, 0x935C), (0xE593, 0x935D),
     (0xE594, 0x935E), (0xE595, 0x935F), (0xE596, 0x9360), (0xE597, 0x9361), (0xE598, 0x9362), (0xE599, 0x9363),
     (0xE59A, 0x9364), (0xE59B, 0x9365), (0xE59C, 0x9366), (0xE59D, 0x9367), (0xE59E, 0x9368), (0xE59F, 0x9369),
     (0xE5A0, 0x936B), (0xE5A1, 0x6FC9), (0xE5A2, 0x6FA7), (0xE5A3, 0x6FB9), (0xE5A4, 0x6FB6), (0xE5A5, 0x6FC2),
     (0xE5A6, 0x6FE1), (0xE5A7, 0x6FEE), (0xE5A8, 0x6FDE), (0xE5A9, 0x6FE0), (0xE5AA, 0x6FEF), (0xE5AB, 0x701A),
     (0xE5AC, 0x7023), (0xE5AD, 0x701B), (0xE5AE, 0x7039), (0xE5AF, 0x7035), (0xE5B0, 0x704F), (0xE5B1, 0x705E),
     (0xE5B2, 0x5B80), (0xE5B3, 0x5B84), (0xE5B4, 0x5B95), (0xE5B5, 0x5B93), (0xE5B6, 0x5BA5), (0xE5B7, 0x5BB8),
     (0xE5B8, 0x752F), (0xE5B9, 0x9A9E), (0xE5BA, 0x6434), (0xE5BB, 0x5BE4), (0xE5BC, 0x5BEE), (0xE5BD, 0x8930),
     (0xE5BE, 0x5BF0), (0xE5BF, 0x8E47), (0xE5C0, 0x8B07), (0xE5C1, 0x8FB6), (0xE5C2, 0x8FD3), (0xE5C3, 0x8FD5),
     (0xE5C4, 0x8FE5), (0xE5C5, 0x8FEE), (0xE5C6, 0x8FE4), (0xE5C7, 0x8FE9), (0xE5C8, 0x8FE6), (0xE5C9, 0x8FF3),
     (0xE5CA, 0x8FE8), (0xE5CB, 0x9005), (0xE5CC, 0x9004), (0xE5CD, 0x900B), (0xE5CE, 0x9026), (0xE5CF, 0x9011),
     (0xE5D0, 0x900D), (0xE5D1, 0x9016), (0xE5D2, 0x9021), (0xE5D3, 0x9035), (0xE5D4, 0x9036), (0xE5D5, 0x902D),
     (0xE5D6, 0x902F), (0xE5D7, 0x9044), (0xE5D8, 0x9051), (0xE5D9, 0x9052), (0xE5DA, 0x9050), (0xE5DB, 0x9068)]"

lemma ucs2_gbk_rows_120_climb: "climb 0xe544 ucs2_gbk_rows_120 = Some 0xe5db"
  unfolding ucs2_gbk_rows_120_def by (intro climb_num climb_end; simp only: numeral_less_iff less_num_simps le_num_simps)

definition ucs2_gbk_rows_121 :: "code_map list" where
  "ucs2_gbk_rows_121 = [
     (0xE5DC, 0x9058), (0xE5DD, 0x9062), (0xE5DE, 0x905B), (0xE5DF, 0x66B9), (0xE5E0, 0x9074), (0xE5E1, 0x907D),
     (0xE5E2, 0x9082), (0xE5E3, 0x9088), (0xE5E4, 0x9083), (0xE5E5, 0x908B), (0xE5E6, 0x5F50), (0xE5E7, 0x5F57),
     (0xE5E8, 0x5F56), (0xE5E9, 0x5F58), (0xE5EA, 0x5C3B), (0xE5EB, 0x54AB), (0xE5EC, 0x5C50), (0xE5ED, 0x5C59),
     (0xE5EE, 0x5B71), (0xE5EF, 0x5C63), (0xE5F0, 0x5C66), (0xE5F1, 0x7FBC), (0xE5F2, 0x5F2A), (0xE5F3, 0x5F29),
     (0xE5F4, 0x5F2D), (0xE5F5, 0x8274), (0xE5F6, 0x5F3C), (0xE5F7, 0x9B3B), (0xE5F8, 0x5C6E), (0xE5F9, 0x5981),
     (0xE5FA, 0x5983), (0xE5FB, 0x598D), (0xE5FC, 0x59A9), (0xE5FD, 0x59AA), (0xE5FE, 0x59A3), (0xE640, 0x936C),
     (0xE641, 0x936D), (0xE642, 0x936E), (0xE643, 0x936F), (0xE644, 0x9370), (0xE645, 0x9371), (0xE646, 0x9372),
     (0xE647, 0x9373), (0xE648, 0x9374), (0xE649, 0x9375), (0xE64A, 0x9376), (0xE64B, 0x9377), (0xE64C, 0x9378),
     (0xE64D, 0x9379), (0xE64E, 0x937A), (0xE64F, 0x937B), (0xE650, 0x937C), (0xE651, 0x937D), (0xE652, 0x937E),
     (0xE653, 0x937F), (0xE654, 0x9380), (0xE655, 0x9381), (0xE656, 0x9382), (0xE657, 0x9383), (0xE658, 0x9384),
     (0xE659, 0x9385), (0xE65A, 0x9386), (0xE65B, 0x9387), (0xE65C, 0x9388), (0xE65D, 0x9389), (0xE65E, 0x938A),
     (0xE65F, 0x938B), (0xE660, 0x938C), (0xE661, 0x938D), (0xE662, 0x938E), (0xE663, 0x9390), (0xE664, 0x9391),
     (0xE665, 0x9392), (0xE666, 0x9393), (0xE667, 0x9394), (0xE668, 0x9395), (0xE669, 0x9396), (0xE66A, 0x9397),
     (0xE66B, 0x9398), (0xE66C, 0x9399), (0xE66D, 0x939A), (0xE66E, 0x939B), (0xE66F, 0x939C), (0xE670, 0x939D),
     (0xE671, 0x939E), (0xE672, 0x939F), (0xE673, 0x93A0), (0xE674, 0x93A1), (0xE675, 0x93A2), (0xE676, 0x93A3),
     (0xE677, 0x93A4), (0xE678, 0x93A5), (0xE679, 0x93A6), (0xE67A, 0x93A7), (0xE67B, 0x93A8), (0xE67C, 0x93A9),
     (0xE67D, 0x93AA), (0xE67E, 0x93AB), (0xE680, 0x93AC), (0xE681, 0x93AD), (0xE682, 0x93AE), (0xE683, 0x93AF),
     (0xE684, 0x93B0), (0xE685, 0x93B1), (0xE686, 0x93B2), (0xE687, 0x93B3), (0xE688, 0x93B4), (0xE689, 0x93B5),
     (0xE68A, 0x93B6), (0xE68B, 0x93B7), (0xE68C, 0x93B8), (0xE68D, 0x93B9), (0xE68E, 0x93BA), (0xE68F, 0x93BB),
     (0xE690, 0x93BC), (0xE691, 0x93BD), (0xE692, 0x93BE), (0xE693, 0x93BF), (0xE694, 0x93C0), (0xE695, 0x93C1),
     (0xE696, 0x93C2), (0xE697, 0x93C3), (0xE698, 0x93C4), (0xE699, 0x93C5), (0xE69A, 0x93C6), (0xE69B, 0x93C7),
     (0xE69C, 0x93C8), (0xE69D, 0x93C9), (0xE69E, 0x93CB), (0xE69F, 0x93CC), (0xE6A0, 0x93CD), (0xE6A1, 0x5997),
     (0xE6A2, 0x59CA), (0xE6A3, 0x59AB), (0xE6A4, 0x599E), (0xE6A5, 0x59A4), (0xE6A6, 0x59D2), (0xE6A7, 0x59B2),
     (0xE6A8, 0x59AF), (0xE6A9, 0x59D7), (0xE6AA, 0x59BE), (0xE6AB, 0x5A05), (0xE6AC, 0x5A06), (0xE6AD, 0x59DD),
     (0xE6AE, 0x5A08), (0xE6AF, 0x59E3), (0xE6B0, 0x59D8), (0xE6B1, 0x59F9), (0xE6B2, 0x5A0C), (0xE6B3, 0x5A09)]"

lemma ucs2_gbk_rows_121_climb: "climb 0xe5db ucs2_gbk_rows_121 = Some 0xe6b3"
  unfolding ucs2_gbk_rows_121_def by (intro climb_num climb_end; simp only: numeral_less_iff less_num_simps le_num_simps)

definition ucs2_gbk_rows_122 :: "code_map list" where
  "ucs2_gbk_rows_122 = [
     (0xE6B4, 0x5A32), (0xE6B5, 0x5A34), (0xE6B6, 0x5A11), (0xE6B7, 0x5A23), (0xE6B8, 0x5A13), (0xE6B9, 0x5A40),
     (0xE6BA, 0x5A67), (0xE6BB, 0x5A4A), (0xE6BC, 0x5A55), (0xE6BD, 0x5A3C), (0xE6BE, 0x5A62), (0xE6BF, 0x5A75),
     (0xE6C0, 0x80EC), (0xE6C1, 0x5AAA), (0xE6C2, 0x5A9B), (0xE6C3, 0x5A77), (0xE6C4, 0x5A7A), (0xE6C5, 0x5ABE),
     (0xE6C6, 0x5AEB), (0xE6C7, 0x5AB2), (0xE6C8, 0x5AD2), (0xE6C9, 0x5AD4), (0xE6CA, 0x5AB8), (0xE6CB, 0x5AE0),
     (0xE6CC, 0x5AE3), (0xE6CD, 0x5AF1), (0xE6CE, 0x5AD6), (0xE6CF, 0x5AE6), (0xE6D0, 0x5AD8), (0xE6D1, 0x5ADC),
     (0xE6D2, 0x5B09), (0xE6D3, 0x5B17), (0xE6D4, 0x5B16), (0xE6D5, 0x5B32), (0xE6D6, 0x5B37), (0xE6D7, 0x5B40),
     (0xE6D8, 0x5C15), (0xE6D9, 0x5C1C), (0xE6DA, 0x5B5A), (0xE6DB, 0x5B65), (0xE6DC, 0x5B73), (0xE6DD, 0x5B51),
     (0xE6DE, 0x5B53), (0xE6DF, 0x5B62), (0xE6E0, 0x9A75), (0xE6E1, 0x9A77), (0xE6E2, 0x9A78), (0xE6E3, 0x9A7A),
     (0xE6E4, 0x9A7F), (0xE6E5, 0x9A7D), (0xE6E6, 0x9A80), (0xE6E7, 0x9A81), (0xE6E8, 0x9A85), (0xE6E9, 0x9A88),
     (0xE6EA, 0x9A8A), (0xE6EB, 0x9A90), (0xE6EC, 0x9A92), (0xE6ED, 0x9A93), (0xE6EE, 0x9A96), (0xE6EF, 0x9A98),
     (0xE6F0, 0x9A9B), (0xE6F1, 0x9A9C), (0xE6F2, 0x9A9D), (0xE6F3, 0x9A9F), (0xE6F4, 0x9AA0), (0xE6F5, 0x9AA2),
     (0xE6F6, 0x9AA3), (0xE6F7, 0x9AA5), (0xE6F8, 0x9AA7), (0xE6F9, 0x7E9F), (0xE6FA, 0x7EA1), (0xE6FB, 0x7EA3),
     (0xE6FC, 0x7EA5), (0xE6FD, 0x7EA8), (0xE6FE, 0x7EA9), (0xE740, 0x93CE), (0xE741, 0x93CF), (0xE742, 0x93D0),
     (0xE743, 0x93D1), (0xE744, 0x93D2), (0xE745, 0x93D3), (0xE746, 0x93D4), (0xE747, 0x93D5), (0xE748, 0x93D7),
     (0xE749, 0x93D8), (0xE74A, 0x93D9), (0xE74B, 0x93DA), (0xE74C, 0x93DB), (0xE74D, 0x93DC), (0xE74E, 0x93DD),
     (0xE74F, 0x93DE), (0xE750, 0x93DF), (0xE751, 0x93E0), (0xE752, 0x93E1), (0xE753, 0x93E2), (0xE754, 0x93E3),
     (0xE755, 0x93E4), (0xE756, 0x93E5), (0xE757, 0x93E6), (0xE758, 0x93E7), (0xE759, 0x93E8), (0xE75A, 0x93E9),
     (0xE75B, 0x93EA), (0xE75C, 0x93EB), (0xE75D, 0x93EC), (0xE75E, 0x93ED), (0xE75F, 0x93EE), (0xE760, 0x93EF),
     (0xE761, 0x93F0), (0xE762, 0x93F1), (0xE763, 0x93F2), (0xE764, 0x93F3), (0xE765, 0x93F4), (0xE766, 0x93F5),
     (0xE767, 0x93F6), (0xE768, 0x93F7), (0xE769, 0x93F8), (0xE76A, 0x93F9), (0xE76B, 0x93FA), (0xE76C, 0x93FB),
     (0xE76D, 0x93FC), (0xE76E, 0x93FD), (0xE76F, 0x93FE), (0xE770, 0x93FF), (0xE771, 0x9400), (0xE772, 0x9401),
     (0xE773, 0x9402), (0xE774, 0x9403), (0xE775, 0x9404), (0xE776, 0x9405), (0xE777, 0x9406), (0xE778, 0x9407),
     (0xE779, 0x9408), (0xE77A, 0x9409), (0xE77B, 0x940A), (0xE77C, 0x940B), (0xE77D, 0x940C), (0xE77E, 0x940D),
     (0xE780, 0x940E), (0xE781, 0x940F), (0xE782, 0x9410), (0xE783, 0x9411), (0xE784, 0x9412), (0xE785, 0x9413),
     (0xE786, 0x9414), (0xE787, 0x9415), (0xE788, 0x9416), (0xE789, 0x9417), (0xE78A, 0x9418), (0xE78B, 0x9419)]"

lemma ucs2_gbk_rows_122_climb: "climb 0xe6b3 ucs2_gbk_rows_122 = Some 0xe78b"
  unfolding ucs2_gbk_rows_122_def by (intro climb_num climb_end; simp only: numeral_less_iff less_num_simps le_num_simps)

definition ucs2_gbk_rows_123 :: "code_map list" where
  "ucs2_gbk_rows_123 = [
     (0xE78C, 0x941A), (0xE78D, 0x941B), (0xE78E, 0x941C), (0xE78F, 0x941D), (0xE790, 0x941E), (0xE791, 0x941F),
     (0xE792, 0x9420), (0xE793, 0x9421), (0xE794, 0x9422), (0xE795, 0x9423), (0xE796, 0x9424), (0xE797, 0x9425),
     (0xE798, 0x9426), (0xE799, 0x9427), (0xE79A, 0x9428), (0xE79B, 0x9429), (0xE79C, 0x942A), (0xE79D, 0x942B),
     (0xE79E, 0x942C), (0xE79F, 0x942D), (0xE7A0, 0x942E), (0xE7A1, 0x7EAD), (0xE7A2, 0x7EB0), (0xE7A3, 0x7EBE),
     (0xE7A4, 0x7EC0), (0xE7A5, 0x7EC1), (0xE7A6, 0x7EC2), (0xE7A7, 0x7EC9), (0xE7A8, 0x7ECB), (0xE7A9, 0x7ECC),
     (0xE7AA, 0x7ED0), (0xE7AB, 0x7ED4), (0xE7AC, 0x7ED7), (0xE7AD, 0x7EDB), (0xE7AE, 0x7EE0), (0xE7AF, 0x7EE1),
     (0xE7B0, 0x7EE8), (0xE7B1, 0x7EEB), (0xE7B2, 0x7EEE), (0xE7B3, 0x7EEF), (0xE7B4, 0x7EF1), (0xE7B5, 0x7EF2),
     (0xE7B6, 0x7F0D), (0xE7B7, 0x7EF6), (0xE7B8, 0x7EFA), (0xE7B9, 0x7EFB), (0xE7BA, 0x7EFE), (0xE7BB, 0x7F01),
     (0xE7BC, 0x7F02), (0xE7BD, 0x7F03), (0xE7BE, 0x7F07), (0xE7BF, 0x7F08), (0xE7C0, 0x7F0B), (0xE7C1, 0x7F0C),
     (0xE7C2, 0x7F0F), (0xE7C3, 0x7F11), (0xE7C4, 0x7F12), (0xE7C5, 0x7F17), (0xE7C6, 0x7F19), (0xE7C7, 0x7F1C),
     (0xE7C8, 0x7F1B), (0xE7C9, 0x7F1F), (0xE7CA, 0x7F21), (0xE7CB, 0x7F22), (0xE7CC, 0x7F23), (0xE7CD, 0x7F24),
     (0xE7CE, 0x7F25), (0xE7CF, 0x7F26), (0xE7D0, 0x7F27), (0xE7D1, 0x7F2A), (0xE7D2, 0x7F2B), (0xE7D3, 0x7F2C),
     (0xE7D4, 0x7F2D), (0xE7D5, 0x7F2F), (0xE7D6, 0x7F30), (0xE7D7, 0x7F31), (0xE7D8, 0x7F32), (0xE7D9, 0x7F33),
     (0xE7DA, 0x7F35), (0xE7DB, 0x5E7A), (0xE7DC, 0x757F), (0xE7DD, 0x5DDB), (0xE7DE, 0x753E), (0xE7DF, 0x9095),
     (0xE7E0, 0x738E), (0xE7E1, 0x7391), (0xE7E2, 0x73AE), (0xE7E3, 0x73A2), (0xE7E4, 0x739F), (0xE7E5, 0x73CF),
     (0xE7E6, 0x73C2), (0xE7E7, 0x73D1), (0xE7E8, 0x73B7), (0xE7E9, 0x73B3), (0xE7EA, 0x73C0), (0xE7EB, 0x73C9),
     (0xE7EC, 0x73C8), (0xE7ED, 0x73E5), (0xE7EE, 0x73D9), (0xE7EF, 0x987C), (0xE7F0, 0x740A), (0xE7F1, 0x73E9),
     (0xE7F2, 0x73E7), (0xE7F3, 0x73DE), (0xE7F4, 0x73BA), (0xE7F5, 0x73F2), (0xE7F6, 0x740F), (0xE7F7, 0x742A),
     (0xE7F8, 0x745B), (0xE7F9, 0x7426), (0xE7FA, 0x7425), (0xE7FB, 0x7428), (0xE7FC, 0x7430), (0xE7FD, 0x742E),
     (0xE7FE, 0x742C), (0xE840, 0x942F), (0xE841, 0x9430), (0xE842, 0x9431), (0xE843, 0x9432), (0xE844, 0x9433),
     (0xE845, 0x9434), (0xE846, 0x9435), (0xE847, 0x9436), (0xE848, 0x9437), (0xE849, 0x9438), (0xE84A, 0x9439),
     (0xE84B, 0x943A), (0xE84C, 0x943B), (0xE84D, 0x943C), (0xE84E, 0x943D), (0xE84F, 0x943F), (0xE850, 0x9440),
     (0xE851, 0x9441), (0xE852, 0x9442), (0xE853, 0x9443), (0xE854, 0x9444), (0xE855, 0x9445), (0xE856, 0x9446),
     (0xE857, 0x9447), (0xE858, 0x9448), (0xE859, 0x9449), (0xE85A, 0x944A), (0xE85B, 0x944B), (0xE85C, 0x944C),
     (0xE85D, 0x944D), (0xE85E, 0x944E), (0xE85F, 0x944F), (0xE860, 0x9450), (0xE861, 0x9451), (0xE862, 0x9452)]"

lemma ucs2_gbk_rows_123_climb: "climb 0xe78b ucs2_gbk_rows_123 = Some 0xe862"
  unfolding ucs2_gbk_rows_123_def by (intro climb_num climb_end; simp only: numeral_less_iff less_num_simps le_num_simps)

definition ucs2_gbk_rows_124 :: "code_map list" where
  "ucs2_gbk_rows_124 = [
     (0xE863, 0x9453), (0xE864, 0x9454), (0xE865, 0x9455), (0xE866, 0x9456), (0xE867, 0x9457), (0xE868, 0x9458),
     (0xE869, 0x9459), (0xE86A, 0x945A), (0xE86B, 0x945B), (0xE86C, 0x945C), (0xE86D, 0x945D), (0xE86E, 0x945E),
     (0xE86F, 0x945F), (0xE870, 0x9460), (0xE871, 0x9461), (0xE872, 0x9462), (0xE873, 0x9463), (0xE874, 0x9464),
     (0xE875, 0x9465), (0xE876, 0x9466), (0xE877, 0x9467), (0xE878, 0x9468), (0xE879, 0x9469), (0xE87A, 0x946A),
     (0xE87B, 0x946C), (0xE87C, 0x946D), (0xE87D, 0x946E), (0xE87E, 0x946F), (0xE880, 0x9470), (0xE881, 0x9471),
     (0xE882, 0x9472), (0xE883, 0x9473), (0xE884, 0x9474), (0xE885, 0x9475), (0xE886, 0x9476), (0xE887, 0x9477),
     (0xE888, 0x9478), (0xE889, 0x9479), (0xE88A, 0x947A), (0xE88B, 0x947B), (0xE88C, 0x947C), (0xE88D, 0x947D),
     (0xE88E, 0x947E), (0xE88F, 0x947F), (0xE890, 0x9480), (0xE891, 0x9481), (0xE892, 0x9482), (0xE893, 0x9483),
     (0xE894, 0x9484), (0xE895, 0x9491), (0xE896, 0x9496), (0xE897, 0x9498), (0xE898, 0x94C7), (0xE899, 0x94CF),
     (0xE89A, 0x94D3), (0xE89B, 0x94D4), (0xE89C, 0x94DA), (0xE89D, 0x94E6), (0xE89E, 0x94FB), (0xE89F, 0x951C),
     (0xE8A0, 0x9520), (0xE8A1, 0x741B), (0xE8A2, 0x741A), (0xE8A3, 0x7441), (0xE8A4, 0x745C), (0xE8A5, 0x7457),
     (0xE8A6, 0x7455), (0xE8A7, 0x7459), (0xE8A8, 0x7477), (0xE8A9, 0x746D), (0xE8AA, 0x747E), (0xE8AB, 0x749C),
     (0xE8AC, 0x748E), (0xE8AD, 0x7480), (0xE8AE, 0x7481), (0xE8AF, 0x7487), (0xE8B0, 0x748B), (0xE8B1, 0x749E),
     (0xE8B2, 0x74A8), (0xE8B3, 0x74A9), (0xE8B4, 0x7490), (0xE8B5, 0x74A7), (0xE8B6, 0x74D2), (0xE8B7, 0x74BA),
     (0xE8B8, 0x97EA), (0xE8B9, 0x97EB), (0xE8BA, 0x97EC), (0xE8BB, 0x674C), (0xE8BC, 0x6753), (0xE8BD, 0x675E),
     (0xE8BE, 0x6748), (0xE8BF, 0x6769), (0xE8C0, 0x67A5), (0xE8C1, 0x6787), (0xE8C2, 0x676A), (0xE8C3, 0x6773),
     (0xE8C4, 0x6798), (0xE8C5, 0x67A7), (0xE8C6, 0x6775), (0xE8C7, 0x67A8), (0xE8C8, 0x679E), (0xE8C9, 0x67AD),
     (0xE8CA, 0x678B), (0xE8CB, 0x6777), (0xE8CC, 0x677C), (0xE8CD, 0x67F0), (0xE8CE, 0x6809), (0xE8CF, 0x67D8),
     (0xE8D0, 0x680A), (0xE8D1, 0x67E9), (0xE8D2, 0x67B0), (0xE8D3, 0x680C), (0xE8D4, 0x67D9), (0xE8D5, 0x67B5),
     (0xE8D6, 0x67DA), (0xE8D7, 0x67B3), (0xE8D8, 0x67DD), (0xE8D9, 0x6800), (0xE8DA, 0x67C3), (0xE8DB, 0x67B8),
     (0xE8DC, 0x67E2), (0xE8DD, 0x680E), (0xE8DE, 0x67C1), (0xE8DF, 0x67FD), (0xE8E0, 0x6832), (0xE8E1, 0x6833),
     (0xE8E2, 0x6860), (0xE8E3, 0x6861), (0xE8E4, 0x684E), (0xE8E5, 0x6862), (0xE8E6, 0x6844), (0xE8E7, 0x6864),
     (0xE8E8, 0x6883), (0xE8E9, 0x681D), (0xE8EA, 0x6855), (0xE8EB, 0x6866), (0xE8EC, 0x6841), (0xE8ED, 0x6867),
     (0xE8EE, 0x6840), (0xE8EF, 0x683E), (0xE8F0, 0x684A), (0xE8F1, 0x6849), (0xE8F2, 0x6829), (0xE8F3, 0x68B5),
     (0xE8F4, 0x688F), (0xE8F5, 0x6874), (0xE8F6, 0x6877), (0xE8F7, 0x6893), (0xE8F8, 0x686B), (0xE8F9, 0x68C2)]"

lemma ucs2_gbk_rows_124_climb: "climb 0xe862 ucs2_gbk_rows_124 = Some 0xe8f9"
  unfolding ucs2_gbk_rows_124_def by (intro climb_num climb_end; simp only: numeral_less_iff less_num_simps le_num_simps)

definition ucs2_gbk_rows_125 :: "code_map list" where
  "ucs2_gbk_rows_125 = [
     (0xE8FA, 0x696E), (0xE8FB, 0x68FC), (0xE8FC, 0x691F), (0xE8FD, 0x6920), (0xE8FE, 0x68F9), (0xE940, 0x9527),
     (0xE941, 0x9533), (0xE942, 0x953D), (0xE943, 0x9543), (0xE944, 0x9548), (0xE945, 0x954B), (0xE946, 0x9555),
     (0xE947, 0x955A), (0xE948, 0x9560), (0xE949, 0x956E), (0xE94A, 0x9574), (0xE94B, 0x9575), (0xE94C, 0x9577),
     (0xE94D, 0x9578), (0xE94E, 0x9579), (0xE94F, 0x957A), (0xE950, 0x957B), (0xE951, 0x957C), (0xE952, 0x957D),
     (0xE953, 0x957E), (0xE954, 0x9580), (0xE955, 0x9581), (0xE956, 0x9582), (0xE957, 0x9583), (0xE958, 0x9584),
     (0xE959, 0x9585), (0xE95A, 0x9586), (0xE95B, 0x9587), (0xE95C, 0x9588), (0xE95D, 0x9589), (0xE95E, 0x958A),
     (0xE95F, 0x958B), (0xE960, 0x958C), (0xE961, 0x958D), (0xE962, 0x958E), (0xE963, 0x958F), (0xE964, 0x9590),
     (0xE965, 0x9591), (0xE966, 0x9592), (0xE967, 0x9593), (0xE968, 0x9594), (0xE969, 0x9595), (0xE96A, 0x9596),
     (0xE96B, 0x9597), (0xE96C, 0x9598), (0xE96D, 0x9599), (0xE96E, 0x959A), (0xE96F, 0x959B), (0xE970, 0x959C),
     (0xE971, 0x959D), (0xE972, 0x959E), (0xE973, 0x959F), (0xE974, 0x95A0), (0xE975, 0x95A1), (0xE976, 0x95A2),
     (0xE977, 0x95A3), (0xE978, 0x95A4), (0xE979, 0x95A5), (0xE97A, 0x95A6), (0xE97B, 0x95A7), (0xE97C, 0x95A8),
     (0xE97D, 0x95A9), (0xE97E, 0x95AA), (0xE980, 0x95AB), (0xE981, 0x95AC), (0xE982, 0x95AD), (0xE983, 0x95AE),
     (0xE984, 0x95AF), (0xE985, 0x95B0), (0xE986, 0x95B1), (0xE987, 0x95B2), (0xE988, 0x95B3), (0xE989, 0x95B4),
     (0xE98A, 0x95B5), (0xE98B, 0x95B6), (0xE98C, 0x95B7), (0xE98D, 0x95B8), (0xE98E, 0x95B9), (0xE98F, 0x95BA),
     (0xE990, 0x95BB), (0xE991, 0x95BC), (0xE992, 0x95BD), (0xE993, 0x95BE), (0xE994, 0x95BF), (0xE995, 0x95C0),
     (0xE996, 0x95C1), (0xE997, 0x95C2), (0xE998, 0x95C3), (0xE999, 0x95C4), (0xE99A, 0x95C5), (0xE99B, 0x95C6),
     (0xE99C, 0x95C7), (0xE99D, 0x95C8), (0xE99E, 0x95C9), (0xE99F, 0x95CA), (0xE9A0, 0x95CB), (0xE9A1, 0x6924),
     (0xE9A2, 0x68F0), (0xE9A3, 0x690B), (0xE9A4, 0x6901), (0xE9A5, 0x6957), (0xE9A6, 0x68E3), (0xE9A7, 0x6910),
     (0xE9A8, 0x6971), (0xE9A9, 0x6939), (0xE9AA, 0x6960), (0xE9AB, 0x6942), (0xE9AC, 0x695D), (0xE9AD, 0x6984),
     (0xE9AE, 0x696B), (0xE9AF, 0x6980), (0xE9B0, 0x6998), (0xE9B1, 0x6978), (0xE9B2, 0x6934), (0xE9B3, 0x69CC),
     (0xE9B4, 0x6987), (0xE9B5, 0x6988), (0xE9B6, 0x69CE), (0xE9B7, 0x6989), (0xE9B8, 0x6966), (0xE9B9, 0x6963),
     (0xE9BA, 0x6979), (0xE9BB, 0x699B), (0xE9BC, 0x69A7), (0xE9BD, 0x69BB), (0xE9BE, 0x69AB), (0xE9BF, 0x69AD),
     (0xE9C0, 0x69D4), (0xE9C1, 0x69B1), (0xE9C2, 0x69C1), (0xE9C3, 0x69CA), (0xE9C4, 0x69DF), (0xE9C5, 0x6995),
     (0xE9C6, 0x69E0), (0xE9C7, 0x698D), (0xE9C8, 0x69FF), (0xE9C9, 0x6A2F), (0xE9CA, 0x69ED), (0xE9CB, 0x6A17),
     (0xE9CC, 0x6A18), (0xE9CD, 0x6A65), (0xE9CE, 0x69F2), (0xE9CF, 0x6A44), (0xE9D0, 0x6A3E), (0xE9D1, 0x6AA0)]"

lemma ucs2_gbk_rows_125_climb: "climb 0xe8f9 ucs2_gbk_rows_125 = Some 0xe9d1"
  unfolding ucs2_gbk_rows_125_def by (intro climb_num climb_end; simp only: numeral_less_iff less_num_simps le_num_simps)

definition ucs2_gbk_rows_126 :: "code_map list" where
  "ucs2_gbk_rows_126 = [
     (0xE9D2, 0x6A50), (0xE9D3, 0x6A5B), (0xE9D4, 0x6A35), (0xE9D5, 0x6A8E), (0xE9D6, 0x6A79), (0xE9D7, 0x6A3D),
     (0xE9D8, 0x6A28), (0xE9D9, 0x6A58), (0xE9DA, 0x6A7C), (0xE9DB, 0x6A91), (0xE9DC, 0x6A90), (0xE9DD, 0x6AA9),
     (0xE9DE, 0x6A97), (0xE9DF, 0x6AAB), (0xE9E0, 0x7337), (0xE9E1, 0x7352), (0xE9E2, 0x6B81), (0xE9E3, 0x6B82),
     (0xE9E4, 0x6B87), (0xE9E5, 0x6B84), (0xE9E6, 0x6B92), (0xE9E7, 0x6B93), (0xE9E8, 0x6B8D), (0xE9E9, 0x6B9A),
     (0xE9EA, 0x6B9B), (0xE9EB, 0x6BA1), (0xE9EC, 0x6BAA), (0xE9ED, 0x8F6B), (0xE9EE, 0x8F6D), (0xE9EF, 0x8F71),
     (0xE9F0, 0x8F72), (0xE9F1, 0x8F73), (0xE9F2, 0x8F75), (0xE9F3, 0x8F76), (0xE9F4, 0x8F78), (0xE9F5, 0x8F77),
     (0xE9F6, 0x8F79), (0xE9F7, 0x8F7A), (0xE9F8, 0x8F7C), (0xE9F9, 0x8F7E), (0xE9FA, 0x8F81), (0xE9FB, 0x8F82),
     (0xE9FC, 0x8F84), (0xE9FD, 0x8F87), (0xE9FE, 0x8F8B), (0xEA40, 0x95CC), (0xEA41, 0x95CD), (0xEA42, 0x95CE),
     (0xEA43, 0x95CF), (0xEA44, 0x95D0), (0xEA45, 0x95D1), (0xEA46, 0x95D2), (0xEA47, 0x95D3), (0xEA48, 0x95D4),
     (0xEA49, 0x95D5), (0xEA4A, 0x95D6), (0xEA4B, 0x95D7), (0xEA4C, 0x95D8), (0xEA4D, 0x95D9), (0xEA4E, 0x95DA),
     (0xEA4F, 0x95DB), (0xEA50, 0x95DC), (0xEA51, 0x95DD), (0xEA52, 0x95DE), (0xEA53, 0x95DF), (0xEA54, 0x95E0),
     (0xEA55, 0x95E1), (0xEA56, 0x95E2), (0xEA57, 0x95E3), (0xEA58, 0x95E4), (0xEA59, 0x95E5), (0xEA5A, 0x95E6),
     (0xEA5B, 0x95E7), (0xEA5C, 0x95EC), (0xEA5D, 0x95FF), (0xEA5E, 0x9607), (0xEA5F, 0x9613), (0xEA60, 0x9618),
     (0xEA61, 0x961B), (0xEA62, 0x961E), (0xEA63, 0x9620), (0xEA64, 0x9623), (0xEA65, 0x9624), (0xEA66, 0x9625),
     (0xEA67, 0x9626), (0xEA68, 0x9627), (0xEA69, 0x9628), (0xEA6A, 0x9629), (0xEA6B, 0x962B), (0xEA6C, 0x962C),
     (0xEA6D, 0x962D), (0xEA6E, 0x962F), (0xEA6F, 0x9630), (0xEA70, 0x9637), (0xEA71, 0x9638), (0xEA72, 0x9639),
     (0xEA73, 0x963A), (0xEA74, 0x963E), (0xEA75, 0x9641), (0xEA76, 0x9643), (0xEA77, 0x964A), (0xEA78, 0x964E),
     (0xEA79, 0x964F), (0xEA7A, 0x9651), (0xEA7B, 0x9652), (0xEA7C, 0x9653), (0xEA7D, 0x9656), (0xEA7E, 0x9657),
     (0xEA80, 0x9658), (0xEA81, 0x9659), (0xEA82, 0x965A), (0xEA83, 0x965C), (0xEA84, 0x965D), (0xEA85, 0x965E),
     (0xEA86, 0x9660), (0xEA87, 0x9663), (0xEA88, 0x9665), (0xEA89, 0x9666), (0xEA8A, 0x966B), (0xEA8B, 0x966D),
     (0xEA8C, 0x966E), (0xEA8D, 0x966F), (0xEA8E, 0x9670), (0xEA8F, 0x9671), (0xEA90, 0x9673), (0xEA91, 0x9678),
     (0xEA92, 0x9679), (0xEA93, 0x967A), (0xEA94, 0x967B), (0xEA95, 0x967C), (0xEA96, 0x967D), (0xEA97, 0x967E),
     (0xEA98, 0x967F), (0xEA99, 0x9680), (0xEA9A, 0x9681), (0xEA9B, 0x9682), (0xEA9C, 0x9683), (0xEA9D, 0x9684),
     (0xEA9E, 0x9687), (0xEA9F, 0x9689), (0xEAA0, 0x968A), (0xEAA1, 0x8F8D), (0xEAA2, 0x8F8E), (0xEAA3, 0x8F8F),
     (0xEAA4, 0x8F98), (0xEAA5, 0x8F9A), (0xEAA6, 0x8ECE), (0xEAA7, 0x620B), (0xEAA8, 0x6217), (0xEAA9, 0x621B)]"

lemma ucs2_gbk_rows_126_climb: "climb 0xe9d1 ucs2_gbk_rows_126 = Some 0xeaa9"
  unfolding ucs2_gbk_rows_126_def by (intro climb_num climb_end; simp only: numeral_less_iff less_num_simps le_num_simps)

definition ucs2_gbk_rows_127 :: "code_map list" where
  "ucs2_gbk_rows_127 = [
     (0xEAAA, 0x621F), (0xEAAB, 0x6222), (0xEAAC, 0x6221), (0xEAAD, 0x6225), (0xEAAE, 0x6224), (0xEAAF, 0x622C),
     (0xEAB0, 0x81E7), (0xEAB1, 0x74EF), (0xEAB2, 0x74F4), (0xEAB3, 0x74FF), (0xEAB4, 0x750F), (0xEAB5, 0x7511),
     (0xEAB6, 0x7513), (0xEAB7, 0x6534), (0xEAB8, 0x65EE), (0xEAB9, 0x65EF), (0xEABA, 0x65F0), (0xEABB, 0x660A),
     (0xEABC, 0x6619), (0xEABD, 0x6772), (0xEABE, 0x6603), (0xEABF, 0x6615), (0xEAC0, 0x6600), (0xEAC1, 0x7085),
     (0xEAC2, 0x66F7), (0xEAC3, 0x661D), (0xEAC4, 0x6634), (0xEAC5, 0x6631), (0xEAC6, 0x6636), (0xEAC7, 0x6635),
     (0xEAC8, 0x8006), (0xEAC9, 0x665F), (0xEACA, 0x6654), (0xEACB, 0x6641), (0xEACC, 0x664F), (0xEACD, 0x6656),
     (0xEACE, 0x6661), (0xEACF, 0x6657), (0xEAD0, 0x6677), (0xEAD1, 0x6684), (0xEAD2, 0x668C), (0xEAD3, 0x66A7),
     (0xEAD4, 0x669D), (0xEAD5, 0x66BE), (0xEAD6, 0x66DB), (0xEAD7, 0x66DC), (0xEAD8, 0x66E6), (0xEAD9, 0x66E9),
     (0xEADA, 0x8D32), (0xEADB, 0x8D33), (0xEADC, 0x8D36), (0xEADD, 0x8D3B), (0xEADE, 0x8D3D), (0xEADF, 0x8D40),
     (0xEAE0, 0x8D45), (0xEAE1, 0x8D46), (0xEAE2, 0x8D48), (0xEAE3, 0x8D49), (0xEAE4, 0x8D47), (0xEAE5, 0x8D4D),
     (0xEAE6, 0x8D55), (0xEAE7, 0x8D59), (0xEAE8, 0x89C7), (0xEAE9, 0x89CA), (0xEAEA, 0x89CB), (0xEAEB, 0x89CC),
     (0xEAEC, 0x89CE), (0xEAED, 0x89CF), (0xEAEE, 0x89D0), (0xEAEF, 0x89D1), (0xEAF0, 0x726E), (0xEAF1, 0x729F),
     (0xEAF2, 0x725D), (0xEAF3, 0x7266), (0xEAF4, 0x726F), (0xEAF5, 0x727E), (0xEAF6, 0x727F), (0xEAF7, 0x7284),
     (0xEAF8, 0x728B), (0xEAF9, 0x728D), (0xEAFA, 0x728F), (0xEAFB, 0x7292), (0xEAFC, 0x6308), (0xEAFD, 0x6332),
     (0xEAFE, 0x63B0), (0xEB40, 0x968C), (0xEB41, 0x968E), (0xEB42, 0x9691), (0xEB43, 0x9692), (0xEB44, 0x9693),
     (0xEB45, 0x9695), (0xEB46, 0x9696), (0xEB47, 0x969A), (0xEB48, 0x969B), (0xEB49, 0x969D), (0xEB4A, 0x969E),
     (0xEB4B, 0x969F), (0xEB4C, 0x96A0), (0xEB4D, 0x96A1), (0xEB4E, 0x96A2), (0xEB4F, 0x96A3), (0xEB50, 0x96A4),
     (0xEB51, 0x96A5), (0xEB52, 0x96A6), (0xEB53, 0x96A8), (0xEB54, 0x96A9), (0xEB55, 0x96AA), (0xEB56, 0x96AB),
     (0xEB57, 0x96AC), (0xEB58, 0x96AD), (0xEB59, 0x96AE), (0xEB5A, 0x96AF), (0xEB5B, 0x96B1), (0xEB5C, 0x96B2),
     (0xEB5D, 0x96B4), (0xEB5E, 0x96B5), (0xEB5F, 0x96B7), (0xEB60, 0x96B8), (0xEB61, 0x96BA), (0xEB62, 0x96BB),
     (0xEB63, 0x96BF), (0xEB64, 0x96C2), (0xEB65, 0x96C3), (0xEB66, 0x96C8), (0xEB67, 0x96CA), (0xEB68, 0x96CB),
     (0xEB69, 0x96D0), (0xEB6A, 0x96D1), (0xEB6B, 0x96D3), (0xEB6C, 0x96D4), (0xEB6D, 0x96D6), (0xEB6E, 0x96D7),
     (0xEB6F, 0x96D8), (0xEB70, 0x96D9), (0xEB71, 0x96DA), (0xEB72, 0x96DB), (0xEB73, 0x96DC), (0xEB74, 0x96DD),
     (0xEB75, 0x96DE), (0xEB76, 0x96DF), (0xEB77, 0x96E1), (0xEB78, 0x96E2), (0xEB79, 0x96E3), (0xEB7A, 0x96E4),
     (0xEB7B, 0x96E5), (0xEB7C, 0x96E6), (0xEB7D, 0x96E7), (0xEB7E, 0x96EB), (0xEB80, 0x96EC), (0xEB81, 0x96ED)]"

lemma ucs2_gbk_rows_127_climb: "climb 0xeaa9 ucs2_gbk_rows_127 = Some 0xeb81"
  unfolding ucs2_gbk_rows_127_def by (intro climb_num climb_end; simp only: numeral_less_iff less_num_simps le_num_simps)

definition ucs2_gbk_rows_128 :: "code_map list" where
  "ucs2_gbk_rows_128 = [
     (0xEB82, 0x96EE), (0xEB83, 0x96F0), (0xEB84, 0x96F1), (0xEB85, 0x96F2), (0xEB86, 0x96F4), (0xEB87, 0x96F5),
     (0xEB88, 0x96F8), (0xEB89, 0x96FA), (0xEB8A, 0x96FB), (0xEB8B, 0x96FC), (0xEB8C, 0x96FD), (0xEB8D, 0x96FF),
     (0xEB8E, 0x9702), (0xEB8F, 0x9703), (0xEB90, 0x9705), (0xEB91, 0x970A), (0xEB92, 0x970B), (0xEB93, 0x970C),
     (0xEB94, 0x9710), (0xEB95, 0x9711), (0xEB96, 0x9712), (0xEB97, 0x9714), (0xEB98, 0x9715), (0xEB99, 0x9717),
     (0xEB9A, 0x9718), (0xEB9B, 0x9719), (0xEB9C, 0x971A), (0xEB9D, 0x971B), (0xEB9E, 0x971D), (0xEB9F, 0x971F),
     (0xEBA0, 0x9720), (0xEBA1, 0x643F), (0xEBA2, 0x64D8), (0xEBA3, 0x8004), (0xEBA4, 0x6BEA), (0xEBA5, 0x6BF3),
     (0xEBA6, 0x6BFD), (0xEBA7, 0x6BF5), (0xEBA8, 0x6BF9), (0xEBA9, 0x6C05), (0xEBAA, 0x6C07), (0xEBAB, 0x6C06),
     (0xEBAC, 0x6C0D), (0xEBAD, 0x6C15), (0xEBAE, 0x6C18), (0xEBAF, 0x6C19), (0xEBB0, 0x6C1A), (0xEBB1, 0x6C21),
     (0xEBB2, 0x6C29), (0xEBB3, 0x6C24), (0xEBB4, 0x6C2A), (0xEBB5, 0x6C32), (0xEBB6, 0x6535), (0xEBB7, 0x6555),
     (0xEBB8, 0x656B), (0xEBB9, 0x724D), (0xEBBA, 0x7252), (0xEBBB, 0x7256), (0xEBBC, 0x7230), (0xEBBD, 0x8662),
     (0xEBBE, 0x5216), (0xEBBF, 0x809F), (0xEBC0, 0x809C), (0xEBC1, 0x8093), (0xEBC2, 0x80BC), (0xEBC3, 0x670A),
     (0xEBC4, 0x80BD), (0xEBC5, 0x80B1), (0xEBC6, 0x80AB), (0xEBC7, 0x80AD), (0xEBC8, 0x80B4), (0xEBC9, 0x80B7),
     (0xEBCA, 0x80E7), (0xEBCB, 0x80E8), (0xEBCC, 0x80E9), (0xEBCD, 0x80EA), (0xEBCE, 0x80DB), (0xEBCF, 0x80C2),
     (0xEBD0, 0x80C4), (0xEBD1, 0x80D9), (0xEBD2, 0x80CD), (0xEBD3, 0x80D7), (0xEBD4, 0x6710), (0xEBD5, 0x80DD),
     (0xEBD6, 0x80EB), (0xEBD7, 0x80F1), (0xEBD8, 0x80F4), (0xEBD9, 0x80ED), (0xEBDA, 0x810D), (0xEBDB, 0x810E),
     (0xEBDC, 0x80F2), (0xEBDD, 0x80FC), (0xEBDE, 0x6715), (0xEBDF, 0x8112), (0xEBE0, 0x8C5A), (0xEBE1, 0x8136),
     (0xEBE2, 0x811E), (0xEBE3, 0x812C), (0xEBE4, 0x8118), (0xEBE5, 0x8132), (0xEBE6, 0x8148), (0xEBE7, 0x814C),
     (0xEBE8, 0x8153), (0xEBE9, 0x8174), (0xEBEA, 0x8159), (0xEBEB, 0x815A), (0xEBEC, 0x8171), (0xEBED, 0x8160),
     (0xEBEE, 0x8169), (0xEBEF, 0x817C), (0xEBF0, 0x817D), (0xEBF1, 0x816D), (0xEBF2, 0x8167), (0xEBF3, 0x584D),
     (0xEBF4, 0x5AB5), (0xEBF5, 0x8188), (0xEBF6, 0x8182), (0xEBF7, 0x8191), (0xEBF8, 0x6ED5), (0xEBF9, 0x81A3),
     (0xEBFA, 0x81AA), (0xEBFB, 0x81CC), (0xEBFC, 0x6726), (0xEBFD, 0x81CA), (0xEBFE, 0x81BB), (0xEC40, 0x9721),
     (0xEC41, 0x9722), (0xEC42, 0x9723), (0xEC43, 0x9724), (0xEC44, 0x9725), (0xEC45, 0x9726), (0xEC46, 0x9727),
     (0xEC47, 0x9728), (0xEC48, 0x9729), (0xEC49, 0x972B), (0xEC4A, 0x972C), (0xEC4B, 0x972E), (0xEC4C, 0x972F),
     (0xEC4D, 0x9731), (0xEC4E, 0x9733), (0xEC4F, 0x9734), (0xEC50, 0x9735), (0xEC51, 0x9736), (0xEC52, 0x9737),
     (0xEC53, 0x973A), (0xEC54, 0x973B), (0xEC55, 0x973C), (0xEC56, 0x973D), (0xEC57, 0x973F), (0xEC58, 0x9740)]"

lemma ucs2_gbk_rows_128_climb: "climb 0xeb81 ucs2_gbk_rows_128 = Some 0xec58"
  unfolding ucs2_gbk_rows_128_def by (intro climb_num climb_end; simp only: numeral_less_iff less_num_simps le_num_simps)

definition ucs2_gbk_rows_129 :: "code_map list" where
  "ucs2_gbk_rows_129 = [
     (0xEC59, 0x9741), (0xEC5A, 0x9742), (0xEC5B, 0x9743), (0xEC5C, 0x9744), (0xEC5D, 0x9745), (0xEC5E, 0x9746),
     (0xEC5F, 0x9747), (0xEC60, 0x9748), (0xEC61, 0x9749), (0xEC62, 0x974A), (0xEC63, 0x974B), (0xEC64, 0x974C),
     (0xEC65, 0x974D), (0xEC66, 0x974E), (0xEC67, 0x974F), (0xEC68, 0x9750), (0xEC69, 0x9751), (0xEC6A, 0x9754),
     (0xEC6B, 0x9755), (0xEC6C, 0x9757), (0xEC6D, 0x9758), (0xEC6E, 0x975A), (0xEC6F, 0x975C), (0xEC70, 0x975D),
     (0xEC71, 0x975F), (0xEC72, 0x9763), (0xEC73, 0x9764), (0xEC74, 0x9766), (0xEC75, 0x9767), (0xEC76, 0x9768),
     (0xEC77, 0x976A), (0xEC78, 0x976B), (0xEC79, 0x976C), (0xEC7A, 0x976D), (0xEC7B, 0x976E), (0xEC7C, 0x976F),
     (0xEC7D, 0x9770), (0xEC7E, 0x9771), (0xEC80, 0x9772), (0xEC81, 0x9775), (0xEC82, 0x9777), (0xEC83, 0x9778),
     (0xEC84, 0x9779), (0xEC85, 0x977A), (0xEC86, 0x977B), (0xEC87, 0x977D), (0xEC88, 0x977E), (0xEC89, 0x977F),
     (0xEC8A, 0x9780), (0xEC8B, 0x9781), (0xEC8C, 0x9782), (0xEC8D, 0x9783), (0xEC8E, 0x9784), (0xEC8F, 0x9786),
     (0xEC90, 0x9787), (0xEC91, 0x9788), (0xEC92, 0x9789), (0xEC93, 0x978A), (0xEC94, 0x978C), (0xEC95, 0x978E),
     (0xEC96, 0x978F), (0xEC97, 0x9790), (0xEC98, 0x9793), (0xEC99, 0x9795), (0xEC9A, 0x9796), (0xEC9B, 0x9797),
     (0xEC9C, 0x9799), (0xEC9D, 0x979A), (0xEC9E, 0x979B), (0xEC9F, 0x979C), (0xECA0, 0x979D), (0xECA1, 0x81C1),
     (0xECA2, 0x81A6), (0xECA3, 0x6B24), (0xECA4, 0x6B37), (0xECA5, 0x6B39), (0xECA6, 0x6B43), (0xECA7, 0x6B46),
     (0xECA8, 0x6B59), (0xECA9, 0x98D1), (0xECAA, 0x98D2), (0xECAB, 0x98D3), (0xECAC, 0x98D5), (0xECAD, 0x98D9),
     (0xECAE, 0x98DA), (0xECAF, 0x6BB3), (0xECB0, 0x5F40), (0xECB1, 0x6BC2), (0xECB2, 0x89F3), (0xECB3, 0x6590),
     (0xECB4, 0x9F51), (0xECB5, 0x6593), (0xECB6, 0x65BC), (0xECB7, 0x65C6), (0xECB8, 0x65C4), (0xECB9, 0x65C3),
     (0xECBA, 0x65CC), (0xECBB, 0x65CE), (0xECBC, 0x65D2), (0xECBD, 0x65D6), (0xECBE, 0x7080), (0xECBF, 0x709C),
     (0xECC0, 0x7096), (0xECC1, 0x709D), (0xECC2, 0x70BB), (0xECC3, 0x70C0), (0xECC4, 0x70B7), (0xECC5, 0x70AB),
     (0xECC6, 0x70B1), (0xECC7, 0x70E8), (0xECC8, 0x70CA), (0xECC9, 0x7110), (0xECCA, 0x7113), (0xECCB, 0x7116),
     (0xECCC, 0x712F), (0xECCD, 0x7131), (0xECCE, 0x7173), (0xECCF, 0x715C), (0xECD0, 0x7168), (0xECD1, 0x7145),
     (0xECD2, 0x7172), (0xECD3, 0x714A), (0xECD4, 0x7178), (0xECD5, 0x717A), (0xECD6, 0x7198), (0xECD7, 0x71B3),
     (0xECD8, 0x71B5), (0xECD9, 0x71A8), (0xECDA, 0x71A0), (0xECDB, 0x71E0), (0xECDC, 0x71D4), (0xECDD, 0x71E7),
     (0xECDE, 0x71F9), (0xECDF, 0x721D), (0xECE0, 0x7228), (0xECE1, 0x706C), (0xECE2, 0x7118), (0xECE3, 0x7166),
     (0xECE4, 0x71B9), (0xECE5, 0x623E), (0xECE6, 0x623D), (0xECE7, 0x6243), (0xECE8, 0x6248), (0xECE9, 0x6249),
     (0xECEA, 0x793B), (0xECEB, 0x7940), (0xECEC, 0x7946), (0xECED, 0x7949), (0xECEE, 0x795B), (0xECEF, 0x795C)]"

lemma ucs2_gbk_rows_129_climb: "climb 0xec58 ucs2_gbk_rows_129 = Some 0xecef"
  unfolding ucs2_gbk_rows_129_def by (intro climb_num climb_end; simp only: numeral_less_iff less_num_simps le_num_simps)

definition ucs2_gbk_rows_130 :: "code_map list" where
  "ucs2_gbk_rows_130 = [
     (0xECF0, 0x7953), (0xECF1, 0x795A), (0xECF2, 0x7962), (0xECF3, 0x7957), (0xECF4, 0x7960), (0xECF5, 0x796F),
     (0xECF6, 0x7967), (0xECF7, 0x797A), (0xECF8, 0x7985), (0xECF9, 0x798A), (0xECFA, 0x799A), (0xECFB, 0x79A7),
     (0xECFC, 0x79B3), (0xECFD, 0x5FD1), (0xECFE, 0x5FD0), (0xED40, 0x979E), (0xED41, 0x979F), (0xED42, 0x97A1),
     (0xED43, 0x97A2), (0xED44, 0x97A4), (0xED45, 0x97A5), (0xED46, 0x97A6), (0xED47, 0x97A7), (0xED48, 0x97A8),
     (0xED49, 0x97A9), (0xED4A, 0x97AA), (0xED4B, 0x97AC), (0xED4C, 0x97AE), (0xED4D, 0x97B0), (0xED4E, 0x97B1),
     (0xED4F, 0x97B3), (0xED50, 0x97B5), (0xED51, 0x97B6), (0xED52, 0x97B7), (0xED53, 0x97B8), (0xED54, 0x97B9),
     (0xED55, 0x97BA), (0xED56, 0x97BB), (0xED57, 0x97BC), (0xED58, 0x97BD), (0xED59, 0x97BE), (0xED5A, 0x97BF),
     (0xED5B, 0x97C0), (0xED5C, 0x97C1), (0xED5D, 0x97C2), (0xED5E, 0x97C3), (0xED5F, 0x97C4), (0xED60, 0x97C5),
     (0xED61, 0x97C6), (0xED62, 0x97C7), (0xED63, 0x97C8), (0xED64, 0x97C9), (0xED65, 0x97CA), (0xED66, 0x97CB),
     (0xED67, 0x97CC), (0xED68, 0x97CD), (0xED69, 0x97CE), (0xED6A, 0x97CF), (0xED6B, 0x97D0), (0xED6C, 0x97D1),
     (0xED6D, 0x97D2), (0xED6E, 0x97D3), (0xED6F, 0x97D4), (0xED70, 0x97D5), (0xED71, 0x97D6), (0xED72, 0x97D7),
     (0xED73, 0x97D8), (0xED74, 0x97D9), (0xED75, 0x97DA), (0xED76, 0x97DB), (0xED77, 0x97DC), (0xED78, 0x97DD),
     (0xED79, 0x97DE), (0xED7A, 0x97DF), (0xED7B, 0x97E0), (0xED7C, 0x97E1), (0xED7D, 0x97E2), (0xED7E, 0x97E3),
     (0xED80, 0x97E4), (0xED81, 0x97E5), (0xED82, 0x97E8), (0xED83, 0x97EE), (0xED84, 0x97EF), (0xED85, 0x97F0),
     (0xED86, 0x97F1), (0xED87, 0x97F2), (0xED88, 0x97F4), (0xED89, 0x97F7), (0xED8A, 0x97F8), (0xED8B, 0x97F9),
     (0xED8C, 0x97FA), (0xED8D, 0x97FB), (0xED8E, 0x97FC), (0xED8F, 0x97FD), (0xED90, 0x97FE), (0xED91, 0x97FF),
     (0xED92, 0x9800), (0xED93, 0x9801), (0xED94, 0x9802), (0xED95, 0x9803), (0xED96, 0x9804), (0xED97, 0x9805),
     (0xED98, 0x9806), (0xED99, 0x9807), (0xED9A, 0x9808), (0xED9B, 0x9809), (0xED9C, 0x980A), (0xED9D, 0x980B),
     (0xED9E, 0x980C), (0xED9F, 0x980D), (0xEDA0, 0x980E), (0xEDA1, 0x603C), (0xEDA2, 0x605D), (0xEDA3, 0x605A),
     (0xEDA4, 0x6067), (0xEDA5, 0x6041), (0xEDA6, 0x6059), (0xEDA7, 0x6063), (0xEDA8, 0x60AB), (0xEDA9, 0x6106),
     (0xEDAA, 0x610D), (0xEDAB, 0x615D), (0xEDAC, 0x61A9), (0xEDAD, 0x619D), (0xEDAE, 0x61CB), (0xEDAF, 0x61D1),
     (0xEDB0, 0x6206), (0xEDB1, 0x8080), (0xEDB2, 0x807F), (0xEDB3, 0x6C93), (0xEDB4, 0x6CF6), (0xEDB5, 0x6DFC),
     (0xEDB6, 0x77F6), (0xEDB7, 0x77F8), (0xEDB8, 0x7800), (0xEDB9, 0x7809), (0xEDBA, 0x7817), (0xEDBB, 0x7818),
     (0xEDBC, 0x7811), (0xEDBD, 0x65AB), (0xEDBE, 0x782D), (0xEDBF, 0x781C), (0xEDC0, 0x781D), (0xEDC1, 0x7839),
     (0xEDC2, 0x783A), (0xEDC3, 0x783B), (0xEDC4, 0x781F), (0xEDC5, 0x783C), (0xEDC6, 0x7825), (0xEDC7, 0x782C)]"

lemma ucs2_gbk_rows_130_climb: "climb 0xecef ucs2_gbk_rows_130 = Some 0xedc7"
  unfolding ucs2_gbk_rows_130_def by (intro climb_num climb_end; simp only: numeral_less_iff less_num_simps le_num_simps)

definition ucs2_gbk_rows_131 :: "code_map list" where
  "ucs2_gbk_rows_131 = [
     (0xEDC8, 0x7823), (0xEDC9, 0x7829), (0xEDCA, 0x784E), (0xEDCB, 0x786D), (0xEDCC, 0x7856), (0xEDCD, 0x7857),
     (0xEDCE, 0x7826), (0xEDCF, 0x7850), (0xEDD0, 0x7847), (0xEDD1, 0x784C), (0xEDD2, 0x786A), (0xEDD3, 0x789B),
     (0xEDD4, 0x7893), (0xEDD5, 0x789A), (0xEDD6, 0x7887), (0xEDD7, 0x789C), (0xEDD8, 0x78A1), (0xEDD9, 0x78A3),
     (0xEDDA, 0x78B2), (0xEDDB, 0x78B9), (0xEDDC, 0x78A5), (0xEDDD, 0x78D4), (0xEDDE, 0x78D9), (0xEDDF, 0x78C9),
     (0xEDE0, 0x78EC), (0xEDE1, 0x78F2), (0xEDE2, 0x7905), (0xEDE3, 0x78F4), (0xEDE4, 0x7913), (0xEDE5, 0x7924),
     (0xEDE6, 0x791E), (0xEDE7, 0x7934), (0xEDE8, 0x9F9B), (0xEDE9, 0x9EF9), (0xEDEA, 0x9EFB), (0xEDEB, 0x9EFC),
     (0xEDEC, 0x76F1), (0xEDED, 0x7704), (0xEDEE, 0x770D), (0xEDEF, 0x76F9), (0xEDF0, 0x7707), (0xEDF1, 0x7708),
     (0xEDF2, 0x771A), (0xEDF3, 0x7722), (0xEDF4, 0x7719), (0xEDF5, 0x772D), (0xEDF6, 0x7726), (0xEDF7, 0x7735),
     (0xEDF8, 0x7738), (0xEDF9, 0x7750), (0xEDFA, 0x7751), (0xEDFB, 0x7747), (0xEDFC, 0x7743), (0xEDFD, 0x775A),
     (0xEDFE, 0x7768), (0xEE40, 0x980F), (0xEE41, 0x9810), (0xEE42, 0x9811), (0xEE43, 0x9812), (0xEE44, 0x9813),
     (0xEE45, 0x9814), (0xEE46, 0x9815), (0xEE47, 0x9816), (0xEE48, 0x9817), (0xEE49, 0x9818), (0xEE4A, 0x9819),
     (0xEE4B, 0x981A), (0xEE4C, 0x981B), (0xEE4D, 0x981C), (0xEE4E, 0x981D), (0xEE4F, 0x981E), (0xEE50, 0x981F),
     (0xEE51, 0x9820), (0xEE52, 0x9821), (0xEE53, 0x9822), (0xEE54, 0x9823), (0xEE55, 0x9824), (0xEE56, 0x9825),
     (0xEE57, 0x9826), (0xEE58, 0x9827), (0xEE59, 0x9828), (0xEE5A, 0x9829), (0xEE5B, 0x982A), (0xEE5C, 0x982B),
     (0xEE5D, 0x982C), (0xEE5E, 0x982D), (0xEE5F, 0x982E), (0xEE60, 0x982F), (0xEE61, 0x9830), (0xEE62, 0x9831),
     (0xEE63, 0x9832), (0xEE64, 0x9833), (0xEE65, 0x9834), (0xEE66, 0x9835), (0xEE67, 0x9836), (0xEE68, 0x9837),
     (0xEE69, 0x9838), (0xEE6A, 0x9839), (0xEE6B, 0x983A), (0xEE6C, 0x983B), (0xEE6D, 0x983C), (0xEE6E, 0x983D),
     (0xEE6F, 0x983E), (0xEE70, 0x983F), (0xEE71, 0x9840), (0xEE72, 0x9841), (0xEE73, 0x9842), (0xEE74, 0x9843),
     (0xEE75, 0x9844), (0xEE76, 0x9845), (0xEE77, 0x9846), (0xEE78, 0x9847), (0xEE79, 0x9848), (0xEE7A, 0x9849),
     (0xEE7B, 0x984A), (0xEE7C, 0x984B), (0xEE7D, 0x984C), (0xEE7E, 0x984D), (0xEE80, 0x984E), (0xEE81, 0x984F),
     (0xEE82, 0x9850), (0xEE83, 0x9851), (0xEE84, 0x9852), (0xEE85, 0x9853), (0xEE86, 0x9854), (0xEE87, 0x9855),
     (0xEE88, 0x9856), (0xEE89, 0x9857), (0xEE8A, 0x9858), (0xEE8B, 0x9859), (0xEE8C, 0x985A), (0xEE8D, 0x985B),
     (0xEE8E, 0x985C), (0xEE8F, 0x985D), (0xEE90, 0x985E), (0xEE91, 0x985F), (0xEE92, 0x9860), (0xEE93, 0x9861),
     (0xEE94, 0x9862), (0xEE95, 0x9863), (0xEE96, 0x9864), (0xEE97, 0x9865), (0xEE98, 0x9866), (0xEE99, 0x9867),
     (0xEE9A, 0x9868), (0xEE9B, 0x9869), (0xEE9C, 0x986A), (0xEE9D, 0x986B), (0xEE9E, 0x986C), (0xEE9F, 0x986D)]"

lemma ucs2_gbk_rows_131_climb: "climb 0xedc7 ucs2_gbk_rows_131 = Some 0xee9f"
  unfolding ucs2_gbk_rows_131_def by (intro climb_num climb_end; simp only: numeral_less_iff less_num_simps le_num_simps)

definition ucs2_gbk_rows_132 :: "code_map list" where
  "ucs2_gbk_rows_132 = [
     (0xEEA0, 0x986E), (0xEEA1, 0x7762), (0xEEA2, 0x7765), (0xEEA3, 0x777F), (0xEEA4, 0x778D), (0xEEA5, 0x777D),
     (0xEEA6, 0x7780), (0xEEA7, 0x778C), (0xEEA8, 0x7791), (0xEEA9, 0x779F), (0xEEAA, 0x77A0), (0xEEAB, 0x77B0),
     (0xEEAC, 0x77B5), (0xEEAD, 0x77BD), (0xEEAE, 0x753A), (0xEEAF, 0x7540), (0xEEB0, 0x754E), (0xEEB1, 0x754B),
     (0xEEB2, 0x7548), (0xEEB3, 0x755B), (0xEEB4, 0x7572), (0xEEB5, 0x7579), (0xEEB6, 0x7583), (0xEEB7, 0x7F58),
     (0xEEB8, 0x7F61), (0xEEB9, 0x7F5F), (0xEEBA, 0x8A48), (0xEEBB, 0x7F68), (0xEEBC, 0x7F74), (0xEEBD, 0x7F71),
     (0xEEBE, 0x7F79), (0xEEBF, 0x7F81), (0xEEC0, 0x7F7E), (0xEEC1, 0x76CD), (0xEEC2, 0x76E5), (0xEEC3, 0x8832),
     (0xEEC4, 0x9485), (0xEEC5, 0x9486), (0xEEC6, 0x9487), (0xEEC7, 0x948B), (0xEEC8, 0x948A), (0xEEC9, 0x948C),
     (0xEECA, 0x948D), (0xEECB, 0x948F), (0xEECC, 0x9490), (0xEECD, 0x9494), (0xEECE, 0x9497), (0xEECF, 0x9495),
     (0xEED0, 0x949A), (0xEED1, 0x949B), (0xEED2, 0x949C), (0xEED3, 0x94A3), (0xEED4, 0x94A4), (0xEED5, 0x94AB),
     (0xEED6, 0x94AA), (0xEED7, 0x94AD), (0xEED8, 0x94AC), (0xEED9, 0x94AF), (0xEEDA, 0x94B0), (0xEEDB, 0x94B2),
     (0xEEDC, 0x94B4), (0xEEDD, 0x94B6), (0xEEDE, 0x94B7), (0xEEDF, 0x94B8), (0xEEE0, 0x94B9), (0xEEE1, 0x94BA),
     (0xEEE2, 0x94BC), (0xEEE3, 0x94BD), (0xEEE4, 0x94BF), (0xEEE5, 0x94C4), (0xEEE6, 0x94C8), (0xEEE7, 0x94C9),
     (0xEEE8, 0x94CA), (0xEEE9, 0x94CB), (0xEEEA, 0x94CC), (0xEEEB, 0x94CD), (0xEEEC, 0x94CE), (0xEEED, 0x94D0),
     (0xEEEE, 0x94D1), (0xEEEF, 0x94D2), (0xEEF0, 0x94D5), (0xEEF1, 0x94D6), (0xEEF2, 0x94D7), (0xEEF3, 0x94D9),
     (0xEEF4, 0x94D8), (0xEEF5, 0x94DB), (0xEEF6, 0x94DE), (0xEEF7, 0x94DF), (0xEEF8, 0x94E0), (0xEEF9, 0x94E2),
     (0xEEFA, 0x94E4), (0xEEFB, 0x94E5), (0xEEFC, 0x94E7), (0xEEFD, 0x94E8), (0xEEFE, 0x94EA), (0xEF40, 0x986F),
     (0xEF41, 0x9870), (0xEF42, 0x9871), (0xEF43, 0x9872), (0xEF44, 0x9873), (0xEF45, 0x9874), (0xEF46, 0x988B),
     (0xEF47, 0x988E), (0xEF48, 0x9892), (0xEF49, 0x9895), (0xEF4A, 0x9899), (0xEF4B, 0x98A3), (0xEF4C, 0x98A8),
     (0xEF4D, 0x98A9), (0xEF4E, 0x98AA), (0xEF4F, 0x98AB), (0xEF50, 0x98AC), (0xEF51, 0x98AD), (0xEF52, 0x98AE),
     (0xEF53, 0x98AF), (0xEF54, 0x98B0), (0xEF55, 0x98B1), (0xEF56, 0x98B2), (0xEF57, 0x98B3), (0xEF58, 0x98B4),
     (0xEF59, 0x98B5), (0xEF5A, 0x98B6), (0xEF5B, 0x98B7), (0xEF5C, 0x98B8), (0xEF5D, 0x98B9), (0xEF5E, 0x98BA),
     (0xEF5F, 0x98BB), (0xEF60, 0x98BC), (0xEF61, 0x98BD), (0xEF62, 0x98BE), (0xEF63, 0x98BF), (0xEF64, 0x98C0),
     (0xEF65, 0x98C1), (0xEF66, 0x98C2), (0xEF67, 0x98C3), (0xEF68, 0x98C4), (0xEF69, 0x98C5), (0xEF6A, 0x98C6),
     (0xEF6B, 0x98C7), (0xEF6C, 0x98C8), (0xEF6D, 0x98C9), (0xEF6E, 0x98CA), (0xEF6F, 0x98CB), (0xEF70, 0x98CC),
     (0xEF71, 0x98CD), (0xEF72, 0x98CF), (0xEF73, 0x98D0), (0xEF74, 0x98D4), (0xEF75, 0x98D6), (0xEF76, 0x98D7)]"

lemma ucs2_gbk_rows_132_climb: "climb 0xee9f ucs2_gbk_rows_132 = Some 0xef76"
  unfolding ucs2_gbk_rows_132_def by (intro climb_num climb_end; simp only: numeral_less_iff less_num_simps le_num_simps)

definition ucs2_gbk_rows_133 :: "code_map list" where
  "ucs2_gbk_rows_133 = [
     (0xEF77, 0x98DB), (0xEF78, 0x98DC), (0xEF79, 0x98DD), (0xEF7A, 0x98E0), (0xEF7B, 0x98E1), (0xEF7C, 0x98E2),
     (0xEF7D, 0x98E3), (0xEF7E, 0x98E4), (0xEF80, 0x98E5), (0xEF81, 0x98E6), (0xEF82, 0x98E9), (0xEF83, 0x98EA),
     (0xEF84, 0x98EB), (0xEF85, 0x98EC), (0xEF86, 0x98ED), (0xEF87, 0x98EE), (0xEF88, 0x98EF), (0xEF89, 0x98F0),
     (0xEF8A, 0x98F1), (0xEF8B, 0x98F2), (0xEF8C, 0x98F3), (0xEF8D, 0x98F4), (0xEF8E, 0x98F5), (0xEF8F, 0x98F6),
     (0xEF90, 0x98F7), (0xEF91, 0x98F8), (0xEF92, 0x98F9), (0xEF93, 0x98FA), (0xEF94, 0x98FB), (0xEF95, 0x98FC),
     (0xEF96, 0x98FD), (0xEF97, 0x98FE), (0xEF98, 0x98FF), (0xEF99, 0x9900), (0xEF9A, 0x9901), (0xEF9B, 0x9902),
     (0xEF9C, 0x9903), (0xEF9D, 0x9904), (0xEF9E, 0x9905), (0xEF9F, 0x9906), (0xEFA0, 0x9907), (0xEFA1, 0x94E9),
     (0xEFA2, 0x94EB), (0xEFA3, 0x94EE), (0xEFA4, 0x94EF), (0xEFA5, 0x94F3), (0xEFA6, 0x94F4), (0xEFA7, 0x94F5),
     (0xEFA8, 0x94F7), (0xEFA9, 0x94F9), (0xEFAA, 0x94FC), (0xEFAB, 0x94FD), (0xEFAC, 0x94FF), (0xEFAD, 0x9503),
     (0xEFAE, 0x9502), (0xEFAF, 0x9506), (0xEFB0, 0x9507), (0xEFB1, 0x9509), (0xEFB2, 0x950A), (0xEFB3, 0x950D),
     (0xEFB4, 0x950E), (0xEFB5, 0x950F), (0xEFB6, 0x9512), (0xEFB7, 0x9513), (0xEFB8, 0x9514), (0xEFB9, 0x9515),
     (0xEFBA, 0x9516), (0xEFBB, 0x9518), (0xEFBC, 0x951B), (0xEFBD, 0x951D), (0xEFBE, 0x951E), (0xEFBF, 0x951F),
     (0xEFC0, 0x9522), (0xEFC1, 0x952A), (0xEFC2, 0x952B), (0xEFC3, 0x9529), (0xEFC4, 0x952C), (0xEFC5, 0x9531),
     (0xEFC6, 0x9532), (0xEFC7, 0x9534), (0xEFC8, 0x9536), (0xEFC9, 0x9537), (0xEFCA, 0x9538), (0xEFCB, 0x953C),
     (0xEFCC, 0x953E), (0xEFCD, 0x953F), (0xEFCE, 0x9542), (0xEFCF, 0x9535), (0xEFD0, 0x9544), (0xEFD1, 0x9545),
     (0xEFD2, 0x9546), (0xEFD3, 0x9549), (0xEFD4, 0x954C), (0xEFD5, 0x954E), (0xEFD6, 0x954F), (0xEFD7, 0x9552),
     (0xEFD8, 0x9553), (0xEFD9, 0x9554), (0xEFDA, 0x9556), (0xEFDB, 0x9557), (0xEFDC, 0x9558), (0xEFDD, 0x9559),
     (0xEFDE, 0x955B), (0xEFDF, 0x955E), (0xEFE0, 0x955F), (0xEFE1, 0x955D), (0xEFE2, 0x9561), (0xEFE3, 0x9562),
     (0xEFE4, 0x9564), (0xEFE5, 0x9565), (0xEFE6, 0x9566), (0xEFE7, 0x9567), (0xEFE8, 0x9568), (0xEFE9, 0x9569),
     (0xEFEA, 0x956A), (0xEFEB, 0x956B), (0xEFEC, 0x956C), (0xEFED, 0x956F), (0xEFEE, 0x9571), (0xEFEF, 0x9572),
     (0xEFF0, 0x9573), (0xEFF1, 0x953A), (0xEFF2, 0x77E7), (0xEFF3, 0x77EC), (0xEFF4, 0x96C9), (0xEFF5, 0x79D5),
     (0xEFF6, 0x79ED), (0xEFF7, 0x79E3), (0xEFF8, 0x79EB), (0xEFF9, 0x7A06), (0xEFFA, 0x5D47), (0xEFFB, 0x7A03),
     (0xEFFC, 0x7A02), (0xEFFD, 0x7A1E), (0xEFFE, 0x7A14), (0xF040, 0x9908), (0xF041, 0x9909), (0xF042, 0x990A),
     (0xF043, 0x990B), (0xF044, 0x990C), (0xF045, 0x990E), (0xF046, 0x990F), (0xF047, 0x9911), (0xF048, 0x9912),
     (0xF049, 0x9913), (0xF04A, 0x9914), (0xF04B, 0x9915), (0xF04C, 0x9916), (0xF04D, 0x9917), (0xF04E, 0x9918)]"

lemma ucs2_gbk_rows_133_climb: "climb 0xef76 ucs2_gbk_rows_133 = Some 0xf04e"
  unfolding ucs2_gbk_rows_133_def by (intro climb_num climb_end; simp only: numeral_less_iff less_num_simps le_num_simps)

definition ucs2_gbk_rows_134 :: "code_map list" where
  "ucs2_gbk_rows_134 = [
     (0xF04F, 0x9919), (0xF050, 0x991A), (0xF051, 0x991B), (0xF052, 0x991C), (0xF053, 0x991D), (0xF054, 0x991E),
     (0xF055, 0x991F), (0xF056, 0x9920), (0xF057, 0x9921), (0xF058, 0x9922), (0xF059, 0x9923), (0xF05A, 0x9924),
     (0xF05B, 0x9925), (0xF05C, 0x9926), (0xF05D, 0x9927), (0xF05E, 0x9928), (0xF05F, 0x9929), (0xF060, 0x992A),
     (0xF061, 0x992B), (0xF062, 0x992C), (0xF063, 0x992D), (0xF064, 0x992F), (0xF065, 0x9930), (0xF066, 0x9931),
     (0xF067, 0x9932), (0xF068, 0x9933), (0xF069, 0x9934), (0xF06A, 0x9935), (0xF06B, 0x9936), (0xF06C, 0x9937),
     (0xF06D, 0x9938), (0xF06E, 0x9939), (0xF06F, 0x993A), (0xF070, 0x993B), (0xF071, 0x993C), (0xF072, 0x993D),
     (0xF073, 0x993E), (0xF074, 0x993F), (0xF075, 0x9940), (0xF076, 0x9941), (0xF077, 0x9942), (0xF078, 0x9943),
     (0xF079, 0x9944), (0xF07A, 0x9945), (0xF07B, 0x9946), (0xF07C, 0x9947), (0xF07D, 0x9948), (0xF07E, 0x9949),
     (0xF080, 0x994A), (0xF081, 0x994B), (0xF082, 0x994C), (0xF083, 0x994D), (0xF084, 0x994E), (0xF085, 0x994F),
     (0xF086, 0x9950), (0xF087, 0x9951), (0xF088, 0x9952), (0xF089, 0x9953), (0xF08A, 0x9956), (0xF08B, 0x9957),
     (0xF08C, 0x9958), (0xF08D, 0x9959), (0xF08E, 0x995A), (0xF08F, 0x995B), (0xF090, 0x995C), (0xF091, 0x995D),
     (0xF092, 0x995E), (0xF093, 0x995F), (0xF094, 0x9960), (0xF095, 0x9961), (0xF096, 0x9962), (0xF097, 0x9964),
     (0xF098, 0x9966), (0xF099, 0x9973), (0xF09A, 0x9978), (0xF09B, 0x9979), (0xF09C, 0x997B), (0xF09D, 0x997E),
     (0xF09E, 0x9982), (0xF09F, 0x9983), (0xF0A0, 0x9989), (0xF0A1, 0x7A39), (0xF0A2, 0x7A37), (0xF0A3, 0x7A51),
     (0xF0A4, 0x9ECF), (0xF0A5, 0x99A5), (0xF0A6, 0x7A70), (0xF0A7, 0x7688), (0xF0A8, 0x768E), (0xF0A9, 0x7693),
     (0xF0AA, 0x7699), (0xF0AB, 0x76A4), (0xF0AC, 0x74DE), (0xF0AD, 0x74E0), (0xF0AE, 0x752C), (0xF0AF, 0x9E20),
     (0xF0B0, 0x9E22), (0xF0B1, 0x9E28), (0xF0B2, 0x9E29), (0xF0B3, 0x9E2A), (0xF0B4, 0x9E2B), (0xF0B5, 0x9E2C),
     (0xF0B6, 0x9E32), (0xF0B7, 0x9E31), (0xF0B8, 0x9E36), (0xF0B9, 0x9E38), (0xF0BA, 0x9E37), (0xF0BB, 0x9E39),
     (0xF0BC, 0x9E3A), (0xF0BD, 0x9E3E), (0xF0BE, 0x9E41), (0xF0BF, 0x9E42), (0xF0C0, 0x9E44), (0xF0C1, 0x9E46),
     (0xF0C2, 0x9E47), (0xF0C3, 0x9E48), (0xF0C4, 0x9E49), (0xF0C5, 0x9E4B), (0xF0C6, 0x9E4C), (0xF0C7, 0x9E4E),
     (0xF0C8, 0x9E51), (0xF0C9, 0x9E55), (0xF0CA, 0x9E57), (0xF0CB, 0x9E5A), (0xF0CC, 0x9E5B), (0xF0CD, 0x9E5C),
     (0xF0CE, 0x9E5E), (0xF0CF, 0x9E63), (0xF0D0, 0x9E66), (0xF0D1, 0x9E67), (0xF0D2, 0x9E68), (0xF0D3, 0x9E69),
     (0xF0D4, 0x9E6A), (0xF0D5, 0x9E6B), (0xF0D6, 0x9E6C), (0xF0D7, 0x9E71), (0xF0D8, 0x9E6D), (0xF0D9, 0x9E73),
     (0xF0DA, 0x7592), (0xF0DB, 0x7594), (0xF0DC, 0x7596), (0xF0DD, 0x75A0), (0xF0DE, 0x759D), (0xF0DF, 0x75AC),
     (0xF0E0, 0x75A3), (0xF0E1, 0x75B3), (0xF0E2, 0x75B4), (0xF0E3, 0x75B8), (0xF0E4, 0x75C4), (0xF0E5, 0x75B1)]"

lemma ucs2_gbk_rows_134_climb: "climb 0xf04e ucs2_gbk_rows_134 = Some 0xf0e5"
  unfolding ucs2_gbk_rows_134_def by (intro climb_num climb_end; simp only: numeral_less_iff less_num_simps le_num_simps)

definition ucs2_gbk_rows_135 :: "code_map list" where
  "ucs2_gbk_rows_135 = [
     (0xF0E6, 0x75B0), (0xF0E7, 0x75C3), (0xF0E8, 0x75C2), (0xF0E9, 0x75D6), (0xF0EA, 0x75CD), (0xF0EB, 0x75E3),
     (0xF0EC, 0x75E8), (0xF0ED, 0x75E6), (0xF0EE, 0x75E4), (0xF0EF, 0x75EB), (0xF0F0, 0x75E7), (0xF0F1, 0x7603),
     (0xF0F2, 0x75F1), (0xF0F3, 0x75FC), (0xF0F4, 0x75FF), (0xF0F5, 0x7610), (0xF0F6, 0x7600), (0xF0F7, 0x7605),
     (0xF0F8, 0x760C), (0xF0F9, 0x7617), (0xF0FA, 0x760A), (0xF0FB, 0x7625), (0xF0FC, 0x7618), (0xF0FD, 0x7615),
     (0xF0FE, 0x7619), (0xF140, 0x998C), (0xF141, 0x998E), (0xF142, 0x999A), (0xF143, 0x999B), (0xF144, 0x999C),
     (0xF145, 0x999D), (0xF146, 0x999E), (0xF147, 0x999F), (0xF148, 0x99A0), (0xF149, 0x99A1), (0xF14A, 0x99A2),
     (0xF14B, 0x99A3), (0xF14C, 0x99A4), (0xF14D, 0x99A6), (0xF14E, 0x99A7), (0xF14F, 0x99A9), (0xF150, 0x99AA),
     (0xF151, 0x99AB), (0xF152, 0x99AC), (0xF153, 0x99AD), (0xF154, 0x99AE), (0xF155, 0x99AF), (0xF156, 0x99B0),
     (0xF157, 0x99B1), (0xF158, 0x99B2), (0xF159, 0x99B3), (0xF15A, 0x99B4), (0xF15B, 0x99B5), (0xF15C, 0x99B6),
     (0xF15D, 0x99B7), (0xF15E, 0x99B8), (0xF15F, 0x99B9), (0xF160, 0x99BA), (0xF161, 0x99BB), (0xF162, 0x99BC),
     (0xF163, 0x99BD), (0xF164, 0x99BE), (0xF165, 0x99BF), (0xF166, 0x99C0), (0xF167, 0x99C1), (0xF168, 0x99C2),
     (0xF169, 0x99C3), (0xF16A, 0x99C4), (0xF16B, 0x99C5), (0xF16C, 0x99C6), (0xF16D, 0x99C7), (0xF16E, 0x99C8),
     (0xF16F, 0x99C9), (0xF170, 0x99CA), (0xF171, 0x99CB), (0xF172, 0x99CC), (0xF173, 0x99CD), (0xF174, 0x99CE),
     (0xF175, 0x99CF), (0xF176, 0x99D0), (0xF177, 0x99D1), (0xF178, 0x99D2), (0xF179, 0x99D3), (0xF17A, 0x99D4),
     (0xF17B, 0x99D5), (0xF17C, 0x99D6), (0xF17D, 0x99D7), (0xF17E, 0x99D8), (0xF180, 0x99D9), (0xF181, 0x99DA),
     (0xF182, 0x99DB), (0xF183, 0x99DC), (0xF184, 0x99DD), (0xF185, 0x99DE), (0xF186, 0x99DF), (0xF187, 0x99E0),
     (0xF188, 0x99E1), (0xF189, 0x99E2), (0xF18A, 0x99E3), (0xF18B, 0x99E4), (0xF18C, 0x99E5), (0xF18D, 0x99E6),
     (0xF18E, 0x99E7), (0xF18F, 0x99E8), (0xF190, 0x99E9), (0xF191, 0x99EA), (0xF192, 0x99EB), (0xF193, 0x99EC),
     (0xF194, 0x99ED), (0xF195, 0x99EE), (0xF196, 0x99EF), (0xF197, 0x99F0), (0xF198, 0x99F1), (0xF199, 0x99F2),
     (0xF19A, 0x99F3), (0xF19B, 0x99F4), (0xF19C, 0x99F5), (0xF19D, 0x99F6), (0xF19E, 0x99F7), (0xF19F, 0x99F8),
     (0xF1A0, 0x99F9), (0xF1A1, 0x761B), (0xF1A2, 0x763C), (0xF1A3, 0x7622), (0xF1A4, 0x7620), (0xF1A5, 0x7640),
     (0xF1A6, 0x762D), (0xF1A7, 0x7630), (0xF1A8, 0x763F), (0xF1A9, 0x7635), (0xF1AA, 0x7643), (0xF1AB, 0x763E),
     (0xF1AC, 0x7633), (0xF1AD, 0x764D), (0xF1AE, 0x765E), (0xF1AF, 0x7654), (0xF1B0, 0x765C), (0xF1B1, 0x7656),
     (0xF1B2, 0x766B), (0xF1B3, 0x766F), (0xF1B4, 0x7FCA), (0xF1B5, 0x7AE6), (0xF1B6, 0x7A78), (0xF1B7, 0x7A79),
     (0xF1B8, 0x7A80), (0xF1B9, 0x7A86), (0xF1BA, 0x7A88), (0xF1BB, 0x7A95), (0xF1BC, 0x7AA6), (0xF1BD, 0x7AA0)]"

lemma ucs2_gbk_rows_135_climb: "climb 0xf0e5 ucs2_gbk_rows_135 = Some 0xf1bd"
  unfolding ucs2_gbk_rows_135_def by (intro climb_num climb_end; simp only: numeral_less_iff less_num_simps le_num_simps)

definition ucs2_gbk_rows_136 :: "code_map list" where
  "ucs2_gbk_rows_136 = [
     (0xF1BE, 0x7AAC), (0xF1BF, 0x7AA8), (0xF1C0, 0x7AAD), (0xF1C1, 0x7AB3), (0xF1C2, 0x8864), (0xF1C3, 0x8869),
     (0xF1C4, 0x8872), (0xF1C5, 0x887D), (0xF1C6, 0x887F), (0xF1C7, 0x8882), (0xF1C8, 0x88A2), (0xF1C9, 0x88C6),
     (0xF1CA, 0x88B7), (0xF1CB, 0x88BC), (0xF1CC, 0x88C9), (0xF1CD, 0x88E2), (0xF1CE, 0x88CE), (0xF1CF, 0x88E3),
     (0xF1D0, 0x88E5), (0xF1D1, 0x88F1), (0xF1D2, 0x891A), (0xF1D3, 0x88FC), (0xF1D4, 0x88E8), (0xF1D5, 0x88FE),
     (0xF1D6, 0x88F0), (0xF1D7, 0x8921), (0xF1D8, 0x8919), (0xF1D9, 0x8913), (0xF1DA, 0x891B), (0xF1DB, 0x890A),
     (0xF1DC, 0x8934), (0xF1DD, 0x892B), (0xF1DE, 0x8936), (0xF1DF, 0x8941), (0xF1E0, 0x8966), (0xF1E1, 0x897B),
     (0xF1E2, 0x758B), (0xF1E3, 0x80E5), (0xF1E4, 0x76B2), (0xF1E5, 0x76B4), (0xF1E6, 0x77DC), (0xF1E7, 0x8012),
     (0xF1E8, 0x8014), (0xF1E9, 0x8016), (0xF1EA, 0x801C), (0xF1EB, 0x8020), (0xF1EC, 0x8022), (0xF1ED, 0x8025),
     (0xF1EE, 0x8026), (0xF1EF, 0x8027), (0xF1F0, 0x8029), (0xF1F1, 0x8028), (0xF1F2, 0x8031), (0xF1F3, 0x800B),
     (0xF1F4, 0x8035), (0xF1F5, 0x8043), (0xF1F6, 0x8046), (0xF1F7, 0x804D), (0xF1F8, 0x8052), (0xF1F9, 0x8069),
     (0xF1FA, 0x8071), (0xF1FB, 0x8983), (0xF1FC, 0x9878), (0xF1FD, 0x9880), (0xF1FE, 0x9883), (0xF240, 0x99FA),
     (0xF241, 0x99FB), (0xF242, 0x99FC), (0xF243, 0x99FD), (0xF244, 0x99FE), (0xF245, 0x99FF), (0xF246, 0x9A00),
     (0xF247, 0x9A01), (0xF248, 0x9A02), (0xF249, 0x9A03), (0xF24A, 0x9A04), (0xF24B, 0x9A05), (0xF24C, 0x9A06),
     (0xF24D, 0x9A07), (0xF24E, 0x9A08), (0xF24F, 0x9A09), (0xF250, 0x9A0A), (0xF251, 0x9A0B), (0xF252, 0x9A0C),
     (0xF253, 0x9A0D), (0xF254, 0x9A0E), (0xF255, 0x9A0F), (0xF256, 0x9A10), (0xF257, 0x9A11), (0xF258, 0x9A12),
     (0xF259, 0x9A13), (0xF25A, 0x9A14), (0xF25B, 0x9A15), (0xF25C, 0x9A16), (0xF25D, 0x9A17), (0xF25E, 0x9A18),
     (0xF25F, 0x9A19), (0xF260, 0x9A1A), (0xF261, 0x9A1B), (0xF262, 0x9A1C), (0xF263, 0x9A1D), (0xF264, 0x9A1E),
     (0xF265, 0x9A1F), (0xF266, 0x9A20), (0xF267, 0x9A21), (0xF268, 0x9A22), (0xF269, 0x9A23), (0xF26A, 0x9A24),
     (0xF26B, 0x9A25), (0xF26C, 0x9A26), (0xF26D, 0x9A27), (0xF26E, 0x9A28), (0xF26F, 0x9A29), (0xF270, 0x9A2A),
     (0xF271, 0x9A2B), (0xF272, 0x9A2C), (0xF273, 0x9A2D), (0xF274, 0x9A2E), (0xF275, 0x9A2F), (0xF276, 0x9A30),
     (0xF277, 0x9A31), (0xF278, 0x9A32), (0xF279, 0x9A33), (0xF27A, 0x9A34), (0xF27B, 0x9A35), (0xF27C, 0x9A36),
     (0xF27D, 0x9A37), (0xF27E, 0x9A38), (0xF280, 0x9A39), (0xF281, 0x9A3A), (0xF282, 0x9A3B), (0xF283, 0x9A3C),
     (0xF284, 0x9A3D), (0xF285, 0x9A3E), (0xF286, 0x9A3F), (0xF287, 0x9A40), (0xF288, 0x9A41), (0xF289, 0x9A42),
     (0xF28A, 0x9A43), (0xF28B, 0x9A44), (0xF28C, 0x9A45), (0xF28D, 0x9A46), (0xF28E, 0x9A47), (0xF28F, 0x9A48),
     (0xF290, 0x9A49), (0xF291, 0x9A4A), (0xF292, 0x9A4B), (0xF293, 0x9A4C), (0xF294, 0x9A4D), (0xF295, 0x9A4E)]"

lemma ucs2_gbk_rows_136_climb: "climb 0xf1bd ucs2_gbk_rows_136 = Some 0xf295"
  unfolding ucs2_gbk_rows_136_def by (intro climb_num climb_end; simp only: numeral_less_iff less_num_simps le_num_simps)

definition ucs2_gbk_rows_137 :: "code_map list" where
  "ucs2_gbk_rows_137 = [
     (0xF296, 0x9A4F), (0xF297, 0x9A50), (0xF298, 0x9A51), (0xF299, 0x9A52), (0xF29A, 0x9A53), (0xF29B, 0x9A54),
     (0xF29C, 0x9A55), (0xF29D, 0x9A56), (0xF29E, 0x9A57), (0xF29F, 0x9A58), (0xF2A0, 0x9A59), (0xF2A1, 0x9889),
     (0xF2A2, 0x988C), (0xF2A3, 0x988D), (0xF2A4, 0x988F), (0xF2A5, 0x9894), (0xF2A6, 0x989A), (0xF2A7, 0x989B),
     (0xF2A8, 0x989E), (0xF2A9, 0x989F), (0xF2AA, 0x98A1), (0xF2AB, 0x98A2), (0xF2AC, 0x98A5), (0xF2AD, 0x98A6),
     (0xF2AE, 0x864D), (0xF2AF, 0x8654), (0xF2B0, 0x866C), (0xF2B1, 0x866E), (0xF2B2, 0x867F), (0xF2B3, 0x867A),
     (0xF2B4, 0x867C), (0xF2B5, 0x867B), (0xF2B6, 0x86A8), (0xF2B7, 0x868D), (0xF2B8, 0x868B), (0xF2B9, 0x86AC),
     (0xF2BA, 0x869D), (0xF2BB, 0x86A7), (0xF2BC, 0x86A3), (0xF2BD, 0x86AA), (0xF2BE, 0x8693), (0xF2BF, 0x86A9),
     (0xF2C0, 0x86B6), (0xF2C1, 0x86C4), (0xF2C2, 0x86B5), (0xF2C3, 0x86CE), (0xF2C4, 0x86B0), (0xF2C5, 0x86BA),
     (0xF2C6, 0x86B1), (0xF2C7, 0x86AF), (0xF2C8, 0x86C9), (0xF2C9, 0x86CF), (0xF2CA, 0x86B4), (0xF2CB, 0x86E9),
     (0xF2CC, 0x86F1), (0xF2CD, 0x86F2), (0xF2CE, 0x86ED), (0xF2CF, 0x86F3), (0xF2D0, 0x86D0), (0xF2D1, 0x8713),
     (0xF2D2, 0x86DE), (0xF2D3, 0x86F4), (0xF2D4, 0x86DF), (0xF2D5, 0x86D8), (0xF2D6, 0x86D1), (0xF2D7, 0x8703),
     (0xF2D8, 0x8707), (0xF2D9, 0x86F8), (0xF2DA, 0x8708), (0xF2DB, 0x870A), (0xF2DC, 0x870D), (0xF2DD, 0x8709),
     (0xF2DE, 0x8723), (0xF2DF, 0x873B), (0xF2E0, 0x871E), (0xF2E1, 0x8725), (0xF2E2, 0x872E), (0xF2E3, 0x871A),
     (0xF2E4, 0x873E), (0xF2E5, 0x8748), (0xF2E6, 0x8734), (0xF2E7, 0x8731), (0xF2E8, 0x8729), (0xF2E9, 0x8737),
     (0xF2EA, 0x873F), (0xF2EB, 0x8782), (0xF2EC, 0x8722), (0xF2ED, 0x877D), (0xF2EE, 0x877E), (0xF2EF, 0x877B),
     (0xF2F0, 0x8760), (0xF2F1, 0x8770), (0xF2F2, 0x874C), (0xF2F3, 0x876E), (0xF2F4, 0x878B), (0xF2F5, 0x8753),
     (0xF2F6, 0x8763), (0xF2F7, 0x877C), (0xF2F8, 0x8764), (0xF2F9, 0x8759), (0xF2FA, 0x8765), (0xF2FB, 0x8793),
     (0xF2FC, 0x87AF), (0xF2FD, 0x87A8), (0xF2FE, 0x87D2), (0xF340, 0x9A5A), (0xF341, 0x9A5B), (0xF342, 0x9A5C),
     (0xF343, 0x9A5D), (0xF344, 0x9A5E), (0xF345, 0x9A5F), (0xF346, 0x9A60), (0xF347, 0x9A61), (0xF348, 0x9A62),
     (0xF349, 0x9A63), (0xF34A, 0x9A64), (0xF34B, 0x9A65), (0xF34C, 0x9A66), (0xF34D, 0x9A67), (0xF34E, 0x9A68),
     (0xF34F, 0x9A69), (0xF350, 0x9A6A), (0xF351, 0x9A6B), (0xF352, 0x9A72), (0xF353, 0x9A83), (0xF354, 0x9A89),
     (0xF355, 0x9A8D), (0xF356, 0x9A8E), (0xF357, 0x9A94), (0xF358, 0x9A95), (0xF359, 0x9A99), (0xF35A, 0x9AA6),
     (0xF35B, 0x9AA9), (0xF35C, 0x9AAA), (0xF35D, 0x9AAB), (0xF35E, 0x9AAC), (0xF35F, 0x9AAD), (0xF360, 0x9AAE),
     (0xF361, 0x9AAF), (0xF362, 0x9AB2), (0xF363, 0x9AB3), (0xF364, 0x9AB4), (0xF365, 0x9AB5), (0xF366, 0x9AB9),
     (0xF367, 0x9ABB), (0xF368, 0x9ABD), (0xF369, 0x9ABE), (0xF36A, 0x9ABF), (0xF36B, 0x9AC3), (0xF36C, 0x9AC4)]"

lemma ucs2_gbk_rows_137_climb: "climb 0xf295 ucs2_gbk_rows_137 = Some 0xf36c"
  unfolding ucs2_gbk_rows_137_def by (intro climb_num climb_end; simp only: numeral_less_iff less_num_simps le_num_simps)

definition ucs2_gbk_rows_138 :: "code_map list" where
  "ucs2_gbk_rows_138 = [
     (0xF36D, 0x9AC6), (0xF36E, 0x9AC7), (0xF36F, 0x9AC8), (0xF370, 0x9AC9), (0xF371, 0x9ACA), (0xF372, 0x9ACD),
     (0xF373, 0x9ACE), (0xF374, 0x9ACF), (0xF375, 0x9AD0), (0xF376, 0x9AD2), (0xF377, 0x9AD4), (0xF378, 0x9AD5),
     (0xF379, 0x9AD6), (0xF37A, 0x9AD7), (0xF37B, 0x9AD9), (0xF37C, 0x9ADA), (0xF37D, 0x9ADB), (0xF37E, 0x9ADC),
     (0xF380, 0x9ADD), (0xF381, 0x9ADE), (0xF382, 0x9AE0), (0xF383, 0x9AE2), (0xF384, 0x9AE3), (0xF385, 0x9AE4),
     (0xF386, 0x9AE5), (0xF387, 0x9AE7), (0xF388, 0x9AE8), (0xF389, 0x9AE9), (0xF38A, 0x9AEA), (0xF38B, 0x9AEC),
     (0xF38C, 0x9AEE), (0xF38D, 0x9AF0), (0xF38E, 0x9AF1), (0xF38F, 0x9AF2), (0xF390, 0x9AF3), (0xF391, 0x9AF4),
     (0xF392, 0x9AF5), (0xF393, 0x9AF6), (0xF394, 0x9AF7), (0xF395, 0x9AF8), (0xF396, 0x9AFA), (0xF397, 0x9AFC),
     (0xF398, 0x9AFD), (0xF399, 0x9AFE), (0xF39A, 0x9AFF), (0xF39B, 0x9B00), (0xF39C, 0x9B01), (0xF39D, 0x9B02),
     (0xF39E, 0x9B04), (0xF39F, 0x9B05), (0xF3A0, 0x9B06), (0xF3A1, 0x87C6), (0xF3A2, 0x8788), (0xF3A3, 0x8785),
     (0xF3A4, 0x87AD), (0xF3A5, 0x8797), (0xF3A6, 0x8783), (0xF3A7, 0x87AB), (0xF3A8, 0x87E5), (0xF3A9, 0x87AC),
     (0xF3AA, 0x87B5), (0xF3AB, 0x87B3), (0xF3AC, 0x87CB), (0xF3AD, 0x87D3), (0xF3AE, 0x87BD), (0xF3AF, 0x87D1),
     (0xF3B0, 0x87C0), (0xF3B1, 0x87CA), (0xF3B2, 0x87DB), (0xF3B3, 0x87EA), (0xF3B4, 0x87E0), (0xF3B5, 0x87EE),
     (0xF3B6, 0x8816), (0xF3B7, 0x8813), (0xF3B8, 0x87FE), (0xF3B9, 0x880A), (0xF3BA, 0x881B), (0xF3BB, 0x8821),
     (0xF3BC, 0x8839), (0xF3BD, 0x883C), (0xF3BE, 0x7F36), (0xF3BF, 0x7F42), (0xF3C0, 0x7F44), (0xF3C1, 0x7F45),
     (0xF3C2, 0x8210), (0xF3C3, 0x7AFA), (0xF3C4, 0x7AFD), (0xF3C5, 0x7B08), (0xF3C6, 0x7B03), (0xF3C7, 0x7B04),
     (0xF3C8, 0x7B15), (0xF3C9, 0x7B0A), (0xF3CA, 0x7B2B), (0xF3CB, 0x7B0F), (0xF3CC, 0x7B47), (0xF3CD, 0x7B38),
     (0xF3CE, 0x7B2A), (0xF3CF, 0x7B19), (0xF3D0, 0x7B2E), (0xF3D1, 0x7B31), (0xF3D2, 0x7B20), (0xF3D3, 0x7B25),
     (0xF3D4, 0x7B24), (0xF3D5, 0x7B33), (0xF3D6, 0x7B3E), (0xF3D7, 0x7B1E), (0xF3D8, 0x7B58), (0xF3D9, 0x7B5A),
     (0xF3DA, 0x7B45), (0xF3DB, 0x7B75), (0xF3DC, 0x7B4C), (0xF3DD, 0x7B5D), (0xF3DE, 0x7B60), (0xF3DF, 0x7B6E),
     (0xF3E0, 0x7B7B), (0xF3E1, 0x7B62), (0xF3E2, 0x7B72), (0xF3E3, 0x7B71), (0xF3E4, 0x7B90), (0xF3E5, 0x7BA6),
     (0xF3E6, 0x7BA7), (0xF3E7, 0x7BB8), (0xF3E8, 0x7BAC), (0xF3E9, 0x7B9D), (0xF3EA, 0x7BA8), (0xF3EB, 0x7B85),
     (0xF3EC, 0x7BAA), (0xF3ED, 0x7B9C), (0xF3EE, 0x7BA2), (0xF3EF, 0x7BAB), (0xF3F0, 0x7BB4), (0xF3F1, 0x7BD1),
     (0xF3F2, 0x7BC1), (0xF3F3, 0x7BCC), (0xF3F4, 0x7BDD), (0xF3F5, 0x7BDA), (0xF3F6, 0x7BE5), (0xF3F7, 0x7BE6),
     (0xF3F8, 0x7BEA), (0xF3F9, 0x7C0C), (0xF3FA, 0x7BFE), (0xF3FB, 0x7BFC), (0xF3FC, 0x7C0F), (0xF3FD, 0x7C16),
     (0xF3FE, 0x7C0B), (0xF440, 0x9B07), (0xF441, 0x9B09), (0xF442, 0x9B0A), (0xF443, 0x9B0B), (0xF444, 0x9B0C)]"

lemma ucs2_gbk_rows_138_climb: "climb 0xf36c ucs2_gbk_rows_138 = Some 0xf444"
  unfolding ucs2_gbk_rows_138_def by (intro climb_num climb_end; simp only: numeral_less_iff less_num_simps le_num_simps)

definition ucs2_gbk_rows_139 :: "code_map list" where
  "ucs2_gbk_rows_139 = [
     (0xF445, 0x9B0D), (0xF446, 0x9B0E), (0xF447, 0x9B10), (0xF448, 0x9B11), (0xF449, 0x9B12), (0xF44A, 0x9B14),
     (0xF44B, 0x9B15), (0xF44C, 0x9B16), (0xF44D, 0x9B17), (0xF44E, 0x9B18), (0xF44F, 0x9B19), (0xF450, 0x9B1A),
     (0xF451, 0x9B1B), (0xF452, 0x9B1C), (0xF453, 0x9B1D), (0xF454, 0x9B1E), (0xF455, 0x9B20), (0xF456, 0x9B21),
     (0xF457, 0x9B22), (0xF458, 0x9B24), (0xF459, 0x9B25), (0xF45A, 0x9B26), (0xF45B, 0x9B27), (0xF45C, 0x9B28),
     (0xF45D, 0x9B29), (0xF45E, 0x9B2A), (0xF45F, 0x9B2B), (0xF460, 0x9B2C), (0xF461, 0x9B2D), (0xF462, 0x9B2E),
     (0xF463, 0x9B30), (0xF464, 0x9B31), (0xF465, 0x9B33), (0xF466, 0x9B34), (0xF467, 0x9B35), (0xF468, 0x9B36),
     (0xF469, 0x9B37), (0xF46A, 0x9B38), (0xF46B, 0x9B39), (0xF46C, 0x9B3A), (0xF46D, 0x9B3D), (0xF46E, 0x9B3E),
     (0xF46F, 0x9B3F), (0xF470, 0x9B40), (0xF471, 0x9B46), (0xF472, 0x9B4A), (0xF473, 0x9B4B), (0xF474, 0x9B4C),
     (0xF475, 0x9B4E), (0xF476, 0x9B50), (0xF477, 0x9B52), (0xF478, 0x9B53), (0xF479, 0x9B55), (0xF47A, 0x9B56),
     (0xF47B, 0x9B57), (0xF47C, 0x9B58), (0xF47D, 0x9B59), (0xF47E, 0x9B5A), (0xF480, 0x9B5B), (0xF481, 0x9B5C),
     (0xF482, 0x9B5D), (0xF483, 0x9B5E), (0xF484, 0x9B5F), (0xF485, 0x9B60), (0xF486, 0x9B61), (0xF487, 0x9B62),
     (0xF488, 0x9B63), (0xF489, 0x9B64), (0xF48A, 0x9B65), (0xF48B, 0x9B66), (0xF48C, 0x9B67), (0xF48D, 0x9B68),
     (0xF48E, 0x9B69), (0xF48F, 0x9B6A), (0xF490, 0x9B6B), (0xF491, 0x9B6C), (0xF492, 0x9B6D), (0xF493, 0x9B6E),
     (0xF494, 0x9B6F), (0xF495, 0x9B70), (0xF496, 0x9B71), (0xF497, 0x9B72), (0xF498, 0x9B73), (0xF499, 0x9B74),
     (0xF49A, 0x9B75), (0xF49B, 0x9B76), (0xF49C, 0x9B77), (0xF49D, 0x9B78), (0xF49E, 0x9B79), (0xF49F, 0x9B7A),
     (0xF4A0, 0x9B7B), (0xF4A1, 0x7C1F), (0xF4A2, 0x7C2A), (0xF4A3, 0x7C26), (0xF4A4, 0x7C38), (0xF4A5, 0x7C41),
     (0xF4A6, 0x7C40), (0xF4A7, 0x81FE), (0xF4A8, 0x8201), (0xF4A9, 0x8202), (0xF4AA, 0x8204), (0xF4AB, 0x81EC),
     (0xF4AC, 0x8844), (0xF4AD, 0x8221), (0xF4AE, 0x8222), (0xF4AF, 0x8223), (0xF4B0, 0x822D), (0xF4B1, 0x822F),
     (0xF4B2, 0x8228), (0xF4B3, 0x822B), (0xF4B4, 0x8238), (0xF4B5, 0x823B), (0xF4B6, 0x8233), (0xF4B7, 0x8234),
     (0xF4B8, 0x823E), (0xF4B9, 0x8244), (0xF4BA, 0x8249), (0xF4BB, 0x824B), (0xF4BC, 0x824F), (0xF4BD, 0x825A),
     (0xF4BE, 0x825F), (0xF4BF, 0x8268), (0xF4C0, 0x887E), (0xF4C1, 0x8885), (0xF4C2, 0x8888), (0xF4C3, 0x88D8),
     (0xF4C4, 0x88DF), (0xF4C5, 0x895E), (0xF4C6, 0x7F9D), (0xF4C7, 0x7F9F), (0xF4C8, 0x7FA7), (0xF4C9, 0x7FAF),
     (0xF4CA, 0x7FB0), (0xF4CB, 0x7FB2), (0xF4CC, 0x7C7C), (0xF4CD, 0x6549), (0xF4CE, 0x7C91), (0xF4CF, 0x7C9D),
     (0xF4D0, 0x7C9C), (0xF4D1, 0x7C9E), (0xF4D2, 0x7CA2), (0xF4D3, 0x7CB2), (0xF4D4, 0x7CBC), (0xF4D5, 0x7CBD),
     (0xF4D6, 0x7CC1), (0xF4D7, 0x7CC7), (0xF4D8, 0x7CCC), (0xF4D9, 0x7CCD), (0xF4DA, 0x7CC8), (0xF4DB, 0x7CC5)]"

lemma ucs2_gbk_rows_139_climb: "climb 0xf444 ucs2_gbk_rows_139 = Some 0xf4db"
  unfolding ucs2_gbk_rows_139_def by (intro climb_num climb_end; simp only: numeral_less_iff less_num_simps le_num_simps)

definition ucs2_gbk_rows_140 :: "code_map list" where
  "ucs2_gbk_rows_140 = [
     (0xF4DC, 0x7CD7), (0xF4DD, 0x7CE8), (0xF4DE, 0x826E), (0xF4DF, 0x66A8), (0xF4E0, 0x7FBF), (0xF4E1, 0x7FCE),
     (0xF4E2, 0x7FD5), (0xF4E3, 0x7FE5), (0xF4E4, 0x7FE1), (0xF4E5, 0x7FE6), (0xF4E6, 0x7FE9), (0xF4E7, 0x7FEE),
     (0xF4E8, 0x7FF3), (0xF4E9, 0x7CF8), (0xF4EA, 0x7D77), (0xF4EB, 0x7DA6), (0xF4EC, 0x7DAE), (0xF4ED, 0x7E47),
     (0xF4EE, 0x7E9B), (0xF4EF, 0x9EB8), (0xF4F0, 0x9EB4), (0xF4F1, 0x8D73), (0xF4F2, 0x8D84), (0xF4F3, 0x8D94),
     (0xF4F4, 0x8D91), (0xF4F5, 0x8DB1), (0xF4F6, 0x8D67), (0xF4F7, 0x8D6D), (0xF4F8, 0x8C47), (0xF4F9, 0x8C49),
     (0xF4FA, 0x914A), (0xF4FB, 0x9150), (0xF4FC, 0x914E), (0xF4FD, 0x914F), (0xF4FE, 0x9164), (0xF540, 0x9B7C),
     (0xF541, 0x9B7D), (0xF542, 0x9B7E), (0xF543, 0x9B7F), (0xF544, 0x9B80), (0xF545, 0x9B81), (0xF546, 0x9B82),
     (0xF547, 0x9B83), (0xF548, 0x9B84), (0xF549, 0x9B85), (0xF54A, 0x9B86), (0xF54B, 0x9B87), (0xF54C, 0x9B88),
     (0xF54D, 0x9B89), (0xF54E, 0x9B8A), (0xF54F, 0x9B8B), (0xF550, 0x9B8C), (0xF551, 0x9B8D), (0xF552, 0x9B8E),
     (0xF553, 0x9B8F), (0xF554, 0x9B90), (0xF555, 0x9B91), (0xF556, 0x9B92), (0xF557, 0x9B93), (0xF558, 0x9B94),
     (0xF559, 0x9B95), (0xF55A, 0x9B96), (0xF55B, 0x9B97), (0xF55C, 0x9B98), (0xF55D, 0x9B99), (0xF55E, 0x9B9A),
     (0xF55F, 0x9B9B), (0xF560, 0x9B9C), (0xF561, 0x9B9D), (0xF562, 0x9B9E), (0xF563, 0x9B9F), (0xF564, 0x9BA0),
     (0xF565, 0x9BA1), (0xF566, 0x9BA2), (0xF567, 0x9BA3), (0xF568, 0x9BA4), (0xF569, 0x9BA5), (0xF56A, 0x9BA6),
     (0xF56B, 0x9BA7), (0xF56C, 0x9BA8), (0xF56D, 0x9BA9), (0xF56E, 0x9BAA), (0xF56F, 0x9BAB), (0xF570, 0x9BAC),
     (0xF571, 0x9BAD), (0xF572, 0x9BAE), (0xF573, 0x9BAF), (0xF574, 0x9BB0), (0xF575, 0x9BB1), (0xF576, 0x9BB2),
     (0xF577, 0x9BB3), (0xF578, 0x9BB4), (0xF579, 0x9BB5), (0xF57A, 0x9BB6), (0xF57B, 0x9BB7), (0xF57C, 0x9BB8),
     (0xF57D, 0x9BB9), (0xF57E, 0x9BBA), (0xF580, 0x9BBB), (0xF581, 0x9BBC), (0xF582, 0x9BBD), (0xF583, 0x9BBE),
     (0xF584, 0x9BBF), (0xF585, 0x9BC0), (0xF586, 0x9BC1), (0xF587, 0x9BC2), (0xF588, 0x9BC3), (0xF589, 0x9BC4),
     (0xF58A, 0x9BC5), (0xF58B, 0x9BC6), (0xF58C, 0x9BC7), (0xF58D, 0x9BC8), (0xF58E, 0x9BC9), (0xF58F, 0x9BCA),
     (0xF590, 0x9BCB), (0xF591, 0x9BCC), (0xF592, 0x9BCD), (0xF593, 0x9BCE), (0xF594, 0x9BCF), (0xF595, 0x9BD0),
     (0xF596, 0x9BD1), (0xF597, 0x9BD2), (0xF598, 0x9BD3), (0xF599, 0x9BD4), (0xF59A, 0x9BD5), (0xF59B, 0x9BD6),
     (0xF59C, 0x9BD7), (0xF59D, 0x9BD8), (0xF59E, 0x9BD9), (0xF59F, 0x9BDA), (0xF5A0, 0x9BDB), (0xF5A1, 0x9162),
     (0xF5A2, 0x9161), (0xF5A3, 0x9170), (0xF5A4, 0x9169), (0xF5A5, 0x916F), (0xF5A6, 0x917D), (0xF5A7, 0x917E),
     (0xF5A8, 0x9172), (0xF5A9, 0x9174), (0xF5AA, 0x9179), (0xF5AB, 0x918C), (0xF5AC, 0x9185), (0xF5AD, 0x9190),
     (0xF5AE, 0x918D), (0xF5AF, 0x9191), (0xF5B0, 0x91A2), (0xF5B1, 0x91A3), (0xF5B2, 0x91AA), (0xF5B3, 0x91AD)]"

lemma ucs2_gbk_rows_140_climb: "climb 0xf4db ucs2_gbk_rows_140 = Some 0xf5b3"
  unfolding ucs2_gbk_rows_140_def by (intro climb_num climb_end; simp only: numeral_less_iff less_num_simps le_num_simps)

definition ucs2_gbk_rows_141 :: "code_map list" where
  "ucs2_gbk_rows_141 = [
     (0xF5B4, 0x91AE), (0xF5B5, 0x91AF), (0xF5B6, 0x91B5), (0xF5B7, 0x91B4), (0xF5B8, 0x91BA), (0xF5B9, 0x8C55),
     (0xF5BA, 0x9E7E), (0xF5BB, 0x8DB8), (0xF5BC, 0x8DEB), (0xF5BD, 0x8E05), (0xF5BE, 0x8E59), (0xF5BF, 0x8E69),
     (0xF5C0, 0x8DB5), (0xF5C1, 0x8DBF), (0xF5C2, 0x8DBC), (0xF5C3, 0x8DBA), (0xF5C4, 0x8DC4), (0xF5C5, 0x8DD6),
     (0xF5C6, 0x8DD7), (0xF5C7, 0x8DDA), (0xF5C8, 0x8DDE), (0xF5C9, 0x8DCE), (0xF5CA, 0x8DCF), (0xF5CB, 0x8DDB),
     (0xF5CC, 0x8DC6), (0xF5CD, 0x8DEC), (0xF5CE, 0x8DF7), (0xF5CF, 0x8DF8), (0xF5D0, 0x8DE3), (0xF5D1, 0x8DF9),
     (0xF5D2, 0x8DFB), (0xF5D3, 0x8DE4), (0xF5D4, 0x8E09), (0xF5D5, 0x8DFD), (0xF5D6, 0x8E14), (0xF5D7, 0x8E1D),
     (0xF5D8, 0x8E1F), (0xF5D9, 0x8E2C), (0xF5DA, 0x8E2E), (0xF5DB, 0x8E23), (0xF5DC, 0x8E2F), (0xF5DD, 0x8E3A),
     (0xF5DE, 0x8E40), (0xF5DF, 0x8E39), (0xF5E0, 0x8E35), (0xF5E1, 0x8E3D), (0xF5E2, 0x8E31), (0xF5E3, 0x8E49),
     (0xF5E4, 0x8E41), (0xF5E5, 0x8E42), (0xF5E6, 0x8E51), (0xF5E7, 0x8E52), (0xF5E8, 0x8E4A), (0xF5E9, 0x8E70),
     (0xF5EA, 0x8E76), (0xF5EB, 0x8E7C), (0xF5EC, 0x8E6F), (0xF5ED, 0x8E74), (0xF5EE, 0x8E85), (0xF5EF, 0x8E8F),
     (0xF5F0, 0x8E94), (0xF5F1, 0x8E90), (0xF5F2, 0x8E9C), (0xF5F3, 0x8E9E), (0xF5F4, 0x8C78), (0xF5F5, 0x8C82),
     (0xF5F6, 0x8C8A), (0xF5F7, 0x8C85), (0xF5F8, 0x8C98), (0xF5F9, 0x8C94), (0xF5FA, 0x659B), (0xF5FB, 0x89D6),
     (0xF5FC, 0x89DE), (0xF5FD, 0x89DA), (0xF5FE, 0x89DC), (0xF640, 0x9BDC), (0xF641, 0x9BDD), (0xF642, 0x9BDE),
     (0xF643, 0x9BDF), (0xF644, 0x9BE0), (0xF645, 0x9BE1), (0xF646, 0x9BE2), (0xF647, 0x9BE3), (0xF648, 0x9BE4),
     (0xF649, 0x9BE5), (0xF64A, 0x9BE6), (0xF64B, 0x9BE7), (0xF64C, 0x9BE8), (0xF64D, 0x9BE9), (0xF64E, 0x9BEA),
     (0xF64F, 0x9BEB), (0xF650, 0x9BEC), (0xF651, 0x9BED), (0xF652, 0x9BEE), (0xF653, 0x9BEF), (0xF654, 0x9BF0),
     (0xF655, 0x9BF1), (0xF656, 0x9BF2), (0xF657, 0x9BF3), (0xF658, 0x9BF4), (0xF659, 0x9BF5), (0xF65A, 0x9BF6),
     (0xF65B, 0x9BF7), (0xF65C, 0x9BF8), (0xF65D, 0x9BF9), (0xF65E, 0x9BFA), (0xF65F, 0x9BFB), (0xF660, 0x9BFC),
     (0xF661, 0x9BFD), (0xF662, 0x9BFE), (0xF663, 0x9BFF), (0xF664, 0x9C00), (0xF665, 0x9C01), (0xF666, 0x9C02),
     (0xF667, 0x9C03), (0xF668, 0x9C04), (0xF669, 0x9C05), (0xF66A, 0x9C06), (0xF66B, 0x9C07), (0xF66C, 0x9C08),
     (0xF66D, 0x9C09), (0xF66E, 0x9C0A), (0xF66F, 0x9C0B), (0xF670, 0x9C0C), (0xF671, 0x9C0D), (0xF672, 0x9C0E),
     (0xF673, 0x9C0F), (0xF674, 0x9C10), (0xF675, 0x9C11), (0xF676, 0x9C12), (0xF677, 0x9C13), (0xF678, 0x9C14),
     (0xF679, 0x9C15), (0xF67A, 0x9C16), (0xF67B, 0x9C17), (0xF67C, 0x9C18), (0xF67D, 0x9C19), (0xF67E, 0x9C1A),
     (0xF680, 0x9C1B), (0xF681, 0x9C1C), (0xF682, 0x9C1D), (0xF683, 0x9C1E), (0xF684, 0x9C1F), (0xF685, 0x9C20),
     (0xF686, 0x9C21), (0xF687, 0x9C22), (0xF688, 0x9C23), (0xF689, 0x9C24), (0xF68A, 0x9C25), (0xF68B, 0x9C26)]"

lemma ucs2_gbk_rows_141_climb: "climb 0xf5b3 ucs2_gbk_rows_141 = Some 0xf68b"
  unfolding ucs2_gbk_rows_141_def by (intro climb_num climb_end; simp only: numeral_less_iff less_num_simps le_num_simps)

definition ucs2_gbk_rows_142 :: "code_map list" where
  "ucs2_gbk_rows_142 = [
     (0xF68C, 0x9C27), (0xF68D, 0x9C28), (0xF68E, 0x9C29), (0xF68F, 0x9C2A), (0xF690, 0x9C2B), (0xF691, 0x9C2C),
     (0xF692, 0x9C2D), (0xF693, 0x9C2E), (0xF694, 0x9C2F), (0xF695, 0x9C30), (0xF696, 0x9C31), (0xF697, 0x9C32),
     (0xF698, 0x9C33), (0xF699, 0x9C34), (0xF69A, 0x9C35), (0xF69B, 0x9C36), (0xF69C, 0x9C37), (0xF69D, 0x9C38),
     (0xF69E, 0x9C39), (0xF69F, 0x9C3A), (0xF6A0, 0x9C3B), (0xF6A1, 0x89E5), (0xF6A2, 0x89EB), (0xF6A3, 0x89EF),
     (0xF6A4, 0x8A3E), (0xF6A5, 0x8B26), (0xF6A6, 0x9753), (0xF6A7, 0x96E9), (0xF6A8, 0x96F3), (0xF6A9, 0x96EF),
     (0xF6AA, 0x9706), (0xF6AB, 0x9701), (0xF6AC, 0x9708), (0xF6AD, 0x970F), (0xF6AE, 0x970E), (0xF6AF, 0x972A),
     (0xF6B0, 0x972D), (0xF6B1, 0x9730), (0xF6B2, 0x973E), (0xF6B3, 0x9F80), (0xF6B4, 0x9F83), (0xF6B5, 0x9F85),
     (0xF6B6, 0x9F86), (0xF6B7, 0x9F87), (0xF6B8, 0x9F88), (0xF6B9, 0x9F89), (0xF6BA, 0x9F8A), (0xF6BB, 0x9F8C),
     (0xF6BC, 0x9EFE), (0xF6BD, 0x9F0B), (0xF6BE, 0x9F0D), (0xF6BF, 0x96B9), (0xF6C0, 0x96BC), (0xF6C1, 0x96BD),
     (0xF6C2, 0x96CE), (0xF6C3, 0x96D2), (0xF6C4, 0x77BF), (0xF6C5, 0x96E0), (0xF6C6, 0x928E), (0xF6C7, 0x92AE),
     (0xF6C8, 0x92C8), (0xF6C9, 0x933E), (0xF6CA, 0x936A), (0xF6CB, 0x93CA), (0xF6CC, 0x938F), (0xF6CD, 0x943E),
     (0xF6CE, 0x946B), (0xF6CF, 0x9C7F), (0xF6D0, 0x9C82), (0xF6D1, 0x9C85), (0xF6D2, 0x9C86), (0xF6D3, 0x9C87),
     (0xF6D4, 0x9C88), (0xF6D5, 0x7A23), (0xF6D6, 0x9C8B), (0xF6D7, 0x9C8E), (0xF6D8, 0x9C90), (0xF6D9, 0x9C91),
     (0xF6DA, 0x9C92), (0xF6DB, 0x9C94), (0xF6DC, 0x9C95), (0xF6DD, 0x9C9A), (0xF6DE, 0x9C9B), (0xF6DF, 0x9C9E),
     (0xF6E0, 0x9C9F), (0xF6E1, 0x9CA0), (0xF6E2, 0x9CA1), (0xF6E3, 0x9CA2), (0xF6E4, 0x9CA3), (0xF6E5, 0x9CA5),
     (0xF6E6, 0x9CA6), (0xF6E7, 0x9CA7), (0xF6E8, 0x9CA8), (0xF6E9, 0x9CA9), (0xF6EA, 0x9CAB), (0xF6EB, 0x9CAD),
     (0xF6EC, 0x9CAE), (0xF6ED, 0x9CB0), (0xF6EE, 0x9CB1), (0xF6EF, 0x9CB2), (0xF6F0, 0x9CB3), (0xF6F1, 0x9CB4),
     (0xF6F2, 0x9CB5), (0xF6F3, 0x9CB6), (0xF6F4, 0x9CB7), (0xF6F5, 0x9CBA), (0xF6F6, 0x9CBB), (0xF6F7, 0x9CBC),
     (0xF6F8, 0x9CBD), (0xF6F9, 0x9CC4), (0xF6FA, 0x9CC5), (0xF6FB, 0x9CC6), (0xF6FC, 0x9CC7), (0xF6FD, 0x9CCA),
     (0xF6FE, 0x9CCB), (0xF740, 0x9C3C), (0xF741, 0x9C3D), (0xF742, 0x9C3E), (0xF743, 0x9C3F), (0xF744, 0x9C40),
     (0xF745, 0x9C41), (0xF746, 0x9C42), (0xF747, 0x9C43), (0xF748, 0x9C44), (0xF749, 0x9C45), (0xF74A, 0x9C46),
     (0xF74B, 0x9C47), (0xF74C, 0x9C48), (0xF74D, 0x9C49), (0xF74E, 0x9C4A), (0xF74F, 0x9C4B), (0xF750, 0x9C4C),
     (0xF751, 0x9C4D), (0xF752, 0x9C4E), (0xF753, 0x9C4F), (0xF754, 0x9C50), (0xF755, 0x9C51), (0xF756, 0x9C52),
     (0xF757, 0x9C53), (0xF758, 0x9C54), (0xF759, 0x9C55), (0xF75A, 0x9C56), (0xF75B, 0x9C57), (0xF75C, 0x9C58),
     (0xF75D, 0x9C59), (0xF75E, 0x9C5A), (0xF75F, 0x9C5B), (0xF760, 0x9C5C), (0xF761, 0x9C5D), (0xF762, 0x9C5E)]"

lemma ucs2_gbk_rows_142_climb: "climb 0xf68b ucs2_gbk_rows_142 = Some 0xf762"
  unfolding ucs2_gbk_rows_142_def by (intro climb_num climb_end; simp only: numeral_less_iff less_num_simps le_num_simps)

definition ucs2_gbk_rows_143 :: "code_map list" where
  "ucs2_gbk_rows_143 = [
     (0xF763, 0x9C5F), (0xF764, 0x9C60), (0xF765, 0x9C61), (0xF766, 0x9C62), (0xF767, 0x9C63), (0xF768, 0x9C64),
     (0xF769, 0x9C65), (0xF76A, 0x9C66), (0xF76B, 0x9C67), (0xF76C, 0x9C68), (0xF76D, 0x9C69), (0xF76E, 0x9C6A),
     (0xF76F, 0x9C6B), (0xF770, 0x9C6C), (0xF771, 0x9C6D), (0xF772, 0x9C6E), (0xF773, 0x9C6F), (0xF774, 0x9C70),
     (0xF775, 0x9C71), (0xF776, 0x9C72), (0xF777, 0x9C73), (0xF778, 0x9C74), (0xF779, 0x9C75), (0xF77A, 0x9C76),
     (0xF77B, 0x9C77), (0xF77C, 0x9C78), (0xF77D, 0x9C79), (0xF77E, 0x9C7A), (0xF780, 0x9C7B), (0xF781, 0x9C7D),
     (0xF782, 0x9C7E), (0xF783, 0x9C80), (0xF784, 0x9C83), (0xF785, 0x9C84), (0xF786, 0x9C89), (0xF787, 0x9C8A),
     (0xF788, 0x9C8C), (0xF789, 0x9C8F), (0xF78A, 0x9C93), (0xF78B, 0x9C96), (0xF78C, 0x9C97), (0xF78D, 0x9C98),
     (0xF78E, 0x9C99), (0xF78F, 0x9C9D), (0xF790, 0x9CAA), (0xF791, 0x9CAC), (0xF792, 0x9CAF), (0xF793, 0x9CB9),
     (0xF794, 0x9CBE), (0xF795, 0x9CBF), (0xF796, 0x9CC0), (0xF797, 0x9CC1), (0xF798, 0x9CC2), (0xF799, 0x9CC8),
     (0xF79A, 0x9CC9), (0xF79B, 0x9CD1), (0xF79C, 0x9CD2), (0xF79D, 0x9CDA), (0xF79E, 0x9CDB), (0xF79F, 0x9CE0),
     (0xF7A0, 0x9CE1), (0xF7A1, 0x9CCC), (0xF7A2, 0x9CCD), (0xF7A3, 0x9CCE), (0xF7A4, 0x9CCF), (0xF7A5, 0x9CD0),
     (0xF7A6, 0x9CD3), (0xF7A7, 0x9CD4), (0xF7A8, 0x9CD5), (0xF7A9, 0x9CD7), (0xF7AA, 0x9CD8), (0xF7AB, 0x9CD9),
     (0xF7AC, 0x9CDC), (0xF7AD, 0x9CDD), (0xF7AE, 0x9CDF), (0xF7AF, 0x9CE2), (0xF7B0, 0x977C), (0xF7B1, 0x9785),
     (0xF7B2, 0x9791), (0xF7B3, 0x9792), (0xF7B4, 0x9794), (0xF7B5, 0x97AF), (0xF7B6, 0x97AB), (0xF7B7, 0x97A3),
     (0xF7B8, 0x97B2), (0xF7B9, 0x97B4), (0xF7BA, 0x9AB1), (0xF7BB, 0x9AB0), (0xF7BC, 0x9AB7), (0xF7BD, 0x9E58),
     (0xF7BE, 0x9AB6), (0xF7BF, 0x9ABA), (0xF7C0, 0x9ABC), (0xF7C1, 0x9AC1), (0xF7C2, 0x9AC0), (0xF7C3, 0x9AC5),
     (0xF7C4, 0x9AC2), (0xF7C5, 0x9ACB), (0xF7C6, 0x9ACC), (0xF7C7, 0x9AD1), (0xF7C8, 0x9B45), (0xF7C9, 0x9B43),
     (0xF7CA, 0x9B47), (0xF7CB, 0x9B49), (0xF7CC, 0x9B48), (0xF7CD, 0x9B4D), (0xF7CE, 0x9B51), (0xF7CF, 0x98E8),
     (0xF7D0, 0x990D), (0xF7D1, 0x992E), (0xF7D2, 0x9955), (0xF7D3, 0x9954), (0xF7D4, 0x9ADF), (0xF7D5, 0x9AE1),
     (0xF7D6, 0x9AE6), (0xF7D7, 0x9AEF), (0xF7D8, 0x9AEB), (0xF7D9, 0x9AFB), (0xF7DA, 0x9AED), (0xF7DB, 0x9AF9),
     (0xF7DC, 0x9B08), (0xF7DD, 0x9B0F), (0xF7DE, 0x9B13), (0xF7DF, 0x9B1F), (0xF7E0, 0x9B23), (0xF7E1, 0x9EBD),
     (0xF7E2, 0x9EBE), (0xF7E3, 0x7E3B), (0xF7E4, 0x9E82), (0xF7E5, 0x9E87), (0xF7E6, 0x9E88), (0xF7E7, 0x9E8B),
     (0xF7E8, 0x9E92), (0xF7E9, 0x93D6), (0xF7EA, 0x9E9D), (0xF7EB, 0x9E9F), (0xF7EC, 0x9EDB), (0xF7ED, 0x9EDC),
     (0xF7EE, 0x9EDD), (0xF7EF, 0x9EE0), (0xF7F0, 0x9EDF), (0xF7F1, 0x9EE2), (0xF7F2, 0x9EE9), (0xF7F3, 0x9EE7),
     (0xF7F4, 0x9EE5), (0xF7F5, 0x9EEA), (0xF7F6, 0x9EEF), (0xF7F7, 0x9F22), (0xF7F8, 0x9F2C), (0xF7F9, 0x9F2F)]"

lemma ucs2_gbk_rows_143_climb: "climb 0xf762 ucs2_gbk_rows_143 = Some 0xf7f9"
  unfolding ucs2_gbk_rows_143_def by (intro climb_num climb_end; simp only: numeral_less_iff less_num_simps le_num_simps)

definition ucs2_gbk_rows_144 :: "code_map list" where
  "ucs2_gbk_rows_144 = [
     (0xF7FA, 0x9F39), (0xF7FB, 0x9F37), (0xF7FC, 0x9F3D), (0xF7FD, 0x9F3E), (0xF7FE, 0x9F44), (0xF840, 0x9CE3),
     (0xF841, 0x9CE4), (0xF842, 0x9CE5), (0xF843, 0x9CE6), (0xF844, 0x9CE7), (0xF845, 0x9CE8), (0xF846, 0x9CE9),
     (0xF847, 0x9CEA), (0xF848, 0x9CEB), (0xF849, 0x9CEC), (0xF84A, 0x9CED), (0xF84B, 0x9CEE), (0xF84C, 0x9CEF),
     (0xF84D, 0x9CF0), (0xF84E, 0x9CF1), (0xF84F, 0x9CF2), (0xF850, 0x9CF3), (0xF851, 0x9CF4), (0xF852, 0x9CF5),
     (0xF853, 0x9CF6), (0xF854, 0x9CF7), (0xF855, 0x9CF8), (0xF856, 0x9CF9), (0xF857, 0x9CFA), (0xF858, 0x9CFB),
     (0xF859, 0x9CFC), (0xF85A, 0x9CFD), (0xF85B, 0x9CFE), (0xF85C, 0x9CFF), (0xF85D, 0x9D00), (0xF85E, 0x9D01),
     (0xF85F, 0x9D02), (0xF860, 0x9D03), (0xF861, 0x9D04), (0xF862, 0x9D05), (0xF863, 0x9D06), (0xF864, 0x9D07),
     (0xF865, 0x9D08), (0xF866, 0x9D09), (0xF867, 0x9D0A), (0xF868, 0x9D0B), (0xF869, 0x9D0C), (0xF86A, 0x9D0D),
     (0xF86B, 0x9D0E), (0xF86C, 0x9D0F), (0xF86D, 0x9D10), (0xF86E, 0x9D11), (0xF86F, 0x9D12), (0xF870, 0x9D13),
     (0xF871, 0x9D14), (0xF872, 0x9D15), (0xF873, 0x9D16), (0xF874, 0x9D17), (0xF875, 0x9D18), (0xF876, 0x9D19),
     (0xF877, 0x9D1A), (0xF878, 0x9D1B), (0xF879, 0x9D1C), (0xF87A, 0x9D1D), (0xF87B, 0x9D1E), (0xF87C, 0x9D1F),
     (0xF87D, 0x9D20), (0xF87E, 0x9D21), (0xF880, 0x9D22), (0xF881, 0x9D23), (0xF882, 0x9D24), (0xF883, 0x9D25),
     (0xF884, 0x9D26), (0xF885, 0x9D27), (0xF886, 0x9D28), (0xF887, 0x9D29), (0xF888, 0x9D2A), (0xF889, 0x9D2B),
     (0xF88A, 0x9D2C), (0xF88B, 0x9D2D), (0xF88C, 0x9D2E), (0xF88D, 0x9D2F), (0xF88E, 0x9D30), (0xF88F, 0x9D31),
     (0xF890, 0x9D32), (0xF891, 0x9D33), (0xF892, 0x9D34), (0xF893, 0x9D35), (0xF894, 0x9D36), (0xF895, 0x9D37),
     (0xF896, 0x9D38), (0xF897, 0x9D39), (0xF898, 0x9D3A), (0xF899, 0x9D3B), (0xF89A, 0x9D3C), (0xF89B, 0x9D3D),
     (0xF89C, 0x9D3E), (0xF89D, 0x9D3F), (0xF89E, 0x9D40), (0xF89F, 0x9D41), (0xF8A0, 0x9D42), (0xF940, 0x9D43),
     (0xF941, 0x9D44), (0xF942, 0x9D45), (0xF943, 0x9D46), (0xF944, 0x9D47), (0xF945, 0x9D48), (0xF946, 0x9D49),
     (0xF947, 0x9D4A), (0xF948, 0x9D4B), (0xF949, 0x9D4C), (0xF94A, 0x9D4D), (0xF94B, 0x9D4E), (0xF94C, 0x9D4F),
     (0xF94D, 0x9D50), (0xF94E, 0x9D51), (0xF94F, 0x9D52), (0xF950, 0x9D53), (0xF951, 0x9D54), (0xF952, 0x9D55),
     (0xF953, 0x9D56), (0xF954, 0x9D57), (0xF955, 0x9D58), (0xF956, 0x9D59), (0xF957, 0x9D5A), (0xF958, 0x9D5B),
     (0xF959, 0x9D5C), (0xF95A, 0x9D5D), (0xF95B, 0x9D5E), (0xF95C, 0x9D5F), (0xF95D, 0x9D60), (0xF95E, 0x9D61),
     (0xF95F, 0x9D62), (0xF960, 0x9D63), (0xF961, 0x9D64), (0xF962, 0x9D65), (0xF963, 0x9D66), (0xF964, 0x9D67),
     (0xF965, 0x9D68), (0xF966, 0x9D69), (0xF967, 0x9D6A), (0xF968, 0x9D6B), (0xF969, 0x9D6C), (0xF96A, 0x9D6D),
     (0xF96B, 0x9D6E), (0xF96C, 0x9D6F), (0xF96D, 0x9D70), (0xF96E, 0x9D71), (0xF96F, 0x9D72), (0xF970, 0x9D73)]"

lemma ucs2_gbk_rows_144_climb: "climb 0xf7f9 ucs2_gbk_rows_144 = Some 0xf970"
  unfolding ucs2_gbk_rows_144_def by (intro climb_num climb_end; simp only: numeral_less_iff less_num_simps le_num_simps)

definition ucs2_gbk_rows_145 :: "code_map list" where
  "ucs2_gbk_rows_145 = [
     (0xF971, 0x9D74), (0xF972, 0x9D75), (0xF973, 0x9D76), (0xF974, 0x9D77), (0xF975, 0x9D78), (0xF976, 0x9D79),
     (0xF977, 0x9D7A), (0xF978, 0x9D7B), (0xF979, 0x9D7C), (0xF97A, 0x9D7D), (0xF97B, 0x9D7E), (0xF97C, 0x9D7F),
     (0xF97D, 0x9D80), (0xF97E, 0x9D81), (0xF980, 0x9D82), (0xF981, 0x9D83), (0xF982, 0x9D84), (0xF983, 0x9D85),
     (0xF984, 0x9D86), (0xF985, 0x9D87), (0xF986, 0x9D88), (0xF987, 0x9D89), (0xF988, 0x9D8A), (0xF989, 0x9D8B),
     (0xF98A, 0x9D8C), (0xF98B, 0x9D8D), (0xF98C, 0x9D8E), (0xF98D, 0x9D8F), (0xF98E, 0x9D90), (0xF98F, 0x9D91),
     (0xF990, 0x9D92), (0xF991, 0x9D93), (0xF992, 0x9D94), (0xF993, 0x9D95), (0xF994, 0x9D96), (0xF995, 0x9D97),
     (0xF996, 0x9D98), (0xF997, 0x9D99), (0xF998, 0x9D9A), (0xF999, 0x9D9B), (0xF99A, 0x9D9C), (0xF99B, 0x9D9D),
     (0xF99C, 0x9D9E), (0xF99D, 0x9D9F), (0xF99E, 0x9DA0), (0xF99F, 0x9DA1), (0xF9A0, 0x9DA2), (0xFA40, 0x9DA3),
     (0xFA41, 0x9DA4), (0xFA42, 0x9DA5), (0xFA43, 0x9DA6), (0xFA44, 0x9DA7), (0xFA45, 0x9DA8), (0xFA46, 0x9DA9),
     (0xFA47, 0x9DAA), (0xFA48, 0x9DAB), (0xFA49, 0x9DAC), (0xFA4A, 0x9DAD), (0xFA4B, 0x9DAE), (0xFA4C, 0x9DAF),
     (0xFA4D, 0x9DB0), (0xFA4E, 0x9DB1), (0xFA4F, 0x9DB2), (0xFA50, 0x9DB3), (0xFA51, 0x9DB4), (0xFA52, 0x9DB5),
     (0xFA53, 0x9DB6), (0xFA54, 0x9DB7), (0xFA55, 0x9DB8), (0xFA56, 0x9DB9), (0xFA57, 0x9DBA), (0xFA58, 0x9DBB),
     (0xFA59, 0x9DBC), (0xFA5A, 0x9DBD), (0xFA5B, 0x9DBE), (0xFA5C, 0x9DBF), (0xFA5D, 0x9DC0), (0xFA5E, 0x9DC1),
     (0xFA5F, 0x9DC2), (0xFA60, 0x9DC3), (0xFA61, 0x9DC4), (0xFA62, 0x9DC5), (0xFA63, 0x9DC6), (0xFA64, 0x9DC7),
     (0xFA65, 0x9DC8), (0xFA66, 0x9DC9), (0xFA67, 0x9DCA), (0xFA68, 0x9DCB), (0xFA69, 0x9DCC), (0xFA6A, 0x9DCD),
     (0xFA6B, 0x9DCE), (0xFA6C, 0x9DCF), (0xFA6D, 0x9DD0), (0xFA6E, 0x9DD1), (0xFA6F, 0x9DD2), (0xFA70, 0x9DD3),
     (0xFA71, 0x9DD4), (0xFA72, 0x9DD5), (0xFA73, 0x9DD6), (0xFA74, 0x9DD7), (0xFA75, 0x9DD8), (0xFA76, 0x9DD9),
     (0xFA77, 0x9DDA), (0xFA78, 0x9DDB), (0xFA79, 0x9DDC), (0xFA7A, 0x9DDD), (0xFA7B, 0x9DDE), (0xFA7C, 0x9DDF),
     (0xFA7D, 0x9DE0), (0xFA7E, 0x9DE1), (0xFA80, 0x9DE2), (0xFA81, 0x9DE3), (0xFA82, 0x9DE4), (0xFA83, 0x9DE5),
     (0xFA84, 0x9DE6), (0xFA85, 0x9DE7), (0xFA86, 0x9DE8), (0xFA87, 0x9DE9), (0xFA88, 0x9DEA), (0xFA89, 0x9DEB),
     (0xFA8A, 0x9DEC), (0xFA8B, 0x9DED), (0xFA8C, 0x9DEE), (0xFA8D, 0x9DEF), (0xFA8E, 0x9DF0), (0xFA8F, 0x9DF1),
     (0xFA90, 0x9DF2), (0xFA91, 0x9DF3), (0xFA92, 0x9DF4), (0xFA93, 0x9DF5), (0xFA94, 0x9DF6), (0xFA95, 0x9DF7),
     (0xFA96, 0x9DF8), (0xFA97, 0x9DF9), (0xFA98, 0x9DFA), (0xFA99, 0x9DFB), (0xFA9A, 0x9DFC), (0xFA9B, 0x9DFD),
     (0xFA9C, 0x9DFE), (0xFA9D, 0x9DFF), (0xFA9E, 0x9E00), (0xFA9F, 0x9E01), (0xFAA0, 0x9E02), (0xFB40, 0x9E03),
     (0xFB41, 0x9E04), (0xFB42, 0x9E05), (0xFB43, 0x9E06), (0xFB44, 0x9E07), (0xFB45, 0x9E08), (0xFB46, 0x9E09)]"

lemma ucs2_gbk_rows_145_climb: "climb 0xf970 ucs2_gbk_rows_145 = Some 0xfb46"
  unfolding ucs2_gbk_rows_145_def by (intro climb_num climb_end; simp only: numeral_less_iff less_num_simps le_num_simps)

definition ucs2_gbk_rows_146 :: "code_map list" where
  "ucs2_gbk_rows_146 = [
     (0xFB47, 0x9E0A), (0xFB48, 0x9E0B), (0xFB49, 0x9E0C), (0xFB4A, 0x9E0D), (0xFB4B, 0x9E0E), (0xFB4C, 0x9E0F),
     (0xFB4D, 0x9E10), (0xFB4E, 0x9E11), (0xFB4F, 0x9E12), (0xFB50, 0x9E13), (0xFB51, 0x9E14), (0xFB52, 0x9E15),
     (0xFB53, 0x9E16), (0xFB54, 0x9E17), (0xFB55, 0x9E18), (0xFB56, 0x9E19), (0xFB57, 0x9E1A), (0xFB58, 0x9E1B),
     (0xFB59, 0x9E1C), (0xFB5A, 0x9E1D), (0xFB5B, 0x9E1E), (0xFB5C, 0x9E24), (0xFB5D, 0x9E27), (0xFB5E, 0x9E2E),
     (0xFB5F, 0x9E30), (0xFB60, 0x9E34), (0xFB61, 0x9E3B), (0xFB62, 0x9E3C), (0xFB63, 0x9E40), (0xFB64, 0x9E4D),
     (0xFB65, 0x9E50), (0xFB66, 0x9E52), (0xFB67, 0x9E53), (0xFB68, 0x9E54), (0xFB69, 0x9E56), (0xFB6A, 0x9E59),
     (0xFB6B, 0x9E5D), (0xFB6C, 0x9E5F), (0xFB6D, 0x9E60), (0xFB6E, 0x9E61), (0xFB6F, 0x9E62), (0xFB70, 0x9E65),
     (0xFB71, 0x9E6E), (0xFB72, 0x9E6F), (0xFB73, 0x9E72), (0xFB74, 0x9E74), (0xFB75, 0x9E75), (0xFB76, 0x9E76),
     (0xFB77, 0x9E77), (0xFB78, 0x9E78), (0xFB79, 0x9E79), (0xFB7A, 0x9E7A), (0xFB7B, 0x9E7B), (0xFB7C, 0x9E7C),
     (0xFB7D, 0x9E7D), (0xFB7E, 0x9E80), (0xFB80, 0x9E81), (0xFB81, 0x9E83), (0xFB82, 0x9E84), (0xFB83, 0x9E85),
     (0xFB84, 0x9E86), (0xFB85, 0x9E89), (0xFB86, 0x9E8A), (0xFB87, 0x9E8C), (0xFB88, 0x9E8D), (0xFB89, 0x9E8E),
     (0xFB8A, 0x9E8F), (0xFB8B, 0x9E90), (0xFB8C, 0x9E91), (0xFB8D, 0x9E94), (0xFB8E, 0x9E95), (0xFB8F, 0x9E96),
     (0xFB90, 0x9E97), (0xFB91, 0x9E98), (0xFB92, 0x9E99), (0xFB93, 0x9E9A), (0xFB94, 0x9E9B), (0xFB95, 0x9E9C),
     (0xFB96, 0x9E9E), (0xFB97, 0x9EA0), (0xFB98, 0x9EA1), (0xFB99, 0x9EA2), (0xFB9A, 0x9EA3), (0xFB9B, 0x9EA4),
     (0xFB9C, 0x9EA5), (0xFB9D, 0x9EA7), (0xFB9E, 0x9EA8), (0xFB9F, 0x9EA9), (0xFBA0, 0x9EAA), (0xFC40, 0x9EAB),
     (0xFC41, 0x9EAC), (0xFC42, 0x9EAD), (0xFC43, 0x9EAE), (0xFC44, 0x9EAF), (0xFC45, 0x9EB0), (0xFC46, 0x9EB1),
     (0xFC47, 0x9EB2), (0xFC48, 0x9EB3), (0xFC49, 0x9EB5), (0xFC4A, 0x9EB6), (0xFC4B, 0x9EB7), (0xFC4C, 0x9EB9),
     (0xFC4D, 0x9EBA), (0xFC4E, 0x9EBC), (0xFC4F, 0x9EBF), (0xFC50, 0x9EC0), (0xFC51, 0x9EC1), (0xFC52, 0x9EC2),
     (0xFC53, 0x9EC3), (0xFC54, 0x9EC5), (0xFC55, 0x9EC6), (0xFC56, 0x9EC7), (0xFC57, 0x9EC8), (0xFC58, 0x9ECA),
     (0xFC59, 0x9ECB), (0xFC5A, 0x9ECC), (0xFC5B, 0x9ED0), (0xFC5C, 0x9ED2), (0xFC5D, 0x9ED3), (0xFC5E, 0x9ED5),
     (0xFC5F, 0x9ED6), (0xFC60, 0x9ED7), (0xFC61, 0x9ED9), (0xFC62, 0x9EDA), (0xFC63, 0x9EDE), (0xFC64, 0x9EE1),
     (0xFC65, 0x9EE3), (0xFC66, 0x9EE4), (0xFC67, 0x9EE6), (0xFC68, 0x9EE8), (0xFC69, 0x9EEB), (0xFC6A, 0x9EEC),
     (0xFC6B, 0x9EED), (0xFC6C, 0x9EEE), (0xFC6D, 0x9EF0), (0xFC6E, 0x9EF1), (0xFC6F, 0x9EF2), (0xFC70, 0x9EF3),
     (0xFC71, 0x9EF4), (0xFC72, 0x9EF5), (0xFC73, 0x9EF6), (0xFC74, 0x9EF7), (0xFC75, 0x9EF8), (0xFC76, 0x9EFA),
     (0xFC77, 0x9EFD), (0xFC78, 0x9EFF), (0xFC79, 0x9F00), (0xFC7A, 0x9F01), (0xFC7B, 0x9F02), (0xFC7C, 0x9F03)]"

lemma ucs2_gbk_rows_146_climb: "climb 0xfb46 ucs2_gbk_rows_146 = Some 0xfc7c"
  unfolding ucs2_gbk_rows_146_def by (intro climb_num climb_end; simp only: numeral_less_iff less_num_simps le_num_simps)

definition ucs2_gbk_rows_147 :: "code_map list" where
  "ucs2_gbk_rows_147 = [
     (0xFC7D, 0x9F04), (0xFC7E, 0x9F05), (0xFC80, 0x9F06), (0xFC81, 0x9F07), (0xFC82, 0x9F08), (0xFC83, 0x9F09),
     (0xFC84, 0x9F0A), (0xFC85, 0x9F0C), (0xFC86, 0x9F0F), (0xFC87, 0x9F11), (0xFC88, 0x9F12), (0xFC89, 0x9F14),
     (0xFC8A, 0x9F15), (0xFC8B, 0x9F16), (0xFC8C, 0x9F18), (0xFC8D, 0x9F1A), (0xFC8E, 0x9F1B), (0xFC8F, 0x9F1C),
     (0xFC90, 0x9F1D), (0xFC91, 0x9F1E), (0xFC92, 0x9F1F), (0xFC93, 0x9F21), (0xFC94, 0x9F23), (0xFC95, 0x9F24),
     (0xFC96, 0x9F25), (0xFC97, 0x9F26), (0xFC98, 0x9F27), (0xFC99, 0x9F28), (0xFC9A, 0x9F29), (0xFC9B, 0x9F2A),
     (0xFC9C, 0x9F2B), (0xFC9D, 0x9F2D), (0xFC9E, 0x9F2E), (0xFC9F, 0x9F30), (0xFCA0, 0x9F31), (0xFD40, 0x9F32),
     (0xFD41, 0x9F33), (0xFD42, 0x9F34), (0xFD43, 0x9F35), (0xFD44, 0x9F36), (0xFD45, 0x9F38), (0xFD46, 0x9F3A),
     (0xFD47, 0x9F3C), (0xFD48, 0x9F3F), (0xFD49, 0x9F40), (0xFD4A, 0x9F41), (0xFD4B, 0x9F42), (0xFD4C, 0x9F43),
     (0xFD4D, 0x9F45), (0xFD4E, 0x9F46), (0xFD4F, 0x9F47), (0xFD50, 0x9F48), (0xFD51, 0x9F49), (0xFD52, 0x9F4A),
     (0xFD53, 0x9F4B), (0xFD54, 0x9F4C), (0xFD55, 0x9F4D), (0xFD56, 0x9F4E), (0xFD57, 0x9F4F), (0xFD58, 0x9F52),
     (0xFD59, 0x9F53), (0xFD5A, 0x9F54), (0xFD5B, 0x9F55), (0xFD5C, 0x9F56), (0xFD5D, 0x9F57), (0xFD5E, 0x9F58),
     (0xFD5F, 0x9F59), (0xFD60, 0x9F5A), (0xFD61, 0x9F5B), (0xFD62, 0x9F5C), (0xFD63, 0x9F5D), (0xFD64, 0x9F5E),
     (0xFD65, 0x9F5F), (0xFD66, 0x9F60), (0xFD67, 0x9F61), (0xFD68, 0x9F62), (0xFD69, 0x9F63), (0xFD6A, 0x9F64),
     (0xFD6B, 0x9F65), (0xFD6C, 0x9F66), (0xFD6D, 0x9F67), (0xFD6E, 0x9F68), (0xFD6F, 0x9F69), (0xFD70, 0x9F6A),
     (0xFD71, 0x9F6B), (0xFD72, 0x9F6C), (0xFD73, 0x9F6D), (0xFD74, 0x9F6E), (0xFD75, 0x9F6F), (0xFD76, 0x9F70),
     (0xFD77, 0x9F71), (0xFD78, 0x9F72), (0xFD79, 0x9F73), (0xFD7A, 0x9F74), (0xFD7B, 0x9F75), (0xFD7C, 0x9F76),
     (0xFD7D, 0x9F77), (0xFD7E, 0x9F78), (0xFD80, 0x9F79), (0xFD81, 0x9F7A), (0xFD82, 0x9F7B), (0xFD83, 0x9F7C),
     (0xFD84, 0x9F7D), (0xFD85, 0x9F7E), (0xFD86, 0x9F81), (0xFD87, 0x9F82), (0xFD88, 0x9F8D), (0xFD89, 0x9F8E),
     (0xFD8A, 0x9F8F), (0xFD8B, 0x9F90), (0xFD8C, 0x9F91), (0xFD8D, 0x9F92), (0xFD8E, 0x9F93), (0xFD8F, 0x9F94),
     (0xFD90, 0x9F95), (0xFD91, 0x9F96), (0xFD92, 0x9F97), (0xFD93, 0x9F98), (0xFD94, 0x9F9C), (0xFD95, 0x9F9D),
     (0xFD96, 0x9F9E), (0xFD97, 0x9FA1), (0xFD98, 0x9FA2), (0xFD99, 0x9FA3), (0xFD9A, 0x9FA4), (0xFD9B, 0x9FA5),
     (0xFD9C, 0xF92C), (0xFD9D, 0xF979), (0xFD9E, 0xF995), (0xFD9F, 0xF9E7), (0xFDA0, 0xF9F1), (0xFE40, 0xFA0C),
     (0xFE41, 0xFA0D), (0xFE42, 0xFA0E), (0xFE43, 0xFA0F), (0xFE44, 0xFA11), (0xFE45, 0xFA13), (0xFE46, 0xFA14),
     (0xFE47, 0xFA18), (0xFE48, 0xFA1F), (0xFE49, 0xFA20), (0xFE4A, 0xFA21), (0xFE4B, 0xFA23), (0xFE4C, 0xFA24),
     (0xFE4D, 0xFA27), (0xFE4E, 0xFA28), (0xFE4F, 0xFA29), (0xFFFF, 0xFFFF)]"

lemma ucs2_gbk_rows_147_climb: "climb 0xfc7c ucs2_gbk_rows_147 = Some 0xffff"
  unfolding ucs2_gbk_rows_147_def by (intro climb_num climb_end; simp only: numeral_less_iff less_num_simps le_num_simps)

definition gbk_part_C :: "code_map list" where
  "gbk_part_C = concat [
     ucs2_gbk_rows_099, ucs2_gbk_rows_100, ucs2_gbk_rows_101, ucs2_gbk_rows_102, ucs2_gbk_rows_103,
     ucs2_gbk_rows_104, ucs2_gbk_rows_105, ucs2_gbk_rows_106, ucs2_gbk_rows_107, ucs2_gbk_rows_108,
     ucs2_gbk_rows_109, ucs2_gbk_rows_110, ucs2_gbk_rows_111, ucs2_gbk_rows_112, ucs2_gbk_rows_113,
     ucs2_gbk_rows_114, ucs2_gbk_rows_115, ucs2_gbk_rows_116, ucs2_gbk_rows_117, ucs2_gbk_rows_118,
     ucs2_gbk_rows_119, ucs2_gbk_rows_120, ucs2_gbk_rows_121, ucs2_gbk_rows_122, ucs2_gbk_rows_123,
     ucs2_gbk_rows_124, ucs2_gbk_rows_125, ucs2_gbk_rows_126, ucs2_gbk_rows_127, ucs2_gbk_rows_128,
     ucs2_gbk_rows_129, ucs2_gbk_rows_130, ucs2_gbk_rows_131, ucs2_gbk_rows_132, ucs2_gbk_rows_133,
     ucs2_gbk_rows_134, ucs2_gbk_rows_135, ucs2_gbk_rows_136, ucs2_gbk_rows_137, ucs2_gbk_rows_138,
     ucs2_gbk_rows_139, ucs2_gbk_rows_140, ucs2_gbk_rows_141, ucs2_gbk_rows_142, ucs2_gbk_rows_143,
     ucs2_gbk_rows_144, ucs2_gbk_rows_145, ucs2_gbk_rows_146, ucs2_gbk_rows_147]"

lemma gbk_part_C_climb: "climb 0xd490 gbk_part_C = Some 0xffff"
  by (simp add: gbk_part_C_def climb_append
      ucs2_gbk_rows_099_climb ucs2_gbk_rows_100_climb ucs2_gbk_rows_101_climb ucs2_gbk_rows_102_climb
      ucs2_gbk_rows_103_climb ucs2_gbk_rows_104_climb ucs2_gbk_rows_105_climb ucs2_gbk_rows_106_climb
      ucs2_gbk_rows_107_climb ucs2_gbk_rows_108_climb ucs2_gbk_rows_109_climb ucs2_gbk_rows_110_climb
      ucs2_gbk_rows_111_climb ucs2_gbk_rows_112_climb ucs2_gbk_rows_113_climb ucs2_gbk_rows_114_climb
      ucs2_gbk_rows_115_climb ucs2_gbk_rows_116_climb ucs2_gbk_rows_117_climb ucs2_gbk_rows_118_climb
      ucs2_gbk_rows_119_climb ucs2_gbk_rows_120_climb ucs2_gbk_rows_121_climb ucs2_gbk_rows_122_climb
      ucs2_gbk_rows_123_climb ucs2_gbk_rows_124_climb ucs2_gbk_rows_125_climb ucs2_gbk_rows_126_climb
      ucs2_gbk_rows_127_climb ucs2_gbk_rows_128_climb ucs2_gbk_rows_129_climb ucs2_gbk_rows_130_climb
      ucs2_gbk_rows_131_climb ucs2_gbk_rows_132_climb ucs2_gbk_rows_133_climb ucs2_gbk_rows_134_climb
      ucs2_gbk_rows_135_climb ucs2_gbk_rows_136_climb ucs2_gbk_rows_137_climb ucs2_gbk_rows_138_climb
      ucs2_gbk_rows_139_climb ucs2_gbk_rows_140_climb ucs2_gbk_rows_141_climb ucs2_gbk_rows_142_climb
      ucs2_gbk_rows_143_climb ucs2_gbk_rows_144_climb ucs2_gbk_rows_145_climb ucs2_gbk_rows_146_climb
      ucs2_gbk_rows_147_climb)

end
