(* ===== verification/Gbk_Table.thy ===== *)
theory Gbk_Table
  imports Convert Escape Gbk_Rows_A Gbk_Rows_B Gbk_Rows_C
begin

text \<open>
  The table of \<^verbatim>\<open>src/ucs2_gbk_map.c\<close> as a whole, and what loading it does.
\<close>

definition ucs2_gbk_map :: "code_map list" where
  "ucs2_gbk_map = gbk_part_A @ gbk_part_B @ gbk_part_C"

section \<open>The codes increase\<close>

lemma climb_above: "climb lo rows = Some hi \<Longrightarrow> (\<forall>r\<in>set rows. lo < fst r \<and> fst r \<le> hi) \<and> lo \<le> hi"
  by (induction lo rows rule: climb.induct) (fastforce split: if_splits)+

lemma climb_sorted: "climb lo rows = Some hi \<Longrightarrow> sorted_wrt (<) (map fst rows)"
proof (induction lo rows rule: climb.induct)
  case (2 lo r rows)
  then show ?case using climb_above [of "fst r" rows hi] by (auto split: if_splits)
qed simp

lemma climb0_sorted: "climb0 rows = Some hi \<Longrightarrow> sorted_wrt (<) (map fst rows)"
  by (cases rows) (use climb_above climb_sorted in auto)

lemma ucs2_gbk_map_climb: "climb0 ucs2_gbk_map = Some 0xFFFF"
proof -
  have "gbk_part_A \<noteq> []" using gbk_part_A_climb by auto
  then show ?thesis
    by (simp add: ucs2_gbk_map_def climb0_append climb_append gbk_part_A_climb gbk_part_B_climb gbk_part_C_climb)
qed

section \<open>Properties\<close>

text \<open>The 22048 rows of the table are in strictly increasing order of their GBK codes, so no GBK code has
  two rows.\<close>

theorem ucs2_gbk_map_sorted:
  "sorted_wrt (<) (map fst ucs2_gbk_map) \<and> distinct (map fst ucs2_gbk_map)"
proof
  show s: "sorted_wrt (<) (map fst ucs2_gbk_map)"
    by (rule climb0_sorted [OF ucs2_gbk_map_climb])
  show "distinct (map fst ucs2_gbk_map)" using s by (simp add: strict_sorted_iff)
qed

lemma row_81: "(0x81, 0xFFFF) \<in> set ucs2_gbk_map"
proof -
  have "(0x81, 0xFFFF) \<in> set ucs2_gbk_rows_001"
    unfolding ucs2_gbk_rows_001_def by simp
  then show ?thesis by (simp add: ucs2_gbk_map_def gbk_part_A_def)
qed

text \<open>The sentinel is the last row.\<close>

lemma climb_last: "climb lo rows = Some hi \<Longrightarrow> rows \<noteq> [] \<Longrightarrow> fst (last rows) = hi"
  by (induction lo rows rule: climb.induct) (auto split: if_splits)

lemma sentinel_row: "(0xFFFF, 0xFFFF) \<in> set ucs2_gbk_map"
proof -
  have "(0xFFFF, 0xFFFF) \<in> set ucs2_gbk_rows_147"
    unfolding ucs2_gbk_rows_147_def by simp
  then show ?thesis by (simp add: ucs2_gbk_map_def gbk_part_C_def)
qed

lemma ucs2_gbk_map_rows:
  "butlast ucs2_gbk_map @ [(0xFFFF, 0xFFFF)] = ucs2_gbk_map" "(0xFFFF, 0xFFFF) \<notin> set (butlast ucs2_gbk_map)"
  "bad_rows (butlast ucs2_gbk_map)"
proof -
  obtain r rows where m: "ucs2_gbk_map = r # rows" using row_81 by (cases ucs2_gbk_map) auto
  have d: "distinct (map fst ucs2_gbk_map)" using climb0_sorted [OF ucs2_gbk_map_climb] by (simp add: strict_sorted_iff)
  have "rows \<noteq> []" using row_81 sentinel_row by (auto simp: m)
  then have "fst (last ucs2_gbk_map) = 0xFFFF" using climb_last [of "fst r" rows] ucs2_gbk_map_climb by (simp add: m)
  moreover have "last ucs2_gbk_map \<in> set ucs2_gbk_map" by (rule last_in_set) (simp add: m)
  ultimately have l: "last ucs2_gbk_map = (0xFFFF, 0xFFFF)"
    using d sentinel_row by (metis eq_key_imp_eq_value prod.collapse)
  show e: "butlast ucs2_gbk_map @ [(0xFFFF, 0xFFFF)] = ucs2_gbk_map"
    using append_butlast_last_id [of ucs2_gbk_map] l m by (metis list.distinct(1))
  have "distinct (map fst (butlast ucs2_gbk_map @ [(0xFFFF, 0xFFFF)]))" using d by (simp only: e)
  then show "(0xFFFF, 0xFFFF) \<notin> set (butlast ucs2_gbk_map)" by force
  have "(0x81, 0xFFFF) \<in> set (butlast ucs2_gbk_map @ [(0xFFFF, 0xFFFF)])" using row_81 by (simp only: e)
  then show "bad_rows (butlast ucs2_gbk_map)" by (force simp: bad_rows_def)
qed

lemma ensure_init_overrun: "ensure_init ucs2_gbk_map charset_static = Inl OutOfBounds"
  using ensure_init_bad [OF ucs2_gbk_map_rows(3,2), of "[(0xFFFF, 0xFFFF)]"] by (simp only: ucs2_gbk_map_rows(1))

text \<open>A part of the table that can be loaded, and a row of it.\<close>

lemma rows_086: "(0xFFFF, 0xFFFF) \<notin> set ucs2_gbk_rows_086" "\<not> bad_rows ucs2_gbk_rows_086" "own_row ucs2_gbk_rows_086 0xCAD4 0x8BD5"
proof -
  have "list_all (\<lambda>r. fst r \<noteq> 0xFFFF \<and> snd r \<noteq> 0xFFFF \<and> (fst r = 0xCAD4 \<longleftrightarrow> snd r = 0x8BD5)) ucs2_gbk_rows_086" by code_simp
  moreover have "list_ex (\<lambda>r. r = (0xCAD4, 0x8BD5)) ucs2_gbk_rows_086" by code_simp
  ultimately show "(0xFFFF, 0xFFFF) \<notin> set ucs2_gbk_rows_086" "\<not> bad_rows ucs2_gbk_rows_086" "own_row ucs2_gbk_rows_086 0xCAD4 0x8BD5"
    by (auto simp: list_all_iff list_ex_iff bad_rows_def own_row_def)
qed

text \<open>With the table of the repository, and with the 150 rows of it that hold \<open>0xCAD4\<close>.\<close>

lemma gbk_utf8_roundtrip_witness:
  "lc_conv ucs2_gbk_map charset_static (pairs []) 0 (replicate 9 0) 9 CONV_GBK_UTF8 = Inl OutOfBounds
    \<and> (\<exists>st e l. lc_conv (ucs2_gbk_rows_086 @ [(0xFFFF, 0xFFFF)]) charset_static (pairs [0xCAD4]) 2 (replicate 9 0) 9 CONV_GBK_UTF8
        = Inr (E_OK, st, e, l)
      \<and> lc_conv (ucs2_gbk_rows_086 @ [(0xFFFF, 0xFFFF)]) st e l (replicate 3 0) 3 CONV_UTF8_GBK
        = Inr (E_OK, st, pairs [0xCAD4] @ [0], 2))"
proof -
  have "\<forall>g\<in>set [0xCAD4]. \<exists>u. own_row ucs2_gbk_rows_086 g u" using rows_086(3) by auto
  then show ?thesis
    using gbk_utf8_roundtrip [of "butlast ucs2_gbk_map" "[]" "replicate 9 0" "replicate 3 0"]
      gbk_utf8_roundtrip [of ucs2_gbk_rows_086 "[0xCAD4]" "replicate 9 0" "replicate 3 0"] ucs2_gbk_map_rows rows_086(1,2)
    by simp
qed

text \<open>With the table of the repository the first call of either entry point writes past the end of
  \<^verbatim>\<open>ucs2_gbk\<close>: the rows of the bytes from \<open>0x81\<close> on have the UCS-2 code \<open>0xFFFF\<close> and the array
  has \<open>0xFFFF\<close> cells.\<close>

theorem charset_first_call_overruns:
  "lc_conv ucs2_gbk_map charset_static s n d d_size conv_type = Inl OutOfBounds
   \<and> str_esc_decode ucs2_gbk_map charset_static s n code_type d d_size = Inl OutOfBounds"
  by (simp add: lc_conv_def str_esc_decode_def ensure_init_overrun)

end
