(* ===== verification/Data_Set.thy ===== *)
theory Data_Set
  imports Growth
begin

text \<open>
  The variable sets of \<^verbatim>\<open>src/f1g_data_set.c\<close>: an array of keys with their values, filled in
  order and searched from the front. The key field of a slot is the C string it holds.
\<close>

section \<open>Structs\<close>

definition MAX_KEY_LEN :: nat where "MAX_KEY_LEN = 64"
definition KEY_VAL_SIZE :: int where "KEY_VAL_SIZE = 128"

record value_t =
  val_size :: int
  val_len :: int
  val :: "bytes ptr"

record key_info =
  key :: bytes
  kval :: value_t

record data_set =
  key_num :: int
  key_size :: int
  p_keys :: "key_info list ptr"

definition zero_value :: value_t where
  "zero_value = \<lparr>val_size = 0, val_len = 0, val = Null\<rparr>"

definition zero_key :: key_info where
  "zero_key = \<lparr>key = [], kval = zero_value\<rparr>"

definition zero_data_set :: data_set where
  "zero_data_set = \<lparr>key_num = 0, key_size = 0, p_keys = Null\<rparr>"

section \<open>Growing\<close>

text \<open>The old value block is copied and not freed.\<close>

definition key_info_extent_cap :: "u8 alloc \<Rightarrow> key_info \<Rightarrow> int \<Rightarrow> (int \<times> key_info) run" where
  "key_info_extent_cap a k ext_size =
     (case malloc (map_option (\<lambda>g _. 0) a) ext_size of
        Live m \<Rightarrow>
          bindR (if val (kval k) = Null then Inr m
                 else bindR (deref (val (kval k))) (\<lambda>old. bindR (slice old 0 (val_len (kval k))) (put m 0)))
            (\<lambda>m'. Inr (F1G_OK, k\<lparr>kval := (kval k)\<lparr>val := Live m', val_size := ext_size\<rparr>\<rparr>))
      | _ \<Rightarrow> Inr (F1G_ERR, k))"

definition data_set_extent_cap :: "bool \<Rightarrow> data_set \<Rightarrow> int \<Rightarrow> (int \<times> data_set) run" where
  "data_set_extent_cap ok ds ext_key_size =
     (case zalloc ok ext_key_size zero_key of
        Live m \<Rightarrow>
          bindR (if p_keys ds = Null then Inr m
                 else bindR (deref (p_keys ds)) (\<lambda>old. bindR (slice old 0 (key_num ds)) (put m 0)))
            (\<lambda>m'. Inr (F1G_OK, ds\<lparr>p_keys := Live m', key_size := ext_key_size\<rparr>))
      | _ \<Rightarrow> Inr (F1G_ERR, ds))"

section \<open>Initialisation, insertion, lookup\<close>

text \<open>The values of the slots: \<open>a i\<close> is the outcome of the allocation for slot \<open>i\<close>.\<close>

fun init_vals :: "(nat \<Rightarrow> u8 alloc) \<Rightarrow> nat \<Rightarrow> nat \<Rightarrow> key_info list \<Rightarrow> int \<times> key_info list" where
  "init_vals a i 0 ks = (F1G_OK, ks)"
| "init_vals a i (Suc n) ks =
     (case malloc (a i) KEY_VAL_SIZE of
        Live m \<Rightarrow> init_vals a (i + 1) n
          (ks[i := (ks ! i)\<lparr>kval := (kval (ks ! i))\<lparr>val := Live m, val_size := KEY_VAL_SIZE\<rparr>\<rparr>])
      | _ \<Rightarrow> (F1G_ERR, ks[i := (ks ! i)\<lparr>kval := (kval (ks ! i))\<lparr>val := Null\<rparr>\<rparr>]))"

definition data_set_init :: "bool \<Rightarrow> (nat \<Rightarrow> u8 alloc) \<Rightarrow> int \<Rightarrow> int \<times> data_set" where
  "data_set_init ok a n =
     (case zalloc ok n zero_key of
        Live ks \<Rightarrow>
          (let (r, ks') = init_vals a 0 (nat n) ks in
           (r, \<lparr>key_num = 0, key_size = n, p_keys = Live ks'\<rparr>))
      | _ \<Rightarrow> (F1G_ERR, zero_data_set))"

text \<open>The opening of both insertions: room for one more slot (a failure to grow is not looked at; the new
  sizes, here and of a value, are computed in \<^verbatim>\<open>i32_t\<close>),
  and the checks of the name. \<open>Inr None\<close> is the return of \<^verbatim>\<open>F1G_ERR\<close>.\<close>

definition with_room :: "bool \<Rightarrow> data_set \<Rightarrow> data_set run" where
  "with_room ok ds =
     (if key_num ds \<ge> key_size ds
      then bindR (i32R (key_size ds * 2)) (\<lambda>n. bindR (data_set_extent_cap ok ds n) (\<lambda>(_, ds'). Inr ds'))
      else Inr ds)"

definition name_ok :: "bytes option \<Rightarrow> bool" where
  "name_ok name = (case name of None \<Rightarrow> False | Some n \<Rightarrow> 0 < length n \<and> length n \<le> MAX_KEY_LEN)"

text \<open>The slot the new variable goes to, updated by \<open>f\<close>, and \<^verbatim>\<open>key_num++\<close>.\<close>

definition fill_slot :: "data_set \<Rightarrow> (key_info \<Rightarrow> key_info run) \<Rightarrow> (int \<times> data_set) run" where
  "fill_slot ds f =
     bindR (deref (p_keys ds)) (\<lambda>ks.
     bindR (rd ks (nat (key_num ds))) (\<lambda>k.
     bindR (f k) (\<lambda>k'.
     bindR (wr ks (nat (key_num ds)) k') (\<lambda>ks'.
       Inr (F1G_OK, ds\<lparr>p_keys := Live ks', key_num := key_num ds + 1\<rparr>)))))"

definition store_str :: "u8 alloc \<Rightarrow> bytes \<Rightarrow> bytes \<Rightarrow> int \<Rightarrow> key_info \<Rightarrow> key_info run" where
  "store_str a name in_val len k =
     bindR (if val_size (kval k) < len
            then bindR (i32R (len + len div 2)) (\<lambda>n. bindR (key_info_extent_cap a (k\<lparr>key := name\<rparr>) n) (\<lambda>(_, k'). Inr k'))
            else Inr (k\<lparr>key := name\<rparr>)) (\<lambda>k.
     bindR (if len = 0 then Inr (kval k)
            else bindR (deref (val (kval k))) (\<lambda>m.
                 bindR (slice in_val 0 len) (\<lambda>s.
                 bindR (put m 0 s) (\<lambda>m'. Inr ((kval k)\<lparr>val := Live m'\<rparr>))))) (\<lambda>v.
       Inr (k\<lparr>kval := v\<lparr>val_len := len\<rparr>\<rparr>)))"

definition data_set_add_str_var ::
  "bool \<Rightarrow> u8 alloc \<Rightarrow> data_set \<Rightarrow> bytes option \<Rightarrow> bytes \<Rightarrow> int \<Rightarrow> (int \<times> data_set) run" where
  "data_set_add_str_var ok a ds var_name in_val len =
     bindR (with_room ok ds) (\<lambda>ds.
       if \<not> name_ok var_name then Inr (F1G_ERR, ds)
       else fill_slot ds (store_str a (the var_name) in_val len))"

text \<open>\<^verbatim>\<open>snprintf\<close> of a text \<open>t\<close> into \<open>v\<close>: cut to the size less one, with a terminator.\<close>

definition snprintf_val :: "value_t \<Rightarrow> bytes \<Rightarrow> value_t run" where
  "snprintf_val v t =
     (if val_size v = 0 then Inr v
      else bindR (deref (val v)) (\<lambda>m.
           bindR (put m 0 (take (nat (val_size v) - 1) t @ [0])) (\<lambda>m'. Inr (v\<lparr>val := Live m'\<rparr>))))"

text \<open>\<open>text\<close> is what the format makes of the number; \<open>None\<close> is a format that is \<^verbatim>\<open>NULL\<close> or empty.\<close>

definition data_set_add_int_var ::
  "bool \<Rightarrow> u8 alloc \<Rightarrow> data_set \<Rightarrow> bytes option \<Rightarrow> bytes option \<Rightarrow> (int \<times> data_set) run" where
  "data_set_add_int_var ok a ds var_name t =
     bindR (with_room ok ds) (\<lambda>ds.
       if \<not> name_ok var_name then Inr (F1G_ERR, ds)
       else fill_slot ds (\<lambda>k.
         case t of
           None \<Rightarrow> Inr (k\<lparr>key := the var_name\<rparr>)
         | Some t \<Rightarrow>
             bindR (snprintf_val (kval k) t) (\<lambda>v.
             let k1 = k\<lparr>key := the var_name, kval := v\<rparr>; len = int (length t) in
             bindR (if len > val_size v
                    then bindR (i32R (len + len div 2)) (\<lambda>n. bindR (key_info_extent_cap a k1 n) (\<lambda>(_, k'). Inr k'))
                    else Inr k1) (\<lambda>k2.
             bindR (snprintf_val (kval k2) t) (\<lambda>v2. Inr (k2\<lparr>kval := v2\<lparr>val_len := len\<rparr>\<rparr>))))))"

definition lower :: "u8 \<Rightarrow> u8" where
  "lower c = (if 65 \<le> c \<and> c \<le> 90 then c + 32 else c)"

text \<open>\<^verbatim>\<open>strncasecmp(name, k, strlen(name)) == 0\<close>: \<open>k\<close> starts with \<open>name\<close>, letter case aside.\<close>

definition starts_case :: "bytes \<Rightarrow> bytes \<Rightarrow> bool" where
  "starts_case name k \<longleftrightarrow> map lower name = take (length name) (map lower k)"

function get_from :: "key_info list \<Rightarrow> int \<Rightarrow> bytes \<Rightarrow> nat \<Rightarrow> value_t option run" where
  "get_from ks n name i =
     (if int i < n then
        bindR (rd ks i) (\<lambda>k. if starts_case name (key k) then Inr (Some (kval k)) else get_from ks n name (Suc i))
      else Inr None)"
  by pat_completeness auto
termination
  by (relation "measure (\<lambda>(ks, n, name, i). nat (n - int i))") auto

declare get_from.simps [simp del]

text \<open>The value \<^verbatim>\<open>*val\<close> points to; the return code is always \<^verbatim>\<open>F1G_OK\<close>.\<close>

definition data_set_get_val :: "data_set \<Rightarrow> bytes \<Rightarrow> value_t option run" where
  "data_set_get_val ds name =
     (if key_num ds \<le> 0 then Inr None
      else bindR (deref (p_keys ds)) (\<lambda>ks. get_from ks (key_num ds) name 0))"

text \<open>All value blocks are freed, up to \<^verbatim>\<open>key_size\<close>.\<close>

fun free_vals :: "key_info list \<Rightarrow> nat \<Rightarrow> nat \<Rightarrow> unit run" where
  "free_vals ks i 0 = Inr ()"
| "free_vals ks i (Suc n) = bindR (rd ks i) (\<lambda>k. freeR (val (kval k)) (free_vals ks (i + 1) n))"

definition data_set_destroy :: "data_set \<Rightarrow> (int \<times> data_set) run" where
  "data_set_destroy ds =
     (if p_keys ds = Null then Inr (F1G_OK, ds)
      else bindR (deref (p_keys ds)) (\<lambda>ks.
           bindR (free_vals ks 0 (nat (key_size ds))) (\<lambda>_. freeR (p_keys ds) (Inr (F1G_OK, zero_data_set)))))"

section \<open>Well-formed sets and their contents\<close>

definition value_wf :: "value_t \<Rightarrow> bool" where
  "value_wf v \<longleftrightarrow> 0 \<le> val_len v \<and> val_len v \<le> val_size v
     \<and> (if val_size v = 0 then val v = Null else (\<exists>m. val v = Live m \<and> int (length m) = val_size v))"

definition value_bytes :: "value_t \<Rightarrow> bytes" where
  "value_bytes v = (case val v of Live m \<Rightarrow> take (nat (val_len v)) m | _ \<Rightarrow> [])"

definition slots :: "data_set \<Rightarrow> key_info list" where
  "slots ds = (case p_keys ds of Live ks \<Rightarrow> take (nat (key_num ds)) ks | _ \<Rightarrow> [])"

definition ds_wf :: "data_set \<Rightarrow> bool" where
  "ds_wf ds \<longleftrightarrow> 0 \<le> key_num ds \<and> key_num ds \<le> key_size ds
     \<and> (\<exists>ks. p_keys ds = Live ks \<and> int (length ks) = key_size ds \<and> (\<forall>k\<in>set ks. value_wf (kval k)))"

text \<open>What the set holds: the names and values in the order they were added.\<close>

definition entries :: "data_set \<Rightarrow> (bytes \<times> bytes) list" where
  "entries ds = map (\<lambda>k. (key k, value_bytes (kval k))) (slots ds)"

lemma zero_value_wf: "value_wf zero_value"
  by (simp add: value_wf_def zero_value_def)

lemma data_set_extent_cap_ok:
  assumes "ds_wf ds" and "key_size ds < n"
  shows "\<exists>ds'. data_set_extent_cap True ds n = Inr (F1G_OK, ds') \<and> ds_wf ds' \<and> slots ds' = slots ds
    \<and> key_size ds' = n \<and> key_num ds' = key_num ds"
proof -
  obtain ks where ks: "p_keys ds = Live ks" "int (length ks) = key_size ds" "\<forall>k\<in>set ks. value_wf (kval k)"
      "0 \<le> key_num ds" "key_num ds \<le> key_size ds"
    using assms(1) by (auto simp: ds_wf_def)
  let ?m = "take (nat (key_num ds)) ks @ drop (nat (key_num ds)) (replicate (nat n) zero_key)"
  have "data_set_extent_cap True ds n = Inr (F1G_OK, ds\<lparr>p_keys := Live ?m, key_size := n\<rparr>)"
    using ks assms(2) by (simp add: data_set_extent_cap_def zalloc_def nat_le_iff)
  moreover have "\<forall>k\<in>set ?m. value_wf (kval k)"
    using ks(3) zero_value_wf by (auto simp: zero_key_def dest!: in_set_takeD)
  ultimately show ?thesis
    using ks assms(2) by (auto simp: ds_wf_def slots_def nat_le_iff)
qed

interpretation dg: growable "data_set_extent_cap True" slots key_size ds_wf
proof
  fix s n
  assume "ds_wf s" "key_size s < n"
  then show "\<exists>s'. data_set_extent_cap True s n = Inr (F1G_OK, s') \<and> ds_wf s' \<and> slots s' = slots s \<and> key_size s' = n"
    using data_set_extent_cap_ok by blast
qed

text \<open>Room for one more slot: what is held stays.\<close>

lemma with_room_ok:
  assumes "ds_wf ds" and "0 < key_size ds" and "key_size ds < 2 ^ 30"
  shows "\<exists>ds'. with_room True ds = Inr ds' \<and> ds_wf ds' \<and> slots ds' = slots ds
    \<and> key_num ds' = key_num ds \<and> key_num ds' < key_size ds'"
proof (cases "key_num ds < key_size ds")
  case True
  then show ?thesis using assms(1) by (simp add: with_room_def)
next
  case False
  then have "key_num ds = key_size ds" using assms(1) by (auto simp: ds_wf_def)
  then show ?thesis
    using data_set_extent_cap_ok [OF assms(1), of "key_size ds * 2"] assms(2,3)
    by (auto simp: with_room_def)
qed

lemma fill_slot_ok:
  assumes "ds_wf ds" and "key_num ds < key_size ds"
    and "\<And>k. value_wf (kval k) \<Longrightarrow> \<exists>k'. f k = Inr k' \<and> value_wf (kval k') \<and> key k' = n \<and> value_bytes (kval k') = b"
  shows "\<exists>ds'. fill_slot ds f = Inr (F1G_OK, ds') \<and> ds_wf ds' \<and> entries ds' = entries ds @ [(n, b)]
    \<and> 0 < key_size ds'"
proof -
  obtain ks where ks: "p_keys ds = Live ks" "int (length ks) = key_size ds" "\<forall>k\<in>set ks. value_wf (kval k)"
      "0 \<le> key_num ds" "key_num ds \<le> key_size ds"
    using assms(1) by (auto simp: ds_wf_def)
  let ?i = "nat (key_num ds)"
  have i: "?i < length ks" using ks assms(2) by linarith
  then obtain k' where k': "f (ks ! ?i) = Inr k'" "value_wf (kval k')" "key k' = n" "value_bytes (kval k') = b"
    using assms(3) ks(3) by (meson nth_mem)
  let ?ds = "ds\<lparr>p_keys := Live (ks[?i := k']), key_num := key_num ds + 1\<rparr>"
  have "fill_slot ds f = Inr (F1G_OK, ?ds)"
    using ks i k' by (simp add: fill_slot_def)
  moreover have "ds_wf ?ds"
    using ks i k'(2) assms(2) by (auto simp: ds_wf_def dest!: set_update_subset_insert [THEN subsetD])
  moreover have "entries ?ds = entries ds @ [(n, b)]"
    using ks i k' by (simp add: entries_def slots_def nat_add_distrib take_Suc_conv_app_nth)
  ultimately show ?thesis using assms(2) ks by auto
qed

text \<open>Storing a value in a slot: it grows to half as much again where it is too small.\<close>

lemma store_str_ok:
  assumes "value_wf (kval k)" and "len = length s" and "a \<noteq> None" and "int len + int len div 2 < 2 ^ 31"
  shows "\<exists>k'. store_str a n s (int len) k = Inr k'
      \<and> value_wf (kval k') \<and> key k' = n \<and> value_bytes (kval k') = s"
proof (cases "val_size (kval k) < int len")
  case True
  obtain g where a: "a = Some g" using assms(3) by auto
  let ?e = "int len + int len div 2"
  have l: "0 < len" "len \<le> nat ?e" "?e \<noteq> 0" using True assms(1) by (auto simp: value_wf_def)
  obtain m where m: "key_info_extent_cap a (k\<lparr>key := n\<rparr>) ?e
      = Inr (F1G_OK, k\<lparr>key := n, kval := (kval k)\<lparr>val := Live m, val_size := ?e\<rparr>\<rparr>)" "length m = nat ?e"
  proof (cases "val (kval k) = Null")
    case True
    then show ?thesis using that a by (simp add: key_info_extent_cap_def)
  next
    case False
    then obtain old where o: "val (kval k) = Live old" "int (length old) = val_size (kval k)"
      using assms(1) by (auto simp: value_wf_def split: if_splits)
    moreover have "0 \<le> val_len (kval k)" "val_len (kval k) \<le> int (length old)"
      using assms(1) o by (auto simp: value_wf_def)
    moreover have "nat (val_len (kval k)) \<le> nat ?e" using calculation True by linarith
    ultimately show ?thesis using that a by (simp add: key_info_extent_cap_def min_absorb2 nat_le_iff)
  qed
  then show ?thesis
    using True l assms(2,4) by (auto simp: store_str_def value_wf_def value_bytes_def)
next
  case False
  show ?thesis
  proof (cases "len = 0")
    case True
    then show ?thesis
      using False assms(1,2) by (auto simp: store_str_def value_wf_def value_bytes_def split: ptr.splits)
  next
    case len: False
    then obtain m where "val (kval k) = Live m" "int (length m) = val_size (kval k)"
      using False assms(1) by (auto simp: value_wf_def split: if_splits)
    then show ?thesis
      using False len assms(1,2) by (auto simp: store_str_def value_wf_def value_bytes_def)
  qed
qed

lemma get_from_entries:
  assumes "n = int (length (take k ks))" and "k \<le> length ks" and "i \<le> k"
  shows "get_from ks n name i = Inr (map_option kval (List.find (\<lambda>e. starts_case name (key e)) (drop i (take k ks))))"
  using assms(3)
proof (induction "k - i" arbitrary: i)
  case 0
  then show ?case using assms(1,2) by (simp add: get_from.simps)
next
  case (Suc m)
  then have i: "i < k" by simp
  then have "drop i (take k ks) = ks ! i # drop (Suc i) (take k ks)"
    using assms(2) by (metis Cons_nth_drop_Suc length_take min.absorb2 nth_take)
  then show ?case
    using Suc i assms(1,2) by (subst get_from.simps) simp
qed

lemma find_map: "List.find P (map f xs) = map_option f (List.find (P \<circ> f) xs)"
  by (induction xs) auto

lemma get_val_entries:
  assumes "ds_wf ds"
  shows "bindR (data_set_get_val ds name) (\<lambda>v. Inr (map_option value_bytes v))
    = Inr (map_option snd (List.find (\<lambda>e. starts_case name (fst e)) (entries ds)))"
proof -
  obtain ks where ks: "p_keys ds = Live ks" "int (length ks) = key_size ds"
      "0 \<le> key_num ds" "key_num ds \<le> key_size ds"
    using assms by (auto simp: ds_wf_def)
  then have "data_set_get_val ds name
      = Inr (map_option kval (List.find (\<lambda>e. starts_case name (key e)) (slots ds)))"
    using get_from_entries [of "key_num ds" "nat (key_num ds)" ks 0 name]
    by (auto simp: data_set_get_val_def slots_def)
  then show ?thesis
    by (simp add: entries_def find_map comp_def option.map_comp)
qed

text \<open>What a lookup finds: the first entry whose name starts with the name looked up.\<close>

definition lookup :: "data_set \<Rightarrow> bytes \<Rightarrow> bytes option" where
  "lookup ds name = map_option snd (List.find (\<lambda>e. starts_case name (fst e)) (entries ds))"

lemma get_val_lookup:
  assumes "ds_wf ds"
  shows "\<exists>r. data_set_get_val ds name = Inr r \<and> map_option value_bytes r = lookup ds name
    \<and> (\<forall>v. r = Some v \<longrightarrow> value_wf v)"
proof -
  obtain ks where ks: "p_keys ds = Live ks" "int (length ks) = key_size ds"
      "0 \<le> key_num ds" "key_num ds \<le> key_size ds" "\<forall>k\<in>set ks. value_wf (kval k)"
    using assms by (auto simp: ds_wf_def)
  then have "data_set_get_val ds name
      = Inr (map_option kval (List.find (\<lambda>e. starts_case name (key e)) (slots ds)))"
    using get_from_entries [of "key_num ds" "nat (key_num ds)" ks 0 name]
    by (auto simp: data_set_get_val_def slots_def)
  moreover have "value_wf (kval k)" if "List.find (\<lambda>e. starts_case name (key e)) (slots ds) = Some k" for k
    using that ks(1,5) by (auto simp: find_Some_iff slots_def)
  ultimately show ?thesis
    by (auto simp: lookup_def entries_def find_map comp_def option.map_comp)
qed

lemma length_value_bytes: "value_wf v \<Longrightarrow> int (length (value_bytes v)) = val_len v"
  by (auto simp: value_wf_def value_bytes_def split: if_splits)

section \<open>Properties\<close>

text \<open>C9. A variable set is an ordered list of names and values. Created with at least one slot it is
  empty; adding a string variable under a name of 1 to 64 characters appends it, the value and the array
  growing as needed, as long as half as much again as its length and twice the size of the array are
  below \<open>2\<^sup>3\<^sup>1\<close>; and a lookup gives the value of the first name that starts with
  the name looked up, letter case aside, not of an equal one.\<close>

theorem data_set_is_list:
  assumes "ds_wf ds" and "0 < key_size ds" and "0 < length name" and "length name \<le> 64"
    and "a \<noteq> None" and "key_size ds < 2 ^ 30" and "int (length v) + int (length v) div 2 < 2 ^ 31"
  shows "\<exists>ds'. data_set_add_str_var True a ds (Some name) v (int (length v)) = Inr (F1G_OK, ds')
    \<and> ds_wf ds' \<and> 0 < key_size ds' \<and> entries ds' = entries ds @ [(name, v)]
    \<and> bindR (data_set_get_val ds' q) (\<lambda>r. Inr (map_option value_bytes r))
        = Inr (case List.find (\<lambda>e. starts_case q (fst e)) (entries ds) of
                 Some e \<Rightarrow> Some (snd e)
               | None \<Rightarrow> if starts_case q name then Some v else None)"
proof -
  obtain ds1 where ds1: "with_room True ds = Inr ds1" "ds_wf ds1" "slots ds1 = slots ds"
      "key_num ds1 < key_size ds1"
    using with_room_ok [OF assms(1,2,6)] by blast
  obtain ds' where ds': "data_set_add_str_var True a ds (Some name) v (int (length v)) = Inr (F1G_OK, ds')"
      "ds_wf ds'" "entries ds' = entries ds1 @ [(name, v)]" "0 < key_size ds'"
    using fill_slot_ok [OF ds1(2,4), of "store_str a name v (int (length v))" name v]
      store_str_ok [OF _ refl assms(5,7), of _ name] ds1(1) assms(3,4)
    by (auto simp: data_set_add_str_var_def name_ok_def MAX_KEY_LEN_def)
  have e: "entries ds' = entries ds @ [(name, v)]"
    using ds'(3) ds1(3) by (simp add: entries_def)
  have f: "List.find P (xs @ [x]) = (case List.find P xs of Some e \<Rightarrow> Some e | None \<Rightarrow> if P x then Some x else None)"
    for P xs and x :: "bytes \<times> bytes"
    by (induction xs) auto
  show ?thesis
    using ds'(1,2,4) e get_val_entries [OF ds'(2), of q]
    by (auto simp: f split: option.splits)
qed

lemma init_vals_ok:
  assumes "\<forall>i. a i \<noteq> None" and "i + n \<le> length ks"
  shows "\<exists>ks'. init_vals a i n ks = (F1G_OK, ks') \<and> length ks' = length ks
    \<and> (\<forall>j < length ks. if i \<le> j \<and> j < i + n then val_len (kval (ks' ! j)) = val_len (kval (ks ! j))
         \<and> val_size (kval (ks' ! j)) = 128 \<and> (\<exists>m. val (kval (ks' ! j)) = Live m \<and> length m = 128)
       else ks' ! j = ks ! j)"
  using assms(2)
proof (induction n arbitrary: i ks)
  case 0
  show ?case by (intro exI [of _ ks] conjI) auto
next
  case (Suc n)
  obtain g where g: "a i = Some g" using assms(1) by auto
  let ?ks = "ks[i := (ks ! i)\<lparr>kval := (kval (ks ! i))\<lparr>val := Live (map g [0..<128]), val_size := KEY_VAL_SIZE\<rparr>\<rparr>]"
  obtain ks' where ks': "init_vals a (i + 1) n ?ks = (F1G_OK, ks')" "length ks' = length ?ks"
      "\<forall>j < length ?ks. if i + 1 \<le> j \<and> j < i + 1 + n then val_len (kval (ks' ! j)) = val_len (kval (?ks ! j))
         \<and> val_size (kval (ks' ! j)) = 128 \<and> (\<exists>m. val (kval (ks' ! j)) = Live m \<and> length m = 128)
       else ks' ! j = ?ks ! j"
    using Suc.IH [of "i + 1" ?ks] Suc.prems by auto
  have "init_vals a i (Suc n) ks = (F1G_OK, ks')"
    using ks'(1) g by (simp add: KEY_VAL_SIZE_def)
  moreover have "if i \<le> j \<and> j < i + Suc n then val_len (kval (ks' ! j)) = val_len (kval (ks ! j))
         \<and> val_size (kval (ks' ! j)) = 128 \<and> (\<exists>m. val (kval (ks' ! j)) = Live m \<and> length m = 128)
       else ks' ! j = ks ! j" if "j < length ks" for j
    using ks'(3) [rule_format, of j] that Suc.prems
    by (cases "j = i") (auto simp: KEY_VAL_SIZE_def split: if_splits)
  ultimately show ?case using ks'(2) by (intro exI [of _ ks']) auto
qed

lemma data_set_init_ok:
  assumes "0 < n" and "\<forall>i. a i \<noteq> None"
  shows "\<exists>ds. data_set_init True a n = (F1G_OK, ds) \<and> ds_wf ds \<and> key_size ds = n \<and> entries ds = []"
proof -
  let ?ks = "replicate (nat n) zero_key"
  obtain ks' where ks': "init_vals a 0 (nat n) ?ks = (F1G_OK, ks')" "length ks' = nat n"
      "\<forall>j < nat n. val_len (kval (ks' ! j)) = 0 \<and> val_size (kval (ks' ! j)) = 128
        \<and> (\<exists>m. val (kval (ks' ! j)) = Live m \<and> length m = 128)"
    using init_vals_ok [OF assms(2), of 0 "nat n" ?ks] by (auto simp: zero_key_def zero_value_def)
  have "\<forall>k\<in>set ks'. value_wf (kval k)"
    using ks'(2,3) by (fastforce simp: value_wf_def in_set_conv_nth)
  then show ?thesis
    using ks' assms(1) by (auto simp: data_set_init_def zalloc_def ds_wf_def entries_def slots_def)
qed

lemma data_set_is_list_witness:
  "\<exists>ds ds'. data_set_init True (\<lambda>i. Some (\<lambda>j. 0)) 1 = (F1G_OK, ds)
    \<and> data_set_add_str_var True (Some (\<lambda>j. 0)) ds (Some (lit ''Interval'')) (lit ''60'') 2 = Inr (F1G_OK, ds')
    \<and> bindR (data_set_get_val ds' (lit ''iN'')) (\<lambda>r. Inr (map_option value_bytes r)) = Inr (Some (lit ''60''))"
proof -
  obtain ds where ds: "data_set_init True (\<lambda>i. Some (\<lambda>j. 0)) 1 = (F1G_OK, ds)" "ds_wf ds" "key_size ds = 1"
      "entries ds = []"
    using data_set_init_ok [of 1 "\<lambda>i. Some (\<lambda>j. 0)"] by auto
  have p: "starts_case (lit ''iN'') (lit ''Interval'')"
    by (simp add: starts_case_def lower_def lit_def chr8_def)
  have l: "0 < length (lit ''Interval'')" "length (lit ''Interval'') \<le> 64" "length (lit ''60'') = 2"
    by (simp_all add: lit_def)
  show ?thesis
    using data_set_is_list [OF ds(2) _ l(1,2), of "Some (\<lambda>j. 0)" "lit ''60''" "lit ''iN''"] ds p l(3) by auto
qed

text \<open>A set created with no slots cannot grow: twice nothing is nothing, and the first variable is
  stored outside the empty array.\<close>

theorem data_set_no_slots_overrun:
  assumes "name_ok (Some name)"
  shows "\<exists>ds. data_set_init True a 0 = (F1G_OK, ds)
    \<and> data_set_add_str_var True b ds (Some name) v n = Inl OutOfBounds"
  using assms
  by (simp add: data_set_init_def zalloc_def data_set_add_str_var_def with_room_def data_set_extent_cap_def
      fill_slot_def name_ok_def)

lemma data_set_no_slots_overrun_witness:
  "\<exists>ds. data_set_init True (\<lambda>_. None) 0 = (F1G_OK, ds)
    \<and> data_set_add_str_var True None ds (Some (lit ''x'')) (lit ''1'') 1 = Inl OutOfBounds"
  using data_set_no_slots_overrun [of "lit ''x''"] by (simp add: name_ok_def MAX_KEY_LEN_def lit_def)

text \<open>A number whose text is exactly as long as the value block is stored without its last character:
  the test for growing leaves out the terminator, and the length recorded counts the lost character.\<close>

theorem data_set_int_exact_fit:
  assumes "ds_wf ds" and "key_num ds < key_size ds" and "name_ok (Some name)"
    and "p_keys ds = Live ks" and "val_size (kval (ks ! nat (key_num ds))) = int (length t)" and "t \<noteq> []"
  shows "\<exists>ds'. data_set_add_int_var ok a ds (Some name) (Some t) = Inr (F1G_OK, ds')
    \<and> entries ds' = entries ds @ [(name, butlast t @ [0])]"
proof -
  let ?i = "nat (key_num ds)"
  have ks: "int (length ks) = key_size ds" "\<forall>k\<in>set ks. value_wf (kval k)" "0 \<le> key_num ds"
    using assms(1,4) by (auto simp: ds_wf_def)
  then have i: "?i < length ks" using assms(2) by linarith
  then have "value_wf (kval (ks ! ?i))" using ks(2) by simp
  then obtain m where m: "val (kval (ks ! ?i)) = Live m" "length m = length t"
    using assms(5,6) by (auto simp: value_wf_def)
  have bl: "take (length t - Suc 0) t = butlast t" "length (butlast t @ [0]) = length t"
    "length t - (length t - Suc 0) = Suc 0"
    using assms(6) by (cases t; simp add: butlast_conv_take)+
  have "data_set_add_int_var ok a ds (Some name) (Some t) = Inr (F1G_OK,
      ds\<lparr>p_keys := Live (ks[?i := (ks ! ?i)\<lparr>key := name, kval := (kval (ks ! ?i))\<lparr>val := Live (butlast t @ [0]),
           val_len := int (length t)\<rparr>\<rparr>]), key_num := key_num ds + 1\<rparr>)"
    using assms(2-6) i m bl
    by (simp add: data_set_add_int_var_def with_room_def fill_slot_def snprintf_val_def Let_def)
  then show ?thesis
    using i assms(4) ks bl(2)
    by (simp add: entries_def slots_def nat_add_distrib take_Suc_conv_app_nth value_bytes_def)
qed

lemma data_set_int_exact_fit_witness:
  "\<exists>ds'. data_set_add_int_var True None
      \<lparr>key_num = 0, key_size = 1, p_keys = Live [\<lparr>key = [], kval = \<lparr>val_size = 2, val_len = 0, val = Live [9, 9]\<rparr>\<rparr>]\<rparr>
      (Some (lit ''n'')) (Some (lit ''42'')) = Inr (F1G_OK, ds')
    \<and> entries ds' = [(lit ''n'', [0x34, 0])]"
proof -
  let ?k = "\<lparr>key = [], kval = \<lparr>val_size = 2, val_len = 0, val = Live [9, 9]\<rparr>\<rparr>"
  let ?ds = "\<lparr>key_num = 0, key_size = 1, p_keys = Live [?k]\<rparr>"
  have "ds_wf ?ds" by (simp add: ds_wf_def value_wf_def)
  from data_set_int_exact_fit [OF this, of "lit ''n''" "[?k]" "lit ''42''" True None] show ?thesis
    by (simp add: name_ok_def MAX_KEY_LEN_def lit_def chr8_def entries_def slots_def)
qed

end
