(* ===== verification/Template.thy ===== *)
theory Template
  imports Data_Set
begin

text \<open>
  The template engine of \<^verbatim>\<open>src/f1g_template.c\<close>: a text with variables written \<open>${name}\<close>
  is cut into nodes, which are then written out with the values of a variable set. A pointer into
  the text of the template is the offset in its buffer. \<^verbatim>\<open>_SINGLE_THREAD_USING\<close> is not defined,
  as in the build.
\<close>

section \<open>Structs\<close>

definition MAX_VAR_LEN :: int where "MAX_VAR_LEN = 64"
definition VAR_FLAG :: u8 where "VAR_FLAG = 0x24"
definition SPLIT_BEG :: u8 where "SPLIT_BEG = 0x7B"
definition SPLIT_END :: u8 where "SPLIT_END = 0x7D"
definition NODE_TYPE_VAR :: int where "NODE_TYPE_VAR = 0"
definition NODE_TYPE_BLK_DATA :: int where "NODE_TYPE_BLK_DATA = 1"

text \<open>\<open>ndata\<close> is the offset of the block data, \<open>None\<close> for \<^verbatim>\<open>NULL\<close>.\<close>

record node_info =
  node_type :: int
  var_name :: bytes
  data_len :: int
  ndata :: "nat option"

record template =
  node_num :: int
  node_size :: int
  p_nodes :: "node_info list ptr"
  tdata_len :: int
  buf_size :: int
  tbuf :: "bytes ptr"

definition zero_node :: node_info where
  "zero_node = \<lparr>node_type = 0, var_name = [], data_len = 0, ndata = None\<rparr>"

definition zero_template :: template where
  "zero_template = \<lparr>node_num = 0, node_size = 0, p_nodes = Null, tdata_len = 0, buf_size = 0, tbuf = Null\<rparr>"

definition f1g_template_init :: "bool \<Rightarrow> int \<Rightarrow> int \<times> template" where
  "f1g_template_init ok n =
     (if n > 0 then
        (case zalloc ok n zero_node of
           Live m \<Rightarrow> (F1G_OK, zero_template\<lparr>node_size := n, p_nodes := Live m\<rparr>)
         | _ \<Rightarrow> (F1G_ERR, zero_template\<lparr>node_size := n\<rparr>))
      else (F1G_OK, zero_template))"

section \<open>Nodes\<close>

definition f1g_template_extent_cap :: "bool \<Rightarrow> template \<Rightarrow> int \<Rightarrow> (int \<times> template) run" where
  "f1g_template_extent_cap ok t ext =
     (case zalloc ok ext zero_node of
        Live m \<Rightarrow>
          bindR (if p_nodes t = Null then Inr m
                 else bindR (deref (p_nodes t)) (\<lambda>old. bindR (slice old 0 (node_num t)) (put m 0)))
            (\<lambda>m'. Inr (F1G_OK, t\<lparr>p_nodes := Live m', node_size := ext\<rparr>))
      | _ \<Rightarrow> Inr (F1G_ERR, t))"

text \<open>\<open>al n\<close> tells whether an allocation of \<open>n\<close> nodes succeeds. A name that is copied has 1 to 64
  bytes; a longer or empty one leaves the field as it was.\<close>

definition f1g_template_add_node ::
  "(int \<Rightarrow> bool) \<Rightarrow> template \<Rightarrow> int \<Rightarrow> bytes \<Rightarrow> nat option \<Rightarrow> int \<Rightarrow> (int \<times> template) run" where
  "f1g_template_add_node al t ty name dat len =
     bindR (if node_num t \<ge> node_size t then f1g_template_extent_cap (al (node_size t * 2)) t (node_size t * 2)
            else Inr (F1G_OK, t)) (\<lambda>(r, t).
       if r \<noteq> F1G_OK then Inr (F1G_ERR, t)
       else bindR (deref (p_nodes t)) (\<lambda>ns.
            bindR (rd ns (nat (node_num t))) (\<lambda>nd.
            let nd' = nd\<lparr>node_type := ty,
                        var_name := (if 0 < length name \<and> int (length name) \<le> MAX_VAR_LEN then name else var_name nd),
                        ndata := dat, data_len := len\<rparr> in
            bindR (wr ns (nat (node_num t)) nd') (\<lambda>ns'.
              Inr (F1G_OK, t\<lparr>p_nodes := Live ns', node_num := node_num t + 1\<rparr>)))))"

section \<open>Parsing\<close>

definition check_syntax_chars :: "u8 \<Rightarrow> bool" where
  "check_syntax_chars ch \<longleftrightarrow>
     (ch \<ge> 0x30 \<and> ch \<le> 0x39) \<or> (ch \<ge> 0x41 \<and> ch \<le> 0x5A) \<or> (ch \<ge> 0x61 \<and> ch \<le> 0x7A)
     \<or> ch \<in> set (lit ''_[]-.*@'')"

text \<open>The state of the scan: the position, the end, the buffer (the escape moves its text down), the
  two tags, \<^verbatim>\<open>p_var_flag\<close> with \<^verbatim>\<open>var_flag_found\<close>, and the flags.\<close>

record scan =
  pb :: nat
  pe :: nat
  sbuf :: bytes
  vtag_b :: "nat option"
  vtag_e :: "nat option"
  var_flag :: "nat option"
  prefix_found :: bool
  var_found :: bool

datatype scan_step = Go scan | Syntax_Err scan

definition skip1 :: "scan \<Rightarrow> scan" where
  "skip1 s = s\<lparr>pb := pb s + 1\<rparr>"

text \<open>One character. Two \<^verbatim>\<open>$\<close> in a row: the second one and what follows it are copied over the
  first with \<^verbatim>\<open>memcpy\<close>, whose regions overlap when more than one byte is copied.\<close>

definition scan_char :: "scan \<Rightarrow> scan_step run" where
  "scan_char s =
     bindR (rd (sbuf s) (pb s)) (\<lambda>c.
       if c = VAR_FLAG then
         (case var_flag s of
            Some f \<Rightarrow>
              if pb s = f + 1 then
                assertR (pe s - pb s \<le> 1) Overlap
                  (bindR (wr (sbuf s) f c) (\<lambda>b.
                     Inr (Go (s\<lparr>sbuf := b, pe := pe s - 1, var_flag := None\<rparr>))))
              else if prefix_found s then Inr (Syntax_Err (s\<lparr>vtag_b := None\<rparr>))
              else Inr (Go (skip1 (s\<lparr>var_flag := Some (pb s)\<rparr>)))
          | None \<Rightarrow> Inr (Go (skip1 (s\<lparr>var_flag := Some (pb s)\<rparr>))))
       else if c = SPLIT_BEG then
         (case var_flag s of
            Some f \<Rightarrow>
              if pb s = f + 1 then Inr (Go (skip1 (s\<lparr>vtag_b := Some (pb s), prefix_found := True\<rparr>)))
              else if prefix_found s then Inr (Syntax_Err s)
              else Inr (Go (skip1 (s\<lparr>var_flag := None\<rparr>)))
          | None \<Rightarrow> Inr (Go (skip1 s)))
       else if c = SPLIT_END then
         (if prefix_found s then
            if vtag_b s = Some (pb s - 1) then Inr (Syntax_Err s)
            else Inr (Go (skip1 (s\<lparr>vtag_e := Some (pb s), var_found := True\<rparr>)))
          else Inr (Go (skip1 s)))
       else if prefix_found s \<and> \<not> check_syntax_chars c then Inr (Syntax_Err s)
       else Inr (Go (skip1 s)))"

definition scan_measure :: "scan \<Rightarrow> nat" where
  "scan_measure s = 2 * (length (sbuf s) - pb s) + (if var_flag s = None then 0 else 1)"

lemma scan_char_measure:
  "scan_char s = Inr (Go s') \<Longrightarrow> scan_measure s' < scan_measure s"
  by (auto simp: scan_char_def scan_measure_def skip1_def bindR_Inr_conv assertR_Inr_conv rd_def wr_def
      split: if_splits option.splits)

text \<open>The loop ends: every round moves on or drops a pending \<^verbatim>\<open>$\<close>, and a scan that passed the end
  would stop with the read out of the buffer.\<close>

function find_variable_loop :: "scan \<Rightarrow> (int \<times> scan) run" where
  "find_variable_loop s =
     (if pb s \<noteq> pe s \<and> \<not> var_found s then
        (case scan_char s of
           Inl e \<Rightarrow> Inl e
         | Inr (Syntax_Err s') \<Rightarrow> Inr (F1G_ERR, s')
         | Inr (Go s') \<Rightarrow> find_variable_loop s')
      else Inr (F1G_OK, s))"
  by pat_completeness auto

termination
  by (relation "measure scan_measure") (auto dest: scan_char_measure)

declare find_variable_loop.simps [simp del]

text \<open>\<^verbatim>\<open>find_variable\<close> from offset \<open>p\<close>; \<open>var_found\<close> of the result stands for \<^verbatim>\<open>RST_FOUND_VAR\<close>.\<close>

definition find_variable :: "bytes \<Rightarrow> nat \<Rightarrow> nat \<Rightarrow> (int \<times> scan) run" where
  "find_variable b p e =
     find_variable_loop \<lparr>pb = p, pe = e, sbuf = b, vtag_b = None, vtag_e = None, var_flag = None,
       prefix_found = False, var_found = False\<rparr>"

text \<open>The scan moves forward: the tag found lies behind the start, and the end never grows.\<close>

lemma scan_char_progress:
  "scan_char s = Inr (Go s') \<Longrightarrow> pb s \<le> pb s' \<and> pe s' \<le> pe s \<and> length (sbuf s') = length (sbuf s)
    \<and> (var_found s' \<longrightarrow> var_found s \<or> vtag_e s' = Some (pb s))"
  by (auto simp: scan_char_def skip1_def bindR_Inr_conv assertR_Inr_conv rd_def wr_def
      split: if_splits option.splits)

lemma scan_loop_progress:
  "find_variable_loop s = Inr (r, s') \<Longrightarrow> \<not> var_found s \<Longrightarrow> pe s' \<le> pe s \<and> length (sbuf s') = length (sbuf s)
    \<and> (r = F1G_OK \<longrightarrow> var_found s' \<longrightarrow> (\<exists>e. vtag_e s' = Some e \<and> pb s \<le> e))"
proof (induction s arbitrary: r s' rule: find_variable_loop.induct)
  case (1 s)
  show ?case
  proof (cases "pb s \<noteq> pe s")
    case False
    then show ?thesis using 1(2,3) by (simp add: find_variable_loop.simps)
  next
    case run: True
    show ?thesis
    proof (cases "scan_char s")
      case (Inl e)
      then show ?thesis using 1(2,3) run by (simp add: find_variable_loop.simps)
    next
      case (Inr st)
      show ?thesis
      proof (cases st)
        case (Syntax_Err s1)
        then have "pe s1 \<le> pe s" "length (sbuf s1) = length (sbuf s)" "s' = s1" "r = F1G_ERR"
          using Inr 1(2,3) run
          by (auto simp: find_variable_loop.simps [of s])
            (auto simp: scan_char_def skip1_def bindR_Inr_conv assertR_Inr_conv rd_def wr_def split: if_splits option.splits)
        then show ?thesis by simp
      next
        case (Go s1)
        note p = scan_char_progress [OF Inr [unfolded Go]]
        have l: "find_variable_loop s1 = Inr (r, s')"
          using Inr Go 1(2,3) run by (simp add: find_variable_loop.simps [of s])
        show ?thesis
        proof (cases "var_found s1")
          case True
          then have "s' = s1" using l by (simp add: find_variable_loop.simps)
          then show ?thesis using p 1(3) by auto
        next
          case False
          then show ?thesis using 1(1) [OF _ Inr Go l] p 1(3) run by fastforce
        qed
      qed
    qed
  qed
qed

lemma find_variable_progress:
  "find_variable b p e = Inr (r, s') \<Longrightarrow> pe s' \<le> e \<and> length (sbuf s') = length b
    \<and> (r = F1G_OK \<longrightarrow> var_found s' \<longrightarrow> (\<exists>k. vtag_e s' = Some k \<and> p \<le> k))"
  unfolding find_variable_def by (drule scan_loop_progress) simp_all

definition tags :: "scan \<Rightarrow> nat \<times> nat" where
  "tags s = (if var_found s then (the (vtag_b s), the (vtag_e s)) else (pe s, pe s))"

text \<open>The loop of \<^verbatim>\<open>f1g_template_parse\<close> from offset \<open>p\<close> to \<open>e\<close>.\<close>

function parse_loop :: "(int \<Rightarrow> bool) \<Rightarrow> template \<Rightarrow> bytes \<Rightarrow> nat \<Rightarrow> nat \<Rightarrow> (int \<times> template) run" where
  "parse_loop al t b p e =
     (if p < e then
        bindR (find_variable b p e) (\<lambda>(r, s).
          let t0 = t\<lparr>tbuf := Live (sbuf s)\<rparr>; tag_b = fst (tags s); tag_e = snd (tags s) in
          if r \<noteq> F1G_OK then Inr (F1G_ERR, t0)
          else
            bindR (if int tag_b - int p - 1 > 0
                   then f1g_template_add_node al t0 NODE_TYPE_BLK_DATA [] (Some p) (int tag_b - int p - 1)
                   else Inr (F1G_OK, t0)) (\<lambda>(r1, t1).
              if r1 \<noteq> F1G_OK then Inr (F1G_ERR, t1)
              else
                bindR (if \<not> var_found s then Inr (F1G_OK, t1)
                       else if int tag_e - int tag_b - 1 > MAX_VAR_LEN then Inr (F1G_ERR, t1)
                       else f1g_template_add_node al t1 NODE_TYPE_VAR
                              (take (tag_e - tag_b - 1) (drop (tag_b + 1) (sbuf s))) None 0) (\<lambda>(r2, t2).
                  if r2 \<noteq> F1G_OK then Inr (F1G_ERR, t2)
                  else parse_loop al t2 (sbuf s) (tag_e + 1) (pe s))))
      else Inr (F1G_OK, t))"
  by pat_completeness auto
termination
proof (relation "measure (\<lambda>(al, t, b, p, e). e - p)", simp)
  fix al :: "int \<Rightarrow> bool" and t b p e x r s t0 tag_b tag_e y r1 t1 z r2 t2
  assume p: "(p :: nat) < e" and f: "find_variable b p e = Inr x" "(r, s) = x" and te: "tag_e = snd (tags s)"
    and r: "\<not> r \<noteq> F1G_OK"
  have "pe s \<le> e" "var_found s \<Longrightarrow> \<exists>k. vtag_e s = Some k \<and> p \<le> k"
    using find_variable_progress [of b p e r s] f r by auto
  then show "((al, t2, sbuf s, tag_e + 1, pe s), al, t, b, p, e) \<in> measure (\<lambda>(al, t, b, p, e). e - p)"
    using p te by (auto simp: tags_def)
qed

declare parse_loop.simps [simp del]

text \<open>\<open>file\<close> is the file when it can be opened, \<open>st\<close> tells whether \<^verbatim>\<open>fstat\<close> succeeds, \<open>n\<close> is the
  result of \<^verbatim>\<open>read\<close> and \<open>mem\<close> the outcome of the allocation of the buffer.\<close>

definition f1g_template_parse ::
  "(int \<Rightarrow> bool) \<Rightarrow> bool \<Rightarrow> template \<Rightarrow> bytes option \<Rightarrow> bool \<Rightarrow> int \<Rightarrow> (int \<times> template) run" where
  "f1g_template_parse al mem t file st n =
     (case file of
        None \<Rightarrow> Inr (F1G_ERR, t)
      | Some c \<Rightarrow>
          if \<not> st then Inr (F1G_ERR, t)
          else if length c = 0 then Inr (F1G_ERR, t)
          else if \<not> mem then Inr (F1G_ERR, t\<lparr>tbuf := Null\<rparr>)
          else if n \<noteq> int (length c) then Inr (F1G_ERR, t\<lparr>tbuf := Null\<rparr>)
          else parse_loop al (t\<lparr>tbuf := Live c, tdata_len := int (length c), buf_size := int (length c)\<rparr>)
                 c 0 (length c))"

section \<open>Execution\<close>

text \<open>What a node adds to the output, \<open>None\<close> where it is longer than the room that remains. A copy
  of no bytes touches no block.\<close>

definition node_piece :: "template \<Rightarrow> data_set \<Rightarrow> int \<Rightarrow> node_info \<Rightarrow> bytes option run" where
  "node_piece t ds remain nd =
     (if node_type nd = NODE_TYPE_VAR then
        bindR (data_set_get_val ds (var_name nd)) (\<lambda>v.
          case v of
            None \<Rightarrow> Inr (Some [])
          | Some v \<Rightarrow>
              if remain < val_len v then Inr None
              else if val_len v = 0 then Inr (Some [])
              else bindR (deref (val v)) (\<lambda>m. bindR (slice m 0 (val_len v)) (\<lambda>xs. Inr (Some xs))))
      else if node_type nd = NODE_TYPE_BLK_DATA then
        if remain < data_len nd then Inr None
        else (case ndata nd of
                None \<Rightarrow> Inl NullDeref
              | Some p \<Rightarrow> bindR (deref (tbuf t)) (\<lambda>b. bindR (slice b p (data_len nd)) (\<lambda>xs. Inr (Some xs))))
      else Inr (Some []))"

function exec_loop :: "template \<Rightarrow> node_info list \<Rightarrow> data_set \<Rightarrow> value_t \<Rightarrow> int \<Rightarrow> nat \<Rightarrow> (int \<times> value_t) run" where
  "exec_loop t ns ds out used i =
     (if int i < node_num t then
        bindR (rd ns i) (\<lambda>nd.
        bindR (node_piece t ds (val_size out - used) nd) (\<lambda>piece.
          case piece of
            None \<Rightarrow> Inr (F1G_ERR, out)
          | Some xs \<Rightarrow>
              bindR (if xs = [] then Inr out
                     else bindR (deref (val out)) (\<lambda>m. bindR (put m (nat used) xs) (\<lambda>m'. Inr (out\<lparr>val := Live m'\<rparr>)))) (\<lambda>out'.
                exec_loop t ns ds out' (used + int (length xs)) (Suc i))))
      else Inr (F1G_OK, out\<lparr>val_len := used\<rparr>))"
  by pat_completeness auto
termination
  by (relation "measure (\<lambda>(t, ns, ds, out, used, i). nat (node_num t - int i))") auto

declare exec_loop.simps [simp del]

definition f1g_template_exec :: "template \<Rightarrow> value_t \<Rightarrow> data_set \<Rightarrow> (int \<times> value_t) run" where
  "f1g_template_exec t out ds =
     (if node_num t \<le> 0 then Inr (F1G_OK, out\<lparr>val_len := 0\<rparr>)
      else bindR (deref (p_nodes t)) (\<lambda>ns. exec_loop t ns ds out 0 0))"

definition f1g_template_destroy :: "template \<Rightarrow> (int \<times> template) run" where
  "f1g_template_destroy t =
     (let rest = (if tbuf t \<noteq> Null \<and> buf_size t > 0 then freeR (tbuf t) (Inr (F1G_OK, zero_template))
                  else Inr (F1G_OK, zero_template)) in
      if p_nodes t \<noteq> Null \<and> node_size t > 0 then freeR (p_nodes t) rest else rest)"

section \<open>Scanning\<close>

lemma scan_go:
  "pb s \<noteq> pe s \<Longrightarrow> \<not> var_found s \<Longrightarrow> scan_char s = Inr (Go s') \<Longrightarrow>
   find_variable_loop s = find_variable_loop s'"
  by (subst find_variable_loop.simps) simp

text \<open>A run of characters that are skipped one by one.\<close>

lemma scan_skip:
  assumes "\<forall>i < k. scan_char (s\<lparr>pb := pb s + i\<rparr>) = Inr (Go (s\<lparr>pb := pb s + i + 1\<rparr>))"
    and "pb s + k \<le> pe s" and "\<not> var_found s"
  shows "find_variable_loop s = find_variable_loop (s\<lparr>pb := pb s + k\<rparr>)"
  using assms
proof (induction k)
  case (Suc k)
  have "find_variable_loop s = find_variable_loop (s\<lparr>pb := pb s + k\<rparr>)"
    using Suc by simp
  also have "\<dots> = find_variable_loop (s\<lparr>pb := pb s + Suc k\<rparr>)"
    using Suc.prems by (intro scan_go) simp_all
  finally show ?case .
qed simp

lemma scan_text:
  assumes "sbuf s = a @ xs @ z" and "pb s = length a" and "VAR_FLAG \<notin> set xs"
    and "length a + length xs \<le> pe s" and "\<not> var_found s" and "var_flag s = None" and "\<not> prefix_found s"
  shows "find_variable_loop s = find_variable_loop (s\<lparr>pb := length a + length xs\<rparr>)"
proof -
  have "scan_char (s\<lparr>pb := pb s + i\<rparr>) = Inr (Go (s\<lparr>pb := pb s + i + 1\<rparr>))" if "i < length xs" for i
  proof -
    have "xs ! i \<noteq> VAR_FLAG" using assms(3) that nth_mem by metis
    then show ?thesis
      using assms that by (simp add: scan_char_def skip1_def nth_append)
  qed
  then show ?thesis using scan_skip [of "length xs" s] assms(2,4,5) by simp
qed

lemma name_chars:
  assumes "check_syntax_chars c"
  shows "c \<noteq> VAR_FLAG" and "c \<noteq> SPLIT_BEG" and "c \<noteq> SPLIT_END"
  using assms by (auto simp: check_syntax_chars_def VAR_FLAG_def SPLIT_BEG_def SPLIT_END_def lit_def chr8_def)

lemma scan_name:
  assumes "sbuf s = a @ xs @ z" and "pb s = length a" and "\<forall>c\<in>set xs. check_syntax_chars c"
    and "length a + length xs \<le> pe s" and "\<not> var_found s"
  shows "find_variable_loop s = find_variable_loop (s\<lparr>pb := length a + length xs\<rparr>)"
proof -
  have "scan_char (s\<lparr>pb := pb s + i\<rparr>) = Inr (Go (s\<lparr>pb := pb s + i + 1\<rparr>))" if "i < length xs" for i
  proof -
    have "check_syntax_chars (xs ! i)" using assms(3) that by simp
    then show ?thesis
      using assms that name_chars [of "xs ! i"] by (simp add: scan_char_def skip1_def nth_append)
  qed
  then show ?thesis using scan_skip [of "length xs" s] assms(2,4,5) by simp
qed

abbreviation tagged :: "bytes \<Rightarrow> bytes" where
  "tagged v \<equiv> VAR_FLAG # SPLIT_BEG # v @ [SPLIT_END]"

lemma find_variable_found:
  assumes "b = a @ xs @ tagged v @ z" and "VAR_FLAG \<notin> set xs" and "\<forall>c\<in>set v. check_syntax_chars c" and "v \<noteq> []"
    and "e = length b"
  shows "\<exists>s. find_variable b (length a) e = Inr (F1G_OK, s) \<and> var_found s \<and> sbuf s = b \<and> pe s = e
    \<and> vtag_b s = Some (length a + length xs + 1) \<and> vtag_e s = Some (length a + length xs + 2 + length v)"
proof -
  let ?p = "length a + length xs"
  define s0 where "s0 = \<lparr>pb = length a, pe = e, sbuf = b, vtag_b = None, vtag_e = None, var_flag = None,
    prefix_found = False, var_found = False\<rparr>"
  define s3 where "s3 = s0\<lparr>pb := ?p + 2, var_flag := Some ?p, vtag_b := Some (?p + 1), prefix_found := True\<rparr>"
  have d: "VAR_FLAG \<noteq> SPLIT_BEG" "SPLIT_BEG \<noteq> VAR_FLAG" "SPLIT_END \<noteq> VAR_FLAG" "SPLIT_END \<noteq> SPLIT_BEG"
    by (simp_all add: VAR_FLAG_def SPLIT_BEG_def SPLIT_END_def)
  have l: "length b = ?p + 3 + length v + length z" using assms(1) by simp
  have n: "b ! ?p = VAR_FLAG" "b ! (?p + 1) = SPLIT_BEG" "b ! (?p + 2 + length v) = SPLIT_END"
    by (simp_all add: assms(1) nth_append)
  have "find_variable b (length a) e = find_variable_loop s0"
    by (simp add: find_variable_def s0_def)
  also have "\<dots> = find_variable_loop (s0\<lparr>pb := ?p\<rparr>)"
    using assms l by (intro scan_text [where z = "tagged v @ z"]) (simp_all add: s0_def)
  also have "\<dots> = find_variable_loop (s0\<lparr>pb := ?p + 1, var_flag := Some ?p\<rparr>)"
    using n l assms(5) by (intro scan_go) (simp_all add: s0_def scan_char_def skip1_def)
  also have "\<dots> = find_variable_loop s3"
    using n l assms(5) d by (intro scan_go) (simp_all add: s0_def s3_def scan_char_def skip1_def)
  also have "\<dots> = find_variable_loop (s3\<lparr>pb := length (a @ xs @ [VAR_FLAG, SPLIT_BEG]) + length v\<rparr>)"
    using assms l by (intro scan_name [where z = "SPLIT_END # z"]) (simp_all add: s3_def s0_def)
  also have "\<dots> = find_variable_loop (s3\<lparr>pb := ?p + 3 + length v, vtag_e := Some (?p + 2 + length v), var_found := True\<rparr>)"
    using n l assms(4,5) d by (intro scan_go) (auto simp: s0_def s3_def scan_char_def skip1_def add.commute)
  also have "\<dots> = Inr (F1G_OK, s3\<lparr>pb := ?p + 3 + length v, vtag_e := Some (?p + 2 + length v), var_found := True\<rparr>)"
    by (simp add: find_variable_loop.simps)
  finally show ?thesis by (simp add: s3_def s0_def)
qed

lemma find_variable_none:
  assumes "b = a @ xs" and "VAR_FLAG \<notin> set xs" and "e = length b"
  shows "\<exists>s. find_variable b (length a) e = Inr (F1G_OK, s) \<and> \<not> var_found s \<and> sbuf s = b \<and> pe s = e"
proof -
  define s0 where "s0 = \<lparr>pb = length a, pe = e, sbuf = b, vtag_b = None, vtag_e = None, var_flag = None,
    prefix_found = False, var_found = False\<rparr>"
  have "find_variable b (length a) e = find_variable_loop s0"
    by (simp add: find_variable_def s0_def)
  also have "\<dots> = find_variable_loop (s0\<lparr>pb := length a + length xs\<rparr>)"
    using assms by (intro scan_text [where z = "[]"]) (simp_all add: s0_def)
  also have "\<dots> = Inr (F1G_OK, s0\<lparr>pb := length a + length xs\<rparr>)"
    using assms by (simp add: find_variable_loop.simps s0_def)
  finally show ?thesis by (simp add: s0_def)
qed

section \<open>Nodes of a well-formed template\<close>

definition nodes :: "template \<Rightarrow> node_info list" where
  "nodes t = (case p_nodes t of Live ns \<Rightarrow> take (nat (node_num t)) ns | _ \<Rightarrow> [])"

text \<open>The slots behind the nodes are still zero.\<close>

definition tpl_wf :: "template \<Rightarrow> bool" where
  "tpl_wf t \<longleftrightarrow> 0 \<le> node_num t \<and> node_num t \<le> node_size t \<and> 0 < node_size t
     \<and> (\<exists>ns. p_nodes t = Live ns \<and> int (length ns) = node_size t
          \<and> drop (nat (node_num t)) ns = replicate (nat (node_size t - node_num t)) zero_node)"

lemma tpl_extent_ok:
  assumes "tpl_wf t" and "node_size t < n"
  shows "\<exists>ns. f1g_template_extent_cap True t n = Inr (F1G_OK, t\<lparr>p_nodes := Live ns, node_size := n\<rparr>)
    \<and> tpl_wf (t\<lparr>p_nodes := Live ns, node_size := n\<rparr>) \<and> nodes (t\<lparr>p_nodes := Live ns, node_size := n\<rparr>) = nodes t"
proof -
  obtain ns where ns: "p_nodes t = Live ns" "int (length ns) = node_size t" "0 \<le> node_num t" "node_num t \<le> node_size t"
    using assms(1) by (auto simp: tpl_wf_def)
  let ?k = "nat (node_num t)"
  let ?m = "take ?k ns @ replicate (nat (n - node_num t)) zero_node"
  have k: "?k \<le> length ns" "nat n - ?k = nat (n - node_num t)" "?k \<le> nat n" using ns assms(2) by auto
  have "f1g_template_extent_cap True t n = Inr (F1G_OK, t\<lparr>p_nodes := Live ?m, node_size := n\<rparr>)"
    using ns assms(2) k by (simp add: f1g_template_extent_cap_def zalloc_def)
  then show ?thesis
    using ns assms(2) k by (auto simp: tpl_wf_def nodes_def)
qed

interpretation tg: growable "f1g_template_extent_cap True" nodes node_size tpl_wf
proof
  fix s n
  assume "tpl_wf s" "node_size s < n"
  then show "\<exists>s'. f1g_template_extent_cap True s n = Inr (F1G_OK, s') \<and> tpl_wf s' \<and> nodes s' = nodes s \<and> node_size s' = n"
    using tpl_extent_ok [of s n] by auto
qed

lemma add_node_room:
  assumes "tpl_wf t" and "node_num t < node_size t" and "name = [] \<or> int (length name) \<le> MAX_VAR_LEN"
  shows "\<exists>t'. f1g_template_add_node al t ty name dat len = Inr (F1G_OK, t') \<and> tpl_wf t' \<and> tbuf t' = tbuf t
    \<and> nodes t' = nodes t @ [\<lparr>node_type = ty, var_name = name, data_len = len, ndata = dat\<rparr>]"
proof -
  obtain ns where ns: "p_nodes t = Live ns" "int (length ns) = node_size t" "0 \<le> node_num t"
      "drop (nat (node_num t)) ns = replicate (nat (node_size t - node_num t)) zero_node"
    using assms(1) by (auto simp: tpl_wf_def)
  let ?k = "nat (node_num t)"
  have k: "?k < length ns" using ns assms(2) by linarith
  have "drop ?k ns ! 0 = zero_node" unfolding ns(4) using assms(2) by simp
  then have z: "ns ! ?k = zero_node" using k by simp
  let ?nd = "\<lparr>node_type = ty, var_name = name, data_len = len, ndata = dat\<rparr>"
  let ?t = "t\<lparr>p_nodes := Live (ns[?k := ?nd]), node_num := node_num t + 1\<rparr>"
  have "f1g_template_add_node al t ty name dat len = Inr (F1G_OK, ?t)"
    using assms(2,3) ns k z
    by (auto simp: f1g_template_add_node_def Let_def zero_node_def MAX_VAR_LEN_def)
  moreover have "drop (Suc ?k) ns = replicate (nat (node_size t - node_num t - 1)) zero_node"
  proof -
    have "drop (Suc ?k) ns = drop 1 (drop ?k ns)" by simp
    also have "\<dots> = replicate (nat (node_size t - node_num t) - 1) zero_node" unfolding ns(4) by simp
    finally show ?thesis by (simp add: nat_diff_distrib)
  qed
  then have "tpl_wf ?t"
    using ns assms(2) k by (simp add: tpl_wf_def nat_add_distrib algebra_simps)
  moreover have "nodes ?t = nodes t @ [?nd]"
    using ns k by (simp add: nodes_def nat_add_distrib take_Suc_conv_app_nth)
  ultimately show ?thesis by auto
qed

lemma add_node_ok:
  assumes "tpl_wf t" and "name = [] \<or> int (length name) \<le> MAX_VAR_LEN"
  shows "\<exists>t'. f1g_template_add_node (\<lambda>_. True) t ty name dat len = Inr (F1G_OK, t') \<and> tpl_wf t' \<and> tbuf t' = tbuf t
    \<and> nodes t' = nodes t @ [\<lparr>node_type = ty, var_name = name, data_len = len, ndata = dat\<rparr>]"
proof (cases "node_num t < node_size t")
  case True
  then show ?thesis using add_node_room assms by blast
next
  case False
  have n: "0 < node_size t" "node_num t = node_size t" using assms(1) False by (auto simp: tpl_wf_def)
  obtain ns where ns: "f1g_template_extent_cap True t (node_size t * 2)
        = Inr (F1G_OK, t\<lparr>p_nodes := Live ns, node_size := node_size t * 2\<rparr>)"
      "tpl_wf (t\<lparr>p_nodes := Live ns, node_size := node_size t * 2\<rparr>)"
      "nodes (t\<lparr>p_nodes := Live ns, node_size := node_size t * 2\<rparr>) = nodes t"
    using tpl_extent_ok [OF assms(1), of "node_size t * 2"] n by auto
  let ?t = "t\<lparr>p_nodes := Live ns, node_size := node_size t * 2\<rparr>"
  have "f1g_template_add_node (\<lambda>_. True) t ty name dat len = f1g_template_add_node (\<lambda>_. True) ?t ty name dat len"
    using ns(1) n by (simp add: f1g_template_add_node_def)
  then show ?thesis
    using add_node_room [OF ns(2) _ assms(2), of "\<lambda>_. True" ty dat len] n ns(3) by simp
qed

section \<open>Parsing a rendered template\<close>

text \<open>A template text: pieces of plain text, each followed by a variable, and a closing text.\<close>

definition render :: "(bytes \<times> bytes) list \<Rightarrow> bytes" where
  "render segs = concat (map (\<lambda>(t, v). t @ tagged v) segs)"

definition seg_ok :: "bytes \<times> bytes \<Rightarrow> bool" where
  "seg_ok s \<longleftrightarrow> VAR_FLAG \<notin> set (fst s) \<and> snd s \<noteq> [] \<and> int (length (snd s)) \<le> MAX_VAR_LEN
     \<and> (\<forall>c\<in>set (snd s). check_syntax_chars c)"

definition blk :: "nat \<Rightarrow> nat \<Rightarrow> node_info" where
  "blk p n = \<lparr>node_type = NODE_TYPE_BLK_DATA, var_name = [], data_len = int n, ndata = Some p\<rparr>"

definition vnode :: "bytes \<Rightarrow> node_info" where
  "vnode v = \<lparr>node_type = NODE_TYPE_VAR, var_name = v, data_len = 0, ndata = None\<rparr>"

fun seg_nodes :: "nat \<Rightarrow> (bytes \<times> bytes) list \<Rightarrow> bytes \<Rightarrow> node_info list" where
  "seg_nodes p [] tail = (if length tail > 1 then [blk p (length tail - 1)] else [])"
| "seg_nodes p ((t, v) # segs) tail =
     (if t = [] then [] else [blk p (length t)]) @ vnode v # seg_nodes (p + length t + 3 + length v) segs tail"

lemma parse_tail:
  assumes "tpl_wf t" and "tbuf t = Live b" and "b = a @ tail" and "VAR_FLAG \<notin> set tail"
  shows "\<exists>t'. parse_loop (\<lambda>_. True) t b (length a) (length b) = Inr (F1G_OK, t') \<and> tpl_wf t'
    \<and> tbuf t' = Live b \<and> nodes t' = nodes t @ seg_nodes (length a) [] tail"
proof (cases "tail = []")
  case True
  then show ?thesis using assms by (simp add: parse_loop.simps)
next
  case False
  then have lt: "length a < length b" using assms(3) by simp
  obtain s where s: "find_variable b (length a) (length b) = Inr (F1G_OK, s)" "\<not> var_found s" "sbuf s = b"
      "pe s = length b"
    using find_variable_none [OF assms(3,4) refl] by blast
  let ?t = "t\<lparr>tbuf := Live b\<rparr>"
  have tt: "?t = t" using assms(2) by simp
  have n: "int (length b) - int (length a) - 1 = int (length tail) - 1" using assms(3) by simp
  show ?thesis
  proof (cases "length tail > 1")
    case True
    obtain t' where t': "f1g_template_add_node (\<lambda>_. True) t NODE_TYPE_BLK_DATA [] (Some (length a)) (int (length tail) - 1)
          = Inr (F1G_OK, t')" "tpl_wf t'" "tbuf t' = tbuf t"
          "nodes t' = nodes t @ [\<lparr>node_type = NODE_TYPE_BLK_DATA, var_name = [], data_len = int (length tail) - 1,
             ndata = Some (length a)\<rparr>]"
      using add_node_ok [OF assms(1), of "[]"] by blast
    have "parse_loop (\<lambda>_. True) t b (length a) (length b) = Inr (F1G_OK, t')"
      using lt s n t'(1) tt True
      by (simp add: parse_loop.simps [of _ t] tags_def Let_def) (simp add: parse_loop.simps)
    then show ?thesis using t' True assms(2) by (simp add: blk_def of_nat_diff)
  next
    case one: False
    then have "parse_loop (\<lambda>_. True) t b (length a) (length b) = Inr (F1G_OK, t)"
      using lt s n tt
      by (simp add: parse_loop.simps [of _ t] tags_def Let_def)
    then show ?thesis using assms one by simp
  qed
qed

lemma parse_rendered:
  assumes "\<forall>s\<in>set segs. seg_ok s" and "tpl_wf t" and "tbuf t = Live b" and "b = a @ render segs @ tail"
    and "VAR_FLAG \<notin> set tail"
  shows "\<exists>t'. parse_loop (\<lambda>_. True) t b (length a) (length b) = Inr (F1G_OK, t') \<and> tpl_wf t'
    \<and> tbuf t' = Live b \<and> nodes t' = nodes t @ seg_nodes (length a) segs tail"
  using assms
proof (induction segs arbitrary: a t)
  case Nil
  then show ?case using parse_tail [of t b a tail] by (simp add: render_def)
next
  case (Cons seg segs)
  obtain x v where seg: "seg = (x, v)" by (cases seg)
  have ok: "VAR_FLAG \<notin> set x" "v \<noteq> []" "int (length v) \<le> MAX_VAR_LEN" "\<forall>c\<in>set v. check_syntax_chars c"
    using Cons.prems(1) by (auto simp: seg seg_ok_def)
  have b: "b = a @ x @ tagged v @ (render segs @ tail)"
    using Cons.prems(4) by (simp add: render_def seg)
  let ?p = "length a + length x"
  obtain s where s: "find_variable b (length a) (length b) = Inr (F1G_OK, s)" "var_found s" "sbuf s = b"
      "pe s = length b" "vtag_b s = Some (?p + 1)" "vtag_e s = Some (?p + 2 + length v)"
    using find_variable_found [OF b ok(1,4,2) refl] by blast
  have nm: "take (length v) (drop (?p + 2) b) = v" by (simp add: b)
  have lt: "length a < length b" by (simp add: b)
  have tt: "t\<lparr>tbuf := Live b\<rparr> = t" using Cons.prems(3) by simp
  obtain t1 where t1: "(if x = [] then Inr (F1G_OK, t)
        else f1g_template_add_node (\<lambda>_. True) t NODE_TYPE_BLK_DATA [] (Some (length a)) (int (length x))) = Inr (F1G_OK, t1)"
      "tpl_wf t1" "tbuf t1 = Live b" "nodes t1 = nodes t @ (if x = [] then [] else [blk (length a) (length x)])"
    using add_node_ok [OF Cons.prems(2), of "[]" NODE_TYPE_BLK_DATA "Some (length a)" "int (length x)"] Cons.prems(2,3)
    by (cases "x = []") (auto simp: blk_def)
  obtain t2 where t2: "f1g_template_add_node (\<lambda>_. True) t1 NODE_TYPE_VAR v None 0 = Inr (F1G_OK, t2)"
      "tpl_wf t2" "tbuf t2 = Live b" "nodes t2 = nodes t1 @ [vnode v]"
    using add_node_ok [OF t1(2), of v NODE_TYPE_VAR None 0] ok(3) t1(3) by (auto simp: vnode_def)
  have g: "tags s = (?p + 1, ?p + 2 + length v)" using s(2,5,6) by (simp add: tags_def)
  have i: "int (?p + 1) - int (length a) - 1 = int (length x)" "(0 < int (length x)) = (x \<noteq> [])"
    "int (?p + 2 + length v) - int (?p + 1) - 1 = int (length v)"
    "?p + 2 + length v - (?p + 1) - 1 = length v" "?p + 1 + 1 = ?p + 2" by simp_all
  have "parse_loop (\<lambda>_. True) t b (length a) (length b)
      = parse_loop (\<lambda>_. True) t2 b (?p + 2 + length v + 1) (length b)"
    using lt s(1-4) g tt t1(1) t2(1) nm ok(3)
    by (subst parse_loop.simps) (simp add: Let_def i split: if_splits)
  also have "?p + 2 + length v + 1 = length (a @ x @ tagged v)" by simp
  finally have step: "parse_loop (\<lambda>_. True) t b (length a) (length b)
      = parse_loop (\<lambda>_. True) t2 b (length (a @ x @ tagged v)) (length b)" .
  have "\<exists>t'. parse_loop (\<lambda>_. True) t2 b (length (a @ x @ tagged v)) (length b) = Inr (F1G_OK, t') \<and> tpl_wf t'
    \<and> tbuf t' = Live b \<and> nodes t' = nodes t2 @ seg_nodes (length (a @ x @ tagged v)) segs tail"
    using Cons.prems b t2 by (intro Cons.IH) auto
  then show ?case
    using step t1(4) t2(4) by (auto simp: seg algebra_simps numeral_3_eq_3)
qed

section \<open>Executing nodes\<close>

text \<open>What a node stands for in the output.\<close>

definition node_text :: "bytes \<Rightarrow> data_set \<Rightarrow> node_info \<Rightarrow> bytes" where
  "node_text b ds nd =
     (if node_type nd = NODE_TYPE_VAR then (case lookup ds (var_name nd) of None \<Rightarrow> [] | Some x \<Rightarrow> x)
      else if node_type nd = NODE_TYPE_BLK_DATA then take (nat (data_len nd)) (drop (the (ndata nd)) b)
      else [])"

definition node_ok :: "bytes \<Rightarrow> node_info \<Rightarrow> bool" where
  "node_ok b nd \<longleftrightarrow> (node_type nd = NODE_TYPE_BLK_DATA \<longrightarrow>
     0 \<le> data_len nd \<and> (\<exists>p. ndata nd = Some p \<and> p + nat (data_len nd) \<le> length b))"

lemma node_piece_text:
  assumes "ds_wf ds" and "node_ok b nd" and "tbuf t = Live b" and "0 \<le> r"
  shows "node_piece t ds r nd
    = Inr (if r < int (length (node_text b ds nd)) then None else Some (node_text b ds nd))"
proof (cases "node_type nd = NODE_TYPE_VAR")
  case True
  obtain q where q: "data_set_get_val ds (var_name nd) = Inr q" "map_option value_bytes q = lookup ds (var_name nd)"
      "\<forall>v. q = Some v \<longrightarrow> value_wf v"
    using get_val_lookup [OF assms(1)] by blast
  show ?thesis
  proof (cases q)
    case None
    then have "node_text b ds nd = []" using q(2) True by (simp add: node_text_def)
    then show ?thesis using True q(1) None assms(4) by (simp add: node_piece_def)
  next
    case (Some v)
    then have v: "value_wf v" "node_text b ds nd = value_bytes v"
      using q(3) q(2) [symmetric] True by (simp_all add: node_text_def)
    have l: "int (length (value_bytes v)) = val_len v" by (rule length_value_bytes [OF v(1)])
    show ?thesis
    proof (cases "val_len v = 0")
      case len0: True
      then show ?thesis using True q(1) Some v(2) l assms(4) by (simp add: node_piece_def)
    next
      case False
      then obtain m where m: "val v = Live m" "val_len v \<le> int (length m)" "0 \<le> val_len v"
        using v(1) by (auto simp: value_wf_def split: if_splits)
      then have "slice m 0 (val_len v) = Inr (take (nat (val_len v)) m)"
        by (simp add: slice_def nat_le_iff)
      then show ?thesis
        using True q(1) Some v(2) l False m(1) assms(4) by (simp add: node_piece_def value_bytes_def)
    qed
  qed
next
  case False
  have "NODE_TYPE_BLK_DATA \<noteq> NODE_TYPE_VAR" by (simp add: NODE_TYPE_BLK_DATA_def NODE_TYPE_VAR_def)
  moreover obtain p where "0 \<le> data_len nd" "ndata nd = Some p" "p + nat (data_len nd) \<le> length b"
    if "node_type nd = NODE_TYPE_BLK_DATA"
    using assms(2) by (auto simp: node_ok_def)
  ultimately show ?thesis
    using False assms(3,4) by (cases "node_type nd = NODE_TYPE_BLK_DATA") (simp_all add: node_piece_def node_text_def)
qed

lemma exec_loop_text:
  assumes "ds_wf ds" and "tbuf t = Live b" and "int (length ns) \<ge> node_num t" and "0 \<le> node_num t"
    and "k \<le> nat (node_num t)" and "rest = drop k (take (nat (node_num t)) ns)" and "\<forall>nd\<in>set rest. node_ok b nd"
    and "val out = Live m" and "int (length m) = val_size out" and "u \<le> length m"
  defines "x \<equiv> concat (map (node_text b ds) rest)"
  shows "if u + length x \<le> length m
    then exec_loop t ns ds out (int u) k
      = Inr (F1G_OK, out\<lparr>val := Live (take u m @ x @ drop (u + length x) m), val_len := int (u + length x)\<rparr>)
    else \<exists>out'. exec_loop t ns ds out (int u) k = Inr (F1G_ERR, out')"
  using assms(5-10) unfolding x_def
proof (induction rest arbitrary: k out m u)
  case Nil
  then have "k = nat (node_num t)" using assms(3,4) by simp
  then show ?case using Nil assms(4) by (cases out) (simp add: exec_loop.simps)
next
  case (Cons nd rest)
  have kl: "k < nat (node_num t)"
    using Cons.prems(2) by (cases "k < nat (node_num t)") simp_all
  then have k: "k < length ns" "int k < node_num t" using assms(3,4) by linarith+
  then have "drop k (take (nat (node_num t)) ns) = ns ! k # drop (Suc k) (take (nat (node_num t)) ns)"
    using kl by (simp add: Cons_nth_drop_Suc [symmetric])
  then have nd: "ns ! k = nd" "rest = drop (Suc k) (take (nat (node_num t)) ns)"
    using Cons.prems(2) by simp_all
  let ?x = "node_text b ds nd"
  have r: "0 \<le> val_size out - int u" using Cons.prems(5,6) by linarith
  note piece = node_piece_text [OF assms(1) _ assms(2) r, of nd]
  show ?case
  proof (cases "val_size out - int u < int (length ?x)")
    case True
    then have "exec_loop t ns ds out (int u) k = Inr (F1G_ERR, out)"
      using k nd(1) piece Cons.prems(3) by (subst exec_loop.simps) simp
    then show ?thesis using True Cons.prems(5) by simp
  next
    case False
    then have ul: "u + length ?x \<le> length m" using Cons.prems(5) by linarith
    define m1 where "m1 = take u m @ ?x @ drop (u + length ?x) m"
    define out1 where "out1 = (if ?x = [] then out else out\<lparr>val := Live m1\<rparr>)"
    have o1: "val out1 = Live m1" "val_size out1 = val_size out" "length m1 = length m"
      using Cons.prems(4) ul by (auto simp: out1_def m1_def)
    have step: "exec_loop t ns ds out (int u) k = exec_loop t ns ds out1 (int (u + length ?x)) (Suc k)"
      using k nd(1) piece Cons.prems(3,4) False ul
      by (subst exec_loop.simps) (simp add: out1_def m1_def)
    have up: "out1\<lparr>val := v, val_len := n\<rparr> = out\<lparr>val := v, val_len := n\<rparr>" for v n
      by (simp add: out1_def)
    have t1: "take (u + length ?x) m1 = take u m @ ?x" using ul by (simp add: m1_def)
    have d1: "drop (u + length ?x + j) m1 = drop (u + length ?x + j) m" for j
      using ul by (simp add: m1_def add.commute)
    let ?y = "concat (map (node_text b ds) rest)"
    have IH: "if u + length ?x + length ?y \<le> length m1
      then exec_loop t ns ds out1 (int (u + length ?x)) (Suc k)
        = Inr (F1G_OK, out1\<lparr>val := Live (take (u + length ?x) m1 @ ?y @ drop (u + length ?x + length ?y) m1),
            val_len := int (u + length ?x + length ?y)\<rparr>)
      else \<exists>out'. exec_loop t ns ds out1 (int (u + length ?x)) (Suc k) = Inr (F1G_ERR, out')"
      using kl nd(2) Cons.prems(3,5) o1 ul by (intro Cons.IH) simp_all
    show ?thesis
      using IH unfolding step up t1 d1 o1(3) by (simp add: add.assoc split: if_splits)
  qed
qed

section \<open>Properties\<close>

abbreviation value_of :: "data_set \<Rightarrow> bytes \<Rightarrow> bytes" where
  "value_of ds v \<equiv> (case lookup ds v of None \<Rightarrow> [] | Some x \<Rightarrow> x)"

lemma nat_int_pred [simp]: "nat (int n - 1) = n - Suc 0"
  by (cases n) simp_all

lemma seg_nodes_text:
  assumes "b = a @ render segs @ tail"
  shows "concat (map (node_text b ds) (seg_nodes (length a) segs tail))
      = concat (map (\<lambda>(x, v). x @ value_of ds v) segs) @ butlast tail
    \<and> (\<forall>nd\<in>set (seg_nodes (length a) segs tail). node_ok b nd)"
  using assms
proof (induction segs arbitrary: a)
  case Nil
  then show ?case
    by (auto simp: render_def node_text_def node_ok_def blk_def NODE_TYPE_BLK_DATA_def NODE_TYPE_VAR_def
        butlast_conv_take)
next
  case (Cons seg segs)
  obtain x v where seg: "seg = (x, v)" by (cases seg)
  have b: "b = (a @ x @ tagged v) @ render segs @ tail"
    using Cons.prems by (simp add: render_def seg)
  have l: "length (a @ x @ tagged v) = length a + length x + 3 + length v" by simp
  have t: "node_text b ds (vnode v) = value_of ds v" "node_ok b (vnode v)"
    "node_text b ds (blk (length a) (length x)) = x" "node_ok b (blk (length a) (length x))"
    by (simp_all add: b node_text_def node_ok_def vnode_def blk_def NODE_TYPE_BLK_DATA_def NODE_TYPE_VAR_def)
  show ?case
    using Cons.IH [OF b] t unfolding l by (simp add: seg)
qed

lemma template_init_ok:
  "0 < n \<Longrightarrow> \<exists>t. f1g_template_init True n = (F1G_OK, t) \<and> tpl_wf t \<and> nodes t = []"
  by (auto simp: f1g_template_init_def zalloc_def zero_template_def tpl_wf_def nodes_def)

text \<open>C4. Parsing a template made of plain text and variables and executing it writes the text with every
  variable replaced by what the set finds for it (nothing, where it finds nothing), except that the last
  byte of the text behind the last variable is lost; when the output block is too small the call returns
  an error and stays inside the block. Any number of nodes is stored, whatever the initial size.\<close>

theorem template_expands:
  assumes "0 < n" and "\<forall>s\<in>set segs. seg_ok s" and "VAR_FLAG \<notin> set tail" and "render segs @ tail \<noteq> []"
    and "ds_wf ds" and "val out = Live m" and "int (length m) = val_size out"
    and "x = concat (map (\<lambda>(t, v). t @ value_of ds v) segs) @ butlast tail"
    and "b = render segs @ tail"
  shows "\<exists>t t'. f1g_template_init True n = (F1G_OK, t)
    \<and> f1g_template_parse (\<lambda>_. True) True t (Some b) True (int (length b)) = Inr (F1G_OK, t')
    \<and> (if length x \<le> length m
       then f1g_template_exec t' out ds = Inr (F1G_OK, out\<lparr>val := Live (x @ drop (length x) m), val_len := int (length x)\<rparr>)
       else \<exists>out'. f1g_template_exec t' out ds = Inr (F1G_ERR, out'))"
proof -
  obtain t where t: "f1g_template_init True n = (F1G_OK, t)" "tpl_wf t" "nodes t = []"
    using template_init_ok [OF assms(1)] by blast
  let ?t = "t\<lparr>tbuf := Live b, tdata_len := int (length b), buf_size := int (length b)\<rparr>"
  have wf: "tpl_wf ?t" "tbuf ?t = Live b" "nodes ?t = []"
    using t(2,3) by (simp_all add: tpl_wf_def nodes_def split: ptr.splits)
  obtain t' where t': "parse_loop (\<lambda>_. True) ?t b 0 (length b) = Inr (F1G_OK, t')" "tpl_wf t'" "tbuf t' = Live b"
      "nodes t' = seg_nodes 0 segs tail"
    using parse_rendered [OF assms(2) wf(1,2), of "[]" tail] assms(3,9) wf(3) by auto
  have p: "f1g_template_parse (\<lambda>_. True) True t (Some b) True (int (length b)) = Inr (F1G_OK, t')"
    using t'(1) assms(4,9) by (simp add: f1g_template_parse_def)
  note nt = seg_nodes_text [of b "[]" segs tail ds]
  obtain ns where ns: "p_nodes t' = Live ns" "int (length ns) \<ge> node_num t'" "0 \<le> node_num t'"
      "take (nat (node_num t')) ns = nodes t'"
    using t'(2) by (auto simp: tpl_wf_def nodes_def)
  have x: "concat (map (node_text b ds) (nodes t')) = x" "\<forall>nd\<in>set (nodes t'). node_ok b nd"
    using nt assms(8,9) t'(4) by simp_all
  have e: "if length x \<le> length m
    then exec_loop t' ns ds out 0 0 = Inr (F1G_OK, out\<lparr>val := Live (x @ drop (length x) m), val_len := int (length x)\<rparr>)
    else \<exists>out'. exec_loop t' ns ds out 0 0 = Inr (F1G_ERR, out')"
    using exec_loop_text [OF assms(5) t'(3) ns(2,3), of 0 "nodes t'" out m 0] ns(4) x assms(6,7)
    by (simp split: if_splits)
  have "f1g_template_exec t' out ds = exec_loop t' ns ds out 0 0"
  proof (cases "node_num t' \<le> 0")
    case True
    then show ?thesis by (simp add: f1g_template_exec_def exec_loop.simps)
  next
    case False
    then show ?thesis using ns(1) by (simp add: f1g_template_exec_def)
  qed
  then show ?thesis using t(1) p e by auto
qed

text \<open>With the set of one variable, \<open>x=${ip}!.\<close> becomes \<open>x=7!\<close>: the full stop is lost.\<close>

lemma template_expands_witness:
  "\<exists>t t'. f1g_template_init True 1 = (F1G_OK, t)
    \<and> f1g_template_parse (\<lambda>_. True) True t (Some (lit ''x=${ip}!.'')) True 9 = Inr (F1G_OK, t')
    \<and> f1g_template_exec t' \<lparr>val_size = 5, val_len = 0, val = Live [9, 9, 9, 9, 9]\<rparr>
        \<lparr>key_num = 1, key_size = 1, p_keys = Live [\<lparr>key = lit ''ip'', kval = \<lparr>val_size = 1, val_len = 1, val = Live (lit ''7'')\<rparr>\<rparr>]\<rparr>
      = Inr (F1G_OK, \<lparr>val_size = 5, val_len = 4, val = Live (lit ''x=7!'' @ [9])\<rparr>)"
proof -
  let ?ds = "\<lparr>key_num = 1, key_size = 1, p_keys = Live [\<lparr>key = lit ''ip'', kval = \<lparr>val_size = 1, val_len = 1, val = Live (lit ''7'')\<rparr>\<rparr>]\<rparr>"
  let ?out = "\<lparr>val_size = 5, val_len = 0, val = Live [9, 9, 9, 9, 9]\<rparr>"
  have 1: "ds_wf ?ds" by (simp add: ds_wf_def value_wf_def lit_def)
  have 2: "lookup ?ds (lit ''ip'') = Some (lit ''7'')"
    by (simp add: lookup_def entries_def slots_def value_bytes_def starts_case_def lit_def)
  have 3: "seg_ok (lit ''x='', lit ''ip'')"
    by (simp add: seg_ok_def lit_def chr8_def VAR_FLAG_def MAX_VAR_LEN_def check_syntax_chars_def)
  have 4: "VAR_FLAG \<notin> set (lit ''!.'')"
    by (simp add: lit_def chr8_def VAR_FLAG_def)
  have 5: "render [(lit ''x='', lit ''ip'')] @ lit ''!.'' = lit ''x=${ip}!.''"
    by (simp add: render_def lit_def chr8_def VAR_FLAG_def SPLIT_BEG_def SPLIT_END_def)
  have 6: "concat (map (\<lambda>(t, v). t @ value_of ?ds v) [(lit ''x='', lit ''ip'')]) @ butlast (lit ''!.'') = lit ''x=7!''"
    by (simp add: 2) (simp add: lit_def)
  show ?thesis
    using template_expands [of 1 "[(lit ''x='', lit ''ip'')]" "lit ''!.''" ?ds ?out "[9, 9, 9, 9, 9]" _ "lit ''x=${ip}!.''",
        OF _ _ 4 _ 1 _ _ 6 [symmetric] 5 [symmetric]] 3 5
    by (simp add: lit_def)
qed

text \<open>The escape of the variable sign moves the text behind it down by one byte with \<^verbatim>\<open>memcpy\<close>, whose
  source and destination overlap whenever anything follows the escape.\<close>

theorem dollar_escape_overlaps:
  assumes "b = a @ xs @ VAR_FLAG # VAR_FLAG # z" and "VAR_FLAG \<notin> set xs" and "z \<noteq> []"
  shows "find_variable b (length a) (length b) = Inl Overlap"
proof -
  define s0 where "s0 = \<lparr>pb = length a, pe = length b, sbuf = b, vtag_b = None, vtag_e = None, var_flag = None,
    prefix_found = False, var_found = False\<rparr>"
  let ?p = "length a + length xs"
  have n: "b ! ?p = VAR_FLAG" "b ! Suc ?p = VAR_FLAG" "length b = ?p + 2 + length z"
    by (simp_all add: assms(1) nth_append)
  have z: "0 < length z" using assms(3) by simp
  have "find_variable b (length a) (length b) = find_variable_loop s0"
    by (simp add: find_variable_def s0_def)
  also have "\<dots> = find_variable_loop (s0\<lparr>pb := ?p\<rparr>)"
    using assms(1,2) by (intro scan_text [where z = "VAR_FLAG # VAR_FLAG # z"]) (simp_all add: s0_def)
  also have "\<dots> = find_variable_loop (s0\<lparr>pb := ?p + 1, var_flag := Some ?p\<rparr>)"
    using n by (intro scan_go) (simp_all add: s0_def scan_char_def skip1_def)
  also have "\<dots> = Inl Overlap"
    using n z by (subst find_variable_loop.simps) (simp add: s0_def scan_char_def)
  finally show ?thesis .
qed

lemma dollar_escape_overlaps_witness:
  "find_variable (lit ''$$5'') 0 3 = Inl Overlap"
  using dollar_escape_overlaps [of "lit ''$$5''" "[]" "[]" "lit ''5''"]
  by (simp add: lit_def chr8_def VAR_FLAG_def numeral_3_eq_3)

end
