(* ===== verification/C_String.thy ===== *)
theory C_String
  imports Search
begin

text \<open>
  The strings of \<^verbatim>\<open>src/f1g_string.c\<close>, a pointer with a length, which the parsers of URLs and of HTTP
  requests set to parts of their input: the pointer is an offset in that text.
\<close>

record c_string =
  sdata :: "nat option"
  slen :: int

definition c_string_set :: "nat option \<Rightarrow> int \<Rightarrow> c_string" where
  "c_string_set d n = \<lparr>sdata = d, slen = n\<rparr>"

definition no_string :: c_string where
  "no_string = \<lparr>sdata = None, slen = 0\<rparr>"

text \<open>The bytes of a string that points into \<open>s\<close>.\<close>

definition text_at :: "bytes \<Rightarrow> c_string \<Rightarrow> bytes option" where
  "text_at s c = map_option (\<lambda>k. take (nat (slen c)) (drop k s)) (sdata c)"

text \<open>A string is unset or lies within the first \<open>n\<close> bytes.\<close>

definition within :: "int \<Rightarrow> c_string \<Rightarrow> bool" where
  "within n c \<longleftrightarrow> (case sdata c of None \<Rightarrow> True | Some k \<Rightarrow> 0 \<le> slen c \<and> int k + slen c \<le> n)"

lemma text_at_set [simp]: "text_at s (c_string_set (Some k) n) = Some (take (nat n) (drop k s))"
  by (simp add: text_at_def c_string_set_def)

lemma within_set [simp]: "within n (c_string_set (Some k) m) \<longleftrightarrow> 0 \<le> m \<and> int k + m \<le> n"
  by (simp add: within_def c_string_set_def)

text \<open>\<^verbatim>\<open>strstr\<close> on a C string: the search stops at the first NUL, and reads on past the block when
  there is none.\<close>

definition strstr :: "bytes \<Rightarrow> bytes \<Rightarrow> nat option run" where
  "strstr s sub =
     (case first_occ sub (takeWhile (\<lambda>c. c \<noteq> 0) s) of
        Some i \<Rightarrow> Inr (Some i)
      | None \<Rightarrow> if 0 \<in> set s then Inr None else Inl OutOfBounds)"

lemma strstr_text:
  assumes "0 \<notin> set s"
  shows "strstr (s @ 0 # z) sub = Inr (first_occ sub s)"
proof -
  have "takeWhile (\<lambda>c. c \<noteq> 0) (s @ 0 # z) = s" using assms by (induction s) auto
  then show ?thesis by (cases "first_occ sub s") (simp_all add: strstr_def)
qed

end
