(* ===== verification/Url_Parser.thy ===== *)
theory Url_Parser
  imports C_String
begin

text \<open>
  The URL parser of \<^verbatim>\<open>src/f1g_url_parser.c\<close>. A pointer into
  the URL is the offset in it; the list of its bytes goes on to the end of the block it lies in,
  past \<open>url_len\<close>.
\<close>

section \<open>Structs\<close>

text \<open>\<^verbatim>\<open>uri_params_name\<close> is the start of a block of strings; \<^verbatim>\<open>uri_params_value\<close> points into
  the same block, at the offset \<open>uri_params_value\<close>.\<close>

record url_parser =
  host :: c_string
  uri_path :: c_string
  res_type :: c_string
  res_name :: c_string
  uri_param_num :: int
  uri_param_size :: int
  uri_params_name :: "c_string list ptr"
  uri_params_value :: "nat option"

definition url_parser_init :: "int \<Rightarrow> url_parser" where
  "url_parser_init param_size =
     \<lparr>host = no_string, uri_path = no_string, res_type = no_string, res_name = no_string,
      uri_param_num = 0, uri_param_size = 0, uri_params_name = Null, uri_params_value = None\<rparr>"

section \<open>Loading\<close>

text \<open>\<^verbatim>\<open>while (p < end && ch != *p) p++;\<close>\<close>

function seek :: "bytes \<Rightarrow> u8 \<Rightarrow> nat \<Rightarrow> nat \<Rightarrow> nat run" where
  "seek s ch e p =
     (if p < e then bindR (rd s p) (\<lambda>c. if c \<noteq> ch then seek s ch e (Suc p) else Inr p) else Inr p)"
  by pat_completeness auto
termination
  by (relation "measure (\<lambda>(s, ch, e, p). e - p)") auto

declare seek.simps [simp del]

lemma seek_mono: "seek s ch e p = Inr q \<Longrightarrow> p \<le> q"
proof (induction s ch e p rule: seek.induct)
  case (1 s ch e p)
  show ?case
  proof (cases "p < e \<and> p < length s \<and> s ! p \<noteq> ch")
    case True
    then show ?thesis using 1 by (force simp: seek.simps [of s ch e p])
  next
    case False
    then show ?thesis using "1.prems" by (subst (asm) seek.simps) (auto simp: rd_def split: if_splits)
  qed
qed

text \<open>\<^verbatim>\<open>while (p2 > p && ch != *p2) p2--;\<close> with \<open>p2 = p + k\<close>.\<close>

fun seek_back :: "bytes \<Rightarrow> u8 \<Rightarrow> nat \<Rightarrow> nat \<Rightarrow> nat run" where
  "seek_back s ch p 0 = Inr p"
| "seek_back s ch p (Suc k) =
     bindR (rd s (p + Suc k)) (\<lambda>c. if c \<noteq> ch then seek_back s ch p k else Inr (p + Suc k))"

definition HTTP_PREFIX :: bytes where
  "HTTP_PREFIX = lit ''http://''"

text \<open>Room for parameter \<open>i\<close>: \<open>g\<close> is what the new block holds. The value pointer is
  \<^verbatim>\<open>sizeof(c_string_t)*new_size\<close> strings behind the name pointer, \<open>16 * new_size\<close>; the second
  \<^verbatim>\<open>memcpy\<close> goes there too. The old value pointer is freed on its own where it is not \<^verbatim>\<open>NULL\<close>.\<close>

definition extend_params :: "c_string alloc \<Rightarrow> url_parser \<Rightarrow> int \<Rightarrow> (int \<times> url_parser) run" where
  "extend_params a u i =
     (if i \<ge> uri_param_size u then
        (let new_size = i + 12 in
         case malloc a (new_size * 2) of
           Live m \<Rightarrow>
             bindR (if uri_param_num u > 0
                    then bindR (deref (uri_params_name u)) (\<lambda>old.
                         bindR (slice old 0 (uri_param_num u)) (\<lambda>names.
                         bindR (put m 0 names) (\<lambda>m1.
                         case uri_params_value u of
                           None \<Rightarrow> Inl NullDeref
                         | Some v \<Rightarrow> bindR (slice old v (uri_param_num u)) (\<lambda>vals. put m1 (nat (16 * new_size)) vals))))
                    else Inr m) (\<lambda>m'.
             freeR (uri_params_name u)
               (if uri_params_value u \<noteq> None then Inl BadFree
                else Inr (F1G_OK, u\<lparr>uri_params_name := Live m', uri_params_value := Some (nat (16 * new_size)),
                                    uri_param_size := new_size\<rparr>)))
         | _ \<Rightarrow> Inr (F1G_ERR, u))
      else Inr (F1G_OK, u))"

definition set_param :: "url_parser \<Rightarrow> nat \<Rightarrow> c_string \<Rightarrow> url_parser run" where
  "set_param u k v =
     bindR (deref (uri_params_name u)) (\<lambda>m. bindR (wr m k v) (\<lambda>m'. Inr (u\<lparr>uri_params_name := Live m'\<rparr>)))"

text \<open>The parameter loop: \<open>p\<close> is where the loop is, \<^verbatim>\<open>p = p2\<close> at its head. The result is
  the return code, the parser and \<open>i\<close>; on an error \<^verbatim>\<open>uri_param_num\<close> is not assigned.\<close>

function param_loop ::
  "(nat \<Rightarrow> c_string alloc) \<Rightarrow> bytes \<Rightarrow> nat \<Rightarrow> url_parser \<Rightarrow> nat \<Rightarrow> nat \<Rightarrow> (int \<times> url_parser) run" where
  "param_loop a s e u p i =
     (if p < e then
        bindR (extend_params (a i) u (int i)) (\<lambda>(r, u1).
          if r \<noteq> F1G_OK then Inr (F1G_ERR, u1)
          else bindR (seek s 0x3D e p) (\<lambda>p2.
               bindR (set_param u1 i (c_string_set (Some p) (int p2 - int p))) (\<lambda>u2.
                 if p2 \<ge> e then Inr (F1G_OK, u2\<lparr>uri_param_num := int i\<rparr>)
                 else bindR (seek s 0x26 e (p2 + 1)) (\<lambda>p3.
                      case uri_params_value u2 of
                        None \<Rightarrow> Inl NullDeref
                      | Some v \<Rightarrow>
                          bindR (set_param u2 (v + i) (c_string_set (Some (p2 + 1)) (int p3 - int (p2 + 1)))) (\<lambda>u3.
                            param_loop a s e u3 (p3 + 1) (Suc i))))))
      else Inr (F1G_OK, u\<lparr>uri_param_num := int i\<rparr>))"
  by pat_completeness auto
termination
proof (relation "measure (\<lambda>(a, s, e, u, p, i). e - p)", simp)
  fix a :: "nat \<Rightarrow> c_string alloc" and s :: bytes and e p i x r p2 p3 v :: nat and u u1 u2 u3 :: url_parser and y :: "int \<times> url_parser"
  assume e: "p < e" and q: "seek s 0x3D e p = Inr p2" "seek s 0x26 e (p2 + 1) = Inr p3"
  from seek_mono [OF q(1)] seek_mono [OF q(2)] have "p < p3 + 1" by linarith
  then show "((a, s, e, u3, p3 + 1, Suc i), a, s, e, u, p, i) \<in> measure (\<lambda>(a, s, e, u, p, i). e - p)"
    using e by auto
qed

declare param_loop.simps [simp del]

definition url_parser_load ::
  "(nat \<Rightarrow> c_string alloc) \<Rightarrow> url_parser \<Rightarrow> bytes \<Rightarrow> nat \<Rightarrow> (int \<times> url_parser) run" where
  "url_parser_load a u s url_len =
     bindR (strstr s HTTP_PREFIX) (\<lambda>loc.
     let p = (case loc of None \<Rightarrow> 0 | Some k \<Rightarrow> k + 7) in
     bindR (rd s p) (\<lambda>c.
     bindR (if c = 0x2F then Inr (Some (p, u))
            else bindR (seek s 0x2F url_len p) (\<lambda>p2.
              if p2 \<ge> url_len then Inr None
              else Inr (Some (p2, u\<lparr>host := c_string_set (Some p) (int p2 - int p)\<rparr>)))) (\<lambda>h.
       case h of
         None \<Rightarrow> Inr (F1G_ERR, u)
       | Some (p, u) \<Rightarrow>
           bindR (seek_back s 0x2F p (url_len - 1 - p)) (\<lambda>q.
           let p2 = (if p < url_len - 1 then q + 1 else url_len);
               u = u\<lparr>uri_path := c_string_set (Some p) (int p2 - int p)\<rparr>;
               p = p2 in
           bindR (seek s 0x3F url_len p2) (\<lambda>p2.
             if int p2 - int p \<le> 0 then Inr (F1G_OK, u)
             else
               let u = u\<lparr>res_name := c_string_set (Some p) (int p2 - int p)\<rparr> in
               bindR (seek s 0x2E p2 p) (\<lambda>d.
               let u = (if p2 - d > 0 then u\<lparr>res_type := c_string_set (Some (d + 1)) (int p2 - int (d + 1))\<rparr> else u) in
               param_loop a s url_len u (p2 + 1) 0))))))"

section \<open>The other operations\<close>

text \<open>The parameter count is reset before it is used as the number of strings to clear.\<close>

definition url_parser_clear :: "url_parser \<Rightarrow> (int \<times> url_parser) run" where
  "url_parser_clear u =
     Inr (F1G_OK, u\<lparr>uri_param_num := 0, host := c_string_set None 0, uri_path := c_string_set None 0,
                    res_type := c_string_set None 0, res_name := c_string_set None 0\<rparr>)"

definition url_parser_destroy :: "url_parser \<Rightarrow> (int \<times> url_parser) run" where
  "url_parser_destroy u = freeR (uri_params_name u) (Inr (F1G_OK, url_parser_init 0))"

section \<open>Seeking\<close>

lemma seek_hit:
  assumes "s = a @ xs @ c # z" and "c \<notin> set xs" and "length a + length xs < e"
  shows "seek s c e (length a) = Inr (length a + length xs)"
  using assms
proof (induction xs arbitrary: a)
  case Nil
  then show ?case by (subst seek.simps) simp
next
  case (Cons x xs)
  have "seek s c e (length (a @ [x])) = Inr (length (a @ [x]) + length xs)"
    using Cons.prems by (intro Cons.IH) simp_all
  then show ?case using Cons.prems by (subst seek.simps) auto
qed

lemma seek_miss:
  assumes "s = a @ xs @ z" and "c \<notin> set xs" and "e = length a + length xs"
  shows "seek s c e (length a) = Inr e"
  using assms
proof (induction xs arbitrary: a)
  case Nil
  then show ?case by (subst seek.simps) simp
next
  case (Cons x xs)
  have "seek s c e (length (a @ [x])) = Inr e"
    using Cons.prems by (intro Cons.IH) simp_all
  then show ?case using Cons.prems by (subst seek.simps) auto
qed

text \<open>Either way.\<close>

lemma seek_until:
  assumes "s = a @ xs @ z"
  shows "seek s c (length a + length xs) (length a) = Inr (length a + length (takeWhile (\<lambda>x. x \<noteq> c) xs))"
proof (cases "c \<in> set xs")
  case True
  obtain ys zs where xs: "xs = ys @ c # zs" "c \<notin> set ys" using split_list_first [OF True] by blast
  then have "takeWhile (\<lambda>x. x \<noteq> c) xs = ys" by (auto simp: takeWhile_append)
  then show ?thesis using seek_hit [of s a ys c "zs @ z"] assms xs by simp
next
  case False
  then have "takeWhile (\<lambda>x. x \<noteq> c) xs = xs" by (auto simp: takeWhile_eq_all_conv)
  then show ?thesis using seek_miss [OF assms False refl] by metis
qed

lemma seek_back_hit:
  assumes "s = a @ c # xs @ z" and "c \<notin> set xs" and "p \<le> length a" and "p + k = length a + length xs"
  shows "seek_back s c p k = Inr (length a)"
  using assms
proof (induction xs arbitrary: z k rule: rev_induct)
  case Nil
  then show ?case by (cases k) simp_all
next
  case (snoc x xs)
  obtain j where k: "k = Suc j" using snoc.prems(3,4) by (cases k) simp_all
  have "s ! (p + Suc j) = x" "p + Suc j < length s"
    using snoc.prems(1,4) k by (simp_all add: nth_append)
  moreover have "seek_back s c p j = Inr (length a)"
    using snoc.prems k by (intro snoc.IH) simp_all
  ultimately show ?case using snoc.prems(2) k by auto
qed

lemma takeWhile_stop: "0 \<notin> set xs \<Longrightarrow> takeWhile (\<lambda>c. c \<noteq> 0) (xs @ 0 # z) = (xs :: bytes)"
  by (induction xs) auto

text \<open>A URL with the scheme, and its pieces.\<close>

record url_parts =
  u_host :: bytes
  u_path :: bytes
  u_name :: bytes

definition url_text :: "url_parts \<Rightarrow> bytes" where
  "url_text u = HTTP_PREFIX @ u_host u @ u_path u @ u_name u"

text \<open>A host without slash, a path from a slash to the last slash, a name without slash and question
  mark, and no NUL in them.\<close>

definition parts_ok :: "url_parts \<Rightarrow> bool" where
  "parts_ok u \<longleftrightarrow> u_host u \<noteq> [] \<and> 0x2F \<notin> set (u_host u) \<and> u_path u \<noteq> [] \<and> hd (u_path u) = 0x2F \<and> last (u_path u) = 0x2F
     \<and> u_name u \<noteq> [] \<and> 0x2F \<notin> set (u_name u) \<and> 0x3F \<notin> set (u_name u) \<and> 0 \<notin> set (url_text u)"

definition u_type :: "url_parts \<Rightarrow> c_string \<Rightarrow> c_string" where
  "u_type u old =
     (let n = length (takeWhile (\<lambda>c. c \<noteq> 0x2E) (u_name u)); b = 7 + length (u_host u) + length (u_path u) in
      if n < length (u_name u) then \<lparr>sdata = Some (b + n + 1), slen = int (length (u_name u)) - int n - 1\<rparr> else old)"

definition loaded :: "url_parser \<Rightarrow> url_parts \<Rightarrow> url_parser" where
  "loaded p u =
     p\<lparr>host := \<lparr>sdata = Some 7, slen = int (length (u_host u))\<rparr>,
       uri_path := \<lparr>sdata = Some (7 + length (u_host u)), slen = int (length (u_path u))\<rparr>,
       res_name := \<lparr>sdata = Some (7 + length (u_host u) + length (u_path u)), slen = int (length (u_name u))\<rparr>,
       res_type := u_type u (res_type p)\<rparr>"

text \<open>Up to the parameters: \<open>q\<close> is empty, or a question mark and what follows it, without a slash.\<close>

lemma url_load_head:
  assumes "parts_ok u" and "q = [] \<or> hd q = 0x3F" and "0x2F \<notin> set q" and "0 \<notin> set q"
    and "s = url_text u @ q @ 0 # junk" and "n = length (url_text u @ q)"
  shows "url_parser_load a p s n = param_loop a s n (loaded p u) (length (url_text u) + 1) 0"
proof -
  let ?h = "u_host u" and ?nm = "u_name u"
  obtain pt where path: "u_path u = pt @ [0x2F]" "pt = [] \<or> hd pt = 0x2F"
    using assms(1) by (auto simp: parts_ok_def) (metis append_butlast_last_id hd_append2)
  have lp: "length HTTP_PREFIX = 7" by (simp add: HTTP_PREFIX_def lit_def)
  have no0: "0 \<notin> set (url_text u @ q)" using assms(1,4) by (auto simp: parts_ok_def)
  let ?b0 = "7 + length ?h" let ?b1 = "?b0 + length (u_path u)" let ?b2 = "?b1 + length ?nm"
  have len: "length (url_text u) = ?b2" "n = ?b2 + length q"
    using lp assms(6) by (simp_all add: url_text_def)
  have st: "strstr s HTTP_PREFIX = Inr (Some 0)"
  proof -
    have "takeWhile (\<lambda>c. c \<noteq> 0) s = url_text u @ q"
      using takeWhile_stop [OF no0, of junk] assms(5) by simp
    then show ?thesis
      using first_occ_hit [of HTTP_PREFIX "?h @ u_path u @ ?nm @ q"] by (simp add: strstr_def url_text_def)
  qed
  have "hd ?h \<in> set ?h" "0x2F \<notin> set ?h" using assms(1) by (simp_all add: parts_ok_def)
  then have c1: "hd ?h \<noteq> 0x2F" by metis
  have c0: "rd s 7 = Inr (hd ?h)"
    using assms(1,5) lp by (simp add: rd_def parts_ok_def url_text_def nth_append hd_conv_nth)
  have hd_path: "\<exists>z. u_path u = 0x2F # z" using assms(1) by (cases "u_path u") (auto simp: parts_ok_def)
  then obtain z where z: "u_path u = 0x2F # z" ..
  have s1: "seek s 0x2F n 7 = Inr ?b0"
    using seek_hit [of s HTTP_PREFIX ?h "0x2F" "z @ ?nm @ q @ 0 # junk" n] assms(1,5) lp z len
    by (simp add: parts_ok_def url_text_def)
  have sb: "seek_back s 0x2F ?b0 (n - 1 - ?b0) = Inr (?b1 - 1)"
    using seek_back_hit [of s "HTTP_PREFIX @ ?h @ pt" "0x2F" "?nm @ q" "0 # junk" ?b0 "n - 1 - ?b0"]
      assms(1,3,5) lp path(1) len by (simp add: parts_ok_def url_text_def)
  have nm: "?nm \<noteq> []" using assms(1) by (simp add: parts_ok_def)
  have s2: "seek s 0x3F n ?b1 = Inr ?b2"
  proof (cases "q = []")
    case True
    then show ?thesis
      using seek_miss [of s "HTTP_PREFIX @ ?h @ u_path u" ?nm "0 # junk" "0x3F" n] assms(1,5) lp len
      by (simp add: parts_ok_def url_text_def add.assoc)
  next
    case False
    then obtain q' where "q = 0x3F # q'" using assms(2) by (cases q) auto
    then show ?thesis
      using seek_hit [of s "HTTP_PREFIX @ ?h @ u_path u" ?nm "0x3F" "q' @ 0 # junk" n] assms(1,5) lp len
      by (simp add: parts_ok_def url_text_def add.assoc)
  qed
  let ?d = "length (takeWhile (\<lambda>c. c \<noteq> 0x2E) ?nm)"
  have s3: "seek s 0x2E ?b2 ?b1 = Inr (?b1 + ?d)"
    using seek_until [of s "HTTP_PREFIX @ ?h @ u_path u" ?nm "q @ 0 # junk" "0x2E"] assms(5) lp
    by (simp add: url_text_def add.assoc)
  have order: "?b0 < n" "?b0 < n - 1" "?b1 < ?b2" "0 < ?b1" "?b1 - 1 + 1 = ?b1"
    using nm z len path(1) by (auto simp: length_greater_0_conv [symmetric] simp del: length_greater_0_conv)
  have d: "?d \<le> length ?nm" by (rule length_takeWhile_le)
  show ?thesis
    using st c0 c1 s1 sb s2 s3 order d len nm
    by (simp add: url_parser_load_def Let_def c_string_set_def loaded_def u_type_def add.assoc)
qed

section \<open>Properties\<close>

text \<open>A URL without parameters, made of the scheme, a host, a path and a resource name, is cut at its
  seams: the host up to the first slash, the path up to the last, the name behind it and its type behind
  the first full stop; nothing past the URL is read but the bytes up to its terminator.\<close>

theorem url_parser_load_parts:
  assumes "parts_ok u" and "s = url_text u @ 0 # junk"
  shows "url_parser_load a (url_parser_init k) s (length (url_text u))
    = Inr (F1G_OK, loaded (url_parser_init k) u)"
proof -
  have "url_parser_load a (url_parser_init k) s (length (url_text u))
      = param_loop a s (length (url_text u)) (loaded (url_parser_init k) u) (length (url_text u) + 1) 0"
    using url_load_head [OF assms(1), of "[]" s junk _ a] assms(2) by simp
  then show ?thesis
    by (subst (asm) param_loop.simps) (simp add: loaded_def url_parser_init_def)
qed

definition sample_url :: url_parts where
  "sample_url = \<lparr>u_host = lit ''h.cn'', u_path = lit ''/a/'', u_name = lit ''i.htm''\<rparr>"

lemma sample_url_ok: "parts_ok sample_url" "url_text sample_url = lit ''http://h.cn/a/i.htm''"
  by (simp_all add: sample_url_def parts_ok_def url_text_def HTTP_PREFIX_def lit_def chr8_def)

lemma url_parser_load_parts_witness:
  "url_parser_load (\<lambda>_. None) (url_parser_init 0) (lit ''http://h.cn/a/i.htm'' @ [0]) 19
    = Inr (F1G_OK, (url_parser_init 0)\<lparr>host := \<lparr>sdata = Some 7, slen = 4\<rparr>, uri_path := \<lparr>sdata = Some 11, slen = 3\<rparr>,
        res_name := \<lparr>sdata = Some 14, slen = 5\<rparr>, res_type := \<lparr>sdata = Some 16, slen = 3\<rparr>\<rparr>)"
proof -
  have l: "length (lit ''http://h.cn/a/i.htm'') = 19" by (simp add: lit_def)
  have "loaded (url_parser_init 0) sample_url = (url_parser_init 0)\<lparr>host := \<lparr>sdata = Some 7, slen = 4\<rparr>,
      uri_path := \<lparr>sdata = Some 11, slen = 3\<rparr>, res_name := \<lparr>sdata = Some 14, slen = 5\<rparr>, res_type := \<lparr>sdata = Some 16, slen = 3\<rparr>\<rparr>"
    by (simp add: loaded_def u_type_def sample_url_def lit_def chr8_def url_parser_init_def)
  then show ?thesis
    using url_parser_load_parts [OF sample_url_ok(1), of _ "[]" "\<lambda>_. None" 0] unfolding sample_url_ok(2) l by simp
qed

text \<open>The first parameter that has a value is stored out of bounds: the value array is placed sixteen
  times as far behind the name array as the block of both is sized for.\<close>

theorem url_params_overrun:
  assumes "parts_ok u" and "k \<noteq> []" and "0x3D \<notin> set k" and "0x2F \<notin> set (k @ v)" and "0 \<notin> set (k @ v)"
    and "q = 0x3F # k @ 0x3D # v" and "s = url_text u @ q @ 0 # junk" and "a 0 = Some g"
  shows "url_parser_load a (url_parser_init n) s (length (url_text u @ q)) = Inl OutOfBounds"
proof -
  let ?u = "loaded (url_parser_init n) u" and ?p = "length (url_text u) + 1" and ?e = "length (url_text u @ q)"
  have h: "url_parser_load a (url_parser_init n) s ?e = param_loop a s ?e ?u ?p 0"
    using assms(4-6) by (intro url_load_head [OF assms(1) _ _ _ assms(7)]) auto
  have f: "uri_param_size ?u = 0" "uri_param_num ?u = 0" "uri_params_name ?u = Null" "uri_params_value ?u = None"
    by (simp_all add: loaded_def url_parser_init_def)
  let ?m = "map g [0..<24]"
  let ?u1 = "?u\<lparr>uri_params_name := Live ?m, uri_params_value := Some 192, uri_param_size := 12\<rparr>"
  have x: "extend_params (a 0) ?u 0 = Inr (F1G_OK, ?u1)"
    using f assms(8) by (simp add: extend_params_def Let_def)
  have s1: "seek s 0x3D ?e ?p = Inr (?p + length k)"
    using seek_hit [of s "url_text u @ [0x3F]" k "0x3D" "v @ 0 # junk" ?e] assms(3,6,7) by simp
  let ?p3 = "?p + length k + 1 + length (takeWhile (\<lambda>x. x \<noteq> 0x26) v)"
  have s2: "seek s 0x26 ?e (?p + length k + 1) = Inr ?p3"
    using seek_until [of s "url_text u @ 0x3F # k @ [0x3D]" v "0 # junk" "0x26"] assms(6,7) by (simp add: add.assoc)
  have e: "?p < ?e" "\<not> ?e \<le> ?p + length k" using assms(2,6) by simp_all
  have "param_loop a s ?e ?u ?p 0 = Inl OutOfBounds"
    using x s1 s2 e by (subst param_loop.simps) (simp add: set_param_def Let_def)
  then show ?thesis using h by simp
qed

lemma url_params_overrun_witness:
  "url_parser_load (\<lambda>_. Some (\<lambda>_. no_string)) (url_parser_init 0) (lit ''http://h.cn/a/i.htm?x=1'' @ [0]) 23 = Inl OutOfBounds"
proof -
  have q: "lit ''?x=1'' = 0x3F # lit ''x'' @ 0x3D # lit ''1''" by (simp add: lit_def chr8_def)
  have l: "length (url_text sample_url @ lit ''?x=1'') = 23" unfolding sample_url_ok(2) by (simp add: lit_def)
  have t: "lit ''http://h.cn/a/i.htm?x=1'' = url_text sample_url @ lit ''?x=1''"
    unfolding sample_url_ok(2) by (simp add: lit_def)
  show ?thesis
    using url_params_overrun [OF sample_url_ok(1) _ _ _ _ q, of _ "[]" "\<lambda>_. Some (\<lambda>_. no_string)" "\<lambda>_. no_string" 0]
    unfolding l t by (simp add: lit_def chr8_def)
qed

end
