(* ===== verification/Http_Parser.thy ===== *)
theory Http_Parser
  imports Basic_Funcs C_String Bit_Array
begin

text \<open>
  The HTTP request parser of \<^verbatim>\<open>src/f1g_http_parser.c\<close>. A pointer is the offset in the request, whose
  bytes go on to the end of the block it lies in, past \<open>data_len\<close>; \<open>data_end\<close>, the last byte of the
  data, may be in front of the first.
\<close>

section \<open>Constants and structs\<close>

definition METHOD_GET :: u8 where "METHOD_GET = 0"
definition METHOD_GET_STR :: bytes where "METHOD_GET_STR = lit ''GET''"
definition CR_STR :: bytes where "CR_STR = [0x0D, 0x0A]"
definition SP_STR :: bytes where "SP_STR = [0x20]"
definition HDR_KV_SEP :: bytes where "HDR_KV_SEP = [0x3A]"
definition HTTPV11 :: u8 where "HTTPV11 = 0x11"
definition HTTPV10 :: u8 where "HTTPV10 = 0x10"
definition HTTPV11_STR :: bytes where "HTTPV11_STR = lit ''HTTP/1.1''"
definition HTTPV10_STR :: bytes where "HTTPV10_STR = lit ''HTTP/1.0''"
definition HOST_STR :: bytes where "HOST_STR = lit ''Host''"
definition UA_STR :: bytes where "UA_STR = lit ''User-Agent''"
definition COOKIE_STR :: bytes where "COOKIE_STR = lit ''Cookie''"
definition REFER_STR :: bytes where "REFER_STR = lit ''Referer''"
definition ACCEPT_STR :: bytes where "ACCEPT_STR = lit ''Accept''"
definition ACC_CHARSET_STR :: bytes where "ACC_CHARSET_STR = lit ''Accept-Charset''"
definition ACC_ENCODE_STR :: bytes where "ACC_ENCODE_STR = lit ''Accept-Encoding''"
definition ACC_LANG_STR :: bytes where "ACC_LANG_STR = lit ''Accept-Language''"

record http_req =
  version :: u8
  connection :: c_string
  status :: bit_array
  req_method :: u8
  req_host :: c_string
  uri :: c_string
  ua :: c_string
  cookie :: c_string
  refer_uri :: c_string
  refer_host :: c_string
  accept :: c_string
  accept_charset :: c_string
  accept_encode :: c_string
  accept_lang :: c_string

section \<open>Headers\<close>

text \<open>The comparison of the name from \<open>k1\<close> with a known one: its length takes in the colon at \<open>k1e\<close>.\<close>

definition key_is :: "bytes \<Rightarrow> nat \<Rightarrow> nat \<Rightarrow> bytes \<Rightarrow> bool run" where
  "key_is s k1 k1e name =
     bindR (cmp_str2 (drop k1 s) (int k1e - int k1 + 1) name (int (length name))) (\<lambda>r. Inr (r = 0))"

definition add_header :: "bytes \<Rightarrow> nat \<Rightarrow> nat \<Rightarrow> nat \<Rightarrow> int \<Rightarrow> http_req \<Rightarrow> (int \<times> http_req) run" where
  "add_header s k1 k1e k2 k2e r =
     (let v = c_string_set (Some k2) (k2e - int k2 + 1) in
      bindR (rd s k1) (\<lambda>c.
        if c = 0x41 then
          bindR (key_is s k1 k1e ACC_LANG_STR) (\<lambda>b. if b then Inr (F1G_OK, r\<lparr>accept_lang := v\<rparr>) else
          bindR (key_is s k1 k1e ACC_ENCODE_STR) (\<lambda>b. if b then Inr (F1G_OK, r\<lparr>accept_encode := v\<rparr>) else
          bindR (key_is s k1 k1e ACC_CHARSET_STR) (\<lambda>b. if b then Inr (F1G_OK, r\<lparr>accept_charset := v\<rparr>) else
          bindR (key_is s k1 k1e ACCEPT_STR) (\<lambda>b. if b then Inr (F1G_OK, r\<lparr>accept := v\<rparr>) else Inr (F1G_OK, r)))))
        else if c = 0x43 then
          bindR (key_is s k1 k1e COOKIE_STR) (\<lambda>b. if b then Inr (F1G_OK, r\<lparr>cookie := v\<rparr>) else Inr (F1G_OK, r))
        else if c = 0x48 then
          bindR (key_is s k1 k1e HOST_STR) (\<lambda>b. if b then Inr (F1G_OK, r\<lparr>req_host := v\<rparr>) else Inr (F1G_OK, r))
        else if c = 0x52 then
          bindR (key_is s k1 k1e REFER_STR) (\<lambda>b.
            if b then
              bindR (find_str (drop k2 s) (k2e - int k2) [0x2F]) (\<lambda>p.
                case p of
                  None \<Rightarrow> Inr (F1G_ERR, r)
                | Some i \<Rightarrow>
                    Inr (F1G_OK, r\<lparr>refer_host := c_string_set (Some k2) (int i),
                                    refer_uri := c_string_set (Some (k2 + i)) (k2e - int (k2 + i) + 1)\<rparr>))
            else Inr (F1G_OK, r))
        else if c = 0x55 then
          bindR (key_is s k1 k1e UA_STR) (\<lambda>b. if b then Inr (F1G_OK, r\<lparr>ua := v\<rparr>) else Inr (F1G_OK, r))
        else Inr (F1G_OK, r)))"

text \<open>One line of headers: from \<open>b\<close> to \<open>le\<close>. \<open>None\<close> is the \<^verbatim>\<open>break\<close>.\<close>

definition header_line :: "bytes \<Rightarrow> nat \<Rightarrow> int \<Rightarrow> http_req \<Rightarrow> http_req option run" where
  "header_line s b le r =
     (if le \<le> int b then Inr None
      else
        bindR (find_str (drop b s) (le - int b) HDR_KV_SEP) (\<lambda>k.
          case k of
            None \<Rightarrow> Inr None
          | Some n \<Rightarrow>
              if n = 0 then Inr None
              else
                let p = b + n + 1 in
                bindR (skip_space (drop p s) (le - int p)) (\<lambda>j.
                let k2 = p + j in
                bindR (strip_char (drop k2 s) (le - int k2) 0x20) (\<lambda>x.
                bindR (add_header s b (b + n) k2 (int k2 + x) r) (\<lambda>(_, r'). Inr (Some r'))))))"

lemma find_from_Some: "find_from s n sub i = Inr (Some j) \<Longrightarrow> i \<le> j \<and> int j + int (length sub) \<le> n"
proof (induction s n sub i rule: find_from.induct)
  case (1 s n sub i)
  show ?case
  proof (cases "int (length sub) \<le> n - int i")
    case True
    then show ?thesis
      using "1.prems" "1.IH" [OF True] by (subst (asm) find_from.simps) (force simp: bindR_def split: sum.splits if_splits)
  next
    case False
    then show ?thesis using "1.prems" by (subst (asm) find_from.simps) simp
  qed
qed

lemma find_str_Some: "find_str s n sub = Inr (Some j) \<Longrightarrow> int j + int (length sub) \<le> n"
  using find_from_Some [of s n sub 0 j] by (simp add: find_str_def)

text \<open>The loop over the lines; \<open>le\<close> is \<^verbatim>\<open>p_line_e\<close> of the line before.\<close>

function header_loop :: "bytes \<Rightarrow> int \<Rightarrow> nat \<Rightarrow> http_req \<Rightarrow> http_req run" where
  "header_loop s data_end le r =
     bindR (skip_space (drop (le + 2) s) (data_end - int (le + 2))) (\<lambda>j.
     let b = le + 2 + j in
     bindR (find_str (drop b s) (data_end - int b) CR_STR) (\<lambda>n.
       case n of
         None \<Rightarrow> bindR (header_line s b data_end r) (\<lambda>x. Inr (case x of None \<Rightarrow> r | Some r' \<Rightarrow> r'))
       | Some i \<Rightarrow>
           bindR (header_line s b (int (b + i)) r) (\<lambda>x.
             case x of None \<Rightarrow> Inr r | Some r' \<Rightarrow> header_loop s data_end (b + i) r')))"
  by pat_completeness auto
termination
proof (relation "measure (\<lambda>(s, data_end, le, r). nat (data_end - int le))", simp)
  fix s :: bytes and data_end :: int and le j b i :: nat and n :: "nat option" and r r' :: http_req and x :: "http_req option"
  assume "b = le + 2 + j" "find_str (drop b s) (data_end - int b) CR_STR = Inr n" "n = Some i"
  then have "int i + 2 \<le> data_end - int b" "le < b" using find_str_Some [of "drop b s" "data_end - int b" CR_STR i] by (auto simp: CR_STR_def)
  then show "((s, data_end, b + i, r'), s, data_end, le, r) \<in> measure (\<lambda>(s, data_end, le, r). nat (data_end - int le))"
    by auto
qed

declare header_loop.simps [simp del]

section \<open>The parser\<close>

definition parse_version :: "bytes \<Rightarrow> nat \<Rightarrow> nat \<Rightarrow> u8 option run" where
  "parse_version s k le =
     bindR (cmp_str2 (drop k s) (int le - int k) HTTPV11_STR 8) (\<lambda>c.
       if c = 0 then Inr (Some HTTPV11)
       else bindR (cmp_str2 (drop k s) (int le - int k) HTTPV10_STR 8) (\<lambda>c. Inr (if c = 0 then Some HTTPV10 else None)))"

definition http_req_header_parser :: "http_req \<Rightarrow> bytes \<Rightarrow> int \<Rightarrow> (int \<times> http_req) run" where
  "http_req_header_parser r s data_len =
     (let data_end = data_len - 1 in
      bindR (find_str s data_end CR_STR) (\<lambda>l.
        case l of
          None \<Rightarrow> Inr (F1G_ERR, r)
        | Some le \<Rightarrow>
            if le = 0 then Inr (F1G_ERR, r)
            else
              bindR (cmp_str2 s (int le) METHOD_GET_STR 3) (\<lambda>c.
                if c \<noteq> 0 then Inr (F1G_ERR, r)
                else
                  let r1 = r\<lparr>req_method := METHOD_GET\<rparr> in
                  bindR (skip_space (drop 3 s) (int le - 3)) (\<lambda>j.
                  let k = 3 + j in
                  bindR (find_str (drop k s) (int le - 1 - int k) SP_STR) (\<lambda>e.
                    case e of
                      None \<Rightarrow> Inr (F1G_ERR, r1)
                    | Some n \<Rightarrow>
                        if n = 0 then Inr (F1G_ERR, r1)
                        else
                          let r2 = r1\<lparr>uri := c_string_set (Some k) (int n)\<rparr> in
                          bindR (skip_space (drop (k + n) s) (int le - int (k + n))) (\<lambda>j2.
                          bindR (parse_version s (k + n + j2) le) (\<lambda>v.
                            case v of
                              None \<Rightarrow> Inr (F1G_ERR, r2)
                            | Some v \<Rightarrow>
                                bindR (header_loop s data_end le (r2\<lparr>version := v\<rparr>)) (\<lambda>r3. Inr (F1G_OK, r3)))))))))"

definition http_req_header_clear :: "http_req \<Rightarrow> http_req" where
  "http_req_header_clear r =
     \<lparr>version = 0, connection = no_string, status = \<lparr>bits_num = 0, bits = Null\<rparr>, req_method = 0, req_host = no_string,
      uri = no_string, ua = no_string, cookie = no_string, refer_uri = no_string, refer_host = no_string,
      accept = no_string, accept_charset = no_string, accept_encode = no_string, accept_lang = no_string\<rparr>"

section \<open>The fields\<close>

datatype field = Host | Uri | Agent | Cookie | Refer_Uri | Refer_Host | Accept | Accept_Charset | Accept_Encode | Accept_Lang

fun field_of :: "field \<Rightarrow> http_req \<Rightarrow> c_string" where
  "field_of Host r = req_host r"
| "field_of Uri r = uri r"
| "field_of Agent r = ua r"
| "field_of Cookie r = cookie r"
| "field_of Refer_Uri r = refer_uri r"
| "field_of Refer_Host r = refer_host r"
| "field_of Accept r = accept r"
| "field_of Accept_Charset r = accept_charset r"
| "field_of Accept_Encode r = accept_encode r"
| "field_of Accept_Lang r = accept_lang r"

text \<open>Every field is unset or lies within the first \<open>n\<close> bytes.\<close>

definition fields_in :: "int \<Rightarrow> http_req \<Rightarrow> bool" where
  "fields_in n r \<longleftrightarrow> (\<forall>f. within n (field_of f r))"

lemma fields_in_iff:
  "fields_in n r \<longleftrightarrow> within n (req_host r) \<and> within n (uri r) \<and> within n (ua r) \<and> within n (cookie r)
     \<and> within n (refer_uri r) \<and> within n (refer_host r) \<and> within n (accept r) \<and> within n (accept_charset r)
     \<and> within n (accept_encode r) \<and> within n (accept_lang r)"
proof
  assume "fields_in n r"
  then have f: "within n (field_of f r)" for f by (simp add: fields_in_def)
  show "within n (req_host r) \<and> within n (uri r) \<and> within n (ua r) \<and> within n (cookie r)
     \<and> within n (refer_uri r) \<and> within n (refer_host r) \<and> within n (accept r) \<and> within n (accept_charset r)
     \<and> within n (accept_encode r) \<and> within n (accept_lang r)"
    using f [of Host] f [of Uri] f [of Agent] f [of Cookie] f [of Refer_Uri] f [of Refer_Host] f [of Accept]
      f [of Accept_Charset] f [of Accept_Encode] f [of Accept_Lang] by simp
next
  assume *: "within n (req_host r) \<and> within n (uri r) \<and> within n (ua r) \<and> within n (cookie r)
     \<and> within n (refer_uri r) \<and> within n (refer_host r) \<and> within n (accept r) \<and> within n (accept_charset r)
     \<and> within n (accept_encode r) \<and> within n (accept_lang r)"
  have "within n (field_of f r)" for f using * by (cases f) auto
  then show "fields_in n r" by (simp add: fields_in_def)
qed

section \<open>The parser stays in the data\<close>

lemma find_str_in:
  assumes "length sub < 512" and "n \<le> int (length s)"
  shows "\<exists>r. find_str s n sub = Inr r \<and> (\<forall>i. r = Some i \<longrightarrow> int i + int (length sub) \<le> n)"
proof (cases "n < 0")
  case True
  then show ?thesis by (simp add: find_str_def find_from.simps [of s n sub 0])
next
  case False
  then have "find_str s n sub = Inr (first_occ sub (take (nat n) s))" using assms by (intro fs.find_first) simp_all
  then show ?thesis using find_str_Some [of s n sub] by auto
qed

lemma skip_space_in:
  assumes "len \<le> int (length s)"
  shows "\<exists>j. skip_space s len = Inr j \<and> int j \<le> max 0 len"
proof (cases "len \<le> 0")
  case True
  then show ?thesis by (simp add: skip_space_def skip_char_nonpos)
next
  case False
  have "length (takeWhile P (take (nat len) s)) \<le> nat len" for P
    using length_takeWhile_le [of P "take (nat len) s"] by simp
  then show ?thesis using False assms by (simp add: skip_space_def skip_char_spec le_nat_iff)
qed

lemma strip_char_in:
  assumes "0 \<le> len" and "len \<le> int (length s)"
  shows "\<exists>x. strip_char s len ch = Inr x \<and> - 1 \<le> x \<and> x \<le> len - 1"
proof -
  have "length (dropWhile (\<lambda>c. c = ch) (rev (take (nat len) s))) \<le> nat len"
    using length_dropWhile_le [of "\<lambda>c. c = ch" "rev (take (nat len) s)"] by simp
  then have "int (length (dropWhile (\<lambda>c. c = ch) (rev (take (nat len) s)))) \<le> len" using assms(1) by linarith
  then show ?thesis using assms by (simp add: strip_char_spec)
qed

lemma cmp_str2_in:
  assumes "n2 < 512" and "nat n2 \<le> length q" and "n1 \<le> int (length p)"
  shows "\<exists>v. cmp_str2 p n1 q n2 = Inr v \<and> (v = 0 \<longleftrightarrow> n2 \<le> n1 \<and> take (nat n2) p = take (nat n2) q)"
proof (cases "n1 < n2")
  case True
  then show ?thesis by (simp add: cmp_str2_def)
next
  case False
  then show ?thesis using cmp_str_short [of n2 p q] assms by (auto simp: cmp_str2_def nat_le_iff)
qed

lemma key_is_in:
  assumes "length name < 512" and "k1e < length s" and "k1 \<le> k1e"
  shows "key_is s k1 k1e name = Inr (length name \<le> k1e - k1 + 1 \<and> take (length name) (drop k1 s) = name)"
proof -
  have "int k1e - int k1 + 1 \<le> int (length (drop k1 s))" using assms(2,3) by simp
  then obtain v where v: "cmp_str2 (drop k1 s) (int k1e - int k1 + 1) name (int (length name)) = Inr v"
    "v = 0 \<longleftrightarrow> int (length name) \<le> int k1e - int k1 + 1 \<and> take (length name) (drop k1 s) = name"
    using cmp_str2_in [of "int (length name)" name "int k1e - int k1 + 1" "drop k1 s"] assms(1) by auto
  have "int (length name) \<le> int k1e - int k1 + 1 \<longleftrightarrow> length name \<le> k1e - k1 + 1" using assms(3) by linarith
  then show ?thesis using v by (simp add: key_is_def)
qed

lemmas header_names = HOST_STR_def UA_STR_def COOKIE_STR_def REFER_STR_def ACCEPT_STR_def ACC_CHARSET_STR_def
  ACC_ENCODE_STR_def ACC_LANG_STR_def

lemma header_name_lengths:
  "length HOST_STR = 4" "length UA_STR = 10" "length COOKIE_STR = 6" "length REFER_STR = 7" "length ACCEPT_STR = 6"
  "length ACC_CHARSET_STR = 14" "length ACC_ENCODE_STR = 15" "length ACC_LANG_STR = 15"
  by (simp_all add: header_names lit_def)

lemma add_header_in:
  assumes "k1 \<le> k1e" and "k1e < length s" and "int k2 \<le> k2e + 1" and "k2e < n" and "n \<le> int (length s)" and "fields_in n r"
  shows "\<exists>c r'. add_header s k1 k1e k2 k2e r = Inr (c, r') \<and> fields_in n r'"
proof -
  have k: "length name < 512 \<Longrightarrow> \<exists>b. key_is s k1 k1e name = Inr b" for name
    using key_is_in [OF _ assms(2,1)] by blast
  obtain b1 b2 b3 b4 b5 b6 b7 b8 where b: "key_is s k1 k1e ACC_LANG_STR = Inr b1" "key_is s k1 k1e ACC_ENCODE_STR = Inr b2"
    "key_is s k1 k1e ACC_CHARSET_STR = Inr b3" "key_is s k1 k1e ACCEPT_STR = Inr b4" "key_is s k1 k1e COOKIE_STR = Inr b5"
    "key_is s k1 k1e HOST_STR = Inr b6" "key_is s k1 k1e REFER_STR = Inr b7" "key_is s k1 k1e UA_STR = Inr b8"
    using k [of ACC_LANG_STR] k [of ACC_ENCODE_STR] k [of ACC_CHARSET_STR] k [of ACCEPT_STR] k [of COOKIE_STR] k [of HOST_STR]
      k [of REFER_STR] k [of UA_STR] by (auto simp: header_name_lengths)
  obtain p where p: "find_str (drop k2 s) (k2e - int k2) [0x2F] = Inr p" "\<forall>i. p = Some i \<longrightarrow> int i + 1 \<le> k2e - int k2"
    using find_str_in [of "[0x2F]" "k2e - int k2" "drop k2 s"] assms(3-5) by auto
  have w: "within n (c_string_set (Some k2) (k2e - int k2 + 1))" using assms(3,4) by simp
  show ?thesis
    using assms(1,2,4,6) w p(2)
    by (cases p) (auto simp: add_header_def Let_def b p(1) fields_in_iff)
qed

lemma header_line_in:
  assumes "le < n" and "n \<le> int (length s)" and "fields_in n r"
  shows "\<exists>x. header_line s b le r = Inr x \<and> (\<forall>r'. x = Some r' \<longrightarrow> fields_in n r')"
proof (cases "le \<le> int b")
  case True
  then show ?thesis by (simp add: header_line_def)
next
  case False
  obtain p where p: "find_str (drop b s) (le - int b) HDR_KV_SEP = Inr p" "\<forall>i. p = Some i \<longrightarrow> int i + 1 \<le> le - int b"
    using find_str_in [of HDR_KV_SEP "le - int b" "drop b s"] assms(1,2) False by (auto simp: HDR_KV_SEP_def)
  show ?thesis
  proof (cases "p = None \<or> p = Some 0")
    case True
    then show ?thesis using False p(1) by (auto simp: header_line_def)
  next
    case npos: False
    then obtain i where i: "p = Some i" "i \<noteq> 0" "int i + 1 \<le> le - int b" using p(2) by (cases p) auto
    let ?p = "b + i + 1"
    obtain j where j: "skip_space (drop ?p s) (le - int ?p) = Inr j" "int j \<le> max 0 (le - int ?p)"
      using skip_space_in [of "le - int ?p" "drop ?p s"] assms(1,2) i(3) by auto
    let ?k = "?p + j"
    have k: "0 \<le> le - int ?k" "le - int ?k \<le> int (length (drop ?k s))" using j(2) i(3) assms(1,2) by auto
    obtain x where x: "strip_char (drop ?k s) (le - int ?k) 0x20 = Inr x" "- 1 \<le> x" "x \<le> le - int ?k - 1"
      using strip_char_in [OF k] by blast
    obtain c r' where a: "add_header s b (b + i) ?k (int ?k + x) r = Inr (c, r')" "fields_in n r'"
      using add_header_in [of b "b + i" s ?k "int ?k + x" n r] x(2,3) i(3) assms by auto
    have "header_line s b le r = Inr (Some r')"
      unfolding header_line_def using False p(1) i(1,2) j(1) x(1) a(1) by (simp add: Let_def add.assoc)
    then show ?thesis using a(2) by simp
  qed
qed

lemma header_loop_in:
  assumes "data_end < n" and "n \<le> int (length s)" and "fields_in n r" and "int (le + 2) \<le> data_end + 1"
  shows "\<exists>r'. header_loop s data_end le r = Inr r' \<and> fields_in n r'"
  using assms(3,4)
proof (induction "nat (data_end - int le)" arbitrary: le r rule: less_induct)
  case less
  obtain j where j: "skip_space (drop (le + 2) s) (data_end - int (le + 2)) = Inr j" "int j \<le> max 0 (data_end - int (le + 2))"
    using skip_space_in [of "data_end - int (le + 2)" "drop (le + 2) s"] less.prems(2) assms(1,2) by auto
  let ?b = "le + 2 + j"
  obtain p where p: "find_str (drop ?b s) (data_end - int ?b) CR_STR = Inr p" "\<forall>i. p = Some i \<longrightarrow> int i + 2 \<le> data_end - int ?b"
    using find_str_in [of CR_STR "data_end - int ?b" "drop ?b s"] assms(1,2) j(2) less.prems(2) by (auto simp: CR_STR_def)
  show ?case
  proof (cases p)
    case None
    obtain x where x: "header_line s ?b data_end r = Inr x" "\<forall>r'. x = Some r' \<longrightarrow> fields_in n r'"
      using header_line_in [OF assms(1,2) less.prems(1)] by blast
    show ?thesis
      using j(1) p(1) None x less.prems(1)
      by (subst header_loop.simps) (cases x; simp add: Let_def add.assoc)
  next
    case (Some i)
    have le: "int (?b + i) < n" "int (?b + i + 2) \<le> data_end + 1" "nat (data_end - int (?b + i)) < nat (data_end - int le)"
      using p(2) Some assms(1) by auto
    obtain x where x: "header_line s ?b (int (?b + i)) r = Inr x" "\<forall>r'. x = Some r' \<longrightarrow> fields_in n r'"
      using header_line_in [OF le(1) assms(2) less.prems(1)] by blast
    show ?thesis
    proof (cases x)
      case None
      then show ?thesis
        using j(1) p(1) Some x(1) less.prems(1) by (subst header_loop.simps) (simp add: Let_def add.assoc)
    next
      case (Some r1)
      obtain r2 where "header_loop s data_end (?b + i) r1 = Inr r2" "fields_in n r2"
        using less.hyps [OF le(3) _ le(2)] x(2) Some by blast
      then show ?thesis
        using j(1) p(1) \<open>p = Some i\<close> x(1) Some by (subst header_loop.simps) (simp add: Let_def add.assoc)
    qed
  qed
qed

lemma parse_version_in:
  assumes "k \<le> le" and "le \<le> length s"
  shows "\<exists>v. parse_version s k le = Inr v"
proof -
  have "length HTTPV11_STR = 8" "length HTTPV10_STR = 8" by (simp_all add: HTTPV11_STR_def HTTPV10_STR_def lit_def)
  then show ?thesis
    using cmp_str2_in [of 8 HTTPV11_STR "int le - int k" "drop k s"] cmp_str2_in [of 8 HTTPV10_STR "int le - int k" "drop k s"] assms
    by (auto simp: parse_version_def)
qed

text \<open>C32. On every input the request parser returns, reads nothing outside the data and sets every field to a part
  of the data.\<close>

theorem http_parser_stays_in_data:
  assumes "data_len \<le> int (length s)" and "fields_in data_len r"
  shows "\<exists>c r'. http_req_header_parser r s data_len = Inr (c, r') \<and> fields_in data_len r'"
proof -
  let ?e = "data_len - 1"
  obtain l where l: "find_str s ?e CR_STR = Inr l" "\<forall>i. l = Some i \<longrightarrow> int i + 2 \<le> ?e"
    using find_str_in [of CR_STR ?e s] assms(1) by (auto simp: CR_STR_def)
  show ?thesis
  proof (cases "l = None \<or> l = Some 0")
    case True
    then show ?thesis using l(1) assms(2) by (auto simp: http_req_header_parser_def)
  next
    case False
    then obtain le where le: "l = Some le" "le \<noteq> 0" "int le + 2 \<le> ?e" using l(2) by (cases l) auto
    obtain c where c: "cmp_str2 s (int le) METHOD_GET_STR 3 = Inr c" "c = 0 \<longrightarrow> 3 \<le> int le"
      using cmp_str2_in [of 3 METHOD_GET_STR "int le" s] le(3) assms(1) by (auto simp: METHOD_GET_STR_def lit_def)
    let ?r1 = "r\<lparr>req_method := METHOD_GET\<rparr>"
    have f1: "fields_in data_len ?r1" using assms(2) by (simp add: fields_in_iff)
    show ?thesis
    proof (cases "c = 0")
      case False
      then show ?thesis using l(1) le(1,2) c(1) assms(2) by (simp add: http_req_header_parser_def)
    next
      case True
      obtain j where j: "skip_space (drop 3 s) (int le - 3) = Inr j" "int j \<le> max 0 (int le - 3)"
        using skip_space_in [of "int le - 3" "drop 3 s"] le(3) assms(1) by auto
      let ?k = "3 + j"
      obtain e where e: "find_str (drop ?k s) (int le - 1 - int ?k) SP_STR = Inr e" "\<forall>i. e = Some i \<longrightarrow> int i + 1 \<le> int le - 1 - int ?k"
        using find_str_in [of SP_STR "int le - 1 - int ?k" "drop ?k s"] le(3) assms(1) j(2) by (auto simp: SP_STR_def)
      show ?thesis
      proof (cases "e = None \<or> e = Some 0")
        case none: True
        then show ?thesis
          using l(1) le(1,2) c(1) True j(1) e(1) f1 by (auto simp: http_req_header_parser_def Let_def)
      next
        case False
        then obtain i where i: "e = Some i" "i \<noteq> 0" "int i + 1 \<le> int le - 1 - int ?k" using e(2) by (cases e) auto
        let ?r2 = "?r1\<lparr>uri := c_string_set (Some ?k) (int i)\<rparr>" and ?k2 = "?k + i"
        have f2: "fields_in data_len ?r2" using f1 i(3) le(3) by (simp add: fields_in_iff)
        obtain j2 where j2: "skip_space (drop ?k2 s) (int le - int ?k2) = Inr j2" "int j2 \<le> max 0 (int le - int ?k2)"
          using skip_space_in [of "int le - int ?k2" "drop ?k2 s"] le(3) assms(1) i(3) by auto
        have k3: "?k2 + j2 \<le> le" "le \<le> length s" using j2(2) i(3) le(3) assms(1) by auto
        obtain v where v: "parse_version s (?k2 + j2) le = Inr v" using parse_version_in [OF k3] by blast
        note line = l(1) le(1,2) c(1) True j(1) e(1) i(1,2) j2(1) v
        show ?thesis
        proof (cases v)
          case None
          then show ?thesis using line f2 by (simp add: http_req_header_parser_def Let_def)
        next
          case (Some w)
          obtain r3 where "header_loop s ?e le (?r2\<lparr>version := w\<rparr>) = Inr r3" "fields_in data_len r3"
            using header_loop_in [of ?e data_len s "?r2\<lparr>version := w\<rparr>" le] assms(1) f2 le(3) by (auto simp: fields_in_iff)
          then show ?thesis using line Some by (simp add: http_req_header_parser_def Let_def)
        qed
      qed
    qed
  qed
qed

section \<open>Requests\<close>

definition starts :: "bytes \<Rightarrow> bytes \<Rightarrow> bool" where
  "starts name k \<longleftrightarrow> take (length name) k = name"

text \<open>The field a header belongs to, by the beginning of its name.\<close>

definition header_field :: "bytes \<Rightarrow> field option" where
  "header_field k =
     (if starts ACC_LANG_STR k then Some Accept_Lang
      else if starts ACC_ENCODE_STR k then Some Accept_Encode
      else if starts ACC_CHARSET_STR k then Some Accept_Charset
      else if starts ACCEPT_STR k then Some Accept
      else if starts COOKIE_STR k then Some Cookie
      else if starts HOST_STR k then Some Host
      else if starts REFER_STR k then Some Refer_Host
      else if starts UA_STR k then Some Agent
      else None)"

text \<open>What a header does to the texts of the fields: a referer is cut at its first slash.\<close>

definition set_header :: "bytes \<times> bytes \<Rightarrow> (field \<Rightarrow> bytes option) \<Rightarrow> field \<Rightarrow> bytes option" where
  "set_header kv m =
     (case header_field (fst kv) of
        None \<Rightarrow> m
      | Some f \<Rightarrow>
          if f = Refer_Host then
            (case first_occ [0x2F] (butlast (snd kv)) of
               None \<Rightarrow> m
             | Some i \<Rightarrow> m(Refer_Host := Some (take i (snd kv)), Refer_Uri := Some (drop i (snd kv))))
          else m(f := Some (snd kv)))"

definition texts :: "bytes \<Rightarrow> http_req \<Rightarrow> field \<Rightarrow> bytes option" where
  "texts s r f = text_at s (field_of f r)"

lemma texts_case:
  "texts s r f = text_at s (case f of Host \<Rightarrow> req_host r | Uri \<Rightarrow> uri r | Agent \<Rightarrow> ua r | Cookie \<Rightarrow> cookie r
     | Refer_Uri \<Rightarrow> refer_uri r | Refer_Host \<Rightarrow> refer_host r | Accept \<Rightarrow> accept r | Accept_Charset \<Rightarrow> accept_charset r
     | Accept_Encode \<Rightarrow> accept_encode r | Accept_Lang \<Rightarrow> accept_lang r)"
  by (cases f) (simp_all add: texts_def)

lemma texts_upd:
  "texts s (r\<lparr>req_host := v\<rparr>) = (texts s r)(Host := text_at s v)" "texts s (r\<lparr>uri := v\<rparr>) = (texts s r)(Uri := text_at s v)"
  "texts s (r\<lparr>ua := v\<rparr>) = (texts s r)(Agent := text_at s v)" "texts s (r\<lparr>cookie := v\<rparr>) = (texts s r)(Cookie := text_at s v)"
  "texts s (r\<lparr>refer_uri := v\<rparr>) = (texts s r)(Refer_Uri := text_at s v)"
  "texts s (r\<lparr>refer_host := v\<rparr>) = (texts s r)(Refer_Host := text_at s v)"
  "texts s (r\<lparr>accept := v\<rparr>) = (texts s r)(Accept := text_at s v)"
  "texts s (r\<lparr>accept_charset := v\<rparr>) = (texts s r)(Accept_Charset := text_at s v)"
  "texts s (r\<lparr>accept_encode := v\<rparr>) = (texts s r)(Accept_Encode := text_at s v)"
  "texts s (r\<lparr>accept_lang := v\<rparr>) = (texts s r)(Accept_Lang := text_at s v)"
  "texts s (r\<lparr>req_method := m\<rparr>) = texts s r" "texts s (r\<lparr>version := m\<rparr>) = texts s r"
  by (rule ext, simp add: texts_case split: field.split)+

lemma take_colon:
  assumes "0x3A \<notin> set name"
  shows "length name \<le> length k + 1 \<and> take (length name) (k @ 0x3A # b) = name \<longleftrightarrow> starts name k"
proof
  assume *: "length name \<le> length k + 1 \<and> take (length name) (k @ 0x3A # b) = name"
  have "length name \<noteq> Suc (length k)"
  proof
    assume l: "length name = Suc (length k)"
    then have "name = k @ [0x3A]" using * by simp
    then show False using assms by (metis in_set_conv_decomp)
  qed
  then have "length name \<le> length k" using * by simp
  then show "starts name k" using * by (simp add: starts_def)
next
  assume "starts name k"
  then have t: "take (length name) k = name" by (simp add: starts_def)
  then have "length name \<le> length k" by (metis length_take min.cobounded1)
  then show "length name \<le> length k + 1 \<and> take (length name) (k @ 0x3A # b) = name" using t by simp
qed

lemma starts_hd: "name \<noteq> [] \<Longrightarrow> starts name k \<Longrightarrow> hd k = hd name"
  unfolding starts_def by (metis hd_take length_greater_0_conv)

lemma header_names_plain:
  "0x3A \<notin> set HOST_STR" "0x3A \<notin> set UA_STR" "0x3A \<notin> set COOKIE_STR" "0x3A \<notin> set REFER_STR" "0x3A \<notin> set ACCEPT_STR"
  "0x3A \<notin> set ACC_CHARSET_STR" "0x3A \<notin> set ACC_ENCODE_STR" "0x3A \<notin> set ACC_LANG_STR"
  by (simp_all add: header_names lit_def chr8_def)

lemma header_names_hd:
  "starts HOST_STR k \<Longrightarrow> hd k = 0x48" "starts UA_STR k \<Longrightarrow> hd k = 0x55" "starts COOKIE_STR k \<Longrightarrow> hd k = 0x43"
  "starts REFER_STR k \<Longrightarrow> hd k = 0x52" "starts ACCEPT_STR k \<Longrightarrow> hd k = 0x41" "starts ACC_CHARSET_STR k \<Longrightarrow> hd k = 0x41"
  "starts ACC_ENCODE_STR k \<Longrightarrow> hd k = 0x41" "starts ACC_LANG_STR k \<Longrightarrow> hd k = 0x41"
  by (drule starts_hd [rotated]; simp add: header_names lit_def chr8_def)+

lemma add_header_texts:
  assumes "s = a @ k @ 0x3A # b" and "s = c @ v @ z" and "k \<noteq> []" and "n = int (length c) + int (length v) - 1"
  shows "\<exists>code r'. add_header s (length a) (length a + length k) (length c) n r = Inr (code, r')
    \<and> texts s r' = set_header (k, v) (texts s r) \<and> req_method r' = req_method r \<and> version r' = version r"
proof -
  have key: "key_is s (length a) (length a + length k) name = Inr (starts name k)" if "length name < 512" "0x3A \<notin> set name" for name
    using key_is_in [OF that(1), of "length a + length k" s "length a"] take_colon [OF that(2), of k b] assms(1) by simp
  note keys = key [OF _ header_names_plain(1)] key [OF _ header_names_plain(2)] key [OF _ header_names_plain(3)] key [OF _ header_names_plain(4)]
    key [OF _ header_names_plain(5)] key [OF _ header_names_plain(6)] key [OF _ header_names_plain(7)] key [OF _ header_names_plain(8)]
  have rd: "rd s (length a) = Inr (hd k)" using assms(1,3) by (cases k) (simp_all add: nth_append)
  have val: "text_at s (c_string_set (Some (length c)) (n - int (length c) + 1)) = Some v" using assms(2,4) by simp
  have "find_str (drop (length c) s) (n - int (length c)) [0x2F] = Inr (first_occ [0x2F] (butlast v))"
  proof (cases "v = []")
    case True
    then show ?thesis using assms(4) by (simp add: find_str_def find_from.simps [of _ "- 1"] first_occ_Nil)
  next
    case False
    then have l: "n - int (length c) = int (length v - 1)" using assms(4) by (cases v) simp_all
    have "take (length v - 1) (v @ z) = butlast v" by (simp add: butlast_conv_take)
    then show ?thesis using assms(2) fs.find_first [of "[0x2F]" "n - int (length c)" "v @ z"] unfolding l by simp
  qed
  moreover have "i \<le> length v" if "first_occ [0x2F] (butlast v) = Some i" for i
  proof -
    have "i + 1 \<le> length (butlast v)" using first_occ_SomeD [OF that] by simp
    then show ?thesis by simp
  qed
  ultimately show ?thesis
    using rd val keys header_names_hd [of k] assms(2,4)
    by (auto simp: add_header_def Let_def header_name_lengths set_header_def header_field_def texts_upd split: option.split)
qed

text \<open>A header line, and the requests with the given URI and headers.\<close>

definition hdr_ok :: "bytes \<times> bytes \<Rightarrow> bool" where
  "hdr_ok kv \<longleftrightarrow> (case kv of (k, v) \<Rightarrow> k \<noteq> [] \<and> hd k \<noteq> 0x20 \<and> 0x3A \<notin> set k \<and> 0x0D \<notin> set k \<and> 0x0D \<notin> set v
     \<and> (v \<noteq> [] \<longrightarrow> hd v \<noteq> 0x20 \<and> last v \<noteq> 0x20))"

definition hdr_line :: "bytes \<times> bytes \<Rightarrow> bytes" where
  "hdr_line kv = fst kv @ 0x3A # 0x20 # snd kv @ [0x0D, 0x0A]"

definition hdr_lines :: "(bytes \<times> bytes) list \<Rightarrow> bytes" where
  "hdr_lines hs = concat (map hdr_line hs)"

definition request_text :: "bytes \<Rightarrow> (bytes \<times> bytes) list \<Rightarrow> bytes" where
  "request_text u hs = METHOD_GET_STR @ 0x20 # u @ 0x20 # HTTPV11_STR @ 0x0D # 0x0A # hdr_lines hs @ [0x0D, 0x0A]"

definition uri_ok :: "bytes \<Rightarrow> bool" where
  "uri_ok u \<longleftrightarrow> u \<noteq> [] \<and> 0x20 \<notin> set u \<and> 0x0D \<notin> set u"

lemma first_cr: "0x0D \<notin> set x \<Longrightarrow> first_occ CR_STR (x @ 0x0D # 0x0A # t) = Some (length x)"
proof -
  assume x: "0x0D \<notin> set x"
  have "take (length CR_STR) (drop j (x @ 0x0D # 0x0A # t)) \<noteq> CR_STR" if "j < length x" for j
  proof -
    have "drop j (x @ 0x0D # 0x0A # t) = x ! j # drop (Suc j) x @ 0x0D # 0x0A # t"
      using that by (simp add: Cons_nth_drop_Suc [symmetric])
    moreover have "x ! j \<noteq> 0x0D" using x that nth_mem by metis
    ultimately show ?thesis by (simp add: CR_STR_def numeral_2_eq_2)
  qed
  then have "first_occ CR_STR (x @ 0x0D # 0x0A # t) = map_option ((+) (length x)) (first_occ CR_STR (0x0D # 0x0A # t))"
    by (rule first_occ_skip)
  then show ?thesis using first_occ_hit [of CR_STR t] by (simp add: CR_STR_def)
qed

lemma find_cr:
  assumes "0x0D \<notin> set x" and "int (length x) + 2 \<le> n" and "n \<le> int (length x + 2 + length t)"
  shows "find_str (x @ 0x0D # 0x0A # t) n CR_STR = Inr (Some (length x))"
proof -
  obtain m where n: "n = int (length x + 2 + m)" using assms(2) by (metis nat_0_le of_nat_add of_nat_numeral zle_iff_zadd)
  have "take (nat n) (x @ 0x0D # 0x0A # t) = x @ 0x0D # 0x0A # take m t"
  proof -
    have "nat n = length x + Suc (Suc m)" using n by simp
    then show ?thesis by (simp del: nat_eq_iff)
  qed
  then show ?thesis using fs.find_first [of CR_STR n "x @ 0x0D # 0x0A # t"] assms(3) first_cr [OF assms(1)] by (simp add: n CR_STR_def)
qed

lemma skip_none: "x \<noteq> [] \<Longrightarrow> hd x \<noteq> 0x20 \<Longrightarrow> n \<le> int (length x) \<Longrightarrow> skip_space x n = Inr 0"
  by (cases x; cases "n \<le> 0") (auto simp: skip_space_def skip_char_nonpos skip_char_spec chr8_def takeWhile_eq_Nil_iff hd_take)

lemma skip_one:
  assumes "x \<noteq> [] \<longrightarrow> hd x \<noteq> 0x20" and "0 < n" and "n \<le> int (length x) + 1"
  shows "skip_space (0x20 # x) n = Inr 1"
proof -
  have "take (nat n) (0x20 # x) = 0x20 # take (nat n - 1) x" using assms(2) by (cases "nat n") auto
  moreover have "takeWhile (\<lambda>c. c = 0x20) (take (nat n - 1) x) = []" using assms(1) by (cases x) (auto simp: takeWhile_eq_Nil_iff hd_take)
  ultimately show ?thesis using assms(2,3) by (simp add: skip_space_def skip_char_spec chr8_def)
qed

lemma strip_none:
  assumes "v \<noteq> [] \<longrightarrow> last v \<noteq> ch"
  shows "strip_char (v @ z) (int (length v)) ch = Inr (int (length v) - 1)"
proof -
  have "dropWhile (\<lambda>c. c = ch) (rev v) = rev v" using assms by (cases v rule: rev_cases) auto
  then show ?thesis by (simp add: strip_char_spec)
qed

lemma header_line_ok:
  assumes "s = a @ fst kv @ 0x3A # 0x20 # snd kv @ 0x0D # t" and "hdr_ok kv"
  shows "\<exists>r'. header_line s (length a) (int (length a + length (fst kv) + 2 + length (snd kv))) r = Inr (Some r')
    \<and> texts s r' = set_header kv (texts s r) \<and> req_method r' = req_method r \<and> version r' = version r"
proof -
  obtain k v where kv: "kv = (k, v)" by (cases kv)
  let ?n = "length a + length k" and ?le = "length a + length k + 2 + length v"
  have k: "k \<noteq> []" "hd k \<noteq> 0x20" "0x3A \<notin> set k" and v: "v \<noteq> [] \<longrightarrow> hd v \<noteq> 0x20 \<and> last v \<noteq> 0x20"
    using assms(2) kv by (auto simp: hdr_ok_def)
  have s: "s = a @ k @ 0x3A # (0x20 # v @ 0x0D # t)" "s = (a @ k @ [0x3A, 0x20]) @ v @ 0x0D # t" using assms(1) kv by simp_all
  have d: "drop (length a) s = k @ 0x3A # (0x20 # v @ 0x0D # t)" "drop (Suc ?n) s = 0x20 # v @ 0x0D # t"
    "drop (Suc (Suc ?n)) s = v @ 0x0D # t" using s(1) by simp_all
  have f: "find_str (drop (length a) s) (int ?le - int (length a)) HDR_KV_SEP = Inr (Some (length k))"
  proof -
    have "take (nat (int ?le - int (length a))) (k @ 0x3A # (0x20 # v @ 0x0D # t)) = k @ 0x3A # 0x20 # v"
    proof -
      have "nat (int ?le - int (length a)) = length k + Suc (Suc (length v))" by simp
      then show ?thesis by (simp del: nat_eq_iff)
    qed
    then show ?thesis
      using fs.find_first [of HDR_KV_SEP "int ?le - int (length a)" "k @ 0x3A # (0x20 # v @ 0x0D # t)"]
        first_occ_single_append [OF k(3), of "0x20 # v"] unfolding d by (simp add: HDR_KV_SEP_def)
  qed
  have j: "skip_space (drop (Suc ?n) s) (int ?le - int (Suc ?n)) = Inr 1"
    using skip_one [of "v @ 0x0D # t" "int ?le - int (Suc ?n)"] v unfolding d by (cases v) simp_all
  have x: "strip_char (drop (Suc (Suc ?n)) s) (int ?le - int (Suc (Suc ?n))) 0x20 = Inr (int (length v) - 1)"
    using strip_none [of v "0x20" "0x0D # t"] v unfolding d by simp
  obtain code r' where a: "add_header s (length a) ?n (Suc (Suc ?n)) (int (Suc (Suc ?n)) + (int (length v) - 1)) r = Inr (code, r')"
    "texts s r' = set_header kv (texts s r)" "req_method r' = req_method r" "version r' = version r"
    using add_header_texts [OF s k(1), of _ r] unfolding kv by fastforce
  have "header_line s (length a) (int ?le) r = Inr (Some r')"
    unfolding header_line_def using f j x a(1) k(1) by (simp add: Let_def algebra_simps)
  then show ?thesis using a(2-4) kv by (simp add: algebra_simps)
qed

lemma header_line_none:
  assumes "0x3A \<notin> set x" and "le \<le> int b + int (length x)" and "drop b s = x @ y"
  shows "header_line s b le r = Inr None"
proof (cases "le \<le> int b")
  case True
  then show ?thesis by (simp add: header_line_def)
next
  case False
  have "take (nat (le - int b)) (x @ y) = take (nat (le - int b)) x" using assms(2) by simp
  then have "find_str (drop b s) (le - int b) HDR_KV_SEP = Inr None"
    using fs.find_first [of HDR_KV_SEP "le - int b" "drop b s"] assms False
    by (auto simp: HDR_KV_SEP_def first_occ_single nat_le_iff dest: in_set_takeD)
  then show ?thesis using False by (simp add: header_line_def)
qed

text \<open>The lines of \<open>hs\<close> and the empty line after them are read; \<open>body\<close> is what the data holds behind.\<close>

lemma header_loop_ok:
  assumes "s = a @ hdr_lines hs @ 0x0D # 0x0A # body @ z" and "\<forall>kv\<in>set hs. hdr_ok kv" and "length a = le + 2"
    and "data_end = int (length a + length (hdr_lines hs) + 1 + length body)"
  shows "\<exists>r'. header_loop s data_end le r = Inr r' \<and> texts s r' = fold set_header hs (texts s r)
    \<and> req_method r' = req_method r \<and> version r' = version r"
  using assms
proof (induction hs arbitrary: a le r)
  case Nil
  let ?b = "length a"
  have d: "drop ?b s = 0x0D # 0x0A # body @ z" using Nil(1) by (simp add: hdr_lines_def)
  have j: "skip_space (drop ?b s) (data_end - int ?b) = Inr 0"
    unfolding d by (rule skip_none) (use Nil(4) in \<open>simp_all add: hdr_lines_def\<close>)
  have none: "header_line s ?b e r = Inr None" if "e \<le> int ?b + 1" for e
    using header_line_none [of "[0x0D]" e ?b s] that d by simp
  show ?case
  proof (cases body)
    case B: Nil
    have "find_str (drop ?b s) (data_end - int ?b) CR_STR = Inr None"
      using Nil(4) B by (simp add: find_str_def find_from.simps [of _ 1] CR_STR_def hdr_lines_def)
    then show ?thesis
      using j none [of data_end] Nil(3,4) B by (subst header_loop.simps) (simp add: Let_def hdr_lines_def)
  next
    case (Cons x xs)
    have "find_str (drop ?b s) (data_end - int ?b) CR_STR = Inr (Some 0)"
      using find_cr [of "[]" "data_end - int ?b" "body @ z"] Nil(4) Cons unfolding d by (simp add: hdr_lines_def)
    then show ?thesis
      using j none [of "int ?b"] Nil(3) by (subst header_loop.simps) (simp add: Let_def)
  qed
next
  case (Cons kv hs)
  obtain k v where kv: "kv = (k, v)" by (cases kv)
  have ok: "hdr_ok (k, v)" using Cons.prems(2) kv by simp
  have k: "k \<noteq> []" "hd k \<noteq> 0x20" "0x0D \<notin> set k" "0x0D \<notin> set v" using ok by (auto simp: hdr_ok_def)
  let ?b = "length a" and ?x = "k @ 0x3A # 0x20 # v" and ?t = "hdr_lines hs @ 0x0D # 0x0A # body @ z"
  let ?i = "length k + 2 + length v"
  have s: "s = a @ ?x @ 0x0D # 0x0A # ?t" using Cons.prems(1) kv by (simp add: hdr_lines_def hdr_line_def)
  have d: "drop ?b s = ?x @ 0x0D # 0x0A # ?t" using s by simp
  have e: "data_end - int ?b = int (length ?x + 2 + (length (hdr_lines hs) + 1 + length body))"
    using Cons.prems(4) kv by (simp add: hdr_lines_def hdr_line_def)
  have j: "skip_space (drop ?b s) (data_end - int ?b) = Inr 0"
    unfolding d e by (rule skip_none) (use k in simp_all)
  have f: "find_str (drop ?b s) (data_end - int ?b) CR_STR = Inr (Some ?i)"
    using find_cr [of ?x "data_end - int ?b" ?t] k(3,4) unfolding d e by simp
  obtain r1 where r1: "header_line s ?b (int (?b + length k + 2 + length v)) r = Inr (Some r1)"
    "texts s r1 = set_header kv (texts s r)" "req_method r1 = req_method r" "version r1 = version r"
    using header_line_ok [of s a kv "0x0A # ?t" r] s ok kv by auto
  obtain r2 where r2: "header_loop s data_end (?b + ?i) r1 = Inr r2" "texts s r2 = fold set_header hs (texts s r1)"
    "req_method r2 = req_method r1" "version r2 = version r1"
    using Cons.IH [of "a @ ?x @ [0x0D, 0x0A]" "?b + ?i" r1] s Cons.prems(2,4) kv by (auto simp: hdr_lines_def hdr_line_def)
  have "header_loop s data_end le r = Inr r2"
    using j f r1(1) r2(1) Cons.prems(3) by (subst header_loop.simps) (simp add: Let_def algebra_simps)
  then show ?case using r1(2-4) r2(2-4) by simp
qed

text \<open>The whole request.\<close>

lemma request_read:
  assumes "uri_ok u" and "\<forall>kv\<in>set hs. hdr_ok kv"
  shows "\<exists>r'. http_req_header_parser r (request_text u hs @ body @ z) (int (length (request_text u hs @ body))) = Inr (F1G_OK, r')
    \<and> req_method r' = METHOD_GET \<and> version r' = HTTPV11
    \<and> texts (request_text u hs @ body @ z) r' = fold set_header hs ((texts (request_text u hs @ body @ z) r)(Uri := Some u))"
proof -
  define s where "s = request_text u hs @ body @ z"
  define rest where "rest = hdr_lines hs @ 0x0D # 0x0A # body @ z"
  define e where "e = int (length (request_text u hs @ body)) - 1"
  have l: "METHOD_GET_STR = [0x47, 0x45, 0x54]" "HTTPV11_STR = [0x48, 0x54, 0x54, 0x50, 0x2F, 0x31, 0x2E, 0x31]"
    by (simp_all add: METHOD_GET_STR_def HTTPV11_STR_def lit_def chr8_def)
  let ?line = "[0x47, 0x45, 0x54, 0x20] @ u @ [0x20, 0x48, 0x54, 0x54, 0x50, 0x2F, 0x31, 0x2E, 0x31]"
  have s: "s = ?line @ 0x0D # 0x0A # rest" by (simp add: s_def rest_def request_text_def l)
  have u: "u \<noteq> []" "0x20 \<notin> set u" "0x0D \<notin> set u" using assms(1) by (auto simp: uri_ok_def)
  let ?le = "length u + 13"
  have e': "e = int (?le + 2 + length (hdr_lines hs) + 1 + length body)" by (simp add: e_def request_text_def l)
  have f1: "find_str s e CR_STR = Inr (Some ?le)"
    using find_cr [of ?line e rest] u(3) e' unfolding s by (simp add: rest_def)
  have c: "cmp_str2 s (int ?le) METHOD_GET_STR 3 = Inr 0"
    using cmp_str2_in [of 3 METHOD_GET_STR "int ?le" s] by (simp add: s l)
  have d12: "drop 3 s = 0x20 # u @ 0x20 # HTTPV11_STR @ 0x0D # 0x0A # rest" "drop 4 s = u @ 0x20 # HTTPV11_STR @ 0x0D # 0x0A # rest"
    by (simp_all add: s l)
  have "drop (4 + length u) s = drop (length u) (drop 4 s)" "drop (5 + length u) s = drop 1 (drop (length u) (drop 4 s))"
    by (simp_all add: add.commute)
  then have d: "drop 3 s = 0x20 # u @ 0x20 # HTTPV11_STR @ 0x0D # 0x0A # rest" "drop 4 s = u @ 0x20 # HTTPV11_STR @ 0x0D # 0x0A # rest"
    "drop (4 + length u) s = 0x20 # HTTPV11_STR @ 0x0D # 0x0A # rest" "drop (5 + length u) s = HTTPV11_STR @ 0x0D # 0x0A # rest"
    using d12 by simp_all
  have j1: "skip_space (drop 3 s) (int ?le - 3) = Inr 1"
    using skip_one [of "u @ 0x20 # HTTPV11_STR @ 0x0D # 0x0A # rest" "int ?le - 3"] u unfolding d by (cases u) (simp_all add: l)
  have f2: "find_str (drop 4 s) (int ?le - 1 - 4) SP_STR = Inr (Some (length u))"
  proof -
    have "take (nat (int ?le - 1 - 4)) (drop 4 s) = u @ 0x20 # take 7 HTTPV11_STR"
    proof -
      have "nat (int ?le - 1 - 4) = length u + 8" by simp
      then show ?thesis unfolding d l by (simp del: nat_eq_iff)
    qed
    then show ?thesis
      using fs.find_first [of SP_STR "int ?le - 1 - 4" "drop 4 s"] first_occ_single_append [OF u(2)] unfolding d
      by (simp add: SP_STR_def l)
  qed
  have j2: "skip_space (drop (4 + length u) s) (int ?le - int (4 + length u)) = Inr 1"
    using skip_one [of "HTTPV11_STR @ 0x0D # 0x0A # rest" "int ?le - int (4 + length u)"] unfolding d by (simp add: l)
  have v: "parse_version s (5 + length u) ?le = Inr (Some HTTPV11)"
    using cmp_str2_in [of 8 HTTPV11_STR "int ?le - int (5 + length u)" "drop (5 + length u) s"] unfolding d parse_version_def
    by (auto simp: l)
  let ?r = "r\<lparr>req_method := METHOD_GET, uri := c_string_set (Some 4) (int (length u)), version := HTTPV11\<rparr>"
  obtain r' where r': "header_loop s e ?le ?r = Inr r'" "texts s r' = fold set_header hs (texts s ?r)"
    "req_method r' = req_method ?r" "version r' = version ?r"
    using header_loop_ok [of s "?line @ [0x0D, 0x0A]" hs body z ?le e ?r] assms(2) e' by (auto simp: s rest_def)
  have "http_req_header_parser r s (int (length (request_text u hs @ body))) = Inr (F1G_OK, r')"
    using f1 c j1 f2 j2 v r'(1) u(1) unfolding http_req_header_parser_def e_def [symmetric]
    by (simp add: Let_def algebra_simps)
  moreover have "texts s ?r = (texts s r)(Uri := Some u)" by (simp add: texts_upd d)
  ultimately show ?thesis using r'(2-4) unfolding s_def [symmetric] by auto
qed

text \<open>C16. A request with any headers, and any data behind them, is taken apart: the fields are the URI and what the headers set
  one after the other, a header belonging to a field when its name starts with that of the field.\<close>

theorem http_parser_reads_request:
  assumes "uri_ok u" and "\<forall>kv\<in>set hs. hdr_ok kv"
  shows "\<exists>r'. http_req_header_parser r (request_text u hs @ body @ z) (int (length (request_text u hs @ body))) = Inr (F1G_OK, r')
    \<and> req_method r' = METHOD_GET \<and> version r' = HTTPV11
    \<and> texts (request_text u hs @ body @ z) r' = fold set_header hs ((texts (request_text u hs @ body @ z) r)(Uri := Some u))"
  using assms by (rule request_read)

section \<open>Examples\<close>

definition empty_req :: http_req where
  "empty_req = http_req_header_clear \<lparr>version = 0, connection = no_string, status = \<lparr>bits_num = 0, bits = Null\<rparr>, req_method = 0,
      req_host = no_string, uri = no_string, ua = no_string, cookie = no_string, refer_uri = no_string, refer_host = no_string,
      accept = no_string, accept_charset = no_string, accept_encode = no_string, accept_lang = no_string\<rparr>"

lemma empty_req_in: "fields_in n empty_req"
  by (simp add: fields_in_iff empty_req_def http_req_header_clear_def no_string_def within_def)

lemma http_parser_stays_in_data_witness:
  "\<exists>c r'. http_req_header_parser empty_req [0x47, 0x0D] 2 = Inr (c, r') \<and> fields_in 2 r'"
  by (rule http_parser_stays_in_data [OF _ empty_req_in]) simp

definition sample_headers :: "(bytes \<times> bytes) list" where
  "sample_headers = [(lit ''Hostess'', lit ''a.b''), (lit ''Referer'', lit ''http://c/d'')]"

text \<open>A header that is no \<^verbatim>\<open>Host\<close> sets the host, and the host of a referer is its scheme.\<close>

lemma http_parser_reads_request_witness:
  "\<exists>r'. http_req_header_parser empty_req (request_text (lit ''/x'') sample_headers) (int (length (request_text (lit ''/x'') sample_headers)))
      = Inr (F1G_OK, r')
    \<and> text_at (request_text (lit ''/x'') sample_headers) (uri r') = Some (lit ''/x'')
    \<and> text_at (request_text (lit ''/x'') sample_headers) (req_host r') = Some (lit ''a.b'')
    \<and> text_at (request_text (lit ''/x'') sample_headers) (refer_host r') = Some (lit ''http:'')"
proof -
  have "uri_ok (lit ''/x'')" "\<forall>kv\<in>set sample_headers. hdr_ok kv"
    by (simp_all add: uri_ok_def sample_headers_def hdr_ok_def lit_def chr8_def)
  then obtain r' where r': "http_req_header_parser empty_req (request_text (lit ''/x'') sample_headers) (int (length (request_text (lit ''/x'') sample_headers)))
      = Inr (F1G_OK, r')"
    "texts (request_text (lit ''/x'') sample_headers) r'
      = fold set_header sample_headers ((texts (request_text (lit ''/x'') sample_headers) empty_req)(Uri := Some (lit ''/x'')))"
    using http_parser_reads_request [of "lit ''/x''" sample_headers empty_req "[]" "[]"] by auto
  have "header_field (lit ''Hostess'') = Some Host" "header_field (lit ''Referer'') = Some Refer_Host"
    by (simp_all add: header_field_def starts_def header_names lit_def chr8_def)
  moreover have "first_occ [0x2F] (butlast (lit ''http://c/d'')) = Some 5"
    by (simp add: first_occ_single lit_def chr8_def)
  ultimately have "texts (request_text (lit ''/x'') sample_headers) r' Uri = Some (lit ''/x'')"
    "texts (request_text (lit ''/x'') sample_headers) r' Host = Some (lit ''a.b'')"
    "texts (request_text (lit ''/x'') sample_headers) r' Refer_Host = Some (take 5 (lit ''http://c/d''))"
    unfolding r'(2) by (simp_all add: sample_headers_def set_header_def)
  then show ?thesis using r'(1) by (auto simp: texts_def lit_def)
qed

end
