(* ===== verification/Numbers.thy ===== *)
theory Numbers
  imports Prelude
begin

text \<open>
  The part of the C standard library's number conversion the components use: \<^verbatim>\<open>strtol\<close> and its
  relatives on a string, with the 64 bit \<^verbatim>\<open>long\<close> of the platform, and comparison of strings
  without regard to case.
\<close>

definition is_space :: "u8 \<Rightarrow> bool" where
  "is_space c \<longleftrightarrow> c = 0x20 \<or> 9 \<le> c \<and> c \<le> 13"

definition digit_val :: "u8 \<Rightarrow> nat option" where
  "digit_val c =
     (if 0x30 \<le> c \<and> c \<le> 0x39 then Some (unat (c - 0x30))
      else if 0x41 \<le> c \<and> c \<le> 0x5A then Some (unat (c - 0x41) + 10)
      else if 0x61 \<le> c \<and> c \<le> 0x7A then Some (unat (c - 0x61) + 10)
      else None)"

definition is_digit :: "nat \<Rightarrow> u8 \<Rightarrow> bool" where
  "is_digit base c \<longleftrightarrow> (case digit_val c of Some d \<Rightarrow> d < base | None \<Rightarrow> False)"

text \<open>The value of the digits at the front of the string, and what is behind them.\<close>

fun read_digits :: "nat \<Rightarrow> nat \<Rightarrow> bytes \<Rightarrow> nat \<times> bytes" where
  "read_digits base acc [] = (acc, [])"
| "read_digits base acc (c # cs) =
     (if is_digit base c then read_digits base (acc * base + the (digit_val c)) cs else (acc, c # cs))"

fun read_sign :: "bytes \<Rightarrow> bool \<times> bytes" where
  "read_sign [] = (False, [])"
| "read_sign (c # cs) = (if c = 0x2D then (True, cs) else if c = 0x2B then (False, cs) else (False, c # cs))"

text \<open>An optional \<^verbatim>\<open>0x\<close> in front of hexadecimal digits.\<close>

fun skip_0x :: "nat \<Rightarrow> bytes \<Rightarrow> bytes" where
  "skip_0x base (a # b # c # cs) =
     (if base = 16 \<and> a = 0x30 \<and> (b = 0x78 \<or> b = 0x58) \<and> is_digit 16 c then c # cs else a # b # c # cs)"
| "skip_0x base s = s"

text \<open>The value before it is limited to its type, and what \<^verbatim>\<open>endptr\<close> points to.\<close>

definition strto :: "nat \<Rightarrow> bytes \<Rightarrow> int \<times> bytes" where
  "strto base s =
     (let (neg, s2) = read_sign (dropWhile is_space s);
          s3 = skip_0x base s2;
          (v, r) = read_digits base 0 s3 in
      if r = s3 then (0, s) else (if neg then - int v else int v, r))"

definition strtol :: "nat \<Rightarrow> bytes \<Rightarrow> int \<times> bytes" where
  "strtol base s = (let (v, r) = strto base s in (max (- (2 ^ 63)) (min (2 ^ 63 - 1) v), r))"

definition strtoul :: "nat \<Rightarrow> bytes \<Rightarrow> int \<times> bytes" where
  "strtoul base s = (let (v, r) = strto base s in (if \<bar>v\<bar> \<ge> 2 ^ 64 then 2 ^ 64 - 1 else v mod 2 ^ 64, r))"

text \<open>\<^verbatim>\<open>strtol\<close> with any base: base 0 is read off the prefix, and no number is read in a base that is none.\<close>

definition strtol_any :: "int \<Rightarrow> bytes \<Rightarrow> int" where
  "strtol_any base s =
     (let s2 = snd (read_sign (dropWhile is_space s));
          base' = (if base \<noteq> 0 then base else if skip_0x 16 s2 \<noteq> s2 then 16 else if take 1 s2 = [0x30] then 8 else 10) in
      if base' < 2 \<or> base' > 36 then 0 else fst (strtol (nat base') s))"

text \<open>Conversion of a \<^verbatim>\<open>long\<close> to \<^verbatim>\<open>u32_t\<close>.\<close>

definition to_u32 :: "int \<Rightarrow> int" where
  "to_u32 x = x mod 2 ^ 32"

definition lower_case :: "u8 \<Rightarrow> u8" where
  "lower_case c = (if 65 \<le> c \<and> c \<le> 90 then c + 32 else c)"

definition same_case :: "bytes \<Rightarrow> bytes \<Rightarrow> bool" where
  "same_case a b \<longleftrightarrow> map lower_case a = map lower_case b"

text \<open>The C string in a block: the bytes before its first NUL.\<close>

definition cstr :: "bytes \<Rightarrow> bytes run" where
  "cstr m = (if 0 \<in> set m then Inr (takeWhile (\<lambda>c. c \<noteq> 0) m) else Inl OutOfBounds)"

lemma cstr_at: "0 \<notin> set s \<Longrightarrow> cstr (s @ 0 # z) = Inr s"
proof -
  assume "0 \<notin> set s"
  then have "takeWhile (\<lambda>c. c \<noteq> 0) (s @ 0 # z) = s" by (induction s) auto
  then show ?thesis by (simp add: cstr_def)
qed

section \<open>Decimal numerals\<close>

text \<open>The decimal text of a number.\<close>

function dec_text :: "nat \<Rightarrow> bytes" where
  "dec_text n = (if n < 10 then [of_nat (n + 48)] else dec_text (n div 10) @ [of_nat (n mod 10 + 48)])"
  by pat_completeness auto
termination
  by (relation "measure id") auto

declare dec_text.simps [simp del]

definition int_text :: "int \<Rightarrow> bytes" where
  "int_text x = (if x < 0 then 0x2D # dec_text (nat (- x)) else dec_text (nat x))"

lemma digit_char:
  assumes "d < 10"
  shows "digit_val (of_nat (d + 48)) = Some d" "is_digit 10 (of_nat (d + 48))" "(of_nat (d + 48) :: u8) \<noteq> 0"
    "\<not> is_space (of_nat (d + 48))" "(of_nat (d + 48) :: u8) \<noteq> 0x2D" "(of_nat (d + 48) :: u8) \<noteq> 0x2B"
proof -
  define c :: u8 where "c = of_nat (d + 48)"
  have u: "unat c = d + 48" using assms unfolding c_def by (simp add: unat_of_nat del: of_nat_add)
  have "unat (c - 0x30) = d" using u by (simp add: unat_sub word_le_nat_alt)
  then have v: "digit_val c = Some d" using u assms by (simp add: digit_val_def word_le_nat_alt)
  then show "digit_val (of_nat (d + 48)) = Some d" "is_digit 10 (of_nat (d + 48))"
    using assms by (simp_all add: is_digit_def c_def)
  show "(of_nat (d + 48) :: u8) \<noteq> 0" "\<not> is_space (of_nat (d + 48))" "(of_nat (d + 48) :: u8) \<noteq> 0x2D" "(of_nat (d + 48) :: u8) \<noteq> 0x2B"
    using u unfolding c_def [symmetric] by (auto simp: is_space_def word_le_nat_alt word_unat_eq_iff)
qed

lemma read_digits_append:
  "\<forall>c\<in>set s. is_digit base c \<Longrightarrow> read_digits base acc (s @ t) = read_digits base (fst (read_digits base acc s)) t"
  by (induction s arbitrary: acc) auto

lemma read_dec_text: "read_digits 10 0 (dec_text n) = (n, []) \<and> (\<forall>c\<in>set (dec_text n). is_digit 10 c)"
proof (induction n rule: dec_text.induct)
  case (1 n)
  show ?case
  proof (cases "n < 10")
    case True
    then show ?thesis using digit_char [OF True] by (simp add: dec_text.simps [of n])
  next
    case False
    have m: "n mod 10 < 10" by simp
    have ih: "read_digits 10 0 (dec_text (n div 10)) = (n div 10, [])" "\<forall>c\<in>set (dec_text (n div 10)). is_digit 10 c"
      using "1.IH" False by auto
    show ?thesis
      using ih digit_char [OF m] False
      by (simp add: dec_text.simps [of n] read_digits_append)
  qed
qed

lemma dec_text_front: "\<exists>d cs. d < 10 \<and> dec_text n = of_nat (d + 48) # cs"
proof (induction n rule: dec_text.induct)
  case (1 n)
  then show ?case by (cases "n < 10") (auto simp: dec_text.simps [of n])
qed

lemma skip_0x_other: "base \<noteq> 16 \<Longrightarrow> skip_0x base s = s"
  by (cases "(base, s)" rule: skip_0x.cases) auto

lemma strto_int_text: "strto 10 (int_text x) = (x, [])"
proof -
  have go: "read_digits 10 0 (dec_text n) = (n, [])" "skip_0x 10 (dec_text n) = dec_text n" "dec_text n \<noteq> []" for n
    using read_dec_text [of n] dec_text_front [of n] by (auto simp: skip_0x_other)
  obtain d cs where d: "d < 10" "dec_text (nat x) = of_nat (d + 48) # cs" using dec_text_front by blast
  show ?thesis
  proof (cases "x < 0")
    case True
    then show ?thesis using go [of "nat (- x)"] by (simp add: strto_def int_text_def is_space_def)
  next
    case False
    then show ?thesis
      using go [of "nat x"] d digit_char [OF d(1)] by (simp add: strto_def int_text_def)
  qed
qed

lemma int_text_no_nul: "0 \<notin> set (int_text x)"
proof -
  have "0 \<notin> set (dec_text n)" for n
    using read_dec_text [of n] by (auto simp: is_digit_def digit_val_def)
  then show ?thesis by (simp add: int_text_def)
qed

text \<open>The characters and the length of a number.\<close>

lemma dec_chars: "c \<in> set (dec_text n) \<Longrightarrow> 48 \<le> unat c \<and> unat c \<le> 57"
proof -
  assume "c \<in> set (dec_text n)"
  then have "is_digit 10 c" using read_dec_text [of n] by blast
  then show ?thesis by (auto simp: is_digit_def digit_val_def word_le_nat_alt split: if_splits)
qed

lemma dec_length: "n < 10 ^ k \<Longrightarrow> 0 < k \<Longrightarrow> length (dec_text n) \<le> k"
proof (induction n arbitrary: k rule: dec_text.induct)
  case (1 n)
  show ?case
  proof (cases "n < 10")
    case True
    then show ?thesis using "1.prems"(2) by (simp add: dec_text.simps [of n])
  next
    case False
    then have "k \<noteq> 1" using "1.prems"(1) by auto
    then obtain j where j: "k = Suc j" "0 < j" using "1.prems"(2) by (cases k) auto
    then have "n div 10 < 10 ^ j" using "1.prems"(1) by (simp add: div_less_iff_less_mult mult.commute)
    then show ?thesis using "1.IH" [OF False _ j(2)] False j(1) by (simp add: dec_text.simps [of n])
  qed
qed

end
