(* ===== verification/Data_Op.thy ===== *)
theory Data_Op
  imports Basic_Funcs Numbers
begin

text \<open>
  The delimited records of \<^verbatim>\<open>src/f1g_data_op.c\<close>: an array of items, each with a buffer of its own, which
  a text is cut into at a separator. A cell of the array is \<open>None\<close> while it is not initialised.
\<close>

section \<open>Structs\<close>

record data_item =
  di_size :: int
  di_len :: int
  di_data :: "bytes ptr"

record data_field =
  item_size :: int
  item_num :: int
  p_items :: "data_item option list ptr"

text \<open>A conversion to \<^verbatim>\<open>i8_t\<close>.\<close>

definition to_i8 :: "int \<Rightarrow> int" where
  "to_i8 x = (x + 128) mod 256 - 128"

definition zero_data_item :: data_item where
  "zero_data_item = \<lparr>di_size = 0, di_len = 0, di_data = Null\<rparr>"

text \<open>\<^verbatim>\<open>p_obj->p_items[seq]\<close>.\<close>

definition item_at :: "data_field \<Rightarrow> int \<Rightarrow> data_item run" where
  "item_at p seq =
     bindR (deref (p_items p)) (\<lambda>m.
     bindR (if seq < 0 then Inl OutOfBounds else rd m (nat seq)) (\<lambda>c.
       case c of None \<Rightarrow> Inl Uninit | Some i \<Rightarrow> Inr i))"

definition set_item :: "data_field \<Rightarrow> int \<Rightarrow> data_item \<Rightarrow> data_field run" where
  "set_item p seq i =
     bindR (deref (p_items p)) (\<lambda>m.
     bindR (if seq < 0 then Inl OutOfBounds else wr m (nat seq) (Some i)) (\<lambda>m'. Inr (p\<lparr>p_items := Live m'\<rparr>)))"

section \<open>Creating\<close>

text \<open>\<open>ok\<close> is the outcome of the allocation of the array, \<open>as i\<close> that of the buffer of item \<open>i\<close>. When one
  fails, those before it and the array are freed.\<close>

definition data_field_init :: "bool \<Rightarrow> (nat \<Rightarrow> u8 alloc) \<Rightarrow> data_field \<Rightarrow> int \<Rightarrow> int \<Rightarrow> int \<times> data_field" where
  "data_field_init ok as p n buf =
     (if \<not> ok \<or> n < 0 then (F1G_ERR, p\<lparr>p_items := Null\<rparr>)
      else
        let p1 = p\<lparr>item_num := 0, item_size := n\<rparr> in
        if buf \<le> 0 then (F1G_OK, p1\<lparr>p_items := Live (replicate (nat n) (Some zero_data_item))\<rparr>)
        else if list_ex (\<lambda>i. as i = None) [0..<nat n] then (F1G_ERR, p1\<lparr>p_items := Null\<rparr>)
        else (F1G_OK, p1\<lparr>p_items :=
               Live (map (\<lambda>i. Some \<lparr>di_size = buf, di_len = 0, di_data = malloc (as i) buf\<rparr>) [0..<nat n])\<rparr>))"

definition data_field_create :: "bool \<Rightarrow> bool \<Rightarrow> (nat \<Rightarrow> u8 alloc) \<Rightarrow> int \<Rightarrow> int \<Rightarrow> data_field option" where
  "data_field_create ok0 ok as n buf =
     (if n \<le> 0 \<or> \<not> ok0 then None
      else let (r, p) = data_field_init ok as \<lparr>item_size = 0, item_num = 0, p_items = Null\<rparr> n buf in
           if r \<noteq> F1G_OK then None else Some p)"

section \<open>Changing the items\<close>

definition data_field_set_item_size :: "bool \<Rightarrow> data_field \<Rightarrow> int \<Rightarrow> int \<Rightarrow> (int \<times> data_field) run" where
  "data_field_set_item_size ok p seq n =
     (if seq \<ge> item_size p then Inr (F1G_ERR, p)
      else
        bindR (item_at p seq) (\<lambda>i.
        freeR (di_data i)
          (if n \<le> 0 then bindR (set_item p seq zero_data_item) (\<lambda>p'. Inr (F1G_OK, p'))
           else if \<not> ok then bindR (set_item p seq zero_data_item) (\<lambda>p'. Inr (F1G_ERR, p'))
           else bindR (set_item p seq \<lparr>di_size = n, di_len = 0, di_data = Live (replicate (nat n) 0)\<rparr>) (\<lambda>p'. Inr (F1G_OK, p')))))"

fun clean_from :: "nat list \<Rightarrow> data_field \<Rightarrow> data_field run" where
  "clean_from [] p = Inr p"
| "clean_from (k # ks) p =
     bindR (item_at p (int k)) (\<lambda>i.
     bindR (case di_data i of
              Null \<Rightarrow> Inr Null
            | d \<Rightarrow> bindR (deref d) (\<lambda>m. bindR (wr m 0 0) (\<lambda>m'. Inr (Live m')))) (\<lambda>d.
     bindR (set_item p (int k) (i\<lparr>di_len := 0, di_data := d\<rparr>)) (clean_from ks)))"

definition data_field_clean_items :: "data_field \<Rightarrow> (int \<times> data_field) run" where
  "data_field_clean_items p = bindR (clean_from [0..<nat (item_num p)] p) (\<lambda>p'. Inr (F1G_OK, p'\<lparr>item_num := 0\<rparr>))"

fun free_data :: "nat list \<Rightarrow> data_field \<Rightarrow> unit run" where
  "free_data [] p = Inr ()"
| "free_data (k # ks) p = bindR (item_at p (int k)) (\<lambda>i. freeR (di_data i) (free_data ks p))"

definition data_field_free_items :: "data_field \<Rightarrow> (int \<times> data_field) run" where
  "data_field_free_items p =
     bindR (free_data [0..<nat (item_num p)] p) (\<lambda>_.
       freeR (p_items p) (Inr (F1G_OK, \<lparr>item_size = 0, item_num = 0, p_items = Null\<rparr>)))"

text \<open>Room for an item more. The cells behind the copied ones are not initialised, and the old array is
  not freed.\<close>

definition extend_items :: "bool \<Rightarrow> data_field \<Rightarrow> (int \<times> data_field) run" where
  "extend_items ok p =
     (if item_num p \<ge> item_size p then
        let n = item_size p + 4 in
        if \<not> ok \<or> n < 0 then Inr (F1G_ERR, p)
        else bindR (deref (p_items p)) (\<lambda>old. bindR (slice old 0 (item_size p)) (\<lambda>xs.
             Inr (F1G_OK, p\<lparr>p_items := Live (xs @ replicate 4 None), item_size := to_i8 n\<rparr>)))
      else Inr (F1G_OK, p))"

text \<open>\<open>s\<close> is the text from \<^verbatim>\<open>pb\<close> on and \<open>pe\<close> the offset of \<^verbatim>\<open>pe\<close> in it, \<open>None\<close> for the null pointer, from
  which the code computes lengths. \<open>fst env\<close> is the outcome of the allocation of a larger array, \<open>snd env\<close> that of
  the buffer of the item.\<close>

definition data_field_add_item :: "bool \<times> bool \<Rightarrow> data_field \<Rightarrow> bytes \<Rightarrow> nat option \<Rightarrow> (int \<times> data_field) run" where
  "data_field_add_item env p s pe =
     bindR (extend_items (fst env) p) (\<lambda>(r, p1).
       if r \<noteq> F1G_OK then Inr (F1G_ERR, p1)
       else
         let seq = item_num p1 in
         bindR (item_at p1 seq) (\<lambda>i.
           case pe of
             None \<Rightarrow> Inl NullDeref
           | Some len \<Rightarrow>
               bindR (if di_size i \<le> int len + 1 then data_field_set_item_size (snd env) p1 seq (int len + 2)
                      else Inr (F1G_OK, p1)) (\<lambda>(r, p2).
                 if r \<noteq> F1G_OK then Inr (F1G_ERR, p2)
                 else
                   bindR (item_at p2 seq) (\<lambda>i2.
                   bindR (slice s 0 (int len)) (\<lambda>t.
                   bindR (deref (di_data i2)) (\<lambda>m.
                   bindR (put m 0 (t @ [0])) (\<lambda>m'.
                   bindR (set_item p2 seq (i2\<lparr>di_len := int len, di_data := Live m'\<rparr>)) (\<lambda>p3.
                     Inr (F1G_OK, p3\<lparr>item_num := to_i8 (item_num p3 + 1)\<rparr>)))))))))"

section \<open>Reading a text\<close>

text \<open>\<open>b\<close> is \<^verbatim>\<open>pb\<close> and \<open>n\<close> \<^verbatim>\<open>pbuf_end\<close>. Each item takes the outcomes of its allocations from the
  script; \<open>None\<close> where the script ends before the text.\<close>

fun read_from :: "(bool \<times> bool) list \<Rightarrow> data_field \<Rightarrow> bytes \<Rightarrow> nat \<Rightarrow> int \<Rightarrow> bytes \<Rightarrow> (int \<times> data_field) option run" where
  "read_from es p s b n sep =
     (if int b = n then Inr (Some (F1G_OK, p))
      else case es of
        [] \<Rightarrow> Inr None
      | e # es' \<Rightarrow>
          bindR (find_str (drop b s) (n - int b) sep) (\<lambda>pe.
          bindR (data_field_add_item e p (drop b s) pe) (\<lambda>(r, p').
            if r \<noteq> F1G_OK then Inr (Some (F1G_ERR, p'))
            else case pe of
              None \<Rightarrow> Inr (Some (F1G_OK, p'))
            | Some i \<Rightarrow> read_from es' p' s (if int (b + i) = n then b + i else b + i + length sep) n sep)))"

declare read_from.simps [simp del]

definition data_field_read_buf :: "(bool \<times> bool) list \<Rightarrow> data_field \<Rightarrow> bytes \<Rightarrow> int \<Rightarrow> bytes \<Rightarrow> (int \<times> data_field) option run" where
  "data_field_read_buf es p s n sep = read_from es p s 0 n sep"

definition data_field_read_str :: "(bool \<times> bool) list \<Rightarrow> data_field \<Rightarrow> bytes \<Rightarrow> bytes \<Rightarrow> (int \<times> data_field) option run" where
  "data_field_read_str es p s sep = bindR (cstr s) (\<lambda>t. data_field_read_buf es p s (int (length t)) sep)"

section \<open>Reading the items\<close>

definition data_field_get_str :: "data_field \<Rightarrow> int \<Rightarrow> bytes ptr run" where
  "data_field_get_str p seq = (if seq \<ge> item_num p then Inr Null else bindR (item_at p seq) (\<lambda>i. Inr (di_data i)))"

definition data_field_copy_str :: "data_field \<Rightarrow> int \<Rightarrow> bytes \<Rightarrow> int \<Rightarrow> (int \<times> bytes) run" where
  "data_field_copy_str p seq buf buf_size =
     (if seq \<ge> item_num p then Inr (F1G_ERR, buf)
      else
        bindR (item_at p seq) (\<lambda>i.
        let len = (if buf_size < di_len i then buf_size else di_len i) in
        bindR (deref (di_data i)) (\<lambda>m.
        bindR (slice m 0 len) (\<lambda>t.
        bindR (put buf 0 t) (\<lambda>b. bindR (wr b (nat len) 0) (\<lambda>b'. Inr (F1G_OK, b')))))))"

definition data_field_get_i64 :: "data_field \<Rightarrow> int \<Rightarrow> int \<Rightarrow> int run" where
  "data_field_get_i64 p seq base =
     (if seq \<ge> item_num p then Inr (- 1)
      else
        bindR (item_at p seq) (\<lambda>i. bindR (deref (di_data i)) (\<lambda>m. bindR (cstr m) (\<lambda>t. Inr (strtol_any base t)))))"

definition data_field_get_i32 :: "data_field \<Rightarrow> int \<Rightarrow> int \<Rightarrow> int run" where
  "data_field_get_i32 p seq base = bindR (data_field_get_i64 p seq base) (\<lambda>v. Inr (to_i32 v))"

definition data_field_get_u32 :: "data_field \<Rightarrow> int \<Rightarrow> int \<Rightarrow> int run" where
  "data_field_get_u32 p seq base = bindR (data_field_get_i32 p seq base) (\<lambda>v. Inr (to_u32 v))"

definition data_field_get_u64 :: "data_field \<Rightarrow> int \<Rightarrow> int \<Rightarrow> int run" where
  "data_field_get_u64 p seq base = bindR (data_field_get_i64 p seq base) (\<lambda>v. Inr (v mod 2 ^ 64))"

section \<open>What a record holds\<close>

definition item_wf :: "data_item \<Rightarrow> bool" where
  "item_wf i \<longleftrightarrow> (case di_data i of Null \<Rightarrow> di_size i = 0 | Live m \<Rightarrow> di_size i = int (length m) | Dangling \<Rightarrow> False)"

definition item_holds :: "data_item \<Rightarrow> bytes \<Rightarrow> bool" where
  "item_holds i f \<longleftrightarrow> di_len i = int (length f) \<and> (\<exists>z. di_data i = Live (f @ 0 # z))"

text \<open>The items of the record are \<open>fs\<close>; there is room for \<open>n\<close>.\<close>

definition holds :: "data_field \<Rightarrow> nat \<Rightarrow> bytes list \<Rightarrow> bool" where
  "holds p n fs \<longleftrightarrow> (\<exists>cs es. p_items p = Live (map Some (cs @ es)) \<and> length (cs @ es) = n \<and> n \<le> 127 \<and> item_size p = int n
     \<and> item_num p = int (length fs) \<and> list_all2 item_holds cs fs \<and> (\<forall>c\<in>set (cs @ es). item_wf c))"

lemma to_i8_small: "0 \<le> x \<Longrightarrow> x < 128 \<Longrightarrow> to_i8 x = x"
  by (simp add: to_i8_def)

text \<open>A new record is empty.\<close>

lemma data_field_create_holds:
  assumes "data_field_create ok0 ok as n buf = Some p" and "n \<le> 127"
  shows "0 < n \<and> holds p (nat n) []"
proof (cases "buf \<le> 0")
  case True
  have "p = \<lparr>item_size = n, item_num = 0, p_items = Live (replicate (nat n) (Some zero_data_item))\<rparr>" "0 < n"
    using assms(1) True by (auto simp: data_field_create_def data_field_init_def Let_def split: if_splits)
  then show ?thesis
    using assms(2) by (auto simp: holds_def item_wf_def zero_data_item_def intro!: exI [of _ "replicate (nat n) zero_data_item"])
next
  case False
  define cs where "cs = map (\<lambda>i. \<lparr>di_size = buf, di_len = 0, di_data = malloc (as i) buf\<rparr>) [0..<nat n]"
  have p: "p = \<lparr>item_size = n, item_num = 0, p_items = Live (map Some cs)\<rparr>" "0 < n" "\<forall>i<nat n. as i \<noteq> None"
    using assms(1) False by (auto simp: data_field_create_def data_field_init_def Let_def list_ex_iff cs_def comp_def split: if_splits)
  have "item_wf c" if "c \<in> set cs" for c
  proof -
    obtain i where i: "i < nat n" "c = \<lparr>di_size = buf, di_len = 0, di_data = malloc (as i) buf\<rparr>" using \<open>c \<in> set cs\<close> by (auto simp: cs_def)
    then obtain g where "as i = Some g" using p(3) by blast
    then show ?thesis using i False by (simp add: item_wf_def malloc_def)
  qed
  then show ?thesis
    using p(1,2) assms(2) by (auto simp: holds_def cs_def intro!: exI [of _ cs])
qed

lemma item_at_holds: "p_items p = Live (map Some (cs @ c # es)) \<Longrightarrow> item_at p (int (length cs)) = Inr c"
  by (simp add: item_at_def nth_append)

lemma set_item_holds:
  "p_items p = Live (map Some (cs @ c # es)) \<Longrightarrow> set_item p (int (length cs)) d = Inr (p\<lparr>p_items := Live (map Some (cs @ d # es))\<rparr>)"
  by (simp add: set_item_def list_update_append)

lemma set_item_size_holds:
  assumes "p_items p = Live (map Some (cs @ c # es))" and "int (length cs) < item_size p" and "di_data c \<noteq> Dangling" and "0 < n"
  shows "data_field_set_item_size True p (int (length cs)) n
    = Inr (F1G_OK, p\<lparr>p_items := Live (map Some (cs @ \<lparr>di_size = n, di_len = 0, di_data = Live (replicate (nat n) 0)\<rparr> # es))\<rparr>)"
  using assms item_at_holds [OF assms(1)] set_item_holds [OF assms(1)]
  by (cases "di_data c") (simp_all add: data_field_set_item_size_def)

lemma add_item_holds:
  assumes "holds p n fs" and "length fs < n" and "snd env"
  shows "\<exists>p'. data_field_add_item env p (f @ z) (Some (length f)) = Inr (F1G_OK, p') \<and> holds p' n (fs @ [f])"
proof -
  obtain cs es where h: "p_items p = Live (map Some (cs @ es))" "length (cs @ es) = n" "n \<le> 127" "item_size p = int n"
    "item_num p = int (length fs)" "list_all2 item_holds cs fs" "\<forall>c\<in>set (cs @ es). item_wf c"
    using assms(1) by (auto simp: holds_def)
  have l: "length cs = length fs" using h(6) by (rule list_all2_lengthD)
  then obtain e es' where es: "es = e # es'" using h(2) assms(2) by (cases es) auto
  have p: "p_items p = Live (map Some (cs @ e # es'))" "item_num p = int (length cs)" using h(1,5) es l by simp_all
  have wf: "item_wf e" "di_data e \<noteq> Dangling" using h(7) es by (auto simp: item_wf_def)
  define d where "d = (if di_size e \<le> int (length f) + 1 then
    \<lparr>di_size = int (length f) + 2, di_len = 0, di_data = Live (replicate (length f + 2) 0)\<rparr> else e)"
  define p2 where "p2 = p\<lparr>p_items := Live (map Some (cs @ d # es'))\<rparr>"
  have size: "(if di_size e \<le> int (length f) + 1 then data_field_set_item_size True p (int (length cs)) (int (length f) + 2)
      else Inr (F1G_OK, p)) = Inr (F1G_OK, p2)"
    using set_item_size_holds [OF p(1) _ wf(2), of "int (length f) + 2"] h(2,4) es p(1)
    by (auto simp: d_def p2_def nat_add_distrib)
  obtain m where m: "di_data d = Live m" "length f + 2 \<le> length m"
  proof (cases "di_size e \<le> int (length f) + 1")
    case True
    then show ?thesis using that [of "replicate (length f + 2) 0"] by (simp add: d_def)
  next
    case False
    then show ?thesis using that wf(1) by (cases "di_data e") (auto simp: d_def item_wf_def)
  qed
  let ?d = "d\<lparr>di_len := int (length f), di_data := Live (f @ 0 # drop (Suc (length f)) m)\<rparr>"
  have p2: "p_items p2 = Live (map Some (cs @ d # es'))" "item_num p2 = int (length cs)" using p(2) by (simp_all add: p2_def)
  let ?p3 = "p2\<lparr>p_items := Live (map Some (cs @ ?d # es')), item_num := item_num p2 + 1\<rparr>"
  have "put m 0 (f @ [0]) = Inr (f @ 0 # drop (Suc (length f)) m)" using m(2) by (simp add: put_def)
  moreover have to_i8: "to_i8 (int (length fs) + 1) = int (length fs) + 1" using assms(2) h(3) by (simp add: to_i8_small)
  ultimately have run: "data_field_add_item env p (f @ z) (Some (length f)) = Inr (F1G_OK, ?p3)"
    unfolding data_field_add_item_def extend_items_def
    using h(2,4) l es assms(2,3) p(2) item_at_holds [OF p(1)] size item_at_holds [OF p2(1)] m(1) set_item_holds [OF p2(1)] p2(2)
    by (cases "di_size e \<le> int (length f) + 1"; simp add: Let_def to_i8)
  have "item_holds ?d f" by (simp add: item_holds_def)
  moreover have "item_wf ?d" using wf(1) m by (auto simp: d_def item_wf_def split: if_splits)
  ultimately have "holds ?p3 n (fs @ [f])"
    unfolding holds_def using h(2-4,6,7) es l p2(2)
    by (intro exI [of _ "cs @ [?d]"] exI [of _ es']) (auto simp: list_all2_appendI p2_def)
  then show ?thesis using run by blast
qed

section \<open>Reading\<close>

text \<open>A text of fields, each with the separator behind it.\<close>

definition fields_text :: "bytes \<Rightarrow> bytes list \<Rightarrow> bytes" where
  "fields_text sep fs = concat (map (\<lambda>f. f @ sep) fs)"

text \<open>The separator is found behind the field and not before.\<close>

definition field_ok :: "bytes \<Rightarrow> bytes \<Rightarrow> bool" where
  "field_ok sep f \<longleftrightarrow> 0 \<notin> set f \<and> first_occ sep (f @ sep) = Some (length f)"

definition sep_ok :: "bytes \<Rightarrow> bool" where
  "sep_ok sep \<longleftrightarrow> sep \<noteq> [] \<and> 0 \<notin> set sep \<and> length sep < 512"

lemma first_occ_behind:
  assumes "first_occ sep (f @ sep) = Some (length f)"
  shows "first_occ sep (f @ sep @ t) = Some (length f)"
proof -
  have "take (length sep) (drop j (f @ sep @ t)) \<noteq> sep" if "j < length f" for j
  proof -
    have "take (length sep) (drop j (f @ sep @ t)) = take (length sep) (drop j (f @ sep))" using that by simp
    then show ?thesis using first_occ_SomeD [OF assms] that by simp
  qed
  then show ?thesis using first_occ_skip [of f sep "sep @ t"] first_occ_hit [of sep t] by simp
qed

text \<open>A field is read and the loop goes on behind it.\<close>

lemma read_from_step:
  assumes "sep_ok sep" and "field_ok sep f" and "drop b s = f @ sep @ t" and "n = int (b + length f + length sep + m)" and "m \<le> length t"
    and "data_field_add_item e p (f @ sep @ t) (Some (length f)) = Inr (F1G_OK, p')"
  shows "read_from (e # es) p s b n sep = read_from es p' s (b + length f + length sep) n sep"
proof -
  have nat: "nat (n - int b) = length f + (length sep + m)" using assms(4) by simp
  then have "take (nat (n - int b)) (f @ sep @ t) = f @ sep @ take m t" by simp
  then have "find_str (drop b s) (n - int b) sep = Inr (Some (length f))"
    using fs.find_first [of sep "n - int b" "drop b s"] assms(1-5) nat first_occ_behind [of sep f "take m t"]
    by (simp add: sep_ok_def field_ok_def)
  moreover have "int b \<noteq> n" "int (b + length f) \<noteq> n"
    using assms(1,4) length_greater_0_conv [of sep] unfolding sep_ok_def by linarith+
  ultimately show ?thesis
    using assms(3,6) by (subst read_from.simps) simp
qed

lemma read_from_fields:
  assumes "sep_ok sep" and "\<forall>f\<in>set fs. field_ok sep f" and "holds p k fs0" and "length fs0 + length fs \<le> k"
    and "drop b s = fields_text sep fs @ t" and "n = int (b + length (fields_text sep fs) + m)" and "m \<le> length t"
    and "length es = length fs" and "\<forall>e\<in>set es. snd e"
  shows "\<exists>p'. read_from (es @ es') p s b n sep = read_from es' p' s (b + length (fields_text sep fs)) n sep \<and> holds p' k (fs0 @ fs)"
  using assms(2-6,8,9)
proof (induction fs arbitrary: p fs0 b es)
  case Nil
  then show ?case by (auto simp: fields_text_def)
next
  case (Cons f fs)
  obtain e es1 where es: "es = e # es1" using Cons.prems(6) by (cases es) auto
  let ?t = "fields_text sep fs @ t"
  have d: "drop b s = f @ sep @ ?t" using Cons.prems(4) by (simp add: fields_text_def)
  obtain p1 where p1: "data_field_add_item e p (f @ sep @ ?t) (Some (length f)) = Inr (F1G_OK, p1)" "holds p1 k (fs0 @ [f])"
    using add_item_holds [OF Cons.prems(2), of e f "sep @ ?t"] Cons.prems(3,7) es by auto
  have n: "n = int (b + length f + length sep + (length (fields_text sep fs) + m))"
    using Cons.prems(5) by (simp add: fields_text_def)
  have step: "read_from (es @ es') p s b n sep = read_from (es1 @ es') p1 s (b + length f + length sep) n sep"
    using read_from_step [OF assms(1) _ d n _ p1(1), of "es1 @ es'"] Cons.prems(1) es assms(7) by simp
  have "drop (b + length f + length sep) s = drop (length f + length sep) (drop b s)" by (simp add: add.commute add.left_commute)
  then have d2: "drop (b + length f + length sep) s = ?t" unfolding d by simp
  have n2: "n = int (b + length f + length sep + length (fields_text sep fs) + m)" using n by simp
  obtain p2 where "read_from (es1 @ es') p1 s (b + length f + length sep) n sep
      = read_from es' p2 s (b + length f + length sep + length (fields_text sep fs)) n sep" "holds p2 k ((fs0 @ [f]) @ fs)"
    using Cons.IH [OF _ p1(2) _ d2 n2, of es1] Cons.prems(1,3,6,7) es by auto
  then show ?case using step by (auto simp: fields_text_def add.assoc)
qed

lemma holds_get:
  assumes "holds p n fs" and "i < length fs" and "0 \<notin> set (fs ! i)"
  shows "\<exists>z c. item_at p (int i) = Inr c \<and> di_data c = Live (fs ! i @ 0 # z) \<and> di_len c = int (length (fs ! i))"
proof -
  obtain cs es where h: "p_items p = Live (map Some (cs @ es))" "list_all2 item_holds cs fs" using assms(1) by (auto simp: holds_def)
  have i: "i < length cs" using assms(2) list_all2_lengthD [OF h(2)] by simp
  then have "item_at p (int i) = Inr (cs ! i)" using h(1) by (simp add: item_at_def nth_append)
  moreover have "item_holds (cs ! i) (fs ! i)" using h(2) i by (simp add: list_all2_nthD)
  ultimately show ?thesis by (auto simp: item_holds_def)
qed

lemma fields_text_no_nul: "sep_ok sep \<Longrightarrow> \<forall>f\<in>set fs. field_ok sep f \<Longrightarrow> 0 \<notin> set (fields_text sep fs)"
  by (auto simp: fields_text_def sep_ok_def field_ok_def)

lemma read_str_at:
  assumes "0 \<notin> set t"
  shows "data_field_read_str es p (t @ 0 # z) sep = read_from es p (t @ 0 # z) 0 (int (length t)) sep"
  using assms by (simp add: data_field_read_str_def data_field_read_buf_def cstr_at)

text \<open>The loop behind the fields, with \<open>w\<close> left.\<close>

lemma read_str_fields:
  assumes "data_field_create ok0 ok as n buf = Some p" and "n \<le> 127" and "sep_ok sep" and "\<forall>f\<in>set fs. field_ok sep f"
    and "int (length fs) \<le> n" and "length es = length fs" and "\<forall>e\<in>set es. snd e" and "0 \<notin> set w"
  shows "\<exists>p'. data_field_read_str (es @ es') p ((fields_text sep fs @ w) @ 0 # z) sep
      = read_from es' p' (fields_text sep fs @ w @ 0 # z) (length (fields_text sep fs)) (int (length (fields_text sep fs @ w))) sep
    \<and> holds p' (nat n) fs"
proof -
  have p: "holds p (nat n) []" using data_field_create_holds [OF assms(1,2)] by simp
  have k: "length ([] :: bytes list) + length fs \<le> nat n" using assms(5) by simp
  show ?thesis
    using read_from_fields [OF assms(3,4) p k, of 0 "fields_text sep fs @ w @ 0 # z" "w @ 0 # z" _ "length w" es es']
      read_str_at [of "fields_text sep fs @ w"] fields_text_no_nul [OF assms(3,4)] assms(6-8) by auto
qed

text \<open>C28. A text of fields, each followed by the separator, read into a new record with room for them: the items are the
  fields, and there is none behind the last.\<close>

theorem data_field_reads_fields:
  assumes "data_field_create ok0 ok as n buf = Some p" and "n \<le> 127" and "sep_ok sep" and "\<forall>f\<in>set fs. field_ok sep f"
    and "int (length fs) \<le> n" and "length es = length fs" and "\<forall>e\<in>set es. snd e"
  shows "\<exists>p'. data_field_read_str es p (fields_text sep fs @ 0 # z) sep = Inr (Some (F1G_OK, p')) \<and> item_num p' = int (length fs)
    \<and> (\<forall>i<length fs. \<exists>m. data_field_get_str p' (int i) = Inr (Live m) \<and> cstr m = Inr (fs ! i))
    \<and> data_field_get_str p' (int (length fs)) = Inr Null"
proof -
  obtain p' where r: "data_field_read_str es p (fields_text sep fs @ 0 # z) sep
      = read_from [] p' (fields_text sep fs @ 0 # z) (length (fields_text sep fs)) (int (length (fields_text sep fs))) sep"
    "holds p' (nat n) fs"
    using read_str_fields [OF assms, of "[]" "[]" z] by auto
  have num: "item_num p' = int (length fs)" using r(2) by (auto simp: holds_def)
  have "\<exists>m. data_field_get_str p' (int i) = Inr (Live m) \<and> cstr m = Inr (fs ! i)" if "i < length fs" for i
  proof -
    have nul: "0 \<notin> set (fs ! i)" using assms(4) that by (simp add: field_ok_def)
    then show ?thesis using holds_get [OF r(2) that nul] that num cstr_at [OF nul] by (auto simp: data_field_get_str_def)
  qed
  then show ?thesis using r(1) num by (auto simp: data_field_get_str_def read_from.simps [of "[]"])
qed

text \<open>C29. A text whose last field has no separator behind it makes the reader compute with a null pointer, and a field more
  than the record has room for makes it use a cell that is not initialised.\<close>

theorem data_field_read_faults:
  assumes "data_field_create ok0 ok as n buf = Some p" and "n \<le> 127" and "sep_ok sep" and "\<forall>f\<in>set fs. field_ok sep f"
    and "length es = length fs" and "\<forall>e\<in>set es. snd e"
  shows "(int (length fs) < n \<longrightarrow> w \<noteq> [] \<longrightarrow> 0 \<notin> set w \<longrightarrow> first_occ sep w = None \<longrightarrow>
      data_field_read_str (es @ [(True, True)]) p ((fields_text sep fs @ w) @ 0 # z) sep = Inl NullDeref)
    \<and> (int (length fs) = n \<longrightarrow> field_ok sep f \<longrightarrow>
      data_field_read_str (es @ [(True, True)]) p ((fields_text sep fs @ f @ sep) @ 0 # z) sep = Inl Uninit)"
proof (intro conjI impI)
  let ?t = "fields_text sep fs"
  have n: "0 < n" using data_field_create_holds [OF assms(1,2)] by simp
  {
    assume *: "int (length fs) < n" "w \<noteq> []" "0 \<notin> set w" "first_occ sep w = None"
    obtain p' where p': "data_field_read_str (es @ [(True, True)]) p ((?t @ w) @ 0 # z) sep
      = read_from [(True, True)] p' (?t @ w @ 0 # z) (length ?t) (int (length (?t @ w))) sep" "holds p' (nat n) fs"
      using read_str_fields [OF assms(1-4) _ assms(5,6) *(3)] *(1) by auto
    obtain cs es' where h: "p_items p' = Live (map Some (cs @ es'))" "length (cs @ es') = nat n" "item_size p' = n"
      "item_num p' = int (length fs)" "list_all2 item_holds cs fs"
      using p'(2) n by (auto simp: holds_def)
    have l: "length cs = length fs" "length fs < nat n" using *(1) list_all2_lengthD [OF h(5)] by simp_all
    then obtain e es2 where es': "es' = e # es2" using h(2) by (cases es') auto
    have at: "item_at p' (int (length fs)) = Inr e" using item_at_holds [of p' cs e es2] h(1) es' l by simp
    have "find_str (w @ 0 # z) (int (length w)) sep = Inr None"
      using fs.find_first [of sep "int (length w)" "w @ 0 # z"] assms(3) *(4) by (simp add: sep_ok_def)
    then have "read_from [(True, True)] p' (?t @ w @ 0 # z) (length ?t) (int (length (?t @ w))) sep = Inl NullDeref"
      using at h(3,4) *(1,2) by (subst read_from.simps) (simp add: data_field_add_item_def extend_items_def)
    then show "data_field_read_str (es @ [(True, True)]) p ((?t @ w) @ 0 # z) sep = Inl NullDeref" using p'(1) by simp
  next
    assume *: "int (length fs) = n" "field_ok sep f"
    have nul: "0 \<notin> set (f @ sep)" using *(2) assms(3) by (simp add: field_ok_def sep_ok_def)
    obtain p' where p': "data_field_read_str (es @ [(True, True)]) p ((?t @ f @ sep) @ 0 # z) sep
      = read_from [(True, True)] p' (?t @ (f @ sep) @ 0 # z) (length ?t) (int (length (?t @ f @ sep))) sep" "holds p' (nat n) fs"
      using read_str_fields [OF assms(1-4) _ assms(5,6) nul] *(1) by auto
    obtain cs where h: "p_items p' = Live (map Some cs)" "length cs = nat n" "item_size p' = n" "item_num p' = n"
    proof -
      obtain cs es' where "p_items p' = Live (map Some (cs @ es'))" "length (cs @ es') = nat n" "item_size p' = n" "item_num p' = n"
        using p'(2) *(1) n by (auto simp: holds_def)
      then show ?thesis using that [of "cs @ es'"] by blast
    qed
    have "find_str ((f @ sep) @ 0 # z) (int (length (f @ sep))) sep = Inr (Some (length f))"
      using fs.find_first [of sep "int (length (f @ sep))" "(f @ sep) @ 0 # z"] assms(3) *(2) by (simp add: sep_ok_def field_ok_def)
    moreover have "data_field_add_item (True, True) p' ((f @ sep) @ 0 # z) (Some (length f)) = Inl Uninit"
      using h n by (simp add: data_field_add_item_def extend_items_def item_at_def nth_append)
    moreover have "read_from [(True, True)] p' (?t @ (f @ sep) @ 0 # z) (length ?t) (int (length (?t @ f @ sep))) sep = Inl Uninit"
    proof -
      have "0 < length sep" using assms(3) by (simp add: sep_ok_def)
      then have "int (length ?t) \<noteq> int (length (?t @ f @ sep))" by (simp only: length_append of_nat_add)
      then show ?thesis using calculation by (subst read_from.simps) simp
    qed
    then show "data_field_read_str (es @ [(True, True)]) p ((?t @ f @ sep) @ 0 # z) sep = Inl Uninit" using p'(1) by simp
  }
qed

text \<open>An item with the decimal text of a number: the lookups give the number where it is in their range, but the lookup of
  unsigned 64 bit numbers goes through the signed conversion and cuts the upper half to the greatest signed one.\<close>

theorem data_field_numbers:
  assumes "holds p n fs" and "i < length fs" and "fs ! i = int_text x"
  shows "(- (2 ^ 31) \<le> x \<and> x < 2 ^ 31 \<longrightarrow> data_field_get_i32 p (int i) 10 = Inr x)
    \<and> (- (2 ^ 63) \<le> x \<and> x < 2 ^ 63 \<longrightarrow> data_field_get_i64 p (int i) 10 = Inr x)
    \<and> (0 \<le> x \<and> x < 2 ^ 32 \<longrightarrow> data_field_get_u32 p (int i) 10 = Inr x)
    \<and> (0 \<le> x \<longrightarrow> data_field_get_u64 p (int i) 10 = Inr (min x (2 ^ 63 - 1)))"
proof -
  have nul: "0 \<notin> set (fs ! i)" unfolding assms(3) by (rule int_text_no_nul)
  obtain z c where c: "item_at p (int i) = Inr c" "di_data c = Live (int_text x @ 0 # z)"
    using holds_get [OF assms(1,2) nul] assms(3) by auto
  have "item_num p = int (length fs)" using assms(1) by (auto simp: holds_def)
  then have v: "data_field_get_i64 p (int i) 10 = Inr (max (- (2 ^ 63)) (min (2 ^ 63 - 1) x))"
    using assms(2) c cstr_at [OF int_text_no_nul] by (simp add: data_field_get_i64_def strtol_any_def strtol_def strto_int_text)
  have i: "to_i32 y = y" if "- (2 ^ 31) \<le> y" "y < 2 ^ 31" for y using that by (simp add: to_i32_def)
  have u: "to_u32 (to_i32 y) = y" if "0 \<le> y" "y < 2 ^ 32" for y
    using that by (simp add: to_i32_def to_u32_def mod_diff_left_eq)
  show ?thesis
    unfolding data_field_get_i32_def data_field_get_u32_def data_field_get_u64_def v
    using i [of x] u [of x] by (auto simp: min_def max_def)
qed

text \<open>A copy of an item into a buffer: it fits with its terminator, or the terminator is written behind the buffer.\<close>

theorem data_field_copy_str_cases:
  assumes "holds p n fs" and "i < length fs" and "0 \<notin> set (fs ! i)"
  shows "data_field_copy_str p (int i) buf (int (length buf))
    = (if length (fs ! i) < length buf then Inr (F1G_OK, fs ! i @ 0 # drop (Suc (length (fs ! i))) buf) else Inl OutOfBounds)"
proof -
  obtain z c where c: "item_at p (int i) = Inr c" "di_data c = Live (fs ! i @ 0 # z)" "di_len c = int (length (fs ! i))"
    using holds_get [OF assms] by blast
  have "item_num p = int (length fs)" using assms(1) by (auto simp: holds_def)
  moreover have "drop (length (fs ! i)) buf = buf ! length (fs ! i) # drop (Suc (length (fs ! i))) buf" if "length (fs ! i) < length buf"
    using that by (simp add: Cons_nth_drop_Suc)
  ultimately show ?thesis
    using assms(2) c by (auto simp: data_field_copy_str_def Let_def put_def list_update_append)
qed

section \<open>Examples\<close>

definition new_record :: "int \<Rightarrow> data_field" where
  "new_record n = \<lparr>item_size = n, item_num = 0, p_items = Live (replicate (nat n) (Some zero_data_item))\<rparr>"

lemma new_record_create: "0 < n \<Longrightarrow> data_field_create True True (\<lambda>_. None) n 0 = Some (new_record n)"
  by (simp add: data_field_create_def data_field_init_def new_record_def)

lemma semicolon: "sep_ok [0x3B]" "field_ok [0x3B] [0x31, 0x32]" "field_ok [0x3B] []" "first_occ [0x3B] [0x78 :: u8] = None"
  by (simp_all add: sep_ok_def field_ok_def first_occ_single)

lemma data_field_reads_fields_witness:
  "\<exists>p'. data_field_read_str [(True, True), (True, True)] (new_record 3) (fields_text [0x3B] [[0x31, 0x32], []] @ [0]) [0x3B]
     = Inr (Some (F1G_OK, p')) \<and> item_num p' = 2"
  using data_field_reads_fields [OF new_record_create [of 3] _ semicolon(1), of "[[0x31, 0x32], []]" "[(True, True), (True, True)]" "[]"]
    semicolon(2,3) by auto

lemma data_field_read_faults_witness:
  "data_field_read_str [(True, True), (True, True)] (new_record 2) ((fields_text [0x3B] [[]] @ [0x78]) @ [0]) [0x3B] = Inl NullDeref
   \<and> data_field_read_str [(True, True), (True, True)] (new_record 1) ((fields_text [0x3B] [[]] @ [0x31, 0x32] @ [0x3B]) @ [0]) [0x3B]
     = Inl Uninit"
  using data_field_read_faults [OF new_record_create [of 2] _ semicolon(1), of "[[]]" "[(True, True)]" "[0x78]" "[]" "[]"]
    data_field_read_faults [OF new_record_create [of 1] _ semicolon(1), of "[[]]" "[(True, True)]" "[]" "[]" "[0x31, 0x32]"]
    semicolon by simp

definition stored_record :: "bytes \<Rightarrow> data_field" where
  "stored_record t = \<lparr>item_size = 1, item_num = 1,
     p_items = Live [Some \<lparr>di_size = int (length t) + 1, di_len = int (length t), di_data = Live (t @ [0])\<rparr>]\<rparr>"

lemma stored_record_holds: "holds (stored_record t) 1 [t]"
  unfolding holds_def stored_record_def
  by (intro exI [of _ "[\<lparr>di_size = int (length t) + 1, di_len = int (length t), di_data = Live (t @ [0])\<rparr>]"] exI [of _ "[]"])
    (simp add: item_holds_def item_wf_def)

lemma data_field_numbers_witness:
  "data_field_get_u64 (stored_record (int_text (2 ^ 64 - 1))) 0 10 = Inr (2 ^ 63 - 1)"
  using data_field_numbers [OF stored_record_holds [of "int_text (2 ^ 64 - 1)"], of 0 "2 ^ 64 - 1"] by simp

lemma data_field_copy_str_cases_witness:
  "data_field_copy_str (stored_record [0x61, 0x62]) 0 [1, 2, 3] 3 = Inr (F1G_OK, [0x61, 0x62, 0])
   \<and> data_field_copy_str (stored_record [0x61, 0x62]) 0 [1, 2] 2 = Inl OutOfBounds"
  using data_field_copy_str_cases [OF stored_record_holds [of "[0x61, 0x62]"], of 0 "[1, 2, 3]"]
    data_field_copy_str_cases [OF stored_record_holds [of "[0x61, 0x62]"], of 0 "[1, 2]"] by simp

end
