(* ===== verification/Lang_Code.thy ===== *)
theory Lang_Code
  imports Codec Numbers
begin

text \<open>
  The older decoder and encoders of \<^verbatim>\<open>src/f1g_lang_code.c\<close>: percent decoding of URLs, and UTF-8 from
  and to 16 bit units.
\<close>

unbundle bit_operations_syntax

section \<open>The hexadecimal map\<close>

definition LANG_CODE_UNKNOWN :: u8 where "LANG_CODE_UNKNOWN = 4"
definition URL_ESC_CHAR :: u8 where "URL_ESC_CHAR = 0x25"

definition sg_hex_chars :: bytes where
  "sg_hex_chars = lit ''0123456789abcdefABCDEF''"

definition sg_hex_static :: bytes where
  "sg_hex_static = 0xFF # replicate 255 0"

text \<open>The characters are signed and not negative.\<close>

fun init_hex_array :: "bytes \<Rightarrow> u8 \<Rightarrow> bytes \<Rightarrow> bytes run" where
  "init_hex_array a base [] = Inr a"
| "init_hex_array a base (c # cs) = bindR (wr a (unat c) base) (\<lambda>a'. init_hex_array a' (base + 1) cs)"

definition lang_code_init :: "bytes \<Rightarrow> (int \<times> bytes) run" where
  "lang_code_init a =
     bindR (init_hex_array a 0 (take 16 sg_hex_chars)) (\<lambda>a1.
     bindR (init_hex_array a1 10 (take 6 (drop 16 sg_hex_chars))) (\<lambda>a2. Inr (F1G_OK, a2)))"

section \<open>The code maps\<close>

definition GBK_MAP_SIZE :: int where "GBK_MAP_SIZE = 0xFFFF"
definition UCS_MAP_SIZE :: int where "UCS_MAP_SIZE = 0xFFFF"
definition UTF8_MAP_SIZE :: int where "UTF8_MAP_SIZE = 0xFFFFFF"

text \<open>A code of either charset lies in three bytes.\<close>

record code_map =
  cd1 :: bytes
  cd2 :: bytes

record lc_map =
  lm_gbk :: "code_map list ptr"
  lm_ucs :: "code_map list ptr"
  lm_utf8 :: "code_map list ptr"

definition code_map_create :: "bool \<Rightarrow> int \<Rightarrow> code_map list ptr" where
  "code_map_create ok n = zalloc ok n \<lparr>cd1 = [0, 0, 0], cd2 = [0, 0, 0]\<rparr>"

text \<open>The outcomes of the four allocations; what is allocated before one fails is not freed.\<close>

definition lc_map_create :: "bool \<Rightarrow> bool \<Rightarrow> bool \<Rightarrow> bool \<Rightarrow> lc_map option" where
  "lc_map_create ok ok1 ok2 ok3 =
     (if ok \<and> ok1 \<and> ok2 \<and> ok3
      then Some \<lparr>lm_gbk = code_map_create ok1 GBK_MAP_SIZE, lm_ucs = code_map_create ok2 UCS_MAP_SIZE,
                 lm_utf8 = code_map_create ok3 UTF8_MAP_SIZE\<rparr>
      else None)"

section \<open>Percent decoding\<close>

text \<open>The locals of \<^verbatim>\<open>str_decode\<close> that live across characters.\<close>

record dec =
  esc_flag :: bool
  valid_hex_fst :: bool
  dec_value :: u8
  dec_len :: nat

text \<open>One character; \<open>None\<close> is the error return. A hexadecimal digit outside an escape is not stored.\<close>

definition dec_char :: "bytes \<Rightarrow> u8 \<Rightarrow> bytes \<Rightarrow> dec \<Rightarrow> (bytes \<times> dec) option run" where
  "dec_char hex c buf st =
     (if c = URL_ESC_CHAR then
        if esc_flag st then Inr None else Inr (Some (buf, st\<lparr>esc_flag := True\<rparr>))
      else if c \<in> set sg_hex_chars then
        if esc_flag st then
          bindR (rd hex (unat c)) (\<lambda>h.
            if \<not> valid_hex_fst st then Inr (Some (buf, st\<lparr>dec_value := h, valid_hex_fst := True\<rparr>))
            else
              let v = push_bit 4 (dec_value st) OR h in
              bindR (wr buf (dec_len st) v) (\<lambda>buf'.
                Inr (Some (buf', st\<lparr>dec_value := v, dec_len := Suc (dec_len st), valid_hex_fst := False, esc_flag := False\<rparr>))))
        else Inr (Some (buf, st))
      else if esc_flag st then Inr None
      else bindR (wr buf (dec_len st) c) (\<lambda>buf'. Inr (Some (buf', st\<lparr>dec_len := Suc (dec_len st)\<rparr>))))"

fun dec_loop :: "bytes \<Rightarrow> bytes \<Rightarrow> bytes \<Rightarrow> dec \<Rightarrow> (int \<times> bytes \<times> int) run" where
  "dec_loop hex [] buf st = Inr (F1G_OK, buf, int (dec_len st))"
| "dec_loop hex (c # cs) buf st =
     bindR (dec_char hex c buf st) (\<lambda>x.
       case x of None \<Rightarrow> Inr (F1G_ERR, buf, 0) | Some (buf', st') \<Rightarrow> dec_loop hex cs buf' st')"

text \<open>The text, the buffer and \<^verbatim>\<open>*data_size\<close>; the size the buffer comes with is not looked at.
  The result has the code, the buffer and the size; \<^verbatim>\<open>*code_type\<close> is always \<open>LANG_CODE_UNKNOWN\<close>.\<close>

definition str_decode :: "bytes \<Rightarrow> bytes \<Rightarrow> int \<Rightarrow> bytes \<Rightarrow> (int \<times> bytes \<times> int) run" where
  "str_decode hex s str_len buf =
     bindR (slice s 0 str_len) (\<lambda>t.
       dec_loop hex t buf \<lparr>esc_flag = False, valid_hex_fst = False, dec_value = 0, dec_len = 0\<rparr>)"

section \<open>UTF-8 to units\<close>

text \<open>The comparison binds tighter than the \<^verbatim>\<open>&\<close>: \<^verbatim>\<open>c & m == v\<close> takes \<open>c\<close> and the truth value of \<open>m = v\<close>.\<close>

definition masked :: "u8 \<Rightarrow> u8 \<Rightarrow> u8 \<Rightarrow> bool" where
  "masked c m v \<longleftrightarrow> c AND (if m = v then 1 else 0) \<noteq> 0"

text \<open>The low bits of the bytes of a sequence, the first masked with \<open>m\<close> and shifted left by \<open>k\<close>.\<close>

definition seq_bits :: "bytes \<Rightarrow> (u8 \<times> nat) list \<Rightarrow> u32" where
  "seq_bits bs ms = fold (\<lambda>(b, (m, k)) acc. acc OR push_bit k (ucast (b AND m))) (zip bs ms) 0"

text \<open>The masks and shifts of a lead byte, \<open>None\<close> where none of the conditions holds.\<close>

definition utf8_shape :: "u8 \<Rightarrow> (u8 \<times> nat) list option" where
  "utf8_shape c =
     (if masked c 0x80 0x00 then Some [(0xFF, 0)]
      else if masked c 0xE0 0xC0 then Some [(0x1F, 6), (0x3F, 0)]
      else if masked c 0xF0 0xE0 then Some [(0x0F, 12), (0x3F, 6), (0x3F, 0)]
      else if masked c 0xF8 0xF0 then Some [(0x07, 18), (0x3F, 12), (0x3F, 6), (0x3F, 0)]
      else if masked c 0xFC 0xF8 then Some [(0x03, 24), (0x3F, 18), (0x3F, 12), (0x3F, 6), (0x3F, 0)]
      else if masked c 0xFE 0xFC then Some [(0x01, 30), (0x07, 24), (0x3F, 18), (0x3F, 12), (0x3F, 6), (0x3F, 0)]
      else None)"

lemma utf8_shape_length: "utf8_shape c = Some ms \<Longrightarrow> 0 < length ms"
  by (auto simp: utf8_shape_def split: if_splits)

function to_units :: "bytes \<Rightarrow> u16 list \<Rightarrow> int \<Rightarrow> nat \<Rightarrow> (int \<times> u16 list \<times> nat) run" where
  "to_units s buf data_size n =
     (if int n < data_size \<and> s \<noteq> [] then
        case utf8_shape (hd s) of
          None \<Rightarrow> Inr (F1G_ERR, buf, n)
        | Some ms \<Rightarrow>
            if length s < length ms then Inr (F1G_ERR, buf, n)
            else bindR (wr buf n (ucast (seq_bits (take (length ms) s) ms))) (\<lambda>buf'.
                 to_units (drop (length ms) s) buf' data_size (Suc n))
      else Inr (F1G_OK, buf, n))"
  by pat_completeness auto
termination
  by (relation "measure (\<lambda>(s, buf, data_size, n). length s)") (auto dest: utf8_shape_length)

declare to_units.simps [simp del]

text \<open>The first \<open>k\<close> bytes of an array of units cleared, in little endian order.\<close>

definition clear_units :: "u16 list \<Rightarrow> int \<Rightarrow> u16 list run" where
  "clear_units buf k =
     assertR (0 \<le> k \<and> k \<le> 2 * int (length buf)) OutOfBounds
       (Inr (replicate (nat k div 2) 0
         @ (if nat k mod 2 = 0 then [] else [buf ! (nat k div 2) AND 0xFF00]) @ drop ((nat k + 1) div 2) buf))"

definition utf8_to_unicode :: "bytes \<Rightarrow> u16 list \<Rightarrow> int \<Rightarrow> (int \<times> u16 list \<times> nat) run" where
  "utf8_to_unicode s buf data_size =
     bindR (clear_units buf data_size) (\<lambda>buf0. to_units s buf0 data_size 0)"

section \<open>Units to UTF-8\<close>

text \<open>The bytes stored for a unit, from the last of its encoding to the first, and what is assigned to
  \<^verbatim>\<open>*data_len\<close>.\<close>

definition unit_bytes :: "u16 \<Rightarrow> bytes" where
  "unit_bytes u =
     (let val = (ucast u :: u32) in
      if u \<le> 0x007F then [ucast (val AND 0xFF)]
      else if 0x0080 \<le> u \<and> u \<le> 0x07FF then [ucast (val AND 0x3F OR 0x80), ucast (drop_bit 6 val AND 0x1F OR 0xC0)]
      else [ucast (val AND 0x3F OR 0x80), ucast (drop_bit 6 val AND 0x3F OR 0x80), ucast (drop_bit 12 val AND 0x1F OR 0xE0)])"

fun from_units :: "u16 list \<Rightarrow> bytes \<Rightarrow> nat \<Rightarrow> int \<Rightarrow> (bytes \<times> int) run" where
  "from_units [] buf p data_len = Inr (buf, data_len)"
| "from_units (u # us) buf p data_len =
     bindR (put buf p (unit_bytes u)) (\<lambda>buf'. from_units us buf' (p + length (unit_bytes u)) (int (length (unit_bytes u))))"

definition unicode_to_utf8 :: "u16 list \<Rightarrow> bytes \<Rightarrow> int \<Rightarrow> (int \<times> bytes \<times> int) run" where
  "unicode_to_utf8 us buf buf_size =
     assertR (0 \<le> buf_size \<and> buf_size \<le> int (length buf)) OutOfBounds
       (bindR (from_units us (replicate (nat buf_size) 0 @ drop (nat buf_size) buf) 0 0) (\<lambda>(buf', n). Inr (F1G_OK, buf', n)))"

section \<open>The map\<close>

definition hex_val :: "u8 \<Rightarrow> u8" where
  "hex_val c = of_nat (the (digit_val c))"

lemma sg_hex_chars_list:
  "sg_hex_chars = [0x30, 0x31, 0x32, 0x33, 0x34, 0x35, 0x36, 0x37, 0x38, 0x39, 0x61, 0x62, 0x63, 0x64, 0x65, 0x66,
     0x41, 0x42, 0x43, 0x44, 0x45, 0x46]"
  by (simp add: sg_hex_chars_def lit_def chr8_def)

lemma lang_code_init_map:
  assumes "length a = 256"
  shows "\<exists>hex. lang_code_init a = Inr (F1G_OK, hex) \<and> (\<forall>c\<in>set sg_hex_chars. rd hex (unat c) = Inr (hex_val c))"
proof -
  have "lang_code_init a = Inr (F1G_OK, a[48 := 0, 49 := 1, 50 := 2, 51 := 3, 52 := 4, 53 := 5, 54 := 6, 55 := 7, 56 := 8, 57 := 9,
      97 := 10, 98 := 11, 99 := 12, 100 := 13, 101 := 14, 102 := 15, 65 := 10, 66 := 11, 67 := 12, 68 := 13, 69 := 14, 70 := 15])"
    using assms by (simp add: lang_code_init_def sg_hex_chars_list)
  then show ?thesis
    using assms by (simp add: sg_hex_chars_list hex_val_def digit_val_def)
qed

section \<open>Tokens\<close>

text \<open>A text in which every percent sign is followed by two hexadecimal digits, and what it stands for: the
  digits outside escapes are left out.\<close>

datatype tok = Esc u8 u8 | Plain u8

fun tok_ok :: "tok \<Rightarrow> bool" where
  "tok_ok (Esc a b) \<longleftrightarrow> a \<in> set sg_hex_chars \<and> b \<in> set sg_hex_chars"
| "tok_ok (Plain c) \<longleftrightarrow> c \<noteq> URL_ESC_CHAR"

fun tok_text :: "tok \<Rightarrow> bytes" where
  "tok_text (Esc a b) = [URL_ESC_CHAR, a, b]"
| "tok_text (Plain c) = [c]"

fun tok_out :: "tok \<Rightarrow> bytes" where
  "tok_out (Esc a b) = [push_bit 4 (hex_val a) OR hex_val b]"
| "tok_out (Plain c) = (if c \<in> set sg_hex_chars then [] else [c])"

definition toks_text :: "tok list \<Rightarrow> bytes" where
  "toks_text ts = concat (map tok_text ts)"

definition toks_out :: "tok list \<Rightarrow> bytes" where
  "toks_out ts = concat (map tok_out ts)"

lemma esc_no_digit: "URL_ESC_CHAR \<notin> set sg_hex_chars"
  by (simp add: sg_hex_chars_list URL_ESC_CHAR_def)

lemma digit_no_esc: "c \<in> set sg_hex_chars \<Longrightarrow> c \<noteq> URL_ESC_CHAR"
  using esc_no_digit by auto

lemma dec_loop_token:
  assumes "\<forall>c\<in>set sg_hex_chars. rd hex (unat c) = Inr (hex_val c)" and "tok_ok t"
    and "\<not> esc_flag st" and "\<not> valid_hex_fst st" and "dec_len st = length q"
  shows "if length (tok_out t) \<le> length r
    then \<exists>v. dec_loop hex (tok_text t @ cs) (q @ r) st
      = dec_loop hex cs (q @ tok_out t @ drop (length (tok_out t)) r) (st\<lparr>dec_value := v, dec_len := length (q @ tok_out t)\<rparr>)
    else dec_loop hex (tok_text t @ cs) (q @ r) st = Inl OutOfBounds"
proof (cases t)
  case (Esc a b)
  then have ab: "a \<in> set sg_hex_chars" "b \<in> set sg_hex_chars" using assms(2) by simp_all
  show ?thesis
  proof (cases r)
    case Nil
    then show ?thesis using Esc ab assms digit_no_esc by (simp add: dec_char_def)
  next
    case (Cons y ys)
    then show ?thesis
      using Esc ab assms digit_no_esc by (cases st) (auto simp: dec_char_def wr_at list_update_append Let_def intro!: exI)
  qed
next
  case (Plain c)
  show ?thesis
  proof (cases "c \<in> set sg_hex_chars")
    case True
    show ?thesis
      using Plain True assms digit_no_esc by (cases st) (auto simp: dec_char_def intro!: exI [of _ "dec_value st"])
  next
    case False
    have st: "st\<lparr>dec_len := y\<rparr> = st\<lparr>dec_value := dec_value st, dec_len := y\<rparr>" for y by (cases st) simp
    show ?thesis
      using Plain False assms st by (cases r) (auto simp: dec_char_def wr_at list_update_append intro!: exI [of _ "dec_value st"])
  qed
qed

lemma dec_loop_tokens:
  assumes "\<forall>c\<in>set sg_hex_chars. rd hex (unat c) = Inr (hex_val c)" and "\<forall>t\<in>set ts. tok_ok t"
    and "\<not> esc_flag st" and "\<not> valid_hex_fst st" and "dec_len st = length q"
  shows "dec_loop hex (toks_text ts) (q @ r) st
    = (if length (toks_out ts) \<le> length r
       then Inr (F1G_OK, q @ toks_out ts @ drop (length (toks_out ts)) r, int (length q + length (toks_out ts)))
       else Inl OutOfBounds)"
  using assms(2-5)
proof (induction ts arbitrary: st q r)
  case Nil
  then show ?case by (simp add: toks_text_def toks_out_def)
next
  case (Cons t ts)
  note step = dec_loop_token [OF assms(1) _ Cons.prems(2-4), of t r "toks_text ts"]
  show ?case
  proof (cases "length (tok_out t) \<le> length r")
    case False
    then show ?thesis using step Cons.prems(1) by (simp add: toks_text_def toks_out_def)
  next
    case True
    then obtain v where v: "dec_loop hex (tok_text t @ toks_text ts) (q @ r) st
      = dec_loop hex (toks_text ts) ((q @ tok_out t) @ drop (length (tok_out t)) r) (st\<lparr>dec_value := v, dec_len := length (q @ tok_out t)\<rparr>)"
      using step Cons.prems(1) by auto
    have "length (tok_out t) + length (toks_out ts) \<le> length r \<longleftrightarrow> length (toks_out ts) \<le> length (drop (length (tok_out t)) r)"
      using True by auto
    then show ?thesis
      using v Cons.IH [of "st\<lparr>dec_value := v, dec_len := length (q @ tok_out t)\<rparr>" "q @ tok_out t" "drop (length (tok_out t)) r"] Cons.prems
      by (simp add: toks_text_def toks_out_def add.commute)
  qed
qed

text \<open>C30. With the map initialised, a text of escapes and other characters decodes to the bytes of the escapes and the
  characters that are no hexadecimal digits, and overruns a buffer that is too small for them.\<close>

theorem str_decode_tokens:
  assumes "lang_code_init sg_hex_static = Inr (F1G_OK, hex)" and "\<forall>t\<in>set ts. tok_ok t"
  shows "str_decode hex (toks_text ts @ z) (int (length (toks_text ts))) buf
    = (if length (toks_out ts) \<le> length buf
       then Inr (F1G_OK, toks_out ts @ drop (length (toks_out ts)) buf, int (length (toks_out ts)))
       else Inl OutOfBounds)"
proof -
  have "length sg_hex_static = 256" by (simp add: sg_hex_static_def)
  then have "\<forall>c\<in>set sg_hex_chars. rd hex (unat c) = Inr (hex_val c)" using lang_code_init_map assms(1) by fastforce
  from dec_loop_tokens [OF this assms(2), of _ "[]" buf] show ?thesis
    by (simp add: str_decode_def)
qed

lemma str_decode_tokens_witness:
  "\<exists>hex. lang_code_init sg_hex_static = Inr (F1G_OK, hex)
    \<and> str_decode hex [0x78, 0x25, 0x34, 0x31, 0x37] 5 [0, 0, 0] = Inr (F1G_OK, [0x78, 0x41, 0], 2)"
proof -
  have "length sg_hex_static = 256" by (simp add: sg_hex_static_def)
  then obtain hex where hex: "lang_code_init sg_hex_static = Inr (F1G_OK, hex)" using lang_code_init_map by blast
  show ?thesis
    using str_decode_tokens [OF hex, of "[Plain 0x78, Esc 0x34 0x31, Plain 0x37]" "[]" "[0, 0, 0]"] hex
    by (simp add: toks_text_def toks_out_def URL_ESC_CHAR_def sg_hex_chars_list hex_val_def digit_val_def)
qed

section \<open>Units\<close>

text \<open>Every text is refused: no byte has a shape, as the conditions compare the two constants.\<close>

theorem utf8_to_unicode_rejects:
  assumes "s \<noteq> []" and "0 < data_size" and "data_size \<le> 2 * int (length buf)"
  shows "\<exists>buf'. utf8_to_unicode s buf data_size = Inr (F1G_ERR, buf', 0) \<and> utf8_shape (hd s) = None"
proof -
  have "utf8_shape c = None" for c by (simp add: utf8_shape_def masked_def)
  then show ?thesis
    using assms by (simp add: utf8_to_unicode_def clear_units_def to_units.simps [of s])
qed

lemma utf8_to_unicode_rejects_witness:
  "\<exists>buf'. utf8_to_unicode [0x41] [0, 0] 2 = Inr (F1G_ERR, buf', 0)"
  using utf8_to_unicode_rejects [of "[0x41]" 2 "[0, 0]"] by auto

text \<open>The bytes of a unit are those of its encoding, last first.\<close>

lemma below_8: "n < 8 \<Longrightarrow> P 0 \<Longrightarrow> P 1 \<Longrightarrow> P 2 \<Longrightarrow> P 3 \<Longrightarrow> P 4 \<Longrightarrow> P 5 \<Longrightarrow> P 6 \<Longrightarrow> P 7 \<Longrightarrow> P (n::nat)"
  by (simp add: less_Suc_eq numeral_eq_Suc) metis

lemma unit_bytes_rev: "unit_bytes u = rev (utf8 u)"
proof -
  have top: "\<not> bit u 16" by (auto dest: bit_imp_le_length)
  have w: "(ucast (drop_bit 12 (ucast u :: u32) AND 0x1F OR 0xE0) :: u8) = ucast (0xE0 OR (drop_bit 12 u AND 0x0F))"
    "(ucast (drop_bit 6 (ucast u :: u32) AND 0x3F OR 0x80) :: u8) = ucast (0x80 OR (drop_bit 6 u AND 0x3F))"
    "(ucast (drop_bit 6 (ucast u :: u32) AND 0x1F OR 0xC0) :: u8) = ucast (0xC0 OR (drop_bit 6 u AND 0x1F))"
    "(ucast ((ucast u :: u32) AND 0x3F OR 0x80) :: u8) = ucast (0x80 OR (u AND 0x3F))"
    by (rule bit_word_eqI, simp add: bit_simps, erule below_8; simp add: top)+
  have w1: "(ucast ((ucast u :: u32) AND 0xFF) :: u8) = ucast (u AND 0xFF)"
    by (rule bit_word_eqI) (auto simp: bit_simps)
  have "u \<le> 0x007F \<longleftrightarrow> u < 0x80" by (simp add: word_le_nat_alt word_less_nat_alt) arith
  then show ?thesis
    unfolding unit_bytes_def utf8_def Let_def w w1 by auto
qed

lemma from_units_rev:
  assumes "length (concat (map (rev \<circ> utf8) us)) \<le> length r"
  shows "from_units us (q @ r) (length q) n
    = Inr (q @ concat (map (rev \<circ> utf8) us) @ drop (length (concat (map (rev \<circ> utf8) us))) r,
           if us = [] then n else int (length (utf8 (last us))))"
  using assms
proof (induction us arbitrary: q r n)
  case Nil
  then show ?case by simp
next
  case (Cons u us)
  have l: "length (utf8 u) \<le> length r" using Cons.prems by simp
  have "put (q @ r) (length q) (rev (utf8 u)) = Inr ((q @ rev (utf8 u)) @ drop (length (utf8 u)) r)"
    using l by (simp add: put_def)
  then show ?case
    using Cons.IH [of "drop (length (utf8 u)) r" "q @ rev (utf8 u)" "int (length (utf8 u))"] Cons.prems
    by (simp add: unit_bytes_rev add.commute)
qed

text \<open>Where the buffer has room, every unit is stored as its encoding with the bytes in reverse order, and the length
  reported is that of the last unit alone.\<close>

theorem unicode_to_utf8_reversed:
  assumes "us \<noteq> []" and "0 \<le> buf_size" and "buf_size \<le> int (length buf)" and "length (concat (map utf8 us)) \<le> length buf"
  shows "\<exists>z. unicode_to_utf8 us buf buf_size = Inr (F1G_OK, concat (map (rev \<circ> utf8) us) @ z, int (length (utf8 (last us))))
    \<and> length (concat (map utf8 us)) + length z = length buf"
proof -
  define b where "b = replicate (nat buf_size) 0 @ drop (nat buf_size) buf"
  have lb: "length b = length buf" using assms(2,3) by (simp add: b_def nat_le_iff)
  have l: "length (concat (map (rev \<circ> utf8) us)) = length (concat (map utf8 us))" by (simp add: length_concat comp_def)
  have "from_units us b 0 0 = Inr (concat (map (rev \<circ> utf8) us) @ drop (length (concat (map (rev \<circ> utf8) us))) b, int (length (utf8 (last us))))"
    using from_units_rev [of us b "[]" 0] assms(1,4) lb l by simp
  then have "unicode_to_utf8 us buf buf_size
    = Inr (F1G_OK, concat (map (rev \<circ> utf8) us) @ drop (length (concat (map (rev \<circ> utf8) us))) b, int (length (utf8 (last us))))"
    using assms(2,3) by (simp add: unicode_to_utf8_def b_def)
  then show ?thesis using lb l assms(4) by (intro exI conjI) (assumption, simp)
qed

lemma unicode_to_utf8_reversed_witness:
  "\<exists>z. unicode_to_utf8 [0x41, 0xE9] [1, 1, 1, 1] 4 = Inr (F1G_OK, [0x41, 0xA9, 0xC3] @ z, 2) \<and> length z = 1"
  using unicode_to_utf8_reversed [of "[0x41, 0xE9]" 4 "[1, 1, 1, 1]"] by (simp add: utf8_def)

end
