(* ===== verification/Log.thy ===== *)
theory Log
  imports Buffer
begin

text \<open>
  The log of \<^verbatim>\<open>src/f1g_log.c\<close>: messages are formatted into a buffer that is written to a file when it has
  reached a limit. The data of the successive calls of \<^verbatim>\<open>write\<close> is an output; what the file takes of them
  is not modelled, as the code does not look at it.
\<close>

section \<open>The log and its operations\<close>

record log =
  log_fd :: int
  log_size :: int
  log_buf :: "bytes ptr"
  log_len :: int
  w_sz_limit :: int

text \<open>\<open>fd\<close> is what \<^verbatim>\<open>open\<close> returns. When it fails the buffer is freed and the pointer stays.\<close>

definition f1g_log_init :: "bool \<Rightarrow> int \<Rightarrow> int \<Rightarrow> int \<Rightarrow> int \<times> log" where
  "f1g_log_init ok fd buf_size limit =
     (case zalloc ok buf_size 0 of
        Live m \<Rightarrow>
          if fd < 0 then (- 1, \<lparr>log_fd = fd, log_size = buf_size, log_buf = Dangling, log_len = 0, w_sz_limit = limit\<rparr>)
          else (0, \<lparr>log_fd = fd, log_size = buf_size, log_buf = Live m, log_len = 0, w_sz_limit = limit\<rparr>)
      | _ \<Rightarrow> (- 1, \<lparr>log_fd = 0, log_size = buf_size, log_buf = Null, log_len = 0, w_sz_limit = 0\<rparr>))"

definition f1g_log_extern_buf :: "bool \<Rightarrow> log \<Rightarrow> int \<Rightarrow> (int \<times> log) run" where
  "f1g_log_extern_buf ok l n =
     (case zalloc ok n 0 of
        Live m \<Rightarrow>
          bindR (if log_len l > 0 then bindR (deref (log_buf l)) (\<lambda>old. bindR (slice old 0 (log_len l)) (put m 0)) else Inr m) (\<lambda>m'.
          freeR (log_buf l) (Inr (0, l\<lparr>log_buf := Live m', log_size := n, w_sz_limit := n - 1024\<rparr>)))
      | _ \<Rightarrow> Inr (- 1, l))"

text \<open>\<^verbatim>\<open>write(fd, buf, data_len)\<close> and the reset of \<^verbatim>\<open>data_len\<close>.\<close>

definition flush :: "log \<Rightarrow> (log \<times> bytes) run" where
  "flush l = bindR (deref (log_buf l)) (\<lambda>m. bindR (slice m 0 (log_len l)) (\<lambda>t. Inr (l\<lparr>log_len := 0\<rparr>, t)))"

text \<open>\<open>None\<close> stands for an empty format; \<open>Some out\<close> has the text the format and its arguments produce, the same in
  both calls. The second call is given the room of the old buffer, also after the buffer has grown. The sums are of
  \<^verbatim>\<open>int\<close>.\<close>

definition f1g_log_write :: "bool \<Rightarrow> bytes option option \<Rightarrow> log \<Rightarrow> (int \<times> log \<times> bytes list) run" where
  "f1g_log_write ok fmt l =
     (case fmt of
        None \<Rightarrow> bindR (flush l) (\<lambda>(l1, t). Inr (0, l1, [t]))
      | Some out \<Rightarrow>
          let cap = w_sz_limit l - log_len l in
          bindR (deref (log_buf l)) (\<lambda>m.
          bindR (vsnprintf m (nat (log_len l)) cap out) (\<lambda>(len, m1).
          let l1 = l\<lparr>log_buf := Live m1\<rparr> in
          bindR (if len > cap then
                   bindR (flush l1) (\<lambda>(l2, t).
                   let cap2 = log_size l2 in
                   bindR (if len > cap2 then bindR (i32R (len + 1024)) (f1g_log_extern_buf ok l2) else Inr (0, l2)) (\<lambda>(_, l3).
                   bindR (deref (log_buf l3)) (\<lambda>m3.
                   bindR (vsnprintf m3 (nat (log_len l3)) cap2 out) (\<lambda>(len2, m4).
                     Inr (l3\<lparr>log_buf := Live m4\<rparr>, len2, [t])))))
                 else Inr (l1, len, [])) (\<lambda>(l5, len5, ts).
          bindR (i32R (log_len l5 + len5)) (\<lambda>d.
          let l6 = l5\<lparr>log_len := d\<rparr> in
          if log_len l6 \<ge> w_sz_limit l6 then bindR (flush l6) (\<lambda>(l7, t). Inr (0, l7, ts @ [t]))
          else Inr (0, l6, ts))))))"

definition f1g_log_destroy :: "log \<Rightarrow> (int \<times> bytes list) run" where
  "f1g_log_destroy l =
     bindR (if log_len l > 0 then bindR (flush l) (\<lambda>(_, t). Inr [t]) else Inr []) (\<lambda>ts.
       freeR (log_buf l) (Inr (0, ts)))"

section \<open>What is logged\<close>

definition log_wf :: "log \<Rightarrow> bool" where
  "log_wf l \<longleftrightarrow> (\<exists>m. log_buf l = Live m \<and> log_size l = int (length m)) \<and> 0 < w_sz_limit l \<and> w_sz_limit l \<le> log_size l
     \<and> log_size l < 2 ^ 31 \<and> 0 \<le> log_len l \<and> log_len l < w_sz_limit l"

text \<open>The text in the buffer.\<close>

definition pending :: "log \<Rightarrow> bytes" where
  "pending l = (case log_buf l of Live m \<Rightarrow> take (nat (log_len l)) m | _ \<Rightarrow> [])"

text \<open>The buffer grows with its contents kept, as long as the limit that goes with its size is kept.\<close>

interpretation lg: growable "f1g_log_extern_buf True" pending log_size
  "\<lambda>l. (\<exists>m. log_buf l = Live m \<and> log_size l = int (length m)) \<and> 0 \<le> log_len l \<and> log_len l \<le> log_size l"
proof
  fix l :: log and n
  assume inv: "(\<exists>m. log_buf l = Live m \<and> log_size l = int (length m)) \<and> 0 \<le> log_len l \<and> log_len l \<le> log_size l"
    and n: "log_size l < n"
  then obtain m where m: "log_buf l = Live m" "log_size l = int (length m)" "0 \<le> log_len l" "log_len l \<le> int (length m)" by auto
  let ?m = "take (nat (log_len l)) m @ drop (nat (log_len l)) (replicate (nat n) 0)"
  have t: "nat (log_len l) \<le> length m" "length m \<le> nat n" "0 \<le> n" using m n by auto
  then have "put (replicate (nat n) 0) 0 (take (nat (log_len l)) m) = Inr ?m" by (simp add: put_def min_def)
  moreover have "?m = replicate (nat n) 0" if "\<not> log_len l > 0" using that m(3) by simp
  ultimately have "f1g_log_extern_buf True l n = Inr (0, l\<lparr>log_buf := Live ?m, log_size := n, w_sz_limit := n - 1024\<rparr>)"
    using m(1,3) t by (auto simp: f1g_log_extern_buf_def zalloc_def)
  then show "\<exists>s'. f1g_log_extern_buf True l n = Inr (F1G_OK, s') \<and>
    ((\<exists>m. log_buf s' = Live m \<and> log_size s' = int (length m)) \<and> 0 \<le> log_len s' \<and> log_len s' \<le> log_size s')
    \<and> pending s' = pending l \<and> log_size s' = n"
    using m t by (auto simp: F1G_OK_def pending_def min_def)
qed

text \<open>What a message adds to the log, by the bytes \<open>n\<close> in the buffer, the limit and the size: one that exactly reaches the
  limit, or after a flush the size, loses its last byte to the terminator; of one that is longer than the buffer
  the part that fits in the old buffer is kept, and NULs stand for the rest.\<close>

definition shown :: "int \<times> int \<times> int \<Rightarrow> bytes \<Rightarrow> bytes" where
  "shown st t = (case st of (n, limit, sz) \<Rightarrow>
     let k = int (length t) in
     if n + k < limit then t
     else if n + k = limit then butlast t @ [0]
     else if k < sz then t
     else if k = sz then butlast t @ [0]
     else take (nat sz - 1) t @ replicate (length t - (nat sz - 1)) 0)"

definition next_st :: "int \<times> int \<times> int \<Rightarrow> bytes \<Rightarrow> int \<times> int \<times> int" where
  "next_st st t = (case st of (n, limit, sz) \<Rightarrow>
     let k = int (length t) in
     if n + k < limit then (n + k, limit, sz)
     else if n + k = limit then (0, limit, sz)
     else if k \<le> sz then (if k < limit then k else 0, limit, sz)
     else (0, k, k + 1024))"

definition log_st :: "log \<Rightarrow> int \<times> int \<times> int" where
  "log_st l = (log_len l, w_sz_limit l, log_size l)"

fun log_text :: "int \<times> int \<times> int \<Rightarrow> bytes list \<Rightarrow> bytes" where
  "log_text st [] = []"
| "log_text st (t # ts) = shown st t @ log_text (next_st st t) ts"

text \<open>Formatting at the end of the text in the buffer.\<close>

lemma vsnprintf_at:
  assumes "n \<le> length m" and "0 < cap" and "int n + cap \<le> int (length m)"
  shows "\<exists>m'. vsnprintf m n cap (Some t) = Inr (int (length t), m') \<and> length m' = length m \<and> take n m' = take n m
    \<and> (int (length t) < cap \<longrightarrow> take (n + length t) m' = take n m @ t)
    \<and> (cap \<le> int (length t) \<longrightarrow> take (n + nat cap) m' = take n m @ take (nat cap - 1) t @ [0] \<and> drop (n + nat cap) m' = drop (n + nat cap) m)"
proof -
  define u where "u = take (nat cap - 1) t @ [0]"
  have l: "length u = (if int (length t) < cap then Suc (length t) else nat cap)" using assms(2) by (auto simp: u_def)
  then have fit: "n + length u \<le> length m" using assms(2,3) by (cases "int (length t) < cap") auto
  define m' where "m' = take n m @ u @ drop (n + length u) m"
  have tn: "length (take n m) = n" using assms(1) by simp
  have "put m n u = Inr m'" using fit by (simp add: put_def m'_def)
  then have "vsnprintf m n cap (Some t) = Inr (int (length t), m')" using assms(2) by (simp add: vsnprintf_def u_def)
  moreover have "length m' = length m" "take n m' = take n m" using fit tn by (simp_all add: m'_def)
  moreover have "take (n + length t) m' = take n m @ t" if "int (length t) < cap"
  proof -
    have "u = t @ [0]" using that by (simp add: u_def)
    then show ?thesis using tn by (simp add: m'_def)
  qed
  moreover have "take (n + nat cap) m' = take n m @ take (nat cap - 1) t @ [0] \<and> drop (n + nat cap) m' = drop (n + nat cap) m"
    if "cap \<le> int (length t)"
  proof -
    have "length u = nat cap" using l that by simp
    then have "take (n + nat cap) m' = take n m @ u" "drop (n + nat cap) m' = drop (n + nat cap) m" using tn by (simp_all add: m'_def)
    then show ?thesis by (simp add: u_def)
  qed
  ultimately show ?thesis by blast
qed

lemma flush_at: "log_buf l = Live m \<Longrightarrow> 0 \<le> log_len l \<Longrightarrow> nat (log_len l) \<le> length m \<Longrightarrow>
  flush l = Inr (l\<lparr>log_len := 0\<rparr>, take (nat (log_len l)) m)"
  by (simp add: flush_def)

lemma take_pred_butlast: "length t = n \<Longrightarrow> take (n - 1) t = butlast t"
  by (simp add: butlast_conv_take)

text \<open>A message that does not fit in the room before the limit: the buffer is written out and the message stored at its
  start.\<close>

definition restart :: "bool \<Rightarrow> bytes \<Rightarrow> log \<Rightarrow> (log \<times> bytes list) run" where
  "restart ok t l =
     bindR (if int (length t) > log_size l then bindR (i32R (int (length t) + 1024)) (f1g_log_extern_buf ok l) else Inr (0, l)) (\<lambda>(_, l3).
     bindR (deref (log_buf l3)) (\<lambda>m3.
     bindR (vsnprintf m3 (nat (log_len l3)) (log_size l) (Some t)) (\<lambda>(len2, m4).
     bindR (i32R (log_len l3 + len2)) (\<lambda>d.
     let l6 = l3\<lparr>log_buf := Live m4, log_len := d\<rparr> in
     if log_len l6 \<ge> w_sz_limit l6 then bindR (flush l6) (\<lambda>(l7, t). Inr (l7, [t])) else Inr (l6, [])))))"

lemma restart_ok:
  assumes "log_buf l = Live m" and "log_size l = int (length m)" and "0 < w_sz_limit l" and "w_sz_limit l \<le> log_size l" and "log_len l = 0"
    and "st = (k, w_sz_limit l, log_size l)" and "w_sz_limit l < k + int (length t)"
    and "log_size l < 2 ^ 31" and "int (length t) + 1024 < 2 ^ 31"
  shows "\<exists>l' ts. restart True t l = Inr (l', ts) \<and> log_wf l' \<and> concat ts @ pending l' = shown st t \<and> log_st l' = next_st st t"
proof -
  have sz: "0 < length m" using assms(2-4) by linarith
  show ?thesis
  proof (cases "int (length t) \<le> log_size l")
    case True
    obtain m' where m': "vsnprintf m 0 (log_size l) (Some t) = Inr (int (length t), m')" "length m' = length m"
      "int (length t) < log_size l \<longrightarrow> take (length t) m' = t"
      "log_size l \<le> int (length t) \<longrightarrow> take (length m) m' = take (length m - 1) t @ [0]"
      using vsnprintf_at [of 0 m "log_size l" t] assms(2) sz by auto
    have tx: "take (length t) m' = shown st t"
    proof (cases "int (length t) < log_size l")
      case False
      then have "length t = length m" using True assms(2) by simp
      then show ?thesis using m'(4) False True assms(2,6,7) take_pred_butlast [of t "length m"] by (simp add: shown_def)
    qed (use m'(3) assms(2,6,7) in \<open>simp add: shown_def\<close>)
    let ?l6 = "l\<lparr>log_buf := Live m', log_len := int (length t)\<rparr>"
    have run: "restart True t l = (if w_sz_limit l \<le> int (length t) then Inr (?l6\<lparr>log_len := 0\<rparr>, [take (length t) m']) else Inr (?l6, []))"
      using assms(1,2,5,9) True m'(1,2) flush_at [of ?l6 m'] by (simp add: restart_def)
    show ?thesis
    proof (cases "w_sz_limit l \<le> int (length t)")
      case big: True
      have "log_wf (?l6\<lparr>log_len := 0\<rparr>)" using assms m'(2) by (simp add: log_wf_def)
      then show ?thesis
        using run big tx True assms(2,6,7) by (auto simp: pending_def log_st_def next_st_def Let_def)
    next
      case small: False
      then have "log_wf ?l6" using assms m'(2) by (simp add: log_wf_def)
      then show ?thesis
        using run small tx True assms(2,6,7) by (auto simp: pending_def log_st_def next_st_def Let_def)
    qed
  next
    case False
    let ?m3 = "replicate (length t + 1024) (0 :: u8)"
    have ext: "f1g_log_extern_buf True l (int (length t) + 1024)
        = Inr (0, l\<lparr>log_buf := Live ?m3, log_size := int (length t) + 1024, w_sz_limit := int (length t)\<rparr>)"
      using assms(1,5) by (simp add: f1g_log_extern_buf_def zalloc_def nat_add_distrib)
    obtain m' where m': "vsnprintf ?m3 0 (log_size l) (Some t) = Inr (int (length t), m')" "length m' = length ?m3"
      "take (length m) m' = take (length m - 1) t @ [0]" "drop (length m) m' = drop (length m) ?m3"
      using vsnprintf_at [of 0 ?m3 "log_size l" t] assms(2) sz False by auto
    have "m' = (take (length m - 1) t @ [0]) @ drop (length m) ?m3" using m'(3,4) by (metis append_take_drop_id)
    moreover have lt: "length m < length t" using False assms(2) by simp
    moreover have "length (take (length m - 1) t @ [0 :: u8]) = length m" using sz lt by simp
    moreover have "Suc (length t) - length m = Suc (length t - length m)" using lt by (simp add: Suc_diff_le)
    ultimately have "take (length t) m' = (take (length m - 1) t @ [0]) @ replicate (length t - length m) 0"
      by (simp add: take_append)
    moreover have "length t - (length m - 1) = Suc (length t - length m)" using sz lt by arith
    ultimately have tx: "take (length t) m' = shown st t"
      using False assms(2,6,7) by (simp add: shown_def)
    let ?l6 = "l\<lparr>log_size := int (length t) + 1024, w_sz_limit := int (length t), log_buf := Live m', log_len := int (length t)\<rparr>"
    have fl: "flush ?l6 = Inr (?l6\<lparr>log_len := 0\<rparr>, take (length t) m')" using flush_at [of ?l6 m'] m'(2) by simp
    have "restart True t l = Inr (?l6\<lparr>log_len := 0\<rparr>, [take (length t) m'])"
      unfolding restart_def using False ext m'(1) assms(5,9) fl by simp
    moreover have "log_wf (?l6\<lparr>log_len := 0\<rparr>)" using m'(2) lt assms(9) by (cases t) (simp_all add: log_wf_def)
    ultimately show ?thesis
      using tx False assms(6,7) by (auto simp: pending_def log_st_def next_st_def Let_def)
  qed
qed

lemma f1g_log_write_ok:
  assumes "log_wf l" and "int (length t) + 1024 < 2 ^ 31"
  shows "\<exists>l' ts. f1g_log_write True (Some (Some t)) l = Inr (0, l', ts) \<and> log_wf l'
    \<and> concat ts @ pending l' = pending l @ shown (log_st l) t \<and> log_st l' = next_st (log_st l) t"
proof -
  obtain m where m: "log_buf l = Live m" "log_size l = int (length m)" "0 < w_sz_limit l" "w_sz_limit l \<le> log_size l"
    "0 \<le> log_len l" "log_len l < w_sz_limit l" "log_size l < 2 ^ 31" using assms(1) by (auto simp: log_wf_def)
  define n where "n = nat (log_len l)"
  define cap where "cap = w_sz_limit l - log_len l"
  have n: "log_len l = int n" "n \<le> length m" "0 < cap" "int n + cap \<le> int (length m)" "int n + cap = w_sz_limit l"
    using m by (auto simp: n_def cap_def)
  obtain m' where m': "vsnprintf m n cap (Some t) = Inr (int (length t), m')" "length m' = length m" "take n m' = take n m"
    "int (length t) < cap \<longrightarrow> take (n + length t) m' = take n m @ t"
    "cap \<le> int (length t) \<longrightarrow> take (n + nat cap) m' = take n m @ take (nat cap - 1) t @ [0]"
    using vsnprintf_at [OF n(2-4), of t] by blast
  have c: "w_sz_limit l = int n + cap" using n(5) by simp
  have p: "pending l = take n m" using m(1) by (simp add: pending_def n_def)
  let ?l1 = "l\<lparr>log_buf := Live m'\<rparr>"
  let ?l6 = "?l1\<lparr>log_len := int (n + length t)\<rparr>"
  consider (fits) "int (length t) < cap" | (exact) "int (length t) = cap" | (over) "cap < int (length t)" by linarith
  then show ?thesis
  proof cases
    case fits
    have "f1g_log_write True (Some (Some t)) l = Inr (0, ?l6, [])"
      unfolding f1g_log_write_def using m(1,4,7) n(1) m'(1) fits c by (simp add: Let_def)
    moreover have "log_wf ?l6" using m m'(2) n fits by (simp add: log_wf_def)
    ultimately show ?thesis
      using m'(4) n(1,5) fits p by (auto simp: pending_def log_st_def next_st_def shown_def Let_def nat_add_distrib)
  next
    case exact
    have k: "n + length t = nat (w_sz_limit l)" using n(1,5) exact by linarith
    have fl: "flush ?l6 = Inr (?l6\<lparr>log_len := 0\<rparr>, take (n + length t) m')"
      using flush_at [of ?l6 m'] m'(2) n exact k by simp
    have "f1g_log_write True (Some (Some t)) l = Inr (0, ?l6\<lparr>log_len := 0\<rparr>, [take (n + length t) m'])"
      unfolding f1g_log_write_def using m(1,4,7) n(1) m'(1) exact fl c by (simp add: Let_def)
    moreover have "log_wf (?l6\<lparr>log_len := 0\<rparr>)" using m m'(2) by (simp add: log_wf_def)
    moreover have "take (n + length t) m' = take n m @ butlast t @ [0]"
      using m'(5) exact take_pred_butlast [of t "nat cap"] by auto
    ultimately show ?thesis
      using n(1,5) exact p by (auto simp: pending_def log_st_def next_st_def shown_def Let_def)
  next
    case over
    let ?l2 = "?l1\<lparr>log_len := 0\<rparr>"
    have fl: "flush ?l1 = Inr (?l2, take n m)" using flush_at [of ?l1 m'] m'(2,3) n(1,2) by simp
    have st: "log_st l = (int n, w_sz_limit ?l2, log_size ?l2)" "w_sz_limit ?l2 < int n + int (length t)"
      using n(1,5) over by (simp_all add: log_st_def)
    obtain l' ts where r: "restart True t ?l2 = Inr (l', ts)" "log_wf l'" "concat ts @ pending l' = shown (log_st l) t"
      "log_st l' = next_st (log_st l) t"
      using restart_ok [of ?l2 m' "log_st l" "int n" t] m m'(2) st assms(2) by auto
    obtain x l3 m3 len2 m4 d where ch: "(if log_size ?l2 < int (length t) then bindR (i32R (int (length t) + 1024)) (f1g_log_extern_buf True ?l2) else Inr (0, ?l2)) = Inr (x, l3)"
      "deref (log_buf l3) = Inr m3" "vsnprintf m3 (nat (log_len l3)) (log_size ?l2) (Some t) = Inr (len2, m4)"
      "i32R (log_len l3 + len2) = Inr d"
      "(let l6 = l3\<lparr>log_buf := Live m4, log_len := d\<rparr> in
        if log_len l6 \<ge> w_sz_limit l6 then bindR (flush l6) (\<lambda>(l7, t). Inr (l7, [t])) else Inr (l6, [])) = Inr (l', ts)"
      using r(1) unfolding restart_def bindR_Inr_conv by (auto simp: bindR_Inr_conv split: prod.splits)
    have "f1g_log_write True (Some (Some t)) l = Inr (0, l', take n m # ts)"
      unfolding f1g_log_write_def using m(1) n(1) m'(1) c over fl ch
      by (cases "log_size l < int (length t)") (auto simp: Let_def bindR_Inr_conv split: if_splits prod.splits)
    then show ?thesis using r(2-4) p by auto
  qed
qed

text \<open>A message no longer than the buffer does not make it grow; a longer one for which it cannot is counted as stored.\<close>

lemma f1g_log_write_no_growth:
  assumes "log_wf l" and "int (length t) \<le> log_size l"
  shows "f1g_log_write ok (Some (Some t)) l = f1g_log_write True (Some (Some t)) l"
proof -
  obtain m where m: "log_buf l = Live m" "log_size l = int (length m)" "0 < w_sz_limit l" "w_sz_limit l \<le> log_size l"
    "0 \<le> log_len l" "log_len l < w_sz_limit l" using assms(1) by (auto simp: log_wf_def)
  obtain m' where "vsnprintf m (nat (log_len l)) (w_sz_limit l - log_len l) (Some t) = Inr (int (length t), m')"
    using vsnprintf_at [of "nat (log_len l)" m "w_sz_limit l - log_len l" t] m by auto
  then show ?thesis
    using m(1) assms(2) by (simp add: f1g_log_write_def flush_def bindR_def Let_def split: sum.splits)
qed

lemma f1g_log_write_fails:
  assumes "log_wf l" and "log_size l < int (length t)" and "int (length t) + 1024 < 2 ^ 31"
  shows "f1g_log_write False (Some (Some t)) l = Inl OutOfBounds"
proof -
  obtain m where m: "log_buf l = Live m" "log_size l = int (length m)" "0 < w_sz_limit l" "w_sz_limit l \<le> log_size l"
    "0 \<le> log_len l" "log_len l < w_sz_limit l" using assms(1) by (auto simp: log_wf_def)
  obtain m' where m': "vsnprintf m (nat (log_len l)) (w_sz_limit l - log_len l) (Some t) = Inr (int (length t), m')" "length m' = length m"
    using vsnprintf_at [of "nat (log_len l)" m "w_sz_limit l - log_len l" t] m by auto
  have ne: "m \<noteq> []" using m by auto
  obtain m4 where m4: "vsnprintf m' 0 (log_size l) (Some t) = Inr (int (length t), m4)" "length m4 = length m"
    using vsnprintf_at [of 0 m' "log_size l" t] m m'(2) ne by auto
  have fl: "flush (l\<lparr>log_buf := Live m'\<rparr>) = Inr (l\<lparr>log_buf := Live m', log_len := 0\<rparr>, take (nat (log_len l)) m')"
    using flush_at [of "l\<lparr>log_buf := Live m'\<rparr>" m'] m m'(2) by simp
  have c: "w_sz_limit l - log_len l < int (length t)" "w_sz_limit l \<le> int (length t)" using m assms(2) by linarith+
  have "flush (l\<lparr>log_buf := Live m4, log_len := int (length t)\<rparr>) = Inl OutOfBounds"
    using m4(2) m(2) assms(2) by (simp add: flush_def slice_def)
  then show ?thesis
    unfolding f1g_log_write_def
    using m(1) m'(1) m4(1) fl c assms(2,3) by (simp add: Let_def f1g_log_extern_buf_def zalloc_def)
qed

text \<open>A sequence of messages, while the buffer can be made to grow (\<open>ok\<close>) or not.\<close>

fun log_all :: "bool \<Rightarrow> bytes list \<Rightarrow> log \<Rightarrow> (log \<times> bytes list) run" where
  "log_all ok [] l = Inr (l, [])"
| "log_all ok (t # ts) l =
     bindR (f1g_log_write ok (Some (Some t)) l) (\<lambda>(_, l1, xs). bindR (log_all ok ts l1) (\<lambda>(l2, ys). Inr (l2, xs @ ys)))"

lemma log_all_ok:
  assumes "log_wf l" and "\<forall>t\<in>set ts. int (length t) + 1024 < 2 ^ 31"
  shows "if ok \<or> (\<forall>t\<in>set ts. int (length t) \<le> log_size l)
    then \<exists>l' xs. log_all ok ts l = Inr (l', xs) \<and> log_wf l' \<and> concat xs @ pending l' = pending l @ log_text (log_st l) ts
    else log_all ok ts l = Inl OutOfBounds"
  using assms
proof (induction ts arbitrary: l)
  case Nil
  then show ?case by simp
next
  case (Cons t ts)
  show ?case
  proof (cases "ok \<or> int (length t) \<le> log_size l")
    case False
    then show ?thesis using f1g_log_write_fails [OF Cons.prems(1), of t] Cons.prems(2) by simp
  next
    case True
    obtain l1 xs where 1: "f1g_log_write True (Some (Some t)) l = Inr (0, l1, xs)" "log_wf l1"
      "concat xs @ pending l1 = pending l @ shown (log_st l) t" "log_st l1 = next_st (log_st l) t"
      using f1g_log_write_ok [OF Cons.prems(1), of t] Cons.prems(2) by auto
    have w: "f1g_log_write ok (Some (Some t)) l = Inr (0, l1, xs)"
      using 1(1) True f1g_log_write_no_growth [OF Cons.prems(1), of t ok] by (cases ok) auto
    have size: "log_size l1 = log_size l" if "int (length t) \<le> log_size l"
      using 1(4) that by (auto simp: log_st_def next_st_def Let_def split: if_splits)
    have e: "(ok \<or> (\<forall>u\<in>set (t # ts). int (length u) \<le> log_size l)) = (ok \<or> (\<forall>u\<in>set ts. int (length u) \<le> log_size l1))"
      using True size by (cases ok) auto
    show ?thesis
    proof (cases "ok \<or> (\<forall>u\<in>set ts. int (length u) \<le> log_size l1)")
      case go: True
      then obtain l2 ys where 2: "log_all ok ts l1 = Inr (l2, ys)" "log_wf l2" "concat ys @ pending l2 = pending l1 @ log_text (log_st l1) ts"
        using Cons.IH [OF 1(2)] Cons.prems(2) by auto
      have "concat (xs @ ys) @ pending l2 = (concat xs @ pending l1) @ log_text (log_st l1) ts" using 2(3) by simp
      then show ?thesis unfolding e using go w 1 2 by simp
    next
      case stop: False
      then have "log_all ok ts l1 = Inl OutOfBounds" using Cons.IH [OF 1(2)] Cons.prems(2) by (simp only: if_False) simp
      then show ?thesis unfolding e using stop w by simp
    qed
  qed
qed

text \<open>C18. A log with a limit of at least one byte and at most the size of its buffer, and messages shorter by 1024 than the
  largest \<^verbatim>\<open>int\<close>, all of which can be formatted: as long as the buffer can be made to grow, or no message is longer than it,
  no call faults, and the data written to the file between creation and destruction is what the messages add one after the
  other. Without memory for a longer message the call reads behind the buffer, as the result of growing is not looked at.\<close>

theorem log_session:
  assumes "f1g_log_init True fd sz limit = (0, l)" and "0 < limit" and "limit \<le> sz" and "sz < 2 ^ 31"
    and "\<forall>t\<in>set ts. int (length t) + 1024 < 2 ^ 31"
  shows "if ok \<or> (\<forall>t\<in>set ts. int (length t) \<le> sz)
    then \<exists>l' xs ys. log_all ok ts l = Inr (l', xs) \<and> f1g_log_destroy l' = Inr (0, ys) \<and> concat (xs @ ys) = log_text (0, limit, sz) ts
    else log_all ok ts l = Inl OutOfBounds"
proof -
  have l: "l = \<lparr>log_fd = fd, log_size = sz, log_buf = Live (replicate (nat sz) 0), log_len = 0, w_sz_limit = limit\<rparr>"
    using assms by (auto simp: f1g_log_init_def zalloc_def split: if_splits)
  have i: "log_wf l" "pending l = []" "log_st l = (0, limit, sz)" "log_size l = sz"
    using assms(2-4) by (simp_all add: l log_wf_def pending_def log_st_def)
  note run = log_all_ok [OF i(1) assms(5), of ok]
  show ?thesis
  proof (cases "ok \<or> (\<forall>t\<in>set ts. int (length t) \<le> sz)")
    case True
    then obtain l' xs where r: "log_all ok ts l = Inr (l', xs)" "log_wf l'" "concat xs @ pending l' = log_text (0, limit, sz) ts"
      using run i by auto
    obtain m where m: "log_buf l' = Live m" "log_size l' = int (length m)" "0 \<le> log_len l'" "log_len l' \<le> int (length m)"
      using r(2) by (auto simp: log_wf_def)
    then have fl: "flush l' = Inr (l'\<lparr>log_len := 0\<rparr>, take (nat (log_len l')) m)" by (intro flush_at) simp_all
    have "f1g_log_destroy l' = Inr (0, if log_len l' > 0 then [pending l'] else [])"
      using fl m(1) by (simp add: f1g_log_destroy_def pending_def)
    moreover have "concat (if log_len l' > 0 then [pending l'] else []) = pending l'"
      using m by (auto simp: pending_def)
    ultimately show ?thesis using True r(1,3) by (metis concat_append)
  next
    case False
    then show ?thesis using run i(4) by (simp only: if_False)
  qed
qed

text \<open>Of three messages with a limit of four bytes and a buffer of five, the second reaches the limit exactly and the third is
  longer than the buffer.\<close>

lemma log_session_witness:
  "\<exists>l' xs ys. log_all True [[1, 2], [3, 4], [5, 6, 7, 8, 9, 10]] (snd (f1g_log_init True 3 5 4)) = Inr (l', xs)
    \<and> f1g_log_destroy l' = Inr (0, ys) \<and> concat (xs @ ys) = [1, 2, 3, 0, 5, 6, 7, 8, 0, 0]"
proof -
  let ?ts = "[[1, 2], [3, 4], [5, 6, 7, 8, 9, 10 :: u8]]"
  have init: "f1g_log_init True 3 5 4 = (0, snd (f1g_log_init True 3 5 4))" by (simp add: f1g_log_init_def zalloc_def)
  have tx: "log_text (0, 4, 5) ?ts = [1, 2, 3, 0, 5, 6, 7, 8, 0, 0]" by (simp add: shown_def next_st_def numeral_eq_Suc)
  have b: "\<forall>t\<in>set ?ts. int (length t) + 1024 < 2 ^ 31" by simp
  from log_session [OF init _ _ _ b, of True] show ?thesis unfolding tx by simp
qed

end
