(* ===== verification/Regset.thy ===== *)
theory Regset
  imports Buffer C_String Numbers
begin

text \<open>
  The rule sets of \<^verbatim>\<open>src/f1g_regset.c\<close>: a growing array of rules, each with the text it looks for and the
  value it gives, both in buffers. A function pointer is a number or \<open>None\<close>.
\<close>

section \<open>Structs and operations\<close>

record reg_rule =
  rule :: buffer
  reg_value :: buffer
  out_buf :: buffer
  p_f :: "nat option"

record regset =
  rule_num :: int
  rule_size :: int
  p_rules :: "reg_rule list ptr"

definition zero_rule :: reg_rule where
  "zero_rule = \<lparr>rule = zero_buffer, reg_value = zero_buffer, out_buf = zero_buffer, p_f = None\<rparr>"

text \<open>\<^verbatim>\<open>rule_size\<close> is not assigned.\<close>

definition regset_init :: "bool \<Rightarrow> regset \<Rightarrow> int \<Rightarrow> int \<times> regset" where
  "regset_init ok p n0 =
     (let n = (if n0 \<le> 0 then 10 else n0) in
      case zalloc ok n zero_rule of
        Live m \<Rightarrow> (F1G_OK, p\<lparr>p_rules := Live m\<rparr>)
      | _ \<Rightarrow> (F1G_ERR, p\<lparr>p_rules := Null\<rparr>))"

definition regset_create :: "bool \<Rightarrow> bool \<Rightarrow> int \<Rightarrow> regset option" where
  "regset_create ok0 ok n =
     (if \<not> ok0 then None
      else let (r, p) = regset_init ok \<lparr>rule_num = 0, rule_size = 0, p_rules = Null\<rparr> n in
           if r \<noteq> F1G_OK then None else Some p)"

definition regset_enlarge_cap :: "bool \<Rightarrow> regset \<Rightarrow> int \<Rightarrow> (int \<times> regset) run" where
  "regset_enlarge_cap ok p n0 =
     (if n0 < rule_size p then Inr (F1G_ERR, p)
      else
        let n = (if n0 \<le> 0 then 10 else n0) in
        case zalloc ok n zero_rule of
          Live m \<Rightarrow>
            bindR (if rule_num p > 0 then bindR (deref (p_rules p)) (\<lambda>old. bindR (slice old 0 (rule_num p)) (put m 0)) else Inr m) (\<lambda>m'.
            freeR (p_rules p) (Inr (F1G_OK, p\<lparr>p_rules := Live m', rule_size := n\<rparr>)))
        | _ \<Rightarrow> Inr (F1G_ERR, p))"

text \<open>A new buffer with \<open>t\<close>: \<^verbatim>\<open>buffer_init\<close> with 64 bytes more than needed, and \<^verbatim>\<open>buffer_append\<close>. The length
  is kept in an \<^verbatim>\<open>i32_t\<close>.\<close>

definition fill_buffer :: "u8 alloc \<Rightarrow> buffer \<Rightarrow> bytes \<Rightarrow> (int \<times> buffer) run" where
  "fill_buffer a b t =
     (let len = to_i32 (int (length t)) in
      bindR (i32R (len + 64)) (\<lambda>n.
      let (r, b1) = buffer_init a b n in
      if r \<noteq> F1G_OK then Inr (F1G_ERR, b1)
      else bindR (buffer_append (Some b1) (Some (t @ [0])) len) (\<lambda>(r, b2).
           Inr (r, case b2 of Some b3 \<Rightarrow> b3 | None \<Rightarrow> b1))))"

text \<open>The outcomes of the allocations of \<^verbatim>\<open>regset_addreg\<close>: of a larger array, and of the three buffers.\<close>

record add_env =
  ae_grow :: bool
  ae_rule :: "u8 alloc"
  ae_value :: "u8 alloc"
  ae_out :: "u8 alloc"

definition regset_addreg :: "add_env \<Rightarrow> regset \<Rightarrow> bytes \<Rightarrow> bytes \<Rightarrow> nat option \<Rightarrow> (int \<times> regset) run" where
  "regset_addreg env p t v f =
     bindR (if rule_num p \<ge> rule_size p then
              bindR (i32R (rule_size p + 10)) (\<lambda>n. bindR (regset_enlarge_cap (ae_grow env) p n) (\<lambda>(_, p'). Inr p'))
            else Inr p) (\<lambda>p1.
     bindR (deref (p_rules p1)) (\<lambda>m.
     bindR (rd m (nat (rule_num p1))) (\<lambda>c.
     let upd = (\<lambda>c. p1\<lparr>p_rules := Live (m[nat (rule_num p1) := c])\<rparr>) in
     bindR (fill_buffer (ae_rule env) (rule c) t) (\<lambda>(r, b).
       if r \<noteq> F1G_OK then Inr (F1G_ERR, upd (c\<lparr>rule := b\<rparr>))
       else
         bindR (fill_buffer (ae_value env) (reg_value c) v) (\<lambda>(r, b2).
           if r \<noteq> F1G_OK then Inr (F1G_ERR, upd (c\<lparr>rule := b, reg_value := b2\<rparr>))
           else
             let c2 = c\<lparr>rule := b, reg_value := b2, out_buf := snd (buffer_init (ae_out env) (out_buf c) 0), p_f := f\<rparr> in
             Inr (F1G_OK, (upd c2)\<lparr>rule_num := rule_num p1 + 1\<rparr>))))))"

text \<open>The result has the code and \<^verbatim>\<open>*out_data\<close>.\<close>

fun match_from :: "bytes \<Rightarrow> reg_rule list \<Rightarrow> (int \<times> bytes ptr) run" where
  "match_from s [] = Inr (F1G_ERR, Null)"
| "match_from s (c # cs) =
     bindR (deref (buffer_data (Some (rule c)))) (\<lambda>m.
     bindR (cstr m) (\<lambda>t.
     bindR (strstr s t) (\<lambda>x.
       if x \<noteq> None then Inr (F1G_OK, buffer_data (Some (reg_value c))) else match_from s cs)))"

definition regset_match :: "regset \<Rightarrow> bytes \<Rightarrow> (int \<times> bytes ptr) run" where
  "regset_match p s =
     (if rule_num p > 0 then bindR (deref (p_rules p)) (\<lambda>m. bindR (slice m 0 (rule_num p)) (match_from s))
      else Inr (F1G_ERR, Null))"

section \<open>What a rule set holds\<close>

definition buf_holds :: "buffer \<Rightarrow> bytes \<Rightarrow> bool" where
  "buf_holds b t \<longleftrightarrow> (\<exists>z. bbuf b = Live (t @ 0 # z))"

definition rule_holds :: "reg_rule \<Rightarrow> bytes \<times> bytes \<Rightarrow> bool" where
  "rule_holds c kv \<longleftrightarrow> buf_holds (rule c) (fst kv) \<and> buf_holds (reg_value c) (snd kv)"

definition regset_wf :: "regset \<Rightarrow> bool" where
  "regset_wf p \<longleftrightarrow> (\<exists>m. p_rules p = Live m \<and> rule_size p \<le> int (length m)) \<and> 0 \<le> rule_num p \<and> rule_num p \<le> rule_size p"

definition rules :: "regset \<Rightarrow> reg_rule list" where
  "rules p = (case p_rules p of Live m \<Rightarrow> take (nat (rule_num p)) m | _ \<Rightarrow> [])"

interpretation rg: growable "regset_enlarge_cap True" rules rule_size regset_wf
proof
  fix p :: regset and n
  assume inv: "regset_wf p" and n: "rule_size p < n"
  then obtain m where m: "p_rules p = Live m" "0 \<le> rule_num p" "rule_num p \<le> int (length m)" "rule_num p \<le> rule_size p"
    by (auto simp: regset_wf_def)
  define k where "k = nat (rule_num p)"
  have k: "k \<le> length m" "k \<le> nat n" "0 < n" "rule_num p = int k" using m n by (auto simp: k_def)
  let ?m = "take k m @ drop k (replicate (nat n) zero_rule)"
  have "put (replicate (nat n) zero_rule) 0 (take k m) = Inr ?m" using k by (simp add: put_def min_def)
  moreover have "?m = replicate (nat n) zero_rule" if "k = 0" using that by simp
  ultimately have run: "regset_enlarge_cap True p n = Inr (F1G_OK, p\<lparr>p_rules := Live ?m, rule_size := n\<rparr>)"
    using m(1) k n by (auto simp: regset_enlarge_cap_def Let_def zalloc_def)
  have "length ?m = nat n" using k by simp
  then have "regset_wf (p\<lparr>p_rules := Live ?m, rule_size := n\<rparr>)" using k m(4) n by (auto simp: regset_wf_def)
  then show "\<exists>s'. regset_enlarge_cap True p n = Inr (F1G_OK, s') \<and> regset_wf s' \<and> rules s' = rules p \<and> rule_size s' = n"
    using run m(1) k by (auto simp: rules_def)
qed

text \<open>A text of which the length and 64 more are an \<^verbatim>\<open>i32_t\<close>.\<close>

definition short_text :: "bytes \<Rightarrow> bool" where
  "short_text t \<longleftrightarrow> int (length t) + 64 < 2 ^ 31"

lemma fill_buffer_holds:
  assumes "short_text t"
  shows "\<exists>b'. fill_buffer (Some g) b t = Inr (F1G_OK, b') \<and> buf_holds b' t"
proof -
  let ?m = "map g [0..<nat (int (length t) + 64)]"
  let ?b = "b\<lparr>bbuf := Live ?m, bsize := int (length t) + 64, bflag := 0, blen := 0\<rparr>"
  have i: "buffer_init (Some g) b (int (length t) + 64) = (F1G_OK, ?b)" by (simp add: buffer_init_def malloc_def)
  have l: "length t < length ?m" by simp
  have "put ?m 0 t = Inr (t @ drop (length t) ?m)" using l by (simp add: put_def del: upt_Suc)
  moreover have "wr (t @ drop (length t) ?m) (length t) 0 = Inr (t @ 0 # tl (drop (length t) ?m))" using l by (intro wr_at) simp
  ultimately have "buffer_append (Some ?b) (Some (t @ [0])) (int (length t))
      = Inr (F1G_OK, Some (?b\<lparr>bbuf := Live (t @ 0 # tl (drop (length t) ?m)), blen := int (length t)\<rparr>))"
    by (simp add: buffer_append_def buffer_cap_def Let_def del: upt_Suc)
  moreover have "to_i32 (int (length t)) = int (length t)" "i32R (int (length t) + 64) = Inr (int (length t) + 64)"
    using assms by (simp_all add: short_text_def)
  ultimately show ?thesis using i by (auto simp: fill_buffer_def buf_holds_def Let_def)
qed

text \<open>A rule is added behind the others.\<close>

definition env_good :: "add_env \<Rightarrow> bool" where
  "env_good e \<longleftrightarrow> ae_grow e \<and> ae_rule e \<noteq> None \<and> ae_value e \<noteq> None"

lemma regset_addreg_ok:
  assumes "regset_wf p" and "env_good env" and "short_text t" and "short_text v" and "rule_num p + 10 < 2 ^ 31"
  shows "\<exists>p' c. regset_addreg env p t v f = Inr (F1G_OK, p') \<and> regset_wf p' \<and> rules p' = rules p @ [c] \<and> rule_holds c (t, v)"
proof -
  define grown where "grown = (if rule_num p \<ge> rule_size p then regset_enlarge_cap True p (rule_size p + 10) else Inr (F1G_OK, p))"
  obtain p1 where p1: "grown = Inr (F1G_OK, p1)" "regset_wf p1" "rules p1 = rules p" "rule_num p1 < rule_size p1"
  proof (cases "rule_num p \<ge> rule_size p")
    case True
    obtain p1 where "regset_enlarge_cap True p (rule_size p + 10) = Inr (F1G_OK, p1)" "regset_wf p1" "rules p1 = rules p"
      "rule_size p1 = rule_size p + 10"
      using rg.grow_ok [OF assms(1), of "rule_size p + 10"] by auto
    moreover have "rule_num p1 = rule_num p"
      using \<open>regset_enlarge_cap True p (rule_size p + 10) = Inr (F1G_OK, p1)\<close>
      by (auto simp: regset_enlarge_cap_def Let_def bindR_Inr_conv zalloc_def split: if_splits ptr.splits elim: freeR.elims)
    ultimately show ?thesis using that True assms(1) by (auto simp: grown_def regset_wf_def)
  next
    case False
    then show ?thesis using that assms(1) by (simp add: grown_def)
  qed
  obtain m where m: "p_rules p1 = Live m" "rule_size p1 \<le> int (length m)" "0 \<le> rule_num p1" using p1(2) by (auto simp: regset_wf_def)
  define k where "k = nat (rule_num p1)"
  have k: "k < length m" "rule_num p1 = int k" using m p1(4) by (auto simp: k_def)
  obtain g1 g2 where g: "ae_rule env = Some g1" "ae_value env = Some g2" "ae_grow env" using assms(2) by (auto simp: env_good_def)
  obtain b1 where b1: "fill_buffer (Some g1) (rule (m ! k)) t = Inr (F1G_OK, b1)" "buf_holds b1 t" using fill_buffer_holds [OF assms(3)] by blast
  obtain b2 where b2: "fill_buffer (Some g2) (reg_value (m ! k)) v = Inr (F1G_OK, b2)" "buf_holds b2 v" using fill_buffer_holds [OF assms(4)] by blast
  define c where "c = (m ! k)\<lparr>rule := b1, reg_value := b2, out_buf := snd (buffer_init (ae_out env) (out_buf (m ! k)) 0), p_f := f\<rparr>"
  let ?p = "p1\<lparr>p_rules := Live (m[k := c]), rule_num := int k + 1\<rparr>"
  have "(if rule_num p \<ge> rule_size p
      then bindR (i32R (rule_size p + 10)) (\<lambda>n. bindR (regset_enlarge_cap (ae_grow env) p n) (\<lambda>(_, p'). Inr p')) else Inr p) = Inr p1"
    using p1(1) g(3) assms(1,5) by (auto simp: grown_def regset_wf_def i32R_def split: if_splits)
  then have "regset_addreg env p t v f = Inr (F1G_OK, ?p)"
    unfolding regset_addreg_def using m(1) k b1(1) b2(1) g by (simp add: Let_def c_def)
  moreover have "regset_wf ?p" using m(2) p1(4) k by (auto simp: regset_wf_def)
  moreover have "rules ?p = rules p @ [c]"
    using k m(1) p1(3) by (simp add: rules_def take_Suc_conv_app_nth nat_add_distrib)
  moreover have "rule_holds c (t, v)" using b1(2) b2(2) by (simp add: rule_holds_def c_def)
  ultimately show ?thesis by blast
qed

fun add_all :: "add_env \<Rightarrow> (bytes \<times> bytes) list \<Rightarrow> regset \<Rightarrow> regset run" where
  "add_all env [] p = Inr p"
| "add_all env (kv # kvs) p = bindR (regset_addreg env p (fst kv) (snd kv) None) (\<lambda>(_, p'). add_all env kvs p')"

definition short_rules :: "(bytes \<times> bytes) list \<Rightarrow> bool" where
  "short_rules kvs \<longleftrightarrow> (\<forall>kv\<in>set kvs. short_text (fst kv) \<and> short_text (snd kv)) \<and> int (length kvs) + 10 < 2 ^ 31"

lemma length_rules: "regset_wf p \<Longrightarrow> int (length (rules p)) = rule_num p"
  by (auto simp: regset_wf_def rules_def)

lemma add_all_ok:
  assumes "env_good env" and "regset_wf p" and "list_all2 rule_holds (rules p) kvs0" and "short_rules (kvs0 @ kvs)"
  shows "\<exists>p'. add_all env kvs p = Inr p' \<and> regset_wf p' \<and> list_all2 rule_holds (rules p') (kvs0 @ kvs)"
  using assms(2-4)
proof (induction kvs arbitrary: p kvs0)
  case Nil
  then show ?case by simp
next
  case (Cons kv kvs)
  have n: "rule_num p = int (length kvs0)"
    using length_rules [OF Cons.prems(1)] list_all2_lengthD [OF Cons.prems(2)] by simp
  then have b: "short_text (fst kv)" "short_text (snd kv)" "rule_num p + 10 < 2 ^ 31"
    using Cons.prems(3) by (auto simp: short_rules_def)
  obtain p1 c where "regset_addreg env p (fst kv) (snd kv) None = Inr (F1G_OK, p1)" "regset_wf p1" "rules p1 = rules p @ [c]"
    "rule_holds c (fst kv, snd kv)"
    using regset_addreg_ok [OF Cons.prems(1) assms(1) b, of None] by blast
  then show ?case using Cons.IH [of p1 "kvs0 @ [kv]"] Cons.prems(2,3) by (auto simp: list_all2_appendI)
qed

lemma match_from_find:
  assumes "list_all2 rule_holds cs kvs" and "0 \<notin> set s" and "\<forall>kv\<in>set kvs. 0 \<notin> set (fst kv)"
  shows "case find (\<lambda>kv. first_occ (fst kv) s \<noteq> None) kvs of
      None \<Rightarrow> match_from (s @ 0 # z) cs = Inr (F1G_ERR, Null)
    | Some kv \<Rightarrow> \<exists>w. match_from (s @ 0 # z) cs = Inr (F1G_OK, Live (snd kv @ 0 # w))"
  using assms(1,3)
proof (induction cs kvs rule: list_all2_induct)
  case Nil
  then show ?case by simp
next
  case (Cons c cs kv kvs)
  obtain w where "bbuf (rule c) = Live (fst kv @ 0 # w)" using Cons(1) by (auto simp: rule_holds_def buf_holds_def)
  moreover obtain w2 where "bbuf (reg_value c) = Live (snd kv @ 0 # w2)" using Cons(1) by (auto simp: rule_holds_def buf_holds_def)
  moreover have "cstr (fst kv @ 0 # w) = Inr (fst kv)" using Cons.prems by (simp add: cstr_at)
  ultimately show ?case
    using Cons.IH Cons.prems strstr_text [OF assms(2), of z "fst kv"] by (auto simp: buffer_data_def split: option.splits)
qed

text \<open>C19. A rule set is the list of the rules added to it: a text matches the first rule whose text it contains, and the value
  given is the one of that rule. The texts are shorter by 64 than the largest \<^verbatim>\<open>i32_t\<close>, and the rules fewer by 10.\<close>

theorem regset_is_rule_list:
  assumes "regset_create True True n = Some p" and "env_good env" and "\<forall>kv\<in>set kvs. 0 \<notin> set (fst kv)" and "0 \<notin> set s"
    and "short_rules kvs"
  shows "\<exists>p'. add_all env kvs p = Inr p' \<and>
    (case find (\<lambda>kv. first_occ (fst kv) s \<noteq> None) kvs of
       None \<Rightarrow> regset_match p' (s @ 0 # z) = Inr (F1G_ERR, Null)
     | Some kv \<Rightarrow> \<exists>w. regset_match p' (s @ 0 # z) = Inr (F1G_OK, Live (snd kv @ 0 # w)))"
proof -
  have p: "regset_wf p" "rules p = []"
    using assms(1) by (auto simp: regset_create_def regset_init_def Let_def zalloc_def regset_wf_def rules_def split: if_splits)
  then obtain p' where p': "add_all env kvs p = Inr p'" "regset_wf p'" "list_all2 rule_holds (rules p') kvs"
    using add_all_ok [OF assms(2), of p "[]" kvs] assms(5) by auto
  obtain m where m: "p_rules p' = Live m" "0 \<le> rule_num p'" "rule_num p' \<le> int (length m)" using p'(2) by (auto simp: regset_wf_def)
  have "regset_match p' (s @ 0 # z) = match_from (s @ 0 # z) (rules p')"
    using m by (auto simp: regset_match_def rules_def)
  then show ?thesis using p'(1) match_from_find [OF p'(3) assms(4,3), of z] by (auto split: option.splits)
qed

lemma regset_is_rule_list_witness:
  "\<exists>p p' w. regset_create True True 3 = Some p
    \<and> add_all \<lparr>ae_grow = True, ae_rule = Some (\<lambda>_. 0), ae_value = Some (\<lambda>_. 0), ae_out = None\<rparr> [([0x61], [0x31]), ([0x62], [0x32])] p = Inr p'
    \<and> regset_match p' ([0x78, 0x62] @ 0 # []) = Inr (F1G_OK, Live ([0x32] @ 0 # w))"
proof -
  obtain p where p: "regset_create True True 3 = Some p" by (simp add: regset_create_def regset_init_def Let_def zalloc_def)
  have "env_good \<lparr>ae_grow = True, ae_rule = Some (\<lambda>_. 0), ae_value = Some (\<lambda>_. 0), ae_out = None\<rparr>" by (simp add: env_good_def)
  from regset_is_rule_list [OF p this, of "[([0x61], [0x31]), ([0x62], [0x32])]" "[0x78, 0x62]" "[]"] p show ?thesis
    by (auto simp: first_occ_single short_rules_def short_text_def)
qed

end
