(* ===== verification/Perf_Mon.thy ===== *)
theory Perf_Mon
  imports Basic_Funcs Numbers
begin

unbundle bit_operations_syntax

text \<open>
  The performance monitor of \<^verbatim>\<open>src/perf_mon.c\<close>: for every point a linked list of start and end times that
  grows as it is used, and the report over all points. The list of a point is the list of its records from
  \<^verbatim>\<open>p_head\<close> on and \<^verbatim>\<open>p_cur\<close> the index in it, the length of the list standing for the null
  pointer. The files of the report are outputs; their directory is a parameter.
\<close>

section \<open>Structs\<close>

definition POINT_NAME_SIZE :: nat where "POINT_NAME_SIZE = 512"
definition DFT_PRESET_TIMES :: int where "DFT_PRESET_TIMES = 50000"
definition DFT_MAX_POINT :: int where "DFT_MAX_POINT = 64"
definition ST_START :: int where "ST_START = 1"
definition ST_END :: int where "ST_END = 2"

record mon_time =
  tb :: timeval
  te :: timeval
  mon_status :: int

record mon_point =
  point_id :: int
  point_name :: bytes
  point_size :: int
  recs :: "mon_time list"
  p_cur :: nat

record perf_mon =
  mon_max :: int
  mon_num :: int
  mon_pid :: int
  mon_points :: "mon_point list"

definition zero_time :: mon_time where
  "zero_time = \<lparr>tb = \<lparr>tv_sec = 0, tv_usec = 0\<rparr>, te = \<lparr>tv_sec = 0, tv_usec = 0\<rparr>, mon_status = 0\<rparr>"

section \<open>Creating and recording\<close>

text \<open>The list that \<^verbatim>\<open>linklist_create\<close> returns; all its cells are zero, so their order in it does not
  matter. A failing allocation gives the null pointer, here the empty list, and the cells before it are lost.\<close>

definition linklist_create :: "bool \<Rightarrow> int \<Rightarrow> mon_time list" where
  "linklist_create ok n = (if ok then replicate (nat n) zero_time else [])"

text \<open>\<open>oks i\<close> is whether all allocations of the list of point \<open>i\<close> succeed.\<close>

definition perf_mon_init :: "bool \<Rightarrow> (nat \<Rightarrow> bool) \<Rightarrow> int \<Rightarrow> int \<Rightarrow> int \<Rightarrow> int \<times> perf_mon" where
  "perf_mon_init ok oks pid max_point preset_times =
     (let mx = (if preset_times < 0 then DFT_MAX_POINT else max_point);
          sz = (if preset_times < 0 then DFT_PRESET_TIMES else preset_times);
          g = \<lparr>mon_max = mx, mon_num = 0, mon_pid = pid, mon_points = []\<rparr> in
      if \<not> ok \<or> mx < 0 then (- 1, g)
      else (0, g\<lparr>mon_points := map (\<lambda>i. \<lparr>point_id = 0, point_name = replicate POINT_NAME_SIZE 0, point_size = sz,
                                           recs = linklist_create (oks i) sz, p_cur = 0\<rparr>) [0..<nat mx]\<rparr>))"

text \<open>\<^verbatim>\<open>strncpy\<close> of the name: a name of 512 characters is stored without a terminator.\<close>

definition perf_mon_add :: "perf_mon \<Rightarrow> int \<Rightarrow> bytes \<Rightarrow> (int \<times> perf_mon) run" where
  "perf_mon_add g pid name =
     (if mon_num g \<ge> mon_max g then Inr (1, g)
      else
        bindR (rd (mon_points g) (nat (mon_num g))) (\<lambda>p.
        bindR (wr (mon_points g) (nat (mon_num g)) (p\<lparr>point_id := pid,
            point_name := take POINT_NAME_SIZE (name @ replicate POINT_NAME_SIZE 0)\<rparr>)) (\<lambda>ps.
          Inr (0, g\<lparr>mon_points := ps, mon_num := mon_num g + 1\<rparr>))))"

text \<open>\<open>now\<close> is the time \<^verbatim>\<open>gettimeofday\<close> gives, \<open>ok\<close> the outcome of the allocations of more cells.\<close>

definition point_here :: "bool \<Rightarrow> timeval \<Rightarrow> int \<Rightarrow> mon_point \<Rightarrow> (int \<times> mon_point) run" where
  "point_here ok now st p =
     (if st = ST_START then
        (if p_cur p < length (recs p) then
           let c = recs p ! p_cur p in
           Inr (0, p\<lparr>recs := (recs p)[p_cur p := c\<lparr>tb := now, mon_status := mon_status c OR ST_START\<rparr>]\<rparr>)
         else Inl NullDeref)
      else if st = ST_END then
        (if p_cur p < length (recs p) then
           let c = recs p ! p_cur p;
               p1 = p\<lparr>recs := (recs p)[p_cur p := c\<lparr>te := now, mon_status := mon_status c OR ST_END\<rparr>]\<rparr>;
               p2 = (if Suc (p_cur p) = length (recs p)
                     then p1\<lparr>recs := recs p1 @ linklist_create ok (point_size p div 2 + 1),
                             point_size := point_size p + (point_size p div 2 + 1)\<rparr>
                     else p1) in
           Inr (0, p2\<lparr>p_cur := Suc (p_cur p)\<rparr>)
         else Inl NullDeref)
      else Inr (- 1, p))"

definition perf_mon_here :: "bool \<Rightarrow> timeval \<Rightarrow> perf_mon \<Rightarrow> int \<Rightarrow> int \<Rightarrow> (int \<times> perf_mon) run" where
  "perf_mon_here ok now g i st =
     bindR (if i < 0 then Inl OutOfBounds else rd (mon_points g) (nat i)) (\<lambda>p.
     bindR (point_here ok now st p) (\<lambda>(r, p'). Inr (r, g\<lparr>mon_points := (mon_points g)[nat i := p']\<rparr>)))"

section \<open>The report\<close>

text \<open>What \<^verbatim>\<open>write(fd, buf, len)\<close> takes of a text formatted into 512 bytes, \<open>len\<close> being the length
  of the whole text.\<close>

definition written :: "bytes \<Rightarrow> bytes run" where
  "written t = (if length t < 512 then Inr t else if length t = 512 then Inr (butlast t @ [0]) else Inl OutOfBounds)"

definition time_text :: "timeval \<Rightarrow> bytes" where
  "time_text t = int_text (tv_sec t) @ [0x2E] @ int_text (tv_usec t)"

definition report_line :: "int \<Rightarrow> int \<Rightarrow> bytes \<Rightarrow> mon_time \<Rightarrow> bytes" where
  "report_line pid i name c =
     int_text pid @ [0x7C] @ int_text i @ [0x7C] @ name @ [0x7C] @ time_text (tb c) @ [0x7C] @ time_text (te c) @ [0x0A]"

text \<open>The walk over the list: \<open>k\<close> is the index of \<^verbatim>\<open>p_cur\<close>, \<open>stop\<close> that of the point's. The
  result has the list with the states cleared, and the data written.\<close>

fun walk :: "(mon_time \<Rightarrow> bytes) \<Rightarrow> nat \<Rightarrow> nat \<Rightarrow> mon_time list \<Rightarrow> (mon_time list \<times> bytes list) run" where
  "walk line stop k [] = Inr ([], [])"
| "walk line stop k (c # cs) =
     bindR (if mon_status c = 3 then bindR (written (line c)) (\<lambda>t. Inr [t]) else Inr []) (\<lambda>ts.
     let c' = c\<lparr>mon_status := 0\<rparr> in
     if stop = Suc k then Inr (c' # cs, ts)
     else bindR (walk line stop (Suc k) cs) (\<lambda>(cs', ts'). Inr (c' # cs', ts @ ts')))"

text \<open>One point: its file name, as it goes to the list of files, and the lines of the file.\<close>

definition point_statis :: "bytes \<Rightarrow> int \<Rightarrow> mon_point \<Rightarrow> (mon_point \<times> bytes \<times> bytes list) run" where
  "point_statis path pid p =
     bindR (cstr (point_name p)) (\<lambda>name.
     bindR (written (path @ [0x2F] @ int_text pid @ [0x2E] @ int_text (point_id p) @ [0x2E] @ name @ lit ''.perf'')) (\<lambda>file.
     bindR (walk (report_line pid (point_id p) name) (p_cur p) 0 (recs p)) (\<lambda>(cs, ts).
       Inr (p\<lparr>recs := cs, p_cur := 0\<rparr>, file, ts))))"

fun statis_from :: "bytes \<Rightarrow> int \<Rightarrow> mon_point list \<Rightarrow> (mon_point list \<times> (bytes \<times> bytes list) list) run" where
  "statis_from path pid [] = Inr ([], [])"
| "statis_from path pid (p # ps) =
     bindR (point_statis path pid p) (\<lambda>(p', file, ts).
     bindR (statis_from path pid ps) (\<lambda>(ps', xs). Inr (p' # ps', (file, ts) # xs)))"

definition perf_statis :: "bytes \<Rightarrow> perf_mon \<Rightarrow> (perf_mon \<times> (bytes \<times> bytes list) list) run" where
  "perf_statis path g =
     bindR (slice (mon_points g) 0 (max 0 (mon_num g))) (\<lambda>ps.
     bindR (statis_from path (mon_pid g) ps) (\<lambda>(ps', xs).
       Inr (g\<lparr>mon_points := ps' @ drop (nat (mon_num g)) (mon_points g)\<rparr>, xs)))"

section \<open>What a point holds\<close>

definition taken :: "timeval \<times> timeval \<Rightarrow> mon_time" where
  "taken m = \<lparr>tb = fst m, te = snd m, mon_status = 3\<rparr>"

text \<open>The measurements of a point since the last report, followed by at least one free record.\<close>

definition point_is :: "mon_point \<Rightarrow> (timeval \<times> timeval) list \<Rightarrow> bool" where
  "point_is p ms \<longleftrightarrow> (\<exists>fresh. recs p = map taken ms @ fresh \<and> fresh \<noteq> [] \<and> (\<forall>c\<in>set fresh. mon_status c = 0))
     \<and> p_cur p = length ms \<and> 0 \<le> point_size p"

definition same_point :: "mon_point \<Rightarrow> mon_point \<Rightarrow> bool" where
  "same_point p q \<longleftrightarrow> point_id p = point_id q \<and> point_name p = point_name q"

lemma measured:
  assumes "point_is p ms"
  shows "\<exists>p1 p2. point_here ok a ST_START p = Inr (0, p1) \<and> point_here True b ST_END p1 = Inr (0, p2)
    \<and> point_is p2 (ms @ [(a, b)]) \<and> same_point p2 p"
proof -
  obtain c cs where t: "recs p = map taken ms @ c # cs" "mon_status c = 0" "\<forall>c\<in>set cs. mon_status c = 0" "p_cur p = length ms" "0 \<le> point_size p"
    using assms by (auto simp: point_is_def neq_Nil_conv)
  let ?c1 = "c\<lparr>tb := a, mon_status := 1\<rparr>"
  let ?p1 = "p\<lparr>recs := map taken ms @ ?c1 # cs\<rparr>"
  have 1: "point_here ok a ST_START p = Inr (0, ?p1)"
    using t by (simp add: point_here_def ST_START_def Let_def nth_append list_update_append)
  let ?more = "if cs = [] then replicate (nat (point_size p div 2 + 1)) zero_time else []"
  let ?p2 = "p\<lparr>recs := map taken ms @ taken (a, b) # cs @ ?more,
    point_size := (if cs = [] then point_size p + (point_size p div 2 + 1) else point_size p), p_cur := Suc (length ms)\<rparr>"
  have st: "?c1\<lparr>te := b, mon_status := 3\<rparr> = taken (a, b)" by (simp add: taken_def)
  have 2: "point_here True b ST_END ?p1 = Inr (0, ?p2)"
    using t(4) st by (cases cs; simp add: point_here_def ST_START_def ST_END_def Let_def nth_append list_update_append linklist_create_def)
  have "0 < point_size p div 2 + 1" using t(5) by simp
  then have "cs @ ?more \<noteq> []" "\<forall>c\<in>set (cs @ ?more). mon_status c = 0" using t(3) by (auto simp: zero_time_def)
  then have "point_is ?p2 (ms @ [(a, b)])"
    unfolding point_is_def using t(5) by (intro conjI exI [of _ "cs @ ?more"]) auto
  then show ?thesis using 1 2 by (auto simp: same_point_def)
qed

lemma walk_fresh: "\<forall>c\<in>set cs. mon_status c = 0 \<Longrightarrow> stop \<le> k \<Longrightarrow> walk line stop k cs = Inr (cs, [])"
proof (induction cs arbitrary: k)
  case (Cons c cs)
  then have "c\<lparr>mon_status := 0\<rparr> = c" by (cases c) simp
  then show ?case using Cons by simp
qed simp

lemma walk_taken:
  assumes "\<forall>m\<in>set ms. length (line (taken m)) < 512" and "ms \<noteq> []"
  shows "walk line (k + length ms) k (map taken ms @ cs)
    = Inr (map (\<lambda>m. (taken m)\<lparr>mon_status := 0\<rparr>) ms @ cs, map (\<lambda>m. line (taken m)) ms)"
  using assms
proof (induction ms arbitrary: k)
  case (Cons m ms)
  have w: "written (line (taken m)) = Inr (line (taken m))" "mon_status (taken m) = 3"
    using Cons.prems(1) by (simp_all add: written_def taken_def)
  show ?case
  proof (cases "ms = []")
    case True
    then show ?thesis using w by simp
  next
    case False
    then show ?thesis using w Cons.IH [of "Suc k"] Cons.prems(1) by simp
  qed
qed simp

definition file_text :: "bytes \<Rightarrow> int \<Rightarrow> int \<Rightarrow> bytes \<Rightarrow> bytes" where
  "file_text path pid i name = path @ [0x2F] @ int_text pid @ [0x2E] @ int_text i @ [0x2E] @ name @ lit ''.perf''"

lemma point_statis_ok:
  assumes "point_is p ms" and "cstr (point_name p) = Inr name" and "length (file_text path pid (point_id p) name) < 512"
    and "\<forall>m\<in>set ms. length (report_line pid (point_id p) name (taken m)) < 512"
  shows "\<exists>p'. point_statis path pid p = Inr (p', file_text path pid (point_id p) name, map (\<lambda>m. report_line pid (point_id p) name (taken m)) ms)
    \<and> point_is p' [] \<and> same_point p' p"
proof -
  obtain fresh where t: "recs p = map taken ms @ fresh" "fresh \<noteq> []" "\<forall>c\<in>set fresh. mon_status c = 0" "p_cur p = length ms" "0 \<le> point_size p"
    using assms(1) by (auto simp: point_is_def)
  obtain cs where cs: "walk (report_line pid (point_id p) name) (p_cur p) 0 (recs p)
      = Inr (cs, map (\<lambda>m. report_line pid (point_id p) name (taken m)) ms)" "cs \<noteq> []" "\<forall>c\<in>set cs. mon_status c = 0"
  proof (cases "ms = []")
    case True
    then show ?thesis using that [of fresh] t walk_fresh [of fresh 0 0] by simp
  next
    case False
    have "\<forall>c\<in>set (map (\<lambda>m. (taken m)\<lparr>mon_status := 0\<rparr>) ms @ fresh). mon_status c = 0" using t(3) by (auto simp: taken_def)
    then show ?thesis
      using that [of "map (\<lambda>m. (taken m)\<lparr>mon_status := 0\<rparr>) ms @ fresh"] t(1,2,4) walk_taken [OF assms(4) False, of 0 fresh] by simp
  qed
  have "point_statis path pid p
      = Inr (p\<lparr>recs := cs, p_cur := 0\<rparr>, file_text path pid (point_id p) name, map (\<lambda>m. report_line pid (point_id p) name (taken m)) ms)"
    using assms(2,3) cs(1) by (simp add: point_statis_def file_text_def written_def)
  moreover have "point_is (p\<lparr>recs := cs, p_cur := 0\<rparr>) []" using cs(2,3) t(5) by (simp add: point_is_def)
  ultimately show ?thesis by (auto simp: same_point_def)
qed

section \<open>A monitored run\<close>

text \<open>The points in use with their numbers and names, and the measurements made.\<close>

definition mon_is :: "perf_mon \<Rightarrow> (int \<times> bytes) list \<Rightarrow> (nat \<Rightarrow> (timeval \<times> timeval) list) \<Rightarrow> bool" where
  "mon_is g names ms \<longleftrightarrow> mon_num g = int (length names) \<and> length names \<le> length (mon_points g) \<and> mon_max g = int (length (mon_points g))
     \<and> (\<forall>i<length (mon_points g). point_is (mon_points g ! i) (ms i))
     \<and> (\<forall>i<length names. point_id (mon_points g ! i) = fst (names ! i) \<and> cstr (point_name (mon_points g ! i)) = Inr (snd (names ! i)))"

fun measure_all :: "(nat \<times> timeval \<times> timeval) list \<Rightarrow> perf_mon \<Rightarrow> perf_mon run" where
  "measure_all [] g = Inr g"
| "measure_all ((i, a, b) # es) g =
     bindR (perf_mon_here True a g (int i) ST_START) (\<lambda>(_, g1).
     bindR (perf_mon_here True b g1 (int i) ST_END) (\<lambda>(_, g2). measure_all es g2))"

fun add_points :: "(int \<times> bytes) list \<Rightarrow> perf_mon \<Rightarrow> perf_mon run" where
  "add_points [] g = Inr g"
| "add_points ((i, n) # ns) g = bindR (perf_mon_add g i n) (\<lambda>(_, g'). add_points ns g')"

definition of_point :: "nat \<Rightarrow> (nat \<times> timeval \<times> timeval) list \<Rightarrow> (timeval \<times> timeval) list" where
  "of_point i es = map snd (filter (\<lambda>e. fst e = i) es)"

lemma of_point_mem: "m \<in> set (of_point j es) \<longleftrightarrow> (j, m) \<in> set es"
  unfolding of_point_def by (induction es) auto

lemma perf_mon_init_is:
  assumes "perf_mon_init True (\<lambda>_. True) pid mx sz = (0, g)" and "0 < sz"
  shows "mon_is g [] (\<lambda>_. []) \<and> mon_pid g = pid \<and> int (length (mon_points g)) = mx"
  using assms by (auto simp: perf_mon_init_def Let_def mon_is_def point_is_def linklist_create_def zero_time_def split: if_splits)

lemma perf_mon_add_is:
  assumes "mon_is g names ms" and "length names < length (mon_points g)" and "0 \<notin> set n" and "length n < POINT_NAME_SIZE"
  shows "\<exists>g'. perf_mon_add g i n = Inr (0, g') \<and> mon_is g' (names @ [(i, n)]) ms \<and> mon_pid g' = mon_pid g
    \<and> length (mon_points g') = length (mon_points g)"
proof -
  let ?k = "length names" and ?ps = "mon_points g"
  let ?q = "(?ps ! ?k)\<lparr>point_id := i, point_name := take POINT_NAME_SIZE (n @ replicate POINT_NAME_SIZE 0)\<rparr>"
  let ?g = "g\<lparr>mon_points := ?ps[?k := ?q], mon_num := int ?k + 1\<rparr>"
  have g: "mon_num g = int ?k" "mon_max g = int (length ?ps)" using assms(1) by (auto simp: mon_is_def)
  have run: "perf_mon_add g i n = Inr (0, ?g)" using g assms(2) by (simp add: perf_mon_add_def)
  have "take POINT_NAME_SIZE (n @ replicate POINT_NAME_SIZE 0) = n @ 0 # replicate (POINT_NAME_SIZE - length n - 1) (0 :: u8)"
    using assms(4) by (cases "POINT_NAME_SIZE - length n") auto
  then have nm: "cstr (take POINT_NAME_SIZE (n @ replicate POINT_NAME_SIZE 0)) = Inr n" using cstr_at [OF assms(3)] by metis
  have "point_is ?q (ms ?k)" using assms(1,2) by (auto simp: mon_is_def point_is_def)
  then have "mon_is ?g (names @ [(i, n)]) ms"
    using assms(1,2) nm by (auto simp: mon_is_def nth_list_update nth_append)
  then show ?thesis using run by auto
qed

lemma add_points_is:
  assumes "mon_is g names ms" and "length names + length ns \<le> length (mon_points g)" and "\<forall>(i, n)\<in>set ns. 0 \<notin> set n \<and> length n < POINT_NAME_SIZE"
  shows "\<exists>g'. add_points ns g = Inr g' \<and> mon_is g' (names @ ns) ms \<and> mon_pid g' = mon_pid g \<and> length (mon_points g') = length (mon_points g)"
  using assms
proof (induction ns arbitrary: g names)
  case Nil
  then show ?case by simp
next
  case (Cons x ns)
  obtain i n where x: "x = (i, n)" by (cases x)
  obtain g1 where "perf_mon_add g i n = Inr (0, g1)" "mon_is g1 (names @ [(i, n)]) ms" "mon_pid g1 = mon_pid g"
    "length (mon_points g1) = length (mon_points g)"
    using perf_mon_add_is [OF Cons.prems(1), of n i] Cons.prems(2,3) x by auto
  then show ?case using Cons.IH [of g1 "names @ [(i, n)]"] Cons.prems(2,3) x by auto
qed

lemma measure_is:
  assumes "mon_is g names ms" and "i < length (mon_points g)"
  shows "\<exists>g1 g2. perf_mon_here True a g (int i) ST_START = Inr (0, g1) \<and> perf_mon_here True b g1 (int i) ST_END = Inr (0, g2)
    \<and> mon_is g2 names (ms(i := ms i @ [(a, b)])) \<and> mon_pid g2 = mon_pid g \<and> length (mon_points g2) = length (mon_points g)"
proof -
  obtain p1 p2 where p: "point_here True a ST_START (mon_points g ! i) = Inr (0, p1)" "point_here True b ST_END p1 = Inr (0, p2)"
    "point_is p2 (ms i @ [(a, b)])" "same_point p2 (mon_points g ! i)"
    using measured [of "mon_points g ! i" "ms i" True a b] assms by (auto simp: mon_is_def)
  have 1: "perf_mon_here True a g (int i) ST_START = Inr (0, g\<lparr>mon_points := (mon_points g)[i := p1]\<rparr>)"
    using p(1) assms(2) by (simp add: perf_mon_here_def)
  have 2: "perf_mon_here True b (g\<lparr>mon_points := (mon_points g)[i := p1]\<rparr>) (int i) ST_END = Inr (0, g\<lparr>mon_points := (mon_points g)[i := p2]\<rparr>)"
    using p(2) assms(2) by (simp add: perf_mon_here_def)
  have "mon_is (g\<lparr>mon_points := (mon_points g)[i := p2]\<rparr>) names (ms(i := ms i @ [(a, b)]))"
    using assms p(3,4) by (auto simp: mon_is_def nth_list_update same_point_def)
  then show ?thesis using 1 2 by auto
qed

lemma measure_all_is:
  assumes "mon_is g names ms" and "\<forall>e\<in>set es. fst e < length (mon_points g)"
  shows "\<exists>g'. measure_all es g = Inr g' \<and> mon_is g' names (\<lambda>i. ms i @ of_point i es) \<and> mon_pid g' = mon_pid g
    \<and> length (mon_points g') = length (mon_points g)"
  using assms
proof (induction es arbitrary: g ms)
  case Nil
  then show ?case by (simp add: of_point_def)
next
  case (Cons e es)
  obtain i a b where e: "e = (i, a, b)" by (cases e)
  obtain g1 g2 where g: "perf_mon_here True a g (int i) ST_START = Inr (0, g1)" "perf_mon_here True b g1 (int i) ST_END = Inr (0, g2)"
    "mon_is g2 names (ms(i := ms i @ [(a, b)]))" "mon_pid g2 = mon_pid g" "length (mon_points g2) = length (mon_points g)"
    using measure_is [OF Cons.prems(1), of i a b] Cons.prems(2) e by auto
  have "(\<lambda>j. (ms(i := ms i @ [(a, b)])) j @ of_point j es) = (\<lambda>j. ms j @ of_point j (e # es))"
    using e by (auto simp: of_point_def)
  then show ?case using Cons.IH [OF g(3)] Cons.prems(2) g e by auto
qed

lemma statis_from_ok:
  assumes "length ps = length names" and "\<forall>i<length ps. point_is (ps ! i) (ms i)"
    and "\<forall>i<length ps. point_id (ps ! i) = fst (names ! i) \<and> cstr (point_name (ps ! i)) = Inr (snd (names ! i))"
    and "\<forall>i<length ps. length (file_text path pid (fst (names ! i)) (snd (names ! i))) < 512"
    and "\<forall>i<length ps. \<forall>m\<in>set (ms i). length (report_line pid (fst (names ! i)) (snd (names ! i)) (taken m)) < 512"
  shows "\<exists>ps'. statis_from path pid ps = Inr (ps', map (\<lambda>i. (file_text path pid (fst (names ! i)) (snd (names ! i)),
      map (\<lambda>m. report_line pid (fst (names ! i)) (snd (names ! i)) (taken m)) (ms i))) [0..<length ps])
    \<and> length ps' = length ps \<and> (\<forall>i<length ps. point_is (ps' ! i) [] \<and> same_point (ps' ! i) (ps ! i))"
  using assms
proof (induction ps arbitrary: names ms)
  case Nil
  then show ?case by simp
next
  case (Cons p ps)
  obtain i n ns where names: "names = (i, n) # ns" using Cons.prems(1) by (cases names) auto
  have p: "point_is p (ms 0)" "point_id p = i" "cstr (point_name p) = Inr n" "length (file_text path pid i n) < 512"
    "\<forall>m\<in>set (ms 0). length (report_line pid i n (taken m)) < 512"
    using Cons.prems(2-5) names by (force dest: spec [of _ 0])+
  obtain p' where p': "point_statis path pid p = Inr (p', file_text path pid i n, map (\<lambda>m. report_line pid i n (taken m)) (ms 0))"
    "point_is p' []" "same_point p' p"
    using point_statis_ok [OF p(1,3), of path pid] p(4,5) unfolding p(2) by blast
  obtain ps' where ps': "statis_from path pid ps = Inr (ps', map (\<lambda>j. (file_text path pid (fst (ns ! j)) (snd (ns ! j)),
      map (\<lambda>m. report_line pid (fst (ns ! j)) (snd (ns ! j)) (taken m)) (ms (Suc j)))) [0..<length ps])"
    "length ps' = length ps" "\<forall>j<length ps. point_is (ps' ! j) [] \<and> same_point (ps' ! j) (ps ! j)"
    using Cons.IH [of ns "\<lambda>j. ms (Suc j)"] Cons.prems names by (auto simp: All_less_Suc2)
  have up: "[0..<Suc (length ps)] = 0 # map Suc [0..<length ps]" by (simp add: map_Suc_upt upt_conv_Cons del: upt_Suc)
  show ?case
    using p' ps' by (intro exI [of _ "p' # ps'"]) (auto simp: up names nth_Cons' comp_def simp del: upt_Suc)
qed

text \<open>The lines of the measurements \<open>ms\<close> of point \<open>j\<close>, and the report.\<close>

definition lines_of :: "int \<Rightarrow> (int \<times> bytes) list \<Rightarrow> nat \<Rightarrow> (timeval \<times> timeval) list \<Rightarrow> bytes list" where
  "lines_of pid names j ms = map (\<lambda>m. report_line pid (fst (names ! j)) (snd (names ! j)) (taken m)) ms"

definition file_of :: "bytes \<Rightarrow> int \<Rightarrow> (int \<times> bytes) list \<Rightarrow> nat \<Rightarrow> bytes" where
  "file_of path pid names j = file_text path pid (fst (names ! j)) (snd (names ! j))"

lemma report_is:
  assumes "mon_is g names ms" and "mon_pid g = pid" and "\<forall>j<length names. length (file_of path pid names j) < 512"
    and "\<forall>j<length names. \<forall>t\<in>set (lines_of pid names j (ms j)). length t < 512"
  shows "\<exists>g'. perf_statis path g = Inr (g', map (\<lambda>j. (file_of path pid names j, lines_of pid names j (ms j))) [0..<length names])
      \<and> mon_is g' names (\<lambda>j. if j < length names then [] else ms j) \<and> mon_pid g' = pid"
proof -
  let ?ps = "take (length names) (mon_points g)"
  have l: "length ?ps = length names" "length names \<le> length (mon_points g)" "mon_num g = int (length names)"
    using assms(1) by (auto simp: mon_is_def)
  have p: "\<forall>i<length ?ps. point_is (?ps ! i) (ms i)"
    "\<forall>i<length ?ps. point_id (?ps ! i) = fst (names ! i) \<and> cstr (point_name (?ps ! i)) = Inr (snd (names ! i))"
    using assms(1) l by (simp_all add: mon_is_def)
  obtain ps' where ps': "statis_from path pid ?ps = Inr (ps', map (\<lambda>j. (file_of path pid names j, lines_of pid names j (ms j))) [0..<length ?ps])"
    "length ps' = length ?ps" "\<forall>i<length ?ps. point_is (ps' ! i) [] \<and> same_point (ps' ! i) (?ps ! i)"
    using statis_from_ok [OF l(1) p, of path pid] assms(3,4) l(1) unfolding file_of_def lines_of_def by auto
  let ?g = "g\<lparr>mon_points := ps' @ drop (length names) (mon_points g)\<rparr>"
  have "perf_statis path g = Inr (?g, map (\<lambda>j. (file_of path pid names j, lines_of pid names j (ms j))) [0..<length names])"
    using ps'(1) l assms(2) by (simp add: perf_statis_def)
  moreover have "mon_is ?g names (\<lambda>j. if j < length names then [] else ms j)"
    using assms(1) ps'(2,3) l by (auto simp: mon_is_def nth_append same_point_def)
  ultimately show ?thesis using assms(2) by auto
qed

text \<open>C20. With points set up and any measurements made on them, in whatever order, the report has for every point, in the order the points
  were added, a file named after it with a line for each of its measurements, in their order; a second report right after has
  the same files, with no lines.\<close>

theorem perf_mon_reports:
  assumes "perf_mon_init True (\<lambda>_. True) pid mx sz = (0, g0)" and "0 < sz" and "int (length names) \<le> mx"
    and "\<forall>(i, n)\<in>set names. 0 \<notin> set n \<and> length n < POINT_NAME_SIZE" and "\<forall>e\<in>set es. fst e < length names"
    and "\<forall>j<length names. length (file_of path pid names j) < 512 \<and> (\<forall>t\<in>set (lines_of pid names j (of_point j es)). length t < 512)"
  shows "\<exists>g1 g2 g3 g4. add_points names g0 = Inr g1 \<and> measure_all es g1 = Inr g2
    \<and> perf_statis path g2 = Inr (g3, map (\<lambda>j. (file_of path pid names j, lines_of pid names j (of_point j es))) [0..<length names])
    \<and> perf_statis path g3 = Inr (g4, map (\<lambda>j. (file_of path pid names j, [])) [0..<length names])"
proof -
  note g0 = perf_mon_init_is [OF assms(1,2)]
  have room: "length ([] :: (int \<times> bytes) list) + length names \<le> length (mon_points g0)" using g0 assms(3) by simp
  obtain g1 where g1: "add_points names g0 = Inr g1" "mon_is g1 names (\<lambda>_. [])" "mon_pid g1 = pid" "length (mon_points g1) = length (mon_points g0)"
    using add_points_is [OF conjunct1 [OF g0] room assms(4)] g0 by auto
  have ids: "\<forall>e\<in>set es. fst e < length (mon_points g1)" using assms(5) room g1(4) by auto
  obtain g2 where g2: "measure_all es g1 = Inr g2" "mon_is g2 names (\<lambda>j. of_point j es)" "mon_pid g2 = pid"
    using measure_all_is [OF g1(2) ids] g1(3) by auto
  have files: "\<forall>j<length names. length (file_of path pid names j) < 512" using assms(6) by blast
  obtain g3 where g3: "perf_statis path g2 = Inr (g3, map (\<lambda>j. (file_of path pid names j, lines_of pid names j (of_point j es))) [0..<length names])"
    "mon_is g3 names (\<lambda>j. if j < length names then [] else of_point j es)" "mon_pid g3 = pid"
    using report_is [OF g2(2,3) files] assms(6) by blast
  have none: "\<forall>j<length names. lines_of pid names j (if j < length names then [] else of_point j es) = []" by (simp add: lines_of_def)
  obtain g4 where "perf_statis path g3 = Inr (g4, map (\<lambda>j. (file_of path pid names j,
      lines_of pid names j (if j < length names then [] else of_point j es))) [0..<length names])"
    using report_is [OF g3(2,3) files] none by force
  moreover have "map (\<lambda>j. (file_of path pid names j, lines_of pid names j (if j < length names then [] else of_point j es))) [0..<length names]
    = map (\<lambda>j. (file_of path pid names j, [])) [0..<length names]"
    using none by simp
  ultimately have "perf_statis path g3 = Inr (g4, map (\<lambda>j. (file_of path pid names j, [])) [0..<length names])" by (simp only:)
  then show ?thesis using g1(1) g2(1) g3(1) by blast
qed

definition sample_points :: "(int \<times> bytes) list" where
  "sample_points = [(7, [0x61]), (8, [0x62])]"

definition sample_events :: "(nat \<times> timeval \<times> timeval) list" where
  "sample_events = [(1, \<lparr>tv_sec = 1, tv_usec = 2\<rparr>, \<lparr>tv_sec = 3, tv_usec = 4\<rparr>)]"

lemma sample_report:
  "file_of [0x78] 5 sample_points 0 = lit ''x/5.7.a.perf''" "file_of [0x78] 5 sample_points 1 = lit ''x/5.8.b.perf''"
  "lines_of 5 sample_points 0 (of_point 0 sample_events) = []"
  "lines_of 5 sample_points 1 (of_point 1 sample_events) = [lit ''5|8|b|1.2|3.4'' @ [0x0A]]"
  by (simp_all add: file_of_def file_text_def lines_of_def of_point_def taken_def report_line_def time_text_def int_text_def dec_text.simps
      lit_def chr8_def sample_points_def sample_events_def)

lemma perf_mon_reports_witness:
  "\<exists>g1 g2 g3. add_points sample_points (snd (perf_mon_init True (\<lambda>_. True) 5 2 1)) = Inr g1 \<and> measure_all sample_events g1 = Inr g2
    \<and> perf_statis [0x78] g2 = Inr (g3, [(lit ''x/5.7.a.perf'', []), (lit ''x/5.8.b.perf'', [lit ''5|8|b|1.2|3.4'' @ [0x0A]])])"
proof -
  have i: "perf_mon_init True (\<lambda>_. True) 5 2 1 = (0, snd (perf_mon_init True (\<lambda>_. True) 5 2 1))" by (simp add: perf_mon_init_def Let_def)
  have l: "length sample_points = 2" by (simp add: sample_points_def)
  have two: "[0..<2] = [0, 1 :: nat]" by (simp add: upt_rec)
  have p: "\<forall>(i, n)\<in>set sample_points. 0 \<notin> set n \<and> length n < POINT_NAME_SIZE" "\<forall>e\<in>set sample_events. fst e < length sample_points"
    by (simp_all add: sample_points_def sample_events_def POINT_NAME_SIZE_def)
  have "\<forall>j<2. length (file_of [0x78] 5 sample_points j) < 512 \<and> (\<forall>t\<in>set (lines_of 5 sample_points j (of_point j sample_events)). length t < 512)"
  proof (intro allI impI)
    fix j :: nat
    assume "j < 2"
    then consider "j = 0" | "j = 1" by linarith
    then show "length (file_of [0x78] 5 sample_points j) < 512 \<and> (\<forall>t\<in>set (lines_of 5 sample_points j (of_point j sample_events)). length t < 512)"
      by cases (simp_all only: sample_report, simp_all add: lit_def)
  qed
  then obtain g1 g2 g3 g4 where "add_points sample_points (snd (perf_mon_init True (\<lambda>_. True) 5 2 1)) = Inr g1" "measure_all sample_events g1 = Inr g2"
    "perf_statis [0x78] g2 = Inr (g3, map (\<lambda>j. (file_of [0x78] 5 sample_points j, lines_of 5 sample_points j (of_point j sample_events))) [0, 1])"
    using perf_mon_reports [OF i _ _ p, of "[0x78]"] unfolding l two by auto
  then show ?thesis unfolding list.map sample_report by blast
qed

end
