(* ===== verification/Http.thy ===== *)
theory Http
  imports Bit_Array Basic_Funcs "HOL-Library.While_Combinator"
begin

text \<open>
  The HTTP object of \<^verbatim>\<open>src/f1g_http.c\<close>: a buffer to which header lines and content are appended, a bit
  array of the headers it has, and the two functions that are to take an object from a text or a file.
  What the block of \<^verbatim>\<open>obj_buf\<close> is a pointer into is a \<open>loc\<close>; a pointer into a block that
  \<^verbatim>\<open>http_object_reset_buffer\<close> has freed is \<open>Stale\<close>.
\<close>

section \<open>The object\<close>

datatype loc = NoLoc | At nat | Stale

record http_object =
  obj_buf :: "bytes ptr"
  ho_buf_sz :: u32
  ho_data_len :: u32
  ho_status :: bit_array
  hdr_set :: "loc list"
  hdr_len_set :: "16 word list"
  ho_content :: loc
  ho_content_len :: u32

definition HTTP_HDR_NUM :: u8 where
  "HTTP_HDR_NUM = 10"

definition HO_DFT_BUF_SZ :: u32 where
  "HO_DFT_BUF_SZ = 2048"

definition HO_MIN_BUF_SZ :: u32 where
  "HO_MIN_BUF_SZ = 64"

text \<open>The identifier, the size and the text of a header's name; the identifiers are those of the
  enumeration: method 0, path 1, version 2, host 3, user agent 4, referer 5, cookie 6, end 7, request line 8,
  response line 9.\<close>

definition http_header_info :: "(u8 \<times> u8 \<times> string) list" where
  "http_header_info =
     [(0, 0, ''''), (2, 0, ''''), (1, 0, ''''), (3, 6, ''Host: ''), (5, 8, ''Referer:  ''), (4, 12, ''User-Agent: ''),
      (6, 8, ''Cookie: ''), (7, 0, ''''), (8, 0, ''''), (9, 0, '''')]"

definition get_http_header_info :: "u8 \<Rightarrow> (u8 \<times> u8 \<times> string) option" where
  "get_http_header_info id0 = find (\<lambda>h. id0 = fst h) http_header_info"

definition zero_object :: http_object where
  "zero_object = \<lparr>obj_buf = Null, ho_buf_sz = 0, ho_data_len = 0, ho_status = \<lparr>bits_num = 0, bits = Null\<rparr>,
     hdr_set = replicate 10 NoLoc, hdr_len_set = replicate 10 0, ho_content = NoLoc, ho_content_len = 0\<rparr>"

text \<open>The outcomes of the allocations of the object, of its buffer and of the bit array. The result has
  the object, and the caller's pointer as the call leaves it.\<close>

definition http_object_create :: "bool \<Rightarrow> bool \<Rightarrow> u8 alloc \<Rightarrow> bytes ptr \<Rightarrow> u32 \<Rightarrow> http_object option \<times> bytes ptr" where
  "http_object_create ok0 ok1 a buf sz =
     (if \<not> ok0 then (None, buf)
      else
        case (if buf = Null \<and> sz < HO_MIN_BUF_SZ then Some (zalloc ok1 (uint HO_DFT_BUF_SZ) 0, HO_DFT_BUF_SZ)
              else if buf = Null \<and> sz > HO_MIN_BUF_SZ then Some (zalloc ok1 (uint sz) 0, sz)
              else if buf \<noteq> Null \<and> sz > HO_MIN_BUF_SZ then Some (buf, sz)
              else None) of
          None \<Rightarrow> (None, buf)
        | Some (b, n) \<Rightarrow>
            if b = Null then (None, buf)
            else
              let (r, st) = bit_array_init a (ho_status zero_object) HTTP_HDR_NUM in
              if r \<noteq> F1G_OK then (None, freed buf)
              else (Some (zero_object\<lparr>obj_buf := b, ho_buf_sz := n, ho_status := st\<rparr>), buf))"

definition http_object_destroy :: "http_object option \<Rightarrow> int run" where
  "http_object_destroy p =
     (case p of
        None \<Rightarrow> Inr F1G_OK
      | Some p \<Rightarrow> freeR (obj_buf p) (bindR (bit_array_clean (ho_status p)) (\<lambda>_. Inr F1G_OK)))"

text \<open>The pointers of an object once its block is freed.\<close>

definition old_loc :: "loc \<Rightarrow> loc" where
  "old_loc l = (if l = NoLoc then NoLoc else Stale)"

definition old_block :: "http_object \<Rightarrow> http_object" where
  "old_block p = p\<lparr>hdr_set := map old_loc (hdr_set p), ho_content := old_loc (ho_content p)\<rparr>"

text \<open>\<open>buf\<close> is another block than the object's.\<close>

definition http_object_reset_buffer :: "http_object \<Rightarrow> u8 alloc \<Rightarrow> bytes ptr \<Rightarrow> u32 \<Rightarrow> (int \<times> http_object) run" where
  "http_object_reset_buffer p a buf sz =
     (if buf \<noteq> Null \<and> sz > 0 then
        freeR (obj_buf p) (Inr (F1G_OK, (old_block p)\<lparr>obj_buf := buf, ho_buf_sz := sz\<rparr>))
      else if buf = Null \<and> sz > 0 then
        freeR (obj_buf p)
          (let b = malloc a (uint sz) in
           if b = Null then Inr (F1G_ERR, (old_block p)\<lparr>obj_buf := Null\<rparr>)
           else Inr (F1G_OK, (old_block p)\<lparr>obj_buf := b, ho_buf_sz := sz\<rparr>))
      else Inr (F1G_OK, p))"

definition http_object_reset :: "http_object \<Rightarrow> (int \<times> http_object) run" where
  "http_object_reset p =
     bindR (deref (obj_buf p)) (\<lambda>m.
     bindR (put m 0 (replicate (unat (ho_data_len p)) 0)) (\<lambda>m'.
     bindR (bit_array_reset (ho_status p)) (\<lambda>(_, st).
       Inr (F1G_OK, p\<lparr>obj_buf := Live m', ho_data_len := 0, hdr_set := replicate 10 NoLoc, hdr_len_set := replicate 10 0,
         ho_content := NoLoc, ho_content_len := 0, ho_status := st\<rparr>))))"

text \<open>\<^verbatim>\<open>memcpy(obj_buf+data_len, s, n)\<close> and \<^verbatim>\<open>data_len += n\<close>.\<close>

definition ho_append :: "http_object \<Rightarrow> bytes \<Rightarrow> http_object run" where
  "ho_append p s =
     bindR (deref (obj_buf p)) (\<lambda>m.
     bindR (put m (unat (ho_data_len p)) s) (\<lambda>m'.
       Inr (p\<lparr>obj_buf := Live m', ho_data_len := ho_data_len p + of_nat (length s)\<rparr>)))"

definition http_object_add_header :: "http_object \<Rightarrow> u8 \<Rightarrow> bytes \<Rightarrow> u16 \<Rightarrow> (int \<times> http_object) run" where
  "http_object_add_header p id0 header len =
     (if id0 \<ge> HTTP_HDR_NUM then Inr (F1G_ERR, p)
      else
        bindR (bit_array_bit_value (ho_status p) id0) (\<lambda>v.
        if v = 1 then Inr (F1G_ERR, p)
        else
          case get_http_header_info id0 of
            None \<Rightarrow> Inr (F1G_ERR, p)
          | Some (_, header_size, name) \<Rightarrow>
              if ho_data_len p + ucast len + 2 + ucast header_size \<ge> ho_buf_sz p then Inr (F1G_ERR, p)
              else
                bindR (if header_size > 0 then bindR (slice (lit name @ [0]) 0 (uint header_size)) (ho_append p) else Inr p) (\<lambda>p1.
                bindR (slice header 0 (uint len)) (\<lambda>t.
                bindR (ho_append p1 t) (\<lambda>p2.
                bindR (wr (hdr_set p2) (unat id0) (At (unat (ho_data_len p1)))) (\<lambda>hs.
                bindR (wr (hdr_len_set p2) (unat id0) len) (\<lambda>ls.
                bindR (ho_append (p2\<lparr>hdr_set := hs, hdr_len_set := ls\<rparr>) [13, 10]) (\<lambda>p3.
                bindR (bit_array_set_bit (ho_status p3) id0) (\<lambda>(_, st).
                  Inr (F1G_OK, p3\<lparr>ho_status := st\<rparr>))))))))))"

definition http_object_add_content :: "http_object \<Rightarrow> bytes \<Rightarrow> u16 \<Rightarrow> (int \<times> http_object) run" where
  "http_object_add_content p cont len =
     (if ho_data_len p + ucast len > ho_buf_sz p then Inr (F1G_ERR, p)
      else
        let p1 = (if ho_content_len p = 0 then p\<lparr>ho_content := At (unat (ho_data_len p))\<rparr> else p) in
        bindR (slice cont 0 (uint len)) (\<lambda>t.
        case ho_content p1 of
          NoLoc \<Rightarrow> Inl NullDeref
        | Stale \<Rightarrow> Inl UseAfterFree
        | At k \<Rightarrow>
            bindR (deref (obj_buf p1)) (\<lambda>m.
            bindR (put m (k + unat (ho_content_len p1)) t) (\<lambda>m'.
              Inr (F1G_OK, p1\<lparr>obj_buf := Live m', ho_content_len := ho_content_len p1 + ucast len,
                ho_data_len := ho_data_len p1 + ucast len\<rparr>)))))"

definition http_object_get_headers :: "http_object \<Rightarrow> bytes \<Rightarrow> u32 \<Rightarrow> int" where
  "http_object_get_headers p buf sz = F1G_OK"

definition http_object_get_header :: "http_object \<Rightarrow> u8 \<Rightarrow> bytes \<Rightarrow> u32 \<Rightarrow> int" where
  "http_object_get_header p id0 buf sz = F1G_OK"

section \<open>Taking an object from a text or a file\<close>

text \<open>Whether one of the words is at the pointer; they are compared in turn.\<close>

fun starts_with_any :: "string list \<Rightarrow> bytes \<Rightarrow> bool run" where
  "starts_with_any [] s = Inr False"
| "starts_with_any (w # ws) s =
     bindR (cmp_str (lit w @ [0]) s (int (length w))) (\<lambda>r. if r = 0 then Inr True else starts_with_any ws s)"

definition method_words :: "u8 \<Rightarrow> string list option" where
  "method_words c =
     (if c = chr8 (CHR ''H'') then Some [''HTTP/'', ''HEAD '']
      else if c = chr8 (CHR ''G'') then Some [''GET '']
      else if c = chr8 (CHR ''P'') then Some [''POST '', ''PUT '']
      else if c = chr8 (CHR ''D'') then Some [''DELETE '']
      else if c = chr8 (CHR ''T'') then Some [''TRACE '']
      else if c = chr8 (CHR ''O'') then Some [''OPTIONS '']
      else None)"

text \<open>The \<^verbatim>\<open>switch\<close> on the first character: whether the function goes on behind it.\<close>

definition known_start :: "bytes \<Rightarrow> bool run" where
  "known_start s =
     bindR (rd s 0) (\<lambda>c. case method_words c of None \<Rightarrow> Inr True | Some ws \<Rightarrow> starts_with_any ws s)"

text \<open>\<^verbatim>\<open>while (pb != pe) {}\<close>: the pointer it ends with, \<open>None\<close> where it does not end.\<close>

definition wait_loop :: "nat option \<Rightarrow> nat option \<Rightarrow> nat option option" where
  "wait_loop pb pe = while_option (\<lambda>x. x \<noteq> pe) (\<lambda>x. x) pb"

text \<open>\<open>None\<close> is a call that does not return. \<open>data\<close> is not a pointer into the object's block when the block has to be
  replaced.\<close>

definition http_object_parse_data :: "http_object \<Rightarrow> u8 alloc \<Rightarrow> bytes \<Rightarrow> u16 \<Rightarrow> (int \<times> http_object) run option" where
  "http_object_parse_data p a data len =
     (case (if ho_buf_sz p < ucast len then http_object_reset_buffer p a Null (ucast len) else Inr (F1G_OK, p)) of
        Inl e \<Rightarrow> Some (Inl e)
      | Inr (_, p1) \<Rightarrow>
         (case find_str data (uint len - 1) [13, 10] of
            Inl e \<Rightarrow> Some (Inl e)
          | Inr pe \<Rightarrow>
              if (case pe of None \<Rightarrow> False | Some k \<Rightarrow> int k = uint len - 1) then Some (Inr (F1G_ERR, p1))
              else
               (case known_start data of
                  Inl e \<Rightarrow> Some (Inl e)
                | Inr ok \<Rightarrow>
                    if \<not> ok then Some (Inr (F1G_ERR, p1))
                    else map_option (\<lambda>_. Inr (F1G_OK, p1)) (wait_loop (Some 0) pe))))"

text \<open>Whether the file opens, the size \<^verbatim>\<open>fstat\<close> gives, the outcome of an allocation, and the bytes that
  \<^verbatim>\<open>read\<close> stores (\<open>None\<close> where it fails).\<close>

record file_env =
  fe_opens :: bool
  fe_size :: "int option"
  fe_alloc :: "u8 alloc"
  fe_read :: "bytes option"

text \<open>In \<^verbatim>\<open>len = read(...) != st_size\<close> the comparison binds tighter: where the call goes on, \<^verbatim>\<open>len\<close> is 0.\<close>

definition http_object_parse_file :: "http_object \<Rightarrow> file_env \<Rightarrow> (int \<times> http_object) run option" where
  "http_object_parse_file p e =
     (if \<not> fe_opens e then Some (Inr (F1G_ERR, p))
      else
        case fe_size e of
          None \<Rightarrow> Some (Inr (F1G_ERR, p))
        | Some sz \<Rightarrow>
            if sz \<le> 0 then Some (Inr (F1G_ERR, p))
            else
              case (if uint (ho_buf_sz p) < sz then http_object_reset_buffer p (fe_alloc e) Null (of_int sz) else Inr (F1G_OK, p)) of
                Inl f \<Rightarrow> Some (Inl f)
              | Inr (r, p1) \<Rightarrow>
                  if r = F1G_ERR then Some (Inr (F1G_ERR, p1))
                  else
                    case fe_read e of
                      None \<Rightarrow> Some (Inr (F1G_ERR, p1))
                    | Some d \<Rightarrow>
                        case bindR (deref (obj_buf p1)) (\<lambda>m. put m 0 d) of
                          Inl f \<Rightarrow> Some (Inl f)
                        | Inr m \<Rightarrow>
                            if int (length d) \<noteq> sz then Some (Inr (F1G_ERR, p1\<lparr>obj_buf := Live m\<rparr>))
                            else
                              map_option (\<lambda>x. bindR x (\<lambda>(_, p2). Inr (F1G_OK, p2)))
                                (http_object_parse_data (p1\<lparr>obj_buf := Live m, ho_data_len := 0\<rparr>) (fe_alloc e) m 0))"

section \<open>The text an object holds\<close>

definition header_name :: "u8 \<Rightarrow> bytes" where
  "header_name id0 = (case get_http_header_info id0 of None \<Rightarrow> [] | Some (_, n, name) \<Rightarrow> take (unat n) (lit name))"

definition header_line :: "u8 \<Rightarrow> bytes \<Rightarrow> bytes" where
  "header_line id0 t = header_name id0 @ t @ [13, 10]"

definition ho_holds :: "http_object \<Rightarrow> bytes \<Rightarrow> bool" where
  "ho_holds p x \<longleftrightarrow>
     (\<exists>m. obj_buf p = Live m \<and> length m = unat (ho_buf_sz p) \<and> length x \<le> length m \<and> take (length x) m = x)
     \<and> unat (ho_data_len p) = length x \<and> unat (ho_buf_sz p) < 2 ^ 31
     \<and> ba_wf (ho_status p) \<and> bits_num (ho_status p) = 10 \<and> length (hdr_set p) = 10 \<and> length (hdr_len_set p) = 10"

lemma header_info:
  assumes "id0 < 10"
  shows "\<exists>x n name. get_http_header_info id0 = Some (x, n, name) \<and> unat n \<le> length name"
proof -
  have "unat id0 \<in> set [0..<10]" using assms by (simp add: word_less_nat_alt)
  then have "of_nat (unat id0) \<in> set (map of_nat [0..<10] :: u8 list)" by (metis image_eqI list.set_map)
  then have "id0 \<in> {0, 1, 2, 3, 4, 5, 6, 7, 8, 9}" by (simp add: upt_rec insert_commute)
  then show ?thesis by (auto simp: get_http_header_info_def http_header_info_def)
qed

lemma ho_append_ok:
  assumes "ho_holds p x" and "length x + length s \<le> unat (ho_buf_sz p)"
  shows "\<exists>m. ho_append p s = Inr (p\<lparr>obj_buf := Live m, ho_data_len := ho_data_len p + of_nat (length s)\<rparr>)
    \<and> ho_holds (p\<lparr>obj_buf := Live m, ho_data_len := ho_data_len p + of_nat (length s)\<rparr>) (x @ s)"
proof -
  obtain m where m: "obj_buf p = Live m" "length m = unat (ho_buf_sz p)" "length x \<le> length m" "take (length x) m = x"
    and n: "unat (ho_data_len p) = length x" "unat (ho_buf_sz p) < 2 ^ 31"
    using assms(1) by (auto simp: ho_holds_def)
  have "ho_append p s = Inr (p\<lparr>obj_buf := Live (x @ s @ drop (length x + length s) m), ho_data_len := ho_data_len p + of_nat (length s)\<rparr>)"
    using m n assms(2) by (simp add: ho_append_def)
  moreover have "unat (ho_data_len p + of_nat (length s)) = length x + length s"
    using n assms(2) by (simp add: unat_word_ariths unat_of_nat)
  moreover have "length (x @ s @ drop (length x + length s) m) = length m" using m(2) assms(2) by simp
  ultimately show ?thesis using assms m(2) n
    by (intro exI [of _ "x @ s @ drop (length x + length s) m"]) (simp add: ho_holds_def)
qed

text \<open>The room test does not wrap on a buffer below 2 GB.\<close>

lemma unat_up [simp]: "unat (ucast w :: u32) = unat w" for w :: u8
  using unsigned_less [of w, where 'a = nat] by (simp add: unsigned_ucast_eq take_bit_nat_eq_self)

lemma unat_up16 [simp]: "unat (ucast w :: u32) = unat w" for w :: u16
  using unsigned_less [of w, where 'a = nat] by (simp add: unsigned_ucast_eq take_bit_nat_eq_self)

lemma uint_up16 [simp]: "uint (ucast w :: u32) = uint w" for w :: u16
  by (metis uint_nat unat_up16)

lemma slice_word [simp]: "unat w \<le> length m \<Longrightarrow> slice m 0 (uint w) = Inr (take (unat w) m)"
  by (simp add: slice_def flip: unat_eq_nat_uint)

lemma room_test:
  assumes "unat (ho_data_len p) < 2 ^ 31"
  shows "ho_data_len p + ucast (len :: u16) + 2 + ucast (n :: u8) \<ge> ho_buf_sz p \<longleftrightarrow>
    unat (ho_data_len p) + unat len + 2 + unat n \<ge> unat (ho_buf_sz p)"
proof -
  have "unat len < 2 ^ LENGTH(16)" "unat n < 2 ^ LENGTH(8)" by (rule unsigned_less)+
  then have "unat (ho_data_len p + ucast len + 2 + ucast n) = unat (ho_data_len p) + unat len + 2 + unat n"
    using assms by (simp add: unat_word_ariths)
  then show ?thesis by (simp add: word_le_nat_alt)
qed

lemma header_line_length:
  "get_http_header_info id0 = Some (y, n, name) \<Longrightarrow> unat n \<le> length name \<Longrightarrow> length (header_line id0 t) = length t + 2 + unat n"
  by (simp add: header_line_def header_name_def lit_def min_absorb2)

text \<open>The objects that differ from \<open>p\<close> in their text only.\<close>

definition same_but_text :: "http_object \<Rightarrow> http_object \<Rightarrow> bool" where
  "same_but_text p q \<longleftrightarrow> ho_status q = ho_status p \<and> hdr_set q = hdr_set p \<and> hdr_len_set q = hdr_len_set p
     \<and> ho_buf_sz q = ho_buf_sz p \<and> ho_content q = ho_content p \<and> ho_content_len q = ho_content_len p"

lemma append_text:
  assumes "ho_holds p x" and "length x + length s \<le> unat (ho_buf_sz p)"
  shows "\<exists>q. ho_append p s = Inr q \<and> ho_holds q (x @ s) \<and> same_but_text p q"
  using ho_append_ok [OF assms] by (auto simp: same_but_text_def)

lemma append_name:
  assumes p: "ho_holds p x" and i: "get_http_header_info id0 = Some (y, n, name)" "unat n \<le> length name"
    and room: "length x + length (header_name id0) \<le> unat (ho_buf_sz p)"
  shows "\<exists>q. (if n > 0 then bindR (slice (lit name @ [0]) 0 (uint n)) (ho_append p) else Inr p) = Inr q
    \<and> ho_holds q (x @ header_name id0) \<and> same_but_text p q"
proof (cases "n > 0")
  case False
  then have "n = 0" using word_gt_0 by blast
  then show ?thesis using p i(1) by (simp add: header_name_def same_but_text_def)
next
  case True
  have "slice (lit name @ [0]) 0 (uint n) = Inr (header_name id0)"
    using i by (simp add: lit_def header_name_def)
  then show ?thesis using True append_text [OF p room] by simp
qed

text \<open>A header that is not recognised as there and has room.\<close>

lemma add_header_appends:
  assumes p: "ho_holds p x" and id0: "id0 < 10" and t: "length t < 2 ^ 16"
    and new: "bit_array_bit_value (ho_status p) id0 = Inr v" "v \<noteq> 1"
    and room: "length x + length (header_line id0 t) < unat (ho_buf_sz p)"
  shows "\<exists>p'. http_object_add_header p id0 (t @ z) (of_nat (length t)) = Inr (F1G_OK, p')
    \<and> ho_holds p' (x @ header_line id0 t) \<and> ba_set (ho_status p') = insert (unat id0) (ba_set (ho_status p))
    \<and> hdr_set p' = (hdr_set p)[unat id0 := At (length x + length (header_name id0))]
    \<and> hdr_len_set p' = (hdr_len_set p)[unat id0 := of_nat (length t)]
    \<and> ho_buf_sz p' = ho_buf_sz p \<and> ho_content p' = ho_content p \<and> ho_content_len p' = ho_content_len p"
proof -
  obtain y n name where i: "get_http_header_info id0 = Some (y, n, name)" "unat n \<le> length name" using header_info [OF id0] by blast
  have st: "ba_wf (ho_status p)" "bits_num (ho_status p) = 10" "unat (ho_data_len p) = length x"
    "length (hdr_set p) = 10" "length (hdr_len_set p) = 10" "unat (ho_data_len p) < 2 ^ 31"
    using p by (auto simp: ho_holds_def)
  have ut: "unat (of_nat (length t) :: u16) = length t" using t by (simp add: unat_of_nat)
  have test: "\<not> ho_data_len p + ucast (of_nat (length t) :: u16) + 2 + ucast n \<ge> ho_buf_sz p"
    using room_test [OF st(6), of "of_nat (length t)" n] room st(3) header_line_length [OF i] ut by simp
  obtain p1 where p1: "(if n > 0 then bindR (slice (lit name @ [0]) 0 (uint n)) (ho_append p) else Inr p) = Inr p1"
    "ho_holds p1 (x @ header_name id0)" "same_but_text p p1"
    using append_name [OF p i] room by (auto simp: header_line_def)
  have "length (x @ header_name id0) + length t \<le> unat (ho_buf_sz p1)" using room p1(3) by (simp add: header_line_def same_but_text_def)
  from append_text [OF p1(2) this] obtain p2 where p2: "ho_append p1 t = Inr p2" "ho_holds p2 ((x @ header_name id0) @ t)" "same_but_text p1 p2" by blast
  define p2' where "p2' = p2\<lparr>hdr_set := (hdr_set p)[unat id0 := At (length x + length (header_name id0))],
    hdr_len_set := (hdr_len_set p)[unat id0 := of_nat (length t)]\<rparr>"
  have "ho_holds p2' ((x @ header_name id0) @ t)" using p2(2) st(4,5) by (simp add: ho_holds_def p2'_def)
  moreover have "length ((x @ header_name id0) @ t) + length [13, 10 :: u8] \<le> unat (ho_buf_sz p2')"
    using room p1(3) p2(3) by (simp add: header_line_def p2'_def same_but_text_def)
  ultimately obtain p3 where p3: "ho_append p2' [13, 10] = Inr p3" "ho_holds p3 (x @ header_line id0 t)" "same_but_text p2' p3"
    using append_text [of p2' "x @ header_name id0 @ t" "[13, 10]"] by (auto simp: header_line_def)
  obtain st' where st': "bit_array_set_bit (ho_status p) id0 = Inr (F1G_OK, st')" "ba_wf st'" "bits_num st' = 10"
    "ba_set st' = insert (unat id0) (ba_set (ho_status p))"
    using bit_array_set_bit_wf [OF st(1), of id0] id0 st(2) by auto
  have same: "ho_status p3 = ho_status p" "hdr_set p2 = hdr_set p" "hdr_len_set p2 = hdr_len_set p"
    "hdr_set p3 = (hdr_set p)[unat id0 := At (length x + length (header_name id0))]" "hdr_len_set p3 = (hdr_len_set p)[unat id0 := of_nat (length t)]"
    "ho_buf_sz p3 = ho_buf_sz p" "ho_content p3 = ho_content p" "ho_content_len p3 = ho_content_len p"
    using p1(3) p2(3) p3(3) by (simp_all add: same_but_text_def p2'_def)
  have "unat id0 < 10" "unat (ho_data_len p1) = length x + length (header_name id0)"
    using id0 p1(2) by (simp_all add: word_less_nat_alt ho_holds_def)
  then have "http_object_add_header p id0 (t @ z) (of_nat (length t)) = Inr (F1G_OK, p3\<lparr>ho_status := st'\<rparr>)"
    using id0 new i(1) test p1(1) p2(1) p3(1) st'(1) ut st(4,5) same
    by (simp add: http_object_add_header_def HTTP_HDR_NUM_def not_le [symmetric] flip: p2'_def)
  moreover have "ho_holds (p3\<lparr>ho_status := st'\<rparr>) (x @ header_line id0 t)" using p3(2) st'(2,3) by (simp add: ho_holds_def)
  ultimately show ?thesis using st'(4) same by (intro exI [of _ "p3\<lparr>ho_status := st'\<rparr>"] conjI) simp_all
qed

lemma content_sum:
  assumes "unat (ho_data_len p) < 2 ^ 31" and "length c < 2 ^ 16"
  shows "unat (of_nat (length c) :: u16) = length c"
    and "unat (ho_data_len p + ucast (of_nat (length c) :: u16)) = unat (ho_data_len p) + length c"
  using assms by (simp_all add: unat_of_nat unat_word_ariths)

lemma add_content_appends:
  assumes p: "ho_holds p x" and c: "length c < 2 ^ 16" and none: "ho_content_len p = 0"
    and room: "length x + length c \<le> unat (ho_buf_sz p)"
  shows "\<exists>p'. http_object_add_content p (c @ z) (of_nat (length c)) = Inr (F1G_OK, p') \<and> ho_holds p' (x @ c)
    \<and> hdr_set p' = hdr_set p \<and> hdr_len_set p' = hdr_len_set p \<and> ho_status p' = ho_status p \<and> ho_buf_sz p' = ho_buf_sz p
    \<and> ho_content p' = At (length x) \<and> unat (ho_content_len p') = length c"
proof -
  obtain m where m: "obj_buf p = Live m" "length m = unat (ho_buf_sz p)" "take (length x) m = x" "unat (ho_data_len p) = length x"
    "unat (ho_buf_sz p) < 2 ^ 31"
    using p by (auto simp: ho_holds_def)
  have "unat (ho_data_len p) < 2 ^ 31" using m(4,5) room by simp
  then have ut: "unat (of_nat (length c) :: u16) = length c"
    and len: "unat (ho_data_len p + ucast (of_nat (length c) :: u16)) = length x + length c"
    using content_sum [of p c] c m(4) by simp_all
  then have "\<not> ho_data_len p + ucast (of_nat (length c) :: u16) > ho_buf_sz p" using room by (simp add: word_less_nat_alt)
  moreover define q where "q = p\<lparr>obj_buf := Live (x @ c @ drop (length x + length c) m), ho_data_len := ho_data_len p + ucast (of_nat (length c) :: u16),
    ho_content := At (length x), ho_content_len := ucast (of_nat (length c) :: u16)\<rparr>"
  moreover have "put m (length x) c = Inr (x @ c @ drop (length x + length c) m)" using m room by simp
  ultimately have "http_object_add_content p (c @ z) (of_nat (length c)) = Inr (F1G_OK, q)"
    using m none ut by (simp add: http_object_add_content_def q_def)
  moreover have "ho_holds q (x @ c)" using p len m(2) room by (simp add: ho_holds_def q_def)
  moreover have "hdr_set q = hdr_set p" "hdr_len_set q = hdr_len_set p" "ho_status q = ho_status p" "ho_buf_sz q = ho_buf_sz p"
    "ho_content q = At (length x)" "unat (ho_content_len q) = length c"
    using ut by (simp_all add: q_def)
  ultimately show ?thesis by blast
qed

lemma http_object_reset_empties:
  assumes "ho_holds p x"
  shows "\<exists>p'. http_object_reset p = Inr (F1G_OK, p') \<and> ho_holds p' [] \<and> ho_content_len p' = 0 \<and> ba_set (ho_status p') = {}
    \<and> ho_buf_sz p' = ho_buf_sz p"
proof -
  obtain m where m: "obj_buf p = Live m" "length m = unat (ho_buf_sz p)" "length x \<le> length m" and p: "unat (ho_data_len p) = length x"
    "unat (ho_buf_sz p) < 2 ^ 31" "ba_wf (ho_status p)" "bits_num (ho_status p) = 10"
    using assms by (auto simp: ho_holds_def)
  obtain st where st: "bit_array_reset (ho_status p) = Inr (F1G_OK, st)" "ba_wf st" "bits_num st = 10" "ba_set st = {}"
    using bit_array_reset_wf [OF p(3)] p(4) by auto
  show ?thesis using m p st by (simp add: http_object_reset_def ho_holds_def)
qed

section \<open>Properties\<close>

text \<open>Whether \<^verbatim>\<open>http_object_add_header\<close> takes a header for one the object has.\<close>

definition recognised :: "bit_array \<Rightarrow> u8 \<Rightarrow> bool" where
  "recognised b id0 \<longleftrightarrow> ba_bit b (unat id0) \<and> (\<forall>j. unat id0 mod 8 < j \<and> j < 8 \<longrightarrow> \<not> ba_bit b (unat id0 div 8 * 8 + j))"

lemma bit_value_cases:
  assumes "ho_holds p x" and "id0 < 10"
  obtains v where "bit_array_bit_value (ho_status p) id0 = Inr v" "v = 1 \<longleftrightarrow> recognised (ho_status p) id0"
proof -
  have st: "ba_wf (ho_status p)" "id0 < bits_num (ho_status p)" using assms by (auto simp: ho_holds_def)
  obtain m where "bits (ho_status p) = Live m" using st(1) by (auto simp: ba_wf_def)
  then show ?thesis
    using that bit_array_bit_value_drop_bit [OF st] bit_value_is_one_iff [OF st] by (auto simp: recognised_def)
qed

text \<open>\<^verbatim>\<open>http_object_add_header\<close> on every branch.\<close>

theorem add_header_cases:
  assumes "ho_holds p x" and "length t < 2 ^ 16"
  shows "if id0 \<ge> 10 \<or> recognised (ho_status p) id0 \<or> length x + length (header_line id0 t) \<ge> unat (ho_buf_sz p)
    then http_object_add_header p id0 (t @ z) (of_nat (length t)) = Inr (F1G_ERR, p)
    else \<exists>p'. http_object_add_header p id0 (t @ z) (of_nat (length t)) = Inr (F1G_OK, p') \<and> ho_holds p' (x @ header_line id0 t)
      \<and> ba_set (ho_status p') = insert (unat id0) (ba_set (ho_status p))"
proof (cases "id0 \<ge> 10")
  case True
  then show ?thesis by (simp add: http_object_add_header_def HTTP_HDR_NUM_def)
next
  case False
  then have id0: "id0 < 10" by simp
  obtain v where v: "bit_array_bit_value (ho_status p) id0 = Inr v" "v = 1 \<longleftrightarrow> recognised (ho_status p) id0"
    using bit_value_cases [OF assms(1) id0] by blast
  obtain y n name where i: "get_http_header_info id0 = Some (y, n, name)" "unat n \<le> length name" using header_info [OF id0] by blast
  have ut: "unat (of_nat (length t) :: u16) = length t" using assms(2) by (simp add: unat_of_nat)
  have dl: "unat (ho_data_len p) < 2 ^ 31" "unat (ho_data_len p) = length x" using assms(1) by (auto simp: ho_holds_def)
  have full: "http_object_add_header p id0 (t @ z) (of_nat (length t)) = Inr (F1G_ERR, p)"
    if "length x + length (header_line id0 t) \<ge> unat (ho_buf_sz p)"
  proof -
    have "ho_data_len p + ucast (of_nat (length t) :: u16) + 2 + ucast n \<ge> ho_buf_sz p"
      using that room_test [OF dl(1), of "of_nat (length t)" n] dl(2) header_line_length [OF i] ut by simp
    then show ?thesis using v(1) i(1) id0 by (cases "n = 0") (simp_all add: http_object_add_header_def HTTP_HDR_NUM_def)
  qed
  have known: "http_object_add_header p id0 (t @ z) (of_nat (length t)) = Inr (F1G_ERR, p)" if "v = 1"
    using that v(1) id0 by (simp add: http_object_add_header_def HTTP_HDR_NUM_def)
  show ?thesis
  proof (cases "recognised (ho_status p) id0 \<or> length x + length (header_line id0 t) \<ge> unat (ho_buf_sz p)")
    case True
    then show ?thesis using full known v(2) by auto
  next
    case new: False
    then have "v \<noteq> 1" "length x + length (header_line id0 t) < unat (ho_buf_sz p)" using v(2) by auto
    from add_header_appends [OF assms(1) id0 assms(2) v(1) this] obtain p' where
      "http_object_add_header p id0 (t @ z) (of_nat (length t)) = Inr (F1G_OK, p')" "ho_holds p' (x @ header_line id0 t)"
      "ba_set (ho_status p') = insert (unat id0) (ba_set (ho_status p))" by blast
    then show ?thesis using new False by (simp del: append_assoc)
  qed
qed

lemma add_header_cases_witness:
  "recognised \<lparr>bits_num = 10, bits = Live [8, 0]\<rparr> 3 \<and> \<not> recognised \<lparr>bits_num = 10, bits = Live [9, 0]\<rparr> 0
   \<and> (\<exists>p p'. ba_set (ho_status p) = {0, 3} \<and> http_object_add_header p 0 ([65] @ []) 1 = Inr (F1G_OK, p')
     \<and> ho_holds p' (replicate 8 66 @ header_line 0 [65]))"
proof -
  define p where "p = zero_object\<lparr>obj_buf := Live (replicate 20 66), ho_buf_sz := 20, ho_data_len := 8, ho_status := \<lparr>bits_num = 10, bits = Live [9, 0]\<rparr>\<rparr>"
  have eight: "k < 10 \<Longrightarrow> k \<in> {0, 1, 2, 3, 4, 5, 6, 7, 8, 9}" for k :: nat by (simp add: less_Suc_eq eval_nat_numeral)
  have h: "ho_holds p (replicate 8 66)"
    by (simp add: p_def ho_holds_def zero_object_def ba_wf_def bytes_for_def)
  have bit9: "bit (9 :: u8) k \<longleftrightarrow> k = 0 \<or> k = 3" if "k < 8" for k
    using that eight [of k] by auto
  have new: "\<not> recognised (ho_status p) 0"
    using bit9 [of 3] by (auto simp: p_def recognised_def ba_bit_def intro!: exI [of _ 3])
  have l: "length (header_line 0 [65]) = 3" by (simp add: header_line_def header_name_def get_http_header_info_def http_header_info_def)
  have "\<exists>p'. http_object_add_header p 0 ([65] @ []) 1 = Inr (F1G_OK, p') \<and> ho_holds p' (replicate 8 66 @ header_line 0 [65])"
    using add_header_cases [OF h, of "[65]" 0 "[]"] new l by (auto simp: p_def)
  moreover have "ba_bit (ho_status p) k \<longleftrightarrow> k = 0 \<or> k = 3" if "k < 10" for k
    using eight [OF that] bit9 by (auto simp: p_def ba_bit_def)
  then have "ba_set (ho_status p) = {0, 3}" by (auto simp: p_def ba_set_def)
  moreover have "recognised \<lparr>bits_num = 10, bits = Live [8, 0]\<rparr> 3"
  proof -
    have "\<not> bit (8 :: u8) j" if "3 < j" "j < 8" for j
      using that eight [of j] by auto
    then show ?thesis by (auto simp: recognised_def ba_bit_def)
  qed
  moreover have "ho_status p = \<lparr>bits_num = 10, bits = Live [9, 0]\<rparr>" by (simp add: p_def)
  ultimately show ?thesis using new by metis
qed

text \<open>The codes and the object after several headers.\<close>

fun add_headers :: "http_object \<Rightarrow> (u8 \<times> bytes) list \<Rightarrow> (int list \<times> http_object) run" where
  "add_headers p [] = Inr ([], p)"
| "add_headers p (h # hs) =
     bindR (http_object_add_header p (fst h) (snd h) (of_nat (length (snd h)))) (\<lambda>(r, p').
     bindR (add_headers p' hs) (\<lambda>(rs, q). Inr (r # rs, q)))"

definition header_text :: "(u8 \<times> bytes) list \<Rightarrow> bytes" where
  "header_text hs = concat (map (\<lambda>h. header_line (fst h) (snd h)) hs)"

definition headers_ok :: "(u8 \<times> bytes) list \<Rightarrow> bool" where
  "headers_ok hs \<longleftrightarrow> distinct (map fst hs) \<and> (\<forall>h\<in>set hs. fst h < 10 \<and> length (snd h) < 2 ^ 16)"

text \<open>The object's pointer to a header and its length select the header's text.\<close>

definition located :: "http_object \<Rightarrow> bytes \<Rightarrow> u8 \<times> bytes \<Rightarrow> bool" where
  "located p x h \<longleftrightarrow>
     (\<exists>k. hdr_set p ! unat (fst h) = At k \<and> hdr_len_set p ! unat (fst h) = of_nat (length (snd h))
        \<and> k + length (snd h) \<le> length x \<and> take (length (snd h)) (drop k x) = snd h)"

lemma located_more:
  "located p x h \<Longrightarrow> hdr_set q ! unat (fst h) = hdr_set p ! unat (fst h) \<Longrightarrow>
   hdr_len_set q ! unat (fst h) = hdr_len_set p ! unat (fst h) \<Longrightarrow> located q (x @ y) h"
  by (auto simp: located_def)

lemma add_headers_ok:
  assumes "ho_holds p x" and "headers_ok (gs @ hs)" and "ba_set (ho_status p) = (unat \<circ> fst) ` set gs" and "ho_content_len p = 0"
    and "length x + length (header_text hs) < unat (ho_buf_sz p)" and "\<forall>h\<in>set gs. located p x h"
  shows "\<exists>p'. add_headers p hs = Inr (replicate (length hs) F1G_OK, p') \<and> ho_holds p' (x @ header_text hs)
    \<and> ho_content_len p' = 0 \<and> ho_buf_sz p' = ho_buf_sz p \<and> (\<forall>h\<in>set (gs @ hs). located p' (x @ header_text hs) h)"
  using assms
proof (induction hs arbitrary: p x gs)
  case Nil
  then show ?case by (simp add: header_text_def)
next
  case (Cons h hs)
  obtain i t where h: "h = (i, t)" by (cases h)
  have it: "i < 10" "length t < 2 ^ 16" "i \<notin> fst ` set gs" using Cons.prems(2) by (auto simp: headers_ok_def h)
  then have "unat i \<notin> ba_set (ho_status p)" using Cons.prems(3) by (force simp: word_unat_eq_iff)
  moreover have "bits_num (ho_status p) = 10" "unat i < 10" using Cons.prems(1) it(1) by (simp_all add: ho_holds_def word_less_nat_alt)
  ultimately have new: "\<not> recognised (ho_status p) i" by (auto simp: recognised_def ba_set_def)
  obtain v where v: "bit_array_bit_value (ho_status p) i = Inr v" "v \<noteq> 1"
    using bit_value_cases [OF Cons.prems(1) it(1)] new by blast
  have room: "length x + length (header_line i t) < unat (ho_buf_sz p)" using Cons.prems(5) by (simp add: header_text_def h)
  obtain p1 where p1: "http_object_add_header p i t (of_nat (length t)) = Inr (F1G_OK, p1)" "ho_holds p1 (x @ header_line i t)"
    "ba_set (ho_status p1) = insert (unat i) (ba_set (ho_status p))"
    "hdr_set p1 = (hdr_set p)[unat i := At (length x + length (header_name i))]"
    "hdr_len_set p1 = (hdr_len_set p)[unat i := of_nat (length t)]" "ho_buf_sz p1 = ho_buf_sz p" "ho_content_len p1 = 0"
    using add_header_appends [OF Cons.prems(1) it(1,2) v room, of "[]"] Cons.prems(4) by auto
  have hs: "length (hdr_set p) = 10" "length (hdr_len_set p) = 10" using Cons.prems(1) by (auto simp: ho_holds_def)
  have "located p1 (x @ header_line i t) (i, t)"
    using p1(4,5) hs \<open>unat i < 10\<close> by (simp add: located_def header_line_def)
  moreover have "located p1 (x @ header_line i t) g" if "g \<in> set gs" for g
  proof (rule located_more)
    show "located p x g" using Cons.prems(6) that by blast
    have "unat (fst g) \<noteq> unat i" using that it(3) by (metis image_eqI word_unat_eq_iff)
    then show "hdr_set p1 ! unat (fst g) = hdr_set p ! unat (fst g)" "hdr_len_set p1 ! unat (fst g) = hdr_len_set p ! unat (fst g)"
      using p1(4,5) by simp_all
  qed
  ultimately have loc: "\<forall>g\<in>set (gs @ [h]). located p1 (x @ header_line i t) g" by (auto simp: h)
  have "headers_ok ((gs @ [h]) @ hs)" "ba_set (ho_status p1) = (unat \<circ> fst) ` set (gs @ [h])"
    "length (x @ header_line i t) + length (header_text hs) < unat (ho_buf_sz p1)"
    using Cons.prems(2,3,5) p1(3,6) by (auto simp: h header_text_def)
  from Cons.IH [OF p1(2) this(1,2) p1(7) this(3) loc] p1(1,6) show ?case by (auto simp: h header_text_def)
qed

lemma create_empty:
  assumes "http_object_create True True (Some g) Null sz = (Some p, b)" and "unat sz < 2 ^ 31"
  shows "ho_holds p [] \<and> ho_content_len p = 0 \<and> ba_set (ho_status p) = {} \<and> ho_buf_sz p = (if sz < 64 then 2048 else sz)"
proof -
  obtain st where st: "bit_array_init (Some g) (ho_status zero_object) 10 = (F1G_OK, st)"
    by (simp add: bit_array_init_def Let_def malloc_def)
  then have st2: "ba_wf st" "bits_num st = 10" "ba_set st = {}" using bit_array_init_set by auto
  have "sz < 64 \<or> sz > 64" using assms(1) by (auto simp: http_object_create_def HO_MIN_BUF_SZ_def split: if_splits)
  then show ?thesis
    using assms st st2
    by (auto simp: http_object_create_def HO_MIN_BUF_SZ_def HO_DFT_BUF_SZ_def HTTP_HDR_NUM_def Let_def zalloc_def ho_holds_def zero_object_def
        split: if_splits)
qed

text \<open>C25. Different headers and a content written into a new object give their lines, in the order of the calls and each behind its
  name, and the content behind them; the pointers kept for the headers and the content select their texts.\<close>

theorem http_object_builds_message:
  assumes "http_object_create True True (Some g) Null sz = (Some p, b)" and "unat sz < 2 ^ 31" and "headers_ok hs" and "length c < 2 ^ 16"
    and "length (header_text hs) < unat (ho_buf_sz p)" and "length (header_text hs @ c) \<le> unat (ho_buf_sz p)"
  shows "\<exists>p1 p2 m. add_headers p hs = Inr (replicate (length hs) F1G_OK, p1)
    \<and> http_object_add_content p1 c (of_nat (length c)) = Inr (F1G_OK, p2)
    \<and> obj_buf p2 = Live m \<and> take (unat (ho_data_len p2)) m = header_text hs @ c
    \<and> (\<forall>h\<in>set hs. located p2 (header_text hs @ c) h) \<and> ho_content p2 = At (length (header_text hs)) \<and> unat (ho_content_len p2) = length c"
proof -
  have e: "ho_holds p []" "ho_content_len p = 0" "ba_set (ho_status p) = {}" using create_empty [OF assms(1,2)] by auto
  then obtain p1 where p1: "add_headers p hs = Inr (replicate (length hs) F1G_OK, p1)" "ho_holds p1 (header_text hs)"
    "ho_content_len p1 = 0" "ho_buf_sz p1 = ho_buf_sz p" "\<forall>h\<in>set hs. located p1 (header_text hs) h"
    using add_headers_ok [OF e(1), of "[]" hs] assms(3,5) by auto
  obtain p2 where p2: "http_object_add_content p1 c (of_nat (length c)) = Inr (F1G_OK, p2)" "ho_holds p2 (header_text hs @ c)"
    "hdr_set p2 = hdr_set p1" "hdr_len_set p2 = hdr_len_set p1" "ho_content p2 = At (length (header_text hs))" "unat (ho_content_len p2) = length c"
    using add_content_appends [OF p1(2) assms(4) p1(3), of "[]"] assms(6) p1(4) by auto
  moreover have "\<forall>h\<in>set hs. located p2 (header_text hs @ c) h" using p1(5) p2(3,4) by (auto intro: located_more)
  ultimately show ?thesis using p1(1) by (auto simp: ho_holds_def)
qed

lemma new_object:
  "\<exists>p. http_object_create True True (Some (\<lambda>_. 0)) Null 0 = (Some p, Null) \<and> ho_holds p [] \<and> ho_content_len p = 0
    \<and> ba_set (ho_status p) = {} \<and> unat (ho_buf_sz p) = 2048"
proof -
  obtain p where p: "http_object_create True True (Some (\<lambda>_. 0)) Null 0 = (Some p, Null)"
    by (auto simp: http_object_create_def HO_MIN_BUF_SZ_def HO_DFT_BUF_SZ_def Let_def zalloc_def bit_array_init_def malloc_def)
  then show ?thesis using create_empty [OF p] by simp
qed

lemma http_object_builds_message_witness:
  "\<exists>p p1 p2 m. http_object_create True True (Some (\<lambda>_. 0)) Null 0 = (Some p, Null)
    \<and> add_headers p [(8, [71]), (3, [104]), (7, [])] = Inr ([F1G_OK, F1G_OK, F1G_OK], p1)
    \<and> http_object_add_content p1 [1, 2] 2 = Inr (F1G_OK, p2) \<and> obj_buf p2 = Live m
    \<and> take (unat (ho_data_len p2)) m = [71, 13, 10] @ lit ''Host: '' @ [104, 13, 10] @ [13, 10] @ [1, 2]"
proof -
  let ?hs = "[(8, [71]), (3, [104]), (7, [])] :: (u8 \<times> bytes) list"
  obtain p where p: "http_object_create True True (Some (\<lambda>_. 0)) Null 0 = (Some p, Null)" and b: "unat (ho_buf_sz p) = 2048"
    using new_object by blast
  have t: "header_text ?hs = [71, 13, 10] @ lit ''Host: '' @ [104, 13, 10] @ [13, 10]"
    by (simp add: header_text_def header_line_def header_name_def get_http_header_info_def http_header_info_def lit_def)
  have ok: "headers_ok ?hs" and l: "length (header_text ?hs) = 14" by (simp_all add: headers_ok_def t lit_def)
  have "\<exists>p1 p2 m. add_headers p ?hs = Inr (replicate (length ?hs) F1G_OK, p1)
    \<and> http_object_add_content p1 [1, 2] (of_nat (length [1, 2 :: u8])) = Inr (F1G_OK, p2)
    \<and> obj_buf p2 = Live m \<and> take (unat (ho_data_len p2)) m = header_text ?hs @ [1, 2]"
    using http_object_builds_message [OF p _ ok, of "[1, 2]"] b l by auto
  moreover have "replicate (length ?hs) F1G_OK = [F1G_OK, F1G_OK, F1G_OK]" "of_nat (length [1, 2 :: u8]) = (2 :: u16)" by simp_all
  ultimately show ?thesis using p unfolding t by auto
qed

text \<open>A header added behind a content is lost when more content follows: the content is stored over it, and the text becomes
  longer by cells that nothing was written to.\<close>

theorem content_overwrites_header:
  assumes p: "ho_holds p x" "ho_content_len p = 0" and c: "length c < 2 ^ 16" "0 < length c" and d: "length d < 2 ^ 16"
    and h: "id0 < 10" "\<not> recognised (ho_status p) id0" "length t < 2 ^ 16"
    and room: "length x + length c + length (header_line id0 t) + length d < unat (ho_buf_sz p)"
  shows "\<exists>p1 p2 p3 m. http_object_add_content p c (of_nat (length c)) = Inr (F1G_OK, p1)
    \<and> http_object_add_header p1 id0 t (of_nat (length t)) = Inr (F1G_OK, p2)
    \<and> http_object_add_content p2 d (of_nat (length d)) = Inr (F1G_OK, p3) \<and> obj_buf p3 = Live m
    \<and> take (length (x @ c @ d)) m = x @ c @ d \<and> unat (ho_data_len p3) = length (x @ c @ header_line id0 t @ d)"
proof -
  obtain p1 where p1: "http_object_add_content p c (of_nat (length c)) = Inr (F1G_OK, p1)" "ho_holds p1 (x @ c)"
    "ho_status p1 = ho_status p" "ho_buf_sz p1 = ho_buf_sz p" "ho_content p1 = At (length x)" "unat (ho_content_len p1) = length c"
    using add_content_appends [OF p(1) c(1) p(2), of "[]"] room by auto
  obtain v where v: "bit_array_bit_value (ho_status p1) id0 = Inr v" "v \<noteq> 1"
    using bit_value_cases [OF p1(2) h(1)] h(2) p1(3) by auto
  have "length (x @ c) + length (header_line id0 t) < unat (ho_buf_sz p1)" using room p1(4) by simp
  from add_header_appends [OF p1(2) h(1,3) v this, of "[]"] obtain p2 where
    p2: "http_object_add_header p1 id0 t (of_nat (length t)) = Inr (F1G_OK, p2)" "ho_holds p2 ((x @ c) @ header_line id0 t)"
    "ho_buf_sz p2 = ho_buf_sz p" "ho_content p2 = At (length x)" "ho_content_len p2 = ho_content_len p1"
    using p1(4,5) by auto
  obtain m where m: "obj_buf p2 = Live m" "length m = unat (ho_buf_sz p)" "take (length (x @ c @ header_line id0 t)) m = x @ c @ header_line id0 t"
    "unat (ho_data_len p2) = length (x @ c @ header_line id0 t)" "unat (ho_buf_sz p) < 2 ^ 31"
    using p2(2,3) by (auto simp: ho_holds_def)
  have "unat (ho_data_len p2) < 2 ^ 31" using m(4,5) room by simp
  then have ut: "unat (of_nat (length d) :: u16) = length d"
    and len: "unat (ho_data_len p2 + ucast (of_nat (length d) :: u16)) = length (x @ c @ header_line id0 t @ d)"
    using content_sum [of p2 d] d m(4) by simp_all
  then have "\<not> ho_data_len p2 + ucast (of_nat (length d) :: u16) > ho_buf_sz p2" using room p2(3) by (simp add: word_less_nat_alt)
  moreover have "take (length x + length c) m = x @ c"
    using arg_cong [OF m(3), of "take (length x + length c)"] by (simp add: min_absorb1)
  then have "put m (length x + length c) d = Inr (x @ c @ d @ drop (length x + length c + length d) m)" using m(2) room by simp
  moreover have "ho_content_len p2 \<noteq> 0" using p2(5) p1(6) c(2) by auto
  moreover define p3 where "p3 = p2\<lparr>obj_buf := Live (x @ c @ d @ drop (length x + length c + length d) m),
      ho_content_len := ho_content_len p2 + ucast (of_nat (length d) :: u16), ho_data_len := ho_data_len p2 + ucast (of_nat (length d) :: u16)\<rparr>"
  ultimately have "http_object_add_content p2 d (of_nat (length d)) = Inr (F1G_OK, p3)"
    using m(1) p2(4,5) p1(6) ut by (simp add: http_object_add_content_def)
  moreover have "obj_buf p3 = Live (x @ c @ d @ drop (length x + length c + length d) m)" "unat (ho_data_len p3) = length (x @ c @ header_line id0 t @ d)"
    using len by (simp_all add: p3_def)
  ultimately show ?thesis using p1(1) p2(1) by fastforce
qed

lemma content_overwrites_header_witness:
  "\<exists>p p1 p2 p3 m. http_object_create True True (Some (\<lambda>_. 0)) Null 0 = (Some p, Null)
    \<and> http_object_add_content p [1] (of_nat (length [1 :: u8])) = Inr (F1G_OK, p1)
    \<and> http_object_add_header p1 8 [72] (of_nat (length [72 :: u8])) = Inr (F1G_OK, p2)
    \<and> http_object_add_content p2 [2, 3] (of_nat (length [2, 3 :: u8])) = Inr (F1G_OK, p3) \<and> obj_buf p3 = Live m
    \<and> take 3 m = [1, 2, 3] \<and> unat (ho_data_len p3) = 6"
proof -
  obtain p where p: "http_object_create True True (Some (\<lambda>_. 0)) Null 0 = (Some p, Null)" "ho_holds p []" "ho_content_len p = 0"
    "ba_set (ho_status p) = {}" "unat (ho_buf_sz p) = 2048"
    using new_object by blast
  have "bits_num (ho_status p) = 10" using p(2) by (simp add: ho_holds_def)
  then have new: "\<not> recognised (ho_status p) 8" using p(4) by (auto simp: recognised_def ba_set_def)
  have l: "length (header_line 8 [72]) = 3" by (simp add: header_line_def header_name_def get_http_header_info_def http_header_info_def)
  show ?thesis using content_overwrites_header [OF p(2,3), of "[1]" "[2, 3]" 8 "[72]"] new l p(1,5) by (auto simp: numeral_3_eq_3)
qed

text \<open>A new buffer for an object with a text: the text's length and the pointers of the old block are kept, so that more content is
  written into freed memory and a reset clears cells behind a smaller buffer.\<close>

theorem reset_buffer_keeps_old_text:
  assumes "ho_holds p x" and "length m = unat sz" and "0 < sz"
  shows "\<exists>p'. http_object_reset_buffer p a (Live m) sz = Inr (F1G_OK, p') \<and> obj_buf p' = Live m \<and> unat (ho_data_len p') = length x
    \<and> (length x > length m \<longrightarrow> http_object_reset p' = Inl OutOfBounds)
    \<and> (ho_content_len p > 0 \<and> ho_content p \<noteq> NoLoc \<and> length x + length c \<le> length m \<and> length c < 2 ^ 16 \<longrightarrow>
        http_object_add_content p' c (of_nat (length c)) = Inl UseAfterFree)"
proof -
  have p: "unat (ho_data_len p) = length x" "unat (ho_buf_sz p) < 2 ^ 31" "\<exists>b. obj_buf p = Live b" "length x \<le> unat (ho_buf_sz p)"
    using assms(1) by (auto simp: ho_holds_def)
  define q where "q = (old_block p)\<lparr>obj_buf := Live m, ho_buf_sz := sz\<rparr>"
  have run: "http_object_reset_buffer p a (Live m) sz = Inr (F1G_OK, q)" using p(3) assms(3) by (auto simp: http_object_reset_buffer_def q_def)
  have q: "obj_buf q = Live m" "ho_data_len q = ho_data_len p" "ho_buf_sz q = sz" "ho_content_len q = ho_content_len p" "ho_content q = old_loc (ho_content p)"
    by (simp_all add: q_def old_block_def)
  have "http_object_add_content q c (of_nat (length c)) = Inl UseAfterFree"
    if "ho_content_len p > 0" "ho_content p \<noteq> NoLoc" "length x + length c \<le> length m" "length c < 2 ^ 16"
  proof -
    have "unat (ho_data_len q) < 2 ^ 31" using p(1,2,4) q(2) by simp
    then have ut: "unat (of_nat (length c) :: u16) = length c"
      and "unat (ho_data_len q + ucast (of_nat (length c) :: u16)) = length x + length c"
      using content_sum [of q c] that(4) p(1) q(2) by simp_all
    with that(3) assms(2) q(3) have "\<not> ho_data_len q + ucast (of_nat (length c) :: u16) > ho_buf_sz q" by (simp add: word_less_nat_alt)
    moreover have "ho_content_len p \<noteq> 0" using that(1) by auto
    ultimately show ?thesis using that(2) q(4,5) ut by (simp add: http_object_add_content_def old_loc_def)
  qed
  moreover have "http_object_reset q = Inl OutOfBounds" if "length x > length m"
    using that q(1,2) p(1) by (simp add: http_object_reset_def)
  ultimately show ?thesis using run q(1,2) p(1) by (intro exI [of _ q]) simp
qed

lemma reset_buffer_keeps_old_text_witness:
  "\<exists>p p1 p'. http_object_create True True (Some (\<lambda>_. 0)) Null 0 = (Some p, Null)
    \<and> http_object_add_content p [1, 2, 3] (of_nat (length [1, 2, 3 :: u8])) = Inr (F1G_OK, p1)
    \<and> http_object_reset_buffer p1 None (Live [7, 7]) 2 = Inr (F1G_OK, p') \<and> http_object_reset p' = Inl OutOfBounds"
proof -
  obtain p where p: "http_object_create True True (Some (\<lambda>_. 0)) Null 0 = (Some p, Null)" "ho_holds p []" "ho_content_len p = 0"
    "unat (ho_buf_sz p) = 2048"
    using new_object by blast
  obtain p1 where p1: "http_object_add_content p [1, 2, 3] (of_nat (length [1, 2, 3 :: u8])) = Inr (F1G_OK, p1)" "ho_holds p1 [1, 2, 3]"
    using add_content_appends [OF p(2) _ p(3), of "[1, 2, 3]" "[]"] p(4) by auto
  show ?thesis using reset_buffer_keeps_old_text [OF p1(2), of "[7, 7]" 2 None] p(1) p1(1) by auto
qed

section \<open>What the readers do\<close>

lemma wait_loop_returns: "wait_loop pb pe = (if pb = pe then Some pe else None)"
proof (cases "pb = pe")
  case True
  then show ?thesis by (simp add: wait_loop_def while_option_unfold)
next
  case False
  have "wait_loop pb pe \<noteq> Some x" for x
  proof
    assume run: "wait_loop pb pe = Some x"
    then have "x = pb" unfolding wait_loop_def by (rule while_option_rule [where P = "\<lambda>y. y = pb", rotated]) simp_all
    moreover have "x = pe" using while_option_stop [OF run [unfolded wait_loop_def]] by simp
    ultimately show False using False by simp
  qed
  then show ?thesis using False by (cases "wait_loop pb pe") auto
qed

definition begins :: "string list \<Rightarrow> bytes \<Rightarrow> bool" where
  "begins ws s \<longleftrightarrow> (\<exists>w\<in>set ws. take (length w) s = lit w)"

lemma starts_with_any_begins:
  "\<forall>w\<in>set ws. length w < 512 \<and> length w \<le> length s \<Longrightarrow> starts_with_any ws s = Inr (begins ws s)"
proof (induction ws)
  case Nil
  then show ?case by (simp add: begins_def)
next
  case (Cons w ws)
  obtain v where "cmp_str (lit w @ [0]) s (int (length w)) = Inr v" "v = 0 \<longleftrightarrow> lit w = take (length w) s"
    using cmp_str_short [of "int (length w)" "lit w @ [0]" s] Cons.prems by (auto simp: lit_def)
  then show ?case using Cons by (auto simp: begins_def)
qed

text \<open>What the switch lets pass.\<close>

definition goes_on :: "bytes \<Rightarrow> bool" where
  "goes_on s = (case method_words (s ! 0) of None \<Rightarrow> True | Some ws \<Rightarrow> begins ws s)"

lemma method_words_short: "method_words c = Some ws \<Longrightarrow> w \<in> set ws \<Longrightarrow> length w \<le> 8"
  by (auto simp: method_words_def split: if_splits)

lemma known_start_goes_on:
  assumes "8 \<le> length s"
  shows "known_start s = Inr (goes_on s)"
proof -
  have "starts_with_any ws s = Inr (begins ws s)" if "method_words (s ! 0) = Some ws" for ws
    using assms that method_words_short by (intro starts_with_any_begins) fastforce
  moreover have "rd s 0 = Inr (s ! 0)" using assms by (intro rd_in) linarith
  ultimately show ?thesis by (simp add: known_start_def goes_on_def split: option.split)
qed

lemma goes_on_append:
  assumes "8 \<le> length s"
  shows "goes_on (s @ z) = goes_on s"
proof -
  have "begins ws (s @ z) = begins ws s" if ws: "method_words (s ! 0) = Some ws" for ws
  proof -
    have "take (length w) (s @ z) = take (length w) s" if "w \<in> set ws" for w
      using assms method_words_short [OF ws that] by simp
    then show ?thesis unfolding begins_def by metis
  qed
  moreover have "(s @ z) ! 0 = s ! 0" using assms by (cases s) simp_all
  ultimately show ?thesis by (simp add: goes_on_def split: option.split)
qed

text \<open>A text shorter than the word it is compared with: the comparison leaves it unless they differ before its end.\<close>

lemma cmp_scan_behind:
  assumes "length p2 < len" and "len \<le> length p1" and "i \<le> length p2"
  shows "if \<forall>j. i \<le> j \<and> j < length p2 \<longrightarrow> p1 ! j = p2 ! j then cmp_scan p1 p2 i len = Inl OutOfBounds
    else \<exists>v. cmp_scan p1 p2 i len = Inr v \<and> v \<noteq> 0"
  using assms
proof (induction p1 p2 i len rule: cmp_scan.induct)
  case (1 p1 p2 i len)
  have p1: "rd p1 i = Inr (p1 ! i)" "i < len" using "1.prems" by simp_all
  show ?case
  proof (cases "i < length p2 \<and> p1 ! i = p2 ! i")
    case True
    then have r: "rd p2 i = Inr (p2 ! i)" by simp
    have "if \<forall>j. Suc i \<le> j \<and> j < length p2 \<longrightarrow> p1 ! j = p2 ! j then cmp_scan p1 p2 (Suc i) len = Inl OutOfBounds
      else \<exists>v. cmp_scan p1 p2 (Suc i) len = Inr v \<and> v \<noteq> 0"
      using "1.IH" [OF p1(2,1) r] "1.prems" True by simp
    moreover have "(\<forall>j. i \<le> j \<and> j < length p2 \<longrightarrow> p1 ! j = p2 ! j) \<longleftrightarrow> (\<forall>j. Suc i \<le> j \<and> j < length p2 \<longrightarrow> p1 ! j = p2 ! j)"
      using True by (metis Suc_leD le_antisym not_less_eq_eq)
    moreover have "cmp_scan p1 p2 i len = cmp_scan p1 p2 (Suc i) len"
      using p1 r True by (subst cmp_scan.simps) simp
    ultimately show ?thesis by simp
  next
    case False
    then consider "i = length p2" | "i < length p2" "p1 ! i \<noteq> p2 ! i" using "1.prems"(3) by linarith
    then show ?thesis
    proof cases
      case 1
      then show ?thesis using p1 by (subst (1 2) cmp_scan.simps) simp
    next
      case 2
      then show ?thesis using p1 by (subst (1 2) cmp_scan.simps) auto
    qed
  qed
qed

text \<open>\<open>cut ws s\<close>: the text is the beginning of one of the words, and no more.\<close>

definition cut :: "string list \<Rightarrow> bytes \<Rightarrow> bool" where
  "cut ws s \<longleftrightarrow> (\<exists>w\<in>set ws. length s < length w \<and> take (length s) (lit w) = s)"

lemma cmp_word:
  assumes "length w < 512"
  shows "if cut [w] s then cmp_str (lit w @ [0]) s (int (length w)) = Inl OutOfBounds
    else \<exists>v. cmp_str (lit w @ [0]) s (int (length w)) = Inr v \<and> (v = 0 \<longleftrightarrow> begins [w] s)"
proof (cases "length w \<le> length s")
  case True
  then show ?thesis
    using cmp_str_short [of "int (length w)" "lit w @ [0]" s] assms by (auto simp: lit_def cut_def begins_def)
next
  case False
  have c: "cmp_str (lit w @ [0]) s (int (length w)) = cmp_scan (lit w @ [0]) s 0 (length w)"
    using assms by (subst cmp_str.simps) simp
  have "(\<forall>j<length s. (lit w @ [0]) ! j = s ! j) \<longleftrightarrow> take (length s) (lit w) = s"
    using False by (auto simp: list_eq_iff_nth_eq nth_append lit_def)
  moreover have "\<not> begins [w] s" using False arg_cong [of "take (length w) s" "lit w" length] by (auto simp: begins_def lit_def)
  moreover have "length (lit w) = length w" by (simp add: lit_def)
  ultimately show ?thesis
    using cmp_scan_behind [of s "length w" "lit w @ [0]" 0] False unfolding c by (simp add: cut_def split: if_splits)
qed

lemma starts_with_any_word:
  assumes "\<forall>w\<in>set ws. length w < 512" and "cut ws s \<longrightarrow> \<not> begins ws s"
  shows "starts_with_any ws s = (if cut ws s then Inl OutOfBounds else Inr (begins ws s))"
  using assms
proof (induction ws)
  case Nil
  then show ?case by (simp add: begins_def cut_def)
next
  case (Cons w ws)
  have p: "cut (w # ws) s \<longleftrightarrow> cut [w] s \<or> cut ws s" "begins (w # ws) s \<longleftrightarrow> begins [w] s \<or> begins ws s"
    by (auto simp: cut_def begins_def)
  show ?case
  proof (cases "cut [w] s")
    case True
    then show ?thesis using cmp_word [of w s] Cons.prems(1) p(1) by simp
  next
    case False
    then obtain v where v: "cmp_str (lit w @ [0]) s (int (length w)) = Inr v" "v = 0 \<longleftrightarrow> begins [w] s"
      using cmp_word [of w s] Cons.prems(1) by auto
    show ?thesis using v Cons p False by (cases "cut ws s") auto
  qed
qed

text \<open>No method is the beginning of another one with its first character.\<close>

lemma methods_differ:
  assumes "method_words c = Some ws" and "w \<in> set ws" and "v \<in> set ws" and "take (length w) (lit v) = lit w"
  shows "length v \<le> length w"
  using assms by (auto simp: method_words_def lit_def chr8_def split: if_splits)

definition cut_method :: "bytes \<Rightarrow> bool" where
  "cut_method s \<longleftrightarrow> s = [] \<or> (\<exists>ws. method_words (s ! 0) = Some ws \<and> cut ws s)"

lemma known_start_cases:
  "known_start s = (if cut_method s then Inl OutOfBounds else Inr (goes_on s))"
proof (cases "s = []")
  case False
  then have r: "rd s 0 = Inr (s ! 0)" by simp
  show ?thesis
  proof (cases "method_words (s ! 0)")
    case None
    then show ?thesis using r False by (simp add: known_start_def cut_method_def goes_on_def)
  next
    case (Some ws)
    have l: "\<forall>w\<in>set ws. length w < 512" using method_words_short [OF Some] by fastforce
    have "\<not> begins ws s" if "cut ws s"
    proof
      assume "begins ws s"
      then obtain w where w: "w \<in> set ws" "take (length w) s = lit w" by (auto simp: begins_def)
      obtain v where v: "v \<in> set ws" "length s < length v" "take (length s) (lit v) = s"
        using \<open>cut ws s\<close> by (auto simp: cut_def)
      have "length w \<le> length s" using arg_cong [OF w(2), of length] by (simp add: lit_def)
      then have "take (length w) (lit v) = lit w"
        using w(2) v(3) by (metis min.absorb1 take_take)
      then have "length v \<le> length w" using methods_differ [OF Some w(1) v(1)] by simp
      then show False using v(2) \<open>length w \<le> length s\<close> by linarith
    qed
    then show ?thesis using Some r False starts_with_any_word [OF l] by (simp add: known_start_def cut_method_def goes_on_def)
  qed
qed (simp add: known_start_def cut_method_def)

lemma first_occ_0: "length sub \<le> n \<Longrightarrow> n \<le> length s \<Longrightarrow> first_occ sub (take n s) = Some 0 \<longleftrightarrow> take (length sub) s = sub"
  by (subst first_occ.simps) (auto simp: min_absorb1 split: list.splits)

text \<open>C34. \<^verbatim>\<open>http_object_parse_data\<close> on a text of any length its argument can have. It reads behind an empty text and behind one that is
  the beginning of a method and ends inside it; it returns an error for a text that the switch refuses, and success for one of at least three bytes that
  begins with an empty line; for every other text its loop does not end.\<close>

theorem http_object_parse_data_returns:
  assumes "length d < 2 ^ 16"
    and "(if unat (ho_buf_sz p) < length d then http_object_reset_buffer p a Null (of_nat (length d)) else Inr (F1G_OK, p)) = Inr (r, q)"
  shows "http_object_parse_data p a d (of_nat (length d)) =
    (if cut_method d then Some (Inl OutOfBounds)
     else if \<not> goes_on d then Some (Inr (F1G_ERR, q))
     else if take 2 d = [13, 10] \<and> 3 \<le> length d then Some (Inr (F1G_OK, q)) else None)"
proof -
  have ut: "unat (of_nat (length d) :: u16) = length d" using assms(1) by (simp add: unat_of_nat)
  have u32: "unat (of_nat (length d) :: u32) = length d" using assms(1) by (simp add: unat_of_nat)
  have up: "(ucast (of_nat (length d) :: u16) :: u32) = of_nat (length d)"
    unfolding word_unat_eq_iff u32 unat_up16 by (rule ut)
  have room: "ho_buf_sz p < (of_nat (length d) :: u32) \<longleftrightarrow> unat (ho_buf_sz p) < length d"
    by (simp add: word_less_nat_alt u32)
  have "uint (of_nat (length d) :: u16) = int (length d)" using ut by (metis uint_nat)
  then have ui: "uint (of_nat (length d) :: u16) - 1 = int (length d) - 1" by simp
  obtain pe where pe: "find_str d (int (length d) - 1) [13, 10] = Inr pe"
    "pe = Some 0 \<longleftrightarrow> take 2 d = [13, 10] \<and> 3 \<le> length d" "\<And>k. pe = Some k \<Longrightarrow> int k \<noteq> int (length d) - 1"
  proof (cases "3 \<le> length d")
    case True
    let ?o = "first_occ [13, 10] (take (length d - 1) d)"
    have "find_str d (int (length d) - 1) [13, 10] = Inr ?o"
      using find_str_first_occ [of "[13, 10]" "int (length d) - 1" d] True by (cases "d = []") (simp_all add: nat_diff_distrib)
    moreover have "?o = Some 0 \<longleftrightarrow> take 2 d = [13, 10]"
      using first_occ_0 [of "[13, 10]" "length d - 1" d] True by (simp add: numeral_2_eq_2)
    moreover have "int k \<noteq> int (length d) - 1" if "?o = Some k" for k
      using first_occ_SomeD [OF that] True by auto
    ultimately show thesis using True by (intro that [of ?o]) simp_all
  next
    case False
    then show thesis using find_str_before_start [of "int (length d) - 1" "[13, 10]" d] by (intro that [of None]) simp_all
  qed
  have not_end: "\<not> (case pe of None \<Rightarrow> False | Some k \<Rightarrow> int k = int (length d) - 1)" using pe(3) by (simp split: option.split)
  show ?thesis
    using assms(2) pe(2) unfolding http_object_parse_data_def ui room known_start_cases pe(1) up
    by (auto simp: wait_loop_returns not_end)
qed

text \<open>The first line of a request, an unknown word, an empty line with a byte behind it and without, and a cut method.\<close>

lemma http_object_parse_data_returns_witness:
  "http_object_parse_data (zero_object\<lparr>ho_buf_sz := 64\<rparr>) None (lit ''GET / HTTP'') 10 = None
   \<and> http_object_parse_data (zero_object\<lparr>ho_buf_sz := 64\<rparr>) None (lit ''GOT / HTTP'') 10 = Some (Inr (F1G_ERR, zero_object\<lparr>ho_buf_sz := 64\<rparr>))
   \<and> http_object_parse_data (zero_object\<lparr>ho_buf_sz := 64\<rparr>) None [13, 10, 65] 3 = Some (Inr (F1G_OK, zero_object\<lparr>ho_buf_sz := 64\<rparr>))
   \<and> http_object_parse_data (zero_object\<lparr>ho_buf_sz := 64\<rparr>) None [13, 10] 2 = None
   \<and> http_object_parse_data (zero_object\<lparr>ho_buf_sz := 64\<rparr>) None (lit ''GE'') 2 = Some (Inl OutOfBounds)"
proof -
  note defs = goes_on_def method_words_def begins_def cut_method_def cut_def lit_def chr8_def
  note t = http_object_parse_data_returns [of _ "zero_object\<lparr>ho_buf_sz := 64\<rparr>" None F1G_OK "zero_object\<lparr>ho_buf_sz := 64\<rparr>"]
  have "goes_on (lit ''GET / HTTP'')" "\<not> goes_on (lit ''GOT / HTTP'')" "goes_on [13, 10, 65]" "goes_on [13, 10]"
    by (simp_all add: defs)
  moreover have "\<not> cut_method (lit ''GET / HTTP'')" "\<not> cut_method (lit ''GOT / HTTP'')" "\<not> cut_method [13, 10, 65]" "\<not> cut_method [13, 10]"
    "cut_method (lit ''GE'')"
    by (simp_all add: defs)
  moreover have "length (lit ''GET / HTTP'') = 10" "length (lit ''GOT / HTTP'') = 10" "length (lit ''GE'') = 2" "take 2 (lit ''GET / HTTP'') \<noteq> [13, 10]"
    by (simp_all add: lit_def chr8_def)
  ultimately show ?thesis
    using t [of "lit ''GET / HTTP''"] t [of "lit ''GOT / HTTP''"] t [of "[13, 10, 65]"] t [of "[13, 10]"] t [of "lit ''GE''"]
    by simp
qed

text \<open>A file that is read whole is never an object: where its first characters are a known method the call does not return, else it
  returns \<open>F1G_OK\<close> and an object without data.\<close>

theorem http_object_parse_file_cases:
  assumes "obj_buf p = Live m" and "length m = unat (ho_buf_sz p)" and "fe_opens e" and "fe_size e = Some (int (length d))"
    and "fe_read e = Some d" and "8 \<le> length d" and "length d \<le> length m"
  shows "http_object_parse_file p e =
    (if goes_on d then None else Some (Inr (F1G_OK, p\<lparr>obj_buf := Live (d @ drop (length d) m), ho_data_len := 0\<rparr>)))"
proof -
  let ?m = "d @ drop (length d) m"
  have "\<not> uint (ho_buf_sz p) < int (length d)" using assms(2,7) by (simp add: uint_nat del: of_nat_less_iff flip: assms(2))
  moreover have "find_str ?m (- 1) [13, 10] = Inr None" by (rule find_str_before_start) simp
  moreover have "known_start ?m = Inr (goes_on d)" using known_start_goes_on [of ?m] goes_on_append assms(6) by simp
  moreover have "length d > 0" using assms(6) by linarith
  ultimately show ?thesis
    using assms by (simp add: http_object_parse_file_def http_object_parse_data_def wait_loop_returns)
qed

lemma http_object_parse_file_cases_witness:
  "http_object_parse_file (zero_object\<lparr>obj_buf := Live (replicate 64 0), ho_buf_sz := 64\<rparr>)
     \<lparr>fe_opens = True, fe_size = Some 10, fe_alloc = None, fe_read = Some (lit ''GET / HTTP'')\<rparr> = None"
proof -
  have "goes_on (lit ''GET / HTTP'')" by (simp add: goes_on_def method_words_def begins_def lit_def chr8_def)
  moreover have "length (lit ''GET / HTTP'') = 10" by (simp add: lit_def)
  ultimately show ?thesis
    using http_object_parse_file_cases [of "zero_object\<lparr>obj_buf := Live (replicate 64 0), ho_buf_sz := 64\<rparr>" "replicate 64 0"
        "\<lparr>fe_opens = True, fe_size = Some 10, fe_alloc = None, fe_read = Some (lit ''GET / HTTP'')\<rparr>" "lit ''GET / HTTP''"]
    by simp
qed

end
