(* ===== verification/Eth_Scrapy.thy ===== *)
theory Eth_Scrapy
  imports Prelude
begin

text \<open>
  The packet capture of \<^verbatim>\<open>src/f1g_eth_scrapy.c\<close>: a global flag, a global handle of the capture library and the
  threads that \<^verbatim>\<open>eth_scrapy_start\<close> creates, interleaved with the calls of the program at every access to
  a global. The capture library is known by which handles it has open: using one that was closed is a use after free,
  and a null handle or a null callback a null dereference.
\<close>

section \<open>The state\<close>

definition SCRAPY_INIT :: int where "SCRAPY_INIT = 0"
definition SCRAPY_RUNNING :: int where "SCRAPY_RUNNING = 1"
definition SCRAPY_OFF :: int where "SCRAPY_OFF = 2"
definition SCRAPY_CARD :: int where "SCRAPY_CARD = 0"
definition SCRAPY_FILE :: int where "SCRAPY_FILE = 1"
definition ETH_SCRAPY_START :: int where "ETH_SCRAPY_START = 1"
definition ETH_SCRAPY_STOP :: int where "ETH_SCRAPY_STOP = 2"
definition ETH_SCRAPY_STATUS :: int where "ETH_SCRAPY_STATUS = 3"

text \<open>Where a capture thread is: before it stores the flag, before the test of the loop, before the call of
  \<^verbatim>\<open>pcap_dispatch\<close>, in it with the handle and the callback it was given, before it stores the flag for the last time, and
  ended.\<close>

datatype cap_pc = Enter | Check | Call | Within nat "nat option" | Leave | Gone

record capture =
  run_flag :: int
  sg_scraper :: "nat option"
  sg_handler :: "nat option"
  open_caps :: "nat list"
  cap_threads :: "cap_pc list"

text \<open>What the capture library answers: the handle that opening gives, and whether the other calls succeed. Three of the calls
  also get \<^verbatim>\<open>errbuf\<close>: \<open>pe_lookupnet_err\<close>, \<open>pe_open_err\<close> and \<open>pe_setnonblock_err\<close> are the bytes they store there, from its first byte on.
  The library may store up to 256 (its \<^verbatim>\<open>PCAP_ERRBUF_SIZE\<close>), with a warning also where the call succeeds.\<close>

record pcap_env =
  pe_lookupnet :: bool
  pe_lookupnet_err :: bytes
  pe_open :: "nat option"
  pe_open_err :: bytes
  pe_setnonblock :: bool
  pe_setnonblock_err :: bytes
  pe_compile :: bool
  pe_setfilter :: bool

section \<open>The operations\<close>

definition pcap_close :: "nat option \<Rightarrow> capture \<Rightarrow> capture run" where
  "pcap_close p s =
     (case p of
        None \<Rightarrow> Inl NullDeref
      | Some h \<Rightarrow> if h \<in> set (open_caps s) then Inr (s\<lparr>open_caps := removeAll h (open_caps s)\<rparr>) else Inl UseAfterFree)"

definition close_and_fail :: "capture \<Rightarrow> (int \<times> capture) run" where
  "close_and_fail s = bindR (pcap_close (sg_scraper s) s) (\<lambda>s. Inr (- 1, s\<lparr>sg_scraper := None\<rparr>))"

text \<open>A call of the library stores \<open>t\<close> in \<^verbatim>\<open>errbuf\<close>, an array of 128 bytes of which nothing is read but a message that is printed.\<close>

definition store_err :: "bytes \<Rightarrow> unit run" where
  "store_err t = bindR (put (replicate 128 0) 0 t) (\<lambda>_. Inr ())"

definition eth_scrapy_init :: "pcap_env \<Rightarrow> int \<Rightarrow> capture \<Rightarrow> (int \<times> capture) run" where
  "eth_scrapy_init e typ s =
     (if typ \<noteq> SCRAPY_CARD \<and> typ \<noteq> SCRAPY_FILE then Inr (- 1, s)
      else
        bindR (if typ = SCRAPY_CARD then store_err (pe_lookupnet_err e) else Inr ()) (\<lambda>_.
        if typ = SCRAPY_CARD \<and> \<not> pe_lookupnet e then Inr (- 1, s)
        else
          bindR (store_err (pe_open_err e)) (\<lambda>_.
          case pe_open e of
            None \<Rightarrow> Inr (- 1, s\<lparr>sg_scraper := None\<rparr>)
          | Some h \<Rightarrow>
              let s = s\<lparr>sg_scraper := Some h, open_caps := h # open_caps s\<rparr> in
              bindR (store_err (pe_setnonblock_err e)) (\<lambda>_.
              if \<not> pe_setnonblock e then close_and_fail s
              else if \<not> pe_compile e then close_and_fail s
              else if \<not> pe_setfilter e then close_and_fail s
              else Inr (0, s\<lparr>run_flag := SCRAPY_INIT\<rparr>)))))"

definition eth_scrapy_reg :: "nat option \<Rightarrow> capture \<Rightarrow> int \<times> capture" where
  "eth_scrapy_reg f s = (0, s\<lparr>sg_handler := f\<rparr>)"

text \<open>\<open>ok\<close> is the outcome of \<^verbatim>\<open>pthread_create\<close>.\<close>

definition eth_scrapy_start :: "bool \<Rightarrow> capture \<Rightarrow> int \<times> capture" where
  "eth_scrapy_start ok s = (if ok then (0, s\<lparr>cap_threads := cap_threads s @ [Enter]\<rparr>) else (- 1, s))"

definition eth_scrapy_control :: "int \<Rightarrow> capture \<Rightarrow> int \<times> capture" where
  "eth_scrapy_control code s =
     (if code = ETH_SCRAPY_STOP then (0, s\<lparr>run_flag := SCRAPY_OFF\<rparr>)
      else if code = ETH_SCRAPY_START then (0, s\<lparr>run_flag := SCRAPY_RUNNING\<rparr>)
      else if code = ETH_SCRAPY_STATUS then (run_flag s, s)
      else (0, s))"

definition eth_scrapy_destroy :: "capture \<Rightarrow> (int \<times> capture) run" where
  "eth_scrapy_destroy s = bindR (pcap_close (sg_scraper s) s) (\<lambda>s. Inr (0, s\<lparr>sg_scraper := None\<rparr>))"

text \<open>The next step of thread \<open>i\<close>; \<open>r\<close> is what \<^verbatim>\<open>pcap_dispatch\<close> returns, the number of packets it handed to the callback or
  \<open>-1\<close>.\<close>

definition eth_scrapy_callback :: "nat \<Rightarrow> int \<Rightarrow> capture \<Rightarrow> capture run" where
  "eth_scrapy_callback i r s =
     (let at = (\<lambda>s c. s\<lparr>cap_threads := (cap_threads s)[i := c]\<rparr>) in
      case cap_threads s ! i of
        Enter \<Rightarrow> Inr (at (s\<lparr>run_flag := SCRAPY_RUNNING\<rparr>) Check)
      | Check \<Rightarrow> Inr (at s (if 1 = run_flag s then Call else Leave))
      | Call \<Rightarrow> (case sg_scraper s of None \<Rightarrow> Inl NullDeref | Some h \<Rightarrow> Inr (at s (Within h (sg_handler s))))
      | Within h f \<Rightarrow>
          if h \<notin> set (open_caps s) then Inl UseAfterFree
          else if r > 0 \<and> f = None then Inl NullDeref
          else Inr (at s (if r = - 1 then Leave else Check))
      | Leave \<Rightarrow> Inr (at (s\<lparr>run_flag := SCRAPY_OFF\<rparr>) Gone)
      | Gone \<Rightarrow> Inr s)"

section \<open>Schedules\<close>

text \<open>The steps of threads in the order of a schedule.\<close>

fun run_threads :: "(nat \<times> int) list \<Rightarrow> capture \<Rightarrow> capture run" where
  "run_threads [] s = Inr s"
| "run_threads ((i, r) # xs) s =
     (if i < length (cap_threads s) then bindR (eth_scrapy_callback i r s) (run_threads xs) else run_threads xs s)"

definition turns :: "nat \<Rightarrow> (nat \<times> int) list \<Rightarrow> nat" where
  "turns i xs = length (filter (\<lambda>x. fst x = i) xs)"

text \<open>The handle is open and the callback set, for the program and in every call under way.\<close>

definition capture_ready :: "capture \<Rightarrow> bool" where
  "capture_ready s \<longleftrightarrow> (\<exists>h. sg_scraper s = Some h \<and> h \<in> set (open_caps s)) \<and> sg_handler s \<noteq> None
     \<and> (\<forall>h f. Within h f \<in> set (cap_threads s) \<longrightarrow> h \<in> set (open_caps s) \<and> f \<noteq> None)"

text \<open>The steps a thread has left once the flag says that it is to end.\<close>

fun steps_left :: "cap_pc \<Rightarrow> nat" where
  "steps_left Call = 4"
| "steps_left (Within h f) = 3"
| "steps_left Check = 2"
| "steps_left Leave = 1"
| "steps_left Gone = 0"
| "steps_left Enter = 5"

lemma in_updateD: "x \<in> set (xs[i := y]) \<Longrightarrow> x = y \<or> x \<in> set xs"
  using set_update_subset_insert [of xs i y] by blast

text \<open>A thread goes to a place where it is not within a call, or is within one with the open handle.\<close>

lemma ready_at:
  assumes "capture_ready s" and "\<And>h f. c = Within h f \<Longrightarrow> h \<in> set (open_caps s) \<and> f \<noteq> None"
  shows "capture_ready (s\<lparr>cap_threads := (cap_threads s)[i := c]\<rparr>)"
    and "capture_ready (s\<lparr>run_flag := v, cap_threads := (cap_threads s)[i := c]\<rparr>)"
  using assms by (auto simp: capture_ready_def dest!: in_updateD)

lemma ready_outside:
  assumes "capture_ready s"
  shows "capture_ready (s\<lparr>cap_threads := (cap_threads s)[i := Check]\<rparr>)" "capture_ready (s\<lparr>cap_threads := (cap_threads s)[i := Call]\<rparr>)"
    "capture_ready (s\<lparr>cap_threads := (cap_threads s)[i := Leave]\<rparr>)" "capture_ready (s\<lparr>run_flag := v, cap_threads := (cap_threads s)[i := Check]\<rparr>)"
    "capture_ready (s\<lparr>run_flag := v, cap_threads := (cap_threads s)[i := Gone]\<rparr>)"
  by (rule ready_at [OF assms]; simp)+

lemma ready_step:
  assumes "capture_ready s" and "i < length (cap_threads s)"
  shows "\<exists>s'. eth_scrapy_callback i r s = Inr s' \<and> capture_ready s' \<and> length (cap_threads s') = length (cap_threads s)"
proof (cases "cap_threads s ! i")
  case Call
  obtain h f where "sg_scraper s = Some h" "h \<in> set (open_caps s)" "sg_handler s = Some f" using assms(1) by (auto simp: capture_ready_def)
  then show ?thesis using Call ready_at(1) [OF assms(1), of "Within h (Some f)"] by (simp add: eth_scrapy_callback_def)
next
  case (Within h f)
  then have "Within h f \<in> set (cap_threads s)" using assms(2) by (metis nth_mem)
  then have "h \<in> set (open_caps s)" "f \<noteq> None" using assms(1) by (auto simp: capture_ready_def)
  then show ?thesis using Within ready_outside [OF assms(1)] by (simp add: eth_scrapy_callback_def)
qed (use ready_outside [OF assms(1)] in \<open>simp_all add: eth_scrapy_callback_def assms(1)\<close>)

lemma stopping_step:
  assumes "eth_scrapy_callback i r s = Inr s'" and "i < length (cap_threads s)" and "run_flag s \<noteq> SCRAPY_RUNNING"
    and "Enter \<notin> set (cap_threads s)"
  shows "run_flag s' \<noteq> SCRAPY_RUNNING" and "Enter \<notin> set (cap_threads s')"
    and "steps_left (cap_threads s' ! i) \<le> steps_left (cap_threads s ! i) - 1"
    and "j \<noteq> i \<Longrightarrow> cap_threads s' ! j = cap_threads s ! j"
proof -
  have "cap_threads s ! i \<noteq> Enter" using assms(2,4) by (metis nth_mem)
  then show "run_flag s' \<noteq> SCRAPY_RUNNING" "Enter \<notin> set (cap_threads s')"
    "steps_left (cap_threads s' ! i) \<le> steps_left (cap_threads s ! i) - 1" "j \<noteq> i \<Longrightarrow> cap_threads s' ! j = cap_threads s ! j"
    using assms
    by (auto simp: eth_scrapy_callback_def Let_def SCRAPY_RUNNING_def SCRAPY_OFF_def
        split: cap_pc.splits option.splits if_splits dest!: in_updateD)
qed

lemma stopping_run:
  assumes "capture_ready s" and "run_flag s \<noteq> SCRAPY_RUNNING" and "Enter \<notin> set (cap_threads s)"
  shows "\<exists>s'. run_threads xs s = Inr s' \<and> run_flag s' \<noteq> SCRAPY_RUNNING
    \<and> (\<forall>i<length (cap_threads s). steps_left (cap_threads s' ! i) \<le> steps_left (cap_threads s ! i) - turns i xs)"
  using assms
proof (induction xs arbitrary: s)
  case Nil
  then show ?case by (simp add: turns_def)
next
  case (Cons x xs)
  obtain i r where x: "x = (i, r)" by (cases x)
  show ?case
  proof (cases "i < length (cap_threads s)")
    case False
    then have "turns j (x # xs) = turns j xs" if "j < length (cap_threads s)" for j using that by (auto simp: turns_def x)
    then show ?thesis using Cons.IH [OF Cons.prems] False by (simp add: x)
  next
    case True
    obtain s1 where s1: "eth_scrapy_callback i r s = Inr s1" "capture_ready s1" "length (cap_threads s1) = length (cap_threads s)"
      using ready_step [OF Cons.prems(1) True] by blast
    note st = stopping_step [OF s1(1) True Cons.prems(2,3)]
    obtain s' where s': "run_threads xs s1 = Inr s'" "run_flag s' \<noteq> SCRAPY_RUNNING"
      "\<forall>j<length (cap_threads s1). steps_left (cap_threads s' ! j) \<le> steps_left (cap_threads s1 ! j) - turns j xs"
      using Cons.IH [OF s1(2) st(1,2)] by blast
    have "steps_left (cap_threads s' ! j) \<le> steps_left (cap_threads s ! j) - turns j (x # xs)" if "j < length (cap_threads s)" for j
    proof -
      have "steps_left (cap_threads s' ! j) \<le> steps_left (cap_threads s1 ! j) - turns j xs" using s'(3) s1(3) that by simp
      then show ?thesis using st(3) st(4) [of j] by (cases "j = i") (auto simp: turns_def x)
    qed
    then show ?thesis using True s1(1) s'(1,2) by (auto simp: x)
  qed
qed

section \<open>Properties\<close>

text \<open>C26. Stopping. Once the flag is not \<open>SCRAPY_RUNNING\<close> and every thread has begun, no schedule of the threads faults, none
  sets the flag again, and a thread that gets four steps has ended, after at most one more call of the capture library.\<close>

theorem stopped_capture_ends:
  assumes "capture_ready s" and "Enter \<notin> set (cap_threads s)"
  shows "\<exists>s'. run_threads xs (snd (eth_scrapy_control ETH_SCRAPY_STOP s)) = Inr s'
    \<and> fst (eth_scrapy_control ETH_SCRAPY_STATUS s') \<noteq> SCRAPY_RUNNING
    \<and> (\<forall>i<length (cap_threads s). 4 \<le> turns i xs \<longrightarrow> cap_threads s' ! i = Gone)"
proof -
  let ?s = "s\<lparr>run_flag := SCRAPY_OFF\<rparr>"
  have "capture_ready ?s" "run_flag ?s \<noteq> SCRAPY_RUNNING" "Enter \<notin> set (cap_threads ?s)"
    using assms by (simp_all add: capture_ready_def SCRAPY_OFF_def SCRAPY_RUNNING_def)
  from stopping_run [OF this, of xs] obtain s' where s': "run_threads xs ?s = Inr s'" "run_flag s' \<noteq> SCRAPY_RUNNING"
    "\<forall>i<length (cap_threads s). steps_left (cap_threads s' ! i) \<le> steps_left (cap_threads s ! i) - turns i xs"
    by auto
  have "cap_threads s' ! i = Gone" if "i < length (cap_threads s)" "4 \<le> turns i xs" for i
  proof -
    have "cap_threads s ! i \<noteq> Enter" using assms(2) that(1) by (metis nth_mem)
    then have "steps_left (cap_threads s ! i) \<le> 4" by (cases "cap_threads s ! i") simp_all
    then have "steps_left (cap_threads s' ! i) = 0" using s'(3) that by fastforce
    then show ?thesis by (cases "cap_threads s' ! i") simp_all
  qed
  then show ?thesis
    using s'(1,2) by (auto simp: eth_scrapy_control_def ETH_SCRAPY_STOP_def ETH_SCRAPY_START_def ETH_SCRAPY_STATUS_def)
qed

definition one_thread :: "cap_pc \<Rightarrow> capture" where
  "one_thread c = \<lparr>run_flag = 1, sg_scraper = Some 5, sg_handler = Some 9, open_caps = [5], cap_threads = [c]\<rparr>"

lemma one_thread_ready: "\<forall>h f. c \<noteq> Within h f \<Longrightarrow> capture_ready (one_thread c)"
  by (auto simp: one_thread_def capture_ready_def)

lemma stopped_capture_ends_witness:
  "\<exists>s'. run_threads [(0, 0), (0, 3), (0, 0), (0, 0)] (snd (eth_scrapy_control ETH_SCRAPY_STOP (one_thread Call))) = Inr s' \<and> cap_threads s' ! 0 = Gone"
  using stopped_capture_ends [OF one_thread_ready [of Call], of "[(0, 0), (0, 3), (0, 0), (0, 0)]"]
  by (auto simp: one_thread_def turns_def)

text \<open>A stop that comes before a new thread has begun is lost: the thread stores \<open>SCRAPY_RUNNING\<close> over it and goes on, however
  many rounds it is given.\<close>

theorem early_stop_is_lost:
  assumes "capture_ready s" and "i < length (cap_threads s)" and "cap_threads s ! i = Enter"
  shows "\<exists>s'. run_threads ((i, 0) # concat (replicate n [(i, 0), (i, 0), (i, 0)])) (snd (eth_scrapy_control ETH_SCRAPY_STOP s)) = Inr s'
    \<and> fst (eth_scrapy_control ETH_SCRAPY_STATUS s') = SCRAPY_RUNNING \<and> cap_threads s' ! i = Check"
proof -
  obtain h f where hf: "sg_scraper s = Some h" "h \<in> set (open_caps s)" "sg_handler s = Some f" using assms(1) by (auto simp: capture_ready_def)
  let ?s = "s\<lparr>run_flag := SCRAPY_RUNNING, cap_threads := (cap_threads s)[i := Check]\<rparr>"
  have round: "run_threads ([(i, 0), (i, 0), (i, 0)] @ xs) ?s = run_threads xs ?s" for xs
    using assms(2) hf by (simp add: eth_scrapy_callback_def SCRAPY_RUNNING_def)
  have "run_threads (concat (replicate n [(i, 0), (i, 0), (i, 0)])) ?s = Inr ?s" for n
  proof (induction n)
    case (Suc n)
    then show ?case using round [of "concat (replicate n [(i, 0), (i, 0), (i, 0)])"] by (simp del: run_threads.simps)
  qed simp
  moreover have "eth_scrapy_callback i 0 (snd (eth_scrapy_control ETH_SCRAPY_STOP s)) = Inr ?s"
    using assms(3) by (simp add: eth_scrapy_callback_def eth_scrapy_control_def)
  ultimately show ?thesis
    using assms(2) by (auto simp: eth_scrapy_control_def ETH_SCRAPY_STOP_def ETH_SCRAPY_START_def ETH_SCRAPY_STATUS_def)
qed

lemma early_stop_is_lost_witness:
  "\<exists>s'. run_threads ((0, 0) # concat (replicate 100 [(0, 0), (0, 0), (0, 0)])) (snd (eth_scrapy_control ETH_SCRAPY_STOP (one_thread Enter))) = Inr s'
    \<and> cap_threads s' ! 0 = Check"
  using early_stop_is_lost [OF one_thread_ready [of Enter], of 0 100] by (auto simp: one_thread_def)

text \<open>\<^verbatim>\<open>eth_scrapy_destroy\<close> does not wait for the threads: behind a stop it closes the handle under a thread that is in
  \<^verbatim>\<open>pcap_dispatch\<close>, and a thread that has tested the flag before calls it with a null handle.\<close>

theorem destroy_under_capture:
  assumes "sg_scraper s = Some h" and "h \<in> set (open_caps s)" and "i < length (cap_threads s)"
  shows "\<exists>s'. eth_scrapy_destroy (snd (eth_scrapy_control ETH_SCRAPY_STOP s)) = Inr (0, s')
    \<and> (cap_threads s ! i = Within h f \<longrightarrow> eth_scrapy_callback i r s' = Inl UseAfterFree)
    \<and> (cap_threads s ! i = Call \<longrightarrow> eth_scrapy_callback i r s' = Inl NullDeref)"
  using assms by (simp add: eth_scrapy_destroy_def eth_scrapy_control_def pcap_close_def eth_scrapy_callback_def)

lemma destroy_under_capture_witness:
  "\<exists>s'. eth_scrapy_destroy (snd (eth_scrapy_control ETH_SCRAPY_STOP (one_thread (Within 5 (Some 9))))) = Inr (0, s')
    \<and> eth_scrapy_callback 0 2 s' = Inl UseAfterFree"
  using destroy_under_capture [of "one_thread (Within 5 (Some 9))" 5 0 "Some 9" 2] by (simp add: one_thread_def)

text \<open>What the calls that are reached store in \<^verbatim>\<open>errbuf\<close>.\<close>

definition init_messages :: "pcap_env \<Rightarrow> int \<Rightarrow> bytes list" where
  "init_messages e typ =
     (if typ \<noteq> SCRAPY_CARD \<and> typ \<noteq> SCRAPY_FILE then []
      else (if typ = SCRAPY_CARD then [pe_lookupnet_err e] else [])
        @ (if typ = SCRAPY_CARD \<and> \<not> pe_lookupnet e then []
           else pe_open_err e # (if pe_open e = None then [] else [pe_setnonblock_err e])))"

lemma store_err_cases: "store_err t = (if length t \<le> 128 then Inr () else Inl OutOfBounds)"
  by (simp add: store_err_def)

lemma card_is_not_file [simp]: "SCRAPY_CARD \<noteq> SCRAPY_FILE" "SCRAPY_FILE \<noteq> SCRAPY_CARD"
  by (simp_all add: SCRAPY_CARD_def SCRAPY_FILE_def)

text \<open>\<^verbatim>\<open>eth_scrapy_init\<close> on every branch: it fails without leaving a handle open and without touching the flag, or it
  makes a new handle the one in use; a handle it had before stays open. Where a call of the library stores more than the 128
  bytes of \<^verbatim>\<open>errbuf\<close>, as it may, it writes behind the array.\<close>

theorem eth_scrapy_init_cases:
  assumes "\<forall>h. pe_open e = Some h \<longrightarrow> h \<notin> set (open_caps s)"
  shows "if \<forall>t\<in>set (init_messages e typ). length t \<le> 128
    then \<exists>r s'. eth_scrapy_init e typ s = Inr (r, s') \<and> cap_threads s' = cap_threads s \<and> sg_handler s' = sg_handler s \<and>
      (if (typ = SCRAPY_CARD \<and> pe_lookupnet e \<or> typ = SCRAPY_FILE) \<and> pe_open e \<noteq> None \<and> pe_setnonblock e \<and> pe_compile e \<and> pe_setfilter e
       then r = 0 \<and> sg_scraper s' = pe_open e \<and> open_caps s' = the (pe_open e) # open_caps s \<and> run_flag s' = SCRAPY_INIT
       else r = - 1 \<and> open_caps s' = open_caps s \<and> run_flag s' = run_flag s \<and> sg_scraper s' \<in> {None, sg_scraper s})
    else eth_scrapy_init e typ s = Inl OutOfBounds"
proof (cases "pe_open e")
  case None
  then show ?thesis by (simp add: eth_scrapy_init_def init_messages_def store_err_cases)
next
  case (Some h)
  then have "h \<notin> set (open_caps s)" using assms by simp
  then show ?thesis
    using Some by (simp add: eth_scrapy_init_def close_and_fail_def pcap_close_def init_messages_def store_err_cases Let_def)
qed

lemma eth_scrapy_init_cases_witness:
  "(\<exists>s'. eth_scrapy_init \<lparr>pe_lookupnet = True, pe_lookupnet_err = [], pe_open = Some 6, pe_open_err = [0], pe_setnonblock = True, pe_setnonblock_err = [],
        pe_compile = False, pe_setfilter = True\<rparr> SCRAPY_FILE (one_thread Gone) = Inr (- 1, s') \<and> open_caps s' = [5])
    \<and> eth_scrapy_init \<lparr>pe_lookupnet = False, pe_lookupnet_err = replicate 150 0x2E @ [0], pe_open = None, pe_open_err = [], pe_setnonblock = True,
        pe_setnonblock_err = [], pe_compile = False, pe_setfilter = True\<rparr> SCRAPY_CARD (one_thread Gone) = Inl OutOfBounds"
  using eth_scrapy_init_cases
      [of "\<lparr>pe_lookupnet = True, pe_lookupnet_err = [], pe_open = Some 6, pe_open_err = [0], pe_setnonblock = True, pe_setnonblock_err = [],
        pe_compile = False, pe_setfilter = True\<rparr>" "one_thread Gone" SCRAPY_FILE]
    eth_scrapy_init_cases
      [of "\<lparr>pe_lookupnet = False, pe_lookupnet_err = replicate 150 0x2E @ [0], pe_open = None, pe_open_err = [], pe_setnonblock = True,
        pe_setnonblock_err = [], pe_compile = False, pe_setfilter = True\<rparr>" "one_thread Gone" SCRAPY_CARD]
  by (auto simp: one_thread_def init_messages_def)

end
