(* ===== verification/Udp.thy ===== *)
theory Udp
  imports Prelude
begin

text \<open>
  The datagram object of \<^verbatim>\<open>src/f1g_udp.c\<close>. The descriptor that \<^verbatim>\<open>socket\<close> gives, \<open>-1\<close> where it fails, is an
  argument, and so is what the memory of a new object holds.
\<close>

record udp_object =
  udp_fd :: int
  udp_ip :: bytes
  udp_port :: u16

definition udp_object_init :: "int \<Rightarrow> bytes \<Rightarrow> u16 \<Rightarrow> udp_object \<Rightarrow> int \<times> udp_object" where
  "udp_object_init sock ip port p =
     (let p = p\<lparr>udp_fd := sock\<rparr> in if - 1 = udp_fd p then (F1G_ERR, p) else (F1G_OK, p))"

definition udp_object_create :: "udp_object option \<Rightarrow> int \<Rightarrow> bytes \<Rightarrow> u16 \<Rightarrow> udp_object option" where
  "udp_object_create mem sock ip port =
     (case mem of
        None \<Rightarrow> None
      | Some p \<Rightarrow> let (r, p) = udp_object_init sock ip port p in if F1G_OK \<noteq> r then None else Some p)"

text \<open>An object holds the descriptor; its address and port are those the memory happened to hold, whatever the call was given.\<close>

lemma udp_address_not_stored:
  "udp_object_create mem sock ip port = Some p \<longleftrightarrow> sock \<noteq> - 1 \<and> (\<exists>q. mem = Some q \<and> p = q\<lparr>udp_fd := sock\<rparr>)"
  by (auto simp: udp_object_create_def udp_object_init_def Let_def split: option.splits if_splits)

end
