(* ===== verification/Pk_Sender.thy ===== *)
theory Pk_Sender
  imports Net_Forge Http Numbers
begin

text \<open>
  The packet sender \<^verbatim>\<open>tools/pksender_v2.c\<close>, without its file (Pk_Hosts) and its main function (Pk_Run): for every
  host of a list a TCP packet is built in a static buffer, with a time stamp or an HTTP request as its load, and sent on a raw
  socket. Its checksum is a copy of that of \<^verbatim>\<open>f1g_net_forge.c\<close>; the HTTP request is made with the object of Http.
\<close>

section \<open>Headers\<close>

text \<open>\<^verbatim>\<open>strcat\<close> onto the string in a block.\<close>

definition strcat :: "bytes \<Rightarrow> bytes \<Rightarrow> bytes run" where
  "strcat m t = bindR (cstr m) (\<lambda>s. put m (length s) (t @ [0]))"

lemma strcat_at:
  assumes "0 \<notin> set s" and "length t \<le> length z"
  shows "strcat (s @ 0 # z) t = Inr (s @ t @ 0 # drop (length t) z)"
  using assms by (simp add: strcat_def cstr_at drop_Suc)

lemma strcat_full: "0 \<notin> set s \<Longrightarrow> length z < length t \<Longrightarrow> strcat (s @ 0 # z) t = Inl OutOfBounds"
  by (simp add: strcat_def cstr_at)

text \<open>The same statements as in \<^verbatim>\<open>f1g_net_forge.c\<close>.\<close>

definition pk_chk_sum :: "bytes option \<Rightarrow> u16 \<Rightarrow> u16 run" where
  "pk_chk_sum addr len = chk_sum addr len"

text \<open>The struct has 12 bytes: its length field has 16 bits.\<close>

definition pk_psuedo_hdr :: "u8 \<Rightarrow> u16 \<Rightarrow> u32 \<Rightarrow> u32 \<Rightarrow> bytes" where
  "pk_psuedo_hdr proto len src_ip dst_ip = le32 src_ip @ le32 dst_ip @ [0, proto] @ le16 (htons len)"

definition pk_tcp_chk_sum :: "u8 \<Rightarrow> bytes \<Rightarrow> u16 \<Rightarrow> u32 \<Rightarrow> u32 \<Rightarrow> u16 run" where
  "pk_tcp_chk_sum proto packet len src_ip dst_ip =
     bindR (pk_chk_sum (Some (pk_psuedo_hdr proto len src_ip dst_ip)) 12) (\<lambda>a.
     bindR (pk_chk_sum (Some packet) len) (\<lambda>b.
       Inr (word_of_int (- fold_carry (uint a + uint b) - 1))))"

definition pk_ip_hdr :: "u16 \<Rightarrow> u32 \<Rightarrow> u32 \<Rightarrow> u16 \<Rightarrow> u16 \<Rightarrow> bytes" where
  "pk_ip_hdr pid src_ip dst_ip len check =
     [0x45, 0] @ le16 (htons len) @ le16 (htons pid) @ [0, 0] @ [255, 6] @ le16 check @ le32 src_ip @ le32 dst_ip"

definition create_ip_hdr :: "bytes \<Rightarrow> u16 \<Rightarrow> u32 \<Rightarrow> u32 \<Rightarrow> int \<Rightarrow> bytes run" where
  "create_ip_hdr buf pid src_ip dst_ip len =
     bindR (put buf 0 (pk_ip_hdr pid src_ip dst_ip (word_of_int len) 0)) (\<lambda>m.
     bindR (pk_chk_sum (Some m) 20) (\<lambda>c.
       put m 0 (pk_ip_hdr pid src_ip dst_ip (word_of_int len) c)))"

text \<open>Sequence numbers zero, five words, the flags FIN, PSH and ACK, window 1024.\<close>

definition create_tcp_hdr :: "u16 \<Rightarrow> u16 \<Rightarrow> u16 \<Rightarrow> bytes" where
  "create_tcp_hdr src_port dst_port check =
     le16 src_port @ le16 dst_port @ le32 0 @ le32 0 @ [0x50, 0x19] @ le16 (htons 1024) @ le16 check @ [0, 0]"

section \<open>The packet of a host\<close>

text \<open>The strings are the memory of their arrays, the ports in the order of the machine.\<close>

record webhost_info =
  wh_type :: int
  wh_src_ip :: bytes
  wh_src_port :: u16
  wh_dst_ip :: bytes
  wh_dst_port :: u16
  wh_host :: bytes
  wh_path :: bytes
  wh_ua :: bytes
  wh_cookie :: bytes

text \<open>What lives across the rounds of the loop: the static buffers of 2048 and 128 bytes, the HTTP object, and
  \<^verbatim>\<open>load_size\<close>, which has no initial value.\<close>

record sender =
  g_buf :: bytes
  req_line :: bytes
  p_ho :: "http_object option"
  load_size :: "int option"

definition time_load :: "timeval \<Rightarrow> bytes" where
  "time_load tv = lit ''&timestamp='' @ int_text (tv_sec tv) @ lit ''.'' @ int_text (tv_usec tv) @ lit '';''"

text \<open>A header of the object from a string in memory; the result of the call is not looked at.\<close>

definition add_string :: "u8 \<Rightarrow> bytes \<Rightarrow> http_object \<Rightarrow> http_object run" where
  "add_string id0 m p =
     bindR (cstr m) (\<lambda>t. bindR (http_object_add_header p id0 m (of_nat (length t))) (\<lambda>(_, p'). Inr p'))"

definition build_req_line :: "bytes \<Rightarrow> bytes \<Rightarrow> bytes run" where
  "build_req_line r path =
     bindR (wr r 0 0) (\<lambda>r0.
     bindR (strcat r0 (lit ''GET '')) (\<lambda>r1.
     bindR (cstr path) (\<lambda>t.
     bindR (strcat r1 t) (\<lambda>r2. strcat r2 (lit '' HTTP/1.1'')))))"

definition http_load :: "sender \<Rightarrow> http_object \<Rightarrow> webhost_info \<Rightarrow> sender run" where
  "http_load s p w =
     bindR (build_req_line (req_line s) (wh_path w)) (\<lambda>r3.
     bindR (add_string 8 r3 p) (\<lambda>p1.
     bindR (add_string 3 (wh_host w) p1) (\<lambda>p2.
     bindR (add_string 6 (wh_cookie w) p2) (\<lambda>p3.
     bindR (add_string 4 (wh_ua w) p3) (\<lambda>p4.
     bindR (http_object_add_header p4 7 [0] 0) (\<lambda>(_, p5).
     bindR (deref (obj_buf p5)) (\<lambda>m.
     bindR (slice m 0 (uint (ho_data_len p5))) (\<lambda>d.
     bindR (put (g_buf s) 40 d) (\<lambda>g.
       Inr (s\<lparr>g_buf := g, req_line := r3, p_ho := Some p5, load_size := Some (uint (ho_data_len p5))\<rparr>))))))))))"

text \<open>The checksum of TCP, the IP header and the bytes to send, when the load is in the buffer.\<close>

definition finish_packet :: "u16 \<Rightarrow> u32 \<Rightarrow> u32 \<Rightarrow> webhost_info \<Rightarrow> sender \<Rightarrow> int \<Rightarrow> (bytes option \<times> sender) run" where
  "finish_packet pid src_ip dst_ip w s data_len =
     (case load_size s of
        None \<Rightarrow> Inl Uninit
      | Some load \<Rightarrow>
          bindR (pk_tcp_chk_sum 6 (drop 20 (g_buf s)) (word_of_int (20 + load)) src_ip dst_ip) (\<lambda>c.
          bindR (put (g_buf s) 20 (create_tcp_hdr (htons (wh_src_port w)) (htons (wh_dst_port w)) c)) (\<lambda>g1.
          bindR (create_ip_hdr g1 pid src_ip dst_ip data_len) (\<lambda>g2.
          bindR (slice g2 0 data_len) (\<lambda>packet.
            Inr (Some packet, s\<lparr>g_buf := g2\<rparr>))))))"

text \<open>The packet for hosts with proper addresses.\<close>

definition fill_packet :: "u16 \<Rightarrow> timeval \<Rightarrow> u32 \<Rightarrow> u32 \<Rightarrow> sender \<Rightarrow> http_object \<Rightarrow> webhost_info \<Rightarrow> (bytes option \<times> sender) run" where
  "fill_packet pid tv src_ip dst_ip s p w =
     bindR (put (g_buf s) 20 (create_tcp_hdr (htons (wh_src_port w)) (htons (wh_dst_port w)) 0)) (\<lambda>g0.
     let s1 = s\<lparr>g_buf := g0\<rparr> in
     bindR (if wh_type w = 0 then
              bindR (put (g_buf s1) 40 (time_load tv @ [0])) (\<lambda>g. Inr (s1\<lparr>g_buf := g, load_size := Some 32\<rparr>, 40 + 32))
            else if wh_type w = 1 then bindR (http_load s1 p w) (\<lambda>s2. Inr (s2, 40 + the (load_size s2)))
            else Inr (s1, 40)) (\<lambda>(s2, data_len).
       finish_packet pid src_ip dst_ip w s2 data_len))"

text \<open>One round of the loop up to the sending: the bytes handed to \<^verbatim>\<open>sendto\<close>, \<open>None\<close> where the program ends because an
  address is not proper. \<open>pton\<close> is \<^verbatim>\<open>inet_pton\<close>, \<open>pid\<close> the process identifier and \<open>tv\<close> the time of the load.\<close>

definition build_packet :: "(bytes \<Rightarrow> u32 option) \<Rightarrow> u16 \<Rightarrow> timeval \<Rightarrow> sender \<Rightarrow> webhost_info \<Rightarrow> (bytes option \<times> sender) run" where
  "build_packet pton pid tv s w =
     bindR (case p_ho s of None \<Rightarrow> Inl NullDeref | Some p \<Rightarrow> http_object_reset p) (\<lambda>(_, p0).
     let s0 = s\<lparr>p_ho := Some p0\<rparr> in
     bindR (cstr (wh_src_ip w)) (\<lambda>a.
       case pton a of
         None \<Rightarrow> Inr (None, s0)
       | Some src_ip \<Rightarrow>
           bindR (cstr (wh_dst_ip w)) (\<lambda>b.
             case pton b of
               None \<Rightarrow> Inr (None, s0)
             | Some dst_ip \<Rightarrow> fill_packet pid tv src_ip dst_ip s0 p0 w)))"

section \<open>The packet of a time stamp\<close>

lemma length_pk [simp]: "length (pk_ip_hdr pid s d n c) = 20" "length (create_tcp_hdr sp dp c) = 20" "length (pk_psuedo_hdr proto len s d) = 12"
  by (simp_all add: pk_ip_hdr_def create_tcp_hdr_def pk_psuedo_hdr_def)

lemma csum_pk_ip_hdr: "csum (pk_ip_hdr pid s d n (csum (pk_ip_hdr pid s d n 0))) = 0"
  using csum_stored [of "[0x45, 0] @ le16 (htons n) @ le16 (htons pid) @ [0, 0] @ [255, 6]" "le32 s @ le32 d"]
  by (simp add: pk_ip_hdr_def)

lemma create_ip_hdr_valid:
  assumes "20 \<le> length m"
  shows "\<exists>c. create_ip_hdr m pid s d len = Inr (pk_ip_hdr pid s d (word_of_int len) c @ drop 20 m) \<and>
    (\<forall>z. pk_chk_sum (Some (pk_ip_hdr pid s d (word_of_int len) c @ z)) 20 = Inr 0)"
proof -
  let ?ip = "pk_ip_hdr pid s d (word_of_int len)"
  have "pk_chk_sum (Some (?ip c @ z)) 20 = Inr (csum (?ip c))" for c z
    using chk_sum_csum [of 20 "?ip c @ z"] by (simp add: pk_chk_sum_def)
  then show ?thesis using assms csum_pk_ip_hdr by (intro exI [of _ "csum (?ip 0)"]) (simp add: create_ip_hdr_def)
qed

lemma pk_tcp_chk_sum_defined: "unat len \<le> length m \<Longrightarrow> \<exists>c. pk_tcp_chk_sum proto m len s d = Inr c"
  using chk_sum_csum [of 12 "pk_psuedo_hdr proto len s d"] chk_sum_csum [of len m]
  by (simp add: pk_tcp_chk_sum_def pk_chk_sum_def)

text \<open>A load of \<open>n\<close> bytes behind the headers.\<close>

lemma finish_packet_ok:
  assumes "g_buf s = h @ l" and "length h = 40" and "load_size s = Some (int n)" and "n \<le> length l" and "n \<le> 2008"
  shows "\<exists>k c. finish_packet pid src dst w s (40 + int n)
      = Inr (Some (pk_ip_hdr pid src dst (word_of_int (40 + int n)) k @ create_tcp_hdr (htons (wh_src_port w)) (htons (wh_dst_port w)) c @ take n l),
          s\<lparr>g_buf := pk_ip_hdr pid src dst (word_of_int (40 + int n)) k @ create_tcp_hdr (htons (wh_src_port w)) (htons (wh_dst_port w)) c @ l\<rparr>)
    \<and> (\<forall>z. pk_chk_sum (Some (pk_ip_hdr pid src dst (word_of_int (40 + int n)) k @ z)) 20 = Inr 0)"
proof -
  let ?tcp = "create_tcp_hdr (htons (wh_src_port w)) (htons (wh_dst_port w))" and ?n = "word_of_int (40 + int n)"
  have "(20 + int n) mod 2 ^ LENGTH(16) = 20 + int n" using assms(5) by (intro mod_pos_pos_trivial) simp_all
  then have len: "uint (word_of_int (20 + int n) :: u16) = 20 + int n" by (simp only: uint_word_of_int)
  then have "unat (word_of_int (20 + int n) :: u16) = 20 + n" by (simp only: unat_eq_nat_uint)
  then obtain c where c: "pk_tcp_chk_sum 6 (drop 20 (g_buf s)) (word_of_int (20 + int n)) src dst = Inr c"
    using pk_tcp_chk_sum_defined [of "word_of_int (20 + int n)" "drop 20 (g_buf s)" 6 src dst] assms(1,2,4) by auto
  have p: "put (g_buf s) 20 (?tcp c) = Inr (take 20 h @ ?tcp c @ l)" using assms(1,2) by simp
  obtain k where k: "create_ip_hdr (take 20 h @ ?tcp c @ l) pid src dst (40 + int n) = Inr (pk_ip_hdr pid src dst ?n k @ ?tcp c @ l)"
    "\<forall>z. pk_chk_sum (Some (pk_ip_hdr pid src dst ?n k @ z)) 20 = Inr 0"
    using create_ip_hdr_valid [of "take 20 h @ ?tcp c @ l" pid src dst "40 + int n"] assms(2) by auto
  have "nat (40 + int n) = 40 + n" by simp
  then have "slice (pk_ip_hdr pid src dst ?n k @ ?tcp c @ l) 0 (40 + int n) = Inr (pk_ip_hdr pid src dst ?n k @ ?tcp c @ take n l)"
    using assms(4) by simp
  then show ?thesis using c p k assms(3) by (intro exI [of _ k] exI [of _ c]) (simp add: finish_packet_def)
qed

lemma fill_time_packet:
  assumes g: "length (g_buf s) = 2048" and t: "length (time_load tv) \<le> 31" and w: "wh_type w = 0"
  defines "l \<equiv> time_load tv @ [0] @ drop (41 + length (time_load tv)) (g_buf s)"
  shows "\<exists>k c h. fill_packet pid tv src dst s p w
      = Inr (Some (pk_ip_hdr pid src dst 72 k @ create_tcp_hdr (htons (wh_src_port w)) (htons (wh_dst_port w)) c @ take 32 l),
          s\<lparr>g_buf := h @ l, load_size := Some 32\<rparr>)
    \<and> length h = 40 \<and> (\<forall>z. pk_chk_sum (Some (pk_ip_hdr pid src dst 72 k @ z)) 20 = Inr 0)"
proof -
  let ?tcp = "create_tcp_hdr (htons (wh_src_port w)) (htons (wh_dst_port w))"
  have ll: "length l = 2008" using g t by (simp add: l_def)
  have p0: "put (g_buf s) 20 (?tcp 0) = Inr (take 20 (g_buf s) @ ?tcp 0 @ drop 40 (g_buf s))" using g by simp
  define h where "h = take 20 (g_buf s) @ ?tcp 0"
  have h: "length h = 40" using g by (simp add: h_def)
  have p1: "put (take 20 (g_buf s) @ ?tcp 0 @ drop 40 (g_buf s)) 40 (time_load tv @ [0]) = Inr (h @ l)"
    using g t by (simp add: l_def h_def min_absorb2 add.commute)
  let ?s = "s\<lparr>g_buf := h @ l, load_size := Some (int 32)\<rparr>"
  obtain k c where "finish_packet pid src dst w ?s (40 + int 32)
      = Inr (Some (pk_ip_hdr pid src dst (word_of_int (40 + int 32)) k @ ?tcp c @ take 32 l),
          ?s\<lparr>g_buf := pk_ip_hdr pid src dst (word_of_int (40 + int 32)) k @ ?tcp c @ l\<rparr>)"
    "\<forall>z. pk_chk_sum (Some (pk_ip_hdr pid src dst (word_of_int (40 + int 32)) k @ z)) 20 = Inr 0"
    using finish_packet_ok [of ?s h l 32 pid src dst w] h ll by auto
  then have f: "finish_packet pid src dst w (s\<lparr>g_buf := h @ l, load_size := Some 32\<rparr>) 72
      = Inr (Some (pk_ip_hdr pid src dst 72 k @ ?tcp c @ take 32 l), s\<lparr>g_buf := (pk_ip_hdr pid src dst 72 k @ ?tcp c) @ l, load_size := Some 32\<rparr>)"
    "\<forall>z. pk_chk_sum (Some (pk_ip_hdr pid src dst 72 k @ z)) 20 = Inr 0" by simp_all
  then have "fill_packet pid tv src dst s p w = Inr (Some (pk_ip_hdr pid src dst 72 k @ ?tcp c @ take 32 l),
      s\<lparr>g_buf := (pk_ip_hdr pid src dst 72 k @ ?tcp c) @ l, load_size := Some 32\<rparr>)"
    using p0 p1 w by (simp add: fill_packet_def Let_def)
  then show ?thesis using f(2) by (intro exI [of _ k] exI [of _ c] exI [of _ "pk_ip_hdr pid src dst 72 k @ ?tcp c"]) simp
qed

end
