(* ===== verification/Pk_Hosts.thy ===== *)
theory Pk_Hosts
  imports Pk_Sender Data_Op
begin

text \<open>
  How \<^verbatim>\<open>tools/pksender_v2.c\<close> reads its hosts from a file: a first line with the number of lines, the separator and the
  number of columns, and a line of separated fields for every host, which the record of Data_Op takes apart.
\<close>

section \<open>The operations\<close>

record webhost_list =
  webhost_num :: int
  p_webhosts :: "webhost_info list ptr"

text \<open>What the system answers: the descriptor, the size \<^verbatim>\<open>fstat\<close> gives, whether the buffer is allocated, the bytes read; the
  cells of a new array of hosts (\<open>None\<close> where the allocation fails); the outcomes of the allocations of the record and of its items for every line; and
  the indeterminate contents of the locals \<^verbatim>\<open>sep\<close> and \<^verbatim>\<open>df\<close>.\<close>

record hosts_env =
  he_fd :: int
  he_size :: "int option"
  he_buf :: bool
  he_read :: "bytes option"
  he_hosts :: "webhost_info alloc"
  he_record :: bool
  he_items :: "nat \<Rightarrow> (bool \<times> bool) list"
  he_sep :: bytes
  he_df :: data_field

definition atoi :: "bytes \<Rightarrow> int" where
  "atoi s = to_i32 (strtol_any 10 s)"

definition copy_field :: "data_field \<Rightarrow> int \<Rightarrow> bytes \<Rightarrow> int \<Rightarrow> bytes run" where
  "copy_field df k buf sz = bindR (data_field_copy_str df k buf sz) (\<lambda>(_, b). Inr b)"

text \<open>The fields of a line into a host.\<close>

definition read_host :: "data_field \<Rightarrow> webhost_info \<Rightarrow> webhost_info run" where
  "read_host df h =
     bindR (data_field_get_i32 df 0 10) (\<lambda>typ.
     bindR (copy_field df 1 (wh_src_ip h) 16) (\<lambda>src.
     bindR (data_field_get_i32 df 2 10) (\<lambda>sport.
     bindR (copy_field df 3 (wh_dst_ip h) 16) (\<lambda>dst.
     bindR (data_field_get_i32 df 4 10) (\<lambda>dport.
     let h1 = h\<lparr>wh_type := typ, wh_src_ip := src, wh_src_port := word_of_int sport, wh_dst_ip := dst, wh_dst_port := word_of_int dport\<rparr> in
     if typ = 1 then
       bindR (copy_field df 5 (wh_host h) 128) (\<lambda>host.
       bindR (copy_field df 6 (wh_path h) 256) (\<lambda>path.
       bindR (copy_field df 7 (wh_ua h) 256) (\<lambda>ua.
       bindR (copy_field df 8 (wh_cookie h) 1024) (\<lambda>cookie.
         Inr (h1\<lparr>wh_host := host, wh_path := path, wh_ua := ua, wh_cookie := cookie\<rparr>)))))
     else Inr h1)))))"

text \<open>The loop over the lines: \<open>i\<close> is the host, \<open>pe\<close> the end of the line before, \<open>buf_end\<close> the offset of the last byte. \<open>None\<close> where the
  script of the allocations ends before a line.\<close>

fun read_lines :: "hosts_env \<Rightarrow> bytes \<Rightarrow> int \<Rightarrow> bytes \<Rightarrow> nat \<Rightarrow> nat \<Rightarrow> nat \<Rightarrow> data_field \<Rightarrow> webhost_info list ptr \<Rightarrow>
    (data_field \<times> webhost_info list ptr) option run" where
  "read_lines e buf buf_end sep 0 i pe df hs = Inr (Some (df, hs))"
| "read_lines e buf buf_end sep (Suc n) i pe df hs =
     (let pb = pe + 1 in
      bindR (find_str (drop pb buf) (buf_end - int pb) [10]) (\<lambda>q.
      let pe' = (case q of None \<Rightarrow> buf_end | Some j \<Rightarrow> int (pb + j)) in
      if int pb \<ge> pe' then Inr (Some (df, hs))
      else
        bindR (data_field_read_buf (he_items e i) df (drop pb buf) (pe' - int pb) sep) (\<lambda>x.
          case x of
            None \<Rightarrow> Inr None
          | Some (_, df1) \<Rightarrow>
              bindR (deref hs) (\<lambda>m.
              bindR (rd m i) (\<lambda>h.
              bindR (read_host df1 h) (\<lambda>h'.
              bindR (data_field_clean_items df1) (\<lambda>(_, df2).
                if pe' = buf_end then Inr (Some (df2, Live (m[i := h'])))
                else read_lines e buf buf_end sep n (i + 1) (nat pe') df2 (Live (m[i := h'])))))))))"

text \<open>A number of the first line into the static \<^verbatim>\<open>lines_str\<close> of 1024 bytes; \<open>None\<close> where it is not there.\<close>

definition read_number :: "bytes \<Rightarrow> int \<Rightarrow> bytes \<Rightarrow> bytes \<Rightarrow> (int option \<times> bytes) run" where
  "read_number buf pe name lines_str =
     bindR (substr buf pe name (lit '';'') 16) (\<lambda>(len, d).
     bindR (put lines_str 0 d) (\<lambda>l.
       if len \<le> 0 then Inr (None, l)
       else bindR (wr l (nat len) 0) (\<lambda>l'. bindR (cstr l') (\<lambda>t. Inr (Some (atoi t), l')))))"

text \<open>The separator as a string in the local array of 16 bytes.\<close>

definition read_sep :: "bytes \<Rightarrow> int \<Rightarrow> bytes \<Rightarrow> bytes run" where
  "read_sep buf pe sep =
     bindR (substr buf pe (lit ''Sep='') (lit '';'') 16) (\<lambda>(len, d).
     bindR (put sep 0 d) (\<lambda>s.
     bindR (if len \<le> 0 then wr s 1 0 else wr s (nat len) 0) cstr))"

text \<open>The result has the value returned, the list and \<^verbatim>\<open>lines_str\<close>.\<close>

definition read_webhost_from_file :: "hosts_env \<Rightarrow> webhost_list \<Rightarrow> bytes \<Rightarrow> (int \<times> webhost_list \<times> bytes) option run" where
  "read_webhost_from_file e p lines_str =
     (let fail = Inr (Some (- 1, p, lines_str)) in
      if he_fd e \<le> 0 then fail
      else case he_size e of
        None \<Rightarrow> fail
      | Some sz \<Rightarrow>
          if \<not> he_buf e then fail
          else case he_read e of
            None \<Rightarrow> fail
          | Some buf \<Rightarrow>
              if int (length buf) \<noteq> sz then fail
              else
                bindR (find_str buf (sz - 1) [10]) (\<lambda>q.
                  case q of
                    None \<Rightarrow> fail
                  | Some pe \<Rightarrow>
                      bindR (read_number buf (int pe) (lit ''LINE='') lines_str) (\<lambda>(n, l1).
                        case n of
                          None \<Rightarrow> Inr (Some (- 1, p, l1))
                        | Some line_num \<Rightarrow>
                            let hs = (if line_num > 1 then malloc (he_hosts e) line_num else p_webhosts p) in
                            if line_num > 1 \<and> hs = Null then Inr (Some (- 1, p\<lparr>p_webhosts := Null\<rparr>, l1))
                            else
                              bindR (read_sep buf (int pe) (he_sep e)) (\<lambda>sep.
                              bindR (read_number buf (int pe) (lit ''MaxCol='') l1) (\<lambda>(c, l2).
                              let df = snd (data_field_init (he_record e) (\<lambda>_. None) (he_df e) (case c of None \<Rightarrow> 20 | Some k \<Rightarrow> to_i8 k) 0) in
                              bindR (read_lines e buf (sz - 1) sep (nat line_num) 0 pe df hs) (\<lambda>x.
                                case x of
                                  None \<Rightarrow> Inr None
                                | Some (df', hs') \<Rightarrow>
                                    bindR (data_field_free_items df') (\<lambda>_.
                                      Inr (Some (to_i32 sz, \<lparr>webhost_num = line_num, p_webhosts = hs'\<rparr>, l2)))))))))"

section \<open>A line\<close>

text \<open>The strings of a host are arrays of the sizes of the struct.\<close>

definition host_mem :: "webhost_info \<Rightarrow> bool" where
  "host_mem h \<longleftrightarrow> length (wh_src_ip h) = 16 \<and> length (wh_dst_ip h) = 16 \<and> length (wh_host h) = 128 \<and> length (wh_path h) = 256
     \<and> length (wh_ua h) = 256 \<and> length (wh_cookie h) = 1024"

text \<open>A line of the file: addresses and ports, and for the type 1 host, path, user agent and cookie.\<close>

record host_line =
  hl_src_ip :: bytes
  hl_src_port :: u16
  hl_dst_ip :: bytes
  hl_dst_port :: u16
  hl_request :: "(bytes \<times> bytes \<times> bytes \<times> bytes) option"

definition line_fields :: "host_line \<Rightarrow> bytes list" where
  "line_fields l =
     [int_text (if hl_request l = None then 0 else 1), hl_src_ip l, int_text (uint (hl_src_port l)), hl_dst_ip l, int_text (uint (hl_dst_port l))]
     @ (case hl_request l of None \<Rightarrow> [] | Some (host, path, ua, cookie) \<Rightarrow> [host, path, ua, cookie])"

text \<open>No field has a separator, a line end or a NUL, and all fit their arrays.\<close>

definition text_ok :: "nat \<Rightarrow> bytes \<Rightarrow> bool" where
  "text_ok n t \<longleftrightarrow> length t < n \<and> {0, 9, 10} \<inter> set t = {}"

definition line_ok :: "host_line \<Rightarrow> bool" where
  "line_ok l \<longleftrightarrow> text_ok 16 (hl_src_ip l) \<and> text_ok 16 (hl_dst_ip l) \<and>
     (case hl_request l of None \<Rightarrow> True
      | Some (host, path, ua, cookie) \<Rightarrow> text_ok 128 host \<and> text_ok 256 path \<and> text_ok 256 ua \<and> text_ok 1024 cookie)"

definition is_string :: "bytes \<Rightarrow> bytes \<Rightarrow> bool" where
  "is_string m t \<longleftrightarrow> (\<exists>z. m = t @ 0 # z)"

text \<open>The host a line describes.\<close>

definition host_is :: "webhost_info \<Rightarrow> host_line \<Rightarrow> bool" where
  "host_is h l \<longleftrightarrow> is_string (wh_src_ip h) (hl_src_ip l) \<and> wh_src_port h = hl_src_port l
     \<and> is_string (wh_dst_ip h) (hl_dst_ip l) \<and> wh_dst_port h = hl_dst_port l
     \<and> (case hl_request l of None \<Rightarrow> wh_type h = 0
        | Some (host, path, ua, cookie) \<Rightarrow> wh_type h = 1 \<and> is_string (wh_host h) host \<and> is_string (wh_path h) path
            \<and> is_string (wh_ua h) ua \<and> is_string (wh_cookie h) cookie)"

lemma get_number:
  assumes "holds p n fs" and "i < length fs" and "fs ! i = int_text x" and "- (2 ^ 31) \<le> x" and "x < 2 ^ 31"
  shows "data_field_get_i32 p (int i) 10 = Inr x"
proof -
  have nul: "0 \<notin> set (fs ! i)" unfolding assms(3) by (rule int_text_no_nul)
  obtain z c where c: "item_at p (int i) = Inr c" "di_data c = Live (int_text x @ 0 # z)"
    using holds_get [OF assms(1,2) nul] assms(3) by auto
  have "item_num p = int (length fs)" using assms(1) by (auto simp: holds_def)
  then have "data_field_get_i64 p (int i) 10 = Inr x"
    using assms(2,4,5) c cstr_at [OF int_text_no_nul] by (simp add: data_field_get_i64_def strtol_any_def strtol_def strto_int_text)
  then show ?thesis using assms(4,5) by (simp add: data_field_get_i32_def to_i32_def)
qed

lemma get_text:
  assumes "holds p n fs" and "i < length fs" and "text_ok k (fs ! i)" and "length buf = k"
  shows "\<exists>b. copy_field p (int i) buf (int k) = Inr b \<and> is_string b (fs ! i) \<and> length b = k"
proof -
  have nul: "0 \<notin> set (fs ! i)" using assms(3) by (auto simp: text_ok_def)
  obtain z c where c: "item_at p (int i) = Inr c" "di_data c = Live (fs ! i @ 0 # z)" "di_len c = int (length (fs ! i))"
    using holds_get [OF assms(1,2) nul] by blast
  have num: "item_num p = int (length fs)" using assms(1) by (auto simp: holds_def)
  have len: "length (fs ! i) < length buf" using assms(3,4) by (simp add: text_ok_def)
  have "put buf 0 (fs ! i) = Inr (fs ! i @ drop (length (fs ! i)) buf)" using len by simp
  moreover have "wr (fs ! i @ drop (length (fs ! i)) buf) (length (fs ! i)) 0 = Inr (fs ! i @ 0 # tl (drop (length (fs ! i)) buf))"
    using len by (intro wr_at) simp
  ultimately have "copy_field p (int i) buf (int k) = Inr (fs ! i @ 0 # tl (drop (length (fs ! i)) buf))"
    using c num assms(2,4) len by (simp add: copy_field_def data_field_copy_str_def Let_def)
  then show ?thesis using len assms(4) by (auto simp: is_string_def)
qed

lemma port_number: "- (2 ^ 31) \<le> uint (x :: u16)" "uint x < 2 ^ 31"
  using uint_bounded [of x] order_trans [OF _ uint_nonnegative [of x], of "- (2 ^ 31)"] by simp_all

lemma read_host_line:
  assumes "holds df n (line_fields l)" and "line_ok l" and "host_mem h"
  shows "\<exists>h'. read_host df h = Inr h' \<and> host_is h' l \<and> host_mem h'"
proof -
  let ?fs = "line_fields l"
  have five: "?fs ! 0 = int_text (if hl_request l = None then 0 else 1)" "?fs ! 1 = hl_src_ip l" "?fs ! 2 = int_text (uint (hl_src_port l))"
    "?fs ! 3 = hl_dst_ip l" "?fs ! 4 = int_text (uint (hl_dst_port l))" "4 < length ?fs"
    by (simp_all add: line_fields_def)
  have ne: "0 < length ?fs" using five(6) by linarith
  have ty: "data_field_get_i32 df 0 10 = Inr (if hl_request l = None then 0 else 1)"
    using get_number [OF assms(1) ne five(1)] by (cases "hl_request l") auto
  have sport: "data_field_get_i32 df 2 10 = Inr (uint (hl_src_port l))"
    using get_number [OF assms(1) _ five(3) port_number] five(6) by simp
  have dport: "data_field_get_i32 df 4 10 = Inr (uint (hl_dst_port l))"
    using get_number [OF assms(1) _ five(5) port_number] five(6) by simp
  obtain src where src: "copy_field df 1 (wh_src_ip h) 16 = Inr src" "is_string src (hl_src_ip l)" "length src = 16"
    using get_text [OF assms(1), of 1 16 "wh_src_ip h"] five assms(2,3) by (auto simp: line_ok_def host_mem_def)
  obtain dst where dst: "copy_field df 3 (wh_dst_ip h) 16 = Inr dst" "is_string dst (hl_dst_ip l)" "length dst = 16"
    using get_text [OF assms(1), of 3 16 "wh_dst_ip h"] five assms(2,3) by (auto simp: line_ok_def host_mem_def)
  show ?thesis
  proof (cases "hl_request l")
    case None
    then show ?thesis
      using ty sport dport src dst assms(3) by (simp add: read_host_def host_is_def host_mem_def Let_def)
  next
    case (Some r)
    obtain host path ua cookie where r: "hl_request l = Some (host, path, ua, cookie)" using Some by (cases r) auto
    have f: "?fs ! 5 = host" "?fs ! 6 = path" "?fs ! 7 = ua" "?fs ! 8 = cookie" "8 < length ?fs" by (simp_all add: line_fields_def r)
    have ok: "text_ok 128 host" "text_ok 256 path" "text_ok 256 ua" "text_ok 1024 cookie" using assms(2) by (simp_all add: line_ok_def r)
    obtain b5 where b5: "copy_field df 5 (wh_host h) 128 = Inr b5" "is_string b5 host" "length b5 = 128"
      using get_text [OF assms(1), of 5 128 "wh_host h"] f ok assms(3) by (auto simp: host_mem_def)
    obtain b6 where b6: "copy_field df 6 (wh_path h) 256 = Inr b6" "is_string b6 path" "length b6 = 256"
      using get_text [OF assms(1), of 6 256 "wh_path h"] f ok assms(3) by (auto simp: host_mem_def)
    obtain b7 where b7: "copy_field df 7 (wh_ua h) 256 = Inr b7" "is_string b7 ua" "length b7 = 256"
      using get_text [OF assms(1), of 7 256 "wh_ua h"] f ok assms(3) by (auto simp: host_mem_def)
    obtain b8 where b8: "copy_field df 8 (wh_cookie h) 1024 = Inr b8" "is_string b8 cookie" "length b8 = 1024"
      using get_text [OF assms(1), of 8 1024 "wh_cookie h"] f ok assms(3) by (auto simp: host_mem_def)
    show ?thesis
      using ty sport dport src dst b5 b6 b7 b8 r by (simp add: read_host_def host_is_def host_mem_def Let_def)
  qed
qed

text \<open>Cleaning the items keeps their buffers.\<close>

lemma clean_from_wf:
  assumes "p_items p = Live (map Some (ds @ cs @ es))" and "\<forall>c\<in>set cs. item_wf c \<and> (\<exists>f. item_holds c f)"
  shows "\<exists>cs'. clean_from [length ds..<length ds + length cs] p = Inr (p\<lparr>p_items := Live (map Some (ds @ cs' @ es))\<rparr>)
    \<and> length cs' = length cs \<and> (\<forall>c\<in>set cs'. item_wf c)"
  using assms
proof (induction cs arbitrary: p ds)
  case Nil
  then show ?case by (auto intro: exI [of _ "[]"])
next
  case (Cons c cs)
  obtain f z where c: "di_data c = Live (f @ 0 # z)" "item_wf c" using Cons.prems(2) by (auto simp: item_holds_def)
  obtain m where m: "wr (f @ 0 # z) 0 0 = Inr m" "length m = length (f @ 0 # z)" by (cases f) simp_all
  define c' where "c' = c\<lparr>di_len := 0, di_data := Live m\<rparr>"
  define p1 where "p1 = p\<lparr>p_items := Live (map Some ((ds @ [c']) @ cs @ es))\<rparr>"
  have at: "item_at p (int (length ds)) = Inr c" using item_at_holds [of p ds c "cs @ es"] Cons.prems(1) by simp
  have set: "set_item p (int (length ds)) c' = Inr p1" using set_item_holds [of p ds c "cs @ es" c'] Cons.prems(1) by (simp add: p1_def)
  have up: "[length ds..<length ds + length (c # cs)] = length ds # [length (ds @ [c'])..<length (ds @ [c']) + length cs]"
    using upt_conv_Cons [of "length ds" "length ds + length (c # cs)"] by (simp del: upt_Suc)
  have "item_wf c'" using c m(2) by (simp add: item_wf_def c'_def)
  moreover obtain cs' where "clean_from [length (ds @ [c'])..<length (ds @ [c']) + length cs] p1 = Inr (p1\<lparr>p_items := Live (map Some ((ds @ [c']) @ cs' @ es))\<rparr>)"
    "length cs' = length cs" "\<forall>c\<in>set cs'. item_wf c"
    using Cons.IH [of p1 "ds @ [c']"] Cons.prems(2) by (auto simp: p1_def)
  ultimately show ?case
    unfolding up using at set c(1) m(1)
    by (intro exI [of _ "c' # cs'"]) (simp add: p1_def c'_def)
qed

lemma clean_items_holds:
  assumes "holds p n fs"
  shows "\<exists>p'. data_field_clean_items p = Inr (F1G_OK, p') \<and> holds p' n []"
proof -
  obtain cs es where h: "p_items p = Live (map Some (cs @ es))" "length (cs @ es) = n" "n \<le> 127" "item_size p = int n"
    "item_num p = int (length fs)" "list_all2 item_holds cs fs" "\<forall>c\<in>set (cs @ es). item_wf c"
    using assms by (auto simp: holds_def)
  have "\<forall>c\<in>set cs. item_wf c \<and> (\<exists>f. item_holds c f)" using h(6,7) by (auto simp: list_all2_conv_all_nth in_set_conv_nth) blast
  then obtain cs' where cs': "clean_from [0..<length cs] p = Inr (p\<lparr>p_items := Live (map Some (cs' @ es))\<rparr>)" "length cs' = length cs"
    "\<forall>c\<in>set cs'. item_wf c"
    using clean_from_wf [of p "[]" cs es] h(1) by auto
  moreover have "nat (item_num p) = length cs" using h(5) list_all2_lengthD [OF h(6)] by simp
  ultimately have "data_field_clean_items p = Inr (F1G_OK, p\<lparr>p_items := Live (map Some (cs' @ es)), item_num := 0\<rparr>)"
    by (simp add: data_field_clean_items_def)
  moreover have "holds (p\<lparr>p_items := Live (map Some (cs' @ es)), item_num := 0\<rparr>) n []"
    using h(2,3,4,7) cs'(2,3) unfolding holds_def by (intro exI [of _ "[]"] exI [of _ "cs' @ es"]) auto
  ultimately show ?thesis by blast
qed

section \<open>The lines\<close>

text \<open>What the numbers are made of.\<close>

lemma int_text_chars: "c \<in> set (int_text x) \<Longrightarrow> 45 \<le> unat c \<and> unat c \<le> 57"
  using dec_chars [of c] by (fastforce simp: int_text_def split: if_splits)

lemma text_field_ok: "{0, 9, 10} \<inter> set t = {} \<Longrightarrow> field_ok [9] t"
  by (auto simp: field_ok_def first_occ_single takeWhile_append)

lemma tab_sep_ok: "sep_ok [9]"
  by (simp add: sep_ok_def)

lemma line_fields_text:
  assumes "line_ok l" and "f \<in> set (line_fields l)"
  shows "{0, 9, 10} \<inter> set f = {}"
proof -
  have "{0, 9, 10} \<inter> set (int_text x) = {}" for x
    using int_text_chars [of 0 x] int_text_chars [of 9 x] int_text_chars [of 10 x] by auto
  then show ?thesis
    using assms by (auto simp: line_fields_def line_ok_def text_ok_def split: option.splits if_splits)
qed

definition line_text :: "host_line \<Rightarrow> bytes" where
  "line_text l = fields_text [9] (line_fields l)"

definition lines_text :: "host_line list \<Rightarrow> bytes" where
  "lines_text ls = concat (map (\<lambda>l. line_text l @ [10]) ls)"

lemma line_text_props:
  assumes "line_ok l"
  shows "10 \<notin> set (line_text l)" and "0 < length (line_text l)" and "length (line_fields l) \<le> 9"
  using line_fields_text [OF assms] by (auto simp: line_text_def fields_text_def line_fields_def split: option.splits)

text \<open>The record takes the fields of a line, whatever follows it.\<close>

lemma read_buf_line:
  assumes "holds df k []" and "9 \<le> k" and "line_ok l" and "length es = length (line_fields l)" and "\<forall>e\<in>set es. snd e"
  shows "\<exists>df'. data_field_read_buf es df (line_text l @ r) (int (length (line_text l))) [9] = Inr (Some (F1G_OK, df'))
    \<and> holds df' k (line_fields l)"
proof -
  have "\<forall>f\<in>set (line_fields l). field_ok [9] f" using line_fields_text [OF assms(3)] by (blast intro: text_field_ok)
  moreover have "length ([] :: bytes list) + length (line_fields l) \<le> k" using line_text_props(3) [OF assms(3)] assms(2) by simp
  moreover have "drop 0 (line_text l @ r) = fields_text [9] (line_fields l) @ r" by (simp add: line_text_def)
  moreover have "int (length (line_text l)) = int (0 + length (fields_text [9] (line_fields l)) + 0)" by (simp add: line_text_def)
  ultimately obtain df' where "read_from (es @ []) df (line_text l @ r) 0 (int (length (line_text l))) [9]
      = read_from [] df' (line_text l @ r) (0 + length (fields_text [9] (line_fields l))) (int (length (line_text l))) [9]"
    "holds df' k ([] @ line_fields l)"
    using read_from_fields [OF tab_sep_ok _ assms(1) _ _ _ _ assms(4,5), of 0 "line_text l @ r" r "int (length (line_text l))" 0 "[]"] by blast
  then show ?thesis by (simp add: data_field_read_buf_def read_from.simps line_text_def)
qed

text \<open>The end of a line: found, or the end of the buffer.\<close>

lemma find_line_end:
  assumes "10 \<notin> set t"
  shows "find_str (t @ 10 # r) (int (length t) + int (length r)) [10] = Inr (if r = [] then None else Some (length t))"
  using fs.find_first [of "[10]" "int (length t) + int (length r)" "t @ 10 # r"] assms
  by (cases r) (auto simp: nat_add_distrib first_occ_single takeWhile_append)

text \<open>The loop stores a host for every line.\<close>

definition allocs_ok :: "hosts_env \<Rightarrow> nat \<Rightarrow> host_line list \<Rightarrow> bool" where
  "allocs_ok e i ls \<longleftrightarrow> (\<forall>j<length ls. length (he_items e (i + j)) = length (line_fields (ls ! j)) \<and> (\<forall>x\<in>set (he_items e (i + j)). snd x))"

lemma allocs_ok_Cons:
  assumes "allocs_ok e i (l # ls)"
  shows "length (he_items e i) = length (line_fields l)" and "\<forall>x\<in>set (he_items e i). snd x" and "allocs_ok e (i + 1) ls"
proof -
  have j: "length (he_items e (i + j)) = length (line_fields ((l # ls) ! j)) \<and> (\<forall>x\<in>set (he_items e (i + j)). snd x)" if "j \<le> length ls" for j
    using assms that unfolding allocs_ok_def by (metis length_Cons less_Suc_eq_le)
  show "length (he_items e i) = length (line_fields l)" "\<forall>x\<in>set (he_items e i). snd x" using j [of 0] by auto
  show "allocs_ok e (i + 1) ls"
    unfolding allocs_ok_def
  proof (intro allI impI)
    fix n assume "n < length ls"
    then show "length (he_items e (i + 1 + n)) = length (line_fields (ls ! n)) \<and> (\<forall>x\<in>set (he_items e (i + 1 + n)). snd x)"
      using j [of "Suc n"] by simp
  qed
qed

text \<open>One turn of the loop, up to the host.\<close>

lemma read_lines_turn:
  assumes "drop (pe + 1) buf = line_text l @ 10 # r" and "buf_end = int (length buf) - 1" and "holds df k []" and "9 \<le> k"
    and "line_ok l" and "length (he_items e i) = length (line_fields l)" and "\<forall>x\<in>set (he_items e i). snd x"
  shows "\<exists>df1. holds df1 k (line_fields l) \<and>
    read_lines e buf buf_end [9] (Suc n) i pe df hs
    = bindR (deref hs) (\<lambda>m. bindR (rd m i) (\<lambda>h. bindR (read_host df1 h) (\<lambda>h'. bindR (data_field_clean_items df1) (\<lambda>(_, df2).
        if r = [] then Inr (Some (df2, Live (m[i := h'])))
        else read_lines e buf buf_end [9] n (i + 1) (pe + 1 + length (line_text l)) df2 (Live (m[i := h']))))))"
proof -
  note t = line_text_props [OF assms(5)]
  obtain df1 where df1: "data_field_read_buf (he_items e i) df (line_text l @ 10 # r) (int (length (line_text l))) [9] = Inr (Some (F1G_OK, df1))"
    "holds df1 k (line_fields l)"
    using read_buf_line [OF assms(3-7)] by blast
  have "length buf - (pe + 1) = length (line_text l) + 1 + length r" using arg_cong [OF assms(1), of length] by simp
  moreover have "pe + 1 \<le> length buf" using assms(1) by (cases "pe + 1 \<le> length buf") auto
  ultimately have len: "length buf = pe + 1 + length (line_text l) + 1 + length r" by linarith
  have q: "find_str (line_text l @ 10 # r) (buf_end - int (pe + 1)) [10] = Inr (if r = [] then None else Some (length (line_text l)))"
    using find_line_end [OF t(1), of r] assms(2) len by simp
  have end1: "(case (if r = [] then None else Some (length (line_text l))) of None \<Rightarrow> buf_end | Some j \<Rightarrow> int (pe + 1 + j))
    = int (pe + 1) + int (length (line_text l))"
    using assms(2) len by simp
  have end2: "int (pe + 1) + int (length (line_text l)) = buf_end \<longleftrightarrow> r = []" using assms(2) len by simp
  have end3: "nat (int (pe + 1) + int (length (line_text l))) = pe + 1 + length (line_text l)" by simp
  have lt: "\<not> int (pe + 1) \<ge> int (pe + 1) + int (length (line_text l))" using t(2) by simp
  show ?thesis
    using df1(2)
    by (intro exI [of _ df1] conjI)
      (simp_all only: read_lines.simps Let_def q bindR_simps end1 end2 end3 lt if_False assms(1) df1(1) add_diff_cancel_left'
        option.case prod.case)
qed

lemma read_lines_step:
  assumes "drop (pe + 1) buf = line_text l @ 10 # r" and "buf_end = int (length buf) - 1" and "holds df k []" and "9 \<le> k"
    and "line_ok l" and "length (he_items e i) = length (line_fields l)" and "\<forall>x\<in>set (he_items e i). snd x"
    and "i < length m" and "host_mem (m ! i)"
  shows "\<exists>df' h. holds df' k [] \<and> host_is h l \<and> host_mem h \<and>
    read_lines e buf buf_end [9] (Suc n) i pe df (Live m)
    = (if r = [] then Inr (Some (df', Live (m[i := h])))
       else read_lines e buf buf_end [9] n (i + 1) (pe + 1 + length (line_text l)) df' (Live (m[i := h])))"
proof -
  obtain df1 where df1: "holds df1 k (line_fields l)"
    "read_lines e buf buf_end [9] (Suc n) i pe df (Live m)
    = bindR (deref (Live m)) (\<lambda>m. bindR (rd m i) (\<lambda>h. bindR (read_host df1 h) (\<lambda>h'. bindR (data_field_clean_items df1) (\<lambda>(_, df2).
        if r = [] then Inr (Some (df2, Live (m[i := h'])))
        else read_lines e buf buf_end [9] n (i + 1) (pe + 1 + length (line_text l)) df2 (Live (m[i := h']))))))"
    using read_lines_turn [OF assms(1-7), of n "Live m"] by blast
  obtain h where h: "read_host df1 (m ! i) = Inr h" "host_is h l" "host_mem h"
    using read_host_line [OF df1(1) assms(5,9)] by blast
  obtain df2 where df2: "data_field_clean_items df1 = Inr (F1G_OK, df2)" "holds df2 k []"
    using clean_items_holds [OF df1(1)] by blast
  have m: "rd m i = Inr (m ! i)" using assms(8) by simp
  show ?thesis
    using df2(2) h(2,3)
    by (intro exI [of _ df2] exI [of _ h] conjI) (simp_all only: df1(2) bindR_simps prod.case deref.simps m h(1) df2(1))
qed

text \<open>Without an array of hosts.\<close>

lemma read_lines_null:
  assumes "drop (pe + 1) buf = line_text l @ 10 # r" and "buf_end = int (length buf) - 1" and "holds df k []" and "9 \<le> k"
    and "line_ok l" and "length (he_items e i) = length (line_fields l)" and "\<forall>x\<in>set (he_items e i). snd x"
  shows "read_lines e buf buf_end [9] (Suc n) i pe df Null = Inl NullDeref"
  using read_lines_turn [OF assms, of n Null] by (auto simp del: read_lines.simps)

lemma read_lines_hosts:
  assumes "drop (pe + 1) buf = lines_text ls" and "ls \<noteq> []" and "buf_end = int (length buf) - 1" and "holds df k []" and "9 \<le> k"
    and "\<forall>l\<in>set ls. line_ok l" and "allocs_ok e i ls" and "i + length ls \<le> length m" and "\<forall>h\<in>set m. host_mem h" and "length ls \<le> n"
  shows "\<exists>df' m'. read_lines e buf buf_end [9] n i pe df (Live m) = Inr (Some (df', Live m')) \<and> holds df' k []
    \<and> length m' = length m \<and> take i m' = take i m \<and> (\<forall>j<length ls. host_is (m' ! (i + j)) (ls ! j))"
  using assms(1,2,4,6-10)
proof (induction ls arbitrary: pe df i m n)
  case Nil
  then show ?case by simp
next
  case (Cons l ls)
  obtain n' where n: "n = Suc n'" "length ls \<le> n'" using Cons.prems(8) by (cases n) auto
  have d: "drop (pe + 1) buf = line_text l @ 10 # lines_text ls" using Cons.prems(1) by (simp add: lines_text_def)
  have i: "i < length m" "host_mem (m ! i)" using Cons.prems(6,7) by simp_all
  note a = allocs_ok_Cons [OF Cons.prems(5)]
  have l: "line_ok l" using Cons.prems(4) by simp
  obtain df1 h where s: "holds df1 k []" "host_is h l" "host_mem h"
    "read_lines e buf buf_end [9] n i pe df (Live m)
      = (if lines_text ls = [] then Inr (Some (df1, Live (m[i := h])))
         else read_lines e buf buf_end [9] n' (i + 1) (pe + 1 + length (line_text l)) df1 (Live (m[i := h])))"
    unfolding n(1) using read_lines_step [OF d assms(3) Cons.prems(3) assms(5) l a(1,2) i, of n'] by blast
  show ?case
  proof (cases "ls = []")
    case True
    then have "lines_text ls = []" by (simp add: lines_text_def)
    then show ?thesis using s True i(1) by auto
  next
    case False
    then have ne: "lines_text ls \<noteq> []" by (cases ls) (simp_all add: lines_text_def)
    have "drop (pe + 1 + length (line_text l) + 1) buf = drop (length (line_text l) + 1) (drop (pe + 1) buf)" by (simp add: ac_simps)
    then have d2: "drop (pe + 1 + length (line_text l) + 1) buf = lines_text ls" unfolding d by simp
    have mem: "\<forall>h\<in>set (m[i := h]). host_mem h" using Cons.prems(7) s(3) by (auto dest!: set_update_subset_insert [THEN subsetD])
    obtain df' m' where r: "read_lines e buf buf_end [9] n' (i + 1) (pe + 1 + length (line_text l)) df1 (Live (m[i := h])) = Inr (Some (df', Live m'))"
      "holds df' k []" "length m' = length m" "take (i + 1) m' = take (i + 1) (m[i := h])" "\<forall>j<length ls. host_is (m' ! (i + 1 + j)) (ls ! j)"
      using Cons.IH [OF d2 False s(1) _ a(3) _ mem n(2)] Cons.prems(4,6) by auto
    have "m' ! i = h" using arg_cong [OF r(4), of "\<lambda>x. x ! i"] i(1) by simp
    moreover have "take i m' = take i m" using arg_cong [OF r(4), of "take i"] by (simp add: min_def)
    ultimately have "\<forall>j<length (l # ls). host_is (m' ! (i + j)) ((l # ls) ! j)"
      using r(5) s(2) by (auto simp: nth_Cons split: nat.splits)
    then show ?thesis using s(4) ne r \<open>take i m' = take i m\<close> by auto
  qed
qed

section \<open>The file\<close>

lemma int_text_length: "0 \<le> x \<Longrightarrow> x < 10 ^ 10 \<Longrightarrow> 0 < length (int_text x) \<and> length (int_text x) \<le> 10"
  using dec_length [of "nat x" 10] dec_text_front [of "nat x"] by (auto simp: int_text_def)

lemma read_number_found:
  assumes "substr buf n name (lit '';'') 16 = Inr (int (length (int_text x)), int_text x)" and "0 \<le> x" and "x < 2 ^ 31" and "length s = 1024"
  shows "\<exists>s'. read_number buf n name s = Inr (Some x, s') \<and> length s' = 1024"
proof -
  have t: "0 < length (int_text x)" "length (int_text x) \<le> 10" using int_text_length [of x] assms(2,3) by simp_all
  obtain r where r: "wr (int_text x @ drop (length (int_text x)) s) (length (int_text x)) 0 = Inr (int_text x @ 0 # r)" "length (int_text x @ 0 # r) = 1024"
    using wr_at [of "drop (length (int_text x)) s" "int_text x" 0] t(2) assms(4) by auto
  have "put s 0 (int_text x) = Inr (int_text x @ drop (length (int_text x)) s)" using t(2) assms(4) by simp
  moreover have "atoi (int_text x) = x"
    using assms(2,3) by (simp add: atoi_def strtol_any_def strtol_def strto_int_text to_i32_def)
  ultimately show ?thesis
    using assms(1) t(1) r cstr_at [OF int_text_no_nul] by (simp add: read_number_def)
qed

lemma read_sep_found:
  assumes "substr buf n (lit ''Sep='') (lit '';'') 16 = Inr (1, [9])" and "length s = 16"
  shows "read_sep buf n s = Inr [9]"
proof -
  obtain a b r where s: "s = a # b # r" using assms(2) by (auto simp: numeral_eq_Suc length_Suc_conv)
  show ?thesis using assms(1) cstr_at [of "[9]" r] by (simp add: read_sep_def s put_def)
qed

text \<open>The first line and the file; \<open>k\<close> is the number of columns.\<close>

definition hosts_header :: "int \<Rightarrow> int \<Rightarrow> bytes" where
  "hosts_header n k = lit ''#LINE='' @ int_text n @ lit '';Sep='' @ [9] @ lit '';MaxCol='' @ int_text k @ lit '';''"

definition hosts_text :: "host_line list \<Rightarrow> int \<Rightarrow> bytes" where
  "hosts_text ls k = hosts_header (int (length ls)) k @ 10 # lines_text ls"

lemma header_marks:
  assumes "0 \<le> n" and "n < 2 ^ 31" and "0 \<le> k" and "k \<le> 127"
  shows "substr (hosts_header n k @ r) (int (length (hosts_header n k))) (lit ''LINE='') (lit '';'') 16 = Inr (int (length (int_text n)), int_text n)"
    and "substr (hosts_header n k @ r) (int (length (hosts_header n k))) (lit ''Sep='') (lit '';'') 16 = Inr (1, [9])"
    and "substr (hosts_header n k @ r) (int (length (hosts_header n k))) (lit ''MaxCol='') (lit '';'') 16 = Inr (int (length (int_text k)), int_text k)"
    and "10 \<notin> set (hosts_header n k)"
proof -
  have l: "length (int_text n) \<le> 16" "length (int_text k) \<le> 16" using int_text_length [of n] int_text_length [of k] assms by auto
  have c: "c \<notin> set (int_text x)" if "unat c < 45 \<or> 57 < unat c" for c x using int_text_chars [of c x] that by auto
  have m: "no_mark (0x53 # p) (int_text n) x" "no_mark (0x4D # p) (int_text n) x" for p x
    using c [of "0x53" n] c [of "0x4D" n] by (simp_all add: no_mark_first)
  note lits = lit_def chr8_def hosts_header_def
  show "substr (hosts_header n k @ r) (int (length (hosts_header n k))) (lit ''LINE='') (lit '';'') 16 = Inr (int (length (int_text n)), int_text n)"
    using substr_mark [of "lit ''LINE=''" "lit ''#''" "int_text n" "0x3B" "lit ''Sep='' @ [9] @ lit '';MaxCol='' @ int_text k @ lit '';''" 16
      "hosts_header n k @ r" r "int (length (hosts_header n k))"] l c m
    by (simp add: lits no_mark_Cons no_mark_append)
  show "substr (hosts_header n k @ r) (int (length (hosts_header n k))) (lit ''Sep='') (lit '';'') 16 = Inr (1, [9])"
    using substr_mark [of "lit ''Sep=''" "lit ''#LINE='' @ int_text n @ lit '';''" "[9]" "0x3B" "lit ''MaxCol='' @ int_text k @ lit '';''" 16
      "hosts_header n k @ r" r "int (length (hosts_header n k))"] m
    by (simp add: lits no_mark_Cons no_mark_append)
  show "substr (hosts_header n k @ r) (int (length (hosts_header n k))) (lit ''MaxCol='') (lit '';'') 16 = Inr (int (length (int_text k)), int_text k)"
    using substr_mark [of "lit ''MaxCol=''" "lit ''#LINE='' @ int_text n @ lit '';Sep='' @ [9] @ lit '';''" "int_text k" "0x3B" "[]" 16
      "hosts_header n k @ r" r "int (length (hosts_header n k))"] l c m
    by (simp add: lits no_mark_Cons no_mark_append)
  show "10 \<notin> set (hosts_header n k)" using c [of 10] by (auto simp: lits)
qed

text \<open>What the system answers for a file that can be read.\<close>

definition file_there :: "hosts_env \<Rightarrow> host_line list \<Rightarrow> int \<Rightarrow> bool" where
  "file_there e ls k \<longleftrightarrow> 0 < he_fd e \<and> he_size e = Some (int (length (hosts_text ls k))) \<and> he_buf e \<and> he_read e = Some (hosts_text ls k)
     \<and> he_record e \<and> length (he_sep e) = 16"

definition file_ok :: "host_line list \<Rightarrow> int \<Rightarrow> bool" where
  "file_ok ls k \<longleftrightarrow> 9 \<le> k \<and> k \<le> 127 \<and> ls \<noteq> [] \<and> (\<forall>l\<in>set ls. line_ok l) \<and> length (hosts_text ls k) < 2 ^ 31"

lemma lines_text_length: "\<forall>l\<in>set ls. line_ok l \<Longrightarrow> length ls \<le> length (lines_text ls)"
  by (induction ls) (auto simp: lines_text_def)

lemma data_field_init_holds:
  assumes "0 \<le> k" and "k \<le> 127"
  shows "holds (snd (data_field_init True as df k 0)) (nat k) []"
proof -
  have "holds (df\<lparr>item_num := 0, item_size := k, p_items := Live (replicate (nat k) (Some zero_data_item))\<rparr>) (nat k) []"
    unfolding holds_def
    by (intro exI [of _ "[]"] exI [of _ "replicate (nat k) zero_data_item"]) (use assms in \<open>simp add: item_wf_def zero_data_item_def\<close>)
  then show ?thesis using assms by (simp add: data_field_init_def Let_def)
qed

text \<open>What is left to do behind the first line.\<close>

definition hosts_loop :: "hosts_env \<Rightarrow> webhost_list \<Rightarrow> host_line list \<Rightarrow> bytes \<Rightarrow> nat \<Rightarrow> data_field \<Rightarrow> bytes \<Rightarrow> (int \<times> webhost_list \<times> bytes) option run" where
  "hosts_loop e p ls buf pe df s =
     (let hs = (if int (length ls) > 1 then malloc (he_hosts e) (int (length ls)) else p_webhosts p) in
      if int (length ls) > 1 \<and> hs = Null then Inr (Some (- 1, p\<lparr>p_webhosts := Null\<rparr>, s))
      else bindR (read_lines e buf (int (length buf) - 1) [9] (length ls) 0 pe df hs) (\<lambda>x.
        case x of
          None \<Rightarrow> Inr None
        | Some (df', hs') \<Rightarrow> bindR (data_field_free_items df') (\<lambda>_.
            Inr (Some (int (length buf), \<lparr>webhost_num = int (length ls), p_webhosts = hs'\<rparr>, s)))))"

lemma read_file_header:
  assumes "file_ok ls k" and "file_there e ls k" and "length s = 1024" and "length ls = 1 \<or> he_hosts e \<noteq> None"
  shows "\<exists>df s' pe. holds df (nat k) [] \<and> drop (pe + 1) (hosts_text ls k) = lines_text ls
    \<and> read_webhost_from_file e p s = hosts_loop e p ls (hosts_text ls k) pe df s'"
proof -
  define H where "H = hosts_header (int (length ls)) k"
  define B where "B = hosts_text ls k"
  have f: "0 \<le> k" "k \<le> 127" "ls \<noteq> []" "\<forall>l\<in>set ls. line_ok l" "length B < 2 ^ 31" using assms(1) by (simp_all add: file_ok_def B_def)
  have e: "\<not> he_fd e \<le> 0" "he_size e = Some (int (length B))" "he_buf e" "he_read e = Some B" "he_record e" "length (he_sep e) = 16"
    using assms(2) by (simp_all add: file_there_def B_def)
  have B: "B = H @ 10 # lines_text ls" by (simp add: B_def H_def hosts_text_def)
  have n: "length ls \<le> length (lines_text ls)" using lines_text_length f(4) by blast
  then have n2: "0 \<le> int (length ls)" "int (length ls) < 2 ^ 31" using f(5) by (simp_all add: B)
  note h = header_marks(1-3) [OF n2 f(1,2), of "10 # lines_text ls", folded H_def, folded B]
  note nl = header_marks(4) [OF n2 f(1,2), folded H_def]
  have q: "find_str B (int (length B) - 1) [10] = Inr (Some (length H))"
    using find_line_end [OF nl, of "lines_text ls"] n f(3) by (auto simp: B)
  obtain s1 where s1: "read_number B (int (length H)) (lit ''LINE='') s = Inr (Some (int (length ls)), s1)" "length s1 = 1024"
    using read_number_found [OF h(1) n2 assms(3)] by blast
  obtain s2 where s2: "read_number B (int (length H)) (lit ''MaxCol='') s1 = Inr (Some k, s2)"
    using read_number_found [OF h(3) _ _ s1(2)] f(1,2) by auto
  note sep = read_sep_found [OF h(2) e(6)]
  have i: "to_i8 k = k" "to_i32 (int (length B)) = int (length B)" using f(1,2,5) by (simp_all add: to_i8_def to_i32_def)
  have hs: "malloc (he_hosts e) (int (length ls)) \<noteq> Null" if "Suc 0 < length ls"
    using assms(4) that by (cases "he_hosts e") (auto simp: malloc_def)
  have "read_webhost_from_file e p s = hosts_loop e p ls B (length H) (snd (data_field_init True (\<lambda>_. None) (he_df e) k 0)) s2"
    unfolding read_webhost_from_file_def hosts_loop_def Let_def
    using e(1,3,5) hs by (simp only: e(2,4) q s1(1) s2 sep i option.case prod.case bindR_simps if_True if_False simp_thms nat_int) simp
  moreover have "drop (length H + 1) B = lines_text ls" by (simp add: B)
  ultimately show ?thesis using data_field_init_holds [OF f(1,2)] unfolding B_def by blast
qed

lemma free_empty:
  assumes "holds df k []"
  shows "\<exists>r. data_field_free_items df = Inr r"
  using assms by (auto simp: holds_def data_field_free_items_def)

lemma webhosts_read:
  assumes "file_ok ls k" and "2 \<le> length ls" and "file_there e ls k" and "length s = 1024"
    and "he_hosts e = Some g" and "\<forall>i. host_mem (g i)" and "allocs_ok e 0 ls"
  shows "\<exists>hs s'. read_webhost_from_file e p s
      = Inr (Some (int (length (hosts_text ls k)), \<lparr>webhost_num = int (length ls), p_webhosts = Live hs\<rparr>, s'))
    \<and> length hs = length ls \<and> (\<forall>j<length ls. host_is (hs ! j) (ls ! j))"
proof -
  have f: "9 \<le> k" "ls \<noteq> []" "\<forall>l\<in>set ls. line_ok l" using assms(1) by (simp_all add: file_ok_def)
  have "he_hosts e \<noteq> None" using assms(5) by simp
  then obtain df s' pe where r: "holds df (nat k) []" "drop (pe + 1) (hosts_text ls k) = lines_text ls"
    "read_webhost_from_file e p s = hosts_loop e p ls (hosts_text ls k) pe df s'"
    using read_file_header [OF assms(1,3,4)] by blast
  define m where "m = map g [0..<length ls]"
  have m: "malloc (he_hosts e) (int (length ls)) = Live m" "0 + length ls \<le> length m" "\<forall>h\<in>set m. host_mem h" "9 \<le> nat k"
    using assms(5,6) f(1) by (auto simp: malloc_def m_def)
  obtain df' hs where l: "read_lines e (hosts_text ls k) (int (length (hosts_text ls k)) - 1) [9] (length ls) 0 pe df (Live m) = Inr (Some (df', Live hs))"
    "holds df' (nat k) []" "length hs = length m" "\<forall>j<length ls. host_is (hs ! (0 + j)) (ls ! j)"
    using read_lines_hosts [OF r(2) f(2) refl r(1) m(4) f(3) assms(7) m(2,3) order_refl] by blast
  obtain x where "data_field_free_items df' = Inr x" using free_empty [OF l(2)] by blast
  then show ?thesis using r(3) l m(1) assms(2) by (auto simp: m_def hosts_loop_def)
qed

text \<open>C23. Round trip of the file of hosts: a file with a header of the form \<^verbatim>\<open>#LINE=n;Sep=<tab>;MaxCol=k;\<close> and two or more lines of fields is read back into
  one host per line, in the order of the lines, each with the addresses, ports and (for the type 1) the request of its line; the
  function returns the size of the file.\<close>

theorem hosts_file_read:
  assumes "file_ok ls k" and "2 \<le> length ls" and "file_there e ls k" and "length s = 1024"
    and "he_hosts e = Some g" and "\<forall>i. host_mem (g i)" and "allocs_ok e 0 ls"
  shows "\<exists>hs s'. read_webhost_from_file e p s
      = Inr (Some (int (length (hosts_text ls k)), \<lparr>webhost_num = int (length ls), p_webhosts = Live hs\<rparr>, s'))
    \<and> length hs = length ls \<and> (\<forall>j<length ls. host_is (hs ! j) (ls ! j))"
  using assms by (rule webhosts_read)

text \<open>A file of one line: no array is made for its host.\<close>

lemma one_host_null:
  assumes "file_ok [l] k" and "file_there e [l] k" and "length s = 1024" and "p_webhosts p = Null" and "allocs_ok e 0 [l]"
  shows "read_webhost_from_file e p s = Inl NullDeref"
proof -
  have f: "9 \<le> nat k" "line_ok l" using assms(1) by (auto simp: file_ok_def)
  obtain df s' pe where r: "holds df (nat k) []" "drop (pe + 1) (hosts_text [l] k) = lines_text [l]"
    "read_webhost_from_file e p s = hosts_loop e p [l] (hosts_text [l] k) pe df s'"
    using read_file_header [OF assms(1-3), of p] by auto
  have d: "drop (pe + 1) (hosts_text [l] k) = line_text l @ 10 # []" using r(2) by (simp add: lines_text_def)
  note a = allocs_ok_Cons [OF assms(5)]
  have "read_lines e (hosts_text [l] k) (int (length (hosts_text [l] k)) - 1) [9] (Suc 0) 0 pe df Null = Inl NullDeref"
    using read_lines_null [OF d refl r(1) f a(1,2)] by simp
  then show ?thesis using r(3) assms(4) by (simp add: hosts_loop_def)
qed

section \<open>A file\<close>

definition two_lines :: "host_line list" where
  "two_lines =
     [\<lparr>hl_src_ip = lit ''10.0.0.1'', hl_src_port = 1025, hl_dst_ip = lit ''10.0.0.2'', hl_dst_port = 80, hl_request = None\<rparr>,
      \<lparr>hl_src_ip = lit ''10.0.0.1'', hl_src_port = 1026, hl_dst_ip = lit ''10.0.0.3'', hl_dst_port = 8080,
        hl_request = Some (lit ''f1goal.org'', lit ''/'', lit ''ua'', [])\<rparr>]"

definition new_host :: webhost_info where
  "new_host = \<lparr>wh_type = 0, wh_src_ip = replicate 16 0, wh_src_port = 0, wh_dst_ip = replicate 16 0, wh_dst_port = 0,
     wh_host = replicate 128 0, wh_path = replicate 256 0, wh_ua = replicate 256 0, wh_cookie = replicate 1024 0\<rparr>"

definition two_lines_env :: hosts_env where
  "two_lines_env = \<lparr>he_fd = 3, he_size = Some (int (length (hosts_text two_lines 20))), he_buf = True, he_read = Some (hosts_text two_lines 20),
     he_hosts = Some (\<lambda>_. new_host), he_record = True, he_items = (\<lambda>i. replicate (if i = 0 then 5 else 9) (True, True)),
     he_sep = replicate 16 0, he_df = \<lparr>item_size = 0, item_num = 0, p_items = Null\<rparr>\<rparr>"

lemma hosts_file_read_witness:
  "\<exists>hs s'. read_webhost_from_file two_lines_env \<lparr>webhost_num = 0, p_webhosts = Null\<rparr> (replicate 1024 0)
      = Inr (Some (int (length (hosts_text two_lines 20)), \<lparr>webhost_num = 2, p_webhosts = Live hs\<rparr>, s'))
    \<and> length hs = 2 \<and> (\<forall>j<2. host_is (hs ! j) (two_lines ! j))"
proof -
  have n: "length two_lines = 2" by (simp add: two_lines_def)
  have "file_ok two_lines 20"
    by (simp add: file_ok_def hosts_text_def hosts_header_def lines_text_def line_text_def line_fields_def fields_text_def two_lines_def
        line_ok_def text_ok_def lit_def chr8_def int_text_def dec_text.simps)
  moreover have "file_there two_lines_env two_lines 20" by (simp add: file_there_def two_lines_env_def)
  moreover have "allocs_ok two_lines_env 0 two_lines"
    by (auto simp: allocs_ok_def n less_2_cases_iff two_lines_env_def two_lines_def line_fields_def)
  ultimately show ?thesis
    using hosts_file_read [of two_lines 20 two_lines_env "replicate 1024 0" "\<lambda>_. new_host" "\<lparr>webhost_num = 0, p_webhosts = Null\<rparr>"]
    by (simp add: n two_lines_env_def host_mem_def new_host_def)
qed

end
