(* ===== verification/Pk_Receiver.thy ===== *)
theory Pk_Receiver
  imports Pk_Sender
begin

text \<open>
  The callback of the packet receiver \<^verbatim>\<open>tools/pkreceiver_v2.c\<close>: it looks in a captured Ethernet frame for the marks
  the senders put into the load and prints what is behind them. Its static buffers live across the packets. \<open>ntop\<close> is
  \<^verbatim>\<open>inet_ntop\<close>.
\<close>

record receiver =
  g_log_buf :: bytes
  tbuf :: bytes

text \<open>The two bytes at an offset in network order.\<close>

definition rd_net16 :: "bytes \<Rightarrow> nat \<Rightarrow> nat run" where
  "rd_net16 m i = bindR (rd m i) (\<lambda>a. bindR (rd m (i + 1)) (\<lambda>b. Inr (256 * unat a + unat b)))"

text \<open>What is printed behind the value: the time of the capture, the addresses and the ports.\<close>

definition log_tail :: "timeval \<Rightarrow> bytes \<Rightarrow> nat \<Rightarrow> bytes \<Rightarrow> nat \<Rightarrow> bytes" where
  "log_tail ts src sport dst dport =
     lit ''|'' @ int_text (tv_sec ts) @ lit ''.'' @ int_text (tv_usec ts) @ lit ''|'' @ src @ lit ''|'' @ dec_text sport
       @ lit ''|'' @ dst @ lit ''|'' @ dec_text dport"

text \<open>One search: the value goes to \<^verbatim>\<open>tbuf\<close>, which gets no terminator, and is appended to the log line, which is
  printed. The result has the lines printed.\<close>

definition report_mark :: "bytes \<Rightarrow> bytes \<Rightarrow> bytes \<Rightarrow> int \<Rightarrow> bytes \<Rightarrow> receiver \<Rightarrow> (bytes list \<times> receiver) run" where
  "report_mark prev post load n info r =
     bindR (substr load n prev post 1024) (\<lambda>(len, d).
     bindR (put (tbuf r) 0 d) (\<lambda>t.
       if len > 0 then
         bindR (cstr t) (\<lambda>v.
         bindR (strcat (g_log_buf r) (v @ info)) (\<lambda>l.
         bindR (cstr l) (\<lambda>line. Inr ([line], r\<lparr>g_log_buf := l, tbuf := t\<rparr>))))
       else Inr ([], r\<lparr>tbuf := t\<rparr>)))"

text \<open>The header of the transport protocol at \<open>off\<close>: the name put into the log, the offset of the load, its size and the ports;
  \<open>None\<close> for another protocol. \<open>plen\<close> is the length of the packet on the wire, unsigned like the arithmetic it is used in.\<close>

definition transport :: "bytes \<Rightarrow> nat \<Rightarrow> int \<Rightarrow> (bytes \<times> nat \<times> int \<times> nat \<times> nat) option run" where
  "transport m off plen =
     bindR (rd m 23) (\<lambda>proto.
       if proto = 6 then
         bindR (rd m (off + 12)) (\<lambda>d.
         let hl = (unat d div 16) * 4 in
         bindR (rd_net16 m off) (\<lambda>sport. bindR (rd_net16 m (off + 2)) (\<lambda>dport.
           Inr (Some (lit ''tcp|'', off + hl, to_i32 (plen - int off - int hl), sport, dport)))))
       else if proto = 17 then
         bindR (rd_net16 m off) (\<lambda>sport. bindR (rd_net16 m (off + 2)) (\<lambda>dport.
           Inr (Some (lit ''udp|'', off + 8, to_i32 (plen - int off - 8), sport, dport))))
       else Inr None)"

definition packet_handler :: "(bytes \<Rightarrow> bytes option) \<Rightarrow> timeval \<Rightarrow> int \<Rightarrow> bytes \<Rightarrow> receiver \<Rightarrow> (bytes list \<times> receiver) run" where
  "packet_handler ntop ts plen m r =
     bindR (rd_net16 m 12) (\<lambda>et.
       if et \<noteq> 0x800 then Inr ([], r)
       else
         bindR (wr (g_log_buf r) 0 0) (\<lambda>l0.
         let r0 = r\<lparr>g_log_buf := l0\<rparr> in
         bindR (slice m 26 4) (\<lambda>sa.
           case ntop sa of
             None \<Rightarrow> Inr ([], r0)
           | Some src \<Rightarrow>
               bindR (slice m 30 4) (\<lambda>da.
                 case ntop da of
                   None \<Rightarrow> Inr ([], r0)
                 | Some dst \<Rightarrow>
                     bindR (rd m 14) (\<lambda>v.
                     bindR (transport m (14 + (unat v mod 16) * 4) plen) (\<lambda>x.
                       case x of
                         None \<Rightarrow> Inr ([], r0)
                       | Some (name, off, sz, sport, dport) \<Rightarrow>
                           bindR (strcat l0 name) (\<lambda>l1.
                           let info = log_tail ts src sport dst dport in
                           bindR (report_mark (lit ''&o_url='') (lit ''&'') (drop off m) (sz - 1) info (r0\<lparr>g_log_buf := l1\<rparr>)) (\<lambda>(o1, r1).
                           bindR (report_mark (lit ''&timestamp='') (lit '';'') (drop off m) (sz - 1) info r1) (\<lambda>(o2, r2).
                             Inr (o1 @ o2, r2))))))))))"

section \<open>Texts\<close>

definition good_time :: "timeval \<Rightarrow> bool" where
  "good_time tv \<longleftrightarrow> 0 \<le> tv_sec tv \<and> tv_sec tv < 10 ^ 10 \<and> 0 \<le> tv_usec tv \<and> tv_usec tv < 10 ^ 6"

definition time_value :: "timeval \<Rightarrow> bytes" where
  "time_value tv = int_text (tv_sec tv) @ lit ''.'' @ int_text (tv_usec tv)"

lemma time_value_text:
  assumes "good_time tv"
  shows "length (time_value tv) \<le> 17" and "c \<in> set (time_value tv) \<Longrightarrow> unat c = 46 \<or> 48 \<le> unat c \<and> unat c \<le> 57"
proof -
  have "nat (tv_sec tv) < 10 ^ 10" "nat (tv_usec tv) < 10 ^ 6" using assms by (auto simp: good_time_def nat_less_iff)
  then have "length (dec_text (nat (tv_sec tv))) \<le> 10" "length (dec_text (nat (tv_usec tv))) \<le> 6" by (simp_all add: dec_length)
  then show "length (time_value tv) \<le> 17" using assms by (simp add: time_value_def int_text_def good_time_def lit_def)
  show "c \<in> set (time_value tv) \<Longrightarrow> unat c = 46 \<or> 48 \<le> unat c \<and> unat c \<le> 57"
    using assms dec_chars by (auto simp: time_value_def int_text_def good_time_def lit_def chr8_def)
qed

lemma net16_htons: "le16 (htons x) = [ucast (drop_bit 8 x), ucast x]"
proof -
  define a :: u8 where "a = ucast x"
  define b :: u8 where "b = ucast (drop_bit 8 x)"
  have lo: "uint (ucast c :: u8) = uint c mod 256" for c :: u16
    by (simp add: unsigned_ucast_eq take_bit_eq_mod)
  have hi: "uint (ucast (drop_bit 8 c) :: u8) = uint c div 256 mod 256" for c :: u16
    unfolding lo by (simp add: drop_bit_eq_div uint_div_distrib)
  have "htons x = word_of_int (uint b + 256 * uint a)"
    by (simp add: htons_def word_rcat_def a_def [symmetric] b_def [symmetric])
  then have "uint (htons x) = (uint b + 256 * uint a) mod 65536" by (simp only: uint_word_of_int) simp
  moreover have "uint a < 256" "uint b < 256" "0 \<le> uint a" "0 \<le> uint b" using uint_u8 by auto
  ultimately have h: "uint (htons x) = uint b + 256 * uint a" by (simp add: mod_pos_pos_trivial)
  have "(ucast (htons x) :: u8) = b" "(ucast (drop_bit 8 (htons x)) :: u8) = a"
    unfolding word_uint_eq_iff hi unfolding lo h using uint_u8 [of a] uint_u8 [of b] by simp_all
  then show ?thesis by (simp add: le16_def a_def b_def)
qed
lemma net16_value: "256 * unat (ucast (drop_bit 8 x) :: u8) + unat (ucast x :: u8) = unat (x :: u16)"
proof -
  have "int (256 * unat (ucast (drop_bit 8 x) :: u8) + unat (ucast x :: u8)) = int (unat x)"
    using wsum_le16 [of x] by (simp add: le16_def)
  then show ?thesis by (simp only: of_nat_eq_iff)
qed

lemma rd_net16_htons:
  "rd_net16 (m @ le16 (htons x) @ z) (length m) = Inr (unat x)"
  using net16_value [of x] by (simp add: rd_net16_def net16_htons nth_append)

lemma one_ampersand:
  assumes "0x26 \<notin> set z"
  shows "first_occ (lit ''&o_url='') (lit ''&timestamp='' @ z) = None"
  by (rule first_occ_no_mark) (use assms in \<open>simp_all add: lit_def chr8_def no_mark_Cons no_mark_first\<close>)

section \<open>The handler\<close>

text \<open>\<^verbatim>\<open>tbuf\<close> shows the text \<open>u\<close>, and what is behind it is as it was at the start; and what it shows when \<open>v\<close> is
  copied over it without a terminator: behind \<open>v\<close> there is what a longer \<open>u\<close> had there.\<close>

definition tbuf_is :: "bytes \<Rightarrow> receiver \<Rightarrow> bool" where
  "tbuf_is u r \<longleftrightarrow> tbuf r = u @ replicate (1024 - length u) 0 \<and> 0 \<notin> set u \<and> length u < 1024"

definition shown :: "bytes \<Rightarrow> bytes \<Rightarrow> bytes" where
  "shown v u = v @ drop (length v) u"

lemma shown_longer [simp]: "length u \<le> length v \<Longrightarrow> shown v u = v"
  by (simp add: shown_def)

lemma shown_length: "length (shown v u) = max (length v) (length u)"
  by (simp add: shown_def)

lemma shown_set: "c \<in> set (shown v u) \<Longrightarrow> c \<in> set v \<or> c \<in> set u"
  by (auto simp: shown_def dest: in_set_dropD)

lemma tbuf_value:
  assumes "length v < 1024" and "0 \<notin> set v" and "tbuf_is u r"
  defines "t \<equiv> shown v u @ replicate (1024 - length (shown v u)) 0"
  shows "put (tbuf r) 0 v = Inr t" and "cstr t = Inr (shown v u)" and "tbuf_is (shown v u) (r'\<lparr>tbuf := t\<rparr>)"
proof -
  have r: "tbuf r = u @ replicate (1024 - length u) 0" and u: "0 \<notin> set u" "length u < 1024"
    using assms(3) by (simp_all add: tbuf_is_def)
  have nz: "0 \<notin> set (shown v u)" using shown_set [of 0 v u] assms(2) u(1) by blast
  have l: "length (shown v u) < 1024" using assms(1) u(2) by (simp add: shown_length)
  have "v @ drop (length v) (u @ replicate (1024 - length u) 0) = t"
    using u(2) assms(1) by (cases "length v \<le> length u") (simp_all add: t_def shown_def)
  moreover have "length (u @ replicate (1024 - length u) (0 :: u8)) = 1024" using u(2) by simp
  ultimately show "put (tbuf r) 0 v = Inr t" using assms(1) by (simp add: r)
  have "replicate (1024 - length (shown v u)) (0 :: u8) = 0 # replicate (1023 - length (shown v u)) 0"
    using l by (simp add: Suc_diff_Suc flip: replicate_Suc)
  then show "cstr t = Inr (shown v u)" using nz by (simp add: t_def cstr_at)
  show "tbuf_is (shown v u) (r'\<lparr>tbuf := t\<rparr>)" using nz l by (simp add: tbuf_is_def t_def)
qed

lemma tbuf_start: "tbuf r = replicate 1024 0 \<Longrightarrow> tbuf_is [] r"
  by (simp add: tbuf_is_def)

lemma report_nothing:
  "substr load n prev post 1024 = Inr (0, []) \<Longrightarrow> report_mark prev post load n info r = Inr ([], r)"
  by (simp add: report_mark_def)

lemma report_value:
  assumes "substr load n prev post 1024 = Inr (int (length v), v)" and "v \<noteq> []" and "length v < 1024" and "0 \<notin> set (s @ v @ info)"
    and "tbuf_is u r" and "g_log_buf r = s @ 0 # z" and "length (shown v u @ info) \<le> length z"
  shows "\<exists>r'. report_mark prev post load n info r = Inr ([s @ shown v u @ info], r') \<and> tbuf_is (shown v u) r'
    \<and> length (g_log_buf r') = length (g_log_buf r)"
proof -
  let ?w = "shown v u"
  let ?t = "?w @ replicate (1024 - length ?w) 0"
  define m where "m = (s @ ?w @ info) @ 0 # drop (length (?w @ info)) z"
  have nz: "0 \<notin> set (s @ ?w @ info)" using assms(4,5) shown_set [of 0 v u] by (auto simp: tbuf_is_def)
  have t: "put (tbuf r) 0 v = Inr ?t" "cstr ?t = Inr ?w" "tbuf_is ?w (r\<lparr>g_log_buf := m\<rparr>\<lparr>tbuf := ?t\<rparr>)"
    using tbuf_value [OF assms(3) _ assms(5)] assms(4) by auto
  have m: "strcat (s @ 0 # z) (?w @ info) = Inr m" using strcat_at [of s "?w @ info" z] nz assms(7) by (simp add: m_def)
  have "cstr m = Inr (s @ ?w @ info)" unfolding m_def using nz by (intro cstr_at)
  then have "report_mark prev post load n info r = Inr ([s @ ?w @ info], r\<lparr>g_log_buf := m, tbuf := ?t\<rparr>)"
    using assms(1,2,6) t(1,2) m by (simp add: report_mark_def)
  moreover have "length m = length (g_log_buf r)" using assms(6,7) by (simp add: m_def)
  ultimately show ?thesis using t(3) by auto
qed

text \<open>What is read from \<^verbatim>\<open>tbuf\<close> is at least as long as the value copied into it.\<close>

lemma cstr_behind:
  assumes "0 \<notin> set v"
  shows "cstr (v @ y) = Inl OutOfBounds \<or> (\<exists>w. cstr (v @ y) = Inr (v @ w))"
proof (cases "0 \<in> set (v @ y)")
  case True
  have "takeWhile (\<lambda>c. c \<noteq> 0) (v @ y) = v @ takeWhile (\<lambda>c. c \<noteq> 0) y" using assms by (intro takeWhile_append2) auto
  then show ?thesis using True by (simp add: cstr_def)
qed (simp add: cstr_def)

lemma report_overrun:
  assumes "substr load n prev post 1024 = Inr (int (length v), v)" and "v \<noteq> []" and "length v \<le> length (tbuf r)" and "0 \<notin> set (s @ v)"
    and "g_log_buf r = s @ 0 # z" and "length z < length v"
  shows "report_mark prev post load n info r = Inl OutOfBounds"
proof -
  have "put (tbuf r) 0 v = Inr (v @ drop (length v) (tbuf r))" using assms(3) by simp
  moreover have "strcat (s @ 0 # z) (v @ w @ info) = Inl OutOfBounds" for w using assms(4,6) by (intro strcat_full) auto
  ultimately show ?thesis
    using assms(1,2,4,5) cstr_behind [of v "drop (length v) (tbuf r)"] by (auto simp: report_mark_def)
qed

text \<open>What a handler reads in a frame with a TCP packet.\<close>

lemma tcp_frame:
  assumes "length e = 12" and "length L < 65536" and "F = e @ [8, 0] @ pk_ip_hdr pid src dst n c @ create_tcp_hdr (htons sp) (htons dp) t @ L"
  shows "rd_net16 F 12 = Inr 0x800" and "slice F 26 4 = Inr (le32 src)" and "slice F 30 4 = Inr (le32 dst)" and "rd F 14 = Inr 0x45"
    and "transport F 34 (54 + int (length L)) = Inr (Some (lit ''tcp|'', 54, int (length L), unat sp, unat dp))" and "drop 54 F = L"
proof -
  define ip where "ip = pk_ip_hdr pid src dst n c"
  define tcp where "tcp = create_tcp_hdr (htons sp) (htons dp) t"
  have F: "F = e @ [8, 0] @ ip @ tcp @ L" using assms(3) by (simp add: ip_def tcp_def)
  have l: "length ip = 20" "length tcp = 20" "length F = 54 + length L" using assms(1) by (simp_all add: ip_def tcp_def F)
  show "rd_net16 F 12 = Inr 0x800" using assms(1) by (simp add: rd_net16_def F nth_append)
  show "slice F 26 4 = Inr (le32 src)" "slice F 30 4 = Inr (le32 dst)"
    using assms(1) l by (simp_all add: F ip_def pk_ip_hdr_def le32_def le16_def)
  show "rd F 14 = Inr 0x45" using assms(1) l by (simp add: F ip_def pk_ip_hdr_def le32_def le16_def nth_append)
  have "rd F 23 = Inr 6" using assms(1) l by (simp add: F ip_def pk_ip_hdr_def le32_def le16_def nth_append)
  moreover have "rd F 46 = Inr 0x50"
    using assms(1) l by (simp add: F tcp_def create_tcp_hdr_def le32_def le16_def nth_append)
  moreover have "rd_net16 F 34 = Inr (unat sp)" "rd_net16 F 36 = Inr (unat dp)"
    using assms(1) l rd_net16_htons [of "e @ [8, 0] @ ip" sp] rd_net16_htons [of "e @ [8, 0] @ ip @ le16 (htons sp)" dp]
    by (simp_all add: F tcp_def create_tcp_hdr_def)
  moreover have "to_i32 (int (length L)) = int (length L)" using assms(2) by (simp add: to_i32_def)
  ultimately show "transport F 34 (54 + int (length L)) = Inr (Some (lit ''tcp|'', 54, int (length L), unat sp, unat dp))"
    by (simp add: transport_def Let_def)
  show "drop 54 F = L" using assms(1) l by (simp add: F)
qed

lemma tcp_name_put:
  assumes "4 \<le> length z"
  shows "strcat (0 # z) (lit ''tcp|'') = Inr (lit ''tcp|'' @ 0 # drop 4 z)"
proof -
  have "length (lit ''tcp|'') = 4" by (simp add: lit_def)
  then show ?thesis using strcat_at [of "[]" "lit ''tcp|''" z] assms by simp
qed

lemma handler_tcp:
  assumes "length e = 12" and "ntop (le32 src) = Some st" and "ntop (le32 dst) = Some dt" and "length L < 65536"
    and "g_log_buf r = x # z" and "4 \<le> length z"
  shows "packet_handler ntop ts (54 + int (length L)) (e @ [8, 0] @ pk_ip_hdr pid src dst n c @ create_tcp_hdr (htons sp) (htons dp) t @ L) r =
    (let info = log_tail ts st (unat sp) dt (unat dp) in
     bindR (report_mark (lit ''&o_url='') (lit ''&'') L (int (length L) - 1) info (r\<lparr>g_log_buf := lit ''tcp|'' @ 0 # drop 4 z\<rparr>)) (\<lambda>(o1, r1).
     bindR (report_mark (lit ''&timestamp='') (lit '';'') L (int (length L) - 1) info r1) (\<lambda>(o2, r2).
       Inr (o1 @ o2, r2))))"
proof -
  define F where "F = e @ [8, 0] @ pk_ip_hdr pid src dst n c @ create_tcp_hdr (htons sp) (htons dp) t @ L"
  show ?thesis
    unfolding F_def [symmetric]
    using assms(2,3,5) tcp_frame [OF assms(1,4) F_def] tcp_name_put [OF assms(6)] by (simp add: packet_handler_def Let_def)
qed

section \<open>From the sender to the receiver\<close>

lemma time_load_value: "time_load tv = lit ''&timestamp='' @ time_value tv @ lit '';''"
  by (simp add: time_load_def time_value_def)

lemma log_tail_text:
  assumes "good_time ts" and "length st \<le> 15" and "length dt \<le> 15" and "0 \<notin> set st" and "0 \<notin> set dt"
  shows "length (log_tail ts st (unat (sp :: u16)) dt (unat (dp :: u16))) \<le> 62" and "0 \<notin> set (log_tail ts st (unat sp) dt (unat dp))"
proof -
  have t: "log_tail ts st (unat sp) dt (unat dp) = lit ''|'' @ time_value ts @ lit ''|'' @ st @ lit ''|'' @ dec_text (unat sp) @ lit ''|'' @ dt
      @ lit ''|'' @ dec_text (unat dp)"
    by (simp add: log_tail_def time_value_def)
  have "unat sp < 2 ^ LENGTH(16)" "unat dp < 2 ^ LENGTH(16)" by (rule unsigned_less)+
  then have "length (dec_text (unat sp)) \<le> 5" "length (dec_text (unat dp)) \<le> 5" by (simp_all add: dec_length)
  then show "length (log_tail ts st (unat sp) dt (unat dp)) \<le> 62"
    unfolding t using time_value_text(1) [OF assms(1)] assms(2,3) by (simp add: lit_def)
  show "0 \<notin> set (log_tail ts st (unat sp) dt (unat dp))"
    unfolding t using time_value_text(2) [OF assms(1), of 0] dec_chars [of 0] assms(4,5) by (auto simp: lit_def chr8_def)
qed

text \<open>What the two searches find in the load of a time stamp; \<open>R\<close> is what the buffer held behind it.\<close>

lemma time_load_found:
  assumes "good_time tv" and "0x26 \<notin> set R" and "length (time_load tv @ R) = 32"
  shows "substr (time_load tv @ R) 31 (lit ''&o_url='') (lit ''&'') 1024 = Inr (0, [])"
    and "substr (time_load tv @ R) 31 (lit ''&timestamp='') (lit '';'') 1024 = Inr (int (length (time_value tv)), time_value tv)"
proof -
  let ?v = "time_value tv"
  note v = time_value_text [OF assms(1)]
  define b where "b = take (length R - 1) R"
  define c where "c = drop (length R - 1) R"
  have R: "R = b @ c" by (simp add: b_def c_def)
  have "length R > 0" using assms(3) v(1) by (cases R) (simp_all add: time_load_value lit_def)
  then have n: "length (lit ''&timestamp='' @ ?v @ lit '';'' @ b) = 31"
    using assms(3) by (cases R) (auto simp: time_load_value b_def)
  have t: "time_load tv @ R = (lit ''&timestamp='' @ ?v @ lit '';'' @ b) @ c" by (simp add: time_load_value R)
  have no: "0x26 \<notin> set (?v @ lit '';'' @ b)"
    using v(2) [of "0x26"] assms(2) by (auto simp: R lit_def chr8_def)
  have "first_occ (lit ''&o_url='') (take 31 (time_load tv @ R)) = None"
    unfolding t using n one_ampersand [OF no] by simp
  then show "substr (time_load tv @ R) 31 (lit ''&o_url='') (lit ''&'') 1024 = Inr (0, [])"
    using assms(3) by (intro substr_absent) (simp_all add: lit_def)
  show "substr (time_load tv @ R) 31 (lit ''&timestamp='') (lit '';'') 1024 = Inr (int (length ?v), ?v)"
    using substr_mark [of "lit ''&timestamp=''" "[]" ?v "0x3B" b 1024 "time_load tv @ R" c 31] v(1) v(2) [of "0x3B"] n
    by (auto simp: t lit_def chr8_def)
qed

text \<open>The sender with an object, and no mark in its buffer behind where the load begins.\<close>

definition sender_ready :: "sender \<Rightarrow> bool" where
  "sender_ready s \<longleftrightarrow> (\<exists>p x. p_ho s = Some p \<and> ho_holds p x) \<and> length (g_buf s) = 2048 \<and> 0x26 \<notin> set (drop 41 (g_buf s))"

definition time_packet :: "bytes \<Rightarrow> timeval \<Rightarrow> u32 \<Rightarrow> u32 \<Rightarrow> u16 \<Rightarrow> u16 \<Rightarrow> bool" where
  "time_packet packet tv src dst sport dport \<longleftrightarrow> (\<exists>pid k c R. packet = pk_ip_hdr pid src dst 72 k @ create_tcp_hdr (htons sport) (htons dport) c
     @ time_load tv @ R \<and> length (time_load tv @ R) = 32 \<and> 0x26 \<notin> set R)"

lemma time_packet_sent:
  assumes "sender_ready s" and "wh_type w = 0" and "wh_src_ip w = a @ 0 # za" and "0 \<notin> set a" and "pton a = Some src"
    and "wh_dst_ip w = b @ 0 # zb" and "0 \<notin> set b" and "pton b = Some dst" and "good_time tv"
  shows "\<exists>packet s'. build_packet pton pid tv s w = Inr (Some packet, s') \<and> sender_ready s' \<and> pk_chk_sum (Some packet) 20 = Inr 0
    \<and> time_packet packet tv src dst (wh_src_port w) (wh_dst_port w)"
proof -
  obtain p x where p: "p_ho s = Some p" "ho_holds p x" "length (g_buf s) = 2048" "0x26 \<notin> set (drop 41 (g_buf s))"
    using assms(1) by (auto simp: sender_ready_def)
  obtain p0 where p0: "http_object_reset p = Inr (F1G_OK, p0)" "ho_holds p0 []" using http_object_reset_empties [OF p(2)] by blast
  define s0 where "s0 = s\<lparr>p_ho := Some p0\<rparr>"
  note v = time_value_text [OF assms(9)]
  have len: "length (time_load tv) \<le> 29" using v(1) by (simp add: time_load_value lit_def)
  define R where "R = take (32 - length (time_load tv)) (0 # drop (41 + length (time_load tv)) (g_buf s))"
  have no: "0x26 \<notin> set (drop (41 + length (time_load tv)) (g_buf s))"
    using p(4) set_drop_subset [of "length (time_load tv)" "drop 41 (g_buf s)"] by (auto simp: add.commute)
  then have R: "0x26 \<notin> set R" using set_take_subset by (fastforce simp: R_def)
  have L: "take 32 (time_load tv @ [0] @ drop (41 + length (time_load tv)) (g_buf s0)) = time_load tv @ R" "length (time_load tv @ R) = 32"
    using len p(3) by (simp_all add: R_def s0_def)
  obtain k c h where f: "fill_packet pid tv src dst s0 p0 w = Inr (Some (pk_ip_hdr pid src dst 72 k @
      create_tcp_hdr (htons (wh_src_port w)) (htons (wh_dst_port w)) c @ time_load tv @ R),
      s0\<lparr>g_buf := h @ time_load tv @ [0] @ drop (41 + length (time_load tv)) (g_buf s0), load_size := Some 32\<rparr>)"
    and h: "length h = 40" and chk: "\<forall>z. pk_chk_sum (Some (pk_ip_hdr pid src dst 72 k @ z)) 20 = Inr 0"
    using fill_time_packet [of s0 tv w pid src dst p0] len p(3) assms(2) unfolding L(1) by (auto simp: s0_def)
  let ?s = "s0\<lparr>g_buf := h @ time_load tv @ [0] @ drop (41 + length (time_load tv)) (g_buf s0), load_size := Some 32\<rparr>"
  have "drop 41 (g_buf ?s) = tl (time_load tv) @ 0 # drop (41 + length (time_load tv)) (g_buf s)"
    using h by (simp add: time_load_value lit_def s0_def drop_Suc)
  moreover have "0x26 \<notin> set (tl (time_load tv))" using v(2) [of "0x26"] by (auto simp: time_load_value lit_def chr8_def)
  ultimately have "sender_ready ?s" using p0(2) p(3) h len no by (auto simp: sender_ready_def s0_def)
  moreover have "build_packet pton pid tv s w = Inr (Some (pk_ip_hdr pid src dst 72 k @
      create_tcp_hdr (htons (wh_src_port w)) (htons (wh_dst_port w)) c @ time_load tv @ R), ?s)"
    using assms(3-8) p(1) p0(1) f by (simp add: build_packet_def cstr_at s0_def)
  moreover have "time_packet (pk_ip_hdr pid src dst 72 k @ create_tcp_hdr (htons (wh_src_port w)) (htons (wh_dst_port w)) c @ time_load tv @ R)
      tv src dst (wh_src_port w) (wh_dst_port w)"
    using L(2) R by (auto simp: time_packet_def)
  ultimately show ?thesis using chk by blast
qed

lemma time_packet_handled:
  assumes "time_packet packet tv src dst sport dport" and "good_time tv" and "good_time ts" and "length e = 12"
    and "ntop (le32 src) = Some st" and "length st \<le> 15" and "0 \<notin> set st"
    and "ntop (le32 dst) = Some dt" and "length dt \<le> 15" and "0 \<notin> set dt"
    and "length (g_log_buf r) = 256" and "tbuf_is u r" and "length u \<le> 17"
  shows "\<exists>r'. packet_handler ntop ts (14 + int (length packet)) (e @ [8, 0] @ packet) r =
      Inr ([lit ''tcp|'' @ shown (time_value tv) u @ log_tail ts st (unat sport) dt (unat dport)], r')
    \<and> length (g_log_buf r') = 256 \<and> tbuf_is (shown (time_value tv) u) r'"
proof -
  let ?v = "time_value tv" and ?info = "log_tail ts st (unat sport) dt (unat dport)"
  obtain pid k c R where packet: "packet = pk_ip_hdr pid src dst 72 k @ create_tcp_hdr (htons sport) (htons dport) c @ time_load tv @ R"
    and L: "length (time_load tv @ R) = 32" and R: "0x26 \<notin> set R"
    using assms(1) by (auto simp: time_packet_def)
  note v = time_value_text [OF assms(2)] and info = log_tail_text [OF assms(3,6,9,7,10), of sport dport]
  obtain y z where g: "g_log_buf r = y # z" "length z = 255" using assms(11) by (cases "g_log_buf r") auto
  define r1 where "r1 = r\<lparr>g_log_buf := lit ''tcp|'' @ 0 # drop 4 z\<rparr>"
  have "report_mark (lit ''&o_url='') (lit ''&'') (time_load tv @ R) 31 ?info r1 = Inr ([], r1)"
    using time_load_found(1) [OF assms(2) R L] by (rule report_nothing)
  moreover have nz: "0 \<notin> set (lit ''tcp|'' @ ?v @ ?info)" using v(2) [of 0] info(2) by (auto simp: lit_def chr8_def)
  have sl: "length (shown ?v u) \<le> 17" using v(1) assms(13) by (simp add: shown_length)
  obtain r' where r': "report_mark (lit ''&timestamp='') (lit '';'') (time_load tv @ R) 31 ?info r1 = Inr ([lit ''tcp|'' @ shown ?v u @ ?info], r')"
    "tbuf_is (shown ?v u) r'" "length (g_log_buf r') = length (g_log_buf r1)"
    using report_value [OF time_load_found(2) [OF assms(2) R L] _ _ nz, of u r1 "drop 4 z"] v(1) sl info(1) g(2) assms(12)
    by (auto simp: r1_def time_value_def lit_def tbuf_is_def)
  moreover have "length packet = 72" using L by (simp add: packet)
  moreover have "packet_handler ntop ts 86 (e @ [8, 0] @ packet) r =
      bindR (report_mark (lit ''&o_url='') (lit ''&'') (time_load tv @ R) 31 ?info r1) (\<lambda>(o1, r1).
      bindR (report_mark (lit ''&timestamp='') (lit '';'') (time_load tv @ R) 31 ?info r1) (\<lambda>(o2, r2). Inr (o1 @ o2, r2)))"
    using handler_tcp [of e ntop src st dst dt "time_load tv @ R" r y z ts pid 72 k sport dport c]
    unfolding L packet [symmetric] r1_def [symmetric] using assms(4,5,8) g by (simp add: Let_def)
  moreover have "length (g_log_buf r1) = 256" using g(2) by (simp add: r1_def lit_def)
  ultimately show ?thesis by auto
qed

text \<open>The packet that the sender builds for a host of type 0 has an IP header with a valid checksum, and the receiver that captures it
  prints the time that was put into it, with the addresses and ports of the host. What is behind the load in the sender's buffer does
  not matter as long as it has no mark; the receiver's buffers are as they are before the first packet.\<close>

theorem time_stamp_received:
  assumes "p_ho s = Some p" and "ho_holds p x" and "length (g_buf s) = 2048" and "0x26 \<notin> set (drop 41 (g_buf s))"
    and "wh_type w = 0" and "wh_src_ip w = a @ 0 # za" and "0 \<notin> set a" and "pton a = Some src"
    and "wh_dst_ip w = b @ 0 # zb" and "0 \<notin> set b" and "pton b = Some dst"
    and "good_time tv" and "good_time ts" and "length e = 12"
    and "ntop (le32 src) = Some st" and "length st \<le> 15" and "0 \<notin> set st"
    and "ntop (le32 dst) = Some dt" and "length dt \<le> 15" and "0 \<notin> set dt"
    and "length (g_log_buf r) = 256" and "tbuf r = replicate 1024 0"
  shows "\<exists>packet s' r'. build_packet pton pid tv s w = Inr (Some packet, s') \<and> pk_chk_sum (Some packet) 20 = Inr 0 \<and>
    packet_handler ntop ts (14 + int (length packet)) (e @ [8, 0] @ packet) r =
      Inr ([lit ''tcp|'' @ time_value tv @ log_tail ts st (unat (wh_src_port w)) dt (unat (wh_dst_port w))], r')"
proof -
  have "sender_ready s" using assms(1-4) by (auto simp: sender_ready_def)
  then obtain packet s' where p: "build_packet pton pid tv s w = Inr (Some packet, s')" "pk_chk_sum (Some packet) 20 = Inr 0"
    "time_packet packet tv src dst (wh_src_port w) (wh_dst_port w)"
    using time_packet_sent [OF _ assms(5-12)] by blast
  then show ?thesis using time_packet_handled [OF p(3) assms(12-21) tbuf_start [OF assms(22)]] by fastforce
qed

lemma time_stamp_received_witness:
  "\<exists>p packet s' r'. http_object_create True True (Some (\<lambda>_. 0)) Null 0 = (Some p, Null)
    \<and> build_packet (\<lambda>_. Some 1) 7 \<lparr>tv_sec = 12, tv_usec = 5\<rparr>
        \<lparr>g_buf = replicate 2048 0, req_line = replicate 128 0, p_ho = Some p, load_size = None\<rparr>
        \<lparr>wh_type = 0, wh_src_ip = [0x31] @ 0 # [], wh_src_port = 80, wh_dst_ip = [0x32] @ 0 # [], wh_dst_port = 443,
         wh_host = [], wh_path = [], wh_ua = [], wh_cookie = []\<rparr> = Inr (Some packet, s')
    \<and> packet_handler (\<lambda>_. Some [0x33]) \<lparr>tv_sec = 13, tv_usec = 0\<rparr> (14 + int (length packet)) (replicate 12 0 @ [8, 0] @ packet)
        \<lparr>g_log_buf = replicate 256 0, tbuf = replicate 1024 0\<rparr>
      = Inr ([lit ''tcp|'' @ time_value \<lparr>tv_sec = 12, tv_usec = 5\<rparr> @ log_tail \<lparr>tv_sec = 13, tv_usec = 0\<rparr> [0x33] 80 [0x33] 443], r')"
proof -
  obtain p where p: "http_object_create True True (Some (\<lambda>_. 0)) Null 0 = (Some p, Null)" "ho_holds p []" using new_object by blast
  let ?s = "\<lparr>g_buf = replicate 2048 0, req_line = replicate 128 0, p_ho = Some p, load_size = None\<rparr>"
  let ?w = "\<lparr>wh_type = 0, wh_src_ip = [0x31] @ 0 # [], wh_src_port = 80, wh_dst_ip = [0x32] @ 0 # [], wh_dst_port = 443,
    wh_host = [], wh_path = [], wh_ua = [], wh_cookie = []\<rparr>"
  have "\<exists>packet s' r'. build_packet (\<lambda>_. Some 1) 7 \<lparr>tv_sec = 12, tv_usec = 5\<rparr> ?s ?w = Inr (Some packet, s') \<and>
    pk_chk_sum (Some packet) 20 = Inr 0 \<and>
    packet_handler (\<lambda>_. Some [0x33]) \<lparr>tv_sec = 13, tv_usec = 0\<rparr> (14 + int (length packet)) (replicate 12 0 @ [8, 0] @ packet)
        \<lparr>g_log_buf = replicate 256 0, tbuf = replicate 1024 0\<rparr>
      = Inr ([lit ''tcp|'' @ time_value \<lparr>tv_sec = 12, tv_usec = 5\<rparr> @ log_tail \<lparr>tv_sec = 13, tv_usec = 0\<rparr> [0x33] (unat (wh_src_port ?w)) [0x33] (unat (wh_dst_port ?w))], r')"
    by (rule time_stamp_received [of ?s p "[]" ?w "[0x31]" "[]" _ 1 "[0x32]" "[]" 1]) (simp_all add: p good_time_def)
  then show ?thesis using p(1) by auto
qed

text \<open>C37. A captured packet whose load has a mark with a value of 252 to 1024 bytes makes the receiver write behind its log buffer of
  256 bytes, or read behind \<^verbatim>\<open>tbuf\<close> when that has no terminator any more, whatever the two buffers hold; the value comes from the
  network. A longer value is not copied by \<^verbatim>\<open>substr\<close>.\<close>

theorem captured_value_overruns_log:
  assumes "length e = 12" and "ntop (le32 src) = Some st" and "ntop (le32 dst) = Some dt"
    and "0 \<notin> set v" and "0x26 \<notin> set v" and "252 \<le> length v" and "length v \<le> 1024" and "length z < 60000" and "z \<noteq> []"
    and "length (g_log_buf r) = 256" and "length (tbuf r) = 1024"
  shows "packet_handler ntop ts (62 + int (length v) + int (length z))
    (e @ [8, 0] @ pk_ip_hdr pid src dst n c @ create_tcp_hdr (htons sp) (htons dp) t @ lit ''&o_url='' @ v @ lit ''&'' @ z) r = Inl OutOfBounds"
proof -
  define L where "L = lit ''&o_url='' @ v @ lit ''&'' @ z"
  have l: "int (length L) = 8 + int (length v) + int (length z)" "length L < 65536" using assms(7,8) by (simp_all add: L_def lit_def)
  obtain y g where g: "g_log_buf r = y # g" "length g = 255" using assms(10) by (cases "g_log_buf r") auto
  obtain b k where z: "z = b @ [k]" using assms(9) by (cases z rule: rev_cases) auto
  have found: "substr L (int (length L) - 1) (lit ''&o_url='') (lit ''&'') 1024 = Inr (int (length v), v)"
    using substr_mark [of "lit ''&o_url=''" "[]" v "0x26" b 1024 L "[k]" "int (length L) - 1"] assms(5,7) by (simp add: L_def z lit_def chr8_def)
  have "report_mark (lit ''&o_url='') (lit ''&'') L (int (length L) - 1) info (r\<lparr>g_log_buf := lit ''tcp|'' @ 0 # drop 4 g\<rparr>) = Inl OutOfBounds" for info
    using assms(4,6,7,11) g(2) by (intro report_overrun [OF found, of _ "lit ''tcp|''" "drop 4 g"]) (auto simp: lit_def chr8_def)
  moreover have len: "62 + int (length v) + int (length z) = 54 + int (length L)" using l(1) by simp
  ultimately show ?thesis
    unfolding len L_def [symmetric] using handler_tcp [of e ntop src st dst dt L r y g ts pid n c sp dp t] assms(1-3) g l(2) by (simp add: Let_def)
qed

lemma captured_value_overruns_log_witness:
  "packet_handler (\<lambda>_. Some [0x33]) \<lparr>tv_sec = 13, tv_usec = 0\<rparr> (62 + int (length (replicate 300 (0x41 :: u8))) + int (length [0x20 :: u8]))
    (replicate 12 0 @ [8, 0] @ pk_ip_hdr 1 2 3 4 5 @ create_tcp_hdr (htons 6) (htons 7) 8 @ lit ''&o_url='' @ replicate 300 0x41 @ lit ''&'' @ [0x20])
    \<lparr>g_log_buf = replicate 256 0, tbuf = replicate 1024 0\<rparr> = Inl OutOfBounds"
  by (rule captured_value_overruns_log [of "replicate 12 0" _ 2 "[0x33]" 3 "[0x33]"]) simp_all

end
