(* ===== verification/Pk_Run.thy ===== *)
theory Pk_Run
  imports Pk_Hosts Pk_Receiver
begin

text \<open>
  The main function of the packet sender \<^verbatim>\<open>tools/pksender_v2.c\<close>: the file of hosts is read, and a packet is built and sent for each, with a
  line on what was sent; and what the receiver makes of these packets. The messages to stderr and the sleep between two packets are not
  modelled.
\<close>

section \<open>The sender\<close>

text \<open>One round: the times of the load, before and behind the sending, and whether \<^verbatim>\<open>sendto\<close> succeeds.\<close>

record send_round =
  sr_load :: timeval
  sr_before :: timeval
  sr_ok :: bool
  sr_after :: timeval

definition time_text :: "timeval \<Rightarrow> bytes" where
  "time_text tv = int_text (tv_sec tv) @ lit ''.'' @ int_text (tv_usec tv) @ lit ''|''"

text \<open>The line on a packet, in the static \<^verbatim>\<open>log\<close> of 2048 bytes; nothing for other types.\<close>

definition host_log :: "webhost_info \<Rightarrow> send_round \<Rightarrow> bytes \<Rightarrow> (bytes list \<times> bytes) run" where
  "host_log w r log =
     bindR (cstr (wh_src_ip w)) (\<lambda>src. bindR (cstr (wh_dst_ip w)) (\<lambda>dst.
     let addr = src @ lit ''|'' @ dec_text (unat (wh_src_port w)) @ lit ''|'' @ dst @ lit ''|'' @ dec_text (unat (wh_dst_port w)) @ lit ''|''
       @ time_text (sr_before r) in
     bindR (if wh_type w = 0 then Inr (Some addr)
            else if wh_type w = 1 then
              bindR (cstr (wh_host w)) (\<lambda>host. bindR (cstr (wh_path w)) (\<lambda>path. Inr (Some (host @ path @ lit ''|'' @ addr))))
            else Inr None) (\<lambda>t.
       case t of
         None \<Rightarrow> Inr ([], log)
       | Some t \<Rightarrow>
           bindR (put log 0 (t @ [0])) (\<lambda>l1.
           bindR (strcat l1 (time_text (sr_after r))) (\<lambda>l2.
           bindR (cstr l2) (\<lambda>line. Inr ([line], l2)))))))"

text \<open>The loop over \<open>n\<close> hosts from host \<open>i\<close> on. The result has whether it ended with \<^verbatim>\<open>return -1\<close>, the packets sent, the lines
  printed and the state; \<open>None\<close> where the script of the rounds is too short.\<close>

fun send_hosts :: "(bytes \<Rightarrow> u32 option) \<Rightarrow> u16 \<Rightarrow> webhost_info list ptr \<Rightarrow> nat \<Rightarrow> nat \<Rightarrow> send_round list \<Rightarrow> sender \<Rightarrow> bytes \<Rightarrow>
    (bool \<times> bytes list \<times> bytes list \<times> sender) option run" where
  "send_hosts pton pid hs 0 i rs s log = Inr (Some (False, [], [], s))"
| "send_hosts pton pid hs (Suc n) i [] s log = Inr None"
| "send_hosts pton pid hs (Suc n) i (r # rs) s log =
     bindR (deref hs) (\<lambda>m.
     bindR (rd m i) (\<lambda>w.
     bindR (wr log 0 0) (\<lambda>log0.
     bindR (build_packet pton pid (sr_load r) s w) (\<lambda>(k, s1).
       case k of
         None \<Rightarrow> Inr (Some (True, [], [], s1))
       | Some packet \<Rightarrow>
           if \<not> sr_ok r then Inr (Some (False, [], [], s1))
           else
             bindR (host_log w r log0) (\<lambda>(line, log1).
             bindR (send_hosts pton pid hs n (i + 1) rs s1 log1) (\<lambda>x.
               case x of
                 None \<Rightarrow> Inr None
               | Some (failed, packets, lines, s2) \<Rightarrow> Inr (Some (failed, packet # packets, line @ lines, s2))))))))"

text \<open>\<open>fd\<close> is the answer of \<^verbatim>\<open>socket\<close> and \<open>ok\<close> whether the option is set.\<close>

definition create_raw_socket :: "int \<Rightarrow> bool \<Rightarrow> int" where
  "create_raw_socket fd ok = (if fd < 0 then - 1 else if \<not> ok then - 1 else fd)"

text \<open>What \<^verbatim>\<open>main\<close> gets from outside, beside the file: the number of arguments, the answers for the raw socket, the outcomes of the allocations
  of the HTTP object.\<close>

record main_env =
  me_argc :: int
  me_socket :: "int \<times> bool"
  me_object :: "bool \<times> bool \<times> u8 alloc"

definition sender_main :: "main_env \<Rightarrow> hosts_env \<Rightarrow> (bytes \<Rightarrow> u32 option) \<Rightarrow> u16 \<Rightarrow> send_round list \<Rightarrow> bytes \<Rightarrow> sender \<Rightarrow> bytes \<Rightarrow>
    (int \<times> bytes list \<times> bytes list) option run" where
  "sender_main a e pton pid rs lines_str s log =
     (if me_argc a < 3 then Inr (Some (- 1, [], []))
      else if create_raw_socket (fst (me_socket a)) (snd (me_socket a)) < 0 then Inr (Some (- 1, [], []))
      else
        bindR (read_webhost_from_file e \<lparr>webhost_num = 0, p_webhosts = Null\<rparr> lines_str) (\<lambda>x.
          case x of
            None \<Rightarrow> Inr None
          | Some (n, hl, l) \<Rightarrow>
              if n \<le> 0 then Inr (Some (- 1, [], []))
              else
                let (ok0, ok1, m) = me_object a; p = fst (http_object_create ok0 ok1 m Null 0) in
                bindR (send_hosts pton pid (p_webhosts hl) (nat (webhost_num hl)) 0 rs (s\<lparr>p_ho := p\<rparr>) log) (\<lambda>y.
                  case y of
                    None \<Rightarrow> Inr None
                  | Some (failed, packets, lines, s') \<Rightarrow>
                      if failed then Inr (Some (- 1, packets, lines))
                      else freeR (p_webhosts hl) (bindR (http_object_destroy (p_ho s')) (\<lambda>_. Inr (Some (0, packets, lines)))))))"

section \<open>A run of the sender and of the receiver\<close>

text \<open>The capture library calls the handler for every frame, with the time and the length of the frame.\<close>

fun handle_frames :: "(bytes \<Rightarrow> bytes option) \<Rightarrow> (timeval \<times> bytes) list \<Rightarrow> receiver \<Rightarrow> (bytes list \<times> receiver) run" where
  "handle_frames ntop [] r = Inr ([], r)"
| "handle_frames ntop ((ts, frame) # fs) r =
     bindR (packet_handler ntop ts (int (length frame)) frame r) (\<lambda>(o1, r1).
     bindR (handle_frames ntop fs r1) (\<lambda>(o2, r2). Inr (o1 @ o2, r2)))"

text \<open>One delivery: the line of the host, the round in which its packet is sent, the time of the capture and the Ethernet addresses.\<close>

record delivery =
  dl_line :: host_line
  dl_round :: send_round
  dl_captured :: timeval
  dl_eth :: bytes

definition delivery_ok :: "(bytes \<Rightarrow> u32 option) \<Rightarrow> (bytes \<Rightarrow> bytes option) \<Rightarrow> delivery \<Rightarrow> bool" where
  "delivery_ok pton ntop d \<longleftrightarrow> hl_request (dl_line d) = None
     \<and> (\<exists>x. pton (hl_src_ip (dl_line d)) = Some x \<and> ntop (le32 x) = Some (hl_src_ip (dl_line d)))
     \<and> (\<exists>x. pton (hl_dst_ip (dl_line d)) = Some x \<and> ntop (le32 x) = Some (hl_dst_ip (dl_line d)))
     \<and> good_time (sr_load (dl_round d)) \<and> good_time (sr_before (dl_round d)) \<and> good_time (sr_after (dl_round d)) \<and> sr_ok (dl_round d)
     \<and> good_time (dl_captured d) \<and> length (dl_eth d) = 12"

definition sent_line :: "delivery \<Rightarrow> bytes" where
  "sent_line d = hl_src_ip (dl_line d) @ lit ''|'' @ dec_text (unat (hl_src_port (dl_line d))) @ lit ''|''
     @ hl_dst_ip (dl_line d) @ lit ''|'' @ dec_text (unat (hl_dst_port (dl_line d))) @ lit ''|''
     @ time_value (sr_before (dl_round d)) @ lit ''|'' @ time_value (sr_after (dl_round d)) @ lit ''|''"

definition load_value :: "delivery \<Rightarrow> bytes" where
  "load_value d = time_value (sr_load (dl_round d))"

text \<open>What the receiver prints for the deliveries, in order, when \<^verbatim>\<open>tbuf\<close> shows \<open>u\<close> before the first: the time put into the packet,
  followed by what an earlier longer one left behind it, and the addresses and ports of the line in the file.\<close>

definition received_line :: "bytes \<Rightarrow> delivery \<Rightarrow> bytes" where
  "received_line w d = lit ''tcp|'' @ w
     @ log_tail (dl_captured d) (hl_src_ip (dl_line d)) (unat (hl_src_port (dl_line d))) (hl_dst_ip (dl_line d)) (unat (hl_dst_port (dl_line d)))"

fun received_lines :: "bytes \<Rightarrow> delivery list \<Rightarrow> bytes list" where
  "received_lines u [] = []"
| "received_lines u (d # ds) = (let w = shown (load_value d) u in received_line w d # received_lines w ds)"

text \<open>When the texts of the times never become shorter, each line has its own time.\<close>

lemma received_lines_growing:
  "sorted (length u # map (\<lambda>d. length (load_value d)) ds) \<Longrightarrow> received_lines u ds = map (\<lambda>d. received_line (load_value d) d) ds"
  by (induction ds arbitrary: u) (simp_all add: Let_def)

definition packet_of :: "(bytes \<Rightarrow> u32 option) \<Rightarrow> bytes \<Rightarrow> delivery \<Rightarrow> bool" where
  "packet_of pton packet d \<longleftrightarrow> (\<exists>src dst. pton (hl_src_ip (dl_line d)) = Some src \<and> pton (hl_dst_ip (dl_line d)) = Some dst
     \<and> time_packet packet (sr_load (dl_round d)) src dst (hl_src_port (dl_line d)) (hl_dst_port (dl_line d)))"

lemma time_text_value: "time_text tv = time_value tv @ lit ''|''"
  by (simp add: time_text_def time_value_def)

lemma port_text: "length (dec_text (unat (x :: u16))) \<le> 5" "0 \<notin> set (dec_text (unat x))"
proof -
  have "unat x < 2 ^ LENGTH(16)" by (rule unsigned_less)
  then show "length (dec_text (unat x)) \<le> 5" by (simp add: dec_length)
  show "0 \<notin> set (dec_text (unat x))" using dec_chars [of 0] by auto
qed

lemma host_log_line:
  assumes "host_is w (dl_line d)" and "line_ok (dl_line d)" and "delivery_ok pton ntop d" and "length log = 2048"
  shows "\<exists>log'. host_log w (dl_round d) log = Inr ([sent_line d], log') \<and> length log' = 2048"
proof -
  let ?l = "dl_line d" and ?r = "dl_round d"
  have g: "good_time (sr_before ?r)" "good_time (sr_after ?r)" "hl_request ?l = None" using assms(3) by (simp_all add: delivery_ok_def)
  obtain za zb where w: "wh_src_ip w = hl_src_ip ?l @ 0 # za" "wh_dst_ip w = hl_dst_ip ?l @ 0 # zb" "wh_type w = 0"
    "wh_src_port w = hl_src_port ?l" "wh_dst_port w = hl_dst_port ?l"
    using assms(1) g(3) by (auto simp: host_is_def is_string_def)
  have ip: "length (hl_src_ip ?l) \<le> 15" "0 \<notin> set (hl_src_ip ?l)" "length (hl_dst_ip ?l) \<le> 15" "0 \<notin> set (hl_dst_ip ?l)"
    using assms(2) by (auto simp: line_ok_def text_ok_def)
  have v: "length (time_value (sr_before ?r)) \<le> 17" "0 \<notin> set (time_value (sr_before ?r))"
    "length (time_value (sr_after ?r)) \<le> 17" "0 \<notin> set (time_value (sr_after ?r))"
    using time_value_text(1) [OF g(1)] time_value_text(2) [OF g(1), of 0] time_value_text(1) [OF g(2)] time_value_text(2) [OF g(2), of 0] by auto
  define a where "a = hl_src_ip ?l @ lit ''|'' @ dec_text (unat (hl_src_port ?l)) @ lit ''|'' @ hl_dst_ip ?l @ lit ''|''
    @ dec_text (unat (hl_dst_port ?l)) @ lit ''|'' @ time_text (sr_before ?r)"
  define b where "b = time_text (sr_after ?r)"
  have bar: "length (lit ''|'') = 1" "0 \<notin> set (lit ''|'')" by (simp_all add: lit_def chr8_def)
  have a: "length a \<le> 62" "0 \<notin> set a"
    using ip v(1,2) port_text [of "hl_src_port ?l"] port_text [of "hl_dst_port ?l"] bar by (auto simp: a_def time_text_value)
  have b: "length b \<le> 18" "0 \<notin> set b" using v(3,4) bar by (auto simp: b_def time_text_value)
  define z where "z = drop (length a + 1) log"
  have p: "put log 0 (a @ [0]) = Inr (a @ 0 # z)" using a(1) assms(4) by (simp add: z_def)
  have s: "strcat (a @ 0 # z) b = Inr ((a @ b) @ 0 # drop (length b) z)" using strcat_at [of a b z] a b assms(4) by (simp add: z_def)
  have c: "cstr ((a @ b) @ 0 # drop (length b) z) = Inr (a @ b)" using a(2) b(2) by (intro cstr_at) simp
  have "host_log w ?r log = bindR (put log 0 (a @ [0])) (\<lambda>l1. bindR (strcat l1 b) (\<lambda>l2. bindR (cstr l2) (\<lambda>line. Inr ([line], l2))))"
    using w ip by (simp add: host_log_def cstr_at Let_def a_def b_def)
  then have "host_log w ?r log = Inr ([a @ b], (a @ b) @ 0 # drop (length b) z)" using p s c by simp
  moreover have "a @ b = sent_line d" by (simp add: a_def b_def sent_line_def time_text_value)
  moreover have "length ((a @ b) @ 0 # drop (length b) z) = 2048" using a b assms(4) by (simp add: z_def)
  ultimately show ?thesis by simp
qed

lemma send_hosts_packets:
  assumes "\<forall>d\<in>set ds. delivery_ok pton ntop d \<and> line_ok (dl_line d)" and "\<forall>j<length ds. host_is (hs ! (i + j)) (dl_line (ds ! j))"
    and "i + length ds \<le> length hs" and "sender_ready s" and "length log = 2048"
  shows "\<exists>packets s'. send_hosts pton pid (Live hs) (length ds) i (map dl_round ds) s log
      = Inr (Some (False, packets, map sent_line ds, s')) \<and> list_all2 (packet_of pton) packets ds
    \<and> list_all (\<lambda>p. pk_chk_sum (Some p) 20 = Inr 0) packets \<and> sender_ready s'"
  using assms
proof (induction ds arbitrary: i s log)
  case Nil
  then show ?case by simp
next
  case (Cons d ds)
  have d: "delivery_ok pton ntop d" "line_ok (dl_line d)" using Cons.prems(1) by simp_all
  have w: "host_is (hs ! i) (dl_line d)" "i < length hs" using Cons.prems(2,3) by (auto dest: spec [of _ 0])
  obtain src dst where ip: "pton (hl_src_ip (dl_line d)) = Some src" "pton (hl_dst_ip (dl_line d)) = Some dst" "hl_request (dl_line d) = None"
    "good_time (sr_load (dl_round d))" "sr_ok (dl_round d)"
    using d(1) by (auto simp: delivery_ok_def)
  obtain za zb where h: "wh_src_ip (hs ! i) = hl_src_ip (dl_line d) @ 0 # za" "wh_dst_ip (hs ! i) = hl_dst_ip (dl_line d) @ 0 # zb"
    "wh_type (hs ! i) = 0" "wh_src_port (hs ! i) = hl_src_port (dl_line d)" "wh_dst_port (hs ! i) = hl_dst_port (dl_line d)"
    using w(1) ip(3) by (auto simp: host_is_def is_string_def)
  have nz: "0 \<notin> set (hl_src_ip (dl_line d))" "0 \<notin> set (hl_dst_ip (dl_line d))" using d(2) by (auto simp: line_ok_def text_ok_def)
  obtain packet s1 where p: "build_packet pton pid (sr_load (dl_round d)) s (hs ! i) = Inr (Some packet, s1)" "sender_ready s1"
    "pk_chk_sum (Some packet) 20 = Inr 0"
    "time_packet packet (sr_load (dl_round d)) src dst (wh_src_port (hs ! i)) (wh_dst_port (hs ! i))"
    using time_packet_sent [OF Cons.prems(4) h(3,1) nz(1) ip(1) h(2) nz(2) ip(2,4)] by blast
  have log0: "wr log 0 0 = Inr (log[0 := 0])" "length (log[0 := 0]) = 2048" using Cons.prems(5) by simp_all
  obtain log1 where log1: "host_log (hs ! i) (dl_round d) (log[0 := 0]) = Inr ([sent_line d], log1)" "length log1 = 2048"
    using host_log_line [OF w(1) d(2,1) log0(2)] by blast
  have rest: "\<forall>j<length ds. host_is (hs ! (i + 1 + j)) (dl_line (ds ! j))" using Cons.prems(2) by (auto dest: spec [of _ "Suc _"])
  obtain packets s2 where ps: "send_hosts pton pid (Live hs) (length ds) (i + 1) (map dl_round ds) s1 log1
      = Inr (Some (False, packets, map sent_line ds, s2))" "list_all2 (packet_of pton) packets ds"
    "list_all (\<lambda>p. pk_chk_sum (Some p) 20 = Inr 0) packets" "sender_ready s2"
    using Cons.IH [OF _ rest _ p(2) log1(2)] Cons.prems(1,3) by auto
  have "packet_of pton packet d" using ip p(4) h(4,5) by (auto simp: packet_of_def)
  then show ?case using w(2) log0(1) p(1,3) log1(1) ps ip(5) by (intro exI [of _ "packet # packets"] exI [of _ s2]) simp
qed

lemma handle_frames_lines:
  assumes "list_all2 (packet_of pton) packets ds" and "\<forall>d\<in>set ds. delivery_ok pton ntop d \<and> line_ok (dl_line d)"
    and "length (g_log_buf r) = 256" and "tbuf_is u r" and "length u \<le> 17"
  shows "\<exists>r'. handle_frames ntop (map2 (\<lambda>d p. (dl_captured d, dl_eth d @ [8, 0] @ p)) ds packets) r = Inr (received_lines u ds, r')"
  using assms
proof (induction packets ds arbitrary: u r rule: list_all2_induct)
  case Nil
  then show ?case by simp
next
  case (Cons packet packets d ds)
  have d: "delivery_ok pton ntop d" "line_ok (dl_line d)" using Cons.prems(1) by simp_all
  have ip: "length (hl_src_ip (dl_line d)) \<le> 15" "0 \<notin> set (hl_src_ip (dl_line d))" "length (hl_dst_ip (dl_line d)) \<le> 15" "0 \<notin> set (hl_dst_ip (dl_line d))"
    using d(2) by (auto simp: line_ok_def text_ok_def)
  have g: "good_time (sr_load (dl_round d))" "good_time (dl_captured d)" "length (dl_eth d) = 12" using d(1) by (simp_all add: delivery_ok_def)
  obtain src dst where p: "time_packet packet (sr_load (dl_round d)) src dst (hl_src_port (dl_line d)) (hl_dst_port (dl_line d))"
    "ntop (le32 src) = Some (hl_src_ip (dl_line d))" "ntop (le32 dst) = Some (hl_dst_ip (dl_line d))"
    using Cons.hyps(1) d(1) by (auto simp: packet_of_def delivery_ok_def)
  let ?w = "shown (load_value d) u"
  obtain r1 where r1: "packet_handler ntop (dl_captured d) (14 + int (length packet)) (dl_eth d @ [8, 0] @ packet) r = Inr ([received_line ?w d], r1)"
    "length (g_log_buf r1) = 256" "tbuf_is ?w r1"
    using time_packet_handled [OF p(1) g p(2) ip(1,2) p(3) ip(3,4) Cons.prems(2-4)] by (auto simp: received_line_def load_value_def)
  have "length ?w \<le> 17" using Cons.prems(4) time_value_text(1) [OF g(1)] by (simp add: shown_length load_value_def)
  then obtain r2 where "handle_frames ntop (map2 (\<lambda>d p. (dl_captured d, dl_eth d @ [8, 0] @ p)) ds packets) r1 = Inr (received_lines ?w ds, r2)"
    using Cons.IH [OF _ r1(2,3)] Cons.prems(1) by auto
  moreover have "int (length (dl_eth d @ [8, 0] @ packet)) = 14 + int (length packet)" using g(3) by simp
  ultimately show ?case using r1(1) by (simp add: Let_def)
qed

lemma object_destroyed: "ho_holds p x \<Longrightarrow> http_object_destroy (Some p) = Inr F1G_OK"
  by (auto simp: ho_holds_def ba_wf_def http_object_destroy_def bit_array_clean_def)

text \<open>C21. From the file to the log of the receiver: the sender that reads a file of two or more hosts with proper addresses, each for a
  time stamp, ends with 0, sends one packet with a valid IP header for each line and prints the line for it; the receiver that captures
  these packets in order prints, for each, the time put into it, followed by what an earlier longer text of a time left behind it in
  \<^verbatim>\<open>tbuf\<close>, with the addresses and ports of the line in the file.\<close>

theorem hosts_reach_receiver:
  assumes "file_ok (map dl_line ds) k" and "2 \<le> length ds" and "file_there e (map dl_line ds) k" and "length lines_str = 1024"
    and "he_hosts e = Some g" and "\<forall>i. host_mem (g i)" and "allocs_ok e 0 (map dl_line ds)"
    and "3 \<le> me_argc a" and "0 \<le> fst (me_socket a)" and "snd (me_socket a)" and "me_object a = (True, True, Some m)"
    and "\<forall>d\<in>set ds. delivery_ok pton ntop d"
    and "g_buf s = replicate 2048 0" and "length log = 2048" and "length (g_log_buf r) = 256" and "tbuf r = replicate 1024 0"
  shows "\<exists>packets r'. sender_main a e pton pid (map dl_round ds) lines_str s log = Inr (Some (0, packets, map sent_line ds))
    \<and> length packets = length ds \<and> (\<forall>p\<in>set packets. pk_chk_sum (Some p) 20 = Inr 0)
    \<and> handle_frames ntop (map2 (\<lambda>d p. (dl_captured d, dl_eth d @ [8, 0] @ p)) ds packets) r = Inr (received_lines [] ds, r')"
proof -
  have two: "2 \<le> length (map dl_line ds)" using assms(2) by simp
  obtain hs l where f: "read_webhost_from_file e \<lparr>webhost_num = 0, p_webhosts = Null\<rparr> lines_str
      = Inr (Some (int (length (hosts_text (map dl_line ds) k)), \<lparr>webhost_num = int (length ds), p_webhosts = Live hs\<rparr>, l))"
    "length hs = length ds" "\<forall>j<length ds. host_is (hs ! j) (dl_line (ds ! j))"
    using webhosts_read [OF assms(1) two assms(3-7), of "\<lparr>webhost_num = 0, p_webhosts = Null\<rparr>"] by auto
  have n: "\<not> int (length (hosts_text (map dl_line ds) k)) \<le> 0" by (simp add: hosts_text_def)
  obtain p where p: "http_object_create True True (Some m) Null 0 = (Some p, Null)"
    by (auto simp: http_object_create_def HO_MIN_BUF_SZ_def HO_DFT_BUF_SZ_def Let_def zalloc_def bit_array_init_def malloc_def)
  then have ho: "ho_holds p []" using create_empty [OF p] by simp
  have ready: "sender_ready (s\<lparr>p_ho := Some p\<rparr>)" using ho assms(13) by (auto simp: sender_ready_def)
  have ok: "\<forall>d\<in>set ds. delivery_ok pton ntop d \<and> line_ok (dl_line d)" using assms(1,12) by (simp add: file_ok_def)
  obtain packets s' where ps: "send_hosts pton pid (Live hs) (length ds) 0 (map dl_round ds) (s\<lparr>p_ho := Some p\<rparr>) log
      = Inr (Some (False, packets, map sent_line ds, s'))" "list_all2 (packet_of pton) packets ds"
    "list_all (\<lambda>p. pk_chk_sum (Some p) 20 = Inr 0) packets" "sender_ready s'"
    using send_hosts_packets [OF ok _ _ ready assms(14), where hs = hs and i = 0 and pid = pid] f(2,3) by auto
  obtain q x where q: "p_ho s' = Some q" "ho_holds q x" using ps(4) by (auto simp: sender_ready_def)
  have "sender_main a e pton pid (map dl_round ds) lines_str s log = Inr (Some (0, packets, map sent_line ds))"
    using assms(8-11) n by (simp add: sender_main_def create_raw_socket_def f(1) p ps(1) q(1) object_destroyed [OF q(2)])
  moreover obtain r' where "handle_frames ntop (map2 (\<lambda>d p. (dl_captured d, dl_eth d @ [8, 0] @ p)) ds packets) r = Inr (received_lines [] ds, r')"
    using handle_frames_lines [OF ps(2) ok assms(15) tbuf_start [OF assms(16)]] by auto
  ultimately show ?thesis using list_all2_lengthD [OF ps(2)] ps(3) by (auto simp: list_all_iff)
qed

section \<open>Two hosts, the second with a shorter time\<close>

definition two_deliveries :: "delivery list" where
  "two_deliveries =
     [\<lparr>dl_line = \<lparr>hl_src_ip = lit ''10.0.0.1'', hl_src_port = 1025, hl_dst_ip = lit ''10.0.0.2'', hl_dst_port = 80, hl_request = None\<rparr>,
        dl_round = \<lparr>sr_load = \<lparr>tv_sec = 100, tv_usec = 50\<rparr>, sr_before = \<lparr>tv_sec = 100, tv_usec = 60\<rparr>, sr_ok = True, sr_after = \<lparr>tv_sec = 100, tv_usec = 70\<rparr>\<rparr>,
        dl_captured = \<lparr>tv_sec = 100, tv_usec = 90\<rparr>, dl_eth = replicate 12 0\<rparr>,
      \<lparr>dl_line = \<lparr>hl_src_ip = lit ''10.0.0.1'', hl_src_port = 1026, hl_dst_ip = lit ''10.0.0.2'', hl_dst_port = 8080, hl_request = None\<rparr>,
        dl_round = \<lparr>sr_load = \<lparr>tv_sec = 101, tv_usec = 6\<rparr>, sr_before = \<lparr>tv_sec = 101, tv_usec = 60\<rparr>, sr_ok = True, sr_after = \<lparr>tv_sec = 101, tv_usec = 70\<rparr>\<rparr>,
        dl_captured = \<lparr>tv_sec = 101, tv_usec = 90\<rparr>, dl_eth = replicate 12 0\<rparr>]"

definition some_pton :: "bytes \<Rightarrow> u32 option" where
  "some_pton t = (if t = lit ''10.0.0.1'' then Some 0x0100000A else if t = lit ''10.0.0.2'' then Some 0x0200000A else None)"

definition some_ntop :: "bytes \<Rightarrow> bytes option" where
  "some_ntop b = (if b = le32 0x0100000A then Some (lit ''10.0.0.1'') else if b = le32 0x0200000A then Some (lit ''10.0.0.2'') else None)"

definition two_hosts_env :: hosts_env where
  "two_hosts_env = \<lparr>he_fd = 3, he_size = Some (int (length (hosts_text (map dl_line two_deliveries) 9))), he_buf = True,
     he_read = Some (hosts_text (map dl_line two_deliveries) 9), he_hosts = Some (\<lambda>_. new_host), he_record = True,
     he_items = (\<lambda>i. replicate 5 (True, True)), he_sep = replicate 16 0, he_df = \<lparr>item_size = 0, item_num = 0, p_items = Null\<rparr>\<rparr>"

lemma hosts_reach_receiver_witness:
  "\<exists>packets r'. sender_main \<lparr>me_argc = 3, me_socket = (4, True), me_object = (True, True, Some (\<lambda>_. 0))\<rparr> two_hosts_env some_pton 7
      (map dl_round two_deliveries) (replicate 1024 0) \<lparr>g_buf = replicate 2048 0, req_line = replicate 128 0, p_ho = None, load_size = None\<rparr> (replicate 2048 0)
      = Inr (Some (0, packets, map sent_line two_deliveries))
    \<and> handle_frames some_ntop (map2 (\<lambda>d p. (dl_captured d, dl_eth d @ [8, 0] @ p)) two_deliveries packets)
        \<lparr>g_log_buf = replicate 256 0, tbuf = replicate 1024 0\<rparr> = Inr (received_lines [] two_deliveries, r')
    \<and> map (\<lambda>d. length (load_value d)) two_deliveries = [6, 5]"
proof -
  let ?ls = "map dl_line two_deliveries"
  have n: "length two_deliveries = 2" by (simp add: two_deliveries_def)
  have "file_ok ?ls 9"
    by (simp add: file_ok_def hosts_text_def hosts_header_def lines_text_def line_text_def line_fields_def fields_text_def two_deliveries_def
        line_ok_def text_ok_def lit_def chr8_def int_text_def dec_text.simps)
  moreover have "file_there two_hosts_env ?ls 9" by (simp add: file_there_def two_hosts_env_def)
  moreover have "allocs_ok two_hosts_env 0 ?ls"
    by (auto simp: allocs_ok_def less_Suc_eq two_hosts_env_def two_deliveries_def line_fields_def)
  moreover have "\<forall>d\<in>set two_deliveries. delivery_ok some_pton some_ntop d"
    by (simp add: two_deliveries_def delivery_ok_def some_pton_def some_ntop_def good_time_def lit_def chr8_def le32_def le16_def)
  moreover have "map (\<lambda>d. length (load_value d)) two_deliveries = [6, 5]"
    by (simp add: two_deliveries_def load_value_def time_value_def int_text_def dec_text.simps lit_def)
  moreover have "host_mem new_host" by (simp add: host_mem_def new_host_def)
  ultimately show ?thesis
    using hosts_reach_receiver [of two_deliveries 9 two_hosts_env "replicate 1024 0" "\<lambda>_. new_host"
      "\<lparr>me_argc = 3, me_socket = (4, True), me_object = (True, True, Some (\<lambda>_. 0))\<rparr>" "\<lambda>_. 0" some_pton some_ntop
      "\<lparr>g_buf = replicate 2048 0, req_line = replicate 128 0, p_ho = None, load_size = None\<rparr>" "replicate 2048 0"
      "\<lparr>g_log_buf = replicate 256 0, tbuf = replicate 1024 0\<rparr>" 7]
    by (auto simp: n two_hosts_env_def)
qed

end
