(* ===== verification/Pk_Http.thy ===== *)
theory Pk_Http
  imports Pk_Hosts Pk_Receiver Http_Parser
begin

text \<open>
  The HTTP packets of \<^verbatim>\<open>tools/pksender_v2.c\<close>: the request that the sender makes of a host with the object of Http is what the parser of
  Http_Parser takes apart into the host's fields again.
\<close>

section \<open>The request\<close>

text \<open>A host of type 1 with its path, host, cookie and user agent.\<close>

record host_request =
  hr_path :: bytes
  hr_host :: bytes
  hr_cookie :: bytes
  hr_agent :: bytes

definition request_of :: "webhost_info \<Rightarrow> host_request \<Rightarrow> bool" where
  "request_of w q \<longleftrightarrow> wh_type w = 1 \<and> is_string (wh_path w) (hr_path q) \<and> is_string (wh_host w) (hr_host q)
     \<and> is_string (wh_cookie w) (hr_cookie q) \<and> is_string (wh_ua w) (hr_agent q)"

definition value_ok :: "nat \<Rightarrow> bytes \<Rightarrow> bool" where
  "value_ok n v \<longleftrightarrow> length v < n \<and> {0, 0x0D} \<inter> set v = {} \<and> (v \<noteq> [] \<longrightarrow> hd v \<noteq> 0x20 \<and> last v \<noteq> 0x20)"

definition request_ok :: "host_request \<Rightarrow> bool" where
  "request_ok q \<longleftrightarrow> uri_ok (hr_path q) \<and> 0 \<notin> set (hr_path q) \<and> value_ok 128 (hr_host q) \<and> value_ok 1024 (hr_cookie q) \<and> value_ok 256 (hr_agent q)"

definition host_headers :: "host_request \<Rightarrow> (bytes \<times> bytes) list" where
  "host_headers q = [(HOST_STR, hr_host q), (COOKIE_STR, hr_cookie q), (UA_STR, hr_agent q)]"

definition host_text :: "host_request \<Rightarrow> bytes" where
  "host_text q = request_text (hr_path q) (host_headers q)"

definition req_line_text :: "host_request \<Rightarrow> bytes" where
  "req_line_text q = lit ''GET '' @ hr_path q @ lit '' HTTP/1.1''"

text \<open>The lines the object makes of the headers are those of a request.\<close>

lemma object_lines:
  "Http.header_line 8 (req_line_text q) @ Http.header_line 3 (hr_host q) @ Http.header_line 6 (hr_cookie q) @ Http.header_line 4 (hr_agent q)
     @ Http.header_line 7 [] = host_text q"
  by (simp add: Http.header_line_def header_name_def get_http_header_info_def http_header_info_def host_text_def request_text_def hdr_lines_def
      hdr_line_def host_headers_def header_names METHOD_GET_STR_def HTTPV11_STR_def req_line_text_def lit_def chr8_def)

lemma add_string_ok:
  assumes "ho_holds p x" and "id0 < 10" and "unat id0 \<notin> ba_set (ho_status p)" and "m = t @ 0 # z" and "0 \<notin> set t" and "length t < 2 ^ 16"
    and "length x + length (Http.header_line id0 t) < unat (ho_buf_sz p)"
  shows "\<exists>p'. add_string id0 m p = Inr p' \<and> ho_holds p' (x @ Http.header_line id0 t) \<and> ba_set (ho_status p') = insert (unat id0) (ba_set (ho_status p))
    \<and> ho_buf_sz p' = ho_buf_sz p"
proof -
  have "bits_num (ho_status p) = 10" "unat id0 < 10" using assms(1,2) by (simp_all add: ho_holds_def word_less_nat_alt)
  then have "\<not> recognised (ho_status p) id0" using assms(3) by (auto simp: recognised_def ba_set_def)
  then obtain v where "bit_array_bit_value (ho_status p) id0 = Inr v" "v \<noteq> 1" using bit_value_cases [OF assms(1,2)] by blast
  from add_header_appends [OF assms(1,2,6) this assms(7), of "0 # z"] show ?thesis
    using assms(4) cstr_at [OF assms(5), of z] by (auto simp: add_string_def)
qed

text \<open>The request line in its 128 bytes.\<close>

lemma req_line_built:
  assumes "0 \<notin> set (hr_path q)" and "length r = 128" and "is_string m (hr_path q)"
  shows "build_req_line r m = (if length (hr_path q) < 115 then Inr (req_line_text q @ 0 # drop (14 + length (hr_path q)) r) else Inl OutOfBounds)"
proof -
  obtain c y where r: "r = c # y" "length y = 127" using assms(2) by (cases r) auto
  have m: "cstr m = Inr (hr_path q)" using assms(3) cstr_at [OF assms(1)] by (auto simp: is_string_def)
  have d: "drop (13 + length (hr_path q)) y = drop (14 + length (hr_path q)) r" using drop_Suc_Cons [of "13 + length (hr_path q)" c y] by (simp add: r(1))
  have l: "length (lit ''GET '') = 4" "length (lit '' HTTP/1.1'') = 9" and nz: "0 \<notin> set (lit ''GET '')" "0 \<notin> set (lit ''GET '' @ hr_path q)"
    using assms(1) by (simp_all add: lit_def chr8_def)
  have 1: "strcat (0 # y) (lit ''GET '') = Inr (lit ''GET '' @ 0 # drop 4 y)" using strcat_at [of "[]" "lit ''GET ''" y] l(1) r(2) by simp
  show ?thesis
  proof (cases "length (hr_path q) \<le> length (drop 4 y)")
    case False
    then show ?thesis using 1 r m strcat_full [OF nz(1), of "drop 4 y" "hr_path q"] by (simp add: build_req_line_def)
  next
    case True
    have 2: "strcat (lit ''GET '' @ 0 # drop 4 y) (hr_path q) = Inr ((lit ''GET '' @ hr_path q) @ 0 # drop (4 + length (hr_path q)) y)"
      using strcat_at [OF nz(1) True] by (simp add: add.commute)
    have "length (drop (4 + length (hr_path q)) y) < length (lit '' HTTP/1.1'') \<longleftrightarrow> \<not> length (hr_path q) < 115" using True r(2) l(2) by auto
    then have "strcat ((lit ''GET '' @ hr_path q) @ 0 # drop (4 + length (hr_path q)) y) (lit '' HTTP/1.1'')
        = (if length (hr_path q) < 115 then Inr (req_line_text q @ 0 # drop (13 + length (hr_path q)) y) else Inl OutOfBounds)"
      using strcat_full [OF nz(2)] strcat_at [OF nz(2), of "lit '' HTTP/1.1''" "drop (4 + length (hr_path q)) y"] l(2)
      by (auto simp: req_line_text_def not_less add.commute add.left_commute)
    then show ?thesis using 1 2 r(1) m unfolding d by (simp add: build_req_line_def)
  qed
qed

lemma header_sizes:
  "length (Http.header_line 8 t) = length t + 2" "length (Http.header_line 3 t) = length t + 8" "length (Http.header_line 6 t) = length t + 10"
  "length (Http.header_line 4 t) = length t + 14" "length (Http.header_line 7 t) = length t + 2"
  by (simp_all add: Http.header_line_def header_name_def get_http_header_info_def http_header_info_def lit_def)

lemma http_load_request:
  assumes "ho_holds p []" and "ba_set (ho_status p) = {}" and "unat (ho_buf_sz p) = 2048" and "request_of w q" and "request_ok q"
    and "length (req_line s) = 128" and "length (g_buf s) = 2048"
  shows "if length (hr_path q) < 115
    then length (host_text q) \<le> 2008 \<and> (\<exists>s'. http_load s p w = Inr s' \<and> load_size s' = Some (int (length (host_text q)))
      \<and> g_buf s' = take 40 (g_buf s) @ host_text q @ drop (40 + length (host_text q)) (g_buf s))
    else http_load s p w = Inl OutOfBounds"
proof -
  obtain z2 z3 z4 where w: "is_string (wh_path w) (hr_path q)" "wh_host w = hr_host q @ 0 # z2" "wh_cookie w = hr_cookie q @ 0 # z3"
    "wh_ua w = hr_agent q @ 0 # z4"
    using assms(4) by (auto simp: request_of_def is_string_def)
  have nz: "0 \<notin> set (hr_path q)" "0 \<notin> set (hr_host q)" "0 \<notin> set (hr_cookie q)" "0 \<notin> set (hr_agent q)"
    and l: "length (hr_host q) < 128" "length (hr_cookie q) < 1024" "length (hr_agent q) < 256"
    using assms(5) by (auto simp: request_ok_def value_ok_def)
  note line = req_line_built [OF nz(1) assms(6) w(1)]
  show ?thesis
  proof (cases "length (hr_path q) < 115")
    case False
    then show ?thesis using line by (simp add: http_load_def)
  next
    case True
    let ?r = "req_line_text q @ 0 # drop (14 + length (hr_path q)) (req_line s)"
    have rl: "0 \<notin> set (req_line_text q)" "length (req_line_text q) = length (hr_path q) + 13"
      using nz(1) by (simp_all add: req_line_text_def lit_def chr8_def)
    define x1 where "x1 = Http.header_line 8 (req_line_text q)"
    define x2 where "x2 = x1 @ Http.header_line 3 (hr_host q)"
    define x3 where "x3 = x2 @ Http.header_line 6 (hr_cookie q)"
    define x4 where "x4 = x3 @ Http.header_line 4 (hr_agent q)"
    have text_eq: "x4 @ Http.header_line 7 [] = host_text q" using object_lines [of q] by (simp add: x1_def x2_def x3_def x4_def)
    have len: "length x1 = length (hr_path q) + 15" "length x2 = length x1 + length (hr_host q) + 8" "length x3 = length x2 + length (hr_cookie q) + 10"
      "length x4 = length x3 + length (hr_agent q) + 14"
      by (simp_all add: x1_def x2_def x3_def x4_def header_sizes rl(2))
    have total: "length (host_text q) \<le> 2008" using arg_cong [OF text_eq, of length] len True l by (simp add: header_sizes)
    obtain p1 where p1: "add_string 8 ?r p = Inr p1" "ho_holds p1 x1" "ba_set (ho_status p1) = {8}" "ho_buf_sz p1 = ho_buf_sz p"
      using add_string_ok [OF assms(1), of 8 ?r "req_line_text q"] assms(2,3) rl True len(1) by (auto simp: x1_def header_sizes)
    obtain p2 where p2: "add_string 3 (wh_host w) p1 = Inr p2" "ho_holds p2 x2" "ba_set (ho_status p2) = {3, 8}" "ho_buf_sz p2 = ho_buf_sz p"
      using add_string_ok [OF p1(2), of 3 "wh_host w" "hr_host q" z2] p1(3,4) assms(3) nz(2) w(2) True len l by (auto simp: x2_def header_sizes)
    obtain p3 where p3: "add_string 6 (wh_cookie w) p2 = Inr p3" "ho_holds p3 x3" "ba_set (ho_status p3) = {6, 3, 8}" "ho_buf_sz p3 = ho_buf_sz p"
      using add_string_ok [OF p2(2), of 6 "wh_cookie w" "hr_cookie q" z3] p2(3,4) assms(3) nz(3) w(3) True len l by (auto simp: x3_def header_sizes)
    obtain p4 where p4: "add_string 4 (wh_ua w) p3 = Inr p4" "ho_holds p4 x4" "ba_set (ho_status p4) = {4, 6, 3, 8}" "ho_buf_sz p4 = ho_buf_sz p"
      using add_string_ok [OF p3(2), of 4 "wh_ua w" "hr_agent q" z4] p3(3,4) assms(3) nz(4) w(4) True len l by (auto simp: x4_def header_sizes)
    obtain p5 where p5: "add_string 7 [0] p4 = Inr p5" "ho_holds p5 (host_text q)" "ho_buf_sz p5 = ho_buf_sz p"
      using add_string_ok [OF p4(2), of 7 "[0]" "[]" "[]"] p4(3,4) assms(3) True len l by (auto simp: text_eq header_sizes)
    have "cstr [0] = Inr []" using cstr_at [of "[]" "[]"] by simp
    then obtain r5 where r5: "http_object_add_header p4 7 [0] 0 = Inr (r5, p5)" using p5(1) by (auto simp: add_string_def bindR_Inr_conv)
    obtain m where m: "obj_buf p5 = Live m" "length (host_text q) \<le> length m" "take (length (host_text q)) m = host_text q"
      "unat (ho_data_len p5) = length (host_text q)"
      using p5(2) by (auto simp: ho_holds_def)
    have u: "uint (ho_data_len p5) = int (length (host_text q))" using m(4) by (metis uint_nat)
    have "slice m 0 (uint (ho_data_len p5)) = Inr (host_text q)" using m(2,3) by (simp add: u)
    moreover have "put (g_buf s) 40 (host_text q) = Inr (take 40 (g_buf s) @ host_text q @ drop (40 + length (host_text q)) (g_buf s))"
      using total assms(7) by simp
    ultimately have "\<exists>s'. http_load s p w = Inr s' \<and> load_size s' = Some (int (length (host_text q)))
      \<and> g_buf s' = take 40 (g_buf s) @ host_text q @ drop (40 + length (host_text q)) (g_buf s)"
      using line True p1(1) p2(1) p3(1) p4(1) r5 m(1) u by (simp add: http_load_def)
    then show ?thesis using True total by simp
  qed
qed

section \<open>The packet\<close>

lemma host_headers_ok: "request_ok q \<Longrightarrow> uri_ok (hr_path q) \<and> (\<forall>kv\<in>set (host_headers q). hdr_ok kv)"
  by (auto simp: request_ok_def value_ok_def host_headers_def hdr_ok_def header_names lit_def chr8_def)

lemma host_header_fields: "header_field HOST_STR = Some Host" "header_field COOKIE_STR = Some Cookie" "header_field UA_STR = Some Agent"
  by (simp_all add: header_field_def starts_def header_names lit_def chr8_def)

text \<open>The parser on the text of the request.\<close>

lemma host_text_read:
  assumes "request_ok q"
  shows "\<exists>r'. http_req_header_parser r (host_text q) (int (length (host_text q))) = Inr (F1G_OK, r') \<and> req_method r' = METHOD_GET
    \<and> texts (host_text q) r' Uri = Some (hr_path q) \<and> texts (host_text q) r' Host = Some (hr_host q)
    \<and> texts (host_text q) r' Cookie = Some (hr_cookie q) \<and> texts (host_text q) r' Agent = Some (hr_agent q)"
proof -
  obtain r' where r': "http_req_header_parser r (host_text q) (int (length (host_text q))) = Inr (F1G_OK, r')" "req_method r' = METHOD_GET"
    "texts (host_text q) r' = fold set_header (host_headers q) ((texts (host_text q) r)(Uri := Some (hr_path q)))"
    using request_read [of "hr_path q" "host_headers q" r "[]" "[]"] host_headers_ok [OF assms] by (auto simp: host_text_def)
  then show ?thesis by (auto simp: host_headers_def set_header_def host_header_fields)
qed

text \<open>The buffers of the sender and its object.\<close>

definition http_ready :: "sender \<Rightarrow> bool" where
  "http_ready s \<longleftrightarrow> (\<exists>p x. p_ho s = Some p \<and> ho_holds p x \<and> unat (ho_buf_sz p) = 2048) \<and> length (g_buf s) = 2048 \<and> length (req_line s) = 128"

lemma http_packet_sent:
  assumes "http_ready s" and "request_of w q" and "request_ok q" and "is_string (wh_src_ip w) a" and "0 \<notin> set a" and "pton a = Some src"
    and "is_string (wh_dst_ip w) b" and "0 \<notin> set b" and "pton b = Some dst"
  shows "if length (hr_path q) < 115
    then \<exists>s' k c n. build_packet pton pid tv s w
        = Inr (Some (pk_ip_hdr pid src dst n k @ create_tcp_hdr (htons (wh_src_port w)) (htons (wh_dst_port w)) c @ host_text q), s')
      \<and> (\<forall>z. pk_chk_sum (Some (pk_ip_hdr pid src dst n k @ z)) 20 = Inr 0)
    else build_packet pton pid tv s w = Inl OutOfBounds"
proof -
  obtain p x where p: "p_ho s = Some p" "ho_holds p x" "unat (ho_buf_sz p) = 2048" "length (g_buf s) = 2048" "length (req_line s) = 128"
    using assms(1) by (auto simp: http_ready_def)
  obtain p0 where p0: "http_object_reset p = Inr (F1G_OK, p0)" "ho_holds p0 []" "ba_set (ho_status p0) = {}" "unat (ho_buf_sz p0) = 2048"
    using http_object_reset_empties [OF p(2)] p(3) by auto
  let ?tcp = "create_tcp_hdr (htons (wh_src_port w)) (htons (wh_dst_port w))"
  define g where "g = take 20 (g_buf s) @ ?tcp 0 @ drop 40 (g_buf s)"
  have g: "put (g_buf s) 20 (?tcp 0) = Inr g" "length g = 2048" using p(4) by (simp_all add: g_def)
  define s1 where "s1 = s\<lparr>p_ho := Some p0, g_buf := g\<rparr>"
  have t: "wh_type w = 1" using assms(2) by (simp add: request_of_def)
  have ip: "cstr (wh_src_ip w) = Inr a" "cstr (wh_dst_ip w) = Inr b"
    using assms(4,7) cstr_at [OF assms(5)] cstr_at [OF assms(8)] by (auto simp: is_string_def)
  have build: "build_packet pton pid tv s w =
      bindR (http_load s1 p0 w) (\<lambda>s2. finish_packet pid src dst w s2 (40 + the (load_size s2)))"
    using p(1) p0(1) ip assms(6,9) g(1) t by (simp add: build_packet_def fill_packet_def s1_def bindR_assoc)
  note load = http_load_request [OF p0(2-4) assms(2,3), of s1]
  show ?thesis
  proof (cases "length (hr_path q) < 115")
    case False
    then show ?thesis using load p(5) g(2) unfolding build by (simp add: s1_def)
  next
    case True
    let ?T = "host_text q"
    obtain s2 where s2: "http_load s1 p0 w = Inr s2" "load_size s2 = Some (int (length ?T))"
      "g_buf s2 = take 40 g @ ?T @ drop (40 + length ?T) g" and len: "length ?T \<le> 2008"
      using load True p(5) g(2) by (auto simp: s1_def)
    obtain k c where k: "finish_packet pid src dst w s2 (40 + int (length ?T))
        = Inr (Some (pk_ip_hdr pid src dst (word_of_int (40 + int (length ?T))) k @ ?tcp c @ take (length ?T) (?T @ drop (40 + length ?T) g)),
            s2\<lparr>g_buf := pk_ip_hdr pid src dst (word_of_int (40 + int (length ?T))) k @ ?tcp c @ ?T @ drop (40 + length ?T) g\<rparr>)"
      "\<forall>z. pk_chk_sum (Some (pk_ip_hdr pid src dst (word_of_int (40 + int (length ?T))) k @ z)) 20 = Inr 0"
      using finish_packet_ok [OF s2(3) _ s2(2), of pid src dst w] g(2) len by auto
    show ?thesis unfolding build if_P [OF True] using s2(1,2) k by (auto simp del: of_int_add)
  qed
qed

text \<open>C22. From a host of type 1 to its request and back: the packet that the sender builds has an IP header with a valid checksum, and the parser of the
  library on its load finds the path, the host, the cookie and the user agent of the host; but a path of 115 bytes or more is written past the
  array of the request line.\<close>

theorem http_packet_parsed:
  assumes "http_ready s" and "request_of w q" and "request_ok q" and "is_string (wh_src_ip w) a" and "0 \<notin> set a" and "pton a = Some src"
    and "is_string (wh_dst_ip w) b" and "0 \<notin> set b" and "pton b = Some dst"
  shows "if length (hr_path q) < 115
    then \<exists>packet s' r'. build_packet pton pid tv s w = Inr (Some packet, s') \<and> pk_chk_sum (Some packet) 20 = Inr 0
      \<and> http_req_header_parser r (drop 40 packet) (int (length packet) - 40) = Inr (F1G_OK, r') \<and> req_method r' = METHOD_GET
      \<and> texts (drop 40 packet) r' Uri = Some (hr_path q) \<and> texts (drop 40 packet) r' Host = Some (hr_host q)
      \<and> texts (drop 40 packet) r' Cookie = Some (hr_cookie q) \<and> texts (drop 40 packet) r' Agent = Some (hr_agent q)
    else build_packet pton pid tv s w = Inl OutOfBounds"
proof (cases "length (hr_path q) < 115")
  case False
  then show ?thesis using http_packet_sent [OF assms, of pid tv] by simp
next
  case True
  then obtain s' k c n where p: "build_packet pton pid tv s w
      = Inr (Some (pk_ip_hdr pid src dst n k @ create_tcp_hdr (htons (wh_src_port w)) (htons (wh_dst_port w)) c @ host_text q), s')"
    "\<forall>z. pk_chk_sum (Some (pk_ip_hdr pid src dst n k @ z)) 20 = Inr 0"
    using http_packet_sent [OF assms, of pid tv] by auto
  let ?p = "pk_ip_hdr pid src dst n k @ create_tcp_hdr (htons (wh_src_port w)) (htons (wh_dst_port w)) c @ host_text q"
  have d: "drop 40 ?p = host_text q" "int (length ?p) - 40 = int (length (host_text q))" by simp_all
  obtain r' where "http_req_header_parser r (host_text q) (int (length (host_text q))) = Inr (F1G_OK, r')" "req_method r' = METHOD_GET"
    "texts (host_text q) r' Uri = Some (hr_path q)" "texts (host_text q) r' Host = Some (hr_host q)"
    "texts (host_text q) r' Cookie = Some (hr_cookie q)" "texts (host_text q) r' Agent = Some (hr_agent q)"
    using host_text_read [OF assms(3), of r] by blast
  then show ?thesis unfolding if_P [OF True] using p d by (intro exI [of _ ?p] exI [of _ s'] exI [of _ r']) (simp del: drop_append length_append)
qed

lemma http_packet_parsed_witness:
  "\<exists>p packet s' r'. http_object_create True True (Some (\<lambda>_. 0)) Null 0 = (Some p, Null)
    \<and> build_packet (\<lambda>_. Some 1) 7 \<lparr>tv_sec = 12, tv_usec = 5\<rparr>
        \<lparr>g_buf = replicate 2048 0, req_line = replicate 128 0, p_ho = Some p, load_size = None\<rparr>
        \<lparr>wh_type = 1, wh_src_ip = [0x31, 0], wh_src_port = 80, wh_dst_ip = [0x32, 0], wh_dst_port = 443,
         wh_host = lit ''a.b'' @ [0], wh_path = lit ''/x'' @ [0], wh_ua = [0], wh_cookie = lit ''c=1'' @ [0]\<rparr> = Inr (Some packet, s')
    \<and> http_req_header_parser empty_req (drop 40 packet) (int (length packet) - 40) = Inr (F1G_OK, r')
    \<and> texts (drop 40 packet) r' Uri = Some (lit ''/x'') \<and> texts (drop 40 packet) r' Cookie = Some (lit ''c=1'')"
proof -
  obtain p where p: "http_object_create True True (Some (\<lambda>_. 0)) Null 0 = (Some p, Null)" "ho_holds p []" "unat (ho_buf_sz p) = 2048"
    using new_object by blast
  let ?s = "\<lparr>g_buf = replicate 2048 0, req_line = replicate 128 0, p_ho = Some p, load_size = None\<rparr>"
  let ?w = "\<lparr>wh_type = 1, wh_src_ip = [0x31, 0], wh_src_port = 80, wh_dst_ip = [0x32, 0], wh_dst_port = 443,
    wh_host = lit ''a.b'' @ [0], wh_path = lit ''/x'' @ [0], wh_ua = [0], wh_cookie = lit ''c=1'' @ [0]\<rparr>"
  let ?q = "\<lparr>hr_path = lit ''/x'', hr_host = lit ''a.b'', hr_cookie = lit ''c=1'', hr_agent = []\<rparr>"
  have s: "http_ready ?s" using p by (auto simp: http_ready_def)
  have q: "request_of ?w ?q" "request_ok ?q" "length (hr_path ?q) < 115"
    by (simp_all add: request_of_def is_string_def request_ok_def value_ok_def uri_ok_def lit_def chr8_def)
  have ip: "is_string (wh_src_ip ?w) [0x31]" "is_string (wh_dst_ip ?w) [0x32]" by (simp_all add: is_string_def)
  show ?thesis
    using http_packet_parsed [OF s q(1,2) ip(1) _ _ ip(2), of "\<lambda>_. Some 1" 1 1 7 "\<lparr>tv_sec = 12, tv_usec = 5\<rparr>" empty_req] p(1) q(3) by auto
qed

end
