(* ===== verification/Pk_Capture.thy ===== *)
theory Pk_Capture
  imports Pk_Receiver Eth_Scrapy
begin

text \<open>
  The main function of the packet receivers, which is the same in \<^verbatim>\<open>tools/pkreceiver_v2.c\<close> and \<^verbatim>\<open>tools/pkreceiver_v1.c\<close>: the filter is put
  together from the arguments, and the capture loop of Eth_Scrapy is opened and started with the handler. It waits for ever behind that.
\<close>

section \<open>The program\<close>

text \<open>The arguments of the filter, each with a space behind it.\<close>

fun add_args :: "bytes list \<Rightarrow> bytes \<Rightarrow> bytes run" where
  "add_args [] f = Inr f"
| "add_args (a # as) f = bindR (strcat f a) (\<lambda>f1. bindR (strcat f1 (lit '' '')) (add_args as))"

text \<open>\<open>handler\<close> is the address of the handler, \<open>e\<close> what the capture library answers and \<open>ok\<close> the outcome of \<^verbatim>\<open>pthread_create\<close>. The
  result has what \<^verbatim>\<open>main\<close> returns, \<open>None\<close> where it waits, the filter that is given to the library, and the state of the loop.\<close>

definition receiver_main :: "nat \<Rightarrow> bytes list \<Rightarrow> pcap_env \<Rightarrow> bool \<Rightarrow> capture \<Rightarrow> (int option \<times> bytes \<times> capture) run" where
  "receiver_main handler argv e ok s =
     (if length argv < 3 then Inr (Some 1, [], s)
      else
        bindR (add_args (drop 3 argv) (replicate 128 0)) (\<lambda>f.
        bindR (cstr f) (\<lambda>flt.
        bindR (eth_scrapy_init e SCRAPY_CARD s) (\<lambda>(r, s1).
          if r < 0 then Inr (Some 1, flt, s1)
          else
            let (r2, s2) = eth_scrapy_reg (Some handler) s1 in
            if r2 < 0 then bindR (eth_scrapy_destroy s2) (\<lambda>(_, s3). Inr (Some 1, flt, s3))
            else
              let (r3, s3) = eth_scrapy_start ok s2 in
              if r3 < 0 then bindR (eth_scrapy_destroy s3) (\<lambda>(_, s4). Inr (Some 1, flt, s4))
              else Inr (None, flt, s3)))))"

section \<open>The filter\<close>

definition filter_text :: "bytes list \<Rightarrow> bytes" where
  "filter_text as = concat (map (\<lambda>a. a @ lit '' '') as)"

lemma add_args_text:
  assumes "0 \<notin> set q" and "\<forall>a\<in>set as. 0 \<notin> set a"
  shows "add_args as (q @ 0 # z) =
    (if length (filter_text as) \<le> length z then Inr ((q @ filter_text as) @ 0 # drop (length (filter_text as)) z) else Inl OutOfBounds)"
  using assms
proof (induction as arbitrary: q z)
  case Nil
  then show ?case by (simp add: filter_text_def)
next
  case (Cons a as)
  have sp: "length (lit '' '') = 1" "0 \<notin> set (lit '' '')" by (simp_all add: lit_def chr8_def)
  have ft: "filter_text (a # as) = a @ lit '' '' @ filter_text as" by (simp add: filter_text_def)
  have q: "0 \<notin> set (q @ a)" "0 \<notin> set ((q @ a) @ lit '' '')" using Cons.prems sp(2) by auto
  consider (1) "length a + 1 \<le> length z" | (2) "length a = length z" | (3) "length z < length a" by linarith
  then show ?case
  proof cases
    case 1
    have s1: "strcat (q @ 0 # z) a = Inr ((q @ a) @ 0 # drop (length a) z)" using strcat_at [OF Cons.prems(1)] 1 by simp
    have s2: "strcat ((q @ a) @ 0 # drop (length a) z) (lit '' '') = Inr (((q @ a) @ lit '' '') @ 0 # drop (length a + 1) z)"
      using strcat_at [OF q(1), of "lit '' ''" "drop (length a) z"] 1 unfolding sp(1) by (simp add: add.commute)
    have "add_args (a # as) (q @ 0 # z) = add_args as (((q @ a) @ lit '' '') @ 0 # drop (length a + 1) z)" by (simp add: s1 s2 del: append_assoc)
    also have "\<dots> = (if length (filter_text as) \<le> length (drop (length a + 1) z)
        then Inr ((((q @ a) @ lit '' '') @ filter_text as) @ 0 # drop (length (filter_text as)) (drop (length a + 1) z)) else Inl OutOfBounds)"
      using Cons.prems(2) by (intro Cons.IH [OF q(2)]) simp
    finally show ?thesis using 1 by (simp add: ft sp(1) add.commute add.left_commute) arith
  next
    case 2
    have s1: "strcat (q @ 0 # z) a = Inr ((q @ a) @ 0 # [])" using strcat_at [OF Cons.prems(1), of a z] 2 by simp
    have s2: "strcat ((q @ a) @ 0 # []) (lit '' '') = Inl OutOfBounds" using sp(1) cstr_at [OF q(1), of "[]"] by (simp add: strcat_def)
    show ?thesis using 2 by (simp add: s1 s2 ft sp(1) del: append_assoc)
  next
    case 3
    then have "strcat (q @ 0 # z) a = Inl OutOfBounds" using Cons.prems(1) by (simp add: strcat_def cstr_at)
    then show ?thesis using 3 by (simp add: ft)
  qed
qed

section \<open>The capture\<close>

lemma ready_run: "capture_ready s \<Longrightarrow> \<exists>s'. run_threads xs s = Inr s' \<and> capture_ready s'"
proof (induction xs arbitrary: s)
  case (Cons x xs)
  obtain i r where x: "x = (i, r)" by (cases x)
  show ?case
  proof (cases "i < length (cap_threads s)")
    case True
    obtain s1 where "eth_scrapy_callback i r s = Inr s1" "capture_ready s1" using ready_step [OF Cons.prems True] by blast
    then show ?thesis using Cons.IH True by (simp add: x)
  qed (use Cons in \<open>simp add: x\<close>)
qed simp

text \<open>C27. The start of a receiver. Where the arguments of the filter with their spaces are below 128 bytes and the calls of the
  library store no more than the 128 bytes of the array they are given for messages: if the library gives a handle, the program waits, the
  library got the arguments in order with a space behind each, and no schedule of the capture thread faults; if a call of the library fails
  the program ends with 1 and no handle of its own is left open. Where the arguments are longer the filter is written behind
  its array, and where a call stores more, as the library may, the array for messages is overrun.\<close>

theorem receiver_starts:
  assumes "3 \<le> length argv" and "\<forall>a\<in>set argv. 0 \<notin> set a" and "cap_threads s = []" and "\<forall>h. pe_open e = Some h \<longrightarrow> h \<notin> set (open_caps s)"
  shows "if length (filter_text (drop 3 argv)) < 128 \<and> (\<forall>t\<in>set (init_messages e SCRAPY_CARD). length t \<le> 128)
    then \<exists>r s'. receiver_main f argv e ok s = Inr (r, filter_text (drop 3 argv), s')
      \<and> (if pe_lookupnet e \<and> pe_open e \<noteq> None \<and> pe_setnonblock e \<and> pe_compile e \<and> pe_setfilter e \<and> ok
         then r = None \<and> sg_handler s' = Some f \<and> sg_scraper s' = pe_open e \<and> (\<forall>xs. \<exists>s2. run_threads xs s' = Inr s2)
         else r = Some 1 \<and> open_caps s' = open_caps s \<and> cap_threads s' = [])
    else receiver_main f argv e ok s = Inl OutOfBounds"
proof -
  have nz: "\<forall>a\<in>set (drop 3 argv). 0 \<notin> set a" using assms(2) by (meson in_set_dropD)
  have z: "replicate 128 (0 :: u8) = [] @ 0 # replicate 127 0" by (simp add: numeral_eq_Suc)
  note t = add_args_text [of "[]" "drop 3 argv" "replicate 127 0", OF _ nz]
  have n: "\<not> length argv < 3" using assms(1) by simp
  note init = eth_scrapy_init_cases [OF assms(4), of SCRAPY_CARD]
  show ?thesis
  proof (cases "length (filter_text (drop 3 argv)) < 128")
    case False
    then have "add_args (drop 3 argv) (replicate 128 0) = Inl OutOfBounds" using t unfolding z by simp
    then show ?thesis using False unfolding receiver_main_def if_not_P [OF n] by simp
  next
    case True
    let ?t = "filter_text (drop 3 argv)"
    have "0 \<notin> set ?t" using nz by (auto simp: filter_text_def lit_def chr8_def)
    then have c: "cstr (?t @ 0 # drop (length ?t) (replicate 127 0)) = Inr ?t" by (rule cstr_at)
    have m: "receiver_main f argv e ok s =
        bindR (eth_scrapy_init e SCRAPY_CARD s) (\<lambda>(r, s1).
          if r < 0 then Inr (Some 1, ?t, s1)
          else if ok then Inr (None, ?t, s1\<lparr>sg_handler := Some f, cap_threads := cap_threads s1 @ [Enter]\<rparr>)
          else bindR (eth_scrapy_destroy (s1\<lparr>sg_handler := Some f\<rparr>)) (\<lambda>(_, s4). Inr (Some 1, ?t, s4)))"
      using True t c unfolding receiver_main_def if_not_P [OF n] z
      by (cases ok) (simp_all add: eth_scrapy_reg_def eth_scrapy_start_def split_def cong: if_cong)
    show ?thesis
    proof (cases "\<forall>t\<in>set (init_messages e SCRAPY_CARD). length t \<le> 128")
      case False
      then have "eth_scrapy_init e SCRAPY_CARD s = Inl OutOfBounds" using init by simp
      then show ?thesis using False unfolding m by simp
    next
      case fit: True
      obtain r s1 where s1: "eth_scrapy_init e SCRAPY_CARD s = Inr (r, s1)" "cap_threads s1 = []"
        "if pe_lookupnet e \<and> pe_open e \<noteq> None \<and> pe_setnonblock e \<and> pe_compile e \<and> pe_setfilter e
         then r = 0 \<and> sg_scraper s1 = pe_open e \<and> open_caps s1 = the (pe_open e) # open_caps s
         else r = - 1 \<and> open_caps s1 = open_caps s"
        using init fit assms(3) by (auto split: if_splits)
      show ?thesis
      proof (cases "pe_lookupnet e \<and> pe_open e \<noteq> None \<and> pe_setnonblock e \<and> pe_compile e \<and> pe_setfilter e")
        case ready: True
        then obtain h where h: "pe_open e = Some h" "h \<notin> set (open_caps s)" using assms(4) by auto
        have "capture_ready (s1\<lparr>sg_handler := Some f, cap_threads := cap_threads s1 @ [Enter]\<rparr>)"
          using s1(2,3) ready h(1) by (simp add: capture_ready_def)
        then have "\<exists>s2. run_threads xs (s1\<lparr>sg_handler := Some f, cap_threads := cap_threads s1 @ [Enter]\<rparr>) = Inr s2" for xs
          using ready_run by blast
        then show ?thesis
          using True fit ready h s1(2,3) unfolding m s1(1) by (cases ok) (simp_all add: eth_scrapy_destroy_def pcap_close_def)
      next
        case False
        then have "r = - 1" "open_caps s1 = open_caps s" using s1(3) by simp_all
        then show ?thesis using True fit False s1(2) unfolding m s1(1) by auto
      qed
    qed
  qed
qed

definition some_args :: "bytes list" where
  "some_args = [lit ''pkreceiver'', lit ''-i'', lit ''eth0'', lit ''tcp'', lit ''port'', lit ''80'']"

definition some_library :: "bytes \<Rightarrow> pcap_env" where
  "some_library t = \<lparr>pe_lookupnet = True, pe_lookupnet_err = [], pe_open = Some 4, pe_open_err = t, pe_setnonblock = True, pe_setnonblock_err = [],
     pe_compile = True, pe_setfilter = True\<rparr>"

lemma receiver_starts_witness:
  "(\<exists>s'. receiver_main 9 some_args (some_library [0]) True
        \<lparr>run_flag = 0, sg_scraper = None, sg_handler = None, open_caps = [], cap_threads = []\<rparr> = Inr (None, lit ''tcp port 80 '', s')
      \<and> (\<forall>xs. \<exists>s2. run_threads xs s' = Inr s2))
    \<and> receiver_main 9 some_args (some_library (replicate 200 0x2E)) True
        \<lparr>run_flag = 0, sg_scraper = None, sg_handler = None, open_caps = [], cap_threads = []\<rparr> = Inl OutOfBounds"
proof -
  have "filter_text [lit ''tcp'', lit ''port'', lit ''80''] = lit ''tcp port 80 ''" by (simp add: filter_text_def lit_def)
  then show ?thesis
    using receiver_starts [of some_args "\<lparr>run_flag = 0, sg_scraper = None, sg_handler = None, open_caps = [], cap_threads = []\<rparr>" "some_library [0]" 9 True]
      receiver_starts [of some_args "\<lparr>run_flag = 0, sg_scraper = None, sg_handler = None, open_caps = [], cap_threads = []\<rparr>"
        "some_library (replicate 200 0x2E)" 9 True]
    by (auto simp: some_args_def some_library_def init_messages_def lit_def chr8_def)
qed

end
