(* ===== verification/Pk_Sender_V1.thy ===== *)
theory Pk_Sender_V1
  imports Pk_Run
begin

text \<open>
  The older sender \<^verbatim>\<open>tools/pksender_v1.c\<close>: one packet to the addresses of the command line, with the time as its load; and the packet
  handler of the older receiver \<^verbatim>\<open>tools/pkreceiver_v1.c\<close> up to the call at which its behaviour is no longer defined. The checksums,
  the TCP header and the socket are statement for statement those of the newer programs in Pk_Sender and Pk_Run.
\<close>

text \<open>The buffer has 56 bytes: 40 for the headers and 16 for the load.\<close>

definition g_buf_sz :: int where
  "g_buf_sz = 56"

definition create_ip_hdr_v1 :: "bytes \<Rightarrow> u16 \<Rightarrow> u32 \<Rightarrow> u32 \<Rightarrow> bytes run" where
  "create_ip_hdr_v1 buf pid src_ip dst_ip =
     bindR (put buf 0 (pk_ip_hdr pid src_ip dst_ip (word_of_int g_buf_sz) 0)) (\<lambda>m.
     bindR (pk_chk_sum (Some m) 20) (\<lambda>c.
       put m 0 (pk_ip_hdr pid src_ip dst_ip (word_of_int g_buf_sz) c)))"

text \<open>The bytes handed to \<^verbatim>\<open>sendto\<close>, \<open>None\<close> where the program ends before: an address is not proper, or there is no socket.\<close>

definition send_v1 :: "(bytes \<Rightarrow> u32 option) \<Rightarrow> bool \<Rightarrow> u16 \<Rightarrow> timeval \<Rightarrow> bytes \<Rightarrow> bytes \<Rightarrow> bytes \<Rightarrow> bytes \<Rightarrow> bytes \<Rightarrow> bytes option run" where
  "send_v1 pton sock pid tv src sport dst dport buf =
     (case pton src of
        None \<Rightarrow> Inr None
      | Some src_ip \<Rightarrow>
          (case pton dst of
             None \<Rightarrow> Inr None
           | Some dst_ip \<Rightarrow>
               let src_port = htons (word_of_int (atoi sport)); dst_port = htons (word_of_int (atoi dport)) in
               if \<not> sock then Inr None
               else
                 bindR (create_ip_hdr_v1 buf pid src_ip dst_ip) (\<lambda>g0.
                 bindR (put g0 20 (create_tcp_hdr src_port dst_port 0)) (\<lambda>g1.
                 bindR (put g1 40 (int_text (tv_sec tv) @ lit ''.'' @ int_text (tv_usec tv) @ [0])) (\<lambda>g2.
                 bindR (pk_tcp_chk_sum 6 (drop 20 g2) (20 + 16) src_ip dst_ip) (\<lambda>c.
                 bindR (put g2 20 (create_tcp_hdr src_port dst_port c)) (\<lambda>g3.
                 bindR (slice g3 0 g_buf_sz) (\<lambda>packet. Inr (Some packet)))))))))"

text \<open>The packet on every time: where the seconds, the point and the microseconds take 15 characters or less
  it is a valid IP header, the TCP header and the time, filled up with zeros; where they take more, as they do for ten digits of seconds
  and more than four of microseconds, the text does not fit behind the headers and its end is written past the buffer.\<close>

lemma send_v1_cases:
  assumes "pton src = Some s" and "pton dst = Some d"
  shows "if length (time_value tv) \<le> 15
    then \<exists>k c. send_v1 pton True pid tv src sport dst dport (replicate 56 0)
        = Inr (Some (pk_ip_hdr pid s d 56 k @ create_tcp_hdr (htons (word_of_int (atoi sport))) (htons (word_of_int (atoi dport))) c
            @ time_value tv @ replicate (16 - length (time_value tv)) 0))
      \<and> (\<forall>z. pk_chk_sum (Some (pk_ip_hdr pid s d 56 k @ z)) 20 = Inr 0)
    else send_v1 pton True pid tv src sport dst dport (replicate 56 0) = Inl OutOfBounds"
proof -
  let ?t = "time_value tv" and ?tcp = "create_tcp_hdr (htons (word_of_int (atoi sport))) (htons (word_of_int (atoi dport)))"
  have ip: "create_ip_hdr_v1 b pid s d = create_ip_hdr b pid s d 56" for b
    by (simp add: create_ip_hdr_v1_def create_ip_hdr_def g_buf_sz_def)
  define b where "b = replicate 56 (0 :: u8)"
  have b: "length b = 56" "drop n b = replicate (56 - n) 0" for n by (simp_all only: b_def length_replicate drop_replicate)
  obtain k where k: "create_ip_hdr b pid s d 56 = Inr (pk_ip_hdr pid s d 56 k @ drop 20 b)"
    "\<forall>z. pk_chk_sum (Some (pk_ip_hdr pid s d 56 k @ z)) 20 = Inr 0"
    using create_ip_hdr_valid [of b pid s d 56] b(1) by auto
  let ?ip = "pk_ip_hdr pid s d 56 k"
  have txt_eq: "int_text (tv_sec tv) @ lit ''.'' @ int_text (tv_usec tv) @ [0] = ?t @ [0]" by (simp add: time_value_def)
  have p1: "put (?ip @ drop 20 b) 20 (?tcp 0) = Inr (?ip @ ?tcp 0 @ drop 40 b)" using b(1) by simp
  show ?thesis
  proof (cases "length ?t \<le> 15")
    case True
    define l where "l = ?t @ [0] @ drop (41 + length ?t) b"
    have "Suc (56 - (41 + length ?t)) = 16 - length ?t" using True by simp
    then have z: "l = ?t @ replicate (16 - length ?t) 0" unfolding l_def b(2) by (metis append_Cons append_Nil replicate_Suc)
    have l: "length l = 16" using True b(1) by (simp add: l_def)
    have p2: "put (?ip @ ?tcp 0 @ drop 40 b) 40 (?t @ [0]) = Inr (?ip @ ?tcp 0 @ l)"
      using True b(1) by (simp add: l_def add.commute)
    obtain c where c: "pk_tcp_chk_sum 6 (?tcp 0 @ l) 36 s d = Inr c" using pk_tcp_chk_sum_defined [of 36 "?tcp 0 @ l" 6 s d] l by auto
    have p3: "put (?ip @ ?tcp 0 @ l) 20 (?tcp c) = Inr (?ip @ ?tcp c @ l)" by simp
    have "slice (?ip @ ?tcp c @ l) 0 56 = Inr (?ip @ ?tcp c @ l)" using l by simp
    then have "send_v1 pton True pid tv src sport dst dport b = Inr (Some (?ip @ ?tcp c @ l))"
      using assms k(1) p1 p2 p3 c by (simp add: send_v1_def ip Let_def txt_eq g_buf_sz_def)
    then show ?thesis using True k(2) unfolding z b_def by auto
  next
    case False
    then have "put (?ip @ ?tcp 0 @ drop 40 b) 40 (?t @ [0]) = Inl OutOfBounds" using b(1) by simp
    then have "send_v1 pton True pid tv src sport dst dport b = Inl OutOfBounds"
      using assms k(1) p1 by (simp add: send_v1_def ip Let_def txt_eq)
    then show ?thesis using False unfolding b_def by simp
  qed
qed

text \<open>\<^verbatim>\<open>main\<close>: what it returns and the bytes handed to \<^verbatim>\<open>sendto\<close>; \<open>args\<close> are the four arguments and \<open>sent\<close> is the outcome of \<^verbatim>\<open>sendto\<close>.\<close>

definition sender_v1_main :: "(bytes \<Rightarrow> u32 option) \<Rightarrow> int \<times> bool \<Rightarrow> u16 \<Rightarrow> timeval \<Rightarrow> bool \<Rightarrow> bytes list \<Rightarrow> bytes \<Rightarrow> (int \<times> bytes option) run" where
  "sender_v1_main pton sock pid tv sent args buf =
     (case args of
        src # sport # dst # dport # _ \<Rightarrow>
          bindR (send_v1 pton (0 \<le> create_raw_socket (fst sock) (snd sock)) pid tv src sport dst dport buf) (\<lambda>p.
            Inr (if p \<noteq> None \<and> sent then 0 else - 1, p))
      | _ \<Rightarrow> Inr (- 1, None))"

section \<open>The older receiver\<close>

text \<open>The handler of a frame. \<^verbatim>\<open>inet_ntop\<close> is called without a declaration and without its last argument, the size of the buffer: the call
  has no defined behaviour, and what stands behind it no meaning. Before it a frame that has no IP packet is left alone.\<close>

definition packet_handler_v1 :: "bytes \<Rightarrow> bytes \<Rightarrow> bytes run" where
  "packet_handler_v1 m log =
     bindR (rd_net16 m 12) (\<lambda>et.
       if et \<noteq> 0x800 then Inr log
       else bindR (wr log 0 0) (\<lambda>_. Inl BadCall))"

text \<open>So no IP packet gets through the handler, the one of the older sender included.\<close>

lemma handler_v1_stops:
  assumes "length e = 12" and "log \<noteq> []"
  shows "packet_handler_v1 (e @ [8, 0] @ packet) log = Inl BadCall"
  using assms by (simp add: packet_handler_v1_def rd_net16_def nth_append)

section \<open>Property\<close>

definition packet_v1 :: "u16 \<Rightarrow> u32 \<Rightarrow> u32 \<Rightarrow> u16 \<Rightarrow> u16 \<Rightarrow> timeval \<Rightarrow> u16 \<Rightarrow> u16 \<Rightarrow> bytes" where
  "packet_v1 pid s d sp dp tv k c =
     pk_ip_hdr pid s d 56 k @ create_tcp_hdr (htons sp) (htons dp) c @ time_value tv @ replicate (16 - length (time_value tv)) 0"

lemma sender_v1_sends:
  assumes "pton src = Some s" and "pton dst = Some d" and "\<not> create_raw_socket fd opt < 0"
  shows "if length (time_value tv) \<le> 15
    then \<exists>k c. sender_v1_main pton (fd, opt) pid tv sent (src # sport # dst # dport # as) (replicate 56 0)
        = Inr (if sent then 0 else - 1, Some (packet_v1 pid s d (word_of_int (atoi sport)) (word_of_int (atoi dport)) tv k c))
      \<and> pk_chk_sum (Some (packet_v1 pid s d (word_of_int (atoi sport)) (word_of_int (atoi dport)) tv k c)) 20 = Inr 0
    else sender_v1_main pton (fd, opt) pid tv sent (src # sport # dst # dport # as) (replicate 56 0) = Inl OutOfBounds"
proof -
  have m: "sender_v1_main pton (fd, opt) pid tv sent (src # sport # dst # dport # as) (replicate 56 0) =
      bindR (send_v1 pton True pid tv src sport dst dport (replicate 56 0)) (\<lambda>p. Inr (if p \<noteq> None \<and> sent then 0 else - 1, p))"
    using assms(3) by (simp add: sender_v1_main_def not_less)
  show ?thesis
  proof (cases "length (time_value tv) \<le> 15")
    case True
    then obtain k c where "send_v1 pton True pid tv src sport dst dport (replicate 56 0)
        = Inr (Some (packet_v1 pid s d (word_of_int (atoi sport)) (word_of_int (atoi dport)) tv k c))"
      "\<forall>z. pk_chk_sum (Some (pk_ip_hdr pid s d 56 k @ z)) 20 = Inr 0"
      using send_v1_cases [OF assms(1,2), of tv pid sport dport] unfolding packet_v1_def by auto
    moreover from this(2) have "pk_chk_sum (Some (packet_v1 pid s d (word_of_int (atoi sport)) (word_of_int (atoi dport)) tv k c)) 20 = Inr 0"
      unfolding packet_v1_def by blast
    ultimately have "sender_v1_main pton (fd, opt) pid tv sent (src # sport # dst # dport # as) (replicate 56 0)
        = Inr (if sent then 0 else - 1, Some (packet_v1 pid s d (word_of_int (atoi sport)) (word_of_int (atoi dport)) tv k c))"
      "pk_chk_sum (Some (packet_v1 pid s d (word_of_int (atoi sport)) (word_of_int (atoi dport)) tv k c)) 20 = Inr 0"
      unfolding m by simp_all
    then show ?thesis unfolding if_P [OF True] by blast
  next
    case False
    then show ?thesis using send_v1_cases [OF assms(1,2), of tv pid sport dport] unfolding m by simp
  qed
qed

text \<open>C38. The older sender, on every branch. With fewer than four arguments, an improper address or no socket it ends with -1 and sends nothing.
  Otherwise, where the text of the time takes 15 characters or less, it sends 56 bytes: a valid IP header with the two addresses, the TCP
  header with the two ports and the time filled up with zeros, and ends with 0 if they could be sent; where it takes more the sender
  writes behind its buffer.\<close>

theorem sender_v1_cases:
  "case args of
     src # sport # dst # dport # _ \<Rightarrow>
       (case (pton src, pton dst) of
          (Some s, Some d) \<Rightarrow>
            if create_raw_socket fd opt < 0 then sender_v1_main pton (fd, opt) pid tv sent args (replicate 56 0) = Inr (- 1, None)
            else if length (time_value tv) \<le> 15
            then \<exists>k c. sender_v1_main pton (fd, opt) pid tv sent args (replicate 56 0)
                = Inr (if sent then 0 else - 1, Some (packet_v1 pid s d (word_of_int (atoi sport)) (word_of_int (atoi dport)) tv k c))
              \<and> pk_chk_sum (Some (packet_v1 pid s d (word_of_int (atoi sport)) (word_of_int (atoi dport)) tv k c)) 20 = Inr 0
            else sender_v1_main pton (fd, opt) pid tv sent args (replicate 56 0) = Inl OutOfBounds
        | _ \<Rightarrow> sender_v1_main pton (fd, opt) pid tv sent args (replicate 56 0) = Inr (- 1, None))
   | _ \<Rightarrow> sender_v1_main pton (fd, opt) pid tv sent args (replicate 56 0) = Inr (- 1, None)"
proof (cases "\<exists>src sport dst dport as. args = src # sport # dst # dport # as")
  case False
  then show ?thesis by (auto simp: sender_v1_main_def split: list.split)
next
  case True
  then obtain src sport dst dport as where four: "args = src # sport # dst # dport # as" by blast
  show ?thesis
  proof (cases "\<exists>s d. pton src = Some s \<and> pton dst = Some d")
    case False
    then show ?thesis by (cases "pton src"; cases "pton dst") (simp_all add: four sender_v1_main_def send_v1_def)
  next
    case True
    then obtain s d where p: "pton src = Some s" "pton dst = Some d" by blast
    show ?thesis
    proof (cases "create_raw_socket fd opt < 0")
      case True
      then show ?thesis by (simp add: four p sender_v1_main_def send_v1_def Let_def)
    next
      case False
      then show ?thesis using sender_v1_sends [OF p False, of tv pid sent sport dport as] unfolding four by (simp only: p list.case option.case prod.case if_False)
    qed
  qed
qed

end
