(* ===== verification/Udp_Echo.thy ===== *)
theory Udp_Echo
  imports Pk_Hosts Pk_Receiver
begin

text \<open>
  The tools \<^verbatim>\<open>simple_client.c\<close> and \<^verbatim>\<open>simple_server.c\<close>: the client sends numbered datagrams with the time, the server sends each back
  with its own time behind it, and the client takes the answer apart with \<^verbatim>\<open>substr\<close> and prints a line. What the sockets
  answer and what arrives is an argument; messages on errors and the sleep between two requests are not modelled.
\<close>

section \<open>The server\<close>

record echo_server =
  sv_recv_buf :: bytes
  sv_snd_buf :: bytes

definition time_mark :: "bytes \<Rightarrow> timeval \<Rightarrow> bytes" where
  "time_mark name tv = name @ int_text (tv_sec tv) @ lit ''.'' @ int_text (tv_usec tv) @ lit '';''"

text \<open>The answer to a datagram \<open>d\<close>. \<^verbatim>\<open>recvfrom\<close> stores at most 128 bytes of it; \<^verbatim>\<open>snprintf\<close> writes at most what is left of the
  256, and its result is the length it would need.\<close>

definition server_answer :: "timeval \<Rightarrow> bytes \<Rightarrow> echo_server \<Rightarrow> (bytes \<times> echo_server) run" where
  "server_answer tv d s =
     (let recv_len = min (length d) 128 in
      bindR (put (sv_recv_buf s) 0 (take recv_len d)) (\<lambda>rb.
      bindR (slice rb 0 (int recv_len)) (\<lambda>x.
      bindR (put (sv_snd_buf s) 0 x) (\<lambda>sb.
      let t = time_mark (lit ''&server_time='') tv in
      bindR (put sb recv_len (take (256 - recv_len - 1) t @ [0])) (\<lambda>sb'.
      bindR (slice sb' 0 (int (recv_len + length t))) (\<lambda>out.
        Inr (out, \<lparr>sv_recv_buf = rb, sv_snd_buf = sb'\<rparr>)))))))"

text \<open>The loop: the answers sent; it ends where \<^verbatim>\<open>recvfrom\<close> fails (\<open>None\<close>). Failing to send does not end it.\<close>

fun server_loop :: "(timeval \<times> bytes option) list \<Rightarrow> echo_server \<Rightarrow> bytes list run" where
  "server_loop [] s = Inr []"
| "server_loop ((tv, d) # es) s =
     (case d of
        None \<Rightarrow> Inr []
      | Some d \<Rightarrow> bindR (server_answer tv d s) (\<lambda>(out, s'). bindR (server_loop es s') (\<lambda>outs. Inr (out # outs))))"

section \<open>The client\<close>

record echo_client =
  cl_recv_buf :: bytes
  cl_snd_buf :: bytes
  disp_buf :: bytes
  cl_tbuf :: bytes

text \<open>The request number \<open>i\<close>.\<close>

definition client_request :: "int \<Rightarrow> timeval \<Rightarrow> echo_client \<Rightarrow> (bytes \<times> echo_client) run" where
  "client_request i tv c =
     (let t = lit ''&seq='' @ int_text i @ lit '';'' @ time_mark (lit ''&client_timeb='') tv in
      bindR (put (cl_snd_buf c) 0 (t @ [0])) (\<lambda>m. Inr (t, c\<lparr>cl_snd_buf := m\<rparr>)))"

text \<open>A field of the answer is appended to the line with \<^verbatim>\<open>%.*s\<close>, up to a NUL in it; the truth value says whether it was there.\<close>

definition show_field :: "bytes \<Rightarrow> int \<Rightarrow> echo_client \<Rightarrow> (bool \<times> echo_client) run" where
  "show_field name n c =
     bindR (substr (cl_recv_buf c) n name (lit '';'') 128) (\<lambda>(len, d).
     bindR (put (cl_tbuf c) 0 d) (\<lambda>t.
     let c1 = c\<lparr>cl_tbuf := t\<rparr> in
       if len \<le> 0 then Inr (False, c1)
       else
         bindR (slice t 0 len) (\<lambda>v.
         bindR (strcat (disp_buf c1) (takeWhile (\<lambda>x. x \<noteq> 0) v @ lit ''|'')) (\<lambda>m. Inr (True, c1\<lparr>disp_buf := m\<rparr>)))))"

text \<open>What is printed for an answer \<open>d\<close>; \<open>tv\<close> and \<open>tv2\<close> are the times before and after it came. \<open>None\<close> where a field is missing.\<close>

definition client_show :: "bytes \<Rightarrow> bytes \<Rightarrow> timeval \<Rightarrow> timeval \<Rightarrow> bytes \<Rightarrow> echo_client \<Rightarrow> (bytes option \<times> echo_client) run" where
  "client_show ip port tv tv2 d c =
     (let recv_len = min (length d) 256 in
      bindR (put (cl_recv_buf c) 0 (take recv_len d)) (\<lambda>rb.
      bindR (wr (disp_buf c) 0 0) (\<lambda>m0.
      bindR (strcat m0 (ip @ lit ''|'' @ port @ lit ''|'')) (\<lambda>m1.
      bindR (show_field (lit ''&seq='') (int recv_len) (c\<lparr>cl_recv_buf := rb, disp_buf := m1\<rparr>)) (\<lambda>(ok, c1).
        if \<not> ok then Inr (None, c1)
        else
          bindR (show_field (lit ''&client_timeb='') (int recv_len) c1) (\<lambda>(ok, c2).
            if \<not> ok then Inr (None, c2)
            else
              bindR (show_field (lit ''&server_time='') (int recv_len) c2) (\<lambda>(ok, c3).
                if \<not> ok then Inr (None, c3)
                else
                  bindR (strcat (disp_buf c3) (int_text (tv_sec tv) @ lit ''.'' @ int_text (tv_usec tv) @ lit ''|''
                      @ int_text (tv_sec tv2) @ lit ''.'' @ int_text (tv_usec tv2) @ lit ''|'')) (\<lambda>m.
                  bindR (cstr m) (\<lambda>line. Inr (Some line, c3\<lparr>disp_buf := m\<rparr>))))))))))"

text \<open>The loop, over the answers of the system for each packet: the time of the request, whether it is sent, the time behind it, what arrives
  (nothing and an error end the loop) and the time then. The result has the requests sent and the lines printed.\<close>

fun client_loop :: "bytes \<Rightarrow> bytes \<Rightarrow> int \<Rightarrow> (timeval \<times> bool \<times> timeval \<times> bytes option \<times> timeval) list \<Rightarrow> echo_client \<Rightarrow>
    (bytes list \<times> bytes list) run" where
  "client_loop ip port i [] c = Inr ([], [])"
| "client_loop ip port i ((tv0, sent, tv, d, tv2) # es) c =
     bindR (client_request i tv0 c) (\<lambda>(req, c1).
       if \<not> sent then Inr ([], [])
       else case d of
         None \<Rightarrow> Inr ([req], [])
       | Some d \<Rightarrow>
           if d = [] then Inr ([req], [])
           else
             bindR (client_show ip port tv tv2 d c1) (\<lambda>(line, c2).
             bindR (client_loop ip port (i + 1) es c2) (\<lambda>(reqs, lines).
               Inr (req # reqs, case line of None \<Rightarrow> lines | Some l \<Rightarrow> l # lines))))"

section \<open>The programs\<close>

text \<open>The client with the arguments behind its name: what \<^verbatim>\<open>main\<close> returns, the requests sent and the lines printed. \<open>pton\<close> is \<^verbatim>\<open>inet_pton\<close>, \<open>fd\<close>
  the answer of \<^verbatim>\<open>socket\<close>, and \<open>es\<close> the answers for each packet.\<close>

definition client_main :: "(bytes \<Rightarrow> u32 option) \<Rightarrow> int \<Rightarrow> bytes list \<Rightarrow> (timeval \<times> bool \<times> timeval \<times> bytes option \<times> timeval) list \<Rightarrow>
    echo_client \<Rightarrow> (int \<times> bytes list \<times> bytes list) run" where
  "client_main pton fd args es c =
     (case args of
        ip # port # num # sleep_time # _ \<Rightarrow>
          if pton ip = None then Inr (1, [], [])
          else if fd < 0 then Inr (1, [], [])
          else bindR (client_loop ip port 0 (take (nat (atoi num)) es) c) (\<lambda>(reqs, lines). Inr (0, reqs, lines))
      | _ \<Rightarrow> Inr (1, [], []))"

text \<open>The server: \<open>bound\<close> is the outcome of \<^verbatim>\<open>bind\<close>. It returns when \<^verbatim>\<open>recvfrom\<close> fails; \<open>None\<close> where it still waits at the end of \<open>es\<close>. The
  port is the second argument, which is not tested for.\<close>

definition server_main :: "int \<Rightarrow> bool \<Rightarrow> bytes list \<Rightarrow> (timeval \<times> bytes option) list \<Rightarrow> echo_server \<Rightarrow> (int option \<times> bytes list) run" where
  "server_main fd bound args es s =
     (if fd < 0 then Inr (Some 1, [])
      else if length args < 2 then Inl NullDeref
      else if \<not> bound then Inr (Some 0, [])
      else bindR (server_loop es s) (\<lambda>outs. Inr (if \<exists>e\<in>set es. snd e = None then Some 0 else None, outs)))"

section \<open>What is printed\<close>

lemma time_mark_value: "time_mark name tv = name @ time_value tv @ lit '';''"
  by (simp add: time_mark_def time_value_def)

definition long_time :: "timeval \<Rightarrow> bool" where
  "long_time tv \<longleftrightarrow> - (2 ^ 63) \<le> tv_sec tv \<and> tv_sec tv < 2 ^ 63 \<and> - (2 ^ 63) \<le> tv_usec tv \<and> tv_usec tv < 2 ^ 63"

lemma int_text_long:
  assumes "- (2 ^ 63) \<le> x" and "x < 2 ^ 63"
  shows "length (int_text x) \<le> 20"
proof -
  have "nat x < 10 ^ 19" "nat (- x) < 10 ^ 19" using assms by (simp_all add: nat_less_iff)
  then show ?thesis using dec_length [of "nat x" 19] dec_length [of "nat (- x)" 19] by (simp add: int_text_def)
qed

text \<open>Whatever arrives, the server stays in its buffers and sends it back with the whole time.\<close>

lemma server_answer_fits:
  assumes "length (sv_recv_buf s) = 128" and "length (sv_snd_buf s) = 256" and "long_time tv"
  shows "\<exists>s'. server_answer tv d s = Inr (take 128 d @ time_mark (lit ''&server_time='') tv, s')
    \<and> length (sv_recv_buf s') = 128 \<and> length (sv_snd_buf s') = 256"
proof -
  let ?t = "time_mark (lit ''&server_time='') tv"
  define n where "n = min (length d) 128"
  have n: "n \<le> 128" "take n d = take 128 d" "length (take n d) = n" by (simp_all add: n_def min_def)
  have "length (int_text (tv_sec tv)) \<le> 20" "length (int_text (tv_usec tv)) \<le> 20"
    using assms(3) by (simp_all add: long_time_def int_text_long)
  then have t: "length ?t \<le> 56" by (simp add: time_mark_def lit_def)
  then have t2: "take (256 - n - 1) ?t = ?t" using n(1) by simp
  have "take (min (n + length ?t) 128) d = take 128 d" by (auto simp: n_def min_def)
  then show ?thesis
    using assms(1,2) n t by (simp add: server_answer_def Let_def n_def [symmetric] t2 slice_def nat_int_add)
qed

text \<open>The buffers of the client, the line of which is \<open>s\<close> with room for \<open>k\<close> more.\<close>

definition client_wf :: "echo_client \<Rightarrow> bool" where
  "client_wf c \<longleftrightarrow> length (cl_recv_buf c) = 256 \<and> length (cl_snd_buf c) = 256 \<and> length (disp_buf c) = 1024 \<and> length (cl_tbuf c) = 128"

definition line_at :: "echo_client \<Rightarrow> bytes \<Rightarrow> nat \<Rightarrow> bool" where
  "line_at c s k \<longleftrightarrow> client_wf c \<and> 0 \<notin> set s \<and> (\<exists>z. disp_buf c = s @ 0 # z) \<and> length s + k < 1024"

lemma line_cstr: "line_at c s k \<Longrightarrow> cstr (disp_buf c) = Inr s"
  by (auto simp: line_at_def cstr_at)

lemma line_append:
  assumes "line_at c s (length t + k)" and "0 \<notin> set t"
  shows "\<exists>m. strcat (disp_buf c) t = Inr m \<and> line_at (c\<lparr>disp_buf := m\<rparr>) (s @ t) k"
proof -
  obtain z where z: "disp_buf c = s @ 0 # z" "0 \<notin> set s" using assms(1) by (auto simp: line_at_def)
  have l: "length (s @ 0 # z) = 1024" "length s + (length t + k) < 1024" using assms(1) z(1) by (simp_all add: line_at_def client_wf_def)
  have "strcat (disp_buf c) t = Inr (s @ t @ 0 # drop (length t) z)" unfolding z(1) using z(2) l by (intro strcat_at) simp_all
  moreover have "line_at (c\<lparr>disp_buf := s @ t @ 0 # drop (length t) z\<rparr>) (s @ t) k"
    using assms z(2) l by (simp add: line_at_def client_wf_def)
  ultimately show ?thesis by blast
qed

lemma show_field_found:
  assumes "substr (cl_recv_buf c) n name (lit '';'') 128 = Inr (int (length v), v)" and "v \<noteq> []" and "0 \<notin> set v" and "length v \<le> 128"
    and "line_at c s (length v + 1 + k)"
  shows "\<exists>c'. show_field name n c = Inr (True, c') \<and> line_at c' (s @ v @ lit ''|'') k \<and> cl_recv_buf c' = cl_recv_buf c"
proof -
  define t where "t = v @ drop (length v) (cl_tbuf c)"
  have tb: "length (cl_tbuf c) = 128" using assms(5) by (simp add: line_at_def client_wf_def)
  have v: "takeWhile (\<lambda>x. x \<noteq> 0) v = v" using assms(3) by (auto simp: takeWhile_eq_all_conv)
  have "line_at (c\<lparr>cl_tbuf := t\<rparr>) s (length (v @ lit ''|'') + k)"
    using assms(4,5) tb by (simp add: line_at_def client_wf_def lit_def t_def)
  moreover have "0 \<notin> set (v @ lit ''|'')" using assms(3) by (simp add: lit_def chr8_def)
  ultimately obtain m where m: "strcat (disp_buf c) (v @ lit ''|'') = Inr m"
    "line_at (c\<lparr>cl_tbuf := t, disp_buf := m\<rparr>) (s @ v @ lit ''|'') k"
    using line_append [of "c\<lparr>cl_tbuf := t\<rparr>" s "v @ lit ''|''" k] by auto
  have "show_field name n c = Inr (True, c\<lparr>cl_tbuf := t, disp_buf := m\<rparr>)"
    using assms(1,2,4) tb m(1) by (simp add: show_field_def Let_def v t_def [symmetric] del: takeWhile_eq_all_conv) (simp add: t_def v del: takeWhile_eq_all_conv)
  then show ?thesis using m(2) by simp
qed

record echo_round =
  er_client :: timeval
  er_server :: timeval
  er_sent :: timeval
  er_got :: timeval

definition round_ok :: "echo_round \<Rightarrow> bool" where
  "round_ok r \<longleftrightarrow> good_time (er_client r) \<and> good_time (er_server r) \<and> good_time (er_sent r) \<and> good_time (er_got r)"

definition request_text :: "int \<Rightarrow> echo_round \<Rightarrow> bytes" where
  "request_text i r = lit ''&seq='' @ int_text i @ lit '';&client_timeb='' @ time_value (er_client r) @ lit '';''"

definition answer_text :: "int \<Rightarrow> echo_round \<Rightarrow> bytes" where
  "answer_text i r = request_text i r @ lit ''&server_time='' @ time_value (er_server r) @ lit '';''"

definition printed_line :: "bytes \<Rightarrow> bytes \<Rightarrow> int \<Rightarrow> echo_round \<Rightarrow> bytes" where
  "printed_line ip port i r =
     concat (map (\<lambda>t. t @ lit ''|'')
       [ip, port, int_text i, time_value (er_client r), time_value (er_server r), time_value (er_sent r), time_value (er_got r)])"

lemma number_text:
  assumes "0 \<le> i" and "i < 2 ^ 31"
  shows "length (int_text i) \<le> 10" and "int_text i \<noteq> []" and "c \<in> set (int_text i) \<Longrightarrow> 48 \<le> unat c \<and> unat c \<le> 57"
  using assms dec_length [of "nat i" 10] dec_text_front [of "nat i"] dec_chars [of c "nat i"] by (auto simp: int_text_def)

lemma answer_fields:
  assumes "0 \<le> i" and "i < 2 ^ 31" and "round_ok r"
  defines "a \<equiv> answer_text i r"
  shows "substr (a @ z) (int (length a)) (lit ''&seq='') (lit '';'') 128 = Inr (int (length (int_text i)), int_text i)"
    and "substr (a @ z) (int (length a)) (lit ''&client_timeb='') (lit '';'') 128
      = Inr (int (length (time_value (er_client r))), time_value (er_client r))"
    and "substr (a @ z) (int (length a)) (lit ''&server_time='') (lit '';'') 128
      = Inr (int (length (time_value (er_server r))), time_value (er_server r))"
proof -
  have g: "good_time (er_client r)" "good_time (er_server r)" using assms(3) by (simp_all add: round_ok_def)
  note v1 = time_value_text [OF g(1)] and v2 = time_value_text [OF g(2)] and v0 = number_text [OF assms(1,2)]
  have no: "0x3B \<notin> set (int_text i)" "0x26 \<notin> set (int_text i)" "0x3B \<notin> set (time_value (er_client r))" "0x26 \<notin> set (time_value (er_client r))"
    "0x3B \<notin> set (time_value (er_server r))"
    using v0(3) v1(2) v2(2) by fastforce+
  note lits = lit_def chr8_def
  have a: "a = lit ''&seq='' @ int_text i @ [0x3B] @ lit ''&client_timeb='' @ time_value (er_client r) @ [0x3B] @ lit ''&server_time=''
      @ time_value (er_server r) @ [0x3B]"
    by (simp add: a_def answer_text_def request_text_def lits)
  show "substr (a @ z) (int (length a)) (lit ''&seq='') (lit '';'') 128 = Inr (int (length (int_text i)), int_text i)"
    using substr_mark [of "lit ''&seq=''" "[]" "int_text i" "0x3B" "lit ''&client_timeb='' @ time_value (er_client r) @ [0x3B] @ lit ''&server_time=''
      @ time_value (er_server r) @ [0x3B]" 128 "a @ z" z "int (length a)"] v0(1) no(1) by (simp add: a lits)
  have m1: "no_mark (0x26 # p) (int_text i) x" "no_mark (0x26 # p) (time_value (er_client r)) x" for p x
    using no(2,4) by (simp_all add: no_mark_first)
  show "substr (a @ z) (int (length a)) (lit ''&client_timeb='') (lit '';'') 128
      = Inr (int (length (time_value (er_client r))), time_value (er_client r))"
    using substr_mark [of "lit ''&client_timeb=''" "lit ''&seq='' @ int_text i @ [0x3B]" "time_value (er_client r)" "0x3B"
      "lit ''&server_time='' @ time_value (er_server r) @ [0x3B]" 128 "a @ z" z "int (length a)"] v1(1) no(3) m1
    by (simp add: a lits no_mark_Cons no_mark_append)
  show "substr (a @ z) (int (length a)) (lit ''&server_time='') (lit '';'') 128
      = Inr (int (length (time_value (er_server r))), time_value (er_server r))"
    using substr_mark [of "lit ''&server_time=''" "lit ''&seq='' @ int_text i @ [0x3B] @ lit ''&client_timeb='' @ time_value (er_client r) @ [0x3B]"
      "time_value (er_server r)" "0x3B" "[]" 128 "a @ z" z "int (length a)"] v2(1) no(5) m1
    by (simp add: a lits no_mark_Cons no_mark_append)
qed

lemma request_length:
  assumes "0 \<le> i" and "i < 2 ^ 31" and "round_ok r"
  shows "length (request_text i r) \<le> 48" and "length (answer_text i r) \<le> 79" and "answer_text i r \<noteq> []"
proof -
  have g: "good_time (er_client r)" "good_time (er_server r)" using assms(3) by (simp_all add: round_ok_def)
  note l = number_text(1) [OF assms(1,2)] time_value_text(1) [OF g(1)] time_value_text(1) [OF g(2)]
  show "length (request_text i r) \<le> 48" "length (answer_text i r) \<le> 79" "answer_text i r \<noteq> []"
    using l by (simp_all add: answer_text_def request_text_def lit_def)
qed

lemma client_request_made:
  assumes "0 \<le> i" and "i < 2 ^ 31" and "round_ok r" and "client_wf c"
  shows "\<exists>c'. client_request i (er_client r) c = Inr (request_text i r, c') \<and> client_wf c'"
proof -
  have t: "lit ''&seq='' @ int_text i @ lit '';'' @ time_mark (lit ''&client_timeb='') (er_client r) = request_text i r"
    by (simp add: request_text_def time_mark_value lit_def)
  show ?thesis
    using request_length(1) [OF assms(1-3)] assms(4) by (simp add: client_request_def Let_def t client_wf_def)
qed

lemma time_value_shown:
  assumes "good_time tv"
  shows "0 \<notin> set (time_value tv)" and "time_value tv \<noteq> []" and "length (time_value tv) \<le> 17"
  using time_value_text(1) [OF assms] time_value_text(2) [OF assms, of 0] by (auto simp: time_value_def lit_def)

lemma client_shows_answer:
  assumes "0 \<le> i" and "i < 2 ^ 31" and "round_ok r" and "client_wf c" and "0 \<notin> set (ip @ port)" and "length ip + length port \<le> 900"
  shows "\<exists>c'. client_show ip port (er_sent r) (er_got r) (answer_text i r) c = Inr (Some (printed_line ip port i r), c') \<and> client_wf c'"
proof -
  let ?a = "answer_text i r" and ?i = "int_text i" and ?b = "time_value (er_client r)" and ?s = "time_value (er_server r)"
  let ?e = "time_value (er_sent r) @ lit ''|'' @ time_value (er_got r) @ lit ''|''" and ?h = "ip @ lit ''|'' @ port @ lit ''|''"
  have g: "good_time (er_client r)" "good_time (er_server r)" "good_time (er_sent r)" "good_time (er_got r)" using assms(3) by (simp_all add: round_ok_def)
  note t = time_value_shown [OF g(1)] time_value_shown [OF g(2)] time_value_shown [OF g(3)] time_value_shown [OF g(4)]
  have n: "length ?i \<le> 10" "?i \<noteq> []" "0 \<notin> set ?i" using number_text [OF assms(1,2)] int_text_no_nul by auto
  have len: "length ?a \<le> 256" "min (length ?a) 256 = length ?a" using request_length(2) [OF assms(1-3)] by simp_all
  define z where "z = drop (length ?a) (cl_recv_buf c)"
  define c0 where "c0 = c\<lparr>cl_recv_buf := ?a @ z, disp_buf := (disp_buf c)[0 := 0]\<rparr>"
  have rb: "put (cl_recv_buf c) 0 ?a = Inr (?a @ z)" using len assms(4) by (simp add: z_def client_wf_def)
  have f: "substr (cl_recv_buf c') (int (length ?a)) (lit ''&seq='') (lit '';'') 128 = Inr (int (length ?i), ?i)"
    "substr (cl_recv_buf c') (int (length ?a)) (lit ''&client_timeb='') (lit '';'') 128 = Inr (int (length ?b), ?b)"
    "substr (cl_recv_buf c') (int (length ?a)) (lit ''&server_time='') (lit '';'') 128 = Inr (int (length ?s), ?s)"
    if "cl_recv_buf c' = ?a @ z" for c'
    using answer_fields [OF assms(1-3), of z] that by simp_all
  have "line_at c0 [] (length ?h + (length ?i + 1 + (length ?b + 1 + (length ?s + 1 + (length ?e + 0)))))"
    using assms(4,6) len n t unfolding line_at_def by (cases "disp_buf c") (auto simp: client_wf_def c0_def z_def lit_def)
  moreover have "0 \<notin> set ?h" using assms(5) by (auto simp: lit_def chr8_def)
  ultimately obtain m where m: "strcat (disp_buf c0) ?h = Inr m"
    "line_at (c0\<lparr>disp_buf := m\<rparr>) ([] @ ?h) (length ?i + 1 + (length ?b + 1 + (length ?s + 1 + (length ?e + 0))))"
    using line_append by blast
  have r0: "cl_recv_buf (c0\<lparr>disp_buf := m\<rparr>) = ?a @ z" by (simp add: c0_def)
  obtain c1 where c1: "show_field (lit ''&seq='') (int (length ?a)) (c0\<lparr>disp_buf := m\<rparr>) = Inr (True, c1)"
    "line_at c1 (([] @ ?h) @ ?i @ lit ''|'') (length ?b + 1 + (length ?s + 1 + (length ?e + 0)))" "cl_recv_buf c1 = ?a @ z"
    using show_field_found [OF f(1) [OF r0] n(2,3) _ m(2)] n(1) r0 by auto
  obtain c2 where c2: "show_field (lit ''&client_timeb='') (int (length ?a)) c1 = Inr (True, c2)"
    "line_at c2 ((([] @ ?h) @ ?i @ lit ''|'') @ ?b @ lit ''|'') (length ?s + 1 + (length ?e + 0))" "cl_recv_buf c2 = ?a @ z"
    using show_field_found [OF f(2) [OF c1(3)] t(2,1) _ c1(2)] t(3) c1(3) by auto
  obtain c3 where c3: "show_field (lit ''&server_time='') (int (length ?a)) c2 = Inr (True, c3)"
    "line_at c3 (((([] @ ?h) @ ?i @ lit ''|'') @ ?b @ lit ''|'') @ ?s @ lit ''|'') (length ?e + 0)"
    using show_field_found [OF f(3) [OF c2(3)] t(5,4) _ c2(2)] t(6) by auto
  have "0 \<notin> set ?e" using t by (auto simp: lit_def chr8_def)
  then obtain m2 where m2: "strcat (disp_buf c3) ?e = Inr m2"
    "line_at (c3\<lparr>disp_buf := m2\<rparr>) ((((([] @ ?h) @ ?i @ lit ''|'') @ ?b @ lit ''|'') @ ?s @ lit ''|'') @ ?e) 0"
    using line_append [OF c3(2)] by blast
  have e: "int_text (tv_sec (er_sent r)) @ lit ''.'' @ int_text (tv_usec (er_sent r)) @ lit ''|'' @ int_text (tv_sec (er_got r)) @ lit ''.''
      @ int_text (tv_usec (er_got r)) @ lit ''|'' = ?e"
    by (simp add: time_value_def)
  have line: "cstr m2 = Inr (printed_line ip port i r)" using line_cstr [OF m2(2)] by (simp add: printed_line_def)
  have "client_show ip port (er_sent r) (er_got r) ?a c = Inr (Some (printed_line ip port i r), c3\<lparr>disp_buf := m2\<rparr>)"
    unfolding client_show_def Let_def e
    using rb m(1) c1(1) c2(1) c3(1) m2(1) line assms(4) len by (simp add: c0_def client_wf_def)
  then show ?thesis using m2(2) by (auto simp: line_at_def)
qed

lemma server_answers_request:
  assumes "0 \<le> i" and "i < 2 ^ 31" and "round_ok r" and "length (sv_recv_buf s) = 128" and "length (sv_snd_buf s) = 256"
  shows "\<exists>s'. server_answer (er_server r) (request_text i r) s = Inr (answer_text i r, s')
    \<and> length (sv_recv_buf s') = 128 \<and> length (sv_snd_buf s') = 256"
proof -
  have "long_time (er_server r)" using assms(3) by (simp add: round_ok_def good_time_def long_time_def)
  moreover have "take 128 (request_text i r) = request_text i r" using request_length(1) [OF assms(1-3)] by simp
  ultimately show ?thesis
    using server_answer_fits [OF assms(4,5), of "er_server r" "request_text i r"] by (simp add: answer_text_def time_mark_value)
qed

lemma server_rounds:
  assumes "\<forall>r\<in>set rs. round_ok r" and "k + length rs < 2 ^ 31" and "length (sv_recv_buf s) = 128" and "length (sv_snd_buf s) = 256"
  shows "server_loop (map2 (\<lambda>r q. (er_server r, Some q)) rs (map (\<lambda>(i, r). request_text (int i) r) (enumerate k rs))) s
    = Inr (map (\<lambda>(i, r). answer_text (int i) r) (enumerate k rs))"
  using assms
proof (induction rs arbitrary: k s)
  case Nil
  then show ?case by simp
next
  case (Cons r rs)
  obtain s' where s': "server_answer (er_server r) (request_text (int k) r) s = Inr (answer_text (int k) r, s')"
    "length (sv_recv_buf s') = 128" "length (sv_snd_buf s') = 256"
    using server_answers_request [of "int k" r s] Cons.prems by auto
  have "server_loop (map2 (\<lambda>r q. (er_server r, Some q)) rs (map (\<lambda>(i, r). request_text (int i) r) (enumerate (Suc k) rs))) s'
    = Inr (map (\<lambda>(i, r). answer_text (int i) r) (enumerate (Suc k) rs))"
    using Cons.IH [OF _ _ s'(2,3), of "Suc k"] Cons.prems(1,2) by simp
  then show ?case using s'(1) by simp
qed

lemma client_rounds:
  assumes "\<forall>r\<in>set rs. round_ok r" and "k + length rs < 2 ^ 31" and "client_wf c" and "0 \<notin> set (ip @ port)" and "length ip + length port \<le> 900"
  shows "client_loop ip port (int k)
      (map2 (\<lambda>r a. (er_client r, True, er_sent r, Some a, er_got r)) rs (map (\<lambda>(i, r). answer_text (int i) r) (enumerate k rs))) c
    = Inr (map (\<lambda>(i, r). request_text (int i) r) (enumerate k rs), map (\<lambda>(i, r). printed_line ip port (int i) r) (enumerate k rs))"
  using assms(1-3)
proof (induction rs arbitrary: k c)
  case Nil
  then show ?case by simp
next
  case (Cons r rs)
  have i: "0 \<le> int k" "int k < 2 ^ 31" "round_ok r" using Cons.prems(1,2) by simp_all
  obtain c1 where c1: "client_request (int k) (er_client r) c = Inr (request_text (int k) r, c1)" "client_wf c1"
    using client_request_made [OF i Cons.prems(3)] by blast
  obtain c2 where c2: "client_show ip port (er_sent r) (er_got r) (answer_text (int k) r) c1 = Inr (Some (printed_line ip port (int k) r), c2)" "client_wf c2"
    using client_shows_answer [OF i c1(2) assms(4,5)] by blast
  have "client_loop ip port (int k + 1)
      (map2 (\<lambda>r a. (er_client r, True, er_sent r, Some a, er_got r)) rs (map (\<lambda>(i, r). answer_text (int i) r) (enumerate (Suc k) rs))) c2
    = Inr (map (\<lambda>(i, r). request_text (int i) r) (enumerate (Suc k) rs), map (\<lambda>(i, r). printed_line ip port (int i) r) (enumerate (Suc k) rs))"
    using Cons.IH [OF _ _ c2(2), of "Suc k"] Cons.prems(1,2) by (simp add: add.commute)
  then show ?case using c1(1) c2(1) request_length(3) [OF i] by simp
qed

text \<open>C24. The round trip of the datagrams: for any number of packets, with the server answering each request the client sends, the client prints for every
  packet its number, the time the client put into the request, the time the server added, and the times at which it was sent and came back,
  whatever the buffers held before.\<close>

theorem echo_session:
  assumes "\<forall>r\<in>set rs. round_ok r" and "length rs < 2 ^ 31" and "client_wf c" and "0 \<notin> set (ip @ port)" and "length ip + length port \<le> 900"
    and "length (sv_recv_buf s) = 128" and "length (sv_snd_buf s) = 256"
    and "pton ip \<noteq> None" and "0 \<le> fd" and "atoi num = int (length rs)" and "0 \<le> sfd" and "2 \<le> length sargs"
  shows "\<exists>reqs answers. length reqs = length rs \<and> length answers = length rs
    \<and> client_main pton fd [ip, port, num, pause] (map2 (\<lambda>r a. (er_client r, True, er_sent r, Some a, er_got r)) rs answers) c
        = Inr (0, reqs, map (\<lambda>(i, r). printed_line ip port (int i) r) (enumerate 0 rs))
    \<and> server_main sfd True sargs (map2 (\<lambda>r q. (er_server r, Some q)) rs reqs) s = Inr (None, answers)"
proof -
  have "\<forall>e\<in>set (map2 (\<lambda>r q. (er_server r, Some q)) rs qs). snd e \<noteq> None" for qs :: "bytes list" by auto
  then show ?thesis
    using client_rounds [of rs 0 c ip port] server_rounds [of rs 0 s] assms
    by (intro exI [of _ "map (\<lambda>(i, r). request_text (int i) r) (enumerate 0 rs)"] exI [of _ "map (\<lambda>(i, r). answer_text (int i) r) (enumerate 0 rs)"])
      (auto simp: client_main_def server_main_def)
qed

definition a_round :: echo_round where
  "a_round = \<lparr>er_client = \<lparr>tv_sec = 100, tv_usec = 5\<rparr>, er_server = \<lparr>tv_sec = 100, tv_usec = 40\<rparr>, er_sent = \<lparr>tv_sec = 100, tv_usec = 6\<rparr>,
     er_got = \<lparr>tv_sec = 100, tv_usec = 77\<rparr>\<rparr>"

lemma one_packet: "atoi (lit ''1'') = 1"
  by (simp add: atoi_def strtol_any_def strtol_def strto_def is_space_def is_digit_def digit_val_def to_i32_def lit_def chr8_def)

lemma echo_session_witness:
  "\<exists>reqs answers. length reqs = 1 \<and> length answers = 1
    \<and> client_main (\<lambda>_. Some 1) 3 [lit ''10.0.0.1'', lit ''7'', lit ''1'', lit ''0'']
        (map2 (\<lambda>r a. (er_client r, True, er_sent r, Some a, er_got r)) [a_round] answers)
        \<lparr>cl_recv_buf = replicate 256 0, cl_snd_buf = replicate 256 0, disp_buf = replicate 1024 0, cl_tbuf = replicate 128 0\<rparr>
      = Inr (0, reqs, [lit ''10.0.0.1|7|0|100.5|100.40|100.6|100.77|''])
    \<and> server_main 3 True [[], lit ''7''] (map2 (\<lambda>r q. (er_server r, Some q)) [a_round] reqs) \<lparr>sv_recv_buf = replicate 128 0, sv_snd_buf = replicate 256 0\<rparr>
      = Inr (None, answers)"
proof -
  have line: "printed_line (lit ''10.0.0.1'') (lit ''7'') 0 a_round = lit ''10.0.0.1|7|0|100.5|100.40|100.6|100.77|''"
    by (simp add: printed_line_def a_round_def time_value_def int_text_def dec_text.simps lit_def chr8_def)
  show ?thesis
    using echo_session [of "[a_round]" "\<lparr>cl_recv_buf = replicate 256 0, cl_snd_buf = replicate 256 0, disp_buf = replicate 1024 0, cl_tbuf = replicate 128 0\<rparr>"
      "lit ''10.0.0.1''" "lit ''7''" "\<lparr>sv_recv_buf = replicate 128 0, sv_snd_buf = replicate 256 0\<rparr>" "\<lambda>_. Some 1" 3 "lit ''1''" 3 "[[], lit ''7'']" "lit ''0''"]
      line one_packet
    by (simp add: round_ok_def good_time_def a_round_def client_wf_def lit_def chr8_def)
qed

end
