(* ===== verification/Queue_Test.thy ===== *)
theory Queue_Test
  imports Queue Pk_Hosts
begin

text \<open>
  The program \<^verbatim>\<open>test/test_queue.c\<close>: the main thread hands the lines of its input to a number of queues in turn, and a thread for each
  queue prints what it takes from it. A run is a list of steps, each a round of the loop of one of the threads with its calls of the queue in one piece;
  how the steps of two threads on one queue may mix is in Server_Steps.
\<close>

section \<open>The program\<close>

text \<open>What is printed: by consumer \<open>j\<close> the length stored with an element and its text, or that the queue \<open>j\<close> is full.\<close>

datatype shown = Shown nat int bytes | Full nat

record queue_test =
  qt_ques :: "que_obj list"
  qt_pos :: nat
  qt_log :: "shown list"

text \<open>The number of consumers from the argument, with the remainder of C.\<close>

definition consumer_number :: "bytes option \<Rightarrow> int" where
  "consumer_number arg = (case arg of None \<Rightarrow> 1 | Some a \<Rightarrow> sgn (atoi a) * (\<bar>atoi a\<bar> mod 255))"

text \<open>The queues, with the outcomes of the allocations and of \<^verbatim>\<open>pthread_create\<close>; \<open>None\<close> where the program ends with -1.\<close>

fun make_queues :: "(bool \<times> cell_alloc \<times> bool) list \<Rightarrow> que_obj list option" where
  "make_queues [] = Some []"
| "make_queues ((ok, a, thread_ok) # es) =
     (case que_obj_create ok a 1024 512 of
        None \<Rightarrow> None
      | Some q \<Rightarrow>
          if \<not> thread_ok then None
          else case make_queues es of None \<Rightarrow> None | Some qs \<Rightarrow> Some (q # qs))"

text \<open>A line \<open>r\<close> that \<^verbatim>\<open>fgets\<close> has read: its last character is cut off, and it is given to the queue whose turn it is.\<close>

definition produce :: "bytes \<Rightarrow> queue_test \<Rightarrow> queue_test run" where
  "produce r s =
     bindR (cstr (r @ [0])) (\<lambda>t.
       if t = [] then Inl OutOfBounds
       else
         let i = qt_pos s; line = butlast t; next = (if length (qt_ques s) \<le> i + 1 then 0 else i + 1) in
         bindR (rd (qt_ques s) i) (\<lambda>q.
         bindR (que_obj_full q) (\<lambda>full.
           if full then Inr (s\<lparr>qt_log := qt_log s @ [Full i], qt_pos := next\<rparr>)
           else
             bindR (que_obj_add q (line @ [0]) (int (length line) + 1)) (\<lambda>(_, q').
               Inr (s\<lparr>qt_ques := (qt_ques s)[i := q'], qt_pos := next\<rparr>)))))"

definition consumer_cb :: "nat \<Rightarrow> queue_test \<Rightarrow> queue_test run" where
  "consumer_cb j s =
     bindR (rd (qt_ques s) j) (\<lambda>q.
       if que_obj_empty q then Inr s
       else
         case que_obj_head q of
           None \<Rightarrow> Inl NullDeref
         | Some h \<Rightarrow>
             bindR (cell_at q h) (\<lambda>e.
             bindR (cstr (edata e)) (\<lambda>t.
             bindR (que_obj_pop q) (\<lambda>(_, q').
               Inr (s\<lparr>qt_ques := (qt_ques s)[j := q'], qt_log := qt_log s @ [Shown j (edata_len e) t]\<rparr>)))))"

datatype test_step = Line bytes | Consume nat

fun queue_test_run :: "test_step list \<Rightarrow> queue_test \<Rightarrow> queue_test run" where
  "queue_test_run [] s = Inr s"
| "queue_test_run (Line r # xs) s = bindR (produce r s) (queue_test_run xs)"
| "queue_test_run (Consume j # xs) s = bindR (consumer_cb j s) (queue_test_run xs)"

text \<open>\<^verbatim>\<open>main\<close>: \<open>ok\<close> is the outcome of the allocation of the array of queues, \<open>es\<close> those of the queues and threads. \<open>None\<close> is the end with -1,
  also for a negative number, of which the size is one no allocator can serve.\<close>

definition queue_test_main :: "bytes option \<Rightarrow> bool \<Rightarrow> (bool \<times> cell_alloc \<times> bool) list \<Rightarrow> test_step list \<Rightarrow> queue_test option run" where
  "queue_test_main arg ok es xs =
     (if \<not> ok \<or> consumer_number arg < 0 then Inr None
      else case make_queues (take (nat (consumer_number arg)) es) of
        None \<Rightarrow> Inr None
      | Some qs \<Rightarrow> bindR (queue_test_run xs \<lparr>qt_ques = qs, qt_pos = 0, qt_log = []\<rparr>) (\<lambda>s. Inr (Some s)))"

section \<open>The reference\<close>

text \<open>The text that is stored of a line: what is before its first NUL, without the last character.\<close>

definition line_text :: "bytes \<Rightarrow> bytes" where
  "line_text r = butlast (takeWhile (\<lambda>c. c \<noteq> 0) r)"

text \<open>The operations on queue \<open>j\<close> of \<open>c\<close> when queue \<open>i\<close> is the next to get a line.\<close>

fun ops_of :: "nat \<Rightarrow> nat \<Rightarrow> nat \<Rightarrow> test_step list \<Rightarrow> bytes qop list" where
  "ops_of c j i [] = []"
| "ops_of c j i (Line r # xs) = (if i = j then [Enq (line_text r @ [0])] else []) @ ops_of c j ((i + 1) mod c) xs"
| "ops_of c j i (Consume k # xs) = (if k = j then [Deq] else []) @ ops_of c j i xs"

fun shown_by :: "nat \<Rightarrow> shown list \<Rightarrow> bytes list" where
  "shown_by j [] = []"
| "shown_by j (Shown k n t # xs) = (if k = j \<and> n = int (length t) + 1 then [t] else []) @ shown_by j xs"
| "shown_by j (Full k # xs) = shown_by j xs"

lemma shown_by_append [simp]: "shown_by j (xs @ ys) = shown_by j xs @ shown_by j ys"
  by (induction xs rule: shown_by.induct) simp_all

definition test_queue_ok :: "que_obj \<Rightarrow> bool" where
  "test_queue_ok q \<longleftrightarrow> que_inv q \<and> que_cap q = 511 \<and> blk_size q = 1032 \<and> (\<forall>x\<in>set (que_list q). \<exists>t. x = t @ [0] \<and> 0 \<notin> set t \<and> length t < 1023)"

definition test_ok :: "nat \<Rightarrow> queue_test \<Rightarrow> bool" where
  "test_ok c s \<longleftrightarrow> length (qt_ques s) = c \<and> qt_pos s < c \<and> (\<forall>q\<in>set (qt_ques s). test_queue_ok q)"

text \<open>The steps there are: \<^verbatim>\<open>fgets\<close> gives at least one and at most 1023 characters, and there are \<open>c\<close> consumers.\<close>

definition step_ok :: "nat \<Rightarrow> test_step \<Rightarrow> bool" where
  "step_ok c x = (case x of Line r \<Rightarrow> r \<noteq> [] \<and> length r < 1024 | Consume j \<Rightarrow> j < c)"

definition nul_line :: "test_step \<Rightarrow> bool" where
  "nul_line x = (case x of Line r \<Rightarrow> hd r = 0 | Consume j \<Rightarrow> False)"

lemma before_nul:
  fixes r :: bytes
  defines "t \<equiv> takeWhile (\<lambda>c. c \<noteq> 0) r"
  shows "cstr (r @ [0]) = Inr t" "0 \<notin> set t" "length t \<le> length r" "r \<noteq> [] \<Longrightarrow> t = [] \<longleftrightarrow> hd r = 0"
proof -
  show z: "0 \<notin> set t" unfolding t_def by (auto dest: set_takeWhileD)
  have "\<exists>z. r @ [0] = t @ 0 # z"
  proof (cases "dropWhile (\<lambda>c. c \<noteq> 0) r")
    case Nil
    then have "r = t" unfolding t_def by (metis append.right_neutral takeWhile_dropWhile_id)
    then show ?thesis by simp
  next
    case (Cons c cs)
    then have "c = 0" using hd_dropWhile [of "\<lambda>c. c \<noteq> 0" r] by simp
    then have "r = t @ 0 # cs" using Cons unfolding t_def by (metis takeWhile_dropWhile_id)
    then show ?thesis by simp
  qed
  then show "cstr (r @ [0]) = Inr t" using cstr_at [OF z] by metis
  show "length t \<le> length r" unfolding t_def by (rule length_takeWhile_le)
  show "r \<noteq> [] \<Longrightarrow> t = [] \<longleftrightarrow> hd r = 0" unfolding t_def by (cases r) auto
qed

lemma made_queues_ok: "make_queues es = Some qs \<Longrightarrow> length qs = length es \<and> (\<forall>q\<in>set qs. test_queue_ok q \<and> que_list q = [])"
proof (induction es arbitrary: qs rule: make_queues.induct)
  case (2 ok a thread_ok es)
  then obtain q qs' where q: "que_obj_create ok a 1024 512 = Some q" "make_queues es = Some qs'" "qs = q # qs'" "thread_ok"
    by (auto split: option.splits if_splits)
  obtain g where a: "ok" "a = Some g" using q(1) by (cases a) (auto simp: que_obj_create_def que_obj_init_def sizeof_elem_def split: if_splits)
  have "test_queue_ok q \<and> que_list q = []"
    using que_obj_create_inv [of 512 1024 g] q(1) a by (auto simp: test_queue_ok_def sizeof_elem_def)
  then show ?case using 2 q by simp
qed simp

section \<open>The steps\<close>

text \<open>What a step does to every queue, as the reference queue does it.\<close>

definition queues_after :: "nat \<Rightarrow> queue_test \<Rightarrow> (nat \<Rightarrow> bytes qop list) \<Rightarrow> queue_test \<Rightarrow> bool" where
  "queues_after c s ops s' \<longleftrightarrow> test_ok c s' \<and> (\<forall>j<c. \<exists>out new. fifo_spec 511 (que_list (qt_ques s ! j)) (ops j) = (que_list (qt_ques s' ! j), out)
     \<and> shown_by j (qt_log s') = shown_by j (qt_log s) @ new \<and> out = map (\<lambda>t. t @ [0]) new)"

lemma queues_afterI:
  assumes "test_ok c s" and "i < c" and "test_queue_ok q'" and "n < c"
    and "s' = s\<lparr>qt_ques := (qt_ques s)[i := q'], qt_pos := n, qt_log := qt_log s @ l\<rparr>"
    and "fifo_spec 511 (que_list (qt_ques s ! i)) (ops i) = (que_list q', map (\<lambda>t. t @ [0]) (shown_by i l))"
    and "\<And>j. j \<noteq> i \<Longrightarrow> ops j = [] \<and> shown_by j l = []"
  shows "queues_after c s ops s'"
proof -
  have "test_ok c s'"
    using assms(1,3,4) set_update_subset_insert [of "qt_ques s" i q'] by (auto simp: test_ok_def assms(5))
  moreover have "i < length (qt_ques s)" using assms(1,2) by (simp add: test_ok_def)
  ultimately show ?thesis
    unfolding queues_after_def using assms(6,7) by (auto simp: assms(5) nth_list_update)
qed

lemma step_line:
  assumes "test_ok c s" and "step_ok c (Line r)" and "\<not> nul_line (Line r)"
  shows "\<exists>s'. produce r s = Inr s' \<and> qt_pos s' = (qt_pos s + 1) mod c \<and> queues_after c s (\<lambda>j. ops_of c j (qt_pos s) [Line r]) s'"
proof -
  let ?i = "qt_pos s" and ?x = "line_text r @ [0]"
  define q where "q = qt_ques s ! ?i"
  have i: "?i < c" "length (qt_ques s) = c" and q: "test_queue_ok q" using assms(1) by (auto simp: test_ok_def q_def)
  define t where "t = takeWhile (\<lambda>c. c \<noteq> 0) r"
  have x: "line_text r = butlast t" by (simp add: line_text_def t_def)
  have r: "t \<noteq> []" "0 \<notin> set t" "length t < 1024" "cstr (r @ [0]) = Inr t"
    using assms(2,3) before_nul [of r] by (auto simp: step_ok_def nul_line_def t_def)
  have pos: "(if length (qt_ques s) \<le> ?i + 1 then 0 else ?i + 1) = (?i + 1) mod c" using i by (auto simp: le_Suc_eq)
  have n: "(?i + 1) mod c < c" using i(1) by simp
  have qi: "que_inv q" "que_cap q = 511" "blk_size q = 1032" using q by (simp_all add: test_queue_ok_def)
  have len: "int (length ?x) = int (length (line_text r)) + 1" by simp
  have p: "produce r s = (if \<not> que_count q < que_cap q then Inr (s\<lparr>qt_log := qt_log s @ [Full ?i], qt_pos := (?i + 1) mod c\<rparr>)
      else bindR (que_obj_add q ?x (int (length ?x))) (\<lambda>(_, q'). Inr (s\<lparr>qt_ques := (qt_ques s)[?i := q'], qt_pos := (?i + 1) mod c\<rparr>)))"
    unfolding produce_def Let_def pos using r i que_obj_full_run [OF qi(1)]
    by (simp add: q_def split_def len x [symmetric] del: length_append length_butlast)
  show ?thesis
  proof (cases "que_count q < que_cap q")
    case False
    let ?s = "s\<lparr>qt_log := qt_log s @ [Full ?i], qt_pos := (?i + 1) mod c\<rparr>"
    have "queues_after c s (\<lambda>j. ops_of c j ?i [Line r]) ?s"
      using False qi(2) q by (intro queues_afterI [OF assms(1) i(1) q n, of _ "[Full ?i]"]) (auto simp: q_def)
    then show ?thesis using False p by simp
  next
    case True
    obtain q' where q': "que_obj_add q ?x (int (length ?x)) = Inr (F1G_OK, q')" "que_inv q'" "que_cap q' = 511" "blk_size q' = 1032"
      "que_list q' = que_list q @ [?x]"
    proof -
      have "int (length ?x) \<le> blk_size q - sizeof_elem" using r(3) qi(3) by (simp add: sizeof_elem_def x)
      from que_obj_add_spec [OF qi(1) this] show ?thesis using that qi(2,3) True by auto
    qed
    have "0 \<notin> set (line_text r)" "length (line_text r) < 1023" using r unfolding x by (auto dest: in_set_butlastD)
    then have ok: "test_queue_ok q'" using q q' by (auto simp: test_queue_ok_def)
    let ?s = "s\<lparr>qt_ques := (qt_ques s)[?i := q'], qt_pos := (?i + 1) mod c\<rparr>"
    have "queues_after c s (\<lambda>j. ops_of c j ?i [Line r]) ?s"
      using True qi(2) q'(5) by (intro queues_afterI [OF assms(1) i(1) ok n, of _ "[]"]) (auto simp: q_def)
    then show ?thesis using True p q'(1) by simp
  qed
qed

lemma step_consume:
  assumes "test_ok c s" and "step_ok c (Consume k)"
  shows "\<exists>s'. consumer_cb k s = Inr s' \<and> qt_pos s' = qt_pos s \<and> queues_after c s (\<lambda>j. ops_of c j (qt_pos s) [Consume k]) s'"
proof -
  define q where "q = qt_ques s ! k"
  have k: "k < c" "length (qt_ques s) = c" "qt_pos s < c" using assms by (simp_all add: test_ok_def step_ok_def)
  then have q: "test_queue_ok q" using assms(1) by (auto simp: test_ok_def q_def)
  then have qi: "que_inv q" "que_cap q = 511" "blk_size q = 1032" by (simp_all add: test_queue_ok_def)
  show ?thesis
  proof (cases "que_list q")
    case Nil
    then have "consumer_cb k s = Inr s" using que_empty_iff [OF qi(1)] k by (simp add: consumer_cb_def q_def)
    moreover have "queues_after c s (\<lambda>j. ops_of c j (qt_pos s) [Consume k]) s"
      using Nil by (intro queues_afterI [OF assms(1) k(1) q k(3), of _ "[]"]) (auto simp: q_def)
    ultimately show ?thesis by simp
  next
    case (Cons x xs)
    obtain t where t: "x = t @ [0]" "0 \<notin> set t" "length t < 1023" using q Cons by (auto simp: test_queue_ok_def)
    have nonempty: "\<not> que_obj_empty q" using que_empty_iff [OF qi(1)] Cons by simp
    have head: "que_obj_head q = Some (front q)" using nonempty by (simp add: que_obj_head_def)
    obtain e where e: "cell_at q (front q) = Inr e" "length (edata e) = 1024"
      using cell_at_ok [OF qi(1), of "front q"] qi by (auto simp: que_inv_def sizeof_elem_def)
    have x: "payload e = t @ [0]" using que_peek_spec [OF qi(1)] Cons head e(1) t(1) by (simp add: que_peek_def)
    then have "length (payload e) = length t + 1" by simp
    then have n: "edata_len e = int (length t) + 1" using t(3) e(2) by (simp add: payload_def min_def split: if_splits)
    have "edata e = payload e @ drop (nat (edata_len e)) (edata e)" by (simp add: payload_def)
    then have "edata e = t @ 0 # drop (nat (edata_len e)) (edata e)" using x by simp
    then have c: "cstr (edata e) = Inr t" using cstr_at [OF t(2)] by metis
    obtain q' where q': "que_obj_pop q = Inr (F1G_OK, q')" "que_inv q'" "que_cap q' = que_cap q" "blk_size q' = blk_size q" "que_list q' = xs"
      using que_obj_pop_spec [OF qi(1)] Cons by auto
    have ok: "test_queue_ok q'" using q q' Cons by (auto simp: test_queue_ok_def)
    let ?s = "s\<lparr>qt_ques := (qt_ques s)[k := q'], qt_log := qt_log s @ [Shown k (edata_len e) t]\<rparr>"
    have "consumer_cb k s = Inr ?s" using k nonempty head e(1) c q'(1) by (simp add: consumer_cb_def q_def)
    moreover have "queues_after c s (\<lambda>j. ops_of c j (qt_pos s) [Consume k]) ?s"
      using Cons t(1) q'(5) n by (intro queues_afterI [OF assms(1) k(1) ok k(3), of _ "[Shown k (edata_len e) t]"]) (auto simp: q_def)
    ultimately show ?thesis by simp
  qed
qed

lemma fifo_spec_append:
  "fifo_spec n xs ops = (ys, out) \<Longrightarrow> fifo_spec n ys ops' = (zs, out') \<Longrightarrow> fifo_spec n xs (ops @ ops') = (zs, out @ out')"
  by (induction n xs ops arbitrary: out rule: fifo_spec.induct) (auto split: if_splits prod.splits)

lemma queues_after_trans:
  assumes "queues_after c s ops s1" and "queues_after c s1 ops' s2"
  shows "queues_after c s (\<lambda>j. ops j @ ops' j) s2"
proof -
  have "\<exists>out new. fifo_spec 511 (que_list (qt_ques s ! j)) (ops j @ ops' j) = (que_list (qt_ques s2 ! j), out)
     \<and> shown_by j (qt_log s2) = shown_by j (qt_log s) @ new \<and> out = map (\<lambda>t. t @ [0]) new" if j: "j < c" for j
  proof -
    obtain new1 where n1: "fifo_spec 511 (que_list (qt_ques s ! j)) (ops j) = (que_list (qt_ques s1 ! j), map (\<lambda>t. t @ [0]) new1)"
      "shown_by j (qt_log s1) = shown_by j (qt_log s) @ new1"
      using assms(1) j unfolding queues_after_def by blast
    obtain new2 where n2: "fifo_spec 511 (que_list (qt_ques s1 ! j)) (ops' j) = (que_list (qt_ques s2 ! j), map (\<lambda>t. t @ [0]) new2)"
      "shown_by j (qt_log s2) = shown_by j (qt_log s1) @ new2"
      using assms(2) j unfolding queues_after_def by blast
    show ?thesis using fifo_spec_append [OF n1(1) n2(1)] n1(2) n2(2) by (intro exI [of _ "map (\<lambda>t. t @ [0]) (new1 @ new2)"] exI [of _ "new1 @ new2"]) simp
  qed
  then show ?thesis using assms(2) by (simp add: queues_after_def)
qed

lemma queue_test_run_after:
  assumes "test_ok c s" and "\<forall>x\<in>set xs. step_ok c x \<and> \<not> nul_line x"
  shows "\<exists>s'. queue_test_run xs s = Inr s' \<and> queues_after c s (\<lambda>j. ops_of c j (qt_pos s) xs) s'"
  using assms
proof (induction xs arbitrary: s)
  case Nil
  then show ?case by (simp add: queues_after_def)
next
  case (Cons x xs)
  obtain s1 where s1: "queue_test_run (x # xs) s = queue_test_run xs s1" "queues_after c s (\<lambda>j. ops_of c j (qt_pos s) [x]) s1"
    "\<And>j. ops_of c j (qt_pos s) (x # xs) = ops_of c j (qt_pos s) [x] @ ops_of c j (qt_pos s1) xs"
  proof (cases x)
    case (Line r)
    then show ?thesis using step_line [OF Cons.prems(1), of r] Cons.prems(2) by (force intro: that)
  next
    case (Consume k)
    then show ?thesis using step_consume [OF Cons.prems(1), of k] Cons.prems(2) by (force intro: that)
  qed
  have "test_ok c s1" using s1(2) by (simp add: queues_after_def)
  then obtain s' where s': "queue_test_run xs s1 = Inr s'" "queues_after c s1 (\<lambda>j. ops_of c j (qt_pos s1) xs) s'"
    using Cons.IH Cons.prems(2) by auto
  show ?case unfolding s1(1,3) using s'(1) queues_after_trans [OF s1(2) s'(2)] by blast
qed

text \<open>A line that begins with a NUL: its terminator is stored in front of the buffer.\<close>

lemma nul_line_faults:
  assumes "test_ok c s" and "\<forall>x\<in>set xs. step_ok c x" and "\<exists>x\<in>set xs. nul_line x"
  shows "queue_test_run xs s = Inl OutOfBounds"
  using assms
proof (induction xs arbitrary: s)
  case (Cons x xs)
  show ?case
  proof (cases "nul_line x")
    case True
    then obtain r where r: "x = Line r" "r \<noteq> []" "hd r = 0"
      using Cons.prems(2) by (auto simp: nul_line_def step_ok_def split: test_step.splits)
    then show ?thesis using before_nul [of r] by (simp add: produce_def)
  next
    case False
    obtain s1 where s1: "queue_test_run [x] s = Inr s1" "test_ok c s1"
      using queue_test_run_after [OF Cons.prems(1), of "[x]"] False Cons.prems(2) by (auto simp: queues_after_def)
    moreover have "queue_test_run (x # xs) s = bindR (queue_test_run [x] s) (queue_test_run xs)"
    proof -
      have "queue_test_run [] = Inr" by (rule ext) simp
      then show ?thesis by (cases x) (simp_all add: bindR_return)
    qed
    ultimately show ?thesis using Cons.IH Cons.prems(2,3) False by simp
  qed
qed simp

text \<open>The whole program.\<close>

lemma queues_deliver:
  assumes "make_queues es = Some qs" and "es \<noteq> []" and "\<forall>x\<in>set xs. step_ok (length es) x \<and> \<not> nul_line x"
  shows "\<exists>s. queue_test_run xs \<lparr>qt_ques = qs, qt_pos = 0, qt_log = []\<rparr> = Inr s
    \<and> (\<forall>j<length es. map (\<lambda>t. t @ [0]) (shown_by j (qt_log s)) @ que_list (qt_ques s ! j) = accepted 511 [] (ops_of (length es) j 0 xs))"
proof -
  let ?s = "\<lparr>qt_ques = qs, qt_pos = 0, qt_log = []\<rparr>"
  have qs: "length qs = length es" "\<forall>q\<in>set qs. test_queue_ok q \<and> que_list q = []" using made_queues_ok [OF assms(1)] by auto
  then have "test_ok (length es) ?s" using assms(2) by (simp add: test_ok_def)
  then obtain s where s: "queue_test_run xs ?s = Inr s" "queues_after (length es) ?s (\<lambda>j. ops_of (length es) j 0 xs) s"
    using queue_test_run_after [OF _ assms(3)] by force
  have "map (\<lambda>t. t @ [0]) (shown_by j (qt_log s)) @ que_list (qt_ques s ! j) = accepted 511 [] (ops_of (length es) j 0 xs)" if j: "j < length es" for j
  proof -
    have "que_list (qs ! j) = []" using qs j by simp
    moreover obtain out new where "fifo_spec 511 (que_list (qt_ques ?s ! j)) (ops_of (length es) j 0 xs) = (que_list (qt_ques s ! j), out)"
      "shown_by j (qt_log s) = shown_by j (qt_log ?s) @ new" "out = map (\<lambda>t. t @ [0]) new"
      using s(2) j unfolding queues_after_def by blast
    ultimately show ?thesis using fifo_spec_order [of 511 "[]" "ops_of (length es) j 0 xs"] by simp
  qed
  then show ?thesis using s(1) by blast
qed

text \<open>C3. A run with \<open>c\<close> queues created, on whatever lines \<^verbatim>\<open>fgets\<close> can give, with the rounds of the threads, each taken as one step, in any order. It is undefined when a line begins
  with a NUL, and when there are no queues but there is a line (the argument is a multiple of 255). Otherwise it never faults, and what consumer \<open>j\<close> has
  printed, each with its length, followed by what is left in its queue, is in their order the texts of the lines that fell to queue \<open>j\<close> in turn, without those that
  came when the queue held 511.\<close>

theorem queue_test_delivers:
  assumes "consumer_number arg = int c" and "length es = c" and "make_queues es \<noteq> None" and "\<forall>x\<in>set xs. step_ok c x"
  shows "if (\<exists>x\<in>set xs. nul_line x) \<or> c = 0 \<and> xs \<noteq> [] then queue_test_main arg True es xs = Inl OutOfBounds
    else \<exists>s. queue_test_main arg True es xs = Inr (Some s)
      \<and> (\<forall>j<c. map (\<lambda>t. t @ [0]) (shown_by j (qt_log s)) @ que_list (qt_ques s ! j) = accepted 511 [] (ops_of c j 0 xs))"
proof -
  obtain qs where qs: "make_queues es = Some qs" using assms(3) by blast
  have main: "queue_test_main arg True es xs = bindR (queue_test_run xs \<lparr>qt_ques = qs, qt_pos = 0, qt_log = []\<rparr>) (\<lambda>s. Inr (Some s))"
    using assms(1,2) qs by (simp add: queue_test_main_def)
  show ?thesis
  proof (cases "c = 0")
    case True
    then have q: "qs = []" using assms(2) qs by simp
    show ?thesis
    proof (cases xs)
      case (Cons x ys)
      then obtain r where "x = Line r" using assms(4) True by (cases x) (auto simp: step_ok_def)
      moreover have "produce r \<lparr>qt_ques = qs, qt_pos = 0, qt_log = []\<rparr> = Inl OutOfBounds"
        using before_nul(1) [of r] q by (simp add: produce_def)
      ultimately show ?thesis using True Cons main by simp
    qed (use True main in simp)
  next
    case False
    then have es: "es \<noteq> []" using assms(2) by auto
    have ok: "test_ok c \<lparr>qt_ques = qs, qt_pos = 0, qt_log = []\<rparr>"
      using made_queues_ok [OF qs] assms(2) False by (simp add: test_ok_def)
    show ?thesis
    proof (cases "\<exists>x\<in>set xs. nul_line x")
      case True
      then show ?thesis using nul_line_faults [OF ok assms(4) True] main by simp
    next
      case nul: False
      then show ?thesis using queues_deliver [OF qs es, of xs] assms(2,4) main False by auto
    qed
  qed
qed

lemma two_consumers: "consumer_number (Some (lit ''2'' @ [0])) = 2"
  by (simp add: consumer_number_def atoi_def strtol_any_def strtol_def strto_def is_space_def is_digit_def digit_val_def to_i32_def lit_def chr8_def)

lemma queue_test_delivers_witness:
  "\<exists>s. queue_test_main (Some (lit ''2'' @ [0])) True [(True, Some (\<lambda>_. (0, 0, \<lambda>_. 0)), True), (True, Some (\<lambda>_. (0, 0, \<lambda>_. 0)), True)]
      [Line [97, 10], Line [98, 10], Consume 0, Line [99, 100, 10], Consume 1, Consume 1] = Inr (Some s)
    \<and> map (\<lambda>t. t @ [0]) (shown_by 0 (qt_log s)) @ que_list (qt_ques s ! 0) = [[97, 0], [99, 100, 0]]
    \<and> map (\<lambda>t. t @ [0]) (shown_by 1 (qt_log s)) @ que_list (qt_ques s ! 1) = [[98, 0]]"
proof -
  let ?e = "(True, Some (\<lambda>_. (0, 0, \<lambda>_. 0)), True)"
  obtain q where "que_obj_create True (Some (\<lambda>_. (0, 0, \<lambda>_. 0))) 1024 512 = Some q"
    using que_obj_create_inv [of 512 1024 "\<lambda>_. (0, 0, \<lambda>_. 0)"] by (auto simp: sizeof_elem_def)
  then have q: "make_queues [?e, ?e] \<noteq> None" by simp
  let ?xs = "[Line [97, 10], Line [98, 10], Consume 0, Line [99, 100, 10], Consume 1, Consume 1]"
  have ok: "\<forall>x\<in>set ?xs. step_ok 2 x" by (simp add: step_ok_def)
  have two: "consumer_number (Some (lit ''2'' @ [0])) = int 2" "length [?e, ?e] = 2" by (simp_all add: two_consumers)
  obtain s where s: "queue_test_main (Some (lit ''2'' @ [0])) True [?e, ?e] ?xs = Inr (Some s)"
    "\<forall>j<2. map (\<lambda>t. t @ [0]) (shown_by j (qt_log s)) @ que_list (qt_ques s ! j) = accepted 511 [] (ops_of 2 j 0 ?xs)"
    using queue_test_delivers [OF two q ok] by (auto simp: nul_line_def)
  have texts: "line_text [97, 10] = [97]" "line_text [98, 10] = [98]" "line_text [99, 100, 10] = [99, 100]"
    by (simp_all add: line_text_def)
  have "accepted 511 [] (ops_of 2 0 0 ?xs) = [[97, 0], [99, 100, 0]]" "accepted 511 [] (ops_of 2 1 0 ?xs) = [[98, 0]]"
    by (simp_all add: numeral_2_eq_2 texts)
  then show ?thesis using s(1) s(2) [rule_format, of 0] s(2) [rule_format, of 1] by (intro exI [of _ s]) simp
qed

end
