(* ===== verification/Conv_Chain.thy ===== *)
theory Conv_Chain
  imports Gbk_Table Numbers
begin

text \<open>
  The program \<^verbatim>\<open>test/test_langcode_conv.c\<close>: a percent escaped UTF-8 text is decoded and converted around all the six conversions of
  \<^verbatim>\<open>charset_code.c\<close>, a number of times, between static buffers. What it prints and the times it takes are not modelled.
\<close>

unbundle bit_operations_syntax

datatype conv_buf = Raw_b | Utf8_b | Ucs2_b | Gbk_b

text \<open>The four buffers of 2048 bytes and the lengths of their texts.\<close>

record conv_state =
  cs_charset :: charset
  cs_buf :: "conv_buf \<Rightarrow> bytes"
  cs_len :: "conv_buf \<Rightarrow> int"

definition conv_store :: "conv_state \<Rightarrow> conv_buf \<Rightarrow> charset \<Rightarrow> bytes \<Rightarrow> int \<Rightarrow> conv_state" where
  "conv_store s b st d n = s\<lparr>cs_charset := st, cs_buf := (cs_buf s)(b := d), cs_len := (cs_len s)(b := n)\<rparr>"

text \<open>One conversion; the program ends with 1 where it fails, which is \<open>False\<close>.\<close>

definition conv_step :: "(u16 \<times> u16) list \<Rightarrow> conv_buf \<Rightarrow> conv_buf \<Rightarrow> int \<Rightarrow> conv_state \<Rightarrow> (bool \<times> conv_state) run" where
  "conv_step tbl a b conv_type s =
     bindR (lc_conv tbl (cs_charset s) (cs_buf s a) (cs_len s a) (cs_buf s b) 2048 conv_type) (\<lambda>(r, st, d, n).
       Inr (r = 0, conv_store s b st d n))"

fun conv_steps :: "(u16 \<times> u16) list \<Rightarrow> (conv_buf \<times> conv_buf \<times> int) list \<Rightarrow> conv_state \<Rightarrow> (bool \<times> conv_state) run" where
  "conv_steps tbl [] s = Inr (True, s)"
| "conv_steps tbl ((a, b, c) # cs) s = bindR (conv_step tbl a b c s) (\<lambda>(ok, s'). if \<not> ok then Inr (False, s') else conv_steps tbl cs s')"

definition conv_chain :: "(conv_buf \<times> conv_buf \<times> int) list" where
  "conv_chain =
     [(Raw_b, Gbk_b, CONV_UTF8_GBK), (Gbk_b, Ucs2_b, CONV_GBK_UCS2), (Ucs2_b, Utf8_b, CONV_UCS2_UTF8), (Utf8_b, Ucs2_b, CONV_UTF8_UCS2),
      (Ucs2_b, Gbk_b, CONV_UCS2_GBK), (Gbk_b, Utf8_b, CONV_GBK_UTF8)]"

definition conv_round :: "(u16 \<times> u16) list \<Rightarrow> bytes \<Rightarrow> conv_state \<Rightarrow> (bool \<times> conv_state) run" where
  "conv_round tbl p s =
     bindR (cstr p) (\<lambda>t.
     bindR (str_esc_decode tbl (cs_charset s) p (int (length t)) CT_UTF8 (cs_buf s Raw_b) 2048) (\<lambda>(r, st, d, n).
       let s1 = conv_store s Raw_b st d n in
       if r \<noteq> 0 then Inr (False, s1) else conv_steps tbl conv_chain s1))"

text \<open>The loop; the result is what \<^verbatim>\<open>main\<close> returns and the state.\<close>

fun conv_main :: "(u16 \<times> u16) list \<Rightarrow> bytes \<Rightarrow> nat \<Rightarrow> conv_state \<Rightarrow> (int \<times> conv_state) run" where
  "conv_main tbl p 0 s = Inr (0, s)"
| "conv_main tbl p (Suc n) s = bindR (conv_round tbl p s) (\<lambda>(ok, s'). if \<not> ok then Inr (1, s') else conv_main tbl p n s')"

section \<open>The text in each buffer\<close>

definition text_in :: "codes \<Rightarrow> conv_buf \<Rightarrow> u16 list \<Rightarrow> bytes" where
  "text_in ug b us =
     (case b of Raw_b \<Rightarrow> concat (map utf8 us) | Utf8_b \<Rightarrow> concat (map utf8 us) | Ucs2_b \<Rightarrow> pairs us | Gbk_b \<Rightarrow> pairs (map ug us))"

definition buf_holds :: "codes \<Rightarrow> u16 list \<Rightarrow> conv_state \<Rightarrow> conv_buf \<Rightarrow> bool" where
  "buf_holds ug us s b \<longleftrightarrow> (\<exists>z. cs_buf s b = text_in ug b us @ 0 # z) \<and> cs_len s b = int (length (text_in ug b us))"

lemma length_text_in: "length (text_in ug b us) \<le> 3 * length us"
  using length_utf8_text [of "\<lambda>u. u" us] by (cases b) (simp_all add: text_in_def comp_def)

text \<open>Each conversion of the chain takes the text from one encoding to the other.\<close>

lemma chain_conv:
  assumes "(a, b, c) \<in> set conv_chain" and "ensure_init tbl st = Inr st"
    and "\<And>u. u \<in> set us \<Longrightarrow> look (gbk_ucs2 st) (ug u) = Inr (Some u)" and "\<And>u. u \<in> set us \<Longrightarrow> look (ucs2_gbk st) u = Inr (Some (ug u))"
    and "length (text_in ug b us) < length d"
  shows "lc_conv tbl st (text_in ug a us @ z) (int (length (text_in ug a us))) d (int (length d)) c
    = Inr (E_OK, st, text_in ug b us @ 0 # drop (Suc (length (text_in ug b us))) d, int (length (text_in ug b us)))"
proof -
  note conv_defs = lc_conv_def assms(2) CONV_GBK_UTF8_def CONV_UTF8_GBK_def CONV_UTF8_UCS2_def CONV_UCS2_UTF8_def CONV_GBK_UCS2_def CONV_UCS2_GBK_def
    gbk_to_utf8_def utf8_to_gbk_def ucs2_to_utf8_def utf8_to_ucs2_def gbk_to_ucs2_def ucs2_to_gbk_def
  have known: "look (gbk_ucs2 st) g = Inr (Some (gbk_ucs2 st g))" if "g \<in> set (map ug us)" for g
    using assms(3) look_SomeD that by force
  have inv: "gbk_ucs2 st (ug u) = u" if "u \<in> set us" for u using assms(3) [OF that] by (rule look_SomeD)
  have row_map: "map (\<lambda>g. f (gbk_ucs2 st g)) (map ug us) = map f us" for f :: "u16 \<Rightarrow> bytes"
    using inv by simp
  consider (1) "a = Raw_b \<or> a = Utf8_b" "b = Gbk_b" "c = CONV_UTF8_GBK" | (2) "a = Gbk_b" "b = Ucs2_b" "c = CONV_GBK_UCS2"
    | (3) "a = Ucs2_b" "b = Utf8_b" "c = CONV_UCS2_UTF8" | (4) "a = Utf8_b" "b = Ucs2_b" "c = CONV_UTF8_UCS2"
    | (5) "a = Ucs2_b" "b = Gbk_b" "c = CONV_UCS2_GBK" | (6) "a = Gbk_b" "b = Utf8_b" "c = CONV_GBK_UTF8"
    using assms(1) by (auto simp: conv_chain_def)
  then show ?thesis
  proof cases
    case 1
    then show ?thesis
      using utf8_gbk.conv_encode [of us "look (ucs2_gbk st)" ug "concat (map utf8 us) @ z" z _ d, OF assms(4) refl refl] assms(5)
      by (auto simp: text_in_def conv_defs comp_def)
  next
    case 2
    then show ?thesis
      using pair_pair.conv_encode [of "map ug us" "look (gbk_ucs2 st)" "gbk_ucs2 st" "pairs (map ug us) @ z" z _ d, OF known refl refl] assms(5)
      unfolding row_map by (simp add: text_in_def conv_defs)
  next
    case 3
    then show ?thesis
      using gbk_utf8.conv_encode [of us "\<lambda>u. Inr (Some u)" "\<lambda>u. u" "pairs us @ z" z _ d, OF refl refl refl] assms(5)
      by (simp add: text_in_def conv_defs)
  next
    case 4
    then show ?thesis
      using utf8_gbk.conv_encode [of us "\<lambda>u. Inr (Some u)" "\<lambda>u. u" "concat (map utf8 us) @ z" z _ d, OF refl refl refl] assms(5)
      by (simp add: text_in_def conv_defs)
  next
    case 5
    then show ?thesis
      using pair_pair.conv_encode [of us "look (ucs2_gbk st)" ug "pairs us @ z" z _ d, OF assms(4) refl refl] assms(5)
      by (simp add: text_in_def conv_defs comp_def)
  next
    case 6
    then show ?thesis
      using gbk_utf8.conv_encode [of "map ug us" "look (gbk_ucs2 st)" "gbk_ucs2 st" "pairs (map ug us) @ z" z _ d, OF known refl refl] assms(5)
      unfolding row_map by (simp add: text_in_def conv_defs)
  qed
qed

lemma chain_step:
  assumes "(a, b, c) \<in> set conv_chain" and "ensure_init tbl (cs_charset s) = Inr (cs_charset s)"
    and "\<And>u. u \<in> set us \<Longrightarrow> look (gbk_ucs2 (cs_charset s)) (ug u) = Inr (Some u)"
    and "\<And>u. u \<in> set us \<Longrightarrow> look (ucs2_gbk (cs_charset s)) u = Inr (Some (ug u))"
    and "3 * length us < 2048" and "length (cs_buf s b) = 2048" and "buf_holds ug us s a"
  shows "\<exists>s'. conv_step tbl a b c s = Inr (True, s') \<and> cs_charset s' = cs_charset s \<and> buf_holds ug us s' b
    \<and> length (cs_buf s' b) = 2048 \<and> (\<forall>x. x \<noteq> b \<longrightarrow> cs_buf s' x = cs_buf s x \<and> cs_len s' x = cs_len s x)"
proof -
  obtain z where a: "cs_buf s a = text_in ug a us @ 0 # z" "cs_len s a = int (length (text_in ug a us))" using assms(7) by (auto simp: buf_holds_def)
  have l: "length (text_in ug b us) < length (cs_buf s b)" using length_text_in [of ug b us] assms(5,6) by simp
  let ?d = "text_in ug b us @ 0 # drop (Suc (length (text_in ug b us))) (cs_buf s b)"
  let ?s = "conv_store s b (cs_charset s) ?d (int (length (text_in ug b us)))"
  have "conv_step tbl a b c s = Inr (True, ?s)"
    using chain_conv [OF assms(1-4) l, of "0 # z"] a assms(6) by (simp add: conv_step_def E_OK_def)
  then show ?thesis using l assms(6) by (auto simp: buf_holds_def conv_store_def)
qed

definition chain_ready :: "(u16 \<times> u16) list \<Rightarrow> codes \<Rightarrow> u16 list \<Rightarrow> conv_state \<Rightarrow> bool" where
  "chain_ready tbl ug us s \<longleftrightarrow> ensure_init tbl (cs_charset s) = Inr (cs_charset s) \<and> hex_char_vmap (cs_charset s) = vmap0
     \<and> (\<forall>u\<in>set us. look (gbk_ucs2 (cs_charset s)) (ug u) = Inr (Some u) \<and> look (ucs2_gbk (cs_charset s)) u = Inr (Some (ug u)))
     \<and> (\<forall>b. length (cs_buf s b) = 2048)"

lemma chain_steps:
  assumes "set cs \<subseteq> set conv_chain" and "chain_ready tbl ug us s" and "3 * length us < 2048" and "\<forall>b\<in>B. buf_holds ug us s b"
    and "\<forall>i<length cs. fst (cs ! i) \<in> B \<union> (\<lambda>(a, b, c). b) ` set (take i cs)"
  shows "\<exists>s'. conv_steps tbl cs s = Inr (True, s') \<and> chain_ready tbl ug us s' \<and> cs_charset s' = cs_charset s
    \<and> (\<forall>b\<in>B \<union> (\<lambda>(a, b, c). b) ` set cs. buf_holds ug us s' b)"
  using assms(1,2,4,5)
proof (induction cs arbitrary: s B)
  case Nil
  then show ?case by auto
next
  case (Cons abc cs)
  obtain a b c where abc: "abc = (a, b, c)" by (cases abc)
  have r: "ensure_init tbl (cs_charset s) = Inr (cs_charset s)"
    "\<And>u. u \<in> set us \<Longrightarrow> look (gbk_ucs2 (cs_charset s)) (ug u) = Inr (Some u)"
    "\<And>u. u \<in> set us \<Longrightarrow> look (ucs2_gbk (cs_charset s)) u = Inr (Some (ug u))" "length (cs_buf s b) = 2048"
    using Cons.prems(2) by (simp_all add: chain_ready_def)
  have "a \<in> B" using Cons.prems(4) by (auto simp: abc dest: spec [of _ 0])
  then have ha: "buf_holds ug us s a" using Cons.prems(3) by blast
  have c: "(a, b, c) \<in> set conv_chain" using Cons.prems(1) by (simp add: abc)
  obtain s1 where s1: "conv_step tbl a b c s = Inr (True, s1)" "cs_charset s1 = cs_charset s" "buf_holds ug us s1 b"
    "length (cs_buf s1 b) = 2048" "\<forall>x. x \<noteq> b \<longrightarrow> cs_buf s1 x = cs_buf s x \<and> cs_len s1 x = cs_len s x"
    using chain_step [OF c r(1-3) assms(3) r(4) ha] by blast
  have "length (cs_buf s1 x) = 2048" for x using s1(4,5) Cons.prems(2) by (cases "x = b") (simp_all add: chain_ready_def)
  then have ready: "chain_ready tbl ug us s1" using Cons.prems(2) s1(2) by (simp add: chain_ready_def)
  have B: "\<forall>x\<in>insert b B. buf_holds ug us s1 x"
  proof
    fix x assume x: "x \<in> insert b B"
    show "buf_holds ug us s1 x"
      using x s1(3,5) Cons.prems(3) by (cases "x = b") (auto simp: buf_holds_def)
  qed
  have next_in: "\<forall>i<length cs. fst (cs ! i) \<in> insert b B \<union> (\<lambda>(a, b, c). b) ` set (take i cs)"
  proof (intro allI impI)
    fix i assume "i < length cs"
    then show "fst (cs ! i) \<in> insert b B \<union> (\<lambda>(a, b, c). b) ` set (take i cs)"
      using spec [OF Cons.prems(4), of "Suc i"] by (simp add: abc)
  qed
  have "set cs \<subseteq> set conv_chain" using Cons.prems(1) by simp
  from Cons.IH [OF this ready B next_in] show ?case using s1(1,2) by (auto simp: abc)
qed

section \<open>Escaped text\<close>

lemma utf8_groups_utf8: "utf8_groups (utf8 u @ bs) \<longleftrightarrow> utf8_groups bs"
  by (simp add: utf8_def byte_num_def ascii_byte utf8_leads utf8_leads_high)

lemma utf8_groups_text: "utf8_groups (concat (map utf8 us))"
  by (induction us) (simp_all add: utf8_groups_utf8)

lemma esc_no_nul: "0 \<notin> set (esc bs)"
proof -
  have "hex_digit d \<noteq> 0" if "d < 16" for d
    using arg_cong [OF hex_digit_table, of "\<lambda>xs. xs ! d"] that by auto
  moreover have "unat b div 16 < 16" for b :: u8 using unsigned_less [of b, where 'a = nat] by simp
  ultimately have "0 \<notin> set (esc1 b)" for b by (auto simp: esc1_def)
  then show ?thesis by simp
qed

text \<open>One round: the decoded text goes around the chain.\<close>

lemma conv_round_text:
  assumes "ensure_init tbl (cs_charset s) = Inr st" and "chain_ready tbl ug us (s\<lparr>cs_charset := st\<rparr>)" and "3 * length us < 2048"
  shows "\<exists>s'. conv_round tbl (esc (concat (map utf8 us)) @ 0 # z) s = Inr (True, s') \<and> cs_charset s' = st \<and> chain_ready tbl ug us s'
    \<and> (\<forall>b. buf_holds ug us s' b)"
proof -
  let ?t = "concat (map utf8 us)"
  have l: "length ?t < 2048" "length (cs_buf s Raw_b) = 2048" "hex_char_vmap st = vmap0"
    using length_text_in [of ug Raw_b us] assms(2,3) by (simp_all add: text_in_def chain_ready_def)
  let ?d = "?t @ 0 # drop (Suc (length ?t)) (cs_buf s Raw_b)"
  let ?s = "conv_store s Raw_b st ?d (int (length ?t))"
  have "utf8_str_to_uint vmap0 (esc ?t @ 0 # z) (int (length (esc ?t))) (cs_buf s Raw_b) 2048 = Inr (0, ?d, int (length ?t))"
    using utf8_str_loop_esc [OF utf8_groups_text, of "esc ?t @ 0 # z" "[]" us "0 # z" "int (length (esc ?t))" "cs_buf s Raw_b" "[]" "cs_buf s Raw_b" 2048] l
    by (simp add: utf8_str_to_uint_def)
  then have round: "conv_round tbl (esc ?t @ 0 # z) s = conv_steps tbl conv_chain ?s"
    using assms(1) l(3) cstr_at [OF esc_no_nul, of ?t z] by (simp add: conv_round_def str_esc_decode_def CT_UTF8_def Let_def)
  have "\<forall>b\<in>{Raw_b}. buf_holds ug us ?s b" by (simp add: buf_holds_def conv_store_def text_in_def)
  moreover have "chain_ready tbl ug us ?s" using assms(2) l by (auto simp: chain_ready_def conv_store_def)
  moreover have "\<forall>i<length conv_chain. fst (conv_chain ! i) \<in> {Raw_b} \<union> (\<lambda>(a, b, c). b) ` set (take i conv_chain)"
    by (auto simp: conv_chain_def less_Suc_eq)
  ultimately obtain s' where s': "conv_steps tbl conv_chain ?s = Inr (True, s')" "chain_ready tbl ug us s'" "cs_charset s' = cs_charset ?s"
    "\<forall>b\<in>{Raw_b} \<union> (\<lambda>(a, b, c). b) ` set conv_chain. buf_holds ug us s' b"
    using chain_steps [OF subset_refl _ assms(3)] by blast
  have "b \<in> {Raw_b} \<union> (\<lambda>(a, b, c). b) ` set conv_chain" for b by (cases b) (auto simp: conv_chain_def)
  then have "\<forall>b. buf_holds ug us s' b" using s'(4) by blast
  then show ?thesis unfolding round using s'(1-3) by (simp add: conv_store_def)
qed

lemma conv_main_rounds:
  assumes "chain_ready tbl ug us s" and "3 * length us < 2048" and "\<forall>b. buf_holds ug us s b"
  shows "\<exists>s'. conv_main tbl (esc (concat (map utf8 us)) @ 0 # z) n s = Inr (0, s') \<and> (\<forall>b. buf_holds ug us s' b)"
  using assms(1,3)
proof (induction n arbitrary: s)
  case 0
  then show ?case by simp
next
  case (Suc n)
  have "ensure_init tbl (cs_charset s) = Inr (cs_charset s)" "chain_ready tbl ug us (s\<lparr>cs_charset := cs_charset s\<rparr>)"
    using Suc.prems(1) by (simp_all add: chain_ready_def)
  then obtain s1 where s1: "conv_round tbl (esc (concat (map utf8 us)) @ 0 # z) s = Inr (True, s1)" "chain_ready tbl ug us s1" "\<forall>b. buf_holds ug us s1 b"
    using conv_round_text [OF _ _ assms(2)] by blast
  then show ?case using Suc.IH [OF s1(2,3)] by simp
qed

text \<open>C14. All six conversions and the percent decoder together. With a table of which a row has the code \<open>0xFFFF\<close>, as that of the repository, the first call
  of the program, the decoding, writes past the end of an array. With any other table a percent escaped UTF-8 text of characters that are, like their GBK codes, in one row
  only goes through every conversion of the program without an error, however often the round is repeated and whatever the buffers held before, and in the end each
  buffer has the same text in its encoding, with its length and a terminator.\<close>

theorem conversions_agree:
  assumes "(0xFFFF, 0xFFFF) \<notin> set rows" and "\<forall>u\<in>set us. \<exists>g. own_row rows g u"
    and "3 * length us < 2048" and "\<forall>b. length (bufs b) = 2048" and "0 < n"
  shows "if bad_rows rows
    then conv_main (rows @ [(0xFFFF, 0xFFFF)]) (esc (concat (map utf8 us)) @ 0 # z) n
      \<lparr>cs_charset = charset_static, cs_buf = bufs, cs_len = lens\<rparr> = Inl OutOfBounds
    else \<exists>s ug. conv_main (rows @ [(0xFFFF, 0xFFFF)]) (esc (concat (map utf8 us)) @ 0 # z) n
        \<lparr>cs_charset = charset_static, cs_buf = bufs, cs_len = lens\<rparr> = Inr (0, s)
      \<and> (\<forall>u\<in>set us. (ug u, u) \<in> set rows) \<and> (\<forall>b. buf_holds ug us s b)"
proof (cases "bad_rows rows")
  case True
  have "\<exists>m. n = Suc m" using assms(5) by (cases n) auto
  moreover have "conv_round (rows @ [(0xFFFF, 0xFFFF)]) (esc (concat (map utf8 us)) @ 0 # z)
      \<lparr>cs_charset = charset_static, cs_buf = bufs, cs_len = lens\<rparr> = Inl OutOfBounds"
    unfolding conv_round_def str_esc_decode_def conv_state.simps ensure_init_bad [OF True assms(1)] cstr_at [OF esc_no_nul] by simp
  ultimately show ?thesis unfolding if_P [OF True] by auto
next
  case False
  let ?tbl = "rows @ [(0xFFFF, 0xFFFF)]" and ?p = "esc (concat (map utf8 us)) @ 0 # z"
  let ?s = "\<lparr>cs_charset = charset_static, cs_buf = bufs, cs_len = lens\<rparr>"
  obtain ug gu where init: "charset_map_init ?tbl = Inr (ug, gu)"
    and tab: "\<And>g u. own_row rows g u \<Longrightarrow> look gu g = Inr (Some u) \<and> look ug u = Inr (Some g)"
    by (rule charset_map_init_value [OF False]) (rule that)
  have own: "own_row rows (ug u) u" if u: "u \<in> set us" for u
  proof -
    obtain g where g: "own_row rows g u" using assms(2) u by blast
    then have "ug u = g" using tab [OF g] look_SomeD by blast
    then show ?thesis using g by simp
  qed
  have row: "(ug u, u) \<in> set rows" if "u \<in> set us" for u using own [OF that] by (simp add: own_row_def)
  define st where "st = charset_static\<lparr>hex_char_vmap := vmap0, ucs2_gbk := ug, gbk_ucs2 := gu, mod_init_flag := True\<rparr>"
  have i: "ensure_init ?tbl charset_static = Inr st" "ensure_init ?tbl st = Inr st"
    using init by (simp_all add: ensure_init_def module_init_def st_def charset_static_def vmap0_def)
  have ready: "chain_ready ?tbl ug us (?s\<lparr>cs_charset := st\<rparr>)"
    using i(2) tab own assms(4) by (auto simp: chain_ready_def st_def)
  obtain m where m: "n = Suc m" using assms(5) by (cases n) auto
  obtain s1 where s1: "conv_round ?tbl ?p ?s = Inr (True, s1)" "chain_ready ?tbl ug us s1" "\<forall>b. buf_holds ug us s1 b"
    using conv_round_text [OF _ ready assms(3), of z] i(1) by auto
  show ?thesis
    unfolding if_not_P [OF False] using conv_main_rounds [OF s1(2) assms(3) s1(3), of z m] s1(1) m row by auto
qed

text \<open>With the table of the repository, and with the 150 rows of it from \<open>0xCA83\<close> on.\<close>

lemma conversions_agree_witness:
  "conv_main ucs2_gbk_map (esc [] @ 0 # []) 3 \<lparr>cs_charset = charset_static, cs_buf = (\<lambda>_. replicate 2048 0), cs_len = (\<lambda>_. 0)\<rparr>
      = Inl OutOfBounds
    \<and> (\<exists>s ug. conv_main (ucs2_gbk_rows_086 @ [(0xFFFF, 0xFFFF)]) (esc (concat (map utf8 [0x8BD5])) @ 0 # []) 3
      \<lparr>cs_charset = charset_static, cs_buf = (\<lambda>_. replicate 2048 0), cs_len = (\<lambda>_. 0)\<rparr> = Inr (0, s)
    \<and> (\<forall>b. buf_holds ug [0x8BD5] s b))"
proof -
  note t = conversions_agree [of _ _ "\<lambda>_. replicate 2048 0" 3 "[]" "\<lambda>_. 0"]
  show ?thesis
    using t [of "butlast ucs2_gbk_map" "[]"] t [of ucs2_gbk_rows_086 "[0x8BD5]"] ucs2_gbk_map_rows rows_086
    by (auto simp del: conv_main.simps)
qed

end
