(* ===== verification/Lang_Table.thy ===== *)
theory Lang_Table
  imports Lang_Code Basic_Funcs
begin

text \<open>
  The tool \<^verbatim>\<open>tools/lang_conv.c\<close>: it reads a table with a name and a hexadecimal unicode in each line and prints the UTF-8 code beside
  them. The lines are taken apart in place with two nested uses of \<^verbatim>\<open>strtok\<close>, which is modelled with the position it keeps.
\<close>

section \<open>strtok\<close>

function skip_delims :: "u8 \<Rightarrow> bytes \<Rightarrow> nat \<Rightarrow> nat run" where
  "skip_delims c m i = bindR (rd m i) (\<lambda>x. if x = c then skip_delims c m (i + 1) else Inr i)"
  by pat_completeness auto
termination
  by (relation "measure (\<lambda>(c, m, i). length m - i)") (auto simp: rd_def split: if_splits)

function token_end :: "u8 \<Rightarrow> bytes \<Rightarrow> nat \<Rightarrow> nat run" where
  "token_end c m i = bindR (rd m i) (\<lambda>x. if x = 0 \<or> x = c then Inr i else token_end c m (i + 1))"
  by pat_completeness auto
termination
  by (relation "measure (\<lambda>(c, m, i). length m - i)") (auto simp: rd_def split: if_splits)

declare skip_delims.simps [simp del] token_end.simps [simp del]

text \<open>From position \<open>i\<close>, with one delimiter that is no NUL: the start of the token, the memory and the position kept for the next call.\<close>

definition strtok :: "u8 \<Rightarrow> bytes \<Rightarrow> nat \<Rightarrow> (nat option \<times> bytes \<times> nat) run" where
  "strtok c m i =
     bindR (skip_delims c m i) (\<lambda>b.
     bindR (rd m b) (\<lambda>x.
       if x = 0 then Inr (None, m, b)
       else
         bindR (token_end c m b) (\<lambda>e.
         bindR (rd m e) (\<lambda>y.
           if y = 0 then Inr (Some b, m, e)
           else bindR (wr m e 0) (\<lambda>m'. Inr (Some b, m', e + 1))))))"

lemma skip_delims_bounds: "skip_delims c m i = Inr b \<Longrightarrow> i \<le> b \<and> b < length m"
proof (induction c m i rule: skip_delims.induct)
  case (1 c m i)
  then show ?case by (subst (asm) skip_delims.simps) (fastforce simp: rd_def split: if_splits)
qed

lemma strtok_bounds: "strtok c m i = Inr (Some b, m', s) \<Longrightarrow> i \<le> b \<and> b < length m \<and> length m' = length m"
  by (auto simp: strtok_def bindR_Inr_conv wr_def split: if_splits dest: skip_delims_bounds)

lemma strtok_length: "strtok c m i = Inr (b, m', s) \<Longrightarrow> length m' = length m"
  by (auto simp: strtok_def bindR_Inr_conv wr_def split: if_splits)

section \<open>The tool\<close>

text \<open>The value of a number in memory.\<close>

fun le_value :: "bytes \<Rightarrow> nat" where
  "le_value [] = 0"
| "le_value (b # bs) = unat b + 256 * le_value bs"

text \<open>A line at \<open>pb\<close>: the text printed, the length of the line, and the memory.\<close>

definition conv_row :: "bytes \<Rightarrow> nat \<Rightarrow> (bytes \<times> nat \<times> bytes) run" where
  "conv_row m pb =
     bindR (cstr (drop pb m)) (\<lambda>t.
     bindR (strtok 9 m pb) (\<lambda>(pe, m1, s1).
     bindR (strtok 9 m1 s1) (\<lambda>(pf, m2, s2).
       case pf of
         None \<Rightarrow> Inl NullDeref
       | Some f \<Rightarrow>
           bindR (cstr (drop f m2)) (\<lambda>code.
           bindR (unicode_to_utf8 [word_of_int (fst (strtoul 16 code))] (replicate 4 0) 4) (\<lambda>(_, u, _).
           bindR (case pe of None \<Rightarrow> Inl NullDeref | Some e \<Rightarrow> cstr (drop e m2)) (\<lambda>name.
             Inr (name @ lit '' '' @ code @ lit '' 0x'' @ hex_pad 8 (le_value u) @ [10], length t, m2)))))))"

lemma conv_row_length: "conv_row m pb = Inr (l, n, m') \<Longrightarrow> length m' = length m"
  by (auto simp: conv_row_def bindR_Inr_conv dest!: strtok_length split: option.splits)

function conv_rows :: "bytes \<Rightarrow> nat \<Rightarrow> bytes run" where
  "conv_rows m i =
     bindR (strtok 10 m i) (\<lambda>(pb, m1, _).
       case pb of
         None \<Rightarrow> Inr []
       | Some pb \<Rightarrow>
           bindR (conv_row m1 pb) (\<lambda>(line, line_len, m2).
           bindR (conv_rows m2 (pb + line_len + 1)) (\<lambda>out. Inr (line @ out))))"
  by pat_completeness auto
termination
  by (relation "measure (\<lambda>(m, i). length m - i)") (auto dest!: strtok_bounds conv_row_length)

declare conv_rows.simps [simp del]

text \<open>What \<^verbatim>\<open>main\<close> returns and prints, by the number of arguments, the descriptor, the size \<^verbatim>\<open>fstat\<close> gives, whether there is
  memory, and what is read.\<close>

definition lang_conv_main :: "int \<Rightarrow> int \<Rightarrow> int option \<Rightarrow> bool \<Rightarrow> bytes option \<Rightarrow> (int \<times> bytes) run" where
  "lang_conv_main argc fd st_size ok data =
     (if argc < 2 then Inr (1, [])
      else if fd < 0 then Inr (0, [])
      else case st_size of
        None \<Rightarrow> Inr (1, [])
      | Some n \<Rightarrow>
          if n \<le> 0 then Inr (1, [])
          else if \<not> ok then Inr (1, [])
          else case data of
            None \<Rightarrow> Inr (1, [])
          | Some d \<Rightarrow>
              if int (length d) \<noteq> n then Inr (1, [])
              else bindR (conv_rows (d @ [0]) 0) (\<lambda>out. Inr (0, out)))"

section \<open>Tokens\<close>

lemma skip_delims_at:
  assumes "x \<noteq> c"
  shows "skip_delims c (q @ replicate k c @ x # z) (length q) = Inr (length q + k)"
proof (induction k arbitrary: q)
  case 0
  then show ?case using assms by (subst skip_delims.simps) simp
next
  case (Suc k)
  have "skip_delims c (q @ replicate (Suc k) c @ x # z) (length q) = skip_delims c ((q @ [c]) @ replicate k c @ x # z) (length (q @ [c]))"
    by (subst skip_delims.simps) simp
  then show ?case using Suc.IH [of "q @ [c]"] by simp
qed

lemma token_end_at:
  assumes "0 \<notin> set t" and "c \<notin> set t" and "d = 0 \<or> d = c"
  shows "token_end c (q @ t @ d # z) (length q) = Inr (length q + length t)"
  using assms(1,2)
proof (induction t arbitrary: q)
  case Nil
  then show ?case using assms(3) by (subst token_end.simps) simp
next
  case (Cons x t)
  have "token_end c (q @ (x # t) @ d # z) (length q) = token_end c ((q @ [x]) @ t @ d # z) (length (q @ [x]))"
    using Cons.prems by (subst token_end.simps) auto
  then show ?case using Cons.IH [of "q @ [x]"] Cons.prems by simp
qed

text \<open>A token behind \<open>k\<close> delimiters, ended by a delimiter or by the end of the string.\<close>

lemma strtok_token:
  assumes "t \<noteq> []" and "0 \<notin> set t" and "c \<notin> set t" and "c \<noteq> 0" and "d = 0 \<or> d = c" and "i = length q"
  shows "strtok c (q @ replicate k c @ t @ d # z) i
    = Inr (Some (length q + k), q @ replicate k c @ t @ 0 # z, length q + k + length t + (if d = 0 then 0 else 1))"
proof -
  obtain x t' where t: "t = x # t'" "x \<noteq> 0" "x \<noteq> c" using assms(1-3) by (cases t) auto
  let ?m = "q @ replicate k c @ t @ d # z"
  have "skip_delims c ?m i = Inr (length q + k)" using skip_delims_at [OF t(3), of q k "t' @ d # z"] t(1) assms(6) by simp
  moreover have "token_end c ?m (length q + k) = Inr (length q + k + length t)"
    using token_end_at [OF assms(2,3,5), of "q @ replicate k c" z] by simp
  moreover have "rd ?m (length q + k) = Inr x" "rd ?m (length q + k + length t) = Inr d" by (simp_all add: t nth_append)
  moreover have "wr ?m (length q + k + length t) 0 = Inr (q @ replicate k c @ t @ 0 # z)" by (simp add: list_update_append)
  ultimately show ?thesis using t(2) assms(4,5) by (auto simp: strtok_def)
qed

lemma strtok_none:
  assumes "c \<noteq> 0" and "i = length q"
  shows "strtok c (q @ replicate k c @ 0 # z) i = Inr (None, q @ replicate k c @ 0 # z, length q + k)"
  using skip_delims_at [of 0 c q k z] assms by (simp add: strtok_def nth_append)

section \<open>Tables\<close>

text \<open>A line: the name, the code, what may follow behind another tab, and the number of empty lines behind it.\<close>

record code_row =
  cr_name :: bytes
  cr_code :: bytes
  cr_extra :: bytes
  cr_blank :: nat

definition row_ok :: "code_row \<Rightarrow> bool" where
  "row_ok r \<longleftrightarrow> cr_name r \<noteq> [] \<and> cr_code r \<noteq> [] \<and> {0, 9, 10} \<inter> set (cr_name r @ cr_code r) = {}
     \<and> {0, 10} \<inter> set (cr_extra r) = {} \<and> (cr_extra r = [] \<or> hd (cr_extra r) = 9)"

definition row_text :: "code_row \<Rightarrow> bytes" where
  "row_text r = cr_name r @ 9 # cr_code r @ cr_extra r"

definition table_text :: "code_row list \<Rightarrow> bytes" where
  "table_text rs = concat (map (\<lambda>r. row_text r @ 10 # replicate (cr_blank r) 10) rs)"

definition row_unit :: "code_row \<Rightarrow> u16" where
  "row_unit r = word_of_int (fst (strtoul 16 (cr_code r)))"

text \<open>The bytes of a UTF-8 text as one number, the first on top.\<close>

definition be_value :: "bytes \<Rightarrow> nat" where
  "be_value bs = foldl (\<lambda>a b. 256 * a + unat b) 0 bs"

definition row_line :: "code_row \<Rightarrow> bytes" where
  "row_line r = cr_name r @ lit '' '' @ cr_code r @ lit '' 0x'' @ hex_pad 8 (be_value (utf8 (row_unit r))) @ [10]"

lemma le_value_zeros: "le_value (bs @ replicate n 0) = le_value bs"
proof -
  have "le_value (replicate n 0) = 0" by (induction n) simp_all
  then show ?thesis by (induction bs) simp_all
qed

lemma le_value_rev: "le_value (rev bs) = be_value bs"
proof -
  have app: "le_value (xs @ [b]) = le_value xs + 256 ^ length xs * unat b" for xs b by (induction xs) simp_all
  have "foldl (\<lambda>a b. 256 * a + unat b) a bs = a * 256 ^ length bs + le_value (rev bs)" for a
    by (induction bs arbitrary: a) (simp_all add: app algebra_simps)
  then show ?thesis by (simp add: be_value_def)
qed

lemma unit_to_number: "\<exists>z n. unicode_to_utf8 [u] (replicate 4 0) 4 = Inr (F1G_OK, z, n) \<and> le_value z = be_value (utf8 u)"
proof -
  have l: "length (utf8 u) \<le> 3" by (simp add: utf8_def)
  have b: "replicate (nat 4) 0 @ drop (nat 4) (replicate 4 0) = replicate 4 (0 :: u8)" by simp
  have "from_units [u] (replicate 4 0) 0 0 = Inr (rev (utf8 u) @ replicate (4 - length (utf8 u)) 0, int (length (utf8 u)))"
    using from_units_rev [of "[u]" "replicate 4 0" "[]" 0] l by simp
  then have "unicode_to_utf8 [u] (replicate 4 0) 4 = Inr (F1G_OK, rev (utf8 u) @ replicate (4 - length (utf8 u)) 0, int (length (utf8 u)))"
    unfolding unicode_to_utf8_def b by simp
  then show ?thesis by (simp add: le_value_zeros le_value_rev)
qed

lemma row_text_ok:
  assumes "row_ok r"
  shows "row_text r \<noteq> []" and "0 \<notin> set (row_text r)" and "10 \<notin> set (row_text r)"
  using assms by (auto simp: row_text_def row_ok_def)

text \<open>A line in memory, ended by a NUL.\<close>

lemma conv_row_line:
  assumes "row_ok r"
  shows "\<exists>q'. conv_row (q @ row_text r @ 0 # z) (length q) = Inr (row_line r, length (row_text r), q' @ z)
    \<and> length q' = length q + length (row_text r) + 1"
proof -
  have n: "cr_name r \<noteq> []" "0 \<notin> set (cr_name r)" "9 \<notin> set (cr_name r)" and c: "cr_code r \<noteq> []" "0 \<notin> set (cr_code r)" "9 \<notin> set (cr_code r)"
    using assms by (auto simp: row_ok_def)
  have t: "cstr (drop (length q) (q @ row_text r @ 0 # z)) = Inr (row_text r)" using cstr_at [OF row_text_ok(2) [OF assms]] by simp
  define y where "y = cr_code r @ cr_extra r @ 0 # z"
  have 1: "strtok 9 (q @ row_text r @ 0 # z) (length q) = Inr (Some (length q), q @ cr_name r @ 0 # y, length (q @ cr_name r @ [0]))"
    using strtok_token [OF n, of 9 "length q" q 0 y] by (simp add: row_text_def y_def)
  obtain d w where d: "cr_extra r @ 0 # z = d # w" "d = 0 \<or> d = 9" "length w = length (cr_extra r) + length z"
    "drop (length (cr_extra r)) w = z"
    using assms by (cases "cr_extra r") (auto simp: row_ok_def)
  have 2: "strtok 9 (q @ cr_name r @ 0 # y) (length (q @ cr_name r @ [0]))
      = Inr (Some (length (q @ cr_name r @ [0])), (q @ cr_name r @ [0]) @ cr_code r @ 0 # w,
          length (q @ cr_name r @ [0]) + length (cr_code r) + (if d = 0 then 0 else 1))"
    using strtok_token [OF c, of d "length (q @ cr_name r @ [0])" "q @ cr_name r @ [0]" 0 w] d(1,2) by (simp add: y_def)
  obtain u k where u: "unicode_to_utf8 [row_unit r] (replicate 4 0) 4 = Inr (F1G_OK, u, k)" "le_value u = be_value (utf8 (row_unit r))"
    using unit_to_number by blast
  have name: "cstr (drop (length q) ((q @ cr_name r @ [0]) @ cr_code r @ 0 # w)) = Inr (cr_name r)" using cstr_at [OF n(2)] by simp
  have code: "cstr (drop (length (q @ cr_name r @ [0])) ((q @ cr_name r @ [0]) @ cr_code r @ 0 # w)) = Inr (cr_code r)"
    using cstr_at [OF c(2)] by simp
  define q' where "q' = (q @ cr_name r @ [0]) @ cr_code r @ 0 # take (length (cr_extra r)) w"
  have m: "(q @ cr_name r @ [0]) @ cr_code r @ 0 # w = q' @ z" using d(4) append_take_drop_id [of "length (cr_extra r)" w] by (simp add: q'_def)
  have "conv_row (q @ row_text r @ 0 # z) (length q) = Inr (row_line r, length (row_text r), q' @ z)"
    unfolding conv_row_def t bindR_simps 1 prod.case 2 option.case code name row_unit_def [symmetric] u(1) m [symmetric]
    by (simp only: row_line_def u(2))
  moreover have "length q' = length q + length (row_text r) + 1" using d(3) by (simp add: q'_def row_text_def)
  ultimately show ?thesis by blast
qed

text \<open>The next line of the table, behind \<open>k\<close> empty ones.\<close>

lemma conv_rows_step:
  assumes "row_ok r" and "d = 0 \<or> d = 10"
  shows "\<exists>q'. conv_rows (q @ replicate k 10 @ row_text r @ d # z) (length q)
      = bindR (conv_rows (q' @ z) (length q')) (\<lambda>out. Inr (row_line r @ out))"
proof -
  have s: "strtok 10 (q @ replicate k 10 @ row_text r @ d # z) (length q)
      = Inr (Some (length q + k), q @ replicate k 10 @ row_text r @ 0 # z, length q + k + length (row_text r) + (if d = 0 then 0 else 1))"
    using strtok_token [OF row_text_ok [OF assms(1)], of d "length q" q k z] assms(2) by simp
  obtain q' where q': "conv_row ((q @ replicate k 10) @ row_text r @ 0 # z) (length (q @ replicate k 10))
      = Inr (row_line r, length (row_text r), q' @ z)" "length q' = length (q @ replicate k 10) + length (row_text r) + 1"
    using conv_row_line [OF assms(1)] by blast
  have "conv_rows (q @ replicate k 10 @ row_text r @ d # z) (length q)
      = bindR (conv_rows (q' @ z) (length q')) (\<lambda>out. Inr (row_line r @ out))"
    using s q' by (subst conv_rows.simps) simp
  then show ?thesis by blast
qed

lemma conv_rows_table:
  assumes "\<forall>r\<in>set rs. row_ok r"
  shows "conv_rows (q @ replicate k 10 @ table_text rs @ [0]) (length q) = Inr (concat (map row_line rs))"
  using assms
proof (induction rs arbitrary: q k)
  case Nil
  then show ?case using strtok_none [of 10 "length q" q k "[]"] by (subst conv_rows.simps) (simp add: table_text_def)
next
  case (Cons r rs)
  have t: "table_text (r # rs) @ [0] = row_text r @ 10 # replicate (cr_blank r) 10 @ table_text rs @ [0]" by (simp add: table_text_def)
  obtain q' where q': "conv_rows (q @ replicate k 10 @ row_text r @ 10 # replicate (cr_blank r) 10 @ table_text rs @ [0]) (length q)
      = bindR (conv_rows (q' @ replicate (cr_blank r) 10 @ table_text rs @ [0]) (length q')) (\<lambda>out. Inr (row_line r @ out))"
    using conv_rows_step [of r 10] Cons.prems by force
  show ?case unfolding t q' using Cons.IH [of q' "cr_blank r"] Cons.prems by simp
qed

text \<open>A last line without its end: the search goes on behind the buffer.\<close>

lemma conv_rows_open_line:
  assumes "\<forall>r\<in>set rs. row_ok r" and "row_ok r"
  shows "conv_rows (q @ replicate k 10 @ table_text rs @ row_text r @ [0]) (length q) = Inl OutOfBounds"
  using assms(1)
proof (induction rs arbitrary: q k)
  case Nil
  obtain q' where "conv_rows (q @ replicate k 10 @ row_text r @ 0 # []) (length q)
      = bindR (conv_rows (q' @ []) (length q')) (\<lambda>out. Inr (row_line r @ out))"
    using conv_rows_step [OF assms(2), of 0 q k "[]"] by auto
  moreover have "conv_rows q' (length q') = Inl OutOfBounds"
    by (subst conv_rows.simps) (simp add: strtok_def skip_delims.simps [of _ q' "length q'"])
  ultimately show ?case by (simp add: table_text_def)
next
  case (Cons r1 rs)
  have t: "table_text (r1 # rs) @ row_text r @ [0] = row_text r1 @ 10 # replicate (cr_blank r1) 10 @ table_text rs @ row_text r @ [0]"
    by (simp add: table_text_def)
  obtain q' where q': "conv_rows (q @ replicate k 10 @ row_text r1 @ 10 # replicate (cr_blank r1) 10 @ table_text rs @ row_text r @ [0]) (length q)
      = bindR (conv_rows (q' @ replicate (cr_blank r1) 10 @ table_text rs @ row_text r @ [0]) (length q')) (\<lambda>out. Inr (row_line r1 @ out))"
    using conv_rows_step [of r1 10] Cons.prems by force
  show ?case unfolding t q' using Cons.IH [of q' "cr_blank r1"] Cons.prems by simp
qed

lemma lang_conv_main_data:
  assumes "d \<noteq> []" and "2 \<le> argc" and "0 \<le> fd"
  shows "lang_conv_main argc fd (Some (int (length d))) True (Some d) = bindR (conv_rows (d @ [0]) 0) (\<lambda>out. Inr (0, out))"
  using assms by (simp add: lang_conv_main_def)

lemma table_printed:
  assumes "\<forall>r\<in>set rs. row_ok r" and "2 \<le> argc" and "0 \<le> fd" and "replicate k 10 @ table_text rs \<noteq> []"
  shows "lang_conv_main argc fd (Some (int (length (replicate k 10 @ table_text rs)))) True (Some (replicate k 10 @ table_text rs))
    = Inr (0, concat (map row_line rs))"
  using lang_conv_main_data [OF assms(4,2,3)] conv_rows_table [OF assms(1), of "[]" k] by simp

lemma open_line_read_behind:
  assumes "\<forall>r\<in>set rs. row_ok r" and "2 \<le> argc" and "0 \<le> fd" and "row_ok r"
  shows "lang_conv_main argc fd (Some (int (length (replicate k 10 @ table_text rs @ row_text r)))) True
      (Some (replicate k 10 @ table_text rs @ row_text r)) = Inl OutOfBounds"
proof -
  have "replicate k 10 @ table_text rs @ row_text r \<noteq> []" using row_text_ok(1) [OF assms(4)] by simp
  from lang_conv_main_data [OF this assms(2,3)] show ?thesis using conv_rows_open_line [OF assms(1,4), of "[]" k] by simp
qed

text \<open>C31. The tool on a table, with empty lines in front of and between its lines: it prints for each line the name, the code as it is written, and the bytes of the
  UTF-8 encoding of the code as one number in eight digits; but if the last line has no line end it reads behind its buffer.\<close>

theorem lang_conv_prints_table:
  assumes "\<forall>r\<in>set rs. row_ok r" and "2 \<le> argc" and "0 \<le> fd"
  shows "(replicate k 10 @ table_text rs \<noteq> [] \<longrightarrow>
      lang_conv_main argc fd (Some (int (length (replicate k 10 @ table_text rs)))) True (Some (replicate k 10 @ table_text rs))
      = Inr (0, concat (map row_line rs)))
    \<and> (row_ok r \<longrightarrow>
      lang_conv_main argc fd (Some (int (length (replicate k 10 @ table_text rs @ row_text r)))) True
        (Some (replicate k 10 @ table_text rs @ row_text r)) = Inl OutOfBounds)"
  using table_printed [OF assms] open_line_read_behind [OF assms] by blast

lemma code_e_acute: "word_of_int (fst (strtoul 16 (lit ''00e9''))) = (0xE9 :: u16)"
  by (simp add: strtoul_def strto_def is_space_def is_digit_def digit_val_def lit_def chr8_def)

lemma number_e_acute: "be_value (utf8 0xE9) = 50089"
  by (simp add: utf8_def be_value_def)

lemma digits_e_acute: "hex_pad (Suc (Suc (Suc (Suc (Suc (Suc (Suc (Suc 0)))))))) 50089 = lit ''0000c3a9''"
  by (simp add: hex_digit_def lit_def chr8_def)

lemma row_line_e_acute:
  "row_line \<lparr>cr_name = lit ''a'', cr_code = lit ''00e9'', cr_extra = [], cr_blank = 1\<rparr> = lit ''a 00e9 0x0000c3a9'' @ [10]"
proof -
  have "hex_pad 8 50089 = lit ''0000c3a9''" using digits_e_acute by (simp only: eval_nat_numeral BitM.simps One_nat_def)
  moreover have "lit ''a 00e9 0x0000c3a9'' = lit ''a'' @ lit '' '' @ lit ''00e9'' @ lit '' 0x'' @ lit ''0000c3a9''" by (simp add: lit_def)
  ultimately show ?thesis unfolding row_line_def row_unit_def code_row.simps code_e_acute number_e_acute by simp
qed

lemma lang_conv_prints_table_witness:
  "lang_conv_main 2 3 (Some 8) True (Some (lit ''a'' @ 9 # lit ''00e9'' @ [10, 10]))
     = Inr (0, lit ''a 00e9 0x0000c3a9'' @ [10])
   \<and> lang_conv_main 2 3 (Some 6) True (Some (lit ''a'' @ 9 # lit ''00e9'')) = Inl OutOfBounds"
proof -
  let ?r = "\<lparr>cr_name = lit ''a'', cr_code = lit ''00e9'', cr_extra = [], cr_blank = 1\<rparr>"
  have r: "row_ok ?r" by (simp add: row_ok_def lit_def chr8_def)
  have t: "table_text [?r] = lit ''a'' @ 9 # lit ''00e9'' @ [10, 10]" "table_text [] = []" "row_text ?r = lit ''a'' @ 9 # lit ''00e9''"
    by (simp_all add: table_text_def row_text_def)
  have n: "int (length (lit ''a'' @ 9 # lit ''00e9'' @ [10, 10])) = 8" "int (length (lit ''a'' @ 9 # lit ''00e9'')) = 6"
    by (simp_all add: lit_def)
  have "lang_conv_main 2 3 (Some 8) True (Some (lit ''a'' @ 9 # lit ''00e9'' @ [10, 10])) = Inr (0, concat (map row_line [?r]))"
    using lang_conv_prints_table [of "[?r]" 2 3 0 ?r] r unfolding replicate_0 append_Nil t n by simp
  moreover have "lang_conv_main 2 3 (Some 6) True (Some (lit ''a'' @ 9 # lit ''00e9'')) = Inl OutOfBounds"
    using lang_conv_prints_table [of "[]" 2 3 0 ?r] r unfolding replicate_0 append_Nil t n by simp
  ultimately show ?thesis by (simp add: row_line_e_acute del: One_nat_def)
qed

end
