(* ===== verification/Fl_Mgr.thy ===== *)
theory Fl_Mgr
  imports Growth
begin

text \<open>
  The two functions of \<^verbatim>\<open>f1g_fl_mgr.c\<close> that make room. The rest of that file does not compile, nor does its header: they
  use types and variables that nothing declares. \<open>sz\<close> is \<^verbatim>\<open>sizeof(host_fl_list_t)\<close>; the files of a host are the
  bytes of their block, because the code counts them with the size of another struct.
\<close>

record host_fl_list =
  hl_host :: bytes
  hl_path :: bytes
  fl_num :: int
  fl_cap :: int
  p_fls :: "bytes ptr"

record fl_mgr =
  host_num :: int
  host_cap :: int
  p_hfl :: "host_fl_list list ptr"

definition zero_host :: host_fl_list where
  "zero_host = \<lparr>hl_host = replicate 128 0, hl_path = replicate 256 0, fl_num = 0, fl_cap = 0, p_fls = Null\<rparr>"

text \<open>\<open>ok\<close> is the outcome of the allocation.\<close>

definition fl_mgr_enlarge_host_cap :: "bool \<Rightarrow> fl_mgr \<Rightarrow> int \<Rightarrow> (int \<times> fl_mgr) run" where
  "fl_mgr_enlarge_host_cap ok p new_cap =
     (if new_cap < host_cap p then Inr (F1G_ERR, p)
      else
        let n = (if new_cap \<le> 0 then 4 else new_cap) in
        case zalloc ok n zero_host of
          Live t \<Rightarrow>
            bindR (if host_num p > 0 then bindR (deref (p_hfl p)) (\<lambda>old. bindR (slice old 0 (host_num p)) (\<lambda>xs. put t 0 xs)) else Inr t) (\<lambda>t'.
              freeR (p_hfl p) (Inr (F1G_OK, p\<lparr>p_hfl := Live t', host_cap := n\<rparr>)))
        | _ \<Rightarrow> Inr (F1G_ERR, p))"

definition host_fl_list_enlarge_cap :: "int \<Rightarrow> bool \<Rightarrow> host_fl_list \<Rightarrow> int \<Rightarrow> (int \<times> host_fl_list) run" where
  "host_fl_list_enlarge_cap sz ok p new_cap =
     (if new_cap < fl_cap p then Inr (F1G_ERR, p)
      else
        let n = (if new_cap \<le> 0 then 64 else new_cap) in
        case zalloc ok (sz * n) 0 of
          Live t \<Rightarrow>
            bindR (if fl_num p > 0 then bindR (deref (p_fls p)) (\<lambda>old. bindR (slice old 0 (sz * fl_num p)) (\<lambda>xs. put t 0 xs)) else Inr t) (\<lambda>t'.
              freeR (p_fls p) (Inr (F1G_OK, p\<lparr>p_fls := Live t', fl_cap := n\<rparr>)))
        | _ \<Rightarrow> Inr (F1G_ERR, p))"

section \<open>The hosts\<close>

definition hosts_wf :: "fl_mgr \<Rightarrow> bool" where
  "hosts_wf p \<longleftrightarrow> 0 \<le> host_num p \<and> host_num p \<le> host_cap p
     \<and> (case p_hfl p of Null \<Rightarrow> host_cap p = 0 | Live m \<Rightarrow> int (length m) = host_cap p | Dangling \<Rightarrow> False)"

definition hosts :: "fl_mgr \<Rightarrow> host_fl_list list" where
  "hosts p = (case p_hfl p of Live m \<Rightarrow> take (nat (host_num p)) m | _ \<Rightarrow> [])"

text \<open>The result for any capacity: with room asked for, the hosts stay and the new cells are zero.\<close>

lemma fl_mgr_enlarge_cases:
  assumes "hosts_wf p"
  shows "fl_mgr_enlarge_host_cap ok p k
    = (let n = (if k \<le> 0 then 4 else k) in
       if k < host_cap p \<or> \<not> ok then Inr (F1G_ERR, p)
       else Inr (F1G_OK, p\<lparr>p_hfl := Live (hosts p @ replicate (nat (n - host_num p)) zero_host), host_cap := n\<rparr>))"
proof (cases "k < host_cap p \<or> \<not> ok")
  case True
  then show ?thesis by (auto simp: fl_mgr_enlarge_host_cap_def Let_def zalloc_def)
next
  case False
  define n where "n = (if k \<le> 0 then 4 else k)"
  have n: "0 < n" "host_num p \<le> n" "0 \<le> host_num p" "zalloc ok n zero_host = Live (replicate (nat n) zero_host)"
    using assms False by (auto simp: n_def hosts_wf_def zalloc_def)
  have r: "drop (nat (host_num p)) (replicate (nat n) zero_host) = replicate (nat (n - host_num p)) zero_host"
    using n by (simp add: nat_diff_distrib)
  show ?thesis
  proof (cases "p_hfl p")
    case Null
    then have "host_num p = 0" using assms by (auto simp: hosts_wf_def)
    then show ?thesis using False Null n by (simp add: fl_mgr_enlarge_host_cap_def Let_def n_def [symmetric] hosts_def)
  next
    case (Live m)
    then have m: "nat (host_num p) \<le> length m" using assms by (auto simp: hosts_wf_def)
    define t where "t = hosts p @ replicate (nat (n - host_num p)) zero_host"
    have c: "put (replicate (nat n) zero_host) 0 (take (nat (host_num p)) m) = Inr t"
      using m n(2,3) r by (simp add: put_def min_def hosts_def Live t_def)
    have d: "slice m 0 (host_num p) = Inr (take (nat (host_num p)) m)" using m n(3) by simp
    have e: "replicate (nat n) zero_host = t" if "\<not> 0 < host_num p"
      using that n(3) by (simp add: hosts_def Live t_def)
    have "fl_mgr_enlarge_host_cap ok p k = Inr (F1G_OK, p\<lparr>p_hfl := Live t, host_cap := n\<rparr>)"
    proof (cases "0 < host_num p")
      case True
      then show ?thesis
        unfolding fl_mgr_enlarge_host_cap_def Let_def n_def [symmetric] n(4) using False by (simp add: Live c d)
    next
      case no: False
      then show ?thesis
        unfolding fl_mgr_enlarge_host_cap_def Let_def n_def [symmetric] n(4) e [OF no] using False by (simp add: Live)
    qed
    then show ?thesis using False unfolding t_def n_def [symmetric] Let_def by simp
  next
    case Dangling
    then show ?thesis using assms by (simp add: hosts_wf_def)
  qed
qed

interpretation hg: growable "fl_mgr_enlarge_host_cap True" hosts host_cap hosts_wf
proof
  fix p :: fl_mgr and n
  assume w: "hosts_wf p" and n: "host_cap p < n"
  have h: "length (hosts p) = nat (host_num p)" "0 \<le> host_num p" "host_num p < n" "0 < n"
    using w n by (auto simp: hosts_wf_def hosts_def split: ptr.splits)
  then show "\<exists>p'. fl_mgr_enlarge_host_cap True p n = Inr (F1G_OK, p') \<and> hosts_wf p' \<and> hosts p' = hosts p \<and> host_cap p' = n"
    using n by (simp add: fl_mgr_enlarge_cases [OF w] hosts_wf_def hosts_def [of "p\<lparr>p_hfl := _, host_cap := _\<rparr>"])
qed

section \<open>The files of a host\<close>

text \<open>A full list of files of \<open>k\<close> bytes each: where the struct of a host is larger than that of a file, making room reads behind the block.\<close>

lemma host_fl_list_enlarge_overruns:
  assumes "p_fls p = Live m" and "int (length m) = k * fl_cap p" and "fl_num p = fl_cap p" and "0 < fl_cap p" and "k < sz" and "0 \<le> k"
    and "fl_cap p \<le> n"
  shows "host_fl_list_enlarge_cap sz True p n = Inl OutOfBounds"
proof -
  have "k * fl_cap p < sz * fl_cap p" using assms(4,5) by simp
  then have "slice m 0 (sz * fl_num p) = Inl OutOfBounds" unfolding slice_def using assms(2,3) by auto
  moreover have "0 \<le> sz * n" using assms(4-7) by simp
  ultimately show ?thesis using assms by (simp add: host_fl_list_enlarge_cap_def zalloc_def)
qed

end
