(* ===== verification/Accessor.thy ===== *)
theory Accessor
  imports Buffer
begin

text \<open>
  The socket layer of \<^verbatim>\<open>src/f1g_accessor.c\<close>: receiving into a buffer, and handing out the events of
  one \<^verbatim>\<open>epoll_wait\<close> one by one. The kernel is the environment: a script of the outcomes of the
  successive \<^verbatim>\<open>recvfrom\<close> calls, the outcome of a wait, and the results of \<^verbatim>\<open>accept\<close>,
  \<^verbatim>\<open>malloc\<close>, \<^verbatim>\<open>epoll_ctl\<close> and the calls that set a listening socket up.
\<close>

unbundle bit_operations_syntax

section \<open>Constants and structs\<close>

definition RECV_INIT :: u32 where "RECV_INIT = 0x00"
definition RECV_OK :: u32 where "RECV_OK = 0x01"
definition RECV_ERR :: u32 where "RECV_ERR = 0x02"
definition RECV_TIMEOUT :: u32 where "RECV_TIMEOUT = 0x04"
definition RECV_DISC :: u32 where "RECV_DISC = 0x08"
definition RECV_MEM_LACK :: u32 where "RECV_MEM_LACK = 0x10"

definition SST_INIT :: u16 where "SST_INIT = 0"
definition SST_DATA_IN :: u16 where "SST_DATA_IN = 1"
definition SST_DATA_OUT :: u16 where "SST_DATA_OUT = 2"
definition SST_DISC :: u16 where "SST_DISC = 3"
definition SST_ERR :: u16 where "SST_ERR = 4"
definition SST_UNKNOWN :: u16 where "SST_UNKNOWN = 5"

record sock_info =
  sfd :: u32
  src_ip :: u32
  src_port :: u16
  sock_status :: u16

record epoll_ev =
  ev_hup :: bool
  ev_err :: bool
  ev_in :: bool
  ev_out :: bool
  ev_info :: "sock_info ptr"

record epoller =
  accessor_id :: u32
  listen_fd :: u32
  event_size :: int
  event_num :: int
  next_event :: nat
  events :: "epoll_ev list"

text \<open>Of the linkers only the epoll one is ever set.\<close>

record accessor =
  link_mode :: int
  acc_rdbuf :: buffer
  acc_wrbuf :: buffer
  linker :: "epoller ptr"

definition LINKER_EPOLL :: int where "LINKER_EPOLL = 0"
definition LINKER_POLL :: int where "LINKER_POLL = 1"
definition LINKER_SELECT :: int where "LINKER_SELECT = 2"
definition LINKER_PCAP :: int where "LINKER_PCAP = 3"
definition LINKER_USER_DEF :: int where "LINKER_USER_DEF = 4"

section \<open>Receiving\<close>

text \<open>The outcome of one \<^verbatim>\<open>recvfrom\<close>: interrupted or nothing there (\<^verbatim>\<open>EINTR\<close>, \<^verbatim>\<open>EAGAIN\<close>), another
  error, closed by the peer, or bytes, of which the call takes as many as it has room for.\<close>

datatype recv_event = Again | Fails | Closed | Arrive bytes

text \<open>The loop: the block, \<open>len\<close>, the status and \<open>wait_times\<close>. \<open>None\<close>: the script ends and the
  loop would call \<^verbatim>\<open>recvfrom\<close> once more.\<close>

fun recv_loop ::
  "int \<Rightarrow> bytes \<Rightarrow> nat \<Rightarrow> u32 \<Rightarrow> nat \<Rightarrow> recv_event list \<Rightarrow> (bytes \<times> nat \<times> u32) option run" where
  "recv_loop sz m len st w [] = (if int len < sz then Inr None else Inr (Some (m, len, st)))"
| "recv_loop sz m len st w (e # evs) =
     (if \<not> int len < sz then Inr (Some (m, len, st))
      else case e of
        Again \<Rightarrow>
          if w + 1 \<ge> 3 then Inr (Some (m, len, st OR RECV_TIMEOUT))
          else recv_loop sz m len st (w + 1) evs
      | Fails \<Rightarrow> Inr (Some (m, len, (st AND RECV_ERR) AND NOT RECV_OK))
      | Closed \<Rightarrow> Inr (Some (m, len, st OR RECV_DISC))
      | Arrive xs \<Rightarrow>
          let ys = take (nat (sz - int len)) xs in
          if ys = [] then Inr (Some (m, len, st OR RECV_DISC))
          else bindR (put m len ys) (\<lambda>m'. recv_loop sz m' (len + length ys) (st OR RECV_OK) w evs))"

definition nonblk_recvfrom :: "recv_event list \<Rightarrow> buffer \<Rightarrow> (buffer \<times> u32) option run" where
  "nonblk_recvfrom evs b =
     bindR (deref (bbuf b)) (\<lambda>m.
     bindR (recv_loop (bsize b) m 0 RECV_INIT 0 evs) (\<lambda>r.
       case r of
         None \<Rightarrow> Inr None
       | Some (m', len, st) \<Rightarrow>
           bindR (wr m' len 0) (\<lambda>m''.
             Inr (Some (b\<lparr>blen := int len, bbuf := Live m''\<rparr>,
                        if int len \<ge> bsize b then st OR RECV_MEM_LACK else st)))))"

section \<open>Handing out events\<close>

text \<open>The environment of one call: what \<^verbatim>\<open>accept\<close> gives, whether \<^verbatim>\<open>malloc\<close> succeeds, and whether the
  first and the second \<^verbatim>\<open>epoll_ctl\<close> do.\<close>

record check_env =
  accepted_conn :: "sock_info option"
  mem_ok :: bool
  ctl1 :: bool
  ctl2 :: bool

text \<open>The result: the returned number, the epoller, \<^verbatim>\<open>*p_si\<close> and the descriptors closed.\<close>

definition pass_event :: "epoller \<Rightarrow> sock_info \<Rightarrow> u32 list \<Rightarrow> int \<times> epoller \<times> sock_info \<times> u32 list" where
  "pass_event ep si cl = (int (next_event ep + 1), ep\<lparr>next_event := next_event ep + 1\<rparr>, si, cl)"

text \<open>The \<^verbatim>\<open>sock_info_t\<close> of an event freed.\<close>

definition free_info :: "epoller \<Rightarrow> epoller" where
  "free_info ep = ep\<lparr>events := (events ep)[next_event ep := (events ep ! next_event ep)\<lparr>ev_info := Dangling\<rparr>]\<rparr>"

definition epoll_check_status ::
  "check_env \<Rightarrow> epoller \<Rightarrow> sock_info \<Rightarrow> (int \<times> epoller \<times> sock_info \<times> u32 list) run" where
  "epoll_check_status env ep si =
     (if int (next_event ep) < event_num ep then
        bindR (rd (events ep) (next_event ep)) (\<lambda>e.
        bindR (deref (ev_info e)) (\<lambda>info.
          if sfd info = listen_fd ep then
            (case accepted_conn env of
               None \<Rightarrow> Inr (pass_event ep si [])
             | Some c \<Rightarrow>
                 if \<not> mem_ok env then Inr (0, ep, si, [])
                 else let si' = c\<lparr>sock_status := SST_INIT\<rparr> in
                      if ctl1 env then Inr (pass_event ep si' []) else Inr (0, ep, si', []))
          else
            let si0 = info\<lparr>sock_status := SST_UNKNOWN\<rparr>;
                last = (\<lambda>ep si cl.
                  let si1 = (if ev_in e then si\<lparr>sock_status := SST_DATA_IN\<rparr> else si);
                      si2 = (if ev_out e then si1\<lparr>sock_status := SST_DATA_OUT\<rparr> else si1)
                  in Inr (pass_event ep si2 cl));
                err = (\<lambda>ep si cl ctl.
                  if ev_err e then
                    if \<not> ctl then Inr (0, free_info ep, si\<lparr>sock_status := SST_ERR\<rparr>, cl)
                    else last (free_info ep) (si\<lparr>sock_status := SST_ERR\<rparr>) (cl @ [sfd info])
                  else last ep si cl)
            in if ev_hup e then
                 if \<not> ctl1 env then Inr (0, free_info ep, si0\<lparr>sock_status := SST_DISC\<rparr>, [])
                 else err (free_info ep) (si0\<lparr>sock_status := SST_DISC\<rparr>) [sfd info] (ctl2 env)
               else err ep si0 [] (ctl1 env)))
      else Inr (0, ep\<lparr>next_event := 0\<rparr>, si, []))"

definition accessor_check_status ::
  "check_env \<Rightarrow> accessor \<Rightarrow> sock_info \<Rightarrow> (int \<times> accessor \<times> sock_info \<times> u32 list) run" where
  "accessor_check_status env acc si =
     (if link_mode acc = LINKER_EPOLL then
        bindR (deref (linker acc)) (\<lambda>ep.
        bindR (epoll_check_status env ep si) (\<lambda>(n, ep', si', cl).
          Inr (n, acc\<lparr>linker := Live ep'\<rparr>, si', cl)))
      else Inr (0, acc, si, []))"

definition accessor_clear :: "accessor \<Rightarrow> (int \<times> accessor) run" where
  "accessor_clear acc =
     (if link_mode acc = LINKER_EPOLL then
        bindR (deref (linker acc)) (\<lambda>ep.
          Inr (F1G_OK, acc\<lparr>linker := Live (ep\<lparr>event_num := 0, next_event := 0\<rparr>)\<rparr>))
      else Inr (F1G_OK, acc))"

text \<open>The outcome of \<^verbatim>\<open>epoll_wait\<close>: it fails, with \<^verbatim>\<open>EINTR\<close> or another error, or it stores
  events in the first cells of the array, at most as many as it is told there are.\<close>

datatype wait_result = Wait_fails bool | Ready "epoll_ev list"

definition accessor_detect :: "wait_result \<Rightarrow> accessor \<Rightarrow> (int \<times> accessor) run" where
  "accessor_detect w acc =
     (if link_mode acc = LINKER_EPOLL then
        bindR (deref (linker acc)) (\<lambda>ep.
          case w of
            Wait_fails eintr \<Rightarrow>
              Inr (if eintr then 0 else - 1, acc\<lparr>linker := Live (ep\<lparr>event_num := - 1, next_event := 0\<rparr>)\<rparr>)
          | Ready evs0 \<Rightarrow>
              let evs = take (nat (event_size ep)) evs0 in
              bindR (put (events ep) 0 evs) (\<lambda>m.
                Inr (int (length evs),
                     acc\<lparr>linker := Live (ep\<lparr>events := m, event_num := int (length evs), next_event := 0\<rparr>)\<rparr>)))
      else Inr (0, acc))"

section \<open>Setting up and tearing down\<close>

definition O_NONBLOCK :: int where
  "O_NONBLOCK = 2048"

text \<open>\<open>get\<close> is what \<^verbatim>\<open>F_GETFL\<close> gives, \<open>put_fl\<close> the result of \<^verbatim>\<open>F_SETFL\<close>.\<close>

definition set_sockfd_nonblk :: "int \<Rightarrow> (int \<Rightarrow> int) \<Rightarrow> int" where
  "set_sockfd_nonblk get put_fl =
     (if get < 0 then F1G_ERR else if put_fl (get OR O_NONBLOCK) < 0 then F1G_ERR else F1G_OK)"

text \<open>The environment of \<^verbatim>\<open>epoller_init\<close>, in the order of its calls; \<open>ei_addr\<close> is what the
  local address holds before it is cleared.\<close>

record init_env =
  ei_epoll :: "u32 option"
  ei_socket :: u32
  ei_get :: int
  ei_set :: "int \<Rightarrow> int"
  ei_mem1 :: bool
  ei_addr :: "u32 \<times> u16"
  ei_ctl :: bool
  ei_bind :: bool
  ei_listen :: bool
  ei_mem2 :: bool

definition no_event :: epoll_ev where
  "no_event = \<lparr>ev_hup = False, ev_err = False, ev_in = False, ev_out = False, ev_info = Null\<rparr>"

text \<open>The result: the code, the epoller and what is registered with the kernel. A failed
  \<^verbatim>\<open>epoll_create\<close> leaves -1 in \<^verbatim>\<open>accessor_id\<close>, a failed \<^verbatim>\<open>malloc\<close> a null array, here empty.\<close>

definition epoller_init :: "init_env \<Rightarrow> epoller \<Rightarrow> int \<times> epoller \<times> sock_info list" where
  "epoller_init env ep =
     (case ei_epoll env of
        None \<Rightarrow> (F1G_ERR, ep\<lparr>accessor_id := - 1\<rparr>, [])
      | Some d \<Rightarrow>
          let ep1 = ep\<lparr>accessor_id := d, listen_fd := ei_socket env\<rparr> in
          if set_sockfd_nonblk (ei_get env) (ei_set env) \<noteq> F1G_OK then (F1G_ERR, ep1, [])
          else if \<not> ei_mem1 env then (F1G_ERR, ep1, [])
          else
            let info = \<lparr>sfd = listen_fd ep1, src_ip = fst (ei_addr env), src_port = snd (ei_addr env), sock_status = 0\<rparr> in
            if \<not> ei_ctl env then (F1G_ERR, ep1, [])
            else if \<not> ei_bind env then (F1G_ERR, ep1, [info])
            else if \<not> ei_listen env then (F1G_ERR, ep1, [info])
            else if \<not> ei_mem2 env then (F1G_ERR, ep1\<lparr>event_size := 512, events := []\<rparr>, [info])
            else (F1G_OK, ep1\<lparr>event_size := 512, events := replicate 512 no_event, event_num := 0\<rparr>, [info]))"

text \<open>\<open>ep0\<close> is what the memory of a new \<^verbatim>\<open>epoller_t\<close> holds, \<open>None\<close> where \<^verbatim>\<open>malloc\<close> fails.\<close>

definition accessor_init ::
  "u8 alloc \<Rightarrow> u8 alloc \<Rightarrow> epoller option \<Rightarrow> init_env \<Rightarrow> accessor \<Rightarrow> int \<Rightarrow> int \<times> accessor \<times> sock_info list" where
  "accessor_init a1 a2 ep0 env acc link_type =
     (let acc1 = acc\<lparr>acc_rdbuf := snd (buffer_init a1 (acc_rdbuf acc) 1024),
                     acc_wrbuf := snd (buffer_init a2 (acc_wrbuf acc) 1024)\<rparr> in
      if link_type = LINKER_EPOLL then
        case ep0 of
          None \<Rightarrow> (F1G_ERR, acc1\<lparr>linker := Null, link_mode := LINKER_EPOLL\<rparr>, [])
        | Some e \<Rightarrow>
            let (r, ep, regs) = epoller_init env e in
            (if r \<noteq> F1G_OK then F1G_ERR else F1G_OK, acc1\<lparr>linker := Live ep, link_mode := LINKER_EPOLL\<rparr>, regs)
      else if link_type \<in> {LINKER_POLL, LINKER_SELECT, LINKER_PCAP, LINKER_USER_DEF} then (F1G_OK, acc1, [])
      else (F1G_ERR, acc1, []))"

definition accessor_create ::
  "bool \<Rightarrow> u8 alloc \<Rightarrow> u8 alloc \<Rightarrow> epoller option \<Rightarrow> init_env \<Rightarrow> int \<Rightarrow> accessor option \<times> sock_info list" where
  "accessor_create ok a1 a2 ep0 env link_type =
     (if \<not> ok then (None, [])
      else let (r, acc, regs) = accessor_init a1 a2 ep0 env
                 \<lparr>link_mode = 0, acc_rdbuf = zero_buffer, acc_wrbuf = zero_buffer, linker = Null\<rparr> link_type in
           (if r \<noteq> F1G_OK then None else Some acc, regs))"

definition accessor_destroy :: "accessor \<Rightarrow> (int \<times> accessor) run" where
  "accessor_destroy acc =
     bindR (buffer_destroy (Some (acc_rdbuf acc))) (\<lambda>(_, b1).
     bindR (buffer_destroy (Some (acc_wrbuf acc))) (\<lambda>(_, b2).
       Inr (F1G_OK, acc\<lparr>acc_rdbuf := the b1, acc_wrbuf := the b2\<rparr>)))"

text \<open>What \<^verbatim>\<open>sendto\<close> is given: address, port and data; its result is not looked at.\<close>

definition nonblk_sendto :: "u32 \<Rightarrow> u16 \<Rightarrow> buffer \<Rightarrow> (int \<times> (u32 \<times> u16 \<times> bytes)) run" where
  "nonblk_sendto ip port b =
     bindR (deref (buffer_data (Some b))) (\<lambda>m.
     bindR (slice m 0 (buffer_data_len (Some b))) (\<lambda>t.
       Inr (F1G_OK, (ip, port, t))))"

section \<open>Properties\<close>

text \<open>A run of arrivals that fit is gathered one behind the other.\<close>

lemma recv_loop_gather:
  assumes "[] \<notin> set xss" and "int (length q + length (concat xss)) < sz" and "length (concat xss) \<le> length r"
  shows "recv_loop sz (q @ r) (length q) st w (map Arrive xss @ evs)
    = recv_loop sz (q @ concat xss @ drop (length (concat xss)) r) (length q + length (concat xss))
        (if xss = [] then st else st OR RECV_OK) w evs"
  using assms
proof (induction xss arbitrary: q r st)
  case (Cons xs xss)
  have xs: "xs \<noteq> []" "take (nat (sz - int (length q))) xs = xs" "int (length q) < sz"
    using Cons.prems by auto
  have "recv_loop sz ((q @ xs) @ drop (length xs) r) (length (q @ xs)) (st OR RECV_OK) w (map Arrive xss @ evs)
      = recv_loop sz ((q @ xs) @ concat xss @ drop (length (concat xss)) (drop (length xs) r))
          (length (q @ xs) + length (concat xss)) (if xss = [] then st OR RECV_OK else (st OR RECV_OK) OR RECV_OK) w evs"
    using Cons.prems by (intro Cons.IH) auto
  then show ?case using xs Cons.prems(3) by (cases "xss = []") (simp_all add: Let_def ac_simps)
qed simp

lemma recv_loop_full:
  assumes "[] \<notin> set xss" and "int (length q) \<le> sz" and "sz \<le> int (length q + length (concat xss))"
    and "sz = int (length (q @ r))"
  shows "\<exists>m st'. recv_loop sz (q @ r) (length q) st w (map Arrive xss @ evs) = Inr (Some (m, nat sz, st'))
    \<and> length m = nat sz"
  using assms
proof (induction xss arbitrary: q r st)
  case Nil
  then show ?case by (cases evs) auto
next
  case (Cons xs xss)
  show ?case
  proof (cases "int (length q) < sz")
    case False
    then show ?thesis using Cons.prems by auto
  next
    case True
    let ?ys = "take (nat (sz - int (length q))) xs"
    have ys: "?ys \<noteq> []" "length ?ys \<le> length r" using True Cons.prems(1,4) by auto
    have "\<exists>m st'. recv_loop sz ((q @ ?ys) @ drop (length ?ys) r) (length (q @ ?ys)) (st OR RECV_OK) w (map Arrive xss @ evs)
        = Inr (Some (m, nat sz, st')) \<and> length m = nat sz"
      using Cons.prems ys True by (intro Cons.IH) auto
    then show ?thesis using True ys by (simp add: Let_def)
  qed
qed

lemma recv_flags:
  "RECV_INIT = 0" "(RECV_OK AND RECV_ERR) AND NOT RECV_OK = 0" "(0 AND RECV_ERR) AND NOT RECV_OK = 0"
  by (simp_all add: RECV_INIT_def RECV_OK_def RECV_ERR_def)

lemma recv_ends:
  assumes "int len < sz"
  shows "(en, st) \<in> {([Again, Again, Again], RECV_OK OR RECV_TIMEOUT), ([Closed], RECV_OK OR RECV_DISC), ([Fails], 0)} \<Longrightarrow>
    recv_loop sz m len RECV_OK 0 en = Inr (Some (m, len, st))"
  using assms recv_flags(2) by (elim insertE emptyE) simp_all

lemma recv_fits:
  assumes "buf_wf b" and "[] \<notin> set xss"
    and t: "(en, st) \<in> {([Again, Again, Again], RECV_OK OR RECV_TIMEOUT), ([Closed], RECV_OK OR RECV_DISC), ([Fails], 0)}"
    and "xs = concat xss" and "xs \<noteq> []" and lt: "int (length xs) < bsize b"
  shows "\<exists>b'. nonblk_recvfrom (map Arrive xss @ en) b = Inr (Some (b', st)) \<and> buf_wf b' \<and> buf_text b' = xs
    \<and> bsize b' = bsize b
    \<and> (\<exists>m. bbuf b' = Live m \<and> m ! length xs = 0)"
proof -
  obtain m where m: "bbuf b = Live m" "length m = nat (bsize b)"
    using assms(1) by (auto simp: buf_wf_def)
  have "drop (length xs) m \<noteq> []" using m(2) lt by simp
  then obtain y ys where y: "drop (length xs) m = y # ys" by (cases "drop (length xs) m") simp_all
  have ly: "length xs + Suc (length ys) = nat (bsize b)"
    using arg_cong [OF y, of length] m(2) lt by simp
  have ne: "xss \<noteq> []" using assms(4,5) by auto
  have lc: "length (concat xss) = length xs" by (simp only: assms(4))
  have "recv_loop (bsize b) ([] @ m) (length ([] :: bytes)) RECV_INIT 0 (map Arrive xss @ en)
      = recv_loop (bsize b) ([] @ concat xss @ drop (length (concat xss)) m) (length ([] :: bytes) + length (concat xss))
          (if xss = [] then RECV_INIT else RECV_INIT OR RECV_OK) 0 en"
    by (rule recv_loop_gather) (use assms(2) lt ly m(2) lc in \<open>simp_all only: append_Nil, simp_all\<close>)
  also have "\<dots> = recv_loop (bsize b) (xs @ y # ys) (length xs) RECV_OK 0 en"
    unfolding lc y assms(4) [symmetric] by (simp only: ne if_False append_Nil list.size add_0 recv_flags(1) or.left_neutral)
  also have "\<dots> = Inr (Some (xs @ y # ys, length xs, st))"
    by (rule recv_ends [OF lt t])
  finally have r: "recv_loop (bsize b) m 0 RECV_INIT 0 (map Arrive xss @ en) = Inr (Some (xs @ y # ys, length xs, st))"
    by simp
  have w: "wr (xs @ y # ys) (length xs) (0::u8) = Inr (xs @ 0 # ys)" by (simp add: wr_def list_update_append)
  define m' where "m' = xs @ (0 :: u8) # ys"
  define b' where "b' = b\<lparr>blen := int (length xs), bbuf := Live m'\<rparr>"
  have 1: "nonblk_recvfrom (map Arrive xss @ en) b = Inr (Some (b', st))"
    unfolding nonblk_recvfrom_def m(1) b'_def m'_def using lt by (simp add: r w)
  have 2: "buf_wf b'"
    unfolding buf_wf_def b'_def m'_def using lt ly by simp
  have 3: "buf_text b' = xs" "bbuf b' = Live m'" "m' ! length xs = 0" "bsize b' = bsize b"
    unfolding b'_def m'_def by (simp_all add: buf_text_def)
  show ?thesis by (intro exI conjI) (rule 1 2 3)+
qed

lemma recv_overrun:
  assumes "buf_wf b" and "[] \<notin> set xss" and "xs = concat xss" and "bsize b \<le> int (length xs)"
  shows "nonblk_recvfrom (map Arrive xss @ evs) b = Inl OutOfBounds"
proof -
  obtain m where m: "bbuf b = Live m" "length m = nat (bsize b)" "0 \<le> bsize b"
    using assms(1) by (auto simp: buf_wf_def)
  have l: "bsize b \<le> int (length (concat xss))" using assms(4) unfolding assms(3) .
  have "\<exists>m' st'. recv_loop (bsize b) ([] @ m) (length ([] :: bytes)) RECV_INIT 0 (map Arrive xss @ evs)
      = Inr (Some (m', nat (bsize b), st')) \<and> length m' = nat (bsize b)"
    by (rule recv_loop_full) (use assms(2) l m(2,3) in simp_all)
  then obtain m' st' where r: "recv_loop (bsize b) m 0 RECV_INIT 0 (map Arrive xss @ evs) = Inr (Some (m', nat (bsize b), st'))"
    and n: "length m' = nat (bsize b)"
    by (simp only: append_Nil list.size) blast
  have "wr m' (nat (bsize b)) (0::u8) = Inl OutOfBounds" using n by (simp only: wr_def less_irrefl if_False)
  then show ?thesis unfolding nonblk_recvfrom_def m(1) by (simp only: r deref.simps bindR_simps option.case prod.case)
qed

text \<open>What a receive into a well-formed buffer leaves, by what arrives (in any pieces) and how it ends: bytes that
  leave a byte of the buffer free are gathered in order and terminated; a timeout and a closed connection are
  recorded beside \<^verbatim>\<open>RECV_OK\<close>; an error wipes the status, its own flag and that of the bytes
  received included; and bytes that fill the buffer make the terminator fall one byte past it.\<close>

theorem nonblk_recvfrom_cases:
  assumes "buf_wf b" and "[] \<notin> set xss" and "xs = concat xss" and "xs \<noteq> []"
  shows "(int (length xs) < bsize b \<longrightarrow>
      (\<forall>en st. (en, st) \<in> {([Again, Again, Again], RECV_OK OR RECV_TIMEOUT), ([Closed], RECV_OK OR RECV_DISC), ([Fails], 0)} \<longrightarrow>
         (\<exists>b'. nonblk_recvfrom (map Arrive xss @ en) b = Inr (Some (b', st)) \<and> buf_wf b' \<and> buf_text b' = xs
           \<and> (\<exists>m. bbuf b' = Live m \<and> m ! length xs = 0))))
    \<and> (int (length xs) \<ge> bsize b \<longrightarrow> nonblk_recvfrom (map Arrive xss @ evs) b = Inl OutOfBounds)"
  using recv_fits [OF assms(1,2), of _ _ xs] recv_overrun [OF assms(1,2), of xs evs] assms(3,4) by blast

lemma nonblk_recvfrom_cases_witness:
  "(\<exists>b'. nonblk_recvfrom [Arrive [1], Arrive [2], Fails] \<lparr>bflag = 0, bsize = 3, blen = 0, bbuf = Live [9, 9, 9]\<rparr>
      = Inr (Some (b', 0)) \<and> buf_text b' = [1, 2])
   \<and> nonblk_recvfrom [Arrive [1, 2], Arrive [3]] \<lparr>bflag = 0, bsize = 3, blen = 0, bbuf = Live [9, 9, 9]\<rparr> = Inl OutOfBounds"
proof -
  let ?b = "\<lparr>bflag = 0, bsize = 3, blen = 0, bbuf = Live [9, 9, 9]\<rparr>"
  have w: "buf_wf ?b" by (simp add: buf_wf_def)
  have "\<exists>b'. nonblk_recvfrom (map Arrive [[1], [2]] @ [Fails]) ?b = Inr (Some (b', 0)) \<and> buf_text b' = [1, 2]"
    using nonblk_recvfrom_cases [OF w, of "[[1], [2]]" "[1, 2]" "[]"] by auto
  moreover have "nonblk_recvfrom (map Arrive [[1, 2], [3]] @ []) ?b = Inl OutOfBounds"
    using nonblk_recvfrom_cases [OF w, of "[[1, 2], [3]]" "[1, 2, 3]" "[]"] by auto
  ultimately show ?thesis by simp
qed

text \<open>The events of one \<^verbatim>\<open>epoll_wait\<close>, handed out until the call returns 0, as \<^verbatim>\<open>access_cb_dft\<close>
  does: \<open>envs k\<close> is the environment of the call for event \<open>k\<close>, \<open>fuel\<close> bounds the calls. The result is
  the epoller and what was handed out.\<close>

fun hand_out :: "(nat \<Rightarrow> check_env) \<Rightarrow> epoller \<Rightarrow> sock_info \<Rightarrow> nat \<Rightarrow> (epoller \<times> sock_info list) run" where
  "hand_out envs ep si 0 = Inr (ep, [])"
| "hand_out envs ep si (Suc fuel) =
     bindR (epoll_check_status (envs (next_event ep)) ep si) (\<lambda>(n, ep', si', cl).
       if n = 0 then Inr (ep', [])
       else bindR (hand_out envs ep' si' fuel) (\<lambda>(ep'', rest). Inr (ep'', si' # rest)))"

definition plain_in :: "sock_info \<Rightarrow> epoll_ev" where
  "plain_in info = \<lparr>ev_hup = False, ev_err = False, ev_in = True, ev_out = False, ev_info = Live info\<rparr>"

lemma epoll_check_plain:
  assumes "int (next_event ep) < event_num ep" and "next_event ep < length (events ep)"
    and "events ep ! next_event ep = plain_in i" and "sfd i \<noteq> listen_fd ep"
  shows "epoll_check_status env ep si
    = Inr (int (next_event ep + 1), ep\<lparr>next_event := next_event ep + 1\<rparr>, i\<lparr>sock_status := SST_DATA_IN\<rparr>, [])"
  using assms by (simp add: epoll_check_status_def plain_in_def Let_def pass_event_def)

lemma hand_out_plain:
  assumes "take k (drop (next_event ep) (events ep)) = map plain_in infos"
    and "length infos = k" and "\<forall>i\<in>set infos. sfd i \<noteq> listen_fd ep" and "next_event ep + k \<le> nat (event_num ep)"
  shows "hand_out envs ep si (k + fuel) = bindR (hand_out envs (ep\<lparr>next_event := next_event ep + k\<rparr>)
      (if infos = [] then si else (last infos)\<lparr>sock_status := SST_DATA_IN\<rparr>) fuel)
      (\<lambda>(ep', rest). Inr (ep', map (\<lambda>i. i\<lparr>sock_status := SST_DATA_IN\<rparr>) infos @ rest))"
  using assms
proof (induction infos arbitrary: ep si k)
  case Nil
  then show ?case by (simp add: bindR_return split_def)
next
  case (Cons i infos)
  obtain j where k: "k = Suc j" using Cons.prems(2) by auto
  have l: "next_event ep < length (events ep)"
    using arg_cong [OF Cons.prems(1), of length] k by simp
  then have d: "drop (next_event ep) (events ep) = events ep ! next_event ep # drop (Suc (next_event ep)) (events ep)"
    by (simp add: Cons_nth_drop_Suc)
  have e: "events ep ! next_event ep = plain_in i"
    "take j (drop (Suc (next_event ep)) (events ep)) = map plain_in infos"
    using Cons.prems(1) unfolding d k by simp_all
  have n: "int (next_event ep) < event_num ep" using Cons.prems(4) k by linarith
  let ?si = "i\<lparr>sock_status := SST_DATA_IN\<rparr>" and ?ep = "ep\<lparr>next_event := next_event ep + 1\<rparr>"
  have c: "epoll_check_status env ep si = Inr (int (next_event ep + 1), ?ep, ?si, [])" for env
    using n l e(1) Cons.prems(3) by (intro epoll_check_plain) simp_all
  have "hand_out envs ?ep ?si (j + fuel) = bindR (hand_out envs (?ep\<lparr>next_event := next_event ?ep + j\<rparr>)
      (if infos = [] then ?si else (last infos)\<lparr>sock_status := SST_DATA_IN\<rparr>) fuel)
      (\<lambda>(ep', rest). Inr (ep', map (\<lambda>i. i\<lparr>sock_status := SST_DATA_IN\<rparr>) infos @ rest))"
    using Cons.prems e(2) k by (intro Cons.IH) auto
  then show ?case by (simp add: k c bindR_assoc split_def)
qed

text \<open>Handing out the events of one wait: the events that only announce data are passed on in order, but an event
  that reports a hang-up and an error ends the round: its descriptor is closed by the first, the second
  removal of it fails as removing a closed descriptor does, and the events behind it are dropped.\<close>

theorem accessor_events_dropped:
  assumes "events ep = map plain_in before @ bad # after" and "next_event ep = 0"
    and "event_num ep = int (length (events ep))" and "ev_info bad = Live i"
    and "ev_hup bad" and "ev_err bad" and "\<forall>i\<in>set (i # before). sfd i \<noteq> listen_fd ep"
    and "ctl1 (envs (length before))" and "\<not> ctl2 (envs (length before))" and "length (events ep) \<le> fuel"
  shows "\<exists>ep'. hand_out envs ep si fuel = Inr (ep', map (\<lambda>i. i\<lparr>sock_status := SST_DATA_IN\<rparr>) before)
    \<and> next_event ep' = length before"
proof -
  let ?k = "length before" and ?ep = "ep\<lparr>next_event := length before\<rparr>"
  have "?k < fuel" using assms(1,10) by simp
  then obtain f where f: "fuel = ?k + Suc f" using less_imp_Suc_add by auto
  have "epoll_check_status (envs ?k) ?ep s = Inr (0, free_info (free_info ?ep), i\<lparr>sock_status := SST_ERR\<rparr>, [sfd i])" for s
    using assms(1,3-9) by (simp add: epoll_check_status_def Let_def nth_append)
  then have "hand_out envs ?ep s (Suc f) = Inr (free_info (free_info ?ep), [])" for s by simp
  then show ?thesis
    using hand_out_plain [of ?k ep before envs si "Suc f"] assms(1-3,7) f by (simp add: free_info_def)
qed

definition zero_info :: sock_info where
  "zero_info = \<lparr>sfd = 0, src_ip = 0, src_port = 0, sock_status = 0\<rparr>"

lemma accessor_events_dropped_witness:
  "\<exists>ep'. hand_out (\<lambda>_. \<lparr>accepted_conn = None, mem_ok = True, ctl1 = True, ctl2 = False\<rparr>)
     \<lparr>accessor_id = 4, listen_fd = 3, event_size = 512, event_num = 3, next_event = 0, events =
        [plain_in \<lparr>sfd = 5, src_ip = 1, src_port = 1, sock_status = 0\<rparr>,
         \<lparr>ev_hup = True, ev_err = True, ev_in = True, ev_out = False, ev_info = Live \<lparr>sfd = 6, src_ip = 1, src_port = 1, sock_status = 0\<rparr>\<rparr>,
         plain_in \<lparr>sfd = 7, src_ip = 1, src_port = 1, sock_status = 0\<rparr>]\<rparr>
     zero_info 9 = Inr (ep', [\<lparr>sfd = 5, src_ip = 1, src_port = 1, sock_status = SST_DATA_IN\<rparr>]) \<and> next_event ep' = 1"
  (is "\<exists>ep'. hand_out ?envs ?ep zero_info 9 = _ \<and> _")
  using accessor_events_dropped [of ?ep "[\<lparr>sfd = 5, src_ip = 1, src_port = 1, sock_status = 0\<rparr>]"
      "\<lparr>ev_hup = True, ev_err = True, ev_in = True, ev_out = False, ev_info = Live \<lparr>sfd = 6, src_ip = 1, src_port = 1, sock_status = 0\<rparr>\<rparr>"
      "[plain_in \<lparr>sfd = 7, src_ip = 1, src_port = 1, sock_status = 0\<rparr>]"
      "\<lparr>sfd = 6, src_ip = 1, src_port = 1, sock_status = 0\<rparr>" ?envs 9 zero_info]
  by simp

end
