(* ===== verification/Server.thy ===== *)
theory Server
  imports Queue Accessor Net_Forge
begin

text \<open>
  The server of \<^verbatim>\<open>src/f1g_server.c\<close>: the access thread turns socket events into entries of
  the workers' queues, a worker thread takes the entries of its queue, receives, processes and answers.
  Each body of a thread's endless loop is one function here; how the two threads interleave on a
  queue is the subject of the theory on its steps.
\<close>

unbundle bit_operations_syntax

section \<open>The entries of a queue\<close>

text \<open>A \<^verbatim>\<open>sock_info_t\<close> as it lies in memory, and read back through a cast of the data pointer.\<close>

definition sock_bytes :: "sock_info \<Rightarrow> bytes" where
  "sock_bytes si = le32 (sfd si) @ le32 (src_ip si) @ le16 (src_port si) @ le16 (sock_status si)"

definition word16 :: "bytes \<Rightarrow> nat \<Rightarrow> u16" where
  "word16 d k = ucast (d ! k) OR push_bit 8 (ucast (d ! (k + 1)))"

definition word32 :: "bytes \<Rightarrow> nat \<Rightarrow> u32" where
  "word32 d k = ucast (d ! k) OR push_bit 8 (ucast (d ! (k + 1))) OR push_bit 16 (ucast (d ! (k + 2)))
     OR push_bit 24 (ucast (d ! (k + 3)))"

definition sock_of :: "bytes \<Rightarrow> sock_info run" where
  "sock_of d =
     assertR (12 \<le> length d) OutOfBounds
       (Inr \<lparr>sfd = word32 d 0, src_ip = word32 d 4, src_port = word16 d 8, sock_status = word16 d 10\<rparr>)"

section \<open>The access thread\<close>

text \<open>The characters of the key are signed.\<close>

fun dig_hash :: "u32 \<Rightarrow> bytes \<Rightarrow> u32" where
  "dig_hash v [] = v"
| "dig_hash v (c # cs) = dig_hash (push_bit 5 v + scast c) cs"

text \<open>The hash is unsigned, so \<open>que_num\<close> is converted for the remainder, and the result back.\<close>

definition sel_que_by_ip :: "u32 \<Rightarrow> int \<Rightarrow> int run" where
  "sel_que_by_ip ip que_num =
     assertR ((word_of_int que_num :: u32) \<noteq> 0) DivByZero
       (Inr (sint (dig_hash 0 (le32 ip) mod word_of_int que_num)))"

definition stage :: "sock_info \<Rightarrow> que_obj \<Rightarrow> que_obj run" where
  "stage si q =
     bindR (cell_at q (que_obj_next_freeblk q)) (\<lambda>e.
     bindR (put (edata e) 0 (sock_bytes si)) (\<lambda>d.
       set_cell q (que_obj_next_freeblk q) (e\<lparr>edata := d, edata_len := 12\<rparr>)))"

definition access_put :: "sock_info \<Rightarrow> int \<Rightarrow> que_obj list \<Rightarrow> que_obj list run" where
  "access_put si que_num qs =
     bindR (sel_que_by_ip (src_ip si) que_num) (\<lambda>k.
     bindR (if k < 0 then Inl OutOfBounds else rd qs (nat k)) (\<lambda>q.
     bindR (stage si q) (\<lambda>q1.
     bindR (que_obj_move_next q1) (\<lambda>(_, q2).
       Inr (qs[nat k := q2])))))"

text \<open>Every event handed out is a step towards the end of the array, so the loop ends.\<close>

lemma epoll_check_status_next:
  assumes "epoll_check_status env ep si = Inr (n, ep', si', cl)" and "n \<noteq> 0"
  shows "int (next_event ep) < event_num ep \<and> next_event ep' = Suc (next_event ep) \<and> event_num ep' = event_num ep"
proof -
  have lt: "int (next_event ep) < event_num ep"
    using assms by (auto simp: epoll_check_status_def split: if_splits)
  obtain e info where e: "rd (events ep) (next_event ep) = Inr e" "deref (ev_info e) = Inr info"
    using assms(1) lt by (auto simp: epoll_check_status_def bindR_def split: sum.splits)
  show ?thesis
    using assms lt e
    by (simp add: epoll_check_status_def Let_def pass_event_def free_info_def split: if_splits option.splits)
      (auto split: if_splits)
qed

definition acc_left :: "accessor \<Rightarrow> nat" where
  "acc_left acc = (case linker acc of Live ep \<Rightarrow> nat (event_num ep) - next_event ep | _ \<Rightarrow> 0)"

lemma acc_left_decreases:
  assumes "accessor_check_status env acc si = Inr (n, acc', si', cl)" and "n \<noteq> 0"
  shows "acc_left acc' < acc_left acc"
proof -
  obtain ep ep' where "linker acc = Live ep" "epoll_check_status env ep si = Inr (n, ep', si', cl)"
      "acc' = acc\<lparr>linker := Live ep'\<rparr>"
    using assms by (auto simp: accessor_check_status_def bindR_def split: if_splits sum.splits)
  moreover from this have "int (next_event ep) < event_num ep" "next_event ep' = Suc (next_event ep)"
      "event_num ep' = event_num ep"
    using epoll_check_status_next assms(2) by blast+
  ultimately show ?thesis by (simp add: acc_left_def)
qed

text \<open>\<^verbatim>\<open>while (accessor_check_status(accessor, &sock_info))\<close>: \<open>si\<close> is the local
  \<^verbatim>\<open>sock_info\<close>, kept from call to call; \<open>envs k\<close> is the environment of the call with \<open>k\<close> events left.\<close>

function access_round ::
  "(nat \<Rightarrow> check_env) \<Rightarrow> int \<Rightarrow> accessor \<Rightarrow> sock_info \<Rightarrow> que_obj list \<Rightarrow> (accessor \<times> sock_info \<times> que_obj list) run" where
  "access_round envs que_num acc si qs =
     bindR (accessor_check_status (envs (acc_left acc)) acc si) (\<lambda>(n, acc', si', cl).
       if n \<noteq> 0 then bindR (access_put si' que_num qs) (\<lambda>qs'. access_round envs que_num acc' si' qs')
       else Inr (acc', si', qs))"
  by pat_completeness auto
termination
  by (relation "measure (\<lambda>(envs, que_num, acc, si, qs). acc_left acc)") (auto dest: acc_left_decreases)

declare access_round.simps [simp del]

text \<open>One iteration of the endless loop of \<^verbatim>\<open>access_cb_dft\<close>.\<close>

definition access_iter ::
  "wait_result \<Rightarrow> (nat \<Rightarrow> check_env) \<Rightarrow> int \<Rightarrow> accessor \<Rightarrow> sock_info \<Rightarrow> que_obj list \<Rightarrow> (accessor \<times> sock_info \<times> que_obj list) run" where
  "access_iter w envs que_num acc si qs =
     bindR (accessor_detect w acc) (\<lambda>(n, acc1).
       if n = 0 then Inr (acc1, si, qs)
       else bindR (access_round envs que_num acc1 si qs) (\<lambda>(acc2, si2, qs2).
            bindR (accessor_clear acc2) (\<lambda>(_, acc3). Inr (acc3, si2, qs2))))"

section \<open>The worker thread\<close>

definition PROC_ST_INIT :: int where "PROC_ST_INIT = 0"
definition PROC_ST_BRKOUT :: int where "PROC_ST_BRKOUT = 1"
definition PROC_ST_SENDBUF :: int where "PROC_ST_SENDBUF = 2"
definition PROC_ST_ERR :: int where "PROC_ST_ERR = 3"

text \<open>A data processor: from the context, the read and the write buffer and \<open>*proc_st\<close> to its result,
  the buffers and \<open>*proc_st\<close>.\<close>

type_synonym fproc = "bytes ptr \<Rightarrow> buffer \<Rightarrow> buffer \<Rightarrow> int \<Rightarrow> (int \<times> buffer \<times> buffer \<times> int) run"

record worker =
  w_main :: nat
  w_proc :: fproc
  w_ctx :: "bytes ptr"
  w_clean :: bool
  w_que :: que_obj
  rdbuf :: buffer
  wrbuf :: buffer

definition response :: bytes where
  "response = [0x0A, 0x09] @ lit '' so it'' @ [0x27] @ lit ''s my response''"

text \<open>The data pointer of a buffer as an argument.\<close>

fun ptr_arg :: "bytes ptr \<Rightarrow> bytes option run" where
  "ptr_arg Null = Inr None"
| "ptr_arg (Live m) = Inr (Some m)"
| "ptr_arg Dangling = Inl UseAfterFree"

definition worker_data_fproc_dft :: fproc where
  "worker_data_fproc_dft ctx rdb wrb proc_st =
     bindR (ptr_arg (buffer_data (Some rdb))) (\<lambda>d.
     bindR (buffer_append (Some wrb) d (buffer_data_len (Some rdb))) (\<lambda>(_, b1).
     bindR (buffer_append b1 (Some response) (int (length response))) (\<lambda>(_, b2).
       Inr (F1G_OK, rdb, the b2, PROC_ST_SENDBUF))))"

text \<open>The local variables of \<^verbatim>\<open>worker_cb_dft\<close> that live on from one iteration to the next.\<close>

record worker_locals =
  r_flag :: bool
  recv_stat :: u32
  proc_stat :: int

text \<open>What a thread does to its sockets.\<close>

datatype sock_act = Send u32 u32 u16 bytes | Close u32

text \<open>The branch of \<^verbatim>\<open>SST_DATA_IN\<close>. The boolean of the result tells that the loop is left by
  \<^verbatim>\<open>break\<close>; \<open>None\<close>: the script of \<^verbatim>\<open>recvfrom\<close> outcomes ends in the call.\<close>

definition worker_receive ::
  "recv_event list \<Rightarrow> sock_info \<Rightarrow> worker \<Rightarrow> worker_locals \<Rightarrow> (bool \<times> worker \<times> worker_locals \<times> sock_act list) option run" where
  "worker_receive evs si w l =
     bindR (buffer_clear (Some (rdbuf w))) (\<lambda>(_, rb).
     bindR (nonblk_recvfrom evs (the rb)) (\<lambda>r.
       case r of
         None \<Rightarrow> Inr None
       | Some (rb', st) \<Rightarrow>
           bindR (buffer_clear (Some (wrbuf w))) (\<lambda>(_, wb).
           let w1 = w\<lparr>rdbuf := rb', wrbuf := the wb\<rparr>; l1 = l\<lparr>recv_stat := st\<rparr> in
           bindR (if st AND RECV_OK \<noteq> 0 \<and> buffer_data_len (Some (rdbuf w1)) > 0
                  then bindR (w_proc w1 (w_ctx w1) (rdbuf w1) (wrbuf w1) (proc_stat l1)) (\<lambda>(r, rb2, wb2, ps).
                         Inr (r, w1\<lparr>rdbuf := rb2, wrbuf := wb2\<rparr>, l1\<lparr>proc_stat := ps\<rparr>))
                  else Inr (0, w1, l1)) (\<lambda>(r, w2, l2).
             if r \<noteq> 0 then Inr (Some (True, w2, l2, []))
             else Inr (Some (False, w2, l2, if st AND RECV_DISC \<noteq> 0 then [Close (sfd si)] else []))))))"

definition worker_respond ::
  "sock_info \<Rightarrow> worker \<Rightarrow> worker_locals \<Rightarrow> (worker_locals \<times> sock_act list) run" where
  "worker_respond si w l =
     (if proc_stat l = PROC_ST_BRKOUT then Inr (l\<lparr>r_flag := False\<rparr>, [])
      else if proc_stat l = PROC_ST_SENDBUF then
        bindR (nonblk_sendto (src_ip si) (src_port si) (wrbuf w)) (\<lambda>(_, ip, port, t).
          Inr (l, [Send (sfd si) ip port t]))
      else Inr (l, []))"

text \<open>One iteration of the loop of \<^verbatim>\<open>worker_cb_dft\<close>. An empty queue is waited for.\<close>

definition worker_iter ::
  "recv_event list \<Rightarrow> worker \<Rightarrow> worker_locals \<Rightarrow> (bool \<times> worker \<times> worker_locals \<times> sock_act list) option run" where
  "worker_iter evs w l =
     (if que_obj_empty (w_que w) then Inr (Some (False, w, l, []))
      else
        bindR (cell_at (w_que w) (front (w_que w))) (\<lambda>e.
        bindR (sock_of (edata e)) (\<lambda>si.
        bindR (if sock_status si = SST_DATA_IN then worker_receive evs si w l
               else Inr (Some (False, w, l, []))) (\<lambda>r.
          case r of
            None \<Rightarrow> Inr None
          | Some (brk, w1, l1, acts) \<Rightarrow>
              if brk then Inr (Some (True, w1, l1, acts))
              else
                bindR (worker_respond si w1 l1) (\<lambda>(l2, acts2).
                bindR (que_obj_pop (w_que w1)) (\<lambda>(_, q).
                  Inr (Some (\<not> r_flag l2, w1\<lparr>w_que := q\<rparr>, l2, acts @ acts2))))))))"

section \<open>The server object\<close>

record server_conf =
  work_mode :: int
  worker_num_cfg :: int
  que_mode :: int
  que_size :: int
  que_capacity :: int
  serv_type :: int
  serv_win :: bytes
  access_mode :: int

record access =
  acc_main :: "nat option"
  acc_ctx :: "bytes ptr"
  acc_clean :: bool
  acc_accessor :: accessor
  acc_que_num :: int

text \<open>A queue is shared by the access thread and its worker: it is kept once, with the worker, and entry
  \<open>i\<close> of \<^verbatim>\<open>p_ques\<close> is the queue of worker \<open>i\<close>.\<close>

record serv_object =
  worker_num :: int
  p_workers :: "worker list"
  p_access :: access

definition WORKER_CB_DFT :: nat where
  "WORKER_CB_DFT = 0"

definition ACCESS_CB_DFT :: nat where
  "ACCESS_CB_DFT = 0"

text \<open>The outcomes of the allocations of \<^verbatim>\<open>serv_create\<close>, in its order.\<close>

record create_env =
  ce_obj :: bool
  ce_access :: bool
  ce_workers :: bool
  ce_ques :: bool
  ce_que :: "nat \<Rightarrow> bool \<times> cell_alloc"
  ce_rd :: "nat \<Rightarrow> u8 alloc"
  ce_wr :: "nat \<Rightarrow> u8 alloc"
  ce_accessor :: "u8 alloc \<times> u8 alloc \<times> epoller option \<times> init_env"

fun make_workers :: "create_env \<Rightarrow> server_conf \<Rightarrow> nat list \<Rightarrow> worker list option" where
  "make_workers env conf [] = Some []"
| "make_workers env conf (i # is) =
     (case que_obj_create (fst (ce_que env i)) (snd (ce_que env i)) (que_size conf) (que_capacity conf) of
        None \<Rightarrow> None
      | Some q \<Rightarrow>
          map_option ((#) \<lparr>w_main = WORKER_CB_DFT, w_proc = worker_data_fproc_dft, w_ctx = Null, w_clean = False, w_que = q,
              rdbuf = snd (buffer_init (ce_rd env i) zero_buffer 2048),
              wrbuf = snd (buffer_init (ce_wr env i) zero_buffer 2048)\<rparr>)
            (make_workers env conf is))"

definition serv_create :: "create_env \<Rightarrow> server_conf \<Rightarrow> serv_object option" where
  "serv_create env conf =
     (if \<not> ce_obj env \<or> \<not> ce_access env \<or> \<not> ce_workers env \<or> worker_num_cfg conf < 0 \<or> \<not> ce_ques env then None
      else
        case make_workers env conf [0..<nat (worker_num_cfg conf)] of
          None \<Rightarrow> None
        | Some ws \<Rightarrow>
            let (a1, a2, ep, ienv) = ce_accessor env;
                (r, acc, regs) = accessor_init a1 a2 ep ienv
                  \<lparr>link_mode = 0, acc_rdbuf = zero_buffer, acc_wrbuf = zero_buffer, linker = Null\<rparr> LINKER_EPOLL in
            if r \<noteq> F1G_OK then None
            else Some \<lparr>worker_num = worker_num_cfg conf, p_workers = ws,
                       p_access = \<lparr>acc_main = None, acc_ctx = Null, acc_clean = False, acc_accessor = acc,
                                   acc_que_num = worker_num_cfg conf\<rparr>\<rparr>)"

definition serv_set_access_cb :: "serv_object \<Rightarrow> int \<times> serv_object" where
  "serv_set_access_cb obj = (F1G_OK, obj)"

text \<open>The context of a worker is a new block of \<open>ctx_size\<close> bytes, \<open>ctxs i\<close> the outcome of its
  allocation; nothing is copied into it from \<^verbatim>\<open>p_ctx\<close>, of which only its being given matters.\<close>

fun set_work_cb ::
  "(nat \<Rightarrow> u8 alloc) \<Rightarrow> nat option \<Rightarrow> fproc option \<Rightarrow> bool \<Rightarrow> int \<Rightarrow> bool \<Rightarrow> nat \<Rightarrow> worker list \<Rightarrow> int \<times> worker list" where
  "set_work_cb ctxs mf pf has_ctx ctx_size clean i [] = (F1G_OK, [])"
| "set_work_cb ctxs mf pf has_ctx ctx_size clean i (w # ws) =
     (let w1 = w\<lparr>w_main := (case mf of Some f \<Rightarrow> f | None \<Rightarrow> w_main w),
                w_proc := (case pf of Some f \<Rightarrow> f | None \<Rightarrow> w_proc w)\<rparr>;
          rest = (\<lambda>w'. let (r, ws') = set_work_cb ctxs mf pf has_ctx ctx_size clean (Suc i) ws in (r, w' # ws')) in
      if \<not> has_ctx \<or> ctx_size \<le> 0 then rest w1
      else case malloc (ctxs i) ctx_size of
             Live m \<Rightarrow> rest (w1\<lparr>w_ctx := Live m, w_clean := clean\<rparr>)
           | _ \<Rightarrow> (F1G_ERR, w1 # ws))"

definition serv_set_work_cb ::
  "(nat \<Rightarrow> u8 alloc) \<Rightarrow> serv_object \<Rightarrow> nat option \<Rightarrow> fproc option \<Rightarrow> bool \<Rightarrow> int \<Rightarrow> bool \<Rightarrow> int \<times> serv_object" where
  "serv_set_work_cb ctxs obj mf pf has_ctx ctx_size clean =
     (let (r, ws) = set_work_cb ctxs mf pf has_ctx ctx_size clean 0 (p_workers obj) in (r, obj\<lparr>p_workers := ws\<rparr>))"

text \<open>The threads started: the main function of each worker and of the access thread; \<open>oks\<close> are the
  outcomes of the successive \<^verbatim>\<open>pthread_create\<close> calls.\<close>

datatype thread = Worker_thread nat nat | Access_thread nat

fun start_workers :: "(nat \<Rightarrow> bool) \<Rightarrow> nat \<Rightarrow> worker list \<Rightarrow> bool \<times> thread list" where
  "start_workers oks i [] = (True, [])"
| "start_workers oks i (w # ws) =
     (if oks i then let (r, ts) = start_workers oks (Suc i) ws in (r, Worker_thread i (w_main w) # ts) else (False, []))"

definition serv_run :: "(nat \<Rightarrow> bool) \<Rightarrow> serv_object \<Rightarrow> int \<times> thread list" where
  "serv_run oks obj =
     (let (ok, ts) = start_workers oks 0 (p_workers obj) in
      if \<not> ok then (F1G_ERR, ts)
      else if \<not> oks (length (p_workers obj)) then (F1G_ERR, ts)
      else (F1G_OK, ts @ [Access_thread (case acc_main (p_access obj) of Some f \<Rightarrow> f | None \<Rightarrow> ACCESS_CB_DFT)]))"

text \<open>The contexts given to their clean-up function and freed.\<close>

definition clean_ctx :: "bytes ptr \<Rightarrow> bool \<Rightarrow> bytes list run" where
  "clean_ctx c clean =
     (if c \<noteq> Null \<and> clean then bindR (deref c) (\<lambda>m. Inr [m]) else Inr [])"

fun clean_workers :: "worker list \<Rightarrow> bytes list run" where
  "clean_workers [] = Inr []"
| "clean_workers (w # ws) =
     bindR (clean_ctx (w_ctx w) (w_clean w)) (\<lambda>a. bindR (clean_workers ws) (\<lambda>b. Inr (a @ b)))"

definition serv_destroy :: "serv_object \<Rightarrow> (int \<times> bytes list) run" where
  "serv_destroy obj =
     bindR (clean_workers (p_workers obj)) (\<lambda>a.
     bindR (clean_ctx (acc_ctx (p_access obj)) (acc_clean (p_access obj))) (\<lambda>b. Inr (F1G_OK, a @ b)))"

section \<open>Reading back and selecting\<close>

lemma word16_le16: "word16 (a @ le16 x @ z) (length a) = x"
proof -
  have d: "(a @ le16 x @ z) ! length a = ucast x" "(a @ le16 x @ z) ! (length a + 1) = ucast (drop_bit 8 x)"
    by (simp_all add: le16_def nth_append)
  show ?thesis unfolding word16_def d
    by (rule bit_word_eqI) (auto simp: bit_simps)
qed

lemma word32_le32: "word32 (a @ le32 x @ z) (length a) = x"
proof -
  have d: "(a @ le32 x @ z) ! length a = ucast x" "(a @ le32 x @ z) ! (length a + 1) = ucast (drop_bit 8 x)"
    "(a @ le32 x @ z) ! (length a + 2) = ucast (drop_bit 16 x)" "(a @ le32 x @ z) ! (length a + 3) = ucast (drop_bit 24 x)"
    by (simp_all add: le32_def nth_append)
  show ?thesis unfolding word32_def d
  proof (rule bit_word_eqI)
    fix n assume "n < LENGTH(32)"
    then consider "n < 8" | "8 \<le> n \<and> n < 16" | "16 \<le> n \<and> n < 24" | "24 \<le> n \<and> n < 32" by fastforce
    then show "bit (ucast (ucast x :: u8) OR push_bit 8 (ucast (ucast (drop_bit 8 x) :: u8)) OR
        push_bit 16 (ucast (ucast (drop_bit 16 x) :: u8)) OR push_bit 24 (ucast (ucast (drop_bit 24 x) :: u8)) :: u32) n = bit x n"
      by cases (auto simp: bit_simps)
  qed
qed

lemma sock_of_bytes: "sock_of (sock_bytes si @ z) = Inr si"
proof -
  have "word32 (sock_bytes si @ z) 0 = sfd si" "word32 (sock_bytes si @ z) 4 = src_ip si"
    "word16 (sock_bytes si @ z) 8 = src_port si" "word16 (sock_bytes si @ z) 10 = sock_status si"
    using word32_le32 [of "[]" "sfd si"] word32_le32 [of "le32 (sfd si)" "src_ip si"]
      word16_le16 [of "le32 (sfd si) @ le32 (src_ip si)" "src_port si"]
      word16_le16 [of "le32 (sfd si) @ le32 (src_ip si) @ le16 (src_port si)" "sock_status si"]
    by (simp_all add: sock_bytes_def)
  then show ?thesis by (simp add: sock_of_def) (simp add: sock_bytes_def)
qed

lemma sel_que_bounds:
  assumes "0 < n" and "n < 2 ^ 31"
  shows "\<exists>k. sel_que_by_ip ip n = Inr k \<and> 0 \<le> k \<and> k < n"
proof -
  have u: "uint (word_of_int n :: u32) = n" using assms by (simp add: uint_word_of_int)
  then have nz: "(word_of_int n :: u32) \<noteq> 0" using assms(1) by auto
  let ?m = "dig_hash 0 (le32 ip) mod word_of_int n :: u32"
  have m: "0 \<le> uint ?m" "uint ?m < n" using u assms(1) by (simp_all add: uint_mod)
  have "sint ?m = uint ?m" unfolding sint_uint using signed_take_bit_int_eq_self [of 31 "uint ?m"] m assms(2) by simp
  then show ?thesis using m nz by (simp add: sel_que_by_ip_def)
qed
section \<open>What the access thread does to the queues\<close>

definition worker_of :: "int \<Rightarrow> u32 \<Rightarrow> nat" where
  "worker_of n ip = (case sel_que_by_ip ip n of Inr k \<Rightarrow> nat k | _ \<Rightarrow> 0)"

lemma worker_of:
  assumes "0 < n" and "n < 2 ^ 31"
  shows "sel_que_by_ip ip n = Inr (int (worker_of n ip))" "int (worker_of n ip) < n"
  using sel_que_bounds [OF assms, of ip] by (auto simp: worker_of_def)

text \<open>The queues of \<open>n\<close> workers, with cells that hold a \<^verbatim>\<open>sock_info_t\<close>.\<close>

definition ques_ok :: "int \<Rightarrow> que_obj list \<Rightarrow> bool" where
  "ques_ok n qs \<longleftrightarrow> int (length qs) = n \<and> 0 < n \<and> n < 2 ^ 31 \<and> (\<forall>q\<in>set qs. que_inv q \<and> 12 \<le> blk_size q - sizeof_elem)"

text \<open>The contract: an entry is appended to the list of the queue its address selects, unless that is full.\<close>

definition dispatch :: "int \<Rightarrow> nat list \<Rightarrow> sock_info \<Rightarrow> bytes list list \<Rightarrow> bytes list list" where
  "dispatch n caps si ls =
     (let k = worker_of n (src_ip si) in
      if length (ls ! k) < caps ! k then ls[k := ls ! k @ [sock_bytes si]] else ls)"

lemma length_sock_bytes [simp]: "length (sock_bytes si) = 12"
  by (simp add: sock_bytes_def)

lemma stage_run:
  assumes "que_inv q" and "12 \<le> blk_size q - sizeof_elem"
  shows "\<exists>e. stage si q = set_cell q (que_obj_next_freeblk q) e \<and> payload e = sock_bytes si
    \<and> length (edata e) = nat (blk_size q - sizeof_elem) \<and> edata e = sock_bytes si @ drop 12 (edata e)"
proof -
  have b: "0 \<le> tail q" "tail q < blk_num q" using assms(1) by (auto simp: que_inv_def)
  obtain cs where cs: "cell_at q (tail q) = Inr (cs ! nat (tail q))"
    "length (edata (cs ! nat (tail q))) = nat (blk_size q - sizeof_elem)"
    using cell_at_ok [OF assms(1) b] by blast
  let ?e = "cs ! nat (tail q)"
  have l: "12 \<le> length (edata ?e)" using cs(2) assms(2) by simp
  have "stage si q = set_cell q (que_obj_next_freeblk q) (?e\<lparr>edata := sock_bytes si @ drop 12 (edata ?e), edata_len := 12\<rparr>)"
    using cs(1) l by (simp add: stage_def que_obj_next_freeblk_def)
  moreover define e where "e = ?e\<lparr>edata := sock_bytes si @ drop 12 (edata ?e), edata_len := 12\<rparr>"
  ultimately have "stage si q = set_cell q (que_obj_next_freeblk q) e" by simp
  moreover have "payload e = sock_bytes si" "length (edata e) = nat (blk_size q - sizeof_elem)"
    "edata e = sock_bytes si @ drop 12 (edata e)"
    using l cs(2) by (simp_all add: payload_def e_def)
  ultimately show ?thesis by blast
qed

lemma stage_put:
  assumes "que_inv q" and "12 \<le> blk_size q - sizeof_elem"
  shows "\<exists>q1 q2 r. stage si q = Inr q1 \<and> que_obj_move_next q1 = Inr (r, q2) \<and> que_inv q2 \<and> que_cap q2 = que_cap q
    \<and> blk_size q2 = blk_size q
    \<and> que_list q2 = (if length (que_list q) < que_cap q then que_list q @ [sock_bytes si] else que_list q)"
proof -
  obtain e where e: "stage si q = set_cell q (que_obj_next_freeblk q) e" "payload e = sock_bytes si"
    "length (edata e) = nat (blk_size q - sizeof_elem)"
    using stage_run [OF assms] by blast
  from que_set_tail_cell [OF assms(1) e(3)] show ?thesis
    unfolding e(1) e(2) [symmetric] by (cases "que_count q < que_cap q") auto
qed

lemma access_put_spec:
  assumes "ques_ok n qs"
  shows "\<exists>qs'. access_put si n qs = Inr qs' \<and> ques_ok n qs' \<and> map que_cap qs' = map que_cap qs
    \<and> map que_list qs' = dispatch n (map que_cap qs) si (map que_list qs)"
proof -
  define k where "k = worker_of n (src_ip si)"
  have n: "0 < n" "n < 2 ^ 31" "int (length qs) = n" using assms by (auto simp: ques_ok_def)
  have k: "sel_que_by_ip (src_ip si) n = Inr (int k)" "k < length qs"
    using worker_of [OF n(1,2), of "src_ip si"] n(3) by (simp_all add: k_def)
  have q: "que_inv (qs ! k)" "12 \<le> blk_size (qs ! k) - sizeof_elem" using assms k(2) by (auto simp: ques_ok_def)
  obtain q1 q2 r where q2: "stage si (qs ! k) = Inr q1" "que_obj_move_next q1 = Inr (r, q2)" "que_inv q2"
    "que_cap q2 = que_cap (qs ! k)" "blk_size q2 = blk_size (qs ! k)"
    "que_list q2 = (if length (que_list (qs ! k)) < que_cap (qs ! k) then que_list (qs ! k) @ [sock_bytes si] else que_list (qs ! k))"
    using stage_put [OF q] by blast
  have "access_put si n qs = Inr (qs[k := q2])"
    using k q2(1,2) by (simp add: access_put_def)
  moreover have "ques_ok n (qs[k := q2])"
    using assms q2(3,5) q(2) set_update_subset_insert [of qs k q2] by (auto simp: ques_ok_def)
  moreover have "map que_cap (qs[k := q2]) = map que_cap qs"
    using k(2) q2(4) by (simp add: map_update list_update_same_conv)
  moreover have "map que_list (qs[k := q2]) = dispatch n (map que_cap qs) si (map que_list qs)"
    using k(2) q2(6) by (simp add: dispatch_def k_def [symmetric] map_update Let_def list_update_same_conv)
  ultimately show ?thesis by blast
qed

definition mark_in :: "sock_info \<Rightarrow> sock_info" where
  "mark_in i = i\<lparr>sock_status := SST_DATA_IN\<rparr>"

lemma access_round_plain:
  assumes "link_mode acc = LINKER_EPOLL" and "linker acc = Live ep"
    and "take (length infos) (drop (next_event ep) (events ep)) = map plain_in infos"
    and "\<forall>i\<in>set infos. sfd i \<noteq> listen_fd ep" and "next_event ep + length infos \<le> nat (event_num ep)"
    and "ques_ok n qs"
  shows "\<exists>qs'. access_round envs n acc si qs
      = access_round envs n (acc\<lparr>linker := Live (ep\<lparr>next_event := next_event ep + length infos\<rparr>)\<rparr>)
          (if infos = [] then si else mark_in (last infos)) qs'
    \<and> ques_ok n qs' \<and> map que_cap qs' = map que_cap qs
    \<and> map que_list qs' = fold (dispatch n (map que_cap qs)) (map mark_in infos) (map que_list qs)"
  using assms
proof (induction infos arbitrary: acc ep si qs)
  case Nil
  have "acc\<lparr>linker := Live ep\<rparr> = acc" using Nil.prems(2) by (cases acc) simp
  then show ?case using Nil.prems(6) by auto
next
  case (Cons i infos)
  have l: "next_event ep < length (events ep)"
    using arg_cong [OF Cons.prems(3), of length] by simp
  then have d: "drop (next_event ep) (events ep) = events ep ! next_event ep # drop (Suc (next_event ep)) (events ep)"
    by (simp add: Cons_nth_drop_Suc)
  have e: "events ep ! next_event ep = plain_in i"
    "take (length infos) (drop (Suc (next_event ep)) (events ep)) = map plain_in infos"
    using Cons.prems(3) unfolding d by simp_all
  have lt: "int (next_event ep) < event_num ep" using Cons.prems(5) by simp
  let ?ep = "ep\<lparr>next_event := next_event ep + 1\<rparr>" let ?acc = "acc\<lparr>linker := Live ?ep\<rparr>"
  have c: "accessor_check_status env acc si = Inr (int (next_event ep + 1), ?acc, mark_in i, [])" for env
    using Cons.prems(1,2,4) epoll_check_plain [OF lt l e(1)] by (simp add: accessor_check_status_def mark_in_def)
  obtain q1 where q1: "access_put (mark_in i) n qs = Inr q1" "ques_ok n q1" "map que_cap q1 = map que_cap qs"
    "map que_list q1 = dispatch n (map que_cap qs) (mark_in i) (map que_list qs)"
    using access_put_spec [OF Cons.prems(6)] by blast
  have r: "access_round envs n acc si qs = access_round envs n ?acc (mark_in i) q1"
    using c q1(1) by (subst access_round.simps) simp
  have "\<exists>qs'. access_round envs n ?acc (mark_in i) q1
      = access_round envs n (?acc\<lparr>linker := Live (?ep\<lparr>next_event := next_event ?ep + length infos\<rparr>)\<rparr>)
          (if infos = [] then mark_in i else mark_in (last infos)) qs'
    \<and> ques_ok n qs' \<and> map que_cap qs' = map que_cap q1
    \<and> map que_list qs' = fold (dispatch n (map que_cap q1)) (map mark_in infos) (map que_list q1)"
    using Cons.prems(1,4,5) e(2) q1(2) by (intro Cons.IH) auto
  then show ?case unfolding r q1(3) q1(4) by (cases "infos = []") simp_all
qed

text \<open>The end of a round, and of an iteration.\<close>

lemma access_round_end:
  assumes "link_mode acc = LINKER_EPOLL" and "linker acc = Live ep" and "event_num ep \<le> int (next_event ep)"
  shows "access_round envs n acc si qs = Inr (acc\<lparr>linker := Live (ep\<lparr>next_event := 0\<rparr>)\<rparr>, si, qs)"
  using assms by (subst access_round.simps) (simp add: accessor_check_status_def epoll_check_status_def)

text \<open>A wait that reports data only.\<close>

lemma access_detect_plain:
  assumes "link_mode acc = LINKER_EPOLL" and "linker acc = Live ep"
    and "int (length evs) \<le> event_size ep" and "length evs \<le> length (events ep)"
  shows "accessor_detect (Ready evs) acc = Inr (int (length evs), acc\<lparr>linker :=
      Live (ep\<lparr>events := evs @ drop (length evs) (events ep), event_num := int (length evs), next_event := 0\<rparr>)\<rparr>)"
proof -
  have "take (nat (event_size ep)) evs = evs" using assms(3) by simp
  then show ?thesis using assms(1,2,4) by (simp add: accessor_detect_def Let_def)
qed

section \<open>Properties of the access thread\<close>

text \<open>C5. One iteration of the access thread on plain events, those that announce data and nothing else for a descriptor that has
  its description and is not the listening one, at least one and at most as many as the array of events takes: with
  well-formed queues it refines the dispatch of the descriptions, in the order of the events, to the queues their addresses
  select; nothing else changes, the same address always selects the same queue, and only a full queue loses an entry. What
  becomes of events with a hang-up or an error and of a failed accept is in \<open>accessor_events_dropped\<close> and
  \<open>failed_accept_repeats_entry\<close>.\<close>

theorem access_iter_dispatches:
  assumes "link_mode acc = LINKER_EPOLL" and "linker acc = Live ep" and "infos \<noteq> []"
    and "int (length infos) \<le> event_size ep" and "length infos \<le> length (events ep)"
    and "\<forall>i\<in>set infos. sfd i \<noteq> listen_fd ep" and "ques_ok n qs"
  shows "\<exists>acc' qs'. access_iter (Ready (map plain_in infos)) envs n acc si qs = Inr (acc', mark_in (last infos), qs')
    \<and> ques_ok n qs' \<and> map que_cap qs' = map que_cap qs
    \<and> map que_list qs' = fold (dispatch n (map que_cap qs)) (map mark_in infos) (map que_list qs)"
proof -
  let ?evs = "map plain_in infos"
  let ?ep = "ep\<lparr>events := ?evs @ drop (length infos) (events ep), event_num := int (length infos), next_event := 0\<rparr>"
  let ?acc = "acc\<lparr>linker := Live ?ep\<rparr>"
  have d: "accessor_detect (Ready ?evs) acc = Inr (int (length infos), ?acc)"
    using access_detect_plain [OF assms(1,2), of ?evs] assms(4,5) by simp
  obtain qs' where q: "access_round envs n ?acc si qs
      = access_round envs n (?acc\<lparr>linker := Live (?ep\<lparr>next_event := next_event ?ep + length infos\<rparr>)\<rparr>) (mark_in (last infos)) qs'"
    "ques_ok n qs'" "map que_cap qs' = map que_cap qs"
    "map que_list qs' = fold (dispatch n (map que_cap qs)) (map mark_in infos) (map que_list qs)"
    using access_round_plain [of ?acc ?ep infos n qs envs si] assms(1,3,6,7) by auto
  have "\<exists>acc'. access_iter (Ready ?evs) envs n acc si qs = Inr (acc', mark_in (last infos), qs')"
    unfolding access_iter_def d using q(1) assms(1,3)
    by (simp add: access_round_end accessor_clear_def)
  then show ?thesis using q(2-4) by blast
qed

text \<open>A connection that \<^verbatim>\<open>accept\<close> fails to take is passed on like any event, with the
  description left from the event before: the entry of that one is queued a second time.\<close>

theorem failed_accept_repeats_entry:
  assumes "link_mode acc = LINKER_EPOLL" and "linker acc = Live ep" and "infos \<noteq> []"
    and "int (Suc (length infos)) \<le> event_size ep" and "Suc (length infos) \<le> length (events ep)"
    and "\<forall>i\<in>set infos. sfd i \<noteq> listen_fd ep" and "ques_ok n qs"
    and "sfd l = listen_fd ep" and "\<And>k. accepted_conn (envs k) = None"
  shows "\<exists>acc' qs'. access_iter (Ready (map plain_in infos @ [plain_in l])) envs n acc si qs = Inr (acc', mark_in (last infos), qs')
    \<and> map que_list qs' = fold (dispatch n (map que_cap qs)) (map mark_in (infos @ [last infos])) (map que_list qs)"
proof -
  let ?evs = "map plain_in infos @ [plain_in l]" and ?k = "length infos"
  let ?ep = "ep\<lparr>events := ?evs @ drop (Suc ?k) (events ep), event_num := int (Suc ?k), next_event := 0\<rparr>"
  let ?acc = "acc\<lparr>linker := Live ?ep\<rparr>" and ?si = "mark_in (last infos)"
  let ?ep1 = "?ep\<lparr>next_event := ?k\<rparr>" let ?acc1 = "?acc\<lparr>linker := Live ?ep1\<rparr>"
  let ?ep2 = "?ep\<lparr>next_event := Suc ?k\<rparr>" let ?acc2 = "?acc\<lparr>linker := Live ?ep2\<rparr>"
  have d: "accessor_detect (Ready ?evs) acc = Inr (int (Suc ?k), ?acc)"
    using access_detect_plain [OF assms(1,2), of ?evs] assms(4,5) by simp
  have nk: "?k \<le> nat (1 + int ?k)" by linarith
  obtain qs1 where q: "access_round envs n ?acc si qs = access_round envs n ?acc1 ?si qs1"
    "ques_ok n qs1" "map que_cap qs1 = map que_cap qs"
    "map que_list qs1 = fold (dispatch n (map que_cap qs)) (map mark_in infos) (map que_list qs)"
    using access_round_plain [of ?acc ?ep infos n qs envs si] assms(1,3,6,7) nk by auto
  have c: "accessor_check_status (envs m) ?acc1 ?si = Inr (int (Suc ?k), ?acc2, ?si, [])" for m
    using assms(1,8,9) by (simp add: accessor_check_status_def epoll_check_status_def nth_append plain_in_def pass_event_def)
  obtain qs2 where q2: "access_put ?si n qs1 = Inr qs2" "ques_ok n qs2"
    "map que_list qs2 = dispatch n (map que_cap qs1) ?si (map que_list qs1)"
    using access_put_spec [OF q(2)] by blast
  have "access_round envs n ?acc1 ?si qs1 = access_round envs n ?acc2 ?si qs2"
    using c q2(1) by (subst access_round.simps) simp
  then have "\<exists>acc'. access_iter (Ready ?evs) envs n acc si qs = Inr (acc', ?si, qs2)"
    unfolding access_iter_def d using q(1) assms(1)
    by (simp add: access_round_end accessor_clear_def)
  then show ?thesis using q2(3) q(3,4) by (auto simp: mark_in_def)
qed

lemma access_iter_dispatches_witness:
  "\<exists>acc' qs'. access_iter (Ready [plain_in \<lparr>sfd = 5, src_ip = 1, src_port = 1, sock_status = 0\<rparr>])
      (\<lambda>_. \<lparr>accepted_conn = None, mem_ok = True, ctl1 = True, ctl2 = True\<rparr>) 1
      \<lparr>link_mode = 0, acc_rdbuf = zero_buffer, acc_wrbuf = zero_buffer, linker = Live
         \<lparr>accessor_id = 4, listen_fd = 3, event_size = 2, event_num = 0, next_event = 0, events = [no_event, no_event]\<rparr>\<rparr> zero_info
      [\<lparr>front = 0, tail = 0, blk_size = 20, blk_num = 2, cells = Live (replicate 2 \<lparr>estatus = 0, edata_len = 0, edata = replicate 12 0\<rparr>)\<rparr>]
    = Inr (acc', \<lparr>sfd = 5, src_ip = 1, src_port = 1, sock_status = 1\<rparr>, qs')
    \<and> map que_list qs' = [[sock_bytes \<lparr>sfd = 5, src_ip = 1, src_port = 1, sock_status = 1\<rparr>]]"
proof -
  define info where "info = \<lparr>sfd = 5, src_ip = 1, src_port = 1, sock_status = 0\<rparr>"
  define ep where "ep = \<lparr>accessor_id = 4, listen_fd = 3, event_size = 2, event_num = 0, next_event = 0, events = [no_event, no_event]\<rparr>"
  define acc where "acc = \<lparr>link_mode = 0, acc_rdbuf = zero_buffer, acc_wrbuf = zero_buffer, linker = Live ep\<rparr>"
  define q where "q = \<lparr>front = 0, tail = 0, blk_size = 20, blk_num = 2,
    cells = Live (replicate 2 \<lparr>estatus = 0, edata_len = 0, edata = replicate 12 0\<rparr>)\<rparr>"
  have ok: "ques_ok 1 [q]" by (simp add: ques_ok_def que_inv_def q_def sizeof_elem_def)
  have l: "que_list q = []" "que_cap q = 1" by (simp_all add: q_def que_list_def que_count_def que_cap_def)
  have k: "worker_of 1 (src_ip i) = 0" for i using worker_of(2) [of 1 "src_ip i"] by simp
  have a: "link_mode acc = LINKER_EPOLL" "linker acc = Live ep" "int (length [info]) \<le> event_size ep"
    "length [info] \<le> length (events ep)" "\<forall>i\<in>set [info]. sfd i \<noteq> listen_fd ep"
    by (simp_all add: acc_def ep_def info_def LINKER_EPOLL_def)
  have f: "fold (dispatch 1 [1]) [mark_in info] [[]] = [[sock_bytes (mark_in info)]]" by (simp add: dispatch_def k)
  show ?thesis
    using access_iter_dispatches [OF a(1,2) _ a(3,4,5) ok, of "\<lambda>_. \<lparr>accepted_conn = None, mem_ok = True, ctl1 = True, ctl2 = True\<rparr>" zero_info] f l
    by (auto simp: acc_def ep_def q_def info_def mark_in_def SST_DATA_IN_def)
qed

lemma failed_accept_repeats_entry_witness:
  "\<exists>acc' qs'. access_iter (Ready [plain_in \<lparr>sfd = 5, src_ip = 1, src_port = 1, sock_status = 0\<rparr>,
        plain_in \<lparr>sfd = 3, src_ip = 0, src_port = 0, sock_status = 0\<rparr>])
      (\<lambda>_. \<lparr>accepted_conn = None, mem_ok = True, ctl1 = True, ctl2 = True\<rparr>) 1
      \<lparr>link_mode = 0, acc_rdbuf = zero_buffer, acc_wrbuf = zero_buffer, linker = Live
         \<lparr>accessor_id = 4, listen_fd = 3, event_size = 2, event_num = 0, next_event = 0, events = [no_event, no_event]\<rparr>\<rparr> zero_info
      [\<lparr>front = 0, tail = 0, blk_size = 20, blk_num = 3, cells = Live (replicate 3 \<lparr>estatus = 0, edata_len = 0, edata = replicate 12 0\<rparr>)\<rparr>]
    = Inr (acc', \<lparr>sfd = 5, src_ip = 1, src_port = 1, sock_status = 1\<rparr>, qs')
    \<and> map que_list qs' = [replicate 2 (sock_bytes \<lparr>sfd = 5, src_ip = 1, src_port = 1, sock_status = 1\<rparr>)]"
proof -
  define info where "info = \<lparr>sfd = 5, src_ip = 1, src_port = 1, sock_status = 0\<rparr>"
  define li where "li = \<lparr>sfd = 3, src_ip = 0, src_port = 0, sock_status = 0\<rparr>"
  define ep where "ep = \<lparr>accessor_id = 4, listen_fd = 3, event_size = 2, event_num = 0, next_event = 0, events = [no_event, no_event]\<rparr>"
  define acc where "acc = \<lparr>link_mode = 0, acc_rdbuf = zero_buffer, acc_wrbuf = zero_buffer, linker = Live ep\<rparr>"
  define q where "q = \<lparr>front = 0, tail = 0, blk_size = 20, blk_num = 3,
    cells = Live (replicate 3 \<lparr>estatus = 0, edata_len = 0, edata = replicate 12 0\<rparr>)\<rparr>"
  define envs :: "nat \<Rightarrow> check_env" where "envs = (\<lambda>_. \<lparr>accepted_conn = None, mem_ok = True, ctl1 = True, ctl2 = True\<rparr>)"
  have ok: "ques_ok 1 [q]" by (simp add: ques_ok_def que_inv_def q_def sizeof_elem_def)
  have l: "que_list q = []" "que_cap q = 2" by (simp_all add: q_def que_list_def que_count_def que_cap_def)
  have k: "worker_of 1 (src_ip i) = 0" for i using worker_of(2) [of 1 "src_ip i"] by simp
  have a: "link_mode acc = LINKER_EPOLL" "linker acc = Live ep" "int (Suc (length [info])) \<le> event_size ep"
    "Suc (length [info]) \<le> length (events ep)" "\<forall>i\<in>set [info]. sfd i \<noteq> listen_fd ep" "sfd li = listen_fd ep"
    "\<And>k. accepted_conn (envs k) = None"
    by (simp_all add: acc_def ep_def info_def li_def envs_def LINKER_EPOLL_def)
  have f: "fold (dispatch 1 [2]) [mark_in info, mark_in info] [[]] = [replicate 2 (sock_bytes (mark_in info))]"
    by (simp add: dispatch_def k numeral_2_eq_2)
  show ?thesis
    using failed_accept_repeats_entry [of acc ep "[info]" 1 "[q]" li envs zero_info] a ok f l
    by (auto simp: acc_def ep_def q_def info_def li_def envs_def mark_in_def SST_DATA_IN_def)
qed

section \<open>What a worker does with an entry\<close>

definition worker_wf :: "worker \<Rightarrow> bool" where
  "worker_wf w \<longleftrightarrow> que_inv (w_que w) \<and> buf_wf (rdbuf w) \<and> 0 < bsize (rdbuf w) \<and> buf_wf (wrbuf w) \<and> 0 < bsize (wrbuf w)"

lemma payload_prefix: "payload e = x \<Longrightarrow> \<exists>z. edata e = x @ z"
  unfolding payload_def by (metis append_take_drop_id)

lemma worker_head:
  assumes "que_inv q" and "que_list q = sock_bytes si # rest"
  shows "\<not> que_obj_empty q" "\<exists>e. cell_at q (front q) = Inr e \<and> sock_of (edata e) = Inr si"
proof -
  show ne: "\<not> que_obj_empty q" using que_empty_iff [OF assms(1)] assms(2) by simp
  have "que_peek q = Inr (Some (sock_bytes si))" using que_peek_spec [OF assms(1)] assms(2) by simp
  then obtain e where "cell_at q (front q) = Inr e" "payload e = sock_bytes si"
    using ne by (auto simp: que_peek_def que_obj_head_def bindR_def split: sum.splits)
  then show "\<exists>e. cell_at q (front q) = Inr e \<and> sock_of (edata e) = Inr si"
    using payload_prefix sock_of_bytes by metis
qed

lemma nonblk_sendto_text: "buf_wf b \<Longrightarrow> nonblk_sendto ip port b = Inr (F1G_OK, ip, port, buf_text b)"
  by (auto simp: nonblk_sendto_def buffer_data_def buffer_data_len_def buf_text_def elim: buf_wfE)

lemma buf_text_len: "buf_wf b \<Longrightarrow> length (buf_text b) = nat (blen b)"
  by (auto simp: buf_text_def elim: buf_wfE)

text \<open>The default data processor: the text of the read buffer and the fixed response are appended, where a
  byte of the write buffer stays free; otherwise a terminator is written past it.\<close>

lemma fproc_dft:
  assumes "buf_wf rb" and "buf_wf wb" and "buf_text wb = []" and "blen rb < bsize wb"
  shows "if blen rb + int (length response) < bsize wb
    then \<exists>wb'. worker_data_fproc_dft ctx rb wb ps = Inr (F1G_OK, rb, wb', PROC_ST_SENDBUF) \<and> buf_wf wb'
      \<and> buf_text wb' = buf_text rb @ response \<and> bsize wb' = bsize wb
    else worker_data_fproc_dft ctx rb wb ps = Inl OutOfBounds"
proof -
  obtain m where m: "bbuf rb = Live m" "0 \<le> blen rb" "nat (blen rb) \<le> length m" using assms(1) by (rule buf_wfE)
  have t: "take (nat (blen rb)) m = buf_text rb" using m by (simp add: buf_text_def)
  have z: "blen wb = 0" using buf_text_len [OF assms(2)] assms(2,3) by (auto simp: buf_wf_def)
  obtain b1 where b1: "buffer_append (Some wb) (Some m) (blen rb) = Inr (F1G_OK, Some b1)" "buf_wf b1"
    "buf_text b1 = buf_text rb" "bsize b1 = bsize wb"
    using buffer_append_run [OF assms(2) m(2,3)] assms(3,4) z t by auto
  have l1: "blen b1 = blen rb" using buf_text_len [OF b1(2)] buf_text_len [OF assms(1)] b1(2,3) m(2) by (auto simp: buf_wf_def)
  have run: "worker_data_fproc_dft ctx rb wb ps = bindR (buffer_append (Some b1) (Some response) (int (length response)))
      (\<lambda>(_, b2). Inr (F1G_OK, rb, the b2, PROC_ST_SENDBUF))"
    using m(1) b1(1) by (simp add: worker_data_fproc_dft_def buffer_data_def buffer_data_len_def)
  show ?thesis
  proof (cases "blen rb + int (length response) < bsize wb")
    case True
    then show ?thesis
      using buffer_append_run [OF b1(2), of "int (length response)" response] b1(3,4) l1 by (auto simp: run)
  next
    case False
    then show ?thesis
      using buffer_append_overrun [OF b1(2), of "int (length response)" response] b1(4) l1 by (simp add: run)
  qed
qed

definition recv_endings :: "(recv_event list \<times> u32) set" where
  "recv_endings = {([Again, Again, Again], RECV_OK OR RECV_TIMEOUT), ([Closed], RECV_OK OR RECV_DISC)}"

lemma recv_ending_flags:
  assumes "(en, st) \<in> recv_endings"
  shows "st AND RECV_OK \<noteq> 0" "st AND RECV_DISC \<noteq> 0 \<longleftrightarrow> en = [Closed]"
  using assms by (auto simp: recv_endings_def RECV_OK_def RECV_TIMEOUT_def RECV_DISC_def)

lemma worker_receive_data:
  assumes "worker_wf w" and "w_proc w = worker_data_fproc_dft" and "[] \<notin> set xss" and "xs = concat xss" and "xs \<noteq> []"
    and "(en, st) \<in> recv_endings" and "int (length xs) < bsize (rdbuf w)" and "int (length xs) < bsize (wrbuf w)"
  shows "if int (length (xs @ response)) < bsize (wrbuf w)
    then \<exists>rb wb. worker_receive (map Arrive xss @ en) si w l
        = Inr (Some (False, w\<lparr>rdbuf := rb, wrbuf := wb\<rparr>, l\<lparr>recv_stat := st, proc_stat := PROC_ST_SENDBUF\<rparr>,
            if en = [Closed] then [Close (sfd si)] else []))
      \<and> worker_wf (w\<lparr>rdbuf := rb, wrbuf := wb\<rparr>) \<and> buf_text wb = xs @ response
    else worker_receive (map Arrive xss @ en) si w l = Inl OutOfBounds"
proof -
  have wf: "buf_wf (rdbuf w)" "0 < bsize (rdbuf w)" "buf_wf (wrbuf w)" "0 < bsize (wrbuf w)" "que_inv (w_que w)"
    using assms(1) by (auto simp: worker_wf_def)
  obtain rb where rb: "buffer_clear (Some (rdbuf w)) = Inr (F1G_OK, Some rb)" "buf_wf rb" "bsize rb = bsize (rdbuf w)"
    using buffer_clear_wf [OF wf(1,2)] by blast
  obtain wb where wb: "buffer_clear (Some (wrbuf w)) = Inr (F1G_OK, Some wb)" "buf_wf wb" "buf_text wb = []" "bsize wb = bsize (wrbuf w)"
    using buffer_clear_wf [OF wf(3,4)] by blast
  have t: "(en, st) \<in> {([Again, Again, Again], RECV_OK OR RECV_TIMEOUT), ([Closed], RECV_OK OR RECV_DISC), ([Fails], 0)}"
    using assms(6) by (auto simp: recv_endings_def)
  obtain rb' where rb': "nonblk_recvfrom (map Arrive xss @ en) rb = Inr (Some (rb', st))" "buf_wf rb'" "buf_text rb' = xs"
    "bsize rb' = bsize rb"
    using recv_fits [OF rb(2) assms(3) t assms(4,5)] assms(7) rb(3) by auto
  have l: "blen rb' = int (length xs)" using buf_text_len [OF rb'(2)] rb'(2,3) by (auto simp: buf_wf_def)
  note f = recv_ending_flags [OF assms(6)]
  have p: "0 < blen rb'" using l assms(5) by simp
  have d: "if blen rb' + int (length response) < bsize wb
    then \<exists>wb'. worker_data_fproc_dft (w_ctx w) rb' wb (proc_stat l) = Inr (F1G_OK, rb', wb', PROC_ST_SENDBUF) \<and> buf_wf wb'
      \<and> buf_text wb' = buf_text rb' @ response \<and> bsize wb' = bsize wb
    else worker_data_fproc_dft (w_ctx w) rb' wb (proc_stat l) = Inl OutOfBounds"
    using assms(8) l wb(4) by (intro fproc_dft rb'(2) wb(2,3)) simp
  show ?thesis
  proof (cases "int (length (xs @ response)) < bsize (wrbuf w)")
    case True
    then obtain wb' where "worker_data_fproc_dft (w_ctx w) rb' wb (proc_stat l) = Inr (F1G_OK, rb', wb', PROC_ST_SENDBUF)" "buf_wf wb'"
      "buf_text wb' = xs @ response" "bsize wb' = bsize wb"
      using d l wb(4) rb'(3) by auto
    note pr = this
    have "worker_wf (w\<lparr>rdbuf := rb', wrbuf := wb'\<rparr>)"
      using wf rb'(2,4) rb(3) wb(4) pr(2,4) by (simp add: worker_wf_def)
    moreover have "worker_receive (map Arrive xss @ en) si w l
        = Inr (Some (False, w\<lparr>rdbuf := rb', wrbuf := wb'\<rparr>, l\<lparr>recv_stat := st, proc_stat := PROC_ST_SENDBUF\<rparr>,
            if en = [Closed] then [Close (sfd si)] else []))"
      using rb(1) wb(1) rb'(1) f p assms(2) pr(1)
      by (simp add: worker_receive_def Let_def buffer_data_len_def F1G_OK_def)
    ultimately show ?thesis using True pr(3) by (simp only: if_True) blast
  next
    case False
    then have "worker_data_fproc_dft (w_ctx w) rb' wb (proc_stat l) = Inl OutOfBounds" using d l wb(4) by simp
    then show ?thesis
      using rb(1) wb(1) rb'(1) f p assms(2) False
      by (simp add: worker_receive_def Let_def buffer_data_len_def)
  qed
qed

section \<open>Properties of the worker thread\<close>

text \<open>C6. What the default worker does with an announcement of data: it receives what arrives, in however many
  pieces, sends it back with the fixed response behind it, and releases the entry; where the client has
  closed the connection the descriptor is closed before the answer is sent to it. Data that leaves the write
  buffer no room for the response makes a terminator fall past that buffer.\<close>

theorem worker_echo_cases:
  assumes "worker_wf w" and "w_proc w = worker_data_fproc_dft" and "r_flag l"
    and "que_list (w_que w) = sock_bytes si # rest" and "sock_status si = SST_DATA_IN"
    and "[] \<notin> set xss" and "xs = concat xss" and "xs \<noteq> []" and "(en, st) \<in> recv_endings"
    and "int (length xs) < bsize (rdbuf w)" and "int (length xs) < bsize (wrbuf w)"
  shows "if int (length (xs @ response)) < bsize (wrbuf w)
    then \<exists>w'. worker_iter (map Arrive xss @ en) w l
        = Inr (Some (False, w', l\<lparr>recv_stat := st, proc_stat := PROC_ST_SENDBUF\<rparr>,
            (if en = [Closed] then [Close (sfd si)] else []) @ [Send (sfd si) (src_ip si) (src_port si) (xs @ response)]))
      \<and> worker_wf w' \<and> que_list (w_que w') = rest \<and> buf_text (wrbuf w') = xs @ response
    else worker_iter (map Arrive xss @ en) w l = Inl OutOfBounds"
proof -
  have inv: "que_inv (w_que w)" using assms(1) by (simp add: worker_wf_def)
  note h = worker_head [OF inv assms(4)]
  obtain e where e: "cell_at (w_que w) (front (w_que w)) = Inr e" "sock_of (edata e) = Inr si" using h(2) by blast
  obtain q where q: "que_obj_pop (w_que w) = Inr (F1G_OK, q)" "que_inv q" "que_list q = rest"
    using que_obj_pop_spec [OF inv] assms(4) by auto
  note rc = worker_receive_data [OF assms(1,2,6-11), of si l]
  show ?thesis
  proof (cases "int (length (xs @ response)) < bsize (wrbuf w)")
    case True
    then obtain rb wb where r: "worker_receive (map Arrive xss @ en) si w l
        = Inr (Some (False, w\<lparr>rdbuf := rb, wrbuf := wb\<rparr>, l\<lparr>recv_stat := st, proc_stat := PROC_ST_SENDBUF\<rparr>,
            if en = [Closed] then [Close (sfd si)] else []))"
      "worker_wf (w\<lparr>rdbuf := rb, wrbuf := wb\<rparr>)" "buf_text wb = xs @ response"
      using rc by auto
    have "nonblk_sendto (src_ip si) (src_port si) wb = Inr (F1G_OK, src_ip si, src_port si, xs @ response)"
      using nonblk_sendto_text r(2,3) by (auto simp: worker_wf_def)
    then have "worker_iter (map Arrive xss @ en) w l
        = Inr (Some (False, w\<lparr>rdbuf := rb, wrbuf := wb, w_que := q\<rparr>, l\<lparr>recv_stat := st, proc_stat := PROC_ST_SENDBUF\<rparr>,
            (if en = [Closed] then [Close (sfd si)] else []) @ [Send (sfd si) (src_ip si) (src_port si) (xs @ response)]))"
      using h(1) e r(1) q(1) assms(3,5)
      by (simp add: worker_iter_def worker_respond_def PROC_ST_SENDBUF_def PROC_ST_BRKOUT_def)
    then show ?thesis using True r(2,3) q(2,3) by (auto simp: worker_wf_def)
  next
    case False
    then have "worker_receive (map Arrive xss @ en) si w l = Inl OutOfBounds" using rc by (simp only: if_False)
    then have "worker_iter (map Arrive xss @ en) w l = Inl OutOfBounds"
      using h(1) e assms(5) by (simp add: worker_iter_def)
    then show ?thesis using False by simp
  qed
qed

text \<open>An entry that does not announce data, after an answered one.\<close>

lemma worker_stale:
  assumes "worker_wf w" and "r_flag l" and "proc_stat l = PROC_ST_SENDBUF"
    and "que_list (w_que w) = sock_bytes si # rest" and "sock_status si \<noteq> SST_DATA_IN"
  shows "\<exists>w'. worker_iter evs w l = Inr (Some (False, w', l, [Send (sfd si) (src_ip si) (src_port si) (buf_text (wrbuf w))]))
    \<and> que_list (w_que w') = rest"
proof -
  have inv: "que_inv (w_que w)" using assms(1) by (simp add: worker_wf_def)
  note h = worker_head [OF inv assms(4)]
  obtain e where e: "cell_at (w_que w) (front (w_que w)) = Inr e" "sock_of (edata e) = Inr si" using h(2) by blast
  obtain q where q: "que_obj_pop (w_que w) = Inr (F1G_OK, q)" "que_list q = rest"
    using que_obj_pop_spec [OF inv] assms(4) by auto
  have s: "nonblk_sendto (src_ip si) (src_port si) (wrbuf w) = Inr (F1G_OK, src_ip si, src_port si, buf_text (wrbuf w))"
    using nonblk_sendto_text assms(1) by (auto simp: worker_wf_def)
  have "worker_iter evs w l
      = Inr (Some (False, w\<lparr>w_que := q\<rparr>, l, [Send (sfd si) (src_ip si) (src_port si) (buf_text (wrbuf w))]))"
    using h(1) e q(1) s assms(2,3,5)
    by (simp add: worker_iter_def worker_respond_def PROC_ST_SENDBUF_def PROC_ST_BRKOUT_def)
  then show ?thesis using q(2) by auto
qed

text \<open>C36. The processing status and the write buffer outlive the entry they belong to: when the entry of a new
  connection follows that of an answered request, the worker sends the new client the data of the other
  one with its answer.\<close>

theorem worker_leaks_answer:
  assumes "worker_wf w" and "w_proc w = worker_data_fproc_dft" and "r_flag l"
    and "que_list (w_que w) = [sock_bytes a, sock_bytes b]" and "sock_status a = SST_DATA_IN" and "sock_status b = SST_INIT"
    and "xs \<noteq> []" and "int (length xs) < bsize (rdbuf w)" and "int (length (xs @ response)) < bsize (wrbuf w)"
  shows "\<exists>w1 l1 w2 l2. worker_iter [Arrive xs, Again, Again, Again] w l
      = Inr (Some (False, w1, l1, [Send (sfd a) (src_ip a) (src_port a) (xs @ response)]))
    \<and> worker_iter evs w1 l1 = Inr (Some (False, w2, l2, [Send (sfd b) (src_ip b) (src_port b) (xs @ response)]))"
proof -
  have wl: "int (length xs) < bsize (wrbuf w)" using assms(9) by simp
  have e: "([Again, Again, Again], RECV_OK OR RECV_TIMEOUT) \<in> recv_endings" by (simp add: recv_endings_def)
  let ?l = "l\<lparr>recv_stat := RECV_OK OR RECV_TIMEOUT, proc_stat := PROC_ST_SENDBUF\<rparr>"
  obtain w1 where w1: "worker_iter (map Arrive [xs] @ [Again, Again, Again]) w l
      = Inr (Some (False, w1, ?l, [Send (sfd a) (src_ip a) (src_port a) (xs @ response)]))"
    "worker_wf w1" "que_list (w_que w1) = [sock_bytes b]" "buf_text (wrbuf w1) = xs @ response"
    using worker_echo_cases [OF assms(1-5) _ _ assms(7) e assms(8) wl, of "[xs]"] assms(7,9) by auto
  obtain w2 where "worker_iter evs w1 ?l = Inr (Some (False, w2, ?l, [Send (sfd b) (src_ip b) (src_port b) (xs @ response)]))"
    using worker_stale [OF w1(2), of ?l b "[]" evs] assms(3,6) w1(3,4) by (auto simp: SST_INIT_def SST_DATA_IN_def)
  then show ?thesis using w1(1) by auto
qed

definition sample_info :: "u32 \<Rightarrow> u16 \<Rightarrow> sock_info" where
  "sample_info d st = \<lparr>sfd = d, src_ip = 1, src_port = 2, sock_status = st\<rparr>"

definition sample_worker :: "sock_info list \<Rightarrow> worker" where
  "sample_worker sis =
     \<lparr>w_main = WORKER_CB_DFT, w_proc = worker_data_fproc_dft, w_ctx = Null, w_clean = False,
      w_que = \<lparr>front = 0, tail = int (length sis), blk_size = 20, blk_num = int (length sis) + 1,
        cells = Live (map (\<lambda>si. \<lparr>estatus = 0, edata_len = 12, edata = sock_bytes si\<rparr>) (sis @ [sample_info 0 0]))\<rparr>,
      rdbuf = \<lparr>bflag = 0, bsize = 64, blen = 0, bbuf = Live (replicate 64 0)\<rparr>,
      wrbuf = \<lparr>bflag = 0, bsize = 64, blen = 0, bbuf = Live (replicate 64 0)\<rparr>\<rparr>"

lemma sample_worker:
  assumes "length sis \<le> 2"
  shows "worker_wf (sample_worker sis)" "que_list (w_que (sample_worker sis)) = map sock_bytes sis"
    "w_proc (sample_worker sis) = worker_data_fproc_dft" "bsize (rdbuf (sample_worker sis)) = 64"
    "bsize (wrbuf (sample_worker sis)) = 64"
proof -
  from assms consider "sis = []" | a where "sis = [a]" | a b where "sis = [a, b]"
    by (cases sis; cases "List.tl sis") auto
  then show "que_list (w_que (sample_worker sis)) = map sock_bytes sis"
    by cases (simp_all add: sample_worker_def que_list_def que_count_def que_cell_def payload_def numeral_2_eq_2)
qed (use assms in \<open>auto simp: sample_worker_def worker_wf_def que_inv_def buf_wf_def sizeof_elem_def\<close>)

lemma worker_echo_cases_witness:
  "\<exists>w' l'. worker_iter [Arrive [7], Arrive [8, 9], Closed] (sample_worker [sample_info 5 1]) \<lparr>r_flag = True, recv_stat = 0, proc_stat = 0\<rparr>
      = Inr (Some (False, w', l', [Close 5, Send 5 1 2 ([7, 8, 9] @ response)])) \<and> que_list (w_que w') = []"
proof -
  have e: "([Closed], RECV_OK OR RECV_DISC) \<in> recv_endings" by (simp add: recv_endings_def)
  have r: "length response = 22" by (simp add: response_def lit_def)
  note s = sample_worker [of "[sample_info 5 1]"]
  show ?thesis
    using worker_echo_cases [of "sample_worker [sample_info 5 1]" "\<lparr>r_flag = True, recv_stat = 0, proc_stat = 0\<rparr>" "sample_info 5 1" "[]"
        "[[7], [8, 9]]" "[7, 8, 9]" "[Closed]" "RECV_OK OR RECV_DISC"] s e r
    by (auto simp: sample_info_def SST_DATA_IN_def)
qed

lemma worker_leaks_answer_witness:
  "\<exists>w1 l1 w2 l2. worker_iter [Arrive [7], Again, Again, Again] (sample_worker [sample_info 5 1, sample_info 6 0])
        \<lparr>r_flag = True, recv_stat = 0, proc_stat = 0\<rparr>
      = Inr (Some (False, w1, l1, [Send 5 1 2 ([7] @ response)]))
    \<and> worker_iter [] w1 l1 = Inr (Some (False, w2, l2, [Send 6 1 2 ([7] @ response)]))"
proof -
  have r: "length response = 22" by (simp add: response_def lit_def)
  note s = sample_worker [of "[sample_info 5 1, sample_info 6 0]"]
  show ?thesis
    using worker_leaks_answer [of "sample_worker [sample_info 5 1, sample_info 6 0]" "\<lparr>r_flag = True, recv_stat = 0, proc_stat = 0\<rparr>"
        "sample_info 5 1" "sample_info 6 0" "[7]" "[]"] s r
    by (auto simp: sample_info_def SST_DATA_IN_def SST_INIT_def)
qed
section \<open>What a created server is\<close>

lemma make_workers_ok:
  assumes "make_workers env conf is = Some ws" and "0 < que_capacity conf" and "12 \<le> que_size conf" and "que_size conf + sizeof_elem < 2 ^ 31"
    and "(que_capacity conf - 1) * (que_size conf + sizeof_elem) < 2 ^ 31"
    and "\<forall>i\<in>set is. ce_rd env i \<noteq> None \<and> ce_wr env i \<noteq> None"
  shows "length ws = length is \<and> (\<forall>w\<in>set ws. worker_wf w \<and> w_proc w = worker_data_fproc_dft \<and> que_list (w_que w) = []
    \<and> 12 \<le> blk_size (w_que w) - sizeof_elem \<and> bsize (rdbuf w) = 2048 \<and> bsize (wrbuf w) = 2048)"
  using assms
proof (induction "is" arbitrary: ws)
  case (Cons i "is")
  obtain q ws' where q: "que_obj_create (fst (ce_que env i)) (snd (ce_que env i)) (que_size conf) (que_capacity conf) = Some q"
    and ws': "make_workers env conf is = Some ws'"
    and ws: "ws = \<lparr>w_main = WORKER_CB_DFT, w_proc = worker_data_fproc_dft, w_ctx = Null, w_clean = False, w_que = q,
              rdbuf = snd (buffer_init (ce_rd env i) zero_buffer 2048),
              wrbuf = snd (buffer_init (ce_wr env i) zero_buffer 2048)\<rparr> # ws'"
    using Cons.prems(1) by (auto split: option.splits)
  obtain a g where "fst (ce_que env i) = True" "snd (ce_que env i) = Some g"
    using q Cons.prems(3) by (auto simp: que_obj_create_def que_obj_init_def malloc_def split: if_splits option.splits)
  then have "que_inv q" "que_list q = []" "blk_size q = que_size conf + sizeof_elem"
    using que_obj_create_inv [OF Cons.prems(2), of "que_size conf" g] Cons.prems(3-5) q by auto
  moreover have "\<exists>g1 g2. ce_rd env i = Some g1 \<and> ce_wr env i = Some g2" using Cons.prems(6) by auto
  ultimately show ?case
    using Cons.IH [OF ws' Cons.prems(2-5)] Cons.prems(3,6) ws
    by (auto simp: worker_wf_def buffer_init_def buf_wf_def)
qed simp

text \<open>C40. A server whose creation succeeds, with at least one worker, at least one cell to a queue, cells that
  hold an entry and lie within \<open>2\<^sup>3\<^sup>1\<close> bytes, and buffers that could be allocated (the code does not
  look), starts with empty queues that satisfy everything the two threads rely on.\<close>

theorem serv_create_ready:
  assumes "serv_create env conf = Some obj" and "0 < worker_num_cfg conf" and "worker_num_cfg conf < 2 ^ 31"
    and "0 < que_capacity conf" and "12 \<le> que_size conf" and "que_size conf + sizeof_elem < 2 ^ 31"
    and "(que_capacity conf - 1) * (que_size conf + sizeof_elem) < 2 ^ 31"
    and "\<And>i. ce_rd env i \<noteq> None \<and> ce_wr env i \<noteq> None"
  shows "ques_ok (acc_que_num (p_access obj)) (map w_que (p_workers obj))
    \<and> (\<forall>w\<in>set (p_workers obj). worker_wf w \<and> w_proc w = worker_data_fproc_dft \<and> que_list (w_que w) = [])
    \<and> (\<exists>ep. linker (acc_accessor (p_access obj)) = Live ep \<and> event_size ep = 512 \<and> length (events ep) = 512)"
proof -
  obtain ws where ws: "make_workers env conf [0..<nat (worker_num_cfg conf)] = Some ws"
    "p_workers obj = ws" "acc_que_num (p_access obj) = worker_num_cfg conf"
    using assms(1) by (auto simp: serv_create_def Let_def split: if_splits option.splits prod.splits)
  have w: "length ws = nat (worker_num_cfg conf)" "\<forall>w\<in>set ws. worker_wf w \<and> w_proc w = worker_data_fproc_dft
      \<and> que_list (w_que w) = [] \<and> 12 \<le> blk_size (w_que w) - sizeof_elem"
    using make_workers_ok [OF ws(1) assms(4-7)] assms(8) by auto
  have "ques_ok (worker_num_cfg conf) (map w_que ws)"
    using w assms(2,3) by (auto simp: ques_ok_def worker_wf_def)
  moreover have "\<exists>ep. linker (acc_accessor (p_access obj)) = Live ep \<and> event_size ep = 512 \<and> length (events ep) = 512"
    using assms(1)
    by (auto simp: serv_create_def Let_def accessor_init_def epoller_init_def
        split: if_splits option.splits prod.splits)
  ultimately show ?thesis using w(2) ws by auto
qed

definition sample_init :: init_env where
  "sample_init = \<lparr>ei_epoll = Some 4, ei_socket = 3, ei_get = 0, ei_set = (\<lambda>_. 0), ei_mem1 = True, ei_addr = (0, 0), ei_ctl = True,
     ei_bind = True, ei_listen = True, ei_mem2 = True\<rparr>"

definition sample_create :: create_env where
  "sample_create = \<lparr>ce_obj = True, ce_access = True, ce_workers = True, ce_ques = True,
     ce_que = (\<lambda>_. (True, Some (\<lambda>_. (0, 0, \<lambda>_. 0)))), ce_rd = (\<lambda>_. Some (\<lambda>_. 0)), ce_wr = (\<lambda>_. Some (\<lambda>_. 0)),
     ce_accessor = (Some (\<lambda>_. 0), Some (\<lambda>_. 0),
       Some \<lparr>accessor_id = 0, listen_fd = 0, event_size = 0, event_num = 0, next_event = 0, events = []\<rparr>, sample_init)\<rparr>"

definition sample_conf :: server_conf where
  "sample_conf = \<lparr>work_mode = 0, worker_num_cfg = 1, que_mode = 1, que_size = 16, que_capacity = 4, serv_type = 17,
     serv_win = [], access_mode = 0\<rparr>"

lemma serv_create_ready_witness:
  "\<exists>obj. serv_create sample_create sample_conf = Some obj \<and> ques_ok 1 (map w_que (p_workers obj))
    \<and> acc_que_num (p_access obj) = 1"
proof -
  obtain q where q: "que_obj_create True (Some (\<lambda>_. (0, 0, \<lambda>_. 0))) 16 4 = Some q"
    using que_obj_create_inv [of 4 16 "\<lambda>_. (0, 0, \<lambda>_. 0)"] by (auto simp: sizeof_elem_def)
  have i: "fst (accessor_init a1 a2 (Some ep) sample_init acc LINKER_EPOLL) = F1G_OK" for a1 a2 ep acc
    by (simp add: accessor_init_def epoller_init_def sample_init_def set_sockfd_nonblk_def Let_def)
  have "\<exists>obj. serv_create sample_create sample_conf = Some obj \<and> acc_que_num (p_access obj) = 1"
    unfolding serv_create_def using i q
    by (simp add: sample_create_def sample_conf_def Let_def split_def)
  then obtain obj where obj: "serv_create sample_create sample_conf = Some obj" "acc_que_num (p_access obj) = 1" by blast
  show ?thesis
    using serv_create_ready [OF obj(1)] obj by (simp add: sample_conf_def sample_create_def sizeof_elem_def)
qed

end
