(* ===== verification/Server_Steps.thy ===== *)
theory Server_Steps
  imports Server
begin

text \<open>
  The access thread and a worker thread on the queue they share, interleaved at every access to
  it. Neither takes a lock: the access thread writes the cell at the tail, looks whether the queue
  is full and stores the tail; the worker looks whether it is empty, reads the cell at the front, receives and
  has the data processed, answers, wipes the header of the cell and stores the front. The worker leaves its loop
  when the processor returns an error or asks it to, and what the processor does may be undefined. The steps are
  taken one after the other, in any order; that the stores of a thread become visible in program order is assumed.
\<close>

section \<open>The operations in their steps\<close>

definition pop_wipe :: "que_obj \<Rightarrow> que_obj run" where
  "pop_wipe q =
     bindR (cell_at q (front q)) (\<lambda>e. set_cell q (front q) (e\<lparr>edata_len := 0, estatus := 0\<rparr>))"

definition pop_release :: "que_obj \<Rightarrow> que_obj run" where
  "pop_release q = assertR (blk_num q \<noteq> 0) DivByZero (Inr (q\<lparr>front := (front q + 1) mod blk_num q\<rparr>))"

definition advance_tail :: "que_obj \<Rightarrow> que_obj" where
  "advance_tail q = q\<lparr>tail := (tail q + 1) mod blk_num q\<rparr>"

lemma set_cell_fields:
  assumes "set_cell q i e = Inr q'"
  shows "front q' = front q" "tail q' = tail q" "blk_num q' = blk_num q" "blk_size q' = blk_size q"
  using assms by (auto simp: set_cell_def bindR_def split: sum.splits)

text \<open>Put together they are the operations.\<close>

lemma pop_in_steps:
  "que_obj_pop q = (if que_obj_empty q then Inr (F1G_OK, q)
     else bindR (pop_wipe q) (\<lambda>q'. bindR (pop_release q') (\<lambda>q''. Inr (F1G_OK, q''))))"
  by (auto simp: que_obj_pop_def que_obj_empty_def pop_wipe_def pop_release_def bindR_assoc assertR_def
      set_cell_def bindR_def split: sum.splits)

lemma move_next_in_steps:
  "que_obj_move_next q = bindR (que_obj_full q) (\<lambda>full. Inr (if full then (F1G_ERR, q) else (F1G_OK, advance_tail q)))"
  by (auto simp: que_obj_move_next_def advance_tail_def bindR_def split: sum.splits)

section \<open>The system\<close>

datatype access_phase = Detecting | Staged sock_info | Has_room sock_info

text \<open>
  Where the worker is in its loop: at the test for an empty queue; with an entry it has read the address of;
  behind the receiving and processing; behind the answering; between the two stores of the removal. It leaves the
  loop by the \<^verbatim>\<open>break\<close> behind the processing (\<open>Broken\<close>) or because \<^verbatim>\<open>r_flag\<close> is 0 (\<open>Exited\<close>); \<open>Crashed\<close> is
  undefined behaviour in the processor, the receiving or the answering.
\<close>

datatype worker_phase =
    Polling | Holding sock_info | Served sock_info | Answered sock_info | Wiped | Broken | Exited | Crashed fault

text \<open>\<open>wk\<close> and \<open>locals\<close> are the worker, apart from its queue, and the local variables of its function; \<open>acts\<close> is
  what it has done to its sockets. \<open>offered\<close>, \<open>dropped\<close> and \<open>taken\<close> record what was put into the queue, what was not
  because it was full, and what the worker took.\<close>

record sys =
  shared :: que_obj
  aphase :: access_phase
  wphase :: worker_phase
  wk :: worker
  locals :: worker_locals
  acts :: "sock_act list"
  offered :: "sock_info list"
  dropped :: "sock_info list"
  taken :: "sock_info list"

inductive access_step :: "sys \<Rightarrow> sys \<Rightarrow> bool" where
  Stage: "aphase s = Detecting \<Longrightarrow> stage si (shared s) = Inr q \<Longrightarrow>
    access_step s (s\<lparr>shared := q, aphase := Staged si\<rparr>)"
| Full: "aphase s = Staged si \<Longrightarrow> que_obj_full (shared s) = Inr True \<Longrightarrow>
    access_step s (s\<lparr>aphase := Detecting, dropped := dropped s @ [si]\<rparr>)"
| Room: "aphase s = Staged si \<Longrightarrow> que_obj_full (shared s) = Inr False \<Longrightarrow>
    access_step s (s\<lparr>aphase := Has_room si\<rparr>)"
| Publish: "aphase s = Has_room si \<Longrightarrow>
    access_step s (s\<lparr>shared := advance_tail (shared s), aphase := Detecting, offered := offered s @ [si]\<rparr>)"

text \<open>The body of the loop. What arrives, \<open>evs\<close>, is chosen by the environment.\<close>

inductive worker_step :: "sys \<Rightarrow> sys \<Rightarrow> bool" where
  Take: "wphase s = Polling \<Longrightarrow> \<not> que_obj_empty (shared s) \<Longrightarrow> cell_at (shared s) (front (shared s)) = Inr e \<Longrightarrow>
    sock_of (edata e) = Inr si \<Longrightarrow> worker_step s (s\<lparr>wphase := Holding si, taken := taken s @ [si]\<rparr>)"
| Receive: "wphase s = Holding si \<Longrightarrow> sock_status si = SST_DATA_IN \<Longrightarrow>
    worker_receive evs si (wk s) (locals s) = Inr (Some (brk, w, l, a)) \<Longrightarrow>
    worker_step s (s\<lparr>wphase := (if brk then Broken else Served si), wk := w, locals := l, acts := acts s @ a\<rparr>)"
| Receive_fault: "wphase s = Holding si \<Longrightarrow> sock_status si = SST_DATA_IN \<Longrightarrow>
    worker_receive evs si (wk s) (locals s) = Inl f \<Longrightarrow> worker_step s (s\<lparr>wphase := Crashed f\<rparr>)"
| No_data: "wphase s = Holding si \<Longrightarrow> sock_status si \<noteq> SST_DATA_IN \<Longrightarrow> worker_step s (s\<lparr>wphase := Served si\<rparr>)"
| Respond: "wphase s = Served si \<Longrightarrow> worker_respond si (wk s) (locals s) = Inr (l, a) \<Longrightarrow>
    worker_step s (s\<lparr>wphase := Answered si, locals := l, acts := acts s @ a\<rparr>)"
| Respond_fault: "wphase s = Served si \<Longrightarrow> worker_respond si (wk s) (locals s) = Inl f \<Longrightarrow>
    worker_step s (s\<lparr>wphase := Crashed f\<rparr>)"
| Wipe: "wphase s = Answered si \<Longrightarrow> pop_wipe (shared s) = Inr q \<Longrightarrow>
    worker_step s (s\<lparr>shared := q, wphase := Wiped\<rparr>)"
| Release: "wphase s = Wiped \<Longrightarrow> pop_release (shared s) = Inr q \<Longrightarrow>
    worker_step s (s\<lparr>shared := q, wphase := (if r_flag (locals s) then Polling else Exited)\<rparr>)"

inductive_cases access_stepE: "access_step s s'"
inductive_cases worker_stepE: "worker_step s s'"

inductive reach :: "worker \<Rightarrow> que_obj \<Rightarrow> sys \<Rightarrow> bool" for w0 q0 where
  Start: "reach w0 q0 \<lparr>shared = q0, aphase = Detecting, wphase = Polling, wk = w0,
    locals = \<lparr>r_flag = True, recv_stat = 0, proc_stat = PROC_ST_INIT\<rparr>, acts = [], offered = [], dropped = [], taken = []\<rparr>"
| Access: "reach w0 q0 s \<Longrightarrow> access_step s s' \<Longrightarrow> reach w0 q0 s'"
| Worker: "reach w0 q0 s \<Longrightarrow> worker_step s s' \<Longrightarrow> reach w0 q0 s'"

section \<open>The invariant\<close>

text \<open>What is in the queue behind the entry the worker has taken.\<close>

definition waiting :: "sys \<Rightarrow> bytes list" where
  "waiting s = (if wphase s \<in> {Polling, Exited} then que_list (shared s) else drop 1 (que_list (shared s)))"

definition tail_holds :: "que_obj \<Rightarrow> sock_info \<Rightarrow> bool" where
  "tail_holds q si \<longleftrightarrow> (\<exists>e. cell_at q (tail q) = Inr e \<and> payload e = sock_bytes si)"

definition head_holds :: "que_obj \<Rightarrow> sock_info \<Rightarrow> bool" where
  "head_holds q si \<longleftrightarrow> (\<exists>e. cell_at q (front q) = Inr e \<and> sock_of (edata e) = Inr si)"

definition sys_inv :: "sys \<Rightarrow> bool" where
  "sys_inv s \<longleftrightarrow> que_inv (shared s) \<and> 12 \<le> blk_size (shared s) - sizeof_elem
     \<and> map sock_bytes (offered s) = map sock_bytes (taken s) @ waiting s
     \<and> (case aphase s of Detecting \<Rightarrow> True | Staged si \<Rightarrow> tail_holds (shared s) si
        | Has_room si \<Rightarrow> tail_holds (shared s) si \<and> que_count (shared s) < que_cap (shared s))
     \<and> (case wphase s of Polling \<Rightarrow> True
        | Holding si \<Rightarrow> (\<exists>xs. que_list (shared s) = sock_bytes si # xs)
        | Served si \<Rightarrow> (\<exists>xs. que_list (shared s) = sock_bytes si # xs)
        | Answered si \<Rightarrow> (\<exists>xs. que_list (shared s) = sock_bytes si # xs)
        | Exited \<Rightarrow> True
        | Broken \<Rightarrow> que_list (shared s) \<noteq> []
        | Crashed _ \<Rightarrow> que_list (shared s) \<noteq> []
        | Wiped \<Rightarrow> que_list (shared s) \<noteq> []
            \<and> (\<exists>e. cell_at (shared s) (front (shared s)) = Inr e \<and> edata_len e = 0 \<and> estatus e = 0))"

text \<open>Steps of the ring.\<close>

lemma cell_at_set:
  assumes "set_cell q i e = Inr q'" and "cell_at q j = Inr d"
  shows "cell_at q' j = Inr (if i = j then e else d)"
  using assms
  by (auto simp: set_cell_def cell_at_def blk_addr_def rd_def wr_def bindR_def nth_list_update split: if_splits sum.splits)

lemma nonempty_iff: "que_inv q \<Longrightarrow> que_list q \<noteq> [] \<longleftrightarrow> front q \<noteq> tail q"
  using que_empty_iff by (auto simp: que_obj_empty_def)

lemma pop_wipe_spec:
  assumes "que_inv q" and "que_list q = x # xs"
  shows "\<exists>q' e. pop_wipe q = Inr q' \<and> que_inv q' \<and> que_list q' = [] # xs \<and> que_count q' = que_count q
    \<and> que_cap q' = que_cap q \<and> blk_size q' = blk_size q
    \<and> cell_at q' (front q') = Inr e \<and> edata_len e = 0 \<and> estatus e = 0
    \<and> tail q' = tail q \<and> cell_at q' (tail q) = cell_at q (tail q)"
proof -
  have b: "0 < blk_num q" "0 \<le> front q" "front q < blk_num q" "0 \<le> tail q" "tail q < blk_num q"
    using assms(1) by (auto simp: que_inv_def)
  obtain cs where cs: "cells q = Live cs" "cell_at q (front q) = Inr (cs ! nat (front q))" "nat (front q) < length cs"
      "length (edata (cs ! nat (front q))) = nat (blk_size q - sizeof_elem)"
    using cell_at_ok [OF assms(1) b(2,3)] by blast
  define e where "e = (cs ! nat (front q))\<lparr>edata_len := 0, estatus := 0\<rparr>"
  define q' where "q' = q\<lparr>cells := Live (cs[nat (front q) := e])\<rparr>"
  have run: "pop_wipe q = Inr q'"
    using cs b cell_at_live(2) [OF assms(1) b(2,3) cs(1)] by (simp add: pop_wipe_def q'_def e_def)
  have f: "front q' = front q" "tail q' = tail q" "blk_num q' = blk_num q" "blk_size q' = blk_size q"
    "cells q' = Live (cs[nat (front q) := e])"
    by (simp_all add: q'_def)
  have cnt: "que_count q' = que_count q" by (simp add: que_count_def f)
  have pos: "0 < que_count q" "int (que_count q) < blk_num q"
    using assms(2) length_que_list [of q] b(1) by (simp_all add: que_count_def)
  have old: "que_cell q' (Suc k) = que_cell q (Suc k)" if "Suc k < que_count q" for k
  proof -
    have "int (Suc k) < blk_num q" using that pos(2) by linarith
    then have "(front q + int (Suc k)) mod blk_num q \<noteq> front q"
      using b by (auto simp: ring_add split: if_splits)
    moreover have "0 \<le> (front q + int (Suc k)) mod blk_num q" using b(1) by simp
    ultimately have "nat ((front q + int (Suc k)) mod blk_num q) \<noteq> nat (front q)"
      using b(2) by (simp add: nat_eq_iff)
    then show ?thesis using cs(1) by (simp only: que_cell_def f ptr.case) (simp add: nth_list_update_neq)
  qed
  have split: "que_list r = payload (que_cell r 0) # map (\<lambda>k. payload (que_cell r (Suc k))) [0..<que_count q - 1]"
    if "que_count r = que_count q" for r
    using pos(1) that by (cases "que_count q")
      (simp_all add: que_list_def upt_conv_Cons map_Suc_upt [symmetric] comp_def del: upt_Suc)
  have "payload (que_cell q' 0) = []" using cs(3) b by (simp add: que_cell_def f e_def payload_def)
  moreover have "map (\<lambda>k. payload (que_cell q' (Suc k))) [0..<que_count q - 1]
      = map (\<lambda>k. payload (que_cell q (Suc k))) [0..<que_count q - 1]"
    using old by simp
  ultimately have l: "que_list q' = [] # xs" using split [OF cnt] split [of q] assms(2) by simp
  have inv: "que_inv q'"
    using assms(1) cs set_update_subset_insert [of cs "nat (front q)" e] by (auto simp: que_inv_def f e_def)
  have ne: "front q \<noteq> tail q" using nonempty_iff [OF assms(1)] assms(2) by simp
  have t: "cell_at q' (tail q) = cell_at q (tail q)"
    using ne b cs(1) cell_at_live(1) [OF inv, of "tail q"] cell_at_live(1) [OF assms(1) b(4,5)]
    by (simp add: f rd_def nth_list_update_neq nat_eq_iff)
  have h: "cell_at q' (front q') = Inr e" using cs(3) b cell_at_live(1) [OF inv, of "front q"] by (simp add: f)
  show ?thesis
    using run inv l cnt h t by (intro exI [of _ q'] exI [of _ e]) (simp add: f que_cap_def e_def)
qed

lemma pop_release_spec:
  assumes "que_inv q" and "que_list q \<noteq> []" and "cell_at q (front q) = Inr e" and "edata_len e = 0" and "estatus e = 0"
  shows "\<exists>q'. pop_release q = Inr q' \<and> que_inv q' \<and> que_list q' = List.tl (que_list q) \<and> que_cap q' = que_cap q
    \<and> blk_size q' = blk_size q \<and> tail q' = tail q \<and> cell_at q' (tail q) = cell_at q (tail q)"
proof -
  have ne: "front q \<noteq> tail q" using nonempty_iff [OF assms(1)] assms(2) by simp
  have "e\<lparr>edata_len := 0, estatus := 0\<rparr> = e" using assms(4,5) by (cases e) simp
  then have "set_cell q (front q) (e\<lparr>edata_len := 0, estatus := 0\<rparr>) = Inr q"
    using assms(3) by (cases q) (auto simp: set_cell_def cell_at_def rd_def wr_def bindR_def split: if_splits sum.splits ptr.splits)
  then have "que_obj_pop q = bindR (pop_release q) (\<lambda>q'. Inr (F1G_OK, q'))"
    using pop_in_steps [of q] ne assms(3) by (simp add: que_obj_empty_def pop_wipe_def)
  then show ?thesis
    using que_obj_pop_spec [OF assms(1)] assms(1)
    by (auto simp: pop_release_def que_inv_def assertR_def cell_at_def blk_addr_def)
qed

lemma tail_holdsI:
  "cell_at q (tail q) = Inr e \<Longrightarrow> payload e = sock_bytes si \<Longrightarrow> tail_holds q si"
  by (auto simp: tail_holds_def)

lemma stage_spec:
  assumes "que_inv q" and "12 \<le> blk_size q - sizeof_elem" and "stage si q = Inr q'"
  shows "que_inv q' \<and> que_list q' = que_list q \<and> que_cap q' = que_cap q \<and> blk_size q' = blk_size q \<and> tail_holds q' si
    \<and> front q' = front q \<and> (que_list q \<noteq> [] \<longrightarrow> cell_at q' (front q) = cell_at q (front q))"
proof -
  obtain e where e: "stage si q = set_cell q (que_obj_next_freeblk q) e" "payload e = sock_bytes si"
    "length (edata e) = nat (blk_size q - sizeof_elem)"
    using stage_run [OF assms(1,2)] by blast
  obtain q1 where q1: "set_cell q (que_obj_next_freeblk q) e = Inr q1" "que_inv q1" "que_list q1 = que_list q"
    "que_cap q1 = que_cap q" "blk_size q1 = blk_size q"
    using que_set_tail_cell [OF assms(1) e(3)] by blast
  have q': "q1 = q'" using assms(3) e(1) q1(1) by simp
  have st: "set_cell q (tail q) e = Inr q'" using q1(1) q' by (simp add: que_obj_next_freeblk_def)
  note f = set_cell_fields [OF st]
  have b: "0 \<le> tail q" "tail q < blk_num q" "0 \<le> front q" "front q < blk_num q" using assms(1) by (auto simp: que_inv_def)
  obtain d where "cell_at q (tail q) = Inr d" using cell_at_ok [OF assms(1) b(1,2)] by blast
  then have "cell_at q' (tail q) = Inr e" using cell_at_set [OF st] by simp
  then have th: "tail_holds q' si" using e(2) f(2) by (intro tail_holdsI) simp_all
  have "cell_at q' (front q) = cell_at q (front q)" if "que_list q \<noteq> []"
  proof -
    obtain d where "cell_at q (front q) = Inr d" using cell_at_ok [OF assms(1) b(3,4)] by blast
    then show ?thesis using cell_at_set [OF st] nonempty_iff [OF assms(1)] that by auto
  qed
  then show ?thesis using q1 th f(1) unfolding q' by simp
qed

lemma advance_spec:
  assumes "que_inv q" and "que_count q < que_cap q" and "tail_holds q si"
  shows "que_inv (advance_tail q) \<and> que_list (advance_tail q) = que_list q @ [sock_bytes si]
    \<and> que_cap (advance_tail q) = que_cap q \<and> blk_size (advance_tail q) = blk_size q
    \<and> front (advance_tail q) = front q \<and> cell_at (advance_tail q) j = cell_at q j"
proof -
  obtain e where e: "cell_at q (tail q) = Inr e" "payload e = sock_bytes si" using assms(3) by (auto simp: tail_holds_def)
  have b: "0 \<le> tail q" "tail q < blk_num q" using assms(1) by (auto simp: que_inv_def)
  obtain cs where cs: "cells q = Live cs" "cell_at q (tail q) = Inr (cs ! nat (tail q))"
      "length (edata (cs ! nat (tail q))) = nat (blk_size q - sizeof_elem)"
    using cell_at_ok [OF assms(1) b] by blast
  have "cs ! nat (tail q) = e" using cs(2) e(1) by simp
  then have "q\<lparr>cells := Live (cs[nat (tail q) := e]), tail := (tail q + 1) mod blk_num q\<rparr> = advance_tail q"
    using cs(1) by (cases q) (auto simp: advance_tail_def)
  then show ?thesis
    using que_push_tail [OF assms(1,2) cs(1) e(2)] cs(2,3) e(1) by (simp add: advance_tail_def cell_at_def blk_addr_def)
qed

lemmas sys_simps = sys_inv_def waiting_def

lemma access_step_inv:
  assumes "access_step s s'" and "sys_inv s"
  shows "sys_inv s'"
  using assms
proof (induction rule: access_step.induct)
  case (Stage s si q)
  have i: "que_inv (shared s)" "12 \<le> blk_size (shared s) - sizeof_elem" using Stage.prems by (auto simp: sys_simps)
  from stage_spec [OF i Stage.hyps(2)] show ?case
    using Stage.prems by (cases "wphase s") (auto simp: sys_simps)
next
  case (Full s si)
  then show ?case by (cases "wphase s") (auto simp: sys_simps)
next
  case (Room s si)
  then show ?case using que_obj_full_run [of "shared s"] by (cases "wphase s") (auto simp: sys_simps)
next
  case (Publish s si)
  then have i: "que_inv (shared s)" "que_count (shared s) < que_cap (shared s)" "tail_holds (shared s) si"
    by (auto simp: sys_simps)
  have c: "Suc 0 - que_count (shared s) = 0" if "wphase s \<notin> {Polling, Exited}"
  proof -
    have "que_list (shared s) \<noteq> []" using that Publish.prems by (cases "wphase s") (auto simp: sys_simps)
    then show ?thesis using length_que_list [of "shared s"] by (cases "que_list (shared s)") auto
  qed
  from advance_spec [OF i] show ?case
    using Publish c by (cases "wphase s") (auto simp: sys_simps)
qed

lemma que_count_list: "que_count q = length (que_list q)"
  by simp

lemma worker_step_inv:
  assumes "worker_step s s'" and "sys_inv s"
  shows "sys_inv s'"
  using assms
proof (induction rule: worker_step.induct)
  case (Take s e si)
  have i: "que_inv (shared s)" "map sock_bytes (offered s) = map sock_bytes (taken s) @ que_list (shared s)"
    using Take.prems Take.hyps(1) by (auto simp: sys_simps)
  have "que_list (shared s) \<noteq> []" using que_empty_iff [OF i(1)] Take.hyps(2) by simp
  then obtain x xs where x: "que_list (shared s) = x # xs" by (cases "que_list (shared s)") auto
  then have "x \<in> set (map sock_bytes (offered s))" using i(2) by simp
  then obtain si' where si': "x = sock_bytes si'" by auto
  have "si' = si" using worker_head(2) [OF i(1)] x si' Take.hyps(3,4) by fastforce
  then show ?case using Take x si' by (auto simp: sys_simps split: access_phase.splits)
next
  case (Wipe s si q)
  then obtain xs where i: "que_inv (shared s)" "que_list (shared s) = sock_bytes si # xs" by (auto simp: sys_simps)
  obtain e where e: "que_inv q" "que_list q = [] # xs" "que_count q = que_count (shared s)" "que_cap q = que_cap (shared s)"
    "blk_size q = blk_size (shared s)" "cell_at q (front q) = Inr e" "edata_len e = 0" "estatus e = 0"
    "tail q = tail (shared s)" "cell_at q (tail (shared s)) = cell_at (shared s) (tail (shared s))"
    using pop_wipe_spec [OF i] Wipe.hyps(2) by auto
  have "tail_holds q a" if "tail_holds (shared s) a" for a using that e(9,10) by (simp add: tail_holds_def)
  then show ?case using Wipe e i by (auto simp: sys_simps split: access_phase.splits)
next
  case (Release s q)
  then obtain e where i: "que_inv (shared s)" "que_list (shared s) \<noteq> []"
    "cell_at (shared s) (front (shared s)) = Inr e" "edata_len e = 0" "estatus e = 0" by (auto simp: sys_simps)
  have r: "que_inv q" "que_list q = List.tl (que_list (shared s))" "que_cap q = que_cap (shared s)"
    "blk_size q = blk_size (shared s)" "tail q = tail (shared s)" "cell_at q (tail (shared s)) = cell_at (shared s) (tail (shared s))"
    using pop_release_spec [OF i] Release.hyps(2) by auto
  have "tail_holds q a" if "tail_holds (shared s) a" for a using that r(5,6) by (simp add: tail_holds_def)
  moreover have "que_count q < que_cap q" if "que_count (shared s) < que_cap (shared s)"
    using that r(2,3) unfolding que_count_list by simp
  ultimately show ?case using Release r by (auto simp: sys_simps drop_Suc split: access_phase.splits)
qed (auto simp: sys_simps split: access_phase.splits)

definition shared_init :: "que_obj \<Rightarrow> bool" where
  "shared_init q \<longleftrightarrow> que_inv q \<and> que_list q = [] \<and> 12 \<le> blk_size q - sizeof_elem"

lemma reach_inv: "reach w0 q0 s \<Longrightarrow> shared_init q0 \<Longrightarrow> sys_inv s"
proof (induction rule: reach.induct)
  case Start
  then show ?case by (simp add: sys_simps shared_init_def)
qed (auto intro: access_step_inv worker_step_inv)

section \<open>Properties\<close>

text \<open>C2. Whatever way the two threads interleave on their queue without a lock: the entries taken are a prefix
  of those put in, in order, the rest is what waits; the entry the worker is at is still in its cell, while it
  receives, has it processed and answers, however far the access thread has come; and the one the access thread has staged is still in its own.\<close>

theorem queue_shared_safely:
  assumes "reach w0 q0 s" and "shared_init q0"
  shows "map sock_bytes (offered s) = map sock_bytes (taken s) @ waiting s
    \<and> (\<forall>si. wphase s \<in> {Holding si, Served si, Answered si} \<longrightarrow> head_holds (shared s) si)
    \<and> (\<forall>si. aphase s \<in> {Staged si, Has_room si} \<longrightarrow> tail_holds (shared s) si)"
proof -
  have i: "sys_inv s" by (rule reach_inv [OF assms])
  have "head_holds (shared s) si" if h: "wphase s \<in> {Holding si, Served si, Answered si}" for si
  proof -
    obtain xs where "que_inv (shared s)" "que_list (shared s) = sock_bytes si # xs" using i h by (auto simp: sys_simps)
    then show ?thesis using worker_head(2) by (auto simp: head_holds_def)
  qed
  then show ?thesis using i by (auto simp: sys_inv_def)
qed

section \<open>The worker runs out\<close>

text \<open>An upper bound of the steps left to the worker while the access thread rests.\<close>

definition work_left :: "sys \<Rightarrow> nat" where
  "work_left s =
     (case wphase s of Polling \<Rightarrow> 5 * length (waiting s) | Holding _ \<Rightarrow> 5 * length (waiting s) + 4
      | Served _ \<Rightarrow> 5 * length (waiting s) + 3 | Answered _ \<Rightarrow> 5 * length (waiting s) + 2
      | Wiped \<Rightarrow> 5 * length (waiting s) + 1 | _ \<Rightarrow> 0)"

lemma work_left_bound:
  assumes "sys_inv s"
  shows "work_left s \<le> 5 * que_count (shared s)"
proof (cases "que_list (shared s)")
  case Nil
  then show ?thesis using assms by (cases "wphase s") (auto simp: work_left_def sys_simps length_que_list [symmetric] simp del: length_que_list)
next
  case (Cons x xs)
  then show ?thesis by (cases "wphase s") (auto simp: work_left_def waiting_def length_que_list [symmetric] simp del: length_que_list)
qed

lemma worker_step_decreases:
  assumes "worker_step s s'" and "sys_inv s"
  shows "work_left s' < work_left s"
  using assms
proof (induction rule: worker_step.induct)
  case (Take s e si)
  then have "que_list (shared s) \<noteq> []" using que_empty_iff by (auto simp: sys_simps)
  then show ?case
    using Take.hyps(1) by (cases "que_list (shared s)") (simp_all add: work_left_def waiting_def length_que_list [symmetric] del: length_que_list)
next
  case (Wipe s si q)
  then obtain xs where i: "que_inv (shared s)" "que_list (shared s) = sock_bytes si # xs" by (auto simp: sys_simps)
  have "que_count q = que_count (shared s)" using pop_wipe_spec [OF i] Wipe.hyps(2) by auto
  then show ?case using Wipe.hyps(1) by (simp add: work_left_def waiting_def)
next
  case (Release s q)
  then obtain e where i: "que_inv (shared s)" "que_list (shared s) \<noteq> []"
    "cell_at (shared s) (front (shared s)) = Inr e" "edata_len e = 0" "estatus e = 0" by (auto simp: sys_simps)
  have "que_list q = List.tl (que_list (shared s))" using pop_release_spec [OF i] Release.hyps(2) by auto
  then have "que_count q = que_count (shared s) - 1" by (metis length_que_list length_tl)
  then show ?case using Release.hyps(1) by (simp add: work_left_def waiting_def)
qed (simp_all add: work_left_def waiting_def)

lemma worker_steps_bounded:
  "(worker_step ^^ n) s s' \<Longrightarrow> sys_inv s \<Longrightarrow> n + work_left s' \<le> work_left s \<and> sys_inv s' \<and> offered s' = offered s"
proof (induction n arbitrary: s')
  case (Suc n)
  then obtain t where t: "(worker_step ^^ n) s t" "worker_step t s'" by auto
  have i: "n + work_left t \<le> work_left s" "sys_inv t" "offered t = offered s" using Suc.IH [OF t(1) Suc.prems(2)] by auto
  have "offered s' = offered t" using t(2) by (cases rule: worker_step.cases) simp_all
  then show ?case using worker_step_decreases [OF t(2) i(2)] worker_step_inv [OF t(2) i(2)] i(1,3) by simp
qed simp

text \<open>While it has not left its loop, the worker can take a step unless its queue is empty.\<close>

definition stopped :: "worker_phase \<Rightarrow> bool" where
  "stopped p \<longleftrightarrow> p = Broken \<or> p = Exited \<or> (\<exists>f. p = Crashed f)"

lemma receive_ends: "worker_receive [Closed] si w l \<noteq> Inr None"
  by (auto simp: worker_receive_def nonblk_recvfrom_def bindR_def Let_def split: sum.splits option.splits if_splits prod.splits)

lemma worker_enabled:
  assumes "sys_inv s" and "\<not> stopped (wphase s)" and "wphase s = Polling \<longrightarrow> \<not> que_obj_empty (shared s)"
  shows "\<exists>s'. worker_step s s'"
proof (cases "wphase s")
  case Polling
  have i: "que_inv (shared s)" "map sock_bytes (offered s) = map sock_bytes (taken s) @ que_list (shared s)"
    using assms(1) Polling by (auto simp: sys_simps)
  have "que_list (shared s) \<noteq> []" using que_empty_iff [OF i(1)] assms(3) Polling by simp
  then obtain x xs where x: "que_list (shared s) = x # xs" by (cases "que_list (shared s)") auto
  then have "x \<in> set (map sock_bytes (offered s))" using i(2) by simp
  then obtain si where si: "que_list (shared s) = sock_bytes si # xs" using x by auto
  obtain e where "cell_at (shared s) (front (shared s)) = Inr e" "sock_of (edata e) = Inr si"
    using worker_head(2) [OF i(1) si] by blast
  then show ?thesis using worker_step.Take [OF Polling worker_head(1) [OF i(1) si]] by blast
next
  case (Holding si)
  show ?thesis
  proof (cases "sock_status si = SST_DATA_IN")
    case True
    show ?thesis
    proof (cases "worker_receive [Closed] si (wk s) (locals s)")
      case (Inl f)
      then show ?thesis using worker_step.Receive_fault [OF Holding True] by blast
    next
      case (Inr r)
      then obtain brk w l a where "worker_receive [Closed] si (wk s) (locals s) = Inr (Some (brk, w, l, a))"
        using receive_ends [of si "wk s" "locals s"] by (cases r) auto
      then show ?thesis using worker_step.Receive [OF Holding True] by blast
    qed
  next
    case False
    then show ?thesis using worker_step.No_data [OF Holding] by blast
  qed
next
  case (Served si)
  then show ?thesis
    by (cases "worker_respond si (wk s) (locals s)") (auto intro: worker_step.Respond worker_step.Respond_fault)
next
  case (Answered si)
  then obtain xs where "que_inv (shared s)" "que_list (shared s) = sock_bytes si # xs" using assms(1) by (auto simp: sys_simps)
  then obtain q where "pop_wipe (shared s) = Inr q" using pop_wipe_spec by blast
  then show ?thesis using worker_step.Wipe [OF Answered] by blast
next
  case Wiped
  then have "blk_num (shared s) \<noteq> 0" using assms(1) by (auto simp: sys_inv_def que_inv_def)
  then obtain q where "pop_release (shared s) = Inr q" by (auto simp: pop_release_def assertR_def)
  then show ?thesis using worker_step.Release [OF Wiped] by blast
qed (use assms(2) in \<open>auto simp: stopped_def\<close>)

lemma drained:
  assumes "sys_inv s" and "wphase s = Polling" and "que_obj_empty (shared s)"
  shows "taken s = offered s"
proof -
  have "que_list (shared s) = []" using que_empty_iff assms(1,3) by (auto simp: sys_inv_def)
  then have "map sock_bytes (offered s) = map sock_bytes (taken s)" using assms(1,2) by (simp add: sys_simps)
  then have "map sock_of (map sock_bytes (offered s)) = map sock_of (map sock_bytes (taken s))" by simp
  moreover have "map sock_of (map sock_bytes xs) = map Inr xs" for xs
    using sock_of_bytes [of _ "[]"] by (induction xs) simp_all
  ultimately show ?thesis by (metis list.inj_map_strong sum.inject(2))
qed

text \<open>The default processor neither fails nor asks the worker to leave.\<close>

definition dft_inv :: "sys \<Rightarrow> bool" where
  "dft_inv s \<longleftrightarrow> w_proc (wk s) = worker_data_fproc_dft \<and> r_flag (locals s) \<and> proc_stat (locals s) \<noteq> PROC_ST_BRKOUT
     \<and> wphase s \<notin> {Broken, Exited}"

lemma receive_dft:
  assumes "worker_receive evs si w l = Inr (Some (brk, w1, l1, a))" and "w_proc w = worker_data_fproc_dft"
    and "proc_stat l \<noteq> PROC_ST_BRKOUT"
  shows "\<not> brk \<and> w_proc w1 = worker_data_fproc_dft \<and> r_flag l1 = r_flag l \<and> proc_stat l1 \<noteq> PROC_ST_BRKOUT"
  using assms
  by (auto simp: worker_receive_def bindR_def Let_def worker_data_fproc_dft_def PROC_ST_SENDBUF_def PROC_ST_BRKOUT_def
      F1G_OK_def split: sum.splits option.splits if_splits prod.splits)

lemma worker_step_dft: "worker_step s s' \<Longrightarrow> dft_inv s \<Longrightarrow> dft_inv s'"
  by (induction rule: worker_step.induct)
    (auto simp: dft_inv_def worker_respond_def bindR_def split: if_splits sum.splits dest: receive_dft)

lemma access_step_dft: "access_step s s' \<Longrightarrow> dft_inv s \<Longrightarrow> dft_inv s'"
  by (induction rule: access_step.induct) (auto simp: dft_inv_def)

lemma reach_dft: "reach w0 q0 s \<Longrightarrow> w_proc w0 = worker_data_fproc_dft \<Longrightarrow> dft_inv s"
  by (induction rule: reach.induct)
    (auto simp: dft_inv_def PROC_ST_INIT_def PROC_ST_BRKOUT_def dest: worker_step_dft access_step_dft)

lemma worker_steps_dft: "worker_step\<^sup>*\<^sup>* s s' \<Longrightarrow> dft_inv s \<Longrightarrow> dft_inv s'"
  by (induction rule: rtranclp_induct) (auto dest: worker_step_dft)

text \<open>C35. The worker is never stuck, whatever the processor does and whatever arrives: from every state the two
  threads can reach, every run of its own steps ends after at most five for each entry in its queue; where it
  ends, either all that was put into the queue has been taken, in the order it was put in, and the queue is empty,
  or the worker has left its loop or the processor has done something undefined. With the default processor it
  never leaves the loop.\<close>

theorem worker_drains_or_stops:
  assumes "reach w0 q0 s" and "shared_init q0"
  shows "(\<forall>n s'. (worker_step ^^ n) s s' \<longrightarrow> n \<le> 5 * que_count (shared s))
    \<and> (\<forall>s'. worker_step\<^sup>*\<^sup>* s s' \<and> (\<forall>t. \<not> worker_step s' t) \<longrightarrow>
         stopped (wphase s') \<or> taken s' = offered s \<and> que_obj_empty (shared s'))
    \<and> (w_proc w0 = worker_data_fproc_dft \<longrightarrow> (\<forall>s'. worker_step\<^sup>*\<^sup>* s s' \<longrightarrow> wphase s' \<noteq> Broken \<and> wphase s' \<noteq> Exited))"
proof -
  have i: "sys_inv s" by (rule reach_inv [OF assms])
  have bound: "n \<le> 5 * que_count (shared s)" if "(worker_step ^^ n) s s'" for n s'
    using worker_steps_bounded [OF that i] work_left_bound [OF i] by linarith
  have ends: "stopped (wphase s') \<or> taken s' = offered s \<and> que_obj_empty (shared s')"
    if r: "worker_step\<^sup>*\<^sup>* s s'" and n: "\<forall>t. \<not> worker_step s' t" for s'
  proof -
    obtain n where "(worker_step ^^ n) s s'" using r by (auto simp: rtranclp_power)
    then have "sys_inv s'" "offered s' = offered s" using worker_steps_bounded i by auto
    then show ?thesis using worker_enabled [of s'] drained [of s'] n by auto
  qed
  have dft: "wphase s' \<noteq> Broken \<and> wphase s' \<noteq> Exited"
    if "w_proc w0 = worker_data_fproc_dft" "worker_step\<^sup>*\<^sup>* s s'" for s'
    using worker_steps_dft [OF that(2) reach_dft [OF assms(1) that(1)]] by (simp add: dft_inv_def)
  show ?thesis using bound ends dft by blast
qed

definition sample_que :: que_obj where
  "sample_que = \<lparr>front = 0, tail = 0, blk_size = 20, blk_num = 2,
     cells = Live (replicate 2 \<lparr>estatus = 0, edata_len = 0, edata = replicate 12 0\<rparr>)\<rparr>"

definition sample_que1 :: "sock_info \<Rightarrow> que_obj" where
  "sample_que1 si = sample_que\<lparr>cells := Live [\<lparr>estatus = 0, edata_len = 12, edata = sock_bytes si\<rparr>,
     \<lparr>estatus = 0, edata_len = 0, edata = replicate 12 0\<rparr>]\<rparr>"

lemma sample_que: "shared_init sample_que"
  by (simp add: sample_que_def shared_init_def que_inv_def que_list_def que_count_def sizeof_elem_def)

abbreviation sample_sys :: "sock_info \<Rightarrow> sys" where
  "sample_sys si \<equiv> \<lparr>shared = advance_tail (sample_que1 si), aphase = Detecting, wphase = Holding si, wk = sample_worker [],
     locals = \<lparr>r_flag = True, recv_stat = 0, proc_stat = PROC_ST_INIT\<rparr>, acts = [], offered = [si], dropped = [], taken = [si]\<rparr>"

lemma sample_reach: "reach (sample_worker []) sample_que (sample_sys si)"
proof -
  let ?s0 = "\<lparr>shared = sample_que, aphase = Detecting, wphase = Polling, wk = sample_worker [],
    locals = \<lparr>r_flag = True, recv_stat = 0, proc_stat = PROC_ST_INIT\<rparr>, acts = [], offered = [], dropped = [], taken = []\<rparr>"
  let ?s1 = "?s0\<lparr>shared := sample_que1 si, aphase := Staged si\<rparr>"
  let ?s2 = "?s1\<lparr>aphase := Has_room si\<rparr>"
  let ?s3 = "?s2\<lparr>shared := advance_tail (shared ?s2), aphase := Detecting, offered := offered ?s2 @ [si]\<rparr>"
  have d: "drop 12 (replicate 12 (0 :: u8)) = []" by simp
  have "stage si sample_que = Inr (sample_que1 si)"
    by (simp add: stage_def sample_que_def sample_que1_def cell_at_def blk_addr_def que_obj_next_freeblk_def set_cell_def numeral_2_eq_2)
  then have 1: "access_step ?s0 ?s1" by (intro access_step.Stage) simp_all
  have 2: "access_step ?s1 ?s2"
    by (intro access_step.Room) (simp_all add: que_obj_full_def sample_que1_def sample_que_def)
  have 3: "access_step ?s2 ?s3" by (intro access_step.Publish) simp
  have e: "cell_at (advance_tail (sample_que1 si)) 0 = Inr \<lparr>estatus = 0, edata_len = 12, edata = sock_bytes si\<rparr>"
    by (simp add: cell_at_def blk_addr_def advance_tail_def sample_que1_def sample_que_def)
  have f: "front (advance_tail (sample_que1 si)) = 0" "tail (advance_tail (sample_que1 si)) = 1"
    by (simp_all add: advance_tail_def sample_que1_def sample_que_def)
  have "worker_step ?s3 (?s3\<lparr>wphase := Holding si, taken := taken ?s3 @ [si]\<rparr>)"
    by (rule worker_step.Take [where e = "\<lparr>estatus = 0, edata_len = 12, edata = sock_bytes si\<rparr>"]) (use e f sock_of_bytes [of si "[]"] in \<open>simp_all add: que_obj_empty_def\<close>)
  from reach.Worker [OF reach.Access [OF reach.Access [OF reach.Access [OF reach.Start 1] 2] 3] this]
  show ?thesis by simp
qed

lemma queue_shared_safely_witness:
  "head_holds (advance_tail (sample_que1 \<lparr>sfd = 5, src_ip = 1, src_port = 2, sock_status = 1\<rparr>))
     \<lparr>sfd = 5, src_ip = 1, src_port = 2, sock_status = 1\<rparr>"
  using queue_shared_safely [OF sample_reach sample_que] by simp

text \<open>From the state in which the worker has taken the only entry: at most five steps, none of which leaves the loop.\<close>

lemma worker_drains_or_stops_witness:
  "\<not> (\<exists>n s'. 5 < n \<and> (worker_step ^^ n) (sample_sys (sample_info 5 1)) s')
    \<and> \<not> (\<exists>s'. worker_step\<^sup>*\<^sup>* (sample_sys (sample_info 5 1)) s' \<and> (\<forall>t. \<not> worker_step s' t) \<and> (\<forall>f. wphase s' \<noteq> Crashed f)
         \<and> \<not> (taken s' = [sample_info 5 1] \<and> que_obj_empty (shared s')))"
proof -
  have c: "que_count (advance_tail (sample_que1 si)) = 1" for si
    by (simp add: que_count_def advance_tail_def sample_que1_def sample_que_def)
  have p: "w_proc (sample_worker []) = worker_data_fproc_dft" by (simp add: sample_worker_def)
  note t = worker_drains_or_stops [OF sample_reach [of "sample_info 5 1"] sample_que]
  have "n \<le> 5" if "(worker_step ^^ n) (sample_sys (sample_info 5 1)) s'" for n s' using t that c by auto
  moreover have "taken s' = [sample_info 5 1] \<and> que_obj_empty (shared s')"
    if "worker_step\<^sup>*\<^sup>* (sample_sys (sample_info 5 1)) s'" "\<forall>t. \<not> worker_step s' t" "\<forall>f. wphase s' \<noteq> Crashed f" for s'
    using t that p by (auto simp: stopped_def)
  ultimately show ?thesis by fastforce
qed

end
