(* ===== verification/Smart_Conf.thy ===== *)
theory Smart_Conf
  imports Numbers
begin

text \<open>
  The configuration files of \<^verbatim>\<open>src/f1g_smart_conf.c\<close>: sections of items in arrays that grow, the
  reader of INI files with its chunked reading, and the typed lookups. The file is the environment: what
  \<^verbatim>\<open>open\<close> and \<^verbatim>\<open>fstat\<close> give and the outcomes of the successive \<^verbatim>\<open>read\<close> calls.
\<close>

section \<open>Structs\<close>

definition ITEM_NAME_SIZE :: nat where "ITEM_NAME_SIZE = 64"
definition SEC_NAME_SIZE :: nat where "SEC_NAME_SIZE = 64"
definition DFT_SEC_SIZE :: int where "DFT_SEC_SIZE = 20"
definition DFT_ITEM_SIZE :: int where "DFT_ITEM_SIZE = 20"
definition CFT_INI :: int where "CFT_INI = 0"
definition CFT_LINE :: int where "CFT_LINE = 1"

record item =
  item_name :: bytes
  val_len :: int
  val :: "bytes ptr"

record sec =
  sec_name :: bytes
  item_num :: int
  item_size :: int
  p_items :: "item list ptr"

record smart_conf =
  sec_num :: int
  sec_size :: int
  p_secs :: "sec list ptr"

text \<open>Zeroed structs.\<close>

definition zero_item :: item where
  "zero_item = \<lparr>item_name = replicate ITEM_NAME_SIZE 0, val_len = 0, val = Null\<rparr>"

definition zero_sec :: sec where
  "zero_sec = \<lparr>sec_name = replicate SEC_NAME_SIZE 0, item_num = 0, item_size = 0, p_items = Null\<rparr>"

section \<open>Creating and growing\<close>

text \<open>\<open>oks 0\<close> is the outcome of the first allocation, \<open>oks (i + 1)\<close> that of the items of section \<open>i\<close>.\<close>

definition smart_conf_init :: "(nat \<Rightarrow> bool) \<Rightarrow> smart_conf \<Rightarrow> int \<Rightarrow> int \<Rightarrow> int \<times> smart_conf" where
  "smart_conf_init oks c sec_sz0 item_sz0 =
     (let sec_sz = (if sec_sz0 \<le> 0 then DFT_SEC_SIZE else sec_sz0);
          item_sz = (if item_sz0 \<le> 0 then DFT_ITEM_SIZE else item_sz0) in
      if \<not> oks 0 \<or> \<not> list_all (\<lambda>i. oks (Suc i)) [0..<nat sec_sz] then (F1G_ERR, c)
      else (F1G_OK, \<lparr>sec_num = 0, sec_size = sec_sz, p_secs = Live (replicate (nat sec_sz)
              (zero_sec\<lparr>item_size := item_sz, p_items := Live (replicate (nat item_sz) zero_item)\<rparr>))\<rparr>))"

definition extend_sec_size :: "bool \<Rightarrow> smart_conf \<Rightarrow> int \<Rightarrow> (int \<times> smart_conf) run" where
  "extend_sec_size ok c ext0 =
     (let ext = (if ext0 \<le> sec_size c then (sec_size c + 1) * 2 else ext0) in
      case zalloc ok ext zero_sec of
        Live m \<Rightarrow>
          bindR (if sec_num c > 0 then bindR (deref (p_secs c)) (\<lambda>old. bindR (slice old 0 (sec_num c)) (put m 0))
                 else Inr m) (\<lambda>m'.
          freeR (p_secs c) (Inr (F1G_OK, c\<lparr>p_secs := Live m', sec_size := ext\<rparr>)))
      | _ \<Rightarrow> Inr (F1G_ERR, c\<lparr>p_secs := Null\<rparr>))"

definition extend_item_size :: "bool \<Rightarrow> sec \<Rightarrow> int \<Rightarrow> (int \<times> sec) run" where
  "extend_item_size ok s ext0 =
     (let ext = (if ext0 \<le> item_size s then (item_size s + 1) * 2 else ext0) in
      case zalloc ok ext zero_item of
        Live m \<Rightarrow>
          bindR (if item_num s > 0 then bindR (deref (p_items s)) (\<lambda>old. bindR (slice old 0 (item_num s)) (put m 0))
                 else Inr m) (\<lambda>m'.
          freeR (p_items s) (Inr (F1G_OK, s\<lparr>p_items := Live m', item_size := ext\<rparr>)))
      | _ \<Rightarrow> Inr (F1G_ERR, s\<lparr>p_items := Null\<rparr>))"

section \<open>Reading a line\<close>

text \<open>The local variables of \<^verbatim>\<open>ini_read\<close>: the configuration, \<^verbatim>\<open>p_cur_sec\<close> as an index,
  \<^verbatim>\<open>sec_seq\<close> and \<^verbatim>\<open>item_seq\<close>; \<open>line_no\<close> counts the lines, for the outcomes of their allocations.\<close>

record ini =
  conf :: smart_conf
  cur :: "nat option"
  sec_seq :: nat
  item_seq :: nat
  line_no :: nat

text \<open>The allocations of a line: of a larger array, and of a value.\<close>

type_synonym line_env = "bool \<times> u8 alloc"

fun any_same :: "bytes \<Rightarrow> bytes list \<Rightarrow> bool run" where
  "any_same n [] = Inr False"
| "any_same n (a # as) = bindR (cstr a) (\<lambda>x. if same_case n x then Inr True else any_same n as)"

text \<open>A line that starts with \<^verbatim>\<open>[\<close>; \<open>l\<close> is what follows it.\<close>

definition ini_section :: "line_env \<Rightarrow> ini \<Rightarrow> bytes \<Rightarrow> (int \<times> ini) run" where
  "ini_section env st l =
     (let k = sec_seq st in
      bindR (if int k \<ge> sec_size (conf st) then extend_sec_size (fst env) (conf st) (sec_size (conf st) * 2)
             else Inr (F1G_OK, conf st)) (\<lambda>(r, c).
        if r \<noteq> F1G_OK then Inr (F1G_ERR, st\<lparr>conf := c\<rparr>)
        else
          let name = takeWhile (\<lambda>x. x \<noteq> 0x5D) l; st1 = st\<lparr>conf := c, cur := Some k\<rparr> in
          if length name \<ge> SEC_NAME_SIZE \<or> length name = length l then Inr (F1G_ERR, st1)
          else
            bindR (deref (p_secs c)) (\<lambda>ss.
            bindR (rd ss k) (\<lambda>s.
            bindR (put (sec_name s) 0 (name @ [0])) (\<lambda>nm.
            bindR (wr ss k (s\<lparr>sec_name := nm\<rparr>)) (\<lambda>ss'.
            let st2 = st1\<lparr>conf := c\<lparr>p_secs := Live ss'\<rparr>\<rparr> in
            bindR (any_same name (map sec_name (take k ss'))) (\<lambda>dup.
              if dup then Inr (F1G_ERR, st2)
              else Inr (F1G_OK, st2\<lparr>sec_seq := Suc k, item_seq := 0\<rparr>))))))))"

text \<open>The length of the value in what follows \<^verbatim>\<open>=\<close>: from the first character that is no space to the
  last. Without one, \<^verbatim>\<open>p_cur\<close> goes back over the spaces to the \<^verbatim>\<open>=\<close>, and the length is negative.\<close>

definition val_span :: "bytes \<Rightarrow> int" where
  "val_span r =
     (let v = dropWhile (\<lambda>x. x = 0x20) r in
      if v = [] then - int (length r) else int (length (dropWhile (\<lambda>x. x = 0x20) (rev v))))"

definition ini_item :: "line_env \<Rightarrow> ini \<Rightarrow> bytes \<Rightarrow> (int \<times> ini) run" where
  "ini_item env st l =
     (case cur st of
        None \<Rightarrow> Inl NullDeref
      | Some k \<Rightarrow>
          bindR (deref (p_secs (conf st))) (\<lambda>ss.
          bindR (rd ss k) (\<lambda>s0.
          bindR (if int (item_seq st) \<ge> item_size s0 then extend_item_size (fst env) s0 (item_size s0 * 2)
                 else Inr (F1G_OK, s0)) (\<lambda>(r, s).
            let upd = (\<lambda>s. st\<lparr>conf := (conf st)\<lparr>p_secs := Live (ss[k := s])\<rparr>\<rparr>) in
            if r \<noteq> F1G_OK then Inr (F1G_ERR, upd s)
            else
              let name = takeWhile (\<lambda>x. x \<noteq> 0x20 \<and> x \<noteq> 0x3D) l; rest = drop (length name) l in
              if length name \<ge> ITEM_NAME_SIZE \<or> rest = [] then Inr (F1G_ERR, upd s)
              else
                bindR (deref (p_items s)) (\<lambda>is.
                bindR (rd is (item_seq st)) (\<lambda>it.
                bindR (put (item_name it) 0 (name @ [0])) (\<lambda>nm.
                let is1 = is[item_seq st := it\<lparr>item_name := nm\<rparr>]; s1 = s\<lparr>p_items := Live is1\<rparr> in
                bindR (any_same name (map item_name (take (item_seq st) is1))) (\<lambda>dup.
                  if dup then Inr (F1G_ERR, upd s1)
                  else
                    let eq = dropWhile (\<lambda>x. x = 0x20) rest in
                    if eq = [] \<or> hd eq \<noteq> 0x3D then Inr (F1G_ERR, upd s1)
                    else
                      let r = drop 1 eq; v = dropWhile (\<lambda>x. x = 0x20) r; n = val_span r in
                      case malloc (snd env) (n + 1) of
                        Live m \<Rightarrow>
                          bindR (slice v 0 n) (\<lambda>t.
                          bindR (put m 0 (t @ [0])) (\<lambda>m'.
                          let is2 = is1[item_seq st := it\<lparr>item_name := nm, val := Live m', val_len := n\<rparr>] in
                          Inr (F1G_OK, (upd (s\<lparr>p_items := Live is2, item_num := item_num s + 1\<rparr>))
                                         \<lparr>item_seq := Suc (item_seq st)\<rparr>)))
                      | _ \<Rightarrow>
                          Inr (F1G_ERR, upd (s\<lparr>p_items := Live (is1[item_seq st := it\<lparr>item_name := nm, val := Null\<rparr>])\<rparr>))))))))))"

text \<open>\<open>l\<close> is the line as a C string.\<close>

definition ini_line :: "line_env \<Rightarrow> ini \<Rightarrow> bytes \<Rightarrow> (int \<times> ini) run" where
  "ini_line env st0 l0 =
     (let st = st0\<lparr>line_no := Suc (line_no st0)\<rparr>; l = dropWhile (\<lambda>x. x = 0x20) l0 in
      if l = [] \<or> hd l = 0x23 then Inr (F1G_OK, st)
      else if hd l = 0x5B then ini_section env st (List.tl l)
      else ini_item env st l)"

section \<open>Reading the file\<close>

text \<open>The lines of one chunk: the bytes of the buffer up to \<open>e\<close>, from \<open>p\<close> on. \<open>rf\<close> is \<^verbatim>\<open>read_flag\<close>,
  \<open>pl\<close> is \<^verbatim>\<open>proc_left\<close>.\<close>

function ini_lines ::
  "(nat \<Rightarrow> line_env) \<Rightarrow> bool \<Rightarrow> nat \<Rightarrow> bytes \<Rightarrow> nat \<Rightarrow> int \<Rightarrow> ini \<Rightarrow> (int \<times> bytes \<times> int \<times> ini) run" where
  "ini_lines env rf e buf p pl st =
     (if p < e then
        let q = p + length (takeWhile (\<lambda>c. c \<noteq> 0x0A) (take (e - p) (drop p buf))); pl' = int e - int q in
        if q = e \<and> \<not> rf then Inr (F1G_OK, buf, pl', st)
        else
          bindR (wr buf q 0) (\<lambda>buf'.
          bindR (ini_line (env (line_no st)) st (takeWhile (\<lambda>c. c \<noteq> 0) (drop p buf'))) (\<lambda>(r, st').
            if r \<noteq> F1G_OK then Inr (F1G_ERR, buf', pl', st')
            else ini_lines env rf e buf' (Suc q) pl' st'))
      else Inr (F1G_OK, buf, pl, st))"
  by pat_completeness auto
termination
  by (relation "measure (\<lambda>(env, rf, e, buf, p, pl, st). e - p)") auto

declare ini_lines.simps [simp del]

datatype read_result = Read bytes | Read_fails

text \<open>The chunks, \<open>bs\<close> being \<^verbatim>\<open>buf_size\<close>; the buffer has a byte more. \<open>None\<close>: the script ends and
  \<^verbatim>\<open>read\<close> would be called again. A \<^verbatim>\<open>read\<close> stores at most as many bytes as it is told to.\<close>

fun ini_chunks ::
  "(nat \<Rightarrow> line_env) \<Rightarrow> nat \<Rightarrow> read_result list \<Rightarrow> int \<Rightarrow> bool \<Rightarrow> bytes \<Rightarrow> int \<Rightarrow> ini \<Rightarrow> (int \<times> ini) option run" where
  "ini_chunks env bs [] remain rf buf pl st = (if remain > 0 then Inr None else Inr (Some (F1G_OK, st)))"
| "ini_chunks env bs (x # xs) remain rf buf pl st =
     (if \<not> remain > 0 then Inr (Some (F1G_OK, st))
      else
        bindR (if pl > 0
               then assertR (2 * pl \<le> int bs) Overlap (bindR (slice buf (nat (int bs - pl)) pl) (put buf 0))
               else Inr buf) (\<lambda>buf1.
        case x of
          Read_fails \<Rightarrow> ini_chunks env bs xs remain rf buf1 (- 1) st
        | Read ys0 \<Rightarrow>
            let ys = take (nat (int bs - pl)) ys0; len = int (length ys);
                remain' = remain - len; rf' = (rf \<or> ys = [] \<or> remain' = 0) in
            bindR (if ys = [] then Inr buf1 else if pl < 0 then Inl OutOfBounds else put buf1 (nat pl) ys) (\<lambda>buf2.
            bindR (ini_lines env rf' (length ys) buf2 0 len st) (\<lambda>(r, buf3, pl', st').
              if r \<noteq> F1G_OK then Inr (Some (F1G_ERR, st'))
              else ini_chunks env bs xs remain' rf' buf3 pl' st'))))"

text \<open>The file: size and block size as \<^verbatim>\<open>fstat\<close> gives them, \<open>None\<close> where it fails.\<close>

record file_env =
  f_open :: bool
  f_stat :: "(int \<times> nat) option"
  f_buf :: "u8 alloc"
  f_reads :: "read_result list"
  f_lines :: "nat \<Rightarrow> line_env"

definition ini_read :: "file_env \<Rightarrow> smart_conf \<Rightarrow> (int \<times> smart_conf) option run" where
  "ini_read f c =
     (if \<not> f_open f then Inr (Some (F1G_ERR, c))
      else case f_stat f of
        None \<Rightarrow> Inr (Some (F1G_ERR, c))
      | Some (st_size, bs) \<Rightarrow>
          (case malloc (f_buf f) (int bs + 1) of
             Live buf \<Rightarrow>
               bindR (ini_chunks (f_lines f) bs (f_reads f) st_size False buf 0
                        \<lparr>conf = c, cur = None, sec_seq = 0, item_seq = 0, line_no = 0\<rparr>) (\<lambda>r.
                 case r of
                   None \<Rightarrow> Inr None
                 | Some (code, st) \<Rightarrow>
                     if code \<noteq> F1G_OK then Inr (Some (F1G_ERR, conf st))
                     else Inr (Some (F1G_OK, (conf st)\<lparr>sec_num := int (sec_seq st)\<rparr>)))
           | _ \<Rightarrow> Inr (Some (F1G_ERR, c))))"

definition smart_conf_read :: "file_env \<Rightarrow> smart_conf \<Rightarrow> int \<Rightarrow> (int \<times> smart_conf) option run" where
  "smart_conf_read f c conf_type = (if conf_type = CFT_INI then ini_read f c else Inr (Some (F1G_OK, c)))"

section \<open>Looking up\<close>

fun find_in :: "bytes \<Rightarrow> item list \<Rightarrow> item option run" where
  "find_in name [] = Inr None"
| "find_in name (i # is) = bindR (cstr (item_name i)) (\<lambda>n. if same_case n name then Inr (Some i) else find_in name is)"

text \<open>The search goes on after a hit, so the last section with the name counts.\<close>

fun find_secs :: "bytes \<Rightarrow> bytes \<Rightarrow> sec list \<Rightarrow> item option \<Rightarrow> item option run" where
  "find_secs sn name [] found = Inr found"
| "find_secs sn name (s # ss) found =
     bindR (cstr (sec_name s)) (\<lambda>n.
       if same_case n sn then
         bindR (if item_num s > 0
                then bindR (deref (p_items s)) (\<lambda>is. bindR (slice is 0 (item_num s)) (find_in name)) else Inr None) (\<lambda>r.
           find_secs sn name ss (case r of None \<Rightarrow> found | Some i \<Rightarrow> Some i))
       else find_secs sn name ss found)"

definition find_item :: "smart_conf \<Rightarrow> bytes \<Rightarrow> bytes \<Rightarrow> item option run" where
  "find_item c sn name =
     (if sec_num c > 0 then bindR (deref (p_secs c)) (\<lambda>ss. bindR (slice ss 0 (sec_num c)) (\<lambda>xs. find_secs sn name xs None))
      else Inr None)"

text \<open>The text of an item, \<open>None\<close> where there is no item or the text is empty.\<close>

definition item_text :: "smart_conf \<Rightarrow> bytes \<Rightarrow> bytes \<Rightarrow> bytes option run" where
  "item_text c sn name =
     bindR (find_item c sn name) (\<lambda>r.
       case r of
         None \<Rightarrow> Inr None
       | Some i \<Rightarrow> bindR (deref (val i)) (\<lambda>m. bindR (cstr m) (\<lambda>t. Inr (if t = [] then None else Some t))))"

text \<open>What the numeric lookups share: the code and \<open>*val\<close>.\<close>

definition get_num :: "(bytes \<Rightarrow> int \<times> bytes) \<Rightarrow> smart_conf \<Rightarrow> bytes \<Rightarrow> bytes \<Rightarrow> int \<Rightarrow> (int \<times> int) run" where
  "get_num conv c sn name dft =
     bindR (item_text c sn name) (\<lambda>r.
       case r of
         None \<Rightarrow> Inr (F1G_OK, dft)
       | Some t \<Rightarrow> let (v, e) = conv t in Inr (if e \<noteq> [] then F1G_ERR else F1G_OK, v))"

definition smart_conf_get_u32 :: "smart_conf \<Rightarrow> bytes \<Rightarrow> bytes \<Rightarrow> int \<Rightarrow> (int \<times> int) run" where
  "smart_conf_get_u32 = get_num (\<lambda>t. apfst to_u32 (strtoul 10 t))"

definition smart_conf_get_x32 :: "smart_conf \<Rightarrow> bytes \<Rightarrow> bytes \<Rightarrow> int \<Rightarrow> (int \<times> int) run" where
  "smart_conf_get_x32 = get_num (\<lambda>t. apfst to_u32 (strtoul 16 t))"

definition smart_conf_get_i32 :: "smart_conf \<Rightarrow> bytes \<Rightarrow> bytes \<Rightarrow> int \<Rightarrow> (int \<times> int) run" where
  "smart_conf_get_i32 = get_num (\<lambda>t. apfst to_i32 (strtol 10 t))"

definition smart_conf_get_i64 :: "smart_conf \<Rightarrow> bytes \<Rightarrow> bytes \<Rightarrow> int \<Rightarrow> (int \<times> int) run" where
  "smart_conf_get_i64 = get_num (strtol 10)"

definition smart_conf_get_u64 :: "smart_conf \<Rightarrow> bytes \<Rightarrow> bytes \<Rightarrow> int \<Rightarrow> (int \<times> int) run" where
  "smart_conf_get_u64 = get_num (strtoul 10)"

definition smart_conf_get_x64 :: "smart_conf \<Rightarrow> bytes \<Rightarrow> bytes \<Rightarrow> int \<Rightarrow> (int \<times> int) run" where
  "smart_conf_get_x64 = get_num (strtoul 16)"

text \<open>\<^verbatim>\<open>strncpy(buf, s, n)\<close>: at most \<open>n\<close> bytes, filled up with NULs.\<close>

definition strncpy :: "bytes \<Rightarrow> bytes \<Rightarrow> int \<Rightarrow> bytes run" where
  "strncpy buf s n = (if n < 0 then Inl OutOfBounds else put buf 0 (take (nat n) (s @ replicate (nat n) 0)))"

definition smart_conf_get_str :: "smart_conf \<Rightarrow> bytes \<Rightarrow> bytes \<Rightarrow> bytes \<Rightarrow> bytes \<Rightarrow> int \<Rightarrow> (int \<times> bytes) run" where
  "smart_conf_get_str c sn name dft buf buf_size =
     bindR (find_item c sn name) (\<lambda>r.
     bindR (item_text c sn name) (\<lambda>t.
       case (r, t) of
         (Some i, Some _) \<Rightarrow>
           if val_len i \<ge> buf_size then Inr (F1G_ERR, buf)
           else
             bindR (deref (val i)) (\<lambda>m.
             bindR (slice m 0 (val_len i)) (\<lambda>xs.
             bindR (put buf 0 xs) (\<lambda>b1.
             bindR (wr b1 (nat (val_len i)) 0) (\<lambda>b2. Inr (F1G_OK, b2)))))
       | _ \<Rightarrow>
           bindR (strncpy buf dft (buf_size - 1)) (\<lambda>b1.
           bindR (wr b1 (nat (buf_size - 1)) 0) (\<lambda>b2. Inr (F1G_OK, b2)))))"

section \<open>Destroying\<close>

fun free_item_vals :: "item list \<Rightarrow> unit run" where
  "free_item_vals [] = Inr ()"
| "free_item_vals (i # is) = freeR (val i) (free_item_vals is)"

fun free_secs :: "sec list \<Rightarrow> unit run" where
  "free_secs [] = Inr ()"
| "free_secs (s # ss) =
     bindR (if item_num s > 0 then bindR (deref (p_items s)) (\<lambda>is. bindR (slice is 0 (item_num s)) free_item_vals) else Inr ()) (\<lambda>_.
       freeR (p_items s) (free_secs ss))"

definition smart_conf_destroy :: "smart_conf \<Rightarrow> (int \<times> smart_conf) run" where
  "smart_conf_destroy c =
     bindR (if sec_num c > 0 then bindR (deref (p_secs c)) (\<lambda>ss. bindR (slice ss 0 (sec_num c)) free_secs) else Inr ()) (\<lambda>_.
       freeR (p_secs c) (Inr (F1G_OK, \<lparr>sec_num = 0, sec_size = 0, p_secs = Null\<rparr>)))"

section \<open>Documents\<close>

text \<open>A document: the names of its sections with the items of each.\<close>

type_synonym doc = "(bytes \<times> (bytes \<times> bytes) list) list"

definition plain :: "bytes \<Rightarrow> bool" where
  "plain s \<longleftrightarrow> 0 \<notin> set s \<and> 0x0A \<notin> set s"

definition sec_name_ok :: "bytes \<Rightarrow> bool" where
  "sec_name_ok n \<longleftrightarrow> plain n \<and> 0x5D \<notin> set n \<and> length n < SEC_NAME_SIZE"

definition key_ok :: "bytes \<Rightarrow> bool" where
  "key_ok k \<longleftrightarrow> plain k \<and> k \<noteq> [] \<and> hd k \<noteq> 0x23 \<and> hd k \<noteq> 0x5B \<and> 0x20 \<notin> set k \<and> 0x3D \<notin> set k \<and> length k < ITEM_NAME_SIZE"

definition value_ok :: "bytes \<Rightarrow> bool" where
  "value_ok v \<longleftrightarrow> plain v \<and> v \<noteq> [] \<and> hd v \<noteq> 0x20 \<and> last v \<noteq> 0x20"

definition lc :: "bytes \<Rightarrow> bytes" where
  "lc = map lower_case"

definition items_ok :: "(bytes \<times> bytes) list \<Rightarrow> bool" where
  "items_ok its \<longleftrightarrow> (\<forall>(k, v)\<in>set its. key_ok k \<and> value_ok v) \<and> distinct (map (lc \<circ> fst) its)"

definition doc_ok :: "doc \<Rightarrow> bool" where
  "doc_ok d \<longleftrightarrow> (\<forall>(n, its)\<in>set d. sec_name_ok n \<and> items_ok its) \<and> distinct (map (lc \<circ> fst) d)"

definition sec_line :: "bytes \<Rightarrow> bytes" where
  "sec_line n = 0x5B # n @ [0x5D]"

definition item_line :: "bytes \<times> bytes \<Rightarrow> bytes" where
  "item_line i = fst i @ [0x20, 0x3D, 0x20] @ snd i"

definition sec_lines :: "bytes \<times> (bytes \<times> bytes) list \<Rightarrow> bytes list" where
  "sec_lines s = sec_line (fst s) # map item_line (snd s)"

definition doc_lines :: "doc \<Rightarrow> bytes list" where
  "doc_lines d = concat (map sec_lines d)"

definition line_text :: "bytes list \<Rightarrow> bytes" where
  "line_text ls = concat (map (\<lambda>l. l @ [0x0A]) ls)"

definition ini_text :: "doc \<Rightarrow> bytes" where
  "ini_text d = line_text (doc_lines d)"

text \<open>The value under a section name and an item name, letter case aside.\<close>

definition doc_lookup :: "doc \<Rightarrow> bytes \<Rightarrow> bytes \<Rightarrow> bytes option" where
  "doc_lookup d sn name =
     (case map_of (map (\<lambda>(n, its). (lc n, its)) d) (lc sn) of
        None \<Rightarrow> None
      | Some its \<Rightarrow> map_of (map (\<lambda>(k, v). (lc k, v)) its) (lc name))"

lemma same_case_lc: "same_case a b \<longleftrightarrow> lc a = lc b"
  by (simp add: same_case_def lc_def)

section \<open>What a configuration holds\<close>

definition items_blk :: "sec \<Rightarrow> item list" where
  "items_blk s = (case p_items s of Live is \<Rightarrow> is | _ \<Rightarrow> [])"

definition named :: "bytes \<Rightarrow> bytes \<Rightarrow> bool" where
  "named m n \<longleftrightarrow> length m = 64 \<and> 0 \<notin> set n \<and> (\<exists>z. m = n @ 0 # z)"

definition item_is :: "item \<Rightarrow> bytes \<times> bytes \<Rightarrow> bool" where
  "item_is i kv \<longleftrightarrow> named (item_name i) (fst kv) \<and> val i = Live (snd kv @ [0]) \<and> val_len i = int (length (snd kv))
     \<and> 0 \<notin> set (snd kv)"

definition sec_is :: "sec \<Rightarrow> bytes \<times> (bytes \<times> bytes) list \<Rightarrow> bool" where
  "sec_is s d \<longleftrightarrow> named (sec_name s) (fst d) \<and> p_items s \<noteq> Dangling \<and> int (length (items_blk s)) = item_size s
     \<and> item_num s = int (length (snd d))
     \<and> (\<exists>as bs. items_blk s = as @ bs \<and> list_all2 item_is as (snd d) \<and> (\<forall>b\<in>set bs. length (item_name b) = 64))"

definition fresh_sec :: "sec \<Rightarrow> bool" where
  "fresh_sec s \<longleftrightarrow> length (sec_name s) = 64 \<and> p_items s \<noteq> Dangling \<and> int (length (items_blk s)) = item_size s
     \<and> item_num s = 0 \<and> (\<forall>b\<in>set (items_blk s). length (item_name b) = 64)"

text \<open>The reader behind the lines of \<open>d\<close>, with \<open>xs\<close> the sections filled and \<open>ys\<close> those left.\<close>

definition st_is :: "ini \<Rightarrow> sec list \<Rightarrow> sec list \<Rightarrow> doc \<Rightarrow> bool" where
  "st_is st xs ys d \<longleftrightarrow> p_secs (conf st) = Live (xs @ ys) \<and> sec_size (conf st) = int (length xs + length ys)
     \<and> list_all2 sec_is xs d \<and> (\<forall>y\<in>set ys. fresh_sec y) \<and> sec_seq st = length d
     \<and> (d \<noteq> [] \<longrightarrow> cur st = Some (length d - 1) \<and> item_seq st = length (snd (last d)))"

lemma named_cstr: "named m n \<Longrightarrow> cstr m = Inr n"
  by (auto simp: named_def cstr_at)

lemma any_same_named:
  "list_all2 named as ns \<Longrightarrow> any_same n as = Inr (\<exists>m\<in>set ns. lc m = lc n)"
  by (induction as ns rule: list_all2_induct) (auto simp: named_cstr same_case_lc)

lemma put_name: "length m = 64 \<Longrightarrow> length n < 64 \<Longrightarrow> put m 0 (n @ [0]) = Inr (n @ 0 # drop (Suc (length n)) m)"
  by (simp add: put_def)

lemma fresh_named: "length m = 64 \<Longrightarrow> length n < 64 \<Longrightarrow> 0 \<notin> set n \<Longrightarrow> named (n @ 0 # drop (Suc (length n)) m) n"
  by (auto simp: named_def)

lemma take_until: "x \<notin> set n \<Longrightarrow> takeWhile (\<lambda>c. c \<noteq> x) (n @ x # z) = n"
  by (induction n) auto

section \<open>One line\<close>

lemma ini_section_ok:
  assumes "st_is st xs (y # ys) d" and "sec_name_ok n" and "lc n \<notin> (lc \<circ> fst) ` set d"
  shows "\<exists>st' y'. ini_section env st (n @ [0x5D]) = Inr (F1G_OK, st') \<and> st_is st' (xs @ [y']) ys (d @ [(n, [])])
    \<and> sec_num (conf st') = sec_num (conf st) \<and> line_no st' = line_no st"
proof -
  let ?nm = "n @ 0 # drop (Suc (length n)) (sec_name y)"
  let ?y = "y\<lparr>sec_name := ?nm\<rparr>"
  have s: "p_secs (conf st) = Live (xs @ y # ys)" "sec_size (conf st) = int (length xs + Suc (length ys))"
    "list_all2 sec_is xs d" "fresh_sec y" "\<forall>y\<in>set ys. fresh_sec y" "sec_seq st = length xs"
    using assms(1) list_all2_lengthD [of sec_is xs d] by (auto simp: st_is_def)
  have n: "length n < 64" "0 \<notin> set n" "0x5D \<notin> set n" using assms(2) by (auto simp: sec_name_ok_def plain_def SEC_NAME_SIZE_def)
  have y: "length (sec_name y) = 64" using s(4) by (simp add: fresh_sec_def)
  have "list_all2 named (map sec_name xs) (map fst d)"
    using s(3) by (auto simp: list_all2_conv_all_nth sec_is_def)
  then have nd: "any_same n (map sec_name xs) = Inr False"
    using assms(3) by (subst any_same_named) (force simp: image_iff)+
  let ?st = "st\<lparr>conf := (conf st)\<lparr>p_secs := Live (xs @ ?y # ys)\<rparr>, cur := Some (length xs), sec_seq := Suc (length xs), item_seq := 0\<rparr>"
  have run: "ini_section env st (n @ [0x5D]) = Inr (F1G_OK, ?st)"
    using s n y nd put_name [OF y n(1)] take_until [OF n(3), of "[]"]
    by (simp add: ini_section_def Let_def SEC_NAME_SIZE_def)
  have sy: "sec_is ?y (n, [])"
    using s(4) fresh_named [OF y n(1,2)] by (auto simp: sec_is_def fresh_sec_def items_blk_def)
  have "st_is ?st (xs @ [?y]) ys (d @ [(n, [])])"
    using s sy list_all2_lengthD [OF s(3)] by (auto simp: st_is_def list_all2_appendI)
  then show ?thesis using run by (intro exI [of _ ?st] exI [of _ ?y]) simp
qed

lemma extend_item_ok:
  assumes "sec_is s (n, its)" and "length its = length (items_blk s)"
  shows "\<exists>s'. extend_item_size True s (item_size s * 2) = Inr (F1G_OK, s') \<and> sec_is s' (n, its) \<and> length its < length (items_blk s')"
proof -
  obtain as bs where ab: "items_blk s = as @ bs" "list_all2 item_is as its" using assms(1) by (auto simp: sec_is_def)
  have la: "length as = length its" using ab(2) by (rule list_all2_lengthD)
  then have as: "items_blk s = as" using ab(1) assms(2) by simp
  have sz: "item_size s = int (length its)" "item_num s = int (length its)" "p_items s \<noteq> Dangling" "named (sec_name s) n"
    using assms by (auto simp: sec_is_def)
  define k where "k = (if its = [] then 2 else length its)"
  have k: "0 < k" by (simp add: k_def)
  let ?e = "int (length its + k)"
  have e: "(if item_size s * 2 \<le> item_size s then (item_size s + 1) * 2 else item_size s * 2) = ?e"
    using sz(1) by (simp add: k_def)
  let ?s = "s\<lparr>p_items := Live (as @ replicate k zero_item), item_size := ?e\<rparr>"
  have z: "zalloc True ?e zero_item = Live (replicate (length its + k) zero_item)"
    unfolding zalloc_def by (simp add: nat_add_distrib)
  have c: "(if item_num s > 0 then bindR (deref (p_items s)) (\<lambda>old. bindR (slice old 0 (item_num s)) (put (replicate (length its + k) zero_item) 0))
      else Inr (replicate (length its + k) zero_item)) = Inr (as @ replicate k zero_item)"
  proof (cases "its = []")
    case True
    then show ?thesis using sz(2) la by simp
  next
    case False
    then have "p_items s = Live as" using as la sz(3) by (cases "p_items s") (auto simp: items_blk_def)
    then show ?thesis using False sz(2) la by (simp add: put_def)
  qed
  have "extend_item_size True s (item_size s * 2) = freeR (p_items s) (Inr (F1G_OK, ?s))"
    unfolding extend_item_size_def Let_def e z ptr.case c by simp
  moreover have "freeR (p_items s) (Inr (F1G_OK, ?s)) = Inr (F1G_OK, ?s)" using sz(3) by (cases "p_items s") simp_all
  moreover have "items_blk ?s = as @ replicate k zero_item" by (simp add: items_blk_def)
  moreover have "sec_is ?s (n, its)"
  proof -
    have "\<forall>b\<in>set (replicate k zero_item). length (item_name b) = 64" by (simp add: zero_item_def ITEM_NAME_SIZE_def)
    then show ?thesis
      unfolding sec_is_def using sz ab(2) la
      by (intro conjI exI [of _ as] exI [of _ "replicate k zero_item"]) (simp_all add: items_blk_def)
  qed
  ultimately show ?thesis using k la by auto
qed

lemma val_span_value: "value_ok v \<Longrightarrow> val_span (0x20 # v) = int (length v) \<and> dropWhile (\<lambda>x. x = 0x20) (0x20 # v) = v"
proof -
  assume v: "value_ok v"
  then have d: "dropWhile (\<lambda>x. x = 0x20) v = v" by (cases v) (auto simp: value_ok_def)
  have "rev v \<noteq> []" "hd (rev v) \<noteq> 0x20" using v by (auto simp: value_ok_def hd_rev)
  then have "dropWhile (\<lambda>x. x = 0x20) (rev v) = rev v" by (cases "rev v") auto
  then show ?thesis using d v by (auto simp: val_span_def value_ok_def Let_def)
qed

lemma fill_item:
  assumes "sec_is s (n, its)" and "length its < length (items_blk s)" and "key_ok k" and "value_ok v"
  shows "\<exists>as i bs. p_items s = Live (as @ i # bs) \<and> length as = length its \<and> list_all2 item_is as its
    \<and> length (item_name i) = 64
    \<and> sec_is (s\<lparr>p_items := Live (as @ i\<lparr>item_name := k @ 0 # drop (Suc (length k)) (item_name i), val := Live (v @ [0]),
                val_len := int (length v)\<rparr> # bs), item_num := item_num s + 1\<rparr>) (n, its @ [(k, v)])"
proof -
  obtain as cs where ac: "items_blk s = as @ cs" "list_all2 item_is as its" "\<forall>b\<in>set cs. length (item_name b) = 64"
    using assms(1) by (auto simp: sec_is_def)
  have la: "length as = length its" using ac(2) by (rule list_all2_lengthD)
  then obtain i bs where cs: "cs = i # bs" using assms(2) ac(1) by (cases cs) auto
  then have p: "p_items s = Live (as @ i # bs)" using ac(1) by (cases "p_items s") (auto simp: items_blk_def)
  let ?i = "i\<lparr>item_name := k @ 0 # drop (Suc (length k)) (item_name i), val := Live (v @ [0]), val_len := int (length v)\<rparr>"
  have l: "length (item_name i) = 64" using ac(3) cs by simp
  have k: "length k < 64" "0 \<notin> set k" "0 \<notin> set v"
    using assms(3,4) by (auto simp: key_ok_def value_ok_def plain_def ITEM_NAME_SIZE_def)
  have ii: "item_is ?i (k, v)" using fresh_named [OF l k(1,2)] k(3) by (simp add: item_is_def)
  have "\<exists>as' bs'. as @ ?i # bs = as' @ bs' \<and> list_all2 item_is as' (its @ [(k, v)]) \<and> (\<forall>b\<in>set bs'. length (item_name b) = 64)"
    using ac(2,3) ii la cs by (intro exI [of _ "as @ [?i]"] exI [of _ bs]) (simp add: list_all2_appendI)
  then have "sec_is (s\<lparr>p_items := Live (as @ ?i # bs), item_num := item_num s + 1\<rparr>) (n, its @ [(k, v)])"
    using assms(1) p ac(1) cs by (simp add: sec_is_def items_blk_def)
  then show ?thesis using p la ac(2) l by blast
qed

lemma ini_item_ok:
  assumes "st_is st xs ys (d @ [(n, its)])" and "key_ok k" and "value_ok v" and "lc k \<notin> (lc \<circ> fst) ` set its"
    and "fst env" and "snd env = Some g"
  shows "\<exists>st' xs'. ini_item env st (item_line (k, v)) = Inr (F1G_OK, st') \<and> st_is st' xs' ys (d @ [(n, its @ [(k, v)])])
    \<and> sec_num (conf st') = sec_num (conf st) \<and> line_no st' = line_no st"
proof -
  obtain xs0 s0 where xs: "xs = xs0 @ [s0]" "list_all2 sec_is xs0 d" "sec_is s0 (n, its)"
    using assms(1) by (auto simp: st_is_def list_all2_append2 list_all2_Cons2)
  have lx: "length xs0 = length d" using xs(2) by (rule list_all2_lengthD)
  have st: "p_secs (conf st) = Live (xs0 @ s0 # ys)" "sec_size (conf st) = int (length xs0 + Suc (length ys))"
    "\<forall>y\<in>set ys. fresh_sec y" "sec_seq st = Suc (length d)" "cur st = Some (length xs0)" "item_seq st = length its"
    using assms(1) xs(1) lx by (auto simp: st_is_def)
  obtain s where s: "(if int (item_seq st) \<ge> item_size s0 then extend_item_size (fst env) s0 (item_size s0 * 2) else Inr (F1G_OK, s0)) = Inr (F1G_OK, s)"
    "sec_is s (n, its)" "length its < length (items_blk s)"
  proof (cases "int (length its) \<ge> item_size s0")
    case True
    moreover have "length its \<le> length (items_blk s0)" using xs(3) list_all2_lengthD by (fastforce simp: sec_is_def)
    moreover have "int (length (items_blk s0)) = item_size s0" using xs(3) by (simp add: sec_is_def)
    ultimately have "length its = length (items_blk s0)" by linarith
    from extend_item_ok [OF xs(3) this] show ?thesis using that True st(6) assms(5) by auto
  next
    case False
    then show ?thesis using that [of s0] xs(3) st(6) by (auto simp: sec_is_def)
  qed
  obtain as i bs where f: "p_items s = Live (as @ i # bs)" "length as = length its" "list_all2 item_is as its"
    "length (item_name i) = 64"
    and fin: "sec_is (s\<lparr>p_items := Live (as @ i\<lparr>item_name := k @ 0 # drop (Suc (length k)) (item_name i), val := Live (v @ [0]),
                val_len := int (length v)\<rparr> # bs), item_num := item_num s + 1\<rparr>) (n, its @ [(k, v)])"
    using fill_item [OF s(2,3) assms(2,3)] by blast
  have k: "length k < 64" "\<not> 64 \<le> length k" "takeWhile (\<lambda>x. x \<noteq> 0x20 \<and> x \<noteq> 0x3D) (k @ 0x20 # z) = k" for z
    using assms(2) by (auto simp: key_ok_def ITEM_NAME_SIZE_def takeWhile_append)
  have "list_all2 named (map item_name as) (map fst its)"
    using f(3) by (auto simp: list_all2_conv_all_nth item_is_def)
  then have nd: "any_same k (map item_name as) = Inr False"
    using assms(4) by (subst any_same_named) (force simp: image_iff)+
  note vs = val_span_value [OF assms(3)]
  note pn = put_name [OF f(4) k(1)]
  let ?sn = "s\<lparr>p_items := Live (as @ i\<lparr>item_name := k @ 0 # drop (Suc (length k)) (item_name i), val := Live (v @ [0]),
                val_len := int (length v)\<rparr> # bs), item_num := item_num s + 1\<rparr>"
  let ?st = "st\<lparr>conf := (conf st)\<lparr>p_secs := Live (xs0 @ ?sn # ys)\<rparr>, item_seq := Suc (length its)\<rparr>"
  have m: "malloc (snd env) (int (length v) + 1) = Live (map g [0..<Suc (length v)])"
    using assms(6) by (simp add: nat_add_distrib)
  have p2: "put (map g [0..<Suc (length v)]) 0 (v @ [0]) = Inr (v @ [0])" by (simp add: put_def)
  have at: "(as @ i # bs) ! length its = i" "(as @ y # bs)[length its := x] = as @ x # bs"
    "take (length its) (as @ x # bs) = as" for x y
    by (simp_all add: f(2) [symmetric])
  have run: "ini_item env st (item_line (k, v)) = Inr (F1G_OK, ?st)"
    using st(1,5,6) s(1) f(1,2) k nd vs pn m p2
    by (simp add: ini_item_def item_line_def Let_def ITEM_NAME_SIZE_def at del: upt_Suc)
  have "st_is ?st (xs0 @ [?sn]) ys (d @ [(n, its @ [(k, v)])])"
    using st xs(2) fin lx by (simp add: st_is_def list_all2_appendI)
  then show ?thesis using run by (intro exI [of _ ?st] exI [of _ "xs0 @ [?sn]"]) simp
qed

section \<open>All lines\<close>

fun ini_run :: "(nat \<Rightarrow> line_env) \<Rightarrow> ini \<Rightarrow> bytes list \<Rightarrow> (int \<times> ini) run" where
  "ini_run env st [] = Inr (F1G_OK, st)"
| "ini_run env st (l # ls) =
     bindR (ini_line (env (line_no st)) st l) (\<lambda>(r, st'). if r \<noteq> F1G_OK then Inr (F1G_ERR, st') else ini_run env st' ls)"

lemma ini_run_append:
  "ini_run env st a = Inr (F1G_OK, st') \<Longrightarrow> ini_run env st (a @ b) = ini_run env st' b"
  by (induction a arbitrary: st) (auto simp: bindR_def split: sum.splits if_splits)

text \<open>Reading the lines of a buffer that ends with a line end is reading its lines.\<close>

lemma ini_lines_run:
  assumes "\<forall>l\<in>set ls. plain l" and "buf = pre @ line_text ls @ post" and "e = length pre + length (line_text ls)" and "post \<noteq> []"
  shows "bindR (ini_lines env rf e buf (length pre) pl st) (\<lambda>(r, b, p, st'). Inr (r, st')) = ini_run env st ls"
  using assms
proof (induction ls arbitrary: buf pre pl st)
  case Nil
  then show ?case by (subst ini_lines.simps) (simp add: line_text_def)
next
  case (Cons l ls)
  have l: "0 \<notin> set l" "0x0A \<notin> set l" using Cons.prems(1) by (auto simp: plain_def)
  have b: "buf = pre @ l @ 0x0A # line_text ls @ post" using Cons.prems(2) by (simp add: line_text_def)
  have e: "e = length pre + (length l + Suc (length (line_text ls)))" using Cons.prems(3) by (simp add: line_text_def)
  let ?q = "length pre + length l" and ?b = "pre @ l @ 0 # line_text ls @ post"
  have t: "take (e - length pre) (drop (length pre) buf) = l @ 0x0A # line_text ls" using b e by simp
  have q: "length (takeWhile (\<lambda>c. c \<noteq> 0x0A) (take (e - length pre) (drop (length pre) buf))) = length l"
    unfolding t take_until [OF l(2)] ..
  have w: "wr buf ?q 0 = Inr ?b" using b by (simp add: wr_def list_update_append)
  have c: "takeWhile (\<lambda>c. c \<noteq> 0) (drop (length pre) ?b) = l" using take_until [OF l(1)] by simp
  have ih: "bindR (ini_lines env rf e ?b (length (pre @ l @ [0])) pl' st') (\<lambda>(r, b, p, st'). Inr (r, st')) = ini_run env st' ls" for pl' st'
    using Cons.prems(1,4) e by (intro Cons.IH) auto
  have lt: "length pre < e" "?q \<noteq> e" using e by simp_all
  have "ini_lines env rf e buf (length pre) pl st = bindR (ini_line (env (line_no st)) st l) (\<lambda>(r, st').
          if r \<noteq> F1G_OK then Inr (F1G_ERR, ?b, int e - int ?q, st') else ini_lines env rf e ?b (Suc ?q) (int e - int ?q) st')"
    unfolding ini_lines.simps [of env rf e buf] Let_def q w bindR_simps c using lt by simp
  moreover have "length (pre @ l @ [0]) = Suc ?q" by simp
  ultimately show ?case
    using ih by (cases "ini_line (env (line_no st)) st l") auto
qed

lemma st_is_conf: "st_is (st\<lparr>line_no := n\<rparr>) xs ys d = st_is st xs ys d"
  by (simp add: st_is_def)

lemma ini_line_section:
  assumes "st_is st xs (y # ys) d" and "sec_name_ok n" and "lc n \<notin> (lc \<circ> fst) ` set d"
  shows "\<exists>st' y'. ini_line env st (sec_line n) = Inr (F1G_OK, st') \<and> st_is st' (xs @ [y']) ys (d @ [(n, [])])
    \<and> sec_num (conf st') = sec_num (conf st)"
  using ini_section_ok [of "st\<lparr>line_no := Suc (line_no st)\<rparr>" xs y ys d n env] assms
  by (auto simp: ini_line_def sec_line_def st_is_conf)

lemma ini_line_item:
  assumes "st_is st xs ys (d @ [(n, its)])" and "key_ok k" and "value_ok v" and "lc k \<notin> (lc \<circ> fst) ` set its"
    and "fst env" and "snd env = Some g"
  shows "\<exists>st' xs'. ini_line env st (item_line (k, v)) = Inr (F1G_OK, st') \<and> st_is st' xs' ys (d @ [(n, its @ [(k, v)])])
    \<and> sec_num (conf st') = sec_num (conf st)"
proof -
  obtain c cs where k: "k = c # cs" "c \<noteq> 0x20" "c \<noteq> 0x23" "c \<noteq> 0x5B" using assms(2) by (cases k) (auto simp: key_ok_def)
  then have "ini_line env st (item_line (k, v)) = ini_item env (st\<lparr>line_no := Suc (line_no st)\<rparr>) (item_line (k, v))"
    by (simp add: ini_line_def item_line_def Let_def)
  then show ?thesis
    using ini_item_ok [of "st\<lparr>line_no := Suc (line_no st)\<rparr>" xs ys d n its k v env g] assms by (auto simp: st_is_conf)
qed

definition env_ok :: "(nat \<Rightarrow> line_env) \<Rightarrow> bool" where
  "env_ok env \<longleftrightarrow> (\<forall>i. fst (env i) \<and> snd (env i) \<noteq> None)"

lemma ini_run_items:
  assumes "env_ok env" and "st_is st xs ys (d @ [(n, [])])" and "items_ok its"
  shows "\<exists>st' xs'. ini_run env st (map item_line its) = Inr (F1G_OK, st') \<and> st_is st' xs' ys (d @ [(n, its)])
    \<and> sec_num (conf st') = sec_num (conf st)"
  using assms(3)
proof (induction its rule: rev_induct)
  case Nil
  then show ?case using assms(2) by auto
next
  case (snoc i its)
  obtain k v where i: "i = (k, v)" by (cases i)
  have ok: "items_ok its" "key_ok k" "value_ok v" "lc k \<notin> (lc \<circ> fst) ` set its"
    using snoc.prems i by (auto simp: items_ok_def)
  obtain st1 xs1 where 1: "ini_run env st (map item_line its) = Inr (F1G_OK, st1)" "st_is st1 xs1 ys (d @ [(n, its)])"
    "sec_num (conf st1) = sec_num (conf st)"
    using snoc.IH [OF ok(1)] by blast
  obtain g where "fst (env (line_no st1))" "snd (env (line_no st1)) = Some g" using assms(1) by (auto simp: env_ok_def)
  from ini_line_item [OF 1(2) ok(2-4) this] obtain st2 xs2 where
    2: "ini_line (env (line_no st1)) st1 (item_line (k, v)) = Inr (F1G_OK, st2)" "st_is st2 xs2 ys (d @ [(n, its @ [(k, v)])])"
    "sec_num (conf st2) = sec_num (conf st1)" by blast
  then show ?case using 1 i ini_run_append [OF 1(1), of "[item_line (k, v)]"] by auto
qed

lemma ini_run_doc:
  assumes "env_ok env" and "st_is st xs (us @ ys) d0" and "doc_ok d" and "length us = length d"
    and "(lc \<circ> fst) ` set d \<inter> (lc \<circ> fst) ` set d0 = {}"
  shows "\<exists>st' xs'. ini_run env st (doc_lines d) = Inr (F1G_OK, st') \<and> st_is st' xs' ys (d0 @ d)
    \<and> sec_num (conf st') = sec_num (conf st)"
  using assms(2-5)
proof (induction d arbitrary: st xs us d0)
  case Nil
  then show ?case by (auto simp: doc_lines_def)
next
  case (Cons s d)
  obtain n its where s: "s = (n, its)" by (cases s)
  obtain u us' where us: "us = u # us'" using Cons.prems(3) by (cases us) auto
  have ok: "sec_name_ok n" "items_ok its" "lc n \<notin> (lc \<circ> fst) ` set d0" "doc_ok d" "lc n \<notin> (lc \<circ> fst) ` set d"
    using Cons.prems(2,4) s by (auto simp: doc_ok_def)
  obtain st1 y' where 1: "ini_line (env (line_no st)) st (sec_line n) = Inr (F1G_OK, st1)"
    "st_is st1 (xs @ [y']) (us' @ ys) (d0 @ [(n, [])])" "sec_num (conf st1) = sec_num (conf st)"
    using ini_line_section [OF _ ok(1,3), of st xs u "us' @ ys" "env (line_no st)"] Cons.prems(1)
    unfolding us append_Cons by blast
  obtain st2 xs2 where 2: "ini_run env st1 (map item_line its) = Inr (F1G_OK, st2)"
    "st_is st2 xs2 (us' @ ys) (d0 @ [(n, its)])" "sec_num (conf st2) = sec_num (conf st1)"
    using ini_run_items [OF assms(1) 1(2) ok(2)] by blast
  have lu: "length us' = length d" using Cons.prems(3) us by simp
  have dj: "(lc \<circ> fst) ` set d \<inter> (lc \<circ> fst) ` set (d0 @ [(n, its)]) = {}"
    using Cons.prems(4) ok(5) s by auto
  obtain st3 xs3 where 3: "ini_run env st2 (doc_lines d) = Inr (F1G_OK, st3)" "st_is st3 xs3 ys ((d0 @ [(n, its)]) @ d)"
    "sec_num (conf st3) = sec_num (conf st2)"
    using Cons.IH [OF 2(2) ok(4) _ dj] lu by blast
  have "doc_lines (s # d) = sec_line n # (map item_line its @ doc_lines d)" by (simp add: doc_lines_def sec_lines_def s)
  then have "ini_run env st (doc_lines (s # d)) = Inr (F1G_OK, st3)"
    using 1(1) ini_run_append [OF 2(1), of "doc_lines d"] 3(1) by simp
  moreover have "st_is st3 xs3 ys (d0 @ s # d)" using 3(2) s by simp
  moreover have "sec_num (conf st3) = sec_num (conf st)" using 3(3) 2(3) 1(3) by simp
  ultimately show ?case by blast
qed

section \<open>Looking up what was read\<close>

definition found_is :: "item option \<Rightarrow> bytes option \<Rightarrow> bool" where
  "found_is r t \<longleftrightarrow> (case t of None \<Rightarrow> r = None
     | Some v \<Rightarrow> \<exists>i. r = Some i \<and> val i = Live (v @ [0]) \<and> val_len i = int (length v) \<and> 0 \<notin> set v)"

lemma find_in_items:
  "list_all2 item_is is its \<Longrightarrow>
   \<exists>r. find_in name is = Inr r \<and> found_is r (map_of (map (\<lambda>(k, v). (lc k, v)) its) (lc name))"
proof (induction "is" its rule: list_all2_induct)
  case Nil
  then show ?case by (simp add: found_is_def)
next
  case (Cons i "is" kv its)
  obtain k v where kv: "kv = (k, v)" by (cases kv)
  have "cstr (item_name i) = Inr k" using Cons(1) kv by (auto simp: item_is_def named_cstr)
  then show ?case
    using Cons kv by (auto simp: same_case_lc found_is_def item_is_def)
qed

lemma find_in_sec:
  assumes "sec_is s (n, its)"
  shows "\<exists>r. (if item_num s > 0 then bindR (deref (p_items s)) (\<lambda>is. bindR (slice is 0 (item_num s)) (find_in name)) else Inr None) = Inr r
    \<and> found_is r (map_of (map (\<lambda>(k, v). (lc k, v)) its) (lc name))"
proof (cases "its = []")
  case True
  then show ?thesis using assms by (simp add: sec_is_def found_is_def)
next
  case False
  obtain as bs where ab: "items_blk s = as @ bs" "list_all2 item_is as its" "item_num s = int (length its)" "p_items s \<noteq> Dangling"
    using assms by (auto simp: sec_is_def)
  have la: "length as = length its" using ab(2) by (rule list_all2_lengthD)
  then have "p_items s = Live (as @ bs)" using ab(1,4) False by (cases "p_items s") (auto simp: items_blk_def)
  then show ?thesis using find_in_items [OF ab(2), of name] ab(3) la False by simp
qed

lemma find_secs_skip:
  "list_all2 sec_is xs d \<Longrightarrow> lc sn \<notin> (lc \<circ> fst) ` set d \<Longrightarrow> find_secs sn name (xs @ zs) found = find_secs sn name zs found"
proof (induction xs d rule: list_all2_induct)
  case (Cons s xs x d)
  then have "cstr (sec_name s) = Inr (fst x)" by (simp add: sec_is_def named_cstr)
  then show ?case using Cons by (auto simp: same_case_lc)
qed simp

lemma find_secs_other:
  "list_all2 sec_is xs d \<Longrightarrow> lc sn \<notin> (lc \<circ> fst) ` set d \<Longrightarrow> find_secs sn name xs found = Inr found"
  using find_secs_skip [of xs d sn name "[]" found] by simp

lemma find_secs_doc:
  "list_all2 sec_is xs d \<Longrightarrow> distinct (map (lc \<circ> fst) d) \<Longrightarrow>
   \<exists>r. find_secs sn name xs None = Inr r \<and> found_is r (doc_lookup d sn name)"
proof (induction xs d rule: list_all2_induct)
  case Nil
  then show ?case by (simp add: doc_lookup_def found_is_def)
next
  case (Cons s xs x d)
  obtain n its where x: "x = (n, its)" by (cases x)
  have c: "cstr (sec_name s) = Inr n" using Cons(1) x by (simp add: sec_is_def named_cstr)
  show ?case
  proof (cases "lc n = lc sn")
    case False
    then show ?thesis using Cons x c by (auto simp: same_case_lc doc_lookup_def)
  next
    case True
    obtain r where r: "(if item_num s > 0 then bindR (deref (p_items s)) (\<lambda>is. bindR (slice is 0 (item_num s)) (find_in name)) else Inr None) = Inr r"
      "found_is r (map_of (map (\<lambda>(k, v). (lc k, v)) its) (lc name))"
      using find_in_sec [OF Cons(1) [unfolded x]] by blast
    have "lc sn \<notin> (lc \<circ> fst) ` set d" using Cons.prems x True by simp
    then have o: "find_secs sn name xs found = Inr found" for found using Cons(2) by (intro find_secs_other)
    have "find_secs sn name (s # xs) None = Inr r"
      using c True o r(1) by (cases r) (simp_all add: same_case_lc)
    then show ?thesis using r(2) x True by (simp add: doc_lookup_def)
  qed
qed

text \<open>A configuration with the sections of \<open>d\<close>.\<close>

definition conf_is :: "smart_conf \<Rightarrow> doc \<Rightarrow> bool" where
  "conf_is c d \<longleftrightarrow> (\<exists>xs ys. p_secs c = Live (xs @ ys) \<and> sec_num c = int (length d) \<and> list_all2 sec_is xs d)"

lemma conf_item:
  assumes "conf_is c d" and "distinct (map (lc \<circ> fst) d)"
  shows "\<exists>r. find_item c sn name = Inr r \<and> found_is r (doc_lookup d sn name)"
proof -
  obtain xs ys where c: "p_secs c = Live (xs @ ys)" "sec_num c = int (length d)" "list_all2 sec_is xs d"
    using assms(1) by (auto simp: conf_is_def)
  have l: "length xs = length d" using c(3) by (rule list_all2_lengthD)
  show ?thesis
    using find_secs_doc [OF c(3) assms(2), of sn name] c l
    by (cases "d = []") (simp_all add: find_item_def doc_lookup_def found_is_def)
qed

lemma doc_lookup_value:
  assumes "doc_ok d" and "doc_lookup d sn name = Some v"
  shows "v \<noteq> [] \<and> 0 \<notin> set v"
proof -
  obtain its where "map_of (map (\<lambda>(n, its). (lc n, its)) d) (lc sn) = Some its" "map_of (map (\<lambda>(k, v). (lc k, v)) its) (lc name) = Some v"
    using assms(2) by (auto simp: doc_lookup_def split: option.splits)
  then obtain n k where "(n, its) \<in> set d" "(k, v) \<in> set its" by (auto dest!: map_of_SomeD)
  then have "value_ok v" using assms(1) by (auto simp: doc_ok_def items_ok_def)
  then show ?thesis by (simp add: value_ok_def plain_def)
qed

lemma conf_text:
  assumes "conf_is c d" and "doc_ok d"
  shows "item_text c sn name = Inr (doc_lookup d sn name)"
proof -
  have dd: "distinct (map (lc \<circ> fst) d)" using assms(2) by (simp add: doc_ok_def)
  obtain r where "find_item c sn name = Inr r" "found_is r (doc_lookup d sn name)"
    using conf_item [OF assms(1) dd] by blast
  moreover have "0 \<notin> set v \<Longrightarrow> cstr (v @ [0]) = Inr v" for v using cstr_at [of v "[]"] by simp
  ultimately show ?thesis
    using doc_lookup_value [OF assms(2)] by (auto simp: item_text_def found_is_def split: option.splits)
qed

section \<open>Reading a file in one chunk\<close>

lemma doc_lines_plain:
  assumes "doc_ok d"
  shows "\<forall>l\<in>set (doc_lines d). plain l"
  using assms
  by (fastforce simp: doc_lines_def sec_lines_def sec_line_def item_line_def doc_ok_def items_ok_def sec_name_ok_def
      key_ok_def value_ok_def plain_def)

text \<open>A file with the text \<open>t\<close> that is there, fits a block, and is read at once.\<close>

definition in_one_block :: "file_env \<Rightarrow> bytes \<Rightarrow> bool" where
  "in_one_block f t \<longleftrightarrow> f_open f \<and> f_buf f \<noteq> None \<and> f_reads f = [Read t]
     \<and> (case f_stat f of None \<Rightarrow> False | Some (n, bs) \<Rightarrow> n = int (length t) \<and> length t \<le> bs)"

lemma ini_read_run:
  assumes "in_one_block f (line_text ls)" and "ls \<noteq> []" and "\<forall>l\<in>set ls. plain l"
    and "ini_run (f_lines f) \<lparr>conf = c, cur = None, sec_seq = 0, item_seq = 0, line_no = 0\<rparr> ls = r"
  shows "ini_read f c = bindR r (\<lambda>(code, st). Inr (Some (if code \<noteq> F1G_OK then (F1G_ERR, conf st)
    else (F1G_OK, (conf st)\<lparr>sec_num := int (sec_seq st)\<rparr>))))"
proof -
  obtain bs g where f: "f_open f" "f_stat f = Some (int (length (line_text ls)), bs)" "f_buf f = Some g"
    "f_reads f = [Read (line_text ls)]" "length (line_text ls) \<le> bs"
    using assms(1) by (auto simp: in_one_block_def split: option.splits)
  let ?t = "line_text ls" and ?st = "\<lparr>conf = c, cur = None, sec_seq = 0, item_seq = 0, line_no = 0\<rparr>"
  let ?post = "drop (length ?t) (map g [0..<Suc bs])"
  have t: "0 < length ?t" "?t \<noteq> []" using assms(2) by (cases ls; simp add: line_text_def)+
  have m: "malloc (Some g) (int bs + 1) = Live (map g [0..<Suc bs])" by (simp add: nat_add_distrib del: upt_Suc)
  have p: "put (map g [0..<Suc bs]) 0 ?t = Inr (?t @ ?post)" using f(5) by (simp add: put_def del: upt_Suc)
  have ne: "?post \<noteq> []" using f(5) by (simp del: upt_Suc)
  have ch: "ini_chunks (f_lines f) bs [Read ?t] (int (length ?t)) False (map g [0..<Suc bs]) 0 ?st
      = bindR (ini_lines (f_lines f) True (length ?t) (?t @ ?post) 0 (int (length ?t)) ?st) (\<lambda>(r, b, p, st').
          Inr (Some (if r \<noteq> F1G_OK then (F1G_ERR, st') else (F1G_OK, st'))))"
    using t p f(5) by (simp add: Let_def split_def if_distrib [of "\<lambda>x. Inr (Some x)"] cong: if_cong del: upt_Suc)
  have run: "bindR (ini_lines (f_lines f) True (length ?t) (?t @ ?post) 0 (int (length ?t)) ?st) (\<lambda>(r, b, p, st'). Inr (r, st')) = r"
    using ini_lines_run [of ls "?t @ ?post" "[]" ?post "length ?t" "f_lines f" True "int (length ?t)" ?st] assms(3,4) ne by simp
  have "ini_read f c = bindR (bindR (ini_lines (f_lines f) True (length ?t) (?t @ ?post) 0 (int (length ?t)) ?st) (\<lambda>(r, b, p, st'). Inr (r, st')))
      (\<lambda>(code, st). Inr (Some (if code \<noteq> F1G_OK then (F1G_ERR, conf st) else (F1G_OK, (conf st)\<lparr>sec_num := int (sec_seq st)\<rparr>))))"
    unfolding ini_read_def f(2-4) m option.case prod.case ptr.case ch
    by (cases "ini_lines (f_lines f) True (length ?t) (?t @ ?post) 0 (int (length ?t)) ?st") (auto simp: f(1))
  then show ?thesis unfolding run .
qed

text \<open>The state of the reader on a new configuration.\<close>

lemma init_st_is:
  assumes "smart_conf_init oks c0 ssz isz = (F1G_OK, c)" and "0 < ssz" and "0 < isz"
  shows "\<exists>ys. st_is \<lparr>conf = c, cur = None, sec_seq = 0, item_seq = 0, line_no = 0\<rparr> [] ys [] \<and> int (length ys) = ssz
    \<and> sec_num c = 0"
proof -
  have "c = \<lparr>sec_num = 0, sec_size = ssz, p_secs = Live (replicate (nat ssz)
              (zero_sec\<lparr>item_size := isz, p_items := Live (replicate (nat isz) zero_item)\<rparr>))\<rparr>"
    using assms by (auto simp: smart_conf_init_def split: if_splits)
  then show ?thesis
    using assms(2,3) by (auto simp: st_is_def fresh_sec_def items_blk_def zero_sec_def zero_item_def SEC_NAME_SIZE_def ITEM_NAME_SIZE_def)
qed

section \<open>Properties\<close>

lemma read_document:
  assumes "smart_conf_init oks c0 ssz isz = (F1G_OK, c)" and "0 < ssz" and "0 < isz" and "doc_ok d" and "d \<noteq> []"
    and "int (length d) \<le> ssz" and "in_one_block f (ini_text d)" and "env_ok (f_lines f)"
  shows "\<exists>c'. smart_conf_read f c CFT_INI = Inr (Some (F1G_OK, c')) \<and> conf_is c' d"
proof -
  let ?st = "\<lparr>conf = c, cur = None, sec_seq = 0, item_seq = 0, line_no = 0\<rparr>"
  obtain zs where z: "st_is ?st [] zs []" "int (length zs) = ssz" using init_st_is [OF assms(1-3)] by blast
  define us where "us = take (length d) zs"
  define ys where "ys = drop (length d) zs"
  have uy: "zs = us @ ys" "length us = length d" using z(2) assms(6) by (simp_all add: us_def ys_def)
  obtain st' xs' where r: "ini_run (f_lines f) ?st (doc_lines d) = Inr (F1G_OK, st')" "st_is st' xs' ys ([] @ d)"
    using ini_run_doc [OF assms(8) z(1) [unfolded uy(1)] assms(4) uy(2)] by auto
  have ne: "doc_lines d \<noteq> []" using assms(5) by (cases d) (simp_all add: doc_lines_def sec_lines_def)
  let ?c = "(conf st')\<lparr>sec_num := int (sec_seq st')\<rparr>"
  have "smart_conf_read f c CFT_INI = Inr (Some (F1G_OK, ?c))"
    using ini_read_run [OF assms(7) [unfolded ini_text_def] ne doc_lines_plain [OF assms(4)] r(1)]
    by (simp add: smart_conf_read_def ini_text_def)
  moreover have "conf_is ?c d" using r(2) by (auto simp: conf_is_def st_is_def)
  ultimately show ?thesis by blast
qed

text \<open>C17. A well-formed INI file with one section or more, and no more of them than the new configuration has
  places for, read in one piece with every allocation successful: every value is found under the names of its section and
  item, letter case aside, and nothing else is found. The arrays of items grow as needed; that of the sections does not,
  with one section more the earlier ones are lost (\<open>smart_conf_overfull_loses_sections\<close>).\<close>

theorem smart_conf_reads_document:
  assumes "smart_conf_init oks c0 ssz isz = (F1G_OK, c)" and "0 < ssz" and "0 < isz" and "doc_ok d" and "d \<noteq> []"
    and "int (length d) \<le> ssz" and "in_one_block f (ini_text d)" and "env_ok (f_lines f)"
  shows "\<exists>c'. smart_conf_read f c CFT_INI = Inr (Some (F1G_OK, c')) \<and> conf_is c' d
    \<and> (\<forall>sn name. item_text c' sn name = Inr (doc_lookup d sn name))"
  using read_document [OF assms] conf_text [OF _ assms(4)] by blast

text \<open>A section line when the array of sections is full: the new array is all zero, since \<^verbatim>\<open>sec_num\<close> is
  assigned only at the end of the file.\<close>

lemma ini_section_full:
  assumes "st_is st xs [] d" and "sec_num (conf st) = 0" and "sec_name_ok n" and "n \<noteq> []" and "d \<noteq> []" and "fst env"
  shows "\<exists>st' xs' ys'. ini_line env st (sec_line n) = Inr (F1G_OK, st')
    \<and> st_is st' xs' ys' (replicate (length d) ([], []) @ [(n, [])])"
proof -
  define k where "k = length d"
  have s: "p_secs (conf st) = Live xs" "sec_size (conf st) = int k" "sec_seq st = k" "0 < k" "length xs = k"
    using assms(1,5) list_all2_lengthD [of sec_is xs d] by (auto simp: st_is_def k_def)
  have n: "length n < 64" "0 \<notin> set n" "0x5D \<notin> set n" using assms(3) by (auto simp: sec_name_ok_def plain_def SEC_NAME_SIZE_def)
  have y: "length (sec_name zero_sec) = 64" by (simp add: zero_sec_def SEC_NAME_SIZE_def)
  let ?ss = "replicate (k + k) zero_sec"
  have x: "extend_sec_size (fst env) (conf st) (sec_size (conf st) * 2) = Inr (F1G_OK, (conf st)\<lparr>p_secs := Live ?ss, sec_size := int (k + k)\<rparr>)"
    using s(1,2,4) assms(2,6) by (simp add: extend_sec_size_def Let_def zalloc_def nat_add_distrib mult_2_right)
  have rep: "replicate 64 (0 :: u8) = 0 # replicate 63 0" using replicate_Suc [of 63 "0 :: u8"] by simp
  have sz: "sec_is zero_sec ([], [])" "fresh_sec zero_sec"
    by (auto simp: sec_is_def fresh_sec_def zero_sec_def items_blk_def named_def SEC_NAME_SIZE_def rep)
  let ?y = "zero_sec\<lparr>sec_name := n @ 0 # drop (Suc (length n)) (sec_name zero_sec)\<rparr>"
  have split: "?ss = replicate k zero_sec @ zero_sec # replicate (k - 1) zero_sec"
    using s(4) by (cases k) (simp_all add: replicate_add [symmetric] replicate_app_Cons_same)
  have r: "rd ?ss k = Inr zero_sec" "wr ?ss k ?y = Inr (replicate k zero_sec @ ?y # replicate (k - 1) zero_sec)"
    unfolding split by (simp_all add: rd_def wr_def nth_append list_update_append)
  have "list_all2 named (map sec_name (replicate k zero_sec)) (replicate k [])"
    using sz(1) by (auto simp: list_all2_conv_all_nth sec_is_def)
  then have nd: "any_same n (replicate k (sec_name zero_sec)) = Inr False"
    using any_same_named [of "map sec_name (replicate k zero_sec)" "replicate k []" n] assms(4) by (auto simp: lc_def)
  let ?st = "st\<lparr>line_no := Suc (line_no st), conf := (conf st)\<lparr>p_secs := Live (replicate k zero_sec @ ?y # replicate (k - 1) zero_sec), sec_size := int (k + k)\<rparr>,
      cur := Some k, sec_seq := Suc k, item_seq := 0\<rparr>"
  have run: "ini_line env st (sec_line n) = Inr (F1G_OK, ?st)"
    using s(2,3) x r n nd put_name [OF y n(1)] take_until [OF n(3), of "[]"]
    by (simp add: ini_line_def sec_line_def ini_section_def Let_def SEC_NAME_SIZE_def)
  have sy: "sec_is ?y (n, [])"
    using sz(2) fresh_named [OF y n(1,2)] by (auto simp: sec_is_def fresh_sec_def items_blk_def)
  have "st_is ?st (replicate k zero_sec @ [?y]) (replicate (k - 1) zero_sec) (replicate k ([], []) @ [(n, [])])"
    using sz sy s(4) by (auto simp: st_is_def list_all2_appendI list_all2_conv_all_nth nth_append)
  then show ?thesis using run unfolding k_def by blast
qed

text \<open>A file with one section more than the configuration has room for: it is read with a code of
  success, and of its sections only the last is left.\<close>

theorem smart_conf_overfull_loses_sections:
  assumes "smart_conf_init oks c0 ssz isz = (F1G_OK, c)" and "0 < ssz" and "0 < isz" and "doc_ok (d @ [(n, its)])" and "n \<noteq> []"
    and "int (length d) = ssz" and "in_one_block f (ini_text (d @ [(n, its)]))" and "env_ok (f_lines f)"
  shows "\<exists>c'. smart_conf_read f c CFT_INI = Inr (Some (F1G_OK, c'))
    \<and> (\<forall>sn name. sn \<noteq> [] \<longrightarrow> item_text c' sn name = Inr (doc_lookup [(n, its)] sn name))"
proof -
  let ?st = "\<lparr>conf = c, cur = None, sec_seq = 0, item_seq = 0, line_no = 0\<rparr>" and ?d = "d @ [(n, its)]"
  obtain ys where z: "st_is ?st [] ys []" "int (length ys) = ssz" "sec_num c = 0" using init_st_is [OF assms(1-3)] by blast
  have ok: "doc_ok d" "sec_name_ok n" "items_ok its" "doc_ok [(n, its)]" using assms(4) by (auto simp: doc_ok_def)
  have ly: "length ys = length d" "d \<noteq> []" using z(2) assms(2,6) by auto
  obtain st1 xs1 where 1: "ini_run (f_lines f) ?st (doc_lines d) = Inr (F1G_OK, st1)" "st_is st1 xs1 [] ([] @ d)"
    "sec_num (conf st1) = sec_num (conf ?st)"
    using ini_run_doc [of "f_lines f" ?st "[]" ys "[]" "[]" d] assms(8) z(1) ok(1) ly(1) by auto
  have e: "fst (f_lines f (line_no st1))" using assms(8) by (simp add: env_ok_def)
  obtain st2 xs2 ys2 where 2: "ini_line (f_lines f (line_no st1)) st1 (sec_line n) = Inr (F1G_OK, st2)"
    "st_is st2 xs2 ys2 (replicate (length d) ([], []) @ [(n, [])])"
    using ini_section_full [of st1 xs1 d n "f_lines f (line_no st1)"] 1(2,3) z(3) ok(2) assms(5) ly(2) e by auto
  obtain st3 xs3 where 3: "ini_run (f_lines f) st2 (map item_line its) = Inr (F1G_OK, st3)"
    "st_is st3 xs3 ys2 (replicate (length d) ([], []) @ [(n, its)])"
    using ini_run_items [OF assms(8) 2(2) ok(3)] by blast
  have dl: "doc_lines ?d = doc_lines d @ sec_line n # map item_line its" by (simp add: doc_lines_def sec_lines_def)
  have r: "ini_run (f_lines f) ?st (doc_lines ?d) = Inr (F1G_OK, st3)"
    unfolding dl using ini_run_append [OF 1(1), of "sec_line n # map item_line its"] 2(1) 3(1) by simp
  have ne: "doc_lines ?d \<noteq> []" by (simp add: dl)
  let ?c = "(conf st3)\<lparr>sec_num := int (sec_seq st3)\<rparr>"
  have rd: "smart_conf_read f c CFT_INI = Inr (Some (F1G_OK, ?c))"
    using ini_read_run [OF assms(7) [unfolded ini_text_def] ne doc_lines_plain [OF assms(4)] r]
    by (simp add: smart_conf_read_def ini_text_def)
  obtain zs s where zs: "xs3 = zs @ [s]" "list_all2 sec_is zs (replicate (length d) ([], []))" "sec_is s (n, its)"
    using 3(2) by (auto simp: st_is_def list_all2_append2 list_all2_Cons2)
  have tx: "item_text ?c sn name = Inr (doc_lookup [(n, its)] sn name)" if "sn \<noteq> []" for sn name
  proof -
    have c: "p_secs ?c = Live (zs @ s # ys2)" "sec_num ?c = int (Suc (length zs))"
      using 3(2) zs list_all2_lengthD [OF zs(2)] by (simp_all add: st_is_def)
    have other: "lc sn \<notin> (lc \<circ> fst) ` set (replicate (length d) ([], []))" using that by (auto simp: lc_def)
    have "slice (zs @ s # ys2) 0 (int (Suc (length zs))) = Inr (zs @ [s])" by (simp add: slice_def del: of_nat_Suc)
    then have "find_item ?c sn name = find_secs sn name (zs @ [s]) None"
      unfolding find_item_def c by (simp del: of_nat_Suc)
    also have "\<dots> = find_secs sn name [s] None" by (rule find_secs_skip [OF zs(2) other])
    also have "\<dots> = find_item \<lparr>sec_num = 1, sec_size = 1, p_secs = Live [s]\<rparr> sn name" by (simp add: find_item_def)
    finally have "item_text ?c sn name = item_text \<lparr>sec_num = 1, sec_size = 1, p_secs = Live [s]\<rparr> sn name"
      by (simp add: item_text_def)
    moreover have "conf_is \<lparr>sec_num = 1, sec_size = 1, p_secs = Live [s]\<rparr> [(n, its)]"
      unfolding conf_is_def using zs(3) by (intro exI [of _ "[s]"] exI [of _ "[]"]) simp
    ultimately show ?thesis using conf_text [OF _ ok(4)] by simp
  qed
  show ?thesis using rd tx by blast
qed

text \<open>What a chunk that ends inside a line leaves: the lines before are read, the rest of the chunk is not
  kept.\<close>

lemma ini_lines_partial:
  assumes "\<forall>l\<in>set ls. plain l" and "plain w" and "w \<noteq> []" and "buf = pre @ line_text ls @ w @ post"
    and "e = length pre + length (line_text ls @ w)" and "ini_run env st ls = Inr (F1G_OK, st')" and "post \<noteq> []"
  shows "\<exists>b. ini_lines env False e buf (length pre) pl st = Inr (F1G_OK, b, 0, st') \<and> length b = length buf"
  using assms
proof (induction ls arbitrary: buf pre pl st)
  case Nil
  have "takeWhile (\<lambda>c. c \<noteq> 0x0A) w = w" using Nil.prems(2) by (auto simp: plain_def takeWhile_eq_all_conv)
  then have lw: "length (takeWhile (\<lambda>c. c \<noteq> 0x0A) w) = length w" by (rule arg_cong)
  show ?case using Nil.prems by (subst ini_lines.simps) (simp add: line_text_def Let_def lw)
next
  case (Cons l ls)
  have l: "0 \<notin> set l" "0x0A \<notin> set l" using Cons.prems(1) by (auto simp: plain_def)
  have b: "buf = pre @ l @ 0x0A # line_text ls @ w @ post" using Cons.prems(4) by (simp add: line_text_def)
  have e: "e = length pre + (length l + Suc (length (line_text ls @ w)))" using Cons.prems(5) by (simp add: line_text_def)
  let ?q = "length pre + length l" and ?b = "pre @ l @ 0 # line_text ls @ w @ post"
  have t: "take (e - length pre) (drop (length pre) buf) = l @ 0x0A # line_text ls @ w" using b e by simp
  have q: "length (takeWhile (\<lambda>c. c \<noteq> 0x0A) (take (e - length pre) (drop (length pre) buf))) = length l"
    unfolding t take_until [OF l(2)] ..
  have wr: "wr buf ?q 0 = Inr ?b" using b by (simp add: wr_def list_update_append)
  have c: "takeWhile (\<lambda>c. c \<noteq> 0) (drop (length pre) ?b) = l" using take_until [OF l(1)] by simp
  obtain st1 where 1: "ini_line (env (line_no st)) st l = Inr (F1G_OK, st1)" "ini_run env st1 ls = Inr (F1G_OK, st')"
    using Cons.prems(6) by (auto simp: bindR_def split: sum.splits if_splits)
  have ih: "\<exists>b. ini_lines env False e ?b (length (pre @ l @ [0])) (int e - int ?q) st1 = Inr (F1G_OK, b, 0, st') \<and> length b = length ?b"
    using Cons.prems(1-3,7) e 1(2) by (intro Cons.IH) auto
  have lt: "length pre < e" "?q \<noteq> e" using e by simp_all
  have "ini_lines env False e buf (length pre) pl st = ini_lines env False e ?b (Suc ?q) (int e - int ?q) st1"
    unfolding ini_lines.simps [of env False e buf] Let_def q wr bindR_simps c using lt 1(1) by simp
  moreover have "length (pre @ l @ [0]) = Suc ?q" by simp
  ultimately show ?case using ih b by auto
qed

lemma ini_chunks_read:
  assumes "0 < remain" and "ys \<noteq> []" and "length ys \<le> bs" and "put buf 0 ys = Inr buf2"
    and "rf' \<longleftrightarrow> rf \<or> remain = int (length ys)"
    and "ini_lines env rf' (length ys) buf2 0 (int (length ys)) st = Inr (F1G_OK, b3, pl', st')"
  shows "ini_chunks env bs (Read ys # xs) remain rf buf 0 st = ini_chunks env bs xs (remain - int (length ys)) rf' b3 pl' st'"
proof -
  have "take (nat (int bs - 0)) ys = ys" using assms(3) by simp
  moreover have "(rf \<or> ys = [] \<or> remain - int (length ys) = 0) = rf'" using assms(2,5) by auto
  ultimately show ?thesis using assms(1,2,4,6) by (simp only: ini_chunks.simps Let_def) simp
qed

text \<open>A line that crosses the end of a block of the file: its first part is dropped, and what follows in the
  next block is read as a line of its own.\<close>

theorem ini_read_drops_split_line:
  assumes "f_open f" and "f_stat f = Some (int (length (line_text ls @ w) + length (line_text ls2)), length (line_text ls @ w))"
    and "f_buf f = Some g" and "f_reads f = [Read (line_text ls @ w), Read (line_text ls2)]"
    and "\<forall>l\<in>set (ls @ ls2). plain l" and "plain w" and "w \<noteq> []" and "ls2 \<noteq> []"
    and "length (line_text ls2) \<le> length (line_text ls @ w)"
    and "ini_run (f_lines f) \<lparr>conf = c, cur = None, sec_seq = 0, item_seq = 0, line_no = 0\<rparr> (ls @ ls2) = Inr (F1G_OK, st)"
  shows "smart_conf_read f c CFT_INI = Inr (Some (F1G_OK, (conf st)\<lparr>sec_num := int (sec_seq st)\<rparr>))"
proof -
  let ?t = "line_text ls @ w" and ?t2 = "line_text ls2" and ?st = "\<lparr>conf = c, cur = None, sec_seq = 0, item_seq = 0, line_no = 0\<rparr>"
  let ?bs = "length ?t" and ?m = "map g [0..<Suc (length ?t)]"
  have run_split: "ini_run env s (a @ b) = Inr (F1G_OK, z) \<Longrightarrow> \<exists>y. ini_run env s a = Inr (F1G_OK, y) \<and> ini_run env y b = Inr (F1G_OK, z)"
    for env s a b z
    by (induction a arbitrary: s) (auto simp: bindR_def split: sum.splits if_splits)
  obtain st1 where r: "ini_run (f_lines f) ?st ls = Inr (F1G_OK, st1)" "ini_run (f_lines f) st1 ls2 = Inr (F1G_OK, st)"
    using run_split [OF assms(10)] by blast
  have t2: "0 < length ?t2" "?t2 \<noteq> []" using assms(8) by (cases ls2; simp add: line_text_def)+
  have m: "malloc (Some g) (int ?bs + 1) = Live ?m" by (simp add: nat_add_distrib del: upt_Suc)
  let ?post = "drop ?bs ?m"
  have p: "put ?m 0 ?t = Inr (?t @ ?post)" "?post \<noteq> []" by (simp_all add: put_def del: upt_Suc)
  obtain b where b: "ini_lines (f_lines f) False ?bs (?t @ ?post) 0 (int ?bs) ?st = Inr (F1G_OK, b, 0, st1)" "length b = Suc ?bs"
    using ini_lines_partial [of ls w "?t @ ?post" "[]" ?post ?bs "f_lines f" ?st st1 "int ?bs"] assms(5-7) r(1) p(2)
    by (auto simp del: upt_Suc)
  let ?post2 = "drop (length ?t2) b"
  have p2: "put b 0 ?t2 = Inr (?t2 @ ?post2)" "?post2 \<noteq> []" using assms(9) b(2) by (simp_all add: put_def)
  have run2: "bindR (ini_lines (f_lines f) True (length ?t2) (?t2 @ ?post2) 0 (int (length ?t2)) st1) (\<lambda>(r, b, p, st'). Inr (r, st')) = Inr (F1G_OK, st)"
    using ini_lines_run [of ls2 "?t2 @ ?post2" "[]" ?post2 "length ?t2" "f_lines f" True "int (length ?t2)" st1] assms(5) p2(2) r(2) by simp
  then obtain b2 pl2 where l2: "ini_lines (f_lines f) True (length ?t2) (?t2 @ ?post2) 0 (int (length ?t2)) st1 = Inr (F1G_OK, b2, pl2, st)"
    by (auto simp: bindR_def split: sum.splits prod.splits)
  have pos: "0 < int (?bs + length ?t2)" "?t \<noteq> []" using t2(1) assms(7) by (linarith, simp)
  have "ini_chunks (f_lines f) ?bs [Read ?t, Read ?t2] (int (?bs + length ?t2)) False ?m 0 ?st
      = ini_chunks (f_lines f) ?bs [Read ?t2] (int (?bs + length ?t2) - int ?bs) False b 0 st1"
    using t2(1) by (intro ini_chunks_read [OF pos order.refl p(1) _ b(1)]) simp
  also have "int (?bs + length ?t2) - int ?bs = int (length ?t2)" by simp
  also have "ini_chunks (f_lines f) ?bs [Read ?t2] (int (length ?t2)) False b 0 st1
      = ini_chunks (f_lines f) ?bs [] (int (length ?t2) - int (length ?t2)) True b2 pl2 st"
    using t2 by (intro ini_chunks_read [OF _ t2(2) assms(9) p2(1) _ l2]) simp_all
  also have "\<dots> = Inr (Some (F1G_OK, st))" by simp
  finally have ch: "ini_chunks (f_lines f) ?bs [Read ?t, Read ?t2] (int (?bs + length ?t2)) False ?m 0 ?st = Inr (Some (F1G_OK, st))" .
  show ?thesis
    unfolding smart_conf_read_def ini_read_def assms(2-4) option.case prod.case m ptr.case ch bindR_simps
    using assms(1) by simp
qed

text \<open>Two files that make the reader misbehave: an item in front of the first section is stored through a null
  pointer, and an item whose value is a single space copies a length of -1.\<close>

theorem ini_read_bad_lines:
  assumes "smart_conf_init oks c0 ssz isz = (F1G_OK, c)" and "0 < ssz" and "0 < isz" and "key_ok k" and "\<forall>l\<in>set ls. plain l"
    and "sec_name_ok n" and "value_ok v" and "env_ok (f_lines f)" and "env_ok (f_lines f')"
    and "in_one_block f (line_text (item_line (k, v) # ls))"
    and "in_one_block f' (line_text (sec_line n # (k @ [0x3D, 0x20]) # ls))"
  shows "smart_conf_read f c CFT_INI = Inl NullDeref \<and> smart_conf_read f' c CFT_INI = Inl OutOfBounds"
proof -
  let ?st = "\<lparr>conf = c, cur = None, sec_seq = 0, item_seq = 0, line_no = 0\<rparr>"
  obtain zs where z: "st_is ?st [] zs []" "int (length zs) = ssz" using init_st_is [OF assms(1-3)] by blast
  obtain y ys where zy: "zs = y # ys" using z(2) assms(2) by (cases zs) auto
  have pl: "plain (item_line (k, v))" "plain (sec_line n)" "plain (k @ [0x3D, 0x20])"
    using assms(4,6,7) by (auto simp: plain_def item_line_def sec_line_def key_ok_def value_ok_def sec_name_ok_def)
  obtain x xs where k: "k = x # xs" "x \<noteq> 0x20" "x \<noteq> 0x23" "x \<noteq> 0x5B" using assms(4) by (cases k) (auto simp: key_ok_def)
  have "ini_run (f_lines f) ?st (item_line (k, v) # ls) = Inl NullDeref"
    using k by (simp add: ini_line_def item_line_def Let_def ini_item_def)
  then have 1: "smart_conf_read f c CFT_INI = Inl NullDeref"
    using ini_read_run [OF assms(10) _ _ refl, of c] pl(1) assms(5) by (simp add: smart_conf_read_def)
  obtain st y' where st: "ini_line (f_lines f' 0) ?st (sec_line n) = Inr (F1G_OK, st)" "st_is st ([] @ [y']) ys ([] @ [(n, [])])"
    using ini_line_section [of ?st "[]" y ys "[]" n "f_lines f' 0"] z(1) assms(6) unfolding zy by auto
  have sy: "sec_is y' (n, [])" "p_secs (conf st) = Live (y' # ys)" "cur st = Some 0" "item_seq st = 0"
    using st(2) by (auto simp: st_is_def)
  obtain g where e: "fst (f_lines f' (line_no st))" "snd (f_lines f' (line_no st)) = Some g" using assms(9) by (auto simp: env_ok_def)
  obtain s where s: "(if int (item_seq st) \<ge> item_size y' then extend_item_size True y' (item_size y' * 2) else Inr (F1G_OK, y')) = Inr (F1G_OK, s)"
    "sec_is s (n, [])" "0 < length (items_blk s)"
  proof (cases "item_size y' \<le> 0")
    case True
    have "int (length (items_blk y')) = item_size y'" using sy(1) by (simp add: sec_is_def)
    then have "length (items_blk y') = 0" using True by linarith
    then have "length ([] :: (bytes \<times> bytes) list) = length (items_blk y')" by simp
    from extend_item_ok [OF sy(1) this] show ?thesis using that True sy(4) by auto
  next
    case False
    have "int (length (items_blk y')) = item_size y'" using sy(1) by (simp add: sec_is_def)
    then have "0 < length (items_blk y')" using False by linarith
    then show ?thesis using that [of y'] sy(1,4) False by simp
  qed
  obtain i "is" where i: "p_items s = Live (i # is)" "length (item_name i) = 64"
    using s(2,3) by (cases "p_items s") (auto simp: items_blk_def sec_is_def neq_Nil_conv)
  have nm: "length k < 64" "\<not> 64 \<le> length k" "takeWhile (\<lambda>x. x \<noteq> 0x20 \<and> x \<noteq> 0x3D) (k @ 0x3D # z) = k" for z
    using assms(4) by (auto simp: key_ok_def ITEM_NAME_SIZE_def takeWhile_append)
  have "ini_item (f_lines f' (line_no st)) (st\<lparr>line_no := Suc (line_no st)\<rparr>) (k @ [0x3D, 0x20]) = Inl OutOfBounds"
    using sy(2-4) s(1) e i nm put_name [OF i(2) nm(1)]
    by (cases "item_size y' \<le> 0"; simp add: ini_item_def Let_def ITEM_NAME_SIZE_def val_span_def)
  then have "ini_run (f_lines f') ?st (sec_line n # (k @ [0x3D, 0x20]) # ls) = Inl OutOfBounds"
    using st(1) k by (simp add: ini_line_def Let_def)
  then have "smart_conf_read f' c CFT_INI = Inl OutOfBounds"
    using ini_read_run [OF assms(11) _ _ refl, of c] pl(2,3) assms(5) by (simp add: smart_conf_read_def)
  with 1 show ?thesis ..
qed

text \<open>The decimal text of a number in the range of the lookup is read back as the number; an item that is not
  there gives the default.\<close>

theorem smart_conf_numbers:
  assumes "conf_is c d" and "doc_ok d"
    and "doc_lookup d sn name = map_option int_text x"
  shows "(\<forall>y. x = Some y \<longrightarrow> - (2 ^ 31) \<le> y \<longrightarrow> y < 2 ^ 31 \<longrightarrow> smart_conf_get_i32 c sn name dft = Inr (F1G_OK, y))
    \<and> (\<forall>y. x = Some y \<longrightarrow> - (2 ^ 63) \<le> y \<longrightarrow> y < 2 ^ 63 \<longrightarrow> smart_conf_get_i64 c sn name dft = Inr (F1G_OK, y))
    \<and> (\<forall>y. x = Some y \<longrightarrow> 0 \<le> y \<longrightarrow> y < 2 ^ 32 \<longrightarrow> smart_conf_get_u32 c sn name dft = Inr (F1G_OK, y))
    \<and> (\<forall>y. x = Some y \<longrightarrow> 0 \<le> y \<longrightarrow> y < 2 ^ 64 \<longrightarrow> smart_conf_get_u64 c sn name dft = Inr (F1G_OK, y))
    \<and> (x = None \<longrightarrow> smart_conf_get_i32 c sn name dft = Inr (F1G_OK, dft))"
proof -
  have t: "item_text c sn name = Inr (map_option int_text x)" using conf_text [OF assms(1,2)] assms(3) by simp
  have l: "strtol 10 (int_text y) = (y, [])" if "- (2 ^ 63) \<le> y" "y < 2 ^ 63" for y
    using that by (simp add: strtol_def strto_int_text)
  have u: "strtoul 10 (int_text y) = (y, [])" if "0 \<le> y" "y < 2 ^ 64" for y
    using that by (simp add: strtoul_def strto_int_text)
  have i: "to_i32 y = y" if "- (2 ^ 31) \<le> y" "y < 2 ^ 31" for y
    using that by (simp add: to_i32_def)
  have w: "to_u32 y = y" if "0 \<le> y" "y < 2 ^ 32" for y
    using that by (simp add: to_u32_def)
  show ?thesis
    using t l u i w
    by (auto simp: smart_conf_get_i32_def smart_conf_get_i64_def smart_conf_get_u32_def smart_conf_get_u64_def get_num_def)
qed

section \<open>Examples\<close>

definition sample_doc :: doc where
  "sample_doc = [([0x61], [([0x6B], [0x37])])]"

definition sample_file :: "bytes \<Rightarrow> file_env" where
  "sample_file t = \<lparr>f_open = True, f_stat = Some (int (length t), length t), f_buf = Some (\<lambda>_. 0), f_reads = [Read t],
     f_lines = (\<lambda>_. (True, Some (\<lambda>_. 0)))\<rparr>"

definition empty_conf :: "int \<Rightarrow> smart_conf" where
  "empty_conf n = \<lparr>sec_num = 0, sec_size = n, p_secs = Live (replicate (nat n)
     (zero_sec\<lparr>item_size := 1, p_items := Live [zero_item]\<rparr>))\<rparr>"

lemma sample_file_ok: "in_one_block (sample_file t) t" "env_ok (f_lines (sample_file t))"
  by (simp_all add: in_one_block_def sample_file_def env_ok_def)

lemma empty_conf_init: "0 < n \<Longrightarrow> smart_conf_init (\<lambda>_. True) (empty_conf 0) n 1 = (F1G_OK, empty_conf n)"
  by (simp add: smart_conf_init_def empty_conf_def list_all_iff)

lemma sample_doc_ok: "doc_ok sample_doc" "doc_ok (sample_doc @ [([0x62], [([0x6B], [0x38])])])"
  by (simp_all add: sample_doc_def doc_ok_def sec_name_ok_def items_ok_def key_ok_def value_ok_def plain_def
      SEC_NAME_SIZE_def ITEM_NAME_SIZE_def lc_def lower_case_def)

lemma smart_conf_reads_document_witness:
  "\<exists>c'. smart_conf_read (sample_file (ini_text sample_doc)) (empty_conf 1) CFT_INI = Inr (Some (F1G_OK, c'))
    \<and> item_text c' [0x41] [0x4B] = Inr (Some [0x37])"
  using smart_conf_reads_document [OF empty_conf_init [of 1] _ _ sample_doc_ok(1) _ _ sample_file_ok]
  by (auto simp: sample_doc_def doc_lookup_def lc_def lower_case_def)

lemma smart_conf_overfull_loses_sections_witness:
  "\<exists>c'. smart_conf_read (sample_file (ini_text (sample_doc @ [([0x62], [([0x6B], [0x38])])]))) (empty_conf 1) CFT_INI
       = Inr (Some (F1G_OK, c'))
    \<and> item_text c' [0x61] [0x6B] = Inr None \<and> item_text c' [0x62] [0x6B] = Inr (Some [0x38])"
  using smart_conf_overfull_loses_sections [OF empty_conf_init [of 1] _ _ sample_doc_ok(2) _ _ sample_file_ok]
  by (auto simp: sample_doc_def doc_lookup_def lc_def lower_case_def)

definition split_file :: file_env where
  "split_file = (let t = line_text [sec_line [0x61]] @ [0x78, 0x3D, 0x39]; t2 = line_text [item_line ([0x6B], [0x37])] in
     \<lparr>f_open = True, f_stat = Some (int (length t + length t2), length t), f_buf = Some (\<lambda>_. 0), f_reads = [Read t, Read t2],
      f_lines = (\<lambda>_. (True, Some (\<lambda>_. 0)))\<rparr>)"

lemma ini_read_drops_split_line_witness:
  "\<exists>c'. smart_conf_read split_file (empty_conf 1) CFT_INI = Inr (Some (F1G_OK, c'))"
proof -
  obtain zs where z: "st_is \<lparr>conf = empty_conf 1, cur = None, sec_seq = 0, item_seq = 0, line_no = 0\<rparr> [] zs []" "length zs = 1"
    using init_st_is [OF empty_conf_init [of 1]] by auto
  have e: "env_ok (f_lines split_file)" by (simp add: split_file_def env_ok_def Let_def)
  have ls: "[sec_line [0x61]] @ [item_line ([0x6B], [0x37])] = doc_lines sample_doc"
    by (simp add: sample_doc_def doc_lines_def sec_lines_def)
  have zs: "length zs = length sample_doc" using z(2) by (simp add: sample_doc_def)
  obtain st where "ini_run (f_lines split_file) \<lparr>conf = empty_conf 1, cur = None, sec_seq = 0, item_seq = 0, line_no = 0\<rparr>
      ([sec_line [0x61]] @ [item_line ([0x6B], [0x37])]) = Inr (F1G_OK, st)"
    unfolding ls using ini_run_doc [OF e, of _ "[]" zs "[]" "[]" sample_doc] z(1) zs sample_doc_ok(1) by auto
  from ini_read_drops_split_line [OF _ _ _ _ _ _ _ _ _ this, of "[0x78, 0x3D, 0x39]" "\<lambda>_. 0"] show ?thesis
    by (simp add: split_file_def Let_def plain_def sec_line_def item_line_def line_text_def)
qed

lemma ini_read_bad_lines_witness:
  "smart_conf_read (sample_file (line_text [item_line ([0x6B], [0x37])])) (empty_conf 1) CFT_INI = Inl NullDeref
    \<and> smart_conf_read (sample_file (line_text [sec_line [0x61], [0x6B] @ [0x3D, 0x20]])) (empty_conf 1) CFT_INI = Inl OutOfBounds"
  using ini_read_bad_lines [OF empty_conf_init [of 1] _ _ _ _ _ _ _ _ sample_file_ok(1) sample_file_ok(1),
      where k = "[0x6B]" and v = "[0x37]" and n = "[0x61]" and ls = "[]"] sample_file_ok(2)
  by (simp add: sec_name_ok_def key_ok_def value_ok_def plain_def SEC_NAME_SIZE_def ITEM_NAME_SIZE_def)

definition name_block :: "u8 \<Rightarrow> bytes" where
  "name_block x = [x] @ replicate (Suc 62) 0"

definition stored_sec :: sec where
  "stored_sec = \<lparr>sec_name = name_block 0x61, item_num = 1, item_size = 1,
     p_items = Live [\<lparr>item_name = name_block 0x6B, val_len = 1, val = Live [0x37, 0]\<rparr>]\<rparr>"

definition stored_conf :: smart_conf where
  "stored_conf = \<lparr>sec_num = 1, sec_size = 1, p_secs = Live [stored_sec]\<rparr>"

lemma name_block_named: "x \<noteq> 0 \<Longrightarrow> named (name_block x) [x]"
  unfolding name_block_def named_def replicate_Suc by auto

lemma stored_conf_is: "conf_is stored_conf sample_doc"
proof -
  have "sec_is stored_sec ([0x61], [([0x6B], [0x37])])"
    using name_block_named [of "0x61"] name_block_named [of "0x6B"]
    by (simp add: sec_is_def stored_sec_def items_blk_def) (rule exI, rule exI [of _ "[]"], auto simp: item_is_def)
  then show ?thesis
    unfolding conf_is_def stored_conf_def sample_doc_def
    by (intro exI [of _ "[stored_sec]"] exI [of _ "[]"]) auto
qed

lemma smart_conf_numbers_witness:
  "smart_conf_get_i32 stored_conf [0x41] [0x6B] 5 = Inr (F1G_OK, 7)"
proof -
  have "doc_lookup sample_doc [0x41] [0x6B] = map_option int_text (Some 7)"
    by (simp add: doc_lookup_def sample_doc_def lc_def lower_case_def int_text_def dec_text.simps)
  from smart_conf_numbers [OF stored_conf_is sample_doc_ok(1) this, of 5] show ?thesis by simp
qed

end
