(* ===== verification/Serv_Conf.thy ===== *)
theory Serv_Conf
  imports Smart_Conf Server
begin

text \<open>
  Where the configuration reader and the server meet: \<^verbatim>\<open>serv_load\<close> of \<^verbatim>\<open>src/f1g_server.c\<close>
  fills the \<^verbatim>\<open>server_conf_t\<close> that \<^verbatim>\<open>serv_create\<close> takes.
\<close>

section \<open>Loading\<close>

definition SERV_WIN_DESC_SIZE :: nat where "SERV_WIN_DESC_SIZE = 256"
definition WK_MODE_MT :: int where "WK_MODE_MT = 0"
definition SERV_TYPE_STCP :: int where "SERV_TYPE_STCP = 17"
definition ACCESS_SELECT :: int where "ACCESS_SELECT = 0"

definition zero_server_conf :: server_conf where
  "zero_server_conf = \<lparr>work_mode = 0, worker_num_cfg = 0, que_mode = 0, que_size = 0, que_capacity = 0, serv_type = 0,
     serv_win = replicate SERV_WIN_DESC_SIZE 0, access_mode = 0\<rparr>"

text \<open>One lookup of \<^verbatim>\<open>serv_load\<close>: the value is stored, and an error ends the loading.\<close>

definition load_field ::
  "(int \<times> 'a) run \<Rightarrow> ('a \<Rightarrow> server_conf) \<Rightarrow> (server_conf \<Rightarrow> (int \<times> server_conf) run) \<Rightarrow> (int \<times> server_conf) run" where
  "load_field r store k = bindR r (\<lambda>(code, v). if code \<noteq> F1G_OK then Inr (F1G_ERR, store v) else k (store v))"

definition SYS :: bytes where
  "SYS = lit ''sys''"

text \<open>The lookups, on a configuration that has been read. Both \<^verbatim>\<open>serv_type\<close> and \<^verbatim>\<open>access_mode\<close>
  are stored in \<^verbatim>\<open>p_conf->serv_type\<close>.\<close>

definition load_fields :: "smart_conf \<Rightarrow> (int \<times> server_conf) run" where
  "load_fields c =
     load_field (smart_conf_get_i32 c SYS (lit ''work_mode'') WK_MODE_MT) (\<lambda>v. zero_server_conf\<lparr>work_mode := v\<rparr>) (\<lambda>s.
     load_field (smart_conf_get_i32 c SYS (lit ''worker_num'') 1) (\<lambda>v. s\<lparr>worker_num_cfg := v\<rparr>) (\<lambda>s.
     load_field (smart_conf_get_i32 c SYS (lit ''que_mode'') 1) (\<lambda>v. s\<lparr>que_mode := v\<rparr>) (\<lambda>s.
     load_field (smart_conf_get_i32 c SYS (lit ''que_size'') 512) (\<lambda>v. s\<lparr>que_size := v\<rparr>) (\<lambda>s.
     load_field (smart_conf_get_i32 c SYS (lit ''que_cap'') 1024) (\<lambda>v. s\<lparr>que_capacity := v\<rparr>) (\<lambda>s.
     load_field (smart_conf_get_x32 c SYS (lit ''serv_type'') SERV_TYPE_STCP) (\<lambda>v. s\<lparr>serv_type := to_i32 v\<rparr>) (\<lambda>s.
     load_field (smart_conf_get_str c SYS (lit ''serv_win'') [] (serv_win s) (int SERV_WIN_DESC_SIZE)) (\<lambda>v. s\<lparr>serv_win := v\<rparr>) (\<lambda>s.
     load_field (smart_conf_get_i32 c SYS (lit ''access_mode'') ACCESS_SELECT) (\<lambda>v. s\<lparr>serv_type := v\<rparr>) (\<lambda>s.
       bindR (smart_conf_destroy c) (\<lambda>_. Inr (F1G_OK, s))))))))))"

definition serv_load :: "(nat \<Rightarrow> bool) \<Rightarrow> smart_conf \<Rightarrow> file_env \<Rightarrow> (int \<times> server_conf) option run" where
  "serv_load oks c0 f =
     (let (r0, c1) = smart_conf_init oks c0 4 20 in
      if r0 \<noteq> F1G_OK then Inr (Some (F1G_ERR, zero_server_conf))
      else
        bindR (smart_conf_read f c1 CFT_INI) (\<lambda>r.
          case r of
            None \<Rightarrow> Inr None
          | Some (code, c) \<Rightarrow>
              if code \<noteq> F1G_OK then bindR (smart_conf_destroy c) (\<lambda>_. Inr (Some (F1G_ERR, zero_server_conf)))
              else bindR (load_fields c) (\<lambda>x. Inr (Some x))))"

section \<open>What a document stores\<close>

lemma free_items_ok: "list_all2 item_is is its \<Longrightarrow> free_item_vals is = Inr ()"
  by (induction "is" its rule: list_all2_induct) (auto simp: item_is_def)

lemma free_secs_ok: "list_all2 sec_is xs d \<Longrightarrow> free_secs xs = Inr ()"
proof (induction xs d rule: list_all2_induct)
  case (Cons s xs x d)
  obtain as bs where ab: "items_blk s = as @ bs" "list_all2 item_is as (snd x)" "item_num s = int (length (snd x))" "p_items s \<noteq> Dangling"
    using Cons(1) by (auto simp: sec_is_def)
  have la: "length as = length (snd x)" using ab(2) by (rule list_all2_lengthD)
  have "p_items s = Live (as @ bs)" if "item_num s > 0"
    using that ab la by (cases "p_items s") (auto simp: items_blk_def)
  then show ?case
    using ab(3,4) la free_items_ok [OF ab(2)] Cons by (cases "p_items s") (auto split: if_splits)
qed simp

lemma smart_conf_destroy_ok:
  assumes "conf_is c d"
  shows "smart_conf_destroy c = Inr (F1G_OK, \<lparr>sec_num = 0, sec_size = 0, p_secs = Null\<rparr>)"
proof -
  obtain xs ys where c: "p_secs c = Live (xs @ ys)" "sec_num c = int (length d)" "list_all2 sec_is xs d"
    using assms by (auto simp: conf_is_def)
  have "length xs = length d" using c(3) by (rule list_all2_lengthD)
  then show ?thesis using c free_secs_ok [OF c(3)] by (auto simp: smart_conf_destroy_def)
qed

text \<open>A numeric item of the section \<^verbatim>\<open>sys\<close>, and whether it is a numeral.\<close>

definition num_item :: "(bytes \<Rightarrow> int \<times> bytes) \<Rightarrow> doc \<Rightarrow> string \<Rightarrow> int \<Rightarrow> int" where
  "num_item conv d name dft = (case doc_lookup d SYS (lit name) of None \<Rightarrow> dft | Some t \<Rightarrow> fst (conv t))"

definition numeral_at :: "(bytes \<Rightarrow> int \<times> bytes) \<Rightarrow> doc \<Rightarrow> string \<Rightarrow> bool" where
  "numeral_at conv d name \<longleftrightarrow> (case doc_lookup d SYS (lit name) of None \<Rightarrow> True | Some t \<Rightarrow> snd (conv t) = [])"

lemma get_num_doc:
  assumes "conf_is c d" and "doc_ok d"
  shows "get_num conv c SYS (lit name) dft = Inr (if numeral_at conv d name then F1G_OK else F1G_ERR, num_item conv d name dft)"
  using conf_text [OF assms, of SYS "lit name"]
  by (simp add: get_num_def num_item_def numeral_at_def split_def split: option.split)

definition str_item :: "doc \<Rightarrow> string \<Rightarrow> bytes" where
  "str_item d name = (case doc_lookup d SYS (lit name) of None \<Rightarrow> [] | Some t \<Rightarrow> t)"

lemma put_pad: "length t < n \<Longrightarrow> put (replicate n 0) 0 t = Inr (t @ 0 # replicate (n - Suc (length t)) 0)" for t :: bytes
  by (cases "n - length t") (auto simp: put_def)

lemma get_str_doc:
  assumes "conf_is c d" and "doc_ok d" and "length (str_item d name) < n"
  shows "smart_conf_get_str c SYS (lit name) [] (replicate n 0) (int n)
    = Inr (F1G_OK, str_item d name @ replicate (n - length (str_item d name)) 0)"
proof -
  have dd: "distinct (map (lc \<circ> fst) d)" using assms(2) by (simp add: doc_ok_def)
  obtain r where r: "find_item c SYS (lit name) = Inr r" "found_is r (doc_lookup d SYS (lit name))"
    using conf_item [OF assms(1) dd] by blast
  note t = conf_text [OF assms(1,2), of SYS "lit name"]
  obtain k where n: "n = Suc k" using assms(3) by (cases n) auto
  show ?thesis
  proof (cases "doc_lookup d SYS (lit name)")
    case None
    have "put (replicate n (0 :: u8)) 0 (replicate k 0) = Inr (replicate n 0)"
      by (simp add: put_def n del: replicate_Suc) (simp add: replicate_append_same)
    moreover have "wr (replicate n (0 :: u8)) k 0 = Inr (replicate n 0)"
      using list_update_id [of "replicate (Suc k) (0 :: u8)" k] by (simp add: n del: replicate_Suc)
    ultimately show ?thesis
      using None r t by (simp add: smart_conf_get_str_def str_item_def strncpy_def n found_is_def del: replicate_Suc)
  next
    case (Some v)
    then obtain i where i: "r = Some i" "val i = Live (v @ [0])" "val_len i = int (length v)" using r(2) by (auto simp: found_is_def)
    have v: "length v < n" "str_item d name = v" using assms(3) Some by (simp_all add: str_item_def)
    have n': "n - length v = Suc (n - Suc (length v))" using v(1) by simp
    show ?thesis
      using Some r(1) t i v put_pad [OF v(1)] by (simp add: smart_conf_get_str_def n' wr_def)
  qed
qed

definition i32_item :: "doc \<Rightarrow> string \<Rightarrow> int \<Rightarrow> int" where
  "i32_item d name dft = num_item (\<lambda>t. apfst to_i32 (strtol 10 t)) d name dft"

definition i32_at :: "doc \<Rightarrow> string \<Rightarrow> bool" where
  "i32_at d name = numeral_at (\<lambda>t. apfst to_i32 (strtol 10 t)) d name"

text \<open>C33. The server's configuration loaded from a well-formed file of one to four sections that is read in one piece, with
  every allocation successful, numerals where numbers are wanted and less than 256 bytes for the window: every field has the
  value of its item or the default, but the access mode is stored as the type of the service, whose own value is lost. A fifth
  section makes the array of sections grow and loses the first four (\<open>smart_conf_overfull_loses_sections\<close>).\<close>

theorem serv_load_stores:
  assumes "smart_conf_init oks c0 4 20 = (F1G_OK, c)" and "doc_ok d" and "d \<noteq> []" and "length d \<le> 4"
    and "in_one_block f (ini_text d)" and "env_ok (f_lines f)"
    and "\<forall>name\<in>{''work_mode'', ''worker_num'', ''que_mode'', ''que_size'', ''que_cap'', ''access_mode''}. i32_at d name"
    and "numeral_at (\<lambda>t. apfst to_u32 (strtoul 16 t)) d ''serv_type''" and "length (str_item d ''serv_win'') < 256"
  shows "serv_load oks c0 f = Inr (Some (F1G_OK, \<lparr>work_mode = i32_item d ''work_mode'' WK_MODE_MT,
    worker_num_cfg = i32_item d ''worker_num'' 1, que_mode = i32_item d ''que_mode'' 1, que_size = i32_item d ''que_size'' 512,
    que_capacity = i32_item d ''que_cap'' 1024, serv_type = i32_item d ''access_mode'' ACCESS_SELECT,
    serv_win = str_item d ''serv_win'' @ replicate (256 - length (str_item d ''serv_win'')) 0, access_mode = 0\<rparr>))"
proof -
  obtain c' where c': "smart_conf_read f c CFT_INI = Inr (Some (F1G_OK, c'))" "conf_is c' d"
    using read_document [OF assms(1) _ _ assms(2,3) _ assms(5,6)] assms(4) by auto
  have g: "smart_conf_get_i32 c' SYS (lit name) dft = Inr (F1G_OK, i32_item d name dft)" if "i32_at d name" for name dft
    using get_num_doc [OF c'(2) assms(2)] that by (simp add: smart_conf_get_i32_def i32_item_def i32_at_def)
  have x: "smart_conf_get_x32 c' SYS (lit ''serv_type'') dft = Inr (F1G_OK, num_item (\<lambda>t. apfst to_u32 (strtoul 16 t)) d ''serv_type'' dft)" for dft
    using get_num_doc [OF c'(2) assms(2)] assms(8) by (simp add: smart_conf_get_x32_def)
  have s: "smart_conf_get_str c' SYS (lit ''serv_win'') [] (replicate 256 0) 256
      = Inr (F1G_OK, str_item d ''serv_win'' @ replicate (256 - length (str_item d ''serv_win'')) 0)"
    using get_str_doc [OF c'(2) assms(2,9)] by simp
  have "load_fields c' = Inr (F1G_OK, \<lparr>work_mode = i32_item d ''work_mode'' WK_MODE_MT,
    worker_num_cfg = i32_item d ''worker_num'' 1, que_mode = i32_item d ''que_mode'' 1, que_size = i32_item d ''que_size'' 512,
    que_capacity = i32_item d ''que_cap'' 1024, serv_type = i32_item d ''access_mode'' ACCESS_SELECT,
    serv_win = str_item d ''serv_win'' @ replicate (256 - length (str_item d ''serv_win'')) 0, access_mode = 0\<rparr>)"
    using assms(7) smart_conf_destroy_ok [OF c'(2)]
    by (simp add: load_fields_def load_field_def g x s zero_server_conf_def SERV_WIN_DESC_SIZE_def)
  then show ?thesis using assms(1) c'(1) by (simp add: serv_load_def)
qed

section \<open>Examples\<close>

definition serv_doc :: doc where
  "serv_doc = [(lit ''Sys'', [(lit ''access_mode'', lit ''2''), (lit ''serv_type'', lit ''20''), (lit ''que_size'', lit ''64'')])]"

lemma serv_doc_ok: "doc_ok serv_doc"
  by (simp add: serv_doc_def doc_ok_def sec_name_ok_def items_ok_def key_ok_def value_ok_def plain_def lit_def chr8_def
      SEC_NAME_SIZE_def ITEM_NAME_SIZE_def lc_def lower_case_def)

lemma serv_doc_items:
  "doc_lookup serv_doc SYS (lit ''work_mode'') = None" "doc_lookup serv_doc SYS (lit ''worker_num'') = None"
  "doc_lookup serv_doc SYS (lit ''que_mode'') = None" "doc_lookup serv_doc SYS (lit ''que_cap'') = None"
  "doc_lookup serv_doc SYS (lit ''serv_win'') = None" "doc_lookup serv_doc SYS (lit ''que_size'') = Some [0x36, 0x34]"
  "doc_lookup serv_doc SYS (lit ''access_mode'') = Some [0x32]" "doc_lookup serv_doc SYS (lit ''serv_type'') = Some [0x32, 0x30]"
  by (simp_all add: serv_doc_def doc_lookup_def SYS_def lit_def chr8_def lc_def lower_case_def)

lemma serv_load_stores_witness:
  "\<exists>s. serv_load (\<lambda>_. True) (empty_conf 0) (sample_file (ini_text serv_doc)) = Inr (Some (F1G_OK, s))
    \<and> serv_type s = 2 \<and> access_mode s = 0 \<and> que_size s = 64 \<and> que_capacity s = 1024"
proof -
  have i: "smart_conf_init (\<lambda>_. True) (empty_conf 0) 4 20 = (F1G_OK, snd (smart_conf_init (\<lambda>_. True) (empty_conf 0) 4 20))"
    by (simp add: smart_conf_init_def list_all_iff)
  have n: "strtol 10 [0x36, 0x34] = (64, [])" "strtol 10 [0x32] = (2, [])" "strtoul 16 [0x32, 0x30] = (32, [])"
    by (simp_all add: strtol_def strtoul_def strto_def is_space_def is_digit_def digit_val_def)
  have a: "\<forall>name\<in>{''work_mode'', ''worker_num'', ''que_mode'', ''que_size'', ''que_cap'', ''access_mode''}. i32_at serv_doc name"
    by (simp add: i32_at_def numeral_at_def serv_doc_items n)
  have "numeral_at (\<lambda>t. apfst to_u32 (strtoul 16 t)) serv_doc ''serv_type''" "length (str_item serv_doc ''serv_win'') < 256"
    "serv_doc \<noteq> []" "length serv_doc \<le> 4"
    by (simp_all add: numeral_at_def serv_doc_items n str_item_def) (simp_all add: serv_doc_def)
  from serv_load_stores [OF i serv_doc_ok this(3,4) sample_file_ok a this(1,2)] show ?thesis
    by (simp add: i32_item_def num_item_def serv_doc_items n to_i32_def)
qed

end
