(* ===== verification/Daemon.thy ===== *)
theory Daemon
  imports Prelude
begin

text \<open>
  \<^verbatim>\<open>set_daemon\<close> of \<^verbatim>\<open>src/f1g_basic_funcs.c\<close>: what the process is that comes out of it. The kernel gives the outcome of \<^verbatim>\<open>fork\<close>; in the child
  the other calls do not fail: it leads no process group, \<^verbatim>\<open>/\<close> is there, and closing a descriptor that is not open has no effect.
\<close>

section \<open>The process\<close>

datatype fork_result = Fork_fails | In_parent nat | In_child

record process =
  leads_session :: bool
  work_dir :: string
  file_mask :: nat
  descriptors :: "nat list"

definition close_fd :: "nat \<Rightarrow> process \<Rightarrow> process" where
  "close_fd i p = p\<lparr>descriptors := removeAll i (descriptors p)\<rparr>"

text \<open>The left value is an exit, with its code.\<close>

definition set_daemon :: "fork_result \<Rightarrow> process \<Rightarrow> int + (int \<times> process)" where
  "set_daemon f p =
     (case f of
        Fork_fails \<Rightarrow> Inr (F1G_ERR, p)
      | In_parent _ \<Rightarrow> Inl 0
      | In_child \<Rightarrow>
          let p1 = p\<lparr>leads_session := True, work_dir := ''/'', file_mask := 0\<rparr> in
          Inr (F1G_OK, fold close_fd [0..<3] p1))"

section \<open>The descriptors\<close>

text \<open>A file that is opened gets the least descriptor that is free.\<close>

definition open_fd :: "process \<Rightarrow> nat \<times> process" where
  "open_fd p = (let i = hd (filter (\<lambda>i. i \<notin> set (descriptors p)) [0..<Suc (length (descriptors p))]) in (i, p\<lparr>descriptors := i # descriptors p\<rparr>))"

fun open_fds :: "nat \<Rightarrow> process \<Rightarrow> nat list \<times> process" where
  "open_fds 0 p = ([], p)"
| "open_fds (Suc n) p = (let (i, p1) = open_fd p; (is, p2) = open_fds n p1 in (i # is, p2))"

lemma open_fd_least:
  assumes "i \<notin> set (descriptors p)" and "set [0..<i] \<subseteq> set (descriptors p)"
  shows "open_fd p = (i, p\<lparr>descriptors := i # descriptors p\<rparr>)"
proof -
  have "i = card (set [0..<i])" by simp
  also have "\<dots> \<le> card (set (descriptors p))" using assms(2) by (intro card_mono) simp_all
  also have "\<dots> \<le> length (descriptors p)" by (rule card_length)
  finally have le: "i \<le> length (descriptors p)" .
  then have "[0..<Suc (length (descriptors p))] = [0..<i] @ [i..<Suc (length (descriptors p))]"
    using upt_add_eq_append [of 0 i "Suc (length (descriptors p)) - i"] by simp
  moreover have "[i..<Suc (length (descriptors p))] = i # [Suc i..<Suc (length (descriptors p))]"
    using le by (simp add: upt_conv_Cons del: upt_Suc)
  moreover have "filter (\<lambda>i. i \<notin> set (descriptors p)) [0..<i] = []" using assms(2) by (auto simp: filter_empty_conv)
  ultimately have "filter (\<lambda>i. i \<notin> set (descriptors p)) [0..<Suc (length (descriptors p))]
      = i # filter (\<lambda>i. i \<notin> set (descriptors p)) [Suc i..<Suc (length (descriptors p))]"
    using assms(1) by (simp del: upt_Suc)
  then show ?thesis by (simp add: open_fd_def del: upt_Suc)
qed

text \<open>The daemon has none of the three standard descriptors, and keeps all others; so the next three files it opens get them, and what it prints goes
  into these files.\<close>

lemma daemon_streams_reused:
  "\<exists>q. set_daemon In_child p = Inr (F1G_OK, q) \<and> leads_session q \<and> work_dir q = ''/'' \<and> set (descriptors q) = {d \<in> set (descriptors p). 3 \<le> d}
    \<and> fst (open_fds 3 q) = [0, 1, 2]"
proof -
  define q where "q = fold close_fd [0..<3] (p\<lparr>leads_session := True, work_dir := ''/'', file_mask := 0\<rparr>)"
  have q: "q = p\<lparr>leads_session := True, work_dir := ''/'', file_mask := 0, descriptors := removeAll 2 (removeAll 1 (removeAll 0 (descriptors p)))\<rparr>"
    by (simp add: q_def close_fd_def numeral_3_eq_3 numeral_2_eq_2)
  have d: "set (descriptors q) = {d \<in> set (descriptors p). 3 \<le> d}" by (auto simp: q)
  define q1 where "q1 = q\<lparr>descriptors := 0 # descriptors q\<rparr>"
  define q2 where "q2 = q1\<lparr>descriptors := 1 # descriptors q1\<rparr>"
  have "open_fd q = (0, q1)" using open_fd_least [of 0 q] d by (simp add: q1_def)
  moreover have "open_fd q1 = (1, q2)" using open_fd_least [of 1 q1] d by (simp add: q1_def q2_def)
  moreover have "set [0..<2] \<subseteq> set (descriptors q2)" by (auto simp: q2_def q1_def)
  then have "fst (open_fd q2) = 2" using open_fd_least [of 2 q2] d by (simp add: q1_def q2_def)
  ultimately have "fst (open_fds 3 q) = [0, 1, 2]" by (simp add: numeral_3_eq_3 split_def Let_def)
  then show ?thesis using d q by (intro exI [of _ q]) (simp add: set_daemon_def flip: q_def)
qed

end
