(* ===== verification/Spec2Isabelle.thy ===== *)
theory Spec2Isabelle
  imports Basic_Funcs Bit_Array Buffer Queue Net_Forge Bitree Basic_Alg Convert Escape Gbk_Table Template Url_Parser Http_Parser Data_Op Lang_Code Log Regset Perf_Mon Http Eth_Scrapy Udp Pk_Hosts Pk_Receiver Pk_Run Pk_Http Pk_Capture Pk_Sender_V1 Udp_Echo Queue_Test Conv_Chain Lang_Table Fl_Mgr Server_Steps Serv_Conf Daemon
begin

text \<open>
  A model of the C library f1goal (\<^verbatim>\<open>src/f1goal/src\<close>, headers in \<^verbatim>\<open>src/f1goal/include\<close>) and
  the theorems that say what its components do.

  \<^bold>\<open>The program.\<close> The library holds string and time helpers, containers (bit array, buffer, ring
  queue, binary tree, variable set), converters between character sets, a template engine, parsers
  of URLs, HTTP requests, configuration files and delimited records, a log, rule
  sets that are searched in texts, performance counters, builders of HTTP messages and of TCP packets, a loop that captures packets, and on top of
  the containers a server: one access thread waits
  on an epoll descriptor, turns every event into a socket description and puts it into the ring queue
  of the worker that a hash of the client address selects; each worker thread takes descriptions
  from its queue, receives, calls a data processor and sends the answer back.

  \<^bold>\<open>How C is modelled\<close> (theory Prelude). Integers of a fixed width that wrap are words, \<^verbatim>\<open>i32_t\<close>
  counters are integers where the code keeps them in range; a sum or product of lengths and sizes in \<^verbatim>\<open>i32_t\<close> that can leave
  the range goes through \<open>i32R\<close>, which gives \<open>Overflow\<close> there, and \<open>to_i32\<close> is the conversion of a wider number. A block of memory is the list of its cells, a
  pointer into it an offset, an owning pointer one of \<open>Null\<close>, \<open>Live m\<close>, \<open>Dangling\<close>. A function
  with side effects takes the state and returns it; undefined behaviour is the left value of a sum
  (\<open>Inl OutOfBounds\<close>, \<open>NullDeref\<close>, \<open>UseAfterFree\<close>, \<open>Overflow\<close>, \<open>BadCall\<close> for a call whose arguments do not fit, and so on), so a theorem that a call is
  \<open>Inr\<close> of a value is also one that the call is defined. What \<^verbatim>\<open>malloc\<close>, the kernel and the thread
  library answer is an argument: the outcome of each call, with the contents of new memory. Loops are
  structural recursions or functions with a proved measure. The one loop that may not end, that of
  \<^verbatim>\<open>http_object_parse_data\<close>, is a \<open>while_option\<close>, whose value says whether it returns. No fuel is used by a
  definition that models code, but by \<open>hand_out\<close>, which only says how often a call is repeated. Where the code asks the
  system again and again, the answers are a list, and a run that uses up the list is said to do so.

  \<^bold>\<open>The theories and the code they model.\<close>
  \<^item> Basic_Funcs: \<^verbatim>\<open>f1g_basic_funcs.c\<close> (comparison, search, substring, skipping, time intervals,
    hexadecimal dumps), on the specification of a first occurrence in Search; Daemon: its \<^verbatim>\<open>set_daemon\<close>.
  \<^item> Bit_Array: \<^verbatim>\<open>f1g_bit_array.c\<close>, refined from a set of numbers.
  \<^item> Buffer: \<^verbatim>\<open>f1g_buffer.c\<close>; the contract of a block that grows is the locale of Growth, which
    Buffer, Data_Set, Template, Log, Regset and Fl_Mgr interpret.
  \<^item> Queue: \<^verbatim>\<open>f1g_queue.c\<close>; the contract of a bounded first-in-first-out queue is the locale of Fifo.
  \<^item> Net_Forge: \<^verbatim>\<open>f1g_net_forge.c\<close>, the checksums and headers of a TCP packet.
  \<^item> Bitree: \<^verbatim>\<open>bitree.c\<close>; Basic_Alg: \<^verbatim>\<open>basic_alg.c\<close>.
  \<^item> Charset, Codec, Convert, Escape: \<^verbatim>\<open>charset_code.c\<close>. Charset has the definitions, Codec the locales
    of a unit source, a unit sink and the transcoder between them, interpreted for each encoding;
    Convert the conversions, Escape the percent decoding.
  \<^item> Gbk_Rows_A to C, Gbk_Climb, Gbk_Table: \<^verbatim>\<open>ucs2_gbk_map.c\<close>, its 22,000 rows, and what calling the
    initialisation on them does.
  \<^item> Data_Set: \<^verbatim>\<open>f1g_data_set.c\<close>; Template: \<^verbatim>\<open>f1g_template.c\<close>, which uses it.
  \<^item> C_String: C strings in memory and \<^verbatim>\<open>strstr\<close>; Numbers: \<^verbatim>\<open>strtol\<close> and the decimal digits that
    \<^verbatim>\<open>printf\<close> writes, shared by the readers below.
  \<^item> Url_Parser: \<^verbatim>\<open>f1g_url_parser.c\<close> and \<^verbatim>\<open>f1g_string.c\<close>; Http_Parser: \<^verbatim>\<open>f1g_http_parser.c\<close>.
  \<^item> Smart_Conf: \<^verbatim>\<open>f1g_smart_conf.c\<close>, the reader of INI files, line by line from the text that the file
    system hands over; Serv_Conf: \<^verbatim>\<open>serv_load\<close> of \<^verbatim>\<open>f1g_server.c\<close>, which asks it for seven numbers and a text.
  \<^item> Data_Op: \<^verbatim>\<open>f1g_data_op.c\<close>, the fields of a delimited record.
  \<^item> Lang_Code: \<^verbatim>\<open>f1g_lang_code.c\<close>, percent decoding and the unicode of UTF-8 sequences.
  \<^item> Log: \<^verbatim>\<open>f1g_log.c\<close>; Regset: \<^verbatim>\<open>f1g_regset.c\<close>, whose rules are plain texts that \<^verbatim>\<open>strstr\<close> looks for;
    Perf_Mon: \<^verbatim>\<open>perf_mon.c\<close>, with the clock as a parameter.
  \<^item> Http: \<^verbatim>\<open>f1g_http.c\<close>, the builder of an HTTP message in one block with pointers into it, and the loops that read one.
  \<^item> Eth_Scrapy: \<^verbatim>\<open>f1g_eth_scrapy.c\<close>, with the capture library as a script of answers; the threads of the loop are a step
    function under a schedule. Udp: \<^verbatim>\<open>f1g_udp.c\<close>.
  \<^item> Pk_Sender, Pk_Hosts: \<^verbatim>\<open>tools/pksender_v2.c\<close>, which reads hosts from a file (with Data_Op) and sends each an HTTP request (with Http)
    in a forged packet; Pk_Receiver: the packet handler of \<^verbatim>\<open>tools/pkreceiver_v2.c\<close>, which reads what the sender has marked;
    Pk_Run: the main function of the sender, and what the receiver makes of its packets; Pk_Http: what Http_Parser makes of its requests;
    Pk_Capture: the main function of the receivers, on the loop of Eth_Scrapy; Pk_Sender_V1: the older sender \<^verbatim>\<open>tools/pksender_v1.c\<close>, and the
    handler of \<^verbatim>\<open>tools/pkreceiver_v1.c\<close> up to the call of \<^verbatim>\<open>inet_ntop\<close> without its last argument.
  \<^item> Udp_Echo: \<^verbatim>\<open>tools/simple_client.c\<close> and \<^verbatim>\<open>tools/simple_server.c\<close>, each as a loop over what arrives.
  \<^item> Queue_Test: \<^verbatim>\<open>test/test_queue.c\<close>, which sends lines through queues to consumers; Conv_Chain:
    \<^verbatim>\<open>test/test_langcode_conv.c\<close>, which sends a text around all conversions of Charset; Lang_Table: \<^verbatim>\<open>tools/lang_conv.c\<close>,
    which prints a table of codes with the conversion of Lang_Code.
  \<^item> Fl_Mgr: the two functions of \<^verbatim>\<open>f1g_fl_mgr.c\<close> that make room.
  \<^item> Accessor: \<^verbatim>\<open>f1g_accessor.c\<close>, on a script of kernel answers.
  \<^item> Server: \<^verbatim>\<open>f1g_server.c\<close>: one function per iteration of the access thread (\<open>access_iter\<close>) and of a
    worker (\<open>worker_iter\<close>), creation, callbacks, start and destruction.
  \<^item> Server_Steps: the two threads on a shared queue as a step relation: for the access thread one step per access to the queue, for the worker the
    phases of its loop, taking an entry, receiving and processing, answering, wiping the cell and releasing it, with its two ways out.

  \<^bold>\<open>What the lemmas show.\<close> For every container an invariant kept by its operations and a refinement to
  an abstract value (a set, a list, a bounded queue, a sorted list); for the converters and decoders
  round trips; for the readers that what was written as a document, a record or a request is what is
  read back; for the template engine that parsing and executing is substitution; for the packet
  builder that a receiver's check of the IP header succeeds; for the builder of HTTP messages that they hold the headers in order;
  for the packet sender and receiver, from the file of hosts to the log of the receiver, and for the datagram client and server, that
  what was sent is what is printed; for the requests of the sender that the parser reads them; for the conversions that they agree
  when they are chained; for the capture loop that a stop ends it under every schedule once its threads have begun; for the server that the access thread
  dispatches events in order, what a worker answers, that the queue is safe without a lock under every
  interleaving, and that a worker left alone drains it unless its processor ends it. Beside them stand the faults of the code that
  the model shows, each as a theorem with a concrete run: what is read or written past its block, what
  is dropped, what is sent to the wrong client.

  \<^bold>\<open>Bounds.\<close> Lengths are arbitrary where the code does not limit them; hypotheses such as
  \<open>length x < 2 ^ 31\<close> keep a length in an \<^verbatim>\<open>i32_t\<close>, and those on 65,535 bytes keep the 32 bit sum of a
  checksum from wrapping. The interleaving assumes that the stores of one thread become visible in
  program order; the code has no barriers that would promise it.

  \<^bold>\<open>Not modelled.\<close> Output to the terminal (the show, print and debug functions), empty tools and the tests that call the library with fixed values and print what it gives, headers without a
  source and those of the capture library, what the older receiver does behind an undefined call, empty files, and what of the flow manager uses undeclared variables, functions and types.
\<close>

end
